(* ===== verification/Py_Prelude.thy ===== *)
theory Py_Prelude
  imports Complex_Main "HOL-Library.AList"
begin

text \<open>
  Shared vocabulary of the development: Python exceptions as values, results, indexing with
  Python's negative indices, decimal printing of integers, insertion-ordered dictionaries, and
  the interface every keyed store of the program satisfies.

  Conventions. A function that can raise returns \<open>py_exn + 'a\<close>, \<open>Inl\<close> for the exception.
  Python's \<open>int\<close> is \<open>int\<close>; a \<open>float\<close> is a \<open>real\<close> (rounding is not modelled); a \<open>str\<close> is a
  \<open>string\<close>; a \<open>dict\<close> is an association list in insertion order with distinct keys, so that
  iteration order is the one the program sees; \<open>None\<close> and an absent key are \<open>None\<close>.
\<close>

section \<open>Exceptions and results\<close>

datatype py_exn =
    ValueError string
  | KeyError string
  | IndexError
  | RuntimeError string
  | TimeoutError string
  | ConnectionError string
  | AssertionError string
  | FileExistsError string
  | OSError string
  | OtherError string string \<comment> \<open>class name and message of any other exception\<close>

text \<open>\<open>type(e).__name__\<close> and \<open>str(e)\<close>; a KeyError prints its key in quotes.\<close>

fun exn_name :: "py_exn \<Rightarrow> string" where
  "exn_name (ValueError _) = ''ValueError''"
| "exn_name (KeyError _) = ''KeyError''"
| "exn_name IndexError = ''IndexError''"
| "exn_name (RuntimeError _) = ''RuntimeError''"
| "exn_name (TimeoutError _) = ''TimeoutError''"
| "exn_name (ConnectionError _) = ''ConnectionError''"
| "exn_name (AssertionError _) = ''AssertionError''"
| "exn_name (FileExistsError _) = ''FileExistsError''"
| "exn_name (OSError _) = ''OSError''"
| "exn_name (OtherError n _) = n"

fun exn_text :: "py_exn \<Rightarrow> string" where
  "exn_text (ValueError m) = m"
| "exn_text (KeyError m) = CHR 0x27 # m @ [CHR 0x27]"
| "exn_text IndexError = ''list index out of range''"
| "exn_text (RuntimeError m) = m"
| "exn_text (TimeoutError m) = m"
| "exn_text (ConnectionError m) = m"
| "exn_text (AssertionError m) = m"
| "exn_text (FileExistsError m) = m"
| "exn_text (OSError m) = m"
| "exn_text (OtherError _ m) = m"

text \<open>Sequencing of fallible computations: the exception skips the rest.\<close>

fun res_bind :: "'e + 'a \<Rightarrow> ('a \<Rightarrow> 'e + 'b) \<Rightarrow> 'e + 'b" where
  "res_bind (Inl e) f = Inl e"
| "res_bind (Inr a) f = f a"

fun is_ok :: "'e + 'a \<Rightarrow> bool" where
  "is_ok (Inl _) = False"
| "is_ok (Inr _) = True"

text \<open>What every step of a fold keeps, the fold keeps.\<close>

lemma foldl_invariant: "P a \<Longrightarrow> (\<And>a x. P a \<Longrightarrow> P (f a x)) \<Longrightarrow> P (foldl f a xs)"
  by (induction xs arbitrary: a) simp_all

lemma res_bind_eq_Inr [simp]: "res_bind x f = Inr b \<longleftrightarrow> (\<exists>a. x = Inr a \<and> f a = Inr b)"
  by (cases x) auto

lemma res_bind_eq_Inl [simp]:
  "res_bind x f = Inl e \<longleftrightarrow> x = Inl e \<or> (\<exists>a. x = Inr a \<and> f a = Inl e)"
  by (cases x) auto

lemma is_ok_iff: "is_ok x \<longleftrightarrow> (\<exists>a. x = Inr a)"
  by (cases x) auto

section \<open>Maxima\<close>

text \<open>\<open>max(items, key=...)\<close>: the first of the greatest.\<close>

definition max_item :: "('a \<Rightarrow> 'k::linorder) \<Rightarrow> 'a list \<Rightarrow> 'a option" where
  "max_item f xs = (case xs of [] \<Rightarrow> None | y # ys \<Rightarrow> Some (foldl (\<lambda>b z. if f b < f z then z else b) y ys))"

lemma foldl_max_item:
  "let m = foldl (\<lambda>b z. if f b < f z then z else b) y ys in
     m \<in> set (y # ys) \<and> (\<forall>z \<in> set (y # ys). f z \<le> (f m :: 'k::linorder))"
proof (induction ys arbitrary: y)
  case (Cons z zs)
  show ?case using Cons [of "if f y < f z then z else y"] by (auto simp: Let_def split: if_splits)
qed simp

lemma max_item_Some:
  assumes "max_item f xs = Some m"
  shows "m \<in> set xs" "z \<in> set xs \<Longrightarrow> f z \<le> f m"
  using assms foldl_max_item [of f "hd xs" "tl xs"] by (auto simp: max_item_def Let_def split: list.splits)

lemma max_item_None [simp]: "max_item f xs = None \<longleftrightarrow> xs = []" "max_item f [] = None"
  by (simp_all add: max_item_def split: list.split)

section \<open>Indexing\<close>

text \<open>\<open>xs[i]\<close> and \<open>xs[i] = v\<close>: a negative index counts from the end, \<open>None\<close> is IndexError.\<close>

definition py_pos :: "'a list \<Rightarrow> int \<Rightarrow> nat option" where
  "py_pos xs i =
     (let n = int (length xs); j = (if i < 0 then n + i else i)
      in if 0 \<le> j \<and> j < n then Some (nat j) else None)"

definition py_index :: "'a list \<Rightarrow> int \<Rightarrow> 'a option" where
  "py_index xs i = map_option (\<lambda>k. xs ! k) (py_pos xs i)"

definition py_store :: "'a list \<Rightarrow> int \<Rightarrow> 'a \<Rightarrow> 'a list option" where
  "py_store xs i v = map_option (\<lambda>k. xs[k := v]) (py_pos xs i)"

text \<open>\<open>xs[:n]\<close>\<close>

definition py_take :: "int \<Rightarrow> 'a list \<Rightarrow> 'a list" where
  "py_take n xs = (if n \<ge> 0 then take (nat n) xs else take (length xs - nat (- n)) xs)"

lemma py_take_member: "x \<in> set (py_take n xs) \<Longrightarrow> x \<in> set xs"
  by (auto simp: py_take_def dest: in_set_takeD split: if_splits)

lemma py_take_distinct: "distinct (map f xs) \<Longrightarrow> distinct (map f (py_take n xs))"
  by (simp add: py_take_def take_map [symmetric])

lemma py_take_nonneg: "0 \<le> n \<Longrightarrow> py_take n xs = take (nat n) xs"
  by (simp add: py_take_def)

lemma py_pos_less: "py_pos xs i = Some k \<Longrightarrow> k < length xs"
  by (auto simp: py_pos_def Let_def split: if_splits)

lemma py_pos_nonneg: "0 \<le> i \<Longrightarrow> i < int (length xs) \<Longrightarrow> py_pos xs i = Some (nat i)"
  by (simp add: py_pos_def)

lemma py_pos_update [simp]: "py_pos (xs[k := v]) i = py_pos xs i"
  by (simp add: py_pos_def)

lemma py_index_nonneg: "0 \<le> i \<Longrightarrow> i < int (length xs) \<Longrightarrow> py_index xs i = Some (xs ! nat i)"
  by (simp add: py_index_def py_pos_nonneg)

lemma py_store_length: "py_store xs i v = Some ys \<Longrightarrow> length ys = length xs"
  by (auto simp: py_store_def)

lemma py_index_store: "py_store xs i v = Some ys \<Longrightarrow> py_index ys i = Some v"
  using py_pos_less [of xs i] by (auto simp: py_store_def py_index_def)

lemma py_store_Some: "py_index xs i = Some x \<Longrightarrow> \<exists>ys. py_store xs i v = Some ys"
  by (auto simp: py_store_def py_index_def)

section \<open>Printing integers\<close>

fun str_nat :: "nat \<Rightarrow> string" where
  "str_nat n = (if n < 10 then [char_of (48 + n)]
                else str_nat (n div 10) @ [char_of (48 + n mod 10)])"

declare str_nat.simps [simp del]

definition str_int :: "int \<Rightarrow> string" where
  "str_int i = (if i < 0 then ''-'' @ str_nat (nat (- i)) else str_nat (nat i))"

text \<open>Reading a run of decimal digits back, as \<open>int(text)\<close> does on ASCII digits.\<close>

definition is_digit :: "char \<Rightarrow> bool" where
  "is_digit c \<longleftrightarrow> 48 \<le> (of_char c :: nat) \<and> (of_char c :: nat) \<le> 57"

definition digits_value :: "string \<Rightarrow> nat" where
  "digits_value ds = foldl (\<lambda>n c. 10 * n + (of_char c - 48)) 0 ds"

lemma of_char_digit: "k < 10 \<Longrightarrow> (of_char (char_of (48 + k :: nat) :: char) :: nat) = 48 + k"
  by simp

lemma is_digit_char_of: "k < 10 \<Longrightarrow> is_digit (char_of (48 + k :: nat))"
  by (simp add: is_digit_def)

lemma digits_value_snoc:
  "k < 10 \<Longrightarrow> digits_value (ds @ [char_of (48 + k)]) = 10 * digits_value ds + k"
  by (simp add: digits_value_def)

lemma str_nat_digits: "\<forall>c \<in> set (str_nat n). is_digit c"
proof (induction n rule: str_nat.induct)
  case (1 n)
  then show ?case
    by (cases "n < 10") (auto simp: str_nat.simps [of n] intro!: is_digit_char_of)
qed

lemma str_nat_nonempty [simp]: "str_nat n \<noteq> []"
  by (subst str_nat.simps) simp

lemma digits_value_str_nat [simp]: "digits_value (str_nat n) = n"
proof (induction n rule: str_nat.induct)
  case (1 n)
  show ?case
  proof (cases "n < 10")
    case True
    then show ?thesis
      using digits_value_snoc [of n "[]"] by (simp add: str_nat.simps [of n] digits_value_def)
  next
    case False
    have "str_nat n = str_nat (n div 10) @ [char_of (48 + n mod 10)]"
      using False by (simp add: str_nat.simps [of n])
    moreover have "digits_value (str_nat (n div 10) @ [char_of (48 + n mod 10)])
        = 10 * digits_value (str_nat (n div 10)) + n mod 10"
      by (rule digits_value_snoc) simp
    ultimately show ?thesis using "1" False by simp
  qed
qed

lemma str_nat_inject [simp]: "str_nat m = str_nat n \<longleftrightarrow> m = n"
  by (metis digits_value_str_nat)

section \<open>Dictionaries\<close>

type_synonym ('k, 'v) py_dict = "('k \<times> 'v) list"

text \<open>\<open>d.get(k)\<close>, \<open>d[k] = v\<close> (in place, or appended), \<open>d.pop(k, None)\<close>, \<open>list(d)\<close>.\<close>

definition dict_get :: "('k, 'v) py_dict \<Rightarrow> 'k \<Rightarrow> 'v option" where
  "dict_get d k = map_of d k"

definition dict_set :: "'k \<Rightarrow> 'v \<Rightarrow> ('k, 'v) py_dict \<Rightarrow> ('k, 'v) py_dict" where
  "dict_set k v d = AList.update k v d"

definition dict_del :: "'k \<Rightarrow> ('k, 'v) py_dict \<Rightarrow> ('k, 'v) py_dict" where
  "dict_del k d = AList.delete k d"

definition dict_keys :: "('k, 'v) py_dict \<Rightarrow> 'k list" where
  "dict_keys d = map fst d"

definition dict_ok :: "('k, 'v) py_dict \<Rightarrow> bool" where
  "dict_ok d \<longleftrightarrow> distinct (map fst d)"

definition dict_get_or :: "('k, 'v) py_dict \<Rightarrow> 'k \<Rightarrow> 'v \<Rightarrow> 'v" where
  "dict_get_or d k v = (case dict_get d k of None \<Rightarrow> v | Some x \<Rightarrow> x)"

definition dict_has :: "('k, 'v) py_dict \<Rightarrow> 'k \<Rightarrow> bool" where
  "dict_has d k \<longleftrightarrow> dict_get d k \<noteq> None"

named_theorems dict_eval

lemmas [dict_eval] =
  dict_get_def dict_set_def dict_del_def dict_keys_def dict_ok_def dict_get_or_def dict_has_def

section \<open>The interface of a keyed store\<close>

text \<open>
  What the components rely on when they keep per-key records: a lookup sees the last store or
  removal of its key and no other, and the keys are listed once each.
\<close>

locale keyed_store =
  fixes get :: "'m \<Rightarrow> 'k \<Rightarrow> 'v option"
    and put :: "'k \<Rightarrow> 'v \<Rightarrow> 'm \<Rightarrow> 'm"
    and del :: "'k \<Rightarrow> 'm \<Rightarrow> 'm"
    and keys :: "'m \<Rightarrow> 'k list"
    and inv :: "'m \<Rightarrow> bool"
  assumes get_put: "get (put k v m) k' = (if k' = k then Some v else get m k')"
    and get_del: "inv m \<Longrightarrow> get (del k m) k' = (if k' = k then None else get m k')"
    and keys_get: "k \<in> set (keys m) \<longleftrightarrow> get m k \<noteq> None"
    and keys_distinct: "inv m \<Longrightarrow> distinct (keys m)"
    and inv_put: "inv m \<Longrightarrow> inv (put k v m)"
    and inv_del: "inv m \<Longrightarrow> inv (del k m)"
begin

lemma put_put_get: "get (put k v (put k u m)) k' = get (put k v m) k'"
  by (simp add: get_put)

lemma set_keys_put: "set (keys (put k v m)) = insert k (set (keys m))"
  by (auto simp: keys_get get_put split: if_splits)

lemma set_keys_del: "inv m \<Longrightarrow> set (keys (del k m)) = set (keys m) - {k}"
  by (auto simp: keys_get get_del split: if_splits)

lemma length_keys: "inv m \<Longrightarrow> length (keys m) = card (set (keys m))"
  by (simp add: distinct_card keys_distinct)

lemma length_keys_put_new:
  "inv m \<Longrightarrow> get m k = None \<Longrightarrow> length (keys (put k v m)) = Suc (length (keys m))"
  by (simp add: length_keys inv_put set_keys_put keys_get)

lemma length_keys_put_le: "inv m \<Longrightarrow> length (keys (put k v m)) \<le> Suc (length (keys m))"
  by (simp add: length_keys inv_put set_keys_put card_insert_if)

lemma length_keys_del_le: "inv m \<Longrightarrow> length (keys (del k m)) \<le> length (keys m)"
  by (simp add: length_keys inv_del set_keys_del card_Diff1_le)

end

lemma dict_get_Nil [simp]: "dict_get [] k = None"
  by (simp add: dict_get_def)

lemma dict_get_set: "dict_get (dict_set k v d) k' = (if k' = k then Some v else dict_get d k')"
  by (simp add: dict_get_def dict_set_def update_conv')

lemma dict_get_del: "dict_get (dict_del k d) k' = (if k' = k then None else dict_get d k')"
  by (simp add: dict_get_def dict_del_def delete_conv')

lemma dict_set_member: "p \<in> set (dict_set k v d) \<Longrightarrow> p = (k, v) \<or> p \<in> set d"
  by (induction d) (auto simp: dict_set_def split: if_splits)

lemma dict_ok_set: "dict_ok d \<Longrightarrow> dict_ok (dict_set k v d)"
  by (simp add: dict_ok_def dict_set_def distinct_update)

lemma dict_ok_del: "dict_ok d \<Longrightarrow> dict_ok (dict_del k d)"
  by (simp add: dict_ok_def dict_del_def distinct_delete)

interpretation py_dict: keyed_store dict_get dict_set dict_del dict_keys dict_ok
proof
  fix m :: "('k \<times> 'v) list" and k
  show "k \<in> set (dict_keys m) \<longleftrightarrow> dict_get m k \<noteq> None"
    by (simp add: dict_keys_def dict_get_def map_of_eq_None_iff)
qed (simp_all add: dict_get_set dict_get_del dict_ok_set dict_ok_del,
    simp add: dict_ok_def dict_keys_def)

lemma dict_keys_set: "set (dict_keys (dict_set k v d)) = insert k (set (dict_keys d))"
  by (rule py_dict.set_keys_put)

lemmas dict_simps [simp] = py_dict.get_put py_dict.inv_put py_dict.inv_del dict_get_del

end
