(* ===== verification/Cancel_Token.thy ===== *)
theory Cancel_Token
  imports Py_Prelude
begin

text \<open>
  \<^verbatim>\<open>agents/cancellation.py\<close>: the cooperative cancellation token, the HTTP poller that fires it
  when the watched issue is cancelled, and the WebSocket watcher with its fallback poller.

  The token is a record (event flag and reason). The poller's thread is a fold over the ticks of
  its loop: each tick says what the environment did in that round (a stop request, another
  thread firing the token, the answer or exception of the API). An exhausted tick list is a
  poller that is still running.
\<close>

section \<open>The token\<close>

record cancel_token =
  tok_event :: bool
  tok_reason :: string

definition default_reason :: string where
  "default_reason = ''cancelled by user''"

definition new_token :: cancel_token where
  "new_token = \<lparr>tok_event = False, tok_reason = default_reason\<rparr>"

definition is_cancelled :: "cancel_token \<Rightarrow> bool" where
  "is_cancelled t = tok_event t"

definition token_cancel :: "string \<Rightarrow> cancel_token \<Rightarrow> cancel_token" where
  "token_cancel r t = t\<lparr>tok_reason := r, tok_event := True\<rparr>"

text \<open>\<open>check()\<close>: \<open>Some reason\<close> is the WorkflowCancelledError it raises.\<close>

definition token_check :: "cancel_token \<Rightarrow> string option" where
  "token_check t = (if tok_event t then Some (tok_reason t) else None)"

lemma token_check_new [simp]: "token_check new_token = None"
  by (simp add: token_check_def new_token_def)

lemma token_check_cancel [simp]: "token_check (token_cancel r t) = Some r"
  by (simp add: token_check_def token_cancel_def)

section \<open>The polling loop\<close>

record poll_tick =
  pt_stop_before :: bool              \<comment> \<open>\<open>stop()\<close> was called before the loop head\<close>
  pt_cancel_before :: "string option" \<comment> \<open>another thread fired the token\<close>
  pt_stop_in_wait :: bool             \<comment> \<open>\<open>stop()\<close> was called during the wait\<close>
  pt_response :: "py_exn + string"    \<comment> \<open>\<open>client.get_issue(id).status\<close> or its exception\<close>

datatype poll_end = PollStopped | PollTokenSet | PollCancelled | PollGaveUp | PollRunning

definition apply_cancel :: "string option \<Rightarrow> cancel_token \<Rightarrow> cancel_token" where
  "apply_cancel c t = (case c of None \<Rightarrow> t | Some r \<Rightarrow> token_cancel r t)"

fun poll_loop :: "int \<Rightarrow> int \<Rightarrow> poll_tick list \<Rightarrow> cancel_token \<Rightarrow> poll_end \<times> cancel_token" where
  "poll_loop max_errors errs [] t = (PollRunning, t)"
| "poll_loop max_errors errs (k # ks) t =
     (let t = apply_cancel (pt_cancel_before k) t in
      if pt_stop_before k then (PollStopped, t)
      else if is_cancelled t then (PollTokenSet, t)
      else if pt_stop_in_wait k then (PollStopped, t)
      else case pt_response k of
        Inr status \<Rightarrow>
          (if status = ''cancelled''
           then (PollCancelled, token_cancel ''issue cancelled in Paperclip'' t)
           else poll_loop max_errors 0 ks t)
      | Inl e \<Rightarrow>
          (if errs + 1 \<ge> max_errors then (PollGaveUp, t)
           else poll_loop max_errors (errs + 1) ks t))"

definition start_poller :: "int \<Rightarrow> poll_tick list \<Rightarrow> cancel_token \<Rightarrow> poll_end \<times> cancel_token" where
  "start_poller max_errors ks t = poll_loop max_errors 0 ks t"

definition quiet_tick :: "poll_tick \<Rightarrow> bool" where
  "quiet_tick k \<longleftrightarrow> \<not> pt_stop_before k \<and> pt_cancel_before k = None \<and> \<not> pt_stop_in_wait k"

text \<open>The poller never fires the token of an issue it did not see cancelled.\<close>

lemma poll_loop_no_spurious:
  assumes "\<forall>k \<in> set ks. pt_cancel_before k = None \<and> pt_response k \<noteq> Inr ''cancelled''"
  shows "snd (poll_loop m e ks t) = t"
  using assms
proof (induction ks arbitrary: e)
  case (Cons k ks)
  then show ?case
    by (cases "pt_response k") (auto simp: apply_cancel_def Let_def)
qed simp

text \<open>Healthy answers reset the error count, so the first cancelled answer fires the token.\<close>

lemma poll_loop_fires:
  assumes "\<forall>k \<in> set ks. quiet_tick k \<and> (\<exists>st. pt_response k = Inr st \<and> st \<noteq> ''cancelled'')"
    and "quiet_tick k" and "pt_response k = Inr ''cancelled''" and "\<not> is_cancelled t"
  shows "poll_loop m e (ks @ k # rest) t
    = (PollCancelled, token_cancel ''issue cancelled in Paperclip'' t)"
  using assms
proof (induction ks arbitrary: e)
  case Nil
  then show ?case by (auto simp: quiet_tick_def apply_cancel_def)
next
  case (Cons x xs)
  then have "quiet_tick x" "\<exists>st. pt_response x = Inr st \<and> st \<noteq> ''cancelled''" by auto
  then show ?case using Cons by (auto simp: quiet_tick_def apply_cancel_def)
qed

lemma poll_loop_errors:
  assumes "\<forall>k \<in> set ks. quiet_tick k \<and> (\<exists>x. pt_response k = Inl x)"
    and "\<not> is_cancelled t" and "int (length ks) = m - e" and "e < m"
  shows "poll_loop m e (ks @ rest) t = (PollGaveUp, t)"
  using assms
proof (induction ks arbitrary: e)
  case (Cons x xs)
  then obtain y where x: "quiet_tick x" "pt_response x = Inl y" by auto
  show ?case
  proof (cases "e + 1 \<ge> m")
    case True
    then show ?thesis using Cons.prems x by (simp add: quiet_tick_def apply_cancel_def)
  next
    case False
    with Cons.prems Cons.IH [of "e + 1"] x show ?thesis
      by (simp add: quiet_tick_def apply_cancel_def)
  qed
qed simp

section \<open>The WebSocket watcher\<close>

record ws_event =
  ev_type :: string
  ev_issue :: "string option"
  ev_status :: "string option"

text \<open>The subscription of \<open>start()\<close>: the filter and the handler of an event.\<close>

definition ws_filter :: "string \<Rightarrow> ws_event \<Rightarrow> bool" where
  "ws_filter issue ev \<longleftrightarrow> ev_type ev = ''issue.status_changed'' \<and> ev_issue ev = Some issue"

definition ws_handler :: "ws_event \<Rightarrow> cancel_token \<Rightarrow> cancel_token" where
  "ws_handler ev t =
     (if ev_status ev = Some ''cancelled''
      then token_cancel ''issue cancelled (WebSocket push)'' t else t)"

record ws_watcher =
  w_issue :: string
  w_subscribed :: bool
  w_fallback :: "real option" \<comment> \<open>interval of the running fallback poller\<close>

definition ws_new :: "string \<Rightarrow> ws_watcher" where
  "ws_new issue = \<lparr>w_issue = issue, w_subscribed = False, w_fallback = None\<rparr>"

definition ws_start :: "real \<Rightarrow> ws_watcher \<Rightarrow> ws_watcher" where
  "ws_start interval w = w\<lparr>w_subscribed := True, w_fallback := Some interval\<rparr>"

definition ws_stop :: "ws_watcher \<Rightarrow> ws_watcher" where
  "ws_stop w = w\<lparr>w_subscribed := False, w_fallback := None\<rparr>"

text \<open>The client delivers an event to a live subscription whose filter accepts it.\<close>

definition ws_deliver :: "ws_watcher \<Rightarrow> ws_event \<Rightarrow> cancel_token \<Rightarrow> cancel_token" where
  "ws_deliver w ev t =
     (if w_subscribed w \<and> ws_filter (w_issue w) ev then ws_handler ev t else t)"

datatype watcher = Poller real | Watcher ws_watcher

definition start_cancellation_poller :: "string \<Rightarrow> real \<Rightarrow> bool \<Rightarrow> watcher" where
  "start_cancellation_poller issue interval has_ws =
     (if has_ws then Watcher (ws_start 60 (ws_new issue)) else Poller interval)"

lemma ws_deliver_stopped [simp]: "ws_deliver (ws_stop w) ev t = t"
  by (simp add: ws_deliver_def ws_stop_def)

lemma ws_deliver_fires:
  "ws_deliver (ws_start i (ws_new issue)) ev t =
     (if ev_type ev = ''issue.status_changed'' \<and> ev_issue ev = Some issue \<and> ev_status ev = Some ''cancelled''
      then token_cancel ''issue cancelled (WebSocket push)'' t else t)"
  by (simp add: ws_deliver_def ws_start_def ws_new_def ws_filter_def ws_handler_def)

section \<open>Properties\<close>

definition healthy_tick :: poll_tick where
  "healthy_tick = \<lparr>pt_stop_before = False, pt_cancel_before = None, pt_stop_in_wait = False,
     pt_response = Inr ''in_progress''\<rparr>"

definition cancelled_tick :: poll_tick where
  "cancelled_tick = healthy_tick\<lparr>pt_response := Inr ''cancelled''\<rparr>"

definition failing_tick :: poll_tick where
  "failing_tick = healthy_tick\<lparr>pt_response := Inl (ConnectionError ''refused'')\<rparr>"

text \<open>The poller fires the token at the first poll that sees the issue cancelled, after any
  number of polls that saw it in another status.\<close>

theorem poller_fires_on_cancelled_issue:
  assumes "\<forall>k \<in> set ks. quiet_tick k \<and> (\<exists>st. pt_response k = Inr st \<and> st \<noteq> ''cancelled'')"
    and "quiet_tick k" and "pt_response k = Inr ''cancelled''" and "\<not> is_cancelled t"
  shows "start_poller m (ks @ k # rest) t
    = (PollCancelled, token_cancel ''issue cancelled in Paperclip'' t)"
  using poll_loop_fires [OF assms] by (simp add: start_poller_def)

theorem poller_fires_on_cancelled_issue_witness:
  "start_poller 5 [healthy_tick, healthy_tick, cancelled_tick, healthy_tick] new_token
    = (PollCancelled, token_cancel ''issue cancelled in Paperclip'' new_token)"
  using poller_fires_on_cancelled_issue
    [of "[healthy_tick, healthy_tick]" cancelled_tick new_token 5 "[healthy_tick]"]
  by (simp add: quiet_tick_def healthy_tick_def cancelled_tick_def is_cancelled_def new_token_def)

text \<open>The poller never fires the token by itself: if no poll saw the issue cancelled and no
  other thread fired the token, the token is unchanged however the poller ended.\<close>

theorem poller_never_fires_spuriously:
  assumes "\<forall>k \<in> set ks. pt_cancel_before k = None \<and> pt_response k \<noteq> Inr ''cancelled''"
  shows "snd (start_poller m ks t) = t"
  using poll_loop_no_spurious [OF assms] by (simp add: start_poller_def)

theorem poller_never_fires_spuriously_witness:
  "snd (start_poller 2 [healthy_tick, failing_tick, failing_tick, healthy_tick] new_token) = new_token"
  using poller_never_fires_spuriously
    [of "[healthy_tick, failing_tick, failing_tick, healthy_tick]" 2 new_token]
  by (simp add: healthy_tick_def failing_tick_def)

text \<open>The poller gives up, with the token untouched, exactly at the \<open>max_consecutive_errors\<close>-th
  error in a row; a workflow can no longer be cancelled through it.\<close>

theorem poller_gives_up_after_errors:
  assumes "\<forall>k \<in> set ks. quiet_tick k \<and> (\<exists>x. pt_response k = Inl x)"
    and "\<not> is_cancelled t" and "int (length ks) = m" and "0 < m"
  shows "start_poller m (ks @ rest) t = (PollGaveUp, t)"
  using poll_loop_errors [of ks t m 0 rest] assms by (simp add: start_poller_def)

theorem poller_gives_up_after_errors_witness:
  "start_poller 2 [failing_tick, failing_tick, cancelled_tick] new_token = (PollGaveUp, new_token)"
  using poller_gives_up_after_errors
    [of "[failing_tick, failing_tick]" new_token 2 "[cancelled_tick]"]
  by (simp add: quiet_tick_def healthy_tick_def failing_tick_def is_cancelled_def new_token_def)

end
