(* ===== verification/Graph_Engine.thy ===== *)
theory Graph_Engine
  imports Cancel_Token
begin

text \<open>
  \<^verbatim>\<open>agents/graph_engine.py\<close>: the workflow state machine. A workflow is a record of node
  functions, linear edges and conditional edges; \<open>invoke\<close> and \<open>stream\<close> run it.

  A node is a function of the engine's world (clock, token) and the state; a run of it says how
  long it took, whether another thread fired the token meanwhile, and what it returned or
  raised. Decision functions mutate the state in place, so they return the state they leave.
\<close>

section \<open>Nodes, edges, errors\<close>

record engine_world =
  clock :: real
  token :: "cancel_token option"
  observed :: "(string \<times> real) list" \<comment> \<open>\<open>vibe_node_duration_seconds\<close> samples\<close>

record 's node_run =
  run_duration :: real
  run_cancels :: "string option"
  run_outcome :: "py_exn + 's"

type_synonym 's node_fn = "engine_world \<Rightarrow> 's \<Rightarrow> 's node_run"
type_synonym 's decision_fn = "'s \<Rightarrow> py_exn + (string \<times> 's)"
type_synonym 's route = "'s decision_fn \<times> (string, string) py_dict"

text \<open>
  The engine's exceptions. The four that are \<open>ValueError\<close> in Python carry the values their
  messages interpolate.
\<close>

datatype engine_exn =
    NoEntryPoint
  | EntryNotRegistered string
  | NoNode string
  | BadRoute string string "string list"
  | WorkflowRecursionError int string
  | NodeTimeoutError string int
  | WorkflowTimeoutError real int
  | WorkflowCancelledError string
  | Raised py_exn

definition END :: string where
  "END = ''__end__''"

record 's workflow =
  wf_nodes :: "(string, 's node_fn) py_dict"
  wf_edges :: "(string, string) py_dict"
  wf_cond :: "(string, 's route) py_dict"
  wf_entry :: "string option"

definition new_workflow :: "'s workflow" where
  "new_workflow = \<lparr>wf_nodes = [], wf_edges = [], wf_cond = [], wf_entry = None\<rparr>"

definition add_node :: "string \<Rightarrow> 's node_fn \<Rightarrow> 's workflow \<Rightarrow> 's workflow" where
  "add_node n f g = g\<lparr>wf_nodes := dict_set n f (wf_nodes g)\<rparr>"

definition add_edge :: "string \<Rightarrow> string \<Rightarrow> 's workflow \<Rightarrow> 's workflow" where
  "add_edge a b g = g\<lparr>wf_edges := dict_set a b (wf_edges g)\<rparr>"

definition add_conditional_edges ::
    "string \<Rightarrow> 's decision_fn \<Rightarrow> (string, string) py_dict \<Rightarrow> 's workflow \<Rightarrow> 's workflow" where
  "add_conditional_edges a d r g = g\<lparr>wf_cond := dict_set a (d, r) (wf_cond g)\<rparr>"

definition set_entry_point :: "string \<Rightarrow> 's workflow \<Rightarrow> 's workflow" where
  "set_entry_point n g = g\<lparr>wf_entry := Some n\<rparr>"

definition DEFAULT_MAX_STEPS :: int where
  "DEFAULT_MAX_STEPS = 50"

record 's compiled =
  c_nodes :: "(string, 's node_fn) py_dict"
  c_edges :: "(string, string) py_dict"
  c_cond :: "(string, 's route) py_dict"
  c_entry :: string
  c_max_steps :: int
  c_node_timeout :: int
  c_workflow_timeout :: int

definition compile_wf :: "int \<Rightarrow> int \<Rightarrow> 's workflow \<Rightarrow> engine_exn + 's compiled" where
  "compile_wf node_timeout workflow_timeout g =
     (case wf_entry g of
        None \<Rightarrow> Inl NoEntryPoint
      | Some e \<Rightarrow>
          if \<not> dict_has (wf_nodes g) e then Inl (EntryNotRegistered e)
          else Inr \<lparr>c_nodes = wf_nodes g, c_edges = wf_edges g, c_cond = wf_cond g,
                 c_entry = e, c_max_steps = DEFAULT_MAX_STEPS, c_node_timeout = node_timeout,
                 c_workflow_timeout = workflow_timeout\<rparr>)"

section \<open>One step\<close>

definition resolve_next :: "'s compiled \<Rightarrow> string \<Rightarrow> 's \<Rightarrow> engine_exn + (string \<times> 's)" where
  "resolve_next c cur s =
     (case dict_get (c_cond c) cur of
        Some (decide, routes) \<Rightarrow>
          (case decide s of
             Inl e \<Rightarrow> Inl (Raised e)
           | Inr (r, s') \<Rightarrow>
               (case dict_get routes r of
                  None \<Rightarrow> Inl (BadRoute cur r (dict_keys routes))
                | Some t \<Rightarrow> Inr (t, s')))
      | None \<Rightarrow>
          (case dict_get (c_edges c) cur of
             Some t \<Rightarrow> Inr (t, s)
           | None \<Rightarrow> Inr (END, s)))"

text \<open>
  \<open>_execute_node\<close>. With a node timeout the function runs in a worker thread: an overrun returns
  control at the deadline. \<open>concurrent.futures.TimeoutError\<close> is the builtin \<open>TimeoutError\<close> on the
  image's Python, so a node that raises one itself is caught by the same clause.
\<close>

definition execute_node ::
    "'s compiled \<Rightarrow> string \<Rightarrow> 's node_fn \<Rightarrow> 's \<Rightarrow> engine_world \<Rightarrow> (engine_exn + 's) \<times> engine_world" where
  "execute_node c n f s w =
     (let r = f w s; nt = c_node_timeout c;
          overrun = (nt > 0 \<and> run_duration r > real_of_int nt);
          d = (if overrun then real_of_int nt else run_duration r);
          w' = w\<lparr>clock := clock w + d,
                 token := map_option (apply_cancel (run_cancels r)) (token w),
                 observed := observed w @ [(n, d)]\<rparr>
      in if overrun then (Inl (NodeTimeoutError n nt), w')
         else case run_outcome r of
             Inr s' \<Rightarrow> (Inr s', w')
           | Inl (TimeoutError m) \<Rightarrow>
               (if nt > 0 then (Inl (NodeTimeoutError n nt), w')
                else (Inl (Raised (TimeoutError m)), w'))
           | Inl e \<Rightarrow> (Inl (Raised e), w'))"

definition check_workflow_timeout :: "'s compiled \<Rightarrow> real \<Rightarrow> engine_world \<Rightarrow> engine_exn option" where
  "check_workflow_timeout c start w =
     (if c_workflow_timeout c \<le> 0 then None
      else let elapsed = clock w - start in
        if elapsed > real_of_int (c_workflow_timeout c)
        then Some (WorkflowTimeoutError elapsed (c_workflow_timeout c)) else None)"

definition check_cancellation :: "engine_world \<Rightarrow> engine_exn option" where
  "check_cancellation w =
     (case token w of
        None \<Rightarrow> None
      | Some t \<Rightarrow> map_option WorkflowCancelledError (token_check t))"

text \<open>The body both loops share: the guards in the code's order, then the node.\<close>

definition guarded_node ::
    "'s compiled \<Rightarrow> real \<Rightarrow> int \<Rightarrow> string \<Rightarrow> 's \<Rightarrow> engine_world \<Rightarrow> (engine_exn + 's) \<times> engine_world" where
  "guarded_node c start steps cur s w =
     (if steps \<ge> c_max_steps c then (Inl (WorkflowRecursionError (c_max_steps c) cur), w)
      else case check_workflow_timeout c start w of
        Some e \<Rightarrow> (Inl e, w)
      | None \<Rightarrow>
          (case check_cancellation w of
             Some e \<Rightarrow> (Inl e, w)
           | None \<Rightarrow>
               (case dict_get (c_nodes c) cur of
                  None \<Rightarrow> (Inl (NoNode cur), w)
                | Some f \<Rightarrow> execute_node c cur f s w)))"

lemma guarded_node_Inr:
  assumes "guarded_node c start steps cur s w = (Inr s', w')"
  shows "steps < c_max_steps c" and "check_workflow_timeout c start w = None"
    and "check_cancellation w = None"
    and "\<exists>f. dict_get (c_nodes c) cur = Some f \<and> execute_node c cur f s w = (Inr s', w')"
  using assms by (auto simp: guarded_node_def split: if_splits option.splits)

section \<open>The loops\<close>

function invoke_loop ::
    "'s compiled \<Rightarrow> real \<Rightarrow> int \<Rightarrow> string \<Rightarrow> 's \<Rightarrow> engine_world \<Rightarrow> (engine_exn + 's) \<times> engine_world" where
  "invoke_loop c start steps cur s w =
     (if cur = END then (Inr s, w)
      else case guarded_node c start steps cur s w of
        (Inl e, w') \<Rightarrow> (Inl e, w')
      | (Inr s', w') \<Rightarrow>
          (case resolve_next c cur s' of
             Inl e \<Rightarrow> (Inl e, w')
           | Inr (nxt, s'') \<Rightarrow> invoke_loop c start (steps + 1) nxt s'' w'))"
  by pat_completeness auto
termination
  by (relation "measure (\<lambda>(c, start, steps, cur, s, w). nat (c_max_steps c - steps))")
    (auto dest!: guarded_node_Inr(1) [OF sym])

declare invoke_loop.simps [simp del]

definition invoke :: "'s compiled \<Rightarrow> 's \<Rightarrow> engine_world \<Rightarrow> (engine_exn + 's) \<times> engine_world" where
  "invoke c s w = invoke_loop c (clock w) 0 (c_entry c) s w"

text \<open>
  \<open>stream\<close> yields \<open>(node, state)\<close> after each node; the list is what a consumer that runs the
  generator to its end receives. The second component is how the generator ended: with the
  exception it raised, or with the state it holds when it returns (the generator itself returns
  nothing; the consumer sees that state through the shared dictionary).
\<close>

function stream_loop ::
    "'s compiled \<Rightarrow> real \<Rightarrow> int \<Rightarrow> string \<Rightarrow> 's \<Rightarrow> engine_world
      \<Rightarrow> (string \<times> 's) list \<times> (engine_exn + 's) \<times> engine_world" where
  "stream_loop c start steps cur s w =
     (if cur = END then ([], Inr s, w)
      else case guarded_node c start steps cur s w of
        (Inl e, w') \<Rightarrow> ([], Inl e, w')
      | (Inr s', w') \<Rightarrow>
          (case resolve_next c cur s' of
             Inl e \<Rightarrow> ([(cur, s')], Inl e, w')
           | Inr (nxt, s'') \<Rightarrow>
               (case stream_loop c start (steps + 1) nxt s'' w' of
                  (ys, r, w'') \<Rightarrow> ((cur, s') # ys, r, w''))))"
  by pat_completeness auto
termination
  by (relation "measure (\<lambda>(c, start, steps, cur, s, w). nat (c_max_steps c - steps))")
    (auto dest!: guarded_node_Inr(1) [OF sym])

declare stream_loop.simps [simp del]

definition stream ::
    "'s compiled \<Rightarrow> 's \<Rightarrow> engine_world \<Rightarrow> (string \<times> 's) list \<times> (engine_exn + 's) \<times> engine_world" where
  "stream c s w = stream_loop c (clock w) 0 (c_entry c) s w"


section \<open>Lemmas on one step\<close>

lemma execute_node_clock:
  "execute_node c n f s w = (r, w') \<Longrightarrow> c_node_timeout c > 0
    \<Longrightarrow> clock w' \<le> clock w + real_of_int (c_node_timeout c)"
  by (auto simp: execute_node_def Let_def split: if_splits sum.splits py_exn.splits)

lemma execute_node_token:
  "execute_node c n f s w = (r, w')
    \<Longrightarrow> token w' = map_option (apply_cancel (run_cancels (f w s))) (token w)"
  by (auto simp: execute_node_def Let_def split: if_splits sum.splits py_exn.splits)

lemma execute_node_Inl:
  "execute_node c n f s w = (Inl e, w') \<Longrightarrow> (\<exists>x. e = Raised x) \<or> e = NodeTimeoutError n (c_node_timeout c)"
  by (auto simp: execute_node_def Let_def split: if_splits sum.splits py_exn.splits)

lemma execute_node_observed:
  "execute_node c n f s w = (r, w') \<Longrightarrow> \<exists>d. observed w' = observed w @ [(n, d)]"
  by (auto simp: execute_node_def Let_def split: if_splits sum.splits py_exn.splits)

lemma guarded_node_clock:
  assumes "guarded_node c start steps cur s w = (r, w')"
    and "c_node_timeout c > 0" and "c_workflow_timeout c > 0"
    and "clock w - start \<le> real_of_int (c_workflow_timeout c) + real_of_int (c_node_timeout c)"
  shows "clock w' - start \<le> real_of_int (c_workflow_timeout c) + real_of_int (c_node_timeout c)"
proof (cases "w' = w")
  case False
  with assms(1) obtain f where "execute_node c cur f s w = (r, w')"
    and "check_workflow_timeout c start w = None"
    by (auto simp: guarded_node_def split: if_splits option.splits)
  with assms(2,3) show ?thesis
    using execute_node_clock [of c cur f s w r w']
    by (auto simp: check_workflow_timeout_def Let_def split: if_splits)
qed (use assms in simp)

text \<open>A fired token stops the engine at the next node boundary, whatever the other guards say.\<close>

lemma guarded_node_cancelled:
  assumes "token w = Some t" and "tok_event t"
  shows "\<exists>e. guarded_node c start steps cur s w = (Inl e, w)
    \<and> e \<in> {WorkflowRecursionError (c_max_steps c) cur,
           WorkflowTimeoutError (clock w - start) (c_workflow_timeout c),
           WorkflowCancelledError (tok_reason t)}"
  using assms
  by (auto simp: guarded_node_def check_workflow_timeout_def check_cancellation_def
      token_check_def Let_def)

section \<open>Lemmas on the loops\<close>

lemma stream_loop_END [simp]: "stream_loop c start steps END s w = ([], Inr s, w)"
  by (simp add: stream_loop.simps)

lemma stream_loop_step:
  assumes "cur \<noteq> END" and "guarded_node c start steps cur s w = (Inr s1, w1)"
    and "resolve_next c cur s1 = Inr (nxt, s2)"
    and "stream_loop c start (steps + 1) nxt s2 w1 = (ys, r, w')"
  shows "stream_loop c start steps cur s w = ((cur, s1) # ys, r, w')"
  using assms by (simp add: stream_loop.simps [of c start steps cur])

lemma stream_loop_cases:
  assumes "stream_loop c start steps cur s w = (ys, r, w')"
  obtains (Stop) "cur = END" "ys = []" "r = Inr s" "w' = w"
    | (Guard) e where "cur \<noteq> END" "guarded_node c start steps cur s w = (Inl e, w')"
        "ys = []" "r = Inl e"
    | (Route) s1 e where "cur \<noteq> END" "guarded_node c start steps cur s w = (Inr s1, w')"
        "resolve_next c cur s1 = Inl e" "ys = [(cur, s1)]" "r = Inl e"
    | (Step) s1 w1 nxt s2 zs where "cur \<noteq> END"
        "guarded_node c start steps cur s w = (Inr s1, w1)"
        "resolve_next c cur s1 = Inr (nxt, s2)"
        "stream_loop c start (steps + 1) nxt s2 w1 = (zs, r, w')" "ys = (cur, s1) # zs"
proof (cases "cur = END")
  case True
  with assms show ?thesis by (intro Stop) auto
next
  case ne: False
  obtain g w1 where g: "guarded_node c start steps cur s w = (g, w1)" by fastforce
  show ?thesis
  proof (cases g)
    case (Inl e)
    with assms g ne show ?thesis by (intro Guard [of e]) (auto simp: stream_loop.simps)
  next
    case s1: (Inr s1)
    show ?thesis
    proof (cases "resolve_next c cur s1")
      case (Inl e)
      with assms g ne s1 show ?thesis
        by (intro Route [of s1 e]) (auto simp: stream_loop.simps [of c start steps cur])
    next
      case (Inr p)
      obtain nxt s2 where p: "p = (nxt, s2)" by fastforce
      obtain zs r2 w2 where rec: "stream_loop c start (steps + 1) nxt s2 w1 = (zs, r2, w2)"
        by (metis prod_cases3)
      from assms g ne s1 Inr p rec show ?thesis
        by (intro Step [of s1 w1 nxt s2 zs])
          (simp_all add: stream_loop.simps [of c start steps cur])
    qed
  qed
qed

text \<open>Induction over a run of \<open>stream_loop\<close>, with the run's own cases.\<close>

lemma stream_loop_induct [consumes 1, case_names Stop Guard Route Step]:
  assumes run: "stream_loop c start steps cur s w = (ys, r, w')"
    and stop: "\<And>steps s w. P steps END s w [] (Inr s) w"
    and guard: "\<And>steps cur s w e w'. cur \<noteq> END \<Longrightarrow>
      guarded_node c start steps cur s w = (Inl e, w') \<Longrightarrow> P steps cur s w [] (Inl e) w'"
    and route: "\<And>steps cur s w s1 w' e. cur \<noteq> END \<Longrightarrow>
      guarded_node c start steps cur s w = (Inr s1, w') \<Longrightarrow> resolve_next c cur s1 = Inl e \<Longrightarrow>
      P steps cur s w [(cur, s1)] (Inl e) w'"
    and step: "\<And>steps cur s w s1 w1 nxt s2 zs r w'. cur \<noteq> END \<Longrightarrow>
      guarded_node c start steps cur s w = (Inr s1, w1) \<Longrightarrow>
      resolve_next c cur s1 = Inr (nxt, s2) \<Longrightarrow>
      stream_loop c start (steps + 1) nxt s2 w1 = (zs, r, w') \<Longrightarrow>
      P (steps + 1) nxt s2 w1 zs r w' \<Longrightarrow> P steps cur s w ((cur, s1) # zs) r w'"
  shows "P steps cur s w ys r w'"
  using run
proof (induction "nat (c_max_steps c - steps)" arbitrary: steps cur s w ys r w' rule: less_induct)
  case less
  from less.prems show ?case
  proof (cases rule: stream_loop_cases)
    case (Step s1 w1 nxt s2 zs)
    have "steps < c_max_steps c" using Step(2) by (rule guarded_node_Inr(1))
    then have "P (steps + 1) nxt s2 w1 zs r w'" by (intro less.hyps [OF _ Step(4)]) simp
    with Step show ?thesis using step by simp
  qed (use stop guard route in simp_all)
qed

lemma invoke_loop_stream:
  "stream_loop c start steps cur s w = (ys, r, w') \<Longrightarrow> invoke_loop c start steps cur s w = (r, w')"
proof (induction rule: stream_loop_induct)
  case (Stop steps s w)
  show ?case by (simp add: invoke_loop.simps [of c start steps END])
next
  case (Guard steps cur s w e w')
  then show ?case by (simp add: invoke_loop.simps [of c start steps cur])
next
  case (Route steps cur s w s1 w' e)
  then show ?case by (simp add: invoke_loop.simps [of c start steps cur])
next
  case (Step steps cur s w s1 w1 nxt s2 zs r w')
  then show ?case by (simp add: invoke_loop.simps [of c start steps cur])
qed

lemma stream_loop_length:
  "stream_loop c start steps cur s w = (ys, r, w') \<Longrightarrow>
    steps \<le> c_max_steps c \<Longrightarrow> int (length ys) \<le> c_max_steps c - steps"
proof (induction rule: stream_loop_induct)
  case (Route steps cur s w s1 w' e)
  from guarded_node_Inr(1) [OF Route(2)] show ?case by simp
next
  case (Step steps cur s w s1 w1 nxt s2 zs r w')
  from guarded_node_Inr(1) [OF Step(2)] Step.IH show ?case by simp
qed simp_all

lemma stream_loop_clock:
  assumes "stream_loop c start steps cur s w = (ys, r, w')"
    and "c_node_timeout c > 0" and "c_workflow_timeout c > 0"
    and "clock w - start \<le> real_of_int (c_workflow_timeout c) + real_of_int (c_node_timeout c)"
  shows "clock w' - start \<le> real_of_int (c_workflow_timeout c) + real_of_int (c_node_timeout c)"
  using assms
proof (induction rule: stream_loop_induct)
  case (Guard steps cur s w e w')
  then show ?case by (intro guarded_node_clock [OF Guard(2)])
next
  case (Route steps cur s w s1 w' e)
  then show ?case by (intro guarded_node_clock [OF Route(2)])
next
  case (Step steps cur s w s1 w1 nxt s2 zs r w')
  then show ?case by (intro Step.IH guarded_node_clock [OF Step(2)])
qed

lemma stream_loop_cancelled:
  assumes "token w = Some t" and "tok_event t" and "cur \<noteq> END"
  shows "\<exists>e. stream_loop c start steps cur s w = ([], Inl e, w)"
proof -
  obtain e where "guarded_node c start steps cur s w = (Inl e, w)"
    using guarded_node_cancelled [OF assms(1,2), of c start steps cur s] by (elim exE conjE)
  with assms(3) show ?thesis by (simp add: stream_loop.simps [of c start steps cur])
qed

text \<open>A node whose every run fires the token is the last node that runs.\<close>

lemma stream_loop_cancel_last:
  assumes "stream_loop c start steps cur s w = (ys, r, w')" and "token w \<noteq> None"
    and "dict_get (c_nodes c) n = Some f" and "\<And>w s. run_cancels (f w s) = Some reason"
    and "ys = pre @ (n, x) # post"
  shows "post = []"
  using assms(1,2,5)
proof (induction arbitrary: pre rule: stream_loop_induct)
  case (Step steps cur s w s1 w1 nxt s2 zs r w')
  obtain g where g: "dict_get (c_nodes c) cur = Some g" "execute_node c cur g s w = (Inr s1, w1)"
    using guarded_node_Inr(4) [OF Step(2)] by blast
  then have tok: "token w1 = map_option (apply_cancel (run_cancels (g w s))) (token w)"
    by (intro execute_node_token)
  show ?case
  proof (cases pre)
    case Nil
    then have "cur = n" "post = zs" using Step.prems by auto
    then obtain t where "token w1 = Some t" "tok_event t"
      using g assms(3,4) tok Step.prems(1) by (auto simp: apply_cancel_def token_cancel_def)
    then have "zs = []"
      using stream_loop_cancelled [of w1 t nxt c start "steps + 1" s2] Step(4) by (cases "nxt = END") auto
    with \<open>post = zs\<close> show ?thesis by simp
  next
    case (Cons a pre')
    then show ?thesis using Step.prems tok by (intro Step.IH) auto
  qed
qed (auto simp: Cons_eq_append_conv)

section \<open>Well-formed graphs\<close>

text \<open>
  \<open>targets_ok\<close>: every edge and every route leads to a registered node or to END (executable).
  \<open>routes_total\<close>: a decision function only returns keys of its route map.
\<close>

definition target_ok :: "'s compiled \<Rightarrow> string \<Rightarrow> bool" where
  "target_ok c t \<longleftrightarrow> t = END \<or> dict_has (c_nodes c) t"

definition targets_ok :: "'s compiled \<Rightarrow> bool" where
  "targets_ok c \<longleftrightarrow> target_ok c (c_entry c)
     \<and> list_all (\<lambda>(a, t). target_ok c t) (c_edges c)
     \<and> list_all (\<lambda>(a, d, rs). list_all (\<lambda>(r, t). target_ok c t) rs) (c_cond c)"

definition routes_total :: "'s compiled \<Rightarrow> bool" where
  "routes_total c \<longleftrightarrow>
     (\<forall>a d rs s r s'. dict_get (c_cond c) a = Some (d, rs) \<longrightarrow> d s = Inr (r, s') \<longrightarrow> dict_has rs r)"

lemma dict_get_mem: "dict_get d k = Some v \<Longrightarrow> (k, v) \<in> set d"
  by (simp add: dict_get_def map_of_SomeD)

lemma resolve_next_target_ok:
  assumes "targets_ok c" and "resolve_next c cur s = Inr (t, s')"
  shows "target_ok c t"
  using assms
  by (fastforce simp: resolve_next_def targets_ok_def target_ok_def list_all_iff
      split: option.splits sum.splits prod.splits dest!: dict_get_mem)

lemma resolve_next_no_bad_route:
  assumes "routes_total c" and "resolve_next c cur s = Inl e"
  shows "\<exists>x. e = Raised x"
  using assms
  by (auto simp: resolve_next_def routes_total_def dict_has_def
      split: option.splits sum.splits prod.splits) (metis option.distinct(1))

lemma stream_loop_wf:
  assumes "stream_loop c start steps cur s w = (ys, r, w')"
    and "targets_ok c" and "routes_total c" and "target_ok c cur" and "r = Inl e"
  shows "(\<forall>n. e \<noteq> NoNode n) \<and> (\<forall>n x ks. e \<noteq> BadRoute n x ks)"
  using assms(1,4,5)
proof (induction rule: stream_loop_induct)
  case (Guard steps cur s w e' w')
  then have "dict_has (c_nodes c) cur" by (simp add: target_ok_def)
  with Guard show ?case
    by (auto simp: guarded_node_def check_workflow_timeout_def check_cancellation_def Let_def
        dict_has_def split: if_splits option.splits dest: execute_node_Inl)
next
  case (Route steps cur s w s1 w' e')
  then show ?case using resolve_next_no_bad_route [OF assms(3)] by fastforce
next
  case (Step steps cur s w s1 w1 nxt s2 zs r w')
  then show ?case using resolve_next_target_ok [OF assms(2)] by blast
qed simp

text \<open>Neighbours in a run are linked by the routing of the first on the state it left.\<close>

lemma stream_loop_first:
  "stream_loop c start steps cur s w = ((m, y) # post, r, w') \<Longrightarrow> m = cur"
  by (erule stream_loop_cases) auto

lemma stream_loop_adjacent:
  assumes "stream_loop c start steps cur s w = (ys, r, w')" and "ys = pre @ (n, x) # (m, y) # post"
  shows "\<exists>s2. resolve_next c n x = Inr (m, s2)"
  using assms
proof (induction arbitrary: pre rule: stream_loop_induct)
  case (Step steps cur s w s1 w1 nxt s2 zs r w')
  show ?case
  proof (cases pre)
    case Nil
    then have "cur = n" "s1 = x" "zs = (m, y) # post" using Step.prems by auto
    moreover from this(3) have "m = nxt" using Step(4) stream_loop_first by simp
    ultimately show ?thesis using Step(3) by blast
  next
    case (Cons a pre')
    then show ?thesis using Step.prems by (intro Step.IH) simp
  qed
qed (auto simp: Cons_eq_append_conv)

section \<open>Paths\<close>

text \<open>The node names of a completed run form a path of the graph from the entry to END.\<close>

definition succs :: "'s compiled \<Rightarrow> string \<Rightarrow> string list" where
  "succs c n =
     (case dict_get (c_cond c) n of
        Some (d, rs) \<Rightarrow> map snd rs
      | None \<Rightarrow> (case dict_get (c_edges c) n of Some t \<Rightarrow> [t] | None \<Rightarrow> [END]))"

fun is_path :: "'s compiled \<Rightarrow> string \<Rightarrow> string list \<Rightarrow> bool" where
  "is_path c cur [] \<longleftrightarrow> cur = END"
| "is_path c cur (n # ns) \<longleftrightarrow> n = cur \<and> cur \<noteq> END \<and> (\<exists>t \<in> set (succs c n). is_path c t ns)"

lemma resolve_next_succs: "resolve_next c n s = Inr (t, s') \<Longrightarrow> t \<in> set (succs c n)"
  by (auto simp: resolve_next_def succs_def dict_get_def
      split: option.splits sum.splits prod.splits dest!: map_of_SomeD intro: rev_image_eqI)

lemma stream_loop_path:
  "stream_loop c start steps cur s w = (ys, r, w') \<Longrightarrow> r = Inr s' \<Longrightarrow> is_path c cur (map fst ys)"
  by (induction rule: stream_loop_induct) (auto intro: resolve_next_succs)

text \<open>
  A ranking function bounds the run: when every completed step of the graph lowers the rank,
  a run never takes more steps than the rank it starts with, so it cannot exceed the step limit.
\<close>

lemma stream_loop_ranked:
  fixes rank :: "string \<Rightarrow> 's \<Rightarrow> nat"
  assumes "stream_loop c start steps cur s w = (ys, r, w')"
    and "I cur s" and "int (rank cur s) + steps \<le> c_max_steps c"
    and dec: "\<And>n f s w s1 w1 t s2. I n s \<Longrightarrow> n \<noteq> END \<Longrightarrow> dict_get (c_nodes c) n = Some f \<Longrightarrow>
      execute_node c n f s w = (Inr s1, w1) \<Longrightarrow> resolve_next c n s1 = Inr (t, s2) \<Longrightarrow>
      I t s2 \<and> rank t s2 < rank n s"
    and pos: "\<And>n s. I n s \<Longrightarrow> n \<noteq> END \<Longrightarrow> 0 < rank n s"
  shows "\<forall>m n. r \<noteq> Inl (WorkflowRecursionError m n)"
  using assms(1,2,3)
proof (induction rule: stream_loop_induct)
  case (Guard steps cur s w e w')
  then have "steps < c_max_steps c" using pos [of cur s] by simp
  with Guard(2) show ?case
    by (auto simp: guarded_node_def check_workflow_timeout_def check_cancellation_def Let_def
        split: if_splits option.splits dest: execute_node_Inl)
next
  case (Route steps cur s w s1 w' e)
  then show ?case by (auto simp: resolve_next_def split: option.splits sum.splits prod.splits)
next
  case (Step steps cur s w s1 w1 nxt s2 zs r w')
  obtain f where "dict_get (c_nodes c) cur = Some f" "execute_node c cur f s w = (Inr s1, w1)"
    using guarded_node_Inr(4) [OF Step(2)] by blast
  then have "I nxt s2 \<and> rank nxt s2 < rank cur s" using dec Step(1,3) Step.prems(1) by blast
  then show ?case using Step.prems(2) by (intro Step.IH) auto
qed simp

section \<open>Properties\<close>

lemma stream_run:
  obtains ys r w' where "stream_loop c (clock w) 0 (c_entry c) s w = (ys, r, w')"
    and "stream c s w = (ys, r, w')" and "invoke c s w = (r, w')"
  by (metis invoke_def invoke_loop_stream prod_cases3 stream_def)

text \<open>A one-node workflow for the witnesses: the node takes five seconds and adds one.\<close>

definition tick_node :: "int node_fn" where
  "tick_node w s = \<lparr>run_duration = 5, run_cancels = None, run_outcome = Inr (s + 1)\<rparr>"

definition tick_graph :: "int compiled" where
  "tick_graph = \<lparr>c_nodes = [(''work'', tick_node)], c_edges = [], c_cond = [],
     c_entry = ''work'', c_max_steps = 3, c_node_timeout = 4, c_workflow_timeout = 10\<rparr>"

definition idle_world :: engine_world where
  "idle_world = \<lparr>clock = 0, token = None, observed = []\<rparr>"

text \<open>C10: \<open>invoke\<close> and \<open>stream\<close> are two copies of one loop; they run the same nodes in the same
  world and end with the same state, or the same exception, at the same time.\<close>

theorem invoke_is_stream: "invoke c s w = snd (stream c s w)"
proof -
  obtain ys r w' where "stream c s w = (ys, r, w')" "invoke c s w = (r, w')" by (rule stream_run)
  then show ?thesis by simp
qed

text \<open>A run executes at most \<open>max_steps\<close> nodes, whatever the nodes and the graph do.\<close>

theorem stream_step_bound: "length (fst (stream c s w)) \<le> nat (c_max_steps c)"
proof (cases "c_max_steps c < 0")
  case True
  then show ?thesis
    by (simp add: stream_def stream_loop.simps [of c "clock w" 0 "c_entry c"] guarded_node_def)
next
  case False
  obtain ys r w' where "stream_loop c (clock w) 0 (c_entry c) s w = (ys, r, w')"
    "stream c s w = (ys, r, w')" by (rule stream_run)
  then show ?thesis using False stream_loop_length [of c "clock w" 0 "c_entry c" s w ys r w'] by simp
qed

text \<open>C33: With both timeouts set, \<open>invoke\<close> gives control back after at most the workflow timeout
  and one node timeout, even if a node never ends: the workflow timeout is only looked at between
  nodes, and the node timeout cuts the node short.\<close>

theorem invoke_bounded_time:
  assumes "0 < c_node_timeout c" and "0 < c_workflow_timeout c"
  shows "clock (snd (invoke c s w)) - clock w
    \<le> real_of_int (c_workflow_timeout c) + real_of_int (c_node_timeout c)"
proof -
  obtain ys r w' where "stream_loop c (clock w) 0 (c_entry c) s w = (ys, r, w')"
    "invoke c s w = (r, w')" by (rule stream_run)
  then show ?thesis using assms stream_loop_clock [of c "clock w" 0 "c_entry c" s w ys r w'] by simp
qed

theorem invoke_bounded_time_witness:
  "clock (snd (invoke tick_graph 0 idle_world)) - clock idle_world \<le> 14
    \<and> fst (invoke tick_graph 0 idle_world) = Inl (NodeTimeoutError ''work'' 4)"
  using invoke_bounded_time [of tick_graph 0 idle_world]
  by (simp add: tick_graph_def idle_world_def invoke_def END_def guarded_node_def dict_get_def
      invoke_loop.simps check_workflow_timeout_def check_cancellation_def execute_node_def
      tick_node_def Let_def)

text \<open>A workflow started with a fired token runs no node: the state, the clock and the recorded
  samples stay as they are and an exception is raised.\<close>

theorem invoke_cancelled_runs_nothing:
  assumes "token w = Some t" and "is_cancelled t" and "c_entry c \<noteq> END"
  shows "\<exists>e. stream c s w = ([], Inl e, w) \<and> invoke c s w = (Inl e, w)"
proof -
  obtain ys r w' where run: "stream_loop c (clock w) 0 (c_entry c) s w = (ys, r, w')"
    "stream c s w = (ys, r, w')" "invoke c s w = (r, w')" by (rule stream_run)
  obtain e where "stream_loop c (clock w) 0 (c_entry c) s w = ([], Inl e, w)"
    using stream_loop_cancelled [of w t "c_entry c" c "clock w" 0 s] assms
    by (auto simp: is_cancelled_def)
  with run have "stream c s w = ([], Inl e, w) \<and> invoke c s w = (Inl e, w)" by auto
  then show ?thesis ..
qed

theorem invoke_cancelled_runs_nothing_witness:
  "\<exists>e. stream tick_graph 7 (idle_world\<lparr>token := Some (token_cancel ''stop'' new_token)\<rparr>)
     = ([], Inl e, idle_world\<lparr>token := Some (token_cancel ''stop'' new_token)\<rparr>)"
  using invoke_cancelled_runs_nothing
    [of "idle_world\<lparr>token := Some (token_cancel ''stop'' new_token)\<rparr>"
      "token_cancel ''stop'' new_token" tick_graph 7]
  by (auto simp: is_cancelled_def token_cancel_def tick_graph_def END_def)

text \<open>Cancellation is cooperative and prompt: when every run of a node fires the token, that
  node is the last one the workflow runs.\<close>

theorem cancelling_node_is_last:
  assumes "token w \<noteq> None" and "dict_get (c_nodes c) n = Some f"
    and "\<And>w s. run_cancels (f w s) = Some reason"
    and "fst (stream c s w) = pre @ (n, x) # post"
  shows "post = []"
proof -
  obtain ys r w' where run: "stream_loop c (clock w) 0 (c_entry c) s w = (ys, r, w')"
    "stream c s w = (ys, r, w')" by (rule stream_run)
  with assms(4) have "ys = pre @ (n, x) # post" by simp
  from stream_loop_cancel_last [OF run(1) assms(1-3) this] show ?thesis .
qed

definition stop_graph :: "int compiled" where
  "stop_graph = \<lparr>c_nodes = [(''a'', \<lambda>w s. \<lparr>run_duration = 1, run_cancels = Some ''user'', run_outcome = Inr s\<rparr>),
       (''b'', tick_node)],
     c_edges = [(''a'', ''b'')], c_cond = [], c_entry = ''a'', c_max_steps = 3, c_node_timeout = 0,
     c_workflow_timeout = 0\<rparr>"

lemma stop_graph_run:
  "fst (stream stop_graph 0 (idle_world\<lparr>token := Some new_token\<rparr>)) = [(''a'', 0)]"
  by (simp add: stream_def stream_loop.simps stop_graph_def guarded_node_def
      dict_get_def resolve_next_def check_workflow_timeout_def check_cancellation_def execute_node_def
      tick_node_def Let_def idle_world_def END_def apply_cancel_def token_check_def token_cancel_def
      new_token_def)

theorem cancelling_node_is_last_witness:
  "fst (stream stop_graph 0 (idle_world\<lparr>token := Some new_token\<rparr>)) = [] @ (''a'', 0) # []
    \<and> ([] :: (string \<times> int) list) = []"
proof -
  have "fst (stream stop_graph 0 (idle_world\<lparr>token := Some new_token\<rparr>)) = [] @ (''a'', 0) # []"
    by (simp add: stop_graph_run)
  moreover have "([] :: (string \<times> int) list) = []"
    by (rule cancelling_node_is_last [OF _ _ _ calculation]) (auto simp: stop_graph_def dict_get_def)
  ultimately show ?thesis by simp
qed

text \<open>On a graph whose edges and routes lead to registered nodes and whose decision functions
  return keys of their route maps, the engine never raises its routing errors.\<close>

theorem well_formed_graph_no_routing_error:
  assumes "targets_ok c" and "routes_total c"
  shows "fst (invoke c s w) \<noteq> Inl (NoNode n) \<and> fst (invoke c s w) \<noteq> Inl (BadRoute n r ks)"
proof -
  obtain ys r' w' where run: "stream_loop c (clock w) 0 (c_entry c) s w = (ys, r', w')"
    "invoke c s w = (r', w')" by (rule stream_run)
  have "target_ok c (c_entry c)" using assms(1) by (simp add: targets_ok_def)
  then show ?thesis
    using stream_loop_wf [OF run(1) assms] run(2) by (cases r') auto
qed

theorem well_formed_graph_no_routing_error_witness:
  "fst (invoke stop_graph 0 idle_world) \<noteq> Inl (NoNode ''b'')"
  using well_formed_graph_no_routing_error [of stop_graph]
  by (simp add: targets_ok_def target_ok_def routes_total_def stop_graph_def dict_has_def dict_get_def)

text \<open>A run that returns a state has walked the graph: the nodes it executed form a path of
  edges and routes from the entry point to \<open>END\<close>.\<close>

theorem completed_run_is_path:
  assumes "stream c s w = (ys, Inr s', w')"
  shows "is_path c (c_entry c) (map fst ys)"
  using stream_loop_path [OF assms [unfolded stream_def] refl] .

lemma stop_graph_run2:
  "stream stop_graph 0 idle_world = ([(''a'', 0), (''b'', 1)], Inr 1,
     \<lparr>clock = 6, token = None, observed = [(''a'', 1), (''b'', 5)]\<rparr>)"
proof -
  let ?w1 = "\<lparr>clock = 1, token = None, observed = [(''a'', 1)]\<rparr>"
  let ?w2 = "\<lparr>clock = 6, token = None, observed = [(''a'', 1), (''b'', 5)]\<rparr>"
  note ev = stop_graph_def guarded_node_def dict_get_def resolve_next_def check_workflow_timeout_def
    check_cancellation_def execute_node_def tick_node_def Let_def idle_world_def END_def
  have b: "stream_loop stop_graph 0 (0 + 1) ''b'' 0 ?w1 = ([(''b'', 1)], Inr 1, ?w2)"
    by (rule stream_loop_step [OF _ _ _ stream_loop_END]) (simp_all add: ev)
  have "stream_loop stop_graph 0 0 ''a'' 0 idle_world = ([(''a'', 0), (''b'', 1)], Inr 1, ?w2)"
    by (rule stream_loop_step [OF _ _ _ b]) (simp_all add: ev)
  then show ?thesis by (simp add: stream_def stop_graph_def idle_world_def)
qed

theorem completed_run_is_path_witness: "is_path stop_graph ''a'' [''a'', ''b'']"
proof -
  have "c_entry stop_graph = ''a''" by (simp add: stop_graph_def)
  with completed_run_is_path [OF stop_graph_run2] show ?thesis by simp
qed

text \<open>A node that itself raises \<open>TimeoutError\<close> within its budget is reported as having exceeded
  the node timeout, with the whole budget as the elapsed time; without a node timeout the same
  exception passes through unchanged.\<close>

theorem node_own_timeout_misreported:
  assumes "run_outcome (f w s) = Inl (TimeoutError m)"
    and "run_duration (f w s) \<le> real_of_int (c_node_timeout c)"
  shows "fst (execute_node c n f s w) =
    (if c_node_timeout c > 0 then Inl (NodeTimeoutError n (c_node_timeout c))
     else Inl (Raised (TimeoutError m)))"
  using assms by (simp add: execute_node_def Let_def)

theorem node_own_timeout_misreported_witness:
  "fst (execute_node tick_graph ''work''
     (\<lambda>w s. \<lparr>run_duration = 1, run_cancels = None, run_outcome = Inl (TimeoutError ''read'')\<rparr>)
     0 idle_world) = Inl (NodeTimeoutError ''work'' 4)"
  by (subst node_own_timeout_misreported [where m = "''read''"]) (simp_all add: tick_graph_def)

end
