(* ===== verification/Agent_State.thy ===== *)
theory Agent_State
  imports Py_Prelude
begin

text \<open>
  \<^verbatim>\<open>agents/state.py\<close>: the state dictionary that flows through the workflow graph.

  \<open>AgentState\<close> is a TypedDict with \<open>total=False\<close>: every key may be absent. The record has one
  \<open>option\<close> field per key, \<open>None\<close> for an absent key; \<open>state.get(k, d)\<close> is \<open>opt_or (k s) d\<close>.
  Keys no modelled code reads or writes are left out. Wall-clock stamps (ISO strings in the
  source) are reals, in seconds.
\<close>

definition opt_or :: "'a option \<Rightarrow> 'a \<Rightarrow> 'a" where
  "opt_or x d = (case x of None \<Rightarrow> d | Some v \<Rightarrow> v)"

lemma opt_or_simps [simp]: "opt_or None d = d" "opt_or (Some v) d = v"
  by (simp_all add: opt_or_def)

section \<open>The records\<close>

text \<open>A recorded tool call: the tool's name and the \<open>success\<close> key of its result.\<close>

record tool_call =
  tc_tool :: "string option"
  tc_success :: "bool option"

text \<open>A sub-task dictionary of a decomposed request.\<close>

record sub_task =
  t_task_type :: "string option"
  t_specialist_adapter :: "string option"
  t_specification :: "string option"
  t_output :: "string option"
  t_spec_score :: "int option"
  t_output_score :: "int option"
  t_output_feedback :: "string option"
  t_iteration_count :: "int option"
  t_max_iterations :: "int option"
  t_status :: "string option"
  t_id :: "int option"
  t_parent_specification :: "string option"
  t_sibling_tasks :: "string list option"
  t_tool_calls :: "tool_call list option"
  t_spec_feedback :: "string option"

record history_entry =
  h_iteration :: int
  h_specification :: string
  h_output :: string
  h_score :: int
  h_feedback_summary :: string
  h_timestamp :: real

record subtask_error =
  se_index :: nat
  se_error :: string
  se_error_type :: "string option"
  se_task_type :: string

type_synonym json_obj = "(string, string) py_dict"

text \<open>A skill that was loaded for the run, with what its front matter declares.\<close>

record loaded_skill =
  ls_name :: "string option"
  ls_tier :: string
  ls_task_type :: "string option"
  ls_task_types :: "string list option"
  ls_content :: "string option"
  ls_path :: string
  ls_allowed_tools :: "string set option"
  ls_quality_criteria :: "string list option"
  ls_adapter_prompt :: "string option"
  ls_generation_config :: "(string, real) py_dict option"
  ls_tools_enabled :: "bool option"

record agent_state =
  user_request :: "string option"
  session_id :: "string option"
  intent :: "string option"
  intent_confidence :: "real option"
  routed_task_type :: "string option"
  specialist_adapter :: "string option"
  routing_confidence :: "real option"
  iteration_count :: "int option"
  max_iterations :: "int option"
  spec_text :: "string option"
  clarification_needed :: "bool option"
  clarification_questions :: "string list option"
  discovered_skills :: "json_obj list option"
  skills_in_use :: "string list option"
  loaded_skills :: "loaded_skill list option"
  skills_cleaned_up :: "bool option"
  requires_decomposition :: "bool option"
  sub_tasks :: "sub_task list option"
  current_sub_task_index :: "int option"
  completed_sub_tasks :: "int option"
  parallel_execution :: "bool option"
  aggregation_strategy :: "string option"
  specialist_output :: "string option"
  specialist_iteration_count :: "int option"
  specialist_max_iterations :: "int option"
  output_critic_score :: "int option"
  output_critic_feedback :: "string option"
  quality_gate_decision :: "string option"
  quality_threshold :: "int option"
  complexity_tier :: "string option"
  effective_quality_threshold :: "int option"
  heuristic_critic_score :: "int option"
  heuristic_critic_passed :: "bool option"
  memory_context :: "string option"
  pending_messages :: "json_obj list option"
  tool_calls_made :: "tool_call list option"
  cache_hit :: "bool option"
  cache_key :: "string option"
  cache_entry_stored :: "bool option"
  simulation_report :: "string option option"
  simulation_conflicts :: "json_obj list option"
  simulation_risk_level :: "string option"
  simulation_skipped :: "bool option"
  final_output :: "string option"
  final_score :: "int option"
  conversation_history :: "history_entry list option"
  parallel_execution_errors :: "subtask_error list option"
  adapters_used :: "string list option"
  start_time :: "real option"
  end_time :: "real option"
  total_time_seconds :: "real option"
  debug_info :: "json_obj option"
  agent_instructions :: "string option"
  spec_critic_scores :: "(string, int) py_dict option"
  spec_critic_score :: "int option"
  spec_critic_feedback :: "string option"
  output_critic_scores :: "(string, int) py_dict option"
  aggregated_output :: "string option"
  lesson_eligible :: "bool option"
  mattermost_message :: "string option"

text \<open>The dictionary with no key.\<close>

definition empty_state :: agent_state where
  "empty_state = \<lparr>user_request = None, session_id = None, intent = None, intent_confidence = None,
    routed_task_type = None, specialist_adapter = None, routing_confidence = None, iteration_count = None,
    max_iterations = None, spec_text = None, clarification_needed = None,
    clarification_questions = None, discovered_skills = None, skills_in_use = None,
    loaded_skills = None, skills_cleaned_up = None, requires_decomposition = None,
    sub_tasks = None, current_sub_task_index = None, completed_sub_tasks = None,
    parallel_execution = None, aggregation_strategy = None, specialist_output = None,
    specialist_iteration_count = None, specialist_max_iterations = None,
    output_critic_score = None, output_critic_feedback = None, quality_gate_decision = None,
    quality_threshold = None, complexity_tier = None, effective_quality_threshold = None,
    heuristic_critic_score = None, heuristic_critic_passed = None, memory_context = None,
    pending_messages = None, tool_calls_made = None, cache_hit = None, cache_key = None,
    cache_entry_stored = None, simulation_report = None, simulation_conflicts = None,
    simulation_risk_level = None, simulation_skipped = None, final_output = None,
    final_score = None, conversation_history = None, parallel_execution_errors = None,
    adapters_used = None, start_time = None, end_time = None, total_time_seconds = None,
    debug_info = None, agent_instructions = None,
    spec_critic_scores = None, spec_critic_score = None, spec_critic_feedback = None,
    output_critic_scores = None, aggregated_output = None, lesson_eligible = None,
    mattermost_message = None\<rparr>"

section \<open>Construction, history, finalisation\<close>

definition MAX_HISTORY_ENTRIES :: nat where
  "MAX_HISTORY_ENTRIES = 10"

text \<open>\<open>now\<close> and \<open>generated_id\<close> are the clock and the time-stamped session id of the call.\<close>

definition create_initial_state ::
    "string \<Rightarrow> string option \<Rightarrow> int \<Rightarrow> int \<Rightarrow> string \<Rightarrow> real \<Rightarrow> agent_state" where
  "create_initial_state request sid max_iter threshold generated_id now = empty_state\<lparr>
     user_request := Some request,
     session_id := Some (opt_or sid generated_id),
     iteration_count := Some 0,
     max_iterations := Some max_iter,
     quality_threshold := Some threshold,
     clarification_needed := Some False,
     clarification_questions := Some [],
     quality_gate_decision := Some ''refine'',
     discovered_skills := Some [],
     skills_in_use := Some [],
     loaded_skills := Some [],
     skills_cleaned_up := Some False,
     specialist_iteration_count := Some 0,
     specialist_max_iterations := Some 3,
     requires_decomposition := Some False,
     sub_tasks := Some [],
     current_sub_task_index := Some 0,
     completed_sub_tasks := Some 0,
     parallel_execution := Some False,
     aggregation_strategy := Some ''merge'',
     cache_hit := Some False,
     cache_key := Some '''',
     cache_entry_stored := Some False,
     parallel_execution_errors := Some [],
     simulation_report := Some None,
     simulation_conflicts := Some [],
     simulation_risk_level := Some '''',
     simulation_skipped := Some False,
     complexity_tier := Some '''',
     effective_quality_threshold := Some threshold,
     heuristic_critic_score := Some 0,
     heuristic_critic_passed := Some False,
     memory_context := Some '''',
     pending_messages := Some [],
     conversation_history := Some [],
     adapters_used := Some [],
     tool_calls_made := Some [],
     start_time := Some now,
     debug_info := Some []\<rparr>"

text \<open>
  \<open>feedback.split('. ')[0]\<close>: the text before the first full stop followed by a blank. The split
  list is never empty, so the fallback after it in the source is dead code.
\<close>

fun first_sentence :: "string \<Rightarrow> string" where
  "first_sentence (CHR ''.'' # CHR '' '' # cs) = []"
| "first_sentence (c # cs) = c # first_sentence cs"
| "first_sentence [] = []"

definition summarize_feedback :: "string \<Rightarrow> nat \<Rightarrow> string" where
  "summarize_feedback feedback max_length =
     (if length feedback \<le> max_length then feedback else first_sentence feedback @ ''...'')"

definition truncate_history :: "history_entry list \<Rightarrow> history_entry list" where
  "truncate_history hs =
     (if length hs > MAX_HISTORY_ENTRIES then drop (length hs - MAX_HISTORY_ENTRIES) hs else hs)"

definition add_to_history :: "real \<Rightarrow> agent_state \<Rightarrow> py_exn + agent_state" where
  "add_to_history now s =
     (if opt_or (specialist_output s) '''' \<noteq> '''' \<and> output_critic_score s \<noteq> None then
        (case iteration_count s of
           None \<Rightarrow> Inl (KeyError ''iteration_count'')
         | Some n \<Rightarrow>
             let entry = \<lparr>h_iteration = n,
                   h_specification = take 200 (opt_or (spec_text s) '''') @ ''...'',
                   h_output = take 300 (opt_or (specialist_output s) '''') @ ''...'',
                   h_score = the (output_critic_score s),
                   h_feedback_summary = summarize_feedback (opt_or (output_critic_feedback s) '''') 150,
                   h_timestamp = now\<rparr>;
                 history = opt_or (conversation_history s) [] @ [entry]
             in Inr (s\<lparr>conversation_history := Some (truncate_history history)\<rparr>))
      else Inr s)"

definition finalize_state :: "real \<Rightarrow> agent_state \<Rightarrow> py_exn + agent_state" where
  "finalize_state now s =
     (case start_time s of
        None \<Rightarrow> Inl (KeyError ''start_time'')
      | Some t0 \<Rightarrow> Inr (s\<lparr>end_time := Some now, total_time_seconds := Some (now - t0),
          final_output := Some (opt_or (specialist_output s) ''''),
          final_score := Some (opt_or (output_critic_score s) 0)\<rparr>))"

lemma truncate_history_length: "length (truncate_history hs) \<le> MAX_HISTORY_ENTRIES"
  by (simp add: truncate_history_def)

lemma truncate_history_suffix: "\<exists>pre. pre @ truncate_history hs = hs"
  by (cases "length hs > MAX_HISTORY_ENTRIES")
    (auto simp: truncate_history_def intro: exI [of _ "[]"] exI [of _ "take (length hs - MAX_HISTORY_ENTRIES) hs"])

lemma first_sentence_prefix: "length (first_sentence cs) \<le> length cs"
  by (induction cs rule: first_sentence.induct) auto

lemma first_sentence_no_stop: "CHR ''.'' \<notin> set cs \<Longrightarrow> first_sentence cs = cs"
  by (induction cs rule: first_sentence.induct) auto

text \<open>
  The summary of a long text without a sentence break is longer than the text it summarises:
  \<open>max_length\<close> does not bound it.
\<close>

lemma summarize_feedback_unbounded:
  "CHR ''.'' \<notin> set cs \<Longrightarrow> m < length cs \<Longrightarrow> summarize_feedback cs m = cs @ ''...''"
  by (simp add: summarize_feedback_def first_sentence_no_stop)

lemma summarize_feedback_bound: "length (summarize_feedback cs m) \<le> max m (length cs + 3)"
  using first_sentence_prefix [of cs] by (auto simp: summarize_feedback_def)

section \<open>Properties\<close>

text \<open>Adding an iteration to the history keeps at most the ten latest entries in order, the new
  one last; it fails only when the state has no iteration count.\<close>

theorem add_to_history_keeps_latest:
  assumes "add_to_history now s = Inr s'"
    and "opt_or (specialist_output s) '''' \<noteq> ''''" and "output_critic_score s \<noteq> None"
  shows "\<exists>hs e pre. conversation_history s' = Some (hs @ [e]) \<and> length (hs @ [e]) \<le> MAX_HISTORY_ENTRIES
    \<and> pre @ hs = opt_or (conversation_history s) []
    \<and> h_timestamp e = now \<and> Some (h_iteration e) = iteration_count s"
proof -
  obtain n where n: "iteration_count s = Some n"
    using assms by (cases "iteration_count s") (auto simp: add_to_history_def)
  obtain e where e: "conversation_history s' = Some (truncate_history (opt_or (conversation_history s) [] @ [e]))"
    "h_timestamp e = now" "h_iteration e = n"
    using assms n by (auto simp: add_to_history_def Let_def)
  let ?h = "opt_or (conversation_history s) []"
  obtain pre where pre: "pre @ truncate_history (?h @ [e]) = ?h @ [e]"
    using truncate_history_suffix by blast
  have "truncate_history (?h @ [e]) \<noteq> []" by (simp add: truncate_history_def MAX_HISTORY_ENTRIES_def)
  then obtain hs x where hs: "truncate_history (?h @ [e]) = hs @ [x]" by (cases rule: rev_exhaust) auto
  with pre have "x = e" "pre @ hs = ?h"
    by (metis append.assoc butlast_snoc last_snoc, metis append.assoc butlast_snoc)
  then show ?thesis
    using e hs n truncate_history_length [of "?h @ [e]"]
    by (intro exI [of _ hs] exI [of _ e] exI [of _ pre]) simp
qed

definition sample_state :: agent_state where
  "sample_state = empty_state\<lparr>iteration_count := Some 2, specialist_output := Some ''text'',
     output_critic_score := Some 70\<rparr>"

theorem add_to_history_keeps_latest_witness:
  "\<exists>s' hs e. add_to_history 5 sample_state = Inr s' \<and> conversation_history s' = Some (hs @ [e])
    \<and> h_iteration e = 2"
proof -
  obtain s' where s': "add_to_history 5 sample_state = Inr s'"
    by (simp add: add_to_history_def sample_state_def Let_def)
  moreover have "opt_or (specialist_output sample_state) '''' \<noteq> ''''"
    "output_critic_score sample_state \<noteq> None" "iteration_count sample_state = Some 2"
    by (simp_all add: sample_state_def)
  ultimately show ?thesis using add_to_history_keeps_latest [of 5 sample_state s'] by auto
qed

text \<open>\<open>max_length\<close> does not bound the feedback summary: a longer feedback with no full stop comes
  back whole, with three characters added.\<close>

theorem summarize_feedback_not_bounded:
  assumes "CHR ''.'' \<notin> set feedback" and "m < length feedback"
  shows "summarize_feedback feedback m = feedback @ ''...''
    \<and> m + 3 < length (summarize_feedback feedback m)"
  using summarize_feedback_unbounded [OF assms] assms(2) by simp

theorem summarize_feedback_not_bounded_witness:
  "summarize_feedback ''no break here'' 4 = ''no break here...''"
  using summarize_feedback_not_bounded [of "''no break here''" 4] by simp

section \<open>The context of a node\<close>

text \<open>
  \<open>get_context_for_node\<close> of \<^verbatim>\<open>agents/state.py\<close>: the part of the state a node is given. The context is a dictionary in the order
  of the source; a value has the type its key has in the state.
\<close>

datatype context_value =
    CText string
  | CInt int
  | CReal real
  | CFlag bool
  | CSkills "loaded_skill list"
  | CTasks "sub_task list"
  | CScores "(string, int) py_dict"
  | CReport "string option"
  | CConflicts "json_obj list"

type_synonym node_context = "(string \<times> context_value) list"

definition text_key :: "string \<Rightarrow> string option \<Rightarrow> string \<Rightarrow> string \<times> context_value" where
  "text_key k v d = (k, CText (opt_or v d))"

definition int_key :: "string \<Rightarrow> int option \<Rightarrow> int \<Rightarrow> string \<times> context_value" where
  "int_key k v d = (k, CInt (opt_or v d))"

text \<open>The specification has the key \<^verbatim>\<open>specification\<close>; nothing writes the key \<^verbatim>\<open>task_type\<close>, so its default is used.\<close>

definition specialist_context :: "agent_state \<Rightarrow> node_context" where
  "specialist_context s =
     [text_key ''specification'' (spec_text s) [], text_key ''routed_task_type'' (routed_task_type s) ''general'',
      text_key ''specialist_adapter'' (specialist_adapter s) [], (''routing_confidence'', CReal (opt_or (routing_confidence s) 0)),
      int_key ''spec_critic_score'' (spec_critic_score s) 0, (''loaded_skills'', CSkills (opt_or (loaded_skills s) []))]
     @ (if opt_or (specialist_iteration_count s) 0 > 0 then
          [text_key ''specialist_output'' (specialist_output s) [], text_key ''output_critic_feedback'' (output_critic_feedback s) [],
           int_key ''output_critic_score'' (output_critic_score s) 0]
        else [])"

definition critic_context :: "agent_state \<Rightarrow> node_context" where
  "critic_context s =
     [text_key ''specification'' (spec_text s) [], text_key ''generated_output'' (specialist_output s) [],
      text_key ''routed_task_type'' (routed_task_type s) ''general'', text_key ''specialist_adapter'' (specialist_adapter s) []]"

definition refinement_context :: "agent_state \<Rightarrow> node_context" where
  "refinement_context s =
     [int_key ''output_critic_score'' (output_critic_score s) 0, (''output_critic_scores'', CScores (opt_or (output_critic_scores s) [])),
      text_key ''output_critic_feedback'' (output_critic_feedback s) [], text_key ''specialist_output'' (specialist_output s) [],
      (''iterations_remaining'', CInt (opt_or (max_iterations s) 3 - opt_or (iteration_count s) 0)),
      text_key ''specialist_adapter'' (specialist_adapter s) [], text_key ''routed_task_type'' (routed_task_type s) ''general'']"

definition aggregator_context :: "agent_state \<Rightarrow> node_context" where
  "aggregator_context s =
     [(''sub_tasks'', CTasks (opt_or (sub_tasks s) [])), text_key ''aggregation_strategy'' (aggregation_strategy s) ''merge'',
      text_key ''specification'' (spec_text s) [], (''simulation_report'', CReport (opt_or (simulation_report s) None)),
      (''simulation_conflicts'', CConflicts (opt_or (simulation_conflicts s) [])),
      text_key ''simulation_risk_level'' (simulation_risk_level s) [], (''simulation_skipped'', CFlag (opt_or (simulation_skipped s) True))]"

definition base_context :: "agent_state \<Rightarrow> string \<Rightarrow> node_context" where
  "base_context s request = [(''user_request'', CText request), int_key ''iteration'' (iteration_count s) 0, text_key ''session_id'' (session_id s) []]"

definition node_part :: "agent_state \<Rightarrow> string \<Rightarrow> node_context" where
  "node_part s node =
     (if node = ''executor'' then [text_key ''specification'' (spec_text s) [], (''task_type'', CText ''general'')]
      else if node = ''specialist'' then specialist_context s
      else if node = ''critic'' then critic_context s
      else if node = ''refinement'' then refinement_context s
      else if node = ''router'' then
        [text_key ''specification'' (spec_text s) [], (''task_type'', CText ''general''), int_key ''spec_critic_score'' (spec_critic_score s) 0]
      else if node = ''aggregator'' then aggregator_context s
      else [])"

definition get_context_for_node :: "agent_state \<Rightarrow> string \<Rightarrow> py_exn + node_context" where
  "get_context_for_node s node =
     (case user_request s of
        None \<Rightarrow> Inl (KeyError ''user_request'')
      | Some request \<Rightarrow> Inr (base_context s request @ node_part s node))"

text \<open>Work is judged blind: the context of a critic does not depend on what was scored or said about earlier work, how often it was
  refined, or which skills were loaded. The specialist sees the critique only once it refines.\<close>

theorem critics_judge_blind:
  "get_context_for_node (s\<lparr>output_critic_score := a, output_critic_feedback := b, output_critic_scores := c, specialist_iteration_count := n,
      loaded_skills := d, conversation_history := e\<rparr>) ''critic'' = get_context_for_node s ''critic''"
  by (simp add: get_context_for_node_def base_context_def node_part_def critic_context_def split: option.split)

theorem first_attempt_sees_no_critique:
  assumes "opt_or (specialist_iteration_count s) 0 \<le> 0"
  shows "get_context_for_node (s\<lparr>output_critic_score := a, output_critic_feedback := b, specialist_output := c\<rparr>) ''specialist''
    = get_context_for_node s ''specialist''"
  using assms by (simp add: get_context_for_node_def base_context_def node_part_def specialist_context_def split: option.split)

theorem first_attempt_sees_no_critique_witness:
  "get_context_for_node (empty_state\<lparr>output_critic_score := Some 40, output_critic_feedback := Some ''short'', specialist_output := Some ''x''\<rparr>) ''specialist''
    = get_context_for_node empty_state ''specialist''"
  by (rule first_attempt_sees_no_critique) (simp add: empty_state_def)

text \<open>No key of a context hides another.\<close>

theorem context_keys_are_distinct:
  "get_context_for_node s node = Inr c \<Longrightarrow> distinct (map fst c)"
  by (auto simp: get_context_for_node_def base_context_def node_part_def specialist_context_def critic_context_def refinement_context_def
      aggregator_context_def text_key_def int_key_def split: option.splits if_splits)

theorem context_keys_are_distinct_witness:
  "\<exists>c. get_context_for_node (empty_state\<lparr>user_request := Some ''hi''\<rparr>) ''router'' = Inr c \<and> distinct (map fst c)"
proof -
  obtain c where "get_context_for_node (empty_state\<lparr>user_request := Some ''hi''\<rparr>) ''router'' = Inr c" by (simp add: get_context_for_node_def)
  with context_keys_are_distinct show ?thesis by blast
qed

end
