(* ===== verification/Decisions.thy ===== *)
theory Decisions
  imports Agent_State
begin

text \<open>
  \<^verbatim>\<open>agents/decision_functions.py\<close>: the quality gates and routing decisions. Each inspects the
  state dictionary, may update it in place, and returns the key of the next route. A decision
  that can raise (a \<open>state[k]\<close> on an absent key, an index out of range) returns \<open>py_exn + _\<close>.
\<close>

section \<open>Observability\<close>

text \<open>\<open>_validate_preconditions\<close>: the fields it warns about; it changes nothing.\<close>

definition validate_preconditions :: "(string \<Rightarrow> bool) \<Rightarrow> string list \<Rightarrow> string list" where
  "validate_preconditions present required = filter (\<lambda>f. \<not> present f) required"

section \<open>The output gate\<close>

definition gate_threshold :: "agent_state \<Rightarrow> int" where
  "gate_threshold s = opt_or (effective_quality_threshold s) (opt_or (quality_threshold s) 85)"

definition should_approve_output :: "agent_state \<Rightarrow> string \<times> agent_state" where
  "should_approve_output s =
     (let score = opt_or (output_critic_score s) 0;
          it = opt_or (specialist_iteration_count s) 0;
          limit = opt_or (specialist_max_iterations s) 3;
          s1 = s\<lparr>specialist_iteration_count := Some (it + 1)\<rparr>
      in if score \<ge> gate_threshold s then
           (''approved'', s1\<lparr>quality_gate_decision := Some ''pass''\<rparr>)
         else if it + 1 \<ge> limit then
           (''fail'', s1\<lparr>quality_gate_decision := Some ''max_iterations''\<rparr>)
         else if score < 60 then
           (''fail'', s1\<lparr>quality_gate_decision := Some ''fail''\<rparr>)
         else (''refine_output'', s1\<lparr>quality_gate_decision := Some ''refine''\<rparr>))"

section \<open>Sub-task gates\<close>

text \<open>The increment both sub-task gates make before they decide.\<close>

definition bump_sub_task :: "sub_task \<Rightarrow> sub_task" where
  "bump_sub_task t = t\<lparr>t_iteration_count := Some (opt_or (t_iteration_count t) 0 + 1)\<rparr>"

definition put_sub_task :: "int \<Rightarrow> sub_task \<Rightarrow> agent_state \<Rightarrow> agent_state" where
  "put_sub_task i t s =
     (case py_store (opt_or (sub_tasks s) []) i t of
        None \<Rightarrow> s
      | Some ts \<Rightarrow> s\<lparr>sub_tasks := Some ts\<rparr>)"

definition should_approve_sub_specification :: "agent_state \<Rightarrow> py_exn + (string \<times> agent_state)" where
  "should_approve_sub_specification s =
     (let ts = opt_or (sub_tasks s) []; i = opt_or (current_sub_task_index s) 0 in
      if i \<ge> int (length ts) then Inr (''fail'', s)
      else case py_index ts i of
        None \<Rightarrow> Inl IndexError
      | Some t \<Rightarrow>
          let score = opt_or (t_spec_score t) 0;
              limit = opt_or (t_max_iterations t) 3;
              t1 = bump_sub_task t; s1 = put_sub_task i t1 s
          in if score \<ge> gate_threshold s then Inr (''approved'', s1)
             else if the (t_iteration_count t1) \<ge> limit then Inr (''fail'', s1)
             else if score < 60 then Inr (''fail'', s1)
             else Inr (''refine_sub_spec'', s1))"

definition should_approve_sub_output :: "agent_state \<Rightarrow> py_exn + (string \<times> agent_state)" where
  "should_approve_sub_output s =
     (let ts = opt_or (sub_tasks s) []; i = opt_or (current_sub_task_index s) 0 in
      if i \<ge> int (length ts) then Inr (''fail'', s)
      else case py_index ts i of
        None \<Rightarrow> Inl IndexError
      | Some t \<Rightarrow>
          let score = opt_or (t_output_score t) 0;
              limit = opt_or (t_max_iterations t) 3;
              t1 = bump_sub_task t
          in if score \<ge> gate_threshold s then
               Inr (''approved'', put_sub_task i (t1\<lparr>t_status := Some ''completed''\<rparr>) s)
             else if the (t_iteration_count t1) \<ge> limit then
               Inr (''fail'', put_sub_task i (t1\<lparr>t_status := Some ''failed''\<rparr>) s)
             else if score < 60 then
               Inr (''fail'', put_sub_task i (t1\<lparr>t_status := Some ''failed''\<rparr>) s)
             else Inr (''refine_sub_output'', put_sub_task i t1 s))"

section \<open>The heuristic gate, the loop over sub-tasks, decomposition\<close>

definition should_use_llm_critic :: "agent_state \<Rightarrow> string \<times> agent_state" where
  "should_use_llm_critic s =
     (if opt_or (heuristic_critic_passed s) False then
        (''approve'', s\<lparr>output_critic_score := Some (opt_or (heuristic_critic_score s) 0),
           output_critic_feedback := Some ''Approved by heuristic critic.'',
           quality_gate_decision := Some ''pass''\<rparr>)
      else (''critic_output'', s))"

text \<open>The block of \<open>has_more_subtasks\<close> that moves past a finished sub-task.\<close>

definition advance_sub_task :: "agent_state \<Rightarrow> py_exn + agent_state" where
  "advance_sub_task s =
     (let ts = opt_or (sub_tasks s) []; i = opt_or (current_sub_task_index s) 0;
          done = opt_or (completed_sub_tasks s) 0 in
      if i < int (length ts) then
        (case py_index ts i of
           None \<Rightarrow> Inl IndexError
         | Some t \<Rightarrow>
             if t_status t = Some ''completed'' then
               Inr (s\<lparr>current_sub_task_index := Some (i + 1), completed_sub_tasks := Some (done + 1)\<rparr>)
             else if t_status t = Some ''failed'' then
               Inr (s\<lparr>current_sub_task_index := Some (i + 1)\<rparr>)
             else Inr s)
      else Inr s)"

definition has_more_subtasks :: "agent_state \<Rightarrow> py_exn + (string \<times> agent_state)" where
  "has_more_subtasks s =
     (if opt_or (sub_tasks s) [] = [] then Inr (''done'', s)
      else res_bind (advance_sub_task s) (\<lambda>s1.
        case current_sub_task_index s1 of
          None \<Rightarrow> Inl (KeyError ''current_sub_task_index'')
        | Some i \<Rightarrow>
            if i \<ge> int (length (opt_or (sub_tasks s) [])) then
              (case completed_sub_tasks s1 of
                 None \<Rightarrow> Inl (KeyError ''completed_sub_tasks'')
               | Some _ \<Rightarrow> Inr (''done'', s1))
            else Inr (''more'', s1)))"

definition should_decompose :: "agent_state \<Rightarrow> string" where
  "should_decompose s =
     (if opt_or (requires_decomposition s) False then
        (if opt_or (sub_tasks s) [] = [] then ''single'' else ''decompose'')
      else ''single'')"

section \<open>Lemmas\<close>

named_theorems gate_defs

lemmas [gate_defs] = should_approve_output_def should_approve_sub_output_def
  should_approve_sub_specification_def should_use_llm_critic_def Let_def

lemma put_sub_task_index:
  "py_index (opt_or (sub_tasks s) []) i = Some t
    \<Longrightarrow> py_index (opt_or (sub_tasks (put_sub_task i t' s)) []) i = Some t'"
  by (auto simp: put_sub_task_def dest!: py_store_Some [where v = t'] intro: py_index_store
      split: option.splits)

lemma put_sub_task_frame [simp]:
  "current_sub_task_index (put_sub_task i t s) = current_sub_task_index s"
  "completed_sub_tasks (put_sub_task i t s) = completed_sub_tasks s"
  "specialist_iteration_count (put_sub_task i t s) = specialist_iteration_count s"
  "specialist_max_iterations (put_sub_task i t s) = specialist_max_iterations s"
  "quality_gate_decision (put_sub_task i t s) = quality_gate_decision s"
  "cache_hit (put_sub_task i t s) = cache_hit s"
  by (simp_all add: put_sub_task_def split: option.splits)

lemma put_sub_task_length [simp]:
  "length (opt_or (sub_tasks (put_sub_task i t s)) []) = length (opt_or (sub_tasks s) [])"
  by (auto simp: put_sub_task_def dest: py_store_length split: option.splits)

lemma should_approve_output_count:
  "should_approve_output s = (r, s') \<Longrightarrow>
    specialist_iteration_count s' = Some (opt_or (specialist_iteration_count s) 0 + 1)"
  by (auto simp: gate_defs split: if_splits)

lemma should_approve_output_refine:
  "should_approve_output s = (''refine_output'', s') \<Longrightarrow>
    opt_or (specialist_iteration_count s) 0 + 1 < opt_or (specialist_max_iterations s) 3"
  by (auto simp: gate_defs split: if_splits)

lemma should_approve_output_pass:
  "should_approve_output s = (''approved'', s') \<Longrightarrow>
    quality_gate_decision s' = Some ''pass'' \<and> gate_threshold s \<le> opt_or (output_critic_score s) 0"
  by (auto simp: gate_defs split: if_splits)

lemma should_approve_output_keys:
  "fst (should_approve_output s) \<in> {''approved'', ''refine_output'', ''fail''}"
  by (simp add: gate_defs)

lemma should_use_llm_critic_keys: "fst (should_use_llm_critic s) \<in> {''approve'', ''critic_output''}"
  by (simp add: gate_defs)

lemma should_approve_sub_output_keys:
  "should_approve_sub_output s = Inr (r, s') \<Longrightarrow> r \<in> {''approved'', ''refine_sub_output'', ''fail''}"
  by (auto simp: gate_defs split: if_splits option.splits)

lemma has_more_subtasks_keys: "has_more_subtasks s = Inr (r, s') \<Longrightarrow> r \<in> {''more'', ''done''}"
  by (auto simp: has_more_subtasks_def split: if_splits option.splits)

text \<open>A sub-output that is not sent back for refinement is left with a final status.\<close>

lemma should_approve_sub_output_final:
  assumes "should_approve_sub_output s = Inr (r, s')" and "r \<noteq> ''refine_sub_output''"
    and "opt_or (current_sub_task_index s) 0 < int (length (opt_or (sub_tasks s) []))"
  obtains t where "py_index (opt_or (sub_tasks s') []) (opt_or (current_sub_task_index s) 0) = Some t"
    and "t_status t = Some (if r = ''approved'' then ''completed'' else ''failed'')"
  using assms
  by (auto simp: gate_defs put_sub_task_index split: if_splits option.splits)

lemma should_approve_sub_output_refine:
  assumes "should_approve_sub_output s = Inr (''refine_sub_output'', s')"
  obtains t where "py_index (opt_or (sub_tasks s) []) (opt_or (current_sub_task_index s) 0) = Some t"
    and "s' = put_sub_task (opt_or (current_sub_task_index s) 0) (bump_sub_task t) s"
    and "opt_or (t_iteration_count t) 0 + 1 < opt_or (t_max_iterations t) 3"
  using assms by (auto simp: gate_defs bump_sub_task_def split: if_splits option.splits)

lemma should_approve_sub_output_frame:
  "should_approve_sub_output s = Inr (r, s') \<Longrightarrow>
    current_sub_task_index s' = current_sub_task_index s
    \<and> completed_sub_tasks s' = completed_sub_tasks s
    \<and> length (opt_or (sub_tasks s') []) = length (opt_or (sub_tasks s) [])"
  by (auto simp: gate_defs split: if_splits option.splits)

lemma advance_sub_task_final:
  assumes "py_index (opt_or (sub_tasks s) []) (opt_or (current_sub_task_index s) 0) = Some t"
    and "t_status t = Some ''completed'' \<or> t_status t = Some ''failed''"
    and "opt_or (current_sub_task_index s) 0 < int (length (opt_or (sub_tasks s) []))"
  shows "\<exists>s1. advance_sub_task s = Inr s1
    \<and> current_sub_task_index s1 = Some (opt_or (current_sub_task_index s) 0 + 1)
    \<and> sub_tasks s1 = sub_tasks s"
  using assms by (auto simp: advance_sub_task_def Let_def)

section \<open>Properties\<close>

text \<open>C24: The output gate's verdict on every state: approval exactly when the score reaches the
  effective threshold, another refinement exactly when the score is at least 60 but short of the
  threshold and an iteration is left; the iteration counter always moves by one.\<close>

theorem output_gate_verdicts:
  "let (verdict, s') = should_approve_output s;
       score = opt_or (output_critic_score s) 0;
       spent = opt_or (specialist_iteration_count s) 0 + 1
   in (verdict = ''approved'' \<longleftrightarrow> gate_threshold s \<le> score)
    \<and> (verdict = ''refine_output'' \<longleftrightarrow>
         60 \<le> score \<and> score < gate_threshold s \<and> spent < opt_or (specialist_max_iterations s) 3)
    \<and> verdict \<in> {''approved'', ''refine_output'', ''fail''}
    \<and> (quality_gate_decision s' = Some ''pass'' \<longleftrightarrow> verdict = ''approved'')
    \<and> specialist_iteration_count s' = Some spent"
  by (auto simp: gate_defs)

text \<open>After a sub-task's verdict other than a refinement, the sub-task at the current index has a
  final status, and asking for more sub-tasks moves the index past it.\<close>

theorem judged_sub_task_is_left_behind:
  assumes "should_approve_sub_output s = Inr (verdict, s1)" and "verdict \<noteq> ''refine_sub_output''"
    and "0 \<le> opt_or (current_sub_task_index s) 0"
    and "opt_or (current_sub_task_index s) 0 < int (length (opt_or (sub_tasks s) []))"
    and "has_more_subtasks s1 = Inr (answer, s2)"
  shows "current_sub_task_index s2 = Some (opt_or (current_sub_task_index s) 0 + 1)
    \<and> (answer = ''done'' \<longleftrightarrow>
        opt_or (current_sub_task_index s) 0 + 1 = int (length (opt_or (sub_tasks s) [])))"
proof -
  let ?i = "opt_or (current_sub_task_index s) 0"
  note fr = should_approve_sub_output_frame [OF assms(1)]
  obtain t where t: "py_index (opt_or (sub_tasks s1) []) ?i = Some t"
    "t_status t = Some (if verdict = ''approved'' then ''completed'' else ''failed'')"
    by (rule should_approve_sub_output_final [OF assms(1,2,4)])
  then have "t_status t = Some ''completed'' \<or> t_status t = Some ''failed''"
    by (cases "verdict = ''approved''") auto
  then obtain s3 where s3: "advance_sub_task s1 = Inr s3" "current_sub_task_index s3 = Some (?i + 1)"
    using advance_sub_task_final [of s1 t] t(1) fr assms(4) by auto
  have "opt_or (sub_tasks s1) [] \<noteq> []" using fr assms(3,4) by auto
  then show ?thesis using assms(4,5) s3 fr by (auto simp: has_more_subtasks_def split: if_splits option.splits)
qed

definition two_tasks :: agent_state where
  "two_tasks = empty_state\<lparr>sub_tasks := Some (replicate 2
     \<lparr>t_task_type = None, t_specialist_adapter = None, t_specification = None, t_output = None,
      t_spec_score = None, t_output_score = Some 90, t_output_feedback = None, t_iteration_count = None,
      t_max_iterations = None, t_status = None,
      t_id = None, t_parent_specification = None, t_sibling_tasks = None, t_tool_calls = None, t_spec_feedback = None\<rparr>), current_sub_task_index := Some 0\<rparr>"

lemma two_tasks_run:
  "\<exists>s1 s2. should_approve_sub_output two_tasks = Inr (''approved'', s1)
    \<and> has_more_subtasks s1 = Inr (''more'', s2)"
proof -
  obtain t where t: "sub_tasks two_tasks = Some [t, t]" "t_output_score t = Some 90"
    "current_sub_task_index two_tasks = Some 0" "gate_threshold two_tasks = 85"
    by (simp add: two_tasks_def numeral_2_eq_2 gate_threshold_def empty_state_def)
  then have "should_approve_sub_output two_tasks = Inr (''approved'',
      put_sub_task 0 ((bump_sub_task t)\<lparr>t_status := Some ''completed''\<rparr>) two_tasks)"
    by (simp add: should_approve_sub_output_def py_index_def py_pos_def)
  moreover have "\<exists>s2. has_more_subtasks (put_sub_task 0 ((bump_sub_task t)\<lparr>t_status := Some ''completed''\<rparr>) two_tasks)
      = Inr (''more'', s2)"
    using t by (simp add: has_more_subtasks_def advance_sub_task_def put_sub_task_def py_store_def
        py_index_def py_pos_def)
  ultimately show ?thesis by blast
qed

theorem judged_sub_task_is_left_behind_witness:
  "\<exists>s1 s2. should_approve_sub_output two_tasks = Inr (''approved'', s1)
    \<and> has_more_subtasks s1 = Inr (''more'', s2) \<and> current_sub_task_index s2 = Some 1"
proof -
  obtain s1 s2 where s: "should_approve_sub_output two_tasks = Inr (''approved'', s1)"
    "has_more_subtasks s1 = Inr (''more'', s2)" using two_tasks_run by blast
  have "opt_or (current_sub_task_index two_tasks) 0 = 0" "length (opt_or (sub_tasks two_tasks) []) = 2"
    by (simp_all add: two_tasks_def)
  with judged_sub_task_is_left_behind [OF s(1) _ _ _ s(2)] s show ?thesis by auto
qed

end
