(* ===== verification/Agent_Graph.thy ===== *)
theory Agent_Graph
  imports Graph_Engine Decisions
begin

text \<open>
  \<^verbatim>\<open>agents/graph.py\<close>: the concrete workflow of the agent, built with the engine's operations in the
  order of \<open>create_agent_graph\<close>. The node functions (the wrappers over adapters, tools and
  stores) are a parameter, a table from names to node functions: the theorems hold for every
  behaviour of the nodes. What \<open>create_agent_graph\<close> does before it builds the graph (choosing a
  tool registry, opening stores) is not modelled.
\<close>

section \<open>Routing functions of the graph\<close>

definition sub_output_and_more_check :: "agent_state decision_fn" where
  "sub_output_and_more_check s =
     res_bind (should_approve_sub_output s) (\<lambda>(r, s1).
       if r = ''refine_sub_output'' then Inr (''refine_sub_output'', s1)
       else res_bind (has_more_subtasks s1) (\<lambda>(m, s2).
         if m = ''more'' then Inr (''next_subtask'', s2) else Inr (''aggregate'', s2)))"

definition cache_hit_or_miss :: "agent_state decision_fn" where
  "cache_hit_or_miss s = Inr
     (if opt_or (cache_hit s) False then ''cache_hit''
      else if opt_or (requires_decomposition s) False then
        (if opt_or (parallel_execution s) False then ''parallel_decompose'' else ''decompose'')
      else ''single'', s)"

text \<open>\<open>parallel_next\<close>, \<open>specialist_next\<close> and \<open>sub_specialist_next\<close> have the same body.\<close>

definition clarification_next :: "agent_state decision_fn" where
  "clarification_next s = Inr
     (if opt_or (clarification_needed s) False then ''clarification'' else ''continue'', s)"

section \<open>The graph\<close>

definition agent_node_names :: "string list" where
  "agent_node_names = [''heuristic_critic'', ''router'', ''skill_generator'', ''skill_loader'',
     ''inject_memory'', ''cache_lookup'', ''specialist'', ''critic_output'', ''sub_specialist'',
     ''sub_critic_output'', ''parallel_subtasks'', ''aggregator'', ''final_critic'',
     ''skill_cleanup'', ''persist_memory'', ''memory_note'', ''record_lesson_uses'', ''format'',
     ''post'']"

type_synonym node_table = "string \<Rightarrow> agent_state node_fn"

definition add_agent_nodes :: "node_table \<Rightarrow> agent_state workflow \<Rightarrow> agent_state workflow" where
  "add_agent_nodes tab g = fold (\<lambda>n. add_node n (tab n)) agent_node_names g"

definition add_routing_edges :: "agent_state workflow \<Rightarrow> agent_state workflow" where
  "add_routing_edges g =
     (let g = set_entry_point ''router'' g;
          g = add_edge ''router'' ''skill_generator'' g;
          g = add_edge ''skill_generator'' ''skill_loader'' g;
          g = add_edge ''skill_loader'' ''inject_memory'' g;
          g = add_edge ''inject_memory'' ''cache_lookup'' g;
          g = add_conditional_edges ''cache_lookup'' cache_hit_or_miss
                [(''cache_hit'', ''format''), (''single'', ''specialist''),
                 (''decompose'', ''sub_specialist''), (''parallel_decompose'', ''parallel_subtasks'')] g;
          g = add_conditional_edges ''parallel_subtasks'' clarification_next
                [(''clarification'', ''skill_cleanup''), (''continue'', ''aggregator'')] g
      in g)"

definition add_single_path :: "agent_state workflow \<Rightarrow> agent_state workflow" where
  "add_single_path g =
     (let g = add_conditional_edges ''specialist'' clarification_next
                [(''clarification'', ''skill_cleanup''), (''continue'', ''heuristic_critic'')] g;
          g = add_conditional_edges ''heuristic_critic'' (\<lambda>s. Inr (should_use_llm_critic s))
                [(''approve'', ''format''), (''critic_output'', ''critic_output'')] g;
          g = add_edge ''critic_output'' ''memory_note'' g;
          g = add_edge ''memory_note'' ''record_lesson_uses'' g;
          g = add_conditional_edges ''record_lesson_uses'' (\<lambda>s. Inr (should_approve_output s))
                [(''approved'', ''format''), (''refine_output'', ''specialist''),
                 (''fail'', ''skill_cleanup'')] g
      in g)"

definition add_sub_task_path :: "agent_state workflow \<Rightarrow> agent_state workflow" where
  "add_sub_task_path g =
     (let g = add_conditional_edges ''sub_specialist'' clarification_next
                [(''clarification'', ''skill_cleanup''), (''continue'', ''sub_critic_output'')] g;
          g = add_conditional_edges ''sub_critic_output'' sub_output_and_more_check
                [(''refine_sub_output'', ''sub_specialist''), (''next_subtask'', ''sub_specialist''),
                 (''aggregate'', ''aggregator'')] g;
          g = add_edge ''aggregator'' ''final_critic'' g;
          g = add_conditional_edges ''final_critic'' (\<lambda>s. Inr (should_approve_output s))
                [(''approved'', ''format''), (''refine_output'', ''skill_cleanup''),
                 (''fail'', ''skill_cleanup'')] g
      in g)"

definition add_final_steps :: "agent_state workflow \<Rightarrow> agent_state workflow" where
  "add_final_steps g =
     (let g = add_edge ''format'' ''post'' g;
          g = add_edge ''post'' ''skill_cleanup'' g;
          g = add_edge ''skill_cleanup'' ''persist_memory'' g;
          g = add_edge ''persist_memory'' END g
      in g)"

definition agent_workflow :: "node_table \<Rightarrow> agent_state workflow" where
  "agent_workflow tab =
     add_final_steps (add_sub_task_path (add_single_path (add_routing_edges
       (add_agent_nodes tab new_workflow))))"

definition create_agent_graph :: "node_table \<Rightarrow> int \<Rightarrow> int \<Rightarrow> engine_exn + agent_state compiled" where
  "create_agent_graph tab node_timeout workflow_timeout =
     compile_wf node_timeout workflow_timeout (agent_workflow tab)"

section \<open>The compiled graph in closed form\<close>

text \<open>The graph that \<open>create_agent_graph\<close> returns, as data the simplifier can look up.\<close>

definition agent_edges :: "(string, string) py_dict" where
  "agent_edges = [(''router'', ''skill_generator''), (''skill_generator'', ''skill_loader''),
     (''skill_loader'', ''inject_memory''), (''inject_memory'', ''cache_lookup''),
     (''critic_output'', ''memory_note''), (''memory_note'', ''record_lesson_uses''),
     (''aggregator'', ''final_critic''), (''format'', ''post''), (''post'', ''skill_cleanup''),
     (''skill_cleanup'', ''persist_memory''), (''persist_memory'', ''__end__'')]"

definition agent_cond :: "(string, agent_state route) py_dict" where
  "agent_cond =
    [(''cache_lookup'', cache_hit_or_miss,
        [(''cache_hit'', ''format''), (''single'', ''specialist''),
         (''decompose'', ''sub_specialist''), (''parallel_decompose'', ''parallel_subtasks'')]),
     (''parallel_subtasks'', clarification_next,
        [(''clarification'', ''skill_cleanup''), (''continue'', ''aggregator'')]),
     (''specialist'', clarification_next,
        [(''clarification'', ''skill_cleanup''), (''continue'', ''heuristic_critic'')]),
     (''heuristic_critic'', \<lambda>s. Inr (should_use_llm_critic s),
        [(''approve'', ''format''), (''critic_output'', ''critic_output'')]),
     (''record_lesson_uses'', \<lambda>s. Inr (should_approve_output s),
        [(''approved'', ''format''), (''refine_output'', ''specialist''), (''fail'', ''skill_cleanup'')]),
     (''sub_specialist'', clarification_next,
        [(''clarification'', ''skill_cleanup''), (''continue'', ''sub_critic_output'')]),
     (''sub_critic_output'', sub_output_and_more_check,
        [(''refine_sub_output'', ''sub_specialist''), (''next_subtask'', ''sub_specialist''),
         (''aggregate'', ''aggregator'')]),
     (''final_critic'', \<lambda>s. Inr (should_approve_output s),
        [(''approved'', ''format''), (''refine_output'', ''skill_cleanup''), (''fail'', ''skill_cleanup'')])]"

definition agent_graph :: "node_table \<Rightarrow> int \<Rightarrow> int \<Rightarrow> agent_state compiled" where
  "agent_graph tab nt wt = \<lparr>c_nodes = map (\<lambda>n. (n, tab n)) agent_node_names, c_edges = agent_edges,
     c_cond = agent_cond, c_entry = ''router'', c_max_steps = DEFAULT_MAX_STEPS,
     c_node_timeout = nt, c_workflow_timeout = wt\<rparr>"

lemma agent_nodes_eq: "wf_nodes (add_agent_nodes tab new_workflow) = map (\<lambda>n. (n, tab n)) agent_node_names"
  by (simp add: add_agent_nodes_def agent_node_names_def add_node_def new_workflow_def dict_set_def)

lemma create_agent_graph_eq: "create_agent_graph tab nt wt = Inr (agent_graph tab nt wt)"
proof -
  have frame: "wf_edges (add_agent_nodes tab new_workflow) = []"
    "wf_cond (add_agent_nodes tab new_workflow) = []"
    by (simp_all add: add_agent_nodes_def agent_node_names_def add_node_def new_workflow_def)
  have nodes: "wf_nodes (agent_workflow tab) = map (\<lambda>n. (n, tab n)) agent_node_names"
    and edges: "wf_edges (agent_workflow tab) = agent_edges"
    and cond: "wf_cond (agent_workflow tab) = agent_cond"
    and entry: "wf_entry (agent_workflow tab) = Some ''router''"
    by (simp_all add: agent_workflow_def add_final_steps_def add_sub_task_path_def
        add_single_path_def add_routing_edges_def add_edge_def add_conditional_edges_def
        set_entry_point_def agent_nodes_eq frame dict_set_def END_def agent_edges_def agent_cond_def)
  have "dict_has (map (\<lambda>n. (n, tab n)) agent_node_names) ''router''"
    by (simp add: dict_has_def dict_get_def agent_node_names_def)
  then show ?thesis
    by (simp add: create_agent_graph_def compile_wf_def entry nodes edges cond agent_graph_def)
qed


section \<open>Steps of the graph\<close>

named_theorems agent_step

lemma agent_graph_sel [simp]:
  "c_nodes (agent_graph tab nt wt) = map (\<lambda>n. (n, tab n)) agent_node_names"
  "c_edges (agent_graph tab nt wt) = agent_edges"
  "c_cond (agent_graph tab nt wt) = agent_cond"
  "c_entry (agent_graph tab nt wt) = ''router''"
  "c_max_steps (agent_graph tab nt wt) = 50"
  "c_node_timeout (agent_graph tab nt wt) = nt"
  "c_workflow_timeout (agent_graph tab nt wt) = wt"
  by (simp_all add: agent_graph_def DEFAULT_MAX_STEPS_def)

lemma agent_node_get:
  "dict_get (map (\<lambda>n. (n, tab n)) agent_node_names) n
    = (if n \<in> set agent_node_names then Some (tab n) else None)"
  by (simp add: dict_get_def map_of_map_restrict restrict_map_def)

lemma agent_resolve_linear [agent_step]:
  "resolve_next (agent_graph tab nt wt) ''router'' s = Inr (''skill_generator'', s)"
  "resolve_next (agent_graph tab nt wt) ''skill_generator'' s = Inr (''skill_loader'', s)"
  "resolve_next (agent_graph tab nt wt) ''skill_loader'' s = Inr (''inject_memory'', s)"
  "resolve_next (agent_graph tab nt wt) ''inject_memory'' s = Inr (''cache_lookup'', s)"
  "resolve_next (agent_graph tab nt wt) ''critic_output'' s = Inr (''memory_note'', s)"
  "resolve_next (agent_graph tab nt wt) ''memory_note'' s = Inr (''record_lesson_uses'', s)"
  "resolve_next (agent_graph tab nt wt) ''aggregator'' s = Inr (''final_critic'', s)"
  "resolve_next (agent_graph tab nt wt) ''format'' s = Inr (''post'', s)"
  "resolve_next (agent_graph tab nt wt) ''post'' s = Inr (''skill_cleanup'', s)"
  "resolve_next (agent_graph tab nt wt) ''skill_cleanup'' s = Inr (''persist_memory'', s)"
  "resolve_next (agent_graph tab nt wt) ''persist_memory'' s = Inr (END, s)"
  by (simp_all add: resolve_next_def dict_get_def agent_edges_def agent_cond_def END_def)

lemma agent_resolve_cond [agent_step]:
  "resolve_next (agent_graph tab nt wt) ''cache_lookup'' s =
     Inr (if opt_or (cache_hit s) False then ''format''
          else if opt_or (requires_decomposition s) False then
            (if opt_or (parallel_execution s) False then ''parallel_subtasks'' else ''sub_specialist'')
          else ''specialist'', s)"
  "resolve_next (agent_graph tab nt wt) ''parallel_subtasks'' s =
     Inr (if opt_or (clarification_needed s) False then ''skill_cleanup'' else ''aggregator'', s)"
  "resolve_next (agent_graph tab nt wt) ''specialist'' s =
     Inr (if opt_or (clarification_needed s) False then ''skill_cleanup'' else ''heuristic_critic'', s)"
  "resolve_next (agent_graph tab nt wt) ''sub_specialist'' s =
     Inr (if opt_or (clarification_needed s) False then ''skill_cleanup'' else ''sub_critic_output'', s)"
  "resolve_next (agent_graph tab nt wt) ''heuristic_critic'' s =
     (case should_use_llm_critic s of (r, s') \<Rightarrow>
        Inr (if r = ''approve'' then ''format'' else ''critic_output'', s'))"
  "resolve_next (agent_graph tab nt wt) ''record_lesson_uses'' s =
     (case should_approve_output s of (r, s') \<Rightarrow>
        Inr (if r = ''approved'' then ''format''
             else if r = ''refine_output'' then ''specialist'' else ''skill_cleanup'', s'))"
  "resolve_next (agent_graph tab nt wt) ''final_critic'' s =
     (case should_approve_output s of (r, s') \<Rightarrow>
        Inr (if r = ''approved'' then ''format'' else ''skill_cleanup'', s'))"
  using should_use_llm_critic_keys [of s] should_approve_output_keys [of s]
  by (auto simp: resolve_next_def dict_get_def agent_cond_def cache_hit_or_miss_def
      clarification_next_def split: prod.splits)

lemma agent_resolve_sub_critic [agent_step]:
  "resolve_next (agent_graph tab nt wt) ''sub_critic_output'' s =
     (case sub_output_and_more_check s of
        Inl e \<Rightarrow> Inl (Raised e)
      | Inr (r, s') \<Rightarrow> Inr (if r = ''aggregate'' then ''aggregator'' else ''sub_specialist'', s'))"
  by (cases "sub_output_and_more_check s")
    (auto simp: resolve_next_def dict_get_def agent_cond_def sub_output_and_more_check_def
      split: if_splits)

lemma agent_name_cases:
  assumes "n \<in> set agent_node_names"
  obtains "n = ''heuristic_critic''" | "n = ''router''" | "n = ''skill_generator''"
    | "n = ''skill_loader''" | "n = ''inject_memory''" | "n = ''cache_lookup''" | "n = ''specialist''"
    | "n = ''critic_output''" | "n = ''sub_specialist''" | "n = ''sub_critic_output''"
    | "n = ''parallel_subtasks''" | "n = ''aggregator''" | "n = ''final_critic''"
    | "n = ''skill_cleanup''" | "n = ''persist_memory''" | "n = ''memory_note''"
    | "n = ''record_lesson_uses''" | "n = ''format''" | "n = ''post''"
  using assms unfolding agent_node_names_def list.set insert_iff by (elim disjE emptyE)

lemma agent_graph_targets_ok: "targets_ok (agent_graph tab nt wt)"
  by (simp add: targets_ok_def target_ok_def dict_has_def dict_get_def agent_edges_def
      agent_cond_def END_def agent_node_names_def)

lemma sub_output_and_more_check_keys:
  "sub_output_and_more_check s = Inr (r, s') \<Longrightarrow> r \<in> {''refine_sub_output'', ''next_subtask'', ''aggregate''}"
  by (auto simp: sub_output_and_more_check_def split: prod.splits if_splits)

lemma agent_graph_routes_total: "routes_total (agent_graph tab nt wt)"
proof -
  have "dict_has rs r"
    if "(a, d, rs) \<in> set agent_cond" "d s = Inr (r, s')" for a d rs s r s'
    using that should_use_llm_critic_keys [of s] should_approve_output_keys [of s]
      sub_output_and_more_check_keys [of s r s']
    by (auto simp: agent_cond_def cache_hit_or_miss_def clarification_next_def dict_has_def
        dict_get_def split: if_splits)
  then show ?thesis by (auto simp: routes_total_def dest!: dict_get_mem)
qed

text \<open>Every completed path ends with the cleanup and the persisting of memory.\<close>

lemma agent_succs_tail:
  "succs (agent_graph tab nt wt) ''skill_cleanup'' = [''persist_memory'']"
  "succs (agent_graph tab nt wt) ''persist_memory'' = [END]"
  by (simp_all add: succs_def dict_get_def agent_edges_def agent_cond_def END_def)

lemma agent_succs_inner:
  assumes "n \<noteq> ''skill_cleanup''" "n \<noteq> ''persist_memory''" "n \<in> set agent_node_names"
    and "t \<in> set (succs (agent_graph tab nt wt) n)"
  shows "t \<noteq> END \<and> t \<noteq> ''persist_memory'' \<and> t \<in> set agent_node_names"
  using assms(3)
proof (cases rule: agent_name_cases)
qed (use assms in \<open>auto simp: succs_def dict_get_def agent_edges_def agent_cond_def END_def
    agent_node_names_def\<close>)

lemma agent_path_tail:
  assumes "is_path (agent_graph tab nt wt) cur ns" and "cur \<in> set agent_node_names"
    and "cur \<noteq> ''persist_memory''"
  shows "\<exists>pre. ns = pre @ [''skill_cleanup'', ''persist_memory'']"
  using assms
proof (induction ns arbitrary: cur)
  case Nil
  then show ?case by (auto simp: END_def agent_node_names_def)
next
  case (Cons n ns)
  then obtain t where t: "n = cur" "t \<in> set (succs (agent_graph tab nt wt) cur)"
    "is_path (agent_graph tab nt wt) t ns" by auto
  show ?case
  proof (cases "cur = ''skill_cleanup''")
    case True
    then have "is_path (agent_graph tab nt wt) ''persist_memory'' ns" using t by (simp add: agent_succs_tail)
    then have "ns = [''persist_memory'']"
      by (cases ns; cases "tl ns") (auto simp: agent_succs_tail END_def)
    then show ?thesis using t True by (intro exI [of _ "[]"]) simp
  next
    case False
    from agent_succs_inner [OF False Cons.prems(3,2) t(2)] Cons.IH [OF t(3)]
    obtain pre where "ns = pre @ [''skill_cleanup'', ''persist_memory'']" by auto
    then show ?thesis using t(1) by (intro exI [of _ "cur # pre"]) simp
  qed
qed

text \<open>The formatting node is entered from a cache hit or through a passed gate only.\<close>

lemma agent_format_gate:
  assumes "n \<in> set agent_node_names"
    and "resolve_next (agent_graph tab nt wt) n s = Inr (''format'', s')"
  shows "(n = ''cache_lookup'' \<and> cache_hit s' = Some True) \<or> quality_gate_decision s' = Some ''pass''"
  using assms(1)
proof (cases rule: agent_name_cases)
qed (use assms(2) should_approve_output_pass [of s s'] in
    \<open>auto simp: agent_step END_def should_use_llm_critic_def opt_or_def
      split: if_splits prod.splits sum.splits option.splits\<close>)

lemma agent_format_accepted:
  assumes nxt: "resolve_next (agent_graph tab nt wt) n x = Inr (''format'', s2)"
  shows "n = ''cache_lookup'' \<and> cache_hit x = Some True
    \<or> n = ''heuristic_critic'' \<and> heuristic_critic_passed x = Some True
    \<or> n \<in> {''record_lesson_uses'', ''final_critic''}
        \<and> gate_threshold x \<le> opt_or (output_critic_score x) 0"
proof (cases "n \<in> set agent_node_names")
  case True
  then show ?thesis
  proof (cases rule: agent_name_cases)
  qed (use nxt should_approve_output_pass [of x s2] in
      \<open>auto simp: agent_step END_def should_use_llm_critic_def opt_or_def
        split: if_splits prod.splits sum.splits option.splits\<close>)
next
  case False
  then have "dict_get agent_cond n = None" "dict_get agent_edges n = None"
    by (auto simp: dict_get_def agent_cond_def agent_edges_def agent_node_names_def)
  then show ?thesis using nxt by (simp add: resolve_next_def END_def)
qed

section \<open>A sample run\<close>

text \<open>
  Nodes for the witnesses: the router starts a fresh request, the critic scores the output with
  90, every other node leaves the state as it is.
\<close>

definition demo_request :: agent_state where
  "demo_request = create_initial_state ''write a haiku'' None 3 85 ''session'' 0"

definition demo_table :: node_table where
  "demo_table n w s = \<lparr>run_duration = 1, run_cancels = None, run_outcome = Inr
     (if n = ''router'' then demo_request
      else if n = ''critic_output'' then s\<lparr>output_critic_score := Some 90\<rparr> else s)\<rparr>"

definition demo_graph :: "agent_state compiled" where
  "demo_graph = agent_graph demo_table 0 0"

definition demo_world :: "nat \<Rightarrow> (string \<times> real) list \<Rightarrow> engine_world" where
  "demo_world t obs = \<lparr>clock = real t, token = None, observed = obs\<rparr>"

definition demo_scored :: agent_state where
  "demo_scored = demo_request\<lparr>output_critic_score := Some 90\<rparr>"

definition demo_passed :: agent_state where
  "demo_passed = demo_scored\<lparr>specialist_iteration_count := Some 1, quality_gate_decision := Some ''pass''\<rparr>"

lemma demo_step:
  assumes "cur \<in> set agent_node_names" and "k < 50"
    and "run_outcome (demo_table cur (demo_world k obs) s) = Inr s1"
    and "resolve_next demo_graph cur s1 = Inr (nxt, s2)"
    and "stream_loop demo_graph 0 (int (Suc k)) nxt s2 (demo_world (Suc k) (obs @ [(cur, 1)])) = (ys, r, w')"
  shows "stream_loop demo_graph 0 (int k) cur s (demo_world k obs) = ((cur, s1) # ys, r, w')"
proof (rule stream_loop_step [OF _ _ assms(4)])
  show "cur \<noteq> END" using assms(1) by (auto simp: agent_node_names_def END_def)
  show "guarded_node demo_graph 0 (int k) cur s (demo_world k obs)
    = (Inr s1, demo_world (Suc k) (obs @ [(cur, 1)]))"
    using assms(1-3) by (simp add: guarded_node_def demo_graph_def agent_node_get demo_world_def
        check_workflow_timeout_def check_cancellation_def execute_node_def Let_def demo_table_def)
qed (use assms(5) in \<open>simp add: add.commute\<close>)

lemma demo_resolve_gates:
  "resolve_next demo_graph ''cache_lookup'' demo_request = Inr (''specialist'', demo_request)"
  "resolve_next demo_graph ''specialist'' demo_request = Inr (''heuristic_critic'', demo_request)"
  "resolve_next demo_graph ''heuristic_critic'' demo_request = Inr (''critic_output'', demo_request)"
  "resolve_next demo_graph ''record_lesson_uses'' demo_scored = Inr (''format'', demo_passed)"
  by (simp_all add: demo_graph_def agent_step demo_request_def create_initial_state_def gate_defs
      demo_scored_def demo_passed_def gate_threshold_def empty_state_def)

lemmas demo_resolve = demo_resolve_gates
  agent_resolve_linear [of demo_table 0 0, folded demo_graph_def]

lemma demo_outcome:
  "run_outcome (demo_table ''router'' w s) = Inr demo_request"
  "run_outcome (demo_table ''critic_output'' w demo_request) = Inr demo_scored"
  "n \<noteq> ''router'' \<Longrightarrow> n \<noteq> ''critic_output'' \<Longrightarrow> run_outcome (demo_table n w s) = Inr s"
  by (simp_all add: demo_table_def demo_scored_def)

definition demo_path :: "string list" where
  "demo_path = [''router'', ''skill_generator'', ''skill_loader'', ''inject_memory'', ''cache_lookup'',
     ''specialist'', ''heuristic_critic'', ''critic_output'', ''memory_note'', ''record_lesson_uses'',
     ''format'', ''post'', ''skill_cleanup'', ''persist_memory'']"

definition demo_states :: "agent_state list" where
  "demo_states = replicate 7 demo_request @ replicate 3 demo_scored @ replicate 4 demo_passed"

lemma demo_run:
  "\<exists>w'. stream demo_graph empty_state (demo_world 0 [])
    = (zip demo_path demo_states, Inr demo_passed, w')"
proof -
  have entry: "c_entry demo_graph = ''router''" "clock (demo_world 0 []) = 0"
    by (simp_all add: demo_graph_def demo_world_def)
  have "\<exists>w'. stream_loop demo_graph 0 (int 0) ''router'' empty_state (demo_world 0 [])
    = (zip demo_path demo_states, Inr demo_passed, w')"
    unfolding demo_path_def demo_states_def
    apply (simp add: numeral_eq_Suc del: of_nat_0)
    apply (rule exI)
    apply (rule demo_step, simp add: agent_node_names_def, simp, simp add: demo_outcome,
        rule demo_resolve)+
    apply (rule stream_loop_END)
    done
  then show ?thesis by (simp add: stream_def entry)
qed

section \<open>Properties\<close>

text \<open>C23: The workflow that \<open>create_agent_graph\<close> builds compiles, and whatever its nodes do a run
  never fails on a missing entry point, an unregistered node or a decision without a route.\<close>

theorem agent_graph_never_misroutes:
  "\<exists>c. create_agent_graph tab nt wt = Inr c
    \<and> (\<forall>s w n. fst (invoke c s w) \<noteq> Inl (NoNode n))
    \<and> (\<forall>s w n r ks. fst (invoke c s w) \<noteq> Inl (BadRoute n r ks))"
proof -
  let ?c = "agent_graph tab nt wt"
  have "fst (invoke ?c s w) \<noteq> Inl (NoNode n) \<and> fst (invoke ?c s w) \<noteq> Inl (BadRoute n r ks)"
    for s w n r ks
  proof -
    obtain ys r' w' where run: "stream_loop ?c (clock w) 0 ''router'' s w = (ys, r', w')"
      "invoke ?c s w = (r', w')" by (rule stream_run [of ?c w s]) simp
    have "target_ok ?c ''router''"
      using agent_graph_targets_ok [of tab nt wt] by (simp add: targets_ok_def)
    then show ?thesis
      using stream_loop_wf [OF run(1) agent_graph_targets_ok agent_graph_routes_total] run(2)
      by (cases r') auto
  qed
  then show ?thesis by (auto simp: create_agent_graph_eq)
qed

text \<open>C5: Every run that returns a state, by whatever route (cache hit, clarification, failed gate,
  aggregation), ends with the skill cleanup followed by the persisting of memory.\<close>

theorem agent_run_cleans_up_and_persists:
  assumes "stream (agent_graph tab nt wt) s w = (ys, Inr s', w')"
  shows "\<exists>pre. map fst ys = pre @ [''skill_cleanup'', ''persist_memory'']"
  using stream_loop_path [OF assms [unfolded stream_def] refl]
  by (intro agent_path_tail) (auto simp: agent_node_names_def)

theorem agent_run_cleans_up_and_persists_witness:
  "\<exists>pre. demo_path = pre @ [''skill_cleanup'', ''persist_memory'']"
proof -
  obtain w' where "stream (agent_graph demo_table 0 0) empty_state (demo_world 0 [])
    = (zip demo_path demo_states, Inr demo_passed, w')"
    using demo_run unfolding demo_graph_def by blast
  from agent_run_cleans_up_and_persists [OF this] show ?thesis
    by (simp add: demo_path_def demo_states_def)
qed

text \<open>C2: No output is formatted without having been accepted: the node that ran just before
  \<open>format\<close> is the cache lookup with a hit, the heuristic critic with a pass, or a critic whose
  score reaches the effective quality threshold.\<close>

theorem agent_format_only_accepted:
  assumes "fst (stream (agent_graph tab nt wt) s w) = pre @ (n, x) # (''format'', y) # post"
  shows "n = ''cache_lookup'' \<and> cache_hit x = Some True
    \<or> n = ''heuristic_critic'' \<and> heuristic_critic_passed x = Some True
    \<or> n \<in> {''record_lesson_uses'', ''final_critic''}
        \<and> gate_threshold x \<le> opt_or (output_critic_score x) 0"
proof -
  obtain ys r w' where run: "stream_loop (agent_graph tab nt wt) (clock w) 0 ''router'' s w = (ys, r, w')"
    "stream (agent_graph tab nt wt) s w = (ys, r, w')"
    by (rule stream_run [of "agent_graph tab nt wt" w s]) simp
  then obtain s2 where "resolve_next (agent_graph tab nt wt) n x = Inr (''format'', s2)"
    using stream_loop_adjacent [OF run(1), of pre n x "''format''" y post] assms by auto
  then show ?thesis by (rule agent_format_accepted)
qed

theorem agent_format_only_accepted_witness:
  "gate_threshold demo_scored \<le> opt_or (output_critic_score demo_scored) 0"
proof -
  obtain w' where "stream (agent_graph demo_table 0 0) empty_state (demo_world 0 [])
    = (zip demo_path demo_states, Inr demo_passed, w')"
    using demo_run unfolding demo_graph_def by blast
  then have "fst (stream (agent_graph demo_table 0 0) empty_state (demo_world 0 []))
    = zip (take 9 demo_path) (take 9 demo_states) @ (''record_lesson_uses'', demo_scored)
      # (''format'', demo_passed) # zip (drop 11 demo_path) (drop 11 demo_states)"
    by (simp add: demo_path_def demo_states_def numeral_eq_Suc)
  from agent_format_only_accepted [OF this] show ?thesis by simp
qed

section \<open>A run of the workflow\<close>

text \<open>
  \<^verbatim>\<open>agents/workflow_factory.py\<close>: one run of the agent graph for a heartbeat. The initial state, the
  streaming of the graph, and what its consumer keeps: the state an interrupt handler sees, the name of the
  last node, the final result. The keys of the state that only scope the memory (\<open>agent_id\<close>, \<open>task_id\<close>,
  \<open>agent_instructions\<close>) are a field of their own.
\<close>

record run_args =
  ra_request :: string
  ra_task_type :: string
  ra_tier :: string
  ra_clarified :: bool \<comment> \<open>a reply to a clarification is given\<close>
  ra_role :: string
  ra_agent_id :: string
  ra_task_id :: string

record run_limits =
  rl_max_iterations :: int
  rl_threshold :: int
  rl_node_timeout :: int
  rl_workflow_timeout :: int

text \<open>\<open>agent_id\<close> falls back on the role; an empty string is no key.\<close>

definition memory_keys :: "run_args \<Rightarrow> (string, string) py_dict" where
  "memory_keys a =
     (if ra_agent_id a \<noteq> [] then [(''agent_id'', ra_agent_id a)]
      else if ra_role a \<noteq> [] then [(''agent_id'', ra_role a)] else [])
     @ (if ra_task_id a \<noteq> [] then [(''task_id'', ra_task_id a)] else [])"

definition tier_threshold :: "string \<Rightarrow> int" where
  "tier_threshold tier = dict_get_or [(''fast'', 70), (''standard'', 75), (''full'', 85)] tier 85"

definition workflow_initial_state :: "run_args \<Rightarrow> run_limits \<Rightarrow> string \<Rightarrow> real \<Rightarrow> agent_state" where
  "workflow_initial_state a l generated_id now =
     (let s0 = create_initial_state (ra_request a) None (rl_max_iterations l) (rl_threshold l) generated_id now;
          s1 = (if ra_task_type a \<noteq> [] then s0\<lparr>routed_task_type := Some (ra_task_type a)\<rparr> else s0);
          s2 = (if ra_tier a \<noteq> [] then s1\<lparr>complexity_tier := Some (ra_tier a),
                  effective_quality_threshold := Some (tier_threshold (ra_tier a))\<rparr> else s1)
      in if ra_clarified a then s2\<lparr>clarification_needed := Some False, clarification_questions := Some []\<rparr> else s2)"

record run_view =
  rv_partial :: "agent_state option" \<comment> \<open>what the interrupt handler holds; empty before the first node ends\<close>
  rv_last_node :: "string option"
  rv_nodes :: "string list" \<comment> \<open>the keys the updates leave in the final state\<close>

definition consume :: "string \<times> agent_state \<Rightarrow> run_view \<Rightarrow> run_view" where
  "consume u v = v\<lparr>rv_partial := Some (snd u), rv_last_node := Some (fst u),
     rv_nodes := (if fst u \<in> set (rv_nodes v) then rv_nodes v else rv_nodes v @ [fst u])\<rparr>"

definition run_workflow ::
    "run_args \<Rightarrow> run_limits \<Rightarrow> node_table \<Rightarrow> string \<Rightarrow> engine_world
      \<Rightarrow> (engine_exn + agent_state) \<times> run_view \<times> engine_world" where
  "run_workflow a l tab generated_id w =
     (case create_agent_graph tab (rl_node_timeout l) (rl_workflow_timeout l) of
        Inl e \<Rightarrow> (Inl e, \<lparr>rv_partial = None, rv_last_node = None, rv_nodes = []\<rparr>, w)
      | Inr g \<Rightarrow>
          (case stream g (workflow_initial_state a l generated_id (clock w)) w of
             (ys, r, w') \<Rightarrow>
               (r, fold consume ys \<lparr>rv_partial = None, rv_last_node = None, rv_nodes = []\<rparr>, w')))"

section \<open>Lemmas\<close>

lemma consume_fold:
  "ys \<noteq> [] \<Longrightarrow> rv_partial (fold consume ys v) = Some (snd (last ys)) \<and> rv_last_node (fold consume ys v) = Some (fst (last ys))"
  by (induction ys arbitrary: v rule: rev_induct) (simp_all add: consume_def)

lemma consume_nodes: "set (rv_nodes (fold consume ys v)) = set (rv_nodes v) \<union> fst ` set ys"
  by (induction ys arbitrary: v) (auto simp: consume_def)

lemma initial_state_sel [simp]:
  "user_request (workflow_initial_state a l g t) = Some (ra_request a)"
  "clarification_needed (workflow_initial_state a l g t) = Some False"
  "cache_hit (workflow_initial_state a l g t) = Some False"
  "quality_threshold (workflow_initial_state a l g t) = Some (rl_threshold l)"
  by (simp_all add: workflow_initial_state_def create_initial_state_def empty_state_def Let_def)

section \<open>Properties\<close>

text \<open>A run that returns leaves the memory persisted as the last node, and the interrupt handler then holds
  the state that node ended with; a run that raises leaves the handler the state of the last node that
  finished, or nothing when none has.\<close>
theorem run_workflow_keeps_last_state:
  assumes "run_workflow a l tab gid w = (r, v, w')"
  shows "((\<exists>s. r = Inr s) \<longrightarrow> rv_last_node v = Some ''persist_memory'' \<and> ''skill_cleanup'' \<in> set (rv_nodes v))
    \<and> (\<exists>ys r' w2. stream (agent_graph tab (rl_node_timeout l) (rl_workflow_timeout l))
        (workflow_initial_state a l gid (clock w)) w = (ys, r', w2)
      \<and> r = r' \<and> rv_partial v = (if ys = [] then None else Some (snd (last ys))))"
proof -
  let ?g = "agent_graph tab (rl_node_timeout l) (rl_workflow_timeout l)"
  let ?s = "workflow_initial_state a l gid (clock w)"
  obtain ys r2 w2 where st: "stream ?g ?s w = (ys, r2, w2)" by (metis surj_pair)
  then have run: "r = r2" "v = fold consume ys \<lparr>rv_partial = None, rv_last_node = None, rv_nodes = []\<rparr>"
    using assms by (simp_all add: run_workflow_def create_agent_graph_eq)
  have "(\<exists>s. r = Inr s) \<longrightarrow> rv_last_node v = Some ''persist_memory'' \<and> ''skill_cleanup'' \<in> set (rv_nodes v)"
  proof
    assume "\<exists>s. r = Inr s"
    then obtain s' where "stream_loop ?g (clock w) 0 (c_entry ?g) ?s w = (ys, Inr s', w2)"
      using st run(1) by (auto simp: stream_def)
    from stream_loop_path [OF this refl] have "\<exists>pre. map fst ys = pre @ [''skill_cleanup'', ''persist_memory'']"
      by (intro agent_path_tail) (auto simp: agent_node_names_def)
    then obtain pre where pre: "map fst ys = pre @ [''skill_cleanup'', ''persist_memory'']" by blast
    then have ne: "ys \<noteq> []" by auto
    have "fst (last ys) = ''persist_memory''" using pre last_map [OF ne, of fst] by simp
    moreover have "''skill_cleanup'' \<in> fst ` set ys" unfolding set_map [symmetric] pre by simp
    ultimately show "rv_last_node v = Some ''persist_memory'' \<and> ''skill_cleanup'' \<in> set (rv_nodes v)"
      unfolding run(2) consume_nodes using consume_fold [OF ne] by simp
  qed
  moreover have "rv_partial v = (if ys = [] then None else Some (snd (last ys)))"
    unfolding run(2) by (cases "ys = []") (simp_all add: consume_fold)
  ultimately show ?thesis using st run(1) by blast
qed

definition sample_args :: run_args where
  "sample_args = \<lparr>ra_request = ''q'', ra_task_type = [], ra_tier = [], ra_clarified = False, ra_role = [],
     ra_agent_id = [], ra_task_id = []\<rparr>"

definition sample_limits :: run_limits where
  "sample_limits = \<lparr>rl_max_iterations = 3, rl_threshold = 85, rl_node_timeout = 0, rl_workflow_timeout = 0\<rparr>"

theorem run_workflow_keeps_last_state_witness:
  "\<exists>r v w' ys r' w2. run_workflow sample_args sample_limits demo_table ''s'' (demo_world 0 []) = (r, v, w')
    \<and> stream (agent_graph demo_table 0 0) (workflow_initial_state sample_args sample_limits ''s'' (clock (demo_world 0 [])))
        (demo_world 0 []) = (ys, r', w2)
    \<and> r = r' \<and> rv_partial v = (if ys = [] then None else Some (snd (last ys)))"
proof -
  obtain r v w' where run: "run_workflow sample_args sample_limits demo_table ''s'' (demo_world 0 []) = (r, v, w')"
    by (metis surj_pair)
  have l: "rl_node_timeout sample_limits = 0" "rl_workflow_timeout sample_limits = 0" by (simp_all add: sample_limits_def)
  from run_workflow_keeps_last_state [OF run, unfolded l] run show ?thesis by blast
qed

text \<open>A preset tier and its threshold pass through unless the tier is unknown, which counts as the full one.\<close>

lemma initial_threshold:
  "effective_quality_threshold (workflow_initial_state a l g t) =
     Some (if ra_tier a = [] then rl_threshold l else if ra_tier a = ''fast'' then 70
       else if ra_tier a = ''standard'' then 75 else 85)"
  by (simp add: workflow_initial_state_def create_initial_state_def empty_state_def Let_def tier_threshold_def
      dict_get_or_def dict_get_def)

end
