(* ===== verification/Graph_Termination.thy ===== *)
theory Graph_Termination
  imports Agent_Graph
begin

text \<open>
  Termination of the agent graph within the engine's step limit. The refinement loops of
  \<^verbatim>\<open>agents/graph.py\<close> are bounded by counters the decision functions keep in the state; the
  rank of a node and a state counts the steps that are left.
\<close>

section \<open>Budgets\<close>

text \<open>Refinements left for the specialist; for all sub-tasks together; sub-tasks left.\<close>

definition refine_budget :: "agent_state \<Rightarrow> nat" where
  "refine_budget s =
     nat (opt_or (specialist_max_iterations s) 3 - opt_or (specialist_iteration_count s) 0 - 1)"

definition task_budget :: "sub_task \<Rightarrow> nat" where
  "task_budget t = nat (opt_or (t_max_iterations t) 3 - opt_or (t_iteration_count t) 0 - 1)"

definition sub_budget :: "agent_state \<Rightarrow> nat" where
  "sub_budget s = sum_list (map task_budget (opt_or (sub_tasks s) []))"

definition tasks_left :: "agent_state \<Rightarrow> nat" where
  "tasks_left s = nat (int (length (opt_or (sub_tasks s) [])) - opt_or (current_sub_task_index s) 0)"

text \<open>What the gates read and the loops are bounded by.\<close>

definition counters ::
    "agent_state \<Rightarrow> int option \<times> int option \<times> int option \<times> (int option \<times> int option) list" where
  "counters s = (specialist_iteration_count s, specialist_max_iterations s, current_sub_task_index s,
     map (\<lambda>t. (t_iteration_count t, t_max_iterations t)) (opt_or (sub_tasks s) []))"

lemma counters_budgets:
  assumes "counters s = counters s'"
  shows "refine_budget s = refine_budget s'" "sub_budget s = sub_budget s'"
    "tasks_left s = tasks_left s'" "current_sub_task_index s = current_sub_task_index s'"
proof -
  have tb: "map task_budget ts = map (\<lambda>(i, m). nat (opt_or m 3 - opt_or i 0 - 1))
      (map (\<lambda>t. (t_iteration_count t, t_max_iterations t)) ts)" for ts
    by (simp add: task_budget_def)
  have "length (opt_or (sub_tasks s) []) = length (opt_or (sub_tasks s') [])"
    using assms by (auto simp: counters_def dest: map_eq_imp_length_eq)
  with assms show "refine_budget s = refine_budget s'" "sub_budget s = sub_budget s'"
    "tasks_left s = tasks_left s'" "current_sub_task_index s = current_sub_task_index s'"
    unfolding sub_budget_def tb
    by (simp_all add: counters_def refine_budget_def tasks_left_def)
qed

section \<open>The gates spend the budgets\<close>

lemma output_gate_refine_budget:
  assumes "should_approve_output s = (''refine_output'', s')"
  shows "refine_budget s' < refine_budget s" and "sub_budget s' = sub_budget s"
    and "tasks_left s' = tasks_left s" and "current_sub_task_index s' = current_sub_task_index s"
proof -
  have s': "specialist_iteration_count s' = Some (opt_or (specialist_iteration_count s) 0 + 1)"
    "specialist_max_iterations s' = specialist_max_iterations s" "sub_tasks s' = sub_tasks s"
    "current_sub_task_index s' = current_sub_task_index s"
    using assms by (auto simp: gate_defs split: if_splits)
  with should_approve_output_refine [OF assms]
  show "refine_budget s' < refine_budget s" "sub_budget s' = sub_budget s"
    "tasks_left s' = tasks_left s" "current_sub_task_index s' = current_sub_task_index s"
    by (simp_all add: refine_budget_def sub_budget_def tasks_left_def)
qed

lemma sub_budget_put:
  assumes "py_index (opt_or (sub_tasks s) []) i = Some t"
  shows "sub_budget (put_sub_task i t' s) + task_budget t = sub_budget s + task_budget t'"
proof -
  obtain k where k: "py_pos (opt_or (sub_tasks s) []) i = Some k" "opt_or (sub_tasks s) [] ! k = t"
    using assms by (auto simp: py_index_def)
  then have less: "k < length (opt_or (sub_tasks s) [])" by (auto dest: py_pos_less)
  then have "task_budget t \<le> sum_list (map task_budget (opt_or (sub_tasks s) []))"
    using k by (intro member_le_sum_list) auto
  then show ?thesis
    using k less by (simp add: sub_budget_def put_sub_task_def py_store_def map_update sum_list_update)
qed

lemma task_budget_bump: "task_budget (bump_sub_task t) \<le> task_budget t"
  by (simp add: task_budget_def bump_sub_task_def)

lemma task_budget_status [simp]: "task_budget (t\<lparr>t_status := st\<rparr>) = task_budget t"
  by (simp add: task_budget_def)

lemma sub_gate_budget:
  assumes "should_approve_sub_output s = Inr (r, s')"
  shows "sub_budget s' \<le> sub_budget s" and "tasks_left s' = tasks_left s"
    and "r = ''refine_sub_output'' \<Longrightarrow> sub_budget s' < sub_budget s"
proof -
  show "tasks_left s' = tasks_left s"
    using should_approve_sub_output_frame [OF assms] by (simp add: tasks_left_def)
  show "sub_budget s' < sub_budget s" if r: "r = ''refine_sub_output''"
  proof -
    obtain t where t: "py_index (opt_or (sub_tasks s) []) (opt_or (current_sub_task_index s) 0) = Some t"
      "s' = put_sub_task (opt_or (current_sub_task_index s) 0) (bump_sub_task t) s"
      "opt_or (t_iteration_count t) 0 + 1 < opt_or (t_max_iterations t) 3"
      using should_approve_sub_output_refine [of s s'] assms r by metis
    then have "task_budget (bump_sub_task t) < task_budget t"
      by (simp add: task_budget_def bump_sub_task_def)
    then show ?thesis using sub_budget_put [OF t(1), of "bump_sub_task t"] t(2) by simp
  qed
  show "sub_budget s' \<le> sub_budget s"
  proof (cases "opt_or (current_sub_task_index s) 0 \<ge> int (length (opt_or (sub_tasks s) []))")
    case True
    then show ?thesis using assms by (auto simp: gate_defs)
  next
    case False
    then obtain t where t: "py_index (opt_or (sub_tasks s) []) (opt_or (current_sub_task_index s) 0) = Some t"
      using assms by (auto simp: gate_defs split: option.splits)
    with False assms obtain t' where "s' = put_sub_task (opt_or (current_sub_task_index s) 0) t' s"
      "task_budget t' \<le> task_budget t"
      using task_budget_bump [of t] by (auto simp: gate_defs split: if_splits)
    then show ?thesis using sub_budget_put [OF t, of t'] by simp
  qed
qed

lemma advance_frame:
  assumes "advance_sub_task s = Inr s'"
  shows "sub_tasks s' = sub_tasks s"
    and "opt_or (current_sub_task_index s) 0 \<le> opt_or (current_sub_task_index s') 0"
  using assms by (auto simp: advance_sub_task_def Let_def split: if_splits option.splits)

text \<open>After a sub-output that is not refined, going on means the index moved.\<close>

lemma sub_check_budget:
  assumes "sub_output_and_more_check s = Inr (r, s')"
    and "0 \<le> opt_or (current_sub_task_index s) 0"
  shows "0 \<le> opt_or (current_sub_task_index s') 0"
    and "sub_budget s' \<le> sub_budget s" and "tasks_left s' \<le> tasks_left s"
    and "r \<noteq> ''aggregate'' \<Longrightarrow> sub_budget s' + tasks_left s' < sub_budget s + tasks_left s"
proof -
  from assms(1) obtain r1 s1 where s1: "should_approve_sub_output s = Inr (r1, s1)"
    and rest: "(if r1 = ''refine_sub_output'' then Inr (''refine_sub_output'', s1)
       else res_bind (has_more_subtasks s1) (\<lambda>(m, s2).
         if m = ''more'' then Inr (''next_subtask'', s2) else Inr (''aggregate'', s2))) = Inr (r, s')"
    by (auto simp: sub_output_and_more_check_def)
  note fr = should_approve_sub_output_frame [OF s1] and bud = sub_gate_budget [OF s1]
  let ?i = "opt_or (current_sub_task_index s) 0" and ?n = "int (length (opt_or (sub_tasks s) []))"
  have "0 \<le> opt_or (current_sub_task_index s') 0 \<and> sub_budget s' \<le> sub_budget s
    \<and> tasks_left s' \<le> tasks_left s
    \<and> (r \<noteq> ''aggregate'' \<longrightarrow> sub_budget s' + tasks_left s' < sub_budget s + tasks_left s)"
  proof (cases "r1 = ''refine_sub_output''")
    case True
    then show ?thesis using rest fr bud assms(2) by auto
  next
    case nr: False
    then obtain m where more: "has_more_subtasks s1 = Inr (m, s')"
      and r: "r = (if m = ''more'' then ''next_subtask'' else ''aggregate'')"
      using rest by (auto split: prod.splits if_splits)
    have adv: "s' = s1 \<or> advance_sub_task s1 = Inr s'"
      using more by (auto simp: has_more_subtasks_def split: if_splits option.splits)
    then have le: "?i \<le> opt_or (current_sub_task_index s') 0" "sub_tasks s' = sub_tasks s1"
      using advance_frame [of s1 s'] fr by auto
    have "tasks_left s' < tasks_left s" if "r \<noteq> ''aggregate''"
    proof -
      have m: "m = ''more''" using that r by (auto split: if_splits)
      then have adv': "advance_sub_task s1 = Inr s'"
        and lt: "opt_or (current_sub_task_index s') 0 < ?n"
        using more fr by (auto simp: has_more_subtasks_def split: if_splits option.splits)
      then have "?i < ?n" using le by simp
      then obtain t where "py_index (opt_or (sub_tasks s1) []) ?i = Some t"
        "t_status t = Some (if r1 = ''approved'' then ''completed'' else ''failed'')"
        using should_approve_sub_output_final [OF s1 nr] by auto
      then have "opt_or (current_sub_task_index s') 0 = ?i + 1"
        using advance_sub_task_final [of s1 t] fr adv' \<open>?i < ?n\<close> by (auto split: if_splits)
      then show ?thesis using lt fr le by (simp add: tasks_left_def)
    qed
    moreover have "tasks_left s' \<le> tasks_left s" using le fr by (simp add: tasks_left_def)
    moreover have "sub_budget s' = sub_budget s1" using le by (simp add: sub_budget_def)
    ultimately show ?thesis using le bud assms(2) by auto
  qed
  then show "0 \<le> opt_or (current_sub_task_index s') 0"
    "sub_budget s' \<le> sub_budget s" "tasks_left s' \<le> tasks_left s"
    "r \<noteq> ''aggregate'' \<Longrightarrow> sub_budget s' + tasks_left s' < sub_budget s + tasks_left s"
    by simp_all
qed

section \<open>The rank\<close>

definition single_rank :: "agent_state \<Rightarrow> nat" where
  "single_rank s = 5 * refine_budget s"

definition sub_rank :: "agent_state \<Rightarrow> nat" where
  "sub_rank s = 2 * (sub_budget s + tasks_left s)"

definition entry_rank :: "agent_state \<Rightarrow> nat" where
  "entry_rank s = 10 + max (single_rank s) (sub_rank s)"

definition node_rank :: "string \<Rightarrow> agent_state \<Rightarrow> nat" where
  "node_rank n s =
     (if n = ''persist_memory'' then 1 else if n = ''skill_cleanup'' then 2
      else if n = ''post'' then 3 else if n = ''format'' then 4
      else if n = ''final_critic'' then 5 else if n = ''aggregator'' then 6
      else if n = ''parallel_subtasks'' then 7
      else if n = ''record_lesson_uses'' then 5 + single_rank s
      else if n = ''memory_note'' then 6 + single_rank s
      else if n = ''critic_output'' then 7 + single_rank s
      else if n = ''heuristic_critic'' then 8 + single_rank s
      else if n = ''specialist'' then 9 + single_rank s
      else if n = ''sub_critic_output'' then 7 + sub_rank s
      else if n = ''sub_specialist'' then 8 + sub_rank s
      else if n = ''cache_lookup'' then entry_rank s
      else if n = ''inject_memory'' then 1 + entry_rank s
      else if n = ''skill_loader'' then 2 + entry_rank s
      else if n = ''skill_generator'' then 3 + entry_rank s
      else if n = ''router'' then 50 else 0)"

text \<open>
  The assumptions on the nodes: the router leaves a request of at most five sub-tasks with at
  most three iterations each (the limits of \<^verbatim>\<open>router.py\<close>), and the nodes before and inside the loops
  do not touch the counters the gates keep.
\<close>

definition loop_nodes :: "string list" where
  "loop_nodes = [''skill_generator'', ''skill_loader'', ''inject_memory'', ''cache_lookup'',
     ''specialist'', ''heuristic_critic'', ''critic_output'', ''memory_note'', ''record_lesson_uses'',
     ''sub_specialist'', ''sub_critic_output'']"

definition routed_within :: "nat \<Rightarrow> int \<Rightarrow> agent_state \<Rightarrow> bool" where
  "routed_within n m s \<longleftrightarrow> 0 \<le> opt_or (current_sub_task_index s) 0
     \<and> opt_or (specialist_max_iterations s) 3 - opt_or (specialist_iteration_count s) 0 \<le> m
     \<and> length (opt_or (sub_tasks s) []) \<le> n
     \<and> list_all (\<lambda>t. opt_or (t_max_iterations t) 3 - opt_or (t_iteration_count t) 0 \<le> m)
         (opt_or (sub_tasks s) [])"

definition nodes_keep_counters :: "node_table \<Rightarrow> bool" where
  "nodes_keep_counters tab \<longleftrightarrow>
     (\<forall>n \<in> set loop_nodes. \<forall>w s s'. run_outcome (tab n w s) = Inr s' \<longrightarrow> counters s' = counters s)"

definition router_within :: "nat \<Rightarrow> int \<Rightarrow> node_table \<Rightarrow> bool" where
  "router_within n m tab \<longleftrightarrow>
     (\<forall>w s s'. run_outcome (tab ''router'' w s) = Inr s' \<longrightarrow> routed_within n m s')"

lemma sum_list_le_mult: "(\<And>x. x \<in> set xs \<Longrightarrow> f x \<le> k) \<Longrightarrow> sum_list (map f xs) \<le> k * length xs"
  for k :: nat
  by (induction xs) (auto simp: add_le_mono)

lemma routed_entry_rank:
  assumes "routed_within 5 3 s"
  shows "entry_rank s \<le> 40"
proof -
  have "task_budget t \<le> 2" if "t \<in> set (opt_or (sub_tasks s) [])" for t
    using assms that by (auto simp: routed_within_def list_all_iff task_budget_def)
  then have "sub_budget s \<le> 2 * length (opt_or (sub_tasks s) [])"
    unfolding sub_budget_def by (rule sum_list_le_mult)
  with assms have "sub_budget s \<le> 10" "tasks_left s \<le> 5" "refine_budget s \<le> 2"
    by (auto simp: routed_within_def tasks_left_def refine_budget_def)
  then show ?thesis by (simp add: entry_rank_def single_rank_def sub_rank_def)
qed

lemma execute_node_outcome:
  "execute_node c n f s w = (Inr s', w') \<Longrightarrow> run_outcome (f w s) = Inr s'"
  by (auto simp: execute_node_def Let_def split: if_splits sum.splits py_exn.splits)

lemma counters_ranks:
  "counters s' = counters s \<Longrightarrow> single_rank s' = single_rank s \<and> sub_rank s' = sub_rank s
    \<and> entry_rank s' = entry_rank s \<and> current_sub_task_index s' = current_sub_task_index s"
  by (simp add: single_rank_def sub_rank_def entry_rank_def counters_budgets [of s' s])

definition rank_inv :: "string \<Rightarrow> agent_state \<Rightarrow> bool" where
  "rank_inv n s \<longleftrightarrow> n = ''router'' \<or> n = END \<or> n \<in> set agent_node_names
     \<and> (n \<in> set loop_nodes \<longrightarrow> 0 \<le> opt_or (current_sub_task_index s) 0)"


text \<open>Ranks and invariant by node name, evaluated once.\<close>

named_theorems node_facts

lemma node_rank_eval [node_facts]:
  "node_rank ''persist_memory'' s = 1"
  "node_rank ''skill_cleanup'' s = 2"
  "node_rank ''post'' s = 3"
  "node_rank ''format'' s = 4"
  "node_rank ''final_critic'' s = 5"
  "node_rank ''aggregator'' s = 6"
  "node_rank ''parallel_subtasks'' s = 7"
  "node_rank ''record_lesson_uses'' s = 5 + single_rank s"
  "node_rank ''memory_note'' s = 6 + single_rank s"
  "node_rank ''critic_output'' s = 7 + single_rank s"
  "node_rank ''heuristic_critic'' s = 8 + single_rank s"
  "node_rank ''specialist'' s = 9 + single_rank s"
  "node_rank ''sub_critic_output'' s = 7 + sub_rank s"
  "node_rank ''sub_specialist'' s = 8 + sub_rank s"
  "node_rank ''cache_lookup'' s = entry_rank s"
  "node_rank ''inject_memory'' s = 1 + entry_rank s"
  "node_rank ''skill_loader'' s = 2 + entry_rank s"
  "node_rank ''skill_generator'' s = 3 + entry_rank s"
  "node_rank ''router'' s = 50"
  by (simp_all add: node_rank_def)

lemma rank_inv_loop [node_facts]:
  "rank_inv ''skill_generator'' s \<longleftrightarrow> 0 \<le> opt_or (current_sub_task_index s) 0"
  "rank_inv ''skill_loader'' s \<longleftrightarrow> 0 \<le> opt_or (current_sub_task_index s) 0"
  "rank_inv ''inject_memory'' s \<longleftrightarrow> 0 \<le> opt_or (current_sub_task_index s) 0"
  "rank_inv ''cache_lookup'' s \<longleftrightarrow> 0 \<le> opt_or (current_sub_task_index s) 0"
  "rank_inv ''specialist'' s \<longleftrightarrow> 0 \<le> opt_or (current_sub_task_index s) 0"
  "rank_inv ''heuristic_critic'' s \<longleftrightarrow> 0 \<le> opt_or (current_sub_task_index s) 0"
  "rank_inv ''critic_output'' s \<longleftrightarrow> 0 \<le> opt_or (current_sub_task_index s) 0"
  "rank_inv ''memory_note'' s \<longleftrightarrow> 0 \<le> opt_or (current_sub_task_index s) 0"
  "rank_inv ''record_lesson_uses'' s \<longleftrightarrow> 0 \<le> opt_or (current_sub_task_index s) 0"
  "rank_inv ''sub_specialist'' s \<longleftrightarrow> 0 \<le> opt_or (current_sub_task_index s) 0"
  "rank_inv ''sub_critic_output'' s \<longleftrightarrow> 0 \<le> opt_or (current_sub_task_index s) 0"
  by (simp_all add: rank_inv_def loop_nodes_def agent_node_names_def END_def)

lemma rank_inv_tail [node_facts]:
  "rank_inv END s"
  "rank_inv ''router'' s"
  "rank_inv ''parallel_subtasks'' s"
  "rank_inv ''aggregator'' s"
  "rank_inv ''final_critic'' s"
  "rank_inv ''skill_cleanup'' s"
  "rank_inv ''persist_memory'' s"
  "rank_inv ''format'' s"
  "rank_inv ''post'' s"
  by (simp_all add: rank_inv_def loop_nodes_def agent_node_names_def)

lemma node_rank_END [node_facts]: "node_rank END s = 0"
  by (simp add: node_rank_def END_def)

lemma loop_node_cases:
  assumes "n \<in> set loop_nodes"
  obtains "n = ''skill_generator''" | "n = ''skill_loader''" | "n = ''inject_memory''"
    | "n = ''cache_lookup''" | "n = ''specialist''" | "n = ''heuristic_critic''"
    | "n = ''critic_output''" | "n = ''memory_note''" | "n = ''record_lesson_uses''"
    | "n = ''sub_specialist''" | "n = ''sub_critic_output''"
  using assms unfolding loop_nodes_def list.set insert_iff by (elim disjE emptyE)

lemma tail_node_cases:
  assumes "n \<in> set agent_node_names" "n \<notin> set loop_nodes" "n \<noteq> ''router''"
  obtains "n = ''parallel_subtasks''" | "n = ''aggregator''" | "n = ''final_critic''"
    | "n = ''skill_cleanup''" | "n = ''persist_memory''" | "n = ''format''" | "n = ''post''"
  using assms(1)
proof (cases rule: agent_name_cases)
qed (use assms(2,3) in \<open>simp_all add: loop_nodes_def that\<close>)

lemma llm_gate_ranks:
  assumes "should_use_llm_critic s = (r, s')"
  shows "single_rank s' = single_rank s" and "current_sub_task_index s' = current_sub_task_index s"
  using assms by (auto simp: gate_defs single_rank_def refine_budget_def split: if_splits)

lemma output_gate_ranks:
  assumes "should_approve_output s = (''refine_output'', s')"
  shows "single_rank s' + 5 \<le> single_rank s" and "current_sub_task_index s' = current_sub_task_index s"
  using output_gate_refine_budget [OF assms] by (simp_all add: single_rank_def)

lemma sub_check_ranks:
  assumes "sub_output_and_more_check s = Inr (r, s')" and "0 \<le> opt_or (current_sub_task_index s) 0"
    and "r \<noteq> ''aggregate''"
  shows "sub_rank s' + 2 \<le> sub_rank s" and "0 \<le> opt_or (current_sub_task_index s') 0"
  using sub_check_budget [OF assms(1,2)] assms(3) by (simp_all add: sub_rank_def)

lemma agent_rank_loop:
  assumes n: "n \<in> set loop_nodes" and idx: "0 \<le> opt_or (current_sub_task_index s1) 0"
    and nxt: "resolve_next (agent_graph tab nt wt) n s1 = Inr (t, s2)"
  shows "rank_inv t s2 \<and> node_rank t s2 < node_rank n s1"
  using n
proof (cases rule: loop_node_cases)
  case 4
  with idx nxt show ?thesis
    by (simp add: agent_step split: if_splits) (auto simp: node_facts entry_rank_def)
next
  case 6
  obtain r s' where g: "should_use_llm_critic s1 = (r, s')" by fastforce
  with nxt 6 have "t = (if r = ''approve'' then ''format'' else ''critic_output'')" "s2 = s'"
    by (simp_all add: agent_step)
  then show ?thesis using llm_gate_ranks [OF g] idx 6 by (simp add: node_facts)
next
  case 9
  obtain r s' where g: "should_approve_output s1 = (r, s')" by fastforce
  with nxt 9 have t: "t = (if r = ''approved'' then ''format''
      else if r = ''refine_output'' then ''specialist'' else ''skill_cleanup'')" "s2 = s'"
    by (simp_all add: agent_step)
  show ?thesis
  proof (cases "r = ''refine_output''")
    case True
    then show ?thesis using output_gate_ranks [of s1 s'] g t idx 9 by (simp add: node_facts)
  next
    case False
    then show ?thesis using t 9 by (simp add: node_facts)
  qed
next
  case 11
  with nxt obtain r where g: "sub_output_and_more_check s1 = Inr (r, s2)"
    and t: "t = (if r = ''aggregate'' then ''aggregator'' else ''sub_specialist'')"
    by (auto simp: agent_step split: sum.splits)
  show ?thesis
  proof (cases "r = ''aggregate''")
    case False
    then show ?thesis using sub_check_ranks [OF g idx] t 11 by (simp add: node_facts)
  qed (use t 11 in \<open>simp add: node_facts\<close>)
qed (use idx nxt in \<open>auto simp: agent_step node_facts split: if_splits\<close>)

lemma agent_rank_tail:
  assumes n: "n \<in> set agent_node_names" "n \<notin> set loop_nodes" "n \<noteq> ''router''"
    and nxt: "resolve_next (agent_graph tab nt wt) n s1 = Inr (t, s2)"
  shows "rank_inv t s2 \<and> node_rank t s2 < node_rank n s"
  using n
proof (cases rule: tail_node_cases)
qed (use nxt in \<open>auto simp: agent_step node_facts split: if_splits prod.splits\<close>)

lemma node_rank_counters:
  assumes "n \<in> set loop_nodes" and "counters s' = counters s"
  shows "node_rank n s' = node_rank n s"
  using assms(1)
proof (cases rule: loop_node_cases)
qed (use counters_ranks [OF assms(2)] in \<open>simp_all add: node_facts\<close>)

lemma rank_inv_loopD: "n \<in> set loop_nodes \<Longrightarrow> rank_inv n s \<Longrightarrow> 0 \<le> opt_or (current_sub_task_index s) 0"
  by (erule loop_node_cases) (simp_all add: node_facts)

lemma agent_rank_step:
  assumes "nodes_keep_counters tab" and "router_within 5 3 tab"
    and inv: "rank_inv n s" and "n \<noteq> END"
    and get: "dict_get (c_nodes (agent_graph tab nt wt)) n = Some f"
    and ex: "execute_node (agent_graph tab nt wt) n f s w = (Inr s1, w1)"
    and nxt: "resolve_next (agent_graph tab nt wt) n s1 = Inr (t, s2)"
  shows "rank_inv t s2 \<and> node_rank t s2 < node_rank n s"
proof -
  have n: "n \<in> set agent_node_names" "f = tab n"
    using get by (simp_all add: agent_node_get split: if_splits)
  have out: "run_outcome (tab n w s) = Inr s1" using execute_node_outcome [OF ex] n by simp
  consider "n = ''router''" | "n \<in> set loop_nodes" | "n \<noteq> ''router''" "n \<notin> set loop_nodes" by blast
  then show ?thesis
  proof cases
    case 1
    then have "routed_within 5 3 s1" using out assms(2) by (simp add: router_within_def)
    then have "entry_rank s1 \<le> 40" "0 \<le> opt_or (current_sub_task_index s1) 0"
      using routed_entry_rank [of s1] by (simp_all add: routed_within_def)
    then show ?thesis using nxt 1 by (auto simp: agent_step node_facts)
  next
    case 2
    then have c: "counters s1 = counters s" using out assms(1) by (simp add: nodes_keep_counters_def)
    then have "0 \<le> opt_or (current_sub_task_index s1) 0"
      using counters_ranks [OF c] rank_inv_loopD [OF 2 inv] by simp
    from agent_rank_loop [OF 2 this nxt] node_rank_counters [OF 2 c] show ?thesis by simp
  next
    case 3
    then show ?thesis using agent_rank_tail [OF n(1) 3(2,1) nxt] by simp
  qed
qed

lemma node_rank_pos: "n \<in> set agent_node_names \<Longrightarrow> 0 < node_rank n s"
  by (erule agent_name_cases) (simp_all add: node_facts entry_rank_def)

section \<open>Properties\<close>

text \<open>C1: With a router that leaves at most five sub-tasks of at most three iterations each, and
  nodes that leave the gates' counters alone, a run of the agent graph never hits the engine's
  limit of 50 steps: all refinement loops end by the gates' own counting.\<close>

theorem agent_graph_no_recursion_error:
  assumes "nodes_keep_counters tab" and "router_within 5 3 tab"
  shows "fst (invoke (agent_graph tab nt wt) s w) \<noteq> Inl (WorkflowRecursionError m n)"
proof -
  obtain ys r w' where run: "stream_loop (agent_graph tab nt wt) (clock w) 0 ''router'' s w = (ys, r, w')"
    by (metis prod_cases3)
  have "\<forall>m n. r \<noteq> Inl (WorkflowRecursionError m n)"
    using run
  proof (rule stream_loop_ranked [where I = rank_inv and rank = node_rank])
    show "rank_inv ''router'' s" by (simp add: node_facts)
    show "int (node_rank ''router'' s) + 0 \<le> c_max_steps (agent_graph tab nt wt)"
      by (simp add: node_facts)
    show "0 < node_rank n s" if "rank_inv n s" "n \<noteq> END" for n s
      using that node_rank_pos [of n s] by (auto simp: rank_inv_def node_facts)
  qed (rule agent_rank_step [OF assms])
  then show ?thesis using invoke_loop_stream [OF run] by (simp add: invoke_def)
qed

lemma demo_outcome_cases:
  "run_outcome (demo_table n w s) = Inr s' \<Longrightarrow> n \<noteq> ''router'' \<Longrightarrow>
    s' = s \<or> s' = s\<lparr>output_critic_score := Some 90\<rparr>"
  by (auto simp: demo_table_def split: if_splits)

lemma demo_keeps_counters: "nodes_keep_counters demo_table"
proof -
  have "counters s' = counters s"
    if "n \<in> set loop_nodes" "run_outcome (demo_table n w s) = Inr s'" for n w s s'
  proof -
    have "n \<noteq> ''router''" using that(1) by (auto simp: loop_nodes_def)
    with demo_outcome_cases [OF that(2)] show ?thesis by (auto simp: counters_def)
  qed
  then show ?thesis by (auto simp: nodes_keep_counters_def)
qed

lemma demo_router_within: "router_within 5 3 demo_table"
  by (simp add: router_within_def demo_table_def routed_within_def demo_request_def
      create_initial_state_def empty_state_def)

theorem agent_graph_no_recursion_error_witness:
  "fst (invoke (agent_graph demo_table 300 1800) empty_state (demo_world 0 []))
    \<noteq> Inl (WorkflowRecursionError 50 ''specialist'')"
  by (rule agent_graph_no_recursion_error [OF demo_keeps_counters demo_router_within])

text \<open>Every pass over the sub-task critic that does not end in the aggregation strictly lowers the
  refinements and sub-tasks left, so the sub-task loop of the graph ends for every list of
  sub-tasks and every scoring.\<close>

theorem sub_task_loop_progress:
  assumes "sub_output_and_more_check s = Inr (verdict, s')"
    and "0 \<le> opt_or (current_sub_task_index s) 0" and "verdict \<noteq> ''aggregate''"
  shows "sub_budget s' + tasks_left s' < sub_budget s + tasks_left s
    \<and> 0 \<le> opt_or (current_sub_task_index s') 0"
  using sub_check_budget [OF assms(1,2)] assms(3) by simp

theorem sub_task_loop_progress_witness:
  "\<exists>s'. sub_output_and_more_check two_tasks = Inr (''next_subtask'', s')
    \<and> sub_budget s' + tasks_left s' < sub_budget two_tasks + tasks_left two_tasks"
proof -
  obtain s' where s': "sub_output_and_more_check two_tasks = Inr (''next_subtask'', s')"
    using two_tasks_run by (auto simp: sub_output_and_more_check_def)
  moreover have "0 \<le> opt_or (current_sub_task_index two_tasks) 0" by (simp add: two_tasks_def)
  ultimately show ?thesis using sub_task_loop_progress [OF s'] by auto
qed

end
