(* ===== verification/Circuit_Breaker.thy ===== *)
theory Circuit_Breaker
  imports Py_Prelude
begin

text \<open>
  The contract of a circuit breaker, stated once for the two the program has: the one around each
  backend of the pool (\<^verbatim>\<open>agents/backend_pool.py\<close>, times in seconds of a monotonic clock) and the
  one in front of an agent's heartbeats (\<^verbatim>\<open>agents/spending_tracker.py\<close>, times in microseconds).

  \<open>ok b\<close> is the well-formedness of the record. \<open>admit now b\<close> is the gate: it answers whether a request may pass and may move an open breaker
  to half-open. \<open>due b\<close> is the earliest time at which an open breaker lets a probe through.
\<close>

datatype circuit_state = Closed | Open | HalfOpen

text \<open>The answers to a sequence of attempts with nothing recorded in between.\<close>

fun attempts :: "('t \<Rightarrow> 'b \<Rightarrow> bool \<times> 'b) \<Rightarrow> 't list \<Rightarrow> 'b \<Rightarrow> bool list \<times> 'b" where
  "attempts admit [] b = ([], b)"
| "attempts admit (t # ts) b =
     (case admit t b of (ok, b') \<Rightarrow>
        case attempts admit ts b' of (oks, b'') \<Rightarrow> (ok # oks, b''))"

locale circuit_breaker =
  fixes admit :: "'t::linorder \<Rightarrow> 'b \<Rightarrow> bool \<times> 'b"
    and state :: "'b \<Rightarrow> circuit_state"
    and due :: "'b \<Rightarrow> 't"
    and ok :: "'b \<Rightarrow> bool"
  assumes admit_closed: "state b = Closed \<Longrightarrow> admit t b = (True, b)"
    and admit_half_open: "state b = HalfOpen \<Longrightarrow> admit t b = (True, b)"
    and admit_open_early: "ok b \<Longrightarrow> state b = Open \<Longrightarrow> t < due b \<Longrightarrow> admit t b = (False, b)"
    and admit_open_due: "ok b \<Longrightarrow> state b = Open \<Longrightarrow> due b \<le> t \<Longrightarrow>
      fst (admit t b) \<and> state (snd (admit t b)) = HalfOpen"
begin

lemma rejected_unchanged: "ok b \<Longrightarrow> admit t b = (False, b') \<Longrightarrow> b' = b \<and> state b = Open \<and> t < due b"
  using admit_closed [of b t] admit_half_open [of b t] admit_open_early [of b t] admit_open_due [of b t]
  by (cases "state b"; cases "t < due b") (auto simp: not_less)

lemma admitted_not_open: "ok b \<Longrightarrow> admit t b = (True, b') \<Longrightarrow> state b' \<noteq> Open"
  using admit_closed [of b t] admit_half_open [of b t] admit_open_early [of b t] admit_open_due [of b t]
  by (cases "state b"; cases "t < due b") (auto simp: not_less)

text \<open>Until it is due, an open breaker rejects every attempt and stays as it is.\<close>

lemma open_rejects_until_due:
  "ok b \<Longrightarrow> state b = Open \<Longrightarrow> \<forall>t \<in> set ts. t < due b \<Longrightarrow>
    attempts admit ts b = (replicate (length ts) False, b)"
  by (induction ts) (auto simp: admit_open_early)

text \<open>A half-open breaker is no different from a closed one until a result is recorded: it admits
  every attempt.\<close>

lemma not_open_admits_all:
  "state b \<noteq> Open \<Longrightarrow> attempts admit ts b = (replicate (length ts) True, b)"
proof (induction ts)
  case (Cons t ts)
  then have "admit t b = (True, b)"
    using admit_closed admit_half_open by (cases "state b") auto
  with Cons show ?case by simp
qed simp

text \<open>From the moment it is due, an open breaker admits every attempt, not one probe.\<close>

lemma due_admits_all:
  assumes "ok b" and "state b = Open" and "due b \<le> t"
  shows "fst (attempts admit (t # ts) b) = replicate (Suc (length ts)) True"
    and "state (snd (attempts admit (t # ts) b)) = HalfOpen"
proof -
  obtain b' where b': "admit t b = (True, b')" "state b' = HalfOpen"
    using admit_open_due [OF assms] by (cases "admit t b") auto
  then have "attempts admit ts b' = (replicate (length ts) True, b')"
    by (intro not_open_admits_all) simp
  with b' show "fst (attempts admit (t # ts) b) = replicate (Suc (length ts)) True"
    "state (snd (attempts admit (t # ts) b)) = HalfOpen" by simp_all
qed

end

end
