(* ===== verification/Py_Strings.thy ===== *)
theory Py_Strings
  imports Py_Prelude "HOL-Library.Sublist"
begin

text \<open>
  String methods of Python the components use, on characters below 256 read as Latin-1: \<open>isspace\<close>,
  \<open>strip\<close>, \<open>splitlines\<close>, \<open>in\<close>, \<open>lower\<close> on ASCII letters, and the search for a substring.
\<close>

definition py_space :: "char \<Rightarrow> bool" where
  "py_space c \<longleftrightarrow> (let k = of_char c :: nat in
     9 \<le> k \<and> k \<le> 13 \<or> 28 \<le> k \<and> k \<le> 32 \<or> k = 133 \<or> k = 160)"

definition py_lstrip :: "string \<Rightarrow> string" where
  "py_lstrip s = dropWhile py_space s"

definition py_strip :: "string \<Rightarrow> string" where
  "py_strip s = rev (dropWhile py_space (rev (py_lstrip s)))"

text \<open>Reading text turns every kind of line end into a newline.\<close>

fun universal_newlines :: "string \<Rightarrow> string" where
  "universal_newlines [] = []"
| "universal_newlines (c # cs) =
     (if c = CHR 0x0D then
        (case cs of
           [] \<Rightarrow> [CHR 0x0A]
         | d # ds \<Rightarrow> if d = CHR 0x0A then CHR 0x0A # universal_newlines ds else CHR 0x0A # universal_newlines (d # ds))
      else c # universal_newlines cs)"

text \<open>\<open>p in s\<close>, and the text before and after the first occurrence of \<open>p\<close> in \<open>s\<close>.\<close>

fun str_contains :: "string \<Rightarrow> string \<Rightarrow> bool" where
  "str_contains p [] \<longleftrightarrow> p = []"
| "str_contains p (c # cs) \<longleftrightarrow> prefix p (c # cs) \<or> str_contains p cs"

fun split_first :: "string \<Rightarrow> string \<Rightarrow> (string \<times> string) option" where
  "split_first p [] = (if p = [] then Some ([], []) else None)"
| "split_first p (c # cs) =
     (if prefix p (c # cs) then Some ([], drop (length p) (c # cs))
      else map_option (\<lambda>(before, after). (c # before, after)) (split_first p cs))"

definition lower_char :: "char \<Rightarrow> char" where
  "lower_char c = (let k = of_char c :: nat in if 65 \<le> k \<and> k \<le> 90 then char_of (k + 32) else c)"

definition py_lower :: "string \<Rightarrow> string" where
  "py_lower s = map lower_char s"

definition upper_char :: "char \<Rightarrow> char" where
  "upper_char c = (let k = of_char c :: nat in if 97 \<le> k \<and> k \<le> 122 then char_of (k - 32) else c)"

definition ascii_letter :: "char \<Rightarrow> bool" where
  "ascii_letter c \<longleftrightarrow> lower_char c \<noteq> c \<or> upper_char c \<noteq> c"

text \<open>\<open>\w\<close> on the characters of Latin-1.\<close>

definition word_char :: "char \<Rightarrow> bool" where
  "word_char c \<longleftrightarrow>
     (let k = of_char c :: nat in
      48 \<le> k \<and> k \<le> 57 \<or> 65 \<le> k \<and> k \<le> 90 \<or> k = 95 \<or> 97 \<le> k \<and> k \<le> 122
      \<or> k \<in> {170, 178, 179, 181, 185, 186, 188, 189, 190} \<or> 192 \<le> k \<and> k \<noteq> 215 \<and> k \<noteq> 247)"

text \<open>The same on the bits of a character, for evaluation.\<close>

lemma word_char_bits [code]:
  "word_char (Char b0 b1 b2 b3 b4 b5 b6 b7) =
     (if b7 then
        (if b6 then (if b4 then (if b3 then True else if b2 then (if b1 then \<not> b0 else True) else True) else True)
         else if b5 then
           (if b4 then
              (if b3 then (if b2 then (if b1 then \<not> b0 else True) else if b1 then \<not> b0 else b0)
               else if b2 then (if b1 then False else b0) else b1)
            else if b3 then (if b2 then False else if b1 then \<not> b0 else False) else False)
         else False)
      else if b6 then
        (if b4 then
           (if b3 then (if b2 then (if b1 then (if b5 then False else b0) else False) else if b1 then \<not> b0 else True) else True)
         else if b3 then True else if b2 then True else if b1 then True else b0)
      else if b5 then (if b4 then (if b3 then (if b2 then False else \<not> b1) else True) else False) else False)"
  by (cases b0; cases b1; cases b2; cases b3; cases b4; cases b5; cases b6; cases b7) (simp_all add: word_char_def)

text \<open>\<open>title()\<close>: a letter after no letter is capitalised, any other letter is made small.\<close>

fun title_from :: "bool \<Rightarrow> string \<Rightarrow> string" where
  "title_from inside [] = []"
| "title_from inside (c # cs) = (if inside then lower_char c else upper_char c) # title_from (ascii_letter c) cs"

definition py_title :: "string \<Rightarrow> string" where
  "py_title s = title_from False s"

definition replace_char :: "char \<Rightarrow> char \<Rightarrow> string \<Rightarrow> string" where
  "replace_char a b s = map (\<lambda>c. if c = a then b else c) s"

definition nl :: string where
  "nl = [CHR 0x0A]"

text \<open>\<open>splitlines\<close>: a final line break ends the last line and opens no new one.\<close>

definition line_break :: "char \<Rightarrow> bool" where
  "line_break c \<longleftrightarrow> (let k = of_char c :: nat in
     10 \<le> k \<and> k \<le> 13 \<or> 28 \<le> k \<and> k \<le> 30 \<or> k = 133)"

fun split_lines :: "string \<Rightarrow> string \<Rightarrow> string list" where
  "split_lines acc [] = (if acc = [] then [] else [rev acc])"
| "split_lines acc (c # cs) =
     (if c = CHR 0x0D then
        (case cs of
           d # ds \<Rightarrow> if d = CHR 0x0A then rev acc # split_lines [] ds else rev acc # split_lines [] (d # ds)
         | [] \<Rightarrow> [rev acc])
      else if line_break c then rev acc # split_lines [] cs
      else split_lines (c # acc) cs)"

definition splitlines :: "string \<Rightarrow> string list" where
  "splitlines s = split_lines [] s"

text \<open>\<open>s.split(c)\<close>, \<open>c.join(parts)\<close>, \<open>s.split()\<close> and \<open>s.partition(c)\<close>.\<close>

fun split_on :: "char \<Rightarrow> string \<Rightarrow> string list" where
  "split_on d [] = [[]]"
| "split_on d (c # cs) =
     (if c = d then [] # split_on d cs
      else (case split_on d cs of
              w # ws \<Rightarrow> (c # w) # ws
            | [] \<Rightarrow> [[c]]))"

fun join_with :: "string \<Rightarrow> string list \<Rightarrow> string" where
  "join_with d [] = []"
| "join_with d [w] = w"
| "join_with d (w # ws) = w @ d @ join_with d ws"

fun words_from :: "string \<Rightarrow> string \<Rightarrow> string list" where
  "words_from acc [] = (if acc = [] then [] else [rev acc])"
| "words_from acc (c # cs) =
     (if py_space c then (if acc = [] then words_from [] cs else rev acc # words_from [] cs)
      else words_from (c # acc) cs)"

definition py_words :: "string \<Rightarrow> string list" where
  "py_words s = words_from [] s"

definition py_partition :: "char \<Rightarrow> string \<Rightarrow> string \<times> string" where
  "py_partition d s = (takeWhile (\<lambda>c. c \<noteq> d) s, drop 1 (dropWhile (\<lambda>c. c \<noteq> d) s))"

text \<open>\<open>sorted\<close> of texts: by code points, character by character.\<close>

fun text_le :: "string \<Rightarrow> string \<Rightarrow> bool" where
  "text_le [] _ = True"
| "text_le (c # cs) [] = False"
| "text_le (c # cs) (d # ds) \<longleftrightarrow>
     (let a = of_char c :: nat; b = of_char d :: nat in a < b \<or> a = b \<and> text_le cs ds)"

fun insert_text :: "string \<Rightarrow> string list \<Rightarrow> string list" where
  "insert_text x [] = [x]"
| "insert_text x (y # ys) = (if text_le x y then x # y # ys else y # insert_text x ys)"

definition sort_texts :: "string list \<Rightarrow> string list" where
  "sort_texts xs = foldr insert_text xs []"

lemma set_sort_texts [simp]: "set (sort_texts xs) = set xs"
proof -
  have ins: "set (insert_text x ys) = insert x (set ys)" for x ys by (induction ys) auto
  show ?thesis unfolding sort_texts_def by (induction xs) (simp_all add: ins)
qed

section \<open>Lemmas\<close>

lemma split_on_nonempty [simp]: "split_on d s \<noteq> []"
  by (induction s) (auto split: list.splits)

lemma split_on_append: "d \<notin> set w \<Longrightarrow> split_on d (w @ d # s) = w # split_on d s"
  by (induction w) auto

lemma split_on_none: "d \<notin> set w \<Longrightarrow> split_on d w = [w]"
  by (induction w) auto

lemma split_on_join:
  "ws \<noteq> [] \<Longrightarrow> \<forall>w \<in> set ws. d \<notin> set w \<Longrightarrow> split_on d (join_with [d] ws) = ws"
  by (induction "[d]" ws rule: join_with.induct) (auto simp: split_on_append split_on_none)

lemma join_split_on: "join_with [d] (split_on d s) = s"
proof (induction s)
  case (Cons c cs)
  then show ?case
    by (cases "split_on d cs"; cases "tl (split_on d cs)") auto
qed simp

definition py_word :: "string \<Rightarrow> bool" where
  "py_word w \<longleftrightarrow> w \<noteq> [] \<and> (\<forall>c \<in> set w. \<not> py_space c)"

lemma words_from_word:
  "\<forall>c \<in> set w. \<not> py_space c \<Longrightarrow> py_space b \<Longrightarrow> rev acc @ w \<noteq> [] \<Longrightarrow>
    words_from acc (w @ b # s) = (rev acc @ w) # words_from [] s"
  by (induction w arbitrary: acc) auto

lemma words_from_last:
  "\<forall>c \<in> set w. \<not> py_space c \<Longrightarrow> rev acc @ w \<noteq> [] \<Longrightarrow> words_from acc w = [rev acc @ w]"
  by (induction w arbitrary: acc) auto

lemma py_space_blank [simp]: "py_space (CHR '' '')"
  by (simp add: py_space_def)

lemma py_words_join: "\<forall>w \<in> set ws. py_word w \<Longrightarrow> py_words (join_with '' '' ws) = ws"
proof (induction "'' ''" ws rule: join_with.induct)
  case (2 w)
  then show ?case using words_from_last [of w "[]"] by (simp add: py_words_def py_word_def)
next
  case (3 w v ws)
  then show ?case using words_from_word [of w "CHR '' ''" "[]"] by (simp add: py_words_def py_word_def)
qed (simp add: py_words_def)

lemma split_first_sound:
  "split_first p s = Some (b, a) \<Longrightarrow> s = b @ p @ a"
proof (induction s arbitrary: b)
  case (Cons c cs)
  then show ?case by (auto simp: prefix_def split: if_splits)
qed (auto split: if_splits)

lemma split_first_here [simp]: "p \<noteq> [] \<Longrightarrow> split_first p (p @ s) = Some ([], s)"
  by (cases p) (auto simp: prefix_def)

text \<open>Nothing before an occurrence that does not contain the first character of the pattern.\<close>

lemma split_first_skip:
  "d \<notin> set b \<Longrightarrow> split_first (d # p) (b @ (d # p) @ a) = Some (b, a)"
proof (induction b)
  case Nil
  show ?case using split_first_here [of "d # p" a] by simp
next
  case (Cons c cs)
  then have "\<not> prefix (d # p) (c # cs @ (d # p) @ a)" by (auto simp: prefix_def)
  with Cons show ?case by auto
qed

lemma py_strip_id:
  assumes "s = [] \<or> \<not> py_space (hd s) \<and> \<not> py_space (last s)"
  shows "py_strip s = s"
proof (cases "s = []")
  case False
  then obtain x xs where x: "s = x # xs" by (cases s) auto
  then have l: "py_lstrip s = s" using assms by (simp add: py_lstrip_def)
  obtain ys y where y: "s = ys @ [y]" using False by (cases s rule: rev_exhaust) auto
  then have "\<not> py_space y" using assms by auto
  then show ?thesis unfolding py_strip_def l using y by simp
qed (simp add: py_strip_def py_lstrip_def)

lemma py_strip_pad:
  assumes "\<forall>c \<in> set a. py_space c" and "\<forall>c \<in> set b. py_space c"
    and "s \<noteq> []" and "\<not> py_space (hd s)" and "\<not> py_space (last s)"
  shows "py_strip (a @ s @ b) = s"
proof -
  have "dropWhile py_space (a @ s @ b) = s @ b"
    using assms(1,3,4) by (cases s) (auto simp: dropWhile_append3)
  moreover obtain ys y where y: "s = ys @ [y]" using assms(3) by (cases s rule: rev_exhaust) auto
  moreover have "dropWhile py_space (rev b @ y # rev ys) = y # rev ys"
    using assms(2,5) y by (subst dropWhile_append2) auto
  ultimately show ?thesis by (simp add: py_strip_def py_lstrip_def)
qed

lemma split_lines_break:
  "\<forall>c \<in> set l. \<not> line_break c \<Longrightarrow>
    split_lines acc (l @ CHR 0x0A # s) = (rev acc @ l) # split_lines [] s"
proof (induction l arbitrary: acc)
  case (Cons c cs)
  then have "c \<noteq> CHR 0x0D" "\<not> line_break c" by (auto simp: line_break_def)
  with Cons show ?case by simp
qed (simp add: line_break_def)

lemma split_lines_end:
  "\<forall>c \<in> set l. \<not> line_break c \<Longrightarrow> rev acc @ l \<noteq> [] \<Longrightarrow> split_lines acc l = [rev acc @ l]"
proof (induction l arbitrary: acc)
  case (Cons c cs)
  then have "c \<noteq> CHR 0x0D" "\<not> line_break c" by (auto simp: line_break_def)
  with Cons show ?case by simp
qed simp

lemma splitlines_join:
  assumes "ls \<noteq> []" and "\<forall>l \<in> set ls. l \<noteq> [] \<and> (\<forall>c \<in> set l. \<not> line_break c)"
  shows "splitlines (concat (map (\<lambda>l. l @ [CHR 0x0A]) (butlast ls)) @ last ls) = ls"
  using assms
proof (induction ls)
  case (Cons l ls)
  show ?case
  proof (cases "ls = []")
    case True
    then show ?thesis using Cons.prems split_lines_end [of l "[]"] by (simp add: splitlines_def)
  next
    case False
    then show ?thesis
      using Cons split_lines_break [of l "[]"] by (simp add: splitlines_def)
  qed
qed simp

lemma str_contains_iff: "str_contains p s \<longleftrightarrow> (\<exists>a b. s = a @ p @ b)"
proof (induction s)
  case (Cons c cs)
  show ?case
  proof
    assume "str_contains p (c # cs)"
    then consider "prefix p (c # cs)" | "str_contains p cs" by auto
    then show "\<exists>a b. c # cs = a @ p @ b"
    proof cases
      case 1
      then obtain b where "c # cs = [] @ p @ b" by (auto simp: prefix_def)
      then show ?thesis by blast
    next
      case 2
      then obtain a b where "c # cs = (c # a) @ p @ b" using Cons by auto
      then show ?thesis by blast
    qed
  next
    assume "\<exists>a b. c # cs = a @ p @ b"
    then obtain a b where ab: "c # cs = a @ p @ b" by blast
    show "str_contains p (c # cs)"
    proof (cases a)
      case Nil
      then have "prefix p (c # cs)" using ab by (simp add: prefix_def)
      then show ?thesis by simp
    next
      case (Cons x a')
      then have "cs = a' @ p @ b" using ab by simp
      then show ?thesis using Cons.IH by auto
    qed
  qed
qed auto

lemma str_contains_after: "str_contains p s \<Longrightarrow> str_contains p (x @ s)"
  unfolding str_contains_iff by (metis append.assoc)

lemma lstrip_split: "py_lstrip s = py_strip s @ rev (takeWhile py_space (rev (py_lstrip s)))"
proof -
  let ?l = "py_lstrip s"
  have "rev (takeWhile py_space (rev ?l) @ dropWhile py_space (rev ?l)) = ?l"
    by (subst takeWhile_dropWhile_id) simp
  then show ?thesis by (simp only: rev_append py_strip_def)
qed

lemma strip_decomp: "\<exists>a b. s = a @ py_strip s @ b \<and> (\<forall>c \<in> set (a @ b). py_space c)"
proof -
  let ?l = "py_lstrip s"
  have 1: "s = takeWhile py_space s @ ?l" by (simp add: py_lstrip_def)
  note 2 = lstrip_split [of s]
  have "s = takeWhile py_space s @ py_strip s @ rev (takeWhile py_space (rev ?l))" using 1 2 by argo
  moreover have "\<forall>c \<in> set (takeWhile py_space s @ rev (takeWhile py_space (rev ?l))). py_space c"
    by (auto dest: set_takeWhileD)
  ultimately show ?thesis by blast
qed

lemma strip_ends:
  assumes "py_strip s \<noteq> []"
  shows "\<not> py_space (hd (py_strip s)) \<and> \<not> py_space (last (py_strip s))"
proof
  have ne: "dropWhile py_space (rev (py_lstrip s)) \<noteq> []" using assms by (simp add: py_strip_def)
  then have "\<not> py_space (hd (dropWhile py_space (rev (py_lstrip s))))" by (rule hd_dropWhile)
  then show "\<not> py_space (last (py_strip s))" using ne by (simp add: py_strip_def last_rev)
  have l: "py_lstrip s \<noteq> []" using ne by auto
  obtain w where w: "py_lstrip s = py_strip s @ w" using lstrip_split by blast
  have "hd (py_lstrip s) = hd (py_strip s)" using assms by (subst w) simp
  moreover have "\<not> py_space (hd (py_lstrip s))" using l unfolding py_lstrip_def by (rule hd_dropWhile)
  ultimately show "\<not> py_space (hd (py_strip s))" by simp
qed

lemma py_strip_idem [simp]: "py_strip (py_strip s) = py_strip s"
proof (cases "py_strip s = []")
  case True
  show ?thesis unfolding True by (simp add: py_strip_def py_lstrip_def)
next
  case False
  then show ?thesis using strip_ends by (intro py_strip_id) simp
qed

lemma nth_mid: "x \<noteq> [] \<Longrightarrow> (a @ x @ b) ! length a = hd x"
  by (cases x) (simp_all add: nth_append)

text \<open>Stripping a text keeps the stripped form of every part of it.\<close>

lemma strip_keeps:
  assumes "py_strip m \<noteq> []"
  shows "str_contains (py_strip m) (py_strip (a @ m @ b))"
proof -
  let ?s = "a @ m @ b"
  obtain a1 b1 where m: "m = a1 @ py_strip m @ b1" using strip_decomp by blast
  obtain a2 b2 where s: "?s = a2 @ py_strip ?s @ b2" "\<forall>c \<in> set (a2 @ b2). py_space c" using strip_decomp by blast
  have eq: "(a @ a1) @ py_strip m @ (b1 @ b) = a2 @ py_strip ?s @ b2" using m s(1) by (metis append.assoc)
  note ends = strip_ends [OF assms]
  have l: "length a2 \<le> length (a @ a1)"
  proof (rule ccontr)
    assume "\<not> length a2 \<le> length (a @ a1)"
    then have lt: "length (a @ a1) < length a2" by simp
    then have "((a @ a1) @ py_strip m @ (b1 @ b)) ! length (a @ a1) = a2 ! length (a @ a1)"
      unfolding eq by (simp add: nth_append)
    moreover have "((a @ a1) @ py_strip m @ (b1 @ b)) ! length (a @ a1) = hd (py_strip m)"
      by (rule nth_mid [OF assms])
    ultimately have "hd (py_strip m) \<in> set a2" using lt nth_mem by metis
    then show False using s(2) ends by auto
  qed
  have r: "length b2 \<le> length (b1 @ b)"
  proof (rule ccontr)
    assume n: "\<not> length b2 \<le> length (b1 @ b)"
    have "rev (b1 @ b) @ rev (py_strip m) @ rev (a @ a1) = rev b2 @ rev (py_strip ?s) @ rev a2"
      using arg_cong [OF eq, of rev] by simp
    then have "(rev (b1 @ b) @ rev (py_strip m) @ rev (a @ a1)) ! length (rev (b1 @ b)) = rev b2 ! length (rev (b1 @ b))"
      using n by (simp only: nth_append) simp
    moreover have "(rev (b1 @ b) @ rev (py_strip m) @ rev (a @ a1)) ! length (rev (b1 @ b)) = last (py_strip m)"
      using nth_mid [of "rev (py_strip m)" "rev (b1 @ b)" "rev (a @ a1)"] assms by (simp add: hd_rev)
    ultimately have "last (py_strip m) \<in> set b2" using n
      by (metis length_rev not_le nth_mem set_rev)
    then show False using s(2) ends by auto
  qed
  obtain u where u: "a @ a1 = a2 @ u"
    using eq l by (metis append_eq_append_conv_if append_take_drop_id)
  have "u @ py_strip m @ (b1 @ b) = py_strip ?s @ b2" using eq unfolding u by simp
  moreover obtain v where v: "b1 @ b = v @ b2"
  proof -
    have "rev b2 @ rev (py_strip ?s) = rev (b1 @ b) @ rev (u @ py_strip m)"
      using calculation by (metis append.assoc rev_append)
    then obtain v where "rev (b1 @ b) = rev b2 @ v"
      using r by (metis append_eq_append_conv_if append_take_drop_id length_rev)
    then have "b1 @ b = rev v @ b2" by (metis rev_append rev_rev_ident)
    then show ?thesis by (rule that)
  qed
  ultimately have "u @ py_strip m @ v = py_strip ?s" by (metis append.assoc append_same_eq)
  then show ?thesis unfolding str_contains_iff by metis
qed

text \<open>Without a carriage return there is nothing to turn; what was turned has none left.\<close>

lemma universal_newlines_id: "CHR 0x0D \<notin> set s \<Longrightarrow> universal_newlines s = s"
  by (induction s rule: universal_newlines.induct) auto

lemma universal_newlines_no_cr: "CHR 0x0D \<notin> set (universal_newlines s)"
  by (induction s rule: universal_newlines.induct) (auto split: list.splits)

lemma universal_newlines_idem [simp]: "universal_newlines (universal_newlines s) = universal_newlines s"
  by (rule universal_newlines_id [OF universal_newlines_no_cr])

end
