(* ===== verification/Llm_Retry.thy ===== *)
theory Llm_Retry
  imports Py_Strings
begin

text \<open>
  \<^verbatim>\<open>agents/llm_retry.py\<close>: the retry loop around one backend call.

  An exception of the call is a record of what the classification reads from it: its class, its
  message, the HTTP status of the exception it was raised from, and the Retry-After header of its
  response, if any. The k-th call is \<open>fn k\<close>: how long it took, and its value or exception. The k-th
  draw of \<open>random.uniform(0, x)\<close> is \<open>jitter k * x\<close>. Times are reals, in seconds; that \<open>float\<close> of
  a header yields no infinity and no NaN is assumed by the type.
\<close>

datatype llm_error_class =
    BillingExhaustedClass          \<comment> \<open>a subclass of RuntimeError\<close>
  | TimeoutClass                   \<comment> \<open>the builtin TimeoutError\<close>
  | ReqConnectionClass | ReqTimeoutClass
  | RuntimeClass
  | OtherClass string

datatype retry_header = Seconds real | NotANumber

record llm_error =
  le_class :: llm_error_class
  le_message :: string
  le_cause_status :: "int option"          \<comment> \<open>status of the HTTPError it wraps\<close>
  le_retry_after :: "retry_header option"  \<comment> \<open>None: no response or no such header\<close>

definition RETRYABLE_STATUS_CODES :: "int list" where
  "RETRYABLE_STATUS_CODES = [429, 500, 502, 503, 504]"

definition DEFAULT_MAX_RETRIES :: int where
  "DEFAULT_MAX_RETRIES = 3"

definition DEFAULT_MAX_DELAY :: real where
  "DEFAULT_MAX_DELAY = 30"

definition extract_retry_after :: "llm_error \<Rightarrow> real option" where
  "extract_retry_after e =
     (case le_retry_after e of Some (Seconds r) \<Rightarrow> Some r | _ \<Rightarrow> None)"

definition is_retryable :: "llm_error \<Rightarrow> bool" where
  "is_retryable e =
     (case le_class e of
        BillingExhaustedClass \<Rightarrow> False
      | TimeoutClass \<Rightarrow> True
      | ReqConnectionClass \<Rightarrow> True
      | ReqTimeoutClass \<Rightarrow> True
      | RuntimeClass \<Rightarrow>
          (case le_cause_status e of Some st \<Rightarrow> st \<in> set RETRYABLE_STATUS_CODES | None \<Rightarrow> False)
          \<or> (let msg = py_lower (le_message e) in
               list_ex (\<lambda>code. str_contains (str_int code) msg) RETRYABLE_STATUS_CODES
               \<or> list_ex (\<lambda>p. str_contains p msg)
                   [''connection'', ''timed out'', ''timeout'', ''unavailable''])
      | OtherClass _ \<Rightarrow> False)"

definition compute_delay :: "real \<Rightarrow> nat \<Rightarrow> real \<Rightarrow> real \<Rightarrow> real option \<Rightarrow> real" where
  "compute_delay jit attempt base_delay max_delay retry_after =
     (let exp_delay = base_delay * 2 ^ attempt;
          jittered = jit * exp_delay;
          delay = min jittered max_delay
      in case retry_after of
           None \<Rightarrow> delay
         | Some r \<Rightarrow> max delay (min r max_delay))"

text \<open>How a call of \<open>retry_llm_call\<close> ends, and what it did on the way.\<close>

datatype 'a retry_end =
    Returned 'a
  | RaisedError llm_error
  | RetryExhausted int llm_error
  | NoAttempt \<comment> \<open>the final assertion fails\<close>

record retry_trace =
  rt_calls :: nat
  rt_sleeps :: "real list"
  rt_metrics :: "(string \<times> string) list" \<comment> \<open>incremented counter and its label\<close>
  rt_elapsed :: real

definition start_trace :: retry_trace where
  "start_trace = \<lparr>rt_calls = 0, rt_sleeps = [], rt_metrics = [], rt_elapsed = 0\<rparr>"

definition count_metric :: "string \<Rightarrow> string \<Rightarrow> retry_trace \<Rightarrow> retry_trace" where
  "count_metric m l tr = tr\<lparr>rt_metrics := rt_metrics tr @ [(m, l)]\<rparr>"

definition sleep :: "real \<Rightarrow> retry_trace \<Rightarrow> retry_trace" where
  "sleep d tr = tr\<lparr>rt_sleeps := rt_sleeps tr @ [d], rt_elapsed := rt_elapsed tr + d\<rparr>"

definition call_made :: "real \<Rightarrow> retry_trace \<Rightarrow> retry_trace" where
  "call_made d tr = tr\<lparr>rt_calls := rt_calls tr + 1, rt_elapsed := rt_elapsed tr + d\<rparr>"

fun error_name :: "llm_error_class \<Rightarrow> string" where
  "error_name BillingExhaustedClass = ''BillingExhaustedError''"
| "error_name TimeoutClass = ''TimeoutError''"
| "error_name ReqConnectionClass = ''ConnectionError''"
| "error_name ReqTimeoutClass = ''Timeout''"
| "error_name RuntimeClass = ''RuntimeError''"
| "error_name (OtherClass n) = n"

text \<open>\<open>for attempt in range(max_retries + 1)\<close>: the second argument counts the iterations left.\<close>

fun retry_loop ::
    "(nat \<Rightarrow> real \<times> (llm_error + 'a)) \<Rightarrow> (nat \<Rightarrow> real) \<Rightarrow> int \<Rightarrow> real \<Rightarrow> real
      \<Rightarrow> nat \<Rightarrow> nat \<Rightarrow> retry_trace \<Rightarrow> 'a retry_end \<times> retry_trace" where
  "retry_loop fn jitter max_retries base_delay max_delay 0 attempt tr =
     (NoAttempt, count_metric ''vibe_llm_calls_total'' ''exhausted'' tr)"
| "retry_loop fn jitter max_retries base_delay max_delay (Suc n) attempt tr =
     (case fn attempt of
        (d, Inr result) \<Rightarrow>
          (Returned result, count_metric ''vibe_llm_calls_total'' ''success'' (call_made d tr))
      | (d, Inl e) \<Rightarrow>
          if \<not> is_retryable e then
            (RaisedError e, count_metric ''vibe_llm_calls_total'' ''error'' (call_made d tr))
          else if int attempt \<ge> max_retries then
            (RetryExhausted (max_retries + 1) e,
             count_metric ''vibe_llm_calls_total'' ''exhausted'' (call_made d tr))
          else
            retry_loop fn jitter max_retries base_delay max_delay n (Suc attempt)
              (sleep (compute_delay (jitter attempt) attempt base_delay max_delay (extract_retry_after e))
                (count_metric ''vibe_llm_retries_total'' (error_name (le_class e)) (call_made d tr))))"

definition retry_llm_call ::
    "(nat \<Rightarrow> real \<times> (llm_error + 'a)) \<Rightarrow> (nat \<Rightarrow> real) \<Rightarrow> int \<Rightarrow> real \<Rightarrow> real \<Rightarrow> 'a retry_end \<times> retry_trace" where
  "retry_llm_call fn jitter max_retries base_delay max_delay =
     retry_loop fn jitter max_retries base_delay max_delay (nat (max_retries + 1)) 0 start_trace"

section \<open>Lemmas\<close>

lemma trace_simps [simp]:
  "rt_calls (count_metric m l tr) = rt_calls tr" "rt_sleeps (count_metric m l tr) = rt_sleeps tr"
  "rt_elapsed (count_metric m l tr) = rt_elapsed tr"
  "rt_metrics (count_metric m l tr) = rt_metrics tr @ [(m, l)]"
  "rt_calls (sleep d tr) = rt_calls tr" "rt_sleeps (sleep d tr) = rt_sleeps tr @ [d]"
  "rt_metrics (sleep d tr) = rt_metrics tr" "rt_elapsed (sleep d tr) = rt_elapsed tr + d"
  "rt_calls (call_made d tr) = Suc (rt_calls tr)" "rt_sleeps (call_made d tr) = rt_sleeps tr"
  "rt_metrics (call_made d tr) = rt_metrics tr" "rt_elapsed (call_made d tr) = rt_elapsed tr + d"
  by (simp_all add: count_metric_def sleep_def call_made_def)

lemma start_trace_simps [simp]:
  "rt_calls start_trace = 0" "rt_sleeps start_trace = []" "rt_metrics start_trace = []"
  "rt_elapsed start_trace = 0"
  by (simp_all add: start_trace_def)

lemma compute_delay_bounds:
  assumes "0 \<le> jit" and "0 \<le> base_delay" and "0 \<le> max_delay"
  shows "0 \<le> compute_delay jit k base_delay max_delay ra"
    and "compute_delay jit k base_delay max_delay ra \<le> max_delay"
proof -
  have "0 \<le> jit * (base_delay * 2 ^ k)" using assms by simp
  then show "0 \<le> compute_delay jit k base_delay max_delay ra"
    "compute_delay jit k base_delay max_delay ra \<le> max_delay"
    using assms by (auto simp: compute_delay_def Let_def le_max_iff_disj split: option.splits)
qed

lemma compute_delay_honours_header:
  "min r max_delay \<le> compute_delay jit k base_delay max_delay (Some r)"
  by (simp add: compute_delay_def)

text \<open>Rule for the loop: one case per way an iteration goes.\<close>

lemma retry_loop_induct [case_names Empty Success Fatal Last Again]:
  assumes "\<And>attempt tr. P 0 attempt tr (NoAttempt, count_metric ''vibe_llm_calls_total'' ''exhausted'' tr)"
    and "\<And>n attempt tr d x. fn attempt = (d, Inr x) \<Longrightarrow>
      P (Suc n) attempt tr (Returned x, count_metric ''vibe_llm_calls_total'' ''success'' (call_made d tr))"
    and "\<And>n attempt tr d e. fn attempt = (d, Inl e) \<Longrightarrow> \<not> is_retryable e \<Longrightarrow>
      P (Suc n) attempt tr (RaisedError e, count_metric ''vibe_llm_calls_total'' ''error'' (call_made d tr))"
    and "\<And>n attempt tr d e. fn attempt = (d, Inl e) \<Longrightarrow> is_retryable e \<Longrightarrow> int attempt \<ge> mr \<Longrightarrow>
      P (Suc n) attempt tr (RetryExhausted (mr + 1) e,
        count_metric ''vibe_llm_calls_total'' ''exhausted'' (call_made d tr))"
    and "\<And>n attempt tr d e r. fn attempt = (d, Inl e) \<Longrightarrow> is_retryable e \<Longrightarrow> int attempt < mr \<Longrightarrow>
      P n (Suc attempt) (sleep (compute_delay (jitter attempt) attempt bd md (extract_retry_after e))
        (count_metric ''vibe_llm_retries_total'' (error_name (le_class e)) (call_made d tr))) r \<Longrightarrow>
      P (Suc n) attempt tr r"
  shows "P n attempt tr (retry_loop fn jitter mr bd md n attempt tr)"
proof (induction n arbitrary: attempt tr)
  case (Suc n)
  show ?case
  proof (cases "fn attempt")
    case (Pair d res)
    then show ?thesis
      using assms(2-4) assms(5) [OF _ _ _ Suc.IH] by (cases res) (auto simp: not_le)
  qed
qed (simp add: assms(1))

lemma retry_loop_calls:
  "rt_calls (snd (retry_loop fn jitter mr bd md n k tr)) \<le> rt_calls tr + n"
  by (rule retry_loop_induct [where P = "\<lambda>n k tr r. rt_calls (snd r) \<le> rt_calls tr + n"]) simp_all

lemma retry_loop_sleeps:
  assumes "\<And>k. 0 \<le> jitter k" and "0 \<le> bd" and "0 \<le> md"
  shows "\<forall>d \<in> set (rt_sleeps tr). 0 \<le> d \<and> d \<le> md \<Longrightarrow>
    \<forall>d \<in> set (rt_sleeps (snd (retry_loop fn jitter mr bd md n k tr))). 0 \<le> d \<and> d \<le> md"
proof (induction n arbitrary: k tr)
  case (Suc n)
  obtain d res where fn: "fn k = (d, res)" by fastforce
  show ?case
  proof (cases "\<exists>e. res = Inl e \<and> is_retryable e \<and> int k < mr")
    case True
    then obtain e where e: "res = Inl e" "is_retryable e" "int k < mr" by blast
    let ?tr = "sleep (compute_delay (jitter k) k bd md (extract_retry_after e))
        (count_metric ''vibe_llm_retries_total'' (error_name (le_class e)) (call_made d tr))"
    have step: "retry_loop fn jitter mr bd md (Suc n) k tr = retry_loop fn jitter mr bd md n (Suc k) ?tr"
      using fn e by simp
    have "\<forall>d \<in> set (rt_sleeps ?tr). 0 \<le> d \<and> d \<le> md"
      using Suc.prems by (simp add: compute_delay_bounds assms)
    then show ?thesis unfolding step by (rule Suc.IH)
  next
    case False
    then show ?thesis using Suc.prems fn by (cases res) auto
  qed
qed simp

definition finals :: "(string \<times> string) list \<Rightarrow> (string \<times> string) list" where
  "finals ms = filter (\<lambda>(m, l). m = ''vibe_llm_calls_total'') ms"

fun end_label :: "'a retry_end \<Rightarrow> string" where
  "end_label (Returned _) = ''success''"
| "end_label (RaisedError _) = ''error''"
| "end_label (RetryExhausted _ _) = ''exhausted''"
| "end_label NoAttempt = ''exhausted''"

lemma retry_loop_metrics:
  "finals (rt_metrics (snd (retry_loop fn jitter mr bd md n k tr)))
     = finals (rt_metrics tr)
        @ [(''vibe_llm_calls_total'', end_label (fst (retry_loop fn jitter mr bd md n k tr)))]
   \<and> length (rt_metrics (snd (retry_loop fn jitter mr bd md n k tr))) + length (rt_sleeps tr)
      = length (rt_metrics tr) + length (rt_sleeps (snd (retry_loop fn jitter mr bd md n k tr))) + 1"
  by (rule retry_loop_induct [where P = "\<lambda>n k tr r.
        finals (rt_metrics (snd r)) = finals (rt_metrics tr) @ [(''vibe_llm_calls_total'', end_label (fst r))]
        \<and> length (rt_metrics (snd r)) + length (rt_sleeps tr)
          = length (rt_metrics tr) + length (rt_sleeps (snd r)) + 1"])
    (simp_all add: finals_def)

text \<open>The loop stops at the first attempt that returns or fails for good.\<close>

lemma retry_loop_first:
  assumes "\<forall>i < m. \<exists>d e. fn (k + i) = (d, Inl e) \<and> is_retryable e" and "m < n"
    and "int (k + m) \<le> mr"
    and "fn (k + m) = (d, res)" and "\<And>e. res = Inl e \<Longrightarrow> \<not> is_retryable e"
  shows "fst (retry_loop fn jitter mr bd md n k tr)
      = (case res of Inr x \<Rightarrow> Returned x | Inl e \<Rightarrow> RaisedError e)
    \<and> rt_calls (snd (retry_loop fn jitter mr bd md n k tr)) = rt_calls tr + m + 1"
  using assms(1-4)
proof (induction m arbitrary: n k tr)
  case 0
  then obtain n' where "n = Suc n'" by (cases n) auto
  then show ?case using 0 assms(5) by (cases res) auto
next
  case (Suc m)
  then obtain n' where n: "n = Suc n'" by (cases n) auto
  obtain d' e where e: "fn k = (d', Inl e)" "is_retryable e" using Suc.prems(1) by force
  have "\<forall>i < m. \<exists>d e. fn (Suc k + i) = (d, Inl e) \<and> is_retryable e"
    using Suc.prems(1) by (metis Suc_less_eq add_Suc_right add_Suc_shift)
  then show ?case using Suc.IH [of "Suc k" n'] Suc.prems(2-4) n e by simp
qed

lemma retry_loop_all_fail:
  assumes "\<forall>i. int (k + i) \<le> mr \<longrightarrow> (\<exists>d e. fn (k + i) = (d, Inl e) \<and> is_retryable e)"
    and "int k + int n = mr + 1" and "n > 0"
  shows "\<exists>e. fst (retry_loop fn jitter mr bd md n k tr) = RetryExhausted (mr + 1) e
    \<and> rt_calls (snd (retry_loop fn jitter mr bd md n k tr)) = rt_calls tr + n"
  using assms
proof (induction n arbitrary: k tr)
  case (Suc n)
  obtain d e where e: "fn k = (d, Inl e)" "is_retryable e"
    using Suc.prems(1)[rule_format, of 0] Suc.prems(2) by auto
  show ?case
  proof (cases n)
    case 0
    then show ?thesis using e Suc.prems(2) by simp
  next
    case (Suc n')
    have "\<forall>i. int (Suc k + i) \<le> mr \<longrightarrow> (\<exists>d e. fn (Suc k + i) = (d, Inl e) \<and> is_retryable e)"
      using Suc.prems(1) by (metis add_Suc_right add_Suc_shift)
    then show ?thesis using Suc.IH [of "Suc k"] Suc.prems(2) e \<open>n = Suc n'\<close> by simp
  qed
qed simp

section \<open>Properties\<close>

text \<open>A call makes at most \<open>max_retries + 1\<close> attempts; every pause between two attempts lies
  between zero and \<open>max_delay\<close>, whatever the jitter and the server's Retry-After say.\<close>

theorem retry_call_bounds:
  assumes "\<And>k. 0 \<le> jitter k" and "0 \<le> base_delay" and "0 \<le> max_delay"
  shows "rt_calls (snd (retry_llm_call fn jitter max_retries base_delay max_delay)) \<le> nat (max_retries + 1)
    \<and> (\<forall>d \<in> set (rt_sleeps (snd (retry_llm_call fn jitter max_retries base_delay max_delay))).
         0 \<le> d \<and> d \<le> max_delay)"
  using retry_loop_calls [where n = "nat (max_retries + 1)" and k = 0 and tr = start_trace and fn = fn
      and jitter = jitter and bd = base_delay and md = max_delay and mr = max_retries]
    retry_loop_sleeps [where n = "nat (max_retries + 1)" and k = 0 and tr = start_trace and fn = fn
      and jitter = jitter and bd = base_delay and md = max_delay and mr = max_retries] assms
  by (auto simp: retry_llm_call_def)

definition read_timeout :: llm_error where
  "read_timeout = \<lparr>le_class = TimeoutClass, le_message = ''read timed out'', le_cause_status = None,
     le_retry_after = Some (Seconds 120)\<rparr>"

theorem retry_call_bounds_witness:
  "rt_calls (snd (retry_llm_call (\<lambda>k. (1, Inl read_timeout) :: real \<times> (llm_error + int)) (\<lambda>k. 1 / 2) 1 1 30)) \<le> 2
   \<and> rt_sleeps (snd (retry_llm_call (\<lambda>k. (1, Inl read_timeout) :: real \<times> (llm_error + int)) (\<lambda>k. 1 / 2) 1 1 30)) = [30]"
proof -
  have "rt_sleeps (snd (retry_llm_call (\<lambda>k. (1, Inl read_timeout) :: real \<times> (llm_error + int)) (\<lambda>k. 1 / 2) 1 1 30)) = [30]"
    by (simp add: retry_llm_call_def numeral_2_eq_2 is_retryable_def read_timeout_def
        compute_delay_def extract_retry_after_def)
  then show ?thesis
    using retry_call_bounds [of "\<lambda>k. 1 / 2" 1 30 "\<lambda>k. (1, Inl read_timeout) :: real \<times> (llm_error + int)" 1]
    by simp
qed

text \<open>After any number of transient failures within the retries, the first attempt that returns
  gives the result and the first permanent error is raised as it is; no further attempt is made.\<close>

theorem retry_stops_at_first_verdict:
  assumes "\<forall>i < m. \<exists>d e. fn i = (d, Inl e) \<and> is_retryable e" and "int m \<le> max_retries"
    and "fn m = (d, res)" and "\<And>e. res = Inl e \<Longrightarrow> \<not> is_retryable e"
  shows "fst (retry_llm_call fn jitter max_retries base_delay max_delay)
      = (case res of Inr x \<Rightarrow> Returned x | Inl e \<Rightarrow> RaisedError e)
    \<and> rt_calls (snd (retry_llm_call fn jitter max_retries base_delay max_delay)) = m + 1"
  using retry_loop_first [of m fn 0 "nat (max_retries + 1)" max_retries d res jitter base_delay max_delay
      start_trace] assms by (simp add: retry_llm_call_def)

definition billing_error :: llm_error where
  "billing_error = \<lparr>le_class = BillingExhaustedClass, le_message = ''HTTP 429: credit exhausted'',
     le_cause_status = Some 429, le_retry_after = None\<rparr>"

theorem retry_stops_at_first_verdict_witness:
  "fst (retry_llm_call (\<lambda>k. (1, if k = 0 then Inl read_timeout else Inl billing_error :: llm_error + int))
     (\<lambda>k. 1) 3 1 30) = RaisedError billing_error"
  using retry_stops_at_first_verdict [of 1 "\<lambda>k. (1, if k = 0 then Inl read_timeout else Inl billing_error :: llm_error + int)"
      3 1 "Inl billing_error" "\<lambda>k. 1" 1 30]
  by (simp add: is_retryable_def read_timeout_def billing_error_def)

text \<open>When every attempt fails transiently, exactly \<open>max_retries + 1\<close> attempts are made and the
  call ends with the exhaustion error for that number.\<close>

theorem retry_exhausts_exactly:
  assumes "\<forall>i. \<exists>d e. fn i = (d, Inl e) \<and> is_retryable e" and "0 \<le> max_retries"
  shows "\<exists>e. fst (retry_llm_call fn jitter max_retries base_delay max_delay) = RetryExhausted (max_retries + 1) e
    \<and> rt_calls (snd (retry_llm_call fn jitter max_retries base_delay max_delay)) = nat (max_retries + 1)"
  using retry_loop_all_fail [of 0 max_retries fn "nat (max_retries + 1)" jitter base_delay max_delay start_trace]
    assms by (simp add: retry_llm_call_def)

theorem retry_exhausts_exactly_witness:
  "rt_calls (snd (retry_llm_call (\<lambda>k. (1, Inl read_timeout) :: real \<times> (llm_error + int)) (\<lambda>k. 1) 3 1 30)) = 4"
  using retry_exhausts_exactly [of "\<lambda>k. (1, Inl read_timeout) :: real \<times> (llm_error + int)" 3 "\<lambda>k. 1" 1 30]
  by (auto simp: is_retryable_def read_timeout_def)

text \<open>A RuntimeError is retried whenever its message contains the digits of a retryable status
  anywhere, also when the exception it wraps is a permanent HTTP error such as 400.\<close>

theorem retry_matches_digits_anywhere:
  assumes "le_class e = RuntimeClass" and "code \<in> set RETRYABLE_STATUS_CODES"
    and "str_contains (str_int code) (py_lower (le_message e))"
  shows "is_retryable e"
  using assms by (auto simp: is_retryable_def Let_def list_ex_iff)

definition bad_request :: llm_error where
  "bad_request = \<lparr>le_class = RuntimeClass, le_message = ''HTTP 400: max_tokens 5000'',
     le_cause_status = Some 400, le_retry_after = None\<rparr>"

lemma str_500: "str_int 500 = ''500''"
  by code_simp

lemma bad_request_mentions_500: "str_contains ''500'' (py_lower (le_message bad_request))"
  by code_simp

theorem retry_matches_digits_anywhere_witness: "is_retryable bad_request"
  by (rule retry_matches_digits_anywhere [where code = 500])
    (use bad_request_mentions_500 in
      \<open>simp_all add: bad_request_def RETRYABLE_STATUS_CODES_def str_500\<close>)

end
