(* ===== verification/Backend_Pool.thy ===== *)
theory Backend_Pool
  imports Circuit_Breaker Llm_Retry "HOL-Library.Multiset"
begin

text \<open>
  \<^verbatim>\<open>agents/backend_pool.py\<close>: load balancing and failover over several LLM backends, with a circuit
  breaker per backend.

  Entries are referred to by their position in the pool, as the source shares the entry objects
  between the pool and the order it tries. The backends are a parameter: \<open>env_call i k\<close> is the k-th
  attempt on backend \<open>i\<close> within one request (its duration, and its error or the \<open>text\<close> of its
  result, \<open>None\<close> for a result without that key). \<open>now\<close> is the monotonic clock: it advances by what
  the calls and pauses of the retry loop take. One request is modelled at a time; the breaker's
  operations are atomic in the source (a lock each), the inflight counter is not protected there.
\<close>

section \<open>Backend entries\<close>

record backend_entry =
  be_repr :: string
  be_recovery_timeout :: real
  be_max_failures :: int
  be_state :: circuit_state
  be_failures :: int
  be_last_failure :: real
  be_inflight :: int

definition new_entry :: "string \<Rightarrow> real \<Rightarrow> int \<Rightarrow> backend_entry" where
  "new_entry r timeout limit = \<lparr>be_repr = r, be_recovery_timeout = timeout, be_max_failures = limit,
     be_state = Closed, be_failures = 0, be_last_failure = 0, be_inflight = 0\<rparr>"

definition is_available :: "real \<Rightarrow> backend_entry \<Rightarrow> bool \<times> backend_entry" where
  "is_available now e =
     (case be_state e of
        Closed \<Rightarrow> (True, e)
      | Open \<Rightarrow>
          (if now - be_last_failure e \<ge> be_recovery_timeout e
           then (True, e\<lparr>be_state := HalfOpen\<rparr>) else (False, e))
      | HalfOpen \<Rightarrow> (True, e))"

definition record_success :: "backend_entry \<Rightarrow> backend_entry" where
  "record_success e = e\<lparr>be_state := Closed, be_failures := 0\<rparr>"

definition record_failure :: "real \<Rightarrow> backend_entry \<Rightarrow> backend_entry" where
  "record_failure now e =
     (let e1 = e\<lparr>be_failures := be_failures e + 1, be_last_failure := now\<rparr> in
      if be_state e1 = HalfOpen then e1\<lparr>be_state := Open\<rparr>
      else if be_failures e1 \<ge> be_max_failures e1 then
        (if be_state e1 \<noteq> Open then e1\<lparr>be_state := Open\<rparr> else e1)
      else e1)"

fun state_value :: "circuit_state \<Rightarrow> string" where
  "state_value Closed = ''closed''"
| "state_value Open = ''open''"
| "state_value HalfOpen = ''half_open''"

record entry_status =
  es_backend :: string
  es_circuit_state :: string
  es_consecutive_failures :: int
  es_inflight :: int

definition status_dict :: "backend_entry \<Rightarrow> entry_status" where
  "status_dict e = \<lparr>es_backend = be_repr e, es_circuit_state = state_value (be_state e),
     es_consecutive_failures = be_failures e, es_inflight = be_inflight e\<rparr>"

definition entry_due :: "backend_entry \<Rightarrow> real" where
  "entry_due e = be_last_failure e + be_recovery_timeout e"

interpretation entry_breaker: circuit_breaker is_available be_state entry_due "\<lambda>_. True"
  by unfold_locales (auto simp: is_available_def entry_due_def)

section \<open>The pool\<close>

record backend_pool =
  bp_strategy :: string
  bp_max_retries :: int
  bp_base_delay :: real
  bp_entries :: "backend_entry list"
  bp_rr_index :: int

definition new_pool :: "string list \<Rightarrow> string \<Rightarrow> int \<Rightarrow> real \<Rightarrow> int \<Rightarrow> real \<Rightarrow> py_exn + backend_pool" where
  "new_pool backends strategy limit timeout retries delay =
     (if backends = [] then Inl (ValueError ''BackendPool requires at least one backend'')
      else Inr \<lparr>bp_strategy = strategy, bp_max_retries = retries, bp_base_delay = delay,
        bp_entries = map (\<lambda>b. new_entry b timeout limit) backends, bp_rr_index = 0\<rparr>)"

text \<open>\<open>_select_order\<close>: asking an entry whether it is available may move its breaker.\<close>

definition select_order :: "real \<Rightarrow> backend_pool \<Rightarrow> nat list \<times> backend_pool" where
  "select_order now p =
     (let rs = map (is_available now) (bp_entries p);
          es = map snd rs;
          p1 = p\<lparr>bp_entries := es\<rparr>;
          available = filter (\<lambda>i. fst (rs ! i)) [0..<length es]
      in if available = [] then ([0..<length es], p1)
         else if bp_strategy p = ''round_robin'' then
           (let idx = nat (bp_rr_index p mod int (length available))
            in (drop idx available @ take idx available, p1\<lparr>bp_rr_index := bp_rr_index p + 1\<rparr>))
         else if bp_strategy p = ''least_loaded'' then
           (sort_key (\<lambda>i. be_inflight (es ! i)) available, p1)
         else (available, p1))"

record pool_env =
  env_call :: "nat \<Rightarrow> nat \<Rightarrow> real \<times> (llm_error + string option)"
  env_jitter :: "nat \<Rightarrow> nat \<Rightarrow> real"

record pool_run =
  pr_entries :: "backend_entry list"
  pr_now :: real
  pr_last_error :: string          \<comment> \<open>\<open>str(last_error)\<close>\<close>
  pr_log :: "(nat \<times> nat) list"      \<comment> \<open>backends called, with the attempts made on each\<close>

definition upd_entry :: "nat \<Rightarrow> (backend_entry \<Rightarrow> backend_entry) \<Rightarrow> pool_run \<Rightarrow> pool_run" where
  "upd_entry i f r = r\<lparr>pr_entries := (pr_entries r)[i := f (pr_entries r ! i)]\<rparr>"

definition add_inflight :: "int \<Rightarrow> backend_entry \<Rightarrow> backend_entry" where
  "add_inflight d e = e\<lparr>be_inflight := be_inflight e + d\<rparr>"

text \<open>\<open>str(exc)\<close> of what a call of \<open>retry_llm_call\<close> raises.\<close>

fun error_text :: "'a retry_end \<Rightarrow> string" where
  "error_text (RetryExhausted n e) =
     ''LLM call failed after '' @ str_int n @ '' attempts. Last error: '' @ le_message e"
| "error_text (RaisedError e) = le_message e"
| "error_text (Returned _) = CHR 0x27 # ''text'' @ [CHR 0x27]"
| "error_text NoAttempt = []"

definition entry_failed :: "nat \<Rightarrow> string \<Rightarrow> pool_run \<Rightarrow> pool_run" where
  "entry_failed i msg r = upd_entry i (add_inflight (- 1) \<circ> record_failure (pr_now r)) (r\<lparr>pr_last_error := msg\<rparr>)"

text \<open>The body of the loop over the order: \<open>Some\<close> is the early return, \<open>None\<close> goes on.\<close>

definition try_entry :: "backend_pool \<Rightarrow> pool_env \<Rightarrow> nat \<Rightarrow> pool_run \<Rightarrow> string option \<times> pool_run" where
  "try_entry p env i r =
     (let (ok, e) = is_available (pr_now r) (pr_entries r ! i);
          r1 = upd_entry i (\<lambda>_. e) r
      in if \<not> ok then (None, r1)
         else
           let (result, tr) = retry_llm_call (env_call env i) (env_jitter env i) (bp_max_retries p)
                 (bp_base_delay p) DEFAULT_MAX_DELAY;
               r2 = (upd_entry i (add_inflight 1) r1)
                 \<lparr>pr_now := pr_now r + rt_elapsed tr, pr_log := pr_log r @ [(i, rt_calls tr)]\<rparr>
           in case result of
                Returned (Some reply) \<Rightarrow> (Some reply, upd_entry i (add_inflight (- 1) \<circ> record_success) r2)
              | Returned None \<Rightarrow> (None, entry_failed i (error_text result) (upd_entry i record_success r2))
              | _ \<Rightarrow> (None, entry_failed i (error_text result) r2))"

fun try_entries :: "backend_pool \<Rightarrow> pool_env \<Rightarrow> nat list \<Rightarrow> pool_run \<Rightarrow> string option \<times> pool_run" where
  "try_entries p env [] r = (None, r)"
| "try_entries p env (i # is) r =
     (case try_entry p env i r of
        (Some reply, r') \<Rightarrow> (Some reply, r')
      | (None, r') \<Rightarrow> try_entries p env is r')"

definition generate :: "pool_env \<Rightarrow> real \<Rightarrow> backend_pool \<Rightarrow> (py_exn + string) \<times> pool_run \<times> backend_pool" where
  "generate env now p =
     (let (order, p1) = select_order now p;
          (answer, r) = try_entries p1 env order
            \<lparr>pr_entries = bp_entries p1, pr_now = now, pr_last_error = ''None'', pr_log = []\<rparr>;
          p2 = p1\<lparr>bp_entries := pr_entries r\<rparr>
      in case answer of
           Some reply \<Rightarrow> (Inr reply, r, p2)
         | None \<Rightarrow> (Inl (RuntimeError (''BackendPool: all '' @ str_nat (length (bp_entries p))
             @ '' backends failed. Last error: '' @ pr_last_error r)), r, p2))"

definition health_check :: "(nat \<Rightarrow> py_exn + bool) \<Rightarrow> backend_pool \<Rightarrow> bool" where
  "health_check probe p = list_ex (\<lambda>i. probe i = Inr True) [0..<length (bp_entries p)]"

definition pool_status :: "backend_pool \<Rightarrow> entry_status list" where
  "pool_status p = map status_dict (bp_entries p)"

section \<open>Lemmas on entries\<close>

lemma is_available_frame:
  "is_available now e = (ok, e') \<Longrightarrow> be_inflight e' = be_inflight e"
  by (auto simp: is_available_def split: circuit_state.splits if_splits)

lemma breaker_inflight [simp]:
  "be_inflight (record_success e) = be_inflight e" "be_inflight (record_failure now e) = be_inflight e"
  "be_inflight (add_inflight d e) = be_inflight e + d" "be_inflight (snd (is_available now e)) = be_inflight e"
  by (auto simp: record_success_def record_failure_def add_inflight_def Let_def is_available_def
      split: circuit_state.splits)

lemma record_failure_count [simp]:
  "be_failures (record_failure t e) = be_failures e + 1"
  "be_max_failures (record_failure t e) = be_max_failures e"
  by (simp_all add: record_failure_def Let_def)

lemma record_failure_closed:
  "be_state e = Closed \<Longrightarrow>
    be_state (record_failure t e) = (if be_failures e + 1 \<ge> be_max_failures e then Open else Closed)"
  by (simp add: record_failure_def Let_def)

lemma record_failure_open: "be_state e = Open \<Longrightarrow> be_state (record_failure t e) = Open"
  by (simp add: record_failure_def Let_def)

lemma failures_state:
  "be_state e = Closed \<Longrightarrow> be_state (fold record_failure ts e) =
     (if ts \<noteq> [] \<and> be_failures e + int (length ts) \<ge> be_max_failures e then Open else Closed)
   \<and> be_failures (fold record_failure ts e) = be_failures e + int (length ts)
   \<and> be_max_failures (fold record_failure ts e) = be_max_failures e"
proof (induction ts rule: rev_induct)
  case (snoc t ts)
  then show ?case
    using record_failure_closed [of "fold record_failure ts e" t]
      record_failure_open [of "fold record_failure ts e" t]
    by (auto split: if_splits)
qed simp

section \<open>Lemmas on a request\<close>

lemma upd_entry_simps [simp]:
  "length (pr_entries (upd_entry i f r)) = length (pr_entries r)" "pr_now (upd_entry i f r) = pr_now r"
  "pr_entries (upd_entry i f r) = (pr_entries r)[i := f (pr_entries r ! i)]"
  by (simp_all add: upd_entry_def)

lemma entry_failed_simps [simp]:
  "pr_entries (entry_failed i m r)
     = (pr_entries r)[i := add_inflight (- 1) (record_failure (pr_now r) (pr_entries r ! i))]"
  by (simp add: entry_failed_def)

text \<open>One turn of the loop changes the entry it is about and no other, and gives the inflight count
  back on every path.\<close>

lemma try_entry_entries:
  assumes "try_entry p env i r = (ans, r')" and "i < length (pr_entries r)"
  obtains e where "pr_entries r' = (pr_entries r)[i := e]" and "be_inflight e = be_inflight (pr_entries r ! i)"
proof -
  obtain ok e0 where av: "is_available (pr_now r) (pr_entries r ! i) = (ok, e0)" by fastforce
  obtain result tr where call: "retry_llm_call (env_call env i) (env_jitter env i) (bp_max_retries p)
      (bp_base_delay p) DEFAULT_MAX_DELAY = (result, tr)" by fastforce
  note e0 = is_available_frame [OF av]
  have "\<exists>e. pr_entries r' = (pr_entries r)[i := e] \<and> be_inflight e = be_inflight (pr_entries r ! i)"
  proof (cases ok)
    case False
    then show ?thesis using assms(1) av e0 by (auto simp: try_entry_def)
  next
    case True
    then show ?thesis
      using assms av e0 call
      by (cases result) (auto simp: try_entry_def Let_def split: option.splits)
  qed
  then show ?thesis using that by blast
qed

definition inflights :: "backend_entry list \<Rightarrow> int list" where
  "inflights es = map be_inflight es"

lemma try_entries_inflight:
  "set order \<subseteq> {..<length (pr_entries r)} \<Longrightarrow>
    inflights (pr_entries (snd (try_entries p env order r))) = inflights (pr_entries r)
    \<and> length (pr_entries (snd (try_entries p env order r))) = length (pr_entries r)"
proof (induction order arbitrary: r)
  case (Cons i "is")
  obtain ans r' where one: "try_entry p env i r = (ans, r')" by fastforce
  have i: "i < length (pr_entries r)" using Cons.prems by simp
  obtain e where e: "pr_entries r' = (pr_entries r)[i := e]" "be_inflight e = be_inflight (pr_entries r ! i)"
    by (rule try_entry_entries [OF one i])
  then have "inflights (pr_entries r') = inflights (pr_entries r)"
    using i by (simp add: inflights_def map_update) (metis list_update_id map_update)
  moreover have "length (pr_entries r') = length (pr_entries r)" using e by simp
  ultimately show ?case
    using one Cons.IH [of r'] Cons.prems by (cases ans) auto
qed simp

definition available_now :: "real \<Rightarrow> backend_pool \<Rightarrow> nat list" where
  "available_now now p = filter (\<lambda>i. fst (is_available now (bp_entries p ! i))) [0..<length (bp_entries p)]"

lemma mset_rotation: "mset (drop k xs @ take k xs) = mset xs"
  by (metis append_take_drop_id mset_append union_commute)

text \<open>The order is a rearrangement of the available entries; of all, when none is available.\<close>

lemma select_order_mset:
  assumes "select_order now p = (order, p1)"
  shows "mset order = mset (if available_now now p = [] then [0..<length (bp_entries p)]
    else available_now now p)"
proof -
  have "filter (\<lambda>i. fst (map (is_available now) (bp_entries p) ! i)) [0..<length (bp_entries p)]
    = available_now now p"
    unfolding available_now_def by (rule filter_cong) auto
  then show ?thesis
    using assms mset_rotation [of _ "available_now now p"]
    by (auto simp: select_order_def Let_def simp del: mset_append split: if_splits)
qed

lemma select_order_entries:
  assumes "select_order now p = (order, p1)"
  shows "bp_entries p1 = map (snd \<circ> is_available now) (bp_entries p)"
    and "bp_max_retries p1 = bp_max_retries p" and "bp_base_delay p1 = bp_base_delay p"
  using assms by (auto simp: select_order_def Let_def split: if_splits)

lemma select_order_set:
  assumes "select_order now p = (order, p1)"
  shows "set order \<subseteq> {..<length (bp_entries p)}" and "distinct order"
    and "i < length (bp_entries p) \<Longrightarrow> fst (is_available now (bp_entries p ! i)) \<Longrightarrow> i \<in> set order"
proof -
  note m = select_order_mset [OF assms]
  show "set order \<subseteq> {..<length (bp_entries p)}"
    using mset_eq_setD [OF m] by (auto simp: available_now_def split: if_splits)
  show "distinct order"
    using mset_eq_imp_distinct_iff [OF m] by (simp add: available_now_def)
  show "i \<in> set order" if "i < length (bp_entries p)" "fst (is_available now (bp_entries p ! i))"
  proof -
    have "i \<in> set (available_now now p)" using that by (simp add: available_now_def)
    then show ?thesis using mset_eq_setD [OF m] by (auto split: if_splits)
  qed
qed

text \<open>An entry that is not open answers when its turn comes.\<close>

lemma try_entry_answers:
  assumes "be_state (pr_entries r ! i) \<noteq> Open"
    and "fst (retry_llm_call (env_call env i) (env_jitter env i) (bp_max_retries p)
      (bp_base_delay p) DEFAULT_MAX_DELAY) = Returned (Some reply)"
  shows "fst (try_entry p env i r) = Some reply"
proof -
  obtain e where "is_available (pr_now r) (pr_entries r ! i) = (True, e)"
    using assms(1) by (cases "be_state (pr_entries r ! i)") (auto simp: is_available_def)
  then show ?thesis using assms(2) by (auto simp: try_entry_def Let_def split: prod.splits)
qed

lemma try_entries_answers:
  assumes "i \<in> set order" and "distinct order" and "set order \<subseteq> {..<length (pr_entries r)}"
    and "be_state (pr_entries r ! i) \<noteq> Open"
    and "fst (retry_llm_call (env_call env i) (env_jitter env i) (bp_max_retries p)
      (bp_base_delay p) DEFAULT_MAX_DELAY) = Returned (Some reply)"
  shows "\<exists>t. fst (try_entries p env order r) = Some t"
  using assms(1-4)
proof (induction order arbitrary: r)
  case (Cons j js)
  obtain ans r' where one: "try_entry p env j r = (ans, r')" by fastforce
  show ?case
  proof (cases ans)
    case None
    then have "i \<noteq> j" using one try_entry_answers [OF Cons.prems(4) assms(5)] by auto
    obtain e where e: "pr_entries r' = (pr_entries r)[j := e]"
      using try_entry_entries [OF one] Cons.prems(3) by auto
    have "\<exists>t. fst (try_entries p env js r') = Some t"
      by (rule Cons.IH) (use Cons.prems e \<open>i \<noteq> j\<close> in auto)
    then show ?thesis using one None by simp
  qed (use one in simp)
qed simp

text \<open>Entries that are open and not due are passed over without a call.\<close>

lemma try_entries_all_open:
  assumes "\<forall>e \<in> set (pr_entries r). be_state e = Open \<and> pr_now r < entry_due e"
    and "set order \<subseteq> {..<length (pr_entries r)}"
  shows "try_entries p env order r = (None, r)"
  using assms(2)
proof (induction order)
  case (Cons i "is")
  then have "is_available (pr_now r) (pr_entries r ! i) = (False, pr_entries r ! i)"
    using assms(1) by (intro entry_breaker.admit_open_early) auto
  then have "try_entry p env i r = (None, r)"
    by (simp add: try_entry_def upd_entry_def)
  with Cons show ?case by simp
qed simp

section \<open>Properties\<close>

definition one_entry :: backend_entry where
  "one_entry = new_entry ''vllm'' 60 3"

definition two_pool :: backend_pool where
  "two_pool = \<lparr>bp_strategy = ''failover'', bp_max_retries = 0, bp_base_delay = 1,
     bp_entries = [one_entry, one_entry\<lparr>be_repr := ''ollama''\<rparr>], bp_rr_index = 0\<rparr>"

text \<open>The first backend reports exhausted billing, the second answers.\<close>

definition billing_env :: pool_env where
  "billing_env = \<lparr>env_call = (\<lambda>i k. (1, if i = 0 then Inl billing_error else Inr (Some ''ok''))),
     env_jitter = (\<lambda>i k. 0)\<rparr>"

text \<open>C15: If some backend whose breaker is not open answers within its retries, the request is
  answered, whatever the strategy and whatever the other backends do.\<close>

theorem generate_fails_over:
  assumes "i < length (bp_entries p)" and "be_state (bp_entries p ! i) \<noteq> Open"
    and "fst (retry_llm_call (env_call env i) (env_jitter env i) (bp_max_retries p)
      (bp_base_delay p) DEFAULT_MAX_DELAY) = Returned (Some reply)"
  shows "\<exists>answer. fst (generate env now p) = Inr answer"
proof -
  obtain order p1 where sel: "select_order now p = (order, p1)" by fastforce
  note ent = select_order_entries [OF sel] and ord = select_order_set [OF sel]
  have av: "is_available now (bp_entries p ! i) = (True, bp_entries p ! i)"
    using assms(2) entry_breaker.admit_closed entry_breaker.admit_half_open
    by (cases "be_state (bp_entries p ! i)") auto
  let ?r = "\<lparr>pr_entries = bp_entries p1, pr_now = now, pr_last_error = ''None'', pr_log = []\<rparr>"
  have "\<exists>t. fst (try_entries p1 env order ?r) = Some t"
    by (rule try_entries_answers [where i = i and reply = reply])
      (use assms av ent ord in auto)
  then show ?thesis using sel by (auto simp: generate_def Let_def split: prod.splits)
qed

theorem generate_fails_over_witness:
  "\<exists>answer. fst (generate billing_env 5 two_pool) = Inr answer"
  by (rule generate_fails_over [where i = 1 and reply = "''ok''"])
    (simp_all add: two_pool_def one_entry_def new_entry_def billing_env_def retry_llm_call_def)

text \<open>While every breaker is open and none is due, a request fails at once: no backend is called
  and no entry changes.\<close>

theorem all_open_fails_fast:
  assumes "\<forall>e \<in> set (bp_entries p). be_state e = Open \<and> now < entry_due e"
  shows "\<exists>msg r p'. generate env now p = (Inl (RuntimeError msg), r, p') \<and> pr_log r = []
    \<and> pr_now r = now \<and> bp_entries p' = bp_entries p"
proof -
  obtain order p1 where sel: "select_order now p = (order, p1)" by fastforce
  have "map (snd \<circ> is_available now) (bp_entries p) = bp_entries p"
    using assms entry_breaker.admit_open_early by (intro map_idI) auto
  with select_order_entries [OF sel] have ent: "bp_entries p1 = bp_entries p" by simp
  let ?r = "\<lparr>pr_entries = bp_entries p1, pr_now = now, pr_last_error = ''None'', pr_log = []\<rparr>"
  have "try_entries p1 env order ?r = (None, ?r)"
    by (rule try_entries_all_open) (use assms ent select_order_set(1) [OF sel] in auto)
  then show ?thesis using sel ent by (simp add: generate_def Let_def)
qed

theorem all_open_fails_fast_witness:
  "\<exists>msg r p'. generate billing_env 5 (two_pool\<lparr>bp_entries := [one_entry\<lparr>be_state := Open\<rparr>]\<rparr>)
     = (Inl (RuntimeError msg), r, p') \<and> pr_log r = []"
  using all_open_fails_fast [of "two_pool\<lparr>bp_entries := [one_entry\<lparr>be_state := Open\<rparr>]\<rparr>" 5 billing_env]
  by (auto simp: entry_due_def one_entry_def new_entry_def)

text \<open>A request gives back every inflight count it took, on every path, and keeps the number of
  entries.\<close>

theorem generate_restores_inflight:
  "map be_inflight (bp_entries (snd (snd (generate env now p)))) = map be_inflight (bp_entries p)"
proof -
  obtain order p1 where sel: "select_order now p = (order, p1)" by fastforce
  note ent = select_order_entries [OF sel] and ord = select_order_set [OF sel]
  let ?r = "\<lparr>pr_entries = bp_entries p1, pr_now = now, pr_last_error = ''None'', pr_log = []\<rparr>"
  have "inflights (pr_entries (snd (try_entries p1 env order ?r))) = inflights (bp_entries p1)"
    using try_entries_inflight [of order ?r p1 env] ent ord by simp
  moreover have "inflights (bp_entries p1) = map be_inflight (bp_entries p)"
    using ent by (simp add: inflights_def)
  ultimately show ?thesis
    using sel by (auto simp: generate_def Let_def inflights_def split: prod.splits option.splits)
qed

text \<open>A pool raises nothing but \<open>RuntimeError\<close>: the billing error of a backend, which is meant to
  halt the agent, is counted as a failure like any other and does not leave the pool.\<close>

theorem pool_hides_billing_exhaustion:
  assumes "fst (generate env now p) = Inl e"
  shows "\<exists>msg. e = RuntimeError msg"
  using assms by (auto simp: generate_def Let_def split: prod.splits option.splits)

theorem pool_hides_billing_exhaustion_witness:
  "\<exists>msg. fst (generate billing_env 5 (two_pool\<lparr>bp_entries := [one_entry]\<rparr>)) = Inl (RuntimeError msg)"
proof -
  have "\<exists>e. fst (generate billing_env 5 (two_pool\<lparr>bp_entries := [one_entry]\<rparr>)) = Inl e"
    by (simp add: generate_def select_order_def two_pool_def one_entry_def new_entry_def is_available_def
        try_entry_def billing_env_def retry_llm_call_def is_retryable_def billing_error_def Let_def)
  then show ?thesis using pool_hides_billing_exhaustion by blast
qed

text \<open>A closed breaker opens exactly at the \<open>max_consecutive_failures\<close>-th failure in a row, and a
  success in between starts the count again.\<close>

theorem breaker_opens_at_limit:
  assumes "be_state e = Closed" and "be_failures e = 0" and "ts \<noteq> []"
  shows "(be_state (fold record_failure ts e) = Open \<longleftrightarrow> be_max_failures e \<le> int (length ts))
    \<and> be_failures (record_success (fold record_failure ts e)) = 0
    \<and> be_state (record_success (fold record_failure ts e)) = Closed"
  using failures_state [OF assms(1), of ts] assms by (auto simp: record_success_def)

theorem breaker_opens_at_limit_witness:
  "be_state (fold record_failure [1, 2, 3] one_entry) = Open
    \<and> be_state (fold record_failure [1, 2] one_entry) \<noteq> Open"
  using breaker_opens_at_limit [of one_entry "[1, 2, 3]"] breaker_opens_at_limit [of one_entry "[1, 2]"]
  by (simp add: one_entry_def new_entry_def)

text \<open>From the moment its recovery timeout has passed, an open breaker admits every request, not
  the single probe its documentation promises, until one of them reports back.\<close>

theorem half_open_admits_any_number:
  assumes "be_state e = Open" and "entry_due e \<le> t"
  shows "fst (attempts is_available (t # ts) e) = replicate (Suc (length ts)) True"
  by (rule entry_breaker.due_admits_all(1) [OF TrueI assms])

theorem half_open_admits_any_number_witness:
  "fst (attempts is_available [60, 60, 61] (one_entry\<lparr>be_state := Open\<rparr>)) = [True, True, True]"
  using half_open_admits_any_number [of "one_entry\<lparr>be_state := Open\<rparr>" 60 "[60, 61]"]
  by (simp add: one_entry_def new_entry_def entry_due_def numeral_3_eq_3)

lemma round_robin_pick:
  assumes "bp_strategy p = ''round_robin''" and "\<forall>e \<in> set (bp_entries p). be_state e = Closed"
    and "bp_entries p \<noteq> []"
  shows "hd (fst (select_order now p)) = nat (bp_rr_index p mod int (length (bp_entries p)))"
    and "snd (select_order now p) = p\<lparr>bp_rr_index := bp_rr_index p + 1\<rparr>"
proof -
  let ?n = "length (bp_entries p)"
  have av: "is_available now e = (True, e)" if "e \<in> set (bp_entries p)" for e
    using assms(2) that entry_breaker.admit_closed by auto
  have es: "map snd (map (is_available now) (bp_entries p)) = bp_entries p"
    using av by (simp add: map_idI)
  have all: "filter (\<lambda>i. fst (map (is_available now) (bp_entries p) ! i)) [0..<?n] = [0..<?n]"
    using av by (simp add: filter_id_conv)
  have lt: "nat (bp_rr_index p mod int ?n) < ?n" using assms(3) by (simp add: nat_less_iff)
  then have "hd (drop (nat (bp_rr_index p mod int ?n)) [0..<?n] @ xs) = nat (bp_rr_index p mod int ?n)" for xs
    using assms(3) by (simp add: hd_append hd_drop_conv_nth)
  then show "hd (fst (select_order now p)) = nat (bp_rr_index p mod int ?n)"
    and "snd (select_order now p) = p\<lparr>bp_rr_index := bp_rr_index p + 1\<rparr>"
    using es all assms(1,3) by (simp_all add: select_order_def Let_def)
qed

fun requests :: "real list \<Rightarrow> backend_pool \<Rightarrow> nat list \<times> backend_pool" where
  "requests [] p = ([], p)"
| "requests (t # ts) p =
     (case select_order t p of (order, p') \<Rightarrow>
        case requests ts p' of (is, p'') \<Rightarrow> (hd order # is, p''))"

lemma requests_round_robin:
  "bp_strategy p = ''round_robin'' \<Longrightarrow> \<forall>e \<in> set (bp_entries p). be_state e = Closed \<Longrightarrow>
    bp_entries p \<noteq> [] \<Longrightarrow> fst (requests ts p)
      = map (\<lambda>k. nat ((bp_rr_index p + int k) mod int (length (bp_entries p)))) [0..<length ts]"
proof (induction ts arbitrary: p)
  case (Cons t ts)
  obtain order p' where sel: "select_order t p = (order, p')" by fastforce
  note pick = round_robin_pick [OF Cons.prems, of t]
  have p': "p' = p\<lparr>bp_rr_index := bp_rr_index p + 1\<rparr>" using pick(2) sel by simp
  have "fst (requests ts p') = map (\<lambda>k. nat ((bp_rr_index p + 1 + int k) mod int (length (bp_entries p))))
      [0..<length ts]"
    using Cons.IH [of p'] Cons.prems p' by simp
  also have "\<dots> = map (\<lambda>k. nat ((bp_rr_index p + int k) mod int (length (bp_entries p)))) [1..<Suc (length ts)]"
    by (simp add: map_Suc_upt [symmetric] comp_def add.assoc del: upt_Suc)
  finally show ?case
    using sel pick(1) by (cases "requests ts p'") (simp add: upt_conv_Cons del: upt_Suc)
qed simp

text \<open>Round robin spreads the load: with every breaker closed, the k-th request in a row prefers
  backend \<open>(rr_index + k) mod n\<close>, so any n requests in a row start on n different backends.\<close>

theorem round_robin_rotates:
  assumes "bp_strategy p = ''round_robin''" and "\<forall>e \<in> set (bp_entries p). be_state e = Closed"
    and "bp_entries p \<noteq> []"
  shows "fst (requests ts p)
    = map (\<lambda>k. nat ((bp_rr_index p + int k) mod int (length (bp_entries p)))) [0..<length ts]"
  by (rule requests_round_robin [OF assms])

theorem round_robin_rotates_witness:
  "fst (requests [1, 2, 3] (two_pool\<lparr>bp_strategy := ''round_robin''\<rparr>)) = [0, 1, 0]"
  using round_robin_rotates [of "two_pool\<lparr>bp_strategy := ''round_robin''\<rparr>" "[1, 2, 3]"]
  by (simp add: two_pool_def one_entry_def new_entry_def numeral_3_eq_3)

end
