(* ===== verification/Spending.thy ===== *)
theory Spending
  imports Circuit_Breaker
begin

text \<open>
  \<^verbatim>\<open>agents/spending_tracker.py\<close>: the spending ledger and the circuit breaker in front of an agent's
  heartbeats.

  The two tables are a list of events in insertion order and a dictionary of breaker rows by
  scope. Timestamps are integers, in microseconds: the ISO strings the source stores compare like
  the times they print. An empty timestamp string is \<open>None\<close>. A database failure is an argument of
  the operations that swallow it: it comes before anything is written, or after the insert, where
  only a transactional backend takes the insert back. The moments at which the source reads the
  clock are separate arguments.
\<close>

section \<open>Configuration and tables\<close>

record spend_config =
  sc_scope :: string
  sc_window_seconds :: int
  sc_max_cents :: int
  sc_max_heartbeats :: int
  sc_max_streak :: int
  sc_cooldown :: int
  sc_max_cooldown :: int
  sc_retention_days :: int
  sc_transactional :: bool

definition spend_scope :: "string \<Rightarrow> string" where
  "spend_scope agent_id = (if agent_id = [] then ''global'' else agent_id)"

record cost_event =
  ce_id :: int
  ce_timestamp :: int
  ce_agent_id :: string
  ce_agent_name :: string
  ce_run_id :: string
  ce_issue_id :: string
  ce_provider :: string
  ce_model :: string
  ce_input_tokens :: int
  ce_output_tokens :: int
  ce_cost_cents :: int
  ce_status :: string
  ce_tokens_per_second :: real
  ce_generation_ms :: int

record breaker_row =
  br_state :: circuit_state
  br_opened_at :: "int option"
  br_reason :: string
  br_cooldown_until :: "int option"
  br_trip_count :: int

record ledger =
  lg_events :: "cost_event list"
  lg_next_id :: int
  lg_breakers :: "(string, breaker_row) py_dict"

record breaker_status =
  bs_state :: circuit_state
  bs_reason :: string
  bs_opened_at :: "int option"
  bs_cooldown_until :: "int option"
  bs_trip_count :: int
  bs_retry_after :: int

definition sec :: "int \<Rightarrow> int" where
  "sec s = 1000000 * s"

definition day :: "int \<Rightarrow> int" where
  "day d = 86400 * sec d"

definition put_breaker :: "spend_config \<Rightarrow> breaker_row \<Rightarrow> ledger \<Rightarrow> ledger" where
  "put_breaker cfg r L = L\<lparr>lg_breakers := dict_set (sc_scope cfg) r (lg_breakers L)\<rparr>"

definition get_breaker :: "spend_config \<Rightarrow> ledger \<Rightarrow> breaker_row option" where
  "get_breaker cfg L = dict_get (lg_breakers L) (sc_scope cfg)"

text \<open>\<open>UPDATE ... WHERE scope = ?\<close> touches nothing when there is no row.\<close>

definition update_breaker :: "spend_config \<Rightarrow> (breaker_row \<Rightarrow> breaker_row) \<Rightarrow> ledger \<Rightarrow> ledger" where
  "update_breaker cfg f L =
     (case get_breaker cfg L of None \<Rightarrow> L | Some r \<Rightarrow> put_breaker cfg (f r) L)"

text \<open>\<open>ORDER BY id DESC LIMIT n\<close>: a negative limit is no limit.\<close>

definition latest_events :: "int \<Rightarrow> ledger \<Rightarrow> cost_event list" where
  "latest_events n L =
     (let es = rev (lg_events L) in if n < 0 then es else take (nat n) es)"

definition in_window :: "spend_config \<Rightarrow> int \<Rightarrow> ledger \<Rightarrow> cost_event list" where
  "in_window cfg now L =
     filter (\<lambda>e. ce_timestamp e \<ge> now - sec (sc_window_seconds cfg)) (lg_events L)"

section \<open>Tripping\<close>

definition trip_cooldown :: "spend_config \<Rightarrow> int \<Rightarrow> int" where
  "trip_cooldown cfg trips = min (sc_cooldown cfg * 2 ^ nat (trips - 1)) (sc_max_cooldown cfg)"

definition trip_breaker :: "spend_config \<Rightarrow> int \<Rightarrow> string \<Rightarrow> ledger \<Rightarrow> ledger" where
  "trip_breaker cfg now reason L =
     (case get_breaker cfg L of
        Some r \<Rightarrow>
          (if br_state r = Open then L
           else let trips = br_trip_count r + 1 in
             put_breaker cfg \<lparr>br_state = Open, br_opened_at = Some now, br_reason = reason,
               br_cooldown_until = Some (now + sec (trip_cooldown cfg trips)), br_trip_count = trips\<rparr> L)
      | None \<Rightarrow>
          put_breaker cfg \<lparr>br_state = Open, br_opened_at = Some now, br_reason = reason,
            br_cooldown_until = Some (now + sec (trip_cooldown cfg 1)), br_trip_count = 1\<rparr> L)"

definition total_cents :: "cost_event list \<Rightarrow> int" where
  "total_cents es = sum_list (map ce_cost_cents es)"

definition non_idle :: "cost_event list \<Rightarrow> int" where
  "non_idle es = int (length (filter (\<lambda>e. ce_status e \<noteq> ''idle'') es))"

text \<open>The violated threshold, in the order of the source, as the reason it trips with.\<close>

definition violated_threshold :: "spend_config \<Rightarrow> int \<Rightarrow> ledger \<Rightarrow> string option" where
  "violated_threshold cfg now L =
     (let w = in_window cfg now L; cents = total_cents w; busy = non_idle w;
          streak = latest_events (sc_max_streak cfg) L
      in if cents > sc_max_cents cfg then
           Some (''Spend velocity '' @ str_int cents @ ''c exceeds '' @ str_int (sc_max_cents cfg)
             @ ''c in '' @ str_int (sc_window_seconds cfg) @ ''s window'')
         else if busy > sc_max_heartbeats cfg then
           Some (''Heartbeat frequency '' @ str_int busy @ '' non-idle exceeds ''
             @ str_int (sc_max_heartbeats cfg) @ '' in '' @ str_int (sc_window_seconds cfg) @ ''s window'')
         else if int (length streak) \<ge> sc_max_streak cfg \<and> list_all (\<lambda>e. ce_status e \<noteq> ''idle'') streak then
           Some (''Consecutive non-idle streak: '' @ str_nat (length streak)
             @ '' heartbeats (threshold: '' @ str_int (sc_max_streak cfg) @ '')'')
         else None)"

definition evaluate_thresholds :: "spend_config \<Rightarrow> int \<Rightarrow> int \<Rightarrow> ledger \<Rightarrow> ledger" where
  "evaluate_thresholds cfg now now_trip L =
     (case violated_threshold cfg now L of
        None \<Rightarrow> L
      | Some reason \<Rightarrow> trip_breaker cfg now_trip reason L)"

section \<open>Operations\<close>

datatype db_fault = DbFine | DbFailsFirst | DbFailsLater

text \<open>The event's id and timestamp are the database's and the clock's.\<close>

definition insert_event :: "int \<Rightarrow> cost_event \<Rightarrow> ledger \<Rightarrow> ledger" where
  "insert_event now e L =
     L\<lparr>lg_events := lg_events L @ [e\<lparr>ce_id := lg_next_id L, ce_timestamp := now\<rparr>],
       lg_next_id := lg_next_id L + 1\<rparr>"

definition record_event ::
    "spend_config \<Rightarrow> db_fault \<Rightarrow> int \<times> int \<times> int \<Rightarrow> cost_event \<Rightarrow> ledger \<Rightarrow> ledger" where
  "record_event cfg fault moments e L =
     (case moments of (now, now_eval, now_trip) \<Rightarrow>
        case fault of
          DbFine \<Rightarrow> evaluate_thresholds cfg now_eval now_trip (insert_event now e L)
        | DbFailsFirst \<Rightarrow> L
        | DbFailsLater \<Rightarrow> if sc_transactional cfg then L else insert_event now e L)"

text \<open>\<open>int(timedelta.total_seconds())\<close> of a positive difference.\<close>

definition whole_seconds :: "int \<Rightarrow> int" where
  "whole_seconds us = us div 1000000"

definition check_circuit_breaker ::
    "spend_config \<Rightarrow> bool \<Rightarrow> int \<Rightarrow> ledger \<Rightarrow> breaker_status option \<times> ledger" where
  "check_circuit_breaker cfg db_ok now L =
     (if \<not> db_ok then (None, L)
      else case get_breaker cfg L of
        None \<Rightarrow> (None, L)
      | Some r \<Rightarrow>
          (case br_state r of
             Closed \<Rightarrow> (None, L)
           | HalfOpen \<Rightarrow> (None, L)
           | Open \<Rightarrow>
               (case br_cooldown_until r of
                  Some until \<Rightarrow>
                    if now \<ge> until then (None, put_breaker cfg (r\<lparr>br_state := HalfOpen\<rparr>) L)
                    else (Some \<lparr>bs_state = Open, bs_reason = br_reason r, bs_opened_at = br_opened_at r,
                      bs_cooldown_until = Some until, bs_trip_count = br_trip_count r,
                      bs_retry_after = max 1 (whole_seconds (until - now))\<rparr>, L)
                | None \<Rightarrow> (Some \<lparr>bs_state = Open, bs_reason = br_reason r, bs_opened_at = br_opened_at r,
                      bs_cooldown_until = None, bs_trip_count = br_trip_count r,
                      bs_retry_after = sc_cooldown cfg\<rparr>, L))))"

definition close_breaker_after_probe :: "spend_config \<Rightarrow> bool \<Rightarrow> ledger \<Rightarrow> ledger" where
  "close_breaker_after_probe cfg db_ok L =
     (if \<not> db_ok then L
      else case get_breaker cfg L of
        None \<Rightarrow> L
      | Some r \<Rightarrow>
          (if br_state r = HalfOpen
           then update_breaker cfg (\<lambda>r. r\<lparr>br_state := Closed, br_reason := [], br_opened_at := None,
                  br_cooldown_until := None\<rparr>) L
           else L))"

definition lock_permanently :: "spend_config \<Rightarrow> string \<Rightarrow> int \<Rightarrow> ledger \<Rightarrow> ledger" where
  "lock_permanently cfg reason now L =
     put_breaker cfg \<lparr>br_state = Open, br_opened_at = Some now, br_reason = reason,
       br_cooldown_until = Some (now + day 36500), br_trip_count = 9999\<rparr> L"

definition reset_breaker :: "spend_config \<Rightarrow> ledger \<Rightarrow> ledger" where
  "reset_breaker cfg L =
     update_breaker cfg (\<lambda>r. r\<lparr>br_state := Closed, br_reason := [], br_opened_at := None,
       br_cooldown_until := None, br_trip_count := 0\<rparr>) L"

definition spend_reset :: "spend_config \<Rightarrow> ledger \<Rightarrow> ledger" where
  "spend_reset cfg L = put_breaker cfg \<lparr>br_state = Closed, br_opened_at = None, br_reason = [],
     br_cooldown_until = None, br_trip_count = 0\<rparr> L"

definition prune :: "spend_config \<Rightarrow> int \<Rightarrow> ledger \<Rightarrow> nat \<times> ledger" where
  "prune cfg now L =
     (let keep = filter (\<lambda>e. \<not> ce_timestamp e < now - day (sc_retention_days cfg)) (lg_events L)
      in (length (lg_events L) - length keep, L\<lparr>lg_events := keep\<rparr>))"

definition get_recent_events :: "int \<Rightarrow> ledger \<Rightarrow> cost_event list" where
  "get_recent_events limit L = latest_events limit L"

record spending_summary =
  ss_window_seconds :: int
  ss_total_cents :: int
  ss_total_heartbeats :: int
  ss_non_idle :: int
  ss_streak :: int
  ss_breaker :: breaker_status

definition breaker_view :: "spend_config \<Rightarrow> int \<Rightarrow> ledger \<Rightarrow> breaker_status" where
  "breaker_view cfg now L =
     (case get_breaker cfg L of
        None \<Rightarrow> \<lparr>bs_state = Closed, bs_reason = [], bs_opened_at = None, bs_cooldown_until = None,
          bs_trip_count = 0, bs_retry_after = 0\<rparr>
      | Some r \<Rightarrow> \<lparr>bs_state = br_state r, bs_reason = br_reason r, bs_opened_at = br_opened_at r,
          bs_cooldown_until = br_cooldown_until r, bs_trip_count = br_trip_count r,
          bs_retry_after =
            (case br_cooldown_until r of
               Some until \<Rightarrow> if br_state r = Open then max 0 (whole_seconds (until - now)) else 0
             | None \<Rightarrow> 0)\<rparr>)"

definition get_status :: "spend_config \<Rightarrow> int \<Rightarrow> ledger \<Rightarrow> spending_summary" where
  "get_status cfg now L =
     (let w = in_window cfg now L in
      \<lparr>ss_window_seconds = sc_window_seconds cfg, ss_total_cents = total_cents w,
       ss_total_heartbeats = int (length w), ss_non_idle = non_idle w,
       ss_streak = int (length (takeWhile (\<lambda>e. ce_status e \<noteq> ''idle'')
         (latest_events (sc_max_streak cfg) L))),
       ss_breaker = breaker_view cfg now L\<rparr>)"

section \<open>Lemmas\<close>

lemma get_put_breaker [simp]: "get_breaker cfg (put_breaker cfg r L) = Some r"
  by (simp add: get_breaker_def put_breaker_def)

lemma get_put_other [simp]:
  "sc_scope cfg' \<noteq> sc_scope cfg \<Longrightarrow> get_breaker cfg' (put_breaker cfg r L) = get_breaker cfg' L"
  by (simp add: get_breaker_def put_breaker_def)

lemma put_breaker_events [simp]:
  "lg_events (put_breaker cfg r L) = lg_events L" "lg_next_id (put_breaker cfg r L) = lg_next_id L"
  by (simp_all add: put_breaker_def)

lemma get_insert_event [simp]: "get_breaker cfg (insert_event now e L) = get_breaker cfg L"
  by (simp add: get_breaker_def insert_event_def)

lemma get_prune [simp]: "get_breaker cfg (snd (prune cfg' now L)) = get_breaker cfg L"
  by (simp add: get_breaker_def prune_def Let_def)

text \<open>The scope's state, its due time and the well-formedness the operations keep.\<close>

definition scope_state :: "spend_config \<Rightarrow> ledger \<Rightarrow> circuit_state" where
  "scope_state cfg L = (case get_breaker cfg L of None \<Rightarrow> Closed | Some r \<Rightarrow> br_state r)"

definition scope_trips :: "spend_config \<Rightarrow> ledger \<Rightarrow> int" where
  "scope_trips cfg L = (case get_breaker cfg L of None \<Rightarrow> 0 | Some r \<Rightarrow> br_trip_count r)"

definition scope_due :: "spend_config \<Rightarrow> ledger \<Rightarrow> int" where
  "scope_due cfg L =
     (case get_breaker cfg L of
        None \<Rightarrow> 0 | Some r \<Rightarrow> (case br_cooldown_until r of None \<Rightarrow> 0 | Some t \<Rightarrow> t))"

definition scope_ok :: "spend_config \<Rightarrow> ledger \<Rightarrow> bool" where
  "scope_ok cfg L =
     (case get_breaker cfg L of
        None \<Rightarrow> True
      | Some r \<Rightarrow> 0 \<le> br_trip_count r \<and> (br_state r = Open \<longrightarrow> br_cooldown_until r \<noteq> None))"

definition gate :: "spend_config \<Rightarrow> int \<Rightarrow> ledger \<Rightarrow> bool \<times> ledger" where
  "gate cfg now L =
     (case check_circuit_breaker cfg True now L of (st, L') \<Rightarrow> (st = None, L'))"

named_theorems scope_defs

lemmas [scope_defs] = scope_state_def scope_trips_def scope_due_def scope_ok_def

interpretation spend_breaker: circuit_breaker "gate cfg" "scope_state cfg" "scope_due cfg" "scope_ok cfg"
proof
  fix L :: ledger and now :: int
  show "scope_state cfg L = Closed \<Longrightarrow> gate cfg now L = (True, L)"
    and "scope_state cfg L = HalfOpen \<Longrightarrow> gate cfg now L = (True, L)"
    and "scope_ok cfg L \<Longrightarrow> scope_state cfg L = Open \<Longrightarrow> now < scope_due cfg L \<Longrightarrow> gate cfg now L = (False, L)"
    and "scope_ok cfg L \<Longrightarrow> scope_state cfg L = Open \<Longrightarrow> scope_due cfg L \<le> now \<Longrightarrow>
      fst (gate cfg now L) \<and> scope_state cfg (snd (gate cfg now L)) = HalfOpen"
    by (auto simp: gate_def check_circuit_breaker_def scope_defs split: option.splits)
qed

lemma trip_breaker_scope:
  "scope_state cfg L \<noteq> Open \<Longrightarrow>
    get_breaker cfg (trip_breaker cfg now reason L) = Some \<lparr>br_state = Open, br_opened_at = Some now,
      br_reason = reason, br_cooldown_until = Some (now + sec (trip_cooldown cfg (scope_trips cfg L + 1))),
      br_trip_count = scope_trips cfg L + 1\<rparr>"
  by (auto simp: trip_breaker_def scope_defs Let_def split: option.splits)

lemma trip_breaker_open: "scope_state cfg L = Open \<Longrightarrow> trip_breaker cfg now reason L = L"
  by (auto simp: trip_breaker_def scope_defs split: option.splits)

lemma trip_breaker_events [simp]: "lg_events (trip_breaker cfg now reason L) = lg_events L"
  by (auto simp: trip_breaker_def Let_def split: option.splits)

lemma scope_insert [simp]:
  "scope_state cfg (insert_event now e L) = scope_state cfg L"
  "scope_trips cfg (insert_event now e L) = scope_trips cfg L"
  "scope_ok cfg (insert_event now e L) = scope_ok cfg L"
  by (simp_all add: scope_defs)

lemma trip_cooldown_bound: "trip_cooldown cfg n \<le> sc_max_cooldown cfg"
  by (simp add: trip_cooldown_def)

lemma trip_cooldown_mono:
  "0 \<le> sc_cooldown cfg \<Longrightarrow> m \<le> n \<Longrightarrow> trip_cooldown cfg m \<le> trip_cooldown cfg n"
proof -
  assume c: "0 \<le> sc_cooldown cfg" and mn: "m \<le> n"
  have "(2::int) ^ nat (m - 1) \<le> 2 ^ nat (n - 1)" using mn by (intro power_increasing) auto
  then have "sc_cooldown cfg * 2 ^ nat (m - 1) \<le> sc_cooldown cfg * 2 ^ nat (n - 1)"
    using c by (intro mult_left_mono)
  then show ?thesis by (auto simp: trip_cooldown_def)
qed

section \<open>The operations as steps\<close>

text \<open>
  What happens to the ledger while no one resets a breaker or closes one after a probe: the
  scope's own heartbeats record and check, the ledger is pruned, other scopes do anything.
\<close>

inductive tracker_step :: "spend_config \<Rightarrow> ledger \<Rightarrow> ledger \<Rightarrow> bool" for cfg where
  rec: "tracker_step cfg L (record_event cfg fault moments e L)"
| check: "tracker_step cfg L (snd (check_circuit_breaker cfg db_ok now L))"
| prune: "tracker_step cfg L (snd (prune cfg now L))"
| lock: "tracker_step cfg L (lock_permanently cfg reason now L)"
| other: "get_breaker cfg L' = get_breaker cfg L \<Longrightarrow> tracker_step cfg L L'"

inductive_cases tracker_stepE: "tracker_step cfg L L'"

lemma record_event_scope:
  "get_breaker cfg (record_event cfg fault moments e L) = get_breaker cfg L
   \<or> scope_state cfg L \<noteq> Open \<and> scope_state cfg (record_event cfg fault moments e L) = Open
     \<and> scope_trips cfg (record_event cfg fault moments e L) = scope_trips cfg L + 1
     \<and> (\<exists>now. scope_due cfg (record_event cfg fault moments e L)
          = now + sec (trip_cooldown cfg (scope_trips cfg L + 1)))"
proof (cases fault)
  case DbFine
  obtain t0 t1 t2 where m: "moments = (t0, t1, t2)" by (cases moments)
  let ?L = "insert_event t0 e L"
  show ?thesis
  proof (cases "violated_threshold cfg t1 ?L")
    case (Some reason)
    then have r: "record_event cfg fault moments e L = trip_breaker cfg t2 reason ?L"
      using DbFine m by (simp add: record_event_def evaluate_thresholds_def)
    show ?thesis
    proof (cases "scope_state cfg L = Open")
      case True
      then show ?thesis unfolding r by (simp add: trip_breaker_open)
    next
      case False
      then have "get_breaker cfg (trip_breaker cfg t2 reason ?L) = Some \<lparr>br_state = Open,
          br_opened_at = Some t2, br_reason = reason,
          br_cooldown_until = Some (t2 + sec (trip_cooldown cfg (scope_trips cfg L + 1))),
          br_trip_count = scope_trips cfg L + 1\<rparr>"
        using trip_breaker_scope [of cfg ?L t2 reason] by simp
      then show ?thesis unfolding r using False
        by (auto simp: scope_state_def scope_trips_def scope_due_def split: option.splits)
    qed
  qed (use DbFine m in \<open>simp add: record_event_def evaluate_thresholds_def\<close>)
qed (auto simp: record_event_def split: prod.splits)

lemma check_scope:
  "get_breaker cfg (snd (check_circuit_breaker cfg db_ok now L)) = get_breaker cfg L
   \<or> (\<exists>r. get_breaker cfg L = Some r \<and> br_state r = Open
      \<and> get_breaker cfg (snd (check_circuit_breaker cfg db_ok now L)) = Some (r\<lparr>br_state := HalfOpen\<rparr>))"
  by (auto simp: check_circuit_breaker_def split: option.splits circuit_state.splits)

lemma tracker_step_scope:
  assumes "tracker_step cfg L L'" and "scope_state cfg L \<noteq> Closed"
  shows "scope_state cfg L' \<noteq> Closed"
  using assms
proof (cases rule: tracker_step.cases)
  case (rec fault moments e)
  then show ?thesis using assms(2) record_event_scope [of cfg fault moments e L]
    by (auto simp: scope_state_def)
next
  case (check db_ok now)
  then show ?thesis using assms(2) check_scope [of cfg db_ok now L]
    by (auto simp: scope_defs)
qed (use assms(2) in \<open>auto simp: scope_defs lock_permanently_def\<close>)

lemma tracker_steps_not_closed:
  "(tracker_step cfg)\<^sup>*\<^sup>* L L' \<Longrightarrow> scope_state cfg L \<noteq> Closed \<Longrightarrow> scope_state cfg L' \<noteq> Closed"
  by (induction rule: rtranclp_induct) (auto dest: tracker_step_scope)

section \<open>Properties\<close>

lemma violated_iff:
  "violated_threshold cfg now L \<noteq> None \<longleftrightarrow>
     sc_max_cents cfg < total_cents (in_window cfg now L)
     \<or> sc_max_heartbeats cfg < non_idle (in_window cfg now L)
     \<or> (sc_max_streak cfg \<le> int (length (latest_events (sc_max_streak cfg) L))
        \<and> list_all (\<lambda>e. ce_status e \<noteq> ''idle'') (latest_events (sc_max_streak cfg) L))"
  by (simp add: violated_threshold_def Let_def)

lemma record_event_fine:
  "record_event cfg DbFine (t0, t1, t2) e L =
    (case violated_threshold cfg t1 (insert_event t0 e L) of
       None \<Rightarrow> insert_event t0 e L
     | Some reason \<Rightarrow> trip_breaker cfg t2 reason (insert_event t0 e L))"
  by (simp add: record_event_def evaluate_thresholds_def)

definition sample_config :: spend_config where
  "sample_config = \<lparr>sc_scope = ''agent'', sc_window_seconds = 3600, sc_max_cents = 500,
     sc_max_heartbeats = 30, sc_max_streak = 2, sc_cooldown = 300, sc_max_cooldown = 7200,
     sc_retention_days = 30, sc_transactional = False\<rparr>"

definition sample_event :: "string \<Rightarrow> int \<Rightarrow> cost_event" where
  "sample_event st cents = \<lparr>ce_id = 0, ce_timestamp = 0, ce_agent_id = ''agent'', ce_agent_name = [],
     ce_run_id = [], ce_issue_id = [], ce_provider = [], ce_model = [], ce_input_tokens = 0,
     ce_output_tokens = 0, ce_cost_cents = cents, ce_status = st, ce_tokens_per_second = 0,
     ce_generation_ms = 0\<rparr>"

definition empty_ledger :: ledger where
  "empty_ledger = \<lparr>lg_events = [], lg_next_id = 1, lg_breakers = []\<rparr>"

text \<open>C16: Recording an event leaves the breaker open exactly when it was open before or a threshold is
  violated with the event counted: cents in the window, non-idle heartbeats in the window, or a full
  streak of non-idle heartbeats.\<close>

theorem record_event_trips_iff:
  "scope_state cfg (record_event cfg DbFine (t0, t1, t2) e L) = Open \<longleftrightarrow>
     scope_state cfg L = Open
     \<or> (let L' = insert_event t0 e L; w = in_window cfg t1 L';
            streak = latest_events (sc_max_streak cfg) L'
        in sc_max_cents cfg < total_cents w \<or> sc_max_heartbeats cfg < non_idle w
           \<or> sc_max_streak cfg \<le> int (length streak) \<and> list_all (\<lambda>e. ce_status e \<noteq> ''idle'') streak)"
proof (cases "violated_threshold cfg t1 (insert_event t0 e L)")
  case None
  then show ?thesis
    using violated_iff [of cfg t1 "insert_event t0 e L"] by (auto simp: record_event_fine Let_def)
next
  case (Some reason)
  have "scope_state cfg (trip_breaker cfg t2 reason (insert_event t0 e L)) = Open"
    using trip_breaker_scope [of cfg "insert_event t0 e L" t2 reason]
      trip_breaker_open [of cfg "insert_event t0 e L" t2 reason]
    by (cases "scope_state cfg L = Open") (simp_all add: scope_state_def [of _ "trip_breaker _ _ _ _"])
  then show ?thesis
    using Some violated_iff [of cfg t1 "insert_event t0 e L"] by (auto simp: record_event_fine Let_def)
qed

text \<open>After an event that trips the breaker, every heartbeat before the cooldown has passed is
  turned away and leaves the ledger as it is; the cooldown doubles with every trip up to the
  configured maximum.\<close>

theorem tripped_breaker_blocks_until_cooldown:
  assumes "scope_state cfg L \<noteq> Open" and "scope_ok cfg L"
    and "scope_state cfg (record_event cfg DbFine (t0, t1, t2) e L) = Open"
    and "\<forall>t \<in> set ts. t < t2 + sec (min (sc_cooldown cfg * 2 ^ nat (scope_trips cfg L)) (sc_max_cooldown cfg))"
  shows "attempts (gate cfg) ts (record_event cfg DbFine (t0, t1, t2) e L)
    = (replicate (length ts) False, record_event cfg DbFine (t0, t1, t2) e L)"
proof -
  let ?L = "record_event cfg DbFine (t0, t1, t2) e L"
  obtain reason where v: "violated_threshold cfg t1 (insert_event t0 e L) = Some reason"
    using assms(1,3) by (cases "violated_threshold cfg t1 (insert_event t0 e L)") (auto simp: record_event_fine)
  have b: "get_breaker cfg ?L = Some \<lparr>br_state = Open, br_opened_at = Some t2, br_reason = reason,
      br_cooldown_until = Some (t2 + sec (trip_cooldown cfg (scope_trips cfg L + 1))),
      br_trip_count = scope_trips cfg L + 1\<rparr>"
    using trip_breaker_scope [of cfg "insert_event t0 e L" t2 reason] assms(1) v
    by (simp add: record_event_fine)
  have "scope_ok cfg ?L" "scope_due cfg ?L = t2 + sec (trip_cooldown cfg (scope_trips cfg L + 1))"
    using assms(2) b by (auto simp: scope_ok_def scope_due_def scope_trips_def split: option.splits)
  then show ?thesis
    using assms(3,4) by (intro spend_breaker.open_rejects_until_due) (auto simp: trip_cooldown_def)
qed

theorem tripped_breaker_blocks_until_cooldown_witness:
  "fst (attempts (gate sample_config) [5, sec 299]
     (record_event sample_config DbFine (0, 0, 0) (sample_event ''done'' 501) empty_ledger)) = [False, False]"
proof -
  have "scope_state sample_config (record_event sample_config DbFine (0, 0, 0) (sample_event ''done'' 501) empty_ledger) = Open"
    using record_event_trips_iff [of sample_config 0 0 0 "sample_event ''done'' 501" empty_ledger]
    by (simp add: insert_event_def empty_ledger_def in_window_def sec_def sample_config_def
        sample_event_def total_cents_def Let_def)
  then show ?thesis
    using tripped_breaker_blocks_until_cooldown [of sample_config empty_ledger 0 0 0
        "sample_event ''done'' 501" "[5, sec 299]"]
    by (simp add: scope_defs get_breaker_def empty_ledger_def dict_get_def sample_config_def sec_def
        numeral_2_eq_2)
qed

text \<open>Once tripped, a breaker never becomes closed again by heartbeats, checks, pruning, locks or
  the actions of other scopes; only \<open>close_breaker_after_probe\<close> (which no production code calls) or
  a reset closes it.\<close>

theorem tripped_breaker_never_closes_by_itself:
  assumes "(tracker_step cfg)\<^sup>*\<^sup>* L L'" and "scope_state cfg L \<noteq> Closed"
  shows "scope_state cfg L' \<noteq> Closed"
  by (rule tracker_steps_not_closed [OF assms])

definition open_ledger :: ledger where
  "open_ledger = lock_permanently sample_config ''billing'' 0 empty_ledger"

theorem tripped_breaker_never_closes_by_itself_witness:
  "scope_state sample_config (snd (check_circuit_breaker sample_config True (day 36501) open_ledger)) \<noteq> Closed"
proof (rule tripped_breaker_never_closes_by_itself)
  show "(tracker_step sample_config)\<^sup>*\<^sup>* open_ledger
      (snd (check_circuit_breaker sample_config True (day 36501) open_ledger))"
    by (intro r_into_rtranclp tracker_step.check)
  show "scope_state sample_config open_ledger \<noteq> Closed"
    by (simp add: open_ledger_def lock_permanently_def scope_state_def)
qed

text \<open>A breaker that a busy streak opened is opened again by its own successful probe: with the
  latest \<open>max_consecutive_non_idle - 1\<close> events non-idle, recording one more non-idle event trips it
  with a doubled count, however long ago those events were.\<close>

theorem busy_probe_retrips:
  assumes "scope_state cfg L = HalfOpen" and "0 < sc_max_streak cfg" and "ce_status e \<noteq> ''idle''"
    and "int (length (latest_events (sc_max_streak cfg - 1) L)) = sc_max_streak cfg - 1"
    and "list_all (\<lambda>e. ce_status e \<noteq> ''idle'') (latest_events (sc_max_streak cfg - 1) L)"
  shows "scope_state cfg (record_event cfg DbFine (t0, t1, t2) e L) = Open
    \<and> scope_trips cfg (record_event cfg DbFine (t0, t1, t2) e L) = scope_trips cfg L + 1"
proof -
  let ?L = "insert_event t0 e L" and ?e = "e\<lparr>ce_id := lg_next_id L, ce_timestamp := t0\<rparr>"
  have "nat (sc_max_streak cfg) = Suc (nat (sc_max_streak cfg - 1))" using assms(2) by simp
  then have "latest_events (sc_max_streak cfg) ?L = ?e # latest_events (sc_max_streak cfg - 1) L"
    using assms(2) by (simp add: latest_events_def insert_event_def Let_def)
  then have "violated_threshold cfg t1 ?L \<noteq> None"
    using assms by (subst violated_iff) simp
  then obtain reason where v: "violated_threshold cfg t1 ?L = Some reason" by auto
  then have "get_breaker cfg (record_event cfg DbFine (t0, t1, t2) e L) = Some \<lparr>br_state = Open,
      br_opened_at = Some t2, br_reason = reason,
      br_cooldown_until = Some (t2 + sec (trip_cooldown cfg (scope_trips cfg L + 1))),
      br_trip_count = scope_trips cfg L + 1\<rparr>"
    using trip_breaker_scope [of cfg ?L t2 reason] assms(1) by (simp add: record_event_fine)
  then show ?thesis by (simp add: scope_state_def scope_trips_def)
qed

definition half_open_ledger :: ledger where
  "half_open_ledger = \<lparr>lg_events = [sample_event ''done'' 0], lg_next_id = 2,
     lg_breakers = [(''agent'', \<lparr>br_state = HalfOpen, br_opened_at = Some 0, br_reason = ''streak'',
       br_cooldown_until = Some 300, br_trip_count = 1\<rparr>)]\<rparr>"

theorem busy_probe_retrips_witness:
  "scope_trips sample_config (record_event sample_config DbFine (day 9, day 9, day 9)
     (sample_event ''done'' 0) half_open_ledger) = 2"
  using busy_probe_retrips [of sample_config half_open_ledger "sample_event ''done'' 0" "day 9" "day 9" "day 9"]
  by (simp add: scope_defs get_breaker_def half_open_ledger_def dict_get_def sample_config_def
      sample_event_def latest_events_def)

text \<open>A permanent lock turns away the locked scope for 36500 days but does not touch the gate of
  any other scope: it does not halt all agents.\<close>

theorem lock_halts_own_scope_only:
  assumes "sc_scope other \<noteq> sc_scope cfg"
  shows "(\<forall>t. fst (gate cfg t (lock_permanently cfg reason now L)) \<longleftrightarrow> now + day 36500 \<le> t)
    \<and> (\<forall>t. fst (gate other t (lock_permanently cfg reason now L)) = fst (gate other t L))"
  using assms
  by (simp add: gate_def check_circuit_breaker_def lock_permanently_def not_le
      split: option.splits circuit_state.splits)

theorem lock_halts_own_scope_only_witness:
  "fst (gate (sample_config\<lparr>sc_scope := ''other''\<rparr>) 1 open_ledger)
    = fst (gate (sample_config\<lparr>sc_scope := ''other''\<rparr>) 1 empty_ledger)"
  using lock_halts_own_scope_only [of "sample_config\<lparr>sc_scope := ''other''\<rparr>" sample_config "''billing''" 0 empty_ledger]
  by (simp add: sample_config_def open_ledger_def)

end
