(* ===== verification/Scheduler.thy ===== *)
theory Scheduler
  imports Py_Prelude "HOL-Library.Multiset" "HOL-Library.Product_Lexorder" "HOL-Library.List_Lexorder" "HOL-Library.Char_ord"
begin

text \<open>
  \<^verbatim>\<open>agents/scheduler.py\<close>: the orchestrator's scheduler of agent subprocesses: role priorities, the
  waiting queue, per-role health with backoff, the pool of running processes and the tick that
  combines them.

  Outside world: what one tick sees (exit codes, memory pressure, the tasks the server reports,
  the processes the operating system starts) is a record \<open>tick_env\<close>; process handles are numbers.
  All readings of the monotonic clock in one tick are the same number. The heap of \<open>heapq\<close> is a
  sorted list: only the order of its \<open>heappop\<close> is observable, and the entries are totally ordered.
\<close>

section \<open>Configuration\<close>

record scheduler_config =
  cf_agent_timeout :: int
  cf_memory_threshold :: int
  cf_memory_resume :: int
  cf_crash_threshold :: int
  cf_backoff_base :: int
  cf_backoff_max :: int

section \<open>Priorities and the waiting queue\<close>

definition PRIORITY_MAP :: "(string \<times> int) list" where
  "PRIORITY_MAP = [(''cto'', 0), (''backend-engineer'', 1), (''frontend-engineer'', 1),
     (''devops-engineer'', 1), (''qa-engineer'', 1), (''cto-assistant'', 2), (''backend-assistant'', 2),
     (''frontend-assistant'', 2), (''devops-assistant'', 2), (''qa-assistant'', 2)]"

definition for_role :: "string \<Rightarrow> int" where
  "for_role role = dict_get_or PRIORITY_MAP role 2"

datatype queue_entry =
  Entry (qe_priority: int) (qe_created: real) (qe_role: string) (qe_agent: string)

text \<open>Entries compare as the tuples the source puts on the heap.\<close>

fun entry_key :: "queue_entry \<Rightarrow> int \<times> real \<times> string \<times> string" where
  "entry_key (Entry p c r a) = (p, c, r, a)"

lemma entry_key_inject: "entry_key e = entry_key f \<longleftrightarrow> e = f"
  by (cases e; cases f) auto

instantiation queue_entry :: linorder
begin

definition less_eq_queue_entry :: "queue_entry \<Rightarrow> queue_entry \<Rightarrow> bool" where
  "less_eq_queue_entry e f \<longleftrightarrow> entry_key e \<le> entry_key f"

definition less_queue_entry :: "queue_entry \<Rightarrow> queue_entry \<Rightarrow> bool" where
  "less_queue_entry e f \<longleftrightarrow> entry_key e < entry_key f"

instance
  by standard (auto simp: less_eq_queue_entry_def less_queue_entry_def entry_key_inject [symmetric]
      simp del: entry_key.simps)

end

record priority_queue =
  pq_heap :: "queue_entry list"
  pq_queued :: "string set"

definition pq_empty :: priority_queue where
  "pq_empty = \<lparr>pq_heap = [], pq_queued = {}\<rparr>"

definition pq_push :: "string \<Rightarrow> string \<Rightarrow> real \<Rightarrow> priority_queue \<Rightarrow> priority_queue" where
  "pq_push role agent_id created q =
     (if role \<in> pq_queued q then q
      else \<lparr>pq_heap = insort (Entry (for_role role) created role agent_id) (pq_heap q),
        pq_queued = insert role (pq_queued q)\<rparr>)"

fun pop_heap :: "queue_entry list \<Rightarrow> string set \<Rightarrow> (string \<times> string) option \<times> priority_queue" where
  "pop_heap [] queued = (None, \<lparr>pq_heap = [], pq_queued = queued\<rparr>)"
| "pop_heap (e # es) queued =
     (if qe_role e \<in> queued
      then (Some (qe_role e, qe_agent e), \<lparr>pq_heap = es, pq_queued = queued - {qe_role e}\<rparr>)
      else pop_heap es queued)"

definition pq_pop :: "priority_queue \<Rightarrow> (string \<times> string) option \<times> priority_queue" where
  "pq_pop q = pop_heap (pq_heap q) (pq_queued q)"

definition pq_len :: "priority_queue \<Rightarrow> nat" where
  "pq_len q = card (pq_queued q)"

definition pq_contains :: "string \<Rightarrow> priority_queue \<Rightarrow> bool" where
  "pq_contains role q \<longleftrightarrow> role \<in> pq_queued q"

text \<open>The heap holds each queued role once, in order.\<close>

definition pq_ok :: "priority_queue \<Rightarrow> bool" where
  "pq_ok q \<longleftrightarrow> sorted (pq_heap q) \<and> distinct (map qe_role (pq_heap q))
     \<and> pq_queued q = qe_role ` set (pq_heap q)
     \<and> list_all (\<lambda>e. qe_priority e = for_role (qe_role e)) (pq_heap q)"

section \<open>The queue's contract\<close>

text \<open>
  What the scheduler relies on: a role is queued at most once, a pop removes exactly the role it
  returns, and an empty answer means an empty queue.
\<close>

locale role_queue =
  fixes push :: "'r \<Rightarrow> 'a \<Rightarrow> 't \<Rightarrow> 'q \<Rightarrow> 'q"
    and pop :: "'q \<Rightarrow> ('r \<times> 'a) option \<times> 'q"
    and roles :: "'q \<Rightarrow> 'r set"
    and ok :: "'q \<Rightarrow> bool"
  assumes ok_push: "ok q \<Longrightarrow> ok (push r a t q)"
    and roles_push: "ok q \<Longrightarrow> roles (push r a t q) = insert r (roles q)"
    and ok_pop: "ok q \<Longrightarrow> pop q = (x, q') \<Longrightarrow> ok q'"
    and pop_None: "ok q \<Longrightarrow> pop q = (None, q') \<Longrightarrow> roles q = {}"
    and pop_Some: "ok q \<Longrightarrow> pop q = (Some (r, a), q') \<Longrightarrow> r \<in> roles q \<and> roles q' = roles q - {r}"
    and finite_roles: "ok q \<Longrightarrow> finite (roles q)"
begin

lemma pop_card: "ok q \<Longrightarrow> pop q = (Some (r, a), q') \<Longrightarrow> card (roles q) = Suc (card (roles q'))"
  using pop_Some [of q r a q'] card_Suc_Diff1 [OF finite_roles, of q r] by simp

lemma pop_fresh: "ok q \<Longrightarrow> pop q = (Some (r, a), q') \<Longrightarrow> r \<notin> roles q'"
  using pop_Some by blast

end

lemma pop_heap_ok:
  "queued = qe_role ` set es \<Longrightarrow>
    pop_heap es queued = (case es of [] \<Rightarrow> (None, \<lparr>pq_heap = [], pq_queued = queued\<rparr>)
      | e # es' \<Rightarrow> (Some (qe_role e, qe_agent e), \<lparr>pq_heap = es', pq_queued = queued - {qe_role e}\<rparr>))"
  by (cases es) auto

lemma pq_pop_ok:
  "pq_ok q \<Longrightarrow> pq_pop q = (case pq_heap q of [] \<Rightarrow> (None, \<lparr>pq_heap = [], pq_queued = {}\<rparr>)
      | e # es \<Rightarrow> (Some (qe_role e, qe_agent e), \<lparr>pq_heap = es, pq_queued = pq_queued q - {qe_role e}\<rparr>))"
  using pop_heap_ok [of "pq_queued q" "pq_heap q"]
  by (auto simp: pq_pop_def pq_ok_def split: list.splits)

interpretation pq: role_queue pq_push pq_pop pq_queued pq_ok
proof
  fix q q' :: priority_queue and r a :: string and t :: real and x
  assume ok: "pq_ok q"
  show "pq_ok (pq_push r a t q)"
  proof (cases "r \<in> pq_queued q")
    case False
    then have "r \<notin> qe_role ` set (pq_heap q)" using ok by (simp add: pq_ok_def)
    moreover have "distinct (map qe_role (insort e es)) \<longleftrightarrow> distinct (map qe_role (e # es))"
      for e :: queue_entry and es
      by (intro mset_eq_imp_distinct_iff) simp
    ultimately show ?thesis
      using ok False by (auto simp: pq_push_def pq_ok_def sorted_insort set_insort_key list_all_iff)
  qed (use ok in \<open>simp add: pq_push_def\<close>)
  show "pq_queued (pq_push r a t q) = insert r (pq_queued q)"
    by (auto simp: pq_push_def)
  show "pq_ok q'" if "pq_pop q = (x, q')"
    using ok that by (auto simp: pq_pop_ok pq_ok_def list_all_iff split: list.splits)
  show "pq_queued q = {}" if "pq_pop q = (None, q')"
    using ok that by (auto simp: pq_pop_ok split: list.splits) (simp add: pq_ok_def)
  show "r \<in> pq_queued q \<and> pq_queued q' = pq_queued q - {r}" if "pq_pop q = (Some (r, a), q')"
    using ok that by (auto simp: pq_pop_ok pq_ok_def split: list.splits)
  show "finite (pq_queued q)" using ok by (simp add: pq_ok_def)
qed

section \<open>Health and backoff\<close>

record agent_health =
  hl_failures :: "(string, int) py_dict"
  hl_last :: "(string, real) py_dict"

definition new_health :: agent_health where
  "new_health = \<lparr>hl_failures = [], hl_last = []\<rparr>"

definition health_success :: "string \<Rightarrow> agent_health \<Rightarrow> agent_health" where
  "health_success role h = \<lparr>hl_failures = dict_del role (hl_failures h), hl_last = dict_del role (hl_last h)\<rparr>"

definition consecutive_failures :: "string \<Rightarrow> agent_health \<Rightarrow> int" where
  "consecutive_failures role h = dict_get_or (hl_failures h) role 0"

definition health_failure :: "real \<Rightarrow> string \<Rightarrow> agent_health \<Rightarrow> agent_health" where
  "health_failure now role h =
     \<lparr>hl_failures = dict_set role (consecutive_failures role h + 1) (hl_failures h),
      hl_last = dict_set role now (hl_last h)\<rparr>"

definition is_healthy :: "scheduler_config \<Rightarrow> string \<Rightarrow> agent_health \<Rightarrow> bool" where
  "is_healthy cfg role h \<longleftrightarrow> consecutive_failures role h < cf_crash_threshold cfg"

definition backoff_seconds :: "scheduler_config \<Rightarrow> string \<Rightarrow> agent_health \<Rightarrow> real" where
  "backoff_seconds cfg role h =
     (let failures = consecutive_failures role h in
      if failures < cf_crash_threshold cfg then 0
      else real_of_int (min (cf_backoff_base cfg * 3 ^ nat (failures - cf_crash_threshold cfg))
             (cf_backoff_max cfg)) * 60)"

definition is_ready :: "scheduler_config \<Rightarrow> real \<Rightarrow> string \<Rightarrow> agent_health \<Rightarrow> bool" where
  "is_ready cfg now role h \<longleftrightarrow>
     is_healthy cfg role h
     \<or> (case dict_get (hl_last h) role of
          None \<Rightarrow> True
        | Some t \<Rightarrow> now - t \<ge> backoff_seconds cfg role h)"

section \<open>The subprocess pool\<close>

record active_process =
  ap_agent :: string
  ap_handle :: nat
  ap_started :: real

type_synonym process_pool = "(string, active_process) py_dict"

definition spawn :: "real \<Rightarrow> string \<Rightarrow> string \<Rightarrow> nat \<Rightarrow> process_pool \<Rightarrow> process_pool" where
  "spawn now role agent_id handle pool =
     dict_set role \<lparr>ap_agent = agent_id, ap_handle = handle, ap_started = now\<rparr> pool"

text \<open>\<open>poll\<close>: the exit code of a process that has ended.\<close>

definition reap :: "(nat \<Rightarrow> int option) \<Rightarrow> process_pool \<Rightarrow> (string \<times> int) list \<times> process_pool" where
  "reap poll pool =
     (List.map_filter (\<lambda>(role, ap). map_option (Pair role) (poll (ap_handle ap))) pool,
      filter (\<lambda>(role, ap). poll (ap_handle ap) = None) pool)"

definition kill_timed_out :: "int \<Rightarrow> real \<Rightarrow> process_pool \<Rightarrow> string list \<times> process_pool" where
  "kill_timed_out timeout now pool =
     (map fst (filter (\<lambda>(role, ap). now - ap_started ap > real_of_int timeout) pool),
      filter (\<lambda>(role, ap). \<not> now - ap_started ap > real_of_int timeout) pool)"

text \<open>
  \<open>terminate_all\<close>: a process that was sent SIGTERM ends by itself at \<open>exits h\<close>, or never. The result
  is the time at which the call returns and the processes it had to kill.
\<close>

fun await_exits :: "(nat \<Rightarrow> real option) \<Rightarrow> real \<Rightarrow> process_pool \<Rightarrow> real \<Rightarrow> real \<times> string list" where
  "await_exits exits deadline [] now = (now, [])"
| "await_exits exits deadline ((role, ap) # aps) now =
     (let remaining = max 0 (deadline - now) in
      case exits (ap_handle ap) of
        Some t \<Rightarrow>
          (if t \<le> now + remaining then await_exits exits deadline aps (max now t)
           else (case await_exits exits deadline aps (now + remaining) of (end, ks) \<Rightarrow> (end, role # ks)))
      | None \<Rightarrow> (case await_exits exits deadline aps (now + remaining) of (end, ks) \<Rightarrow> (end, role # ks)))"

definition terminate_all ::
    "(nat \<Rightarrow> real option) \<Rightarrow> int \<Rightarrow> real \<Rightarrow> process_pool \<Rightarrow> (real \<times> string list) \<times> process_pool" where
  "terminate_all exits grace now pool = (await_exits exits (now + real_of_int grace) pool now, [])"

definition active_count :: "process_pool \<Rightarrow> int" where
  "active_count pool = int (length pool)"

definition is_running :: "string \<Rightarrow> process_pool \<Rightarrow> bool" where
  "is_running role pool \<longleftrightarrow> dict_has pool role"

section \<open>Memory pressure\<close>

definition py_trunc :: "real \<Rightarrow> int" where
  "py_trunc x = (if 0 \<le> x then \<lfloor>x\<rfloor> else \<lceil>x\<rceil>)"

text \<open>\<open>info\<close>: the integer fields read from \<open>/proc/meminfo\<close>; \<open>None\<close> when the file cannot be read.\<close>

definition memory_pressure_pct :: "(string, int) py_dict option \<Rightarrow> int" where
  "memory_pressure_pct info =
     (case info of
        None \<Rightarrow> 0
      | Some d \<Rightarrow>
          let total = dict_get_or d ''MemTotal'' 0 in
          if total = 0 then 0
          else
            let available = dict_get_or d ''MemAvailable'' (dict_get_or d ''MemFree'' 0);
                used = total - available
            in py_trunc (real_of_int (used * 100) / real_of_int total))"

section \<open>The scheduler\<close>

record scheduler =
  s_queue :: priority_queue
  s_health :: agent_health
  s_pool :: process_pool
  s_paused :: bool

definition new_scheduler :: scheduler where
  "new_scheduler = \<lparr>s_queue = pq_empty, s_health = new_health, s_pool = [], s_paused = False\<rparr>"

text \<open>What is fixed for a scheduler, and what one tick sees of the world.\<close>

record scheduler_setup =
  su_config :: scheduler_config
  su_agent_map :: "(string, string) py_dict" \<comment> \<open>role to agent id\<close>
  su_max_slots :: int

record tick_env =
  te_now :: real                       \<comment> \<open>monotonic clock\<close>
  te_wall :: "string \<Rightarrow> real"           \<comment> \<open>wall clock when the role was polled\<close>
  te_poll :: "nat \<Rightarrow> int option"        \<comment> \<open>exit codes\<close>
  te_memory :: int                     \<comment> \<open>memory pressure in percent\<close>
  te_tasks :: "string \<Rightarrow> py_exn + bool" \<comment> \<open>does the agent have tasks to do\<close>
  te_spawn :: "string \<Rightarrow> py_exn + nat"  \<comment> \<open>handle of a process started for the role\<close>

definition handle_finished :: "tick_env \<Rightarrow> scheduler \<Rightarrow> scheduler" where
  "handle_finished env s =
     (let (finished, pool) = reap (te_poll env) (s_pool s) in
      s\<lparr>s_pool := pool,
        s_health := fold (\<lambda>(role, rc). if rc = 0 then health_success role else health_failure (te_now env) role)
          finished (s_health s)\<rparr>)"

definition handle_timeouts :: "scheduler_setup \<Rightarrow> tick_env \<Rightarrow> scheduler \<Rightarrow> scheduler" where
  "handle_timeouts su env s =
     (let (killed, pool) = kill_timed_out (cf_agent_timeout (su_config su)) (te_now env) (s_pool s) in
      s\<lparr>s_pool := pool, s_health := fold (health_failure (te_now env)) killed (s_health s)\<rparr>)"

definition check_memory_pressure :: "scheduler_setup \<Rightarrow> tick_env \<Rightarrow> scheduler \<Rightarrow> bool \<times> scheduler" where
  "check_memory_pressure su env s =
     (let pct = te_memory env; cfg = su_config su;
          s' = (if pct \<ge> cf_memory_threshold cfg then s\<lparr>s_paused := True\<rparr>
                else if s_paused s \<and> pct < cf_memory_resume cfg then s\<lparr>s_paused := False\<rparr>
                else s)
      in (s_paused s', s'))"

definition poll_pending_tasks :: "scheduler_setup \<Rightarrow> tick_env \<Rightarrow> (string \<times> real) list" where
  "poll_pending_tasks su env =
     map (\<lambda>(role, _). (role, te_wall env role))
       (filter (\<lambda>(role, agent_id). te_tasks env agent_id = Inr True) (su_agent_map su))"

definition enqueue_one :: "scheduler_setup \<Rightarrow> tick_env \<Rightarrow> string \<times> real \<Rightarrow> scheduler \<Rightarrow> scheduler" where
  "enqueue_one su env task s =
     (case task of (role, created) \<Rightarrow>
        case dict_get (su_agent_map su) role of
          None \<Rightarrow> s
        | Some agent_id \<Rightarrow>
            if is_running role (s_pool s) then s
            else if pq_contains role (s_queue s) then s
            else if \<not> is_ready (su_config su) (te_now env) role (s_health s) then s
            else s\<lparr>s_queue := pq_push role agent_id created (s_queue s)\<rparr>)"

definition enqueue_pending :: "scheduler_setup \<Rightarrow> tick_env \<Rightarrow> (string \<times> real) list \<Rightarrow> scheduler \<Rightarrow> scheduler" where
  "enqueue_pending su env pending s = fold (enqueue_one su env) pending s"

text \<open>The loop of \<open>_spawn_from_queue\<close>; a process that cannot be started does not use a slot.\<close>

lemma pop_heap_shrinks:
  "pop_heap es queued = (Some x, q') \<Longrightarrow> length (pq_heap q') < length es"
  by (induction es queued rule: pop_heap.induct) (auto split: if_splits)

function spawn_loop :: "tick_env \<Rightarrow> int \<Rightarrow> priority_queue \<Rightarrow> process_pool \<Rightarrow> priority_queue \<times> process_pool" where
  "spawn_loop env available q pool =
     (if available > 0 \<and> pq_len q > 0 then
        (case pq_pop q of
           (None, q') \<Rightarrow> (q', pool)
         | (Some (role, agent_id), q') \<Rightarrow>
             (case te_spawn env role of
                Inr h \<Rightarrow> spawn_loop env (available - 1) q' (spawn (te_now env) role agent_id h pool)
              | Inl _ \<Rightarrow> spawn_loop env available q' pool))
      else (q, pool))"
  by pat_completeness auto
termination
  by (relation "measure (\<lambda>(env, available, q, pool). length (pq_heap q))")
    (auto simp: pq_pop_def dest!: sym [of _ "pop_heap _ _"] pop_heap_shrinks)

declare spawn_loop.simps [simp del]

definition spawn_from_queue :: "scheduler_setup \<Rightarrow> tick_env \<Rightarrow> scheduler \<Rightarrow> scheduler" where
  "spawn_from_queue su env s =
     (let (q, pool) = spawn_loop env (su_max_slots su - active_count (s_pool s)) (s_queue s) (s_pool s)
      in s\<lparr>s_queue := q, s_pool := pool\<rparr>)"

definition tick :: "scheduler_setup \<Rightarrow> tick_env \<Rightarrow> scheduler \<Rightarrow> scheduler" where
  "tick su env s =
     (let s1 = handle_timeouts su env (handle_finished env s);
          (paused, s2) = check_memory_pressure su env s1
      in if paused then s2
         else spawn_from_queue su env (enqueue_pending su env (poll_pending_tasks su env) s2))"

text \<open>\<open>run\<close> ticks until \<open>stop\<close>: the environments are the ticks it makes before.\<close>

definition run_scheduler :: "scheduler_setup \<Rightarrow> tick_env list \<Rightarrow> scheduler \<Rightarrow> scheduler" where
  "run_scheduler su envs s = fold (tick su) envs s"

record scheduler_status =
  st_slots_total :: int
  st_slots_active :: int
  st_slots_available :: int
  st_queue_depth :: nat
  st_healthy :: int
  st_unhealthy :: int
  st_memory_pct :: int
  st_paused :: bool
  st_active_roles :: "string list"

definition get_scheduler_status :: "scheduler_setup \<Rightarrow> int \<Rightarrow> scheduler \<Rightarrow> scheduler_status" where
  "get_scheduler_status su memory s =
     \<lparr>st_slots_total = su_max_slots su, st_slots_active = active_count (s_pool s),
      st_slots_available = su_max_slots su - active_count (s_pool s),
      st_queue_depth = pq_len (s_queue s),
      st_healthy = int (length (filter (\<lambda>r. is_healthy (su_config su) r (s_health s)) (dict_keys (su_agent_map su)))),
      st_unhealthy = int (length (filter (\<lambda>r. \<not> is_healthy (su_config su) r (s_health s)) (dict_keys (su_agent_map su)))),
      st_memory_pct = memory, st_paused = s_paused s,
      st_active_roles = sort (dict_keys (s_pool s))\<rparr>"

section \<open>Lemmas on the pool\<close>

lemma running_filter: "is_running r (filter P pool) \<Longrightarrow> is_running r pool"
  by (auto simp: is_running_def dict_has_def dict_get_def map_of_eq_None_iff)

lemma dict_ok_filter: "dict_ok pool \<Longrightarrow> dict_ok (filter P pool)"
  by (simp add: dict_ok_def distinct_map_filter)

lemma running_spawn [simp]: "is_running r (spawn now role a h pool) \<longleftrightarrow> r = role \<or> is_running r pool"
  by (simp add: is_running_def dict_has_def spawn_def)

lemma spawn_ok: "dict_ok pool \<Longrightarrow> dict_ok (spawn now role a h pool)"
  by (simp add: spawn_def)

lemma active_spawn: "\<not> is_running role pool \<Longrightarrow> dict_ok pool \<Longrightarrow>
    active_count (spawn now role a h pool) = active_count pool + 1"
  using py_dict.length_keys_put_new [of pool role]
  by (simp add: active_count_def spawn_def is_running_def dict_has_def dict_keys_def)

section \<open>The invariant\<close>

text \<open>
  Within the slots, each role waits or runs at most once, and never both.
\<close>

definition sched_ok :: "scheduler_setup \<Rightarrow> scheduler \<Rightarrow> bool" where
  "sched_ok su s \<longleftrightarrow> pq_ok (s_queue s) \<and> dict_ok (s_pool s)
     \<and> active_count (s_pool s) \<le> su_max_slots su
     \<and> (\<forall>r \<in> pq_queued (s_queue s). \<not> is_running r (s_pool s))"

lemma active_filter: "active_count (filter P pool) \<le> active_count pool"
  by (simp add: active_count_def)

lemma sched_ok_filter: "sched_ok su s \<Longrightarrow> sched_ok su (s\<lparr>s_pool := filter P (s_pool s), s_health := h\<rparr>)"
  using active_filter [of P "s_pool s"] by (auto simp: sched_ok_def dict_ok_filter dest: running_filter)

lemma handle_finished_ok: "sched_ok su s \<Longrightarrow> sched_ok su (handle_finished env s)"
  by (simp add: handle_finished_def reap_def sched_ok_filter)

lemma handle_timeouts_ok: "sched_ok su s \<Longrightarrow> sched_ok su (handle_timeouts su env s)"
  by (simp add: handle_timeouts_def kill_timed_out_def sched_ok_filter)

lemma check_memory_pressure_frame [simp]:
  "s_pool (snd (check_memory_pressure su env s)) = s_pool s"
  "s_queue (snd (check_memory_pressure su env s)) = s_queue s"
  "s_health (snd (check_memory_pressure su env s)) = s_health s"
  by (simp_all add: check_memory_pressure_def Let_def)

lemma enqueue_one_cases:
  "enqueue_one su env (role, created) s = s
   \<or> \<not> is_running role (s_pool s) \<and> is_ready (su_config su) (te_now env) role (s_health s)
     \<and> (\<exists>agent_id. dict_get (su_agent_map su) role = Some agent_id
         \<and> enqueue_one su env (role, created) s = s\<lparr>s_queue := pq_push role agent_id created (s_queue s)\<rparr>)"
  by (auto simp: enqueue_one_def split: option.splits)

lemma enqueue_one_ok: "sched_ok su s \<Longrightarrow> sched_ok su (enqueue_one su env task s)"
  using enqueue_one_cases [of su env "fst task" "snd task" s]
  by (auto simp: sched_ok_def pq.ok_push pq.roles_push)

lemma enqueue_pending_ok: "sched_ok su s \<Longrightarrow> sched_ok su (enqueue_pending su env pending s)"
  unfolding enqueue_pending_def by (induction pending arbitrary: s) (auto simp: enqueue_one_ok)

text \<open>The cases of the spawn loop on a well-formed queue, as an induction over its run.\<close>

lemma pq_pop_step:
  assumes "pq_ok q" and "pq_queued q \<noteq> {}"
  obtains role agent_id q' where "pq_pop q = (Some (role, agent_id), q')" and "pq_ok q'"
    and "role \<in> pq_queued q" and "pq_queued q' = pq_queued q - {role}" and "pq_len q = Suc (pq_len q')"
proof -
  obtain x q' where x: "pq_pop q = (x, q')" by fastforce
  then obtain role agent_id where pop: "pq_pop q = (Some (role, agent_id), q')"
    using pq.pop_None [OF assms(1)] assms(2) by (cases x) auto
  show ?thesis
    by (rule that [OF pop]) (use pq.ok_pop [OF assms(1) pop] pq.pop_Some [OF assms(1) pop]
      pq.pop_card [OF assms(1) pop] in \<open>auto simp: pq_len_def\<close>)
qed

lemma pq_len_pos: "pq_ok q \<Longrightarrow> 0 < pq_len q \<longleftrightarrow> pq_queued q \<noteq> {}"
  using pq.finite_roles [of q] by (simp add: pq_len_def card_gt_0_iff)

lemma spawn_loop_induct [consumes 2, case_names Stop Failed Started]:
  assumes run: "spawn_loop env available q pool = r" and "pq_ok q"
    and stop: "\<And>av q pool. pq_ok q \<Longrightarrow> av \<le> 0 \<or> pq_queued q = {} \<Longrightarrow> P av q pool (q, pool)"
    and failed: "\<And>av q pool role a q1 e r. pq_ok q \<Longrightarrow> 0 < av \<Longrightarrow> pq_pop q = (Some (role, a), q1) \<Longrightarrow>
      pq_ok q1 \<Longrightarrow> role \<in> pq_queued q \<Longrightarrow> pq_queued q1 = pq_queued q - {role} \<Longrightarrow>
      te_spawn env role = Inl e \<Longrightarrow> P av q1 pool r \<Longrightarrow> P av q pool r"
    and started: "\<And>av q pool role a q1 h r. pq_ok q \<Longrightarrow> 0 < av \<Longrightarrow> pq_pop q = (Some (role, a), q1) \<Longrightarrow>
      pq_ok q1 \<Longrightarrow> role \<in> pq_queued q \<Longrightarrow> pq_queued q1 = pq_queued q - {role} \<Longrightarrow>
      te_spawn env role = Inr h \<Longrightarrow> P (av - 1) q1 (spawn (te_now env) role a h pool) r \<Longrightarrow> P av q pool r"
  shows "P available q pool r"
  unfolding run [symmetric] using assms(2)
proof (induction "pq_len q" arbitrary: available q pool)
  case 0
  then have "spawn_loop env available q pool = (q, pool)" "pq_queued q = {}"
    using pq_len_pos [of q] by (simp_all add: spawn_loop.simps [of env available q pool])
  then show ?case using stop [OF "0.prems"] by simp
next
  case (Suc n)
  show ?case
  proof (cases "0 < available")
    case False
    then have "spawn_loop env available q pool = (q, pool)"
      by (simp add: spawn_loop.simps [of env available q pool])
    then show ?thesis using stop [OF Suc.prems, of available pool] False by simp
  next
    case True
    have "pq_queued q \<noteq> {}" using Suc.hyps(2) pq_len_pos [OF Suc.prems] by simp
    then obtain role a q1 where pop: "pq_pop q = (Some (role, a), q1)" "pq_ok q1" "role \<in> pq_queued q"
      "pq_queued q1 = pq_queued q - {role}" "pq_len q = Suc (pq_len q1)"
      by (rule pq_pop_step [OF Suc.prems])
    then have n: "n = pq_len q1" using Suc.hyps(2) by simp
    show ?thesis
    proof (cases "te_spawn env role")
      case (Inl e)
      then have "spawn_loop env available q pool = spawn_loop env available q1 pool"
        using True pop(1,5) by (simp add: spawn_loop.simps [of env available q pool])
      then show ?thesis
        using failed [OF Suc.prems True pop(1-4) Inl Suc.hyps(1) [OF n pop(2)]] by simp
    next
      case (Inr h)
      then have "spawn_loop env available q pool
        = spawn_loop env (available - 1) q1 (spawn (te_now env) role a h pool)"
        using True pop(1,5) by (simp add: spawn_loop.simps [of env available q pool])
      then show ?thesis
        using started [OF Suc.prems True pop(1-4) Inr Suc.hyps(1) [OF n pop(2)]] by simp
    qed
  qed
qed

lemma spawn_loop_ok:
  assumes "spawn_loop env available q pool = r" and "pq_ok q" and "dict_ok pool" and "0 \<le> available"
    and "\<forall>x \<in> pq_queued q. \<not> is_running x pool"
  shows "pq_ok (fst r) \<and> dict_ok (snd r) \<and> active_count (snd r) \<le> active_count pool + available
    \<and> (\<forall>x \<in> pq_queued (fst r). \<not> is_running x (snd r))"
  using assms
proof (induction rule: spawn_loop_induct)
  case (Started av q pool role a q1 h r)
  have "active_count (spawn (te_now env) role a h pool) = active_count pool + 1"
    using Started.prems Started.hyps by (intro active_spawn) auto
  then show ?case using Started.IH Started.prems Started.hyps by (auto simp: spawn_ok)
qed auto

text \<open>A role that is started has no worse priority than any role that is left waiting.\<close>

lemma pq_pop_least:
  assumes "pq_ok q" and "pq_pop q = (Some (role, a), q')" and "x \<in> pq_queued q"
  shows "for_role role \<le> for_role x"
proof -
  obtain e es where es: "pq_heap q = e # es" "role = qe_role e"
    using assms(1,2) by (auto simp: pq_pop_ok split: list.splits)
  obtain f where f: "f \<in> set (pq_heap q)" "qe_role f = x" using assms(1,3) by (auto simp: pq_ok_def)
  have "e \<le> f" using assms(1) es f by (auto simp: pq_ok_def)
  then have "qe_priority e \<le> qe_priority f"
    by (cases e; cases f) (auto simp: less_eq_queue_entry_def)
  then show ?thesis using assms(1) es f by (auto simp: pq_ok_def list_all_iff)
qed

lemma spawn_loop_order:
  assumes "spawn_loop env available q pool = r" and "pq_ok q"
  shows "pq_queued (fst r) \<subseteq> pq_queued q
    \<and> (\<forall>x y. is_running x (snd r) \<longrightarrow> \<not> is_running x pool \<longrightarrow> y \<in> pq_queued (fst r)
         \<longrightarrow> for_role x \<le> for_role y)"
  using assms
proof (induction rule: spawn_loop_induct)
  case (Started av q pool role a q1 h r)
  have least: "for_role role \<le> for_role y" if "y \<in> pq_queued q" for y
    using pq_pop_least [OF Started.hyps(1,3) that] .
  show ?case
  proof (intro conjI allI impI)
    show "pq_queued (fst r) \<subseteq> pq_queued q" using Started.IH Started.hyps(6) by auto
    fix x y assume x: "is_running x (snd r)" "\<not> is_running x pool" and y: "y \<in> pq_queued (fst r)"
    show "for_role x \<le> for_role y"
    proof (cases "x = role")
      case True
      then show ?thesis using least [of y] y Started.IH Started.hyps(6) by auto
    next
      case False
      then show ?thesis using x y Started.IH by simp
    qed
  qed
qed auto

text \<open>With a slot for every waiting role and processes that start, the queue is emptied.\<close>

lemma spawn_loop_all:
  assumes "spawn_loop env available q pool = r" and "pq_ok q"
    and "\<forall>x \<in> pq_queued q. \<exists>h. te_spawn env x = Inr h" and "int (pq_len q) \<le> available"
  shows "pq_queued (fst r) = {} \<and> (\<forall>x. is_running x (snd r) \<longleftrightarrow> x \<in> pq_queued q \<or> is_running x pool)"
  using assms
proof (induction rule: spawn_loop_induct)
  case (Stop av q pool)
  then have "pq_queued q = {}" using pq_len_pos [of q] by auto
  then show ?case by simp
next
  case (Started av q pool role a q1 h r)
  have "pq_len q = Suc (pq_len q1)" using pq.pop_card [OF Started.hyps(1,3)] by (simp add: pq_len_def)
  then show ?case using Started.IH Started.prems Started.hyps(5,6) by auto
qed fastforce

lemma spawn_from_queue_ok: "sched_ok su s \<Longrightarrow> sched_ok su (spawn_from_queue su env s)"
  using spawn_loop_ok [of env "su_max_slots su - active_count (s_pool s)" "s_queue s" "s_pool s", OF refl]
  by (auto simp: sched_ok_def spawn_from_queue_def split: prod.splits)

lemma tick_ok: "sched_ok su s \<Longrightarrow> sched_ok su (tick su env s)"
proof -
  assume ok: "sched_ok su s"
  let ?s1 = "handle_timeouts su env (handle_finished env s)"
  obtain paused s2 where c: "check_memory_pressure su env ?s1 = (paused, s2)" by fastforce
  have "sched_ok su ?s1" using ok by (simp add: handle_finished_ok handle_timeouts_ok)
  then have "sched_ok su s2"
    using check_memory_pressure_frame [of su env ?s1] c by (simp add: sched_ok_def)
  then show ?thesis
    using c by (simp add: tick_def Let_def enqueue_pending_ok spawn_from_queue_ok)
qed

lemma new_scheduler_ok: "0 \<le> su_max_slots su \<Longrightarrow> sched_ok su new_scheduler"
  by (simp add: sched_ok_def new_scheduler_def pq_ok_def pq_empty_def dict_ok_def active_count_def)

section \<open>What a tick does\<close>

lemma spawn_loop_roles:
  assumes "spawn_loop env available q pool = r" and "pq_ok q"
  shows "\<forall>x. is_running x (snd r) \<longrightarrow> x \<in> pq_queued q \<or> is_running x pool"
  using assms by (induction rule: spawn_loop_induct) auto

text \<open>Health of a role that has no process is left alone by the reaping.\<close>

lemma health_frame:
  assumes "x \<noteq> role"
  shows "consecutive_failures x (health_success role h) = consecutive_failures x h"
    and "consecutive_failures x (health_failure t role h) = consecutive_failures x h"
    and "dict_get (hl_last (health_success role h)) x = dict_get (hl_last h) x"
    and "dict_get (hl_last (health_failure t role h)) x = dict_get (hl_last h) x"
  using assms by (simp_all add: consecutive_failures_def health_success_def health_failure_def dict_get_or_def)

lemma is_ready_frame:
  "x \<noteq> role \<Longrightarrow> is_ready cfg now x (health_success role h) = is_ready cfg now x h"
  "x \<noteq> role \<Longrightarrow> is_ready cfg now x (health_failure t role h) = is_ready cfg now x h"
  by (cases "dict_get (hl_last h) x";
      simp add: is_ready_def is_healthy_def backoff_seconds_def health_frame)+

lemma is_ready_finished:
  "x \<notin> fst ` set finished \<Longrightarrow>
    is_ready cfg now x (fold (\<lambda>(role, rc). if rc = 0 then health_success role else health_failure t role) finished h)
      = is_ready cfg now x h"
proof (induction finished arbitrary: h)
  case (Cons f finished)
  then show ?case by (cases f; cases "snd f = 0") (auto simp: is_ready_frame)
qed simp

lemma is_ready_killed:
  "x \<notin> set killed \<Longrightarrow> is_ready cfg now x (fold (health_failure t) killed h) = is_ready cfg now x h"
  by (induction killed arbitrary: h) (auto simp: is_ready_frame)

lemma not_running_keys: "\<not> is_running x pool \<longleftrightarrow> x \<notin> fst ` set pool"
  by (simp add: is_running_def dict_has_def dict_get_def map_of_eq_None_iff)

definition settled :: "scheduler_setup \<Rightarrow> tick_env \<Rightarrow> scheduler \<Rightarrow> scheduler" where
  "settled su env s = handle_timeouts su env (handle_finished env s)"

lemma settled_ok: "sched_ok su s \<Longrightarrow> sched_ok su (settled su env s)"
  by (simp add: settled_def handle_finished_ok handle_timeouts_ok)

lemma settled_queue [simp]: "s_queue (settled su env s) = s_queue s"
  by (simp add: settled_def handle_timeouts_def handle_finished_def split: prod.splits)

lemma settled_running: "is_running x (s_pool (settled su env s)) \<Longrightarrow> is_running x (s_pool s)"
  by (auto simp: settled_def handle_timeouts_def handle_finished_def reap_def kill_timed_out_def
      dest!: running_filter)

lemma settled_ready:
  assumes "\<not> is_running x (s_pool s)"
  shows "is_ready cfg now x (s_health (settled su env s)) = is_ready cfg now x (s_health s)"
proof -
  have "x \<notin> fst ` set (fst (reap (te_poll env) (s_pool s)))"
    using assms by (force simp: not_running_keys reap_def map_filter_def)
  moreover have "x \<notin> set (fst (kill_timed_out t now pool))" if "\<not> is_running x pool" for t now pool
    using that by (force simp: not_running_keys kill_timed_out_def)
  moreover have "\<not> is_running x (snd (reap (te_poll env) (s_pool s)))"
    using assms by (auto simp: reap_def dest: running_filter)
  ultimately show ?thesis
    by (simp add: settled_def handle_timeouts_def handle_finished_def is_ready_finished is_ready_killed
        case_prod_beta)
qed

definition eligible :: "scheduler_setup \<Rightarrow> tick_env \<Rightarrow> scheduler \<Rightarrow> string \<Rightarrow> bool" where
  "eligible su env s x \<longleftrightarrow> dict_has (su_agent_map su) x \<and> \<not> is_running x (s_pool s)
     \<and> is_ready (su_config su) (te_now env) x (s_health s)"

lemma enqueue_one_effect:
  assumes "pq_ok (s_queue s)"
  shows "pq_ok (s_queue (enqueue_one su env (x, c) s))
    \<and> s_pool (enqueue_one su env (x, c) s) = s_pool s \<and> s_health (enqueue_one su env (x, c) s) = s_health s
    \<and> pq_queued (s_queue (enqueue_one su env (x, c) s))
        = pq_queued (s_queue s) \<union> (if eligible su env s x then {x} else {})"
  using assms
  by (auto simp: enqueue_one_def eligible_def dict_has_def pq_contains_def pq.ok_push pq.roles_push
      split: option.splits)

lemma enqueue_pending_effect:
  "pq_ok (s_queue s) \<Longrightarrow> pq_ok (s_queue (enqueue_pending su env pending s))
    \<and> s_pool (enqueue_pending su env pending s) = s_pool s
    \<and> pq_queued (s_queue (enqueue_pending su env pending s))
        = pq_queued (s_queue s) \<union> {x \<in> fst ` set pending. eligible su env s x}"
proof (induction pending arbitrary: s)
  case (Cons task pending)
  obtain x c where task: "task = (x, c)" by fastforce
  note one = enqueue_one_effect [OF Cons.prems, of su env x c]
  have "eligible su env (enqueue_one su env (x, c) s) = eligible su env s"
    using one by (simp add: eligible_def [abs_def])
  then show ?case using Cons.IH [of "enqueue_one su env (x, c) s"] one task
    by (auto simp: enqueue_pending_def)
qed (simp add: enqueue_pending_def)

lemma tick_cases:
  assumes "sched_ok su s"
  shows "fst (check_memory_pressure su env (settled su env s))
      \<and> s_pool (tick su env s) = s_pool (settled su env s) \<and> s_queue (tick su env s) = s_queue s
    \<or> \<not> fst (check_memory_pressure su env (settled su env s))
      \<and> (\<exists>q. pq_ok q
          \<and> pq_queued q = pq_queued (s_queue s) \<union> {x \<in> fst ` set (poll_pending_tasks su env). eligible su env (settled su env s) x}
          \<and> (s_queue (tick su env s), s_pool (tick su env s))
            = spawn_loop env (su_max_slots su - active_count (s_pool (settled su env s))) q
                (s_pool (settled su env s)))"
proof -
  let ?s1 = "settled su env s"
  obtain paused s2 where c: "check_memory_pressure su env ?s1 = (paused, s2)" by fastforce
  then have s2: "s_pool s2 = s_pool ?s1" "s_queue s2 = s_queue s" "s_health s2 = s_health ?s1"
    using check_memory_pressure_frame [of su env ?s1] by simp_all
  let ?s3 = "enqueue_pending su env (poll_pending_tasks su env) s2"
  have "pq_ok (s_queue s2)" using assms s2 by (simp add: sched_ok_def)
  note en = enqueue_pending_effect [OF this, of su env "poll_pending_tasks su env"]
  have el: "eligible su env s2 = eligible su env ?s1" using s2 by (simp add: eligible_def [abs_def])
  show ?thesis
  proof (cases paused)
    case True
    then have "tick su env s = s2" using c by (simp add: tick_def settled_def Let_def)
    then show ?thesis using True c s2 by simp
  next
    case False
    then have "tick su env s = spawn_from_queue su env ?s3" using c by (simp add: tick_def settled_def Let_def)
    then have "(s_queue (tick su env s), s_pool (tick su env s))
        = spawn_loop env (su_max_slots su - active_count (s_pool ?s1)) (s_queue ?s3) (s_pool ?s1)"
      using en s2 by (simp add: spawn_from_queue_def split: prod.splits)
    then show ?thesis using False c en el s2 by auto
  qed
qed

section \<open>Properties\<close>

definition demo_config :: scheduler_config where
  "demo_config = \<lparr>cf_agent_timeout = 600, cf_memory_threshold = 90, cf_memory_resume = 80,
     cf_crash_threshold = 3, cf_backoff_base = 5, cf_backoff_max = 60\<rparr>"

definition demo_setup :: scheduler_setup where
  "demo_setup = \<lparr>su_config = demo_config, su_agent_map = [(''cto'', ''a1''), (''qa-engineer'', ''a2'')],
     su_max_slots = 2\<rparr>"

definition demo_env :: tick_env where
  "demo_env = \<lparr>te_now = 0, te_wall = (\<lambda>r. 0), te_poll = (\<lambda>h. None), te_memory = 50,
     te_tasks = (\<lambda>a. Inr True), te_spawn = (\<lambda>r. Inr 7)\<rparr>"

text \<open>C19: Whatever the outside world does, the scheduler never runs more processes than it has slots,
  never has two processes for one role, and never has a role both waiting and running.\<close>

theorem scheduler_respects_slots:
  assumes "0 \<le> su_max_slots su"
  shows "let s = run_scheduler su envs new_scheduler in
    active_count (s_pool s) \<le> su_max_slots su \<and> distinct (map fst (s_pool s))
    \<and> (\<forall>r \<in> pq_queued (s_queue s). \<not> is_running r (s_pool s))"
proof -
  have "sched_ok su (fold (tick su) envs s)" if "sched_ok su s" for s
    using that by (induction envs arbitrary: s) (auto simp: tick_ok)
  then have "sched_ok su (run_scheduler su envs new_scheduler)"
    using new_scheduler_ok [OF assms] by (simp add: run_scheduler_def)
  then show ?thesis by (simp add: sched_ok_def dict_ok_def Let_def)
qed

theorem scheduler_respects_slots_witness:
  "active_count (s_pool (run_scheduler demo_setup [demo_env, demo_env, demo_env] new_scheduler)) \<le> 2"
  using scheduler_respects_slots [of demo_setup "[demo_env, demo_env, demo_env]"]
  by (simp add: demo_setup_def Let_def)

text \<open>An agent in backoff is not restarted: a role that neither runs nor waits and has not served its
  backoff is neither queued nor started by a tick.\<close>

theorem backoff_is_respected:
  assumes "sched_ok su s" and "\<not> is_running x (s_pool s)" and "x \<notin> pq_queued (s_queue s)"
    and "\<not> is_ready (su_config su) (te_now env) x (s_health s)"
  shows "\<not> is_running x (s_pool (tick su env s)) \<and> x \<notin> pq_queued (s_queue (tick su env s))"
proof -
  have s1: "\<not> is_running x (s_pool (settled su env s))" "\<not> eligible su env (settled su env s) x"
    using assms(2,4) settled_running settled_ready [OF assms(2)] by (auto simp: eligible_def)
  from tick_cases [OF assms(1), of env] show ?thesis
  proof (elim disjE conjE exE)
    fix q assume q: "pq_ok q" "pq_queued q = pq_queued (s_queue s)
        \<union> {x \<in> fst ` set (poll_pending_tasks su env). eligible su env (settled su env s) x}"
      and run: "(s_queue (tick su env s), s_pool (tick su env s))
        = spawn_loop env (su_max_slots su - active_count (s_pool (settled su env s))) q
            (s_pool (settled su env s))"
    have "x \<notin> pq_queued q" using q(2) s1(2) assms(3) by auto
    then show ?thesis
      using spawn_loop_roles [OF run [symmetric] q(1)] spawn_loop_order [OF run [symmetric] q(1)] s1(1) by auto
  qed (use s1 assms(3) in auto)
qed

definition crashed_scheduler :: scheduler where
  "crashed_scheduler = new_scheduler\<lparr>s_health := \<lparr>hl_failures = [(''cto'', 4)], hl_last = [(''cto'', - 60)]\<rparr>\<rparr>"

theorem backoff_is_respected_witness:
  "\<not> is_running ''cto'' (s_pool (tick demo_setup demo_env crashed_scheduler))"
  using backoff_is_respected [of demo_setup crashed_scheduler "''cto''" demo_env]
  by (simp add: crashed_scheduler_def new_scheduler_def sched_ok_def pq_ok_def pq_empty_def dict_ok_def
      active_count_def demo_setup_def demo_config_def demo_env_def is_running_def dict_has_def dict_get_def
      is_ready_def is_healthy_def backoff_seconds_def consecutive_failures_def dict_get_or_def)

text \<open>No priority inversion: a role started by a tick has at least the priority of every role the
  tick leaves waiting.\<close>

theorem tick_starts_highest_priority:
  assumes "sched_ok su s" and "\<not> is_running x (s_pool s)" and "is_running x (s_pool (tick su env s))"
    and "y \<in> pq_queued (s_queue (tick su env s))"
  shows "for_role x \<le> for_role y"
proof -
  have s1: "\<not> is_running x (s_pool (settled su env s))" using assms(2) settled_running by blast
  from tick_cases [OF assms(1), of env] show ?thesis
  proof (elim disjE conjE exE)
    fix q assume q: "pq_ok q"
      and run: "(s_queue (tick su env s), s_pool (tick su env s))
        = spawn_loop env (su_max_slots su - active_count (s_pool (settled su env s))) q
            (s_pool (settled su env s))"
    show ?thesis using spawn_loop_order [OF run [symmetric] q] s1 assms(3,4) by auto
  qed (use s1 assms(3) in auto)
qed

text \<open>Progress: with memory to spare, a slot for every role and processes that start, a role that has
  tasks and is not in backoff runs after the tick.\<close>

theorem ready_agent_is_started:
  assumes "sched_ok su s" and "\<not> fst (check_memory_pressure su env (settled su env s))"
    and "dict_get (su_agent_map su) x = Some a" and "te_tasks env a = Inr True"
    and "is_ready (su_config su) (te_now env) x (s_health (settled su env s))"
    and "\<forall>r. \<exists>h. te_spawn env r = Inr h"
    and "int (card (pq_queued (s_queue s) \<union> set (dict_keys (su_agent_map su))))
      + active_count (s_pool (settled su env s)) \<le> su_max_slots su"
  shows "is_running x (s_pool (tick su env s))"
proof -
  let ?s1 = "settled su env s"
  have "(x, a) \<in> set (su_agent_map su)" using assms(3) by (simp add: dict_get_def map_of_SomeD)
  then have pend: "x \<in> fst ` set (poll_pending_tasks su env)"
    using assms(4) by (force simp: poll_pending_tasks_def)
  from tick_cases [OF assms(1), of env] assms(2) obtain q where q: "pq_ok q"
    "pq_queued q = pq_queued (s_queue s) \<union> {x \<in> fst ` set (poll_pending_tasks su env). eligible su env ?s1 x}"
    and run: "(s_queue (tick su env s), s_pool (tick su env s))
      = spawn_loop env (su_max_slots su - active_count (s_pool ?s1)) q (s_pool ?s1)" by auto
  have fin: "finite (pq_queued (s_queue s) \<union> set (dict_keys (su_agent_map su)))"
    using assms(1) pq.finite_roles by (auto simp: sched_ok_def)
  have "pq_queued q \<subseteq> pq_queued (s_queue s) \<union> set (dict_keys (su_agent_map su))"
    using q(2) py_dict.keys_get [of _ "su_agent_map su"] by (auto simp: eligible_def dict_has_def)
  then have "pq_len q \<le> card (pq_queued (s_queue s) \<union> set (dict_keys (su_agent_map su)))"
    unfolding pq_len_def by (intro card_mono fin)
  then have "int (pq_len q) \<le> su_max_slots su - active_count (s_pool ?s1)" using assms(7) by simp
  then have "is_running x (s_pool (tick su env s)) \<longleftrightarrow> x \<in> pq_queued q \<or> is_running x (s_pool ?s1)"
    using spawn_loop_all [OF run [symmetric] q(1)] assms(6) by auto
  then show ?thesis using q(2) pend assms(3,5) by (auto simp: eligible_def dict_has_def)
qed

definition narrow_setup :: scheduler_setup where
  "narrow_setup = demo_setup\<lparr>su_max_slots := 1\<rparr>"

lemma demo_settled: "settled su demo_env new_scheduler = new_scheduler"
  by (simp add: settled_def handle_timeouts_def handle_finished_def reap_def kill_timed_out_def
      new_scheduler_def map_filter_def)

definition demo_queue :: priority_queue where
  "demo_queue = \<lparr>pq_heap = [Entry 0 0 ''cto'' ''a1'', Entry 1 0 ''qa-engineer'' ''a2''],
     pq_queued = {''cto'', ''qa-engineer''}\<rparr>"

lemma narrow_enqueue:
  "enqueue_pending narrow_setup demo_env (poll_pending_tasks narrow_setup demo_env) new_scheduler
    = new_scheduler\<lparr>s_queue := demo_queue\<rparr>"
proof -
  have p: "poll_pending_tasks narrow_setup demo_env = [(''cto'', 0), (''qa-engineer'', 0)]"
    by (simp add: poll_pending_tasks_def narrow_setup_def demo_setup_def demo_env_def)
  have r: "is_ready (su_config narrow_setup) (te_now demo_env) x (s_health new_scheduler)" for x
    by (simp add: is_ready_def is_healthy_def consecutive_failures_def narrow_setup_def demo_setup_def
        demo_config_def new_scheduler_def new_health_def dict_get_or_def dict_get_def)
  have a: "dict_get (su_agent_map narrow_setup) ''cto'' = Some ''a1''"
    "dict_get (su_agent_map narrow_setup) ''qa-engineer'' = Some ''a2''"
    by (simp_all add: narrow_setup_def demo_setup_def dict_get_def)
  have n: "\<not> is_running x (s_pool new_scheduler)" "s_queue new_scheduler = pq_empty" for x
    by (simp_all add: new_scheduler_def is_running_def dict_has_def dict_get_def)
  have prio: "for_role ''cto'' = 0" "for_role ''qa-engineer'' = 1"
    by (simp_all add: for_role_def PRIORITY_MAP_def dict_get_or_def dict_get_def)
  have "pq_push ''qa-engineer'' ''a2'' 0 (pq_push ''cto'' ''a1'' 0 pq_empty) = demo_queue"
    by (auto simp: pq_push_def pq_empty_def prio less_eq_queue_entry_def demo_queue_def)
  then show ?thesis
    by (simp add: enqueue_pending_def p enqueue_one_def a n r pq_contains_def)
      (simp add: pq_push_def pq_empty_def)
qed

lemma narrow_spawn:
  "spawn_loop demo_env 1 demo_queue [] = (\<lparr>pq_heap = [Entry 1 0 ''qa-engineer'' ''a2''],
     pq_queued = {''qa-engineer''}\<rparr>, spawn 0 ''cto'' ''a1'' 7 [])"
proof -
  have "pq_len demo_queue = 2" by (simp add: pq_len_def demo_queue_def)
  moreover have "pq_pop demo_queue = (Some (''cto'', ''a1''), \<lparr>pq_heap = [Entry 1 0 ''qa-engineer'' ''a2''],
     pq_queued = {''qa-engineer''}\<rparr>)" by (auto simp: pq_pop_def demo_queue_def)
  moreover have "te_spawn demo_env r = Inr 7" "te_now demo_env = 0" for r by (simp_all add: demo_env_def)
  ultimately show ?thesis
    by (simp add: spawn_loop.simps [of demo_env 1] spawn_loop.simps [of demo_env 0])
qed

lemma narrow_tick:
  "is_running ''cto'' (s_pool (tick narrow_setup demo_env new_scheduler))
    \<and> ''qa-engineer'' \<in> pq_queued (s_queue (tick narrow_setup demo_env new_scheduler))"
proof -
  have "check_memory_pressure narrow_setup demo_env new_scheduler = (False, new_scheduler)"
    by (simp add: check_memory_pressure_def narrow_setup_def demo_setup_def demo_config_def demo_env_def
        new_scheduler_def)
  then have "tick narrow_setup demo_env new_scheduler
      = spawn_from_queue narrow_setup demo_env (new_scheduler\<lparr>s_queue := demo_queue\<rparr>)"
    by (simp add: tick_def demo_settled [unfolded settled_def] narrow_enqueue)
  moreover have "su_max_slots narrow_setup = 1" "s_pool new_scheduler = []" "active_count [] = 0"
    by (simp_all add: narrow_setup_def new_scheduler_def active_count_def)
  ultimately show ?thesis by (simp add: spawn_from_queue_def narrow_spawn)
qed

theorem tick_starts_highest_priority_witness: "for_role ''cto'' \<le> for_role ''qa-engineer''"
proof (rule tick_starts_highest_priority [where su = narrow_setup and env = demo_env and s = new_scheduler])
  show "sched_ok narrow_setup new_scheduler"
    by (rule new_scheduler_ok) (simp add: narrow_setup_def demo_setup_def)
  show "\<not> is_running ''cto'' (s_pool new_scheduler)"
    by (simp add: new_scheduler_def is_running_def dict_has_def dict_get_def)
qed (use narrow_tick in simp_all)

theorem ready_agent_is_started_witness:
  "is_running ''qa-engineer'' (s_pool (tick demo_setup demo_env new_scheduler))"
proof (rule ready_agent_is_started [where a = "''a2''"])
  show "sched_ok demo_setup new_scheduler"
    by (rule new_scheduler_ok) (simp add: demo_setup_def)
  show "\<not> fst (check_memory_pressure demo_setup demo_env (settled demo_setup demo_env new_scheduler))"
    unfolding demo_settled
    by (simp add: check_memory_pressure_def demo_setup_def demo_config_def demo_env_def new_scheduler_def)
  show "is_ready (su_config demo_setup) (te_now demo_env) ''qa-engineer''
      (s_health (settled demo_setup demo_env new_scheduler))"
    unfolding demo_settled
    by (simp add: is_ready_def is_healthy_def consecutive_failures_def demo_setup_def demo_config_def
        new_scheduler_def new_health_def dict_get_or_def dict_get_def)
  show "int (card (pq_queued (s_queue new_scheduler) \<union> set (dict_keys (su_agent_map demo_setup))))
      + active_count (s_pool (settled demo_setup demo_env new_scheduler)) \<le> su_max_slots demo_setup"
    unfolding demo_settled
    by (simp add: new_scheduler_def pq_empty_def demo_setup_def dict_keys_def active_count_def)
qed (simp_all add: demo_setup_def demo_env_def dict_get_def)

end
