(* ===== verification/Parallel_Subtasks.thy ===== *)
theory Parallel_Subtasks
  imports Decisions Py_Strings
begin

text \<open>
  \<^verbatim>\<open>agents/parallel_subtasks.py\<close> and \<open>parse_clarification\<close> of \<^verbatim>\<open>agents/specialist_nodes.py\<close>: the
  concurrent execution of the sub-tasks of a decomposed request.

  Every thread works on its own copy of the state, so a run of a sub-task is a function of its
  index, the shared context and the sub-task. The node functions are parameters; they may behave
  differently for every sub-task and attempt. What the executor decides is the list of indices
  \<open>as_completed\<close> yields before its deadline, in that order: the others have timed out.
\<close>

section \<open>Clarification requests\<close>

definition open_tag :: string where
  "open_tag = ''<clarification_needed>''"

definition close_tag :: string where
  "close_tag = ''</clarification_needed>''"

text \<open>The two substitutions: a leading number with its dot or parenthesis, a leading bullet.\<close>

definition strip_number :: "string \<Rightarrow> string" where
  "strip_number l =
     (let ds = takeWhile is_digit l; rest = dropWhile is_digit l in
      if ds \<noteq> [] then
        (case rest of
           c # cs \<Rightarrow> if c = CHR ''.'' \<or> c = CHR '')'' then py_lstrip cs else l
         | [] \<Rightarrow> l)
      else l)"

definition strip_bullet :: "string \<Rightarrow> string" where
  "strip_bullet l =
     (case l of
        c # cs \<Rightarrow> if c = CHR ''-'' \<or> c = CHR ''*'' then py_lstrip cs else l
      | [] \<Rightarrow> l)"

definition clean_question :: "string \<Rightarrow> string" where
  "clean_question l = py_strip (strip_bullet (strip_number (py_strip l)))"

definition parse_clarification :: "string \<Rightarrow> bool \<times> string list" where
  "parse_clarification output =
     (case split_first open_tag output of
        None \<Rightarrow> (False, [])
      | Some (_, rest) \<Rightarrow>
          (case split_first close_tag rest of
             None \<Rightarrow> (False, [])
           | Some (body, _) \<Rightarrow>
               let raw = py_strip body in
               if raw = [] then (False, [])
               else
                 let questions = filter (\<lambda>q. q \<noteq> []) (map clean_question (splitlines raw))
                 in (questions \<noteq> [], questions)))"

section \<open>One sub-task\<close>

record shared_context =
  pc_user_request :: string
  pc_specification :: string
  pc_loaded_skills :: "loaded_skill list"
  pc_memory_context :: string
  pc_quality_threshold :: int
  pc_max_iterations :: int
  pc_specialist_max_iterations :: int
  pc_session_id :: string

definition build_local_state :: "sub_task \<Rightarrow> shared_context \<Rightarrow> agent_state" where
  "build_local_state t c = empty_state\<lparr>
     sub_tasks := Some [t],
     current_sub_task_index := Some 0,
     completed_sub_tasks := Some 0,
     user_request := Some (pc_user_request c),
     spec_text := Some (pc_specification c),
     loaded_skills := Some (pc_loaded_skills c),
     memory_context := Some (pc_memory_context c),
     quality_threshold := Some (pc_quality_threshold c),
     parallel_execution := Some True,
     specialist_iteration_count := Some 0,
     specialist_max_iterations := Some (pc_specialist_max_iterations c),
     iteration_count := Some 0,
     max_iterations := Some (pc_max_iterations c),
     adapters_used := Some [],
     tool_calls_made := Some [],
     session_id := Some (pc_session_id c)\<rparr>"

record parallel_nodes =
  pn_execute :: "nat \<Rightarrow> nat \<Rightarrow> agent_state \<Rightarrow> py_exn + agent_state"
  pn_evaluate :: "nat \<Rightarrow> nat \<Rightarrow> agent_state \<Rightarrow> py_exn + agent_state"

text \<open>\<open>for output_attempt in range(sub_max_iter)\<close>: the third argument counts the attempts left.\<close>

fun output_loop :: "parallel_nodes \<Rightarrow> nat \<Rightarrow> nat \<Rightarrow> nat \<Rightarrow> agent_state \<Rightarrow> py_exn + agent_state" where
  "output_loop nodes idx 0 attempt s = Inr s"
| "output_loop nodes idx (Suc n) attempt s =
     (case pn_execute nodes idx attempt s of
        Inl e \<Rightarrow> Inl e
      | Inr s1 \<Rightarrow>
          if opt_or (clarification_needed s1) False then Inr s1
          else case pn_evaluate nodes idx attempt s1 of
            Inl e \<Rightarrow> Inl e
          | Inr s2 \<Rightarrow>
              (case should_approve_sub_output s2 of
                 Inl e \<Rightarrow> Inl e
               | Inr (decision, s3) \<Rightarrow>
                   if decision = ''approved'' \<or> decision = ''fail'' then Inr s3
                   else output_loop nodes idx n (Suc attempt) s3))"

definition run_single_subtask ::
    "parallel_nodes \<Rightarrow> shared_context \<Rightarrow> int \<Rightarrow> nat \<Rightarrow> sub_task \<Rightarrow> py_exn + sub_task" where
  "run_single_subtask nodes c max_iter idx t =
     res_bind (output_loop nodes idx (nat (opt_or (t_max_iterations t) max_iter)) 0 (build_local_state t c))
       (\<lambda>s. case sub_tasks s of
              None \<Rightarrow> Inl (KeyError ''sub_tasks'')
            | Some [] \<Rightarrow> Inl IndexError
            | Some (r # _) \<Rightarrow> Inr r)"

section \<open>All sub-tasks\<close>

record collected =
  co_results :: "(nat, sub_task) py_dict"
  co_errors :: "subtask_error list"

definition failed_copy :: "sub_task \<Rightarrow> sub_task" where
  "failed_copy t = t\<lparr>t_status := Some ''failed''\<rparr>"

definition put_failure :: "sub_task list \<Rightarrow> string \<Rightarrow> string option \<Rightarrow> nat \<Rightarrow> collected \<Rightarrow> collected" where
  "put_failure ts msg typ idx c =
     \<lparr>co_results = dict_set idx (failed_copy (ts ! idx)) (co_results c),
      co_errors = co_errors c @ [\<lparr>se_index = idx, se_error = msg, se_error_type = typ,
        se_task_type = opt_or (t_task_type (ts ! idx)) ''unknown''\<rparr>]\<rparr>"

definition collect_done ::
    "(nat \<Rightarrow> py_exn + sub_task) \<Rightarrow> sub_task list \<Rightarrow> nat \<Rightarrow> collected \<Rightarrow> collected" where
  "collect_done run ts idx c =
     (case run idx of
        Inr r \<Rightarrow> c\<lparr>co_results := dict_set idx r (co_results c)\<rparr>
      | Inl e \<Rightarrow> put_failure ts (exn_text e) (Some (exn_name e)) idx c)"

definition collect_late :: "sub_task list \<Rightarrow> nat \<Rightarrow> collected \<Rightarrow> collected" where
  "collect_late ts idx c =
     (if dict_has (co_results c) idx then c else put_failure ts ''timeout'' None idx c)"

definition collect_all ::
    "(nat \<Rightarrow> py_exn + sub_task) \<Rightarrow> nat list \<Rightarrow> sub_task list \<Rightarrow> collected" where
  "collect_all run yielded ts =
     fold (collect_late ts) [0..<length ts]
       (fold (collect_done run ts) yielded \<lparr>co_results = [], co_errors = []\<rparr>)"

definition questions_of :: "sub_task list \<Rightarrow> string list" where
  "questions_of ts = concat (map (\<lambda>t. if t_status t = Some ''clarification_needed''
     then snd (parse_clarification (opt_or (t_output t) [])) else []) ts)"

definition shared_of :: "agent_state \<Rightarrow> shared_context" where
  "shared_of s = \<lparr>pc_user_request = opt_or (user_request s) [], pc_specification = opt_or (spec_text s) [],
     pc_loaded_skills = opt_or (loaded_skills s) [], pc_memory_context = opt_or (memory_context s) [],
     pc_quality_threshold = opt_or (quality_threshold s) 85, pc_max_iterations = opt_or (max_iterations s) 3,
     pc_specialist_max_iterations = opt_or (specialist_max_iterations s) 3,
     pc_session_id = opt_or (session_id s) []\<rparr>"

definition execute_parallel_subtasks :: "parallel_nodes \<Rightarrow> nat list \<Rightarrow> agent_state \<Rightarrow> agent_state" where
  "execute_parallel_subtasks nodes yielded s =
     (let ts = opt_or (sub_tasks s) [] in
      if ts = [] then s
      else
        let c = collect_all
              (\<lambda>idx. run_single_subtask nodes (shared_of s) (opt_or (max_iterations s) 3) idx (ts ! idx))
              yielded ts;
            merged = map (\<lambda>i. dict_get_or (co_results c) i (ts ! i)) [0..<length ts];
            questions = questions_of merged;
            s1 = (if questions \<noteq> []
                  then s\<lparr>clarification_needed := Some True, clarification_questions := Some questions\<rparr> else s)
        in s1\<lparr>sub_tasks := Some merged,
             completed_sub_tasks := Some (int (length (filter (\<lambda>t. t_status t = Some ''completed'') merged))),
             current_sub_task_index := Some (int (length merged)),
             parallel_execution_errors := Some (co_errors c)\<rparr>)"

section \<open>Lemmas\<close>

lemma put_failure_results [simp]:
  "dict_get (co_results (put_failure ts m t idx c)) i
    = (if i = idx then Some (failed_copy (ts ! idx)) else dict_get (co_results c) i)"
  by (simp add: put_failure_def)

text \<open>What a sub-task ends as, given whether it was yielded: the index decides, not the order.\<close>

definition outcome :: "(nat \<Rightarrow> py_exn + sub_task) \<Rightarrow> nat set \<Rightarrow> sub_task list \<Rightarrow> nat \<Rightarrow> sub_task" where
  "outcome run finished ts i =
     (if i \<in> finished then (case run i of Inr r \<Rightarrow> r | Inl _ \<Rightarrow> failed_copy (ts ! i))
      else failed_copy (ts ! i))"

lemma fold_done_results:
  "dict_get (co_results (fold (collect_done run ts) yielded c)) i =
     (if i \<in> set yielded then Some (outcome run (set yielded) ts i) else dict_get (co_results c) i)"
proof (induction yielded arbitrary: c)
  case (Cons j js)
  then show ?case
    by (auto simp: collect_done_def outcome_def split: sum.splits)
qed simp

lemma fold_late_results:
  "dict_get (co_results (fold (collect_late ts) is c)) i =
     (if i \<in> set is \<and> dict_get (co_results c) i = None then Some (failed_copy (ts ! i))
      else dict_get (co_results c) i)"
  by (induction "is" arbitrary: c) (auto simp: collect_late_def dict_has_def)

lemma collect_all_results:
  "i < length ts \<Longrightarrow>
    dict_get (co_results (collect_all run yielded ts)) i = Some (outcome run (set yielded) ts i)"
  by (simp add: collect_all_def fold_late_results fold_done_results outcome_def)

lemma merged_outcomes:
  "map (\<lambda>i. dict_get_or (co_results (collect_all run yielded ts)) i (ts ! i)) [0..<length ts]
    = map (outcome run (set yielded) ts) [0..<length ts]"
  by (simp add: dict_get_or_def collect_all_results)

text \<open>The errors: one per sub-task that failed or timed out, whatever the order.\<close>

lemma fold_done_errors:
  "distinct yielded \<Longrightarrow>
    map se_index (co_errors (fold (collect_done run ts) yielded c))
      = map se_index (co_errors c) @ filter (\<lambda>i. \<not> is_ok (run i)) yielded"
proof (induction yielded arbitrary: c)
  case (Cons j js)
  then show ?case by (cases "run j") (auto simp: collect_done_def put_failure_def)
qed simp

lemma fold_late_errors:
  "distinct is \<Longrightarrow>
    map se_index (co_errors (fold (collect_late ts) is c))
      = map se_index (co_errors c) @ filter (\<lambda>i. dict_get (co_results c) i = None) is"
proof (induction "is" arbitrary: c)
  case (Cons j js)
  have "filter (\<lambda>i. i \<noteq> j \<longrightarrow> P i) js = filter P js" "filter (\<lambda>i. i \<noteq> j \<and> P i) js = filter P js" for P
    using Cons.prems by (auto intro: filter_cong)
  with Cons show ?case
    by (auto simp: collect_late_def dict_has_def put_failure_def intro!: filter_cong)
qed simp

lemma collect_all_errors:
  assumes "distinct yielded"
  shows "map se_index (co_errors (collect_all run yielded ts)) =
    filter (\<lambda>i. \<not> is_ok (run i)) yielded @ filter (\<lambda>i. i \<notin> set yielded) [0..<length ts]"
  using assms
  by (simp add: collect_all_def fold_late_errors fold_done_errors fold_done_results if_distrib
      cong: filter_cong if_cong)

text \<open>The loop of one sub-task: with nodes that keep the sub-task's own limit, it ends with a final
  verdict or a clarification request.\<close>

definition keeps_limits :: "parallel_nodes \<Rightarrow> bool" where
  "keeps_limits nodes \<longleftrightarrow>
     (\<forall>i k s s'. pn_execute nodes i k s = Inr s' \<or> pn_evaluate nodes i k s = Inr s' \<longrightarrow>
        current_sub_task_index s' = current_sub_task_index s
        \<and> map (\<lambda>t. (t_iteration_count t, t_max_iterations t)) (opt_or (sub_tasks s') [])
          = map (\<lambda>t. (t_iteration_count t, t_max_iterations t)) (opt_or (sub_tasks s) []))"

lemma local_single:
  assumes "map (\<lambda>t. (t_iteration_count t, t_max_iterations t)) ts = [(i, m)]"
  obtains t where "ts = [t]" "t_iteration_count t = i" "t_max_iterations t = m"
  using assms by (cases ts) auto

lemma output_loop_final:
  assumes "keeps_limits nodes" and "output_loop nodes idx n k s = Inr s'"
    and "current_sub_task_index s = Some 0"
    and "map (\<lambda>t. (t_iteration_count t, t_max_iterations t)) (opt_or (sub_tasks s) []) = [(i, Some m)]"
    and "0 < n" and "m \<le> opt_or i 0 + int n"
    and "\<not> opt_or (clarification_needed s') False"
  shows "\<exists>t. sub_tasks s' = Some [t] \<and> (t_status t = Some ''completed'' \<or> t_status t = Some ''failed'')"
  using assms(2-6)
proof (induction n arbitrary: k s i)
  case (Suc n)
  note keep = assms(1) [unfolded keeps_limits_def, rule_format]
  obtain s1 where s1: "pn_execute nodes idx k s = Inr s1"
    using Suc.prems(1) by (cases "pn_execute nodes idx k s") auto
  have noq: "\<not> opt_or (clarification_needed s1) False"
    using Suc.prems(1) s1 assms(7) by auto
  then obtain s2 where s2: "pn_evaluate nodes idx k s1 = Inr s2"
    using Suc.prems(1) s1 by (cases "pn_evaluate nodes idx k s1") auto
  have st: "current_sub_task_index s2 = Some 0"
    "map (\<lambda>t. (t_iteration_count t, t_max_iterations t)) (opt_or (sub_tasks s2) []) = [(i, Some m)]"
    using keep [of idx k s s1] keep [of idx k s1 s2] s1 s2 Suc.prems(2,3) by auto
  obtain t where t: "opt_or (sub_tasks s2) [] = [t]" "t_iteration_count t = i" "t_max_iterations t = Some m"
    by (rule local_single [OF st(2)])
  obtain d s3 where g: "should_approve_sub_output s2 = Inr (d, s3)"
    using s1 s2 noq Suc.prems(1) by (cases "should_approve_sub_output s2") auto
  have some: "\<exists>ts. sub_tasks s3 = Some ts"
    using g t st(1) by (auto simp: gate_defs put_sub_task_def py_store_def py_index_def py_pos_def
        split: if_splits)
  show ?case
  proof (cases "d = ''refine_sub_output''")
    case False
    then have "s' = s3"
      using Suc.prems(1) s1 s2 noq g should_approve_sub_output_keys [OF g] by auto
    moreover obtain t' where "py_index (opt_or (sub_tasks s3) []) 0 = Some t'"
      "t_status t' = Some (if d = ''approved'' then ''completed'' else ''failed'')"
      using should_approve_sub_output_final [OF g False] st(1) t(1) by auto
    moreover have "length (opt_or (sub_tasks s3) []) = 1"
      using should_approve_sub_output_frame [OF g] t(1) by simp
    ultimately show ?thesis
      using some by (auto simp: py_index_def py_pos_def length_Suc_conv split: if_splits)
  next
    case True
    obtain t' where t': "py_index (opt_or (sub_tasks s2) []) (opt_or (current_sub_task_index s2) 0) = Some t'"
      "s3 = put_sub_task (opt_or (current_sub_task_index s2) 0) (bump_sub_task t') s2"
      "opt_or (t_iteration_count t') 0 + 1 < opt_or (t_max_iterations t') 3"
      by (rule should_approve_sub_output_refine [OF g [unfolded True]])
    then have tt: "t' = t" using t(1) st(1) by (simp add: py_index_def py_pos_def)
    have lt: "opt_or i 0 + 1 < m" using t' t tt by simp
    have s3: "current_sub_task_index s3 = Some 0"
      "map (\<lambda>t. (t_iteration_count t, t_max_iterations t)) (opt_or (sub_tasks s3) [])
        = [(Some (opt_or i 0 + 1), Some m)]"
      using t' t tt st(1) by (auto simp: put_sub_task_def py_store_def py_pos_def bump_sub_task_def)
    have run: "output_loop nodes idx n (Suc k) s3 = Inr s'"
      using Suc.prems(1) s1 s2 noq g True by simp
    have "0 < n" using lt Suc.prems(5) by simp
    then show ?thesis using Suc.IH [OF run s3] Suc.prems(5) by simp
  qed
qed simp

section \<open>Parsing the questions back\<close>

text \<open>The block a specialist is told to write: one numbered question per line.\<close>

fun numbered :: "nat \<Rightarrow> string list \<Rightarrow> string list" where
  "numbered n [] = []"
| "numbered n (q # qs) = (str_nat n @ ''. '' @ q) # numbered (Suc n) qs"

definition ask :: "string list \<Rightarrow> string" where
  "ask qs = open_tag @ [CHR 0x0A]
     @ concat (map (\<lambda>l. l @ [CHR 0x0A]) (numbered 1 qs)) @ close_tag"

text \<open>A question in the expected form: one line, no bullet, no blank ends, no tag.\<close>

definition plain_question :: "string \<Rightarrow> bool" where
  "plain_question q \<longleftrightarrow> q \<noteq> [] \<and> \<not> py_space (hd q) \<and> \<not> py_space (last q)
     \<and> hd q \<noteq> CHR ''-'' \<and> hd q \<noteq> CHR ''*'' \<and> CHR ''<'' \<notin> set q \<and> (\<forall>c \<in> set q. \<not> line_break c)"

lemma digit_facts:
  "is_digit c \<Longrightarrow> \<not> py_space c \<and> \<not> line_break c \<and> c \<noteq> CHR ''<''"
  by (auto simp: is_digit_def py_space_def line_break_def Let_def)

lemma clean_numbered:
  assumes "plain_question q"
  shows "clean_question (str_nat n @ ''. '' @ q) = q"
proof -
  have q: "q \<noteq> []" "\<not> py_space (hd q)" "\<not> py_space (last q)" "hd q \<noteq> CHR ''-''" "hd q \<noteq> CHR ''*''"
    using assms by (simp_all add: plain_question_def)
  have ds: "\<forall>c \<in> set (str_nat n). is_digit c" by (rule str_nat_digits)
  have "\<not> py_space (hd (str_nat n @ ''. '' @ q))"
    using digit_facts ds by (cases "str_nat n") auto
  then have 1: "py_strip (str_nat n @ ''. '' @ q) = str_nat n @ ''. '' @ q"
    using q by (intro py_strip_id) simp
  have "takeWhile is_digit (str_nat n @ ''. '' @ q) = str_nat n"
    "dropWhile is_digit (str_nat n @ ''. '' @ q) = ''. '' @ q"
    using ds by (auto simp: takeWhile_append2 dropWhile_append2 is_digit_def)
  moreover have "py_lstrip ('' '' @ q) = q"
    using q by (cases q) (simp_all add: py_lstrip_def py_space_def)
  ultimately have 2: "strip_number (str_nat n @ ''. '' @ q) = q"
    by (simp add: strip_number_def Let_def)
  have 3: "strip_bullet q = q" using q by (cases q) (simp_all add: strip_bullet_def)
  show ?thesis using 1 2 3 q by (simp add: clean_question_def py_strip_id)
qed

lemma numbered_lines:
  assumes "\<forall>q \<in> set qs. plain_question q" and "l \<in> set (numbered n qs)"
  shows "l \<noteq> [] \<and> (\<forall>c \<in> set l. \<not> line_break c) \<and> CHR ''<'' \<notin> set l \<and> \<not> py_space (hd l) \<and> \<not> py_space (last l)"
  using assms
proof (induction n qs rule: numbered.induct)
  case (2 n q qs)
  have ds: "\<forall>c \<in> set (str_nat n). is_digit c" by (rule str_nat_digits)
  have "\<not> py_space (hd (str_nat n @ ''. '' @ q))"
    using digit_facts ds by (cases "str_nat n") auto
  moreover have "\<not> line_break CHR ''.''" "\<not> line_break CHR '' ''" by (simp_all add: line_break_def)
  moreover have "\<forall>c \<in> set (str_nat n). \<not> line_break c" "CHR ''<'' \<notin> set (str_nat n)"
    using ds digit_facts by blast+
  ultimately show ?case
    using 2 by (auto simp: plain_question_def)
qed simp

lemma map_clean_numbered:
  "\<forall>q \<in> set qs. plain_question q \<Longrightarrow> map clean_question (numbered n qs) = qs"
  by (induction n qs rule: numbered.induct) (auto simp: clean_numbered [simplified])

lemma lines_join:
  assumes "ls \<noteq> []"
  shows "concat (map (\<lambda>l. l @ [CHR 0x0A]) ls)
    = (concat (map (\<lambda>l. l @ [CHR 0x0A]) (butlast ls)) @ last ls) @ [CHR 0x0A]"
  using assms by (cases ls rule: rev_exhaust) auto

lemma join_ends:
  assumes "ls \<noteq> []" and "\<forall>l \<in> set ls. l \<noteq> [] \<and> \<not> py_space (hd l) \<and> \<not> py_space (last l)"
  shows "concat (map (\<lambda>l. l @ [CHR 0x0A]) (butlast ls)) @ last ls \<noteq> []"
    and "\<not> py_space (hd (concat (map (\<lambda>l. l @ [CHR 0x0A]) (butlast ls)) @ last ls))"
    and "\<not> py_space (last (concat (map (\<lambda>l. l @ [CHR 0x0A]) (butlast ls)) @ last ls))"
proof -
  obtain l ls' where ls: "ls = l # ls'" using assms(1) by (cases ls) auto
  have "last ls \<in> set ls" using assms(1) by simp
  then show "concat (map (\<lambda>l. l @ [CHR 0x0A]) (butlast ls)) @ last ls \<noteq> []"
    "\<not> py_space (last (concat (map (\<lambda>l. l @ [CHR 0x0A]) (butlast ls)) @ last ls))"
    using assms(2) by auto
  show "\<not> py_space (hd (concat (map (\<lambda>l. l @ [CHR 0x0A]) (butlast ls)) @ last ls))"
    using assms(2) ls by (cases ls') auto
qed

section \<open>Properties\<close>

text \<open>The questions a specialist asks in the block it is told to write come back exactly, in order,
  whatever text surrounds the block.\<close>

theorem clarification_roundtrip:
  assumes "qs \<noteq> []" and "\<forall>q \<in> set qs. plain_question q" and "CHR ''<'' \<notin> set before"
  shows "parse_clarification (before @ ask qs @ after) = (True, qs)"
proof -
  let ?ls = "numbered 1 qs"
  let ?J = "concat (map (\<lambda>l. l @ [CHR 0x0A]) (butlast ?ls)) @ last ?ls"
  note ln = numbered_lines [OF assms(2), of _ 1]
  have ne: "?ls \<noteq> []" using assms(1) by (cases qs) auto
  have body: "concat (map (\<lambda>l. l @ [CHR 0x0A]) ?ls) = ?J @ [CHR 0x0A]" by (rule lines_join [OF ne])
  have tags: "open_tag = CHR ''<'' # tl open_tag" "close_tag = CHR ''<'' # tl close_tag"
    by (simp_all add: open_tag_def close_tag_def)
  have "split_first open_tag (before @ open_tag @ [CHR 0x0A] @ ?J @ [CHR 0x0A] @ close_tag @ after)
      = Some (before, [CHR 0x0A] @ ?J @ [CHR 0x0A] @ close_tag @ after)"
    using split_first_skip [OF assms(3), of "tl open_tag"] tags(1) by simp
  then have 1: "split_first open_tag (before @ ask qs @ after)
      = Some (before, ([CHR 0x0A] @ ?J @ [CHR 0x0A]) @ close_tag @ after)"
    by (simp add: ask_def body del: One_nat_def)
  have no: "CHR ''<'' \<notin> set ([CHR 0x0A] @ ?J @ [CHR 0x0A])"
    using ln ne by (auto dest: in_set_butlastD)
  have 2: "split_first close_tag (([CHR 0x0A] @ ?J @ [CHR 0x0A]) @ close_tag @ after)
      = Some ([CHR 0x0A] @ ?J @ [CHR 0x0A], after)"
    using split_first_skip [OF no, of "tl close_tag" after] tags(2) by simp
  have ends: "?J \<noteq> []" "\<not> py_space (hd ?J)" "\<not> py_space (last ?J)"
    using join_ends [OF ne] ln by blast+
  have 3: "py_strip ([CHR 0x0A] @ ?J @ [CHR 0x0A]) = ?J"
    by (rule py_strip_pad [OF _ _ ends]) (simp_all add: py_space_def)
  have 4: "splitlines ?J = ?ls" by (rule splitlines_join [OF ne]) (use ln in blast)
  have 5: "filter (\<lambda>q. q \<noteq> []) (map clean_question ?ls) = qs"
    using map_clean_numbered [OF assms(2)] assms(2) by (simp add: filter_id_conv plain_question_def)
  show ?thesis
    using 1 2 3 4 5 ends(1) assms(1) by (simp add: parse_clarification_def Let_def)
qed

theorem clarification_roundtrip_witness:
  "parse_clarification (''Hi. '' @ ask [''Which DB?'', ''How big?''] @ ''Bye'')
    = (True, [''Which DB?'', ''How big?''])"
  by (rule clarification_roundtrip) (simp_all add: plain_question_def py_space_def line_break_def)

text \<open>C35: The parallel node puts every sub-task's own result back at its own place whatever order the threads finish in; a thread
  that raised or did not finish in time only marks its own sub-task as failed, and each of these failures gives one entry in the
  list of errors, those that raised in the order they finished, then the late ones; the loop over sub-tasks is left complete.\<close>

theorem parallel_results_by_index:
  assumes "opt_or (sub_tasks s) [] = ts" and "ts \<noteq> []" and "distinct yielded"
  shows "let run = (\<lambda>i. run_single_subtask nodes (shared_of s) (opt_or (max_iterations s) 3) i (ts ! i));
             s' = execute_parallel_subtasks nodes yielded s
    in sub_tasks s' = Some (map (outcome run (set yielded) ts) [0..<length ts])
     \<and> map_option (map se_index) (parallel_execution_errors s')
         = Some (filter (\<lambda>i. \<not> is_ok (run i)) yielded @ filter (\<lambda>i. i \<notin> set yielded) [0..<length ts])
     \<and> current_sub_task_index s' = Some (int (length ts))
     \<and> has_more_subtasks s' = Inr (''done'', s')"
  using assms
  by (simp add: execute_parallel_subtasks_def Let_def merged_outcomes collect_all_errors has_more_subtasks_def
      advance_sub_task_def)

text \<open>A sub-task that runs in parallel with its own limit of iterations ends completed or failed
  unless it asks for clarification: the loop never leaves it pending.\<close>

theorem parallel_subtask_is_judged:
  assumes "keeps_limits nodes" and "t_max_iterations t = Some m" and "0 < m"
    and "0 \<le> opt_or (t_iteration_count t) 0"
    and "output_loop nodes idx (nat (opt_or (t_max_iterations t) max_iter)) 0 (build_local_state t c) = Inr s'"
    and "\<not> opt_or (clarification_needed s') False"
  shows "\<exists>r. run_single_subtask nodes c max_iter idx t = Inr r
    \<and> (t_status r = Some ''completed'' \<or> t_status r = Some ''failed'')"
proof -
  have "\<exists>r. sub_tasks s' = Some [r] \<and> (t_status r = Some ''completed'' \<or> t_status r = Some ''failed'')"
    by (rule output_loop_final [OF assms(1,5), where i = "t_iteration_count t" and m = m])
      (use assms(2-4,6) in \<open>simp_all add: build_local_state_def\<close>)
  then show ?thesis using assms(5) by (auto simp: run_single_subtask_def)
qed

definition idle_nodes :: parallel_nodes where
  "idle_nodes = \<lparr>pn_execute = \<lambda>i k s. Inr s, pn_evaluate = \<lambda>i k s. Inr s\<rparr>"

definition scored_task :: sub_task where
  "scored_task = \<lparr>t_task_type = None, t_specialist_adapter = None, t_specification = None,
     t_output = None, t_spec_score = None, t_output_score = Some 70, t_output_feedback = None, t_iteration_count = Some 0,
     t_max_iterations = Some 1, t_status = Some ''pending'',
      t_id = None, t_parent_specification = None, t_sibling_tasks = None, t_tool_calls = None, t_spec_feedback = None\<rparr>"

definition plain_context :: shared_context where
  "plain_context = shared_of empty_state"

theorem parallel_subtask_is_judged_witness:
  "\<exists>r. run_single_subtask idle_nodes plain_context 3 0 scored_task = Inr r
    \<and> (t_status r = Some ''completed'' \<or> t_status r = Some ''failed'')"
proof -
  let ?s = "build_local_state scored_task plain_context"
  have g: "should_approve_sub_output ?s = Inr (''fail'', put_sub_task 0
      ((bump_sub_task scored_task)\<lparr>t_status := Some ''failed''\<rparr>) ?s)"
    by (simp add: should_approve_sub_output_def gate_threshold_def build_local_state_def plain_context_def
        shared_of_def empty_state_def py_index_def py_pos_def scored_task_def bump_sub_task_def)
  have clar: "opt_or (clarification_needed ?s) False = False"
    "opt_or (clarification_needed (put_sub_task i t ?s)) False = False" for i t
    by (simp_all add: build_local_state_def put_sub_task_def empty_state_def split: option.splits)
  have lim: "t_max_iterations scored_task = Some 1" "t_iteration_count scored_task = Some 0"
    by (simp_all add: scored_task_def)
  have run: "output_loop idle_nodes 0 (nat (opt_or (t_max_iterations scored_task) 3)) 0 ?s
      = Inr (put_sub_task 0 ((bump_sub_task scored_task)\<lparr>t_status := Some ''failed''\<rparr>) ?s)"
    using g clar lim by (simp add: idle_nodes_def)
  show ?thesis
    by (rule parallel_subtask_is_judged [OF _ lim(1) _ _ run])
      (simp_all add: keeps_limits_def idle_nodes_def lim clar)
qed

definition single_task_state :: agent_state where
  "single_task_state = empty_state\<lparr>sub_tasks := Some [scored_task]\<rparr>"

theorem parallel_results_by_index_witness:
  "current_sub_task_index (execute_parallel_subtasks idle_nodes [] single_task_state) = Some 1
    \<and> map_option (map se_index) (parallel_execution_errors (execute_parallel_subtasks idle_nodes [] single_task_state)) = Some [0]"
  using parallel_results_by_index [of single_task_state "[scored_task]" "[]" idle_nodes]
  by (simp add: single_task_state_def Let_def)

text \<open>The gate of a parallel sub-task judges by the parent's base threshold: the threshold that
  complexity triage made effective for the request is not handed to the threads.\<close>

theorem parallel_gate_ignores_effective_threshold:
  "gate_threshold (build_local_state t (shared_of s)) = opt_or (quality_threshold s) 85"
  by (simp add: gate_threshold_def build_local_state_def shared_of_def empty_state_def)

end
