(* ===== verification/Resources.thy ===== *)
theory Resources
  imports Py_Prelude "HOL-Library.Multiset"
begin

text \<open>
  \<^verbatim>\<open>agents/resource_allocator.py\<close>, \<^verbatim>\<open>agents/concurrency_budget.py\<close> and the data model of
  \<^verbatim>\<open>agents/resource_discovery.py\<close>: what the program makes of the machine it runs on. The probing of
  the machine and the human-readable summary are not modelled; the profile is an argument.
\<close>

section \<open>The machine\<close>

record gpu_info =
  gi_index :: int
  gi_name :: string
  gi_vram_mb :: int
  gi_compute_capability :: string
  gi_utilization_pct :: int
  gi_temperature_c :: int

record system_profile =
  sp_cpu_count :: int
  sp_cpu_threads :: int
  sp_cpu_model :: string
  sp_total_ram_mb :: int
  sp_available_ram_mb :: int
  sp_gpus :: "gpu_info list"
  sp_nvidia_driver :: string
  sp_cuda_version :: string
  sp_docker_available :: bool
  sp_docker_gpu_runtime :: bool

definition gpu_count :: "system_profile \<Rightarrow> int" where
  "gpu_count p = int (length (sp_gpus p))"

definition total_vram_mb :: "system_profile \<Rightarrow> int" where
  "total_vram_mb p = sum_list (map gi_vram_mb (sp_gpus p))"

definition has_gpu :: "system_profile \<Rightarrow> bool" where
  "has_gpu p \<longleftrightarrow> length (sp_gpus p) > 0"

definition is_multi_gpu :: "system_profile \<Rightarrow> bool" where
  "is_multi_gpu p \<longleftrightarrow> length (sp_gpus p) > 1"

section \<open>Concurrency budget\<close>

definition MAX_ORG_SIZE :: int where
  "MAX_ORG_SIZE = 10"

definition ram_slots :: "system_profile \<Rightarrow> int \<Rightarrow> real \<Rightarrow> int" where
  "ram_slots p infra_reserve_gb slot_cost_gb =
     (let total_ram_gb = real_of_int (sp_total_ram_mb p) / 1024;
          available_ram_gb = total_ram_gb - real_of_int infra_reserve_gb
      in \<lfloor>available_ram_gb / slot_cost_gb\<rfloor>)"

definition calculate_concurrency_budget ::
    "system_profile \<Rightarrow> int \<Rightarrow> real \<Rightarrow> int \<Rightarrow> py_exn + int" where
  "calculate_concurrency_budget p infra_reserve_gb slot_cost_gb override_max =
     (if override_max > 0 then Inr override_max
      else if slot_cost_gb = 0 then Inl (OtherError ''ZeroDivisionError'' ''float division by zero'')
      else
        let max_from_ram = max 1 (ram_slots p infra_reserve_gb slot_cost_gb);
            max_from_cpu = max 1 (sp_cpu_count p - 2);
            max_slots = min (min max_from_ram max_from_cpu) MAX_ORG_SIZE
        in Inr (max 1 max_slots))"

section \<open>Resource plans\<close>

record service_budget =
  sb_cpu_cores :: real
  sb_memory_mb :: int
  sb_gpu_device_ids :: "int list"
  sb_gpu_memory_fraction :: real

record sandbox_pool_plan =
  pp_pool_size :: int
  pp_cpu :: string
  pp_memory :: string
  pp_gpu_enabled :: bool
  pp_gpu_device_ids :: "int list"
  pp_image :: string

record resource_plan =
  rp_vllm :: service_budget
  rp_vibe :: service_budget
  rp_opensandbox :: service_budget
  rp_sandbox_pool :: sandbox_pool_plan
  rp_profile :: system_profile
  rp_strategy :: string
  rp_warnings :: "string list"

definition cpu_image :: string where
  "cpu_image = ''opensandbox/code-interpreter:v1.0.1''"

definition gpu_image :: string where
  "gpu_image = ''vibe/sandbox-gpu:latest''"

definition service :: "real \<Rightarrow> int \<Rightarrow> service_budget" where
  "service cores mem = \<lparr>sb_cpu_cores = cores, sb_memory_mb = mem, sb_gpu_device_ids = [],
     sb_gpu_memory_fraction = 0\<rparr>"

text \<open>\<open>int(ram * share)\<close> for a non-negative amount of memory.\<close>

definition ram_share :: "system_profile \<Rightarrow> real \<Rightarrow> int" where
  "ram_share p share = \<lfloor>real_of_int (sp_total_ram_mb p) * share\<rfloor>"

definition size_pool :: "system_profile \<Rightarrow> int \<times> string \<times> string" where
  "size_pool p =
     (let ram = sp_total_ram_mb p; threads = sp_cpu_threads p;
          (slots, mem, cpu) =
            (if ram < 16384 then (1, ''256Mi'', ''500m'')
             else if ram < 32768 then (2, ''512Mi'', ''500m'')
             else if ram < 65536 then (3, ''512Mi'', ''1000m'')
             else (4, ''1Gi'', ''1000m''));
          slots' = (if threads < 4 then max 1 (slots - 1)
                   else if threads \<ge> 16 then min (slots + 1) 6 else slots)
      in (slots', cpu, mem))"

definition plan_cpu_only :: "system_profile \<Rightarrow> resource_plan" where
  "plan_cpu_only p =
     (let (slots, cpu, mem) = size_pool p in
      \<lparr>rp_vllm = service (max 2 (real_of_int (sp_cpu_threads p - 3))) (ram_share p (70 / 100)),
       rp_vibe = service 1 512, rp_opensandbox = service (1 / 2) 256,
       rp_sandbox_pool = \<lparr>pp_pool_size = slots, pp_cpu = cpu, pp_memory = mem, pp_gpu_enabled = False,
         pp_gpu_device_ids = [], pp_image = cpu_image\<rparr>,
       rp_profile = p, rp_strategy = ''cpu_only'',
       rp_warnings = [''No GPU detected - LLM inference will be slow'']\<rparr>)"

definition plan_single_gpu :: "system_profile \<Rightarrow> resource_plan" where
  "plan_single_gpu p =
     (let gpu = sp_gpus p ! 0;
          shared = gi_vram_mb gpu \<ge> 24000;
          (slots, cpu, mem) = size_pool p
      in \<lparr>rp_vllm = (service (max 2 (real_of_int (sp_cpu_threads p) / 2)) (ram_share p (40 / 100)))
            \<lparr>sb_gpu_device_ids := [gi_index gpu], sb_gpu_memory_fraction := if shared then 8 / 10 else 1\<rparr>,
          rp_vibe = service 1 512, rp_opensandbox = service (1 / 2) 256,
          rp_sandbox_pool = \<lparr>pp_pool_size = slots, pp_cpu = cpu, pp_memory = mem, pp_gpu_enabled = shared,
            pp_gpu_device_ids = (if shared then [gi_index gpu] else []),
            pp_image = (if shared then gpu_image else cpu_image)\<rparr>,
          rp_profile = p, rp_strategy = ''single_gpu'',
          rp_warnings =
            (if gi_vram_mb gpu < 16384 then
               [''Low VRAM ('' @ str_int (gi_vram_mb gpu) @ ''MB): sandbox GPU disabled to protect LLM inference'']
             else if \<not> shared then
               [''Moderate VRAM ('' @ str_int (gi_vram_mb gpu)
                 @ ''MB): sandbox GPU disabled. Set VIBE_SANDBOX_GPU=true to override'']
             else [])\<rparr>)"

text \<open>\<open>sorted(gpus, key=vram, reverse=True)\<close> keeps the order of equal keys.\<close>

definition gpus_by_vram :: "system_profile \<Rightarrow> gpu_info list" where
  "gpus_by_vram p = sort_key (\<lambda>g. - gi_vram_mb g) (sp_gpus p)"

definition split_gpus :: "system_profile \<Rightarrow> int list \<times> int list" where
  "split_gpus p =
     (let gs = gpus_by_vram p;
          n = (if gi_vram_mb (gs ! 0) < 24576 \<and> length gs \<ge> 2 then 2 else 1)
      in (map gi_index (take n gs), map gi_index (drop n gs)))"

definition plan_multi_gpu :: "system_profile \<Rightarrow> resource_plan" where
  "plan_multi_gpu p =
     (let (vllm_ids, sandbox_ids) = split_gpus p;
          sandbox_gpu = length sandbox_ids > 0;
          (slots, cpu, mem) = size_pool p
      in \<lparr>rp_vllm = (service (max 2 (real_of_int (sp_cpu_threads p) * (4 / 10))) (ram_share p (35 / 100)))
            \<lparr>sb_gpu_device_ids := vllm_ids, sb_gpu_memory_fraction := 9 / 10\<rparr>,
          rp_vibe = service 2 1024, rp_opensandbox = service 1 512,
          rp_sandbox_pool = \<lparr>pp_pool_size = min (slots + 1) 6, pp_cpu = cpu, pp_memory = mem,
            pp_gpu_enabled = sandbox_gpu, pp_gpu_device_ids = sandbox_ids,
            pp_image = (if sandbox_gpu then gpu_image else cpu_image)\<rparr>,
          rp_profile = p, rp_strategy = ''multi_gpu'',
          rp_warnings =
            (if \<not> sandbox_gpu then
               [''All GPUs assigned to vLLM for tensor parallel - sandboxes will be CPU-only''] else [])\<rparr>)"

definition base_plan :: "system_profile \<Rightarrow> resource_plan" where
  "base_plan p =
     (if \<not> has_gpu p then plan_cpu_only p
      else if is_multi_gpu p then plan_multi_gpu p else plan_single_gpu p)"

text \<open>\<open>backend\<close>: the value of \<open>VIBE_SANDBOX_BACKEND\<close>, by default \<open>opensandbox\<close>.\<close>

definition compute_resource_plan :: "string \<Rightarrow> system_profile \<Rightarrow> py_exn + resource_plan" where
  "compute_resource_plan backend p =
     (let plan = base_plan p;
          warn = (\<lambda>m. plan\<lparr>rp_warnings := rp_warnings plan @ [m]\<rparr>)
      in if \<not> sp_docker_available p then
           (if backend = ''subprocess'' then
              Inr (warn ''Docker not available - using subprocess sandbox backend'')
            else Inl (RuntimeError ''Docker is required for OpenSandbox execution. Install Docker and ensure the daemon is running. Or set VIBE_SANDBOX_BACKEND=subprocess to use the subprocess fallback.''))
         else if \<not> sp_docker_gpu_runtime p \<and> has_gpu p then
           Inr (warn ''nvidia-container-toolkit not detected - GPU passthrough to containers may fail'')
         else Inr plan)"

section \<open>Lemmas\<close>

lemma compute_plan_base:
  assumes "compute_resource_plan backend p = Inr plan"
  shows "rp_vllm plan = rp_vllm (base_plan p)" and "rp_sandbox_pool plan = rp_sandbox_pool (base_plan p)"
    and "rp_strategy plan = rp_strategy (base_plan p)"
  using assms by (auto simp: compute_resource_plan_def Let_def split: if_splits)

lemma budget_value:
  "cost \<noteq> 0 \<Longrightarrow> calculate_concurrency_budget p reserve cost 0 =
     Inr (max 1 (min (min (max 1 (ram_slots p reserve cost)) (max 1 (sp_cpu_count p - 2))) MAX_ORG_SIZE))"
  unfolding calculate_concurrency_budget_def Let_def by (simp only: less_irrefl if_False)

lemma clamp_bounds:
  fixes a a' c c' :: int
  assumes "a \<le> a'" and "c \<le> c'"
  shows "1 \<le> max 1 (min (min (max 1 a) (max 1 (c - 2))) MAX_ORG_SIZE)
    \<and> max 1 (min (min (max 1 a) (max 1 (c - 2))) MAX_ORG_SIZE) \<le> MAX_ORG_SIZE
    \<and> (3 < c \<longrightarrow> max 1 (min (min (max 1 a) (max 1 (c - 2))) MAX_ORG_SIZE) \<le> c - 2)
    \<and> max 1 (min (min (max 1 a) (max 1 (c - 2))) MAX_ORG_SIZE)
      \<le> max 1 (min (min (max 1 a') (max 1 (c' - 2))) MAX_ORG_SIZE)"
  using assms by (auto simp: MAX_ORG_SIZE_def min_def max_def)

lemma size_pool_bounds:
  assumes "size_pool p = (slots, cpu, mem)"
  shows "1 \<le> slots \<and> slots \<le> 5"
  using assms by (auto simp: size_pool_def Let_def split: if_splits)

lemma split_gpus_partition:
  assumes "split_gpus p = (vllm, sandbox)"
  shows "mset (vllm @ sandbox) = mset (map gi_index (sp_gpus p))"
proof -
  obtain n where n: "vllm = map gi_index (take n (gpus_by_vram p))"
    "sandbox = map gi_index (drop n (gpus_by_vram p))"
    using assms by (auto simp: split_gpus_def Let_def split: if_splits)
  then have "vllm @ sandbox = map gi_index (gpus_by_vram p)" by (simp flip: map_append)
  then show ?thesis by (simp add: gpus_by_vram_def)
qed

lemma split_gpus_largest:
  assumes "split_gpus p = (vllm, sandbox)" and "sp_gpus p \<noteq> []"
  shows "\<exists>g \<in> set (sp_gpus p). gi_index g \<in> set vllm \<and> (\<forall>h \<in> set (sp_gpus p). gi_vram_mb h \<le> gi_vram_mb g)"
proof -
  obtain g gs where g: "gpus_by_vram p = g # gs"
    using assms(2) by (cases "gpus_by_vram p") (auto simp: gpus_by_vram_def dest: arg_cong [of _ _ mset])
  have set: "set (gpus_by_vram p) = set (sp_gpus p)" by (simp add: gpus_by_vram_def)
  have "sorted (map (\<lambda>g. - gi_vram_mb g) (gpus_by_vram p))"
    unfolding gpus_by_vram_def by (rule sorted_sort_key)
  then have "\<forall>h \<in> set (sp_gpus p). gi_vram_mb h \<le> gi_vram_mb g"
    using g set by (auto simp: sorted_simps)
  moreover have "gi_index g \<in> set vllm"
    using assms(1) g by (auto simp: split_gpus_def Let_def split: if_splits)
  moreover have "g \<in> set (sp_gpus p)" using g set by auto
  ultimately show ?thesis by blast
qed

section \<open>Properties\<close>

definition workstation :: system_profile where
  "workstation = \<lparr>sp_cpu_count = 8, sp_cpu_threads = 16, sp_cpu_model = ''cpu'', sp_total_ram_mb = 65536,
     sp_available_ram_mb = 60000,
     sp_gpus = map (\<lambda>i. \<lparr>gi_index = i, gi_name = ''RTX 4090'', gi_vram_mb = 24564,
       gi_compute_capability = ''8.9'', gi_utilization_pct = 0, gi_temperature_c = 40\<rparr>) [0, 1],
     sp_nvidia_driver = [], sp_cuda_version = [], sp_docker_available = True, sp_docker_gpu_runtime = True\<rparr>"

text \<open>Without an override the concurrency budget lies between one and ten slots, leaves two cores
  free on a machine with more than three, and never shrinks when memory or cores are added.\<close>

theorem concurrency_budget_bounds:
  assumes "calculate_concurrency_budget p reserve cost 0 = Inr n"
    and "calculate_concurrency_budget p' reserve cost 0 = Inr n'"
    and "0 < cost" and "sp_total_ram_mb p \<le> sp_total_ram_mb p'" and "sp_cpu_count p \<le> sp_cpu_count p'"
  shows "1 \<le> n \<and> n \<le> MAX_ORG_SIZE \<and> (3 < sp_cpu_count p \<longrightarrow> n \<le> sp_cpu_count p - 2) \<and> n \<le> n'"
proof -
  have "(real_of_int (sp_total_ram_mb p) / 1024 - real_of_int reserve) / cost
      \<le> (real_of_int (sp_total_ram_mb p') / 1024 - real_of_int reserve) / cost"
    using assms(3,4) by (intro divide_right_mono diff_right_mono) auto
  then have ram: "ram_slots p reserve cost \<le> ram_slots p' reserve cost"
    unfolding ram_slots_def Let_def by (rule floor_mono)
  have "cost \<noteq> 0" using assms(3) by simp
  note val = budget_value [OF this]
  have n: "n = max 1 (min (min (max 1 (ram_slots p reserve cost)) (max 1 (sp_cpu_count p - 2))) MAX_ORG_SIZE)"
    "n' = max 1 (min (min (max 1 (ram_slots p' reserve cost)) (max 1 (sp_cpu_count p' - 2))) MAX_ORG_SIZE)"
    using assms(1,2) unfolding val by (simp_all only: sum.inject)
  show ?thesis unfolding n by (rule clamp_bounds [OF ram assms(5)])
qed

theorem concurrency_budget_bounds_witness:
  "\<exists>n. calculate_concurrency_budget workstation 10 (3 / 2) 0 = Inr n \<and> 1 \<le> n \<and> n \<le> 6"
proof -
  obtain n where n: "calculate_concurrency_budget workstation 10 (3 / 2) 0 = Inr n"
    by (simp add: calculate_concurrency_budget_def Let_def)
  show ?thesis
    using concurrency_budget_bounds [OF n n] n by (simp add: workstation_def)
qed

text \<open>On a machine with several GPUs the plan hands out every GPU exactly once: inference and
  sandboxes never share a device, and inference has one with the most memory.\<close>

theorem multi_gpu_plan_partitions:
  assumes "compute_resource_plan backend p = Inr plan" and "is_multi_gpu p"
    and "distinct (map gi_index (sp_gpus p))"
  shows "set (sb_gpu_device_ids (rp_vllm plan)) \<inter> set (pp_gpu_device_ids (rp_sandbox_pool plan)) = {}
    \<and> set (sb_gpu_device_ids (rp_vllm plan)) \<union> set (pp_gpu_device_ids (rp_sandbox_pool plan))
        = gi_index ` set (sp_gpus p)
    \<and> (\<exists>g \<in> set (sp_gpus p). gi_index g \<in> set (sb_gpu_device_ids (rp_vllm plan))
        \<and> (\<forall>h \<in> set (sp_gpus p). gi_vram_mb h \<le> gi_vram_mb g))"
proof -
  obtain vllm sandbox where s: "split_gpus p = (vllm, sandbox)" by fastforce
  have ids: "sb_gpu_device_ids (rp_vllm plan) = vllm" "pp_gpu_device_ids (rp_sandbox_pool plan) = sandbox"
    using compute_plan_base [OF assms(1)] assms(2) s
    by (auto simp: base_plan_def has_gpu_def is_multi_gpu_def plan_multi_gpu_def Let_def split: prod.splits)
  note m = split_gpus_partition [OF s]
  have "distinct (vllm @ sandbox)" using mset_eq_imp_distinct_iff [OF m] assms(3) by simp
  moreover have "set (vllm @ sandbox) = gi_index ` set (sp_gpus p)" using mset_eq_setD [OF m] by simp
  moreover have "sp_gpus p \<noteq> []" using assms(2) by (auto simp: is_multi_gpu_def)
  ultimately show ?thesis using ids split_gpus_largest [OF s] by auto
qed

lemma workstation_plan: "\<exists>plan. compute_resource_plan ''opensandbox'' workstation = Inr plan"
  by (simp add: compute_resource_plan_def workstation_def has_gpu_def Let_def)

theorem multi_gpu_plan_partitions_witness:
  "\<exists>plan. compute_resource_plan ''opensandbox'' workstation = Inr plan
    \<and> set (sb_gpu_device_ids (rp_vllm plan)) \<union> set (pp_gpu_device_ids (rp_sandbox_pool plan)) = {0, 1}"
proof -
  obtain plan where "compute_resource_plan ''opensandbox'' workstation = Inr plan"
    using workstation_plan by blast
  with multi_gpu_plan_partitions [OF this] show ?thesis
    by (auto simp: workstation_def is_multi_gpu_def)
qed

text \<open>The threshold of 24 GB differs between the strategies: on one card that reports 24564 MB the
  sandboxes share the GPU, on two such cards both go to inference and the sandboxes get none.\<close>

lemma two_24gb_cards_leave_sandboxes_without_gpu:
  "pp_gpu_enabled (rp_sandbox_pool (base_plan workstation)) = False
   \<and> pp_gpu_enabled (rp_sandbox_pool (base_plan (workstation\<lparr>sp_gpus := [sp_gpus workstation ! 0]\<rparr>))) = True"
  by (simp add: base_plan_def has_gpu_def is_multi_gpu_def plan_multi_gpu_def plan_single_gpu_def
      split_gpus_def gpus_by_vram_def workstation_def Let_def split: prod.splits)

end
