(* ===== verification/Skill_Security.thy ===== *)
theory Skill_Security
  imports Py_Strings
begin

text \<open>
  \<^verbatim>\<open>agents/skill_security.py\<close>: names, content and bundled scripts of skills, the fields of the
  frontmatter, integrity hashes, the promotion gate and tool permissions. Regular expression
  search (\<open>re.search\<close> without case), \<open>float\<close> of a text, the SHA-256 digest and \<open>ast.parse\<close> are
  arguments; times are the ISO strings the code writes. Paths carry no symbolic links.
\<close>

section \<open>Tools\<close>

definition DEFAULT_ALLOWED_TOOLS :: "string set" where
  "DEFAULT_ALLOWED_TOOLS = {''Read'', ''Glob'', ''Grep'', ''WebFetch'', ''WebSearch'',
     ''web_search'', ''web_scrape'', ''dependency_scanner'', ''container_inspect'',
     ''lighthouse_seo'', ''page_analyzer'', ''seo_checklist'', ''memory_store'', ''memory_recall'',
     ''bulletin_board''}"

definition RESTRICTED_TOOLS :: "string set" where
  "RESTRICTED_TOOLS = {''Write'', ''Edit'', ''Bash'', ''NotebookEdit'', ''browser_automation'',
     ''database'', ''design'', ''image_generation'', ''git_forge'', ''artifact_storage''}"

definition ALL_KNOWN_TOOLS :: "string set" where
  "ALL_KNOWN_TOOLS = DEFAULT_ALLOWED_TOOLS \<union> RESTRICTED_TOOLS"

definition trust_level_defaults :: "string \<Rightarrow> string set" where
  "trust_level_defaults level =
     (if level = ''high'' then ALL_KNOWN_TOOLS
      else if level = ''standard'' then DEFAULT_ALLOWED_TOOLS
      else if level = ''restricted'' then {''Read'', ''Glob'', ''Grep''}
      else DEFAULT_ALLOWED_TOOLS)"

section \<open>Names\<close>

definition security_error :: "string \<Rightarrow> py_exn" where
  "security_error m = OtherError ''SkillSecurityError'' m"

definition MAX_SKILL_NAME_LENGTH :: nat where
  "MAX_SKILL_NAME_LENGTH = 64"

definition MAX_SKILL_FILE_SIZE :: nat where
  "MAX_SKILL_FILE_SIZE = 512 * 1024"

definition lower_letter :: "char \<Rightarrow> bool" where
  "lower_letter c \<longleftrightarrow> 97 \<le> (of_char c :: nat) \<and> (of_char c :: nat) \<le> 122"

text \<open>A trailing line break is ignored: \<open>$\<close> matches before it.\<close>

definition chomp :: "string \<Rightarrow> string" where
  "chomp s = (if s \<noteq> [] \<and> last s = CHR 0x0A then butlast s else s)"

text \<open>The name without a \<open>__v<digits>\<close> suffix, and the digits.\<close>

definition version_suffix :: "string \<Rightarrow> (string \<times> string) option" where
  "version_suffix s =
     (let ds = rev (takeWhile is_digit (rev s)); rest = rev (dropWhile is_digit (rev s)) in
      if ds \<noteq> [] \<and> suffix ''__v'' rest then Some (take (length rest - 3) rest, ds) else None)"

definition kebab_case :: "string \<Rightarrow> bool" where
  "kebab_case s \<longleftrightarrow>
     s \<noteq> [] \<and> lower_letter (hd s)
     \<and> (\<forall>part \<in> set (split_on (CHR ''-'') s).
          part \<noteq> [] \<and> (\<forall>c \<in> set part. lower_letter c \<or> is_digit c))"

definition valid_skill_name_re :: "string \<Rightarrow> bool" where
  "valid_skill_name_re name \<longleftrightarrow>
     (let s = chomp name in
      kebab_case s \<or> (case version_suffix s of Some (base, _) \<Rightarrow> kebab_case base | None \<Rightarrow> False))"

definition validate_skill_name :: "string \<Rightarrow> py_exn + unit" where
  "validate_skill_name name =
     (if name = [] then Inl (security_error ''Skill name cannot be empty'')
      else if str_contains ''..'' name \<or> CHR ''/'' \<in> set name \<or> CHR 0x5C \<in> set name then
        Inl (security_error (''Skill name contains path traversal characters: '' @ name))
      else if CHR 0x00 \<in> set name then
        Inl (security_error (''Skill name contains null bytes: '' @ name))
      else if length name > MAX_SKILL_NAME_LENGTH then
        Inl (security_error (''Skill name too long: '' @ name))
      else if \<not> valid_skill_name_re name then
        Inl (security_error (''Invalid skill name: '' @ name))
      else Inr ())"

text \<open>The resolved path must lie below the base directory.\<close>

definition validate_skill_path :: "string list \<Rightarrow> string list \<Rightarrow> py_exn + unit" where
  "validate_skill_path skill_path expected_base =
     (if prefix expected_base skill_path then Inr ()
      else Inl (security_error ''Path traversal detected''))"

section \<open>Content\<close>

record suspicious =
  su_pattern :: string
  su_severity :: string
  su_description :: string

text \<open>The patterns are written with a tilde for the backslash.\<close>

definition re_text :: "string \<Rightarrow> string" where
  "re_text s = map (\<lambda>c. if c = CHR ''~'' then CHR 0x5C else c) s"

definition SUSPICIOUS_PATTERNS :: "suspicious list" where \<open>
  SUSPICIOUS_PATTERNS = map (\<lambda>(p, s, d). \<lparr>su_pattern = re_text p, su_severity = s, su_description = d\<rparr>) [
    (''ignore~s+(?:all~s+)?previous~s+instructions'', ''critical'', ''Prompt injection: ignore previous instructions''),
    (''you~s+are~s+now~s+(?:a|an)~s+'', ''critical'', ''Prompt injection: role reassignment''),
    (''<~s*(?:system|assistant|human)~s*>'', ''critical'', ''Prompt injection: XML role tag injection''),
    (''system~s*:~s*~n'', ''high'', ''Prompt injection: system prompt injection attempt''),
    (''(?:subprocess|exec|eval|__import__)~s*~('', ''critical'', ''Code execution: dynamic eval/exec/import call''),
    (''(?:os~.(?:system|popen|exec))~s*~('', ''critical'', ''Code execution: os command execution''),
    (''(?:rm~s+-rf|chmod~s+777|mkfs)~b'', ''high'', ''Dangerous shell command in skill content''),
    (''(?:curl|wget|fetch)~s+https?://(?!(?:api~.github~.com|raw~.githubusercontent~.com))'', ''high'',
      ''Potential data exfiltration: outbound HTTP to non-GitHub URL''),
    (''(?:requests|httpx|aiohttp)~.(?:get|post|put|patch|delete|request)~s*~('', ''high'',
      ''Potential data exfiltration: Python HTTP library call''),
    (''urllib~.request~.(?:urlopen|Request)~s*~('', ''high'', ''Potential data exfiltration: urllib request call''),
    (''(?:exfiltrat|send~s+(?:data~s+)?to~s+(?:https?|ftp))'', ''critical'', ''Data exfiltration language detected''),
    (''(?:api[_-]?key|password|secret|token|credential)~s*[:=]~s*['' @ [CHR 0x27, CHR ''~'', CHR 0x22] @ '']'',
      ''critical'', ''Credential harvesting: hardcoded secret pattern''),
    (''(?:env|environ|getenv)~s*~[~s*['' @ [CHR 0x27, CHR ''~'', CHR 0x22] @ ''](?!VIBE_)'', ''high'',
      ''Reading non-Vibe environment variables''),
    (''(?:environ|os~.environ)~.get~s*~(~s*['' @ [CHR 0x27, CHR ''~'', CHR 0x22] @ ''](?!VIBE_)'', ''high'',
      ''Reading non-Vibe environment variables via .get()'')]\<close>

definition severity_count :: "string \<Rightarrow> suspicious list \<Rightarrow> nat" where
  "severity_count sev ws = length (filter (\<lambda>w. su_severity w = sev) ws)"

text \<open>\<open>utf8\<close> encodes the content; the warnings are returned when nothing rejects it.\<close>

definition validate_skill_content ::
    "(string \<Rightarrow> string \<Rightarrow> bool) \<Rightarrow> (string \<Rightarrow> nat list) \<Rightarrow> string \<Rightarrow> py_exn + suspicious list" where
  "validate_skill_content re_search utf8 content =
     (if length (utf8 content) > MAX_SKILL_FILE_SIZE then
        Inl (security_error ''SKILL.md exceeds maximum size'')
      else
        let warnings = filter (\<lambda>p. re_search (su_pattern p) content) SUSPICIOUS_PATTERNS in
        if severity_count ''critical'' warnings > 0 then
          Inl (security_error (''critical security violation(s) detected. Skill rejected.'' @
            concat (map (\<lambda>w. CHR 0x0A # ''  - '' @ su_description w)
              (filter (\<lambda>w. su_severity w = ''critical'') warnings))))
        else if severity_count ''high'' warnings \<ge> 3 then
          Inl (security_error ''high-severity warnings detected (threshold: 3). Skill rejected for safety.'')
        else Inr warnings)"

section \<open>Frontmatter\<close>

definition extract_frontmatter :: "string \<Rightarrow> string option" where
  "extract_frontmatter content =
     (if prefix ''---'' content then
        let ls = tl (split_on (CHR 0x0A) content) in
        if \<exists>l \<in> set ls. py_strip l = ''---''
        then Some (join_with [CHR 0x0A] (takeWhile (\<lambda>l. py_strip l \<noteq> ''---'') ls))
        else None
      else None)"

text \<open>
  The scan of one field: the value on its line (a block indicator counts as none) and the indented
  lines that follow, each passed through \<open>item\<close>; the first line that is not indented ends the block.
\<close>

definition block_indicator :: "string \<Rightarrow> bool" where
  "block_indicator v \<longleftrightarrow> v \<in> {''>-'', ''>'', ''|'', ''|-''}"

definition indented :: "string \<Rightarrow> bool" where
  "indented l \<longleftrightarrow> l \<noteq> [] \<and> py_space (hd l)"

record field =
  fi_found :: bool
  fi_inline :: string
  fi_block :: "string list"

fun scan_field :: "(string \<Rightarrow> string) \<Rightarrow> string \<Rightarrow> field \<Rightarrow> string list \<Rightarrow> field" where
  "scan_field item key f [] = f"
| "scan_field item key f (l # ls) =
     (let s = py_strip l in
      if prefix (key @ '':'') s then
        let v = py_strip (drop (length key + 1) s) in
        scan_field item key (f\<lparr>fi_found := True, fi_inline := (if block_indicator v then [] else v)\<rparr>) ls
      else if fi_found f \<and> indented l \<and> s \<noteq> [] then
        scan_field item key (f\<lparr>fi_block := fi_block f @ [item s]\<rparr>) ls
      else if fi_found f \<and> \<not> indented l then f
      else scan_field item key f ls)"

definition no_field :: field where
  "no_field = \<lparr>fi_found = False, fi_inline = [], fi_block = []\<rparr>"

definition find_field :: "(string \<Rightarrow> string) \<Rightarrow> string \<Rightarrow> string \<Rightarrow> field option" where
  "find_field item key content =
     (case extract_frontmatter content of
        None \<Rightarrow> None
      | Some fm \<Rightarrow>
          let f = scan_field item key no_field (split_on (CHR 0x0A) fm) in
          if fi_found f then Some f else None)"

definition parse_frontmatter_string :: "string \<Rightarrow> string \<Rightarrow> string option" where
  "parse_frontmatter_string content key =
     (case find_field (\<lambda>s. s) key content of
        None \<Rightarrow> None
      | Some f \<Rightarrow>
          Some (if fi_inline f \<noteq> [] then fi_inline f
                else if fi_block f \<noteq> [] then join_with [CHR 0x0A] (fi_block f) else []))"

definition yaml_item :: "string \<Rightarrow> string" where
  "yaml_item s = (if prefix ''- '' s then py_strip (drop 2 s) else s)"

definition parse_quality_criteria :: "string \<Rightarrow> string list option" where
  "parse_quality_criteria content =
     (case find_field yaml_item ''quality-criteria'' content of
        None \<Rightarrow> None
      | Some f \<Rightarrow>
          Some (if fi_inline f \<noteq> [] then
                  filter (\<lambda>c. c \<noteq> []) (map py_strip (split_on (CHR ''|'') (fi_inline f)))
                else fi_block f))"

definition parse_adapter_prompt :: "string \<Rightarrow> string option" where
  "parse_adapter_prompt content = parse_frontmatter_string content ''adapter-prompt''"

definition validate_adapter_prompt :: "(string \<Rightarrow> string \<Rightarrow> bool) \<Rightarrow> string \<Rightarrow> bool" where
  "validate_adapter_prompt re_search prompt \<longleftrightarrow>
     prompt = [] \<or> \<not> (\<exists>p \<in> set SUSPICIOUS_PATTERNS.
        su_severity p \<in> {''critical'', ''high''} \<and> re_search (su_pattern p) prompt)"

fun config_pairs :: "(string \<Rightarrow> real option) \<Rightarrow> string list \<Rightarrow> (string, real) py_dict \<Rightarrow> (string, real) py_dict" where
  "config_pairs to_float [] d = d"
| "config_pairs to_float (pair # pairs) d =
     (let (key, v) = py_partition (CHR ''='') pair; key = py_strip key in
      config_pairs to_float pairs
        (if CHR ''='' \<notin> set pair \<or> key \<notin> {''temperature'', ''max_tokens'', ''top_p'', ''top_k''} then d
         else case to_float (py_strip v) of None \<Rightarrow> d | Some x \<Rightarrow> dict_set key x d))"

definition parse_generation_config ::
    "(string \<Rightarrow> real option) \<Rightarrow> string \<Rightarrow> (string, real) py_dict option" where
  "parse_generation_config to_float content =
     (case parse_frontmatter_string content ''generation-config'' of
        None \<Rightarrow> None
      | Some raw \<Rightarrow>
          let d = config_pairs to_float (py_words raw) [] in if d = [] then None else Some d)"

definition parse_task_types :: "string \<Rightarrow> string list option" where
  "parse_task_types content =
     (case parse_frontmatter_string content ''task-types'' of
        None \<Rightarrow> None
      | Some raw \<Rightarrow> if py_words raw = [] then None else Some (py_words raw))"

definition parse_tools_enabled :: "string \<Rightarrow> bool option" where
  "parse_tools_enabled content =
     map_option (\<lambda>raw. py_lower raw \<in> {''true'', ''yes'', ''1''})
       (parse_frontmatter_string content ''tools-enabled'')"

definition resolve_tool_defaults :: "string \<Rightarrow> string \<Rightarrow> string set" where
  "resolve_tool_defaults trust_level override =
     (if override \<noteq> [] then set (py_words override) \<inter> ALL_KNOWN_TOOLS
      else trust_level_defaults trust_level)"

fun allowed_tools_line :: "string list \<Rightarrow> string option" where
  "allowed_tools_line [] = None"
| "allowed_tools_line (l # ls) =
     (if prefix ''allowed-tools:'' (py_strip l)
      then Some (py_strip (drop (length ''allowed-tools:'') (py_strip l)))
      else allowed_tools_line ls)"

definition parse_allowed_tools :: "string \<Rightarrow> string \<Rightarrow> string \<Rightarrow> string set" where
  "parse_allowed_tools content trust_level override =
     (let fallback = resolve_tool_defaults trust_level override in
      case extract_frontmatter content of
        None \<Rightarrow> fallback
      | Some fm \<Rightarrow>
          (case allowed_tools_line (split_on (CHR 0x0A) fm) of
             None \<Rightarrow> fallback
           | Some tools \<Rightarrow> set (py_words tools) \<inter> ALL_KNOWN_TOOLS))"

definition check_tool_permission :: "string \<Rightarrow> string set \<Rightarrow> bool" where
  "check_tool_permission tool allowed \<longleftrightarrow> tool \<in> allowed"

text \<open>\<open>None\<close>: no restriction. A skill without declared tools does not take part in the union.\<close>

definition effective_allowed_tools :: "string set option list \<Rightarrow> string set option" where
  "effective_allowed_tools loaded =
     (let declared = filter (\<lambda>t. t \<noteq> None) loaded in
      if declared = [] then None else Some (\<Union> (set (map the declared))))"

section \<open>Bundled scripts\<close>

text \<open>
  What the walk over the syntax tree of a script looks at: imports, from-imports and calls, in the
  order of the walk. A call is of a plain name, of an attribute of a plain name, or of anything else.
\<close>

datatype callee = Name string | Attribute_Of string string | Other_Callee

datatype py_node =
    Import "string list"
  | ImportFrom "string option"
  | Call callee
  | Other_Node

record script_finding =
  sf_file :: string
  sf_severity :: string
  sf_description :: string

definition dangerous_imports :: "(string, string \<times> string) py_dict" where
  "dangerous_imports = [
     (''subprocess'', ''critical'', ''Imports subprocess module''),
     (''shutil'', ''high'', ''Imports shutil module (filesystem manipulation)''),
     (''ctypes'', ''critical'', ''Imports ctypes (native code execution)''),
     (''importlib'', ''high'', ''Imports importlib (dynamic module loading)''),
     (''socket'', ''critical'', ''Imports socket (raw network access)''),
     (''http.client'', ''high'', ''Imports http.client (HTTP requests)''),
     (''http.server'', ''high'', ''Imports http.server (starts HTTP server)''),
     (''ftplib'', ''high'', ''Imports ftplib (FTP access)''),
     (''smtplib'', ''high'', ''Imports smtplib (email sending)''),
     (''xmlrpc'', ''high'', ''Imports xmlrpc (remote procedure calls)'')]"

definition dangerous_calls :: "(string, string \<times> string) py_dict" where
  "dangerous_calls = [
     (''eval'', ''critical'', ''Calls eval() - arbitrary code execution''),
     (''exec'', ''critical'', ''Calls exec() - arbitrary code execution''),
     (''compile'', ''high'', ''Calls compile() - dynamic code compilation''),
     (''__import__'', ''critical'', ''Calls __import__() - dynamic import''),
     (''globals'', ''high'', ''Calls globals() - global scope access''),
     (''getattr'', ''high'', ''Calls getattr() - dynamic attribute access''),
     (''setattr'', ''high'', ''Calls setattr() - dynamic attribute mutation''),
     (''delattr'', ''high'', ''Calls delattr() - dynamic attribute deletion'')]"

definition dangerous_attrs :: "(string \<times> string, string \<times> string) py_dict" where
  "dangerous_attrs = [
     ((''os'', ''system''), ''critical'', ''Calls os.system() - shell execution''),
     ((''os'', ''popen''), ''critical'', ''Calls os.popen() - shell execution''),
     ((''os'', ''exec''), ''critical'', ''Calls os.exec*() - process replacement''),
     ((''os'', ''execvp''), ''critical'', ''Calls os.execvp() - process replacement''),
     ((''os'', ''execve''), ''critical'', ''Calls os.execve() - process replacement''),
     ((''os'', ''spawn''), ''high'', ''Calls os.spawn*() - process creation''),
     ((''os'', ''remove''), ''high'', ''Calls os.remove() - file deletion''),
     ((''os'', ''unlink''), ''high'', ''Calls os.unlink() - file deletion''),
     ((''os'', ''rmdir''), ''high'', ''Calls os.rmdir() - directory deletion'')]"

definition ast_finding :: "string \<Rightarrow> string \<times> string \<Rightarrow> script_finding" where
  "ast_finding file v = \<lparr>sf_file = file, sf_severity = fst v, sf_description = ''[ast] '' @ snd v\<rparr>"

definition check_import :: "string \<Rightarrow> string \<Rightarrow> script_finding list" where
  "check_import file full_mod =
     (case dict_get dangerous_imports full_mod of
        Some v \<Rightarrow> [ast_finding file v]
      | None \<Rightarrow>
          (case dict_get dangerous_imports (hd (split_on (CHR ''.'') full_mod)) of
             Some v \<Rightarrow> [ast_finding file v]
           | None \<Rightarrow> []))"

definition check_call :: "string \<Rightarrow> callee \<Rightarrow> script_finding list" where
  "check_call file c =
     (case c of
        Name name \<Rightarrow>
          (case dict_get dangerous_calls name of Some v \<Rightarrow> [ast_finding file v] | None \<Rightarrow> [])
      | Attribute_Of obj attr \<Rightarrow>
          (case dict_get dangerous_attrs (obj, attr) of
             Some v \<Rightarrow> [ast_finding file v]
           | None \<Rightarrow>
               if obj = ''os'' \<and> prefix ''exec'' attr
               then [ast_finding file (''critical'', ''Calls os.'' @ attr @ ''() - process replacement'')]
               else [])
      | Other_Callee \<Rightarrow> [])"

definition check_node :: "string \<Rightarrow> py_node \<Rightarrow> script_finding list" where
  "check_node file n =
     (case n of
        Import names \<Rightarrow> concat (map (check_import file) names)
      | ImportFrom m \<Rightarrow> check_import file (case m of None \<Rightarrow> [] | Some x \<Rightarrow> x)
      | Call c \<Rightarrow> check_call file c
      | Other_Node \<Rightarrow> [])"

text \<open>\<open>parse\<close>: the nodes of the tree in walking order, \<open>None\<close> for a syntax error.\<close>

definition ast_scan_script ::
    "(string \<Rightarrow> py_node list option) \<Rightarrow> string \<Rightarrow> string \<Rightarrow> script_finding list" where
  "ast_scan_script parse content file =
     (case parse content of
        None \<Rightarrow> [ast_finding file (''high'', ''SyntaxError: script cannot be parsed'')]
      | Some nodes \<Rightarrow> concat (map (check_node file) nodes))"

text \<open>The Python files below the skill directory as (relative path, content) pairs.\<close>

definition scan_bundled_scripts ::
    "(string \<Rightarrow> string \<Rightarrow> bool) \<Rightarrow> (string \<Rightarrow> py_node list option) \<Rightarrow> (string \<times> string) list
      \<Rightarrow> script_finding list" where
  "scan_bundled_scripts re_search parse files =
     concat (map (\<lambda>(file, content).
       map (\<lambda>p. \<lparr>sf_file = file, sf_severity = su_severity p, sf_description = ''[script] '' @ su_description p\<rparr>)
         (filter (\<lambda>p. re_search (su_pattern p) content) SUSPICIOUS_PATTERNS)
       @ ast_scan_script parse content file) files)"

section \<open>Integrity and promotion\<close>

record pending_promotion =
  pd_usage_count :: int
  pd_avg_score :: real
  pd_requested_at :: string

record skill_security =
  ss_require_approval :: bool
  ss_pending :: "(string, pending_promotion) py_dict"
  ss_hashes :: "(string, string) py_dict"

definition store_integrity_hash ::
    "(string \<Rightarrow> string) \<Rightarrow> string \<Rightarrow> string \<Rightarrow> skill_security \<Rightarrow> skill_security" where
  "store_integrity_hash digest name content s =
     s\<lparr>ss_hashes := dict_set name (digest content) (ss_hashes s)\<rparr>"

definition verify_integrity ::
    "(string \<Rightarrow> string) \<Rightarrow> string \<Rightarrow> string \<Rightarrow> skill_security \<Rightarrow> bool \<times> skill_security" where
  "verify_integrity digest name content s =
     (case dict_get (ss_hashes s) name of
        None \<Rightarrow> (True, store_integrity_hash digest name content s)
      | Some stored \<Rightarrow> (digest content = stored, s))"

definition remove_integrity_hash :: "string \<Rightarrow> skill_security \<Rightarrow> bool \<times> skill_security" where
  "remove_integrity_hash name s =
     (if dict_has (ss_hashes s) name then (True, s\<lparr>ss_hashes := dict_del name (ss_hashes s)\<rparr>)
      else (False, s))"

definition gate_promotion ::
    "string \<Rightarrow> string \<Rightarrow> int \<Rightarrow> real \<Rightarrow> skill_security \<Rightarrow> (bool \<times> string) \<times> skill_security" where
  "gate_promotion now name usage avg s =
     (if \<not> ss_require_approval s then ((True, ''Auto-promotion enabled (approval not required)''), s)
      else ((False, ''Pending approval''),
        s\<lparr>ss_pending := dict_set name \<lparr>pd_usage_count = usage, pd_avg_score = avg, pd_requested_at = now\<rparr>
            (ss_pending s)\<rparr>))"

text \<open>Approving and denying both take the request off the list.\<close>

definition approve_pending :: "string \<Rightarrow> skill_security \<Rightarrow> bool \<times> skill_security" where
  "approve_pending name s =
     (if dict_has (ss_pending s) name then (True, s\<lparr>ss_pending := dict_del name (ss_pending s)\<rparr>)
      else (False, s))"

definition deny_pending :: "string \<Rightarrow> skill_security \<Rightarrow> bool \<times> skill_security" where
  "deny_pending name s =
     (if dict_has (ss_pending s) name then (True, s\<lparr>ss_pending := dict_del name (ss_pending s)\<rparr>)
      else (False, s))"

definition export_security :: "skill_security \<Rightarrow> (string, string) py_dict \<times> (string, pending_promotion) py_dict" where
  "export_security s = (ss_hashes s, ss_pending s)"

definition import_security ::
    "(string, string) py_dict \<times> (string, pending_promotion) py_dict \<Rightarrow> skill_security \<Rightarrow> skill_security" where
  "import_security st s = s\<lparr>ss_hashes := fst st, ss_pending := snd st\<rparr>"

section \<open>Lemmas\<close>

lemma kebab_case_chars:
  assumes "kebab_case s" and "c \<in> set s"
  shows "lower_letter c \<or> is_digit c \<or> c = CHR ''-''"
proof -
  have "set s \<subseteq> insert (CHR ''-'') (\<Union> (set (map set (split_on (CHR ''-'') s))))"
  proof (induction s)
    case (Cons x xs)
    then show ?case by (cases "split_on (CHR ''-'') xs") auto
  qed simp
  then show ?thesis using assms by (fastforce simp: kebab_case_def)
qed

lemma version_suffix_split:
  assumes "version_suffix s = Some (base, ds)"
  shows "s = base @ ''__v'' @ ds" and "ds \<noteq> []" and "\<forall>c \<in> set ds. is_digit c"
proof -
  define d where "d = rev (takeWhile is_digit (rev s))"
  define r where "r = rev (dropWhile is_digit (rev s))"
  have s: "s = r @ d"
    unfolding d_def r_def by (metis rev_append rev_rev_ident takeWhile_dropWhile_id)
  have *: "d \<noteq> []" "suffix ''__v'' r" "base = take (length r - 3) r" "ds = d"
    using assms unfolding version_suffix_def Let_def d_def [symmetric] r_def [symmetric]
    by (auto split: if_splits)
  obtain b where b: "r = b @ ''__v''" using *(2) by (auto simp: suffix_def)
  show "s = base @ ''__v'' @ ds" using s * b by simp
  show "ds \<noteq> []" using * by simp
  show "\<forall>c \<in> set ds. is_digit c" using *(4) set_takeWhileD unfolding d_def by fastforce
qed

lemma version_suffix_versioned:
  assumes "ds \<noteq> []" and "\<forall>c \<in> set ds. is_digit c"
  shows "version_suffix (base @ ''__v'' @ ds) = Some (base, ds)"
proof -
  let ?s = "base @ ''__v'' @ ds"
  have r: "rev ?s = rev ds @ CHR ''v'' # CHR ''_'' # CHR ''_'' # rev base" by simp
  have nd: "\<not> is_digit (CHR ''v'')" by (simp add: is_digit_def)
  have t: "takeWhile is_digit (rev ?s) = rev ds" and d: "dropWhile is_digit (rev ?s) = CHR ''v'' # CHR ''_'' # CHR ''_'' # rev base"
    unfolding r using assms(2) nd by (subst takeWhile_append2 dropWhile_append2; auto)+
  show ?thesis unfolding version_suffix_def Let_def t d using assms(1) by (auto simp: suffix_def)
qed

text \<open>The line of the declared tools in a skill file.\<close>

definition render_allowed_tools :: "string list \<Rightarrow> string \<Rightarrow> string" where
  "render_allowed_tools tools body =
     ''---'' @ [CHR 0x0A] @ ''allowed-tools: '' @ join_with '' '' tools @ [CHR 0x0A]
       @ ''---'' @ [CHR 0x0A] @ body"

lemma known_tool_word: "t \<in> ALL_KNOWN_TOOLS \<Longrightarrow> py_word t"
  unfolding ALL_KNOWN_TOOLS_def DEFAULT_ALLOWED_TOOLS_def RESTRICTED_TOOLS_def
  by (auto simp: py_word_def py_space_def)

lemma py_word_no_break: "py_word w \<Longrightarrow> CHR 0x0A \<notin> set w"
  by (auto simp: py_word_def py_space_def)

lemma join_words_no_break: "\<forall>w \<in> set ws. py_word w \<Longrightarrow> CHR 0x0A \<notin> set (join_with '' '' ws)"
  by (induction "'' ''" ws rule: join_with.induct) (auto simp: py_word_no_break)

lemma join_words_ends:
  "ws \<noteq> [] \<Longrightarrow> \<forall>w \<in> set ws. py_word w \<Longrightarrow>
    join_with '' '' ws \<noteq> [] \<and> \<not> py_space (hd (join_with '' '' ws)) \<and> \<not> py_space (last (join_with '' '' ws))"
proof (induction "'' ''" ws rule: join_with.induct)
  case (2 w)
  then show ?case by (auto simp: py_word_def)
next
  case (3 w v ws)
  then have "join_with '' '' (v # ws) \<noteq> []" by simp
  with 3 show ?case by (auto simp: py_word_def)
qed simp

lemma trailing_line:
  "extract_frontmatter (''---'' @ CHR 0x0A # l @ CHR 0x0A # ''---'' @ CHR 0x0A # body)
    = Some l" if "CHR 0x0A \<notin> set l" and "py_strip l \<noteq> ''---''"
proof -
  have "split_on (CHR 0x0A) (''---'' @ CHR 0x0A # l @ CHR 0x0A # ''---'' @ CHR 0x0A # body)
      = ''---'' # l # ''---'' # split_on (CHR 0x0A) body"
    using that(1) by (simp add: split_on_append del: append_Cons append_Nil append.simps)
  moreover have "py_strip ''---'' = ''---''" by (rule py_strip_id) (simp add: py_space_def)
  ultimately show ?thesis using that(2) by (simp add: extract_frontmatter_def)
qed

section \<open>Properties\<close>

text \<open>A validated skill name is a single path component of at most 64 characters: no separators, no
  dots, only lower-case letters, digits, hyphens, the underscores of a version suffix and possibly
  a final line break.\<close>

theorem valid_skill_name_is_safe:
  assumes "validate_skill_name name = Inr ()"
  shows "name \<noteq> [] \<and> length name \<le> MAX_SKILL_NAME_LENGTH
    \<and> (\<forall>c \<in> set name. lower_letter c \<or> is_digit c \<or> c = CHR ''-'' \<or> c = CHR ''_'' \<or> c = CHR ''v'' \<or> c = CHR 0x0A)
    \<and> CHR ''/'' \<notin> set name \<and> CHR 0x5C \<notin> set name \<and> CHR ''.'' \<notin> set name"
proof -
  have v: "name \<noteq> []" "length name \<le> MAX_SKILL_NAME_LENGTH" "valid_skill_name_re name"
    "CHR ''/'' \<notin> set name" "CHR 0x5C \<notin> set name"
    using assms by (auto simp: validate_skill_name_def split: if_splits)
  have "set name \<subseteq> insert (CHR 0x0A) (set (chomp name))"
    by (cases name rule: rev_cases) (auto simp: chomp_def)
  moreover have "\<forall>c \<in> set (chomp name). lower_letter c \<or> is_digit c \<or> c = CHR ''-'' \<or> c = CHR ''_'' \<or> c = CHR ''v''"
  proof (cases "kebab_case (chomp name)")
    case True
    then show ?thesis using kebab_case_chars by blast
  next
    case False
    then obtain base ds where *: "version_suffix (chomp name) = Some (base, ds)" "kebab_case base"
      using v(3) by (auto simp: valid_skill_name_re_def Let_def split: option.splits)
    show ?thesis
      using version_suffix_split [OF *(1)] kebab_case_chars [OF *(2)] by auto
  qed
  ultimately have c: "\<forall>c \<in> set name. lower_letter c \<or> is_digit c \<or> c = CHR ''-'' \<or> c = CHR ''_'' \<or> c = CHR ''v'' \<or> c = CHR 0x0A"
    by blast
  moreover have "\<not> (lower_letter (CHR ''.'') \<or> is_digit (CHR ''.''))"
    by (simp add: lower_letter_def is_digit_def)
  ultimately show ?thesis using v by auto
qed

theorem valid_skill_name_is_safe_witness:
  "validate_skill_name ''code-review__v2'' = Inr () \<and> CHR ''/'' \<notin> set ''code-review__v2''"
proof -
  have "version_suffix (''code-review'' @ ''__v'' @ ''2'') = Some (''code-review'', ''2'')"
    by (rule version_suffix_versioned) (simp_all add: is_digit_def)
  moreover have "kebab_case ''code-review''"
    by (simp add: kebab_case_def lower_letter_def is_digit_def)
  ultimately have "validate_skill_name ''code-review__v2'' = Inr ()"
    by (simp add: validate_skill_name_def valid_skill_name_re_def chomp_def MAX_SKILL_NAME_LENGTH_def)
  from valid_skill_name_is_safe [OF this] this show ?thesis by blast
qed

text \<open>C37: A skill is never allowed a tool the program does not know, and a restricted tool only when
  its frontmatter declares it, the source's defaults name it or the source is fully trusted.\<close>

theorem restricted_tools_need_a_grant:
  assumes "tool \<in> parse_allowed_tools content trust override"
  shows "tool \<in> ALL_KNOWN_TOOLS
    \<and> (tool \<in> RESTRICTED_TOOLS \<longrightarrow>
        (\<exists>fm tools. extract_frontmatter content = Some fm
          \<and> allowed_tools_line (split_on (CHR 0x0A) fm) = Some tools \<and> tool \<in> set (py_words tools))
        \<or> tool \<in> set (py_words override) \<or> trust = ''high'')"
proof -
  have disj: "tool \<in> RESTRICTED_TOOLS \<Longrightarrow> tool \<notin> DEFAULT_ALLOWED_TOOLS \<and> tool \<notin> {''Read'', ''Glob'', ''Grep''}"
    by (auto simp: RESTRICTED_TOOLS_def DEFAULT_ALLOWED_TOOLS_def)
  have sub: "{''Read'', ''Glob'', ''Grep''} \<subseteq> DEFAULT_ALLOWED_TOOLS"
    by (simp add: DEFAULT_ALLOWED_TOOLS_def)
  have fallback: "tool \<in> ALL_KNOWN_TOOLS \<and> (tool \<in> RESTRICTED_TOOLS \<longrightarrow>
      tool \<in> set (py_words override) \<or> trust = ''high'')"
    if "tool \<in> resolve_tool_defaults trust override"
    using that disj sub unfolding resolve_tool_defaults_def trust_level_defaults_def ALL_KNOWN_TOOLS_def
    by (cases "override = []"; cases "trust = ''high''"; cases "trust = ''standard''"; cases "trust = ''restricted''")
      auto
  show ?thesis
  proof (cases "extract_frontmatter content")
    case None
    then show ?thesis using assms fallback by (simp add: parse_allowed_tools_def)
  next
    case (Some fm)
    show ?thesis
    proof (cases "allowed_tools_line (split_on (CHR 0x0A) fm)")
      case None
      then show ?thesis using Some assms fallback by (simp add: parse_allowed_tools_def)
    next
      case (Some tools)
      then show ?thesis using \<open>extract_frontmatter content = Some fm\<close> assms
        by (auto simp: parse_allowed_tools_def)
    qed
  qed
qed

lemma rendered_tools:
  assumes "set tools \<subseteq> ALL_KNOWN_TOOLS"
  shows "parse_allowed_tools (render_allowed_tools tools body) trust override = set tools"
proof -
  have w: "\<forall>t \<in> set tools. py_word t" using assms known_tool_word by blast
  let ?l = "''allowed-tools: '' @ join_with '' '' tools"
  have strip: "py_strip ?l = ''allowed-tools:'' @ (if tools = [] then [] else CHR '' '' # join_with '' '' tools)"
  proof (cases "tools = []")
    case True
    have "py_strip ([] @ ''allowed-tools:'' @ '' '') = ''allowed-tools:''"
      by (rule py_strip_pad) (simp_all add: py_space_def)
    then show ?thesis using True by simp
  next
    case False
    have "py_strip ?l = ?l"
      using join_words_ends [OF False w] by (intro py_strip_id) (simp add: py_space_def)
    then show ?thesis using False by simp
  qed
  have val: "py_strip (drop (length ''allowed-tools:'') (py_strip ?l)) = join_with '' '' tools"
  proof (cases "tools = []")
    case True
    then show ?thesis unfolding strip by (simp add: py_strip_def py_lstrip_def)
  next
    case False
    have "py_strip ('' '' @ join_with '' '' tools @ []) = join_with '' '' tools"
      using join_words_ends [OF False w] by (intro py_strip_pad) auto
    then show ?thesis unfolding strip using False by simp
  qed
  have "py_strip ?l \<noteq> ''---''" unfolding strip by simp
  moreover have nl: "CHR 0x0A \<notin> set ?l" using join_words_no_break [OF w] by simp
  ultimately have fm: "extract_frontmatter (render_allowed_tools tools body) = Some ?l"
    unfolding render_allowed_tools_def using trailing_line [of ?l body] by simp
  have "allowed_tools_line [?l] = Some (join_with '' '' tools)"
    unfolding allowed_tools_line.simps val unfolding strip by simp
  then show ?thesis
    using fm assms py_words_join [OF w] nl by (auto simp: parse_allowed_tools_def split_on_none)
qed

text \<open>The tools written into the frontmatter of a skill are exactly the tools read back, whatever
  the trust level of the source: an empty declaration allows nothing.\<close>

theorem allowed_tools_roundtrip:
  assumes "set tools \<subseteq> ALL_KNOWN_TOOLS"
  shows "parse_allowed_tools (render_allowed_tools tools body) trust override = set tools"
  using assms by (rule rendered_tools)

text \<open>Integrity is trust on first use: the first content seen under a name is accepted and pins its
  digest, afterwards exactly the contents with that digest are accepted, until the name is
  unregistered; other names are not affected.\<close>

theorem integrity_trust_on_first_use:
  assumes "verify_integrity digest name content s = (True, s')"
  shows "verify_integrity digest name content' s' = (digest content' = digest content, s')
    \<and> (\<forall>other. other \<noteq> name \<longrightarrow> dict_get (ss_hashes s') other = dict_get (ss_hashes s) other)
    \<and> fst (verify_integrity digest name content' (snd (remove_integrity_hash name s')))"
proof (cases "dict_get (ss_hashes s) name")
  case None
  then have "s' = store_integrity_hash digest name content s"
    using assms by (simp add: verify_integrity_def)
  then show ?thesis
    by (auto simp: verify_integrity_def store_integrity_hash_def remove_integrity_hash_def dict_has_def)
next
  case (Some h)
  then have "s' = s" "digest content = h" using assms by (auto simp: verify_integrity_def)
  then show ?thesis using Some
    by (auto simp: verify_integrity_def remove_integrity_hash_def dict_has_def)
qed

text \<open>The name pattern accepts a trailing line break, and the syntax-tree scan does not see a shell
  call whose function was imported by name.\<close>

lemma valid_skill_name_accepts_line_break: "validate_skill_name (''fmt'' @ [CHR 0x0A]) = Inr ()"
  by (simp add: validate_skill_name_def valid_skill_name_re_def chomp_def kebab_case_def lower_letter_def
      MAX_SKILL_NAME_LENGTH_def)

lemma ast_scan_misses_from_import:
  "ast_scan_script (\<lambda>_. Some [ImportFrom (Some ''os''), Call (Name ''system'')]) content file = []"
  by (simp add: ast_scan_script_def check_node_def check_import_def check_call_def dangerous_imports_def
      dangerous_calls_def dict_get_def)

theorem restricted_tools_need_a_grant_witness:
  "''Bash'' \<in> parse_allowed_tools (render_allowed_tools [''Bash''] []) ''standard'' [] \<and> ''Bash'' \<in> ALL_KNOWN_TOOLS"
proof -
  have k: "set [''Bash''] \<subseteq> ALL_KNOWN_TOOLS" by (simp add: ALL_KNOWN_TOOLS_def RESTRICTED_TOOLS_def)
  have "parse_allowed_tools (render_allowed_tools [''Bash''] []) ''standard'' [] = set [''Bash'']"
    by (rule rendered_tools [OF k])
  then have m: "''Bash'' \<in> parse_allowed_tools (render_allowed_tools [''Bash''] []) ''standard'' []" by simp
  show ?thesis by (rule conjI [OF m conjunct1 [OF restricted_tools_need_a_grant [OF m]]])
qed

theorem allowed_tools_roundtrip_witness:
  "parse_allowed_tools (render_allowed_tools [''Read'', ''Bash''] ''# Skill'') ''restricted'' [] = {''Read'', ''Bash''}"
  using allowed_tools_roundtrip [of "[''Read'', ''Bash'']" "''# Skill''" "''restricted''" "[]"]
  by (simp add: ALL_KNOWN_TOOLS_def RESTRICTED_TOOLS_def DEFAULT_ALLOWED_TOOLS_def)

theorem integrity_trust_on_first_use_witness:
  "fst (verify_integrity id ''skill'' ''changed'' (snd (verify_integrity id ''skill'' ''first''
    \<lparr>ss_require_approval = False, ss_pending = [], ss_hashes = []\<rparr>))) = False"
proof -
  let ?s = "\<lparr>ss_require_approval = False, ss_pending = [], ss_hashes = []\<rparr>"
  let ?s' = "snd (verify_integrity id ''skill'' ''first'' ?s)"
  have "verify_integrity id ''skill'' ''first'' ?s = (True, ?s')"
    by (simp add: verify_integrity_def dict_get_def)
  from integrity_trust_on_first_use [OF this, of "''changed''"] show ?thesis by simp
qed

end
