(* ===== verification/Py_Files.thy ===== *)
theory Py_Files
  imports Py_Prelude "HOL-Library.Sublist"
begin

text \<open>
  What the components use of \<open>pathlib\<close> and \<open>shutil\<close>: a file tree as a dictionary from paths to
  nodes, in the order in which directories are listed. The empty path is the root; there are no
  symbolic links, and the file system does not fail by itself.
\<close>

type_synonym path = "string list"

datatype 'c node = Dir | File 'c

type_synonym 'c files = "(path, 'c node) py_dict"

definition fs_exists :: "'c files \<Rightarrow> path \<Rightarrow> bool" where
  "fs_exists fs p \<longleftrightarrow> p = [] \<or> dict_has fs p"

definition fs_is_dir :: "'c files \<Rightarrow> path \<Rightarrow> bool" where
  "fs_is_dir fs p \<longleftrightarrow> p = [] \<or> dict_get fs p = Some Dir"

definition fs_read :: "'c files \<Rightarrow> path \<Rightarrow> 'c option" where
  "fs_read fs p = (case dict_get fs p of Some (File c) \<Rightarrow> Some c | _ \<Rightarrow> None)"

definition fs_is_file :: "'c files \<Rightarrow> path \<Rightarrow> bool" where
  "fs_is_file fs p \<longleftrightarrow> fs_read fs p \<noteq> None"

text \<open>\<open>iterdir\<close>: the names in a directory.\<close>

definition fs_children :: "'c files \<Rightarrow> path \<Rightarrow> string list" where
  "fs_children fs p = map last (filter (\<lambda>q. q \<noteq> [] \<and> butlast q = p) (dict_keys fs))"

definition fs_mkdir :: "path \<Rightarrow> 'c files \<Rightarrow> py_exn + 'c files" where
  "fs_mkdir p fs =
     (if fs_exists fs p then Inl (FileExistsError (concat p))
      else if \<not> fs_is_dir fs (butlast p) then Inl (OSError ''No such file or directory'')
      else Inr (dict_set p Dir fs))"

text \<open>\<open>mkdir(parents=True, exist_ok=True)\<close>.\<close>

definition fs_makedirs :: "path \<Rightarrow> 'c files \<Rightarrow> 'c files" where
  "fs_makedirs p fs =
     fold (\<lambda>n fs. if fs_exists fs (take n p) then fs else dict_set (take n p) Dir fs) [1..<Suc (length p)] fs"

definition fs_write :: "path \<Rightarrow> 'c \<Rightarrow> 'c files \<Rightarrow> py_exn + 'c files" where
  "fs_write p c fs =
     (if fs_is_dir fs p \<or> \<not> fs_is_dir fs (butlast p) then Inl (OSError ''cannot write'')
      else Inr (dict_set p (File c) fs))"

text \<open>Moving a tree to a path that does not exist: every path below it is renamed.\<close>

definition moved :: "path \<Rightarrow> path \<Rightarrow> path \<Rightarrow> path" where
  "moved src dst p = (if prefix src p then dst @ drop (length src) p else p)"

definition fs_move :: "path \<Rightarrow> path \<Rightarrow> 'c files \<Rightarrow> py_exn + 'c files" where
  "fs_move src dst fs =
     (if \<not> dict_has fs src then Inl (OSError ''No such file or directory'')
      else Inr (map (\<lambda>(p, n). (moved src dst p, n)) fs))"

definition fs_rmtree :: "path \<Rightarrow> 'c files \<Rightarrow> 'c files" where
  "fs_rmtree p fs = filter (\<lambda>(q, n). \<not> prefix p q) fs"

section \<open>Lemmas\<close>

lemma fs_children_iff:
  "n \<in> set (fs_children fs p) \<longleftrightarrow> dict_get fs (p @ [n]) \<noteq> None"
proof -
  have "n \<in> set (fs_children fs p) \<longleftrightarrow> (\<exists>q \<in> set (dict_keys fs). q = p @ [n])"
    by (auto simp: fs_children_def intro!: rev_image_eqI [where x = "p @ [n]"])
  then show ?thesis by (simp add: py_dict.keys_get)
qed

lemma dict_get_rmtree: "dict_get (fs_rmtree p fs) q = (if prefix p q then None else dict_get fs q)"
  by (induction fs) (auto simp: fs_rmtree_def dict_get_def)

lemma moved_inj:
  assumes "\<not> prefix dst p" and "\<not> prefix dst q" and "moved src dst p = moved src dst q"
  shows "p = q"
  using assms by (auto simp: moved_def prefix_def split: if_splits)

text \<open>Nothing exists at or below the target: the lookup in the moved tree.\<close>

definition fs_clear :: "path \<Rightarrow> 'c files \<Rightarrow> bool" where
  "fs_clear p fs \<longleftrightarrow> (\<forall>q \<in> set (dict_keys fs). \<not> prefix p q)"

lemma dict_get_moved:
  assumes "fs_clear dst fs" and "\<not> prefix src dst" and "\<not> prefix dst src"
  shows "dict_get (map (\<lambda>(p, n). (moved src dst p, n)) fs) q =
    (if prefix dst q then dict_get fs (src @ drop (length dst) q)
     else if prefix src q then None else dict_get fs q)"
  using assms(1)
proof (induction fs)
  case (Cons e fs)
  obtain p n where e: "e = (p, n)" by fastforce
  have clear: "\<not> prefix dst p" and rest: "fs_clear dst fs"
    using Cons.prems e by (auto simp: fs_clear_def dict_keys_def)
  have key: "moved src dst p = q \<longleftrightarrow>
      (if prefix dst q then p = src @ drop (length dst) q else if prefix src q then False else p = q)"
    using clear assms(2,3) by (auto simp: moved_def prefix_def append_eq_append_conv2)
  have "dict_get (map (\<lambda>(p, n). (moved src dst p, n)) (e # fs)) q =
      (if moved src dst p = q then Some n else dict_get (map (\<lambda>(p, n). (moved src dst p, n)) fs) q)"
    using e by (simp add: dict_get_def)
  also have "\<dots> = (if prefix dst q then dict_get (e # fs) (src @ drop (length dst) q)
     else if prefix src q then None else dict_get (e # fs) q)"
    unfolding Cons.IH [OF rest] key using e by (auto simp: dict_get_def)
  finally show ?case .
qed simp

lemma dict_get_move:
  assumes "fs_move src dst fs = Inr fs'" and "fs_clear dst fs" and "\<not> prefix src dst" and "\<not> prefix dst src"
  shows "dict_get fs' q =
    (if prefix dst q then dict_get fs (src @ drop (length dst) q)
     else if prefix src q then None else dict_get fs q)"
  using assms(1) dict_get_moved [OF assms(2-4)] by (auto simp: fs_move_def split: if_splits)

text \<open>A tree has every directory on the way to a path.\<close>

definition fs_ok :: "'c files \<Rightarrow> bool" where
  "fs_ok fs \<longleftrightarrow> (\<forall>q p. dict_has fs q \<longrightarrow> prefix p q \<longrightarrow> fs_exists fs p)"

lemma fs_ok_clear: "fs_ok fs \<Longrightarrow> \<not> fs_exists fs p \<Longrightarrow> fs_clear p fs"
  unfolding fs_clear_def by (auto simp: py_dict.keys_get fs_ok_def dict_has_def)

lemma fs_makedirs_get:
  "dict_get (fs_makedirs p fs) q =
     (if q \<noteq> [] \<and> prefix q p \<and> dict_get fs q = None then Some Dir else dict_get fs q)"
proof -
  have step: "dict_get (fold (\<lambda>n fs. if fs_exists fs (take n p) then fs else dict_set (take n p) Dir fs) ns fs) q =
      (if (\<exists>n \<in> set ns. q = take n p) \<and> q \<noteq> [] \<and> dict_get fs q = None then Some Dir else dict_get fs q)" for ns
    by (induction ns arbitrary: fs) (auto simp: fs_exists_def dict_has_def)
  have "(\<exists>n \<in> set [1..<Suc (length p)]. q = take n p) \<and> q \<noteq> [] \<longleftrightarrow> q \<noteq> [] \<and> prefix q p"
  proof
    assume "(\<exists>n \<in> set [1..<Suc (length p)]. q = take n p) \<and> q \<noteq> []"
    then show "q \<noteq> [] \<and> prefix q p" using take_is_prefix by blast
  next
    assume q: "q \<noteq> [] \<and> prefix q p"
    then have "q = take (length q) p" "length q \<le> length p" by (auto simp: prefix_def)
    then show "(\<exists>n \<in> set [1..<Suc (length p)]. q = take n p) \<and> q \<noteq> []"
      using q by (intro conjI bexI [of _ "length q"]) (auto simp: Suc_le_eq)
  qed
  then show ?thesis unfolding fs_makedirs_def step by auto
qed

lemma fs_makedirs_ok: "fs_ok fs \<Longrightarrow> fs_ok (fs_makedirs p fs)"
  unfolding fs_ok_def fs_exists_def dict_has_def fs_makedirs_get
  by (auto split: if_splits dest: prefix_order.trans)

lemma fs_read_move:
  assumes "fs_move src dst fs = Inr fs'" and "fs_clear dst fs" and "\<not> prefix src dst" and "\<not> prefix dst src"
  shows "fs_read fs' (dst @ rest) = fs_read fs (src @ rest)"
    and "\<not> prefix dst q \<Longrightarrow> \<not> prefix src q \<Longrightarrow> fs_read fs' q = fs_read fs q"
  unfolding fs_read_def dict_get_move [OF assms] by auto

lemma fs_read_makedirs [simp]: "fs_read (fs_makedirs p fs) q = fs_read fs q"
  by (simp add: fs_read_def fs_makedirs_get)

text \<open>A move does not change what is neither below its source nor below its target.\<close>

lemma dict_get_move_other:
  assumes "fs_move src dst fs = Inr fs'" and "\<not> prefix dst q" and "\<not> prefix src q"
  shows "dict_get fs' q = dict_get fs q"
proof -
  have "dict_get (map (\<lambda>(p, n). (moved src dst p, n)) fs) q = dict_get fs q"
    using assms(2,3) by (induction fs) (auto simp: dict_get_def moved_def)
  then show ?thesis using assms(1) by (auto simp: fs_move_def split: if_splits)
qed

end
