(* ===== verification/Skill_Registry.thy ===== *)
theory Skill_Registry
  imports Skill_Security Py_Files
begin

text \<open>
  \<^verbatim>\<open>agents/skill_registry_lifecycle.py\<close> and the loading and statistics of
  \<^verbatim>\<open>agents/skill_registry.py\<close>: the tiered index of skills over a file tree whose root is the skills
  directory. The index in memory is the one on disk (every change is saved before the operation
  returns); the embedding cache, a pure accelerator, is left out. An operation takes the
  environment (clock, digest, searches) and returns its result or exception with the new world:
  what happened before an exception stays.
\<close>

section \<open>State\<close>

datatype skill_tier = Official | Local | Temp

definition tier_of :: "string \<Rightarrow> skill_tier option" where
  "tier_of s = (if s = ''official'' then Some Official else if s = ''local'' then Some Local
     else if s = ''temp'' then Some Temp else None)"

fun tier_name :: "skill_tier \<Rightarrow> string" where
  "tier_name Official = ''official''"
| "tier_name Local = ''local''"
| "tier_name Temp = ''temp''"

definition tier_dir :: "skill_tier \<Rightarrow> path" where
  "tier_dir t = [tier_name t]"

text \<open>Where a downloaded skill came from.\<close>

record skill_origin =
  so_source :: string
  so_source_name :: string
  so_trust_level :: string

record skill_entry =
  sk_description :: string
  sk_task_types :: "string list"
  sk_path :: path
  sk_usage_count :: int
  sk_scores :: "int list option"
  sk_avg_score :: real
  sk_created_at :: string
  sk_last_used :: "string option"
  sk_synced_at :: "string option"
  sk_tier :: "skill_tier option"
  sk_promoted_at :: "string option"
  sk_origin :: "skill_origin option"
  sk_frontmatter_types :: bool

text \<open>A skill of the project that is worked on, kept in memory.\<close>

record workspace_skill =
  wk_description :: string
  wk_task_types :: "string list"
  wk_content :: string
  wk_path :: path

record skill_metadata =
  md_name :: string
  md_description :: string
  md_tier :: skill_tier
  md_path :: path
  md_task_types :: "string list"
  md_usage_count :: int
  md_scores :: "int list"
  md_avg_score :: real
  md_created_at :: string
  md_last_used :: string
  md_promoted_at :: "string option"

text \<open>A file holds its decoded bytes; \<^verbatim>\<open>metadata.json\<close> is the metadata it encodes.\<close>

datatype skill_file = Text string | Meta skill_metadata

record skill_world =
  w_files :: "skill_file files"
  w_index :: "skill_tier \<Rightarrow> (string, skill_entry) py_dict"
  w_security :: skill_security
  w_workspace :: "(string, workspace_skill) py_dict"

record skill_env =
  en_now :: string
  en_digest :: "string \<Rightarrow> string"
  en_search :: "string \<Rightarrow> string \<Rightarrow> bool"
  en_parse :: "string \<Rightarrow> py_node list option"
  en_utf8 :: "string \<Rightarrow> nat list"
  en_age_days :: "string \<Rightarrow> int option"
  en_min_usage :: int
  en_min_avg_score :: int
  en_temp_ttl_days :: int
  en_official_ttl_days :: int

definition SKILL_MD :: string where
  "SKILL_MD = ''SKILL.md''"

definition METADATA :: string where
  "METADATA = ''metadata.json''"

text \<open>\<open>open(..., 'r')\<close> and \<open>read_text\<close>: reading in text mode turns every kind of line end into a newline. Writing in text mode
  changes nothing on a POSIX system.\<close>

fun text_of :: "skill_file \<Rightarrow> string" where
  "text_of (Text s) = universal_newlines s"
| "text_of (Meta _) = []"

definition set_index ::
    "skill_tier \<Rightarrow> (string, skill_entry) py_dict \<Rightarrow> skill_world \<Rightarrow> skill_world" where
  "set_index t d w = w\<lparr>w_index := (w_index w)(t := d)\<rparr>"

definition skills_in :: "skill_world \<Rightarrow> skill_tier \<Rightarrow> (string, skill_entry) py_dict" where
  "skills_in w t = w_index w t"

text \<open>The first tier that lists a name, in the order official, local, temp.\<close>

definition find_tier :: "skill_world \<Rightarrow> string \<Rightarrow> skill_tier option" where
  "find_tier w name =
     (if dict_has (skills_in w Official) name then Some Official
      else if dict_has (skills_in w Local) name then Some Local
      else if dict_has (skills_in w Temp) name then Some Temp
      else None)"

section \<open>Registration\<close>

definition scripts_below :: "skill_file files \<Rightarrow> path \<Rightarrow> (string \<times> string) list" where
  "scripts_below fs p =
     map (\<lambda>(q, n). (join_with ''/'' (drop (length p) q), case n of File c \<Rightarrow> text_of c | Dir \<Rightarrow> []))
       (filter (\<lambda>(q, n). strict_prefix p q \<and> suffix ''.py'' (last q) \<and> n \<noteq> Dir) fs)"

definition new_metadata ::
    "skill_env \<Rightarrow> string \<Rightarrow> string \<Rightarrow> skill_tier \<Rightarrow> string list \<Rightarrow> path \<Rightarrow> skill_metadata" where
  "new_metadata env name description tier task_types skill_path =
     \<lparr>md_name = name, md_description = description, md_tier = tier, md_path = skill_path,
      md_task_types = task_types, md_usage_count = 0, md_scores = [], md_avg_score = 0,
      md_created_at = en_now env, md_last_used = en_now env, md_promoted_at = None\<rparr>"

definition new_entry_for :: "skill_metadata \<Rightarrow> skill_entry" where
  "new_entry_for m =
     \<lparr>sk_description = md_description m, sk_task_types = md_task_types m, sk_path = md_path m,
      sk_usage_count = 0, sk_scores = None, sk_avg_score = 0, sk_created_at = md_created_at m,
      sk_last_used = None, sk_synced_at = None, sk_tier = None, sk_promoted_at = None, sk_origin = None, sk_frontmatter_types = False\<rparr>"

text \<open>Everything that can reject a skill, in order; the content it read otherwise.\<close>

definition check_registration ::
    "skill_env \<Rightarrow> string \<Rightarrow> skill_tier \<Rightarrow> path \<Rightarrow> skill_world \<Rightarrow> py_exn + string" where
  "check_registration env name tier skill_path w =
     res_bind (validate_skill_name name) (\<lambda>_.
     res_bind (validate_skill_path skill_path (tier_dir tier)) (\<lambda>_.
       case fs_read (w_files w) (skill_path @ [SKILL_MD]) of
         None \<Rightarrow> Inl (ValueError ''SKILL.md not found. Cannot register skill without SKILL.md file.'')
       | Some f \<Rightarrow>
           let content = text_of f in
           res_bind (validate_skill_content (en_search env) (en_utf8 env) content) (\<lambda>_.
             let findings = scan_bundled_scripts (en_search env) (en_parse env)
                   (scripts_below (w_files w) skill_path)
             in if \<exists>x \<in> set findings. sf_severity x = ''critical''
                then Inl (security_error ''critical security violation(s) in bundled scripts. Skill rejected.'')
                else Inr content)))"

definition write_metadata :: "path \<Rightarrow> skill_metadata \<Rightarrow> skill_world \<Rightarrow> (py_exn + unit) \<times> skill_world" where
  "write_metadata p m w =
     (case fs_write (p @ [METADATA]) (Meta m) (w_files w) of
        Inl e \<Rightarrow> (Inl e, w)
      | Inr fs \<Rightarrow> (Inr (), w\<lparr>w_files := fs\<rparr>))"

definition register_skill ::
    "skill_env \<Rightarrow> string \<Rightarrow> string \<Rightarrow> string \<Rightarrow> string list \<Rightarrow> path \<Rightarrow> skill_world
      \<Rightarrow> (py_exn + skill_metadata) \<times> skill_world" where
  "register_skill env name description tier_str task_types skill_path w =
     (case tier_of tier_str of
        None \<Rightarrow> (Inl (ValueError (''Invalid tier: '' @ tier_str)), w)
      | Some tier \<Rightarrow>
          (case check_registration env name tier skill_path w of
             Inl e \<Rightarrow> (Inl e, w)
           | Inr content \<Rightarrow>
               let m = new_metadata env name description tier task_types skill_path;
                   w1 = w\<lparr>w_security := store_integrity_hash (en_digest env) name content (w_security w)\<rparr>;
                   w2 = set_index tier (dict_set name (new_entry_for m) (skills_in w1 tier)) w1
               in if tier = Local \<or> tier = Temp
                  then (case write_metadata skill_path m w2 of
                          (Inl e, w3) \<Rightarrow> (Inl e, w3)
                        | (Inr _, w3) \<Rightarrow> (Inr m, w3))
                  else (Inr m, w2)))"

definition unregister_skill :: "string \<Rightarrow> skill_world \<Rightarrow> skill_world" where
  "unregister_skill name w =
     (case find_tier w name of
        None \<Rightarrow> w
      | Some t \<Rightarrow>
          (let w1 = set_index t (dict_del name (skills_in w t)) w
           in w1\<lparr>w_security := snd (remove_integrity_hash name (w_security w1))\<rparr>))"

section \<open>Loading\<close>

definition load_skill :: "skill_env \<Rightarrow> string \<Rightarrow> skill_world \<Rightarrow> string option \<times> skill_world" where
  "load_skill env name w =
     (case dict_get (w_workspace w) name of
        Some k \<Rightarrow> (Some (wk_content k), w)
      | None \<Rightarrow>
          (case find_tier w name of
             None \<Rightarrow> (None, w)
           | Some t \<Rightarrow>
               (case dict_get (skills_in w t) name of
                  None \<Rightarrow> (None, w)
                | Some d \<Rightarrow>
                    (case fs_read (w_files w) (sk_path d @ [SKILL_MD]) of
                       None \<Rightarrow> (None, w)
                     | Some f \<Rightarrow>
                         (let (ok, s) = verify_integrity (en_digest env) name (text_of f) (w_security w)
                          in (if ok then Some (text_of f) else None, w\<lparr>w_security := s\<rparr>))))))"

section \<open>Usage and promotion\<close>

definition promoted_metadata :: "skill_env \<Rightarrow> path \<Rightarrow> skill_metadata \<Rightarrow> skill_metadata" where
  "promoted_metadata env dest m =
     m\<lparr>md_tier := Local, md_path := dest, md_promoted_at := Some (en_now env)\<rparr>"

text \<open>The move and the index update of a promotion, once nothing speaks against it.\<close>

definition move_to_local :: "skill_env \<Rightarrow> string \<Rightarrow> skill_entry \<Rightarrow> skill_world \<Rightarrow> (py_exn + unit) \<times> skill_world" where
  "move_to_local env name d w =
     (let source = tier_dir Temp @ [name]; dest = tier_dir Local @ [name] in
      case fs_move source dest (w_files w) of
        Inl e \<Rightarrow> (Inl e, w)
      | Inr fs \<Rightarrow>
          let w1 = set_index Temp (dict_del name (skills_in w Temp)) (w\<lparr>w_files := fs\<rparr>);
              d1 = d\<lparr>sk_tier := Some Local, sk_path := dest, sk_promoted_at := Some (en_now env)\<rparr>;
              w2 = set_index Local (dict_set name d1 (skills_in w1 Local)) w1
          in (case fs_read fs (dest @ [METADATA]) of
                Some (Meta m) \<Rightarrow> write_metadata dest (promoted_metadata env dest m) w2
              | _ \<Rightarrow> (Inr (), w2)))"

definition promote_skill :: "skill_env \<Rightarrow> string \<Rightarrow> skill_world \<Rightarrow> (py_exn + unit) \<times> skill_world" where
  "promote_skill env name w =
     (case dict_get (skills_in w Temp) name of
        None \<Rightarrow> (Inr (), w)
      | Some d \<Rightarrow>
          (let source = tier_dir Temp @ [name]; dest = tier_dir Local @ [name] in
           if \<not> fs_exists (w_files w) source then
             (Inr (), set_index Temp (dict_del name (skills_in w Temp)) w)
           else
             (let (ok, s) =
                (case fs_read (w_files w) (source @ [SKILL_MD]) of
                   None \<Rightarrow> (True, w_security w)
                 | Some f \<Rightarrow> verify_integrity (en_digest env) name (text_of f) (w_security w));
                  w1 = w\<lparr>w_security := s\<rparr>
              in if \<not> ok then (Inr (), w1)
                 else if fs_exists (w_files w) dest then (Inr (), w1)
                 else move_to_local env name d w1)))"

definition mean :: "int list \<Rightarrow> real" where
  "mean xs = real_of_int (sum_list xs) / real (length xs)"

definition used_entry :: "skill_env \<Rightarrow> int \<Rightarrow> skill_entry \<Rightarrow> skill_entry" where
  "used_entry env score d =
     (let scores = (case sk_scores d of None \<Rightarrow> [] | Some xs \<Rightarrow> xs) @ [score] in
      d\<lparr>sk_usage_count := sk_usage_count d + 1, sk_scores := Some scores,
        sk_avg_score := mean scores, sk_last_used := Some (en_now env)\<rparr>)"

definition track_metadata :: "skill_env \<Rightarrow> skill_entry \<Rightarrow> skill_world \<Rightarrow> (py_exn + unit) \<times> skill_world" where
  "track_metadata env d w =
     (case fs_read (w_files w) (sk_path d @ [METADATA]) of
        Some (Meta m) \<Rightarrow>
          write_metadata (sk_path d)
            (m\<lparr>md_usage_count := sk_usage_count d,
               md_scores := (case sk_scores d of None \<Rightarrow> [] | Some xs \<Rightarrow> xs),
               md_avg_score := sk_avg_score d, md_last_used := en_now env\<rparr>) w
      | _ \<Rightarrow> (Inr (), w))"

definition track_usage :: "skill_env \<Rightarrow> string \<Rightarrow> int \<Rightarrow> skill_world \<Rightarrow> (py_exn + unit) \<times> skill_world" where
  "track_usage env name score w =
     (case find_tier w name of
        None \<Rightarrow> (Inr (), w)
      | Some t \<Rightarrow>
          (case dict_get (skills_in w t) name of
             None \<Rightarrow> (Inr (), w)
           | Some d0 \<Rightarrow>
               let d = used_entry env score d0;
                   w1 = set_index t (dict_set name d (skills_in w t)) w;
                   (r, w2) = (if t = Local \<or> t = Temp then track_metadata env d w1 else (Inr (), w1))
               in case r of
                    Inl e \<Rightarrow> (Inl e, w2)
                  | Inr _ \<Rightarrow>
                      if t = Temp \<and> sk_usage_count d \<ge> en_min_usage env
                         \<and> sk_avg_score d \<ge> real_of_int (en_min_avg_score env)
                      then (let ((approved, reason), s) =
                                gate_promotion (en_now env) name (sk_usage_count d) (sk_avg_score d) (w_security w2);
                                w3 = w2\<lparr>w_security := s\<rparr>
                            in if approved then promote_skill env name w3 else (Inr (), w3))
                      else (Inr (), w2)))"

definition approve_promotion :: "skill_env \<Rightarrow> string \<Rightarrow> skill_world \<Rightarrow> (py_exn + bool) \<times> skill_world" where
  "approve_promotion env name w =
     (let (was_pending, s) = approve_pending name (w_security w); w1 = w\<lparr>w_security := s\<rparr> in
      if was_pending then
        (case promote_skill env name w1 of
           (Inl e, w2) \<Rightarrow> (Inl e, w2)
         | (Inr _, w2) \<Rightarrow> (Inr True, w2))
      else (Inr False, w1))"

section \<open>Eviction\<close>

text \<open>\<open>en_age_days\<close>: the whole days since a timestamp, \<open>None\<close> when it does not parse. An empty
  string counts as absent.\<close>

definition last_activity :: "skill_entry \<Rightarrow> string" where
  "last_activity d =
     (case sk_last_used d of
        Some (c # cs) \<Rightarrow> c # cs
      | _ \<Rightarrow> (case sk_synced_at d of Some (c # cs) \<Rightarrow> c # cs | _ \<Rightarrow> sk_created_at d))"

definition stale :: "skill_env \<Rightarrow> int \<Rightarrow> skill_entry \<Rightarrow> bool" where
  "stale env ttl_days d \<longleftrightarrow>
     last_activity d = []
     \<or> (case en_age_days env (last_activity d) of None \<Rightarrow> True | Some age \<Rightarrow> age > ttl_days)"

definition evict_one :: "skill_tier \<Rightarrow> string \<Rightarrow> skill_world \<Rightarrow> skill_world" where
  "evict_one t name w =
     (let w1 = w\<lparr>w_files := fs_rmtree (tier_dir t @ [name]) (w_files w)\<rparr>;
          w2 = set_index t (dict_del name (skills_in w1 t)) w1
      in w2\<lparr>w_security := snd (remove_integrity_hash name (w_security w2))\<rparr>)"

definition stale_names :: "skill_env \<Rightarrow> skill_tier \<Rightarrow> int \<Rightarrow> skill_world \<Rightarrow> string list" where
  "stale_names env t ttl_days w = map fst (filter (\<lambda>(n, d). stale env ttl_days d) (skills_in w t))"

definition evict_stale_from_tier :: "skill_env \<Rightarrow> skill_tier \<Rightarrow> int \<Rightarrow> skill_world \<Rightarrow> int \<times> skill_world" where
  "evict_stale_from_tier env t ttl_days w =
     (let names = stale_names env t ttl_days w
      in (int (length names), fold (evict_one t) names w))"

definition orphans :: "skill_tier \<Rightarrow> skill_world \<Rightarrow> string list" where
  "orphans t w = filter (\<lambda>n. fs_is_dir (w_files w) (tier_dir t @ [n]) \<and> \<not> dict_has (skills_in w t) n)
     (fs_children (w_files w) (tier_dir t))"

definition sweep_orphaned_dirs :: "skill_tier \<Rightarrow> skill_world \<Rightarrow> int \<times> skill_world" where
  "sweep_orphaned_dirs t w =
     (if \<not> fs_exists (w_files w) (tier_dir t) then (0, w)
      else (int (length (orphans t w)),
        w\<lparr>w_files := fold (\<lambda>n. fs_rmtree (tier_dir t @ [n])) (orphans t w) (w_files w)\<rparr>))"

definition cleanup_temp :: "skill_env \<Rightarrow> skill_world \<Rightarrow> skill_world" where
  "cleanup_temp env w =
     (let w1 = snd (evict_stale_from_tier env Temp (en_temp_ttl_days env) w);
          w2 = snd (evict_stale_from_tier env Official (en_official_ttl_days env) w1)
      in snd (sweep_orphaned_dirs Temp w2))"

definition clear_workspace :: "skill_world \<Rightarrow> skill_world" where
  "clear_workspace w = w\<lparr>w_workspace := []\<rparr>"

section \<open>Statistics\<close>

record tier_stats =
  tt_count :: int
  tt_total_usage :: int
  tt_avg_score :: real

definition tier_stats_of :: "(string, skill_entry) py_dict \<Rightarrow> tier_stats" where
  "tier_stats_of d =
     (let avgs = filter (\<lambda>a. a > 0) (map (sk_avg_score \<circ> snd) d) in
      \<lparr>tt_count = int (length d), tt_total_usage = sum_list (map (sk_usage_count \<circ> snd) d),
       tt_avg_score = (if avgs = [] then 0 else sum_list avgs / real (length avgs))\<rparr>)"

definition get_stats :: "skill_world \<Rightarrow> int \<times> (skill_tier \<Rightarrow> tier_stats) \<times> tier_stats" where
  "get_stats w =
     (let ws = \<lparr>tt_count = int (length (w_workspace w)), tt_total_usage = 0, tt_avg_score = 0\<rparr>
      in (tt_count ws + sum_list (map (\<lambda>t. int (length (skills_in w t))) [Official, Local, Temp]),
          \<lambda>t. tier_stats_of (skills_in w t), ws))"

section \<open>Histories\<close>

text \<open>What may happen to the registry after a skill was registered: the files change in whatever way, skills are loaded, used,
  approved for promotion, cleaned up, unregistered and registered; each operation in an environment of its own time.\<close>

datatype registry_event =
    Files_Become "skill_file files"
  | Loaded skill_env string
  | Used skill_env string int
  | Approved skill_env string
  | Cleaned skill_env
  | Unregistered string
  | Registered skill_env string string string "string list" path

fun registry_step :: "registry_event \<Rightarrow> skill_world \<Rightarrow> skill_world" where
  "registry_step (Files_Become fs) w = w\<lparr>w_files := fs\<rparr>"
| "registry_step (Loaded env n) w = snd (load_skill env n w)"
| "registry_step (Used env n score) w = snd (track_usage env n score w)"
| "registry_step (Approved env n) w = snd (approve_promotion env n w)"
| "registry_step (Cleaned env) w = cleanup_temp env w"
| "registry_step (Unregistered n) w = unregister_skill n w"
| "registry_step (Registered env n description tier task_types p) w =
     snd (register_skill env n description tier task_types p w)"

fun registers :: "string \<Rightarrow> registry_event \<Rightarrow> bool" where
  "registers name (Registered env n description tier task_types p) \<longleftrightarrow> n = name"
| "registers name _ \<longleftrightarrow> False"

section \<open>Lemmas\<close>

lemma skills_in_set_index [simp]:
  "skills_in (set_index t d w) t' = (if t' = t then d else skills_in w t')"
  "w_files (set_index t d w) = w_files w" "w_security (set_index t d w) = w_security w"
  "w_workspace (set_index t d w) = w_workspace w"
  by (simp_all add: skills_in_def set_index_def)

lemma skills_in_updates [simp]:
  "skills_in (w\<lparr>w_files := fs\<rparr>) t = skills_in w t"
  "skills_in (w\<lparr>w_security := s\<rparr>) t = skills_in w t"
  "skills_in (w\<lparr>w_workspace := ws\<rparr>) t = skills_in w t"
  by (simp_all add: skills_in_def)

lemma tier_name_inject [simp]: "tier_name t = tier_name t' \<longleftrightarrow> t = t'"
  by (cases t; cases t') auto

lemma dict_has_set [simp]: "dict_has (dict_set k v d) k' \<longleftrightarrow> k' = k \<or> dict_has d k'"
  by (auto simp: dict_has_def)

lemma dict_has_del [simp]: "dict_has (dict_del k d) k' \<longleftrightarrow> k' \<noteq> k \<and> dict_has d k'"
  by (auto simp: dict_has_def)

lemma write_metadata_index [simp]: "skills_in (snd (write_metadata p m w)) t = skills_in w t"
  by (simp add: write_metadata_def split: sum.splits)

lemma track_metadata_index [simp]: "skills_in (snd (track_metadata env d w)) t = skills_in w t"
  by (simp add: track_metadata_def split: option.splits node.splits skill_file.splits)

lemma write_metadata_security [simp]: "w_security (snd (write_metadata p m w)) = w_security w"
  by (simp add: write_metadata_def split: sum.splits)

lemma track_metadata_security [simp]: "w_security (snd (track_metadata env d w)) = w_security w"
  by (simp add: track_metadata_def split: option.splits node.splits skill_file.splits)

text \<open>Eviction.\<close>

lemma evict_one_index [simp]:
  "skills_in (evict_one t n w) t' = (if t' = t then dict_del n (skills_in w t) else skills_in w t')"
  by (simp add: evict_one_def Let_def)

lemma evict_one_files: "w_files (evict_one t n w) = fs_rmtree (tier_dir t @ [n]) (w_files w)"
  by (simp add: evict_one_def Let_def)

lemma fold_evict_index:
  "dict_has (skills_in (fold (evict_one t) names w) t') n \<longleftrightarrow>
     dict_has (skills_in w t') n \<and> \<not> (t' = t \<and> n \<in> set names)"
  by (induction names arbitrary: w) auto

lemma fold_evict_other_tier:
  "t' \<noteq> t \<Longrightarrow> skills_in (fold (evict_one t) names w) t' = skills_in w t'"
  by (induction names arbitrary: w) auto

lemma fold_evict_get:
  "t' \<noteq> t \<or> n \<notin> set names \<Longrightarrow>
    dict_get (skills_in (fold (evict_one t) names w) t') n = dict_get (skills_in w t') n"
  by (induction names arbitrary: w) auto

lemma fold_evict_files:
  "dict_get (w_files (fold (evict_one t) names w)) p =
     (if \<exists>n \<in> set names. prefix (tier_dir t @ [n]) p then None else dict_get (w_files w) p)"
  by (induction names arbitrary: w) (auto simp: evict_one_files dict_get_rmtree)

lemma fold_evict_gone:
  "n \<in> set names \<Longrightarrow> dict_get (skills_in (fold (evict_one t) names w) t) n = None"
  using fold_evict_index [of t names w t n] by (simp add: dict_has_def)

lemma fold_rmtree_get:
  "dict_get (fold (\<lambda>n. fs_rmtree (d @ [n])) names fs) p =
     (if \<exists>n \<in> set names. prefix (d @ [n]) p then None else dict_get fs p)"
  by (induction names arbitrary: fs) (auto simp: dict_get_rmtree)

lemma stale_names_iff:
  assumes "dict_ok (skills_in w t)"
  shows "n \<in> set (stale_names env t ttl w) \<longleftrightarrow> (\<exists>d. dict_get (skills_in w t) n = Some d \<and> stale env ttl d)"
  using assms by (force simp: stale_names_def dict_get_def dict_ok_def)

lemma promote_skill_local:
  assumes "dict_has (skills_in (snd (promote_skill env name w)) Local) name"
    and "\<not> dict_has (skills_in w Local) name"
  shows "\<exists>d. dict_get (skills_in w Temp) name = Some d
    \<and> (\<forall>f. fs_read (w_files w) (tier_dir Temp @ [name] @ [SKILL_MD]) = Some f \<longrightarrow>
        fst (verify_integrity (en_digest env) name (text_of f) (w_security w)))"
  using assms
  by (auto simp: promote_skill_def Let_def split: option.splits if_splits prod.splits)

lemma promote_skill_other_tiers:
  "t \<noteq> Temp \<Longrightarrow> t \<noteq> Local \<or> n \<noteq> name \<Longrightarrow>
    dict_get (skills_in (snd (promote_skill env name w)) t) n = dict_get (skills_in w t) n"
  by (auto simp: promote_skill_def move_to_local_def Let_def split: option.splits if_splits prod.splits
      sum.splits node.splits skill_file.splits)

text \<open>Tracking writes no \<^verbatim>\<open>SKILL.md\<close>.\<close>

lemma metadata_is_not_skill_md: "METADATA \<noteq> SKILL_MD" "SKILL_MD \<noteq> METADATA"
  by (simp_all add: METADATA_def SKILL_MD_def)

lemma fs_read_write_other:
  "fs_write p c fs = Inr fs' \<Longrightarrow> q \<noteq> p \<Longrightarrow> fs_read fs' q = fs_read fs q"
  by (auto simp: fs_write_def fs_read_def split: if_splits)

lemma track_metadata_skill_md:
  "fs_read (w_files (snd (track_metadata env d w))) (q @ [SKILL_MD]) = fs_read (w_files w) (q @ [SKILL_MD])"
  using metadata_is_not_skill_md
  by (auto simp: track_metadata_def write_metadata_def fs_read_write_other split: option.splits node.splits
      skill_file.splits sum.splits)

lemma gate_promotion_approves:
  "fst (fst (gate_promotion now n u a s)) \<longleftrightarrow> \<not> ss_require_approval s"
  "\<not> ss_require_approval s \<Longrightarrow> snd (gate_promotion now n u a s) = s"
  by (auto simp: gate_promotion_def)

section \<open>Properties\<close>

text \<open>Usage tracking moves a skill into the permanent local tier only if it was a temp skill used
  often enough with a high enough average, approval is not required and its content still has the
  digest recorded for it.\<close>

theorem auto_promotion_needs_evidence:
  assumes "track_usage env name score w = (r, w')"
    and "\<not> dict_has (skills_in w Local) name" and "dict_has (skills_in w' Local) name"
  shows "\<exists>d. dict_get (skills_in w Temp) name = Some d
    \<and> en_min_usage env \<le> sk_usage_count d + 1
    \<and> real_of_int (en_min_avg_score env) \<le> mean ((case sk_scores d of None \<Rightarrow> [] | Some xs \<Rightarrow> xs) @ [score])
    \<and> \<not> ss_require_approval (w_security w)
    \<and> (\<forall>f. fs_read (w_files w) (tier_dir Temp @ [name, SKILL_MD]) = Some f \<longrightarrow>
        fst (verify_integrity (en_digest env) name (text_of f) (w_security w)))"
proof -
  obtain t where t: "find_tier w name = Some t"
    using assms by (cases "find_tier w name") (auto simp: track_usage_def)
  obtain d0 where d0: "dict_get (skills_in w t) name = Some d0"
    using assms t by (cases "dict_get (skills_in w t) name") (auto simp: track_usage_def)
  let ?d = "used_entry env score d0"
  let ?w1 = "set_index t (dict_set name ?d (skills_in w t)) w"
  define m where "m = (if t = Local \<or> t = Temp then track_metadata env ?d ?w1 else (Inr (), ?w1))"
  obtain r2 w2 where m2: "m = (r2, w2)" by fastforce
  have w2: "skills_in w2 u = skills_in ?w1 u" "w_security w2 = w_security w"
    "fs_read (w_files w2) (q @ [SKILL_MD]) = fs_read (w_files w) (q @ [SKILL_MD])" for u q
    using arg_cong [OF m2, of snd] track_metadata_skill_md [of env ?d ?w1]
    by (auto simp: m_def split: if_splits)
  have "t \<noteq> Local" using assms(2) d0 by (auto simp: dict_has_def)
  then have l2: "\<not> dict_has (skills_in w2 Local) name" using assms(2) w2 by simp
  define cond where "cond \<longleftrightarrow> t = Temp \<and> sk_usage_count ?d \<ge> en_min_usage env
      \<and> sk_avg_score ?d \<ge> real_of_int (en_min_avg_score env)"
  have run: "track_usage env name score w = (case r2 of Inl e \<Rightarrow> (Inl e, w2) | Inr _ \<Rightarrow>
      if cond then (let ((approved, reason), s) =
            gate_promotion (en_now env) name (sk_usage_count ?d) (sk_avg_score ?d) (w_security w2);
            w3 = w2\<lparr>w_security := s\<rparr> in if approved then promote_skill env name w3 else (Inr (), w3))
      else (Inr (), w2))"
    using t d0 m2 unfolding m_def cond_def by (simp add: track_usage_def Let_def)
  obtain approved reason s where g: "gate_promotion (en_now env) name (sk_usage_count ?d) (sk_avg_score ?d) (w_security w2)
      = ((approved, reason), s)" by (metis surj_pair)
  have w': "w' = snd (track_usage env name score w)" using assms(1) by simp
  have c: "cond" and a: "approved"
    and p: "dict_has (skills_in (snd (promote_skill env name (w2\<lparr>w_security := s\<rparr>))) Local) name"
    using assms(3) l2 g unfolding w' run by (auto simp: Let_def split: sum.splits if_splits)
  have req: "\<not> ss_require_approval (w_security w)" and s: "s = w_security w"
    using g a w2 by (auto simp: gate_promotion_def split: if_splits)
  from promote_skill_local [OF p] l2 have
    "\<forall>f. fs_read (w_files w2) ((tier_dir Temp @ [name]) @ [SKILL_MD]) = Some f \<longrightarrow>
       fst (verify_integrity (en_digest env) name (text_of f) (w_security w))"
    using s by auto
  then have "\<forall>f. fs_read (w_files w) (tier_dir Temp @ [name, SKILL_MD]) = Some f \<longrightarrow>
       fst (verify_integrity (en_digest env) name (text_of f) (w_security w))"
    unfolding w2(3) by simp
  then show ?thesis
    using c d0 req by (auto simp: cond_def used_entry_def Let_def)
qed

text \<open>Neither tier's eviction removes the temp directory itself, so the sweep runs.\<close>

lemma cleanup_no_orphans:
  assumes "fs_is_dir (w_files w) (tier_dir Temp)"
    and d: "fs_is_dir (w_files (cleanup_temp env w)) (tier_dir Temp @ [n])"
  shows "dict_has (skills_in (cleanup_temp env w) Temp) n"
proof (rule ccontr)
  define w1 where "w1 = fold (evict_one Temp) (stale_names env Temp (en_temp_ttl_days env) w) w"
  define w2 where "w2 = fold (evict_one Official) (stale_names env Official (en_official_ttl_days env) w1) w1"
  have ex: "fs_exists (w_files w2) (tier_dir Temp)"
    using assms(1)
    by (auto simp: fs_exists_def fs_is_dir_def dict_has_def w2_def w1_def fold_evict_files tier_dir_def prefix_def)
  have c: "cleanup_temp env w = snd (sweep_orphaned_dirs Temp w2)"
    by (simp add: cleanup_temp_def evict_stale_from_tier_def Let_def w1_def w2_def)
  have files: "w_files (cleanup_temp env w)
      = fold (\<lambda>n. fs_rmtree (tier_dir Temp @ [n])) (orphans Temp w2) (w_files w2)"
    using ex by (simp add: c sweep_orphaned_dirs_def)
  assume not: "\<not> dict_has (skills_in (cleanup_temp env w) Temp) n"
  have g3: "dict_get (w_files (cleanup_temp env w)) (tier_dir Temp @ [n]) = Some Dir"
    using d by (simp add: fs_is_dir_def)
  then have "dict_get (w_files w2) (tier_dir Temp @ [n]) = Some Dir"
    by (auto simp: files fold_rmtree_get split: if_splits)
  then have "n \<in> set (orphans Temp w2)"
    using not by (simp add: orphans_def fs_children_iff fs_is_dir_def c sweep_orphaned_dirs_def split: if_splits)
  then show False using g3 by (auto simp: files fold_rmtree_get split: if_splits)
qed

text \<open>Cleanup removes from the index exactly the temp and official skills that have been idle longer
  than their time to live (or whose time does not parse), never touches a local skill or its files,
  and leaves no directory among the temp skills that the index does not list.\<close>

theorem cleanup_keeps_exactly_fresh:
  assumes "dict_ok (skills_in w Temp)" and "dict_ok (skills_in w Official)"
    and "fs_is_dir (w_files w) (tier_dir Temp)"
  shows "dict_get (skills_in (cleanup_temp env w) t) n =
      (case dict_get (skills_in w t) n of
         None \<Rightarrow> None
       | Some d \<Rightarrow> if t = Temp \<and> stale env (en_temp_ttl_days env) d
              \<or> t = Official \<and> stale env (en_official_ttl_days env) d then None else Some d)
    \<and> (prefix (tier_dir Local) p \<longrightarrow> dict_get (w_files (cleanup_temp env w)) p = dict_get (w_files w) p)
    \<and> (fs_is_dir (w_files (cleanup_temp env w)) (tier_dir Temp @ [n]) \<longrightarrow>
        dict_has (skills_in (cleanup_temp env w) Temp) n)"
proof -
  let ?T = "stale_names env Temp (en_temp_ttl_days env) w"
  define w1 where "w1 = fold (evict_one Temp) ?T w"
  let ?O = "stale_names env Official (en_official_ttl_days env) w1"
  define w2 where "w2 = fold (evict_one Official) ?O w1"
  define w3 where "w3 = snd (sweep_orphaned_dirs Temp w2)"
  have w3: "cleanup_temp env w = w3"
    by (simp add: cleanup_temp_def evict_stale_from_tier_def Let_def w1_def w2_def w3_def)
  have off: "skills_in w1 Official = skills_in w Official"
    unfolding w1_def by (rule fold_evict_other_tier) simp
  have i3: "skills_in w3 u = skills_in w2 u" for u
    by (simp add: w3_def sweep_orphaned_dirs_def)
  have T: "n \<in> set ?T \<longleftrightarrow> (\<exists>d. dict_get (skills_in w Temp) n = Some d \<and> stale env (en_temp_ttl_days env) d)"
    by (rule stale_names_iff [OF assms(1)])
  have O: "n \<in> set ?O \<longleftrightarrow> (\<exists>d. dict_get (skills_in w Official) n = Some d \<and> stale env (en_official_ttl_days env) d)"
    using stale_names_iff [of w1 Official] assms(2) off by simp
  have idx: "dict_get (skills_in w3 t) n =
      (case dict_get (skills_in w t) n of
         None \<Rightarrow> None
       | Some d \<Rightarrow> if t = Temp \<and> stale env (en_temp_ttl_days env) d
              \<or> t = Official \<and> stale env (en_official_ttl_days env) d then None else Some d)"
  proof (cases t)
    case Official
    then show ?thesis
      unfolding i3 w2_def using O off by (cases "n \<in> set ?O")
        (auto simp: fold_evict_gone fold_evict_get split: option.splits)
  next
    case Local
    then show ?thesis
      unfolding i3 w2_def w1_def by (simp add: fold_evict_other_tier split: option.splits)
  next
    case Temp
    then show ?thesis
      unfolding i3 w2_def w1_def using T by (cases "n \<in> set ?T")
        (auto simp: fold_evict_other_tier fold_evict_gone fold_evict_get split: option.splits)
  qed
  have files3: "w_files w3 = (if fs_exists (w_files w2) (tier_dir Temp)
      then fold (\<lambda>n. fs_rmtree (tier_dir Temp @ [n])) (orphans Temp w2) (w_files w2) else w_files w2)"
    by (simp add: w3_def sweep_orphaned_dirs_def)
  have other: "\<not> prefix (tier_dir u @ [k]) p" if "prefix (tier_dir Local) p" "u \<noteq> Local" for u k
    using that by (cases u) (auto simp: tier_dir_def prefix_def)
  have loc: "dict_get (w_files w3) p = dict_get (w_files w) p" if "prefix (tier_dir Local) p"
    using other [OF that] by (simp add: files3 fold_rmtree_get w2_def w1_def fold_evict_files)
  show ?thesis using idx loc cleanup_no_orphans [OF assms(3), of env n] unfolding w3 by blast
qed

text \<open>A skill that is held: no skill of the project shadows it, it is listed in one tier at most, and while it is listed the
  digest that was registered is the one on record.\<close>

definition held :: "string \<Rightarrow> string \<Rightarrow> skill_world \<Rightarrow> bool" where
  "held name h w \<longleftrightarrow> dict_get (w_workspace w) name = None
     \<and> (\<forall>t. dict_has (skills_in w t) name \<longrightarrow> dict_get (ss_hashes (w_security w)) name = Some h
          \<and> (\<forall>u. dict_has (skills_in w u) name \<longrightarrow> u = t))"

lemma held_files [simp]: "held name h (w\<lparr>w_files := fs\<rparr>) = held name h w"
  by (simp add: held_def)

text \<open>An operation that lists no skill of the name, and keeps the record of its digest, keeps it held.\<close>

lemma held_keep:
  assumes "held name h w" and "w_workspace w' = w_workspace w"
    and listed: "\<And>t. dict_has (skills_in w' t) name \<Longrightarrow> dict_has (skills_in w t) name"
    and hash: "dict_get (ss_hashes (w_security w)) name = Some h \<Longrightarrow> dict_get (ss_hashes (w_security w')) name = Some h"
  shows "held name h w'"
  unfolding held_def
proof (intro conjI allI impI)
  show "dict_get (w_workspace w') name = None" using assms(1,2) by (simp add: held_def)
  fix t assume "dict_has (skills_in w' t) name"
  then have t: "dict_has (skills_in w t) name" by (rule listed)
  then show "dict_get (ss_hashes (w_security w')) name = Some h" using assms(1) hash by (simp add: held_def)
  fix u assume "dict_has (skills_in w' u) name"
  then show "u = t" using listed t assms(1) by (simp add: held_def)
qed

text \<open>So does one after which at most one tier lists it; and one after which none does, whatever the record is.\<close>

lemma held_one:
  assumes "dict_get (w_workspace w') name = None" and "dict_get (ss_hashes (w_security w')) name = Some h"
    and "\<And>t. dict_has (skills_in w' t) name \<Longrightarrow> t = u"
  shows "held name h w'"
  using assms unfolding held_def by blast

lemma held_none:
  assumes "dict_get (w_workspace w') name = None" and "\<And>t. \<not> dict_has (skills_in w' t) name"
  shows "held name h w'"
  using assms unfolding held_def by blast

lemma verify_integrity_keeps:
  "dict_get (ss_hashes s) name = Some h \<Longrightarrow> dict_get (ss_hashes (snd (verify_integrity dg n c s))) name = Some h"
  by (auto simp: verify_integrity_def store_integrity_hash_def split: option.splits)

lemma remove_hash_other: "n \<noteq> name \<Longrightarrow> dict_get (ss_hashes (snd (remove_integrity_hash n s))) name = dict_get (ss_hashes s) name"
  by (simp add: remove_integrity_hash_def)

lemma gate_hashes [simp]: "ss_hashes (snd (gate_promotion now n u a s)) = ss_hashes s"
  by (simp add: gate_promotion_def)

lemma approve_hashes [simp]: "ss_hashes (snd (approve_pending n s)) = ss_hashes s"
  by (simp add: approve_pending_def)

lemma write_metadata_workspace [simp]: "w_workspace (snd (write_metadata p m w)) = w_workspace w"
  by (simp add: write_metadata_def split: sum.splits)

lemma track_metadata_workspace [simp]: "w_workspace (snd (track_metadata env d w)) = w_workspace w"
  by (simp add: track_metadata_def split: option.splits node.splits skill_file.splits)

lemma held_load: "held name h w \<Longrightarrow> held name h (snd (load_skill env n w))"
  by (erule held_keep) (auto simp: load_skill_def case_prod_unfold Let_def verify_integrity_keeps split: option.splits)

text \<open>An eviction of the skill itself takes it out of the one tier that lists it.\<close>

lemma held_evict:
  assumes "held name h w" and "n = name \<Longrightarrow> \<forall>u. dict_has (skills_in w u) name \<longrightarrow> u = t"
  shows "held name h (evict_one t n w)"
proof (cases "n = name")
  case True
  then show ?thesis using assms by (intro held_none) (auto simp: held_def evict_one_def Let_def split: if_splits)
next
  case False
  then show ?thesis
    by (intro held_keep [OF assms(1)]) (auto simp: evict_one_def Let_def remove_hash_other split: if_splits)
qed

lemma held_fold_evict:
  assumes "held name h w" and "name \<in> set ns \<Longrightarrow> \<forall>u. dict_has (skills_in w u) name \<longrightarrow> u = t"
  shows "held name h (fold (evict_one t) ns w)"
  using assms
proof (induction ns arbitrary: w)
  case (Cons n ns)
  have "held name h (evict_one t n w)" using Cons.prems by (intro held_evict) auto
  moreover have "\<forall>u. dict_has (skills_in (evict_one t n w) u) name \<longrightarrow> u = t" if "name \<in> set ns"
  proof (intro allI impI)
    fix u assume "dict_has (skills_in (evict_one t n w) u) name"
    then have "dict_has (skills_in w u) name" by (simp split: if_splits)
    then show "u = t" using Cons.prems(2) that by simp
  qed
  ultimately have "held name h (fold (evict_one t) ns (evict_one t n w))" by (rule Cons.IH)
  then show ?case by simp
qed simp

lemma stale_names_listed: "n \<in> set (stale_names env t ttl w) \<Longrightarrow> dict_has (skills_in w t) n"
  using py_dict.keys_get [of n "skills_in w t"] by (auto simp: stale_names_def dict_keys_def dict_has_def)

lemma held_stale:
  assumes "held name h w"
  shows "held name h (snd (evict_stale_from_tier env t ttl w))"
proof -
  have "held name h (fold (evict_one t) (stale_names env t ttl w) w)"
  proof (rule held_fold_evict [OF assms])
    assume "name \<in> set (stale_names env t ttl w)"
    then have "dict_has (skills_in w t) name" by (rule stale_names_listed)
    then show "\<forall>u. dict_has (skills_in w u) name \<longrightarrow> u = t" using assms unfolding held_def by blast
  qed
  then show ?thesis by (simp add: evict_stale_from_tier_def Let_def)
qed

lemma held_cleanup:
  assumes "held name h w"
  shows "held name h (cleanup_temp env w)"
  using held_stale [OF held_stale [OF assms]]
  by (simp add: cleanup_temp_def sweep_orphaned_dirs_def Let_def)

lemma held_unregister:
  assumes "held name h w"
  shows "held name h (unregister_skill n w)"
proof (cases "find_tier w n")
  case None
  then show ?thesis using assms by (simp add: unregister_skill_def)
next
  case (Some t)
  show ?thesis
  proof (cases "n = name")
    case True
    have "dict_has (skills_in w t) name" using Some True by (auto simp: find_tier_def split: if_splits)
    then have "u = t" if "dict_has (skills_in w u) name" for u using that assms by (simp add: held_def)
    then show ?thesis using Some True assms
      by (intro held_none) (auto simp: held_def unregister_skill_def Let_def split: if_splits)
  next
    case False
    then show ?thesis using Some
      by (intro held_keep [OF assms]) (auto simp: unregister_skill_def Let_def remove_hash_other split: if_splits)
  qed
qed

text \<open>A promotion moves the entry; the digest stays.\<close>

lemma move_to_local_security [simp]:
  "w_security (snd (move_to_local env n d w)) = w_security w" "w_workspace (snd (move_to_local env n d w)) = w_workspace w"
  by (simp_all add: move_to_local_def Let_def split: sum.splits option.splits node.splits skill_file.splits)

lemma move_to_local_index:
  "(\<forall>t. skills_in (snd (move_to_local env n d w)) t = skills_in w t)
   \<or> (\<exists>e. \<forall>t. skills_in (snd (move_to_local env n d w)) t =
        (if t = Local then dict_set n e (skills_in w Local) else if t = Temp then dict_del n (skills_in w Temp) else skills_in w t))"
  unfolding move_to_local_def Let_def
  by (auto split: sum.splits option.splits node.splits skill_file.splits)

lemma held_move:
  assumes "held name h w" and "dict_get (skills_in w Temp) n = Some d"
  shows "held name h (snd (move_to_local env n d w))"
  using move_to_local_index [of env n d w]
proof (elim disjE exE)
  assume "\<forall>t. skills_in (snd (move_to_local env n d w)) t = skills_in w t"
  then show ?thesis by (intro held_keep [OF assms(1)]) simp_all
next
  fix e
  assume i: "\<forall>t. skills_in (snd (move_to_local env n d w)) t =
        (if t = Local then dict_set n e (skills_in w Local) else if t = Temp then dict_del n (skills_in w Temp) else skills_in w t)"
  show ?thesis
  proof (cases "n = name")
    case True
    then have "dict_has (skills_in w Temp) name" using assms(2) by (simp add: dict_has_def)
    then have "u = Temp" if "dict_has (skills_in w u) name" for u using assms(1) that unfolding held_def by blast
    then show ?thesis using assms i True \<open>dict_has (skills_in w Temp) name\<close>
      by (intro held_one [of _ _ _ Local]) (auto simp: held_def split: if_splits)
  next
    case False
    then show ?thesis using i by (intro held_keep [OF assms(1)]) (auto split: if_splits)
  qed
qed

lemma held_security: "held name h w \<Longrightarrow> ss_hashes s = ss_hashes (w_security w) \<Longrightarrow> held name h (w\<lparr>w_security := s\<rparr>)"
  by (erule held_keep) simp_all

lemma held_verify: "held name h w \<Longrightarrow> held name h (w\<lparr>w_security := snd (verify_integrity dg n c (w_security w))\<rparr>)"
  by (erule held_keep) (simp_all add: verify_integrity_keeps)

lemma held_promote:
  assumes "held name h w"
  shows "held name h (snd (promote_skill env n w))"
proof (cases "dict_get (skills_in w Temp) n")
  case None
  then show ?thesis using assms by (simp add: promote_skill_def)
next
  case (Some d)
  have del: "held name h (set_index Temp (dict_del n (skills_in w Temp)) w)"
    by (rule held_keep [OF assms]) (auto split: if_splits)
  define s where "s = (case fs_read (w_files w) (tier_dir Temp @ [n] @ [SKILL_MD]) of None \<Rightarrow> w_security w
     | Some f \<Rightarrow> snd (verify_integrity (en_digest env) n (text_of f) (w_security w)))"
  have h1: "held name h (w\<lparr>w_security := s\<rparr>)"
    using assms held_verify [OF assms] by (auto simp: s_def split: option.splits)
  have mv: "held name h (snd (move_to_local env n d (w\<lparr>w_security := s\<rparr>)))"
    using Some by (intro held_move [OF h1]) simp
  show ?thesis
    using Some del h1 mv
    by (auto simp: promote_skill_def Let_def case_prod_unfold s_def split: option.splits)
qed

lemma held_track:
  assumes "held name h w" and "dict_get (skills_in w t) n = Some d0"
  shows "held name h (set_index t (dict_set n d (skills_in w t)) w)"
  by (rule held_keep [OF assms(1)]) (use assms(2) in \<open>auto simp: dict_has_def split: if_splits\<close>)

lemma held_used:
  assumes "held name h w"
  shows "held name h (snd (track_usage env n score w))"
proof (cases "find_tier w n")
  case None
  then show ?thesis using assms by (simp add: track_usage_def)
next
  case (Some t)
  show ?thesis
  proof (cases "dict_get (skills_in w t) n")
    case None
    then show ?thesis using Some assms by (simp add: track_usage_def)
  next
    case d: (Some d0)
    let ?d = "used_entry env score d0"
    let ?w1 = "set_index t (dict_set n ?d (skills_in w t)) w"
    define m where "m = (if t = Local \<or> t = Temp then track_metadata env ?d ?w1 else (Inr (), ?w1))"
    define g where "g = gate_promotion (en_now env) n (sk_usage_count ?d) (sk_avg_score ?d) (w_security (snd m))"
    have "held name h ?w1" by (rule held_track [OF assms d])
    then have h2: "held name h (snd m)"
      by (rule held_keep) (simp_all add: m_def split: if_splits)
    then have h3: "held name h ((snd m)\<lparr>w_security := snd g\<rparr>)"
      by (rule held_security) (simp add: g_def)
    then have h4: "held name h (snd (promote_skill env n ((snd m)\<lparr>w_security := snd g\<rparr>)))" by (rule held_promote)
    have "snd (track_usage env n score w) = snd m
        \<or> snd (track_usage env n score w) = (snd m)\<lparr>w_security := snd g\<rparr>
        \<or> snd (track_usage env n score w) = snd (promote_skill env n ((snd m)\<lparr>w_security := snd g\<rparr>))"
      using Some d by (auto simp: track_usage_def Let_def case_prod_unfold m_def g_def split: sum.splits)
    then show ?thesis using h2 h3 h4 by metis
  qed
qed

lemma held_approved:
  assumes "held name h w"
  shows "held name h (snd (approve_promotion env n w))"
proof -
  let ?w = "w\<lparr>w_security := snd (approve_pending n (w_security w))\<rparr>"
  have h1: "held name h ?w" by (rule held_security [OF assms]) simp
  have "held name h (snd (promote_skill env n ?w))" by (rule held_promote [OF h1])
  then show ?thesis using h1
    by (auto simp: approve_promotion_def case_prod_unfold Let_def split: sum.splits)
qed

text \<open>The world after a registration that was accepted, and after any that was not of the name.\<close>

lemma register_skill_index:
  assumes "register_skill env n description tier task_types p w = (r, w')"
  shows "w_workspace w' = w_workspace w
    \<and> (w' = w \<or> (\<exists>t c e. tier_of tier = Some t \<and> check_registration env n t p w = Inr c
        \<and> ss_hashes (w_security w') = dict_set n (en_digest env c) (ss_hashes (w_security w))
        \<and> (\<forall>u. skills_in w' u = (if u = t then dict_set n e (skills_in w t) else skills_in w u))))"
proof (cases "tier_of tier")
  case None
  then show ?thesis using assms by (simp add: register_skill_def)
next
  case (Some t)
  show ?thesis
  proof (cases "check_registration env n t p w")
    case (Inl e)
    then show ?thesis using assms Some by (simp add: register_skill_def)
  next
    case (Inr c)
    let ?w1 = "w\<lparr>w_security := store_integrity_hash (en_digest env) n c (w_security w)\<rparr>"
    let ?m = "new_metadata env n description t task_types p"
    let ?w2 = "set_index t (dict_set n (new_entry_for ?m) (skills_in ?w1 t)) ?w1"
    have "w' = ?w2 \<or> w' = snd (write_metadata p ?m ?w2)"
      using assms Some Inr by (auto simp: register_skill_def Let_def split: if_splits prod.splits sum.splits)
    moreover have "ss_hashes (w_security ?w2) = dict_set n (en_digest env c) (ss_hashes (w_security w))"
      by (simp add: store_integrity_hash_def)
    moreover have "\<forall>u. skills_in ?w2 u = (if u = t then dict_set n (new_entry_for ?m) (skills_in w t) else skills_in w u)"
      by simp
    ultimately show ?thesis using Some Inr by (elim disjE) (auto simp del: skills_in_updates intro!: exI)
  qed
qed

lemma held_other_registered:
  assumes "held name h w" and "n \<noteq> name"
  shows "held name h (snd (register_skill env n description tier task_types p w))"
proof -
  obtain r w' where run: "register_skill env n description tier task_types p w = (r, w')" by fastforce
  have "held name h w'"
  proof (rule held_keep [OF assms(1)])
    show "w_workspace w' = w_workspace w" using register_skill_index [OF run] by simp
    show "dict_has (skills_in w t) name" if "dict_has (skills_in w' t) name" for t
      using register_skill_index [OF run] that assms(2) by (auto split: if_splits) (metis dict_has_set)
    show "dict_get (ss_hashes (w_security w')) name = Some h" if "dict_get (ss_hashes (w_security w)) name = Some h"
      using register_skill_index [OF run] that assms(2) by auto
  qed
  then show ?thesis using run by simp
qed

lemma held_step: "held name h w \<Longrightarrow> \<not> registers name e \<Longrightarrow> held name h (registry_step e w)"
  by (cases e) (simp_all add: held_load held_used held_approved held_cleanup held_unregister held_other_registered)

lemma held_run: "held name h w \<Longrightarrow> \<forall>e \<in> set es. \<not> registers name e \<Longrightarrow> held name h (fold registry_step es w)"
  by (induction es arbitrary: w) (auto simp: held_step)

lemma held_loaded:
  assumes "held name h w" and "fst (load_skill env name w) = Some content"
  shows "en_digest env content = h"
proof -
  have ws: "dict_get (w_workspace w) name = None" using assms(1) by (simp add: held_def)
  obtain t d f where f: "find_tier w name = Some t" "dict_get (skills_in w t) name = Some d"
    "fs_read (w_files w) (sk_path d @ [SKILL_MD]) = Some f"
    "fst (verify_integrity (en_digest env) name (text_of f) (w_security w))" "content = text_of f"
    using assms(2) ws by (auto simp: load_skill_def split: option.splits prod.splits if_splits)
  have "dict_get (ss_hashes (w_security w)) name = Some h"
    using assms(1) f(2) unfolding held_def by (metis dict_has_def option.distinct(1))
  then show ?thesis using f(4,5) by (simp add: verify_integrity_def)
qed

text \<open>C36: Once a new skill is registered, and as long as nothing registers its name again or hashes it anew, no project skill
  of the name being loaded, it is never loaded with another text: whatever is done to the files, and whatever skills are loaded,
  used, promoted, cleaned up, unregistered and registered meanwhile, a content that loads has the digest of the text that was
  registered.\<close>

theorem tampered_skill_is_not_loaded:
  assumes "register_skill env name description tier task_types p w = (Inr m, w')"
    and "find_tier w name = None" and "dict_get (w_workspace w) name = None"
    and "\<forall>e \<in> set events. \<not> registers name e"
    and "fst (load_skill env name (fold registry_step events w')) = Some content"
  shows "\<exists>f. fs_read (w_files w) (p @ [SKILL_MD]) = Some f \<and> en_digest env content = en_digest env (text_of f)"
proof -
  obtain t c where t: "tier_of tier = Some t" and c: "check_registration env name t p w = Inr c"
    using assms(1) by (auto simp: register_skill_def split: option.splits sum.splits)
  obtain f where f: "fs_read (w_files w) (p @ [SKILL_MD]) = Some f" "text_of f = c"
    using c by (auto simp: check_registration_def Let_def split: option.splits if_splits)
  have new: "\<not> dict_has (skills_in w u) name" for u
    using assms(2) by (cases u) (simp_all add: find_tier_def split: if_splits)
  from register_skill_index [OF assms(1)] have "held name (en_digest env c) w'"
  proof (elim conjE disjE exE)
    assume "w' = w"
    then show ?thesis using new assms(3) by (intro held_none) simp_all
  next
    fix t' c' e
    assume a: "w_workspace w' = w_workspace w" "tier_of tier = Some t'" "check_registration env name t' p w = Inr c'"
      "ss_hashes (w_security w') = dict_set name (en_digest env c') (ss_hashes (w_security w))"
      "\<forall>u. skills_in w' u = (if u = t' then dict_set name e (skills_in w t') else skills_in w u)"
    then have "c' = c" using t c by simp
    then show ?thesis using a assms(3) new by (intro held_one [of _ _ _ t']) (auto split: if_splits)
  qed
  then have "held name (en_digest env c) (fold registry_step events w')" using assms(4) by (rule held_run)
  then have "en_digest env content = en_digest env c" using assms(5) by (rule held_loaded)
  then show ?thesis using f by auto
qed

definition sample_env :: skill_env where
  "sample_env = \<lparr>en_now = ''2026-05-01'', en_digest = (\<lambda>c. c), en_search = (\<lambda>_ _. False),
     en_parse = (\<lambda>_. Some []), en_utf8 = (\<lambda>s. map of_char s), en_age_days = (\<lambda>_. Some 8),
     en_min_usage = 3, en_min_avg_score = 85, en_temp_ttl_days = 7, en_official_ttl_days = 30\<rparr>"

definition sample_entry :: skill_entry where
  "sample_entry = \<lparr>sk_description = [], sk_task_types = [], sk_path = [''temp'', ''fmt''], sk_usage_count = 2,
     sk_scores = Some [90, 90], sk_avg_score = 90, sk_created_at = ''2026-04-01'', sk_last_used = None,
     sk_synced_at = None, sk_tier = None, sk_promoted_at = None, sk_origin = None, sk_frontmatter_types = False\<rparr>"

definition sample_world :: skill_world where
  "sample_world = \<lparr>w_files = [([''official''], Dir), ([''local''], Dir), ([''temp''], Dir),
       ([''temp'', ''fmt''], Dir), ([''temp'', ''fmt'', ''SKILL.md''], File (Text ''use tabs''))],
     w_index = (\<lambda>_. [])(Temp := [(''fmt'', sample_entry)]),
     w_security = \<lparr>ss_require_approval = False, ss_pending = [], ss_hashes = []\<rparr>, w_workspace = []\<rparr>"

lemmas sample_simps = sample_world_def sample_env_def sample_entry_def skills_in_def set_index_def dict_eval
  find_tier_def tier_dir_def SKILL_MD_def METADATA_def

theorem auto_promotion_needs_evidence_witness:
  "\<exists>d. dict_get (skills_in sample_world Temp) ''fmt'' = Some d \<and> 3 \<le> sk_usage_count d + 1"
proof -
  let ?w' = "snd (track_usage sample_env ''fmt'' 90 sample_world)"
  obtain r w' where run: "track_usage sample_env ''fmt'' 90 sample_world = (r, w')" by fastforce
  have "dict_has (skills_in ?w' Local) ''fmt''"
    by (simp add: sample_simps track_usage_def used_entry_def mean_def track_metadata_def fs_read_def
        gate_promotion_def promote_skill_def move_to_local_def fs_exists_def fs_move_def moved_def
        verify_integrity_def store_integrity_hash_def Let_def)
  then have "dict_has (skills_in w' Local) ''fmt''" unfolding run by simp
  from auto_promotion_needs_evidence [OF run _ this] show ?thesis
    by (auto simp: sample_simps)
qed

theorem cleanup_keeps_exactly_fresh_witness:
  "dict_get (skills_in (cleanup_temp sample_env sample_world) Temp) ''fmt'' = None"
proof -
  have "dict_ok (skills_in sample_world Temp)" "dict_ok (skills_in sample_world Official)"
    "fs_is_dir (w_files sample_world) (tier_dir Temp)"
    by (simp_all add: sample_simps fs_is_dir_def)
  from cleanup_keeps_exactly_fresh [OF this, of sample_env Temp "''fmt''" "[]"] show ?thesis
    by (simp add: sample_simps stale_def last_activity_def)
qed

definition new_world :: skill_world where
  "new_world = sample_world\<lparr>w_index := (\<lambda>_. [])\<rparr>"

text \<open>Whatever the file is replaced by, only the registered text loads; put back, it loads again.\<close>

theorem tampered_skill_is_not_loaded_witness:
  "\<exists>w' m. register_skill sample_env ''fmt'' [] ''temp'' [] [''temp'', ''fmt''] new_world = (Inr m, w')
    \<and> (\<forall>fs c. fst (load_skill sample_env ''fmt'' (fold registry_step [Used sample_env ''fmt'' 90, Files_Become fs] w')) = Some c
          \<longrightarrow> c = ''use tabs'')
    \<and> fst (load_skill sample_env ''fmt'' (fold registry_step [Files_Become [], Files_Become (w_files new_world)] w')) = Some ''use tabs''"
proof -
  have chk: "check_registration sample_env ''fmt'' Temp [''temp'', ''fmt''] new_world = Inr ''use tabs''"
    by (simp add: check_registration_def validate_skill_name_def valid_skill_name_re_def chomp_def kebab_case_def
        lower_letter_def MAX_SKILL_NAME_LENGTH_def validate_skill_path_def new_world_def sample_simps fs_read_def
        validate_skill_content_def severity_count_def MAX_SKILL_FILE_SIZE_def scan_bundled_scripts_def
        scripts_below_def strict_prefix_def suffix_def ast_scan_script_def Let_def)
  let ?w = "snd (register_skill sample_env ''fmt'' [] ''temp'' [] [''temp'', ''fmt''] new_world)"
  obtain m where reg: "register_skill sample_env ''fmt'' [] ''temp'' [] [''temp'', ''fmt''] new_world = (Inr m, ?w)"
    using chk by (auto simp: register_skill_def tier_of_def Let_def write_metadata_def fs_write_def fs_is_dir_def new_world_def
        sample_simps split: prod.splits sum.splits)
  have new: "find_tier new_world ''fmt'' = None" "dict_get (w_workspace new_world) ''fmt'' = None"
    by (simp_all add: new_world_def sample_simps)
  have only: "c = ''use tabs''"
    if "fst (load_skill sample_env ''fmt'' (fold registry_step [Used sample_env ''fmt'' 90, Files_Become fs] ?w)) = Some c" for fs c
    using tampered_skill_is_not_loaded [OF reg new _ that] by (auto simp: new_world_def sample_simps fs_read_def)
  have again: "fst (load_skill sample_env ''fmt'' (fold registry_step [Files_Become [], Files_Become (w_files new_world)] ?w)) = Some ''use tabs''"
    using chk by (simp add: register_skill_def tier_of_def Let_def write_metadata_def fs_write_def fs_is_dir_def new_world_def
        sample_simps load_skill_def verify_integrity_def store_integrity_hash_def new_entry_for_def new_metadata_def fs_read_def)
  show ?thesis using reg only again by blast
qed

end
