(* ===== verification/Skill_Outcomes.thy ===== *)
theory Skill_Outcomes
  imports Py_Strings "HOL-Library.Product_Lexorder" "HOL-Library.List_Lexorder" "HOL-Library.Char_ord"
begin

text \<open>
  \<^verbatim>\<open>agents/skill_outcome_store.py\<close>: the JSONL file of skill outcomes as the list of its entries in
  file order. Only this class writes the file, so every line parses; the lock makes each
  \<open>record\<close> one step. The times are the ISO strings the code writes and compares.
\<close>

section \<open>The store\<close>

record outcome_entry =
  oe_skill_name :: string
  oe_task_type :: string
  oe_specification_summary :: string
  oe_skill_content :: string
  oe_score :: int
  oe_feedback :: string
  oe_is_positive :: bool
  oe_timestamp :: string

record outcome_store =
  os_max_entries :: int
  os_entries :: "outcome_entry list"

record outcome_args =
  oa_skill_name :: string
  oa_task_type :: string
  oa_specification :: string
  oa_skill_content :: string
  oa_score :: int
  oa_feedback :: string

definition NEGATIVE_EXAMPLE_CEILING :: int where
  "NEGATIVE_EXAMPLE_CEILING = 50"

definition POSITIVE_EXAMPLE_FLOOR :: int where
  "POSITIVE_EXAMPLE_FLOOR = 70"

definition new_outcome_store :: "int \<Rightarrow> outcome_store" where
  "new_outcome_store max_entries = \<lparr>os_max_entries = max_entries, os_entries = []\<rparr>"

section \<open>Writing\<close>

text \<open>An entry competes with the one of the same skill in the same band.\<close>

definition slot :: "outcome_entry \<Rightarrow> string \<times> bool" where
  "slot e = (oe_skill_name e, oe_is_positive e)"

definition should_replace :: "outcome_entry \<Rightarrow> outcome_entry \<Rightarrow> bool" where
  "should_replace new old \<longleftrightarrow>
     (if oe_is_positive new then oe_score new > oe_score old else oe_score new < oe_score old)"

datatype dedup = Fresh | Kept | Replaced "outcome_entry list"

fun dedup_scan :: "outcome_entry \<Rightarrow> outcome_entry list \<Rightarrow> dedup" where
  "dedup_scan new [] = Fresh"
| "dedup_scan new (e # es) =
     (if slot e = slot new then (if should_replace new e then Replaced (new # es) else Kept)
      else (case dedup_scan new es of
              Replaced es' \<Rightarrow> Replaced (e # es')
            | r \<Rightarrow> r))"

text \<open>\<open>entries[-n:]\<close> when there are more than \<open>n\<close>; for \<open>n = 0\<close> that is the whole list.\<close>

definition evict_oldest :: "int \<Rightarrow> outcome_entry list \<Rightarrow> outcome_entry list" where
  "evict_oldest n es =
     (if int (length es) > n then
        (if n > 0 then drop (length es - nat n) es else drop (nat (- n)) es)
      else es)"

definition append_outcome :: "outcome_entry \<Rightarrow> outcome_store \<Rightarrow> bool \<times> outcome_store" where
  "append_outcome new s =
     (case dedup_scan new (os_entries s) of
        Kept \<Rightarrow> (True, s)
      | Replaced es \<Rightarrow> (True, s\<lparr>os_entries := evict_oldest (os_max_entries s) es\<rparr>)
      | Fresh \<Rightarrow> (False, s\<lparr>os_entries := evict_oldest (os_max_entries s) (os_entries s @ [new])\<rparr>))"

definition outcome_of :: "string \<Rightarrow> outcome_args \<Rightarrow> outcome_entry" where
  "outcome_of now a =
     \<lparr>oe_skill_name = oa_skill_name a, oe_task_type = oa_task_type a,
      oe_specification_summary = take 300 (oa_specification a),
      oe_skill_content = oa_skill_content a, oe_score = oa_score a,
      oe_feedback = take 500 (oa_feedback a),
      oe_is_positive = (oa_score a \<ge> POSITIVE_EXAMPLE_FLOOR), oe_timestamp = now\<rparr>"

definition informative :: "int \<Rightarrow> bool" where
  "informative score \<longleftrightarrow>
     score \<noteq> 0 \<and> \<not> (NEGATIVE_EXAMPLE_CEILING < score \<and> score < POSITIVE_EXAMPLE_FLOOR)"

definition record_outcome :: "string \<Rightarrow> outcome_args \<Rightarrow> outcome_store \<Rightarrow> outcome_store" where
  "record_outcome now a s =
     (if informative (oa_score a) then snd (append_outcome (outcome_of now a) s) else s)"

section \<open>Reading\<close>

text \<open>A stable sort in descending order.\<close>

definition sort_desc :: "('a \<Rightarrow> 'k::linorder) \<Rightarrow> 'a list \<Rightarrow> 'a list" where
  "sort_desc key xs = rev (sort_key key (rev xs))"

definition recency :: "outcome_entry \<Rightarrow> int \<times> string" where
  "recency e = (oe_score e, oe_timestamp e)"

definition retrieve_positive_examples :: "string \<Rightarrow> int \<Rightarrow> outcome_store \<Rightarrow> outcome_entry list" where
  "retrieve_positive_examples task_type top_k s =
     py_take top_k (sort_desc recency
       (filter (\<lambda>e. oe_task_type e = task_type \<and> oe_is_positive e) (os_entries s)))"

definition retrieve_negative_examples :: "string \<Rightarrow> int \<Rightarrow> outcome_store \<Rightarrow> outcome_entry list" where
  "retrieve_negative_examples task_type top_k s =
     py_take top_k (sort_key recency
       (filter (\<lambda>e. oe_task_type e = task_type \<and> \<not> oe_is_positive e) (os_entries s)))"

record type_stats =
  ts_count :: int
  ts_positive :: int
  ts_negative :: int
  ts_avg_score :: real

definition stats_of :: "outcome_entry list \<Rightarrow> type_stats" where
  "stats_of es =
     \<lparr>ts_count = int (length es), ts_positive = int (length (filter oe_is_positive es)),
      ts_negative = int (length (filter (\<lambda>e. \<not> oe_is_positive e) es)),
      ts_avg_score = real_of_int (sum_list (map oe_score es)) / real (length es)\<rparr>"

text \<open>The task types in the order of their first entry.\<close>

definition outcome_stats :: "outcome_store \<Rightarrow> int \<times> (string, type_stats) py_dict" where
  "outcome_stats s =
     (int (length (os_entries s)),
      map (\<lambda>tt. (tt, stats_of (filter (\<lambda>e. oe_task_type e = tt) (os_entries s))))
        (rev (remdups (rev (map oe_task_type (os_entries s))))))"

text \<open>What promotion and refinement read: all scores recorded under a name.\<close>

definition read_outcomes_for :: "outcome_store \<Rightarrow> string \<Rightarrow> int list" where
  "read_outcomes_for s name = map oe_score (filter (\<lambda>e. oe_skill_name e = name) (os_entries s))"

section \<open>Invariant\<close>

definition outcomes_ok :: "outcome_store \<Rightarrow> bool" where
  "outcomes_ok s \<longleftrightarrow>
     distinct (map slot (os_entries s))
     \<and> (\<forall>e \<in> set (os_entries s). informative (oe_score e)
          \<and> (oe_is_positive e \<longleftrightarrow> oe_score e \<ge> POSITIVE_EXAMPLE_FLOOR))
     \<and> (0 < os_max_entries s \<longrightarrow> int (length (os_entries s)) \<le> os_max_entries s)"

lemma dedup_scan_cases:
  "case dedup_scan new es of
     Fresh \<Rightarrow> slot new \<notin> slot ` set es
   | Kept \<Rightarrow> \<exists>e \<in> set es. slot e = slot new \<and> \<not> should_replace new e
   | Replaced es' \<Rightarrow> \<exists>pre e post. es = pre @ e # post \<and> es' = pre @ new # post
       \<and> slot e = slot new \<and> slot new \<notin> slot ` set pre \<and> should_replace new e"
proof (induction es)
  case (Cons e es)
  show ?case
  proof (cases "slot e = slot new")
    case True
    then show ?thesis by (auto intro: exI [of _ "[]"])
  next
    case False
    then show ?thesis
    proof (cases "dedup_scan new es")
      case (Replaced es')
      with Cons.IH obtain pre o' post where *: "es = pre @ o' # post" "es' = pre @ new # post"
        "slot o' = slot new" "slot new \<notin> slot ` set pre" "should_replace new o'" by auto
      with False Replaced show ?thesis
        by simp (rule exI [of _ "e # pre"], auto)
    qed (use Cons.IH False in \<open>auto simp: image_iff\<close>)
  qed
qed simp

lemma dedup_scan_Replaced:
  assumes "dedup_scan new es = Replaced es'"
  obtains pre e post where "es = pre @ e # post" "es' = pre @ new # post" "slot e = slot new"
    "slot new \<notin> slot ` set pre" "should_replace new e"
  using dedup_scan_cases [of new es] assms by auto

lemma evict_oldest_suffix: "\<exists>pre. es = pre @ evict_oldest n es"
  by (auto simp: evict_oldest_def) (metis append_take_drop_id)+

lemma evict_oldest_distinct: "distinct (map f es) \<Longrightarrow> distinct (map f (evict_oldest n es))"
  using evict_oldest_suffix [of es n] by (metis distinct_append map_append)

lemma evict_oldest_subset: "set (evict_oldest n es) \<subseteq> set es"
  using evict_oldest_suffix [of es n] by (metis Un_upper2 set_append)

lemma evict_oldest_length: "0 < n \<Longrightarrow> int (length (evict_oldest n es)) \<le> n"
  by (auto simp: evict_oldest_def)

lemma evict_oldest_id: "int (length es) \<le> n \<Longrightarrow> evict_oldest n es = es"
  by (simp add: evict_oldest_def)

lemma outcomes_ok_evict:
  assumes "distinct (map slot es)"
    and "\<forall>e \<in> set es. informative (oe_score e) \<and> (oe_is_positive e \<longleftrightarrow> oe_score e \<ge> POSITIVE_EXAMPLE_FLOOR)"
  shows "outcomes_ok (s\<lparr>os_entries := evict_oldest (os_max_entries s) es\<rparr>)"
  using assms evict_oldest_distinct [OF assms(1)] evict_oldest_subset [of _ es] evict_oldest_length
  unfolding outcomes_ok_def by (auto dest: subsetD)

lemma record_outcome_ok: "outcomes_ok s \<Longrightarrow> outcomes_ok (record_outcome now a s)"
proof (cases "informative (oa_score a)")
  case True
  assume ok: "outcomes_ok s"
  let ?n = "outcome_of now a"
  have n: "informative (oe_score ?n) \<and> (oe_is_positive ?n \<longleftrightarrow> oe_score ?n \<ge> POSITIVE_EXAMPLE_FLOOR)"
    using True by (simp add: outcome_of_def)
  show ?thesis
  proof (cases "dedup_scan ?n (os_entries s)")
    case Fresh
    then have "slot ?n \<notin> slot ` set (os_entries s)" using dedup_scan_cases [of ?n "os_entries s"] by simp
    then have "outcomes_ok (s\<lparr>os_entries := evict_oldest (os_max_entries s) (os_entries s @ [?n])\<rparr>)"
      using ok n by (intro outcomes_ok_evict) (auto simp: outcomes_ok_def)
    then show ?thesis using True Fresh by (simp add: record_outcome_def append_outcome_def)
  next
    case Kept
    then show ?thesis using ok True by (simp add: record_outcome_def append_outcome_def)
  next
    case (Replaced es)
    then obtain pre e post where *: "os_entries s = pre @ e # post" "es = pre @ ?n # post"
      "slot e = slot ?n" by (rule dedup_scan_Replaced)
    then have "outcomes_ok (s\<lparr>os_entries := evict_oldest (os_max_entries s) es\<rparr>)"
      using ok n by (intro outcomes_ok_evict) (auto simp: outcomes_ok_def)
    then show ?thesis using True Replaced by (simp add: record_outcome_def append_outcome_def)
  qed
qed (simp add: record_outcome_def)

text \<open>A history of \<open>record\<close> calls with their times, oldest first.\<close>

definition record_all :: "(string \<times> outcome_args) list \<Rightarrow> outcome_store \<Rightarrow> outcome_store" where
  "record_all rs s = fold (\<lambda>(now, a). record_outcome now a) rs s"

lemma record_all_simps [simp]:
  "record_all [] s = s"
  "record_all ((now, a) # rs) s = record_all rs (record_outcome now a s)"
  by (simp_all add: record_all_def)

lemma record_all_ok: "outcomes_ok s \<Longrightarrow> outcomes_ok (record_all rs s)"
  by (induction rs arbitrary: s) (auto simp: record_outcome_ok)

lemma new_outcome_store_ok: "outcomes_ok (new_outcome_store m)"
  by (simp add: outcomes_ok_def new_outcome_store_def)

text \<open>One entry per skill and band leaves at most two scores per skill.\<close>

lemma read_outcomes_at_most_two:
  assumes "outcomes_ok s"
  shows "length (read_outcomes_for s name) \<le> 2"
proof -
  let ?es = "filter (\<lambda>e. oe_skill_name e = name) (os_entries s)"
  have "distinct (map slot ?es)"
    using assms by (auto simp: outcomes_ok_def distinct_map inj_on_def)
  moreover have "set (map slot ?es) \<subseteq> {(name, True), (name, False)}"
    by (auto simp: slot_def)
  ultimately have "length (map slot ?es) \<le> card {(name, True), (name, False)}"
    by (metis card_mono distinct_card finite.emptyI finite_insert)
  then show ?thesis by (simp add: read_outcomes_for_def)
qed

section \<open>Refinement: the best score per skill and band\<close>

definition best_scores :: "outcome_store \<Rightarrow> string \<times> bool \<Rightarrow> int option" where
  "best_scores s k = map_of (map (\<lambda>e. (slot e, oe_score e)) (os_entries s)) k"

definition arg_slot :: "outcome_args \<Rightarrow> string \<times> bool" where
  "arg_slot a = (oa_skill_name a, oa_score a \<ge> POSITIVE_EXAMPLE_FLOOR)"

definition better :: "bool \<Rightarrow> int \<Rightarrow> int \<Rightarrow> int" where
  "better positive x y = (if positive then max x y else min x y)"

definition note_best :: "outcome_args \<Rightarrow> (string \<times> bool \<Rightarrow> int option) \<Rightarrow> (string \<times> bool \<Rightarrow> int option)" where
  "note_best a m =
     (if informative (oa_score a) then
        m(arg_slot a \<mapsto> (case m (arg_slot a) of
            None \<Rightarrow> oa_score a
          | Some b \<Rightarrow> better (snd (arg_slot a)) b (oa_score a)))
      else m)"

lemma slot_outcome_of [simp]: "slot (outcome_of now a) = arg_slot a" "oe_score (outcome_of now a) = oa_score a"
  by (simp_all add: slot_def arg_slot_def outcome_of_def)

lemma map_of_slots_None: "k \<notin> slot ` set es \<Longrightarrow> map_of (map (\<lambda>e. (slot e, oe_score e)) es) k = None"
  by (auto simp: map_of_eq_None_iff image_iff)

lemma record_outcome_refines:
  assumes ok: "outcomes_ok s"
    and room: "arg_slot a \<in> slot ` set (os_entries s) \<or> int (length (os_entries s)) < os_max_entries s"
    and max: "int (length (os_entries s)) \<le> os_max_entries s"
  shows "best_scores (record_outcome now a s) = note_best a (best_scores s)"
proof (cases "informative (oa_score a)")
  case True
  let ?n = "outcome_of now a"
  let ?g = "\<lambda>e. (slot e, oe_score e)"
  note scan = dedup_scan_cases [of ?n "os_entries s"]
  show ?thesis
  proof (cases "dedup_scan ?n (os_entries s)")
    case Fresh
    then have new: "arg_slot a \<notin> slot ` set (os_entries s)" using scan by simp
    then have e: "evict_oldest (os_max_entries s) (os_entries s @ [?n]) = os_entries s @ [?n]"
      using room by (intro evict_oldest_id) auto
    show ?thesis
    proof
      fix k
      show "best_scores (record_outcome now a s) k = note_best a (best_scores s) k"
        using True Fresh e map_of_slots_None [OF new]
        by (auto simp: record_outcome_def append_outcome_def best_scores_def note_best_def map_add_def
            split: option.splits)
    qed
  next
    case Kept
    then obtain e where e: "e \<in> set (os_entries s)" "slot e = arg_slot a" "\<not> should_replace ?n e"
      using scan by auto
    have "distinct (map fst (map ?g (os_entries s)))"
      using ok by (simp add: outcomes_ok_def comp_def)
    then have "map_of (map ?g (os_entries s)) (slot e) = Some (oe_score e)"
      using e(1) by (intro map_of_is_SomeI) (auto simp: image_iff)
    moreover have "better (snd (arg_slot a)) (oe_score e) (oa_score a) = oe_score e"
      using e by (auto simp: better_def should_replace_def arg_slot_def outcome_of_def)
    ultimately show ?thesis
      using True Kept e(2)
      by (auto simp: record_outcome_def append_outcome_def best_scores_def note_best_def fun_eq_iff)
  next
    case (Replaced es)
    then obtain pre e post where *: "os_entries s = pre @ e # post" "es = pre @ ?n # post"
      "slot e = slot ?n" "slot ?n \<notin> slot ` set pre" "should_replace ?n e"
      by (rule dedup_scan_Replaced)
    have ev: "evict_oldest (os_max_entries s) es = es"
      using max * by (intro evict_oldest_id) auto
    have "map_of (map ?g (os_entries s)) (arg_slot a) = Some (oe_score e)"
      using * map_of_slots_None [of "arg_slot a" pre] by (auto simp: map_add_def split: option.splits)
    moreover have "better (snd (arg_slot a)) (oe_score e) (oa_score a) = oa_score a"
      using * by (auto simp: better_def should_replace_def arg_slot_def outcome_of_def split: if_splits)
    ultimately show ?thesis
      using True Replaced ev * map_of_slots_None [of "arg_slot a" pre]
      by (auto simp: record_outcome_def append_outcome_def best_scores_def note_best_def fun_eq_iff
          map_add_def split: option.splits)
  qed
qed (simp add: record_outcome_def note_best_def)

lemma record_outcome_max [simp]: "os_max_entries (record_outcome now a s) = os_max_entries s"
  by (simp add: record_outcome_def append_outcome_def split: dedup.splits)

lemma record_outcome_slots:
  "slot ` set (os_entries (record_outcome now a s))
     \<subseteq> slot ` set (os_entries s) \<union> (if informative (oa_score a) then {arg_slot a} else {})"
proof (cases "informative (oa_score a)")
  case True
  let ?n = "outcome_of now a"
  show ?thesis
  proof (cases "dedup_scan ?n (os_entries s)")
    case Fresh
    then show ?thesis
      using True evict_oldest_subset [of "os_max_entries s" "os_entries s @ [?n]"]
      by (auto simp: record_outcome_def append_outcome_def image_iff)
  next
    case Kept
    then show ?thesis by (auto simp: record_outcome_def append_outcome_def)
  next
    case (Replaced es)
    then obtain pre e post where "os_entries s = pre @ e # post" "es = pre @ ?n # post"
      by (rule dedup_scan_Replaced)
    then show ?thesis
      using True Replaced evict_oldest_subset [of "os_max_entries s" es]
      by (auto simp: record_outcome_def append_outcome_def image_iff)
  qed
qed (simp add: record_outcome_def)

lemma record_all_refines:
  assumes "outcomes_ok s" and "finite S" and "slot ` set (os_entries s) \<subseteq> S"
    and "int (card S) \<le> os_max_entries s"
    and "\<forall>(now, a) \<in> set rs. informative (oa_score a) \<longrightarrow> arg_slot a \<in> S"
  shows "best_scores (record_all rs s) = fold (\<lambda>(now, a). note_best a) rs (best_scores s)"
  using assms
proof (induction rs arbitrary: s)
  case (Cons r rs)
  obtain now a where r: "r = (now, a)" by fastforce
  let ?s = "record_outcome now a s"
  have card: "length (os_entries s) = card (slot ` set (os_entries s))"
    using Cons.prems(1) distinct_card [of "map slot (os_entries s)"] by (simp add: outcomes_ok_def)
  have step: "best_scores ?s = note_best a (best_scores s)"
  proof (cases "informative (oa_score a)")
    case True
    then have "arg_slot a \<in> S" using Cons.prems(5) r by auto
    then have "arg_slot a \<in> slot ` set (os_entries s) \<or> card (slot ` set (os_entries s)) < card S"
      using Cons.prems(2,3) by (metis psubsetI psubset_card_mono)
    moreover have "card (slot ` set (os_entries s)) \<le> card S"
      using Cons.prems(2,3) by (rule card_mono)
    ultimately show ?thesis
      using card Cons.prems(1,4) by (intro record_outcome_refines) auto
  qed (simp add: record_outcome_def note_best_def)
  have "slot ` set (os_entries ?s) \<subseteq> S"
    by (rule subset_trans [OF record_outcome_slots]) (use Cons.prems(3,5) r in auto)
  then have "best_scores (record_all rs ?s) = fold (\<lambda>(now, a). note_best a) rs (best_scores ?s)"
    using Cons.prems r by (intro Cons.IH record_outcome_ok) auto
  then show ?case using r step by simp
qed simp

section \<open>Retrieval\<close>

lemma sort_desc_set [simp]: "set (sort_desc key xs) = set xs"
  by (simp add: sort_desc_def)

lemma sort_desc_length [simp]: "length (sort_desc key xs) = length xs"
  by (simp add: sort_desc_def)

lemma sort_desc_sorted: "sorted_wrt (\<lambda>x y. key x \<ge> key y) (sort_desc key xs)"
  using sorted_sort_key [of key "rev xs"] by (simp add: sort_desc_def sorted_wrt_rev sorted_map)

lemma take_sorted_dominates:
  assumes "sorted_wrt R ys" and "x \<in> set (take k ys)" and "y \<in> set (drop k ys)"
  shows "R x y"
proof -
  have "sorted_wrt R (take k ys @ drop k ys)" using assms(1) by simp
  then show ?thesis using assms(2,3) unfolding sorted_wrt_append by blast
qed

section \<open>Properties\<close>

text \<open>However many outcomes are recorded, the store keeps at most one positive and one negative
  entry per skill and never more entries than its limit.\<close>

theorem outcome_store_bounded:
  "length (read_outcomes_for (record_all rs (new_outcome_store m)) name) \<le> 2
   \<and> (0 < m \<longrightarrow> int (length (os_entries (record_all rs (new_outcome_store m)))) \<le> m)"
proof -
  let ?s = "record_all rs (new_outcome_store m)"
  have ok: "outcomes_ok ?s" by (intro record_all_ok new_outcome_store_ok)
  have "os_max_entries (record_all rs s) = os_max_entries s" for s
    by (induction rs arbitrary: s) auto
  then have "os_max_entries ?s = m" by (simp add: new_outcome_store_def)
  with ok read_outcomes_at_most_two [OF ok] show ?thesis by (auto simp: outcomes_ok_def)
qed

theorem outcome_store_bounded_witness:
  "length (read_outcomes_for (record_all [] (new_outcome_store 500)) ''fmt'') \<le> 2"
  using outcome_store_bounded [of "[]" 500 "''fmt''"] by simp

text \<open>While the limit leaves room for every skill and band that occurs, the store holds exactly the
  best score of each: the highest of the good outcomes, the lowest of the bad ones.\<close>

theorem outcome_store_keeps_best:
  assumes "int (card ((\<lambda>(now, a). arg_slot a) ` set rs)) \<le> m"
  shows "best_scores (record_all rs (new_outcome_store m)) = fold (\<lambda>(now, a). note_best a) rs (\<lambda>_. None)"
proof -
  have "best_scores (new_outcome_store m) = (\<lambda>_. None)"
    by (simp add: fun_eq_iff best_scores_def new_outcome_store_def)
  moreover have "best_scores (record_all rs (new_outcome_store m))
      = fold (\<lambda>(now, a). note_best a) rs (best_scores (new_outcome_store m))"
    by (rule record_all_refines [where S = "(\<lambda>(now, a). arg_slot a) ` set rs"])
      (use assms in \<open>auto simp: new_outcome_store_ok, auto simp: new_outcome_store_def\<close>)
  ultimately show ?thesis by simp
qed

definition sample_outcome :: "int \<Rightarrow> outcome_args" where
  "sample_outcome score = \<lparr>oa_skill_name = ''fmt'', oa_task_type = ''general'', oa_specification = [],
     oa_skill_content = ''text'', oa_score = score, oa_feedback = []\<rparr>"

theorem outcome_store_keeps_best_witness:
  "best_scores (record_all [(''a'', sample_outcome 80), (''b'', sample_outcome 95), (''c'', sample_outcome 30)]
     (new_outcome_store 2)) (''fmt'', True) = Some 95"
proof -
  let ?rs = "[(''a'', sample_outcome 80), (''b'', sample_outcome 95), (''c'', sample_outcome 30)]"
  have "(\<lambda>(now, a). arg_slot a) ` set ?rs = {(''fmt'', True), (''fmt'', False)}"
    by (auto simp: arg_slot_def sample_outcome_def POSITIVE_EXAMPLE_FLOOR_def)
  then have "int (card ((\<lambda>(now, a). arg_slot a) ` set ?rs)) \<le> 2" by simp
  from outcome_store_keeps_best [OF this] show ?thesis
    by (simp add: note_best_def arg_slot_def sample_outcome_def informative_def better_def
        POSITIVE_EXAMPLE_FLOOR_def NEGATIVE_EXAMPLE_CEILING_def)
qed

text \<open>The positive examples returned for a task type are its best ones, best first: no entry left
  out scores higher.\<close>

theorem retrieval_returns_best:
  assumes "0 \<le> k" and "e \<in> set (retrieve_positive_examples tt k s)"
    and "e' \<in> set (os_entries s)" and "oe_task_type e' = tt" and "oe_is_positive e'"
    and "e' \<notin> set (retrieve_positive_examples tt k s)"
  shows "oe_task_type e = tt \<and> oe_is_positive e \<and> oe_score e' \<le> oe_score e"
proof -
  let ?ys = "sort_desc recency (filter (\<lambda>e. oe_task_type e = tt \<and> oe_is_positive e) (os_entries s))"
  have r: "retrieve_positive_examples tt k s = take (nat k) ?ys"
    using assms(1) by (simp add: retrieve_positive_examples_def py_take_def)
  have "e' \<in> set ?ys" using assms(3-5) by simp
  then have "e' \<in> set (drop (nat k) ?ys)"
    using assms(6) unfolding r by (metis Un_iff append_take_drop_id set_append)
  note d = this
  have e: "e \<in> set (take (nat k) ?ys)" using assms(2) unfolding r .
  from take_sorted_dominates [OF sort_desc_sorted e d] have "recency e \<ge> recency e'" .
  moreover have "e \<in> set ?ys" using e by (rule in_set_takeD)
  ultimately show ?thesis by (auto simp: recency_def)
qed

definition two_outcomes :: outcome_store where
  "two_outcomes = \<lparr>os_max_entries = 500, os_entries =
     [outcome_of ''a'' (sample_outcome 80), outcome_of ''b'' ((sample_outcome 90)\<lparr>oa_skill_name := ''lint''\<rparr>)]\<rparr>"

theorem retrieval_returns_best_witness:
  "\<exists>e \<in> set (retrieve_positive_examples ''general'' 1 two_outcomes). 80 \<le> oe_score e"
proof -
  let ?a = "outcome_of ''a'' (sample_outcome 80)"
  let ?b = "outcome_of ''b'' ((sample_outcome 90)\<lparr>oa_skill_name := ''lint''\<rparr>)"
  have ab: "recency ?a < recency ?b"
    by (simp add: recency_def outcome_of_def sample_outcome_def)
  have "retrieve_positive_examples ''general'' 1 two_outcomes = [?b]"
    using ab by (simp add: retrieve_positive_examples_def py_take_def sort_desc_def two_outcomes_def
        insort_key_def outcome_of_def sample_outcome_def POSITIVE_EXAMPLE_FLOOR_def)
  then have b: "?b \<in> set (retrieve_positive_examples ''general'' 1 two_outcomes)"
    and a: "?a \<notin> set (retrieve_positive_examples ''general'' 1 two_outcomes)"
    by (simp_all add: outcome_of_def)
  have "oe_score ?a \<le> oe_score ?b"
    using retrieval_returns_best [OF _ b _ _ _ a]
    by (simp add: two_outcomes_def outcome_of_def sample_outcome_def POSITIVE_EXAMPLE_FLOOR_def)
  then show ?thesis using b by (auto simp: outcome_of_def sample_outcome_def intro!: bexI [OF _ b])
qed

end
