(* ===== verification/Skill_Versions.thy ===== *)
theory Skill_Versions
  imports Skill_Registry Skill_Outcomes
begin

text \<open>
  \<^verbatim>\<open>agents/skill_ab.py\<close>: the naming of skill versions, the choice between two versions of a skill
  and the promotion of the better one, over the registry and the outcome store. The first byte of
  the SHA-256 digest of the run input and the date of the day are arguments.
\<close>

section \<open>Names\<close>

text \<open>The base and the version of a name with a version suffix.\<close>

definition version_of :: "string \<Rightarrow> (string \<times> nat) option" where
  "version_of name =
     (case version_suffix (chomp name) of
        Some (base, ds) \<Rightarrow>
          if base \<noteq> [] \<and> CHR 0x0A \<notin> set base then Some (base, digits_value ds) else None
      | None \<Rightarrow> None)"

definition is_versioned_name :: "string \<Rightarrow> bool" where
  "is_versioned_name name \<longleftrightarrow> version_of name \<noteq> None"

definition base_name :: "string \<Rightarrow> string" where
  "base_name name = (case version_of name of Some (base, _) \<Rightarrow> base | None \<Rightarrow> name)"

definition versioned_name :: "string \<Rightarrow> nat \<Rightarrow> string" where
  "versioned_name base version = base @ ''__v'' @ str_nat version"

section \<open>Versions on disk\<close>

definition version_entry :: "'c files \<Rightarrow> path \<Rightarrow> string \<Rightarrow> string \<Rightarrow> (nat \<times> path) list" where
  "version_entry fs dir base name =
     (if name = ''archive'' \<or> \<not> fs_is_dir fs (dir @ [name]) \<or> \<not> fs_is_file fs (dir @ [name, SKILL_MD]) then []
      else if name = base then [(1, dir @ [name])]
      else (case version_of name of
              Some (b, v) \<Rightarrow> if b = base \<and> name = versioned_name base v then [(v, dir @ [name])] else []
            | None \<Rightarrow> []))"

definition list_versions_for :: "string \<Rightarrow> path \<Rightarrow> 'c files \<Rightarrow> path list" where
  "list_versions_for base dir fs =
     (if fs_is_dir fs dir
      then map snd (sort_key fst (concat (map (version_entry fs dir base) (fs_children fs dir))))
      else [])"

definition bucket_for_run :: "(string \<Rightarrow> nat) \<Rightarrow> string \<Rightarrow> nat \<Rightarrow> nat" where
  "bucket_for_run digest0 run_input num_buckets = digest0 run_input mod num_buckets"

definition pick_active_version :: "(string \<Rightarrow> nat) \<Rightarrow> path list \<Rightarrow> string \<Rightarrow> py_exn + path" where
  "pick_active_version digest0 candidates run_input =
     (if candidates = [] then Inl (ValueError ''pick_active_version requires at least one candidate'')
      else if length candidates = 1 \<or> run_input = [] then Inr (hd candidates)
      else Inr (candidates ! bucket_for_run digest0 run_input (length candidates)))"

definition write_candidate ::
    "skill_env \<Rightarrow> string \<Rightarrow> nat \<Rightarrow> string \<Rightarrow> string \<Rightarrow> string list \<Rightarrow> string \<Rightarrow> path \<Rightarrow> skill_world
      \<Rightarrow> (py_exn + path) \<times> skill_world" where
  "write_candidate env base version content description task_types tier parent_dir w =
     (let target = parent_dir @ [versioned_name base version] in
      case fs_mkdir target (w_files w) of
        Inl e \<Rightarrow> (Inl e, w)
      | Inr fs \<Rightarrow>
          (case fs_write (target @ [SKILL_MD]) (Text content) fs of
             Inl e \<Rightarrow> (Inl e, w\<lparr>w_files := fs\<rparr>)
           | Inr fs' \<Rightarrow>
               (case register_skill env (versioned_name base version) description tier task_types target
                   (w\<lparr>w_files := fs'\<rparr>) of
                  (Inl e, w') \<Rightarrow> (Inl e, w')
                | (Inr _, w') \<Rightarrow> (Inr target, w'))))"

section \<open>Archiving\<close>

definition archive_name :: "string \<Rightarrow> nat \<Rightarrow> string" where
  "archive_name stem k = (if k = 0 then stem else stem @ ''_'' @ str_nat k)"

lemma archive_name_inject [simp]: "archive_name stem j = archive_name stem k \<longleftrightarrow> j = k"
  by (auto simp: archive_name_def)

definition taken_from :: "'c files \<Rightarrow> path \<Rightarrow> string \<Rightarrow> nat \<Rightarrow> path set" where
  "taken_from fs dir stem k = {q \<in> set (dict_keys fs). \<exists>j \<ge> k. q = dir @ [archive_name stem j]}"

text \<open>The loop over the counter ends: only finitely many of the names are taken.\<close>

function free_slot :: "'c files \<Rightarrow> path \<Rightarrow> string \<Rightarrow> nat \<Rightarrow> path" where
  "free_slot fs dir stem k =
     (if fs_exists fs (dir @ [archive_name stem k]) then free_slot fs dir stem (Suc k)
      else dir @ [archive_name stem k])"
  by pat_completeness auto

termination
proof (relation "measure (\<lambda>(fs, dir, stem, k). card (taken_from fs dir stem k))")
  fix fs :: "'c files" and dir :: path and stem :: string and k :: nat
  assume "fs_exists fs (dir @ [archive_name stem k])"
  then have "dir @ [archive_name stem k] \<in> set (dict_keys fs)"
    by (simp add: fs_exists_def dict_has_def py_dict.keys_get)
  then have "dir @ [archive_name stem k] \<in> taken_from fs dir stem k"
    by (auto simp: taken_from_def)
  moreover have "taken_from fs dir stem (Suc k) \<subseteq> taken_from fs dir stem k"
    using Suc_leD by (force simp: taken_from_def)
  moreover have "dir @ [archive_name stem k] \<notin> taken_from fs dir stem (Suc k)"
    by (auto simp: taken_from_def)
  moreover have "finite (taken_from fs dir stem k)" by (simp add: taken_from_def)
  ultimately show "((fs, dir, stem, Suc k), (fs, dir, stem, k))
      \<in> measure (\<lambda>(fs, dir, stem, k). card (taken_from fs dir stem k))"
    by (auto intro!: psubset_card_mono)
qed simp

declare free_slot.simps [simp del]

lemma free_slot_free: "\<not> fs_exists fs (free_slot fs dir stem k)"
  by (induction fs dir stem k rule: free_slot.induct) (simp add: free_slot.simps)

lemma free_slot_name: "\<exists>j. free_slot fs dir stem k = dir @ [archive_name stem j]"
  by (induction fs dir stem k rule: free_slot.induct) (subst free_slot.simps, auto)

definition archive_loser ::
    "string \<Rightarrow> path \<Rightarrow> path \<Rightarrow> skill_world \<Rightarrow> (py_exn + path) \<times> skill_world" where
  "archive_loser today loser_dir archive_root w =
     (let fs = fs_makedirs archive_root (w_files w);
          loser_name = last loser_dir;
          target = free_slot fs archive_root (loser_name @ ''__superseded_'' @ today) 0
      in case fs_move loser_dir target fs of
           Inl e \<Rightarrow> (Inl e, w\<lparr>w_files := fs\<rparr>)
         | Inr fs' \<Rightarrow> (Inr target, unregister_skill loser_name (w\<lparr>w_files := fs'\<rparr>)))"

definition rename_winner_to_base ::
    "skill_env \<Rightarrow> path \<Rightarrow> string \<Rightarrow> string list \<Rightarrow> string \<Rightarrow> skill_world
      \<Rightarrow> (py_exn + path) \<times> skill_world" where
  "rename_winner_to_base env winner_dir description task_types tier w =
     (let old_name = last winner_dir; base = base_name old_name; target = butlast winner_dir @ [base] in
      if \<not> is_versioned_name old_name then
        (Inl (ValueError (''rename_winner_to_base: '' @ old_name @ '' is not a versioned name'')), w)
      else if fs_exists (w_files w) target then
        (Inl (FileExistsError ''Cannot rename winner: already exists''), w)
      else
        (case fs_move winner_dir target (w_files w) of
           Inl e \<Rightarrow> (Inl e, w)
         | Inr fs \<Rightarrow>
             (case register_skill env base description tier task_types target
                 (unregister_skill old_name (w\<lparr>w_files := fs\<rparr>)) of
                (Inl e, w') \<Rightarrow> (Inl e, w')
              | (Inr _, w') \<Rightarrow> (Inr target, w'))))"

section \<open>Promotion\<close>

record promotion =
  pr_base_name :: string
  pr_winner_version :: nat
  pr_loser_version :: nat
  pr_winner_avg :: real
  pr_loser_avg :: real
  pr_archived_to :: path

definition lookup_skill_metadata :: "string \<Rightarrow> skill_world \<Rightarrow> (string \<times> string list \<times> string) option" where
  "lookup_skill_metadata name w =
     (case find_tier w name of
        None \<Rightarrow> None
      | Some t \<Rightarrow> map_option (\<lambda>d. (sk_description d, sk_task_types d, tier_name t)) (dict_get (skills_in w t) name))"

definition version_number :: "string \<Rightarrow> path \<Rightarrow> nat" where
  "version_number base dir =
     (if last dir = base then 1 else case version_of (last dir) of Some (_, v) \<Rightarrow> v | None \<Rightarrow> 0)"

definition per_version_scores :: "outcome_store \<Rightarrow> string \<Rightarrow> path list \<Rightarrow> (nat, int list) py_dict" where
  "per_version_scores st base dirs =
     fold (\<lambda>d. dict_set (version_number base d) (read_outcomes_for st (last d))) dirs []"

definition version_dir :: "string \<Rightarrow> nat \<Rightarrow> path list \<Rightarrow> path option" where
  "version_dir base v dirs =
     find (\<lambda>d. v = 1 \<and> last d = base \<or> v > 1 \<and> last d = versioned_name base v) dirs"

text \<open>The better of two versions, the lower number on a tie.\<close>

definition winner_of :: "(nat, int list) py_dict \<Rightarrow> nat \<Rightarrow> nat \<Rightarrow> nat \<times> nat" where
  "winner_of scores a b =
     (let avg = (\<lambda>v. mean (dict_get_or scores v [])) in if avg b > avg a then (b, a) else (a, b))"

definition stop_iteration :: py_exn where
  "stop_iteration = OtherError ''StopIteration'' []"

definition settle_promotion ::
    "skill_env \<Rightarrow> string \<Rightarrow> string \<Rightarrow> path \<Rightarrow> (nat, int list) py_dict \<Rightarrow> path list \<Rightarrow> nat \<Rightarrow> nat
      \<Rightarrow> skill_world \<Rightarrow> (py_exn + promotion option) \<times> skill_world" where
  "settle_promotion env today base archive_root scores dirs winner loser w =
     (case (version_dir base winner dirs, version_dir base loser dirs) of
        (Some winner_dir, Some loser_dir) \<Rightarrow>
          (let meta = lookup_skill_metadata (last winner_dir) w in
           case archive_loser today loser_dir archive_root w of
             (Inl e, w1) \<Rightarrow> (Inl e, w1)
           | (Inr archived, w1) \<Rightarrow>
               (let r = \<lparr>pr_base_name = base, pr_winner_version = winner, pr_loser_version = loser,
                     pr_winner_avg = mean (dict_get_or scores winner []),
                     pr_loser_avg = mean (dict_get_or scores loser []), pr_archived_to = archived\<rparr>
                in if winner > 1 then
                     (case meta of
                        None \<Rightarrow> (Inr (Some r), w1)
                      | Some (description, task_types, tier) \<Rightarrow>
                          (case rename_winner_to_base env winner_dir description task_types tier w1 of
                             (Inl e, w2) \<Rightarrow> (Inl e, w2)
                           | (Inr _, w2) \<Rightarrow> (Inr (Some r), w2)))
                   else (Inr (Some r), w1)))
      | _ \<Rightarrow> (Inl stop_iteration, w))"

definition promote_base ::
    "skill_env \<Rightarrow> string \<Rightarrow> outcome_store \<Rightarrow> int \<Rightarrow> path \<Rightarrow> path \<Rightarrow> string \<Rightarrow> skill_world
      \<Rightarrow> (py_exn + promotion option) \<times> skill_world" where
  "promote_base env today st K skills_root archive_root base w =
     (let dirs = list_versions_for base skills_root (w_files w) in
      if length dirs < 2 then (Inr None, w)
      else
        let scores = per_version_scores st base dirs in
        if \<exists>(v, s) \<in> set scores. int (length s) < K then (Inr None, w)
        else if \<exists>(v, s) \<in> set scores. s = [] then
          (Inl (OtherError ''ZeroDivisionError'' ''division by zero''), w)
        else
          (case sort (dict_keys scores) of
             [a, b] \<Rightarrow>
               (let (winner, loser) = winner_of scores a b
                in settle_promotion env today base archive_root scores dirs winner loser w)
           | _ \<Rightarrow> (Inl (AssertionError (''maybe_promote_winners: expected exactly 2 versions for '' @ base)), w)))"

fun promote_loop ::
    "skill_env \<Rightarrow> string \<Rightarrow> outcome_store \<Rightarrow> int \<Rightarrow> path \<Rightarrow> path \<Rightarrow> string set \<Rightarrow> promotion list
      \<Rightarrow> string list \<Rightarrow> skill_world \<Rightarrow> (py_exn + promotion list) \<times> skill_world" where
  "promote_loop env today st K dir archive_root seen results [] w = (Inr results, w)"
| "promote_loop env today st K dir archive_root seen results (raw # names) w =
     (let base = base_name raw in
      if base \<in> seen then promote_loop env today st K dir archive_root seen results names w
      else case promote_base env today st K dir archive_root base w of
             (Inl e, w') \<Rightarrow> (Inl e, w')
           | (Inr None, w') \<Rightarrow> promote_loop env today st K dir archive_root (insert base seen) results names w'
           | (Inr (Some r), w') \<Rightarrow>
               promote_loop env today st K dir archive_root (insert base seen) (results @ [r]) names w')"

definition maybe_promote_winners ::
    "skill_env \<Rightarrow> string \<Rightarrow> string list \<Rightarrow> outcome_store \<Rightarrow> path \<Rightarrow> int \<Rightarrow> skill_world
      \<Rightarrow> (py_exn + promotion list) \<times> skill_world" where
  "maybe_promote_winners env today names st skills_root K w =
     promote_loop env today st K skills_root (skills_root @ [''archive'']) {} [] names w"

section \<open>Lemmas\<close>

lemma chomp_versioned [simp]: "chomp (versioned_name base v) = versioned_name base v"
proof -
  have "last (versioned_name base v) = last (str_nat v)" by (simp add: versioned_name_def)
  moreover have "is_digit (last (str_nat v))" using str_nat_digits [of v] by (metis last_in_set str_nat_nonempty)
  moreover have "\<not> is_digit (CHR 0x0A)" by (simp add: is_digit_def)
  ultimately show ?thesis by (metis chomp_def)
qed

lemma version_of_versioned:
  "base \<noteq> [] \<Longrightarrow> CHR 0x0A \<notin> set base \<Longrightarrow> version_of (versioned_name base v) = Some (base, v)"
  using version_suffix_versioned [of "str_nat v" base] str_nat_digits [of v]
  by (simp add: version_of_def) (simp add: versioned_name_def)

lemma fold_scores_values:
  "(v, s) \<in> set (fold (\<lambda>d. dict_set (version_number base d) (read_outcomes_for st (last d))) dirs d0) \<Longrightarrow>
    (v, s) \<in> set d0 \<or> (\<exists>d \<in> set dirs. version_number base d = v \<and> s = read_outcomes_for st (last d))"
proof (induction dirs arbitrary: d0)
  case (Cons d dirs)
  have upd: "(v, s) \<in> set (dict_set k x d0) \<Longrightarrow> (v, s) \<in> set d0 \<or> v = k \<and> s = x" for k x
    unfolding dict_set_def by (induction d0) (auto split: if_splits)
  from Cons.IH [of "dict_set (version_number base d) (read_outcomes_for st (last d)) d0"] Cons.prems
  show ?case using upd by auto
qed simp

lemma per_version_scores_values:
  "(v, s) \<in> set (per_version_scores st base dirs) \<Longrightarrow>
    \<exists>d \<in> set dirs. version_number base d = v \<and> s = read_outcomes_for st (last d)"
  using fold_scores_values [of v s base st dirs "[]"] by (auto simp: per_version_scores_def)

lemma fold_scores_get:
  "distinct (map (version_number base) dirs) \<Longrightarrow> d \<in> set dirs \<Longrightarrow>
    dict_get (fold (\<lambda>d. dict_set (version_number base d) (read_outcomes_for st (last d))) dirs d0)
      (version_number base d) = Some (read_outcomes_for st (last d))"
proof (induction dirs arbitrary: d0)
  case (Cons e dirs)
  have keep: "version_number base e \<notin> version_number base ` set dirs \<Longrightarrow>
      dict_get (fold (\<lambda>d. dict_set (version_number base d) (read_outcomes_for st (last d))) dirs d1)
        (version_number base e) = dict_get d1 (version_number base e)" for d1
    by (induction dirs arbitrary: d1) auto
  show ?case
  proof (cases "d = e")
    case True
    then show ?thesis using Cons.prems keep by simp
  next
    case False
    then show ?thesis using Cons by simp
  qed
qed simp

lemma dict_set_nonempty: "dict_set k v d \<noteq> []"
  by (cases d) (auto simp: dict_set_def)

lemma per_version_scores_nonempty: "dirs \<noteq> [] \<Longrightarrow> per_version_scores st base dirs \<noteq> []"
  by (cases dirs rule: rev_exhaust) (auto simp: per_version_scores_def dict_set_nonempty)

text \<open>One entry per skill and band: the quota of three or more outcomes is never met.\<close>

lemma promote_base_starves:
  assumes "outcomes_ok st" and "2 < K"
  shows "promote_base env today st K skills_root archive_root base w = (Inr None, w)"
proof (cases "length (list_versions_for base skills_root (w_files w)) < 2")
  case False
  let ?dirs = "list_versions_for base skills_root (w_files w)"
  obtain v s where vs: "(v, s) \<in> set (per_version_scores st base ?dirs)"
    using per_version_scores_nonempty [of ?dirs st base] False
    by (cases "per_version_scores st base ?dirs"; cases "?dirs = []") auto
  then have "length s \<le> 2"
    using per_version_scores_values [OF vs] read_outcomes_at_most_two [OF assms(1)] by auto
  then have "\<exists>(v, s) \<in> set (per_version_scores st base ?dirs). int (length s) < K"
    using vs assms(2) by force
  then show ?thesis using False by (simp add: promote_base_def Let_def)
qed (simp add: promote_base_def Let_def)

lemma promote_loop_starves:
  assumes "outcomes_ok st" and "2 < K"
  shows "promote_loop env today st K dir archive_root seen results names w = (Inr results, w)"
  by (induction names arbitrary: seen) (simp_all add: promote_base_starves [OF assms] Let_def)

lemma list_versions_entry:
  assumes "d \<in> set (list_versions_for base dir fs)"
  shows "\<exists>name. d = dir @ [name] \<and> name \<noteq> ''archive''
    \<and> (name = base \<or> (\<exists>v. version_of name = Some (base, v) \<and> name = versioned_name base v))"
  using assms
  by (auto simp: list_versions_for_def version_entry_def split: if_splits option.splits)
    (metis option.inject)

lemma versioned_name_inject [simp]: "versioned_name b v = versioned_name b v' \<longleftrightarrow> v = v'"
  by (simp add: versioned_name_def)

lemma versioned_name_not_base: "versioned_name base v \<noteq> base"
  using arg_cong [of "versioned_name base v" base length] by (auto simp: versioned_name_def)

lemma version_dir_sound:
  assumes "version_dir base v (list_versions_for base dir fs) = Some d"
  shows "d \<in> set (list_versions_for base dir fs) \<and> version_number base d = v"
proof -
  have d: "d \<in> set (list_versions_for base dir fs)"
    and v: "v = 1 \<and> last d = base \<or> v > 1 \<and> last d = versioned_name base v"
    using assms by (auto simp: version_dir_def find_Some_iff)
  obtain name where name: "d = dir @ [name]"
    "name = base \<or> (\<exists>v. version_of name = Some (base, v) \<and> name = versioned_name base v)"
    using list_versions_entry [OF d] by blast
  have "version_number base d = v"
    using v name versioned_name_not_base by (auto simp: version_number_def)
  with d show ?thesis by blast
qed

lemma settle_promotion_Some:
  assumes "settle_promotion env today base archive_root scores dirs winner loser w = (Inr (Some r), w')"
  obtains wd ld w1 where "version_dir base winner dirs = Some wd" "version_dir base loser dirs = Some ld"
    "archive_loser today ld archive_root w = (Inr (pr_archived_to r), w1)"
    "w' = w1 \<or> (\<exists>desc tts tier target. rename_winner_to_base env wd desc tts tier w1 = (Inr target, w'))"
    "pr_winner_version r = winner" "pr_loser_version r = loser"
    "pr_winner_avg r = mean (dict_get_or scores winner [])" "pr_loser_avg r = mean (dict_get_or scores loser [])"
proof -
  obtain wd ld where d: "version_dir base winner dirs = Some wd" "version_dir base loser dirs = Some ld"
    using assms by (auto simp: settle_promotion_def split: option.splits)
  obtain a w1 where a: "archive_loser today ld archive_root w = (Inr a, w1)"
    using assms d by (cases "archive_loser today ld archive_root w")
      (auto simp: settle_promotion_def split: sum.splits)
  have "pr_archived_to r = a
    \<and> (w' = w1 \<or> (\<exists>desc tts tier target. rename_winner_to_base env wd desc tts tier w1 = (Inr target, w')))
    \<and> pr_winner_version r = winner \<and> pr_loser_version r = loser
    \<and> pr_winner_avg r = mean (dict_get_or scores winner [])
    \<and> pr_loser_avg r = mean (dict_get_or scores loser [])"
    using assms d a
    by (auto simp: settle_promotion_def Let_def split: if_splits option.splits prod.splits sum.splits)
  then show ?thesis using that d a by blast
qed

lemma archive_loser_files:
  assumes "archive_loser today (dir @ [n]) (dir @ [''archive'']) w = (Inr a, w1)"
    and "fs_ok (w_files w)" and "n \<noteq> ''archive''"
  shows "\<exists>x. a = dir @ [''archive'', x]" and "\<not> fs_exists (w_files w) a"
    and "fs_read (w_files w1) (a @ rest) = fs_read (w_files w) (dir @ [n] @ rest)"
    and "fs_exists (w_files w1) (dir @ [''archive''])"
proof -
  let ?fs = "fs_makedirs (dir @ [''archive'']) (w_files w)"
  let ?stem = "n @ ''__superseded_'' @ today"
  have a: "a = free_slot ?fs (dir @ [''archive'']) ?stem 0"
    and m: "\<exists>fs'. fs_move (dir @ [n]) a ?fs = Inr fs' \<and> w_files w1 = fs'"
    using assms(1)
    by (auto simp: archive_loser_def Let_def unregister_skill_def split: sum.splits option.splits)
  obtain j where j: "a = dir @ [''archive'', archive_name ?stem j]"
    using free_slot_name [of ?fs "dir @ [''archive'']" ?stem 0] a by auto
  then show "\<exists>x. a = dir @ [''archive'', x]" by blast
  have free: "\<not> fs_exists ?fs a" unfolding a by (rule free_slot_free)
  then show "\<not> fs_exists (w_files w) a"
    by (auto simp: fs_exists_def dict_has_def fs_makedirs_get split: if_splits)
  have clear: "fs_clear a ?fs" using free assms(2) by (intro fs_ok_clear fs_makedirs_ok)
  have p: "\<not> prefix (dir @ [n]) a" "\<not> prefix a (dir @ [n])" using j assms(3) by (auto simp: prefix_def)
  obtain fs' where fs': "fs_move (dir @ [n]) a ?fs = Inr fs'" "w_files w1 = fs'" using m by blast
  show "fs_read (w_files w1) (a @ rest) = fs_read (w_files w) (dir @ [n] @ rest)"
    using fs_read_move(1) [OF fs'(1) clear p, of rest] fs'(2) by simp
  have "dict_get fs' (dir @ [''archive'']) = dict_get ?fs (dir @ [''archive''])"
    using j assms(3) by (intro dict_get_move_other [OF fs'(1)]) (auto simp: prefix_def)
  then show "fs_exists (w_files w1) (dir @ [''archive''])"
    using fs'(2) by (auto simp: fs_exists_def dict_has_def fs_makedirs_get)
qed

lemma register_skill_files:
  "register_skill env name desc tier tts p w = (r, w') \<Longrightarrow> q \<noteq> p @ [METADATA] \<Longrightarrow>
    fs_read (w_files w') q = fs_read (w_files w) q"
  by (auto simp: register_skill_def Let_def write_metadata_def fs_read_write_other
      split: option.splits sum.splits if_splits prod.splits)

lemma unregister_files [simp]: "w_files (unregister_skill name w) = w_files w"
  by (simp add: unregister_skill_def Let_def split: option.splits)

lemma rename_winner_files:
  assumes "rename_winner_to_base env (dir @ [n]) desc tts tier w = (Inr target, w')"
    and "fs_exists (w_files w) (dir @ [''archive''])" and "n \<noteq> ''archive''"
  shows "fs_read (w_files w') (dir @ [''archive''] @ rest) = fs_read (w_files w) (dir @ [''archive''] @ rest)"
proof -
  let ?t = "dir @ [base_name n]"
  obtain fs where mv: "\<not> fs_exists (w_files w) ?t" "fs_move (dir @ [n]) ?t (w_files w) = Inr fs"
    and reg: "\<exists>m. register_skill env (base_name n) desc tier tts ?t (unregister_skill n (w\<lparr>w_files := fs\<rparr>)) = (Inr m, w')"
    using assms(1) by (auto simp: rename_winner_to_base_def Let_def split: if_splits sum.splits prod.splits)
  have ne: "base_name n \<noteq> ''archive''" using mv(1) assms(2) by auto
  have "fs_read (w_files w') (dir @ [''archive''] @ rest) = fs_read fs (dir @ [''archive''] @ rest)"
    using reg ne by (auto simp: register_skill_files)
  also have "\<dots> = fs_read (w_files w) (dir @ [''archive''] @ rest)"
    unfolding fs_read_def using ne assms(3)
    by (subst dict_get_move_other [OF mv(2)]) (auto simp: prefix_def)
  finally show ?thesis .
qed

section \<open>Properties\<close>

text \<open>Every version of a skill name is recognised as that version of that name.\<close>

theorem version_name_roundtrip:
  assumes "base \<noteq> []" and "CHR 0x0A \<notin> set base"
  shows "base_name (versioned_name base v) = base \<and> is_versioned_name (versioned_name base v)
    \<and> version_of (versioned_name base v) = Some (base, v)"
  using version_of_versioned [OF assms] by (simp add: base_name_def is_versioned_name_def)

theorem version_name_roundtrip_witness: "base_name (versioned_name ''fmt'' 2) = ''fmt''"
  using version_name_roundtrip [of "''fmt''" 2] by simp

text \<open>However many outcomes are recorded, no version of a skill is ever promoted or archived when the
  quota per version is three or more: the store keeps at most two outcomes per skill. The cleanup
  asks for ten.\<close>

theorem ab_promotion_never_fires:
  assumes "3 \<le> K"
  shows "maybe_promote_winners env today names (record_all rs (new_outcome_store m)) skills_root K w = (Inr [], w)"
proof -
  have "outcomes_ok (record_all rs (new_outcome_store m))"
    by (intro record_all_ok new_outcome_store_ok)
  then show ?thesis
    using assms promote_loop_starves [of _ K] by (simp add: maybe_promote_winners_def)
qed

text \<open>Two versions of a skill in the local tier.\<close>

definition two_versions :: skill_world where
  "two_versions = \<lparr>w_files = [([''local''], Dir), ([''local'', ''fmt''], Dir),
       ([''local'', ''fmt'', ''SKILL.md''], File (Text ''use tabs'')),
       ([''local'', ''fmt__v2''], Dir), ([''local'', ''fmt__v2'', ''SKILL.md''], File (Text ''use spaces''))],
     w_index = (\<lambda>_. []), w_security = \<lparr>ss_require_approval = False, ss_pending = [], ss_hashes = []\<rparr>,
     w_workspace = []\<rparr>"

theorem ab_promotion_never_fires_witness:
  "maybe_promote_winners sample_env ''20260501'' [''fmt'']
     (record_all [(''t'', sample_outcome 80), (''u'', sample_outcome 95)] (new_outcome_store 500))
     [''local''] 10 two_versions = (Inr [], two_versions)"
  by (rule ab_promotion_never_fires) simp

text \<open>A promotion is earned and loses nothing: both versions have their quota of outcomes, the
  winner's average is at least the loser's (the older version wins a tie), and every file of the
  loser is found unchanged in an archive directory that did not exist before.\<close>

theorem promotion_is_earned:
  assumes "promote_base env today st K dir (dir @ [''archive'']) base w = (Inr (Some r), w')"
    and "distinct (map (version_number base) (list_versions_for base dir (w_files w)))"
    and "fs_ok (w_files w)"
  shows "\<exists>wd \<in> set (list_versions_for base dir (w_files w)). \<exists>ld \<in> set (list_versions_for base dir (w_files w)).
      version_number base wd = pr_winner_version r \<and> version_number base ld = pr_loser_version r
      \<and> K \<le> int (length (read_outcomes_for st (last wd))) \<and> K \<le> int (length (read_outcomes_for st (last ld)))
      \<and> pr_winner_avg r = mean (read_outcomes_for st (last wd))
      \<and> pr_loser_avg r = mean (read_outcomes_for st (last ld))
      \<and> (pr_loser_avg r < pr_winner_avg r
         \<or> pr_loser_avg r = pr_winner_avg r \<and> pr_winner_version r < pr_loser_version r)
      \<and> \<not> fs_exists (w_files w) (pr_archived_to r)
      \<and> (\<forall>rest. fs_read (w_files w') (pr_archived_to r @ rest) = fs_read (w_files w) (ld @ rest))"
proof -
  let ?dirs = "list_versions_for base dir (w_files w)"
  let ?scores = "per_version_scores st base ?dirs"
  obtain a b where keys: "sort (dict_keys ?scores) = [a, b]"
    and settle: "settle_promotion env today base (dir @ [''archive'']) ?scores ?dirs
        (fst (winner_of ?scores a b)) (snd (winner_of ?scores a b)) w = (Inr (Some r), w')"
    and quota: "\<And>v s. (v, s) \<in> set ?scores \<Longrightarrow> K \<le> int (length s)"
    using assms(1)
    by (fastforce simp: promote_base_def Let_def split: if_splits list.splits prod.splits)
  have "dict_ok ?scores"
    unfolding per_version_scores_def
    by (rule fold_invariant [where P = dict_ok and Q = "\<lambda>_. True"]) (simp_all, simp add: dict_ok_def)
  then have "distinct (sort (dict_keys ?scores))" by (simp add: dict_ok_def dict_keys_def)
  moreover have "sorted (sort (dict_keys ?scores))" by simp
  ultimately have ab: "a < b" unfolding keys by simp
  obtain wd ld w1 where s: "version_dir base (fst (winner_of ?scores a b)) ?dirs = Some wd"
    "version_dir base (snd (winner_of ?scores a b)) ?dirs = Some ld"
    "archive_loser today ld (dir @ [''archive'']) w = (Inr (pr_archived_to r), w1)"
    "w' = w1 \<or> (\<exists>desc tts tier target. rename_winner_to_base env wd desc tts tier w1 = (Inr target, w'))"
    "pr_winner_version r = fst (winner_of ?scores a b)" "pr_loser_version r = snd (winner_of ?scores a b)"
    "pr_winner_avg r = mean (dict_get_or ?scores (fst (winner_of ?scores a b)) [])"
    "pr_loser_avg r = mean (dict_get_or ?scores (snd (winner_of ?scores a b)) [])"
    by (rule settle_promotion_Some [OF settle])
  note wd = version_dir_sound [OF s(1)] and ld = version_dir_sound [OF s(2)]
  have get: "dict_get ?scores (version_number base d) = Some (read_outcomes_for st (last d))" if "d \<in> set ?dirs" for d
    unfolding per_version_scores_def using assms(2) that by (rule fold_scores_get)
  have avgs: "pr_winner_avg r = mean (read_outcomes_for st (last wd))" "pr_loser_avg r = mean (read_outcomes_for st (last ld))"
    using get [of wd] get [of ld] wd ld s(7,8) by (auto simp: dict_get_or_def)
  have q: "K \<le> int (length (read_outcomes_for st (last d)))" if "d \<in> set ?dirs" for d
    using quota [of "version_number base d"] get [OF that] by (auto simp: dict_get_def dest: map_of_SomeD)
  have order: "pr_loser_avg r < pr_winner_avg r
      \<or> pr_loser_avg r = pr_winner_avg r \<and> pr_winner_version r < pr_loser_version r"
    using ab unfolding s(5-8) by (auto simp: winner_of_def Let_def)
  obtain n where n: "ld = dir @ [n]" "n \<noteq> ''archive''" using list_versions_entry ld by blast
  obtain m where m: "wd = dir @ [m]" "m \<noteq> ''archive''" using list_versions_entry wd by blast
  note arch = archive_loser_files [OF s(3) [unfolded n(1)] assms(3) n(2)]
  obtain x where x: "pr_archived_to r = dir @ [''archive'', x]" using arch(1) by blast
  have "fs_read (w_files w') (pr_archived_to r @ rest) = fs_read (w_files w) (ld @ rest)" for rest
  proof -
    have "fs_read (w_files w') (pr_archived_to r @ rest) = fs_read (w_files w1) (pr_archived_to r @ rest)"
      using s(4) rename_winner_files [OF _ arch(4) m(2), of env _ _ _ _ w' "x # rest"] x m(1) by auto
    then show ?thesis using arch(3) n(1) by simp
  qed
  with wd ld s(5,6) q avgs order arch(2) show ?thesis
    by (intro bexI [of _ wd] bexI [of _ ld]) auto
qed

definition two_scores :: outcome_store where
  "two_scores = \<lparr>os_max_entries = 500, os_entries =
     [outcome_of ''t'' (sample_outcome 80), outcome_of ''u'' ((sample_outcome 95)\<lparr>oa_skill_name := ''fmt__v2''\<rparr>)]\<rparr>"

lemma versioned_fmt: "versioned_name ''fmt'' 2 = ''fmt__v2''"
proof -
  have "str_nat 2 = ''2''" by (simp add: str_nat.simps) code_simp
  then show ?thesis by (simp add: versioned_name_def)
qed

lemma two_versions_listed:
  "list_versions_for ''fmt'' [''local''] (w_files two_versions) = [[''local'', ''fmt''], [''local'', ''fmt__v2'']]"
proof -
  note v2 = versioned_fmt
  have v: "version_of ''fmt__v2'' = Some (''fmt'', 2)"
    using version_of_versioned [of "''fmt''" 2] unfolding v2 by simp
  have c: "fs_children (w_files two_versions) [''local''] = [''fmt'', ''fmt__v2'']"
    by (simp add: fs_children_def two_versions_def dict_keys_def)
  have "version_entry (w_files two_versions) [''local''] ''fmt'' ''fmt'' = [(1, [''local'', ''fmt''])]"
    "version_entry (w_files two_versions) [''local''] ''fmt'' ''fmt__v2'' = [(2, [''local'', ''fmt__v2''])]"
    using v v2 by (simp_all add: version_entry_def two_versions_def fs_is_dir_def fs_is_file_def fs_read_def
        dict_get_def SKILL_MD_def)
  moreover have "fs_is_dir (w_files two_versions) [''local'']"
    by (simp add: fs_is_dir_def two_versions_def dict_get_def)
  ultimately show ?thesis by (simp add: list_versions_for_def c del: One_nat_def)
qed

lemma two_versions_ok: "fs_ok (w_files two_versions)"
  by (auto simp: fs_ok_def two_versions_def dict_has_def dict_get_def fs_exists_def prefix_Cons split: if_splits)

theorem promotion_is_earned_witness:
  "\<exists>r w'. promote_base sample_env ''d'' two_scores 1 [''local''] [''local'', ''archive''] ''fmt'' two_versions
      = (Inr (Some r), w') \<and> pr_loser_avg r \<le> pr_winner_avg r \<and> \<not> fs_exists (w_files two_versions) (pr_archived_to r)"
proof -
  have v: "version_of ''fmt__v2'' = Some (''fmt'', 2)"
    using version_of_versioned [of "''fmt''" 2] unfolding versioned_fmt by simp
  have numbers: "version_number ''fmt'' [''local'', ''fmt''] = 1" "version_number ''fmt'' [''local'', ''fmt__v2''] = 2"
    using v by (simp_all add: version_number_def)
  have reads: "read_outcomes_for two_scores ''fmt'' = [80]" "read_outcomes_for two_scores ''fmt__v2'' = [95]"
    by (simp_all add: read_outcomes_for_def two_scores_def outcome_of_def sample_outcome_def)
  have scores: "per_version_scores two_scores ''fmt'' [[''local'', ''fmt''], [''local'', ''fmt__v2'']] = [(1, [80]), (2, [95])]"
    by (simp add: per_version_scores_def numbers reads dict_set_def del: One_nat_def)
  have win: "winner_of [(1, [80]), (2, [95])] 1 2 = (2, 1)"
    by (simp add: winner_of_def dict_get_or_def dict_get_def mean_def)
  have dirs: "version_dir ''fmt'' 2 [[''local'', ''fmt''], [''local'', ''fmt__v2'']] = Some [''local'', ''fmt__v2'']"
    "version_dir ''fmt'' 1 [[''local'', ''fmt''], [''local'', ''fmt__v2'']] = Some [''local'', ''fmt'']"
    by (simp_all add: version_dir_def versioned_fmt)
  have meta: "lookup_skill_metadata ''fmt__v2'' two_versions = None"
    by (simp add: lookup_skill_metadata_def find_tier_def skills_in_def two_versions_def dict_has_def)
  let ?fs = "fs_makedirs [''local'', ''archive''] (w_files two_versions)"
  have "dict_has ?fs [''local'', ''fmt'']"
    by (simp add: dict_has_def fs_makedirs_get) (simp add: two_versions_def dict_get_def)
  then obtain a w1 where arch: "archive_loser ''d'' [''local'', ''fmt''] [''local'', ''archive''] two_versions = (Inr a, w1)"
    by (simp add: archive_loser_def Let_def fs_move_def)
  obtain r w' where run: "promote_base sample_env ''d'' two_scores 1 [''local''] [''local'', ''archive''] ''fmt'' two_versions
      = (Inr (Some r), w')"
    by (simp add: promote_base_def two_versions_listed scores dict_keys_def win settle_promotion_def dirs meta arch
        Let_def del: One_nat_def)
  have "distinct (map (version_number ''fmt'') (list_versions_for ''fmt'' [''local''] (w_files two_versions)))"
    by (simp add: two_versions_listed numbers)
  from promotion_is_earned [of sample_env _ two_scores 1 "[''local'']", simplified, OF run this two_versions_ok] run
  show ?thesis by auto
qed

text \<open>The cleanup that runs after a promotion sweeps the archive of the temp tier away: it is a
  directory the index does not list.\<close>

lemma cleanup_deletes_archive:
  assumes "fs_is_dir (w_files w) (tier_dir Temp)"
    and "\<not> dict_has (skills_in (cleanup_temp env w) Temp) ''archive''"
  shows "\<not> fs_is_dir (w_files (cleanup_temp env w)) (tier_dir Temp @ [''archive''])"
  using cleanup_no_orphans [OF assms(1)] assms(2) by blast

end
