(* ===== verification/Skill_Cleanup.thy ===== *)
theory Skill_Cleanup
  imports Skill_Versions Agent_State
begin

text \<open>
  \<^verbatim>\<open>agents/skill_cleanup.py\<close>: the node that ends a run - usage tracking, outcome recording,
  promotion of A/B winners, the regression monitor of prompt overrides and eviction - over the
  registry's world and the outcome store. The override files are given as a list; filing an issue
  is an argument.
\<close>

section \<open>Scores and feedback per skill\<close>

definition nonempty :: "string option \<Rightarrow> string option" where
  "nonempty x = (if x = Some [] then None else x)"

definition note_task_skill :: "json_obj \<Rightarrow> (string, string) py_dict \<Rightarrow> (string, string) py_dict" where
  "note_task_skill e d =
     (case (nonempty (dict_get e ''skill_name''), nonempty (dict_get e ''task_type'')) of
        (Some name, Some task_type) \<Rightarrow> dict_set task_type name d
      | _ \<Rightarrow> d)"

definition task_to_skill :: "agent_state \<Rightarrow> (string, string) py_dict" where
  "task_to_skill s = fold note_task_skill (opt_or (discovered_skills s) []) []"

text \<open>A sub-task without a task type looks up the key \<open>None\<close>, which is never set.\<close>

definition skill_of_task :: "(string, string) py_dict \<Rightarrow> sub_task \<Rightarrow> string option" where
  "skill_of_task d t = nonempty (case t_task_type t of None \<Rightarrow> None | Some tt \<Rightarrow> dict_get d tt)"

definition build_subtask_score_map :: "agent_state \<Rightarrow> (string, int) py_dict" where
  "build_subtask_score_map s =
     fold (\<lambda>t m. case skill_of_task (task_to_skill s) t of
             Some name \<Rightarrow> if opt_or (t_output_score t) 0 > 0 then dict_set name (opt_or (t_output_score t) 0) m else m
           | None \<Rightarrow> m)
       (opt_or (sub_tasks s) []) []"

definition build_subtask_feedback_map :: "agent_state \<Rightarrow> (string, string) py_dict" where
  "build_subtask_feedback_map s =
     fold (\<lambda>t m. case skill_of_task (task_to_skill s) t of
             Some name \<Rightarrow> if opt_or (t_output_feedback t) [] \<noteq> [] then dict_set name (opt_or (t_output_feedback t) []) m else m
           | None \<Rightarrow> m)
       (opt_or (sub_tasks s) []) []"

definition build_skill_to_task_type_map :: "agent_state \<Rightarrow> (string, string) py_dict" where
  "build_skill_to_task_type_map s =
     fold (\<lambda>e d. case (nonempty (dict_get e ''skill_name''), nonempty (dict_get e ''task_type'')) of
             (Some name, Some task_type) \<Rightarrow> dict_set name task_type d
           | _ \<Rightarrow> d)
       (opt_or (discovered_skills s) []) []"

section \<open>Usage and outcomes\<close>

fun track_skill_usage ::
    "skill_env \<Rightarrow> (string, int) py_dict \<Rightarrow> int \<Rightarrow> string list \<Rightarrow> skill_world \<Rightarrow> (py_exn + unit) \<times> skill_world" where
  "track_skill_usage env scores fallback [] w = (Inr (), w)"
| "track_skill_usage env scores fallback (n # ns) w =
     (case track_usage env n (dict_get_or scores n fallback) w of
        (Inl e, w') \<Rightarrow> (Inl e, w')
      | (Inr _, w') \<Rightarrow> track_skill_usage env scores fallback ns w')"

text \<open>The last loaded skill of a name counts.\<close>

definition loaded_content :: "agent_state \<Rightarrow> string \<Rightarrow> string" where
  "loaded_content s name =
     (case filter (\<lambda>l. ls_name l = Some name) (rev (opt_or (loaded_skills s) [])) of
        [] \<Rightarrow> []
      | l # _ \<Rightarrow> opt_or (ls_content l) [])"

definition record_skill_outcome ::
    "string \<Rightarrow> agent_state \<Rightarrow> string \<Rightarrow> outcome_store \<Rightarrow> outcome_store" where
  "record_skill_outcome now s name st =
     (let score = dict_get_or (build_subtask_score_map s) name (opt_or (output_critic_score s) 0);
          feedback = dict_get_or (build_subtask_feedback_map s) name (opt_or (output_critic_feedback s) []);
          content = loaded_content s name
      in if score = 0 \<or> content = [] then st
         else record_outcome now
           \<lparr>oa_skill_name = name, oa_task_type = dict_get_or (build_skill_to_task_type_map s) name ''general'',
            oa_specification = opt_or (spec_text s) [], oa_skill_content = content,
            oa_score = score, oa_feedback = feedback\<rparr> st)"

definition record_outcomes :: "string \<Rightarrow> agent_state \<Rightarrow> outcome_store option \<Rightarrow> outcome_store option" where
  "record_outcomes now s st =
     map_option (fold (record_skill_outcome now s) (opt_or (skills_in_use s) [])) st"

section \<open>Promotion\<close>

definition AB_QUOTA :: int where
  "AB_QUOTA = 10"

text \<open>A failure in one tier is logged and what it did stays.\<close>

fun promote_in_tiers ::
    "skill_env \<Rightarrow> string \<Rightarrow> string list \<Rightarrow> outcome_store \<Rightarrow> skill_tier list \<Rightarrow> skill_world
      \<Rightarrow> promotion list \<times> skill_world" where
  "promote_in_tiers env today names st [] w = ([], w)"
| "promote_in_tiers env today names st (t # ts) w =
     (let (r, w') = maybe_promote_winners env today names st (tier_dir t) AB_QUOTA w;
          (ps, w'') = promote_in_tiers env today names st ts w'
      in ((case r of Inl _ \<Rightarrow> [] | Inr p \<Rightarrow> p) @ ps, w''))"

definition promote_ab_winners ::
    "skill_env \<Rightarrow> string \<Rightarrow> string list \<Rightarrow> outcome_store \<Rightarrow> skill_world \<Rightarrow> promotion list \<times> skill_world" where
  "promote_ab_winners env today names st w = promote_in_tiers env today names st [Temp, Local, Official] w"

section \<open>Regressions of prompt overrides\<close>

definition REGRESSION_THRESHOLD :: real where "REGRESSION_THRESHOLD = 8"
definition REGRESSION_DEDUP_DAYS :: real where "REGRESSION_DEDUP_DAYS = 30"
definition REGRESSION_ROLLING_K :: int where "REGRESSION_ROLLING_K = 20"

record override_file =
  ov_task_type :: string
  ov_stem :: string
  ov_decayed :: bool
  ov_superseded :: bool
  ov_baseline :: "string option"

text \<open>A line of the alert log: the override and the day it was filed, if that parses.\<close>

type_synonym alert_log = "(string \<times> real option) list"

definition already_alerted_recently :: "real \<Rightarrow> alert_log \<Rightarrow> string \<Rightarrow> bool" where
  "already_alerted_recently today alerts override_id \<longleftrightarrow>
     (\<exists>(i, filed) \<in> set alerts. i = override_id
        \<and> (case filed of None \<Rightarrow> False | Some d \<Rightarrow> d > today - REGRESSION_DEDUP_DAYS))"

text \<open>The store class has no method \<^verbatim>\<open>rolling_avg_for_task_type\<close>.\<close>

definition rolling_avg_for_task_type :: "outcome_store \<Rightarrow> string \<Rightarrow> int \<Rightarrow> py_exn + real option" where
  "rolling_avg_for_task_type st task_type k =
     Inl (OtherError ''AttributeError'' ''SkillOutcomeStore object has no attribute rolling_avg_for_task_type'')"

definition rolling_avg_for :: "outcome_store option \<Rightarrow> string \<Rightarrow> int \<Rightarrow> real option" where
  "rolling_avg_for st task_type k =
     (case st of
        None \<Rightarrow> None
      | Some s \<Rightarrow> (case rolling_avg_for_task_type s task_type k of Inl _ \<Rightarrow> None | Inr r \<Rightarrow> r))"

text \<open>The second word of the baseline file as a number.\<close>

definition baseline_score :: "(string \<Rightarrow> real option) \<Rightarrow> string option \<Rightarrow> real option" where
  "baseline_score to_float b =
     (case b of
        None \<Rightarrow> None
      | Some t \<Rightarrow>
          (let s = py_strip t in
           if CHR '' '' \<in> set s then to_float (snd (py_partition (CHR '' '') s)) else None))"

definition regressing ::
    "(string \<Rightarrow> real option) \<Rightarrow> (string \<Rightarrow> int \<Rightarrow> real option) \<Rightarrow> real \<Rightarrow> alert_log \<Rightarrow> override_file \<Rightarrow> bool" where
  "regressing to_float rolling today alerts o1 \<longleftrightarrow>
     \<not> ov_decayed o1 \<and> \<not> ov_superseded o1
     \<and> \<not> already_alerted_recently today alerts (ov_stem o1)
     \<and> (case (baseline_score to_float (ov_baseline o1), rolling (ov_task_type o1) REGRESSION_ROLLING_K) of
          (Some base, Some current) \<Rightarrow> base - current > REGRESSION_THRESHOLD
        | _ \<Rightarrow> False)"

text \<open>\<open>file_issue\<close>: whether an issue could be filed for the override; an alert that is filed is logged
  and found by the later files.\<close>

fun check_override_regressions ::
    "(string \<Rightarrow> real option) \<Rightarrow> (string \<Rightarrow> int \<Rightarrow> real option) \<Rightarrow> (override_file \<Rightarrow> bool) \<Rightarrow> real
      \<Rightarrow> override_file list \<Rightarrow> alert_log \<Rightarrow> alert_log" where
  "check_override_regressions to_float rolling file_issue today [] alerts = alerts"
| "check_override_regressions to_float rolling file_issue today (o1 # os) alerts =
     check_override_regressions to_float rolling file_issue today os
       (if regressing to_float rolling today alerts o1 \<and> file_issue o1
        then alerts @ [(ov_stem o1, Some today)] else alerts)"

section \<open>The node\<close>

record cleanup_env =
  ce_skills :: skill_env
  ce_today :: string
  ce_day :: real
  ce_to_float :: "string \<Rightarrow> real option"
  ce_file_issue :: "override_file \<Rightarrow> bool"
  ce_overrides :: "override_file list"

record cleanup_world =
  cw_skills :: skill_world
  cw_outcomes :: "outcome_store option"
  cw_alerts :: alert_log

definition finish_cleanup :: "cleanup_env \<Rightarrow> agent_state \<Rightarrow> cleanup_world \<Rightarrow> agent_state \<times> cleanup_world" where
  "finish_cleanup env s w =
     (s\<lparr>skills_cleaned_up := Some True\<rparr>,
      w\<lparr>cw_skills := clear_workspace (cleanup_temp (ce_skills env) (cw_skills w))\<rparr>)"

definition execute_cleanup ::
    "cleanup_env \<Rightarrow> agent_state \<Rightarrow> cleanup_world \<Rightarrow> (py_exn + agent_state) \<times> cleanup_world" where
  "execute_cleanup env s w =
     (let names = opt_or (skills_in_use s) [] in
      if names = [] then (let (s', w') = finish_cleanup env s w in (Inr s', w'))
      else
        (case track_skill_usage (ce_skills env) (build_subtask_score_map s) (opt_or (output_critic_score s) 0)
             names (cw_skills w) of
           (Inl e, sw) \<Rightarrow> (Inl e, w\<lparr>cw_skills := sw\<rparr>)
         | (Inr _, sw) \<Rightarrow>
             (let st = record_outcomes (en_now (ce_skills env)) s (cw_outcomes w);
                  sw' = (case st of
                           None \<Rightarrow> sw
                         | Some store \<Rightarrow> snd (promote_ab_winners (ce_skills env) (ce_today env) names store sw));
                  alerts = check_override_regressions (ce_to_float env) (rolling_avg_for st) (ce_file_issue env)
                      (ce_day env) (ce_overrides env) (cw_alerts w);
                  (s', w') = finish_cleanup env s \<lparr>cw_skills = sw', cw_outcomes = st, cw_alerts = alerts\<rparr>
              in (Inr s', w'))))"

section \<open>Lemmas\<close>

lemma promote_in_tiers_starves:
  assumes "outcomes_ok st"
  shows "promote_in_tiers env today names st ts w = ([], w)"
  by (induction ts)
    (simp_all add: maybe_promote_winners_def promote_loop_starves [OF assms] AB_QUOTA_def)

lemma rolling_avg_for_None [simp]: "rolling_avg_for st task_type k = None"
  by (simp add: rolling_avg_for_def rolling_avg_for_task_type_def split: option.splits)

lemma no_rolling_no_alert:
  assumes "\<And>tt k. rolling tt k = None"
  shows "check_override_regressions to_float rolling file_issue today os alerts = alerts"
  using assms by (induction os arbitrary: alerts) (simp_all add: regressing_def split: option.splits)

lemma record_outcomes_ok:
  assumes "outcomes_ok st"
  shows "outcomes_ok (fold (record_skill_outcome now s) names st)"
  using assms
  by (induction names arbitrary: st) (simp_all add: record_skill_outcome_def record_outcome_ok Let_def)

section \<open>Properties\<close>

text \<open>The cleanup of a run never promotes a version and never files a regression alert: tracking and
  eviction are all that changes the skills, and the alert log stays as it was.\<close>

theorem cleanup_has_no_feedback_loop:
  assumes "execute_cleanup env s w = (Inr s', w')"
    and "cw_outcomes w = Some st" and "outcomes_ok st"
  shows "cw_alerts w' = cw_alerts w
    \<and> cw_skills w' = clear_workspace (cleanup_temp (ce_skills env)
        (if opt_or (skills_in_use s) [] = [] then cw_skills w
         else snd (track_skill_usage (ce_skills env) (build_subtask_score_map s)
           (opt_or (output_critic_score s) 0) (opt_or (skills_in_use s) []) (cw_skills w))))
    \<and> skills_cleaned_up s' = Some True"
proof (cases "opt_or (skills_in_use s) [] = []")
  case True
  then show ?thesis using assms(1) by (auto simp: execute_cleanup_def finish_cleanup_def)
next
  case False
  let ?names = "opt_or (skills_in_use s) []"
  let ?t = "track_skill_usage (ce_skills env) (build_subtask_score_map s) (opt_or (output_critic_score s) 0)
      ?names (cw_skills w)"
  obtain sw where sw: "?t = (Inr (), sw)"
    using assms(1) False by (cases ?t; cases "fst ?t") (auto simp: execute_cleanup_def Let_def)
  let ?st = "fold (record_skill_outcome (en_now (ce_skills env)) s) ?names st"
  have st: "record_outcomes (en_now (ce_skills env)) s (cw_outcomes w) = Some ?st"
    using assms(2) by (simp add: record_outcomes_def)
  have pr: "promote_ab_winners (ce_skills env) (ce_today env) ?names ?st sw = ([], sw)"
    unfolding promote_ab_winners_def by (rule promote_in_tiers_starves [OF record_outcomes_ok [OF assms(3)]])
  have al: "check_override_regressions (ce_to_float env) (rolling_avg_for x) (ce_file_issue env)
      (ce_day env) (ce_overrides env) (cw_alerts w) = cw_alerts w" for x
    by (rule no_rolling_no_alert) simp
  show ?thesis
    using assms(1) False by (auto simp: execute_cleanup_def sw st pr al finish_cleanup_def)
qed

definition quiet_env :: cleanup_env where
  "quiet_env = \<lparr>ce_skills = sample_env, ce_today = ''20260501'', ce_day = 100, ce_to_float = (\<lambda>_. Some 90),
     ce_file_issue = (\<lambda>_. True), ce_overrides = []\<rparr>"

theorem cleanup_has_no_feedback_loop_witness:
  "\<exists>s' w'. execute_cleanup quiet_env empty_state
      \<lparr>cw_skills = sample_world, cw_outcomes = Some (new_outcome_store 500), cw_alerts = []\<rparr> = (Inr s', w')
    \<and> cw_alerts w' = []"
proof -
  let ?w = "\<lparr>cw_skills = sample_world, cw_outcomes = Some (new_outcome_store 500), cw_alerts = []\<rparr>"
  obtain s' w' where run: "execute_cleanup quiet_env empty_state ?w = (Inr s', w')"
    by (simp add: execute_cleanup_def finish_cleanup_def empty_state_def)
  from cleanup_has_no_feedback_loop [OF run, of "new_outcome_store 500"] run show ?thesis
    by (simp add: new_outcome_store_ok)
qed

text \<open>With a rolling average the monitor would alert: the check itself is not vacuous.\<close>

lemma monitor_alerts_on_drop:
  assumes "regressing to_float rolling today alerts o1" and "file_issue o1"
  shows "check_override_regressions to_float rolling file_issue today [o1] alerts = alerts @ [(ov_stem o1, Some today)]"
  using assms by simp

text \<open>A skill the critic did not evaluate in this run leaves no outcome, whatever was recorded before.\<close>

lemma unevaluated_skill_leaves_no_outcome:
  assumes "dict_get_or (build_subtask_score_map s) name (opt_or (output_critic_score s) 0) = 0"
  shows "record_skill_outcome now s name st = st"
  using assms by (simp add: record_skill_outcome_def Let_def)

end
