(* ===== verification/Upgrade_Signals.thy ===== *)
theory Upgrade_Signals
  imports Agent_State Py_Strings
begin

text \<open>
  \<^verbatim>\<open>agents/self_upgrade_trigger.py\<close>: the signals a finished run gives, their accumulation per task
  type in memory and in the JSONL file, and the proposals they lead to. The file is the list of its
  entries (only this class writes it); generated ids come from a counter; \<open>re_search\<close> is
  \<open>re.search\<close> without case.
\<close>

section \<open>Signals and detectors\<close>

definition POOR_SCORE_THRESHOLD :: int where "POOR_SCORE_THRESHOLD = 60"
definition TOOL_FAILURE_THRESHOLD :: int where "TOOL_FAILURE_THRESHOLD = 2"
definition ITERATION_EXHAUSTION_SCORE :: int where "ITERATION_EXHAUSTION_SCORE = 70"
definition MIN_SIGNALS_TO_PROPOSE :: int where "MIN_SIGNALS_TO_PROPOSE = 3"

record upgrade_signal =
  us_category :: string
  us_task_type :: string
  us_detail :: string
  us_score :: int
  us_source_node :: string
  us_id :: string
  us_artifact_ref :: "string option"

record trigger_analysis =
  an_signals :: "upgrade_signal list"
  an_should_propose :: bool
  an_description :: string
  an_rationale :: string
  an_target_files :: "string list"

record trigger =
  tg_poor_score :: int
  tg_tool_failures :: int
  tg_min_signals :: int
  tg_history :: "(string, upgrade_signal list) py_dict"
  tg_store :: "upgrade_signal list option" \<comment> \<open>\<open>None\<close>: no file yet\<close>
  tg_next_id :: nat

text \<open>A detected signal before it gets its id.\<close>

definition signal :: "string \<Rightarrow> string \<Rightarrow> string \<Rightarrow> int \<Rightarrow> string \<Rightarrow> upgrade_signal" where
  "signal category task_type detail score node =
     \<lparr>us_category = category, us_task_type = task_type, us_detail = detail, us_score = score,
      us_source_node = node, us_id = [], us_artifact_ref = None\<rparr>"

definition check_low_score :: "trigger \<Rightarrow> agent_state \<Rightarrow> string \<Rightarrow> upgrade_signal list" where
  "check_low_score g s task_type =
     (let score = opt_or (output_critic_score s) 0 in
      if score = 0 then []
      else if score < tg_poor_score g then
        [signal ''low_score'' task_type
           (''Score '' @ str_int score @ ''/100 (threshold '' @ str_int (tg_poor_score g) @ ''). Feedback: ''
            @ take 200 (opt_or (output_critic_feedback s) [])) score ''critic'']
      else [])"

definition check_tool_failures :: "trigger \<Rightarrow> agent_state \<Rightarrow> string \<Rightarrow> upgrade_signal list" where
  "check_tool_failures g s task_type =
     (let failures = filter (\<lambda>c. \<not> opt_or (tc_success c) True) (opt_or (tool_calls_made s) []) in
      if opt_or (tool_calls_made s) [] = [] then []
      else if int (length failures) \<ge> tg_tool_failures g then
        [signal ''tool_failure'' task_type
           (str_int (int (length failures)) @ '' tool failures: ''
            @ join_with '', '' (remdups (map (\<lambda>c. opt_or (tc_tool c) ''unknown'') failures))) 0 ''specialist'']
      else [])"

definition check_iteration_exhaustion :: "agent_state \<Rightarrow> string \<Rightarrow> upgrade_signal list" where
  "check_iteration_exhaustion s task_type =
     (let it = opt_or (iteration_count s) 0; max_it = opt_or (max_iterations s) 3;
          score = opt_or (output_critic_score s) 0
      in if it \<ge> max_it \<and> 0 < score \<and> score < ITERATION_EXHAUSTION_SCORE then
           [signal ''iteration_exhaustion'' task_type
              (''Hit max iterations ('' @ str_int max_it @ '') with score '' @ str_int score @ ''/100'') score ''workflow'']
         else [])"

text \<open>The patterns are written with a tilde for the backslash.\<close>

definition critic_patterns :: "(string \<times> string) list" where
  "critic_patterns = map (\<lambda>(p, l). (map (\<lambda>c. if c = CHR ''~'' then CHR 0x5C else c) p, l)) [
     (''missing.*(?:error|exception)~s+handl'', ''missing error handling''),
     (''no~s+(?:test|validation)'', ''missing tests or validation''),
     (''(?:incomplete|partial)~s+(?:implement|solution)'', ''incomplete implementation''),
     (''security~s+(?:issue|vulnerabilit|concern)'', ''security concern''),
     (''(?:wrong|incorrect)~s+(?:approach|method|algorithm)'', ''incorrect approach'')]"

definition check_critic_patterns ::
    "(string \<Rightarrow> string \<Rightarrow> bool) \<Rightarrow> agent_state \<Rightarrow> string \<Rightarrow> upgrade_signal list" where
  "check_critic_patterns re_search s task_type =
     (let feedback = opt_or (output_critic_feedback s) [] in
      if feedback = [] then []
      else map (\<lambda>(p, label). signal ''critic_pattern'' task_type (''Critic flagged: '' @ label) 0 ''critic'')
        (filter (\<lambda>(p, label). re_search p feedback) critic_patterns))"

section \<open>Proposals\<close>

text \<open>The categories with their counts, in the order of their first signal; the first of the most
  frequent ones dominates.\<close>

definition category_counts :: "upgrade_signal list \<Rightarrow> (string, nat) py_dict" where
  "category_counts ss =
     fold (\<lambda>s d. dict_set (us_category s) (dict_get_or d (us_category s) 0 + 1) d) ss []"

fun first_max :: "('a \<times> nat) list \<Rightarrow> 'a option" where
  "first_max [] = None"
| "first_max [(k, n)] = Some k"
| "first_max ((k, n) # (k', n') # d) = first_max (if n' > n then (k', n') # d else (k, n) # d)"

definition proposal_description :: "string \<Rightarrow> string \<Rightarrow> string" where
  "proposal_description task_type dominant =
     (if dominant = ''low_score'' then ''Improve '' @ task_type @ '' specialist quality''
      else if dominant = ''tool_failure'' then ''Fix tool invocation reliability for '' @ task_type
      else if dominant = ''iteration_exhaustion'' then ''Improve convergence speed for '' @ task_type
      else if dominant = ''critic_pattern'' then ''Address recurring quality issues in '' @ task_type
      else ''Upgrade '' @ task_type @ '' handling'')"

definition build_proposal :: "string \<Rightarrow> upgrade_signal list \<Rightarrow> string \<times> string" where
  "build_proposal task_type ss =
     (let counts = category_counts ss;
          dominant = opt_or (first_max counts) [];
          by_count = sort_key (\<lambda>(c, n). - int n) counts;
          recent = drop (length ss - 3) ss
      in (proposal_description task_type dominant,
          join_with [CHR 0x0A]
            ([''Accumulated '' @ str_nat (length ss) @ '' signals across recent runs:'']
             @ map (\<lambda>(c, n). ''  - '' @ c @ '': '' @ str_nat n @ '' occurrence(s)'') by_count
             @ [CHR 0x0A # ''Recent details:'']
             @ map (\<lambda>s. ''  - ['' @ us_category s @ ''] '' @ take 150 (us_detail s)) recent)))"

definition target_files_of :: "string \<Rightarrow> string list" where
  "target_files_of category =
     (if category = ''tool_failure'' then [''agents/tools/registry.py'', ''agents/specialist_nodes.py'']
      else if category = ''low_score'' then [''agents/adapters.py'', ''agents/specialist_nodes.py'']
      else if category = ''iteration_exhaustion'' then [''agents/graph.py'', ''agents/decision_functions.py'']
      else if category = ''critic_pattern'' then [''agents/critic_nodes.py'', ''agents/adapters.py'']
      else [])"

text \<open>The sorted union: the candidates in alphabetical order, kept when some signal points at them.\<close>

definition identify_target_files :: "upgrade_signal list \<Rightarrow> string list" where
  "identify_target_files ss =
     filter (\<lambda>f. \<exists>s \<in> set ss. f \<in> set (target_files_of (us_category s)))
       [''agents/adapters.py'', ''agents/critic_nodes.py'', ''agents/decision_functions.py'',
        ''agents/graph.py'', ''agents/specialist_nodes.py'', ''agents/tools/registry.py'']"

section \<open>Accumulation\<close>

definition stored :: "upgrade_signal \<Rightarrow> upgrade_signal" where
  "stored s = s\<lparr>us_detail := take 300 (us_detail s)\<rparr>"

definition persist_signals :: "upgrade_signal list \<Rightarrow> trigger \<Rightarrow> trigger" where
  "persist_signals ss g = g\<lparr>tg_store := Some (opt_or (tg_store g) [] @ map stored ss)\<rparr>"

text \<open>\<open>setdefault(k, []).append(s)\<close>.\<close>

definition add_to_group ::
    "upgrade_signal \<Rightarrow> (string, upgrade_signal list) py_dict \<Rightarrow> (string, upgrade_signal list) py_dict" where
  "add_to_group s d = dict_set (us_task_type s) (dict_get_or d (us_task_type s) [] @ [s]) d"

definition load_persisted_signals :: "trigger \<Rightarrow> trigger" where
  "load_persisted_signals g = g\<lparr>tg_history := fold add_to_group (opt_or (tg_store g) []) []\<rparr>"

definition new_trigger :: "int \<Rightarrow> int \<Rightarrow> int \<Rightarrow> upgrade_signal list option \<Rightarrow> nat \<Rightarrow> trigger" where
  "new_trigger poor tool min_signals store next =
     load_persisted_signals \<lparr>tg_poor_score = poor, tg_tool_failures = tool, tg_min_signals = min_signals,
       tg_history = [], tg_store = store, tg_next_id = next\<rparr>"

definition number_signals :: "(nat \<Rightarrow> string) \<Rightarrow> nat \<Rightarrow> upgrade_signal list \<Rightarrow> upgrade_signal list" where
  "number_signals fresh n ss = map (\<lambda>(k, s). s\<lparr>us_id := fresh k\<rparr>) (enumerate n ss)"

definition detect ::
    "(string \<Rightarrow> string \<Rightarrow> bool) \<Rightarrow> trigger \<Rightarrow> agent_state \<Rightarrow> string \<Rightarrow> upgrade_signal list" where
  "detect re_search g s task_type =
     check_low_score g s task_type @ check_tool_failures g s task_type
     @ check_iteration_exhaustion s task_type @ check_critic_patterns re_search s task_type"

definition analyse ::
    "(string \<Rightarrow> string \<Rightarrow> bool) \<Rightarrow> (nat \<Rightarrow> string) \<Rightarrow> agent_state \<Rightarrow> trigger \<Rightarrow> trigger_analysis \<times> trigger" where
  "analyse re_search fresh s g =
     (let task_type = opt_or (routed_task_type s) ''general'';
          ss = number_signals fresh (tg_next_id g) (detect re_search g s task_type);
          quiet = \<lparr>an_signals = ss, an_should_propose = False, an_description = [], an_rationale = [],
            an_target_files = []\<rparr>
      in if ss = [] then (quiet, g)
         else
           let history = dict_get_or (tg_history g) task_type [] @ ss;
               g1 = persist_signals ss
                 (g\<lparr>tg_history := dict_set task_type history (tg_history g), tg_next_id := tg_next_id g + length ss\<rparr>)
           in (if int (length history) \<ge> tg_min_signals g
               then quiet\<lparr>an_should_propose := True,
                   an_description := fst (build_proposal task_type history),
                   an_rationale := snd (build_proposal task_type history),
                   an_target_files := identify_target_files history\<rparr>
               else quiet, g1))"

definition clear_signals :: "string \<Rightarrow> trigger \<Rightarrow> trigger" where
  "clear_signals task_type g =
     g\<lparr>tg_history := dict_del task_type (tg_history g),
       tg_store := map_option (filter (\<lambda>s. us_task_type s \<noteq> task_type)) (tg_store g)\<rparr>"

definition get_signal_count :: "string \<Rightarrow> trigger \<Rightarrow> int" where
  "get_signal_count task_type g = int (length (dict_get_or (tg_history g) task_type []))"

definition get_accumulated_signals :: "string \<Rightarrow> trigger \<Rightarrow> upgrade_signal list" where
  "get_accumulated_signals task_type g =
     filter (\<lambda>s. us_artifact_ref s = None) (dict_get_or (tg_history g) task_type [])"

definition mark_signal :: "string list \<Rightarrow> string \<Rightarrow> upgrade_signal \<Rightarrow> upgrade_signal" where
  "mark_signal ids ref s = (if us_id s \<in> set ids then s\<lparr>us_artifact_ref := Some ref\<rparr> else s)"

text \<open>Without a file nothing is marked, not even in memory.\<close>

definition mark_artifact_ref :: "string list \<Rightarrow> string \<Rightarrow> trigger \<Rightarrow> int \<times> trigger" where
  "mark_artifact_ref ids ref g =
     (case tg_store g of
        None \<Rightarrow> (0, g)
      | Some entries \<Rightarrow>
          (int (length (filter (\<lambda>s. us_id s \<in> set ids) entries)),
           g\<lparr>tg_store := Some (map (mark_signal ids ref) entries),
             tg_history := map (\<lambda>(k, ss). (k, map (mark_signal ids ref) ss)) (tg_history g)\<rparr>))"

section \<open>Memory and file agree\<close>

text \<open>Per task type the file holds the history, details cut to 300 characters.\<close>

definition signals_agree :: "trigger \<Rightarrow> bool" where
  "signals_agree g \<longleftrightarrow>
     dict_ok (tg_history g)
     \<and> (\<forall>tt. filter (\<lambda>s. us_task_type s = tt) (opt_or (tg_store g) [])
             = map stored (dict_get_or (tg_history g) tt [])
           \<and> (\<forall>s \<in> set (dict_get_or (tg_history g) tt []). us_task_type s = tt))"

lemma stored_fields [simp]:
  "us_task_type (stored s) = us_task_type s" "us_id (stored s) = us_id s" "stored (stored s) = stored s"
  by (simp_all add: stored_def)

lemma number_signals_task_type:
  "s \<in> set (number_signals fresh n ss) \<Longrightarrow> \<exists>s0 \<in> set ss. us_task_type s = us_task_type s0"
  by (auto simp: number_signals_def in_set_enumerate_eq) (metis le_add_diff_inverse nth_mem add.commute less_diff_conv2)

lemma detect_task_type: "s \<in> set (detect re_search g st tt) \<Longrightarrow> us_task_type s = tt"
  by (auto simp: detect_def check_low_score_def check_tool_failures_def check_iteration_exhaustion_def
      check_critic_patterns_def signal_def Let_def split: if_splits)

lemma mark_signal_stored: "mark_signal ids ref (stored s) = stored (mark_signal ids ref s)"
  by (simp add: mark_signal_def stored_def)

lemma mark_signal_task_type [simp]: "us_task_type (mark_signal ids ref s) = us_task_type s"
  by (simp add: mark_signal_def)

lemma dict_get_or_set: "dict_get_or (dict_set k v d) k' x = (if k' = k then v else dict_get_or d k' x)"
  by (simp add: dict_get_or_def)

lemma dict_get_or_del: "dict_get_or (dict_del k d) k' x = (if k' = k then x else dict_get_or d k' x)"
  by (simp add: dict_get_or_def)

lemma dict_get_map_values: "dict_get (map (\<lambda>(k, v). (k, f v)) d) k = map_option f (dict_get d k)"
  by (induction d) (auto simp: dict_get_def)

lemma analyse_agrees:
  assumes "signals_agree g"
  shows "signals_agree (snd (analyse re_search fresh st g))"
proof -
  let ?tt = "opt_or (routed_task_type st) ''general''"
  let ?ss = "number_signals fresh (tg_next_id g) (detect re_search g st ?tt)"
  show ?thesis
  proof (cases "?ss = []")
    case True
    then show ?thesis using assms by (simp add: analyse_def Let_def)
  next
    case False
    have tt: "\<forall>s \<in> set ?ss. us_task_type s = ?tt"
      using number_signals_task_type detect_task_type by metis
    then have "filter (\<lambda>s. us_task_type s = x) (map stored ?ss) = (if x = ?tt then map stored ?ss else [])" for x
      by (auto simp: filter_id_conv filter_empty_conv)
    then show ?thesis
      using assms False tt
      by (auto simp: analyse_def Let_def signals_agree_def persist_signals_def dict_get_or_set dict_ok_set)
  qed
qed

lemma clear_agrees:
  assumes "signals_agree g"
  shows "signals_agree (clear_signals tt g)"
proof -
  have "filter (\<lambda>s. us_task_type s = x) (filter (\<lambda>s. us_task_type s \<noteq> tt) ss)
      = (if x = tt then [] else filter (\<lambda>s. us_task_type s = x) ss)" for x and ss :: "upgrade_signal list"
    by (auto simp: filter_empty_conv intro: filter_cong)
  moreover have "opt_or (map_option (filter P) st) [] = filter P (opt_or st [])" for P and st :: "upgrade_signal list option"
    by (cases st) auto
  ultimately show ?thesis
    using assms by (simp add: signals_agree_def clear_signals_def dict_get_or_del dict_ok_del del: filter_filter)
qed

lemma mark_agrees: "signals_agree g \<Longrightarrow> signals_agree (snd (mark_artifact_ref ids ref g))"
proof (cases "tg_store g")
  case (Some entries)
  assume a: "signals_agree g"
  have h: "dict_get_or (map (\<lambda>(k, ss). (k, map (mark_signal ids ref) ss)) (tg_history g)) tt []
      = map (mark_signal ids ref) (dict_get_or (tg_history g) tt [])" for tt
    by (simp add: dict_get_or_def dict_get_map_values split: option.splits)
  have k: "dict_ok (map (\<lambda>(k, ss). (k, map (mark_signal ids ref) ss)) (tg_history g)) = dict_ok (tg_history g)"
    by (simp add: dict_ok_def comp_def case_prod_beta)
  have f: "filter (\<lambda>s. us_task_type s = tt) (map (mark_signal ids ref) entries)
      = map (mark_signal ids ref) (filter (\<lambda>s. us_task_type s = tt) entries)" for tt
    by (simp add: filter_map comp_def)
  show ?thesis
    using a Some
    by (simp add: mark_artifact_ref_def signals_agree_def h f k mark_signal_stored comp_def)
qed (simp add: mark_artifact_ref_def)

lemma load_groups:
  "dict_get_or (fold add_to_group ss d) tt [] = dict_get_or d tt [] @ filter (\<lambda>s. us_task_type s = tt) ss"
  by (induction ss arbitrary: d) (auto simp: add_to_group_def dict_get_or_set)

section \<open>Properties\<close>

text \<open>The life of a trigger: runs are analysed, dispatched signals marked, upgraded task types cleared.\<close>

inductive trigger_reach :: "(string \<Rightarrow> string \<Rightarrow> bool) \<Rightarrow> (nat \<Rightarrow> string) \<Rightarrow> trigger \<Rightarrow> trigger \<Rightarrow> bool"
  for re_search :: "string \<Rightarrow> string \<Rightarrow> bool" and fresh :: "nat \<Rightarrow> string" and g0 :: trigger where
  start: "trigger_reach re_search fresh g0 g0"
| run: "trigger_reach re_search fresh g0 g \<Longrightarrow>
    trigger_reach re_search fresh g0 (snd (analyse re_search fresh st g))"
| mark: "trigger_reach re_search fresh g0 g \<Longrightarrow>
    trigger_reach re_search fresh g0 (snd (mark_artifact_ref ids ref g))"
| clear: "trigger_reach re_search fresh g0 g \<Longrightarrow> trigger_reach re_search fresh g0 (clear_signals tt g)"

lemma reach_agrees: "trigger_reach re_search fresh g0 g \<Longrightarrow> signals_agree g0 \<Longrightarrow> signals_agree g"
  by (induction rule: trigger_reach.induct) (simp_all add: analyse_agrees mark_agrees clear_agrees)

text \<open>A restart loses no signal: whatever runs, dispatches and clearings came before, the history
  loaded from the file has for every task type the same signals, dispatched or not, in the same
  order as the memory it replaces.\<close>

theorem restart_restores_signals:
  assumes "trigger_reach re_search fresh (new_trigger poor tool_failures min_signals None 0) g"
  shows "get_signal_count tt (load_persisted_signals g) = get_signal_count tt g
    \<and> map us_id (get_accumulated_signals tt (load_persisted_signals g)) = map us_id (get_accumulated_signals tt g)"
proof -
  have "signals_agree (new_trigger poor tool_failures min_signals None 0)"
    by (simp add: signals_agree_def new_trigger_def load_persisted_signals_def dict_ok_def dict_get_or_def)
  with assms have a: "signals_agree g" by (rule reach_agrees)
  then have h: "dict_get_or (tg_history (load_persisted_signals g)) tt [] = map stored (dict_get_or (tg_history g) tt [])"
    using load_groups [of "opt_or (tg_store g) []" "[]" tt]
    by (simp add: load_persisted_signals_def signals_agree_def) (simp add: dict_get_or_def)
  have "us_artifact_ref (stored s) = us_artifact_ref s" for s by (simp add: stored_def)
  then show ?thesis
    by (simp add: get_signal_count_def get_accumulated_signals_def h filter_map comp_def)
qed

theorem restart_restores_signals_witness:
  "get_signal_count ''general'' (load_persisted_signals
      (snd (analyse (\<lambda>_ _. False) str_nat (empty_state\<lparr>output_critic_score := Some 40\<rparr>)
        (new_trigger 60 2 3 None 0)))) = 1"
proof -
  let ?init = "new_trigger 60 2 3 None 0"
  let ?st = "empty_state\<lparr>output_critic_score := Some 40\<rparr>"
  let ?g = "snd (analyse (\<lambda>_ _. False) str_nat ?st ?init)"
  have r: "trigger_reach (\<lambda>_ _. False) str_nat ?init ?g" by (intro trigger_reach.intros)
  have "get_signal_count ''general'' ?g = 1"
    by (simp add: get_signal_count_def analyse_def Let_def detect_def check_low_score_def check_tool_failures_def
        check_iteration_exhaustion_def check_critic_patterns_def new_trigger_def load_persisted_signals_def
        empty_state_def number_signals_def persist_signals_def dict_get_or_def)
  with restart_restores_signals [OF r] show ?thesis by simp
qed

text \<open>A dispatched signal is never handed out again, and yet it still counts towards new proposals.\<close>

lemma marked_signals_are_not_accumulated:
  assumes "tg_store g = Some entries" and "\<forall>s \<in> set (get_accumulated_signals tt g). us_id s \<in> set ids"
  shows "get_accumulated_signals tt (snd (mark_artifact_ref ids ref g)) = []
    \<and> get_signal_count tt (snd (mark_artifact_ref ids ref g)) = get_signal_count tt g"
proof -
  have h: "dict_get_or (map (\<lambda>(k, ss). (k, map (mark_signal ids ref) ss)) (tg_history g)) tt []
      = map (mark_signal ids ref) (dict_get_or (tg_history g) tt [])"
    by (simp add: dict_get_or_def dict_get_map_values split: option.splits)
  show ?thesis
    using assms
    by (auto simp: mark_artifact_ref_def get_accumulated_signals_def get_signal_count_def h filter_empty_conv
        mark_signal_def)
qed

end
