(* ===== verification/Prompt_Overrides.thy ===== *)
theory Prompt_Overrides
  imports Upgrade_Signals Skill_Security
begin

text \<open>
  The schema of prompt overrides (\<^verbatim>\<open>agents/prompt_library/__init__.py\<close>) and the builder that
  publishes them (\<^verbatim>\<open>agents/self_upgrade/tier1b_builder.py\<close>). The fixtures, the scorer, \<open>git\<close>, the
  file writes and the issue tracker are arguments; every command and file write is recorded in
  order, so that the gates can be compared with what was published.
\<close>

section \<open>Schema\<close>

record override_dict =
  od_id :: string
  od_task_type :: string
  od_append :: string
  od_signal_refs :: "string list"
  od_author_agent_id :: string
  od_author_run_id :: string
  od_created_at :: string

definition APPEND_MAX_LEN :: nat where "APPEND_MAX_LEN = 500"

definition id_char :: "char \<Rightarrow> bool" where
  "id_char c \<longleftrightarrow> c \<in> set ''0123456789ABCDEFGHJKMNPQRSTVWXYZ''"

definition override_id_ok :: "string \<Rightarrow> bool" where
  "override_id_ok s \<longleftrightarrow>
     (let b = chomp s in prefix ''ovr_'' b \<and> length b = 30 \<and> (\<forall>c \<in> set (drop 4 b). id_char c))"

definition schema_error :: "string \<Rightarrow> py_exn" where
  "schema_error m = OtherError ''OverrideSchemaError'' m"

definition validate_override_dict ::
    "(string \<Rightarrow> bool) \<Rightarrow> override_dict \<Rightarrow> string \<Rightarrow> py_exn + unit" where
  "validate_override_dict iso_ok d filename =
     (if \<not> override_id_ok (od_id d) then Inl (schema_error ''id must match ^ovr_[0-9A-HJKMNP-TV-Z]{26}$'')
      else if filename \<noteq> od_id d @ ''.yaml'' then Inl (schema_error ''filename does not match id'')
      else if py_strip (od_task_type d) = [] then Inl (schema_error ''task_type must be a non-empty string'')
      else if py_strip (od_append d) = [] then Inl (schema_error ''append must be non-empty'')
      else if length (od_append d) > APPEND_MAX_LEN then Inl (schema_error ''append exceeds 500 characters'')
      else if CHR 0x00 \<in> set (od_append d) then Inl (schema_error ''append must not contain NUL byte'')
      else if str_contains ''```'' (od_append d) then Inl (schema_error ''append must not contain triple backtick'')
      else if od_signal_refs d = [] then Inl (schema_error ''signal_refs must be non-empty list'')
      else if \<exists>r \<in> set (od_signal_refs d). r = [] then Inl (schema_error ''signal_refs entries must be non-empty strings'')
      else if py_strip (od_author_agent_id d) = [] then Inl (schema_error ''author_agent_id must be a non-empty string'')
      else if py_strip (od_author_run_id d) = [] then Inl (schema_error ''author_run_id must be a non-empty string'')
      else if \<not> iso_ok (filter (\<lambda>c. c \<noteq> CHR ''Z'') (od_created_at d)) then
        Inl (schema_error ''created_at must be ISO 8601 UTC'')
      else Inr ())"

section \<open>The builder's pieces\<close>

definition MIN_FIXTURES_PER_ADAPTER :: nat where "MIN_FIXTURES_PER_ADAPTER = 3"
definition SMOKE_MAX_DROP_PCT :: real where "SMOKE_MAX_DROP_PCT = 5"

text \<open>The patterns are written with a tilde for the backslash.\<close>

definition SAFETY_CLAUSE_BLOCKLIST :: "string list" where
  "SAFETY_CLAUSE_BLOCKLIST = map re_text [
     ''~bignore~s+(?:previous|prior|all|the~s+above)'',
     ''~bdisregard~s+(?:previous|prior|the~b)'',
     ''~byou~s+are~s+now~b'',
     ''~breveal~s+(?:your~s+)?(?:system~s+)?prompt'',
     ''~boverride~s+(?:safety|security)~b'',
     ''~bjailbreak~b'',
     ''<~s*/?~s*system~s*>'']"

definition matches_safety_blocklist :: "(string \<Rightarrow> string \<Rightarrow> bool) \<Rightarrow> string \<Rightarrow> string option" where
  "matches_safety_blocklist re_search s = find (\<lambda>p. re_search p s) SAFETY_CLAUSE_BLOCKLIST"

definition validate_cluster :: "upgrade_signal list \<Rightarrow> string option" where
  "validate_cluster ss =
     (if ss = [] then Some ''empty cluster''
      else if card (us_task_type ` set ss) \<noteq> 1 then Some ''cluster task_type mismatch''
      else if card (us_detail ` set ss) \<noteq> 1 then Some ''cluster detail mismatch''
      else None)"

definition rstrip_dots :: "string \<Rightarrow> string" where
  "rstrip_dots s = rev (dropWhile (\<lambda>c. c = CHR ''.'') (rev s))"

text \<open>\<open>s[:s.rfind(" ")]\<close> when the last blank is not the first character.\<close>

definition cut_at_last_blank :: "string \<Rightarrow> string" where
  "cut_at_last_blank s =
     (let tail = takeWhile (\<lambda>c. c \<noteq> CHR '' '') (rev s); pos = length s - length tail in
      if pos > 1 then take (pos - 1) s else s)"

definition draft_append :: "string \<Rightarrow> string \<Rightarrow> string" where
  "draft_append task_type detail =
     (let clean = rstrip_dots (py_strip detail) in
      if clean = [] then []
      else
        let draft = ''When handling '' @ task_type @ '' tasks: '' @ clean @ ''.'' in
        if length draft \<le> APPEND_MAX_LEN then draft
        else cut_at_last_blank (take (APPEND_MAX_LEN - 4) draft) @ ''....'')"

definition new_override_id :: "nat list \<Rightarrow> string" where
  "new_override_id digits = ''ovr_'' @ map (\<lambda>k. ''0123456789ABCDEFGHJKMNPQRSTVWXYZ'' ! (k mod 32)) digits"

record git_result =
  gr_returncode :: int
  gr_stdout :: string
  gr_stderr :: string

datatype publish_event = Git "string list" | Wrote string string | Issue string

datatype baseline = No_Baseline | Unreadable string | Scores "(string, real) py_dict"

record tier1b_env =
  tb_adapter :: "string \<Rightarrow> string option"
  tb_fixtures :: "string \<Rightarrow> string list" \<comment> \<open>stems of the fixture files, sorted, without the baseline\<close>
  tb_baseline :: "string \<Rightarrow> baseline"
  tb_score :: "string \<Rightarrow> string \<Rightarrow> py_exn + real"
  tb_search :: "string \<Rightarrow> string \<Rightarrow> bool"
  tb_iso_ok :: "string \<Rightarrow> bool"
  tb_random :: "nat list"
  tb_now :: string
  tb_git :: "string list \<Rightarrow> py_exn + git_result"
  tb_write_fails :: "py_exn option"
  tb_show_score :: "real \<Rightarrow> string"
  tb_create_issue :: "string \<Rightarrow> py_exn + string"
  tb_allow_publish :: bool

fun smoke_fixtures ::
    "tier1b_env \<Rightarrow> string \<Rightarrow> (string, real) py_dict \<Rightarrow> string list \<Rightarrow> string option" where
  "smoke_fixtures env added base [] = None"
| "smoke_fixtures env added base (f # fs) =
     (case dict_get base f of
        None \<Rightarrow> smoke_fixtures env added base fs
      | Some old \<Rightarrow>
          (case tb_score env f added of
             Inl e \<Rightarrow> Some (''scorer raised on '' @ f)
           | Inr new \<Rightarrow>
               if old - new > SMOKE_MAX_DROP_PCT then Some (''fixture '' @ f @ '' dropped'')
               else smoke_fixtures env added base fs))"

definition smoke_test :: "tier1b_env \<Rightarrow> string \<Rightarrow> string \<Rightarrow> string option" where
  "smoke_test env adapter added =
     (case tb_baseline env adapter of
        No_Baseline \<Rightarrow> Some (''baseline.json missing for adapter '' @ adapter)
      | Unreadable m \<Rightarrow> Some (''baseline.json unreadable: '' @ m)
      | Scores base \<Rightarrow> smoke_fixtures env added base (tb_fixtures env adapter))"

definition baseline_snapshot :: "tier1b_env \<Rightarrow> string \<Rightarrow> real" where
  "baseline_snapshot env adapter =
     (case tb_baseline env adapter of
        Scores base \<Rightarrow> (if base = [] then 0 else sum_list (map snd base) / real (length base))
      | _ \<Rightarrow> 0)"

text \<open>The status and path of a line of \<open>git diff --name-status\<close>: the first violation.\<close>

fun diff_violation :: "string list \<Rightarrow> string option" where
  "diff_violation [] = None"
| "diff_violation (l # ls) =
     (let s = py_strip l; (status, file) = py_partition (CHR 0x09) s in
      if s = [] \<or> CHR 0x09 \<notin> set s then diff_violation ls
      else if prefix ''agents/prompt_library/overrides/'' file \<and> status \<noteq> ''A'' then
        Some (''append-only violation: '' @ status @ '' on '' @ file @ '' (only A allowed under overrides/)'')
      else diff_violation ls)"

definition override_yaml :: "override_dict \<Rightarrow> string" where
  "override_yaml d =
     (let nl = [CHR 0x0A] in
      ''id: '' @ od_id d @ nl @ ''task_type: '' @ od_task_type d @ nl @ ''append: |'' @ nl
      @ ''  '' @ od_append d @ nl @ ''signal_refs:'' @ nl
      @ concat (map (\<lambda>r. ''  - '' @ r @ nl) (od_signal_refs d))
      @ ''author_agent_id: '' @ od_author_agent_id d @ nl
      @ ''author_run_id: '' @ od_author_run_id d @ nl
      @ ''created_at: '' @ od_created_at d @ nl)"

definition override_path :: "override_dict \<Rightarrow> string \<Rightarrow> string" where
  "override_path d ext = ''agents/prompt_library/overrides/'' @ od_task_type d @ ''/'' @ od_id d @ ext"

section \<open>Building an override\<close>

datatype tier1b_result =
    OverrideCommitted (t1b_override_id: string) (t1b_branch: string) (t1b_commit: string) (t1b_pr_url: string)
      (t1b_issue_id: string) (t1b_refs: "string list")
  | LowConfidence1b string "string list"
  | GateFailed string string "string list"

definition branch_name :: "override_dict \<Rightarrow> string" where
  "branch_name d = ''vibe/self-upgrade/tier1b-'' @ od_id d"

definition commit_title :: "override_dict \<Rightarrow> string" where
  "commit_title d = ''feat(prompt_overrides): tier1b '' @ od_id d @ '' for '' @ od_task_type d"

definition pr_body :: "override_dict \<Rightarrow> string" where
  "pr_body d =
     (let nl = [CHR 0x0A] in
      ''## Tier 1b prompt override'' @ nl @ nl
      @ ''- **Override id:** `'' @ od_id d @ ''`'' @ nl @ ''- **Task type:** `'' @ od_task_type d @ ''`'' @ nl
      @ ''- **Branch:** `'' @ branch_name d @ ''`'' @ nl @ nl @ ''### Append preview'' @ nl @ nl
      @ ''```'' @ nl @ take 200 (od_append d) @ nl @ ''```'' @ nl @ nl @ ''### Gate outputs'' @ nl @ nl
      @ concat (map (\<lambda>g. ''- '' @ g @ '': ok'' @ nl) [''schema'', ''safety_regex'', ''smoke_test'', ''diff_check''])
      @ nl @ nl @ ''### Signal refs'' @ nl @ nl
      @ join_with nl (map (\<lambda>r. ''- '' @ r) (od_signal_refs d)) @ nl)"

text \<open>A command whose exit status is not checked can still fail to start: then the exception leaves
  the builder. \<open>refs\<close> are the signals of the result.\<close>

definition finish_publish ::
    "tier1b_env \<Rightarrow> override_dict \<Rightarrow> string \<Rightarrow> publish_event list \<Rightarrow> (py_exn + tier1b_result) \<times> publish_event list" where
  "finish_publish env d commit ev =
     (let refs = od_signal_refs d; push = [''push'', ''-u'', ''origin'', branch_name d];
          pr = [''gh'', ''pr'', ''create'', ''--title'', commit_title d, ''--body'', pr_body d]
      in case tb_git env push of
           Inl e \<Rightarrow> (Inl e, ev @ [Git push])
         | Inr g \<Rightarrow>
             if gr_returncode g \<noteq> 0 then
               (Inr (GateFailed ''publish'' (''push failed: '' @ take 200 (gr_stderr g)) refs), ev @ [Git push])
             else case tb_git env pr of
               Inl e \<Rightarrow> (Inl e, ev @ [Git push, Git pr])
             | Inr g2 \<Rightarrow>
                 if gr_returncode g2 \<noteq> 0 then
                   (Inr (GateFailed ''publish'' (''PR create failed: '' @ take 200 (gr_stderr g2)) refs),
                    ev @ [Git push, Git pr])
                 else if gr_stdout g2 \<noteq> [] \<and> splitlines (py_strip (gr_stdout g2)) = [] then
                   (Inl IndexError, ev @ [Git push, Git pr])
                 else
                   let url = (if gr_stdout g2 = [] then [] else py_strip (last (splitlines (py_strip (gr_stdout g2)))));
                       title = ''[self-upgrade] tier 1b prompt override for '' @ od_task_type d;
                       issue = (case tb_create_issue env title of Inl _ \<Rightarrow> [] | Inr i \<Rightarrow> i)
                   in (Inr (OverrideCommitted (od_id d) (branch_name d) commit url issue refs),
                       ev @ [Git push, Git pr, Issue title]))"

definition commit_override ::
    "tier1b_env \<Rightarrow> override_dict \<Rightarrow> publish_event list \<Rightarrow> (py_exn + tier1b_result) \<times> publish_event list" where
  "commit_override env d ev =
     (let refs = od_signal_refs d;
          add = [''add'', override_path d ''.yaml'', override_path d ''.baseline''];
          commit = [''commit'', ''-m'', commit_title d]; head = [''rev-parse'', ''HEAD'']
      in case tb_git env add of
           Inl e \<Rightarrow> (Inr (GateFailed ''publish'' ''commit failed'' refs), ev @ [Git add])
         | Inr _ \<Rightarrow>
             (case tb_git env commit of
                Inl e \<Rightarrow> (Inr (GateFailed ''publish'' ''commit failed'' refs), ev @ [Git add, Git commit])
              | Inr _ \<Rightarrow>
                  (case tb_git env head of
                     Inl e \<Rightarrow> (Inr (GateFailed ''publish'' ''commit failed'' refs), ev @ [Git add, Git commit, Git head])
                   | Inr g \<Rightarrow>
                       finish_publish env d
                         (if py_strip (gr_stdout g) = [] then ''unknown'' else py_strip (gr_stdout g))
                         (ev @ [Git add, Git commit, Git head]))))"

definition publish_override ::
    "tier1b_env \<Rightarrow> override_dict \<Rightarrow> real \<Rightarrow> (py_exn + tier1b_result) \<times> publish_event list" where
  "publish_override env d snapshot =
     (let refs = od_signal_refs d; checkout = [''checkout'', ''-b'', branch_name d];
          diff = [''diff'', ''--name-status'', ''HEAD''];
          wrote = [Wrote (override_path d ''.yaml'') (override_yaml d),
            Wrote (override_path d ''.baseline'') (od_created_at d @ '' '' @ tb_show_score env snapshot @ [CHR 0x0A])]
      in case tb_git env checkout of
           Inl e \<Rightarrow> (Inr (GateFailed ''publish'' ''branch creation failed'' refs), [Git checkout])
         | Inr _ \<Rightarrow>
             (case tb_write_fails env of
                Some e \<Rightarrow> (Inr (GateFailed ''publish'' ''file write failed'' refs), [Git checkout])
              | None \<Rightarrow>
                  (case tb_git env diff of
                     Inl e \<Rightarrow> (Inl e, Git checkout # wrote @ [Git diff])
                   | Inr g \<Rightarrow>
                       if gr_returncode g \<noteq> 0 then
                         (Inr (GateFailed ''diff_check'' (''git diff failed: '' @ gr_stderr g) refs),
                          Git checkout # wrote @ [Git diff])
                       else case diff_violation (splitlines (gr_stdout g)) of
                         Some m \<Rightarrow> (Inr (GateFailed ''diff_check'' m refs), Git checkout # wrote @ [Git diff])
                       | None \<Rightarrow> commit_override env d (Git checkout # wrote @ [Git diff]))))"

definition override_draft ::
    "tier1b_env \<Rightarrow> upgrade_signal list \<Rightarrow> string \<Rightarrow> string \<Rightarrow> override_dict" where
  "override_draft env ss author_agent_id author_run_id =
     \<lparr>od_id = new_override_id (tb_random env), od_task_type = us_task_type (hd ss),
      od_append = draft_append (us_task_type (hd ss)) (us_detail (hd ss)),
      od_signal_refs = map us_id ss, od_author_agent_id = author_agent_id,
      od_author_run_id = author_run_id, od_created_at = tb_now env\<rparr>"

definition tier1b_build ::
    "tier1b_env \<Rightarrow> upgrade_signal list \<Rightarrow> string \<Rightarrow> string \<Rightarrow> (py_exn + tier1b_result) \<times> publish_event list" where
  "tier1b_build env ss author_agent_id author_run_id =
     (let refs = map us_id ss in
      case validate_cluster ss of
        Some m \<Rightarrow> (Inr (LowConfidence1b m refs), [])
      | None \<Rightarrow>
          (case tb_adapter env (us_task_type (hd ss)) of
             None \<Rightarrow> (Inr (LowConfidence1b (''unknown task_type: '' @ us_task_type (hd ss)) refs), [])
           | Some adapter \<Rightarrow>
               if length (tb_fixtures env adapter) < MIN_FIXTURES_PER_ADAPTER then
                 (Inr (LowConfidence1b (''no fixtures yet for adapter: '' @ adapter) refs), [])
               else
                 let d = override_draft env ss author_agent_id author_run_id in
                 (case validate_override_dict (tb_iso_ok env) d (od_id d @ ''.yaml'') of
                    Inl e \<Rightarrow> (Inr (GateFailed ''schema'' (case e of OtherError _ m \<Rightarrow> m | _ \<Rightarrow> []) refs), [])
                  | Inr _ \<Rightarrow>
                      (case matches_safety_blocklist (tb_search env) (od_append d) of
                         Some p \<Rightarrow> (Inr (GateFailed ''safety_regex'' (''matched blocklist pattern: '' @ p) refs), [])
                       | None \<Rightarrow>
                           (case smoke_test env adapter (od_append d) of
                              Some m \<Rightarrow> (Inr (GateFailed ''smoke_test'' m refs), [])
                            | None \<Rightarrow>
                                if \<not> tb_allow_publish env then
                                  (Inr (LowConfidence1b ''gates passed; publish disabled by allow_publish=False'' refs), [])
                                else publish_override env d (baseline_snapshot env adapter))))))"

section \<open>Lemmas\<close>

lemma cut_at_last_blank_length: "length (cut_at_last_blank s) \<le> length s"
  by (simp add: cut_at_last_blank_def Let_def)

lemma draft_append_length: "length (draft_append task_type detail) \<le> APPEND_MAX_LEN"
proof -
  have cut: "length (cut_at_last_blank (take (APPEND_MAX_LEN - 4) x) @ ''....'') \<le> APPEND_MAX_LEN" for x
    using cut_at_last_blank_length [of "take (APPEND_MAX_LEN - 4) x"]
    by (simp add: APPEND_MAX_LEN_def)
  define draft where "draft = ''When handling '' @ task_type @ '' tasks: '' @ rstrip_dots (py_strip detail) @ ''.''"
  have "draft_append task_type detail =
      (if rstrip_dots (py_strip detail) = [] then []
       else if length draft \<le> APPEND_MAX_LEN then draft
       else cut_at_last_blank (take (APPEND_MAX_LEN - 4) draft) @ ''....'')"
    unfolding draft_append_def Let_def draft_def by (rule refl)
  then show ?thesis using cut [of draft] by (auto split: if_splits)
qed

lemma new_override_id_ok:
  assumes "length digits = 26"
  shows "override_id_ok (new_override_id digits)"
proof -
  let ?abc = "''0123456789ABCDEFGHJKMNPQRSTVWXYZ''"
  let ?body = "map (\<lambda>k. ?abc ! (k mod 32)) digits"
  have len: "length ?abc = 32" by simp
  have c: "\<forall>c \<in> set ?body. id_char c"
    unfolding id_char_def using len by (auto intro!: nth_mem simp del: list.set)
  have nl: "\<not> id_char (CHR 0x0A)" by (simp add: id_char_def)
  have "?body \<noteq> []" using assms by auto
  then have "last ?body \<in> set ?body" by (rule last_in_set)
  then have "last ?body \<noteq> CHR 0x0A" using c nl by metis
  then have "chomp (new_override_id digits) = new_override_id digits"
    using \<open>?body \<noteq> []\<close> by (simp add: chomp_def new_override_id_def)
  then show ?thesis
    using c assms by (simp add: override_id_ok_def Let_def) (simp add: new_override_id_def)
qed

lemma smoke_fixtures_pass:
  "smoke_fixtures env added base fs = None \<Longrightarrow> f \<in> set fs \<Longrightarrow> dict_get base f = Some old \<Longrightarrow>
    \<exists>new. tb_score env f added = Inr new \<and> old - new \<le> SMOKE_MAX_DROP_PCT"
  by (induction fs) (auto split: option.splits sum.splits if_splits)

lemma validate_cluster_None:
  "validate_cluster ss = None \<Longrightarrow>
    ss \<noteq> [] \<and> (\<forall>s \<in> set ss. us_task_type s = us_task_type (hd ss) \<and> us_detail s = us_detail (hd ss))"
proof -
  assume v: "validate_cluster ss = None"
  then have ne: "ss \<noteq> []" and c: "card (us_task_type ` set ss) = 1" "card (us_detail ` set ss) = 1"
    by (auto simp: validate_cluster_def split: if_splits)
  have h: "hd ss \<in> set ss" using ne by simp
  from c obtain x y where "us_task_type ` set ss = {x}" "us_detail ` set ss = {y}"
    by (auto simp: card_1_singleton_iff)
  then show ?thesis using ne h by (metis imageI singletonD)
qed

text \<open>A push happens only after a diff without violation.\<close>

lemma publish_push_diff:
  assumes "publish_override env d snapshot = (r, ev)" and "Git (''push'' # args) \<in> set ev"
  shows "tb_write_fails env = None \<and> Wrote (override_path d ''.yaml'') (override_yaml d) \<in> set ev
    \<and> (\<exists>g. tb_git env [''diff'', ''--name-status'', ''HEAD''] = Inr g \<and> diff_violation (splitlines (gr_stdout g)) = None)"
  using assms
  by (auto simp: publish_override_def commit_override_def finish_publish_def Let_def
      split: sum.splits option.splits if_splits)

lemma commit_override_pushes:
  assumes "publish_override env d snapshot = (Inr r, ev)" and "r = OverrideCommitted i b c u n refs"
  shows "Git [''push'', ''-u'', ''origin'', branch_name d] \<in> set ev"
  using assms
  by (auto simp: publish_override_def commit_override_def finish_publish_def Let_def
      split: sum.splits option.splits if_splits)

section \<open>Properties\<close>

text \<open>C38: An override is pushed only after every gate: the signals form one cluster, the adapter has
  enough fixtures, the draft obeys the schema (at most 500 characters), no blocklisted pattern
  matches, no fixture drops by more than five points, publishing is allowed, the file is written and
  the diff changes no existing override.\<close>

theorem push_needs_every_gate:
  assumes "tier1b_build env ss agent run = (r, ev)" and "Git (''push'' # args) \<in> set ev"
  shows "\<exists>adapter d. tb_adapter env (us_task_type (hd ss)) = Some adapter \<and> d = override_draft env ss agent run
    \<and> ss \<noteq> [] \<and> (\<forall>s \<in> set ss. us_task_type s = us_task_type (hd ss) \<and> us_detail s = us_detail (hd ss))
    \<and> MIN_FIXTURES_PER_ADAPTER \<le> length (tb_fixtures env adapter)
    \<and> validate_override_dict (tb_iso_ok env) d (od_id d @ ''.yaml'') = Inr () \<and> length (od_append d) \<le> APPEND_MAX_LEN
    \<and> (\<forall>p \<in> set SAFETY_CLAUSE_BLOCKLIST. \<not> tb_search env p (od_append d))
    \<and> (\<exists>base. tb_baseline env adapter = Scores base
        \<and> (\<forall>f \<in> set (tb_fixtures env adapter). \<forall>old. dict_get base f = Some old \<longrightarrow>
             (\<exists>new. tb_score env f (od_append d) = Inr new \<and> old - new \<le> SMOKE_MAX_DROP_PCT)))
    \<and> tb_allow_publish env \<and> Wrote (override_path d ''.yaml'') (override_yaml d) \<in> set ev
    \<and> (\<exists>g. tb_git env [''diff'', ''--name-status'', ''HEAD''] = Inr g \<and> diff_violation (splitlines (gr_stdout g)) = None)"
proof -
  let ?d = "override_draft env ss agent run"
  have ne: "ev \<noteq> []" using assms(2) by auto
  then obtain adapter where g: "validate_cluster ss = None" "tb_adapter env (us_task_type (hd ss)) = Some adapter"
    "MIN_FIXTURES_PER_ADAPTER \<le> length (tb_fixtures env adapter)"
    "validate_override_dict (tb_iso_ok env) ?d (od_id ?d @ ''.yaml'') = Inr ()"
    "matches_safety_blocklist (tb_search env) (od_append ?d) = None"
    "smoke_test env adapter (od_append ?d) = None" "tb_allow_publish env"
    "publish_override env ?d (baseline_snapshot env adapter) = (r, ev)"
    using assms(1) unfolding tier1b_build_def Let_def
    by (auto split: option.splits if_splits sum.splits)
  obtain base where base: "tb_baseline env adapter = Scores base"
    "smoke_fixtures env (od_append ?d) base (tb_fixtures env adapter) = None"
    using g(6) by (auto simp: smoke_test_def split: baseline.splits)
  have "\<forall>p \<in> set SAFETY_CLAUSE_BLOCKLIST. \<not> tb_search env p (od_append ?d)"
    using g(5) by (auto simp: matches_safety_blocklist_def find_None_iff)
  moreover have "length (od_append ?d) \<le> APPEND_MAX_LEN"
    by (simp add: override_draft_def draft_append_length)
  moreover note validate_cluster_None [OF g(1)] publish_push_diff [OF g(8) assms(2)] smoke_fixtures_pass [OF base(2)]
  ultimately show ?thesis using g(2-4,7) base(1) by blast
qed

text \<open>Without an author no override is ever published: nothing is written, no command runs.\<close>

theorem no_override_without_author:
  assumes "tier1b_build env ss agent run = (r, ev)" and "py_strip agent = [] \<or> py_strip run = []"
  shows "ev = [] \<and> (\<exists>res. r = Inr res \<and> (\<forall>i b c u n refs. res \<noteq> OverrideCommitted i b c u n refs))"
proof -
  let ?d = "override_draft env ss agent run"
  have "od_author_agent_id ?d = agent" "od_author_run_id ?d = run" by (simp_all add: override_draft_def)
  then have "validate_override_dict (tb_iso_ok env) ?d (od_id ?d @ ''.yaml'') \<noteq> Inr ()"
    using assms(2) by (auto simp: validate_override_dict_def)
  then obtain e where e: "validate_override_dict (tb_iso_ok env) ?d (od_id ?d @ ''.yaml'') = Inl e"
    by (cases "validate_override_dict (tb_iso_ok env) ?d (od_id ?d @ ''.yaml'')") auto
  have "snd (tier1b_build env ss agent run) = []
    \<and> (\<exists>res. fst (tier1b_build env ss agent run) = Inr res \<and> (\<forall>i b c u n refs. res \<noteq> OverrideCommitted i b c u n refs))"
    unfolding tier1b_build_def Let_def by (simp add: e split: option.splits)
  then show ?thesis using assms(1) by simp
qed

definition passing_env :: tier1b_env where
  "passing_env = \<lparr>tb_adapter = (\<lambda>_. Some ''coder''), tb_fixtures = (\<lambda>_. [''f1'', ''f2'', ''f3'']),
     tb_baseline = (\<lambda>_. Scores [(''f1'', 80)]), tb_score = (\<lambda>_ _. Inr 78), tb_search = (\<lambda>_ _. False),
     tb_iso_ok = (\<lambda>_. True), tb_random = replicate 26 0, tb_now = ''2026-05-01T00:00:00Z'',
     tb_git = (\<lambda>_. Inr \<lparr>gr_returncode = 0, gr_stdout = [], gr_stderr = []\<rparr>), tb_write_fails = None,
     tb_show_score = (\<lambda>_. ''80.0''), tb_create_issue = (\<lambda>_. Inr ''ISS-1''), tb_allow_publish = True\<rparr>"

definition sample_cluster :: "upgrade_signal list" where
  "sample_cluster = [(signal ''critic_pattern'' ''debugging'' ''run it'' 0 ''critic'')\<lparr>us_id := ''sig_1''\<rparr>]"

lemma passing_env_builds:
  "\<exists>r ev args. tier1b_build passing_env sample_cluster ''agent'' ''run'' = (r, ev) \<and> Git (''push'' # args) \<in> set ev"
proof -
  let ?d = "override_draft passing_env sample_cluster ''agent'' ''run''"
  have strip: "py_strip ''agent'' = ''agent''" "py_strip ''run'' = ''run''" "py_strip ''debugging'' = ''debugging''"
    "py_strip ''run it'' = ''run it''"
    by (simp_all add: py_strip_id py_space_def)
  have draft: "draft_append ''debugging'' ''run it'' = ''When handling debugging tasks: run it.''"
    by (simp add: draft_append_def strip rstrip_dots_def APPEND_MAX_LEN_def)
  have strip_draft: "py_strip ''When handling debugging tasks: run it.'' = ''When handling debugging tasks: run it.''"
    by (simp add: py_strip_id py_space_def)
  have d: "od_id ?d = new_override_id (replicate 26 0)" "od_task_type ?d = ''debugging''"
    "od_append ?d = ''When handling debugging tasks: run it.''" "od_signal_refs ?d = [''sig_1'']"
    "od_author_agent_id ?d = ''agent''" "od_author_run_id ?d = ''run''"
    by (simp_all add: override_draft_def passing_env_def sample_cluster_def signal_def draft)
  have id: "override_id_ok (od_id ?d)" unfolding d by (rule new_override_id_ok) simp
  have schema: "validate_override_dict (tb_iso_ok passing_env) ?d (od_id ?d @ ''.yaml'') = Inr ()"
    using id unfolding validate_override_dict_def d(2-6)
    by (simp add: strip strip_draft APPEND_MAX_LEN_def passing_env_def)
  have smoke: "smoke_test passing_env ''coder'' x = None" for x
    by (simp add: smoke_test_def passing_env_def SMOKE_MAX_DROP_PCT_def dict_get_def)
  have cluster: "validate_cluster sample_cluster = None"
    by (simp add: validate_cluster_def sample_cluster_def)
  have block: "matches_safety_blocklist (tb_search passing_env) x = None" for x
    by (simp add: matches_safety_blocklist_def passing_env_def find_None_iff)
  have env: "tb_adapter passing_env x = Some ''coder''" "length (tb_fixtures passing_env x) = 3"
    "tb_allow_publish passing_env" for x
    by (simp_all add: passing_env_def)
  have pub: "\<exists>r ev args. publish_override passing_env ?d y = (r, ev) \<and> Git (''push'' # args) \<in> set ev" for y
    by (simp add: publish_override_def commit_override_def finish_publish_def passing_env_def Let_def splitlines_def
        py_strip_def py_lstrip_def)
  show ?thesis
    using pub by (simp add: tier1b_build_def Let_def cluster schema smoke block env MIN_FIXTURES_PER_ADAPTER_def)
qed

theorem push_needs_every_gate_witness:
  "\<exists>r ev. tier1b_build passing_env sample_cluster ''agent'' ''run'' = (r, ev)
    \<and> length (od_append (override_draft passing_env sample_cluster ''agent'' ''run'')) \<le> 500"
proof -
  obtain r ev args where "tier1b_build passing_env sample_cluster ''agent'' ''run'' = (r, ev)"
    "Git (''push'' # args) \<in> set ev"
    using passing_env_builds by blast
  with push_needs_every_gate [OF this] show ?thesis by (auto simp: APPEND_MAX_LEN_def)
qed

theorem no_override_without_author_witness: "snd (tier1b_build passing_env sample_cluster [] ''run'') = []"
proof -
  obtain r ev where b: "tier1b_build passing_env sample_cluster [] ''run'' = (r, ev)" by fastforce
  have "py_strip [] = []" by (simp add: py_strip_def py_lstrip_def)
  with no_override_without_author [OF b] b show ?thesis by simp
qed

end
