(* ===== verification/Self_Upgrade.thy ===== *)
theory Self_Upgrade
  imports Prompt_Overrides Skill_Versions
begin

text \<open>
  The self-upgrade dispatcher (\<^verbatim>\<open>agents/self_upgrade_dispatcher.py\<close>), the builders of tiers 0, 1a
  and 3 with the report they render (\<^verbatim>\<open>agents/self_upgrade\<close>), the hook that calls it at the end of a
  run (\<^verbatim>\<open>agents/graph_nodes.py\<close>) and the list of files no upgrade may touch. The language model,
  the JSON parser, the skill search and the drafting of a skill are arguments.
\<close>

section \<open>Files no upgrade may change\<close>

definition IMMUTABLE_PATHS :: "string set" where
  "IMMUTABLE_PATHS = {''agents/self_upgrade.py'', ''agents/self_upgrade_trigger.py'',
     ''agents/self_upgrade_dispatcher.py'', ''agents/skill_security.py'', ''agents/config.py'', ''.env'',
     ''.env.example'', ''agents/graph.py'', ''agents/graph_engine.py'', ''agents/graph_runners.py'',
     ''agents/graph_nodes.py'', ''agents/nodes.py'', ''agents/state.py'', ''agents/specialist_nodes.py'',
     ''agents/output_nodes.py'', ''agents/llm_backend.py'', ''agents/backend_pool.py'',
     ''agents/message_store.py'', ''agents/memory_store.py'', ''agents/artifact_store.py'',
     ''agents/spending_tracker.py'', ''agents/embedder.py'', ''agents/heartbeat.py'',
     ''agents/heartbeat_context.py'', ''agents/heartbeat_progress.py'', ''agents/heartbeat_signals.py'',
     ''agents/heartbeat_spending.py'', ''agents/heartbeat_formatting.py'', ''agents/workflow_factory.py'',
     ''agents/skill_loader.py'', ''agents/skill_generator.py'', ''agents/skill_outcome_store.py'',
     ''agents/skill_cleanup.py'', ''agents/skill_search.py'', ''agents/skill_remote.py'',
     ''agents/paperclip_client.py'', ''agents/ws_client.py'', ''agents/messenger_client.py'',
     ''agents/api_key_manager.py'', ''agents/resource_discovery.py'', ''agents/resource_allocator.py'',
     ''agents/main.py'', ''agents/orchestrator.py'', ''agents/daemon.py'', ''agents/cancellation.py'',
     ''agents/intent_classifier.py''}"

definition IMMUTABLE_DIR_PREFIXES :: "string list" where
  "IMMUTABLE_DIR_PREFIXES = [''agents/storage/'', ''agents/sandbox/'', ''vibe/backends/'']"

definition IMMUTABLE_FILE_PREFIXES :: "string list" where
  "IMMUTABLE_FILE_PREFIXES = [''agents/skill_registry'']"

definition ADDITIONAL_IMMUTABLES :: "string set" where
  "ADDITIONAL_IMMUTABLES = {''agents/lesson_store.py'', ''agents/self_upgrade/tier0_builder.py'',
     ''agents/self_upgrade/tier3_builder.py'', ''agents/self_upgrade/tier1a_builder.py'',
     ''agents/skill_ab.py'', ''agents/self_upgrade/tier1b_builder.py'',
     ''agents/prompt_library/__init__.py'', ''agents/canonical_harvester.py'',
     ''agents/self_upgrade/tier2_builder.py'', ''agents/self_upgrade/ast_verifier.py''}"

definition is_path_immutable :: "string \<Rightarrow> bool" where
  "is_path_immutable rel_path \<longleftrightarrow>
     rel_path \<in> IMMUTABLE_PATHS \<or> rel_path \<in> ADDITIONAL_IMMUTABLES
     \<or> (\<exists>p \<in> set IMMUTABLE_DIR_PREFIXES. prefix p rel_path)
     \<or> (\<exists>p \<in> set IMMUTABLE_FILE_PREFIXES. prefix p rel_path)"

definition is_self_upgrade_enabled :: "string option \<Rightarrow> bool" where
  "is_self_upgrade_enabled setting \<longleftrightarrow> py_lower (opt_or setting ''true'') \<notin> {''false'', ''0'', ''no''}"

text \<open>The dormant tier 2 pipeline: whether it is enabled and whether there is an edit.\<close>

definition tier2_execute :: "string option \<Rightarrow> bool \<Rightarrow> bool \<times> string list" where
  "tier2_execute setting has_edit =
     (False,
      if \<not> is_self_upgrade_enabled setting then [''Self-upgrade not enabled (VIBE_SELF_UPGRADE_ENABLED=false)'']
      else if \<not> has_edit then [''Tier2Pipeline dormant until M4: no typed_edit provided'']
      else [''Tier2Pipeline dormant until M4: TypedEdit handling not implemented''])"

section \<open>Tier 0: a lesson\<close>

record lesson_draft =
  ld_lesson :: string
  ld_role :: string
  ld_task_type :: string
  ld_tag :: string

datatype tier0_result = LessonDrafted lesson_draft "string list" | Tier0Empty string

definition tier0_prompt :: "string \<Rightarrow> upgrade_signal list \<Rightarrow> string" where
  "tier0_prompt role ss =
     join_with [CHR 0x0A] [
       ''You are summarising a lesson for future agent runs to avoid a recurring mistake.'', [], ''Context:'',
       ''- Agent role: '' @ role, ''- Task type: '' @ us_task_type (hd ss), ''- Recent signal(s):'',
       join_with [CHR 0x0A] (map (\<lambda>s. ''  - '' @ us_category s @ '': '' @ us_detail s @ '' (score='' @ str_int (us_score s) @ '')'')
         (take 5 ss)), [],
       ''Write ONE lesson in <=3 sentences that a future agent could apply next time to'',
       ''avoid this mistake. The lesson should be concrete, actionable, and specific to'',
       ''the role and task type. Return ONLY the lesson text, no preamble.'', []]"

definition tier0_build :: "(string \<Rightarrow> string) \<Rightarrow> upgrade_signal list \<Rightarrow> string \<Rightarrow> tier0_result" where
  "tier0_build llm ss role =
     (if ss = [] then Tier0Empty ''no signals to draft from''
      else
        let lesson = py_strip (llm (tier0_prompt role ss)) in
        if lesson = [] then Tier0Empty ''llm returned empty string''
        else LessonDrafted \<lparr>ld_lesson = lesson, ld_role = role, ld_task_type = us_task_type (hd ss), ld_tag = []\<rparr>
          (map us_id ss))"

section \<open>Tier 3: a report\<close>

record evidence_row =
  er_run_id :: string
  er_task_type :: string
  er_score :: int
  er_excerpt :: string

record issue_report =
  ir_report_id :: string
  ir_title :: string
  ir_signal_refs :: "string list"
  ir_evidence :: "evidence_row list"
  ir_hypothesis :: string
  ir_suggested_change :: string
  ir_suggested_change_kind :: string
  ir_confidence :: string
  ir_author_agent_id :: string
  ir_author_role :: string
  ir_created_at :: string

definition render_report :: "issue_report \<Rightarrow> string" where
  "render_report r =
     join_with [CHR 0x0A]
       ([''---'', ''report_id: '' @ ir_report_id r, ''tier: 3'', ''kind: '' @ ir_suggested_change_kind r,
         ''confidence: '' @ ir_confidence r, ''author_agent_id: '' @ ir_author_agent_id r,
         ''author_role: '' @ ir_author_role r, ''created_at: '' @ ir_created_at r, ''signal_refs:'']
        @ map (\<lambda>s. ''  - '' @ s) (ir_signal_refs r) @ [''---'']
        @ [[], ''## Hypothesis'', [], ir_hypothesis r, [], ''## Suggested change'', [], ir_suggested_change r, [],
           ''## Evidence'', []]
        @ concat (map (\<lambda>e. [''- **run '' @ er_run_id e @ ''** (task: '' @ er_task_type e @ '', score: ''
              @ str_int (er_score e) @ '')'', ''  > '' @ er_excerpt e]) (ir_evidence r)))"

datatype tier3_result = ReportDrafted issue_report | Tier3Dropped string "string list"

definition SELF_CRITIQUE_THRESHOLD :: int where "SELF_CRITIQUE_THRESHOLD = 70"

text \<open>The model's answers: \<open>te_draft\<close> is the parsed report for the signals (\<open>None\<close>: not JSON),
  \<open>te_critique\<close> its score (0 when it does not parse); \<open>te_float\<close> prints the confidence, \<open>None\<close> when it is no
  number.\<close>

record tier3_env =
  te_draft :: "string \<Rightarrow> json_obj option"
  te_critique :: "json_obj \<Rightarrow> int"
  te_float :: "string \<Rightarrow> string option"
  te_report_id :: string
  te_now :: string

definition signals_block :: "upgrade_signal list \<Rightarrow> string" where
  "signals_block ss =
     join_with [CHR 0x0A] (map (\<lambda>s. ''- ['' @ us_category s @ ''] task='' @ us_task_type s @ '' score=''
       @ str_int (us_score s) @ '': '' @ us_detail s) (take 10 ss))"

definition need :: "json_obj \<Rightarrow> string \<Rightarrow> py_exn + string" where
  "need d k = (case dict_get d k of None \<Rightarrow> Inl (KeyError k) | Some v \<Rightarrow> Inr v)"

definition evidence_of :: "upgrade_signal \<Rightarrow> evidence_row" where
  "evidence_of s =
     \<lparr>er_run_id = (if us_source_node s = [] then ''unknown'' else us_source_node s), er_task_type = us_task_type s,
      er_score = us_score s, er_excerpt = take 500 (us_detail s)\<rparr>"

definition tier3_build ::
    "tier3_env \<Rightarrow> upgrade_signal list \<Rightarrow> string \<Rightarrow> string \<Rightarrow> py_exn + tier3_result" where
  "tier3_build env ss author_agent_id author_role =
     (let refs = map us_id ss in
      if ss = [] then Inr (Tier3Dropped ''no signals to draft from'' [])
      else case te_draft env (signals_block ss) of
        None \<Rightarrow> Inr (Tier3Dropped ''failed to parse LLM draft as JSON'' refs)
      | Some d \<Rightarrow>
          if te_critique env d < SELF_CRITIQUE_THRESHOLD then
            Inr (Tier3Dropped (''self-critique scored '' @ str_int (te_critique env d) @ '' < '' @ str_int SELF_CRITIQUE_THRESHOLD) refs)
          else
            res_bind (need d ''title'') (\<lambda>title.
            res_bind (need d ''hypothesis'') (\<lambda>hypothesis.
            res_bind (need d ''suggested_change'') (\<lambda>change.
            res_bind (need d ''suggested_change_kind'') (\<lambda>kind.
              case te_float env (dict_get_or d ''confidence'' ''0.5'') of
                None \<Rightarrow> Inl (ValueError ''could not convert string to float'')
              | Some confidence \<Rightarrow>
                  Inr (ReportDrafted
                    \<lparr>ir_report_id = te_report_id env, ir_title = title, ir_signal_refs = refs,
                     ir_evidence = map evidence_of (take 10 ss), ir_hypothesis = hypothesis,
                     ir_suggested_change = change, ir_suggested_change_kind = kind, ir_confidence = confidence,
                     ir_author_agent_id = author_agent_id, ir_author_role = author_role,
                     ir_created_at = te_now env\<rparr>))))))"

section \<open>Tier 1a: a refined skill\<close>

datatype tier1a_result = CandidateWritten string path "string list" | LowConfidence1a string "string list"

record tier1a_env =
  ta_skills :: skill_env
  ta_find_skill :: "string \<Rightarrow> (string \<times> string \<times> path) option" \<comment> \<open>tier, name, path\<close>
  ta_outcomes :: outcome_store
  ta_draft :: "string \<Rightarrow> string \<Rightarrow> string \<Rightarrow> int \<Rightarrow> string option"

definition FEEDBACK_CHAR_CAP :: nat where "FEEDBACK_CHAR_CAP = 3000"

fun dedup_keep_first :: "string list \<Rightarrow> string list" where
  "dedup_keep_first [] = []"
| "dedup_keep_first (x # xs) = x # dedup_keep_first (filter (\<lambda>y. y \<noteq> x) xs)"

definition aggregate_feedback :: "upgrade_signal list \<Rightarrow> outcome_entry list \<Rightarrow> string" where
  "aggregate_feedback ss os =
     take FEEDBACK_CHAR_CAP (join_with [CHR 0x0A, CHR 0x0A]
       (dedup_keep_first (filter (\<lambda>t. t \<noteq> []) (map us_detail ss @ map oe_feedback os))))"

definition entry_field :: "skill_world \<Rightarrow> string \<Rightarrow> string \<Rightarrow> skill_entry option" where
  "entry_field w tier name = (case tier_of tier of None \<Rightarrow> None | Some t \<Rightarrow> dict_get (skills_in w t) name)"

definition tier1a_write ::
    "tier1a_env \<Rightarrow> upgrade_signal list \<Rightarrow> string \<Rightarrow> string \<Rightarrow> path \<Rightarrow> string \<Rightarrow> skill_world
      \<Rightarrow> (py_exn + tier1a_result) \<times> skill_world" where
  "tier1a_write env ss tier name skill_path refined w =
     (let refs = map us_id ss;
          description = (case entry_field w tier name of None \<Rightarrow> ''Refined v2 of '' @ name | Some d \<Rightarrow> sk_description d);
          task_types = (case entry_field w tier name of None \<Rightarrow> [us_task_type (hd ss)] | Some d \<Rightarrow> sk_task_types d)
      in case write_candidate (ta_skills env) name 2 refined description task_types tier (butlast skill_path) w of
           (Inl (FileExistsError _), w') \<Rightarrow> (Inr (LowConfidence1a ''A/B in progress'' refs), w')
         | (Inl e, w') \<Rightarrow> (Inl e, w')
         | (Inr v2, w') \<Rightarrow> (Inr (CandidateWritten name v2 refs), w'))"

definition tier1a_build ::
    "tier1a_env \<Rightarrow> upgrade_signal list \<Rightarrow> skill_world \<Rightarrow> (py_exn + tier1a_result) \<times> skill_world" where
  "tier1a_build env ss w =
     (let refs = map us_id ss; low = (\<lambda>m. (Inr (LowConfidence1a m refs), w)) in
      if ss = [] then (Inl (ValueError ''Tier1aBuilder.build requires at least one signal''), w)
      else
        let task_type = us_task_type (hd ss) in
        case ta_find_skill env task_type of
          None \<Rightarrow> low ''no matching skill''
        | Some (tier, name, skill_path) \<Rightarrow>
            let outcomes = filter (\<lambda>e. oe_skill_name e = name) (os_entries (ta_outcomes env)) in
            if outcomes = [] then low ''no recorded outcomes''
            else if length (list_versions_for name (butlast skill_path) (w_files w)) > 1 then low ''A/B in progress''
            else case fs_read (w_files w) (skill_path @ [SKILL_MD]) of
              None \<Rightarrow> low ''could not read SKILL.md''
            | Some f \<Rightarrow>
                (case ta_draft env task_type (text_of f) (aggregate_feedback ss outcomes) (Min (us_score ` set ss)) of
                   None \<Rightarrow> low ''draft_refined_content returned empty''
                 | Some refined \<Rightarrow>
                     if py_strip refined = [] then low ''draft_refined_content returned empty''
                     else tier1a_write env ss tier name skill_path refined w))"

section \<open>Dispatch\<close>

datatype upgrade_tier = TierZero | TierOneA | TierOneB | TierTwo | TierThree

datatype dispatch_result =
    Tier0Written string "string list"
  | Tier1aQueued string "string list"
  | Tier1bCommitted string string string string "string list"
  | Tier2Committed string string string string string "string list"
  | Tier3Filed string "string list"
  | Rejected string "string list"

fun result_refs :: "dispatch_result \<Rightarrow> string list" where
  "result_refs (Tier0Written _ r) = r"
| "result_refs (Tier1aQueued _ r) = r"
| "result_refs (Tier1bCommitted _ _ _ _ r) = r"
| "result_refs (Tier2Committed _ _ _ _ _ r) = r"
| "result_refs (Tier3Filed _ r) = r"
| "result_refs (Rejected _ r) = r"

record issue_request =
  iq_title :: string
  iq_description :: string
  iq_labels :: "string list"
  iq_assignee :: "string option"

datatype upgrade_effect = Lesson_Added lesson_draft | Issue_Filed issue_request | Published publish_event

record upgrade_world =
  uw_skills :: skill_world
  uw_effects :: "upgrade_effect list"

text \<open>The dependencies of the dispatcher, each \<open>None\<close> when it is not wired.\<close>

record dispatcher =
  dp_lesson_store :: "(lesson_draft \<Rightarrow> string) option"
  dp_tier0 :: "(string \<Rightarrow> string) option"
  dp_tier1a :: "tier1a_env option"
  dp_tier1b :: "tier1b_env option"
  dp_tier3 :: "tier3_env option"
  dp_paperclip :: "(issue_request \<Rightarrow> string) option"
  dp_triage_user :: string

definition classify_signals :: "upgrade_signal list \<Rightarrow> upgrade_tier" where
  "classify_signals ss =
     (let non_empty = filter (\<lambda>s. us_detail s \<noteq> [] \<and> py_strip (us_detail s) \<noteq> []) ss;
          details = us_detail ` set non_empty; task_types = us_task_type ` set non_empty
      in if ss = [] then TierThree
         else if non_empty = [] then TierThree
         else if length non_empty = 1 then TierZero
         else if card details = 1 \<and> card task_types = 1 \<and> length non_empty \<ge> 3 then TierOneB
         else if card task_types = 1 \<and> length non_empty \<ge> 3 then TierOneA
         else TierThree)"

definition handle_tier3 ::
    "dispatcher \<Rightarrow> upgrade_signal list \<Rightarrow> string \<Rightarrow> string \<Rightarrow> upgrade_world
      \<Rightarrow> (py_exn + dispatch_result) \<times> upgrade_world" where
  "handle_tier3 dp ss agent role w =
     (case (dp_tier3 dp, dp_paperclip dp) of
        (Some env, Some create_issue) \<Rightarrow>
          (case tier3_build env ss agent role of
             Inl e \<Rightarrow> (Inl e, w)
           | Inr (Tier3Dropped reason _) \<Rightarrow> (Inr (Rejected (''tier3 dropped: '' @ reason) (map us_id ss)), w)
           | Inr (ReportDrafted r) \<Rightarrow>
               let q = \<lparr>iq_title = ''[self-report] '' @ ir_title r, iq_description = render_report r,
                     iq_labels = [''self-upgrade'', ''auto-generated'', ''tier-3'', ''kind:'' @ ir_suggested_change_kind r],
                     iq_assignee = (if dp_triage_user dp = [] then None else Some (dp_triage_user dp))\<rparr>
               in (Inr (Tier3Filed (create_issue q) (ir_signal_refs r)), w\<lparr>uw_effects := uw_effects w @ [Issue_Filed q]\<rparr>))
      | _ \<Rightarrow> (Inr (Rejected ''tier3 dependencies not wired (tier3_builder or paperclip_client missing)'' (map us_id ss)), w))"

definition handle_tier0 ::
    "dispatcher \<Rightarrow> upgrade_signal list \<Rightarrow> string \<Rightarrow> upgrade_world \<Rightarrow> (py_exn + dispatch_result) \<times> upgrade_world" where
  "handle_tier0 dp ss role w =
     (case (dp_tier0 dp, dp_lesson_store dp) of
        (Some llm, Some add) \<Rightarrow>
          (case tier0_build llm ss role of
             Tier0Empty reason \<Rightarrow> (Inr (Rejected (''tier0 builder empty: '' @ reason) (map us_id ss)), w)
           | LessonDrafted l refs \<Rightarrow>
               (Inr (Tier0Written (add l) refs), w\<lparr>uw_effects := uw_effects w @ [Lesson_Added l]\<rparr>))
      | _ \<Rightarrow> (Inr (Rejected ''tier0 dependencies not wired (lesson_store or tier0_builder missing)'' (map us_id ss)), w))"

definition handle_tier1a ::
    "dispatcher \<Rightarrow> upgrade_signal list \<Rightarrow> string \<Rightarrow> string \<Rightarrow> upgrade_world
      \<Rightarrow> (py_exn + dispatch_result) \<times> upgrade_world" where
  "handle_tier1a dp ss agent role w =
     (case dp_tier1a dp of
        None \<Rightarrow> (Inr (Rejected ''tier1a dependencies not wired'' (map us_id ss)), w)
      | Some env \<Rightarrow>
          (let (r, sw) = tier1a_build env ss (uw_skills w); w1 = w\<lparr>uw_skills := sw\<rparr> in
           case r of
             Inl e \<Rightarrow> (Inl e, w1)
           | Inr (LowConfidence1a _ _) \<Rightarrow> handle_tier3 dp ss agent role w1
           | Inr (CandidateWritten name _ refs) \<Rightarrow> (Inr (Tier1aQueued (name @ ''__v2'') refs), w1)))"

definition handle_tier1b ::
    "dispatcher \<Rightarrow> upgrade_signal list \<Rightarrow> string \<Rightarrow> string \<Rightarrow> string \<Rightarrow> upgrade_world
      \<Rightarrow> (py_exn + dispatch_result) \<times> upgrade_world" where
  "handle_tier1b dp ss agent run role w =
     (case dp_tier1b dp of
        None \<Rightarrow> (Inr (Rejected ''tier1b dependencies not wired'' (map us_id ss)), w)
      | Some env \<Rightarrow>
          (let (r, ev) = tier1b_build env ss agent run;
               w1 = w\<lparr>uw_effects := uw_effects w @ map Published ev\<rparr> in
           case r of
             Inl e \<Rightarrow> (Inl e, w1)
           | Inr (OverrideCommitted i branch commit url issue refs) \<Rightarrow>
               (Inr (Tier1bCommitted branch commit url issue refs), w1)
           | Inr _ \<Rightarrow> handle_tier3 dp ss agent role w1))"

definition dispatch ::
    "dispatcher \<Rightarrow> upgrade_signal list \<Rightarrow> string \<Rightarrow> string \<Rightarrow> string \<Rightarrow> upgrade_world
      \<Rightarrow> (py_exn + dispatch_result) \<times> upgrade_world" where
  "dispatch dp ss agent run role w =
     (case classify_signals ss of
        TierZero \<Rightarrow> handle_tier0 dp ss role w
      | TierOneA \<Rightarrow> handle_tier1a dp ss agent role w
      | TierOneB \<Rightarrow> handle_tier1b dp ss agent run role w
      | TierThree \<Rightarrow> handle_tier3 dp ss agent role w
      | TierTwo \<Rightarrow> (Inr (Rejected ''tier 2 not implemented yet'' (map us_id ss)), w))"

section \<open>The hook at the end of a run\<close>

definition bare_dispatcher :: dispatcher where
  "bare_dispatcher = \<lparr>dp_lesson_store = None, dp_tier0 = None, dp_tier1a = None, dp_tier1b = None,
     dp_tier3 = None, dp_paperclip = None, dp_triage_user = []\<rparr>"

definition artifact_of :: "dispatch_result \<Rightarrow> string option" where
  "artifact_of r = (case r of Tier0Written i _ \<Rightarrow> Some i | Tier3Filed i _ \<Rightarrow> Some i | _ \<Rightarrow> None)"

text \<open>\<open>dp\<close> is the dispatcher the hook makes; the program makes a bare one.\<close>

definition dispatch_accumulated ::
    "dispatcher \<Rightarrow> string \<Rightarrow> trigger \<Rightarrow> upgrade_world \<Rightarrow> (py_exn + dispatch_result) \<times> trigger \<times> upgrade_world" where
  "dispatch_accumulated dp task_type g w =
     (let ss = get_accumulated_signals task_type g in
      if ss = [] then (Inr (Rejected ''no signals'' []), g, w)
      else
        (case dispatch dp ss [] [] ''*'' w of
           (Inl e, w') \<Rightarrow> (Inl e, g, w')
         | (Inr r, w') \<Rightarrow>
             (Inr r,
              (case artifact_of r of
                 Some (c # cs) \<Rightarrow> snd (mark_artifact_ref (result_refs r) (c # cs) g)
               | _ \<Rightarrow> g), w')))"

definition run_self_upgrade_dispatch ::
    "string \<Rightarrow> trigger \<Rightarrow> upgrade_world \<Rightarrow> (py_exn + dispatch_result) \<times> trigger \<times> upgrade_world" where
  "run_self_upgrade_dispatch task_type g w = dispatch_accumulated bare_dispatcher task_type g w"

section \<open>Lemmas\<close>

lemma tier0_refs: "tier0_build llm ss role = LessonDrafted l refs \<Longrightarrow> refs = map us_id ss"
  by (auto simp: tier0_build_def Let_def split: if_splits)

lemma tier3_refs: "tier3_build env ss agent role = Inr (ReportDrafted r) \<Longrightarrow> ir_signal_refs r = map us_id ss"
  by (auto simp: tier3_build_def Let_def split: if_splits option.splits sum.splits)

lemma tier1a_refs:
  assumes "tier1a_build env ss w = (Inr (CandidateWritten name v2 refs), w')"
  shows "refs = map us_id ss"
  using assms
  by (auto simp: tier1a_build_def tier1a_write_def Let_def split: if_splits option.splits sum.splits py_exn.splits prod.splits)

lemma publish_refs:
  assumes "publish_override env d snapshot = (Inr (OverrideCommitted i b c u n refs), ev)"
  shows "refs = od_signal_refs d"
  using assms
  by (auto simp: publish_override_def commit_override_def finish_publish_def Let_def
      split: sum.splits option.splits if_splits)

lemma tier1b_refs:
  assumes "tier1b_build env ss agent run = (Inr (OverrideCommitted i b c u n refs), ev)"
  shows "refs = map us_id ss"
proof -
  have "\<exists>x. publish_override env (override_draft env ss agent run) x = (Inr (OverrideCommitted i b c u n refs), ev)"
    using assms by (auto simp: tier1b_build_def Let_def split: option.splits if_splits sum.splits)
  then show ?thesis by (auto dest!: publish_refs simp: override_draft_def)
qed

text \<open>What a person or a later run sees of a dispatch: the lessons, the issues, and the companion issues tier 1b asks for.\<close>

fun is_issue :: "publish_event \<Rightarrow> bool" where
  "is_issue (Issue _) \<longleftrightarrow> True"
| "is_issue _ \<longleftrightarrow> False"

fun is_announcement :: "upgrade_effect \<Rightarrow> bool" where
  "is_announcement (Published e) \<longleftrightarrow> is_issue e"
| "is_announcement _ \<longleftrightarrow> True"

definition announced :: "upgrade_world \<Rightarrow> upgrade_effect list" where
  "announced w = filter is_announcement (uw_effects w)"

text \<open>The announcements that belong to a result.\<close>

definition fits :: "dispatch_result \<Rightarrow> upgrade_effect list \<Rightarrow> bool" where
  "fits r new =
     (case r of
        Tier0Written _ _ \<Rightarrow> (\<exists>l. new = [Lesson_Added l])
      | Tier1bCommitted _ _ _ _ _ \<Rightarrow> (\<exists>title. new = [Published (Issue title)])
      | Tier3Filed _ refs \<Rightarrow> (\<exists>q. new = [Issue_Filed q])
      | _ \<Rightarrow> new = [])"

definition accounts ::
    "upgrade_signal list \<Rightarrow> upgrade_world \<Rightarrow> dispatch_result \<Rightarrow> upgrade_world \<Rightarrow> bool" where
  "accounts ss w r w' \<longleftrightarrow>
     result_refs r = map us_id ss \<and> (\<exists>new. announced w' = announced w @ new \<and> fits r new)"

lemma announced_more [simp]:
  "announced (w\<lparr>uw_effects := uw_effects w @ map Published ev\<rparr>) = announced w @ map Published (filter is_issue ev)"
  "announced (w\<lparr>uw_skills := sw\<rparr>) = announced w"
  "announced (w\<lparr>uw_effects := uw_effects w @ [Lesson_Added l]\<rparr>) = announced w @ [Lesson_Added l]"
  "announced (w\<lparr>uw_effects := uw_effects w @ [Issue_Filed q]\<rparr>) = announced w @ [Issue_Filed q]"
  by (simp_all add: announced_def comp_def filter_map)

text \<open>Tier 1b asks for an issue exactly when it commits an override.\<close>

definition issue_iff_committed :: "(py_exn + tier1b_result) \<times> publish_event list \<Rightarrow> bool" where
  "issue_iff_committed x \<longleftrightarrow>
     (case fst x of
        Inr (OverrideCommitted _ _ _ _ _ _) \<Rightarrow> \<exists>title. filter is_issue (snd x) = [Issue title]
      | _ \<Rightarrow> filter is_issue (snd x) = [])"

lemma issue_iff_committed_simps [simp]:
  "issue_iff_committed (Inl e, ev) \<longleftrightarrow> filter is_issue ev = []"
  "issue_iff_committed (Inr (GateFailed g m refs), ev) \<longleftrightarrow> filter is_issue ev = []"
  "issue_iff_committed (Inr (LowConfidence1b m refs), ev) \<longleftrightarrow> filter is_issue ev = []"
  "issue_iff_committed (Inr (OverrideCommitted i b c u n refs), ev) \<longleftrightarrow> (\<exists>title. filter is_issue ev = [Issue title])"
  by (simp_all add: issue_iff_committed_def)

lemma finish_issue: "filter is_issue ev = [] \<Longrightarrow> issue_iff_committed (finish_publish env d c ev)"
  unfolding finish_publish_def Let_def by (simp split: sum.split)

lemma commit_issue: "filter is_issue ev = [] \<Longrightarrow> issue_iff_committed (commit_override env d ev)"
  unfolding commit_override_def Let_def by (simp add: finish_issue split: sum.split)

lemma publish_issue: "issue_iff_committed (publish_override env d snapshot)"
  unfolding publish_override_def Let_def by (simp add: commit_issue split: sum.split option.split)

lemma tier1b_issue: "issue_iff_committed (tier1b_build env ss agent run)"
  unfolding tier1b_build_def Let_def by (simp add: publish_issue split: option.split sum.split)

lemma handle_tier3_accounts: "handle_tier3 dp ss agent role w = (Inr r, w') \<Longrightarrow> accounts ss w r w'"
  by (auto simp: handle_tier3_def accounts_def fits_def Let_def tier3_refs
      split: option.splits sum.splits tier3_result.splits)

lemma handle_tier0_accounts: "handle_tier0 dp ss role w = (Inr r, w') \<Longrightarrow> accounts ss w r w'"
  by (auto simp: handle_tier0_def accounts_def fits_def tier0_refs
      split: option.splits tier0_result.splits)

lemma accounts_after:
  "accounts ss w1 r w' \<Longrightarrow> announced w1 = announced w \<Longrightarrow> accounts ss w r w'"
  by (simp add: accounts_def)

lemma handle_tier1a_accounts:
  assumes "handle_tier1a dp ss agent role w = (Inr r, w')"
  shows "accounts ss w r w'"
proof (cases "dp_tier1a dp")
  case (Some env)
  obtain b sw where b: "tier1a_build env ss (uw_skills w) = (b, sw)" by fastforce
  show ?thesis
  proof (cases b)
    case (Inr c)
    show ?thesis
    proof (cases c)
      case (CandidateWritten name v2 refs)
      with b Inr have "refs = map us_id ss" by (simp add: tier1a_refs)
      then show ?thesis
        using assms Some b Inr CandidateWritten
        by (auto simp: handle_tier1a_def accounts_def fits_def)
    next
      case (LowConfidence1a m refs)
      then have "handle_tier3 dp ss agent role (w\<lparr>uw_skills := sw\<rparr>) = (Inr r, w')"
        using assms Some b Inr by (simp add: handle_tier1a_def)
      then show ?thesis by (rule accounts_after [OF handle_tier3_accounts]) simp
    qed
  qed (use assms Some b in \<open>simp add: handle_tier1a_def\<close>)
qed (use assms in \<open>auto simp: handle_tier1a_def accounts_def fits_def\<close>)

lemma handle_tier1b_accounts:
  assumes "handle_tier1b dp ss agent run role w = (Inr r, w')"
  shows "accounts ss w r w'"
proof (cases "dp_tier1b dp")
  case (Some env)
  obtain b ev where b: "tier1b_build env ss agent run = (b, ev)" by fastforce
  let ?w1 = "w\<lparr>uw_effects := uw_effects w @ map Published ev\<rparr>"
  have issue: "issue_iff_committed (b, ev)" using tier1b_issue [of env ss agent run] b by simp
  show ?thesis
  proof (cases "\<exists>i br c u n refs. b = Inr (OverrideCommitted i br c u n refs)")
    case True
    then obtain i br c u n refs where o: "b = Inr (OverrideCommitted i br c u n refs)" by blast
    with b have "refs = map us_id ss" by (simp add: tier1b_refs)
    then show ?thesis
      using assms Some b o issue by (auto simp: handle_tier1b_def accounts_def fits_def issue_iff_committed_def)
  next
    case False
    then have "handle_tier3 dp ss agent role ?w1 = (Inr r, w')"
      using assms Some b by (auto simp: handle_tier1b_def Let_def split: sum.splits tier1b_result.splits)
    moreover have "filter is_issue ev = []"
      using False issue by (auto simp: issue_iff_committed_def split: sum.splits tier1b_result.splits)
    ultimately show ?thesis using accounts_after [OF handle_tier3_accounts] by (metis announced_more(1) append_Nil2 list.simps(8))
  qed
qed (use assms in \<open>auto simp: handle_tier1b_def accounts_def fits_def\<close>)

lemma dispatch_accounts:
  assumes "dispatch dp ss agent run role w = (Inr r, w')"
  shows "accounts ss w r w'"
proof (cases "classify_signals ss")
  case TierTwo
  then show ?thesis using assms by (auto simp: dispatch_def accounts_def fits_def)
qed (use assms in \<open>simp_all add: dispatch_def handle_tier0_accounts handle_tier1a_accounts
    handle_tier1b_accounts handle_tier3_accounts\<close>)

section \<open>Properties\<close>

text \<open>C20: Whatever tier the signals reach, fall-through to tier 3 included, a dispatch that returns names exactly the signals it
  was given, in order; and what it announces fits its result: one lesson for a lesson written, one issue for a report filed, one
  companion issue asked for when tier 1b commits an override, and nothing for a queued skill or a rejection.\<close>

theorem dispatch_accounts_for_signals:
  assumes "dispatch dp ss agent run role w = (Inr r, w')"
  shows "result_refs r = map us_id ss
    \<and> (\<exists>new. announced w' = announced w @ new
        \<and> (case r of
             Tier0Written _ _ \<Rightarrow> \<exists>l. new = [Lesson_Added l]
           | Tier1bCommitted _ _ _ _ _ \<Rightarrow> \<exists>title. new = [Published (Issue title)]
           | Tier3Filed _ refs \<Rightarrow> \<exists>q. new = [Issue_Filed q]
           | _ \<Rightarrow> new = []))"
  using dispatch_accounts [OF assms] by (simp add: accounts_def fits_def)

definition lesson_dispatcher :: dispatcher where
  "lesson_dispatcher = bare_dispatcher\<lparr>dp_lesson_store := Some (\<lambda>_. ''lesson_1''), dp_tier0 := Some (\<lambda>_. ''Check units.'')\<rparr>"

definition lone_signal :: upgrade_signal where
  "lone_signal = \<lparr>us_category = ''low_score'', us_task_type = ''coding'', us_detail = ''wrong unit'', us_score = 40,
     us_source_node = [], us_id = ''sig_1'', us_artifact_ref = None\<rparr>"

lemma lesson_dispatch:
  "fst (dispatch lesson_dispatcher [lone_signal] agent run role w) = Inr (Tier0Written ''lesson_1'' [''sig_1''])"
proof -
  have s: "py_strip ''wrong unit'' \<noteq> []" "py_strip ''Check units.'' = ''Check units.''" by code_simp+
  then have "classify_signals [lone_signal] = TierZero"
    by (simp add: classify_signals_def lone_signal_def)
  then show ?thesis
    using s by (simp add: dispatch_def handle_tier0_def tier0_build_def lesson_dispatcher_def bare_dispatcher_def
        lone_signal_def)
qed

theorem dispatch_accounts_for_signals_witness:
  "\<forall>w. \<exists>w' l. dispatch lesson_dispatcher [lone_signal] [] [] ''*'' w = (Inr (Tier0Written ''lesson_1'' [''sig_1'']), w')
    \<and> announced w' = announced w @ [Lesson_Added l]"
proof
  fix w
  obtain w' where d: "dispatch lesson_dispatcher [lone_signal] [] [] ''*'' w = (Inr (Tier0Written ''lesson_1'' [''sig_1'']), w')"
    using lesson_dispatch [of "[]" "[]" "''*''" w] by (metis prod.collapse)
  then show "\<exists>w' l. dispatch lesson_dispatcher [lone_signal] [] [] ''*'' w = (Inr (Tier0Written ''lesson_1'' [''sig_1'']), w')
    \<and> announced w' = announced w @ [Lesson_Added l]"
    using dispatch_accounts_for_signals [OF d] by auto
qed

text \<open>Signals that produced a lesson or an issue are not dispatched again: with a signal file, after
  the hook the task type has no undispatched signal left; without an artifact nothing is marked.\<close>

theorem artifact_ends_dispatch:
  assumes "dispatch_accumulated dp task_type g w = (Inr r, g', w')" and "tg_store g \<noteq> None"
  shows "(case artifact_of r of Some (c # cs) \<Rightarrow> get_accumulated_signals task_type g' = [] | _ \<Rightarrow> g' = g)"
proof (cases "get_accumulated_signals task_type g = []")
  case True
  then show ?thesis using assms by (auto simp: dispatch_accumulated_def artifact_of_def)
next
  case False
  let ?ss = "get_accumulated_signals task_type g"
  obtain b w1 where b: "dispatch dp ?ss [] [] ''*'' w = (b, w1)" by fastforce
  then have r: "b = Inr r" and
    g': "g' = (case artifact_of r of Some (c # cs) \<Rightarrow> snd (mark_artifact_ref (result_refs r) (c # cs) g) | _ \<Rightarrow> g)"
    using assms(1) False by (auto simp: dispatch_accumulated_def Let_def split: sum.splits)
  have refs: "result_refs r = map us_id ?ss" using dispatch_accounts [of dp ?ss] b r by (auto simp: accounts_def)
  obtain entries where e: "tg_store g = Some entries" using assms(2) by blast
  have "get_accumulated_signals task_type (snd (mark_artifact_ref (result_refs r) ref g)) = []" for ref
    using marked_signals_are_not_accumulated [OF e, of task_type "result_refs r" ref] by (simp add: refs)
  then show ?thesis using g' by (simp split: option.splits list.splits)
qed

theorem artifact_ends_dispatch_witness:
  "\<forall>w. \<exists>r g' w'. dispatch_accumulated lesson_dispatcher ''coding''
      (new_trigger 60 2 3 (Some [lone_signal]) 0) w = (Inr r, g', w')
    \<and> get_accumulated_signals ''coding'' g' = []"
proof
  fix w
  let ?g = "new_trigger 60 2 3 (Some [lone_signal]) 0"
  have ss: "get_accumulated_signals ''coding'' ?g = [lone_signal]"
    by (simp add: get_accumulated_signals_def new_trigger_def load_persisted_signals_def add_to_group_def
        dict_get_or_set) (simp add: dict_get_or_def lone_signal_def)
  obtain w' where "dispatch lesson_dispatcher [lone_signal] [] [] ''*'' w = (Inr (Tier0Written ''lesson_1'' [''sig_1'']), w')"
    using lesson_dispatch [of "[]" "[]" "''*''" w] by (metis prod.collapse)
  then obtain g' where d: "dispatch_accumulated lesson_dispatcher ''coding'' ?g w
      = (Inr (Tier0Written ''lesson_1'' [''sig_1'']), g', w')"
    by (simp add: dispatch_accumulated_def ss Let_def)
  moreover have "tg_store ?g \<noteq> None" by (simp add: new_trigger_def load_persisted_signals_def)
  ultimately show "\<exists>r g' w'. dispatch_accumulated lesson_dispatcher ''coding'' ?g w = (Inr r, g', w')
    \<and> get_accumulated_signals ''coding'' g' = []"
    using artifact_ends_dispatch [OF d] by (auto simp: artifact_of_def)
qed

text \<open>As the program wires it, the hook never upgrades anything: its dispatcher has no dependency, so
  whatever signals accumulated the result is a rejection and the trigger, the skills, the lessons and
  the issues are as before.\<close>

theorem hook_never_upgrades:
  "\<exists>reason refs. run_self_upgrade_dispatch task_type g w = (Inr (Rejected reason refs), g, w)"
proof -
  let ?ss = "get_accumulated_signals task_type g"
  have "\<exists>reason refs. dispatch bare_dispatcher ?ss [] [] ''*'' w = (Inr (Rejected reason refs), w)"
    by (cases "classify_signals ?ss")
      (simp_all add: dispatch_def handle_tier0_def handle_tier1a_def handle_tier1b_def handle_tier3_def bare_dispatcher_def)
  then obtain reason refs where "dispatch bare_dispatcher ?ss [] [] ''*'' w = (Inr (Rejected reason refs), w)" by blast
  then show ?thesis
    by (simp add: run_self_upgrade_dispatch_def dispatch_accumulated_def Let_def artifact_of_def)
qed

text \<open>Even with every dependency wired the hook passes no author, so tier 1b publishes nothing.\<close>

lemma upgrade_package_is_not_immutable:
  "\<not> is_path_immutable ''agents/self_upgrade/__init__.py'' \<and> \<not> is_path_immutable ''agents/self_upgrade/reports.py''
    \<and> is_path_immutable ''agents/self_upgrade.py''"
  by (simp add: is_path_immutable_def IMMUTABLE_PATHS_def ADDITIONAL_IMMUTABLES_def
      IMMUTABLE_DIR_PREFIXES_def IMMUTABLE_FILE_PREFIXES_def)

end
