(* ===== verification/Py_Json.thy ===== *)
theory Py_Json
  imports Py_Strings
begin

text \<open>
  JSON values as the program handles them: what \<open>json.loads\<close> and \<open>response.json()\<close> return, the
  dictionary and list operations used on them, and Python's truth value. An operation on a value of
  the wrong type raises, as in Python.
\<close>

datatype json =
    JNull
  | JBool bool
  | JInt int
  | JReal real
  | JStr string
  | JArr "json list"
  | JObj "(string \<times> json) list"

fun truthy :: "json \<Rightarrow> bool" where
  "truthy JNull = False"
| "truthy (JBool b) = b"
| "truthy (JInt n) = (n \<noteq> 0)"
| "truthy (JReal r) = (r \<noteq> 0)"
| "truthy (JStr s) = (s \<noteq> [])"
| "truthy (JArr xs) = (xs \<noteq> [])"
| "truthy (JObj d) = (d \<noteq> [])"

text \<open>\<open>d.get(k, default)\<close>, \<open>AttributeError\<close> when \<open>d\<close> is no dictionary.\<close>

fun json_get :: "json \<Rightarrow> string \<Rightarrow> json \<Rightarrow> py_exn + json" where
  "json_get (JObj d) k x = Inr (dict_get_or d k x)"
| "json_get _ k x = Inl (OtherError ''AttributeError'' k)"

text \<open>\<open>for x in v\<close>.\<close>

fun json_items :: "json \<Rightarrow> py_exn + json list" where
  "json_items (JArr xs) = Inr xs"
| "json_items (JObj d) = Inr (map (JStr \<circ> fst) d)"
| "json_items (JStr s) = Inr (map (\<lambda>c. JStr [c]) s)"
| "json_items _ = Inl (OtherError ''TypeError'' ''object is not iterable'')"

text \<open>A list comprehension whose element expression can raise.\<close>

fun res_map :: "('a \<Rightarrow> 'e + 'b) \<Rightarrow> 'a list \<Rightarrow> 'e + 'b list" where
  "res_map f [] = Inr []"
| "res_map f (x # xs) = res_bind (f x) (\<lambda>y. res_bind (res_map f xs) (\<lambda>ys. Inr (y # ys)))"

lemma res_map_Inr_length: "res_map f xs = Inr ys \<Longrightarrow> length ys = length xs"
  by (induction xs arbitrary: ys) auto

lemma res_map_total: "(\<And>x. x \<in> set xs \<Longrightarrow> f x = Inr (g x)) \<Longrightarrow> res_map f xs = Inr (map g xs)"
  by (induction xs) auto

text \<open>\<open>str(v)\<close> of a scalar; \<open>repr\<close> stands for the printing of floats, lists and dictionaries.\<close>

fun json_text :: "(json \<Rightarrow> string) \<Rightarrow> json \<Rightarrow> string" where
  "json_text repr (JStr s) = s"
| "json_text repr JNull = ''None''"
| "json_text repr (JBool b) = (if b then ''True'' else ''False'')"
| "json_text repr (JInt n) = str_int n"
| "json_text repr v = repr v"

section \<open>Integers in texts\<close>

text \<open>
  \<open>int(text)\<close>: white space around, a sign, digits with single underscores between them. The message of the exception prints the
  text plainly between quotes.
\<close>

fun digits_from :: "bool \<Rightarrow> nat \<Rightarrow> string \<Rightarrow> nat option" where
  "digits_from seen n [] = (if seen then Some n else None)"
| "digits_from seen n (c # cs) =
     (if is_digit c then digits_from True (10 * n + (of_char c - 48)) cs
      else if c = CHR ''_'' \<and> seen then digits_from False n cs
      else None)"

definition signed_digits :: "string \<Rightarrow> int option" where
  "signed_digits s =
     (case s of
        [] \<Rightarrow> None
      | c # cs \<Rightarrow>
          if c = CHR ''-'' then map_option (\<lambda>n. - int n) (digits_from False 0 cs)
          else if c = CHR ''+'' then map_option int (digits_from False 0 cs)
          else map_option int (digits_from False 0 s))"

definition py_int :: "string \<Rightarrow> py_exn + int" where
  "py_int s =
     (case signed_digits (py_strip s) of
        Some n \<Rightarrow> Inr n
      | None \<Rightarrow> Inl (ValueError (''invalid literal for int() with base 10: '' @ [CHR 0x27] @ s @ [CHR 0x27])))"

lemma digits_from_digits:
  "\<forall>c \<in> set s. is_digit c \<Longrightarrow> s \<noteq> [] \<or> seen \<Longrightarrow> digits_from seen n s = Some (foldl (\<lambda>n c. 10 * n + (of_char c - 48)) n s)"
  by (induction s arbitrary: seen n) auto

lemma digits_from_str_nat [simp]: "digits_from False 0 (str_nat n) = Some n"
proof -
  have "digits_from False 0 (str_nat n) = Some (digits_value (str_nat n))"
    unfolding digits_value_def by (rule digits_from_digits) (use str_nat_digits in auto)
  then show ?thesis by simp
qed

lemma digit_no_space: "is_digit c \<Longrightarrow> \<not> py_space c \<and> c \<noteq> CHR ''-'' \<and> c \<noteq> CHR ''+''"
  by (auto simp: is_digit_def py_space_def)

lemma str_int_ends:
  "str_int n \<noteq> []" "\<not> py_space (hd (str_int n))" "\<not> py_space (last (str_int n))"
proof -
  have d: "is_digit (hd (str_nat k))" "is_digit (last (str_nat k))" for k
    using str_nat_digits [of k] str_nat_nonempty [of k] by auto
  have m: "\<not> py_space (CHR ''-'')" by (simp add: py_space_def)
  show "str_int n \<noteq> []" by (simp add: str_int_def)
  show "\<not> py_space (hd (str_int n))" using d(1) digit_no_space m by (auto simp: str_int_def)
  show "\<not> py_space (last (str_int n))" using d(2) digit_no_space by (auto simp: str_int_def)
qed

lemma signed_digits_str_int: "signed_digits (str_int n) = Some n"
proof (cases "n < 0")
  case True
  then show ?thesis by (simp add: signed_digits_def str_int_def)
next
  case False
  obtain c cs where s: "str_nat (nat n) = c # cs" using str_nat_nonempty [of "nat n"] by (cases "str_nat (nat n)") auto
  then have "is_digit c" using str_nat_digits [of "nat n"] by simp
  then show ?thesis
    using False s digits_from_str_nat [of "nat n"] digit_no_space [of c] by (auto simp: signed_digits_def str_int_def)
qed

text \<open>A printed integer is read back.\<close>

lemma py_int_str_int [simp]: "py_int (str_int n) = Inr n"
  using str_int_ends [of n] by (simp add: py_int_def py_strip_id signed_digits_str_int)

end
