(* ===== verification/Paperclip_Client.thy ===== *)
theory Paperclip_Client
  imports Py_Json
begin

text \<open>
  The HTTP client of the Paperclip control plane (\<^verbatim>\<open>agents/paperclip_client.py\<close>): the request loop
  with its retries and the operations on top of it. The network is an argument \<open>net\<close>: the answer to
  the last request of a history. Random jitter is \<open>jitter\<close>, a number for each attempt and upper bound;
  \<open>float()\<close> and the signing of tokens are arguments. Time passes only through the recorded pauses.
\<close>

section \<open>Data\<close>

record paperclip_client =
  pc_api_url :: string
  pc_api_key :: string
  pc_agent_id :: string
  pc_company_id :: string
  pc_run_id :: string
  pc_max_retries :: int
  pc_base_delay :: real
  pc_timeout :: real

record agent_info =
  ag_id :: json
  ag_company_id :: json
  ag_name :: json
  ag_role :: json
  ag_title :: json
  ag_status :: json
  ag_reports_to :: json
  ag_budget :: json
  ag_spent :: json
  ag_chain_of_command :: json

record issue =
  is_id :: json
  is_title :: json
  is_description :: json
  is_status :: json
  is_priority :: json
  is_assignee :: json
  is_parent_id :: json
  is_project_id :: json
  is_goal_id :: json
  is_identifier :: json
  is_ancestors :: json
  is_comments_count :: json

record issue_comment =
  cm_id :: json
  cm_body :: json
  cm_author_agent_id :: json
  cm_author_user_id :: json
  cm_created_at :: json

record checkout_result =
  co_success :: bool
  co_conflict_owner :: "string option"
  co_issue :: "issue option"

record dashboard_summary =
  ds_agent_counts :: json
  ds_issue_counts :: json
  ds_spend :: json
  ds_budget_utilization :: json

record http_request =
  rq_method :: string
  rq_url :: string
  rq_headers :: "(string \<times> string) list"
  rq_body :: "json option"
  rq_params :: "(string \<times> string) list option"

text \<open>\<open>rp_json\<close> is \<open>None\<close> when the body is no JSON; header names are case-insensitive.\<close>

record http_response =
  rp_status :: int
  rp_body :: string
  rp_retry_after :: "string option"
  rp_json :: "json option"

datatype http_reply =
    Response http_response
  | Unreachable string \<comment> \<open>connection error or timeout\<close>
  | TransportError py_exn \<comment> \<open>any other exception of the library\<close>

type_synonym network = "http_request list \<Rightarrow> http_reply"

record net_world =
  nw_sent :: "http_request list"
  nw_slept :: "real list"

section \<open>Errors\<close>

definition api_error :: "string \<Rightarrow> int \<Rightarrow> string \<Rightarrow> py_exn" where
  "api_error cls status m = OtherError cls (''Paperclip API error '' @ str_int status @ '': '' @ m)"

text \<open>\<open>except PaperclipAPIError\<close> catches the subclasses.\<close>

fun is_api_error :: "py_exn \<Rightarrow> bool" where
  "is_api_error (OtherError cls m) \<longleftrightarrow>
     cls \<in> {''PaperclipAPIError'', ''PaperclipConflictError'', ''PaperclipAuthError'', ''PaperclipNotFoundError''}"
| "is_api_error _ \<longleftrightarrow> False"

definition is_conflict :: "py_exn \<Rightarrow> bool" where
  "is_conflict e \<longleftrightarrow> (\<exists>m. e = OtherError ''PaperclipConflictError'' m)"

lemma is_conflict_code [code]:
  "is_conflict e = (case e of OtherError cls m \<Rightarrow> cls = ''PaperclipConflictError'' | _ \<Rightarrow> False)"
  by (cases e) (auto simp: is_conflict_def)

text \<open>\<open>except requests.RequestException\<close>.\<close>

definition is_request_exception :: "py_exn \<Rightarrow> bool" where
  "is_request_exception e =
     (case e of OtherError cls _ \<Rightarrow> cls \<in> {''HTTPError'', ''JSONDecodeError'', ''RequestException''} | _ \<Rightarrow> False)"

section \<open>Requests\<close>

definition RETRYABLE_HTTP :: "int set" where "RETRYABLE_HTTP = {429, 500, 502, 503, 504}"

definition PAPERCLIP_MAX_DELAY :: real where "PAPERCLIP_MAX_DELAY = 15"

definition paperclip_headers :: "paperclip_client \<Rightarrow> (string \<times> string) list" where
  "paperclip_headers c =
     [(''Authorization'', ''Bearer '' @ pc_api_key c), (''Content-Type'', ''application/json'')]
     @ (if pc_run_id c \<noteq> [] then [(''X-Paperclip-Run-Id'', pc_run_id c)] else [])"

definition retry_after_header :: "(string \<Rightarrow> real option) \<Rightarrow> http_response \<Rightarrow> real option" where
  "retry_after_header to_float r = (case rp_retry_after r of None \<Rightarrow> None | Some v \<Rightarrow> to_float v)"

definition paperclip_delay :: "(nat \<Rightarrow> real \<Rightarrow> real) \<Rightarrow> nat \<Rightarrow> real \<Rightarrow> real \<Rightarrow> real option \<Rightarrow> real" where
  "paperclip_delay jitter attempt base_delay max_delay retry_after =
     (let delay = min (jitter attempt (base_delay * 2 ^ attempt)) max_delay in
      case retry_after of None \<Rightarrow> delay | Some r \<Rightarrow> max delay (min r max_delay))"

datatype attempt_outcome = Answered json | Failed py_exn | Transient string "real option"

text \<open>One pass of the loop body up to the decision whether to try again.\<close>

definition attempt_of :: "(string \<Rightarrow> real option) \<Rightarrow> http_reply \<Rightarrow> attempt_outcome" where
  "attempt_of to_float reply =
     (case reply of
        Unreachable m \<Rightarrow> Transient m None
      | TransportError e \<Rightarrow> Failed e
      | Response r \<Rightarrow>
          let s = rp_status r in
          if s = 409 then Failed (api_error ''PaperclipConflictError'' 409 (rp_body r))
          else if s = 401 \<or> s = 403 then Failed (api_error ''PaperclipAuthError'' s (rp_body r))
          else if s = 404 then Failed (api_error ''PaperclipNotFoundError'' 404 (rp_body r))
          else if s = 400 then Failed (api_error ''PaperclipAPIError'' 400 (rp_body r))
          else if s \<in> RETRYABLE_HTTP then Transient (''HTTP '' @ str_int s) (retry_after_header to_float r)
          else if 400 \<le> s \<and> s < 600 then Failed (OtherError ''HTTPError'' (str_int s))
          else if rp_body r = [] then Answered (JObj [])
          else case rp_json r of None \<Rightarrow> Failed (OtherError ''JSONDecodeError'' []) | Some j \<Rightarrow> Answered j)"

record http_env =
  ht_net :: network
  ht_jitter :: "nat \<Rightarrow> real \<Rightarrow> real"
  ht_float :: "string \<Rightarrow> real option"

definition out_of_attempts :: "paperclip_client \<Rightarrow> string \<Rightarrow> py_exn" where
  "out_of_attempts c m =
     api_error ''PaperclipAPIError'' 0 (''Request failed after '' @ str_int (pc_max_retries c + 1) @ '' attempts: '' @ m)"

text \<open>\<open>n\<close> passes are left, \<open>attempt\<close> is the number of the next one.\<close>

fun request_loop ::
    "http_env \<Rightarrow> paperclip_client \<Rightarrow> http_request \<Rightarrow> string \<Rightarrow> nat \<Rightarrow> nat \<Rightarrow> net_world
      \<Rightarrow> (py_exn + json) \<times> net_world" where
  "request_loop h c q last_error attempt 0 w = (Inl (out_of_attempts c last_error), w)"
| "request_loop h c q last_error attempt (Suc n) w =
     (let w1 = w\<lparr>nw_sent := nw_sent w @ [q]\<rparr> in
      case attempt_of (ht_float h) (ht_net h (nw_sent w1)) of
        Answered j \<Rightarrow> (Inr j, w1)
      | Failed e \<Rightarrow> (Inl e, w1)
      | Transient m retry_after \<Rightarrow>
          if int attempt \<ge> pc_max_retries c then (Inl (out_of_attempts c m), w1)
          else
            let delay = paperclip_delay (ht_jitter h) attempt (pc_base_delay c) PAPERCLIP_MAX_DELAY retry_after
            in request_loop h c q m (Suc attempt) n (w1\<lparr>nw_slept := nw_slept w1 @ [delay]\<rparr>))"

definition request ::
    "http_env \<Rightarrow> paperclip_client \<Rightarrow> string \<Rightarrow> string \<Rightarrow> json option \<Rightarrow> (string \<times> string) list option \<Rightarrow> net_world
      \<Rightarrow> (py_exn + json) \<times> net_world" where
  "request h c meth path body params w =
     request_loop h c \<lparr>rq_method = meth, rq_url = pc_api_url c @ path, rq_headers = paperclip_headers c,
       rq_body = body, rq_params = params\<rparr> ''None'' 0 (nat (pc_max_retries c + 1)) w"

definition paperclip_health_check :: "http_env \<Rightarrow> paperclip_client \<Rightarrow> net_world \<Rightarrow> (py_exn + bool) \<times> net_world" where
  "paperclip_health_check h c w =
     (let q = \<lparr>rq_method = ''GET'', rq_url = pc_api_url c @ ''/api/health'', rq_headers = paperclip_headers c,
            rq_body = None, rq_params = None\<rparr>;
          w1 = w\<lparr>nw_sent := nw_sent w @ [q]\<rparr>
      in (case ht_net h (nw_sent w1) of
            Response r \<Rightarrow> Inr (\<not> (400 \<le> rp_status r \<and> rp_status r < 600))
          | Unreachable _ \<Rightarrow> Inr False
          | TransportError e \<Rightarrow> if is_request_exception e then Inr False else Inl e, w1))"

section \<open>Construction\<close>

text \<open>\<open>getenv\<close> is \<open>os.environ.get(k, "")\<close>; \<open>jwt secret agent company run\<close> signs a token.\<close>

definition new_client ::
    "(string \<Rightarrow> string) \<Rightarrow> (string \<Rightarrow> string \<Rightarrow> string \<Rightarrow> string \<Rightarrow> string) \<Rightarrow> string option \<Rightarrow> string option
      \<Rightarrow> py_exn + paperclip_client" where
  "new_client getenv jwt api_url api_key =
     (let pick = (\<lambda>arg k. case arg of Some (ch # cs) \<Rightarrow> ch # cs | _ \<Rightarrow> getenv k);
          strip = (\<lambda>s. rev (dropWhile (\<lambda>ch. ch = CHR ''/'') (rev s)));
          url = strip (pick api_url ''PAPERCLIP_API_URL''); key = pick api_key ''PAPERCLIP_API_KEY'';
          agent = getenv ''PAPERCLIP_AGENT_ID''; company = getenv ''PAPERCLIP_COMPANY_ID'';
          run = getenv ''PAPERCLIP_RUN_ID''; secret = getenv ''PAPERCLIP_AGENT_JWT_SECRET'';
          client = (\<lambda>k. \<lparr>pc_api_url = url, pc_api_key = k, pc_agent_id = agent, pc_company_id = company,
            pc_run_id = run, pc_max_retries = 3, pc_base_delay = 1, pc_timeout = 30\<rparr>)
      in if url = [] then Inl (ValueError ''PAPERCLIP_API_URL not set'')
         else if key \<noteq> [] then Inr (client key)
         else if secret \<noteq> [] \<and> agent \<noteq> [] \<and> company \<noteq> [] then
           Inr (client (jwt secret agent company (if run = [] then ''auto'' else run)))
         else Inl (ValueError (''PAPERCLIP_API_KEY not set and PAPERCLIP_AGENT_JWT_SECRET not available''
           @ '' for auto-generation'')))"

section \<open>Parsing\<close>

definition parse_agent_info :: "json \<Rightarrow> py_exn + agent_info" where
  "parse_agent_info d =
     (case d of
        JObj o' \<Rightarrow> (let get = dict_get_or o' in Inr
          \<lparr>ag_id = get ''id'' (JStr []), ag_company_id = get ''companyId'' (JStr []), ag_name = get ''name'' (JStr []),
           ag_role = get ''role'' (JStr []), ag_title = get ''title'' (JStr []), ag_status = get ''status'' (JStr ''active''),
           ag_reports_to = get ''reportsTo'' JNull, ag_budget = get ''budgetMonthlyCents'' (JInt 0),
           ag_spent = get ''spentMonthlyCents'' (JInt 0), ag_chain_of_command = get ''chainOfCommand'' (JArr [])\<rparr>)
      | _ \<Rightarrow> Inl (OtherError ''AttributeError'' ''get''))"

definition parse_issue :: "json \<Rightarrow> py_exn + issue" where
  "parse_issue d =
     (case d of
        JObj o' \<Rightarrow> (let get = dict_get_or o' in Inr
          \<lparr>is_id = get ''id'' (JStr []), is_title = get ''title'' (JStr []), is_description = get ''description'' (JStr []),
           is_status = get ''status'' (JStr ''backlog''), is_priority = get ''priority'' (JStr ''medium''),
           is_assignee = get ''assigneeAgentId'' JNull, is_parent_id = get ''parentId'' JNull,
           is_project_id = get ''projectId'' JNull, is_goal_id = get ''goalId'' JNull,
           is_identifier = get ''identifier'' (JStr []), is_ancestors = get ''ancestors'' (JArr []),
           is_comments_count = get ''commentsCount'' (JInt 0)\<rparr>)
      | _ \<Rightarrow> Inl (OtherError ''AttributeError'' ''get''))"

definition parse_comment :: "json \<Rightarrow> py_exn + issue_comment" where
  "parse_comment d =
     (case d of
        JObj o' \<Rightarrow> (let get = dict_get_or o' in Inr
          \<lparr>cm_id = get ''id'' (JStr []), cm_body = get ''body'' (JStr []), cm_author_agent_id = get ''authorAgentId'' JNull,
           cm_author_user_id = get ''authorUserId'' JNull, cm_created_at = get ''createdAt'' (JStr [])\<rparr>)
      | _ \<Rightarrow> Inl (OtherError ''AttributeError'' ''get''))"

text \<open>\<open>data if isinstance(data, list) else data.get(key, data.get("data", []))\<close>, parsed one by one.\<close>

definition parse_list :: "string \<Rightarrow> (json \<Rightarrow> py_exn + 'a) \<Rightarrow> json \<Rightarrow> py_exn + 'a list" where
  "parse_list key parse d =
     (case d of
        JArr xs \<Rightarrow> res_map parse xs
      | JObj o' \<Rightarrow> res_bind (json_items (dict_get_or o' key (dict_get_or o' ''data'' (JArr [])))) (res_map parse)
      | _ \<Rightarrow> Inl (OtherError ''AttributeError'' ''get''))"

section \<open>Operations\<close>

text \<open>A request whose answer is parsed.\<close>

definition fetch ::
    "(json \<Rightarrow> py_exn + 'a) \<Rightarrow> (py_exn + json) \<times> net_world \<Rightarrow> (py_exn + 'a) \<times> net_world" where
  "fetch parse r = (res_bind (fst r) parse, snd r)"

definition issues_path :: "paperclip_client \<Rightarrow> string" where
  "issues_path c = ''/api/companies/'' @ pc_company_id c @ ''/issues''"

definition get_identity :: "http_env \<Rightarrow> paperclip_client \<Rightarrow> net_world \<Rightarrow> (py_exn + agent_info) \<times> net_world" where
  "get_identity h c w = fetch parse_agent_info (request h c ''GET'' ''/api/agents/me'' None None w)"

definition get_assignments_for ::
    "http_env \<Rightarrow> paperclip_client \<Rightarrow> string \<Rightarrow> string list option \<Rightarrow> net_world \<Rightarrow> (py_exn + issue list) \<times> net_world" where
  "get_assignments_for h c agent_id statuses w =
     fetch (parse_list ''issues'' parse_issue)
       (request h c ''GET'' (issues_path c) None
         (Some [(''assigneeAgentId'', agent_id),
           (''status'', join_with '','' (case statuses of None \<Rightarrow> [''todo''] | Some ss \<Rightarrow> ss))]) w)"

definition get_assignments ::
    "http_env \<Rightarrow> paperclip_client \<Rightarrow> string list option \<Rightarrow> net_world \<Rightarrow> (py_exn + issue list) \<times> net_world" where
  "get_assignments h c statuses w =
     fetch (parse_list ''issues'' parse_issue)
       (request h c ''GET'' (issues_path c) None
         (Some [(''assigneeAgentId'', pc_agent_id c),
           (''status'', join_with '','' (case statuses of None \<Rightarrow> [''todo'', ''in_progress'', ''blocked''] | Some ss \<Rightarrow> ss))]) w)"

definition checkout_issue ::
    "http_env \<Rightarrow> paperclip_client \<Rightarrow> string \<Rightarrow> string list option \<Rightarrow> net_world \<Rightarrow> (py_exn + checkout_result) \<times> net_world" where
  "checkout_issue h c issue_id expected w =
     (let statuses = (case expected of None \<Rightarrow> [''todo'', ''backlog'', ''blocked''] | Some ss \<Rightarrow> ss) in
      case request h c ''POST'' (''/api/issues/'' @ issue_id @ ''/checkout'')
          (Some (JObj [(''agentId'', JStr (pc_agent_id c)), (''expectedStatuses'', JArr (map JStr statuses))])) None w of
        (Inr d, w') \<Rightarrow>
          (if truthy d then
             (case parse_issue d of
                Inl e \<Rightarrow> (Inl e, w')
              | Inr i \<Rightarrow> (Inr \<lparr>co_success = True, co_conflict_owner = None, co_issue = Some i\<rparr>, w'))
           else (Inr \<lparr>co_success = True, co_conflict_owner = None, co_issue = None\<rparr>, w'))
      | (Inl e, w') \<Rightarrow>
          (if is_conflict e then (Inr \<lparr>co_success = False, co_conflict_owner = Some issue_id, co_issue = None\<rparr>, w')
           else (Inl e, w')))"

text \<open>The run id the server assigns is kept in the client. Its value is a string.\<close>

definition register_self_run ::
    "http_env \<Rightarrow> paperclip_client \<Rightarrow> net_world \<Rightarrow> (py_exn + string option) \<times> paperclip_client \<times> net_world" where
  "register_self_run h c w =
     (case request h c ''POST'' (''/api/agents/'' @ pc_agent_id c @ ''/heartbeat/invoke'') None None w of
        (Inl e, w') \<Rightarrow> (if is_api_error e then Inr None else Inl e, c, w')
      | (Inr (JObj d), w') \<Rightarrow>
          (if dict_get d ''status'' = Some (JStr ''skipped'') then (Inr None, c, w')
           else (case dict_get d ''id'' of
                   Some (JStr (ch # cs)) \<Rightarrow> (Inr (Some (ch # cs)), c\<lparr>pc_run_id := ch # cs\<rparr>, w')
                 | _ \<Rightarrow> (Inr None, c, w')))
      | (Inr _, w') \<Rightarrow> (Inr None, c, w'))"

definition get_issue :: "http_env \<Rightarrow> paperclip_client \<Rightarrow> string \<Rightarrow> net_world \<Rightarrow> (py_exn + issue) \<times> net_world" where
  "get_issue h c issue_id w = fetch parse_issue (request h c ''GET'' (''/api/issues/'' @ issue_id) None None w)"

definition get_comments ::
    "http_env \<Rightarrow> paperclip_client \<Rightarrow> string \<Rightarrow> net_world \<Rightarrow> (py_exn + issue_comment list) \<times> net_world" where
  "get_comments h c issue_id w =
     fetch (parse_list ''comments'' parse_comment)
       (request h c ''GET'' (''/api/issues/'' @ issue_id @ ''/comments'') None None w)"

definition optional :: "string \<Rightarrow> string option \<Rightarrow> (string \<times> json) list" where
  "optional k v = (case v of None \<Rightarrow> [] | Some s \<Rightarrow> [(k, JStr s)])"

definition when_given :: "string \<Rightarrow> string option \<Rightarrow> (string \<times> json) list" where
  "when_given k v = (case v of Some (ch # cs) \<Rightarrow> [(k, JStr (ch # cs))] | _ \<Rightarrow> [])"

definition update_issue ::
    "http_env \<Rightarrow> paperclip_client \<Rightarrow> string \<Rightarrow> string option \<Rightarrow> string option \<Rightarrow> string list option \<Rightarrow> net_world
      \<Rightarrow> (py_exn + issue) \<times> net_world" where
  "update_issue h c issue_id status comment labels w =
     fetch parse_issue
       (request h c ''PATCH'' (''/api/issues/'' @ issue_id)
         (Some (JObj (optional ''status'' status @ optional ''comment'' comment
           @ (case labels of None \<Rightarrow> [] | Some ls \<Rightarrow> [(''labels'', JArr (map JStr ls))])))) None w)"

definition add_comment ::
    "http_env \<Rightarrow> paperclip_client \<Rightarrow> string \<Rightarrow> string \<Rightarrow> net_world \<Rightarrow> (py_exn + issue_comment) \<times> net_world" where
  "add_comment h c issue_id body w =
     fetch parse_comment
       (request h c ''POST'' (''/api/issues/'' @ issue_id @ ''/comments'') (Some (JObj [(''body'', JStr body)])) None w)"

text \<open>Best effort: errors of the API and of \<open>requests\<close> become \<open>None\<close>.\<close>

definition emit_run_event ::
    "http_env \<Rightarrow> paperclip_client \<Rightarrow> string \<Rightarrow> json \<Rightarrow> string option \<Rightarrow> net_world
      \<Rightarrow> (py_exn + json option) \<times> net_world" where
  "emit_run_event h c event_type payload message w =
     (if pc_run_id c = [] then (Inr None, w)
      else case request h c ''POST'' (''/api/heartbeat-runs/'' @ pc_run_id c @ ''/events'')
          (Some (JObj [(''eventType'', JStr event_type),
            (''message'', case message of None \<Rightarrow> JNull | Some m \<Rightarrow> JStr m), (''payload'', payload)])) None w of
        (Inr j, w') \<Rightarrow> (Inr (Some j), w')
      | (Inl e, w') \<Rightarrow> (if is_api_error e \<or> is_request_exception e then Inr None else Inl e, w'))"

definition release_issue :: "http_env \<Rightarrow> paperclip_client \<Rightarrow> string \<Rightarrow> net_world \<Rightarrow> (py_exn + unit) \<times> net_world" where
  "release_issue h c issue_id w =
     fetch (\<lambda>_. Inr ()) (request h c ''POST'' (''/api/issues/'' @ issue_id @ ''/release'') None None w)"

definition create_subtask ::
    "http_env \<Rightarrow> paperclip_client \<Rightarrow> string \<Rightarrow> string \<Rightarrow> string \<Rightarrow> string option \<Rightarrow> string option \<Rightarrow> string
      \<Rightarrow> net_world \<Rightarrow> (py_exn + issue) \<times> net_world" where
  "create_subtask h c title description parent_id goal_id assignee priority w =
     fetch parse_issue
       (request h c ''POST'' (issues_path c)
         (Some (JObj ([(''title'', JStr title), (''description'', JStr description), (''parentId'', JStr parent_id),
             (''priority'', JStr priority)] @ when_given ''goalId'' goal_id @ when_given ''assigneeAgentId'' assignee)))
         None w)"

definition create_issue ::
    "http_env \<Rightarrow> paperclip_client \<Rightarrow> string \<Rightarrow> string \<Rightarrow> string \<Rightarrow> string list option \<Rightarrow> string option
      \<Rightarrow> net_world \<Rightarrow> (py_exn + issue) \<times> net_world" where
  "create_issue h c title description priority labels assignee_user w =
     fetch parse_issue
       (request h c ''POST'' (issues_path c)
         (Some (JObj ([(''title'', JStr title), (''description'', JStr description), (''priority'', JStr priority)]
           @ (case labels of Some (l # ls) \<Rightarrow> [(''labels'', JArr (map JStr (l # ls)))] | _ \<Rightarrow> [])
           @ when_given ''assigneeUserId'' assignee_user))) None w)"

definition report_cost ::
    "http_env \<Rightarrow> paperclip_client \<Rightarrow> string \<Rightarrow> string \<Rightarrow> int \<Rightarrow> int \<Rightarrow> int \<Rightarrow> string option \<Rightarrow> string
      \<Rightarrow> net_world \<Rightarrow> (py_exn + unit) \<times> net_world" where
  "report_cost h c provider model input_tokens output_tokens cost_cents issue_id occurred_at w =
     fetch (\<lambda>_. Inr ())
       (request h c ''POST'' (''/api/companies/'' @ pc_company_id c @ ''/cost-events'')
         (Some (JObj ([(''agentId'', JStr (pc_agent_id c)), (''provider'', JStr provider), (''model'', JStr model),
             (''inputTokens'', JInt input_tokens), (''outputTokens'', JInt output_tokens),
             (''costCents'', JInt cost_cents), (''occurredAt'', JStr occurred_at)]
           @ when_given ''issueId'' issue_id))) None w)"

definition get_dashboard ::
    "http_env \<Rightarrow> paperclip_client \<Rightarrow> net_world \<Rightarrow> (py_exn + dashboard_summary) \<times> net_world" where
  "get_dashboard h c w =
     fetch (\<lambda>d. case d of
         JObj o' \<Rightarrow> (let get = dict_get_or o' in Inr
           \<lparr>ds_agent_counts = get ''agentCounts'' (get ''agents'' (JObj [])),
            ds_issue_counts = get ''issueCounts'' (get ''issues'' (JObj [])),
            ds_spend = get ''spend'' (get ''monthToDateSpendCents'' (JInt 0)),
            ds_budget_utilization = get ''budgetUtilization'' (JReal 0)\<rparr>)
       | _ \<Rightarrow> Inl (OtherError ''AttributeError'' ''get''))
       (request h c ''GET'' (''/api/companies/'' @ pc_company_id c @ ''/dashboard'') None None w)"

definition list_agents :: "http_env \<Rightarrow> paperclip_client \<Rightarrow> net_world \<Rightarrow> (py_exn + agent_info list) \<times> net_world" where
  "list_agents h c w =
     fetch (parse_list ''agents'' parse_agent_info)
       (request h c ''GET'' (''/api/companies/'' @ pc_company_id c @ ''/agents'') None None w)"

definition get_children ::
    "http_env \<Rightarrow> paperclip_client \<Rightarrow> string \<Rightarrow> string list option \<Rightarrow> net_world \<Rightarrow> (py_exn + issue list) \<times> net_world" where
  "get_children h c parent_id statuses w =
     fetch (parse_list ''issues'' parse_issue)
       (request h c ''GET'' (issues_path c) None
         (Some ((''parentId'', parent_id) #
           (case statuses of Some (s # ss) \<Rightarrow> [(''status'', join_with '','' (s # ss))] | _ \<Rightarrow> []))) w)"

section \<open>Lemmas\<close>

lemma paperclip_delay_bounds:
  assumes "0 \<le> jitter attempt (base * 2 ^ attempt)" and "0 \<le> max_delay"
  shows "0 \<le> paperclip_delay jitter attempt base max_delay retry_after
    \<and> paperclip_delay jitter attempt base max_delay retry_after \<le> max_delay"
  using assms by (auto simp: paperclip_delay_def Let_def split: option.splits)

text \<open>The verdict of the k-th pass, when every earlier one was transient.\<close>

definition pass :: "http_env \<Rightarrow> http_request \<Rightarrow> net_world \<Rightarrow> nat \<Rightarrow> attempt_outcome" where
  "pass h q w k = attempt_of (ht_float h) (ht_net h (nw_sent w @ replicate (Suc k) q))"

definition transient :: "attempt_outcome \<Rightarrow> bool" where
  "transient a \<longleftrightarrow> (case a of Transient _ _ \<Rightarrow> True | _ \<Rightarrow> False)"

definition verdict :: "attempt_outcome \<Rightarrow> py_exn + json" where
  "verdict a = (case a of Answered j \<Rightarrow> Inr j | Failed e \<Rightarrow> Inl e | Transient m _ \<Rightarrow> Inl (OSError m))"

lemma transientE: "\<forall>j < Suc k. transient (pass h q w j) \<Longrightarrow> \<exists>m ra. pass h q w 0 = Transient m ra"
  by (drule spec [of _ 0]) (simp add: transient_def split: attempt_outcome.splits)

lemma pass_Suc:
  "pass h q (w\<lparr>nw_sent := nw_sent w @ [q], nw_slept := s\<rparr>) k = pass h q w (Suc k)"
  by (simp add: pass_def)

lemma request_loop_verdict:
  assumes "\<forall>j < k. transient (pass h q w j)" and "\<not> transient (pass h q w k)" and "k < n"
    and "int (attempt + k) \<le> pc_max_retries c"
  shows "\<exists>w'. request_loop h c q m attempt n w = (verdict (pass h q w k), w')
    \<and> nw_sent w' = nw_sent w @ replicate (Suc k) q"
  using assms
proof (induction k arbitrary: n attempt m w)
  case 0
  then obtain n' where "n = Suc n'" by (cases n) auto
  then show ?case
    using 0(2) by (auto simp: pass_def transient_def verdict_def Let_def split: attempt_outcome.splits)
next
  case (Suc k)
  obtain n' where n: "n = Suc n'" using Suc.prems(3) by (cases n) auto
  obtain m' ra where t: "pass h q w 0 = Transient m' ra"
    using Suc.prems(1) transientE by blast
  define w1 where "w1 = w\<lparr>nw_sent := nw_sent w @ [q],
      nw_slept := nw_slept w @ [paperclip_delay (ht_jitter h) attempt (pc_base_delay c) PAPERCLIP_MAX_DELAY ra]\<rparr>"
  have p: "pass h q w1 j = pass h q w (Suc j)" for j by (simp add: w1_def pass_Suc)
  have "request_loop h c q m attempt n w = request_loop h c q m' (Suc attempt) n' w1"
    using t Suc.prems(4) by (simp add: n pass_def w1_def Let_def)
  moreover have "\<exists>w'. request_loop h c q m' (Suc attempt) n' w1 = (verdict (pass h q w1 k), w')
      \<and> nw_sent w' = nw_sent w1 @ replicate (Suc k) q"
    using Suc.prems n by (intro Suc.IH) (auto simp: p)
  ultimately show ?case by (auto simp: pass_Suc w1_def)
qed

lemma request_loop_exhausted:
  assumes "\<forall>j < n. transient (pass h q w j)" and "int (attempt + n) = pc_max_retries c + 1" and "0 < n"
  shows "\<exists>m' w'. request_loop h c q m attempt n w = (Inl (out_of_attempts c m'), w')
    \<and> nw_sent w' = nw_sent w @ replicate n q"
  using assms
proof (induction n arbitrary: attempt m w)
  case (Suc n)
  obtain m' ra where t: "pass h q w 0 = Transient m' ra"
    using Suc.prems(1) transientE by blast
  show ?case
  proof (cases n)
    case 0
    then show ?thesis using t Suc.prems(2) by (auto simp: pass_def Let_def)
  next
    case (Suc n')
    define w1 where "w1 = w\<lparr>nw_sent := nw_sent w @ [q],
        nw_slept := nw_slept w @ [paperclip_delay (ht_jitter h) attempt (pc_base_delay c) PAPERCLIP_MAX_DELAY ra]\<rparr>"
    have p: "pass h q w1 j = pass h q w (Suc j)" for j by (simp add: w1_def pass_Suc)
    have "request_loop h c q m attempt (Suc n) w = request_loop h c q m' (Suc attempt) n w1"
      using t Suc.prems(2) Suc by (simp add: pass_def w1_def Let_def)
    moreover have "\<exists>m'' w'. request_loop h c q m' (Suc attempt) n w1 = (Inl (out_of_attempts c m''), w')
        \<and> nw_sent w' = nw_sent w1 @ replicate n q"
      using Suc.prems Suc by (intro Suc.IH) (auto simp: p)
    ultimately show ?thesis by (auto simp: w1_def)
  qed
qed simp

lemma request_loop_slept:
  assumes "\<forall>a u. 0 \<le> u \<longrightarrow> 0 \<le> ht_jitter h a u" and "0 \<le> pc_base_delay c"
    and "\<forall>d \<in> set (nw_slept w). 0 \<le> d \<and> d \<le> PAPERCLIP_MAX_DELAY"
  shows "\<forall>d \<in> set (nw_slept (snd (request_loop h c q m attempt n w))). 0 \<le> d \<and> d \<le> PAPERCLIP_MAX_DELAY"
  using assms(3)
proof (induction n arbitrary: attempt m w)
  case (Suc n)
  have d: "0 \<le> paperclip_delay (ht_jitter h) attempt (pc_base_delay c) PAPERCLIP_MAX_DELAY ra
    \<and> paperclip_delay (ht_jitter h) attempt (pc_base_delay c) PAPERCLIP_MAX_DELAY ra \<le> PAPERCLIP_MAX_DELAY" for ra
    using assms(1,2) by (intro paperclip_delay_bounds) (simp_all add: PAPERCLIP_MAX_DELAY_def)
  show ?case
  proof (cases "attempt_of (ht_float h) (ht_net h (nw_sent w @ [q]))")
    case (Transient m' ra)
    let ?w = "w\<lparr>nw_sent := nw_sent w @ [q],
      nw_slept := nw_slept w @ [paperclip_delay (ht_jitter h) attempt (pc_base_delay c) PAPERCLIP_MAX_DELAY ra]\<rparr>"
    have "\<forall>x \<in> set (nw_slept ?w). 0 \<le> x \<and> x \<le> PAPERCLIP_MAX_DELAY"
      using Suc.prems d by simp
    from Suc.IH [OF this] have "\<forall>x \<in> set (nw_slept (snd (request_loop h c q m' (Suc attempt) n ?w))).
      0 \<le> x \<and> x \<le> PAPERCLIP_MAX_DELAY" .
    then show ?thesis using Suc.prems Transient by (simp only: request_loop.simps Let_def) simp
  next
    case (Answered j)
    then have "nw_slept (snd (request_loop h c q m attempt (Suc n) w)) = nw_slept w" by (simp add: Let_def)
    then show ?thesis using Suc.prems by (simp only:)
  next
    case (Failed e)
    then have "nw_slept (snd (request_loop h c q m attempt (Suc n) w)) = nw_slept w" by (simp add: Let_def)
    then show ?thesis using Suc.prems by (simp only:)
  qed
qed simp

section \<open>Properties\<close>

text \<open>The first answer that is not transient decides a request: with k transient answers before it, the
  same request is sent k + 1 times and its verdict is the result. When all answers are transient the
  request is sent once more than the retries allow and the error is an API error. Every pause is at
  most fifteen seconds.\<close>

theorem request_first_verdict:
  assumes "0 \<le> pc_max_retries c" and "0 \<le> pc_base_delay c" and "\<forall>a u. 0 \<le> u \<longrightarrow> 0 \<le> ht_jitter h a u"
    and "nw_slept w = []"
    and "q = \<lparr>rq_method = meth, rq_url = pc_api_url c @ path, rq_headers = paperclip_headers c,
           rq_body = body, rq_params = params\<rparr>"
  shows "(\<forall>k. int k \<le> pc_max_retries c \<longrightarrow> \<not> transient (pass h q w k) \<longrightarrow> (\<forall>j < k. transient (pass h q w j)) \<longrightarrow>
      (\<exists>w'. request h c meth path body params w = (verdict (pass h q w k), w')
        \<and> nw_sent w' = nw_sent w @ replicate (Suc k) q))
    \<and> ((\<forall>k. int k \<le> pc_max_retries c \<longrightarrow> transient (pass h q w k)) \<longrightarrow>
      (\<exists>e w'. request h c meth path body params w = (Inl e, w') \<and> is_api_error e
        \<and> nw_sent w' = nw_sent w @ replicate (nat (pc_max_retries c + 1)) q))
    \<and> (\<forall>d \<in> set (nw_slept (snd (request h c meth path body params w))). 0 \<le> d \<and> d \<le> PAPERCLIP_MAX_DELAY)"
proof (intro conjI allI impI)
  fix k
  assume "int k \<le> pc_max_retries c" "\<not> transient (pass h q w k)" "\<forall>j < k. transient (pass h q w j)"
  then show "\<exists>w'. request h c meth path body params w = (verdict (pass h q w k), w')
      \<and> nw_sent w' = nw_sent w @ replicate (Suc k) q"
    unfolding request_def assms(5) [symmetric] by (intro request_loop_verdict) auto
next
  assume "\<forall>k. int k \<le> pc_max_retries c \<longrightarrow> transient (pass h q w k)"
  then have "\<exists>m' w'. request_loop h c q ''None'' 0 (nat (pc_max_retries c + 1)) w = (Inl (out_of_attempts c m'), w')
      \<and> nw_sent w' = nw_sent w @ replicate (nat (pc_max_retries c + 1)) q"
    using assms(1) by (intro request_loop_exhausted) auto
  moreover have "is_api_error (out_of_attempts c m')" for m' by (simp add: out_of_attempts_def api_error_def)
  ultimately show "\<exists>e w'. request h c meth path body params w = (Inl e, w') \<and> is_api_error e
      \<and> nw_sent w' = nw_sent w @ replicate (nat (pc_max_retries c + 1)) q"
    unfolding request_def assms(5) [symmetric] by blast
next
  show "\<forall>d \<in> set (nw_slept (snd (request h c meth path body params w))). 0 \<le> d \<and> d \<le> PAPERCLIP_MAX_DELAY"
    unfolding request_def using assms(2-4) by (intro request_loop_slept) auto
qed

text \<open>An answer outside the listed status codes, such as 422, leaves the client as an exception of the HTTP
  library, which no handler for API errors catches.\<close>

lemma other_client_errors_are_not_api_errors:
  assumes "rp_status r = 422" and "0 \<le> pc_max_retries c"
    and "\<And>hist. ht_net h hist = Response r"
  shows "\<exists>w'. request h c meth path body params w = (Inl (OtherError ''HTTPError'' ''422''), w')
    \<and> \<not> is_api_error (OtherError ''HTTPError'' ''422'')"
proof -
  have str_422: "str_int 422 = ''422''" by code_simp
  obtain n where "nat (pc_max_retries c + 1) = Suc n"
    using assms(2) by (metis Suc_nat_eq_nat_zadd1 add.commute)
  then show ?thesis
    using assms str_422 by (simp add: request_def attempt_of_def Let_def RETRYABLE_HTTP_def)
qed

end
