(* ===== verification/Heartbeat_Context.thy ===== *)
theory Heartbeat_Context
  imports Paperclip_Client Agent_State
begin

text \<open>
  The helpers of a heartbeat: choosing a task, building the request and detecting the resumption of a
  blocked one (\<^verbatim>\<open>agents/heartbeat_context.py\<close>), the cost of a run (\<^verbatim>\<open>agents/heartbeat_spending.py\<close>),
  the comments it posts (\<^verbatim>\<open>agents/heartbeat_formatting.py\<close>, \<^verbatim>\<open>agents/heartbeat_signals.py\<close>,
  \<^verbatim>\<open>agents/heartbeat_progress.py\<close>). \<open>getenv\<close> is \<open>os.environ.get(k, "")\<close>. Dashes and arrows
  outside Latin-1 are written \<open>-\<close> and \<open>->\<close>. The last section has the results of a heartbeat and of a workflow
  (\<^verbatim>\<open>agents/heartbeat.py\<close>), which the orchestrator reads too.
\<close>

section \<open>Choosing a task\<close>

definition forced_pick :: "string \<Rightarrow> issue list \<Rightarrow> issue list" where
  "forced_pick forced xs =
     (if forced = [] then []
      else case find (\<lambda>i. is_id i = JStr forced) xs of None \<Rightarrow> [] | Some i \<Rightarrow> [i])"

text \<open>One pass over the assignments: those that qualify and whose id is not yet ranked.\<close>

fun pick_more :: "(issue \<Rightarrow> bool) \<Rightarrow> issue list \<Rightarrow> issue list \<Rightarrow> issue list" where
  "pick_more ok ranked [] = ranked"
| "pick_more ok ranked (i # xs) =
     (if is_id i \<notin> is_id ` set ranked \<and> ok i then pick_more ok (ranked @ [i]) xs else pick_more ok ranked xs)"

definition rank_tasks :: "(string \<Rightarrow> string) \<Rightarrow> issue list \<Rightarrow> issue list" where
  "rank_tasks getenv xs =
     (let forced = py_strip (getenv ''PAPERCLIP_TASK_ID''); wake = getenv ''PAPERCLIP_WAKE_REASON'';
          r0 = forced_pick forced xs;
          r1 = pick_more (\<lambda>i. is_status i = JStr ''in_progress'') r0 xs;
          r2 = pick_more (\<lambda>i. is_status i = JStr ''todo'') r1 xs
      in if wake \<in> {''issue_comment_mentioned'', ''issue_assigned''}
         then pick_more (\<lambda>i. is_status i = JStr ''blocked'' \<and> is_id i = JStr forced) r2 xs
         else r2)"

definition resolve_task_type :: "(string \<Rightarrow> string) \<Rightarrow> string \<Rightarrow> string" where
  "resolve_task_type getenv configured = (if configured \<noteq> [] then configured else getenv ''VIBE_TASK_TYPE'')"

section \<open>Building the request\<close>

text \<open>\<open>body[:200]\<close>.\<close>

fun comment_excerpt :: "(json \<Rightarrow> string) \<Rightarrow> json \<Rightarrow> py_exn + string" where
  "comment_excerpt repr (JStr s) = Inr (take 200 s)"
| "comment_excerpt repr (JArr xs) = Inr (repr (JArr (take 200 xs)))"
| "comment_excerpt repr _ = Inl (OtherError ''TypeError'' ''object is not subscriptable'')"

definition ancestor_title :: "json \<Rightarrow> py_exn + string" where
  "ancestor_title a =
     res_bind (json_get a ''title'' (JStr ''Unknown''))
       (\<lambda>t. case t of JStr s \<Rightarrow> Inr s | _ \<Rightarrow> Inl (OtherError ''TypeError'' ''expected str instance''))"

text \<open>\<open>lesson_id\<close> and text of the lessons in scope.\<close>

definition format_lessons :: "(string \<times> string) list \<Rightarrow> string list" where
  "format_lessons ls = map (\<lambda>(i, l). ''- ('' @ i @ '') '' @ l) ls"

text \<open>\<open>line.split(")", 1)[0].lstrip("- (")\<close>.\<close>

definition lesson_id_of :: "string \<Rightarrow> string" where
  "lesson_id_of line = dropWhile (\<lambda>c. c \<in> set ''- ('') (takeWhile (\<lambda>c. c \<noteq> CHR '')'') line)"

text \<open>\<open>lessons\<close> is the lookup when a lesson store, a role and a task type are given; its errors are
  swallowed. The result is the request and the ids to record.\<close>

definition build_user_request ::
    "(json \<Rightarrow> string) \<Rightarrow> (py_exn + (string \<times> string) list) option \<Rightarrow> issue \<Rightarrow> issue_comment list \<Rightarrow> string option
      \<Rightarrow> py_exn + string \<times> string list option" where
  "build_user_request repr lessons i comments reply =
     res_bind (if truthy (is_ancestors i) then
                 res_bind (json_items (is_ancestors i)) (\<lambda>as. res_bind (res_map ancestor_title (rev as))
                   (\<lambda>ts. Inr [''Goal chain: '' @ join_with '' -> '' ts]))
               else Inr [])
       (\<lambda>goals. res_bind (if comments = [] then Inr []
                 else res_bind (res_map (\<lambda>c. comment_excerpt repr (cm_body c)) (drop (length comments - 5) comments))
                   (\<lambda>bs. Inr [[CHR 0x0A] @ ''Recent discussion:'' @ [CHR 0x0A]
                     @ join_with [CHR 0x0A] (map (\<lambda>b. ''- '' @ b) bs)]))
       (\<lambda>discussion.
          let parts = goals @ [''Task: '' @ json_text repr (is_title i)]
                @ (if truthy (is_description i) then [[CHR 0x0A] @ json_text repr (is_description i)] else [])
                @ (case reply of Some (c # cs) \<Rightarrow> [[CHR 0x0A] @ ''[Clarification from human]: '' @ c # cs] | _ \<Rightarrow> [])
                @ discussion
          in case lessons of
               Some (Inr (l # ls)) \<Rightarrow>
                 let fl = format_lessons (l # ls) in
                 Inr (join_with [CHR 0x0A] (parts @ [[CHR 0x0A] @ ''## Lessons from past runs'' @ [CHR 0x0A]
                        @ join_with [CHR 0x0A] fl]), Some (map lesson_id_of fl))
             | _ \<Rightarrow> Inr (join_with [CHR 0x0A] parts, None)))"

definition detect_clarification_resume ::
    "(string \<Rightarrow> string) \<Rightarrow> issue \<Rightarrow> issue_comment list \<Rightarrow> string \<Rightarrow> string option" where
  "detect_clarification_resume getenv i comments agent_id =
     (let wake = py_strip (getenv ''PAPERCLIP_WAKE_REASON''); wake_id = py_strip (getenv ''PAPERCLIP_WAKE_COMMENT_ID'')
      in if wake \<noteq> ''issue_comment_mentioned'' \<or> wake_id = [] then None
         else if is_status i \<noteq> JStr ''blocked'' then None
         else case find (\<lambda>c. cm_id c = JStr wake_id) comments of
           None \<Rightarrow> None
         | Some c \<Rightarrow>
             if truthy (cm_author_agent_id c) \<and> cm_author_agent_id c = JStr agent_id then None
             else (case cm_body c of
                     JStr b \<Rightarrow> if py_strip b = [] then None else Some (py_strip b)
                   | _ \<Rightarrow> None))"

text \<open>\<open>\w\<close> on Latin-1, and the search for \<open><!-- complexity:(\w+) -->\<close>.\<close>

definition regex_word :: "char \<Rightarrow> bool" where
  "regex_word c \<longleftrightarrow>
     (let k = of_char c :: nat in
      48 \<le> k \<and> k \<le> 57 \<or> 65 \<le> k \<and> k \<le> 90 \<or> k = 95 \<or> 97 \<le> k \<and> k \<le> 122
      \<or> k \<in> {170, 178, 179, 181, 185, 186, 188, 189, 190} \<or> 192 \<le> k \<and> k \<noteq> 215 \<and> k \<noteq> 247)"

fun extract_complexity_hint :: "string \<Rightarrow> string" where
  "extract_complexity_hint [] = []"
| "extract_complexity_hint (c # cs) =
     (let rest = drop (length ''<!-- complexity:'') (c # cs); w = takeWhile regex_word rest in
      if prefix ''<!-- complexity:'' (c # cs) \<and> w \<noteq> [] \<and> prefix '' -->'' (drop (length w) rest) then w
      else extract_complexity_hint cs)"

section \<open>Cost\<close>

definition FREE_BACKENDS :: "string set" where
  "FREE_BACKENDS = {''vllm'', ''ollama'', ''llama.cpp'', ''llamacpp''}"

text \<open>Cents per million tokens, for input and output, by prefix of the model's name.\<close>

definition PRICING :: "(string, (string, int \<times> int) py_dict) py_dict" where
  "PRICING =
     [(''openai'', [(''gpt-4o'', (250, 1000)), (''gpt-4o-mini'', (15, 60)), (''gpt-4-turbo'', (1000, 3000)),
        (''gpt-4'', (3000, 6000)), (''gpt-3.5'', (50, 150)), (''_default'', (250, 1000))]),
      (''anthropic'', [(''claude-3-opus'', (1500, 7500)), (''claude-3.5-sonnet'', (300, 1500)),
        (''claude-3-sonnet'', (300, 1500)), (''claude-3-haiku'', (25, 125)), (''claude-3.5-haiku'', (80, 400)),
        (''_default'', (300, 1500))]),
      (''google'', [(''gemini-1.5-pro'', (125, 500)), (''gemini-1.5-flash'', (8, 30)), (''gemini-pro'', (50, 150)),
        (''_default'', (125, 500))])]"

fun best_rate :: "string \<Rightarrow> nat \<Rightarrow> int \<times> int \<Rightarrow> (string \<times> (int \<times> int)) list \<Rightarrow> int \<times> int" where
  "best_rate model best rate [] = rate"
| "best_rate model best rate ((p, r) # ps) =
     (if p \<noteq> ''_default'' \<and> prefix p model \<and> length p > best then best_rate model (length p) r ps
      else best_rate model best rate ps)"

text \<open>\<open>round\<close>: to the nearest integer, halves to the even one.\<close>

definition py_round :: "real \<Rightarrow> int" where
  "py_round x =
     (let f = \<lfloor>x\<rfloor>; d = x - of_int f in
      if d < 1 / 2 then f else if d > 1 / 2 then f + 1 else if even f then f else f + 1)"

definition estimate_cost_cents :: "string \<Rightarrow> string \<Rightarrow> int \<Rightarrow> int \<Rightarrow> int" where
  "estimate_cost_cents backend model input_tokens output_tokens =
     (if py_lower backend \<in> FREE_BACKENDS \<or> input_tokens = 0 \<and> output_tokens = 0 then 0
      else case dict_get PRICING (py_lower backend) of
        None \<Rightarrow> 0
      | Some pricing \<Rightarrow>
          (case best_rate (py_lower model) 0 (dict_get_or pricing ''_default'' (0, 0)) pricing of
             (input_rate, output_rate) \<Rightarrow>
               max 1 (py_round (of_int (input_tokens * input_rate + output_tokens * output_rate) / 1000000))))"

section \<open>Comments\<close>

definition format_success_comment :: "string \<Rightarrow> int \<Rightarrow> string" where
  "format_success_comment output score =
     ''## Completed (score: '' @ str_int score @ ''/100)'' @ nl @ nl
     @ (if output = [] then ''No output'' else take 3000 output)"

definition format_blocked_comment :: "string \<Rightarrow> int \<Rightarrow> int \<Rightarrow> string" where
  "format_blocked_comment output score threshold =
     ''## Blocked - quality below threshold'' @ nl @ nl @ ''Score: '' @ str_int score @ ''/100 (threshold: ''
     @ str_int threshold @ '')'' @ nl @ nl @ ''### Output so far'' @ nl @ nl
     @ (if output = [] then ''No output'' else take 2000 output) @ nl @ nl @ ''**Needs review or manual refinement.**''"

definition format_clarification_comment :: "string list \<Rightarrow> string" where
  "format_clarification_comment qs =
     join_with nl ([''## Clarification Needed'' @ nl, ''I need some clarification before I can continue:'' @ nl]
       @ map (\<lambda>(k, q). str_nat k @ ''. '' @ q) (enumerate 1 qs)
       @ [nl @ ''_Please reply to this comment with your answers._''])"

definition commit_short :: "string \<Rightarrow> string" where
  "commit_short commit = (if commit = [] then ''unknown'' else take 8 commit)"

definition format_upgrade_comment :: "string \<Rightarrow> string \<Rightarrow> string \<Rightarrow> string" where
  "format_upgrade_comment description branch commit =
     ''## Self-Upgrade Proposed'' @ nl @ nl @ ''While working on this task the agent identified an opportunity to ''
     @ ''improve its own code and has committed a validated change.'' @ nl @ nl @ ''**Improvement:** '' @ description @ nl
     @ ''**Branch:** `'' @ branch @ ''`'' @ nl @ ''**Commit:** `'' @ commit_short commit @ ''`'' @ nl @ nl
     @ ''_A dedicated self-upgrade issue has been created for review._''"

definition format_upgrade_issue_body :: "string \<Rightarrow> string \<Rightarrow> string \<Rightarrow> string \<Rightarrow> string" where
  "format_upgrade_issue_body description branch commit source_issue_id =
     ''The agent identified a recurring quality issue and has proposed a validated code change to address it.'' @ nl @ nl
     @ ''## Details'' @ nl @ nl @ ''**Improvement:** '' @ description @ nl @ ''**Branch:** `'' @ branch @ ''`'' @ nl
     @ ''**Commit:** `'' @ commit_short commit @ ''`'' @ nl @ ''**Triggered by:** Issue `'' @ source_issue_id @ ''`'' @ nl @ nl
     @ ''## Validation Gates Passed'' @ nl @ nl
     @ ''- Path validation (only agents/ directory, immutable files blocked)'' @ nl
     @ ''- Diff size check (under 500 lines)'' @ nl @ ''- Full pytest suite'' @ nl @ ''- Bandit security scan'' @ nl @ nl
     @ ''## How to Review'' @ nl @ nl @ ''1. Check out branch `'' @ branch @ ''`'' @ nl
     @ ''2. Review the diff for correctness'' @ nl @ ''3. Merge to main if approved'' @ nl @ nl
     @ ''_This issue was auto-generated by the Vibe self-upgrade pipeline._''"

definition failure_comment :: "string \<Rightarrow> string" where
  "failure_comment err =
     ''## Workflow Error'' @ nl @ nl @ ''```'' @ nl @ take 1000 err @ nl @ ''```'' @ nl @ nl
     @ ''**Agent encountered an error. Needs investigation.**''"

definition cancelled_comment :: string where
  "cancelled_comment = ''## Cancelled'' @ nl @ nl @ ''Workflow was cancelled before completion.''"

text \<open>The partial state of an interrupted run: its output, scores and last node.\<close>

definition sigterm_comment :: "agent_state \<Rightarrow> string option \<Rightarrow> string" where
  "sigterm_comment s last_node =
     (let output = opt_or (specialist_output s) []; critic = opt_or (output_critic_score s) 0;
          score = (if critic \<noteq> 0 then critic else opt_or (heuristic_critic_score s) 0)
      in ''## Interrupted (SIGTERM)'' @ nl @ nl @ ''The agent was shut down before completing the workflow.'' @ nl @ nl
         @ ''**Last step:** '' @ opt_or last_node ''unknown'' @ nl @ ''**Score so far:** '' @ str_int score @ ''/100'' @ nl @ nl
         @ ''### Partial output'' @ nl @ nl @ (if output = [] then ''No output yet'' else take 2000 output) @ nl @ nl
         @ ''**This issue has been set to blocked for retry.**'')"

definition PROGRESS_NODES :: "(string, string) py_dict" where
  "PROGRESS_NODES =
     [(''specialist'', ''Running specialist''), (''heuristic_critic'', ''Evaluating output (heuristic)''),
      (''critic_output'', ''Evaluating output (LLM critic)''), (''vibe'', ''Building specification''),
      (''router'', ''Routing task'')]"

text \<open>The comment the progress callback posts after a node, if any.\<close>

definition progress_comment :: "string \<Rightarrow> agent_state \<Rightarrow> string option" where
  "progress_comment node s =
     (case dict_get PROGRESS_NODES node of
        None \<Rightarrow> None
      | Some label \<Rightarrow>
          let it = opt_or (iteration_count s) 0; max_iter = opt_or (max_iterations s) 3;
              critic = opt_or (output_critic_score s) 0;
              score = (if critic \<noteq> 0 then critic else opt_or (heuristic_critic_score s) 0)
          in Some (''_Progress:_ '' @ join_with '' '' ([''**'' @ label @ ''**'']
               @ (if node = ''specialist'' then [''(iteration '' @ str_int (it + 1) @ ''/'' @ str_int max_iter @ '')''] else [])
               @ (if score \<noteq> 0 \<and> node \<in> {''heuristic_critic'', ''critic_output''}
                  then [''- score: '' @ str_int score @ ''/100''] else []))))"

section \<open>Configuration\<close>

record heartbeat_config =
  hc_model_name :: string
  hc_backend :: string
  hc_mattermost_enabled :: bool
  hc_mattermost_webhook :: string
  hc_api_url :: string
  hc_api_key :: string
  hc_task_type :: string
  hc_cost_reporting :: bool
  hc_quality_threshold :: int
  hc_cleanup_messages :: bool
  hc_backfill_messages :: bool

definition validate_heartbeat_config :: "(string \<Rightarrow> string) \<Rightarrow> heartbeat_config \<Rightarrow> string list" where
  "validate_heartbeat_config getenv cfg =
     (if hc_model_name cfg = [] then [''Model name not specified''] else [])
     @ (if hc_mattermost_enabled cfg \<and> hc_mattermost_webhook cfg = []
        then [''Mattermost enabled but webhook URL not configured''] else [])
     @ (if getenv ''PAPERCLIP_API_URL'' = [] \<and> hc_api_url cfg = []
        then [''PAPERCLIP_API_URL not set (required for heartbeat mode)''] else [])
     @ (if getenv ''PAPERCLIP_AGENT_ID'' = []
        then [''PAPERCLIP_AGENT_ID not set (required for self-comment filtering)''] else [])"

section \<open>Lemmas\<close>

lemma pick_more_new:
  "\<exists>ys. pick_more ok ranked xs = ranked @ ys \<and> (\<forall>i \<in> set ys. i \<in> set xs \<and> ok i)"
proof (induction ok ranked xs rule: pick_more.induct)
  case (2 ok ranked i xs)
  show ?case
  proof (cases "is_id i \<notin> is_id ` set ranked \<and> ok i")
    case True
    then obtain ys where "pick_more ok (ranked @ [i]) xs = (ranked @ [i]) @ ys" "\<forall>j \<in> set ys. j \<in> set xs \<and> ok j"
      using 2(1) by blast
    then show ?thesis using True by (intro exI [of _ "i # ys"]) auto
  next
    case False
    then obtain ys where "pick_more ok ranked xs = ranked @ ys" "\<forall>j \<in> set ys. j \<in> set xs \<and> ok j"
      using 2(2) by blast
    then show ?thesis using False by (intro exI [of _ ys]) auto
  qed
qed simp

lemma pick_more_distinct: "distinct (map is_id ranked) \<Longrightarrow> distinct (map is_id (pick_more ok ranked xs))"
  by (induction ok ranked xs rule: pick_more.induct) simp_all

lemma pick_more_id: "\<forall>i \<in> set xs. ok i \<longrightarrow> is_id i \<in> is_id ` set ranked \<Longrightarrow> pick_more ok ranked xs = ranked"
  by (induction ok ranked xs rule: pick_more.induct) auto

lemma pick_more_offers: "i \<in> set xs \<Longrightarrow> ok i \<Longrightarrow> is_id i \<in> is_id ` set (pick_more ok ranked xs)"
proof (induction ok ranked xs rule: pick_more.induct)
  case (2 ok ranked j xs)
  show ?case
  proof (cases "is_id j \<notin> is_id ` set ranked \<and> ok j")
    case True
    obtain ys where "pick_more ok (ranked @ [j]) xs = (ranked @ [j]) @ ys" using pick_more_new by blast
    then show ?thesis using 2 True by auto
  next
    case False
    obtain ys where "pick_more ok ranked xs = ranked @ ys" using pick_more_new by blast
    then show ?thesis using 2 False by auto
  qed
qed simp

lemma find_offers: "i \<in> set xs \<Longrightarrow> P i \<Longrightarrow> \<exists>j. find P xs = Some j \<and> P j"
  by (induction xs) auto

text \<open>The rate is that of the longest prefix of the model's name that beats the bound, else the given one.\<close>

lemma best_rate_longest:
  "\<exists>n \<ge> best. (n = best \<and> best_rate model best rate ps = rate
      \<or> (\<exists>p. (p, best_rate model best rate ps) \<in> set ps \<and> prefix p model \<and> p \<noteq> ''_default'' \<and> length p = n))
    \<and> (\<forall>p x. (p, x) \<in> set ps \<longrightarrow> p \<noteq> ''_default'' \<longrightarrow> prefix p model \<longrightarrow> length p \<le> n)"
proof (induction model best rate ps rule: best_rate.induct)
  case (2 model best rate p x ps)
  show ?case
  proof (cases "p \<noteq> ''_default'' \<and> prefix p model \<and> length p > best")
    case True
    from 2(1) [OF True] obtain n where n: "n \<ge> length p"
      "n = length p \<and> best_rate model (length p) x ps = x
        \<or> (\<exists>q. (q, best_rate model (length p) x ps) \<in> set ps \<and> prefix q model \<and> q \<noteq> ''_default'' \<and> length q = n)"
      "\<forall>q y. (q, y) \<in> set ps \<longrightarrow> q \<noteq> ''_default'' \<longrightarrow> prefix q model \<longrightarrow> length q \<le> n" by blast
    have "best_rate model best rate ((p, x) # ps) = best_rate model (length p) x ps" using True by simp
    then show ?thesis using n True by (intro exI [of _ n]) auto
  next
    case False
    from 2(2) [OF False] obtain n where n: "n \<ge> best"
      "n = best \<and> best_rate model best rate ps = rate
        \<or> (\<exists>q. (q, best_rate model best rate ps) \<in> set ps \<and> prefix q model \<and> q \<noteq> ''_default'' \<and> length q = n)"
      "\<forall>q y. (q, y) \<in> set ps \<longrightarrow> q \<noteq> ''_default'' \<longrightarrow> prefix q model \<longrightarrow> length q \<le> n" by blast
    have "best_rate model best rate ((p, x) # ps) = best_rate model best rate ps" using False by auto
    then show ?thesis using n False by (intro exI [of _ n]) auto
  qed
qed simp

section \<open>Properties\<close>

text \<open>The ranking offers each issue once: first the one the environment forces, then exactly the issues in
  progress, then exactly those to do; a blocked issue is offered only when it is forced.\<close>

theorem rank_tasks_order:
  assumes "\<forall>i \<in> set xs. is_id i \<noteq> JStr []"
  shows "\<exists>f p t. rank_tasks getenv xs = f @ p @ t \<and> distinct (map is_id (f @ p @ t))
    \<and> f = forced_pick (py_strip (getenv ''PAPERCLIP_TASK_ID'')) xs
    \<and> (\<forall>i \<in> set p. i \<in> set xs \<and> is_status i = JStr ''in_progress'')
    \<and> (\<forall>i \<in> set t. i \<in> set xs \<and> is_status i = JStr ''todo'')
    \<and> (\<forall>i \<in> set xs. is_status i \<in> {JStr ''in_progress'', JStr ''todo''} \<longrightarrow> is_id i \<in> is_id ` set (f @ p @ t))"
proof -
  let ?forced = "py_strip (getenv ''PAPERCLIP_TASK_ID'')"
  let ?p = "\<lambda>i. is_status i = JStr ''in_progress''" and ?t = "\<lambda>i. is_status i = JStr ''todo''"
  define f where "f = forced_pick ?forced xs"
  obtain p where p: "pick_more ?p f xs = f @ p" "\<forall>i \<in> set p. i \<in> set xs \<and> ?p i" using pick_more_new by blast
  obtain t where t: "pick_more ?t (f @ p) xs = (f @ p) @ t" "\<forall>i \<in> set t. i \<in> set xs \<and> ?t i" using pick_more_new by blast
  have forced: "is_id i \<in> is_id ` set f" if "i \<in> set xs" "is_id i = JStr ?forced" for i
  proof -
    have "?forced \<noteq> []" using that assms by metis
    then show ?thesis using find_offers [of i xs "\<lambda>i. is_id i = JStr ?forced"] that
      by (auto simp: f_def forced_pick_def)
  qed
  have "pick_more (\<lambda>i. is_status i = JStr ''blocked'' \<and> is_id i = JStr ?forced) (f @ p @ t) xs = f @ p @ t"
    using forced by (intro pick_more_id) auto
  then have r: "rank_tasks getenv xs = f @ p @ t"
    using p(1) t(1) by (simp add: rank_tasks_def Let_def f_def)
  have "distinct (map is_id f)" by (simp add: f_def forced_pick_def split: option.split)
  then have d: "distinct (map is_id (f @ p @ t))"
    using pick_more_distinct [of f ?p xs] pick_more_distinct [of "f @ p" ?t xs] p(1) t(1) by simp
  have o1: "is_id i \<in> is_id ` set (f @ p)" if "i \<in> set xs" "?p i" for i
    using pick_more_offers [of i xs ?p f] that p(1) by simp
  have o2: "is_id i \<in> is_id ` set (f @ p @ t)" if "i \<in> set xs" "?t i" for i
    using pick_more_offers [of i xs ?t "f @ p"] that t(1) by simp
  have "\<forall>i \<in> set xs. is_status i \<in> {JStr ''in_progress'', JStr ''todo''} \<longrightarrow> is_id i \<in> is_id ` set (f @ p @ t)"
    using o1 o2 by auto
  then show ?thesis using r d p(2) t(2) f_def by blast
qed

text \<open>A run on a local model costs nothing; a run with tokens on a cloud model with known prices costs at
  least a cent, at the rate of the longest listed prefix of its name or else at the default rate.\<close>

theorem estimate_cost_spec:
  assumes "dict_get PRICING (py_lower backend) = Some pricing" and "input_tokens \<noteq> 0 \<or> output_tokens \<noteq> 0"
    and "py_lower backend \<notin> FREE_BACKENDS"
  shows "\<exists>input_rate output_rate.
    estimate_cost_cents backend model input_tokens output_tokens =
      max 1 (py_round (of_int (input_tokens * input_rate + output_tokens * output_rate) / 1000000))
    \<and> ((input_rate, output_rate) = dict_get_or pricing ''_default'' (0, 0)
         \<and> (\<forall>p x. (p, x) \<in> set pricing \<longrightarrow> p \<noteq> ''_default'' \<longrightarrow> p \<noteq> [] \<longrightarrow> \<not> prefix p (py_lower model))
      \<or> (\<exists>p. (p, (input_rate, output_rate)) \<in> set pricing \<and> prefix p (py_lower model)
         \<and> (\<forall>q x. (q, x) \<in> set pricing \<longrightarrow> q \<noteq> ''_default'' \<longrightarrow> prefix q (py_lower model) \<longrightarrow> length q \<le> length p)))"
proof -
  let ?r = "best_rate (py_lower model) 0 (dict_get_or pricing ''_default'' (0, 0)) pricing"
  obtain i o' where r: "?r = (i, o')" by fastforce
  then have "estimate_cost_cents backend model input_tokens output_tokens =
      max 1 (py_round (of_int (input_tokens * i + output_tokens * o') / 1000000))"
    using assms by (auto simp: estimate_cost_cents_def)
  moreover obtain n where n: "n = 0 \<and> ?r = dict_get_or pricing ''_default'' (0, 0)
      \<or> (\<exists>p. (p, ?r) \<in> set pricing \<and> prefix p (py_lower model) \<and> p \<noteq> ''_default'' \<and> length p = n)"
    "\<forall>p x. (p, x) \<in> set pricing \<longrightarrow> p \<noteq> ''_default'' \<longrightarrow> prefix p (py_lower model) \<longrightarrow> length p \<le> n"
    using best_rate_longest [of 0 "py_lower model" "dict_get_or pricing ''_default'' (0, 0)" pricing] by blast
  ultimately show ?thesis
    unfolding r by (intro exI [of _ i] exI [of _ o'] conjI) auto
qed

lemma longest_prefix_wins: "estimate_cost_cents ''OpenAI'' ''gpt-4o-mini'' 1000000 0 = 15"
proof -
  have l: "py_lower ''OpenAI'' = ''openai''" "py_lower ''gpt-4o-mini'' = ''gpt-4o-mini''" by code_simp+
  show ?thesis
    by (simp add: estimate_cost_cents_def l FREE_BACKENDS_def PRICING_def dict_get_or_def dict_get_def py_round_def)
qed

section \<open>The result of a heartbeat\<close>

record heartbeat_result =
  hr_status :: string
  hr_issue_id :: json
  hr_summary :: string
  hr_input_tokens :: int
  hr_output_tokens :: int
  hr_cost_cents :: int
  hr_provider :: string
  hr_model :: string
  hr_exit_code :: int
  hr_questions :: "string list"
  hr_retry_after :: "int option"

record workflow_result =
  wr_state :: agent_state
  wr_last_node :: "string option"
  wr_upgrade :: "(string \<times> string \<times> string) option" \<comment> \<open>description, branch, commit\<close>
  wr_input_tokens :: int
  wr_output_tokens :: int

definition plain_result :: "string \<Rightarrow> json \<Rightarrow> string \<Rightarrow> int \<Rightarrow> heartbeat_result" where
  "plain_result status issue_id summary exit_code =
     \<lparr>hr_status = status, hr_issue_id = issue_id, hr_summary = summary, hr_input_tokens = 0, hr_output_tokens = 0,
      hr_cost_cents = 0, hr_provider = [], hr_model = [], hr_exit_code = exit_code, hr_questions = [],
      hr_retry_after = None\<rparr>"

definition exn_message :: "py_exn \<Rightarrow> string" where
  "exn_message e = (case e of OtherError _ m \<Rightarrow> m | ValueError m \<Rightarrow> m | RuntimeError m \<Rightarrow> m | OSError m \<Rightarrow> m
     | TimeoutError m \<Rightarrow> m | ConnectionError m \<Rightarrow> m | AssertionError m \<Rightarrow> m | _ \<Rightarrow> [])"

definition final_output_of :: "workflow_result \<Rightarrow> string" where
  "final_output_of r = opt_or (final_output (wr_state r)) (opt_or (specialist_output (wr_state r)) [])"

definition final_score_of :: "workflow_result \<Rightarrow> int" where
  "final_score_of r = opt_or (final_score (wr_state r)) (opt_or (output_critic_score (wr_state r)) 0)"

end
