(* ===== verification/Aggregator.thy ===== *)
theory Aggregator
  imports Py_Strings Agent_State
begin

text \<open>
  \<^verbatim>\<open>agents/aggregator.py\<close>: the outputs of the completed sub-tasks are combined into one deliverable, by a
  language model when an adapter is at hand (a parameter, with the error it may raise), else by
  concatenation. Dashes outside Latin-1 are written \<open>-\<close>; \<open>fmt1\<close> stands for the format \<open>.1f\<close>.
\<close>

section \<open>Sections\<close>

record raw_section =
  sn_task_type :: string
  sn_title :: string
  sn_specialist :: string
  sn_output :: string
  sn_score :: int
  sn_specification :: string

definition SECTION_TITLES :: "(string, string) py_dict" where
  "SECTION_TITLES = [(''test_generation'', ''Test Suite''), (''security_audit'', ''Security Audit''),
     (''documentation'', ''Documentation''), (''performance_optimization'', ''Performance Optimization''),
     (''debugging'', ''Debug Report''), (''refactoring'', ''Refactored Code''), (''code_generation'', ''Generated Code''),
     (''data_processing'', ''Data Processing''), (''api_development'', ''API Development''),
     (''database_operations'', ''Database Operations''), (''code_review'', ''Code Review''), (''general'', ''General Analysis'')]"

definition section_title :: "string \<Rightarrow> string" where
  "section_title task_type =
     dict_get_or SECTION_TITLES task_type (py_title (replace_char (CHR ''_'') (CHR '' '') task_type))"

definition raw_section_of :: "sub_task \<Rightarrow> raw_section" where
  "raw_section_of t = \<lparr>sn_task_type = opt_or (t_task_type t) ''general'',
     sn_title = section_title (opt_or (t_task_type t) ''general''),
     sn_specialist = opt_or (t_specialist_adapter t) ''unknown'', sn_output = opt_or (t_output t) [],
     sn_score = opt_or (t_output_score t) 0, sn_specification = opt_or (t_specification t) []\<rparr>"

definition build_raw_sections :: "sub_task list \<Rightarrow> raw_section list" where
  "build_raw_sections completed = map raw_section_of completed"

section \<open>Prompts\<close>

definition prompt_section :: "nat \<Rightarrow> raw_section \<Rightarrow> string" where
  "prompt_section i s =
     ''### SPECIALIST '' @ str_nat i @ '': '' @ sn_title s @ '' (by '' @ sn_specialist s @ '', score: '' @ str_int (sn_score s)
     @ ''/100)'' @ nl
     @ (if length (sn_output s) > 3000 then take 3000 (sn_output s) @ nl @ ''... [truncated for aggregation]'' else sn_output s)"

definition format_sections_for_prompt :: "raw_section list \<Rightarrow> string" where
  "format_sections_for_prompt ss =
     join_with (nl @ nl @ ''---'' @ nl @ nl) (map (\<lambda>(i, s). prompt_section i s) (zip [1..<Suc (length ss)] ss))"

definition AGGREGATOR_SYSTEM_PROMPT :: string where
  "AGGREGATOR_SYSTEM_PROMPT =
     ''You are an expert technical writer and integration specialist. Your role is to synthesize outputs from ''
     @ ''multiple specialist agents into a single, coherent deliverable. You excel at resolving cross-references ''
     @ ''between code, tests, and documentation, deduplicating overlapping content, and harmonizing structure across ''
     @ ''diverse technical outputs.''"

definition build_merge_prompt :: "string \<Rightarrow> string \<Rightarrow> string \<Rightarrow> string" where
  "build_merge_prompt sections req spec =
     ''You are integrating outputs from multiple specialist agents into a single, unified deliverable.'' @ nl @ nl
     @ ''**Original User Request**: '' @ req @ nl @ nl @ ''**Specification**: '' @ spec @ nl @ nl
     @ ''**Specialist Outputs to Integrate**:'' @ nl @ nl @ sections @ nl @ nl @ ''**Your Task**: Produce a single, ''
     @ ''coherent response that a developer can use directly. Follow these rules:'' @ nl @ nl
     @ ''1. **Resolve cross-references**: If tests reference functions/classes from the code output, ensure names ''
     @ ''match exactly. If documentation references API endpoints from the code, ensure paths and signatures are ''
     @ ''consistent.'' @ nl @ ''2. **Deduplicate**: If multiple specialists explain the same concept or include ''
     @ ''overlapping code, keep the best version and remove redundancy. Do not repeat setup instructions, import ''
     @ ''blocks, or boilerplate that appears in multiple outputs.'' @ nl @ ''3. **Harmonize structure**: Use ''
     @ ''consistent naming conventions, code style, and markdown formatting across all sections. Code blocks should ''
     @ ''use the same language tags.'' @ nl @ ''4. **Order logically**: Put implementation code first, then tests, ''
     @ ''then documentation, then analysis (security, performance, etc.).'' @ nl @ ''5. **Preserve all substance**: Do ''
     @ ''not drop any meaningful code, test case, finding, or recommendation. Dedup structure, not content.'' @ nl @ nl
     @ ''Produce the final integrated output now. Do not include meta-commentary about the integration ''
     @ ''process.''"

definition build_sequential_prompt :: "string \<Rightarrow> string \<Rightarrow> string \<Rightarrow> string" where
  "build_sequential_prompt sections req spec =
     ''You are combining outputs from multiple specialist agents that worked in sequence, where each built on the ''
     @ ''previous one'' @ [CHR 0x27] @ ''s work.'' @ nl @ nl @ ''**Original User Request**: '' @ req @ nl @ nl
     @ ''**Specification**: '' @ spec @ nl @ nl @ ''**Specialist Outputs (in execution order)**:'' @ nl @ nl @ sections
     @ nl @ nl @ ''**Your Task**: Produce a coherent narrative that shows how each specialist'' @ [CHR 0x27]
     @ ''s work builds on the previous. Follow these rules:'' @ nl @ nl @ ''1. **Resolve forward references**: Later ''
     @ ''specialists may reference earlier outputs. Ensure all names, paths, and interfaces are consistent across the ''
     @ ''chain.'' @ nl @ ''2. **Remove redundant context**: Each specialist may have restated the problem or earlier ''
     @ ''findings. Keep one clear problem statement at the top, then show the progression.'' @ nl
     @ ''3. **Show the build-up**: Use clear section headers (## Step 1, ## Step 2, etc.) to show the sequential flow, ''
     @ ''but make sure later sections reference earlier results naturally rather than repeating them.'' @ nl
     @ ''4. **Deduplicate code**: If a later specialist refined or replaced code from an earlier step, show only the ''
     @ ''final version in context (with a note about what changed).'' @ nl @ ''5. **Preserve the specialist ''
     @ ''attribution**: Note which specialist produced each section.'' @ nl @ nl @ ''Produce the final sequential ''
     @ ''output now. Do not include meta-commentary about the integration process.''"

definition build_report_prompt :: "string \<Rightarrow> string \<Rightarrow> string \<Rightarrow> string" where
  "build_report_prompt sections req spec =
     ''You are producing a structured analysis report from multiple specialist agents that worked independently on ''
     @ ''different aspects of the same request.'' @ nl @ nl @ ''**Original User Request**: '' @ req @ nl @ nl
     @ ''**Specification**: '' @ spec @ nl @ nl @ ''**Specialist Outputs**:'' @ nl @ nl @ sections @ nl @ nl
     @ ''**Your Task**: Produce a professional report with the following ''
     @ ''structure:'' @ nl @ nl @ ''1. **Executive Summary** (3-5 bullet points): Synthesize the key findings across ''
     @ ''ALL specialists into a unified summary. Do not just list each specialist'' @ [CHR 0x27]
     @ ''s conclusion - identify themes, agreements, and conflicts between ''
     @ ''them.'' @ nl @ ''2. **Detailed Findings**: One section per specialist area, but:'' @ nl
     @ ''   - Cross-reference related findings (e.g., '' @ [CHR 0x22] @ ''The security audit identified the same input ''
     @ ''validation gap noted in the code review'' @ [CHR 0x22] @ '')'' @ nl @ ''   - Deduplicate overlapping ''
     @ ''recommendations - if two specialists suggest the same fix, consolidate into one actionable item'' @ nl
     @ ''   - Resolve any contradictions (e.g., one specialist says X is fine, another flags ''
     @ ''it)'' @ nl @ ''3. **Consolidated Recommendations**: A single prioritized list of action items drawn from ALL ''
     @ ''specialist outputs, deduplicated and ordered by impact.'' @ nl @ nl @ ''Produce the final report now. Do not ''
     @ ''include meta-commentary about the report generation process.''"

section \<open>Concatenation\<close>

definition CODE_TYPES :: "string set" where
  "CODE_TYPES = {''code_generation'', ''refactoring'', ''debugging''}"

text \<open>\<open>setdefault(task_type, []).append(section)\<close>\<close>

definition group_section :: "(string, raw_section list) py_dict \<Rightarrow> raw_section \<Rightarrow> (string, raw_section list) py_dict" where
  "group_section d s = dict_set (sn_task_type s) (dict_get_or d (sn_task_type s) [] @ [s]) d"

definition outputs_of :: "raw_section list \<Rightarrow> string" where
  "outputs_of ss = concat (map (\<lambda>s. sn_output s @ nl @ nl) ss)"

definition fallback_merge :: "raw_section list \<Rightarrow> string \<Rightarrow> string" where
  "fallback_merge sections req =
     (let code = filter (\<lambda>s. sn_task_type s \<in> CODE_TYPES) sections;
          groups = foldl group_section [] (filter (\<lambda>s. sn_task_type s \<notin> CODE_TYPES) sections)
      in py_strip (''# Result for: '' @ req @ nl @ nl
        @ (if code = [] then [] else ''## Implementation'' @ nl @ nl @ outputs_of code)
        @ concat (map (\<lambda>(t, g). ''## '' @ section_title t @ nl @ nl @ outputs_of g) groups)))"

definition step_of :: "nat \<Rightarrow> raw_section \<Rightarrow> string" where
  "step_of i s = ''## Step '' @ str_nat i @ '': '' @ sn_title s @ nl
     @ ''*Specialist: '' @ sn_specialist s @ '' (Quality Score: '' @ str_int (sn_score s) @ ''/100)*'' @ nl @ nl
     @ sn_output s @ nl @ nl @ ''---'' @ nl @ nl"

definition fallback_sequential :: "raw_section list \<Rightarrow> string \<Rightarrow> string" where
  "fallback_sequential sections req =
     py_strip (''# Result for: '' @ req @ nl @ nl
       @ ''*The following specialists worked on this task in sequence:*'' @ nl @ nl
       @ concat (map (\<lambda>(i, s). step_of i s) (zip [1..<Suc (length sections)] sections)))"

definition report_entry :: "nat \<Rightarrow> raw_section \<Rightarrow> string" where
  "report_entry i s = ''### '' @ str_nat i @ ''. '' @ sn_title s @ nl
     @ ''*By: '' @ sn_specialist s @ '' | Quality: '' @ str_int (sn_score s) @ ''/100*'' @ nl @ nl
     @ sn_output s @ nl @ nl @ ''---'' @ nl @ nl"

definition average :: "int list \<Rightarrow> real" where
  "average xs = (if xs = [] then 0 else of_int (sum_list xs) / of_nat (length xs))"

definition report_head :: "raw_section list \<Rightarrow> string \<Rightarrow> string" where
  "report_head sections req =
     ''# Comprehensive Analysis Report'' @ nl @ nl @ ''**Request:** '' @ req @ nl @ nl
     @ ''**Specialists Consulted:** '' @ str_nat (length sections) @ nl @ nl @ ''## Executive Summary'' @ nl @ nl
     @ ''This report presents findings from multiple specialist analyses:'' @ nl @ nl
     @ concat (map (\<lambda>s. ''- **'' @ sn_title s @ ''**: Quality Score '' @ str_int (sn_score s) @ ''/100'' @ nl) sections)
     @ nl @ ''---'' @ nl @ nl @ ''## Detailed Findings'' @ nl @ nl"

definition report_tail :: "(real \<Rightarrow> string) \<Rightarrow> raw_section list \<Rightarrow> string" where
  "report_tail fmt1 sections =
     (let avg = average (map sn_score sections) in
      ''## Overall Assessment'' @ nl @ nl @ ''**Average Quality Score:** '' @ fmt1 avg @ ''/100'' @ nl @ nl
      @ (if avg \<ge> 85 then ''All analyses meet quality standards.'' @ nl
         else if avg \<ge> 70 then ''Generally good quality, some areas may need attention.'' @ nl
         else ''Quality concerns identified, review recommended.'' @ nl))"

definition fallback_report :: "(real \<Rightarrow> string) \<Rightarrow> raw_section list \<Rightarrow> string \<Rightarrow> string" where
  "fallback_report fmt1 sections req =
     py_strip (report_head sections req
       @ concat (map (\<lambda>(i, s). report_entry i s) (zip [1..<Suc (length sections)] sections)) @ report_tail fmt1 sections)"

definition fallback_aggregate :: "(real \<Rightarrow> string) \<Rightarrow> raw_section list \<Rightarrow> string \<Rightarrow> string \<Rightarrow> string" where
  "fallback_aggregate fmt1 sections req strategy =
     (if strategy = ''merge'' then fallback_merge sections req
      else if strategy = ''sequential'' then fallback_sequential sections req
      else if strategy = ''report'' then fallback_report fmt1 sections req
      else fallback_merge sections req)"

section \<open>The node\<close>

text \<open>An adapter: the answer to a prompt (\<open>None\<close> for a falsy result), or the exception.\<close>

type_synonym adapter = "string \<Rightarrow> py_exn + string option"

definition llm_aggregate ::
    "(real \<Rightarrow> string) \<Rightarrow> adapter \<Rightarrow> raw_section list \<Rightarrow> string \<Rightarrow> string \<Rightarrow> string \<Rightarrow> string" where
  "llm_aggregate fmt1 ask sections req spec strategy =
     (let text = format_sections_for_prompt sections;
          prompt = (if strategy = ''sequential'' then build_sequential_prompt text req spec
            else if strategy = ''report'' then build_report_prompt text req spec
            else build_merge_prompt text req spec)
      in case ask prompt of
           Inr (Some answer) \<Rightarrow>
             if length (py_strip answer) > 10 then py_strip answer else fallback_aggregate fmt1 sections req strategy
         | _ \<Rightarrow> fallback_aggregate fmt1 sections req strategy)"

text \<open>The registry: the adapters by name, \<open>None\<close> in place of one that raises or is missing. The adapter
  \<open>vibe\<close> is preferred.\<close>

definition aggregation_adapter :: "(string \<times> adapter option) list option \<Rightarrow> adapter option" where
  "aggregation_adapter registry =
     (case registry of
        None \<Rightarrow> None
      | Some ads \<Rightarrow>
          (case dict_get ads ''vibe'' of
             Some (Some a) \<Rightarrow> Some a
           | _ \<Rightarrow> (case find (\<lambda>(n, a). case a of None \<Rightarrow> False | Some _ \<Rightarrow> True) ads of None \<Rightarrow> None | Some (n, a) \<Rightarrow> a)))"

record aggregation =
  gr_output :: string
  gr_score :: int
  gr_completed :: "nat option"
  gr_adapters_used :: "string list option"

definition py_trunc :: "real \<Rightarrow> int" where
  "py_trunc x = (if x < 0 then - \<lfloor>- x\<rfloor> else \<lfloor>x\<rfloor>)"

text \<open>The keys \<open>execute\<close> sets; \<open>None\<close> for one it leaves.\<close>

definition aggregate ::
    "(real \<Rightarrow> string) \<Rightarrow> (string \<times> adapter option) list option \<Rightarrow> sub_task list \<Rightarrow> string \<Rightarrow> string \<Rightarrow> string
      \<Rightarrow> string list \<Rightarrow> aggregation" where
  "aggregate fmt1 registry tasks strategy req spec used =
     (let completed = filter (\<lambda>t. t_status t = Some ''completed'') tasks in
      if completed = [] then \<lparr>gr_output = ''Error: No sub-tasks completed successfully.'', gr_score = 0,
        gr_completed = None, gr_adapters_used = None\<rparr>
      else
        let sections = build_raw_sections completed in
        \<lparr>gr_output = (case aggregation_adapter registry of
             Some ask \<Rightarrow> llm_aggregate fmt1 ask sections req spec strategy
           | None \<Rightarrow> fallback_aggregate fmt1 sections req strategy),
         gr_score = py_trunc (average (map (\<lambda>t. opt_or (t_output_score t) 0) completed)),
         gr_completed = Some (length completed), gr_adapters_used = Some (used @ [''aggregator''])\<rparr>)"

section \<open>Lemmas\<close>

lemma concat_part: "x \<in> set xs \<Longrightarrow> \<exists>a b. concat (map f xs) = a @ f x @ b"
proof -
  assume "x \<in> set xs"
  then obtain ys zs where "xs = ys @ x # zs" by (meson split_list)
  then show ?thesis by auto
qed

lemma outputs_part: "s \<in> set ss \<Longrightarrow> \<exists>a b. outputs_of ss = a @ sn_output s @ b"
  using concat_part [of s ss "\<lambda>s. sn_output s @ nl @ nl"] by (auto simp: outputs_of_def)

lemma numbered_part:
  assumes "s \<in> set ss" and "\<And>i. \<exists>a b. f i s = a @ sn_output s @ b"
  shows "\<exists>a b. concat (map (\<lambda>(i, s). f i s) (zip [1..<Suc (length ss)] ss)) = a @ sn_output s @ b"
proof -
  obtain k where k: "k < length ss" "ss ! k = s" using assms(1) by (auto simp: in_set_conv_nth)
  have "(Suc k, s) \<in> set (zip [1..<Suc (length ss)] ss)"
    using k by (auto simp: in_set_zip intro!: exI [of _ k] simp del: upt_Suc)
  from concat_part [OF this, of "\<lambda>(i, s). f i s"] obtain a b where
    "concat (map (\<lambda>(i, s). f i s) (zip [1..<Suc (length ss)] ss)) = a @ f (Suc k) s @ b" by auto
  moreover obtain c d where "f (Suc k) s = c @ sn_output s @ d" using assms(2) by blast
  ultimately have "concat (map (\<lambda>(i, s). f i s) (zip [1..<Suc (length ss)] ss)) = (a @ c) @ sn_output s @ (d @ b)" by simp
  then show ?thesis by blast
qed

text \<open>Grouping keeps every section in the group of its type.\<close>

lemma group_fold:
  "dict_get (foldl group_section d ss) t =
     (if (\<exists>s \<in> set ss. sn_task_type s = t) \<or> dict_has d t
      then Some (dict_get_or d t [] @ filter (\<lambda>s. sn_task_type s = t) ss) else None)"
proof (induction ss arbitrary: d)
  case Nil
  then show ?case by (auto simp: dict_has_def dict_get_or_def split: option.split)
next
  case (Cons s ss)
  then show ?case
    by (auto simp: group_section_def dict_get_set dict_get_or_def dict_has_def split: option.splits)
qed

lemma group_part:
  assumes "s \<in> set ss"
  shows "\<exists>g. (sn_task_type s, g) \<in> set (foldl group_section [] ss) \<and> s \<in> set g"
proof -
  let ?g = "filter (\<lambda>x. sn_task_type x = sn_task_type s) ss"
  have "dict_get (foldl group_section [] ss) (sn_task_type s) = Some ?g"
    using assms by (auto simp: group_fold dict_get_or_def)
  then have "(sn_task_type s, ?g) \<in> set (foldl group_section [] ss)" by (simp add: dict_get_def map_of_SomeD)
  then show ?thesis using assms by auto
qed

lemma merge_part:
  assumes "s \<in> set sections"
  shows "\<exists>a b. fallback_merge sections req = py_strip (a @ sn_output s @ b)"
proof (cases "sn_task_type s \<in> CODE_TYPES")
  case True
  let ?code = "filter (\<lambda>s. sn_task_type s \<in> CODE_TYPES) sections"
  have c: "s \<in> set ?code" using assms True by simp
  then have ne: "?code \<noteq> []" by (metis empty_iff empty_set)
  obtain a b where ab: "outputs_of ?code = a @ sn_output s @ b" using outputs_part [OF c] by blast
  obtain post where "fallback_merge sections req = py_strip (''# Result for: '' @ req @ nl @ nl
      @ (''## Implementation'' @ nl @ nl @ outputs_of ?code) @ post)"
    unfolding fallback_merge_def Let_def if_not_P [OF ne] by blast
  then show ?thesis unfolding ab
    by (intro exI [of _ "''# Result for: '' @ req @ nl @ nl @ ''## Implementation'' @ nl @ nl @ a"] exI [of _ "b @ post"])
      (simp only: append.assoc)
next
  case False
  let ?rest = "filter (\<lambda>s. sn_task_type s \<notin> CODE_TYPES) sections"
  have "s \<in> set ?rest" using assms False by simp
  then obtain g where g: "(sn_task_type s, g) \<in> set (foldl group_section [] ?rest)" "s \<in> set g"
    using group_part by blast
  obtain a b where ab: "outputs_of g = a @ sn_output s @ b" using outputs_part [OF g(2)] by blast
  obtain c d where cd: "concat (map (\<lambda>(t, g). ''## '' @ section_title t @ nl @ nl @ outputs_of g)
      (foldl group_section [] ?rest)) = c @ (''## '' @ section_title (sn_task_type s) @ nl @ nl @ outputs_of g) @ d"
    using concat_part [OF g(1), of "\<lambda>(t, g). ''## '' @ section_title t @ nl @ nl @ outputs_of g"]
    by (auto simp only: prod.case)
  obtain pre where "fallback_merge sections req = py_strip (pre
      @ concat (map (\<lambda>(t, g). ''## '' @ section_title t @ nl @ nl @ outputs_of g) (foldl group_section [] ?rest)))"
    unfolding fallback_merge_def Let_def by (metis append.assoc)
  then show ?thesis unfolding cd ab
    by (intro exI [of _ "pre @ c @ ''## '' @ section_title (sn_task_type s) @ nl @ nl @ a"] exI [of _ "b @ d"])
      (simp only: append.assoc)
qed

lemma sequential_part:
  assumes "s \<in> set sections"
  shows "\<exists>a b. fallback_sequential sections req = py_strip (a @ sn_output s @ b)"
proof -
  have "\<exists>a b. step_of i s = a @ sn_output s @ b" for i
    unfolding step_of_def by (metis append.assoc)
  from numbered_part [OF assms, of step_of, OF this] show ?thesis
    unfolding fallback_sequential_def by (metis append.assoc)
qed

lemma report_part:
  assumes "s \<in> set sections"
  shows "\<exists>a b. fallback_report fmt1 sections req = py_strip (a @ sn_output s @ b)"
proof -
  have "\<exists>a b. report_entry i s = a @ sn_output s @ b" for i
    unfolding report_entry_def by (metis append.assoc)
  from numbered_part [OF assms, of report_entry, OF this] obtain a b where
    ab: "concat (map (\<lambda>(i, s). report_entry i s) (zip [1..<Suc (length sections)] sections)) = a @ sn_output s @ b"
    by blast
  show ?thesis unfolding fallback_report_def ab by (metis append.assoc)
qed

lemma average_bounds:
  assumes "xs \<noteq> []" and "\<forall>x \<in> set xs. lo \<le> x \<and> x \<le> hi"
  shows "of_int lo \<le> average xs \<and> average xs \<le> of_int hi"
proof -
  have "int (length xs) * lo \<le> sum_list xs \<and> sum_list xs \<le> int (length xs) * hi"
    using assms(2) by (induction xs) (auto simp: algebra_simps)
  then have "of_int (int (length xs) * lo) \<le> (of_int (sum_list xs) :: real)"
    "(of_int (sum_list xs) :: real) \<le> of_int (int (length xs) * hi)" by (simp_all only: of_int_le_iff)
  then show ?thesis using assms(1)
    by (simp add: average_def pos_le_divide_eq pos_divide_le_eq mult.commute)
qed

lemma py_trunc_bounds: "of_int lo \<le> x \<Longrightarrow> x \<le> of_int hi \<Longrightarrow> lo \<le> py_trunc x \<and> py_trunc x \<le> hi"
  unfolding py_trunc_def by (simp split: if_split) linarith

lemma fallback_keeps:
  assumes "t \<in> set tasks" and "t_status t = Some ''completed''" and "t_output t = Some out" and "py_strip out \<noteq> []"
    and "\<forall>ask prompt. aggregation_adapter registry = Some ask \<longrightarrow>
      (case ask prompt of Inr (Some answer) \<Rightarrow> length (py_strip answer) \<le> 10 | _ \<Rightarrow> True)"
  shows "str_contains (py_strip out) (gr_output (aggregate fmt1 registry tasks strategy req spec used))"
proof -
  let ?done = "filter (\<lambda>t. t_status t = Some ''completed'') tasks"
  let ?s = "raw_section_of t"
  have t: "t \<in> set ?done" using assms(1,2) by simp
  then have ne: "?done \<noteq> []" by (metis empty_iff empty_set)
  have s: "?s \<in> set (build_raw_sections ?done)" using t by (simp add: build_raw_sections_def)
  have o: "sn_output ?s = out" by (simp add: raw_section_of_def assms(3))
  have f: "str_contains (py_strip out) (fallback_aggregate fmt1 (build_raw_sections ?done) req st)" for st
    using merge_part [OF s, of req] sequential_part [OF s, of req] report_part [OF s, of fmt1 req]
      strip_keeps [OF assms(4)] unfolding o by (auto simp: fallback_aggregate_def)
  have l: "str_contains (py_strip out) (llm_aggregate fmt1 ask (build_raw_sections ?done) req spec strategy)"
    if "aggregation_adapter registry = Some ask" for ask
  proof -
    have short: "case ask p of Inr (Some answer) \<Rightarrow> length (py_strip answer) \<le> 10 | _ \<Rightarrow> True" for p
      using assms(5) that by blast
    have "(case ask p of Inr (Some answer) \<Rightarrow> if length (py_strip answer) > 10 then py_strip answer else g | _ \<Rightarrow> g) = g" for p g
      using short [of p] by (simp split: sum.splits option.splits)
    then show ?thesis unfolding llm_aggregate_def Let_def by (simp only: f)
  qed
  show ?thesis using ne f l by (simp add: aggregate_def Let_def split: option.split)
qed

section \<open>Properties\<close>

text \<open>Without a language model, or when it fails or answers with next to nothing, no specialist's output is
  lost: the combined text contains the output of every completed sub-task that is not blank, whatever the
  strategy.\<close>
theorem fallback_keeps_every_output:
  assumes "t \<in> set tasks" and "t_status t = Some ''completed''" and "t_output t = Some out" and "py_strip out \<noteq> []"
    and "\<forall>ask prompt. aggregation_adapter registry = Some ask \<longrightarrow>
      (case ask prompt of Inr (Some answer) \<Rightarrow> length (py_strip answer) \<le> 10 | _ \<Rightarrow> True)"
  shows "str_contains (py_strip out) (gr_output (aggregate fmt1 registry tasks strategy req spec used))"
  by (rule fallback_keeps [OF assms])

definition sample_task :: "string \<Rightarrow> int \<Rightarrow> sub_task" where
  "sample_task out score = \<lparr>t_task_type = Some ''code_review'', t_specialist_adapter = None, t_specification = None,
     t_output = Some out, t_spec_score = None, t_output_score = Some score, t_output_feedback = None,
     t_iteration_count = None, t_max_iterations = None, t_status = Some ''completed'',
      t_id = None, t_parent_specification = None, t_sibling_tasks = None, t_tool_calls = None, t_spec_feedback = None\<rparr>"

theorem fallback_keeps_every_output_witness:
  "str_contains ''fine'' (gr_output (aggregate (\<lambda>_. []) None [sample_task ''fine'' 90, sample_task ''bad'' 40] ''report'' ''q'' [] []))"
proof -
  have s: "py_strip ''fine'' = ''fine''" by code_simp
  have "\<forall>ask prompt. aggregation_adapter None = Some ask \<longrightarrow>
      (case ask prompt of Inr (Some answer) \<Rightarrow> length (py_strip answer) \<le> 10 | _ \<Rightarrow> True)"
    by (simp add: aggregation_adapter_def)
  from fallback_keeps_every_output [of "sample_task ''fine'' 90" "[sample_task ''fine'' 90, sample_task ''bad'' 40]" "''fine''",
      OF _ _ _ _ this]
  show ?thesis by (simp add: s sample_task_def)
qed

text \<open>The score of an aggregation lies between the lowest and the highest score of the completed sub-tasks.\<close>
theorem aggregated_score_bounds:
  assumes "\<forall>t \<in> set tasks. t_status t = Some ''completed'' \<longrightarrow> lo \<le> opt_or (t_output_score t) 0 \<and> opt_or (t_output_score t) 0 \<le> hi"
    and "\<exists>t \<in> set tasks. t_status t = Some ''completed''"
  shows "lo \<le> gr_score (aggregate fmt1 registry tasks strategy req spec used)
    \<and> gr_score (aggregate fmt1 registry tasks strategy req spec used) \<le> hi"
proof -
  let ?done = "filter (\<lambda>t. t_status t = Some ''completed'') tasks"
  let ?xs = "map (\<lambda>t. opt_or (t_output_score t) 0) ?done"
  have ne: "?done \<noteq> []" using assms(2) by (auto simp: filter_empty_conv)
  then have "of_int lo \<le> average ?xs \<and> average ?xs \<le> of_int hi"
    using assms(1) by (intro average_bounds) auto
  then have "lo \<le> py_trunc (average ?xs) \<and> py_trunc (average ?xs) \<le> hi" by (intro py_trunc_bounds) auto
  then show ?thesis using ne by (simp add: aggregate_def Let_def)
qed

theorem aggregated_score_bounds_witness:
  "40 \<le> gr_score (aggregate (\<lambda>_. []) None [sample_task ''fine'' 90, sample_task ''bad'' 40] ''merge'' [] [] [])
    \<and> gr_score (aggregate (\<lambda>_. []) None [sample_task ''fine'' 90, sample_task ''bad'' 40] ''merge'' [] [] []) \<le> 90"
  using aggregated_score_bounds [of "[sample_task ''fine'' 90, sample_task ''bad'' 40]" 40 90 "\<lambda>_. []" None]
  by (simp add: sample_task_def)

end
