(* ===== verification/Orchestrator.thy ===== *)
theory Orchestrator
  imports Heartbeat_Context Aggregator
begin

text \<open>
  The orchestrator of multi-agent tasks (\<^verbatim>\<open>agents/orchestrator.py\<close>, \<^verbatim>\<open>agents/orchestrator_helpers.py\<close>):
  decompose an issue into children assigned to agents, watch and retry them, combine their results. All its
  state is the control plane's; a computation is a function of the calls made so far that returns its result or
  exception and the calls after it. Issues, agents and comments have fields of the types the data classes
  declare. Triage, routing and the workflow are parameters.
\<close>

section \<open>The control plane\<close>

record child_issue =
  ci_id :: string
  ci_title :: string
  ci_description :: string
  ci_status :: string
  ci_goal :: "string option"
  ci_assignee :: "string option"

record worker =
  wk_id :: string
  wk_name :: string
  wk_role :: string
  wk_title :: string
  wk_status :: string

datatype orch_call =
    OChildren string
  | OComments string
  | OAgents
  | OUpdate string "string option" "string option" "(string \<times> string) list" \<comment> \<open>issue, status, comment, other fields\<close>
  | OComment string string
  | OCreate string string string "string option" "string option" \<comment> \<open>title, description, parent, goal, assignee\<close>
  | OCost string int

record orch_api =
  oa_children :: "orch_call list \<Rightarrow> py_exn + child_issue list"
  oa_comments :: "orch_call list \<Rightarrow> py_exn + string list"
  oa_agents :: "orch_call list \<Rightarrow> py_exn + worker list"
  oa_create :: "orch_call list \<Rightarrow> py_exn + string"
  oa_do :: "orch_call list \<Rightarrow> py_exn + unit"

type_synonym 'a orch = "orch_call list \<Rightarrow> (py_exn + 'a) \<times> orch_call list"

definition call :: "(orch_call list \<Rightarrow> py_exn + 'a) \<Rightarrow> orch_call \<Rightarrow> 'a orch" where
  "call answer c cs = (answer (cs @ [c]), cs @ [c])"

definition ret :: "'a \<Rightarrow> 'a orch" where
  "ret x cs = (Inr x, cs)"

definition and_then :: "'a orch \<Rightarrow> ('a \<Rightarrow> 'b orch) \<Rightarrow> 'b orch" where
  "and_then m k cs = (case m cs of (Inl e, cs') \<Rightarrow> (Inl e, cs') | (Inr x, cs') \<Rightarrow> k x cs')"

text \<open>\<open>try: ... except PaperclipAPIError as e\<close> around a call.\<close>

definition try_api :: "'a orch \<Rightarrow> (py_exn \<Rightarrow> 'b orch) \<Rightarrow> ('a \<Rightarrow> 'b orch) \<Rightarrow> 'b orch" where
  "try_api m h k cs =
     (case m cs of
        (Inl e, cs') \<Rightarrow> if is_api_error e then h e cs' else (Inl e, cs')
      | (Inr x, cs') \<Rightarrow> k x cs')"

fun each :: "('a \<Rightarrow> 'b orch) \<Rightarrow> 'a list \<Rightarrow> 'b list orch" where
  "each f [] = ret []"
| "each f (x # xs) = and_then (f x) (\<lambda>y. and_then (each f xs) (\<lambda>ys. ret (y # ys)))"

section \<open>Markers in comments\<close>

definition word_char :: "char \<Rightarrow> bool" where
  "word_char c \<longleftrightarrow> (let k = of_char c :: nat in
     48 \<le> k \<and> k \<le> 57 \<or> 65 \<le> k \<and> k \<le> 90 \<or> k = 95 \<or> 97 \<le> k \<and> k \<le> 122
     \<or> k = 170 \<or> k = 178 \<or> k = 179 \<or> k = 181 \<or> 185 \<le> k \<and> k \<le> 186 \<or> 188 \<le> k \<and> k \<le> 190
     \<or> 192 \<le> k \<and> k \<noteq> 215 \<and> k \<noteq> 247)"

text \<open>\<open>open(x+)close\<close>, the characters \<open>x\<close> not occurring at the start of \<open>close\<close>: the group, at the start of a text and
  at its first occurrence.\<close>

definition marker_at :: "string \<Rightarrow> (char \<Rightarrow> bool) \<Rightarrow> string \<Rightarrow> string \<Rightarrow> string option" where
  "marker_at opening ok closing s =
     (if prefix opening s then
        let r = drop (length opening) s; w = takeWhile ok r in
        if w \<noteq> [] \<and> prefix closing (dropWhile ok r) then Some w else None
      else None)"

fun search_from :: "(string \<Rightarrow> 'a option) \<Rightarrow> string \<Rightarrow> 'a option" where
  "search_from f [] = f []"
| "search_from f (c # cs) = (case f (c # cs) of Some x \<Rightarrow> Some x | None \<Rightarrow> search_from f cs)"

definition strategy_in :: "string \<Rightarrow> string option" where
  "strategy_in body = search_from (marker_at ''<!-- strategy:'' word_char '' -->'') body"

definition retry_in :: "string \<Rightarrow> nat option" where
  "retry_in body = map_option digits_value (search_from (marker_at ''<!-- retry:'' is_digit '' -->'') body)"

text \<open>\<open>\s*\n\n(.*)\<close>: the blank run of the text must hold two line feeds in a row; what follows the last such pair.\<close>

fun after_blank_line :: "string \<Rightarrow> string option" where
  "after_blank_line [] = None"
| "after_blank_line (c # cs) =
     (case (if py_space c then after_blank_line cs else None) of
        Some r \<Rightarrow> Some r
      | None \<Rightarrow> if prefix (nl @ nl) (c # cs) then Some (drop 2 (c # cs)) else None)"

definition result_at :: "string \<Rightarrow> (nat \<times> string) option" where
  "result_at s =
     (case marker_at ''## Completed (score: '' is_digit ''/100)'' s of
        None \<Rightarrow> None
      | Some d \<Rightarrow>
          (case after_blank_line (drop (length ''## Completed (score: '' + length d + length ''/100)'') s) of
             None \<Rightarrow> None | Some r \<Rightarrow> Some (digits_value d, r)))"

definition result_in :: "string \<Rightarrow> (string \<times> nat) option" where
  "result_in body = map_option (\<lambda>(score, out). (py_strip out, score)) (search_from result_at body)"

section \<open>Helpers\<close>

definition TASK_TYPE_KEYWORDS :: "(string \<times> string list) list" where
  "TASK_TYPE_KEYWORDS = [(''code'', [''code_generation'', ''refactoring'', ''debugging'']), (''test'', [''test_generation'']),
     (''security'', [''security_audit'']), (''doc'', [''documentation'']), (''research'', [''research'', ''general'']),
     (''performance'', [''performance_optimization'']), (''data'', [''data_processing'']), (''api'', [''api_development'']),
     (''database'', [''database_operations'']), (''review'', [''code_review''])]"

definition claim_type :: "worker \<Rightarrow> (string, worker) py_dict \<Rightarrow> string \<Rightarrow> (string, worker) py_dict" where
  "claim_type a lookup t = (if dict_has lookup t then lookup else dict_set t a lookup)"

definition claim_keyword :: "worker \<Rightarrow> (string, worker) py_dict \<Rightarrow> string \<times> string list \<Rightarrow> (string, worker) py_dict" where
  "claim_keyword a lookup kw =
     (if str_contains (fst kw) (py_lower (wk_role a)) \<or> str_contains (fst kw) (py_lower (wk_title a))
      then foldl (claim_type a) lookup (snd kw) else lookup)"

definition claim_types :: "string \<Rightarrow> (string, worker) py_dict \<Rightarrow> worker \<Rightarrow> (string, worker) py_dict" where
  "claim_types me lookup a =
     (if wk_id a = me \<or> wk_status a \<noteq> ''active'' then lookup
      else foldl (claim_keyword a) lookup (sort_key (\<lambda>kw. - int (length (fst kw))) TASK_TYPE_KEYWORDS))"

definition build_agent_lookup :: "worker list \<Rightarrow> string \<Rightarrow> (string, worker) py_dict" where
  "build_agent_lookup agents me = foldl (claim_types me) [] agents"

definition normalize_subtask_title :: "string \<Rightarrow> string" where
  "normalize_subtask_title title = py_strip (py_lower title)"

definition child_title :: "string \<Rightarrow> string \<Rightarrow> string" where
  "child_title task_type parent_title = ''['' @ task_type @ ''] '' @ parent_title"

definition filter_duplicate_subtasks :: "sub_task list \<Rightarrow> child_issue list \<Rightarrow> string \<Rightarrow> sub_task list" where
  "filter_duplicate_subtasks proposed existing parent_title =
     filter (\<lambda>t. normalize_subtask_title (child_title (opt_or (t_task_type t) ''general'') parent_title)
       \<notin> (\<lambda>c. normalize_subtask_title (ci_title c)) ` set existing) proposed"

definition match_agent :: "string \<Rightarrow> (string, worker) py_dict \<Rightarrow> string option" where
  "match_agent task_type lookup =
     (case dict_get lookup task_type of
        Some a \<Rightarrow> Some (wk_id a)
      | None \<Rightarrow> map_option wk_id (dict_get lookup ''general''))"

definition find_agent_name :: "worker list \<Rightarrow> string option \<Rightarrow> string" where
  "find_agent_name agents agent_id =
     (case agent_id of
        None \<Rightarrow> ''unassigned''
      | Some i \<Rightarrow>
          if i = [] then ''unassigned''
          else (case find (\<lambda>a. wk_id a = i) agents of
                  Some a \<Rightarrow> if wk_name a \<noteq> [] then wk_name a else wk_role a
                | None \<Rightarrow> take 8 i))"

section \<open>Rebalancing\<close>

definition MAX_REBALANCE_PER_CYCLE :: nat where
  "MAX_REBALANCE_PER_CYCLE = 2"

definition BACKLOG_THRESHOLD :: nat where
  "BACKLOG_THRESHOLD = 3"

definition note_pending :: "(string, child_issue list) py_dict \<Rightarrow> child_issue \<Rightarrow> (string, child_issue list) py_dict" where
  "note_pending d c =
     (case ci_assignee c of
        None \<Rightarrow> d
      | Some a \<Rightarrow> if a \<noteq> [] \<and> ci_status c = ''todo'' then dict_set a (dict_get_or d a [] @ [c]) d else d)"

definition done_by :: "child_issue list \<Rightarrow> string \<Rightarrow> nat" where
  "done_by children a = length (filter (\<lambda>c. ci_assignee c = Some a \<and> a \<noteq> [] \<and> ci_status c = ''done'') children)"

definition pending_tasks :: "child_issue list \<Rightarrow> (string, child_issue list) py_dict" where
  "pending_tasks children = foldl note_pending [] children"

definition backlogged :: "child_issue list \<Rightarrow> (string, child_issue list) py_dict" where
  "backlogged children = filter (\<lambda>(a, ts). length ts \<ge> BACKLOG_THRESHOLD) (pending_tasks children)"

text \<open>\<open>order\<close> is the iteration order of the set of agent ids.\<close>

definition idle_agents :: "(string list \<Rightarrow> string list) \<Rightarrow> child_issue list \<Rightarrow> string list" where
  "idle_agents order children =
     filter (\<lambda>a. \<not> dict_has (pending_tasks children) a \<and> done_by children a > 0)
       (order (remdups (filter (\<lambda>a. a \<noteq> []) (List.map_filter ci_assignee children))))"

definition move_child :: "orch_api \<Rightarrow> string \<Rightarrow> child_issue \<Rightarrow> string \<Rightarrow> unit orch" where
  "move_child api from_id c target =
     and_then (call (oa_do api) (OUpdate (ci_id c) None None [(''assignee_agent_id'', target)]))
       (\<lambda>_. call (oa_do api) (OComment (ci_id c) (''<!-- rebalanced-from:'' @ from_id @ '' --> ''
          @ ''Rebalanced from overloaded agent to idle agent.'')))"

text \<open>One pass over the tasks of the backlogged agents: the remaining idle agents and the count so far. Any exception
  of the two calls is swallowed, and the target is spent all the same. The loop over the agents goes on after the
  inner \<open>break\<close>, which then breaks at once.\<close>

fun rebalance_loop :: "orch_api \<Rightarrow> (string \<times> child_issue) list \<Rightarrow> string list \<Rightarrow> nat \<Rightarrow> orch_call list \<Rightarrow> nat \<times> orch_call list" where
  "rebalance_loop api [] idles n cs = (n, cs)"
| "rebalance_loop api ((from_id, c) # ts) idles n cs =
     (if n \<ge> MAX_REBALANCE_PER_CYCLE then rebalance_loop api ts idles n cs
      else case idles of
        [] \<Rightarrow> rebalance_loop api ts [] n cs
      | target # rest \<Rightarrow>
          (case move_child api from_id c target cs of
             (Inr _, cs') \<Rightarrow> rebalance_loop api ts rest (n + 1) cs'
           | (Inl _, cs') \<Rightarrow> rebalance_loop api ts rest n cs'))"

definition rebalance_children ::
    "orch_api \<Rightarrow> (string list \<Rightarrow> string list) \<Rightarrow> child_issue list \<Rightarrow> orch_call list \<Rightarrow> nat \<times> orch_call list" where
  "rebalance_children api order children cs =
     (let b = backlogged children; idles = idle_agents order children in
      if b = [] \<or> idles = [] then (0, cs)
      else rebalance_loop api (concat (map (\<lambda>(a, ts). map (\<lambda>t. (a, t)) ts) b)) idles 0 cs)"

section \<open>Configuration\<close>

record orch_config =
  oc_max_children :: int
  oc_skip_fast :: bool
  oc_retry_failed :: bool
  oc_max_retries :: int
  oc_poll_timeout :: int
  oc_quality_threshold :: int
  oc_cost_reporting :: bool
  oc_backend :: string
  oc_model :: string

text \<open>\<open>oe_route\<close>: does the request need several specialists, the sub-tasks, the strategy. \<open>oe_workflow\<close> runs a request
  at a tier. \<open>oe_clock k\<close> is the time when the wait for children has gone round \<open>k\<close> times.\<close>

record orch_env =
  oe_config :: orch_config
  oe_api :: orch_api
  oe_self :: string
  oe_triage :: "string \<Rightarrow> string"
  oe_route :: "string \<Rightarrow> bool \<times> sub_task list \<times> string"
  oe_workflow :: "string \<Rightarrow> string \<Rightarrow> py_exn + workflow_result"
  oe_registry :: "(string \<times> adapter option) list option"
  oe_fmt1 :: "real \<Rightarrow> string"
  oe_order :: "string list \<Rightarrow> string list"
  oe_ws :: bool
  oe_clock :: "nat \<Rightarrow> real"

definition outcome :: "child_issue \<Rightarrow> string \<Rightarrow> string \<Rightarrow> int \<Rightarrow> heartbeat_result" where
  "outcome i status m code = plain_result status (JStr (ci_id i)) m code"

text \<open>An update of the issue whose API errors are only logged.\<close>

definition update_quietly :: "orch_env \<Rightarrow> string \<Rightarrow> string \<Rightarrow> string option \<Rightarrow> heartbeat_result \<Rightarrow> heartbeat_result orch" where
  "update_quietly env i status m r =
     try_api (call (oa_do (oe_api env)) (OUpdate i (Some status) m [])) (\<lambda>_. ret r) (\<lambda>_. ret r)"

definition request_of :: "child_issue \<Rightarrow> string" where
  "request_of i = (if ci_description i \<noteq> [] then ci_title i @ nl @ nl @ ci_description i else ci_title i)"

section \<open>Running a task directly\<close>

definition direct_result :: "orch_env \<Rightarrow> child_issue \<Rightarrow> workflow_result \<Rightarrow> string \<Rightarrow> string \<Rightarrow> int \<Rightarrow> heartbeat_result" where
  "direct_result env i r status m code =
     (outcome i status m code)\<lparr>hr_input_tokens := wr_input_tokens r, hr_output_tokens := wr_output_tokens r,
       hr_provider := oc_backend (oe_config env), hr_model := oc_model (oe_config env)\<rparr>"

definition run_directly :: "orch_env \<Rightarrow> child_issue \<Rightarrow> string \<Rightarrow> string \<Rightarrow> heartbeat_result orch" where
  "run_directly env i req tier =
     (case oe_workflow env req tier of
        Inl e \<Rightarrow> ret (outcome i ''failed'' (''Workflow error: '' @ exn_message e) 1)
      | Inr r \<Rightarrow>
          let qs = opt_or (clarification_questions (wr_state r)) [] in
          if opt_or (clarification_needed (wr_state r)) False \<and> qs \<noteq> []
          then update_quietly env (ci_id i) ''blocked'' (Some (format_clarification_comment qs))
            ((direct_result env i r ''clarification_needed'' (''Agent needs clarification ('' @ str_nat (length qs) @ '' questions)'') 0)
               \<lparr>hr_questions := qs\<rparr>)
          else
            let out = final_output_of r; score = final_score_of r; threshold = oc_quality_threshold (oe_config env);
                ok = (score \<ge> threshold);
                result = direct_result env i r (if ok then ''success'' else ''blocked'')
                  (if out \<noteq> [] then take 500 out else ''No output'') 0;
                report = (if oc_cost_reporting (oe_config env)
                  then try_api (call (oa_do (oe_api env)) (OCost (ci_id i) 0)) (\<lambda>_. ret result) (\<lambda>_. ret result)
                  else ret result)
            in try_api (call (oa_do (oe_api env)) (OUpdate (ci_id i) (Some (if ok then ''done'' else ''blocked''))
                   (Some (if ok then format_success_comment out score else format_blocked_comment out score threshold)) []))
                 (\<lambda>_. report) (\<lambda>_. report))"

section \<open>Decomposition\<close>

text \<open>One child; an API error is logged and the child skipped.\<close>

definition create_child ::
    "orch_env \<Rightarrow> child_issue \<Rightarrow> string \<Rightarrow> (string, worker) py_dict \<Rightarrow> sub_task \<Rightarrow> (string \<times> string \<times> string option) list orch" where
  "create_child env i tier lookup t =
     (let task_type = opt_or (t_task_type t) ''general''; assignee = match_agent task_type lookup in
      try_api (call (oa_create (oe_api env)) (OCreate (take 200 (child_title task_type (ci_title i)))
          (''<!-- complexity:'' @ tier @ '' -->'' @ nl @ opt_or (t_specification t) []) (ci_id i) (ci_goal i) assignee))
        (\<lambda>_. ret []) (\<lambda>new_id. ret [(new_id, task_type, assignee)]))"

definition plan_comment :: "worker list \<Rightarrow> string \<Rightarrow> string \<Rightarrow> (string \<times> string \<times> string option) list \<Rightarrow> string" where
  "plan_comment agents strategy tier created =
     join_with nl ([''<!-- orchestrator:plan -->'', ''<!-- strategy:'' @ strategy @ '' -->'', ''## Orchestrator Plan'', [],
       ''Decomposed into '' @ str_nat (length created) @ '' subtasks:'', []]
       @ map (\<lambda>(new_id, t, a). ''- **'' @ t @ ''** -> '' @ find_agent_name agents a @ '' ('' @ new_id @ '') [tier: '' @ tier @ '']'') created)"

definition announce_plan ::
    "orch_env \<Rightarrow> child_issue \<Rightarrow> worker list \<Rightarrow> string \<Rightarrow> string \<Rightarrow> (string \<times> string \<times> string option) list \<Rightarrow> heartbeat_result orch" where
  "announce_plan env i agents strategy tier created =
     (if created = [] then ret (outcome i ''failed'' ''Failed to create any subtasks'' 1)
      else
        let finish = update_quietly env (ci_id i) ''in_progress'' None
          (outcome i ''success'' (''Decomposed into '' @ str_nat (length created) @ '' subtasks'') 0)
        in try_api (call (oa_do (oe_api env)) (OComment (ci_id i) (plan_comment agents strategy tier created)))
             (\<lambda>_. finish) (\<lambda>_. finish))"

definition delegate :: "orch_env \<Rightarrow> child_issue \<Rightarrow> string \<Rightarrow> string \<Rightarrow> sub_task list \<Rightarrow> heartbeat_result orch" where
  "delegate env i tier strategy tasks =
     try_api (call (oa_agents (oe_api env)) OAgents)
       (\<lambda>e. ret (outcome i ''failed'' (''Agent discovery failed: '' @ exn_message e) 1))
       (\<lambda>agents. and_then (each (create_child env i tier (build_agent_lookup agents (oe_self env))) tasks)
          (\<lambda>created. announce_plan env i agents strategy tier (concat created)))"

definition decompose_and_delegate :: "orch_env \<Rightarrow> child_issue \<Rightarrow> string option \<Rightarrow> heartbeat_result orch" where
  "decompose_and_delegate env i reply =
     (let req = request_of i @ (case reply of Some r \<Rightarrow> if r \<noteq> [] then nl @ nl @ ''[Clarification from human]: '' @ r else [] | None \<Rightarrow> []);
          tier = oe_triage env req
      in if tier = ''fast'' \<and> oc_skip_fast (oe_config env) then run_directly env i req ''fast''
         else case oe_route env req of (several, tasks, strategy) \<Rightarrow>
           if \<not> several then run_directly env i req tier
           else if tasks = [] then run_directly env i req []
           else
             let tasks = py_take (oc_max_children (oe_config env)) tasks;
                 go = (\<lambda>existing.
                   if existing = [] then delegate env i tier strategy tasks
                   else
                     let fresh = filter_duplicate_subtasks tasks existing (ci_title i) in
                     if fresh = [] then ret (outcome i ''success'' ''All subtasks already exist (dedup)'' 0)
                     else delegate env i tier strategy fresh)
             in try_api (call (oa_children (oe_api env)) (OChildren (ci_id i))) (\<lambda>_. go []) go)"

section \<open>Aggregation\<close>

definition extract_strategy :: "orch_env \<Rightarrow> child_issue \<Rightarrow> string orch" where
  "extract_strategy env i =
     try_api (call (oa_comments (oe_api env)) (OComments (ci_id i))) (\<lambda>_. ret ''merge'')
       (\<lambda>bodies. ret (case List.map_filter strategy_in bodies of [] \<Rightarrow> ''merge'' | s # _ \<Rightarrow> s))"

definition extract_task_type :: "string \<Rightarrow> string" where
  "extract_task_type title = (case marker_at ''['' word_char '']'' title of Some t \<Rightarrow> t | None \<Rightarrow> ''general'')"

definition extract_child_result :: "orch_env \<Rightarrow> child_issue \<Rightarrow> (string \<times> nat) orch" where
  "extract_child_result env c =
     try_api (call (oa_comments (oe_api env)) (OComments (ci_id c))) (\<lambda>_. ret ([], 0))
       (\<lambda>bodies. ret (case List.map_filter result_in (rev bodies) of [] \<Rightarrow> ([], 0) | r # _ \<Rightarrow> r))"

definition completed_task :: "child_issue \<Rightarrow> string \<times> nat \<Rightarrow> sub_task list" where
  "completed_task c r =
     (let t = extract_task_type (ci_title c) in
      if fst r = [] then []
      else [\<lparr>t_task_type = Some t, t_specialist_adapter = Some t, t_specification = Some (ci_description c), t_output = Some (fst r),
        t_spec_score = None, t_output_score = Some (int (snd r)), t_output_feedback = None, t_iteration_count = None,
        t_max_iterations = None, t_status = Some ''completed'',
      t_id = None, t_parent_specification = None, t_sibling_tasks = None, t_tool_calls = None, t_spec_feedback = None\<rparr>])"

definition collect :: "orch_env \<Rightarrow> child_issue \<Rightarrow> sub_task list orch" where
  "collect env c = and_then (extract_child_result env c) (\<lambda>r. ret (completed_task c r))"

definition combine :: "orch_env \<Rightarrow> child_issue \<Rightarrow> string \<Rightarrow> sub_task list \<Rightarrow> aggregation" where
  "combine env i strategy tasks =
     aggregate (oe_fmt1 env) (oe_registry env) tasks strategy (request_of i) (request_of i) []"

text \<open>The last call of an aggregation: \<open>done\<close> with the result, or a failed heartbeat.\<close>

definition post_done :: "orch_env \<Rightarrow> child_issue \<Rightarrow> string \<Rightarrow> string \<Rightarrow> heartbeat_result orch" where
  "post_done env i m summary =
     try_api (call (oa_do (oe_api env)) (OUpdate (ci_id i) (Some ''done'') (Some m) []))
       (\<lambda>e. ret (outcome i ''failed'' (''Failed to post result: '' @ exn_message e) 1))
       (\<lambda>_. ret (outcome i ''success'' summary 0))"

definition aggregate_and_present :: "orch_env \<Rightarrow> child_issue \<Rightarrow> child_issue list \<Rightarrow> heartbeat_result orch" where
  "aggregate_and_present env i children =
     (if ci_status i = ''done'' then ret (outcome i ''success'' ''Already aggregated (idempotent skip)'' 0)
      else and_then (extract_strategy env i) (\<lambda>strategy.
        and_then (each (collect env) children) (\<lambda>found.
          let tasks = concat found; g = combine env i strategy tasks in
          if tasks = [] then update_quietly env (ci_id i) ''blocked'' (Some (''## Orchestrator: No outputs to aggregate'' @ nl @ nl
              @ ''All children completed but no result comments found.''))
            (outcome i ''blocked'' ''No child outputs to aggregate'' 1)
          else post_done env i (''## Combined Result ('' @ str_nat (length tasks) @ '' specialists, avg score: ''
              @ str_int (gr_score g) @ ''/100)'' @ nl @ nl @ gr_output g)
            (if gr_output g \<noteq> [] then take 500 (gr_output g) else ''Aggregation complete''))))"

definition failed_names :: "child_issue list \<Rightarrow> string" where
  "failed_names failed = join_with '', '' (map (\<lambda>c. take 50 (ci_title c)) failed)"

definition failed_line :: "child_issue \<Rightarrow> string" where
  "failed_line c = ''- **'' @ extract_task_type (ci_title c) @ ''**: '' @ take 80 (ci_title c) @ '' ('' @ ci_id c @ '')''"

definition partial_comment :: "aggregation \<Rightarrow> nat \<Rightarrow> nat \<Rightarrow> child_issue list \<Rightarrow> string" where
  "partial_comment g got all failed =
     ''## Partial Result ('' @ str_nat got @ ''/'' @ str_nat all @ '' specialists, avg score: '' @ str_int (gr_score g) @ ''/100)''
     @ nl @ nl @ gr_output g @ nl @ nl @ ''---'' @ nl @ nl
     @ ''### Failed Subtasks ('' @ str_nat (length failed) @ '')'' @ nl @ nl
     @ ''The following subtasks failed after retry and are not included above:'' @ nl @ nl
     @ join_with nl (map failed_line failed) @ nl @ nl @ ''**Review the failed subtasks manually.**''"

definition aggregate_with_partial_failures ::
    "orch_env \<Rightarrow> child_issue \<Rightarrow> child_issue list \<Rightarrow> child_issue list \<Rightarrow> heartbeat_result orch" where
  "aggregate_with_partial_failures env i children failed =
     (let succeeded = filter (\<lambda>c. ci_status c = ''done'' \<and> ci_id c \<notin> ci_id ` set failed) children in
      and_then (extract_strategy env i) (\<lambda>strategy.
        and_then (each (collect env) succeeded) (\<lambda>found.
          let tasks = concat found; g = combine env i strategy tasks in
          if tasks = [] then update_quietly env (ci_id i) ''blocked'' (Some (''## Orchestrator: Blocked'' @ nl @ nl
              @ str_nat (length failed) @ '' subtask(s) failed, and '' @ str_nat (length succeeded)
              @ '' completed subtask(s) had no extractable output.'' @ nl
              @ ''- Failed: '' @ failed_names failed @ nl @ nl @ ''**Needs human review.**''))
            (outcome i ''blocked'' ''All outputs missing or failed'' 1)
          else post_done env i (partial_comment g (length tasks) (length children) failed)
            (''Partial: '' @ str_nat (length tasks) @ ''/'' @ str_nat (length children) @ '' specialists (''
              @ str_nat (length failed) @ '' failed)''))))"

section \<open>Polling\<close>

definition count_retries :: "string list \<Rightarrow> nat" where
  "count_retries bodies = foldl (\<lambda>n b. case retry_in b of None \<Rightarrow> n | Some k \<Rightarrow> max n k) 0 bodies"

definition retry_marker :: "nat \<Rightarrow> string" where
  "retry_marker n = ''<!-- retry:'' @ str_nat n @ '' --> Orchestrator auto-retry: resetting to todo''"

definition maybe_retry_child :: "orch_env \<Rightarrow> child_issue \<Rightarrow> bool orch" where
  "maybe_retry_child env c =
     (let api = oe_api env in
      try_api (call (oa_comments api) (OComments (ci_id c))) (\<lambda>_. ret True)
        (\<lambda>bodies. let n = count_retries bodies in
           if int n \<ge> oc_max_retries (oe_config env) then ret False
           else try_api (call (oa_do api) (OUpdate (ci_id c) (Some ''todo'') None [])) (\<lambda>_. ret False)
             (\<lambda>_. try_api (call (oa_do api) (OComment (ci_id c) (retry_marker (n + 1)))) (\<lambda>_. ret True) (\<lambda>_. ret True))))"

datatype child_verdict = ChildDone | ChildPending | ChildFailed

definition judge_child :: "orch_env \<Rightarrow> child_issue \<Rightarrow> child_verdict orch" where
  "judge_child env c =
     (if ci_status c = ''done'' then ret ChildDone
      else if ci_status c = ''blocked'' then
        (if oc_retry_failed (oe_config env)
         then and_then (maybe_retry_child env c) (\<lambda>again. ret (if again then ChildPending else ChildFailed))
         else ret ChildFailed)
      else ret ChildPending)"

definition with_verdict :: "child_verdict \<Rightarrow> child_issue list \<Rightarrow> child_verdict list \<Rightarrow> child_issue list" where
  "with_verdict v children vs = map fst (filter (\<lambda>p. snd p = v) (zip children vs))"

definition block_parent :: "orch_env \<Rightarrow> child_issue \<Rightarrow> child_issue list \<Rightarrow> heartbeat_result orch" where
  "block_parent env i failed =
     update_quietly env (ci_id i) ''blocked'' (Some (''## Orchestrator: Blocked'' @ nl @ nl
         @ str_nat (length failed) @ '' subtask(s) failed after retry:'' @ nl
         @ ''- '' @ failed_names failed @ nl @ nl @ ''**Needs human review.**''))
       (outcome i ''blocked'' (str_nat (length failed) @ '' subtasks failed after retry'') 1)"

definition settle_failures :: "orch_env \<Rightarrow> child_issue \<Rightarrow> child_issue list \<Rightarrow> child_issue list \<Rightarrow> nat \<Rightarrow> heartbeat_result orch" where
  "settle_failures env i children failed done_count =
     (if done_count > 0 then aggregate_with_partial_failures env i children failed else block_parent env i failed)"

datatype orch_phase = Decompose | Poll | Aggregate

definition detect_phase :: "child_issue list \<Rightarrow> orch_phase" where
  "detect_phase children =
     (if children = [] then Decompose
      else if list_all (\<lambda>c. ci_status c = ''done'') children then Aggregate else Poll)"

text \<open>The wait for events of the children, at most \<open>fuel\<close> rounds: \<open>None\<close> for no decision until the deadline; out of
  fuel is the exception of the model. An API error of the refresh starts the next round.\<close>

definition out_of_fuel :: py_exn where
  "out_of_fuel = OtherError ''OutOfFuel'' []"

fun ws_loop :: "orch_env \<Rightarrow> child_issue \<Rightarrow> real \<Rightarrow> nat \<Rightarrow> nat \<Rightarrow> heartbeat_result option orch" where
  "ws_loop env i deadline 0 k = (\<lambda>cs. (Inl out_of_fuel, cs))"
| "ws_loop env i deadline (Suc fuel) k =
     (if oe_clock env k \<ge> deadline then ret None
      else try_api (call (oa_children (oe_api env)) (OChildren (ci_id i)))
        (\<lambda>_. ws_loop env i deadline fuel (Suc k))
        (\<lambda>children.
          if detect_phase children = Aggregate
          then and_then (aggregate_and_present env i children) (\<lambda>r. ret (Some r))
          else and_then (each (judge_child env) children) (\<lambda>vs.
            let failed = with_verdict ChildFailed children vs in
            if failed \<noteq> []
            then and_then (settle_failures env i children failed (length (with_verdict ChildDone children vs))) (\<lambda>r. ret (Some r))
            else if list_all (\<lambda>c. ci_status c = ''done'') children
            then and_then (aggregate_and_present env i children) (\<lambda>r. ret (Some r))
            else ws_loop env i deadline fuel (Suc k))))"

definition ws_wait_for_children :: "orch_env \<Rightarrow> nat \<Rightarrow> child_issue \<Rightarrow> child_issue list \<Rightarrow> heartbeat_result option orch" where
  "ws_wait_for_children env fuel i children =
     (if list_all (\<lambda>c. ci_status c = ''done'') children then ret None
      else ws_loop env i (oe_clock env 0 + of_int (oc_poll_timeout (oe_config env))) fuel 0)"

text \<open>\<open>OSError\<close> and its subclasses, which those of the requests library are.\<close>

fun is_os_error :: "py_exn \<Rightarrow> bool" where
  "is_os_error (OSError _) = True"
| "is_os_error (ConnectionError _) = True"
| "is_os_error (TimeoutError _) = True"
| "is_os_error (FileExistsError _) = True"
| "is_os_error (OtherError c _) = (c \<in> {''RequestException'', ''HTTPError'', ''JSONDecodeError''})"
| "is_os_error _ = False"

definition try_rebalance :: "orch_env \<Rightarrow> child_issue list \<Rightarrow> unit orch" where
  "try_rebalance env children cs =
     (case call (oa_agents (oe_api env)) OAgents cs of
        (Inl e, cs') \<Rightarrow> if is_api_error e \<or> is_os_error e then (Inr (), cs') else (Inl e, cs')
      | (Inr agents, cs') \<Rightarrow>
          if agents = [] then (Inr (), cs')
          else (Inr (), snd (rebalance_children (oe_api env) (oe_order env) children cs')))"

definition poll_children :: "orch_env \<Rightarrow> nat \<Rightarrow> child_issue \<Rightarrow> child_issue list \<Rightarrow> heartbeat_result orch" where
  "poll_children env fuel i children =
     and_then (each (judge_child env) children) (\<lambda>vs.
       let finished = length (with_verdict ChildDone children vs);
           pending = length (with_verdict ChildPending children vs);
           failed = with_verdict ChildFailed children vs;
           waiting = (outcome i ''idle'' (''Waiting: '' @ str_nat finished @ ''/'' @ str_nat (length children) @ '' subtasks done'') 0)
             \<lparr>hr_retry_after := Some 30\<rparr>
       in and_then (if pending > 0 \<and> finished > 0 then try_rebalance env children else ret ())
         (\<lambda>_. if failed \<noteq> [] then settle_failures env i children failed finished
            else if oe_ws env \<and> pending > 0
            then and_then (ws_wait_for_children env fuel i children)
              (\<lambda>r. case r of Some x \<Rightarrow> ret x | None \<Rightarrow> ret waiting)
            else ret waiting))"

definition run_orchestrator_heartbeat :: "orch_env \<Rightarrow> nat \<Rightarrow> child_issue \<Rightarrow> string option \<Rightarrow> heartbeat_result orch" where
  "run_orchestrator_heartbeat env fuel i reply =
     try_api (call (oa_children (oe_api env)) (OChildren (ci_id i)))
       (\<lambda>e. ret (outcome i ''failed'' (''Failed to fetch children: '' @ exn_message e) 1))
       (\<lambda>children. case detect_phase children of
          Decompose \<Rightarrow> decompose_and_delegate env i reply
        | Aggregate \<Rightarrow> aggregate_and_present env i children
        | Poll \<Rightarrow> poll_children env fuel i children)"

end
