(* ===== verification/Heartbeat.thy ===== *)
theory Heartbeat
  imports Orchestrator Spending Decisions
begin

text \<open>
  One heartbeat of an agent (\<^verbatim>\<open>agents/heartbeat.py\<close>): configuration, the spending breaker, waiting
  for the server, choosing and checking out an issue, running the workflow on it, posting the
  outcome, reporting the cost, releasing the issue. Every call of the control plane is logged in the
  order it is made; the server is a function of the calls so far. The heartbeat of an orchestrator is that of
  \<open>Orchestrator\<close>, its calls part of the log. The workflow run and the clock are arguments. Only counters of the metrics are modelled, not durations.
\<close>

section \<open>Waiting for the server\<close>

text \<open>The loop of \<open>_wait_for_server\<close> with at most \<open>fuel\<close> probes: the k-th probe answers \<open>ok k\<close> after
  \<open>took k\<close> seconds. The result is the answer, the number of pauses and the time.\<close>

fun wait_loop ::
    "(nat \<Rightarrow> bool) \<Rightarrow> (nat \<Rightarrow> real) \<Rightarrow> real \<Rightarrow> real \<Rightarrow> nat \<Rightarrow> nat \<Rightarrow> real \<Rightarrow> real \<Rightarrow> (bool \<times> nat \<times> real) option" where
  "wait_loop ok took deadline max_delay 0 k now delay = None"
| "wait_loop ok took deadline max_delay (Suc fuel) k now delay =
     (if \<not> now < deadline then Some (False, k, now)
      else
        let now1 = now + took k in
        if ok k then Some (True, k, now1)
        else if deadline - now1 \<le> 0 then Some (False, k, now1)
        else wait_loop ok took deadline max_delay fuel (Suc k) (now1 + min delay (deadline - now1))
               (min (delay * 2) max_delay))"

definition wait_for_server :: "(nat \<Rightarrow> bool) \<Rightarrow> (nat \<Rightarrow> real) \<Rightarrow> nat \<Rightarrow> (bool \<times> nat \<times> real) option" where
  "wait_for_server ok took fuel = wait_loop ok took 120 15 fuel 0 0 1"

section \<open>The world of a heartbeat\<close>

datatype api_call =
    CIdentity
  | CRegister
  | CAssignments
  | CCheckout json
  | CUpdate json string "string option" \<comment> \<open>issue, status, comment\<close>
  | CRelease json
  | CGetIssue json
  | CGetComments json
  | CComment json string
  | CCreateIssue string string
  | CCost json int
  | COrchestrate orch_call \<comment> \<open>a call of the orchestrator\<close>
  | CWsStart
  | CWsStop
  | CStopPoller
  | CPersist string
  | CMessages
  | CCache

text \<open>The server: \<open>pa_do\<close> answers the calls whose result is not used.\<close>

record paperclip_api =
  pa_identity :: "api_call list \<Rightarrow> py_exn + agent_info"
  pa_register :: "api_call list \<Rightarrow> py_exn + string option"
  pa_assignments :: "api_call list \<Rightarrow> py_exn + issue list"
  pa_checkout :: "api_call list \<Rightarrow> py_exn + bool"
  pa_issue :: "api_call list \<Rightarrow> py_exn + issue"
  pa_comments :: "api_call list \<Rightarrow> py_exn + issue_comment list"
  pa_do :: "api_call list \<Rightarrow> py_exn + unit"

record workflow_args =
  wa_request :: string
  wa_task_type :: string
  wa_complexity :: string
  wa_reply :: "string option"
  wa_role :: json
  wa_title :: json
  wa_agent_id :: json
  wa_task_id :: json
  wa_instructions :: string

datatype workflow_end =
    Completed workflow_result
  | Cancelled string
  | Sigterm
  | BillingExhausted string int string \<comment> \<open>provider, HTTP status, detail\<close>
  | Crashed string

text \<open>A run: the nodes that finished, with their states, how it ended, what the interrupt handler sees of
  it, and its duration.\<close>

record workflow_run =
  wn_nodes :: "(string \<times> agent_state) list"
  wn_end :: workflow_end
  wn_partial :: agent_state
  wn_partial_node :: "string option"
  wn_duration :: real

record heartbeat_env =
  he_getenv :: "string \<Rightarrow> string"
  he_config :: heartbeat_config
  he_api :: paperclip_api
  he_client_ok :: "py_exn option" \<comment> \<open>the error of building the client\<close>
  he_probe_client_ok :: bool
  he_server_ok :: "nat \<Rightarrow> bool"
  he_server_took :: "nat \<Rightarrow> real"
  he_ws :: bool
  he_spend :: "spend_config option"
  he_check :: "bool \<times> int" \<comment> \<open>database works, time of the breaker check\<close>
  he_record :: "db_fault \<times> (int \<times> int \<times> int)"
  he_lock_time :: int
  he_new_run_id :: string
  he_repr :: "json \<Rightarrow> string"
  he_wakeup :: string
  he_instructions :: string
  he_workflow :: "workflow_args \<Rightarrow> workflow_run"
  he_orchestrator :: orch_env
  he_orch_fuel :: nat \<comment> \<open>rounds granted to the orchestrator\<close>

record heartbeat_world =
  hb_calls :: "api_call list"
  hb_counters :: "(string \<times> string) list" \<comment> \<open>metric and label, one per increment\<close>
  hb_ledger :: ledger
  hb_run_id :: string
  hb_identity :: agent_info

definition log_call :: "api_call \<Rightarrow> heartbeat_world \<Rightarrow> heartbeat_world" where
  "log_call c w = w\<lparr>hb_calls := hb_calls w @ [c]\<rparr>"

definition counted :: "string \<Rightarrow> string \<Rightarrow> heartbeat_world \<Rightarrow> heartbeat_world" where
  "counted name label w = w\<lparr>hb_counters := hb_counters w @ [(name, label)]\<rparr>"

text \<open>\<open>try: client.op(...) except PaperclipAPIError: log\<close>: whether the call succeeded.\<close>

definition attempt :: "paperclip_api \<Rightarrow> api_call \<Rightarrow> heartbeat_world \<Rightarrow> (py_exn + bool) \<times> heartbeat_world" where
  "attempt api c w =
     (let w1 = log_call c w in
      (case pa_do api (hb_calls w1) of
         Inr _ \<Rightarrow> Inr True
       | Inl e \<Rightarrow> if is_api_error e then Inr False else Inl e, w1))"

definition finish :: "heartbeat_result \<Rightarrow> heartbeat_world \<Rightarrow> heartbeat_world" where
  "finish r w =
     w\<lparr>hb_counters := hb_counters w @ [(''vibe_heartbeat_total'', hr_status r)]
        @ (if hr_input_tokens r \<noteq> 0 then [(''vibe_heartbeat_tokens_total'', ''input'')] else [])
        @ (if hr_output_tokens r \<noteq> 0 then [(''vibe_heartbeat_tokens_total'', ''output'')] else [])\<rparr>"

definition finished :: "heartbeat_result \<Rightarrow> heartbeat_world \<Rightarrow> (py_exn + heartbeat_result) \<times> heartbeat_world" where
  "finished r w = (Inr r, finish r w)"

section \<open>Spending\<close>

definition blank_event :: "string \<Rightarrow> cost_event" where
  "blank_event status = \<lparr>ce_id = 0, ce_timestamp = 0, ce_agent_id = [], ce_agent_name = [], ce_run_id = [],
     ce_issue_id = [], ce_provider = [], ce_model = [], ce_input_tokens = 0, ce_output_tokens = 0, ce_cost_cents = 0,
     ce_status = status, ce_tokens_per_second = 0, ce_generation_ms = 0\<rparr>"

definition spend_event :: "heartbeat_env \<Rightarrow> cost_event \<Rightarrow> heartbeat_world \<Rightarrow> heartbeat_world" where
  "spend_event env e w =
     (case he_spend env of
        None \<Rightarrow> w
      | Some cfg \<Rightarrow> w\<lparr>hb_ledger := record_event cfg (fst (he_record env)) (snd (he_record env)) e (hb_ledger w)\<rparr>)"

definition run_event ::
    "heartbeat_env \<Rightarrow> string \<Rightarrow> json \<Rightarrow> workflow_result \<Rightarrow> int \<Rightarrow> real \<Rightarrow> heartbeat_world \<Rightarrow> cost_event" where
  "run_event env status issue_id r cost duration w =
     (blank_event status)\<lparr>ce_cost_cents := cost, ce_agent_id := he_getenv env ''PAPERCLIP_AGENT_ID'',
       ce_agent_name := json_text (he_repr env) (ag_name (hb_identity w)), ce_run_id := hb_run_id w, ce_issue_id := json_text (he_repr env) issue_id,
       ce_provider := hc_backend (he_config env), ce_model := hc_model_name (he_config env),
       ce_input_tokens := wr_input_tokens r, ce_output_tokens := wr_output_tokens r,
       ce_tokens_per_second :=
         (if duration > 0 \<and> wr_output_tokens r > 0
          then of_int (py_round (of_int (wr_output_tokens r) / duration * 100)) / 100 else 0),
       ce_generation_ms := \<lfloor>duration * 1000\<rfloor>\<rparr>"

section \<open>Running the workflow\<close>

text \<open>The progress comments; an exception other than an API error ends the run.\<close>

fun post_progress ::
    "paperclip_api \<Rightarrow> json \<Rightarrow> (string \<times> agent_state) list \<Rightarrow> heartbeat_world \<Rightarrow> py_exn option \<times> heartbeat_world" where
  "post_progress api i [] w = (None, w)"
| "post_progress api i ((node, s) # ns) w =
     (case progress_comment node s of
        None \<Rightarrow> post_progress api i ns w
      | Some c \<Rightarrow>
          (case attempt api (CComment i c) w of
             (Inl e, w1) \<Rightarrow> (Some e, w1)
           | (Inr _, w1) \<Rightarrow> post_progress api i ns w1))"

definition workflow_outcome ::
    "heartbeat_env \<Rightarrow> json \<Rightarrow> workflow_run \<Rightarrow> heartbeat_world \<Rightarrow> workflow_end \<times> heartbeat_world" where
  "workflow_outcome env i run w =
     (case post_progress (he_api env) i (wn_nodes run) w of
        (Some e, w1) \<Rightarrow> (Crashed (exn_message e), w1)
      | (None, w1) \<Rightarrow> (wn_end run, w1))"

text \<open>\<open>_post_failure\<close> and the like, and then the result unless the call raised a foreign exception.\<close>

definition posted ::
    "heartbeat_env \<Rightarrow> api_call \<Rightarrow> (heartbeat_world \<Rightarrow> (py_exn + heartbeat_result) \<times> heartbeat_world) \<Rightarrow> heartbeat_world
      \<Rightarrow> (py_exn + heartbeat_result) \<times> heartbeat_world" where
  "posted env c k w = (case attempt (he_api env) c w of (Inl e, w1) \<Rightarrow> (Inl e, w1) | (Inr _, w1) \<Rightarrow> k w1)"

text \<open>The counter of an endpoint; failures of the last two are only logged.\<close>

definition counted_call :: "api_call \<Rightarrow> bool \<Rightarrow> heartbeat_world \<Rightarrow> heartbeat_world" where
  "counted_call c ok w =
     (case c of
        CUpdate _ _ _ \<Rightarrow> counted (if ok then ''vibe_paperclip_api_calls_total'' else ''vibe_paperclip_api_errors_total'')
          ''update_issue'' w
      | CCost _ _ \<Rightarrow> counted (if ok then ''vibe_paperclip_api_calls_total'' else ''vibe_paperclip_api_errors_total'')
          ''report_cost'' w
      | CCreateIssue _ _ \<Rightarrow> if ok then counted ''vibe_paperclip_api_calls_total'' ''create_issue'' w else w
      | CComment _ _ \<Rightarrow> if ok then counted ''vibe_paperclip_api_calls_total'' ''add_comment'' w else w
      | _ \<Rightarrow> w)"

text \<open>A call whose outcome is counted, then the rest.\<close>

definition tracked ::
    "heartbeat_env \<Rightarrow> api_call \<Rightarrow> (heartbeat_world \<Rightarrow> (py_exn + heartbeat_result) \<times> heartbeat_world) \<Rightarrow> heartbeat_world
      \<Rightarrow> (py_exn + heartbeat_result) \<times> heartbeat_world" where
  "tracked env c k w =
     (case attempt (he_api env) c w of (Inl e, w1) \<Rightarrow> (Inl e, w1) | (Inr ok, w1) \<Rightarrow> k (counted_call c ok w1))"

section \<open>After a completed workflow\<close>

definition run_cost :: "heartbeat_env \<Rightarrow> workflow_result \<Rightarrow> int" where
  "run_cost env r =
     estimate_cost_cents (hc_backend (he_config env)) (hc_model_name (he_config env)) (wr_input_tokens r) (wr_output_tokens r)"

definition run_result :: "heartbeat_env \<Rightarrow> json \<Rightarrow> workflow_result \<Rightarrow> string \<Rightarrow> int \<Rightarrow> heartbeat_result" where
  "run_result env i r status cost =
     \<lparr>hr_status = status, hr_issue_id = i,
      hr_summary = (if final_output_of r = [] then ''No output produced'' else take 500 (final_output_of r)),
      hr_input_tokens = wr_input_tokens r, hr_output_tokens = wr_output_tokens r, hr_cost_cents = cost,
      hr_provider = hc_backend (he_config env), hr_model = hc_model_name (he_config env),
      hr_exit_code = (if status = ''success'' then 0 else 1), hr_questions = [], hr_retry_after = None\<rparr>"

text \<open>Steps 10 and 10b.\<close>

definition record_run ::
    "heartbeat_env \<Rightarrow> json \<Rightarrow> workflow_result \<Rightarrow> string \<Rightarrow> real \<Rightarrow> heartbeat_world
      \<Rightarrow> (py_exn + heartbeat_result) \<times> heartbeat_world" where
  "record_run env i r status duration w =
     (let cost = run_cost env r in
      (Inr (run_result env i r status cost), spend_event env (run_event env status i r cost duration w) w))"

definition report_run ::
    "heartbeat_env \<Rightarrow> json \<Rightarrow> workflow_result \<Rightarrow> string \<Rightarrow> real \<Rightarrow> heartbeat_world
      \<Rightarrow> (py_exn + heartbeat_result) \<times> heartbeat_world" where
  "report_run env i r status duration w =
     (if hc_cost_reporting (he_config env)
      then tracked env (CCost i (run_cost env r)) (record_run env i r status duration) w
      else record_run env i r status duration w)"

text \<open>Step 9b.\<close>

definition post_upgrade ::
    "heartbeat_env \<Rightarrow> json \<Rightarrow> workflow_result \<Rightarrow> string \<Rightarrow> real \<Rightarrow> heartbeat_world
      \<Rightarrow> (py_exn + heartbeat_result) \<times> heartbeat_world" where
  "post_upgrade env i r status duration w =
     (case wr_upgrade r of
        None \<Rightarrow> report_run env i r status duration w
      | Some (description, branch, commit) \<Rightarrow>
          tracked env (CCreateIssue (''Self-Upgrade: '' @ take 80 description)
              (format_upgrade_issue_body description branch commit (json_text (he_repr env) i)))
            (tracked env (CComment i (format_upgrade_comment description branch commit))
              (report_run env i r status duration)) w)"

text \<open>Step 9.\<close>

definition post_results ::
    "heartbeat_env \<Rightarrow> json \<Rightarrow> workflow_result \<Rightarrow> real \<Rightarrow> heartbeat_world \<Rightarrow> (py_exn + heartbeat_result) \<times> heartbeat_world" where
  "post_results env i r duration w =
     (let output = final_output_of r; score = final_score_of r; threshold = hc_quality_threshold (he_config env) in
      if score \<ge> threshold
      then tracked env (CUpdate i ''done'' (Some (format_success_comment output score)))
             (post_upgrade env i r ''success'' duration) w
      else tracked env (CUpdate i ''blocked'' (Some (format_blocked_comment output score threshold)))
             (post_upgrade env i r ''blocked'' duration) w)"

text \<open>Step 8, else step 9.\<close>

definition after_workflow ::
    "heartbeat_env \<Rightarrow> json \<Rightarrow> workflow_result \<Rightarrow> real \<Rightarrow> heartbeat_world \<Rightarrow> (py_exn + heartbeat_result) \<times> heartbeat_world" where
  "after_workflow env i r duration w =
     (let qs = opt_or (clarification_questions (wr_state r)) [] in
      if opt_or (clarification_needed (wr_state r)) False \<and> qs \<noteq> []
      then tracked env (CUpdate i ''blocked'' (Some (format_clarification_comment qs)))
        (\<lambda>w1. (Inr ((run_result env i r ''clarification_needed'' 0)
            \<lparr>hr_summary := ''Agent needs clarification ('' @ str_nat (length qs) @ '' questions)'',
             hr_exit_code := 0, hr_questions := qs\<rparr>), w1)) w
      else post_results env i r duration w)"

section \<open>A checked-out task\<close>

text \<open>The \<open>finally\<close> of the workflow step.\<close>

definition stop_monitors ::
    "(py_exn + heartbeat_result) \<times> heartbeat_world \<Rightarrow> (py_exn + heartbeat_result) \<times> heartbeat_world" where
  "stop_monitors rw = (fst rw, log_call CStopPoller (snd rw))"

text \<open>The exception handlers of the workflow step. The handler of an exhausted subscription calls
  \<open>_finish\<close>, which is a local function of \<open>run_heartbeat\<close>: the name is undefined here.\<close>

definition handle_end ::
    "heartbeat_env \<Rightarrow> json \<Rightarrow> workflow_run \<Rightarrow> workflow_end \<Rightarrow> heartbeat_world
      \<Rightarrow> (py_exn + heartbeat_result) \<times> heartbeat_world" where
  "handle_end env i run e w =
     (case e of
        Completed r \<Rightarrow> after_workflow env i r (wn_duration run) (log_call CStopPoller w)
      | Cancelled reason \<Rightarrow>
          stop_monitors (posted env (CComment i cancelled_comment)
            (\<lambda>w1. (Inr (plain_result ''cancelled'' i (''Cancelled: '' @ reason) 0), w1))
            (counted ''vibe_heartbeat_total'' ''cancelled'' w))
      | Sigterm \<Rightarrow>
          stop_monitors (posted env (CUpdate i ''blocked'' (Some (sigterm_comment (wn_partial run) (wn_partial_node run))))
            (\<lambda>w1. (Inr (plain_result ''blocked'' i ''Interrupted by SIGTERM - partial results posted'' 0),
                   log_call (CPersist ''sigterm'') w1))
            (counted ''vibe_heartbeat_total'' ''sigterm'' w))
      | BillingExhausted provider code detail \<Rightarrow>
          stop_monitors (posted env (CUpdate i ''blocked'' (Some (failure_comment
              (''**Subscription exhausted** - '' @ provider @ '' returned HTTP '' @ str_int code
               @ ''. All agents are halted until the subscription is renewed.'' @ nl @ nl @ detail))))
            (\<lambda>w1. (Inl (OtherError ''NameError'' ''_finish''),
                   case he_spend env of
                     None \<Rightarrow> w1
                   | Some cfg \<Rightarrow> w1\<lparr>hb_ledger := lock_permanently cfg
                       (''Billing exhausted: '' @ provider @ '' HTTP '' @ str_int code) (he_lock_time env) (hb_ledger w1)\<rparr>))
            (counted ''vibe_heartbeat_total'' ''billing_exhausted'' w))
      | Crashed m \<Rightarrow>
          stop_monitors (posted env (CUpdate i ''blocked'' (Some (failure_comment m)))
            (\<lambda>w1. (Inr (plain_result ''failed'' i (''Workflow error: '' @ m) 1), log_call (CPersist ''blocked'') w1))
            (counted ''vibe_heartbeat_total'' ''workflow_error'' w)))"

definition workflow_request :: "heartbeat_env \<Rightarrow> string \<Rightarrow> string" where
  "workflow_request env req =
     (if he_wakeup env = [] then req else he_wakeup env @ nl @ nl @ ''---'' @ nl @ nl @ req)"

text \<open>The role, else the name, else the id of the environment, scopes the memory.\<close>

definition memory_scope :: "heartbeat_env \<Rightarrow> agent_info \<Rightarrow> json" where
  "memory_scope env ident =
     (if truthy (ag_role ident) then ag_role ident
      else if truthy (ag_name ident) then ag_name ident
      else JStr (he_getenv env ''PAPERCLIP_AGENT_ID''))"

text \<open>The issue as the orchestrator reads it: its fields have the types the data class declares, \<open>None\<close> for a missing text.\<close>

definition text_field :: "heartbeat_env \<Rightarrow> json \<Rightarrow> string" where
  "text_field env v = (if truthy v then json_text (he_repr env) v else [])"

definition child_of :: "heartbeat_env \<Rightarrow> issue \<Rightarrow> child_issue" where
  "child_of env full =
     \<lparr>ci_id = json_text (he_repr env) (is_id full), ci_title = text_field env (is_title full),
      ci_description = text_field env (is_description full), ci_status = text_field env (is_status full),
      ci_goal = (if is_goal_id full = JNull then None else Some (json_text (he_repr env) (is_goal_id full))),
      ci_assignee = (if is_assignee full = JNull then None else Some (json_text (he_repr env) (is_assignee full)))\<rparr>"

text \<open>Step 6c: the result of the orchestrator, its calls in the log.\<close>

definition orchestrated :: "heartbeat_env \<Rightarrow> issue \<Rightarrow> string option \<Rightarrow> heartbeat_world \<Rightarrow> (py_exn + heartbeat_result) \<times> heartbeat_world" where
  "orchestrated env full reply w =
     (case run_orchestrator_heartbeat (he_orchestrator env) (he_orch_fuel env) (child_of env full) reply [] of
        (r, cs) \<Rightarrow> (r, w\<lparr>hb_calls := hb_calls w @ map COrchestrate cs\<rparr>))"

text \<open>The tier the orchestrator of the parent has put into the description.\<close>

definition complexity_of :: "issue \<Rightarrow> py_exn + string" where
  "complexity_of full =
     (if truthy (is_description full) then
        (case is_description full of JStr d \<Rightarrow> Inr (extract_complexity_hint d) | _ \<Rightarrow> Inl (OtherError ''TypeError'' ''expected string''))
      else Inr [])"

text \<open>The arguments of the workflow: \<open>ident\<close> is the agent, \<open>req\<close> the request built, \<open>reply\<close> the answer of a human.\<close>

definition request_args :: "heartbeat_env \<Rightarrow> agent_info \<Rightarrow> json \<Rightarrow> string \<Rightarrow> string option \<Rightarrow> string \<Rightarrow> workflow_args" where
  "request_args env ident i req reply tier =
     \<lparr>wa_request = workflow_request env req, wa_task_type = resolve_task_type (he_getenv env) (hc_task_type (he_config env)),
      wa_complexity = tier, wa_reply = reply, wa_role = ag_role ident, wa_title = ag_title ident,
      wa_agent_id = memory_scope env ident, wa_task_id = i, wa_instructions = he_instructions env\<rparr>"

definition reply_in :: "heartbeat_env \<Rightarrow> issue \<Rightarrow> issue_comment list \<Rightarrow> string option" where
  "reply_in env full comments = detect_clarification_resume (he_getenv env) full comments (he_getenv env ''PAPERCLIP_AGENT_ID'')"

text \<open>Steps 6 to 10, after the context is fetched. \<open>full\<close> is the issue read again.\<close>

definition work_on ::
    "heartbeat_env \<Rightarrow> json \<Rightarrow> issue \<Rightarrow> issue_comment list \<Rightarrow> heartbeat_world
      \<Rightarrow> (py_exn + heartbeat_result) \<times> heartbeat_world" where
  "work_on env i full comments w =
     (let reply = reply_in env full comments
      in case build_user_request (he_repr env) None full comments reply of
           Inl e \<Rightarrow> (Inl e, w)
         | Inr (req, _) \<Rightarrow>
             if resolve_task_type (he_getenv env) (hc_task_type (he_config env)) = ''orchestrator'' then orchestrated env full reply w
             else
               (case complexity_of full of
                  Inl e \<Rightarrow> (Inl e, w)
                | Inr tier \<Rightarrow>
                    (let run = he_workflow env (request_args env (hb_identity w) i req reply tier)
                     in case workflow_outcome env i run w of (e, w1) \<Rightarrow> handle_end env i run e w1)))"

definition execute_checked_out_task ::
    "heartbeat_env \<Rightarrow> json \<Rightarrow> heartbeat_world \<Rightarrow> (py_exn + heartbeat_result) \<times> heartbeat_world" where
  "execute_checked_out_task env i w =
     (let failed = (\<lambda>e w'. if is_api_error e
            then (Inr (plain_result ''failed'' i (exn_message e) 1), counted ''vibe_paperclip_api_errors_total'' ''context'' w')
            else (Inl e, w'));
          w1 = log_call (CGetIssue i) w
      in case pa_issue (he_api env) (hb_calls w1) of
           Inl e \<Rightarrow> failed e w1
         | Inr full \<Rightarrow>
             (let w2 = log_call (CGetComments i) w1 in
              case pa_comments (he_api env) (hb_calls w2) of
                Inl e \<Rightarrow> failed e w2
              | Inr comments \<Rightarrow>
                  work_on env i full comments
                    (counted ''vibe_paperclip_api_calls_total'' ''get_comments''
                      (counted ''vibe_paperclip_api_calls_total'' ''get_issue'' w2))))"

section \<open>The heartbeat\<close>

text \<open>Step 4: the first candidate that can be checked out.\<close>

fun claim_first ::
    "paperclip_api \<Rightarrow> issue list \<Rightarrow> heartbeat_world \<Rightarrow> (py_exn + issue option) \<times> heartbeat_world" where
  "claim_first api [] w = (Inr None, w)"
| "claim_first api (c # cs) w =
     (let w1 = log_call (CCheckout (is_id c)) w in
      case pa_checkout api (hb_calls w1) of
        Inl e \<Rightarrow> if is_api_error e then claim_first api cs (counted ''vibe_paperclip_api_errors_total'' ''checkout'' w1)
                 else (Inl e, w1)
      | Inr True \<Rightarrow> (Inr (Some c), w1)
      | Inr False \<Rightarrow> claim_first api cs w1)"

text \<open>The outer \<open>finally\<close>: an exception of the release other than an API error replaces the result.\<close>

definition release_after ::
    "heartbeat_env \<Rightarrow> json \<Rightarrow> (py_exn + heartbeat_result) \<times> heartbeat_world \<Rightarrow> (py_exn + heartbeat_result) \<times> heartbeat_world" where
  "release_after env i rw =
     (let w1 = (if he_ws env then log_call CWsStop (snd rw) else snd rw);
          cfg = he_config env;
          w2 = (if hc_cleanup_messages cfg \<or> hc_backfill_messages cfg then log_call CMessages w1 else w1);
          w3 = log_call CCache w2
      in case attempt (he_api env) (CRelease i) w3 of
           (Inl e, w4) \<Rightarrow> (Inl e, w4)
         | (Inr _, w4) \<Rightarrow> (fst rw, w4))"

definition idle :: "heartbeat_env \<Rightarrow> string \<Rightarrow> heartbeat_world \<Rightarrow> (py_exn + heartbeat_result) \<times> heartbeat_world" where
  "idle env m w = finished (plain_result ''idle'' (JStr []) m 0) (spend_event env (blank_event ''idle'') w)"

definition failed_early ::
    "string \<Rightarrow> py_exn \<Rightarrow> heartbeat_world \<Rightarrow> (py_exn + heartbeat_result) \<times> heartbeat_world" where
  "failed_early endpoint e w =
     (if is_api_error e
      then finished (plain_result ''failed'' (JStr []) (exn_message e) 1)
             (counted ''vibe_paperclip_api_errors_total'' endpoint w)
      else (Inl e, w))"

text \<open>Step 5b and the rest, for a claimed issue.\<close>

definition run_claimed :: "heartbeat_env \<Rightarrow> json \<Rightarrow> heartbeat_world \<Rightarrow> (py_exn + heartbeat_result) \<times> heartbeat_world" where
  "run_claimed env i w =
     (case attempt (he_api env) (CUpdate i ''in_progress'' None) w of
        (Inl e, w1) \<Rightarrow> (Inl e, w1)
      | (Inr _, w1) \<Rightarrow>
          release_after env i
            (case execute_checked_out_task env i w1 of
               (Inl e, w2) \<Rightarrow> (Inl e, w2)
             | (Inr r, w2) \<Rightarrow> finished r w2))"

text \<open>Steps 3 and 4.\<close>

definition pick_work :: "heartbeat_env \<Rightarrow> heartbeat_world \<Rightarrow> (py_exn + heartbeat_result) \<times> heartbeat_world" where
  "pick_work env w =
     (let w1 = log_call CAssignments w in
      case pa_assignments (he_api env) (hb_calls w1) of
        Inl e \<Rightarrow> failed_early ''assignments'' e w1
      | Inr assignments \<Rightarrow>
          if assignments = [] then idle env ''No tasks assigned'' w1
          else
            let candidates = rank_tasks (he_getenv env) assignments in
            if candidates = [] then idle env ''No actionable tasks'' w1
            else (case claim_first (he_api env) candidates w1 of
                    (Inl e, w2) \<Rightarrow> (Inl e, w2)
                  | (Inr None, w2) \<Rightarrow> idle env ''No tasks available for checkout'' w2
                  | (Inr (Some c), w2) \<Rightarrow> run_claimed env (is_id c) w2))"

text \<open>Steps 1 to 2c. \<open>auto\<close>: the run id was generated and has to be registered.\<close>

definition connect :: "heartbeat_env \<Rightarrow> bool \<Rightarrow> heartbeat_world \<Rightarrow> (py_exn + heartbeat_result) \<times> heartbeat_world" where
  "connect env auto w =
     (case he_client_ok env of
        Some (ValueError m) \<Rightarrow> finished (plain_result ''failed'' (JStr []) m 1) w
      | Some e \<Rightarrow> (Inl e, w)
      | None \<Rightarrow>
          (let w1 = log_call CIdentity w in
           case pa_identity (he_api env) (hb_calls w1) of
             Inl e \<Rightarrow> failed_early ''identity'' e w1
           | Inr ident \<Rightarrow>
               (let w1' = w1\<lparr>hb_identity := ident\<rparr>;
                    w2 = (if he_ws env then log_call CWsStart w1' else w1') in
                if \<not> auto then pick_work env w2
                else
                  let w3 = log_call CRegister w2 in
                  case pa_register (he_api env) (hb_calls w3) of
                    Inl e \<Rightarrow> (Inl e, w3)
                  | Inr (Some (ch # cs)) \<Rightarrow> pick_work env (w3\<lparr>hb_run_id := ch # cs\<rparr>)
                  | Inr _ \<Rightarrow> pick_work env w3)))"

text \<open>Steps 0c and 0d.\<close>

definition start_run :: "heartbeat_env \<Rightarrow> heartbeat_world \<Rightarrow> (py_exn + heartbeat_result) \<times> heartbeat_world" where
  "start_run env w =
     (let auto = hb_run_id w = []; w1 = (if auto then w\<lparr>hb_run_id := he_new_run_id env\<rparr> else w);
          up = (\<not> he_probe_client_ok env
            \<or> (case wait_for_server (he_server_ok env) (he_server_took env) 122 of Some (ok, _) \<Rightarrow> ok | None \<Rightarrow> False))
      in if up then connect env auto w1
         else finished (plain_result ''failed'' (JStr [])
           ''Paperclip server not reachable after readiness probe timeout'' 0) w1)"

definition run_heartbeat :: "heartbeat_env \<Rightarrow> heartbeat_world \<Rightarrow> (py_exn + heartbeat_result) \<times> heartbeat_world" where
  "run_heartbeat env w0 =
     (let w = counted ''vibe_heartbeat_total'' ''started'' w0;
          issues = validate_heartbeat_config (he_getenv env) (he_config env)
      in if issues \<noteq> [] then
           finished (plain_result ''failed'' (JStr []) (''Configuration validation failed: '' @ join_with ''; '' issues) 1) w
         else case he_spend env of
           None \<Rightarrow> start_run env w
         | Some cfg \<Rightarrow>
             (case check_circuit_breaker cfg (fst (he_check env)) (snd (he_check env)) (hb_ledger w) of
                (Some st, L) \<Rightarrow>
                  finished ((plain_result ''circuit_breaker'' (JStr []) (''Circuit breaker open: '' @ bs_reason st) 0)
                      \<lparr>hr_retry_after := Some (bs_retry_after st)\<rparr>)
                    (counted ''vibe_heartbeat_total'' ''circuit_breaker'' (w\<lparr>hb_ledger := L\<rparr>))
              | (None, L) \<Rightarrow> start_run env (w\<lparr>hb_ledger := L\<rparr>)))"

end
