(* ===== verification/Orchestrator_Correct.thy ===== *)
theory Orchestrator_Correct
  imports Orchestrator
begin

text \<open>
  What the orchestrator guarantees. \<open>emits P m\<close>: the calls a computation adds all satisfy \<open>P\<close>; its rules
  follow the combinators, so a property of the calls of a phase is a walk over its definition.
\<close>

section \<open>The calls a computation adds\<close>

named_theorems emits_rules

definition emits :: "(orch_call \<Rightarrow> bool) \<Rightarrow> 'a orch \<Rightarrow> bool" where
  "emits P m \<longleftrightarrow> (\<forall>cs. \<exists>ds. snd (m cs) = cs @ ds \<and> (\<forall>d \<in> set ds. P d))"

lemma emits_call [emits_rules]: "P c \<Longrightarrow> emits P (call f c)"
  by (simp add: emits_def call_def)

lemma emits_ret [emits_rules]: "emits P (ret x)"
  by (simp add: emits_def ret_def)

lemma emits_extend:
  assumes "emits P m" and "snd (m cs) = cs1" and "\<exists>ds. cs2 = cs1 @ ds \<and> (\<forall>d \<in> set ds. P d)"
  shows "\<exists>ds. cs2 = cs @ ds \<and> (\<forall>d \<in> set ds. P d)"
proof -
  obtain ds where "cs1 = cs @ ds" "\<forall>d \<in> set ds. P d" using assms(1,2) by (auto simp: emits_def)
  moreover obtain es where "cs2 = cs1 @ es" "\<forall>d \<in> set es. P d" using assms(3) by blast
  ultimately show ?thesis by (intro exI [of _ "ds @ es"]) auto
qed

lemma emits_and_then [emits_rules]:
  assumes "emits P m" and "\<And>x. emits P (k x)"
  shows "emits P (and_then m k)"
  unfolding emits_def
proof
  fix cs
  obtain r cs1 where m: "m cs = (r, cs1)" by fastforce
  have "\<exists>ds. snd (and_then m k cs) = cs1 @ ds \<and> (\<forall>d \<in> set ds. P d)"
    using m assms(2) by (cases r) (simp_all add: and_then_def emits_def)
  then show "\<exists>ds. snd (and_then m k cs) = cs @ ds \<and> (\<forall>d \<in> set ds. P d)"
    using emits_extend [OF assms(1), of cs cs1] m by simp
qed

lemma emits_try_api [emits_rules]:
  assumes "emits P m" and "\<And>e. emits P (h e)" and "\<And>x. emits P (k x)"
  shows "emits P (try_api m h k)"
  unfolding emits_def
proof
  fix cs
  obtain r cs1 where m: "m cs = (r, cs1)" by fastforce
  have "\<exists>ds. snd (try_api m h k cs) = cs1 @ ds \<and> (\<forall>d \<in> set ds. P d)"
    using m assms(2,3) by (cases r) (simp_all add: try_api_def emits_def)
  then show "\<exists>ds. snd (try_api m h k cs) = cs @ ds \<and> (\<forall>d \<in> set ds. P d)"
    using emits_extend [OF assms(1), of cs cs1] m by simp
qed

lemma emits_each [emits_rules]: "(\<And>x. x \<in> set xs \<Longrightarrow> emits P (f x)) \<Longrightarrow> emits P (each f xs)"
  by (induction xs) (auto intro!: emits_rules)

lemma emits_if [emits_rules]: "(b \<Longrightarrow> emits P m) \<Longrightarrow> (\<not> b \<Longrightarrow> emits P n) \<Longrightarrow> emits P (if b then m else n)"
  by simp

lemma emits_mono: "emits P m \<Longrightarrow> (\<And>c. P c \<Longrightarrow> Q c) \<Longrightarrow> emits Q m"
  unfolding emits_def by (meson)

text \<open>The calls of the phases after the decomposition: they read, retry and move children, and update the parent.\<close>

fun late_call :: "orch_call \<Rightarrow> bool" where
  "late_call (OCreate _ _ _ _ _) = False"
| "late_call (OCost _ _) = False"
| "late_call _ = True"

lemma emits_update_quietly [emits_rules]: "P (OUpdate i (Some st) m []) \<Longrightarrow> emits P (update_quietly env i st m r)"
  unfolding update_quietly_def by (intro emits_rules)

lemma emits_post_done [emits_rules]: "P (OUpdate (ci_id i) (Some ''done'') (Some m) []) \<Longrightarrow> emits P (post_done env i m s)"
  unfolding post_done_def by (intro emits_rules)

lemma emits_extract [emits_rules]: "P (OComments (ci_id i)) \<Longrightarrow> emits P (extract_strategy env i)"
  "P (OComments (ci_id i)) \<Longrightarrow> emits P (collect env i)"
  unfolding extract_strategy_def collect_def extract_child_result_def by (intro emits_rules, assumption)+

lemma emits_aggregate [emits_rules]: "emits late_call (aggregate_and_present env i children)"
  unfolding aggregate_and_present_def Let_def by (intro emits_rules) auto

lemma emits_partial [emits_rules]: "emits late_call (aggregate_with_partial_failures env i children failed)"
  unfolding aggregate_with_partial_failures_def Let_def by (intro emits_rules) auto

lemma emits_settle [emits_rules]: "emits late_call (settle_failures env i children failed n)"
  unfolding settle_failures_def block_parent_def by (intro emits_rules) auto

lemma emits_retry [emits_rules]: "emits late_call (maybe_retry_child env c)"
  unfolding maybe_retry_child_def Let_def by (intro emits_rules) auto

lemma emits_judge [emits_rules]: "emits late_call (judge_child env c)"
  unfolding judge_child_def by (intro emits_rules)

lemma emits_ws_loop [emits_rules]: "emits late_call (ws_loop env i deadline fuel k)"
proof (induction fuel arbitrary: k)
  case 0
  then show ?case by (simp add: emits_def)
next
  case (Suc fuel)
  show ?case unfolding ws_loop.simps Let_def by (intro emits_rules Suc) simp
qed

lemma rebalance_loop_step:
  "rebalance_loop api ((from_id, c) # ts) (target # rest) n cs =
     (if n \<ge> MAX_REBALANCE_PER_CYCLE then rebalance_loop api ts (target # rest) n cs
      else rebalance_loop api ts rest (if is_ok (fst (move_child api from_id c target cs)) then n + 1 else n)
        (snd (move_child api from_id c target cs)))"
  by (simp split: prod.split sum.split)

declare rebalance_loop.simps(2) [simp del]

lemma rebalance_emits:
  assumes "\<And>a c t. (a, c) \<in> set ts \<Longrightarrow> t \<in> set idles \<Longrightarrow> P (OUpdate (ci_id c) None None [(''assignee_agent_id'', t)])"
    and "\<And>a c m. (a, c) \<in> set ts \<Longrightarrow> P (OComment (ci_id c) m)" and "n \<le> MAX_REBALANCE_PER_CYCLE"
  shows "fst (rebalance_loop api ts idles n cs) \<le> MAX_REBALANCE_PER_CYCLE
    \<and> (\<exists>ds. snd (rebalance_loop api ts idles n cs) = cs @ ds \<and> (\<forall>d \<in> set ds. P d))"
  using assms
proof (induction ts arbitrary: idles n cs)
  case (Cons p ts)
  obtain from_id c where p: "p = (from_id, c)" by fastforce
  have ih: "fst (rebalance_loop api ts is k cs') \<le> MAX_REBALANCE_PER_CYCLE
      \<and> (\<exists>ds. snd (rebalance_loop api ts is k cs') = cs' @ ds \<and> (\<forall>d \<in> set ds. P d))"
    if "set is \<subseteq> set idles" "k \<le> MAX_REBALANCE_PER_CYCLE" for "is" k cs'
  proof (rule Cons.IH)
    fix a c t assume "(a, c) \<in> set ts" "t \<in> set is"
    then show "P (OUpdate (ci_id c) None None [(''assignee_agent_id'', t)])" using Cons.prems(1) [of a c t] that(1) by auto
  next
    fix a c m assume "(a, c) \<in> set ts"
    then show "P (OComment (ci_id c) m)" using Cons.prems(2) [of a c m] by simp
  qed (rule that(2))
  show ?case
  proof (cases idles)
    case Nil
    then show ?thesis using ih [of idles n cs] Cons.prems(3) by (auto simp: p rebalance_loop.simps(2))
  next
    case (Cons target rest)
    have em: "emits P (move_child api from_id c target)"
      unfolding move_child_def using Cons.prems(1,2) [of from_id c] by (intro emits_rules) (auto simp: p Cons)
    show ?thesis
    proof (cases "n \<ge> MAX_REBALANCE_PER_CYCLE")
      case True
      then show ?thesis using ih [of idles n cs] Cons.prems(3) by (simp add: p Cons rebalance_loop_step)
    next
      case False
      let ?k = "if is_ok (fst (move_child api from_id c target cs)) then n + 1 else n"
      let ?cs1 = "snd (move_child api from_id c target cs)"
      have eq: "rebalance_loop api (p # ts) idles n cs = rebalance_loop api ts rest ?k ?cs1"
        using False by (simp add: p Cons rebalance_loop_step)
      have k: "?k \<le> MAX_REBALANCE_PER_CYCLE" using False by simp
      have r: "set rest \<subseteq> set idles" by (auto simp: Cons)
      from ih [OF r k, of ?cs1] show ?thesis unfolding eq using emits_extend [OF em refl] by blast
    qed
  qed
qed simp

lemma emits_rebalance [emits_rules]: "emits late_call (try_rebalance env children)"
  unfolding emits_def
proof
  fix cs
  obtain r cs1 where c: "call (oa_agents (oe_api env)) OAgents cs = (r, cs1)" by fastforce
  have "\<exists>ds. snd (try_rebalance env children cs) = cs1 @ ds \<and> (\<forall>d \<in> set ds. late_call d)"
    using rebalance_emits [of _ _ late_call 0] by (cases r) (auto simp: try_rebalance_def c rebalance_children_def Let_def)
  then show "\<exists>ds. snd (try_rebalance env children cs) = cs @ ds \<and> (\<forall>d \<in> set ds. late_call d)"
    using emits_extend [OF emits_call [of late_call OAgents "oa_agents (oe_api env)"], of cs cs1] c by simp
qed

lemma emits_poll [emits_rules]: "emits late_call (poll_children env fuel i children)"
proof -
  have w: "emits late_call (ws_wait_for_children env fuel i children)"
    unfolding ws_wait_for_children_def by (intro emits_rules)
  have o: "emits late_call (case r of Some x \<Rightarrow> ret x | None \<Rightarrow> ret y)" for r and x y :: heartbeat_result
    by (simp add: emits_ret split: option.split)
  show ?thesis unfolding poll_children_def Let_def by (intro emits_rules w o)
qed

section \<open>Markers are read back\<close>










section \<open>Collecting results\<close>








section \<open>Retries\<close>

text \<open>The comments an issue got, its resets, and the comments that failed, in a log of calls: a call counts when the server
  answered it.\<close>

definition did :: "orch_api \<Rightarrow> orch_call list \<Rightarrow> nat \<Rightarrow> bool" where
  "did api cs k \<longleftrightarrow> oa_do api (take (Suc k) cs) = Inr ()"

definition comment_on :: "string \<Rightarrow> orch_call \<Rightarrow> string list" where
  "comment_on i c = (case c of OComment j m \<Rightarrow> if j = i then [m] else [] | _ \<Rightarrow> [])"

definition kept_on :: "orch_api \<Rightarrow> string \<Rightarrow> orch_call list \<Rightarrow> string list" where
  "kept_on api i cs = concat (map (\<lambda>k. if did api cs k then comment_on i (cs ! k) else []) [0..<length cs])"

definition resets_on :: "orch_api \<Rightarrow> string \<Rightarrow> orch_call list \<Rightarrow> nat" where
  "resets_on api i cs = length (filter (\<lambda>k. cs ! k = OUpdate i (Some ''todo'') None [] \<and> did api cs k) [0..<length cs])"

definition lost_on :: "orch_api \<Rightarrow> string \<Rightarrow> orch_call list \<Rightarrow> nat" where
  "lost_on api i cs = length (filter (\<lambda>k. comment_on i (cs ! k) \<noteq> [] \<and> \<not> did api cs k) [0..<length cs])"




lemma comment_on_simps [simp]:
  "comment_on i (OComment j m) = (if j = i then [m] else [])" "comment_on i (OComments j) = []" "comment_on i (OUpdate j st n f) = []"
  by (simp_all add: comment_on_def)




lemma log_empty [simp]: "kept_on api i [] = []" "resets_on api i [] = 0" "lost_on api i [] = 0"
  by (simp_all add: kept_on_def resets_on_def lost_on_def)





section \<open>Backlogs\<close>

lemma pending_fold:
  "dict_get (foldl note_pending d cs) a =
     (if a \<noteq> [] \<and> (\<exists>c \<in> set cs. ci_assignee c = Some a \<and> ci_status c = ''todo'')
      then Some (dict_get_or d a [] @ filter (\<lambda>c. ci_assignee c = Some a \<and> ci_status c = ''todo'') cs) else dict_get d a)"
proof (induction cs arbitrary: d)
  case (Cons c cs)
  show ?case
    by (simp only: foldl_Cons Cons.IH)
      (auto simp: note_pending_def dict_get_set dict_get_or_def filter_empty_conv split: option.splits)
qed simp

lemma pending_ok: "dict_ok d \<Longrightarrow> dict_ok (foldl note_pending d cs)"
  by (induction cs arbitrary: d) (auto simp: note_pending_def dict_ok_set split: option.split)

lemma backlogged_entry:
  assumes "(a, ts) \<in> set (backlogged children)" and "c \<in> set ts"
  shows "ci_assignee c = Some a \<and> ci_status c = ''todo'' \<and> c \<in> set children
    \<and> length (filter (\<lambda>c. ci_assignee c = Some a \<and> ci_status c = ''todo'') children) \<ge> 3"
proof -
  have m: "(a, ts) \<in> set (pending_tasks children)" and l: "length ts \<ge> 3"
    using assms(1) by (auto simp: backlogged_def BACKLOG_THRESHOLD_def)
  have "dict_ok (pending_tasks children)" unfolding pending_tasks_def by (rule pending_ok) (simp add: dict_ok_def dict_keys_def)
  then have "dict_get (pending_tasks children) a = Some ts"
    using m by (simp add: dict_get_def dict_ok_def dict_keys_def map_of_eq_Some_iff)
  then have "ts = filter (\<lambda>c. ci_assignee c = Some a \<and> ci_status c = ''todo'') children"
    unfolding pending_tasks_def pending_fold by (auto simp: dict_get_or_def split: if_splits)
  then show ?thesis using l assms(2) by auto
qed

lemma idle_agent:
  assumes "t \<in> set (idle_agents order children)"
    and "set (order (remdups (filter (\<lambda>a. a \<noteq> []) (List.map_filter ci_assignee children))))
      \<subseteq> set (filter (\<lambda>a. a \<noteq> []) (List.map_filter ci_assignee children))"
  shows "done_by children t > 0 \<and> (\<forall>c' \<in> set children. ci_assignee c' = Some t \<longrightarrow> ci_status c' \<noteq> ''todo'')"
proof -
  have "\<not> dict_has (pending_tasks children) t" "done_by children t > 0" "t \<noteq> []"
    using assms by (auto simp: idle_agents_def)
  then show ?thesis by (auto simp: dict_has_def pending_tasks_def pending_fold split: if_splits)
qed

section \<open>A sample control plane\<close>

definition sample_child :: "string \<Rightarrow> string \<Rightarrow> child_issue" where
  "sample_child i status = \<lparr>ci_id = i, ci_title = ''[code_review] build'', ci_description = [], ci_status = status,
     ci_goal = None, ci_assignee = None\<rparr>"

definition sample_orch_api :: "(orch_call list \<Rightarrow> string list) \<Rightarrow> child_issue list \<Rightarrow> orch_api" where
  "sample_orch_api comments children = \<lparr>oa_children = \<lambda>_. Inr children, oa_comments = \<lambda>cs. Inr (comments cs),
     oa_agents = \<lambda>_. Inr [], oa_create = \<lambda>_. Inr ''n'', oa_do = \<lambda>_. Inr ()\<rparr>"

definition sample_orch_env :: "(orch_call list \<Rightarrow> string list) \<Rightarrow> child_issue list \<Rightarrow> orch_env" where
  "sample_orch_env comments children = \<lparr>oe_config = \<lparr>oc_max_children = 5, oc_skip_fast = True, oc_retry_failed = True,
       oc_max_retries = 1, oc_poll_timeout = 300, oc_quality_threshold = 85, oc_cost_reporting = True,
       oc_backend = ''openai'', oc_model = ''gpt-4o''\<rparr>,
     oe_api = sample_orch_api comments children, oe_self = ''o'', oe_triage = \<lambda>_. ''standard'',
     oe_route = \<lambda>_. (False, [], ''merge''), oe_workflow = \<lambda>_ _. Inl (RuntimeError ''x''), oe_registry = None,
     oe_fmt1 = \<lambda>_. [], oe_order = id, oe_ws = False, oe_clock = of_nat\<rparr>"

text \<open>The comments of \<open>d\<close> are the result of a successful heartbeat, those of \<open>b\<close> the marker of the retry allowed.\<close>

definition sample_comments :: "orch_call list \<Rightarrow> string list" where
  "sample_comments cs = (if cs \<noteq> [] \<and> last cs = OComments ''d'' then [''## Completed (score: 90/100)'' @ nl @ nl @ ''fine'']
     else if cs \<noteq> [] \<and> last cs = OComments ''b'' then [retry_marker 1] else [])"

text \<open>One child done, one failed for good, one still at work: the parent is closed, the third child forgotten.\<close>

lemma partial_result_abandons_pending:
  "(case run_orchestrator_heartbeat (sample_orch_env sample_comments
      [sample_child ''d'' ''done'', sample_child ''b'' ''blocked'', sample_child ''p'' ''in_progress'']) 0 (sample_child ''7'' ''in_progress'')
      None [] of
     (Inr r, cs) \<Rightarrow> hr_status r = ''success'' \<and> (case last cs of OUpdate i st m f \<Rightarrow> i = ''7'' \<and> st = Some ''done'' | _ \<Rightarrow> False)
   | _ \<Rightarrow> False)"
  by code_simp

section \<open>Properties\<close>

text \<open>Children are created in the first phase only: a heartbeat that finds a child, of whatever status, creates none.\<close>
theorem children_created_once:
  assumes "oa_children (oe_api env) (cs @ [OChildren (ci_id i)]) = Inr children" and "children \<noteq> []"
  shows "\<exists>ds. snd (run_orchestrator_heartbeat env fuel i reply cs) = cs @ OChildren (ci_id i) # ds
    \<and> (\<forall>d \<in> set ds. \<forall>t desc p g a. d \<noteq> OCreate t desc p g a)"
proof -
  define m where "m = (if list_all (\<lambda>c. ci_status c = ''done'') children
    then aggregate_and_present env i children else poll_children env fuel i children)"
  have "emits late_call m" unfolding m_def by (intro emits_rules)
  moreover have "run_orchestrator_heartbeat env fuel i reply cs = m (cs @ [OChildren (ci_id i)])"
    using assms by (simp add: run_orchestrator_heartbeat_def try_api_def call_def detect_phase_def m_def)
  ultimately have "\<exists>ds. snd (run_orchestrator_heartbeat env fuel i reply cs) = (cs @ [OChildren (ci_id i)]) @ ds
      \<and> (\<forall>d \<in> set ds. late_call d)"
    unfolding emits_def by metis
  then obtain ds where "snd (run_orchestrator_heartbeat env fuel i reply cs) = (cs @ [OChildren (ci_id i)]) @ ds"
    "\<forall>d \<in> set ds. late_call d" by blast
  then show ?thesis by (intro exI [of _ ds]) fastforce
qed



text \<open>The wait for the children ends: once the clock has reached the deadline within the rounds granted, more
  rounds change nothing.\<close>
theorem wait_for_children_ends:
  assumes "k \<le> m" and "m < k + fuel" and "deadline \<le> oe_clock env m"
  shows "ws_loop env i deadline (fuel + extra) k = ws_loop env i deadline fuel k"
  using assms
proof (induction fuel arbitrary: k)
  case (Suc fuel)
  show ?case
  proof (cases "oe_clock env k \<ge> deadline")
    case False
    then have "k \<noteq> m" using Suc.prems(3) by auto
    then have "ws_loop env i deadline (fuel + extra) (Suc k) = ws_loop env i deadline fuel (Suc k)"
      using Suc.prems by (intro Suc.IH) auto
    then show ?thesis by (simp cong: if_cong)
  qed simp
qed simp

theorem children_created_once_witness:
  "\<exists>ds. snd (run_orchestrator_heartbeat (sample_orch_env sample_comments [sample_child ''p'' ''todo'']) 0 (sample_child ''7'' ''todo'') None [])
    = [] @ OChildren ''7'' # ds \<and> (\<forall>d \<in> set ds. \<forall>t desc p g a. d \<noteq> OCreate t desc p g a)"
  using children_created_once [of "sample_orch_env sample_comments [sample_child ''p'' ''todo'']" "[]" "sample_child ''7'' ''todo''"
    "[sample_child ''p'' ''todo'']" 0 None]
  by (simp add: sample_orch_env_def sample_orch_api_def sample_child_def)





theorem wait_for_children_ends_witness:
  "ws_loop (sample_orch_env sample_comments []) (sample_child ''7'' ''todo'') 3 (5 + 9) 0
    = ws_loop (sample_orch_env sample_comments []) (sample_child ''7'' ''todo'') 3 5 0"
  by (rule wait_for_children_ends [of 0 3]) (simp_all add: sample_orch_env_def)

text \<open>Rebalancing moves at most two tasks in a poll, and only tasks to do of an agent with three of them or more, each
  to another agent of the children that has finished work and has none to do.\<close>
theorem rebalancing_is_limited:
  assumes "set (oe_order env as) \<subseteq> set as"
    and "as = remdups (filter (\<lambda>a. a \<noteq> []) (List.map_filter ci_assignee children))"
  shows "fst (rebalance_children (oe_api env) (oe_order env) children cs) \<le> 2
    \<and> (\<exists>ds. snd (rebalance_children (oe_api env) (oe_order env) children cs) = cs @ ds
        \<and> (\<forall>i st m fs. OUpdate i st m fs \<in> set ds \<longrightarrow>
          (\<exists>c \<in> set children. \<exists>a t. ci_id c = i \<and> ci_status c = ''todo'' \<and> ci_assignee c = Some a
            \<and> length (filter (\<lambda>c. ci_assignee c = Some a \<and> ci_status c = ''todo'') children) \<ge> 3
            \<and> fs = [(''assignee_agent_id'', t)] \<and> done_by children t > 0
            \<and> (\<forall>c' \<in> set children. ci_assignee c' = Some t \<longrightarrow> ci_status c' \<noteq> ''todo''))))"
proof -
  let ?ts = "concat (map (\<lambda>(a, ts). map (\<lambda>t. (a, t)) ts) (backlogged children))"
  let ?idles = "idle_agents (oe_order env) children"
  let ?good = "\<lambda>i fs. \<exists>c \<in> set children. \<exists>a t. ci_id c = i \<and> ci_status c = ''todo'' \<and> ci_assignee c = Some a
    \<and> length (filter (\<lambda>c. ci_assignee c = Some a \<and> ci_status c = ''todo'') children) \<ge> 3
    \<and> fs = [(''assignee_agent_id'', t)] \<and> done_by children t > 0
    \<and> (\<forall>c' \<in> set children. ci_assignee c' = Some t \<longrightarrow> ci_status c' \<noteq> ''todo'')"
  let ?P = "\<lambda>d. \<forall>i st m fs. d = OUpdate i st m fs \<longrightarrow> ?good i fs"
  have P: "?P (OUpdate (ci_id c) None None [(''assignee_agent_id'', t)])" if ac: "(a, c) \<in> set ?ts" and t: "t \<in> set ?idles" for a c t
  proof -
    have b: "ci_assignee c = Some a \<and> ci_status c = ''todo'' \<and> c \<in> set children
        \<and> length (filter (\<lambda>c. ci_assignee c = Some a \<and> ci_status c = ''todo'') children) \<ge> 3"
      using ac backlogged_entry by fastforce
    have "done_by children t > 0 \<and> (\<forall>c' \<in> set children. ci_assignee c' = Some t \<longrightarrow> ci_status c' \<noteq> ''todo'')"
      using t assms by (intro idle_agent) auto
    then show ?thesis using b by blast
  qed
  have "fst (rebalance_loop (oe_api env) ?ts ?idles 0 cs) \<le> MAX_REBALANCE_PER_CYCLE
      \<and> (\<exists>ds. snd (rebalance_loop (oe_api env) ?ts ?idles 0 cs) = cs @ ds \<and> (\<forall>d \<in> set ds. ?P d))"
  proof (rule rebalance_emits)
    fix a c t assume "(a, c) \<in> set ?ts" "t \<in> set ?idles"
    then show "?P (OUpdate (ci_id c) None None [(''assignee_agent_id'', t)])" by (rule P)
  qed simp_all
  then show ?thesis
    by (auto simp: rebalance_children_def Let_def MAX_REBALANCE_PER_CYCLE_def)
qed

definition loaded_children :: "child_issue list" where
  "loaded_children = [(sample_child ''1'' ''todo'')\<lparr>ci_assignee := Some ''a''\<rparr>, (sample_child ''2'' ''todo'')\<lparr>ci_assignee := Some ''a''\<rparr>,
     (sample_child ''3'' ''todo'')\<lparr>ci_assignee := Some ''a''\<rparr>, (sample_child ''4'' ''done'')\<lparr>ci_assignee := Some ''b''\<rparr>]"

theorem rebalancing_is_limited_witness:
  "fst (rebalance_children (oe_api (sample_orch_env sample_comments [])) id loaded_children []) \<le> 2
    \<and> fst (rebalance_children (oe_api (sample_orch_env sample_comments [])) id loaded_children []) = 1"
proof
  have e: "oe_order (sample_orch_env sample_comments []) = id" by (simp add: sample_orch_env_def)
  show "fst (rebalance_children (oe_api (sample_orch_env sample_comments [])) id loaded_children []) \<le> 2"
    using rebalancing_is_limited [of "sample_orch_env sample_comments []", OF _ refl, of loaded_children "[]"] unfolding e by simp
  show "fst (rebalance_children (oe_api (sample_orch_env sample_comments [])) id loaded_children []) = 1" by code_simp
qed

text \<open>The field a rebalancing sets is not the one the creation of a child sets.\<close>

lemma assignee_key_differs:
  "snd (move_child (oe_api (sample_orch_env sample_comments [])) ''a'' (sample_child ''1'' ''todo'') ''b'' []) =
    [OUpdate ''1'' None None [(''assignee_agent_id'', ''b'')],
     OComment ''1'' ''<!-- rebalanced-from:a --> Rebalanced from overloaded agent to idle agent.'']"
  by (simp add: move_child_def and_then_def call_def sample_orch_env_def sample_orch_api_def sample_child_def)

text \<open>A task run directly closes the parent only with a score that reaches the configured threshold.\<close>
theorem direct_run_needs_threshold:
  assumes "oe_workflow env req tier = Inr r" and "snd (run_directly env i req tier cs) = cs @ ds"
    and "OUpdate (ci_id i) (Some ''done'') m f \<in> set ds"
  shows "oc_quality_threshold (oe_config env) \<le> final_score_of r"
proof (rule ccontr)
  assume low: "\<not> ?thesis"
  let ?P = "\<lambda>c. \<forall>m f. c \<noteq> OUpdate (ci_id i) (Some ''done'') m f"
  have "emits ?P (run_directly env i req tier)"
    unfolding run_directly_def assms(1) sum.case Let_def using low by (intro emits_rules) auto
  then obtain es where "snd (run_directly env i req tier cs) = cs @ es" "\<forall>c \<in> set es. ?P c"
    unfolding emits_def by blast
  then show False using assms(2,3) by auto
qed

theorem direct_run_needs_threshold_witness:
  "85 \<le> final_score_of \<lparr>wr_state = empty_state\<lparr>final_score := Some 90\<rparr>, wr_last_node = None, wr_upgrade = None,
     wr_input_tokens = 0, wr_output_tokens = 0\<rparr>"
proof -
  let ?r = "\<lparr>wr_state = empty_state\<lparr>final_score := Some 90\<rparr>, wr_last_node = None, wr_upgrade = None,
     wr_input_tokens = 0, wr_output_tokens = 0\<rparr>"
  let ?env = "(sample_orch_env sample_comments [])\<lparr>oe_workflow := \<lambda>_ _. Inr ?r\<rparr>"
  have run: "snd (run_directly ?env (sample_child ''7'' ''todo'') [] [] []) =
      [] @ [OUpdate ''7'' (Some ''done'') (Some (format_success_comment [] 90)) [], OCost ''7'' 0]"
    by (simp add: run_directly_def Let_def try_api_def call_def ret_def sample_orch_env_def sample_orch_api_def sample_child_def
      final_score_of_def final_output_of_def empty_state_def direct_result_def)
  have w: "oe_workflow ?env [] [] = Inr ?r" by simp
  from direct_run_needs_threshold [OF w run, of "Some (format_success_comment [] 90)" "[]"] show ?thesis
    by (simp add: sample_orch_env_def sample_child_def)
qed

end
