(* ===== verification/Heartbeat_Correct.thy ===== *)
theory Heartbeat_Correct
  imports Heartbeat Orchestrator_Correct
begin

text \<open>
  What a heartbeat guarantees: which calls its parts can add to the log (\<open>adds\<close>), that it comes down to
  at most one claimed issue (\<open>hb_settled\<close>), which runs leave the spending ledger alone (\<open>silent\<close>), and the
  properties these give: the claimed issue is released, \<open>done\<close> needs the threshold, the wait for the server ends.
\<close>

section \<open>Which calls are added\<close>

definition adds :: "(api_call \<Rightarrow> bool) \<Rightarrow> heartbeat_world \<Rightarrow> heartbeat_world \<Rightarrow> bool" where
  "adds P w w' \<longleftrightarrow> hb_identity w' = hb_identity w \<and> (\<exists>cs. hb_calls w' = hb_calls w @ cs \<and> (\<forall>c \<in> set cs. P c))"

lemma adds_refl [simp, intro]: "hb_calls w' = hb_calls w \<Longrightarrow> hb_identity w' = hb_identity w \<Longrightarrow> adds P w w'"
  by (simp add: adds_def)

lemma adds_trans: "adds P w w1 \<Longrightarrow> adds P w1 w2 \<Longrightarrow> adds P w w2"
  by (auto simp: adds_def)

lemma adds_log [simp]: "adds P w (log_call c w) \<longleftrightarrow> P c"
  by (auto simp: adds_def log_call_def)

lemma adds_mono: "adds P w w' \<Longrightarrow> (\<And>c. P c \<Longrightarrow> Q c) \<Longrightarrow> adds Q w w'"
  by (auto simp: adds_def)

lemma world_simps [simp]:
  "hb_identity (log_call c w) = hb_identity w" "hb_identity (counted n l w) = hb_identity w" "hb_identity (finish r w) = hb_identity w"
  "hb_identity (spend_event env e w) = hb_identity w" "hb_identity (counted_call c ok w) = hb_identity w"
  "hb_calls (log_call c w) = hb_calls w @ [c]" "hb_ledger (log_call c w) = hb_ledger w"
  "hb_calls (counted n l w) = hb_calls w" "hb_ledger (counted n l w) = hb_ledger w"
  "hb_calls (finish r w) = hb_calls w" "hb_ledger (finish r w) = hb_ledger w"
  "hb_calls (spend_event env e w) = hb_calls w"
  "hb_calls (counted_call c ok w) = hb_calls w" "hb_ledger (counted_call c ok w) = hb_ledger w"
  by (simp_all add: log_call_def counted_def finish_def spend_event_def counted_call_def split: option.split api_call.split)

lemma attempt_world [simp]: "snd (attempt api c w) = log_call c w"
  by (simp add: attempt_def Let_def)

lemma attempt_eq: "attempt api c w = (fst (attempt api c w), log_call c w)"
  by (simp add: attempt_def Let_def)

lemma posted_adds: "P c \<Longrightarrow> (\<And>w1. adds P w1 (snd (k w1))) \<Longrightarrow> adds P w (snd (posted env c k w))"
  using adds_trans [of P w "log_call c w"]
  by (subst posted_def, subst attempt_eq) (simp split: sum.split)

lemma tracked_adds: "P c \<Longrightarrow> (\<And>w1. adds P w1 (snd (k w1))) \<Longrightarrow> adds P w (snd (tracked env c k w))"
proof -
  assume c: "P c" and k: "\<And>w1. adds P w1 (snd (k w1))"
  have "adds P w (counted_call c ok (log_call c w))" for ok
    using c by (auto simp: adds_def)
  then have "adds P w (snd (k (counted_call c ok (log_call c w))))" for ok
    using k adds_trans by blast
  then show ?thesis using c by (subst tracked_def, subst attempt_eq) (simp split: sum.split)
qed

lemma post_progress_adds: "(\<And>m. P (CComment i m)) \<Longrightarrow> adds P w (snd (post_progress api i ns w))"
proof (induction api i ns w rule: post_progress.induct)
  case (2 api i node s ns w)
  show ?case
  proof (cases "progress_comment node s")
    case (Some c)
    have a: "attempt api (CComment i c) w = (fst (attempt api (CComment i c) w), log_call (CComment i c) w)"
      by (rule attempt_eq)
    show ?thesis
    proof (cases "fst (attempt api (CComment i c) w)")
      case (Inl e)
      with a have "attempt api (CComment i c) w = (Inl e, log_call (CComment i c) w)" by simp
      then show ?thesis using Some 2(3) by simp
    next
      case (Inr b)
      with a have ab: "attempt api (CComment i c) w = (Inr b, log_call (CComment i c) w)" by simp
      have "adds P (log_call (CComment i c) w) (snd (post_progress api i ns (log_call (CComment i c) w)))"
        using 2(2) [OF Some ab [symmetric] refl] 2(3) by simp
      then show ?thesis using Some ab 2(3) adds_trans [of P w "log_call (CComment i c) w"] by simp
    qed
  qed (use 2 in simp)
qed simp

text \<open>An update to \<open>done\<close> that the work on the issue \<open>i\<close> may make: of that issue, by an agent that is no orchestrator, after
  the workflow it was run through with the arguments of this heartbeat completed with a score that reaches the threshold,
  and with the output of that run.\<close>

definition approved :: "heartbeat_env \<Rightarrow> agent_info \<Rightarrow> json \<Rightarrow> issue \<Rightarrow> issue_comment list \<Rightarrow> json \<Rightarrow> string option \<Rightarrow> bool" where
  "approved env ident i full comments j m \<longleftrightarrow>
     j = i \<and> resolve_task_type (he_getenv env) (hc_task_type (he_config env)) \<noteq> ''orchestrator''
     \<and> (\<exists>req n tier r. build_user_request (he_repr env) None full comments (reply_in env full comments) = Inr (req, n)
          \<and> complexity_of full = Inr tier
          \<and> wn_end (he_workflow env (request_args env ident i req (reply_in env full comments) tier)) = Completed r
          \<and> hc_quality_threshold (he_config env) \<le> final_score_of r
          \<and> m = Some (format_success_comment (final_output_of r) (final_score_of r)))"

text \<open>The calls a claimed issue's work can make: no checkout, no release, and \<open>done\<close> only where \<open>D\<close> holds.\<close>

fun allowed :: "(json \<Rightarrow> string option \<Rightarrow> bool) \<Rightarrow> api_call \<Rightarrow> bool" where
  "allowed D (CCheckout _) = False"
| "allowed D (CRelease _) = False"
| "allowed D (CUpdate i st m) = (st = ''done'' \<longrightarrow> D i m)"
| "allowed D _ = True"

lemma record_run_adds [simp]: "adds P w (snd (record_run env i r st d w))"
  by (simp add: record_run_def Let_def)

lemma report_run_adds: "adds (allowed D) w (snd (report_run env i r st d w))"
  by (auto simp: report_run_def intro!: tracked_adds)

lemma post_upgrade_adds: "adds (allowed D) w (snd (post_upgrade env i r st d w))"
  by (auto simp: post_upgrade_def report_run_adds intro!: tracked_adds split: option.split)

lemma after_workflow_adds:
  assumes "hc_quality_threshold (he_config env) \<le> final_score_of r
    \<Longrightarrow> D i (Some (format_success_comment (final_output_of r) (final_score_of r)))"
  shows "adds (allowed D) w (snd (after_workflow env i r d w))"
proof -
  have "adds (allowed D) w (snd (post_results env i r d w))" for w
  proof (cases "final_score_of r \<ge> hc_quality_threshold (he_config env)")
    case True
    then show ?thesis using assms unfolding post_results_def Let_def by (auto intro!: tracked_adds post_upgrade_adds)
  next
    case False
    then show ?thesis unfolding post_results_def Let_def by (auto intro!: tracked_adds post_upgrade_adds)
  qed
  then show ?thesis unfolding after_workflow_def Let_def by (auto intro!: tracked_adds)
qed

lemma stop_monitors_adds: "adds (allowed D) w (snd rw) \<Longrightarrow> adds (allowed D) w (snd (stop_monitors rw))"
  unfolding stop_monitors_def by (auto intro: adds_trans [where ?w1.0 = "snd rw"])

lemma adds_counted: "adds P (counted n l w) w' \<longleftrightarrow> adds P w w'"
  by (simp add: adds_def)

lemma handle_end_adds:
  assumes "\<And>r. e = Completed r \<Longrightarrow> hc_quality_threshold (he_config env) \<le> final_score_of r
    \<Longrightarrow> D i (Some (format_success_comment (final_output_of r) (final_score_of r)))"
  shows "adds (allowed D) w (snd (handle_end env i run e w))"
proof (cases e)
  case (Completed r)
  then have "adds (allowed D) (log_call CStopPoller w) (snd (after_workflow env i r (wn_duration run) (log_call CStopPoller w)))"
    using assms by (intro after_workflow_adds) auto
  then have "adds (allowed D) w (snd (after_workflow env i r (wn_duration run) (log_call CStopPoller w)))"
    by (rule adds_trans [rotated]) simp
  then show ?thesis using Completed by (simp add: handle_end_def)
qed (simp_all add: handle_end_def, (rule stop_monitors_adds, subst adds_counted [symmetric], rule posted_adds,
      auto split: option.split)+)

lemma workflow_outcome_cases:
  "workflow_outcome env i run w = (e, w1) \<Longrightarrow> (e = wn_end run \<or> (\<exists>m. e = Crashed m)) \<and> adds (allowed D) w w1"
  using post_progress_adds [of "allowed D" i w "he_api env" "wn_nodes run"]
  by (auto simp: workflow_outcome_def split: prod.splits option.splits)

lemma orchestrated_adds: "adds (allowed D) w (snd (orchestrated env full reply w))"
  by (auto simp: orchestrated_def adds_def split: prod.split)

lemma work_on_adds: "adds (allowed (approved env (hb_identity w) i full comments)) w (snd (work_on env i full comments w))"
proof -
  let ?D = "approved env (hb_identity w) i full comments" and ?reply = "reply_in env full comments"
  have run: "adds (allowed ?D) w (snd (case workflow_outcome env i (he_workflow env args) w of
      (e, w1) \<Rightarrow> handle_end env i (he_workflow env args) e w1))"
    if "args = request_args env (hb_identity w) i req ?reply tier"
      and "build_user_request (he_repr env) None full comments ?reply = Inr (req, n)" and "complexity_of full = Inr tier"
      and "resolve_task_type (he_getenv env) (hc_task_type (he_config env)) \<noteq> ''orchestrator''" for args req n tier
  proof -
    obtain e w1 where o: "workflow_outcome env i (he_workflow env args) w = (e, w1)" by fastforce
    note oc = workflow_outcome_cases [OF o, of ?D]
    have "?D i (Some (format_success_comment (final_output_of r) (final_score_of r)))"
      if "e = Completed r" "hc_quality_threshold (he_config env) \<le> final_score_of r" for r
    proof -
      have "wn_end (he_workflow env (request_args env (hb_identity w) i req ?reply tier)) = Completed r"
        using oc that(1) \<open>args = _\<close> by auto
      then show ?thesis
        using that(2) \<open>build_user_request _ _ _ _ _ = _\<close> \<open>complexity_of full = _\<close> \<open>resolve_task_type _ _ \<noteq> _\<close>
        unfolding approved_def by blast
    qed
    then have "adds (allowed ?D) w1 (snd (handle_end env i (he_workflow env args) e w1))" by (rule handle_end_adds)
    with oc have "adds (allowed ?D) w (snd (handle_end env i (he_workflow env args) e w1))" by (blast intro: adds_trans)
    then show ?thesis using o by simp
  qed
  show ?thesis
  proof (cases "build_user_request (he_repr env) None full comments ?reply")
    case (Inl e)
    then show ?thesis by (simp add: work_on_def Let_def)
  next
    case (Inr p)
    obtain req n where p: "p = (req, n)" by fastforce
    show ?thesis
    proof (cases "resolve_task_type (he_getenv env) (hc_task_type (he_config env)) = ''orchestrator''")
      case True
      then show ?thesis using Inr p by (simp add: work_on_def Let_def orchestrated_adds)
    next
      case False
      show ?thesis
      proof (cases "complexity_of full")
        case (Inr tier)
        then show ?thesis using run [OF refl, of req n tier] \<open>build_user_request _ _ _ _ _ = _\<close> p False by (simp add: work_on_def Let_def)
      qed (use Inr p False in \<open>simp add: work_on_def Let_def\<close>)
    qed
  qed
qed

text \<open>The same, with the issue and the comments the server answered with.\<close>

definition fetched :: "heartbeat_env \<Rightarrow> agent_info \<Rightarrow> json \<Rightarrow> api_call list \<Rightarrow> json \<Rightarrow> string option \<Rightarrow> bool" where
  "fetched env ident i before j m \<longleftrightarrow>
     (\<exists>full comments. pa_issue (he_api env) (before @ [CGetIssue i]) = Inr full
        \<and> pa_comments (he_api env) (before @ [CGetIssue i, CGetComments i]) = Inr comments
        \<and> approved env ident i full comments j m)"

lemma execute_adds: "adds (allowed (fetched env (hb_identity w) i (hb_calls w))) w (snd (execute_checked_out_task env i w))"
proof -
  let ?D = "fetched env (hb_identity w) i (hb_calls w)"
  let ?w1 = "log_call (CGetIssue i) w"
  let ?w2 = "log_call (CGetComments i) ?w1"
  let ?w3 = "counted ''vibe_paperclip_api_calls_total'' ''get_comments'' (counted ''vibe_paperclip_api_calls_total'' ''get_issue'' ?w2)"
  have steps: "adds (allowed ?D) w ?w1" "adds (allowed ?D) w ?w2" "adds (allowed ?D) w ?w3" by (auto simp: adds_def)
  have work: "adds (allowed ?D) w (snd (work_on env i full comments ?w3))"
    if "pa_issue (he_api env) (hb_calls ?w1) = Inr full" "pa_comments (he_api env) (hb_calls ?w2) = Inr comments" for full comments
  proof (rule adds_trans [OF steps(3)], rule adds_mono [OF work_on_adds])
    fix c assume "allowed (approved env (hb_identity ?w3) i full comments) c"
    then show "allowed ?D c" using that by (cases c) (auto simp: fetched_def)
  qed
  show ?thesis
  proof (cases "pa_issue (he_api env) (hb_calls ?w1)")
    case (Inl e)
    then show ?thesis using steps(1) by (simp add: execute_checked_out_task_def Let_def adds_def)
  next
    case (Inr full)
    show ?thesis
    proof (cases "pa_comments (he_api env) (hb_calls ?w2)")
      case (Inl e)
      then show ?thesis using steps(2) Inr by (simp add: execute_checked_out_task_def Let_def adds_def)
    next
      case comments: (Inr comments)
      then show ?thesis using work [OF Inr comments] Inr by (simp add: execute_checked_out_task_def Let_def)
    qed
  qed
qed

section \<open>The checkout\<close>

text \<open>An issue is claimed when the server answered one of the checkouts of it with success.\<close>

definition claimed :: "paperclip_api \<Rightarrow> api_call list \<Rightarrow> json \<Rightarrow> bool" where
  "claimed api cs i \<longleftrightarrow>
     (\<exists>h t. cs = h @ t \<and> h \<noteq> [] \<and> last h = CCheckout i \<and> pa_checkout api h = Inr True)"

lemma claimed_Nil [simp]: "\<not> claimed api [] i"
  by (simp add: claimed_def)

lemma claimed_snoc:
  "claimed api (cs @ [c]) i \<longleftrightarrow> claimed api cs i \<or> c = CCheckout i \<and> pa_checkout api (cs @ [c]) = Inr True"
proof
  assume "claimed api (cs @ [c]) i"
  then obtain h t where h: "cs @ [c] = h @ t" "h \<noteq> []" "last h = CCheckout i" "pa_checkout api h = Inr True"
    by (auto simp: claimed_def)
  show "claimed api cs i \<or> c = CCheckout i \<and> pa_checkout api (cs @ [c]) = Inr True"
  proof (cases t rule: rev_cases)
    case Nil
    then show ?thesis using h by auto
  next
    case (snoc t' x)
    then have "cs = h @ t'" using h(1) by simp
    then show ?thesis using h by (auto simp: claimed_def)
  qed
next
  assume "claimed api cs i \<or> c = CCheckout i \<and> pa_checkout api (cs @ [c]) = Inr True"
  then show "claimed api (cs @ [c]) i"
  proof
    assume "claimed api cs i"
    then obtain h t where "cs = h @ t" "h \<noteq> []" "last h = CCheckout i" "pa_checkout api h = Inr True"
      by (auto simp: claimed_def)
    then have "cs @ [c] = h @ (t @ [c]) \<and> h \<noteq> [] \<and> last h = CCheckout i \<and> pa_checkout api h = Inr True" by simp
    then show ?thesis unfolding claimed_def by blast
  next
    assume "c = CCheckout i \<and> pa_checkout api (cs @ [c]) = Inr True"
    then have "cs @ [c] = (cs @ [c]) @ [] \<and> cs @ [c] \<noteq> [] \<and> last (cs @ [c]) = CCheckout i
        \<and> pa_checkout api (cs @ [c]) = Inr True" by auto
    then show ?thesis unfolding claimed_def by blast
  qed
qed

lemma claimed_append: "\<forall>c \<in> set ds. \<forall>j. c \<noteq> CCheckout j \<Longrightarrow> claimed api (cs @ ds) i \<longleftrightarrow> claimed api cs i"
  by (induction ds rule: rev_induct) (auto simp: claimed_snoc simp flip: append_assoc)

fun early :: "api_call \<Rightarrow> bool" where
  "early CIdentity = True"
| "early CRegister = True"
| "early CAssignments = True"
| "early (CCheckout _) = True"
| "early CWsStart = True"
| "early _ = False"

definition unclaimed :: "heartbeat_env \<Rightarrow> heartbeat_world \<Rightarrow> bool" where
  "unclaimed env w \<longleftrightarrow> (\<forall>c \<in> set (hb_calls w). early c) \<and> (\<forall>i. \<not> claimed (he_api env) (hb_calls w) i)"

definition claimed_by :: "heartbeat_env \<Rightarrow> json \<Rightarrow> heartbeat_world \<Rightarrow> bool" where
  "claimed_by env i w \<longleftrightarrow> (\<forall>c \<in> set (hb_calls w). early c) \<and> (\<forall>j. claimed (he_api env) (hb_calls w) j \<longleftrightarrow> j = i)"

lemma unclaimed_log: "unclaimed env w \<Longrightarrow> early c \<Longrightarrow> (\<And>i. c \<noteq> CCheckout i) \<Longrightarrow> unclaimed env (log_call c w)"
  by (auto simp: unclaimed_def claimed_snoc)

text \<open>A heartbeat either never claims an issue or comes down to the work on the one it claimed.\<close>

definition hb_settled :: "heartbeat_env \<Rightarrow> (py_exn + heartbeat_result) \<times> heartbeat_world \<Rightarrow> bool" where
  "hb_settled env rw \<longleftrightarrow> unclaimed env (snd rw) \<or> (\<exists>i w1. claimed_by env i w1 \<and> run_claimed env i w1 = rw)"

lemma hb_settledI: "unclaimed env w \<Longrightarrow> hb_calls (snd rw) = hb_calls w \<Longrightarrow> hb_settled env rw"
  by (auto simp: hb_settled_def unclaimed_def)

lemma claim_first_cases:
  "unclaimed env w \<Longrightarrow> claim_first (he_api env) cs w = (res, w') \<Longrightarrow>
    (case res of Inr (Some c) \<Rightarrow> c \<in> set cs \<and> claimed_by env (is_id c) w' | _ \<Rightarrow> unclaimed env w')"
proof (induction "he_api env" cs w rule: claim_first.induct)
  case (2 c cs w)
  let ?w1 = "log_call (CCheckout (is_id c)) w"
  have e: "\<forall>x \<in> set (hb_calls ?w1). early x" using 2(3) by (auto simp: unclaimed_def)
  show ?case
  proof (cases "pa_checkout (he_api env) (hb_calls ?w1)")
    case (Inl e')
    have u: "unclaimed env ?w1"
      using 2(3) e Inl by (auto simp: unclaimed_def claimed_snoc)
    show ?thesis
    proof (cases "is_api_error e'")
      case True
      have "unclaimed env (counted ''vibe_paperclip_api_errors_total'' ''checkout'' ?w1)"
        using u by (simp add: unclaimed_def)
      from 2(1) [OF refl Inl True this] show ?thesis
        using 2(4) Inl True by (auto simp: Let_def split: sum.splits option.splits)
    qed (use 2(4) Inl u in \<open>auto simp: Let_def\<close>)
  next
    case (Inr b)
    show ?thesis
    proof (cases b)
      case True
      have "claimed_by env (is_id c) ?w1"
        using 2(3) e Inr True by (auto simp: claimed_by_def unclaimed_def claimed_snoc)
      then show ?thesis using 2(4) Inr True by (auto simp: Let_def)
    next
      case False
      have u: "unclaimed env ?w1"
        using 2(3) e Inr False by (auto simp: unclaimed_def claimed_snoc)
      have c: "claim_first (he_api env) cs ?w1 = (res, w')" using 2(4) Inr False by (simp add: Let_def)
      have "case res of Inr (Some c) \<Rightarrow> c \<in> set cs \<and> claimed_by env (is_id c) w' | _ \<Rightarrow> unclaimed env w'"
        by (rule 2(2) [OF refl Inr _ u c]) (simp add: False)
      then show ?thesis by (auto split: sum.splits option.splits)
    qed
  qed
qed auto

lemma finished_hb_settled: "unclaimed env w \<Longrightarrow> hb_settled env (finished r w)"
  by (rule hb_settledI) (simp_all add: finished_def)

lemma pick_work_hb_settled: "unclaimed env w \<Longrightarrow> hb_settled env (pick_work env w)"
proof -
  assume "unclaimed env w"
  then have u: "unclaimed env (log_call CAssignments w)" by (simp add: unclaimed_log)
  have idle: "hb_settled env (idle env m w1)" if "unclaimed env w1" for m w1
    using that by (intro hb_settledI [of env w1]) (simp_all add: idle_def finished_def)
  show ?thesis
  proof (cases "pa_assignments (he_api env) (hb_calls (log_call CAssignments w))")
    case (Inl e)
    then show ?thesis
      using u by (intro hb_settledI [of env "log_call CAssignments w"])
        (simp_all add: pick_work_def failed_early_def finished_def Let_def)
  next
    case (Inr as)
    show ?thesis
    proof (cases "as = [] \<or> rank_tasks (he_getenv env) as = []")
      case True
      then show ?thesis using Inr idle [OF u] by (auto simp: pick_work_def Let_def)
    next
      case False
      obtain res w2 where c: "claim_first (he_api env) (rank_tasks (he_getenv env) as) (log_call CAssignments w) = (res, w2)"
        by fastforce
      note cases = claim_first_cases [OF u c]
      have "pick_work env w = (case res of Inl e \<Rightarrow> (Inl e, w2)
          | Inr None \<Rightarrow> idle env ''No tasks available for checkout'' w2
          | Inr (Some x) \<Rightarrow> run_claimed env (is_id x) w2)"
        using Inr False c by (auto simp: pick_work_def Let_def split: sum.split option.split)
      then show ?thesis
        using cases idle by (auto simp: hb_settled_def split: sum.splits option.splits)
    qed
  qed
qed

lemma connect_hb_settled: "unclaimed env w \<Longrightarrow> hb_settled env (connect env auto w)"
proof -
  assume u0: "unclaimed env w"
  then have u: "unclaimed env (log_call CIdentity w)" by (simp add: unclaimed_log)
  define w2 where "w2 ident = (if he_ws env then log_call CWsStart ((log_call CIdentity w)\<lparr>hb_identity := ident\<rparr>)
      else (log_call CIdentity w)\<lparr>hb_identity := ident\<rparr>)" for ident
  have u1: "unclaimed env ((log_call CIdentity w)\<lparr>hb_identity := ident\<rparr>)" for ident
    using u by (simp add: unclaimed_def)
  then have u2: "unclaimed env (w2 ident)" for ident by (simp add: w2_def unclaimed_log)
  then have u3: "unclaimed env (log_call CRegister (w2 ident))" for ident by (simp add: unclaimed_log)
  then have u4: "unclaimed env ((log_call CRegister (w2 ident))\<lparr>hb_run_id := i\<rparr>)" for ident i
    by (simp add: unclaimed_def)
  have early: "hb_settled env (failed_early s e (log_call CIdentity w))" for s e
    using u by (intro hb_settledI [of env "log_call CIdentity w"]) (simp_all add: failed_early_def finished_def)
  have now: "hb_settled env (Inl e, w')" if "unclaimed env w'" for e w' using that by (simp add: hb_settled_def)
  show ?thesis
    unfolding connect_def Let_def w2_def [symmetric]
    using u0 u2 u3 u4 early now
    by (auto intro!: finished_hb_settled pick_work_hb_settled split: option.split py_exn.split sum.split list.split)
qed

lemma start_run_hb_settled: "unclaimed env w \<Longrightarrow> hb_settled env (start_run env w)"
  unfolding start_run_def Let_def
  by (auto intro!: connect_hb_settled finished_hb_settled simp: unclaimed_def)

lemma run_heartbeat_hb_settled:
  assumes "hb_calls w = []"
  shows "hb_settled env (run_heartbeat env w)"
proof -
  have u: "unclaimed env w'" if "hb_calls w' = []" for w' using that by (simp add: unclaimed_def)
  show ?thesis
    unfolding run_heartbeat_def Let_def
    using assms by (auto intro!: start_run_hb_settled finished_hb_settled u split: option.split prod.split)
qed

lemma release_after_calls:
  "\<exists>ds. (\<forall>c \<in> set ds. allowed D c)
    \<and> hb_calls (snd (release_after env i rw)) = hb_calls (snd rw) @ ds @ [CRelease i]
    \<and> hb_identity (snd (release_after env i rw)) = hb_identity (snd rw)"
proof -
  define w1 where "w1 = (if he_ws env then log_call CWsStop (snd rw) else snd rw)"
  define w2 where "w2 = (if hc_cleanup_messages (he_config env) \<or> hc_backfill_messages (he_config env)
      then log_call CMessages w1 else w1)"
  have "snd (release_after env i rw) = log_call (CRelease i) (log_call CCache w2)"
    unfolding release_after_def Let_def w1_def [symmetric] w2_def [symmetric]
    by (subst attempt_eq) (simp split: sum.split)
  moreover have "\<exists>ds. (\<forall>c \<in> set ds. allowed D c) \<and> hb_calls w2 = hb_calls (snd rw) @ ds" "hb_identity w2 = hb_identity (snd rw)"
    by (auto simp: w1_def w2_def)
  ultimately show ?thesis by force
qed

text \<open>The calls of a claimed issue's work, between the claim and the release, unless marking the issue as in progress raises
  an error other than an API error.\<close>

lemma run_claimed_calls:
  assumes "run_claimed env i w = (r, w')"
  shows "\<exists>cs. (\<forall>c \<in> set cs. allowed (fetched env (hb_identity w') i (hb_calls w @ [CUpdate i ''in_progress'' None])) c)
    \<and> (hb_calls w' = hb_calls w @ CUpdate i ''in_progress'' None # cs @ [CRelease i]
      \<or> hb_calls w' = hb_calls w @ [CUpdate i ''in_progress'' None] \<and> cs = [] \<and> (\<exists>e. r = Inl e \<and> \<not> is_api_error e))"
proof (cases "fst (attempt (he_api env) (CUpdate i ''in_progress'' None) w)")
  case (Inl e)
  then have a: "attempt (he_api env) (CUpdate i ''in_progress'' None) w = (Inl e, log_call (CUpdate i ''in_progress'' None) w)"
    using attempt_eq by metis
  then have "w' = log_call (CUpdate i ''in_progress'' None) w" "r = Inl e" using assms by (simp_all add: run_claimed_def)
  moreover have "\<not> is_api_error e"
    using Inl by (auto simp: attempt_def Let_def split: sum.splits if_splits)
  ultimately show ?thesis by (intro exI [of _ "[]"]) auto
next
  case (Inr b)
  let ?w1 = "log_call (CUpdate i ''in_progress'' None) w"
  let ?D = "fetched env (hb_identity w) i (hb_calls ?w1)"
  have a: "attempt (he_api env) (CUpdate i ''in_progress'' None) w = (Inr b, ?w1)"
    using attempt_eq Inr by metis
  let ?x = "case execute_checked_out_task env i ?w1 of (Inl e, w2) \<Rightarrow> (Inl e, w2) | (Inr r, w2) \<Rightarrow> finished r w2"
  have calls: "hb_calls (snd ?x) = hb_calls (snd (execute_checked_out_task env i ?w1))"
    "hb_identity (snd ?x) = hb_identity (snd (execute_checked_out_task env i ?w1))"
    by (simp_all add: finished_def split: prod.split sum.split)
  have ex: "adds (allowed ?D) ?w1 (snd (execute_checked_out_task env i ?w1))" using execute_adds [of env ?w1 i] by simp
  then have ident: "hb_identity (snd ?x) = hb_identity w" using calls(2) by (simp add: adds_def)
  obtain cs where cs: "hb_calls (snd ?x) = hb_calls ?w1 @ cs" "\<forall>c \<in> set cs. allowed ?D c"
    using ex calls(1) by (auto simp: adds_def)
  define y where "y = release_after env i ?x"
  have "y = (r, w')" using assms a by (simp add: run_claimed_def y_def)
  then have w': "w' = snd (release_after env i ?x)" by (simp flip: y_def)
  obtain ds where ds: "\<forall>c \<in> set ds. allowed ?D c" "hb_calls w' = hb_calls (snd ?x) @ ds @ [CRelease i]"
    "hb_identity w' = hb_identity (snd ?x)"
    using release_after_calls [of ?D env i ?x] w' by blast
  have "hb_calls w' = hb_calls w @ CUpdate i ''in_progress'' None # (cs @ ds) @ [CRelease i]" unfolding ds(2) cs(1) by simp
  moreover have "\<forall>c \<in> set (cs @ ds). allowed ?D c" using cs(2) ds(1) by auto
  moreover have "hb_identity w' = hb_identity w" using ds(3) ident by simp
  ultimately show ?thesis by (intro exI [of _ "cs @ ds"]) simp
qed

section \<open>The ledger\<close>

definition quiet_statuses :: "string set" where
  "quiet_statuses = {''failed'', ''cancelled'', ''clarification_needed'', ''circuit_breaker''}"

definition silent :: "heartbeat_world \<Rightarrow> (py_exn + heartbeat_result) \<times> heartbeat_world \<Rightarrow> bool" where
  "silent w rw \<longleftrightarrow> (\<forall>r. fst rw = Inr r \<longrightarrow> hr_status r \<in> quiet_statuses
     \<longrightarrow> lg_events (hb_ledger (snd rw)) = lg_events (hb_ledger w))"

lemma silentI: "hb_ledger (snd rw) = hb_ledger w \<Longrightarrow> silent w rw"
  by (simp add: silent_def)

lemma posted_silent:
  assumes "\<And>w1. hb_ledger w1 = hb_ledger w \<Longrightarrow> silent w (k w1)"
  shows "silent w (posted env c k w)"
  using assms [of "log_call c w"] by (subst posted_def, subst attempt_eq) (auto simp: silent_def split: sum.split)

lemma tracked_silent:
  assumes "\<And>w1. hb_ledger w1 = hb_ledger w \<Longrightarrow> silent w (k w1)"
  shows "silent w (tracked env c k w)"
proof -
  have "silent w (k (counted_call c ok (log_call c w)))" for ok by (rule assms) simp
  then show ?thesis by (subst tracked_def, subst attempt_eq) (auto simp: silent_def split: sum.split)
qed

lemma silent_frame: "hb_ledger w' = hb_ledger w \<Longrightarrow> silent w' rw \<Longrightarrow> silent w rw"
  by (simp add: silent_def)

lemma loud_silent:
  "(\<And>r. fst rw = Inr r \<Longrightarrow> hr_status r \<notin> quiet_statuses) \<Longrightarrow> silent w rw"
  by (auto simp: silent_def)

lemma status_of_records [simp]:
  "hr_status (run_result env i r st c) = st" "hr_status (plain_result st i m x) = st"
  by (simp_all add: run_result_def plain_result_def)

lemma recorded_silent:
  assumes "st \<notin> quiet_statuses"
  shows "silent w (post_upgrade env i r st d w1)"
proof -
  have rec: "silent w (record_run env i r st d w2)" for w2
    using assms by (intro loud_silent) (auto simp: record_run_def Let_def)
  have tr: "silent w (tracked env c k w2)" if "\<And>w3. silent w (k w3)" for c k w2
    using that by (subst tracked_def, subst attempt_eq) (auto simp: silent_def split: sum.split)
  have "silent w (report_run env i r st d w2)" for w2
    unfolding report_run_def using rec tr by simp
  then show ?thesis unfolding post_upgrade_def using tr by (simp split: option.split)
qed

lemma after_workflow_silent: "silent w (after_workflow env i r d w)"
proof -
  have q: "''success'' \<notin> quiet_statuses" "''blocked'' \<notin> quiet_statuses"
    by (simp_all add: quiet_statuses_def)
  have "silent w (post_results env i r d w)"
    unfolding post_results_def Let_def by (auto intro!: tracked_silent recorded_silent q)
  moreover have "silent w (tracked env c (\<lambda>w1. (x, w1)) w)" for c x
    by (rule tracked_silent) (simp add: silent_def)
  ultimately show ?thesis unfolding after_workflow_def Let_def by simp
qed

lemma stop_monitors_silent: "silent w rw \<Longrightarrow> silent w (stop_monitors rw)"
  by (simp add: silent_def stop_monitors_def)

lemma handle_end_silent: "silent w (handle_end env i run e w)"
proof (cases e)
  case (Completed r)
  have "silent (log_call CStopPoller w) (after_workflow env i r (wn_duration run) (log_call CStopPoller w))"
    by (rule after_workflow_silent)
  then have "silent w (after_workflow env i r (wn_duration run) (log_call CStopPoller w))"
    by (rule silent_frame [rotated]) simp
  then show ?thesis using Completed by (simp add: handle_end_def)
next
  case (BillingExhausted p c d)
  have "silent w (handle_end env i run e w)" unfolding BillingExhausted handle_end_def workflow_end.case
    by (rule stop_monitors_silent, rule silent_frame [of "counted ''vibe_heartbeat_total'' ''billing_exhausted'' w"],
        simp, rule posted_silent) (simp add: silent_def)
  then show ?thesis .
next
  case (Cancelled m)
  show ?thesis unfolding Cancelled handle_end_def workflow_end.case
    by (rule stop_monitors_silent, rule silent_frame [of "counted ''vibe_heartbeat_total'' ''cancelled'' w"],
        simp, rule posted_silent) (simp add: silent_def)
next
  case Sigterm
  show ?thesis unfolding Sigterm handle_end_def workflow_end.case
    by (rule stop_monitors_silent, rule silent_frame [of "counted ''vibe_heartbeat_total'' ''sigterm'' w"],
        simp, rule posted_silent) (simp add: silent_def)
next
  case (Crashed m)
  show ?thesis unfolding Crashed handle_end_def workflow_end.case
    by (rule stop_monitors_silent, rule silent_frame [of "counted ''vibe_heartbeat_total'' ''workflow_error'' w"],
        simp, rule posted_silent) (simp add: silent_def)
qed

lemma post_progress_ledger [simp]: "hb_ledger (snd (post_progress api i ns w)) = hb_ledger w"
proof (induction api i ns w rule: post_progress.induct)
  case (2 api i node s ns w)
  show ?case
  proof (cases "progress_comment node s")
    case (Some c)
    have a: "attempt api (CComment i c) w = (fst (attempt api (CComment i c) w), log_call (CComment i c) w)"
      by (rule attempt_eq)
    show ?thesis
    proof (cases "fst (attempt api (CComment i c) w)")
      case (Inr b)
      with a have ab: "attempt api (CComment i c) w = (Inr b, log_call (CComment i c) w)" by simp
      show ?thesis using 2(2) [OF Some ab [symmetric] refl] Some ab by simp
    next
      case (Inl e)
      with a have "attempt api (CComment i c) w = (Inl e, log_call (CComment i c) w)" by simp
      then show ?thesis using Some by simp
    qed
  qed (use 2 in simp)
qed simp

lemma workflow_outcome_ledger: "workflow_outcome env i run w = (e, w1) \<Longrightarrow> hb_ledger w1 = hb_ledger w"
  using post_progress_ledger [of "he_api env" i "wn_nodes run" w]
  by (cases "post_progress (he_api env) i (wn_nodes run) w")
    (auto simp: workflow_outcome_def split: option.splits)

lemma work_on_silent: "silent w (work_on env i full comments w)"
proof -
  have run: "silent w (case workflow_outcome env i (he_workflow env args) w of
      (e, w1) \<Rightarrow> handle_end env i (he_workflow env args) e w1)" for args
  proof -
    obtain e w1 where o: "workflow_outcome env i (he_workflow env args) w = (e, w1)" by fastforce
    have "silent w (handle_end env i (he_workflow env args) e w1)"
      by (rule silent_frame [OF workflow_outcome_ledger [OF o] handle_end_silent])
    then show ?thesis using o by simp
  qed
  have same [simp]: "silent w (x, w)" for x by (simp add: silent_def)
  have orch: "silent w (orchestrated env full reply w)" for reply
    by (simp add: orchestrated_def silent_def split: prod.split)
  show ?thesis
  proof (cases "build_user_request (he_repr env) None full comments (reply_in env full comments)")
    case (Inl e)
    then show ?thesis by (simp add: work_on_def Let_def)
  next
    case (Inr p)
    then show ?thesis
      by (cases p, cases "complexity_of full") (auto simp: work_on_def Let_def run orch)
  qed
qed

lemma execute_silent: "silent w (execute_checked_out_task env i w)"
proof -
  have "silent w (work_on env i full comments (counted n1 l1 (counted n2 l2
      (log_call (CGetComments i) (log_call (CGetIssue i) w)))))" for full comments n1 l1 n2 l2
    by (rule silent_frame [OF _ work_on_silent]) simp
  moreover have "hb_ledger (log_call (CGetComments i) (log_call (CGetIssue i) w)) = hb_ledger w" by simp
  ultimately show ?thesis
    unfolding execute_checked_out_task_def Let_def by (auto intro!: silentI split: sum.split)
qed

lemma release_after_ledger: "hb_ledger (snd (release_after env i rw)) = hb_ledger (snd rw)"
  unfolding release_after_def Let_def by (subst attempt_eq) (simp split: sum.split)

lemma release_after_result: "fst (release_after env i rw) = Inr r \<Longrightarrow> fst rw = Inr r"
  unfolding release_after_def Let_def by (subst (asm) attempt_eq) (simp split: sum.splits)

lemma run_claimed_silent: "silent w (run_claimed env i w)"
proof -
  let ?w1 = "log_call (CUpdate i ''in_progress'' None) w"
  let ?x = "case execute_checked_out_task env i ?w1 of (Inl e, w2) \<Rightarrow> (Inl e, w2) | (Inr r, w2) \<Rightarrow> finished r w2"
  have "silent ?w1 (execute_checked_out_task env i ?w1)" by (rule execute_silent)
  then have x: "silent w ?x" by (auto simp: silent_def finished_def finish_def split: prod.split sum.split)
  have "silent w (release_after env i ?x)"
    unfolding silent_def
  proof (intro allI impI)
    fix r assume "fst (release_after env i ?x) = Inr r" "hr_status r \<in> quiet_statuses"
    then have "lg_events (hb_ledger (snd ?x)) = lg_events (hb_ledger w)"
      using release_after_result x unfolding silent_def by blast
    then show "lg_events (hb_ledger (snd (release_after env i ?x))) = lg_events (hb_ledger w)"
      by (simp only: release_after_ledger)
  qed
  then show ?thesis
    unfolding run_claimed_def by (subst attempt_eq) (auto simp: silent_def split: sum.split)
qed

lemma silent_error [simp]: "silent w (Inl e, w')"
  by (simp add: silent_def)

lemma idle_silent [simp]: "silent w (idle env m w1)"
  by (simp add: idle_def finished_def silent_def quiet_statuses_def)

lemma finished_silent: "hb_ledger w1 = hb_ledger w \<Longrightarrow> silent w (finished r w1)"
  by (simp add: finished_def finish_def silent_def)

lemma failed_early_silent: "hb_ledger w1 = hb_ledger w \<Longrightarrow> silent w (failed_early s e w1)"
  by (simp add: failed_early_def finished_silent)

lemma claim_first_ledger: "hb_ledger (snd (claim_first api cs w)) = hb_ledger w"
  by (induction cs arbitrary: w) (simp_all add: Let_def split: sum.split bool.split)

lemma pick_work_silent: "silent w (pick_work env w)"
proof (cases "pa_assignments (he_api env) (hb_calls (log_call CAssignments w))")
  case (Inl e)
  then show ?thesis by (simp add: pick_work_def failed_early_silent)
next
  case (Inr as)
  obtain res w2 where c: "claim_first (he_api env) (rank_tasks (he_getenv env) as) (log_call CAssignments w) = (res, w2)"
    by fastforce
  have l: "hb_ledger w2 = hb_ledger w"
    using claim_first_ledger [of "he_api env" "rank_tasks (he_getenv env) as" "log_call CAssignments w"] c by simp
  have "silent w (run_claimed env i w2)" for i by (rule silent_frame [OF l run_claimed_silent])
  then show ?thesis using Inr c by (simp add: pick_work_def Let_def split: sum.split option.split)
qed

lemma connect_silent: "silent w (connect env auto w)"
proof -
  have p: "silent w (pick_work env w1)" if "hb_ledger w1 = hb_ledger w" for w1
    by (rule silent_frame [OF that pick_work_silent])
  show ?thesis
    unfolding connect_def Let_def
    by (simp add: finished_silent failed_early_silent p split: option.split py_exn.split sum.split list.split)
qed

lemma start_run_silent: "silent w (start_run env w)"
proof -
  have "silent w (connect env auto w1)" if "hb_ledger w1 = hb_ledger w" for auto w1
    by (rule silent_frame [OF that connect_silent])
  then show ?thesis unfolding start_run_def Let_def by (auto intro!: finished_silent)
qed

lemma check_events: "check_circuit_breaker cfg ok now L = (st, L') \<Longrightarrow> lg_events L' = lg_events L"
  by (auto simp: check_circuit_breaker_def split: if_splits option.splits circuit_state.splits)

lemma run_heartbeat_silent: "silent w (run_heartbeat env w)"
proof -
  let ?w = "counted ''vibe_heartbeat_total'' ''started'' w"
  have s: "silent w (start_run env (?w\<lparr>hb_ledger := L\<rparr>))" if "lg_events L = lg_events (hb_ledger w)" for L
    using start_run_silent [of "?w\<lparr>hb_ledger := L\<rparr>" env] that by (simp add: silent_def)
  have s0: "silent w (start_run env ?w)" by (rule silent_frame [OF _ start_run_silent]) simp
  have f: "silent w (finished r (counted n l (?w\<lparr>hb_ledger := L\<rparr>)))" if "lg_events L = lg_events (hb_ledger w)" for r n l L
    using that by (simp add: silent_def finished_def finish_def)
  show ?thesis
    unfolding run_heartbeat_def Let_def
    using s s0 f check_events finished_silent [of "?w" w] by (simp split: option.split prod.split)
qed

section \<open>The wait for the server\<close>

lemma wait_loop_ends:
  assumes "\<forall>k. 0 \<le> took k" and "1 \<le> max_delay" and "1 \<le> delay" and "deadline - now \<le> real fuel" and "now \<le> deadline"
    and "\<forall>j < k. \<not> ok j"
  shows "\<exists>b k' t. wait_loop ok took deadline max_delay (Suc fuel) k now delay = Some (b, k', t)
    \<and> k \<le> k' \<and> k' \<le> k + fuel \<and> (\<forall>j < k'. \<not> ok j) \<and> (b \<longrightarrow> ok k') \<and> (\<not> b \<longrightarrow> deadline \<le> t)
    \<and> t \<le> deadline + took k'"
  using assms(3-6)
proof (induction fuel arbitrary: k now delay)
  case 0
  then show ?case using assms(1) [rule_format, of k] by (intro exI [of _ False]) simp
next
  case (Suc fuel)
  have took: "0 \<le> took k" using assms(1) by simp
  show ?case
  proof (cases "now < deadline \<and> \<not> ok k \<and> now + took k < deadline")
    case False
    then show ?thesis using Suc.prems took by (cases "now < deadline"; cases "ok k") (auto simp: Let_def intro: exI [of _ True] exI [of _ False])
  next
    case True
    let ?pause = "min delay (deadline - (now + took k))"
    let ?now = "now + took k + ?pause" and ?delay = "min (delay * 2) max_delay"
    have 1: "1 \<le> ?delay" using Suc.prems(1) assms(2) by simp
    have 3: "?now \<le> deadline" by simp
    have 4: "\<forall>j < Suc k. \<not> ok j" using Suc.prems(4) True less_Suc_eq by auto
    have step: "wait_loop ok took deadline max_delay (Suc (Suc fuel)) k now delay =
        wait_loop ok took deadline max_delay (Suc fuel) (Suc k) ?now ?delay"
      using True by (simp add: Let_def)
    have 2: "deadline - ?now \<le> real fuel" using Suc.prems(1,2) took by (simp add: min_def)
    show ?thesis unfolding step using Suc.IH [OF 1 2 3 4] by force
  qed
qed

text \<open>The wait for the server ends within the steps the model grants it, whatever the probes answer and
  however long they take: at the first probe that succeeds, or with all of them failed and the two minutes
  over; it exceeds them by at most the time of one probe.\<close>
theorem wait_for_server_ends:
  assumes "\<forall>k. 0 \<le> took k"
  shows "\<exists>b k t. wait_for_server ok took 122 = Some (b, k, t) \<and> k \<le> 121 \<and> (\<forall>j < k. \<not> ok j)
    \<and> (b \<longrightarrow> ok k) \<and> (\<not> b \<longrightarrow> 120 \<le> t) \<and> t \<le> 120 + took k"
  using wait_loop_ends [of took 15 1 120 0 121 0 ok] assms by (force simp: wait_for_server_def)

theorem wait_for_server_ends_witness:
  "\<exists>b k t. wait_for_server (\<lambda>k. k = 3) (\<lambda>_. 2) 122 = Some (b, k, t) \<and> k \<le> 121 \<and> (\<forall>j < k. \<not> (j = 3))
    \<and> (b \<longrightarrow> k = 3) \<and> (\<not> b \<longrightarrow> 120 \<le> t) \<and> t \<le> 120 + 2"
  using wait_for_server_ends [of "\<lambda>_. 2" "\<lambda>k. k = 3"] by simp

section \<open>A sample server\<close>

text \<open>One issue to do; every call succeeds except, if \<open>full\<close> is an exception, that of reading the issue.\<close>

definition sample_issue :: issue where
  "sample_issue = \<lparr>is_id = JStr ''7'', is_title = JStr ''t'', is_description = JNull, is_status = JStr ''todo'',
     is_priority = JNull, is_assignee = JNull, is_parent_id = JNull, is_project_id = JNull, is_goal_id = JNull,
     is_identifier = JNull, is_ancestors = JArr [], is_comments_count = JNull\<rparr>"

definition sample_agent :: agent_info where
  "sample_agent = \<lparr>ag_id = JStr ''a'', ag_company_id = JNull, ag_name = JStr ''coder'', ag_role = JNull,
     ag_title = JNull, ag_status = JNull, ag_reports_to = JNull, ag_budget = JNull, ag_spent = JNull,
     ag_chain_of_command = JNull\<rparr>"

definition sample_api :: "py_exn + issue \<Rightarrow> paperclip_api" where
  "sample_api full = \<lparr>pa_identity = \<lambda>_. Inr sample_agent, pa_register = \<lambda>_. Inr None,
     pa_assignments = \<lambda>_. Inr [sample_issue], pa_checkout = \<lambda>_. Inr True, pa_issue = \<lambda>_. full,
     pa_comments = \<lambda>_. Inr [], pa_do = \<lambda>_. Inr ()\<rparr>"

definition hb_sample_config :: heartbeat_config where
  "hb_sample_config = \<lparr>hc_model_name = ''m'', hc_backend = ''ollama'', hc_mattermost_enabled = False,
     hc_mattermost_webhook = [], hc_api_url = ''u'', hc_api_key = [], hc_task_type = ''code'', hc_cost_reporting = False,
     hc_quality_threshold = 85, hc_cleanup_messages = False, hc_backfill_messages = False\<rparr>"

definition sample_run :: "workflow_end \<Rightarrow> workflow_run" where
  "sample_run e = \<lparr>wn_nodes = [], wn_end = e, wn_partial = empty_state, wn_partial_node = None, wn_duration = 1\<rparr>"

definition hb_sample_env :: "py_exn + issue \<Rightarrow> workflow_end \<Rightarrow> heartbeat_env" where
  "hb_sample_env full e = \<lparr>he_getenv = \<lambda>k. if k = ''PAPERCLIP_AGENT_ID'' then ''a'' else [], he_config = hb_sample_config,
     he_api = sample_api full, he_client_ok = None, he_probe_client_ok = False, he_server_ok = \<lambda>_. True,
     he_server_took = \<lambda>_. 0, he_ws = False, he_spend = None, he_check = (True, 0), he_record = (DbFine, 0, 0, 0),
     he_lock_time = 0, he_new_run_id = ''r'', he_repr = \<lambda>_. [], he_wakeup = [], he_instructions = [],
     he_workflow = \<lambda>_. sample_run e, he_orchestrator = sample_orch_env (\<lambda>_. []) [], he_orch_fuel = 0\<rparr>"

definition hb_sample_world :: heartbeat_world where
  "hb_sample_world = \<lparr>hb_calls = [], hb_counters = [],
     hb_ledger = \<lparr>lg_events = [], lg_next_id = 1, lg_breakers = []\<rparr>, hb_run_id = ''r'', hb_identity = sample_agent\<rparr>"

definition sample_output :: "int \<Rightarrow> workflow_result" where
  "sample_output score = \<lparr>wr_state = empty_state\<lparr>final_output := Some ''out'', final_score := Some score\<rparr>,
     wr_last_node = None, wr_upgrade = None, wr_input_tokens = 0, wr_output_tokens = 0\<rparr>"

lemma sample_released:
  "hb_calls (snd (run_heartbeat (hb_sample_env (Inl (api_error ''PaperclipAPIError'' 500 [])) e) hb_sample_world)) =
    [CIdentity, CAssignments, CCheckout (JStr ''7''), CUpdate (JStr ''7'') ''in_progress'' None, CGetIssue (JStr ''7''),
     CCache, CRelease (JStr ''7'')]"
  by code_simp

lemma sample_done:
  "map (\<lambda>c. case c of CUpdate i st m \<Rightarrow> CUpdate i st None | _ \<Rightarrow> c)
    (hb_calls (snd (run_heartbeat (hb_sample_env (Inr sample_issue) (Completed (sample_output 90))) hb_sample_world))) =
    [CIdentity, CAssignments, CCheckout (JStr ''7''), CUpdate (JStr ''7'') ''in_progress'' None, CGetIssue (JStr ''7''),
     CGetComments (JStr ''7''), CStopPoller, CUpdate (JStr ''7'') ''done'' None, CCache, CRelease (JStr ''7'')]"
  by code_simp

section \<open>Properties\<close>

text \<open>C3: A heartbeat that checks an issue out checks out that one only and releases it, as its very last call and only then,
  however the run ends (an exception, a cancellation, an exhausted subscription) - with one exception: when marking the issue
  as in progress, which comes before the \<open>try\<close>, raises an error other than an API error, that update is the last call and the
  heartbeat ends with the error.\<close>

theorem checkout_is_released:
  assumes "run_heartbeat env w = (r, w')" and "hb_calls w = []" and "claimed (he_api env) (hb_calls w') i"
  shows "(\<forall>j. claimed (he_api env) (hb_calls w') j \<longrightarrow> j = i) \<and> (\<forall>c \<in> set (butlast (hb_calls w')). \<forall>j. c \<noteq> CRelease j)
    \<and> (last (hb_calls w') = CRelease i
       \<or> last (hb_calls w') = CUpdate i ''in_progress'' None \<and> (\<exists>e. r = Inl e \<and> \<not> is_api_error e))"
proof -
  have "hb_settled env (r, w')" using run_heartbeat_hb_settled [OF assms(2), of env] assms(1) by simp
  then obtain j w1 where j: "claimed_by env j w1" and run: "run_claimed env j w1 = (r, w')"
    using assms(3) by (auto simp: hb_settled_def unclaimed_def)
  from run_claimed_calls [OF run] obtain cs D where cs: "\<forall>c \<in> set cs. allowed D c"
    and d: "hb_calls w' = hb_calls w1 @ CUpdate j ''in_progress'' None # cs @ [CRelease j]
      \<or> hb_calls w' = hb_calls w1 @ [CUpdate j ''in_progress'' None] \<and> cs = [] \<and> (\<exists>e. r = Inl e \<and> \<not> is_api_error e)" by blast
  have no: "\<forall>c \<in> set cs. \<forall>j. c \<noteq> CCheckout j" "\<forall>c \<in> set cs. \<forall>j. c \<noteq> CRelease j" using cs by auto
  have "claimed (he_api env) (hb_calls w') k \<longleftrightarrow> claimed (he_api env) (hb_calls w1) k" for k
    using d claimed_append [of "CUpdate j ''in_progress'' None # cs @ [CRelease j]" "he_api env" "hb_calls w1" k]
      claimed_append [of "[CUpdate j ''in_progress'' None]" "he_api env" "hb_calls w1" k] no(1) by auto
  then have only: "claimed (he_api env) (hb_calls w') k \<longleftrightarrow> k = j" for k using j by (simp add: claimed_by_def)
  then have ij: "i = j" using assms(3) by simp
  have r1: "CRelease k \<notin> set (hb_calls w1)" for k using j by (auto simp: claimed_by_def)
  have r2: "CRelease k \<notin> set cs" for k using no(2) by blast
  show ?thesis using d only ij r1 r2 by (auto simp: butlast_append)
qed

theorem checkout_is_released_witness:
  "last (hb_calls (snd (run_heartbeat (hb_sample_env (Inl (api_error ''PaperclipAPIError'' 500 [])) Sigterm) hb_sample_world)))
    = CRelease (JStr ''7'')"
proof -
  let ?env = "hb_sample_env (Inl (api_error ''PaperclipAPIError'' 500 [])) Sigterm"
  let ?w = "snd (run_heartbeat ?env hb_sample_world)"
  have c: "claimed (he_api ?env) (hb_calls ?w) (JStr ''7'')"
    unfolding sample_released claimed_def
    by (rule exI [of _ "[CIdentity, CAssignments, CCheckout (JStr ''7'')]"])
      (simp add: hb_sample_env_def sample_api_def)
  have "last (hb_calls ?w) = CRelease (JStr ''7'') \<or> last (hb_calls ?w) = CUpdate (JStr ''7'') ''in_progress'' None"
    using checkout_is_released [OF surjective_pairing _ c] by (auto simp: hb_sample_world_def)
  then show ?thesis by (simp add: sample_released)
qed

text \<open>C14: A heartbeat marks as done only the issue it has claimed, only when its agent is no orchestrator, and only after the
  workflow it ran on that issue - on the request built from the issue and the comments as the server gave them, under the
  agent's identity - completed with a score that reaches the configured threshold; the comment is the output of that run. What an
  orchestrator does to its issue is among the calls of the orchestrator, which have no threshold.\<close>

theorem done_needs_threshold:
  assumes "hb_calls w = []" and "run_heartbeat env w = (r, w')" and "CUpdate j ''done'' m \<in> set (hb_calls w')"
  shows "\<exists>i before. claimed (he_api env) (hb_calls w') i \<and> prefix before (hb_calls w') \<and> last before = CUpdate i ''in_progress'' None
    \<and> fetched env (hb_identity w') i before j m"
proof -
  have "hb_settled env (r, w')" using run_heartbeat_hb_settled [OF assms(1), of env] assms(2) by simp
  then obtain i w1 where i: "claimed_by env i w1" and run: "run_claimed env i w1 = (r, w')"
    using assms(3) by (auto simp: hb_settled_def unclaimed_def)
  let ?before = "hb_calls w1 @ [CUpdate i ''in_progress'' None]"
  let ?D = "fetched env (hb_identity w') i ?before"
  from run_claimed_calls [OF run] obtain cs where cs: "\<forall>c \<in> set cs. allowed ?D c"
    and d: "hb_calls w' = ?before @ cs @ [CRelease i] \<or> hb_calls w' = ?before \<and> cs = []" by auto
  have "CUpdate j ''done'' m \<notin> set ?before" using i by (auto simp: claimed_by_def)
  then have c: "CUpdate j ''done'' m \<in> set cs" using assms(3) d by auto
  then have D: "?D j m" using cs by fastforce
  have "claimed (he_api env) (hb_calls w') i"
  proof -
    have "\<forall>x \<in> set (CUpdate i ''in_progress'' None # cs @ [CRelease i]). \<forall>j. x \<noteq> CCheckout j" using cs by auto
    then have "claimed (he_api env) (hb_calls w1 @ CUpdate i ''in_progress'' None # cs @ [CRelease i]) i"
      using claimed_append i by (simp add: claimed_by_def)
    then show ?thesis using d c by auto
  qed
  moreover have "prefix ?before (hb_calls w')" using d by auto
  moreover have "last ?before = CUpdate i ''in_progress'' None" by simp
  ultimately show ?thesis using D by blast
qed

theorem done_needs_threshold_witness:
  "\<exists>before m. fetched (hb_sample_env (Inr sample_issue) (Completed (sample_output 90))) sample_agent (JStr ''7'') before (JStr ''7'') m"
proof -
  let ?env = "hb_sample_env (Inr sample_issue) (Completed (sample_output 90))"
  let ?cs = "hb_calls (snd (run_heartbeat ?env hb_sample_world))"
  have "CUpdate (JStr ''7'') ''done'' None \<in> set (map (\<lambda>c. case c of CUpdate i st m \<Rightarrow> CUpdate i st None | _ \<Rightarrow> c) ?cs)"
    unfolding sample_done by simp
  then obtain m where m: "CUpdate (JStr ''7'') ''done'' m \<in> set ?cs"
    by (auto split: api_call.splits)
  have ident: "hb_identity (snd (run_heartbeat ?env hb_sample_world)) = sample_agent" by code_simp
  have "hb_calls hb_sample_world = []" by (simp add: hb_sample_world_def)
  from done_needs_threshold [OF this surjective_pairing m] obtain i before
    where f: "fetched ?env sample_agent i before (JStr ''7'') m" unfolding ident by blast
  then have "i = JStr ''7''" by (auto simp: fetched_def approved_def)
  then show ?thesis using f by blast
qed

text \<open>A heartbeat that reports a failure, a cancellation, a request for clarification or an open breaker adds
  no event to the spending ledger: such heartbeats count neither for the frequency nor for the streak that the
  breaker watches.\<close>
theorem failed_runs_are_not_recorded:
  assumes "run_heartbeat env w = (Inr r, w')"
    and "hr_status r \<in> {''failed'', ''cancelled'', ''clarification_needed'', ''circuit_breaker''}"
  shows "lg_events (hb_ledger w') = lg_events (hb_ledger w)"
proof -
  have "hr_status r \<in> quiet_statuses" using assms(2) by (simp only: quiet_statuses_def)
  then show ?thesis using run_heartbeat_silent [of w env] assms(1) by (simp add: silent_def)
qed

theorem failed_runs_are_not_recorded_witness:
  "lg_events (hb_ledger (snd (run_heartbeat (hb_sample_env (Inr sample_issue) (Crashed ''boom'')) hb_sample_world)))
    = lg_events (hb_ledger hb_sample_world)"
proof -
  let ?x = "run_heartbeat (hb_sample_env (Inr sample_issue) (Crashed ''boom'')) hb_sample_world"
  have "case fst ?x of Inr r \<Rightarrow> hr_status r = ''failed'' | _ \<Rightarrow> False" by code_simp
  then obtain r where r: "fst ?x = Inr r" "hr_status r = ''failed''" by (auto split: sum.splits)
  have "?x = (Inr r, snd ?x)" using r(1) by (metis surjective_pairing)
  from failed_runs_are_not_recorded [OF this] show ?thesis using r(2) by simp
qed

text \<open>While the breaker of the agent's scope is open and not yet due, a heartbeat calls nothing: it reports
  the breaker, when to come back, and leaves the ledger as it is.\<close>
theorem open_breaker_stops_heartbeat:
  assumes "validate_heartbeat_config (he_getenv env) (he_config env) = []"
    and "he_spend env = Some cfg" and "he_check env = (True, now)"
    and "get_breaker cfg (hb_ledger w) = Some row" and "br_state row = Open"
    and "br_cooldown_until row = Some until" and "now < until"
  shows "\<exists>r w'. run_heartbeat env w = (Inr r, w') \<and> hr_status r = ''circuit_breaker'' \<and> hr_exit_code r = 0
    \<and> hr_retry_after r = Some (max 1 (whole_seconds (until - now)))
    \<and> hb_calls w' = hb_calls w \<and> hb_ledger w' = hb_ledger w"
  using assms by (simp add: run_heartbeat_def Let_def check_circuit_breaker_def finished_def finish_def plain_result_def)

definition breaker_sample :: spend_config where
  "breaker_sample = \<lparr>sc_scope = ''global'', sc_window_seconds = 60, sc_max_cents = 100, sc_max_heartbeats = 10,
     sc_max_streak = 5, sc_cooldown = 60, sc_max_cooldown = 600, sc_retention_days = 30, sc_transactional = True\<rparr>"

theorem open_breaker_stops_heartbeat_witness:
  "\<exists>r w'. run_heartbeat ((hb_sample_env (Inr sample_issue) Sigterm)\<lparr>he_spend := Some breaker_sample\<rparr>)
      (hb_sample_world\<lparr>hb_ledger := lock_permanently breaker_sample ''x'' 0 (hb_ledger hb_sample_world)\<rparr>) = (Inr r, w')
    \<and> hr_status r = ''circuit_breaker'' \<and> hb_calls w' = []"
  using open_breaker_stops_heartbeat [of "(hb_sample_env (Inr sample_issue) Sigterm)\<lparr>he_spend := Some breaker_sample\<rparr>"
    breaker_sample 0 "hb_sample_world\<lparr>hb_ledger := lock_permanently breaker_sample ''x'' 0 (hb_ledger hb_sample_world)\<rparr>"
    "\<lparr>br_state = Open, br_opened_at = Some 0, br_reason = ''x'', br_cooldown_until = Some (0 + day 36500), br_trip_count = 9999\<rparr>"
    "day 36500"]
  by (auto simp: lock_permanently_def hb_sample_env_def hb_sample_config_def validate_heartbeat_config_def day_def sec_def
    hb_sample_world_def)

text \<open>When the subscription is exhausted, the run ends with a \<open>NameError\<close> in place of the
  \<open>billing_exhausted\<close> result it means to return, on every configuration; what the handler did before
  that stands: the scope is locked for a hundred years and the issue is released.\<close>
theorem billing_result_is_lost:
  assumes "he_spend env = Some cfg" and "fst (attempt (he_api env) c (counted ''vibe_heartbeat_total'' ''billing_exhausted'' w)) = Inr ok"
    and "c = CUpdate i ''blocked'' (Some (failure_comment
      (''**Subscription exhausted** - '' @ provider @ '' returned HTTP '' @ str_int code
        @ ''. All agents are halted until the subscription is renewed.'' @ nl @ nl @ detail)))"
  shows "fst (handle_end env i run (BillingExhausted provider code detail) w) = Inl (OtherError ''NameError'' ''_finish'')
    \<and> get_breaker cfg (hb_ledger (snd (handle_end env i run (BillingExhausted provider code detail) w))) =
        Some \<lparr>br_state = Open, br_opened_at = Some (he_lock_time env),
          br_reason = ''Billing exhausted: '' @ provider @ '' HTTP '' @ str_int code,
          br_cooldown_until = Some (he_lock_time env + day 36500), br_trip_count = 9999\<rparr>
    \<and> (\<exists>cs. hb_calls (snd (handle_end env i run (BillingExhausted provider code detail) w)) = hb_calls w @ [c] @ cs)"
proof -
  let ?w1 = "counted ''vibe_heartbeat_total'' ''billing_exhausted'' w"
  have "attempt (he_api env) c ?w1 = (Inr ok, log_call c ?w1)" by (subst attempt_eq) (simp add: assms(2))
  then have "posted env c k ?w1 = k (log_call c ?w1)" for k by (simp add: posted_def)
  then show ?thesis
    unfolding handle_end_def workflow_end.case assms(3) [symmetric]
    by (simp add: stop_monitors_def assms(1) lock_permanently_def)
qed

theorem billing_result_is_lost_witness:
  "fst (handle_end ((hb_sample_env (Inr sample_issue) Sigterm)\<lparr>he_spend := Some breaker_sample\<rparr>) (JStr ''7'')
      (sample_run Sigterm) (BillingExhausted ''openai'' 402 ''no credit'') hb_sample_world)
    = Inl (OtherError ''NameError'' ''_finish'')"
proof -
  let ?env = "(hb_sample_env (Inr sample_issue) Sigterm)\<lparr>he_spend := Some breaker_sample\<rparr>"
  have h: "he_spend ?env = Some breaker_sample" by simp
  have "fst (attempt (he_api ?env) c w) = Inr True" for c w
    by (simp add: attempt_def Let_def hb_sample_env_def sample_api_def)
  from billing_result_is_lost [OF h this refl] show ?thesis by blast
qed

text \<open>A run of the fast or the standard tier that the quality gate has approved is posted as blocked when its
  score is short of the configured threshold.\<close>

lemma heartbeat_blocks_approved_output:
  "let s = empty_state\<lparr>effective_quality_threshold := Some 75, output_critic_score := Some 80, final_score := Some 80\<rparr>;
       r = (sample_output 80)\<lparr>wr_state := s\<rparr>
   in fst (should_approve_output s) = ''approved''
     \<and> (\<exists>m. last (hb_calls (snd (after_workflow (hb_sample_env (Inr sample_issue) (Completed r)) i r 1 hb_sample_world)))
          = CUpdate i ''blocked'' (Some m))"
proof -
  have a: "fst (attempt (sample_api x) c w) = Inr True" for x c w
    by (simp add: attempt_def Let_def sample_api_def)
  have "tracked (hb_sample_env x e) c k w = k (counted_call c True (log_call c w))" for x e c k w
    by (subst tracked_def, subst attempt_eq) (simp add: a hb_sample_env_def)
  then show ?thesis
    by (simp add: Let_def should_approve_output_def gate_threshold_def after_workflow_def post_results_def sample_output_def
      empty_state_def final_score_of_def hb_sample_env_def hb_sample_config_def post_upgrade_def report_run_def record_run_def
      spend_event_def)
qed

end
