(* ===== verification/Vector_Search.thy ===== *)
theory Vector_Search
  imports Py_Strings Complex_Main "HOL-Library.Multiset"
begin

text \<open>
  The similarity of embeddings (\<^verbatim>\<open>agents/embedder.py\<close>), the \<open>LIKE\<close> of the databases and rankings, shared by the
  memory and the message store. Floats are reals.
\<close>

section \<open>Cosine similarity\<close>

definition dot :: "real list \<Rightarrow> real list \<Rightarrow> real" where
  "dot a b = sum_list (map (\<lambda>(x, y). x * y) (zip a b))"

definition cosine_similarity :: "real list \<Rightarrow> real list \<Rightarrow> real" where
  "cosine_similarity a b =
     (if length a \<noteq> length b \<or> a = [] then 0
      else
        let norm_a = sqrt (dot a a); norm_b = sqrt (dot b b) in
        if norm_a = 0 \<or> norm_b = 0 then 0 else dot a b / (norm_a * norm_b))"

lemma dot_Cons [simp]: "dot (x # a) (y # b) = x * y + dot a b" "dot [] b = 0"
  by (simp_all add: dot_def)

lemma dot_self_nonneg [simp]: "0 \<le> dot a a"
  by (induction a) simp_all

lemma cauchy_schwarz: "length a = length b \<Longrightarrow> (dot a b)\<^sup>2 \<le> dot a a * dot b b"
proof (induction a b rule: list_induct2)
  case (Cons x a y b)
  let ?s = "dot a b" and ?p = "dot a a" and ?q = "dot b b"
  have "\<bar>?s\<bar> \<le> sqrt (?p * ?q)" using Cons.IH by (simp add: real_le_rsqrt)
  then have "\<bar>?s\<bar> * \<bar>x * y\<bar> \<le> sqrt (?p * ?q) * \<bar>x * y\<bar>" by (rule mult_right_mono) simp
  moreover have "?s * (x * y) \<le> \<bar>?s\<bar> * \<bar>x * y\<bar>" by (metis abs_ge_self abs_mult)
  ultimately have "2 * (?s * (x * y)) \<le> 2 * (sqrt (?p * ?q) * \<bar>x * y\<bar>)" by linarith
  also have "\<dots> = 2 * ((sqrt ?p * \<bar>y\<bar>) * (sqrt ?q * \<bar>x\<bar>))" by (simp add: real_sqrt_mult abs_mult)
  also have "\<dots> \<le> (sqrt ?p * \<bar>y\<bar>)\<^sup>2 + (sqrt ?q * \<bar>x\<bar>)\<^sup>2"
    using sum_squares_bound [of "sqrt ?p * \<bar>y\<bar>" "sqrt ?q * \<bar>x\<bar>"] by simp
  also have "\<dots> = ?p * y\<^sup>2 + ?q * x\<^sup>2" by (simp add: power_mult_distrib)
  finally have "2 * (?s * (x * y)) \<le> ?p * y\<^sup>2 + ?q * x\<^sup>2" .
  moreover have "(dot (x # a) (y # b))\<^sup>2 = (x * y)\<^sup>2 + 2 * (?s * (x * y)) + ?s\<^sup>2"
    by (simp add: power2_eq_square algebra_simps)
  moreover have "dot (x # a) (x # a) * dot (y # b) (y # b) = (x * y)\<^sup>2 + (?p * y\<^sup>2 + ?q * x\<^sup>2) + ?p * ?q"
    by (simp add: power2_eq_square algebra_simps)
  ultimately show ?case using Cons.IH by linarith
qed simp

lemma cosine_bounds: "\<bar>cosine_similarity a b\<bar> \<le> 1"
proof (cases "length a = length b \<and> dot a a \<noteq> 0 \<and> dot b b \<noteq> 0")
  case True
  then have "\<bar>dot a b\<bar> \<le> sqrt (dot a a * dot b b)" using cauchy_schwarz by (simp add: real_le_rsqrt)
  then have "\<bar>dot a b\<bar> \<le> sqrt (dot a a) * sqrt (dot b b)" by (simp add: real_sqrt_mult)
  moreover have "0 < sqrt (dot a a) * sqrt (dot b b)" using True dot_self_nonneg [of a] dot_self_nonneg [of b] by (simp add: less_le)
  ultimately show ?thesis by (simp add: cosine_similarity_def Let_def abs_divide)
qed (auto simp: cosine_similarity_def Let_def)

section \<open>LIKE\<close>

text \<open>A pattern with \<open>%\<close> and \<open>_\<close>; SQLite ignores the case of ASCII letters. Backslash escapes of Postgres do not occur.\<close>

fun like_with :: "(char \<Rightarrow> char) \<Rightarrow> string \<Rightarrow> string \<Rightarrow> bool" where
  "like_with f [] s = (s = [])"
| "like_with f (p # ps) [] = (p = CHR ''%'' \<and> like_with f ps [])"
| "like_with f (p # ps) (c # cs) =
     (if p = CHR ''%'' then like_with f ps (c # cs) \<or> like_with f (p # ps) cs
      else (p = CHR ''_'' \<or> f p = f c) \<and> like_with f ps cs)"

abbreviation sqlite_like :: "string \<Rightarrow> string \<Rightarrow> bool" where
  "sqlite_like \<equiv> like_with lower_char"

text \<open>A pattern without wildcards between two \<open>%\<close> is the search for a substring.\<close>

lemma like_any: "like_with f [CHR ''%''] s"
  by (induction s) auto

lemma like_prefix:
  "\<forall>c \<in> set p. c \<noteq> CHR ''%'' \<and> c \<noteq> CHR ''_'' \<Longrightarrow> like_with f (p @ [CHR ''%'']) s \<longleftrightarrow> prefix (map f p) (map f s)"
proof (induction p arbitrary: s)
  case (Cons c p)
  then show ?case by (cases s) auto
qed (simp add: like_any)

lemma like_infix:
  assumes "\<forall>c \<in> set p. c \<noteq> CHR ''%'' \<and> c \<noteq> CHR ''_''"
  shows "like_with f (CHR ''%'' # p @ [CHR ''%'']) s \<longleftrightarrow> str_contains (map f p) (map f s)"
proof (induction s)
  case Nil
  have "like_with f (p @ [CHR ''%'']) [] \<longleftrightarrow> p = []" using like_prefix [OF assms, of f "[]"] by simp
  then show ?case by simp
next
  case (Cons c cs)
  then show ?case using like_prefix [OF assms, of f "c # cs"] by simp
qed

section \<open>Rankings\<close>

text \<open>\<open>sort(key=..., reverse=True)\<close> and \<open>sort(key=-...)\<close>: descending, stable.\<close>

definition rank_by :: "('a \<Rightarrow> 'k::linorder) \<Rightarrow> 'a list \<Rightarrow> 'a list" where
  "rank_by f xs = rev (sort_key f (rev xs))"

lemma rank_by_set [simp]: "set (rank_by f xs) = set xs" "length (rank_by f xs) = length xs"
  by (simp_all add: rank_by_def)

lemma rank_by_distinct [simp]: "distinct (rank_by f xs) = distinct xs"
  by (simp add: rank_by_def)

lemma rank_by_sorted: "sorted_wrt (\<lambda>x y. f x \<ge> f y) (rank_by f xs)"
proof -
  have "sorted (map f (sort_key f (rev xs)))" by simp
  then have "sorted_wrt (\<lambda>x y. f x \<le> f y) (sort_key f (rev xs))" by (simp add: sorted_wrt_map)
  then show ?thesis by (simp add: rank_by_def sorted_wrt_rev)
qed

lemma rank_by_stable: "filter (\<lambda>x. f x = k) (rank_by f xs) = filter (\<lambda>x. f x = k) xs"
proof -
  have "filter (\<lambda>x. f x = k) (sort_key f (rev xs)) = filter (\<lambda>x. f x = k) (rev xs)"
    using sort_key_stable [of f k "rev xs"] by (simp add: eq_commute)
  then show ?thesis by (simp add: rank_by_def rev_filter [symmetric])
qed

lemma rank_by_mset: "mset (rank_by f xs) = mset xs"
  by (simp add: rank_by_def)

text \<open>What a cut of a ranking leaves out ranks no higher than what it keeps.\<close>

lemma rank_by_take: "x \<in> set (take n (rank_by f xs)) \<Longrightarrow> y \<in> set (drop n (rank_by f xs)) \<Longrightarrow> f x \<ge> f y"
  using rank_by_sorted [of f xs] append_take_drop_id [of n "rank_by f xs"]
  by (metis sorted_wrt_append)

section \<open>Tables that lose their oldest rows\<close>

text \<open>\<open>DELETE ... WHERE id IN (SELECT id ... ORDER BY f LIMIT k)\<close> leaves all rows but \<open>k\<close>, and never drops a last row
  that is as new as any other, unless it drops all.\<close>

lemma kept_length:
  assumes "distinct (map g rs)"
  shows "length (filter (\<lambda>r. g r \<notin> g ` set (take k (sort_key f rs))) rs) = length rs - k"
proof -
  let ?old = "set (take k (sort_key f rs))"
  have inj: "inj_on g (set rs)" and d: "distinct rs" using assms by (simp_all add: distinct_map)
  have sub: "?old \<subseteq> set rs" using set_take_subset [of k "sort_key f rs"] by simp
  have "set (filter (\<lambda>r. g r \<notin> g ` ?old) rs) = set rs - ?old"
    using inj sub by (auto simp: inj_on_def image_iff)
  then have "length (filter (\<lambda>r. g r \<notin> g ` ?old) rs) = card (set rs - ?old)"
    using d by (metis distinct_card distinct_filter)
  also have "\<dots> = length rs - k"
    using d sub by (simp add: card_Diff_subset distinct_card)
  finally show ?thesis .
qed

lemma sort_key_snoc: "\<forall>y \<in> set xs. f y \<le> f x \<Longrightarrow> sort_key f (xs @ [x]) = sort_key f xs @ [x]"
proof (rule properties_for_sort_key)
  show "filter (\<lambda>x. f k = f x) (sort_key f xs @ [x]) = filter (\<lambda>x. f k = f x) (xs @ [x])" for k
    using sort_key_stable [of f "f k" xs] by (simp add: eq_commute)
qed (auto simp: sorted_append)

lemma kept_last:
  assumes "distinct (map g (rs @ [x]))" "k \<le> length rs" "\<forall>y \<in> set rs. f y \<le> f x"
  shows "g x \<notin> g ` set (take k (sort_key f (rs @ [x])))"
proof -
  have "take k (sort_key f (rs @ [x])) = take k (sort_key f rs)" using assms by (simp add: sort_key_snoc)
  then show ?thesis using assms(1) set_take_subset [of k "sort_key f rs"] by auto
qed

section \<open>Maxima\<close>

lemma foldl_max_start: "(a::real) \<le> b \<Longrightarrow> a \<le> foldl max b xs"
  by (induction xs arbitrary: b) (simp_all add: le_max_iff_disj)

lemma foldl_max_ge: "x \<in> set xs \<Longrightarrow> (x::real) \<le> foldl max a xs"
  by (induction xs arbitrary: a) (auto simp: foldl_max_start)

end
