(* ===== verification/Memory_Store.thy ===== *)
theory Memory_Store
  imports Vector_Search
begin

text \<open>
  The long-term memory of the agents (\<^verbatim>\<open>agents/memory_store.py\<close>) over its SQLite database: storing with
  deduplication and eviction, recall by keywords, by similarity and by their fusion. The table is the list of
  its rows in the order of their ids. The hash, the embedder and the full-text index are parameters. Times are
  integers, in microseconds. The paths for an external database are in the last section.
\<close>

section \<open>Tables\<close>

record memory =
  me_id :: int
  me_content :: string
  me_source :: string
  me_tags :: string
  me_created :: int
  me_updated :: int
  me_access :: int
  me_agent :: string
  me_task :: string
  me_importance :: real
  me_hash :: string

record memory_entry =
  en_row :: memory
  en_score :: real

record memory_db =
  md_rows :: "memory list"
  md_next :: int
  md_embeddings :: "(int, real list) py_dict"

text \<open>\<open>mv_fts\<close>: the rows that match a token, with their scores, best first, or the error of the query.\<close>

record memory_env =
  mv_max :: int
  mv_hash :: "string \<Rightarrow> string"
  mv_embed :: "(string \<Rightarrow> real list option) option"
  mv_embed_batch :: "string list \<Rightarrow> real list option list"
  mv_fts :: "string list \<Rightarrow> memory list \<Rightarrow> py_exn + (memory \<times> real) list"

definition citation :: "memory \<Rightarrow> string" where
  "citation m =
     (let s = me_source m in
      if prefix ''url:'' s then drop 4 s
      else if prefix ''file:'' s then drop 5 s
      else if prefix ''tool:'' s then ''[tool: '' @ drop 5 s @ '']''
      else if s = ''user'' then ''[user statement]''
      else if s = ''agent'' then ''[agent inference]''
      else ''['' @ s @ '']'')"

section \<open>Storing\<close>

definition content_key :: "string \<Rightarrow> string \<Rightarrow> string \<Rightarrow> string" where
  "content_key content agent task = agent @ [CHR 0x1F] @ task @ [CHR 0x1F] @ content"

definition drop_ids :: "int list \<Rightarrow> memory_db \<Rightarrow> memory_db" where
  "drop_ids ids d = d\<lparr>md_rows := filter (\<lambda>m. me_id m \<notin> set ids) (md_rows d),
     md_embeddings := filter (\<lambda>(i, v). i \<notin> set ids) (md_embeddings d)\<rparr>"

text \<open>\<open>ORDER BY updated_at ASC LIMIT n\<close>, rows of one time in the order of their ids.\<close>

definition evict_memories :: "int \<Rightarrow> memory_db \<Rightarrow> memory_db" where
  "evict_memories n d = drop_ids (map me_id (take (nat n) (sort_key me_updated (md_rows d)))) d"

definition evict_excess :: "memory_env \<Rightarrow> memory_db \<Rightarrow> memory_db" where
  "evict_excess env d =
     (let count = int (length (md_rows d)) in if count > mv_max env then evict_memories (count - mv_max env) d else d)"

definition refresh :: "int \<Rightarrow> real \<Rightarrow> int \<Rightarrow> memory \<Rightarrow> memory" where
  "refresh now importance i m =
     (if me_id m = i then m\<lparr>me_access := me_access m + 1, me_updated := now, me_importance := max (me_importance m) importance\<rparr> else m)"

definition clamp01 :: "real \<Rightarrow> real" where
  "clamp01 x = max 0 (min 1 x)"

definition insert_memory :: "memory_env \<Rightarrow> int \<Rightarrow> memory \<Rightarrow> memory_db \<Rightarrow> memory_db" where
  "insert_memory env now m d =
     evict_excess env
       (let d1 = d\<lparr>md_rows := md_rows d @ [m\<lparr>me_id := md_next d\<rparr>], md_next := md_next d + 1\<rparr> in
        case mv_embed env of
          None \<Rightarrow> d1
        | Some emb \<Rightarrow>
            (case emb (me_content m) of
               None \<Rightarrow> d1
             | Some v \<Rightarrow> d1\<lparr>md_embeddings := dict_set (md_next d) v (md_embeddings d1)\<rparr>))"

definition store ::
    "memory_env \<Rightarrow> int \<Rightarrow> string \<Rightarrow> string \<Rightarrow> string \<Rightarrow> string \<Rightarrow> string \<Rightarrow> real \<Rightarrow> memory_db \<Rightarrow> (py_exn + int) \<times> memory_db" where
  "store env now content source tags agent_id task_id importance d =
     (if py_strip content = [] then (Inl (ValueError ''Memory content cannot be empty''), d)
      else
        let c = py_strip content; agent = py_strip agent_id; task = py_strip task_id; imp = clamp01 importance;
            h = mv_hash env (content_key c agent task)
        in case find (\<lambda>m. me_hash m = h) (md_rows d) of
             Some m \<Rightarrow> (Inr (me_id m), d\<lparr>md_rows := map (refresh now imp (me_id m)) (md_rows d)\<rparr>)
           | None \<Rightarrow> (Inr (md_next d), insert_memory env now
               \<lparr>me_id = 0, me_content = c, me_source = (if source \<noteq> [] then py_strip source else ''agent''), me_tags = py_strip tags,
                me_created = now, me_updated = now, me_access = 0, me_agent = agent, me_task = task, me_importance = imp,
                me_hash = h\<rparr> d))"

section \<open>Recall\<close>

definition in_scope :: "string \<Rightarrow> string \<Rightarrow> string \<Rightarrow> string \<Rightarrow> memory \<Rightarrow> bool" where
  "in_scope tag source agent task m \<longleftrightarrow>
     (tag = [] \<or> str_contains (py_lower tag) (py_lower (me_tags m))) \<and> (source = [] \<or> prefix source (me_source m))
     \<and> (agent = [] \<or> me_agent m = agent) \<and> (task = [] \<or> me_task m = task)"

definition bump :: "int \<Rightarrow> int list \<Rightarrow> memory_db \<Rightarrow> memory_db" where
  "bump now ids d = d\<lparr>md_rows := map (\<lambda>m. if me_id m \<in> set ids then m\<lparr>me_access := me_access m + 1, me_updated := now\<rparr> else m) (md_rows d)\<rparr>"

definition clamp_results :: "int \<Rightarrow> nat" where
  "clamp_results n = nat (max 1 (min n 50))"

definition recall ::
    "memory_env \<Rightarrow> int \<Rightarrow> string \<Rightarrow> int \<Rightarrow> string \<Rightarrow> string \<Rightarrow> string \<Rightarrow> string \<Rightarrow> memory_db \<Rightarrow> (py_exn + memory_entry list) \<times> memory_db" where
  "recall env now query max_results tag source agent task d =
     (if py_strip query = [] then (Inr [], d)
      else
        let n = clamp_results max_results in
        case mv_fts env (py_words query) (md_rows d) of
          Inl e \<Rightarrow> (Inl e, d)
        | Inr hits \<Rightarrow>
            let found = take n (filter (\<lambda>(m, s). in_scope tag source agent task m) (take (n * 5) hits)) in
            (Inr (map (\<lambda>(m, s). \<lparr>en_row = m, en_score = s\<rparr>) found), bump now (map (me_id \<circ> fst) found) d))"

definition get_by_id :: "int \<Rightarrow> memory_db \<Rightarrow> memory_entry option" where
  "get_by_id i d = map_option (\<lambda>m. \<lparr>en_row = m, en_score = 0\<rparr>) (find (\<lambda>m. me_id m = i) (md_rows d))"

definition delete_memory :: "int \<Rightarrow> memory_db \<Rightarrow> bool \<times> memory_db" where
  "delete_memory i d = (\<exists>m \<in> set (md_rows d). me_id m = i, drop_ids [i] d)"

definition list_recent :: "int \<Rightarrow> memory_db \<Rightarrow> memory_entry list" where
  "list_recent limit d =
     map (\<lambda>m. \<lparr>en_row = m, en_score = 0\<rparr>) (take (nat (max 1 (min limit 100))) (rev (sort_key me_updated (md_rows d))))"

definition cleanup :: "memory_env \<Rightarrow> int \<Rightarrow> memory_db \<Rightarrow> int \<times> memory_db" where
  "cleanup env keep d =
     (let k = (if keep \<noteq> 0 then keep else mv_max env); count = int (length (md_rows d)) in
      if count \<le> k then (0, d) else (count - k, evict_memories (count - k) d))"

section \<open>Statistics\<close>

definition source_type :: "string \<Rightarrow> string" where
  "source_type s = (if sqlite_like ''url:%'' s then ''web'' else if sqlite_like ''file:%'' s then ''file''
     else if sqlite_like ''tool:%'' s then ''tool'' else s)"

definition count_key :: "(string, int) py_dict \<Rightarrow> string \<Rightarrow> (string, int) py_dict" where
  "count_key d k = dict_set k (dict_get_or d k 0 + 1) d"

record memory_stats =
  mt_total :: int
  mt_embedded :: int
  mt_by_source :: "(string, int) py_dict"
  mt_top_tags :: "(string, int) py_dict"
  mt_most_accessed :: "(int \<times> string \<times> int) list"

text \<open>The groups of sources are a set: the database gives them in no promised order.\<close>

definition get_stats_memory :: "memory_db \<Rightarrow> memory_stats" where
  "get_stats_memory d =
     (let rows = md_rows d in
      if rows = [] then \<lparr>mt_total = 0, mt_embedded = 0, mt_by_source = [], mt_top_tags = [], mt_most_accessed = []\<rparr>
      else \<lparr>mt_total = int (length rows), mt_embedded = int (length (md_embeddings d)),
        mt_by_source = foldl count_key [] (map (\<lambda>m. source_type (me_source m)) rows),
        mt_top_tags = take 10 (rank_by snd (foldl count_key [] (concat (map (\<lambda>m. py_words (me_tags m)) rows)))),
        mt_most_accessed = map (\<lambda>m. (me_id m, take 100 (me_content m), me_access m)) (take 5 (rank_by me_access rows))\<rparr>)"

section \<open>Embeddings\<close>

definition backfill_embeddings :: "memory_env \<Rightarrow> int \<Rightarrow> memory_db \<Rightarrow> nat \<times> memory_db" where
  "backfill_embeddings env batch d =
     (case mv_embed env of
        None \<Rightarrow> (0, d)
      | Some _ \<Rightarrow>
          let rows = filter (\<lambda>m. \<not> dict_has (md_embeddings d) (me_id m)) (md_rows d);
              rows = (if batch < 0 then rows else take (nat batch) rows);
              vs = filter (\<lambda>(m, v). v \<noteq> None) (zip rows (mv_embed_batch env (map me_content rows)))
          in (length vs, d\<lparr>md_embeddings := foldl (\<lambda>e (m, v). dict_set (me_id m) (the v) e) (md_embeddings d) vs\<rparr>))"

definition semantic_recall ::
    "memory_env \<Rightarrow> int \<Rightarrow> string \<Rightarrow> int \<Rightarrow> string \<Rightarrow> string \<Rightarrow> real \<Rightarrow> string \<Rightarrow> string \<Rightarrow> memory_db \<Rightarrow> memory_entry list \<times> memory_db" where
  "semantic_recall env now query max_results tag source min_similarity agent task d =
     (if py_strip query = [] then ([], d)
      else case mv_embed env of
        None \<Rightarrow> ([], d)
      | Some emb \<Rightarrow>
          (case emb (py_strip query) of
             None \<Rightarrow> ([], d)
           | Some q \<Rightarrow>
               let rows = List.map_filter (\<lambda>(i, v). map_option (\<lambda>m. (m, v)) (find (\<lambda>m. me_id m = i) (md_rows d))) (md_embeddings d);
                   scored = filter (\<lambda>e. en_score e \<ge> min_similarity)
                     (map (\<lambda>(m, v). \<lparr>en_row = m, en_score = cosine_similarity q v\<rparr>)
                       (filter (\<lambda>(m, v). in_scope tag source agent task m) rows));
                   found = take (clamp_results max_results) (rank_by en_score scored)
               in (found, bump now (map (me_id \<circ> en_row) found) d)))"

section \<open>Fusion\<close>

definition DECAY_HALFLIFE_DAYS :: real where
  "DECAY_HALFLIFE_DAYS = 30"

definition recency_factor :: "int \<Rightarrow> int \<Rightarrow> real" where
  "recency_factor now updated =
     (let age_days = of_int (now - updated) / 1000000 / 86400 in
      if age_days \<le> 0 then 1 else 2 powr (- age_days / max DECAY_HALFLIFE_DAYS (1 / 1000)))"

record fusion =
  fu_keyword :: real
  fu_semantic :: real
  fu_importance :: real
  fu_decay :: real

definition quality_recency :: "fusion \<Rightarrow> int \<Rightarrow> memory \<Rightarrow> real" where
  "quality_recency f now m = me_importance m * fu_importance f + recency_factor now (me_updated m) * fu_decay f"

definition top_score :: "memory_entry list \<Rightarrow> real" where
  "top_score es = (case map en_score es of [] \<Rightarrow> 1 | s # ss \<Rightarrow> foldl max s ss)"

text \<open>The loop over the keyword results: each pass normalises by the maximum of the scores as they are by then,
  those of the entries before it already replaced.\<close>

fun rescale_loop :: "real \<Rightarrow> (memory \<Rightarrow> real) \<Rightarrow> memory_entry list \<Rightarrow> memory_entry list \<Rightarrow> memory_entry list" where
  "rescale_loop kw q seen [] = seen"
| "rescale_loop kw q seen (e # es) =
     (let m = top_score (seen @ e # es); best = (if m = 0 then 1 else m) in
      rescale_loop kw q (seen @ [e\<lparr>en_score := en_score e / best * kw + q (en_row e)\<rparr>]) es)"

definition fuse :: "(int, real \<times> real \<times> memory) py_dict \<Rightarrow> memory_entry \<Rightarrow> (int, real \<times> real \<times> memory) py_dict" where
  "fuse d e =
     (case dict_get d (me_id (en_row e)) of
        Some (b, s, m) \<Rightarrow> dict_set (me_id (en_row e)) (b, en_score e, en_row e) d
      | None \<Rightarrow> dict_set (me_id (en_row e)) (0, en_score e, en_row e) d)"

definition fuse_results :: "fusion \<Rightarrow> (memory \<Rightarrow> real) \<Rightarrow> memory_entry list \<Rightarrow> memory_entry list \<Rightarrow> memory_entry list" where
  "fuse_results f q bm25 sem =
     (if sem = [] then rank_by en_score (rescale_loop (fu_keyword f) q [] bm25)
      else if bm25 = [] then rank_by en_score (map (\<lambda>e. e\<lparr>en_score := en_score e * fu_semantic f + q (en_row e)\<rparr>) sem)
      else
        let best = max (top_score bm25) (1 / 1000);
            d0 = foldl (\<lambda>d e. dict_set (me_id (en_row e)) (en_score e / best, 0, en_row e) d) [] bm25;
            d1 = foldl fuse d0 sem
        in rank_by en_score (map (\<lambda>(i, b, s, m). \<lparr>en_row = m, en_score = b * fu_keyword f + s * fu_semantic f + q m\<rparr>) d1))"

text \<open>\<open>xs[:n]\<close> of a possibly negative \<open>n\<close> is not used: \<open>max_results\<close> is taken as non-negative. The three moments are
  the clock of the two recalls and of the fusion.\<close>

definition hybrid_recall ::
    "memory_env \<Rightarrow> fusion \<Rightarrow> int \<times> int \<times> int \<Rightarrow> string \<Rightarrow> int \<Rightarrow> string \<Rightarrow> string \<Rightarrow> string \<Rightarrow> string \<Rightarrow> memory_db
      \<Rightarrow> (py_exn + memory_entry list) \<times> memory_db" where
  "hybrid_recall env f moments query max_results tag source agent task d =
     (case moments of (t1, t2, t3) \<Rightarrow>
        case recall env t1 query (max_results * 2) tag source agent task d of
          (Inl e, d1) \<Rightarrow> (Inl e, d1)
        | (Inr bm25, d1) \<Rightarrow>
            (case semantic_recall env t2 query (max_results * 2) tag source (3 / 10) agent task d1 of
               (sem, d2) \<Rightarrow> (Inr (take (nat max_results) (fuse_results f (quality_recency f t3) bm25 sem)), d2)))"

section \<open>External databases\<close>

text \<open>The paths taken with a \<open>storage_backend\<close>. Text search and vector distance are the database's: \<open>ex_rank\<close> gives the rows
  that match a query with their ranks, \<open>ex_distance\<close> the distance of a row's embedding, if it has one. \<open>ex_fold\<close> is the
  identity where \<open>LIKE\<close> heeds the case of letters.\<close>

record external =
  ex_fts :: bool
  ex_vector :: bool
  ex_rank :: "string \<Rightarrow> memory list \<Rightarrow> (memory \<times> real) list"
  ex_distance :: "real list \<Rightarrow> memory \<Rightarrow> real option"
  ex_fold :: "char \<Rightarrow> char"
  ex_embedder :: "(string \<Rightarrow> real list option) option"

definition containing :: "string \<Rightarrow> string" where
  "containing s = ''%'' @ s @ ''%''"

definition scope_clauses :: "string \<Rightarrow> string \<Rightarrow> memory \<Rightarrow> bool" where
  "scope_clauses agent task m \<longleftrightarrow> (agent = [] \<or> me_agent m = agent) \<and> (task = [] \<or> me_task m = task)"

definition external_scope :: "external \<Rightarrow> string \<Rightarrow> string \<Rightarrow> string \<Rightarrow> string \<Rightarrow> memory \<Rightarrow> bool" where
  "external_scope ex tag source agent task m \<longleftrightarrow>
     (tag = [] \<or> like_with (ex_fold ex) (containing tag) (me_tags m)) \<and> (source = [] \<or> me_source m = source) \<and> scope_clauses agent task m"

definition like_scope :: "external \<Rightarrow> string \<Rightarrow> string \<Rightarrow> string \<Rightarrow> string \<Rightarrow> string \<Rightarrow> memory \<Rightarrow> bool" where
  "like_scope ex query tag source agent task m \<longleftrightarrow>
     like_with (ex_fold ex) (containing (py_strip query)) (me_content m)
     \<and> (tag = [] \<or> like_with (ex_fold ex) (containing (py_lower tag)) (py_lower (me_tags m)))
     \<and> (source = [] \<or> like_with (ex_fold ex) (source @ ''%'') (me_source m)) \<and> scope_clauses agent task m"

definition count_access :: "int list \<Rightarrow> memory_db \<Rightarrow> memory_db" where
  "count_access ids d = d\<lparr>md_rows := map (\<lambda>m. if me_id m \<in> set ids then m\<lparr>me_access := me_access m + 1\<rparr> else m) (md_rows d)\<rparr>"

definition entry :: "memory \<times> real \<Rightarrow> memory_entry" where
  "entry p = \<lparr>en_row = fst p, en_score = snd p\<rparr>"

definition recall_external ::
    "external \<Rightarrow> int \<Rightarrow> string \<Rightarrow> int \<Rightarrow> string \<Rightarrow> string \<Rightarrow> string \<Rightarrow> string \<Rightarrow> memory_db \<Rightarrow> memory_entry list \<times> memory_db" where
  "recall_external ex now query max_results tag source agent task d =
     (if py_strip query = [] then ([], d)
      else if ex_fts ex then
        let found = take (clamp_results max_results)
              (rank_by snd (filter (\<lambda>(m, s). external_scope ex tag source agent task m) (ex_rank ex query (md_rows d))))
        in (map entry found, count_access (map (me_id \<circ> fst) found) d)
      else
        let found = take (clamp_results max_results) (rank_by me_updated (filter (like_scope ex query tag source agent task) (md_rows d)))
        in (map (\<lambda>m. entry (m, 0)) found, bump now (map me_id found) d))"

definition semantic_recall_external ::
    "external \<Rightarrow> string \<Rightarrow> int \<Rightarrow> string \<Rightarrow> string \<Rightarrow> real \<Rightarrow> string \<Rightarrow> string \<Rightarrow> memory_db \<Rightarrow> memory_entry list \<times> memory_db" where
  "semantic_recall_external ex query max_results tag source min_similarity agent task d =
     (if py_strip query = [] \<or> \<not> ex_vector ex then ([], d)
      else case Option.bind (ex_embedder ex) (\<lambda>emb. emb query) of
        None \<Rightarrow> ([], d)
      | Some q \<Rightarrow>
          let found = take (clamp_results max_results) (rank_by snd (filter (\<lambda>(m, s). s \<ge> min_similarity)
                (List.map_filter (\<lambda>m. map_option (\<lambda>r. (m, 1 - r)) (ex_distance ex q m))
                  (filter (external_scope ex tag source agent task) (md_rows d)))))
          in (map entry found, count_access (map (me_id \<circ> fst) found) d))"

text \<open>Storing in an external database deduplicates and evicts in the same way, but never embeds.\<close>

definition store_external ::
    "memory_env \<Rightarrow> int \<Rightarrow> string \<Rightarrow> string \<Rightarrow> string \<Rightarrow> string \<Rightarrow> string \<Rightarrow> real \<Rightarrow> memory_db \<Rightarrow> (py_exn + int) \<times> memory_db" where
  "store_external env now content source tags agent_id task_id importance d =
     store (env\<lparr>mv_embed := None\<rparr>) now content source tags agent_id task_id importance d"

end
