(* ===== verification/Memory_Correct.thy ===== *)
theory Memory_Correct
  imports Memory_Store
begin

text \<open>
  The memory store is correct: its tables stay well formed and bounded under every sequence of operations, storing
  deduplicates and keeps what is stored, recalls respect their filters and limits, and the fusion of the two
  rankings, with its failing normalisation when there are no embeddings.
\<close>

section \<open>Well-formed tables\<close>

definition stored_ok :: "memory \<Rightarrow> bool" where
  "stored_ok m \<longleftrightarrow> 0 \<le> me_importance m \<and> me_importance m \<le> 1 \<and> 0 \<le> me_access m \<and> me_content m \<noteq> [] \<and> py_strip (me_content m) = me_content m"

text \<open>The ids increase and are below the next one, no hash occurs twice, every embedding belongs to a row.\<close>

definition memory_ok :: "memory_db \<Rightarrow> bool" where
  "memory_ok d \<longleftrightarrow> sorted_wrt (<) (map me_id (md_rows d)) \<and> (\<forall>m \<in> set (md_rows d). me_id m < md_next d \<and> stored_ok m)
     \<and> distinct (map me_hash (md_rows d)) \<and> dict_ok (md_embeddings d) \<and> set (dict_keys (md_embeddings d)) \<subseteq> me_id ` set (md_rows d)"

definition empty_memory :: memory_db where
  "empty_memory = \<lparr>md_rows = [], md_next = 1, md_embeddings = []\<rparr>"

datatype memory_op =
    OpStore memory_env int string string string string string real
  | OpRecall memory_env int string int string string string string
  | OpSemantic memory_env int string int string string real string string
  | OpHybrid memory_env fusion "int \<times> int \<times> int" string int string string string string
  | OpDelete int
  | OpCleanup memory_env int
  | OpBackfill memory_env int

primrec run_memory_op :: "memory_op \<Rightarrow> memory_db \<Rightarrow> memory_db" where
  "run_memory_op (OpStore env now content source tags agent task imp) d = snd (store env now content source tags agent task imp d)"
| "run_memory_op (OpRecall env now query n tag source agent task) d = snd (recall env now query n tag source agent task d)"
| "run_memory_op (OpSemantic env now query n tag source sim agent task) d = snd (semantic_recall env now query n tag source sim agent task d)"
| "run_memory_op (OpHybrid env f moments query n tag source agent task) d = snd (hybrid_recall env f moments query n tag source agent task d)"
| "run_memory_op (OpDelete i) d = snd (delete_memory i d)"
| "run_memory_op (OpCleanup env keep) d = snd (cleanup env keep d)"
| "run_memory_op (OpBackfill env batch) d = snd (backfill_embeddings env batch d)"

lemma sorted_wrt_filter_map: "sorted_wrt P (map f xs) \<Longrightarrow> sorted_wrt P (map f (filter Q xs))"
  by (induction xs) auto

lemma drop_ids_ok:
  assumes "memory_ok d"
  shows "memory_ok (drop_ids ids d)"
proof -
  have e: "filter (\<lambda>(i, v). i \<notin> set ids) es = filter (\<lambda>p. fst p \<notin> set ids) es" for es :: "(int, real list) py_dict"
    by (simp add: case_prod_unfold)
  have "distinct (map me_hash (filter P rs))" if "distinct (map me_hash rs)" for P rs
    using that by (simp add: distinct_map_filter)
  then show ?thesis
    using assms
    by (auto simp: memory_ok_def drop_ids_def sorted_wrt_filter_map dict_ok_def dict_keys_def e distinct_map_filter)
qed

lemma update_rows_ok:
  assumes "memory_ok d" "\<And>m. me_id (f m) = me_id m \<and> me_hash (f m) = me_hash m" "\<And>m. stored_ok m \<Longrightarrow> stored_ok (f m)"
  shows "memory_ok (d\<lparr>md_rows := map f (md_rows d)\<rparr>)"
proof -
  have "me_id \<circ> f = me_id" "me_hash \<circ> f = me_hash"
    using assms(2) by auto
  moreover have "me_id ` f ` X = me_id ` X" for X using assms(2) by (simp add: image_image)
  ultimately show ?thesis using assms by (simp add: memory_ok_def)
qed

lemma bump_ok: "memory_ok d \<Longrightarrow> memory_ok (bump now ids d)"
  unfolding bump_def by (rule update_rows_ok) (auto simp: stored_ok_def)

lemma evict_memories_ok: "memory_ok d \<Longrightarrow> memory_ok (evict_memories n d)" "memory_ok d \<Longrightarrow> memory_ok (evict_excess env d)"
  by (auto simp: evict_memories_def evict_excess_def Let_def drop_ids_ok)

lemma clamp01_bounds: "0 \<le> clamp01 x" "clamp01 x \<le> 1"
  by (simp_all add: clamp01_def)

lemma insert_memory_ok:
  assumes "memory_ok d" "stored_ok m" "me_hash m \<notin> me_hash ` set (md_rows d)"
  shows "memory_ok (insert_memory env now m d)"
proof -
  have s: "stored_ok (m\<lparr>me_id := i\<rparr>)" for i using assms(2) by (simp add: stored_ok_def)
  have a: "memory_ok (d\<lparr>md_rows := md_rows d @ [m\<lparr>me_id := md_next d\<rparr>], md_next := md_next d + 1\<rparr>)" (is "memory_ok ?d1")
    using assms s by (fastforce simp: memory_ok_def sorted_wrt_append image_iff)
  then have "memory_ok (?d1\<lparr>md_embeddings := dict_set (md_next d) v (md_embeddings ?d1)\<rparr>)" for v
    by (auto simp: memory_ok_def dict_ok_set dict_keys_set)
  with a show ?thesis by (auto simp: insert_memory_def Let_def intro!: evict_memories_ok split: option.split)
qed

lemma find_hash_None: "find (\<lambda>m. me_hash m = h) ms = None \<longleftrightarrow> h \<notin> me_hash ` set ms"
  by (auto simp: find_None_iff)

lemma store_ok: "memory_ok d \<Longrightarrow> memory_ok (snd (store env now content source tags agent task imp d))"
  by (auto simp: store_def Let_def find_hash_None clamp01_bounds stored_ok_def refresh_def
      intro!: insert_memory_ok update_rows_ok split: option.split)

lemma recall_ok: "memory_ok d \<Longrightarrow> memory_ok (snd (recall env now query n tag source agent task d))"
  by (auto simp: recall_def Let_def bump_ok split: sum.split)

lemma semantic_recall_ok: "memory_ok d \<Longrightarrow> memory_ok (snd (semantic_recall env now query n tag source sim agent task d))"
  by (auto simp: semantic_recall_def Let_def bump_ok split: option.split)

lemma hybrid_recall_ok:
  assumes "memory_ok d"
  shows "memory_ok (snd (hybrid_recall env f moments query n tag source agent task d))"
proof -
  obtain t1 t2 t3 where [simp]: "moments = (t1, t2, t3)" by (cases moments)
  obtain r d1 where r: "recall env t1 query (n * 2) tag source agent task d = (r, d1)" by fastforce
  obtain s d2 where s: "semantic_recall env t2 query (n * 2) tag source (3 / 10) agent task d1 = (s, d2)" by fastforce
  have "memory_ok d1" using recall_ok [OF assms] r by (metis snd_conv)
  then have "memory_ok d2" using semantic_recall_ok s by (metis snd_conv)
  with \<open>memory_ok d1\<close> show ?thesis by (cases r) (simp_all add: hybrid_recall_def r s)
qed

lemma backfill_ok:
  assumes "memory_ok d"
  shows "memory_ok (snd (backfill_embeddings env batch d))"
proof -
  have "dict_ok (foldl (\<lambda>e (m, v). dict_set (me_id m) (the v) e) e0 vs) \<and>
        set (dict_keys (foldl (\<lambda>e (m, v). dict_set (me_id m) (the v) e) e0 vs)) \<subseteq> me_id ` set (md_rows d)"
    if "dict_ok e0" "set (dict_keys e0) \<subseteq> me_id ` set (md_rows d)" "\<forall>(m, v) \<in> set vs. m \<in> set (md_rows d)"
    for e0 and vs :: "(memory \<times> real list option) list"
    using that
  proof (induction vs arbitrary: e0)
    case (Cons p vs)
    obtain m v where [simp]: "p = (m, v)" by (cases p)
    show ?case using Cons.IH [of "dict_set (me_id m) (the v) e0"] Cons.prems by (simp add: dict_ok_set dict_keys_set)
  qed simp
  note fold = this
  show ?thesis
  proof (cases "mv_embed env")
    case (Some emb)
    define rs where "rs = (let rows = filter (\<lambda>m. \<not> dict_has (md_embeddings d) (me_id m)) (md_rows d) in if batch < 0 then rows else take (nat batch) rows)"
    define vs where "vs = filter (\<lambda>(m, v). v \<noteq> None) (zip rs (mv_embed_batch env (map me_content rs)))"
    have "snd (backfill_embeddings env batch d) = d\<lparr>md_embeddings := foldl (\<lambda>e (m, v). dict_set (me_id m) (the v) e) (md_embeddings d) vs\<rparr>"
      using Some by (simp only: backfill_embeddings_def option.case Let_def rs_def vs_def snd_conv)
    moreover have "set rs \<subseteq> set (md_rows d)" by (auto simp: rs_def Let_def dest: in_set_takeD)
    then have "\<forall>(m, v) \<in> set vs. m \<in> set (md_rows d)" by (auto simp: vs_def dest!: set_zip_leftD)
    ultimately show ?thesis using fold [of "md_embeddings d" vs] assms by (simp add: memory_ok_def)
  qed (simp add: backfill_embeddings_def assms)
qed

lemma run_memory_op_ok: "memory_ok d \<Longrightarrow> memory_ok (run_memory_op op d)"
  by (cases op) (simp_all add: store_ok recall_ok semantic_recall_ok hybrid_recall_ok delete_memory_def drop_ids_ok
      cleanup_def Let_def evict_memories_ok backfill_ok)

lemma empty_memory_ok: "memory_ok empty_memory"
  by (simp add: memory_ok_def empty_memory_def dict_ok_def dict_keys_def)

text \<open>C7: The tables of the memory store are well formed after every sequence of operations: ids increase, no hash is
  stored twice, importances lie between 0 and 1, contents are stripped and not empty, and every embedding belongs
  to a memory.\<close>

theorem memory_well_formed: "memory_ok (foldl (\<lambda>d op. run_memory_op op d) empty_memory ops)"
  by (rule foldl_invariant [of memory_ok]) (simp_all add: empty_memory_ok run_memory_op_ok)

section \<open>Storing\<close>

lemma find_map_keeps: "(\<And>m. me_hash (f m) = me_hash m) \<Longrightarrow> find (\<lambda>m. me_hash m = h) (map f ms) = map_option f (find (\<lambda>m. me_hash m = h) ms)"
  by (induction ms) auto

lemma find_hash:
  "memory_ok d \<Longrightarrow> m \<in> set (md_rows d) \<Longrightarrow> find (\<lambda>m'. me_hash m' = me_hash m) (md_rows d) = Some m"
proof -
  have "distinct (map me_hash ms) \<Longrightarrow> m \<in> set ms \<Longrightarrow> find (\<lambda>m'. me_hash m' = me_hash m) ms = Some m" for ms
    by (induction ms) (auto simp: image_iff)
  then show "memory_ok d \<Longrightarrow> m \<in> set (md_rows d) \<Longrightarrow> ?thesis" by (simp add: memory_ok_def)
qed

lemma evict_excess_bound:
  assumes "0 \<le> mv_max env" "sorted_wrt (<) (map me_id (md_rows d))"
  shows "int (length (md_rows (evict_excess env d))) \<le> mv_max env"
  using assms kept_length [of me_id "md_rows d" "nat (int (length (md_rows d)) - mv_max env)" me_updated]
  by (simp add: evict_excess_def Let_def evict_memories_def drop_ids_def strict_sorted_iff)

lemma evict_keeps_newest:
  assumes "md_rows d = ms @ [m]" "0 < mv_max env" "\<forall>y \<in> set ms. me_updated y \<le> me_updated m" "sorted_wrt (<) (map me_id (md_rows d))"
  shows "m \<in> set (md_rows (evict_excess env d))"
  using assms kept_last [of me_id ms m "nat (int (length (md_rows d)) - mv_max env)" me_updated]
  by (simp add: evict_excess_def evict_memories_def drop_ids_def Let_def strict_sorted_iff)

lemma insert_memory_keeps:
  assumes "memory_ok d" "0 < mv_max env" "\<forall>y \<in> set (md_rows d). me_updated y \<le> me_updated m"
  shows "m\<lparr>me_id := md_next d\<rparr> \<in> set (md_rows (insert_memory env now m d))"
proof -
  have "sorted_wrt (<) (map me_id (md_rows d @ [m\<lparr>me_id := md_next d\<rparr>]))"
    using assms(1) by (auto simp: memory_ok_def sorted_wrt_append)
  then show ?thesis
    using assms(2,3) by (auto simp: insert_memory_def Let_def intro!: evict_keeps_newest split: option.split)
qed

definition key_of :: "memory_env \<Rightarrow> string \<Rightarrow> string \<Rightarrow> string \<Rightarrow> string" where
  "key_of env content agent task = mv_hash env (content_key (py_strip content) (py_strip agent) (py_strip task))"

lemma store_hit:
  assumes "py_strip content \<noteq> []" "find (\<lambda>m. me_hash m = key_of env content agent task) (md_rows d) = Some m"
  shows "store env now content source tags agent task imp d = (Inr (me_id m), d\<lparr>md_rows := map (refresh now (clamp01 imp) (me_id m)) (md_rows d)\<rparr>)"
  using assms by (simp add: store_def Let_def key_of_def)

lemma store_miss:
  assumes "py_strip content \<noteq> []" "find (\<lambda>m. me_hash m = key_of env content agent task) (md_rows d) = None"
  obtains m where "store env now content source tags agent task imp d = (Inr (md_next d), insert_memory env now m d)"
    "me_updated m = now" "me_importance m = clamp01 imp" "me_hash m = key_of env content agent task"
proof
  let ?m = "\<lparr>me_id = 0, me_content = py_strip content, me_source = (if source \<noteq> [] then py_strip source else ''agent''), me_tags = py_strip tags,
    me_created = now, me_updated = now, me_access = 0, me_agent = py_strip agent, me_task = py_strip task, me_importance = clamp01 imp,
    me_hash = key_of env content agent task\<rparr>"
  show "store env now content source tags agent task imp d = (Inr (md_next d), insert_memory env now ?m d)"
    using assms by (simp add: store_def Let_def key_of_def)
qed simp_all

lemma store_present:
  assumes "memory_ok d" "0 < mv_max env" "\<forall>m \<in> set (md_rows d). me_updated m \<le> now" "py_strip content \<noteq> []"
  shows "\<exists>m \<in> set (md_rows (snd (store env now content source tags agent task imp d))).
    fst (store env now content source tags agent task imp d) = Inr (me_id m) \<and> clamp01 imp \<le> me_importance m
    \<and> me_hash m = key_of env content agent task"
proof (cases "find (\<lambda>m. me_hash m = key_of env content agent task) (md_rows d)")
  case None
  then obtain m where m: "store env now content source tags agent task imp d = (Inr (md_next d), insert_memory env now m d)"
      "me_updated m = now" "me_importance m = clamp01 imp" "me_hash m = key_of env content agent task"
    by (rule store_miss [OF assms(4)])
  then show ?thesis using insert_memory_keeps [OF assms(1,2), of m] assms(3)
    by (intro bexI [of _ "m\<lparr>me_id := md_next d\<rparr>"]) auto
next
  case (Some m)
  then have "m \<in> set (md_rows d)" and h: "me_hash m = key_of env content agent task"
    by (auto simp: find_Some_iff)
  then show ?thesis using h unfolding store_hit [OF assms(4) Some]
    by (intro bexI [of _ "refresh now (clamp01 imp) (me_id m) m"]) (auto simp: refresh_def)
qed

text \<open>C39: Storing the same content again for the same agent and task, however padded and from whatever source, gives the
  id of the first time, adds no row, and leaves the highest of the importances.\<close>

theorem store_deduplicates:
  assumes "memory_ok d" "0 < mv_max env" "\<forall>m \<in> set (md_rows d). me_updated m \<le> now"
    and "py_strip content \<noteq> []" "py_strip content' = py_strip content"
  shows "\<exists>i. fst (store env now content source tags agent task imp d) = Inr i \<and>
    (let d1 = snd (store env now content source tags agent task imp d);
         d2 = snd (store env later content' source' tags' agent task imp' d1) in
     fst (store env later content' source' tags' agent task imp' d1) = Inr i \<and> map me_id (md_rows d2) = map me_id (md_rows d1)
     \<and> (\<exists>m \<in> set (md_rows d2). me_id m = i \<and> clamp01 imp \<le> me_importance m \<and> clamp01 imp' \<le> me_importance m))"
proof -
  let ?d1 = "snd (store env now content source tags agent task imp d)"
  obtain m where m: "m \<in> set (md_rows ?d1)" "fst (store env now content source tags agent task imp d) = Inr (me_id m)"
      "clamp01 imp \<le> me_importance m" "me_hash m = key_of env content agent task"
    using store_present [OF assms(1-4)] by blast
  let ?r = "refresh later (clamp01 imp') (me_id m)"
  have "key_of env content' agent task = me_hash m" using m(4) assms(5) by (simp add: key_of_def)
  then have two: "store env later content' source' tags' agent task imp' ?d1 = (Inr (me_id m), ?d1\<lparr>md_rows := map ?r (md_rows ?d1)\<rparr>)"
    using find_hash [OF store_ok [OF assms(1)] m(1)] assms(4,5) by (intro store_hit) simp_all
  have "me_id \<circ> ?r = me_id" by (auto simp: refresh_def)
  moreover have "\<exists>m' \<in> ?r ` set (md_rows ?d1). me_id m' = me_id m \<and> clamp01 imp \<le> me_importance m' \<and> clamp01 imp' \<le> me_importance m'"
    using m(1,3) by (intro bexI [of _ "?r m"] imageI) (simp_all add: refresh_def)
  ultimately show ?thesis unfolding Let_def two using m(2) by simp
qed

text \<open>No sequence of operations leaves more memories than the limit.\<close>

lemma store_bounded:
  assumes "memory_ok d" "0 \<le> mv_max env" "int (length (md_rows d)) \<le> mv_max env"
  shows "int (length (md_rows (snd (store env now content source tags agent task imp d)))) \<le> mv_max env"
proof -
  have "int (length (md_rows (insert_memory env now m d))) \<le> mv_max env" for m
    using assms(1) unfolding insert_memory_def Let_def
    by (intro evict_excess_bound assms(2)) (auto simp: memory_ok_def sorted_wrt_append split: option.split)
  then show ?thesis using assms(3) by (simp add: store_def Let_def split: option.split)
qed

lemma drop_ids_length: "int (length (md_rows d)) \<le> n \<Longrightarrow> int (length (md_rows (drop_ids ids d))) \<le> n"
  unfolding drop_ids_def by (simp, rule order_trans [OF of_nat_mono [OF length_filter_le]])

lemma bump_length [simp]: "length (md_rows (bump now ids d)) = length (md_rows d)"
  by (simp add: bump_def)

lemma recalls_length [simp]:
  "length (md_rows (snd (recall env now query n tag source agent task d))) = length (md_rows d)"
  "length (md_rows (snd (semantic_recall env now query n tag source sim agent task d))) = length (md_rows d)"
  by (simp_all add: recall_def semantic_recall_def Let_def split: sum.split option.split)

lemma hybrid_length [simp]: "length (md_rows (snd (hybrid_recall env f moments query n tag source agent task d))) = length (md_rows d)"
proof -
  obtain t1 t2 t3 where [simp]: "moments = (t1, t2, t3)" by (cases moments)
  obtain r d1 where r: "recall env t1 query (n * 2) tag source agent task d = (r, d1)" by fastforce
  obtain s d2 where s: "semantic_recall env t2 query (n * 2) tag source (3 / 10) agent task d1 = (s, d2)" by fastforce
  have "length (md_rows d1) = length (md_rows d)" "length (md_rows d2) = length (md_rows d1)"
    using recalls_length r s by (metis snd_conv)+
  then show ?thesis by (cases r) (simp_all add: hybrid_recall_def r s)
qed

primrec within_limit :: "int \<Rightarrow> memory_op \<Rightarrow> bool" where
  "within_limit n (OpStore env now content source tags agent task imp) = (mv_max env = n)"
| "within_limit n (OpRecall env now query k tag source agent task) = True"
| "within_limit n (OpSemantic env now query k tag source sim agent task) = True"
| "within_limit n (OpHybrid env f moments query k tag source agent task) = True"
| "within_limit n (OpDelete i) = True"
| "within_limit n (OpCleanup env keep) = True"
| "within_limit n (OpBackfill env batch) = True"

lemma run_memory_op_bounded:
  assumes "memory_ok d" "0 \<le> n" "int (length (md_rows d)) \<le> n" "within_limit n op"
  shows "int (length (md_rows (run_memory_op op d))) \<le> n"
proof (cases op)
  case (OpStore env now content source tags agent task imp)
  then show ?thesis using assms store_bounded [OF assms(1), of env now content source tags agent task imp] by simp
next
  case (OpDelete i)
  then show ?thesis using assms by (simp add: delete_memory_def drop_ids_length)
next
  case (OpCleanup env keep)
  then show ?thesis using assms
    by (auto simp: cleanup_def Let_def evict_memories_def drop_ids_length)
next
  case (OpBackfill env batch)
  then show ?thesis using assms by (simp add: backfill_embeddings_def Let_def split: option.split)
qed (use assms in simp_all)

lemma operations_bounded:
  "\<forall>op \<in> set ops. within_limit n op \<Longrightarrow> 0 \<le> n \<Longrightarrow> memory_ok d \<Longrightarrow> int (length (md_rows d)) \<le> n
    \<Longrightarrow> int (length (md_rows (foldl (\<lambda>d op. run_memory_op op d) d ops))) \<le> n"
  by (induction ops arbitrary: d) (simp_all add: run_memory_op_ok run_memory_op_bounded)

text \<open>Whatever is stored, recalled, deleted or cleaned up, in whatever order, the store never holds more memories
  than its limit.\<close>

theorem memory_bounded:
  assumes "\<forall>op \<in> set ops. within_limit n op" "0 \<le> n"
  shows "int (length (md_rows (foldl (\<lambda>d op. run_memory_op op d) empty_memory ops))) \<le> n"
  using operations_bounded [OF assms empty_memory_ok] assms(2) by (simp add: empty_memory_def)

section \<open>Recall\<close>

lemma clamp_results_bounds: "1 \<le> clamp_results n" "clamp_results n \<le> 50"
  by (simp_all add: clamp_results_def)

lemma recall_result:
  assumes "recall env now query n tag source agent task d = (Inr es, d1)" "e \<in> set es"
  shows "in_scope tag source agent task (en_row e)"
  using assms
  by (auto simp: recall_def Let_def split: if_splits sum.splits dest!: in_set_takeD)

lemma recall_count:
  assumes "recall env now query n tag source agent task d = (Inr es, d1)"
  shows "length es \<le> clamp_results n"
  using assms by (auto simp: recall_def Let_def split: if_splits sum.splits)

definition joined :: "memory_db \<Rightarrow> (memory \<times> real list) list" where
  "joined d = List.map_filter (\<lambda>(i, v). map_option (\<lambda>m. (m, v)) (find (\<lambda>m. me_id m = i) (md_rows d))) (md_embeddings d)"

lemma joined_rows: "(m, v) \<in> set (joined d) \<Longrightarrow> m \<in> set (md_rows d)"
  by (auto simp: joined_def List.map_filter_def find_Some_iff)

lemma joined_complete:
  assumes "memory_ok d" "(me_id m, v) \<in> set (md_embeddings d)" "m \<in> set (md_rows d)"
  shows "(m, v) \<in> set (joined d)"
proof -
  have "sorted_wrt (<) (map me_id ms) \<Longrightarrow> m \<in> set ms \<Longrightarrow> find (\<lambda>m'. me_id m' = me_id m) ms = Some m" for ms
    by (induction ms) auto
  then have "find (\<lambda>m'. me_id m' = me_id m) (md_rows d) = Some m" using assms by (simp add: memory_ok_def)
  then show ?thesis using assms(2) by (force simp: joined_def List.map_filter_def)
qed

lemma semantic_recall_unfold:
  assumes "py_strip query \<noteq> []" "mv_embed env = Some emb" "emb (py_strip query) = Some q"
  shows "fst (semantic_recall env now query n tag source sim agent task d) =
    take (clamp_results n) (rank_by en_score (filter (\<lambda>e. en_score e \<ge> sim) (map (\<lambda>(m, v). \<lparr>en_row = m, en_score = cosine_similarity q v\<rparr>)
      (filter (\<lambda>(m, v). in_scope tag source agent task m) (joined d)))))"
  using assms by (simp add: semantic_recall_def Let_def joined_def)

lemma semantic_result:
  assumes "e \<in> set (fst (semantic_recall env now query n tag source sim agent task d))"
  shows "in_scope tag source agent task (en_row e) \<and> sim \<le> en_score e \<and> en_score e \<le> 1 \<and> en_row e \<in> set (md_rows d)"
proof -
  obtain emb q where *: "py_strip query \<noteq> []" "mv_embed env = Some emb" "emb (py_strip query) = Some q"
    using assms by (auto simp: semantic_recall_def split: if_splits option.splits)
  have "cosine_similarity q v \<le> 1" for v using cosine_bounds [of q v] by simp
  then show ?thesis using assms unfolding semantic_recall_unfold [OF *] by (auto dest!: in_set_takeD joined_rows)
qed

lemma semantic_count: "length (fst (semantic_recall env now query n tag source sim agent task d)) \<le> clamp_results n"
  by (simp add: semantic_recall_def Let_def split: option.split)

text \<open>A semantic recall returns at most 50 memories of the table, the most similar first, none below the threshold
  and all within the filters; an embedded memory within the filters that is similar enough is returned, or the limit
  is reached by memories at least as similar.\<close>

theorem semantic_recall_best:
  assumes "memory_ok d" "mv_embed env = Some emb" "emb (py_strip query) = Some q" "py_strip query \<noteq> []"
    and "m \<in> set (md_rows d)" "(me_id m, v) \<in> set (md_embeddings d)" "in_scope tag source agent task m" "sim \<le> cosine_similarity q v"
  shows "let es = fst (semantic_recall env now query n tag source sim agent task d) in
    length es \<le> 50 \<and> sorted_wrt (\<lambda>x y. en_score x \<ge> en_score y) es
    \<and> (\<forall>e \<in> set es. en_row e \<in> set (md_rows d) \<and> in_scope tag source agent task (en_row e) \<and> sim \<le> en_score e \<and> en_score e \<le> 1)
    \<and> (m \<in> en_row ` set es \<or> (length es = clamp_results n \<and> (\<forall>e \<in> set es. cosine_similarity q v \<le> en_score e)))"
proof -
  let ?es = "fst (semantic_recall env now query n tag source sim agent task d)"
  define xs where "xs = filter (\<lambda>e. en_score e \<ge> sim) (map (\<lambda>(m, v). \<lparr>en_row = m, en_score = cosine_similarity q v\<rparr>)
      (filter (\<lambda>(m, v). in_scope tag source agent task m) (joined d)))"
  let ?e = "\<lparr>en_row = m, en_score = cosine_similarity q v\<rparr>"
  have es: "?es = take (clamp_results n) (rank_by en_score xs)" unfolding xs_def by (rule semantic_recall_unfold [OF assms(4,2,3)])
  have "?e \<in> set xs" using joined_complete [OF assms(1,6,5)] assms(7,8) by (force simp: xs_def)
  then have "?e \<in> set ?es \<or> ?e \<in> set (drop (clamp_results n) (rank_by en_score xs))"
    unfolding es by (metis Un_iff append_take_drop_id rank_by_set(1) set_append)
  moreover have "length ?es = clamp_results n \<and> (\<forall>e \<in> set ?es. cosine_similarity q v \<le> en_score e)"
    if "?e \<in> set (drop (clamp_results n) (rank_by en_score xs))"
  proof -
    have "clamp_results n < length (rank_by en_score xs)" using that by (metis drop_all empty_iff empty_set not_less)
    moreover have "cosine_similarity q v \<le> en_score e" if "e \<in> set (take (clamp_results n) (rank_by en_score xs))" for e
      using rank_by_take [OF that \<open>?e \<in> set (drop _ _)\<close>] by simp
    ultimately show ?thesis unfolding es by simp
  qed
  moreover have "sorted_wrt (\<lambda>x y. en_score x \<ge> en_score y) ?es"
    unfolding es by (rule sorted_wrt_take [OF rank_by_sorted])
  moreover have "length ?es \<le> 50" using semantic_count clamp_results_bounds(2) by (rule order_trans)
  moreover have "?e \<in> set ?es \<Longrightarrow> m \<in> en_row ` set ?es" by force
  ultimately show ?thesis unfolding Let_def using semantic_result by blast
qed

section \<open>Fusion\<close>

lemma powr_half_bounds: "0 \<le> (a::real) \<Longrightarrow> 2 powr (- a) \<le> 1"
  by (simp add: powr_minus divide_simps ge_one_powr_ge_zero)

lemma recency_bounds: "0 < recency_factor now updated" "recency_factor now updated \<le> 1"
proof -
  show "0 < recency_factor now updated" by (simp add: recency_factor_def Let_def)
  show "recency_factor now updated \<le> 1"
    using powr_half_bounds [of "of_int (now - updated) / 1000000 / 86400 / 30"]
    by (simp add: recency_factor_def Let_def DECAY_HALFLIFE_DAYS_def)
qed

lemma rescale_loop_rows: "map en_row (rescale_loop kw q seen es) = map en_row (seen @ es)"
  by (induction es arbitrary: seen) (simp_all add: Let_def)

lemma fuse_rows:
  "(\<forall>(i, b, s, m) \<in> set d. P m) \<Longrightarrow> \<forall>e \<in> set es. P (en_row e) \<Longrightarrow> \<forall>(i, b, s, m) \<in> set (foldl fuse d es). P m"
proof (induction es arbitrary: d)
  case (Cons e es)
  have "\<forall>(i, b, s, m) \<in> set (fuse d e). P m"
    using Cons.prems by (auto simp: fuse_def dest!: dict_set_member split: option.splits)
  then show ?case using Cons by simp
qed simp

lemma first_rows:
  "(\<forall>(i, b, s, m) \<in> set d. P m) \<Longrightarrow> \<forall>e \<in> set es. P (en_row e)
    \<Longrightarrow> \<forall>(i, b, s, m) \<in> set (foldl (\<lambda>d e. dict_set (me_id (en_row e)) (f e, 0, en_row e) d) d es). P m"
proof (induction es arbitrary: d)
  case (Cons e es)
  have "\<forall>(i, b, s, m) \<in> set (dict_set (me_id (en_row e)) (f e, 0, en_row e) d). P m"
    using Cons.prems by (auto dest!: dict_set_member)
  then show ?case using Cons by simp
qed simp

lemma fuse_results_rows:
  assumes "\<forall>e \<in> set bm25. P (en_row e)" "\<forall>e \<in> set sem. P (en_row e)"
  shows "\<forall>e \<in> set (fuse_results f q bm25 sem). P (en_row e)"
proof -
  consider "sem = []" | "sem \<noteq> []" "bm25 = []" | "sem \<noteq> []" "bm25 \<noteq> []" by blast
  then show ?thesis
  proof cases
    case 1
    have "en_row ` set (rescale_loop kw q [] bm25) = en_row ` set bm25" for kw 
      using arg_cong [OF rescale_loop_rows [of kw q "[]" bm25], of set] by simp
    then have "\<forall>x \<in> en_row ` set (rescale_loop kw q [] bm25). P x" for kw using assms(1) by simp
    then show ?thesis using 1 by (simp add: fuse_results_def)
  next
    case 2
    then show ?thesis using assms(2) by (simp add: fuse_results_def)
  next
    case 3
    let ?d = "foldl fuse (foldl (\<lambda>d e. dict_set (me_id (en_row e)) (en_score e / max (top_score bm25) (1 / 1000), 0, en_row e) d) [] bm25) sem"
    have "\<forall>(i, b, s, m) \<in> set ?d. P m" by (intro fuse_rows first_rows) (use assms in simp_all)
    moreover have "fuse_results f q bm25 sem =
        rank_by en_score (map (\<lambda>(i, b, s, m). \<lparr>en_row = m, en_score = b * fu_keyword f + s * fu_semantic f + q m\<rparr>) ?d)"
      using 3 by (simp add: fuse_results_def Let_def)
    ultimately show ?thesis by auto
  qed
qed

lemma fuse_results_sorted: "sorted_wrt (\<lambda>x y. en_score x \<ge> en_score y) (fuse_results f q bm25 sem)"
  by (simp add: fuse_results_def Let_def rank_by_sorted)

text \<open>A hybrid recall returns at most the number of memories asked for, sorted by their fused scores, all within the
  filters, whichever of the two rankings finds them.\<close>

theorem hybrid_recall_ranked:
  assumes "fst (hybrid_recall env f moments query n tag source agent task d) = Inr es"
  shows "length es \<le> nat n \<and> sorted_wrt (\<lambda>x y. en_score x \<ge> en_score y) es \<and> (\<forall>e \<in> set es. in_scope tag source agent task (en_row e))"
proof -
  obtain t1 t2 t3 where [simp]: "moments = (t1, t2, t3)" by (cases moments)
  obtain r d1 where r: "recall env t1 query (n * 2) tag source agent task d = (r, d1)" by fastforce
  obtain s d2 where s: "semantic_recall env t2 query (n * 2) tag source (3 / 10) agent task d1 = (s, d2)" by fastforce
  obtain bm where "r = Inr bm" and es: "es = take (nat n) (fuse_results f (quality_recency f t3) bm s)"
    using assms by (cases r) (auto simp: hybrid_recall_def r s)
  have "\<forall>e \<in> set bm. in_scope tag source agent task (en_row e)" using recall_result r \<open>r = Inr bm\<close> by blast
  moreover have "\<forall>e \<in> set s. in_scope tag source agent task (en_row e)"
    using semantic_result [of _ env t2 query "n * 2" tag source "3 / 10" agent task d1] s by simp
  ultimately have "\<forall>e \<in> set es. in_scope tag source agent task (en_row e)"
    using fuse_results_rows [of bm "in_scope tag source agent task" s] unfolding es by (blast dest: in_set_takeD)
  then show ?thesis unfolding es by (simp add: sorted_wrt_take fuse_results_sorted)
qed

lemma top_score_max: "e \<in> set es \<Longrightarrow> en_score e \<le> top_score es"
  by (cases es) (auto simp: top_score_def foldl_max_start foldl_max_ge)

lemma top_score_in: "es \<noteq> [] \<Longrightarrow> top_score es \<in> en_score ` set es"
proof -
  have "foldl max a xs \<in> insert a (set xs)" for a :: real and xs
    by (induction xs arbitrary: a) (auto simp: max_def)
  then show "es \<noteq> [] \<Longrightarrow> top_score es \<in> en_score ` set es"
    by (cases es) (force simp: top_score_def)+
qed

lemma rescale_forgets:
  assumes "\<forall>e \<in> set seen. \<forall>e' \<in> set es. en_score e < en_score e'" "\<forall>e \<in> set es. \<forall>e' \<in> set es. kw + q (en_row e) < en_score e'"
    and "sorted_wrt (\<lambda>x y. en_score x \<ge> en_score y) es" "\<forall>e \<in> set es. 0 < en_score e"
  shows "rescale_loop kw q seen es = seen @ map (\<lambda>e. e\<lparr>en_score := kw + q (en_row e)\<rparr>) es"
  using assms
proof (induction es arbitrary: seen)
  case (Cons e es)
  have "top_score (seen @ e # es) = en_score e"
  proof (rule antisym)
    show "en_score e \<le> top_score (seen @ e # es)" by (rule top_score_max) simp
    have "top_score (seen @ e # es) \<in> en_score ` set (seen @ e # es)" by (rule top_score_in) simp
    then show "top_score (seen @ e # es) \<le> en_score e" using Cons.prems(1,3) by (auto simp: less_imp_le)
  qed
  then have "rescale_loop kw q seen (e # es) = rescale_loop kw q (seen @ [e\<lparr>en_score := kw + q (en_row e)\<rparr>]) es"
    using Cons.prems(4) by (simp add: Let_def)
  moreover have "\<forall>x \<in> set (seen @ [e\<lparr>en_score := kw + q (en_row e)\<rparr>]). \<forall>e' \<in> set es. en_score x < en_score e'"
    using Cons.prems(1,2) by simp
  ultimately show ?case using Cons.IH Cons.prems by simp
qed simp

text \<open>Without embeddings the scores are normalised one after the other, each by the largest score of the moment. Once
  an entry's score has been replaced by a smaller one, the next entry is the largest, and is normalised to 1: the
  relevance of the entries is lost and the ranking is that of importance and recency alone.\<close>

theorem bm25_only_ignores_relevance:
  assumes "sorted_wrt (\<lambda>x y. en_score x \<ge> en_score y) es" "\<forall>e \<in> set es. 0 < en_score e"
    and "\<forall>e \<in> set es. \<forall>e' \<in> set es. fu_keyword f + q (en_row e) < en_score e'"
  shows "fuse_results f q es [] = rank_by en_score (map (\<lambda>e. e\<lparr>en_score := fu_keyword f + q (en_row e)\<rparr>) es)"
  using rescale_forgets [of "[]" es "fu_keyword f" q] assms by (simp add: fuse_results_def)

section \<open>Examples\<close>

definition sample_env :: "int \<Rightarrow> memory_env" where
  "sample_env n = \<lparr>mv_max = n, mv_hash = id, mv_embed = Some (\<lambda>s. Some [1]), mv_embed_batch = map (\<lambda>s. Some [1]),
     mv_fts = (\<lambda>ts ms. Inr (map (\<lambda>m. (m, 1)) ms))\<rparr>"

definition sample_memory :: "int \<Rightarrow> memory" where
  "sample_memory i = \<lparr>me_id = i, me_content = ''fact'', me_source = ''agent'', me_tags = [], me_created = 0, me_updated = 0, me_access = 0,
     me_agent = [], me_task = [], me_importance = 1 / 2, me_hash = ''h''\<rparr>"

definition sample_db :: memory_db where
  "sample_db = \<lparr>md_rows = [sample_memory 1], md_next = 2, md_embeddings = [(1, [1])]\<rparr>"

lemma sample_db_ok: "memory_ok sample_db"
  by (simp add: memory_ok_def sample_db_def sample_memory_def stored_ok_def dict_ok_def dict_keys_def py_strip_def py_lstrip_def py_space_def)

theorem store_deduplicates_witness:
  "\<exists>i. fst (store (sample_env 5) 1 ''fact'' ''user'' [] ''dev'' [] (1 / 2) sample_db) = Inr i \<and>
    (let d1 = snd (store (sample_env 5) 1 ''fact'' ''user'' [] ''dev'' [] (1 / 2) sample_db);
         d2 = snd (store (sample_env 5) 2 '' fact '' ''agent'' [] ''dev'' [] 1 d1) in
     fst (store (sample_env 5) 2 '' fact '' ''agent'' [] ''dev'' [] 1 d1) = Inr i \<and> map me_id (md_rows d2) = map me_id (md_rows d1)
     \<and> (\<exists>m \<in> set (md_rows d2). me_id m = i \<and> clamp01 (1 / 2) \<le> me_importance m \<and> clamp01 1 \<le> me_importance m))"
  by (rule store_deduplicates [OF sample_db_ok]) (code_simp+)

theorem memory_bounded_witness:
  "int (length (md_rows (foldl (\<lambda>d op. run_memory_op op d) empty_memory
     [OpStore (sample_env 1) 1 ''one'' ''user'' [] [] [] 1, OpStore (sample_env 1) 2 ''two'' ''user'' [] [] [] 1, OpDelete 7]))) \<le> 1"
  by (rule memory_bounded) (simp_all add: sample_env_def)

theorem semantic_recall_best_witness:
  "let es = fst (semantic_recall (sample_env 5) 1 ''what'' 3 [] [] (3 / 10) [] [] sample_db) in
    length es \<le> 50 \<and> sorted_wrt (\<lambda>x y. en_score x \<ge> en_score y) es
    \<and> (\<forall>e \<in> set es. en_row e \<in> set (md_rows sample_db) \<and> in_scope [] [] [] [] (en_row e) \<and> 3 / 10 \<le> en_score e \<and> en_score e \<le> 1)
    \<and> (sample_memory 1 \<in> en_row ` set es \<or> (length es = clamp_results 3 \<and> (\<forall>e \<in> set es. cosine_similarity [1] [1] \<le> en_score e)))"
  by (rule semantic_recall_best [where emb = "\<lambda>s. Some [1]", OF sample_db_ok])
     (simp_all add: sample_env_def sample_db_def sample_memory_def in_scope_def cosine_similarity_def py_strip_def py_lstrip_def py_space_def)

definition sample_weights :: fusion where
  "sample_weights = \<lparr>fu_keyword = 4 / 10, fu_semantic = 6 / 10, fu_importance = 2 / 10, fu_decay = 1 / 10\<rparr>"

definition scored :: "int \<Rightarrow> real \<Rightarrow> real \<Rightarrow> memory_entry" where
  "scored i imp s = \<lparr>en_row = (sample_memory i)\<lparr>me_importance := imp\<rparr>, en_score = s\<rparr>"

theorem hybrid_recall_ranked_witness:
  "\<exists>es. fst (hybrid_recall (sample_env 5) sample_weights (1, 2, 3) ''what'' 3 [] [] [] [] sample_db) = Inr es \<and> length es \<le> nat 3
    \<and> sorted_wrt (\<lambda>x y. en_score x \<ge> en_score y) es \<and> (\<forall>e \<in> set es. in_scope [] [] [] [] (en_row e))"
proof -
  have "fst (recall (sample_env 5) 1 ''what'' (3 * 2) [] [] [] [] sample_db) = Inr [\<lparr>en_row = sample_memory 1, en_score = 1\<rparr>]"
    by (simp add: recall_def sample_env_def sample_db_def in_scope_def py_strip_def py_lstrip_def py_space_def clamp_results_def)
  then obtain es where "fst (hybrid_recall (sample_env 5) sample_weights (1, 2, 3) ''what'' 3 [] [] [] [] sample_db) = Inr es"
    by (fastforce simp: hybrid_recall_def split: prod.splits)
  then show ?thesis using hybrid_recall_ranked [of "sample_env 5" sample_weights "(1, 2, 3)" "''what''" 3 "[]" "[]" "[]" "[]" sample_db es] by blast
qed

text \<open>A memory that matches the query twenty times as well is ranked below one that was thought more important.\<close>

theorem bm25_only_ignores_relevance_witness:
  "fuse_results sample_weights (\<lambda>m. me_importance m * fu_importance sample_weights) [scored 1 (1 / 10) 20, scored 2 (9 / 10) 1] []
    = rank_by en_score (map (\<lambda>e. e\<lparr>en_score := fu_keyword sample_weights + me_importance (en_row e) * fu_importance sample_weights\<rparr>)
        [scored 1 (1 / 10) 20, scored 2 (9 / 10) 1])"
  by (rule bm25_only_ignores_relevance) (simp_all add: scored_def sample_weights_def)

text \<open>A filter by a prefix of the source finds a memory in SQLite and not in Postgres, where the source must be equal.\<close>

definition sample_external :: external where
  "sample_external = \<lparr>ex_fts = True, ex_vector = False, ex_rank = (\<lambda>q ms. map (\<lambda>m. (m, 1)) ms), ex_distance = (\<lambda>q m. None), ex_fold = id, ex_embedder = None\<rparr>"

lemma source_prefix_differs:
  "fst (recall (sample_env 5) 1 ''what'' 3 [] ''age'' [] [] sample_db) = Inr [\<lparr>en_row = sample_memory 1, en_score = 1\<rparr>]
   \<and> fst (recall_external sample_external 1 ''what'' 3 [] ''age'' [] [] sample_db) = []"
  by (simp add: recall_def recall_external_def sample_external_def sample_env_def sample_db_def in_scope_def external_scope_def
      py_strip_def py_lstrip_def py_space_def clamp_results_def sample_memory_def rank_by_def)

end
