(* ===== verification/Message_Types.thy ===== *)
theory Message_Types
  imports Py_Json "HOL-Library.List_Lexorder" "HOL-Library.Char_ord"
begin

text \<open>
  The messages agents exchange (\<^verbatim>\<open>agents/message_types.py\<close>): the message, its dictionary form, the typed payloads and
  their validation. Stamps are ISO strings, as in the source; the clock's arithmetic on them is a parameter.
\<close>

section \<open>Messages\<close>

datatype message_type = Decision | Blocker | Handoff | Status | Info | Question | Completion

fun type_value :: "message_type \<Rightarrow> string" where
  "type_value Decision = ''decision''"
| "type_value Blocker = ''blocker''"
| "type_value Handoff = ''handoff''"
| "type_value Status = ''status''"
| "type_value Info = ''info''"
| "type_value Question = ''question''"
| "type_value Completion = ''completion''"

definition all_types :: "message_type list" where
  "all_types = [Decision, Blocker, Handoff, Status, Info, Question, Completion]"

definition message_type_of :: "string \<Rightarrow> py_exn + message_type" where
  "message_type_of s =
     (case find (\<lambda>t. type_value t = s) all_types of
        Some t \<Rightarrow> Inr t
      | None \<Rightarrow> Inl (ValueError ([CHR 0x27] @ s @ [CHR 0x27] @ '' is not a valid MessageType'')))"

definition HIGH_PRIORITY_TYPES :: "message_type list" where
  "HIGH_PRIORITY_TYPES = [Decision, Blocker, Handoff]"

definition DEFAULT_TTL_SECONDS :: int where
  "DEFAULT_TTL_SECONDS = 7 * 24 * 3600"

definition BROADCAST :: string where
  "BROADCAST = ''*''"

record message =
  ms_id :: string
  ms_sender :: string
  ms_recipient :: string
  ms_type :: message_type
  ms_topic :: string
  ms_content :: string
  ms_metadata :: "(string, json) py_dict"
  ms_parent :: "string option"
  ms_issue :: "string option"
  ms_comment :: "string option"
  ms_ttl :: int
  ms_created :: string
  ms_expires :: "string option"
  ms_read_by :: "string list"
  ms_score :: real

text \<open>\<open>tm_add stamp seconds\<close> is \<open>(fromisoformat(stamp) + timedelta(seconds)).isoformat()\<close>; \<open>tm_value\<close> the moment a stamp
  names, a naive one taken as UTC.\<close>

record clock =
  tm_add :: "string \<Rightarrow> int \<Rightarrow> string"
  tm_value :: "string \<Rightarrow> int"

definition post_init :: "clock \<Rightarrow> message \<Rightarrow> message" where
  "post_init c m = (if ms_expires m = None \<and> ms_ttl m > 0 then m\<lparr>ms_expires := Some (tm_add c (ms_created m) (ms_ttl m))\<rparr> else m)"

definition json_opt :: "string option \<Rightarrow> json" where
  "json_opt v = (case v of None \<Rightarrow> JNull | Some s \<Rightarrow> JStr s)"

definition message_to_dict :: "message \<Rightarrow> (string, json) py_dict" where
  "message_to_dict m =
     [(''id'', JStr (ms_id m)), (''sender'', JStr (ms_sender m)), (''recipient'', JStr (ms_recipient m)),
      (''msg_type'', JStr (type_value (ms_type m))), (''topic'', JStr (ms_topic m)), (''content'', JStr (ms_content m)),
      (''metadata'', JObj (ms_metadata m)), (''parent_id'', json_opt (ms_parent m)), (''issue_id'', json_opt (ms_issue m)),
      (''paperclip_comment_id'', json_opt (ms_comment m)), (''ttl_seconds'', JInt (ms_ttl m)), (''created_at'', JStr (ms_created m)),
      (''expires_at'', json_opt (ms_expires m)), (''read_by'', JArr (map JStr (ms_read_by m))), (''score'', JReal (ms_score m))]"

text \<open>Reading a field of the expected type. A dictionary whose values have other types is outside of the model: the
  dataclass keeps such a value as it is.\<close>

fun as_str :: "json \<Rightarrow> string option" where
  "as_str (JStr s) = Some s"
| "as_str _ = None"

fun as_int :: "json \<Rightarrow> int option" where
  "as_int (JInt n) = Some n"
| "as_int _ = None"

fun as_real :: "json \<Rightarrow> real option" where
  "as_real (JReal r) = Some r"
| "as_real (JInt n) = Some (of_int n)"
| "as_real _ = None"

fun as_bool :: "json \<Rightarrow> bool option" where
  "as_bool (JBool b) = Some b"
| "as_bool _ = None"

fun as_obj :: "json \<Rightarrow> (string, json) py_dict option" where
  "as_obj (JObj d) = Some d"
| "as_obj _ = None"

fun as_nullable :: "(json \<Rightarrow> 'a option) \<Rightarrow> json \<Rightarrow> 'a option option" where
  "as_nullable f JNull = Some None"
| "as_nullable f v = map_option Some (f v)"

fun as_strs :: "json \<Rightarrow> string list option" where
  "as_strs (JArr []) = Some []"
| "as_strs (JArr (v # vs)) = (case (as_str v, as_strs (JArr vs)) of (Some s, Some ss) \<Rightarrow> Some (s # ss) | _ \<Rightarrow> None)"
| "as_strs _ = None"

lemma as_simps [simp]:
  "as_nullable as_str (json_opt v) = Some v" "as_nullable f (JInt n) = map_option Some (f (JInt n))" "as_strs (JArr (map JStr ss)) = Some ss"
proof -
  show "as_nullable as_str (json_opt v) = Some v" by (cases v) (simp_all add: json_opt_def)
  show "as_strs (JArr (map JStr ss)) = Some ss" by (induction ss) simp_all
qed simp

text \<open>\<open>data.get(key, default)\<close> at a type.\<close>

definition data_field :: "(json \<Rightarrow> 'a option) \<Rightarrow> (string, json) py_dict \<Rightarrow> string \<Rightarrow> json \<Rightarrow> 'a option" where
  "data_field f d k v = f (dict_get_or d k v)"

definition with_type :: "(py_exn + message_type) \<Rightarrow> (message_type \<Rightarrow> message) \<Rightarrow> py_exn + message" where
  "with_type r f = res_bind r (\<lambda>t. Inr (f t))"

definition message_from_dict :: "clock \<Rightarrow> string \<Rightarrow> string \<Rightarrow> (string, json) py_dict \<Rightarrow> (py_exn + message) option" where
  "message_from_dict c fresh now d =
     Option.bind (data_field as_str d ''id'' (JStr fresh)) (\<lambda>i.
     Option.bind (data_field as_str d ''sender'' (JStr [])) (\<lambda>sender.
     Option.bind (data_field as_str d ''recipient'' (JStr BROADCAST)) (\<lambda>recipient.
     Option.bind (data_field as_str d ''msg_type'' (JStr ''info'')) (\<lambda>ty.
     Option.bind (data_field as_str d ''topic'' (JStr [])) (\<lambda>topic.
     Option.bind (data_field as_str d ''content'' (JStr [])) (\<lambda>content.
     Option.bind (data_field as_obj d ''metadata'' (JObj [])) (\<lambda>metadata.
     Option.bind (data_field (as_nullable as_str) d ''parent_id'' JNull) (\<lambda>parent.
     Option.bind (data_field (as_nullable as_str) d ''issue_id'' JNull) (\<lambda>issue.
     Option.bind (data_field (as_nullable as_str) d ''paperclip_comment_id'' JNull) (\<lambda>comment.
     Option.bind (data_field as_int d ''ttl_seconds'' (JInt DEFAULT_TTL_SECONDS)) (\<lambda>ttl.
     Option.bind (data_field as_str d ''created_at'' (JStr now)) (\<lambda>created.
     Option.bind (data_field (as_nullable as_str) d ''expires_at'' JNull) (\<lambda>expires.
     Option.bind (data_field as_strs d ''read_by'' (JArr [])) (\<lambda>read_by.
     Option.bind (data_field as_real d ''score'' (JReal 0)) (\<lambda>score.
     Some (with_type (message_type_of ty) (\<lambda>t. post_init c
       \<lparr>ms_id = i, ms_sender = sender, ms_recipient = recipient, ms_type = t, ms_topic = topic, ms_content = content,
        ms_metadata = metadata, ms_parent = parent, ms_issue = issue, ms_comment = comment, ms_ttl = ttl,
        ms_created = created, ms_expires = expires, ms_read_by = read_by, ms_score = score\<rparr>)))))))))))))))))"

definition is_expired :: "clock \<Rightarrow> int \<Rightarrow> message \<Rightarrow> bool" where
  "is_expired c now m = (if ms_ttl m = 0 then False else case ms_expires m of None \<Rightarrow> False | Some e \<Rightarrow> now > tm_value c e)"

definition format_for_context :: "message \<Rightarrow> string" where
  "format_for_context m =
     (let header = ''['' @ map upper_char (type_value (ms_type m)) @ ''] from '' @ ms_sender m
            @ (if ms_topic m \<noteq> [] then '' (topic: '' @ ms_topic m @ '')'' else [])
      in ''- **'' @ header @ ''**: '' @ ms_content m)"

section \<open>Payloads\<close>

record decision_payload =
  dp_decision :: string
  dp_rationale :: string
  dp_alternatives :: "string list"
  dp_reversible :: bool

record blocker_payload =
  bp_description :: string
  bp_task :: "string option"
  bp_severity :: string
  bp_needs_human :: bool

record handoff_payload =
  hp_from :: string
  hp_to :: string
  hp_summary :: string
  hp_context :: string
  hp_artifacts :: "string list"

record status_payload =
  sp_task :: "string option"
  sp_progress :: real
  sp_step :: string
  sp_eta :: "int option"

definition decision_to_dict :: "decision_payload \<Rightarrow> (string, json) py_dict" where
  "decision_to_dict p =
     [(''decision'', JStr (dp_decision p)), (''rationale'', JStr (dp_rationale p)),
      (''alternatives_considered'', JArr (map JStr (dp_alternatives p))), (''reversible'', JBool (dp_reversible p))]"

definition decision_from_dict :: "(string, json) py_dict \<Rightarrow> decision_payload option" where
  "decision_from_dict d =
     Option.bind (data_field as_str d ''decision'' (JStr [])) (\<lambda>a.
     Option.bind (data_field as_str d ''rationale'' (JStr [])) (\<lambda>b.
     Option.bind (data_field as_strs d ''alternatives_considered'' (JArr [])) (\<lambda>c.
     Option.bind (data_field as_bool d ''reversible'' (JBool True)) (\<lambda>e.
       Some \<lparr>dp_decision = a, dp_rationale = b, dp_alternatives = c, dp_reversible = e\<rparr>))))"

definition blocker_to_dict :: "blocker_payload \<Rightarrow> (string, json) py_dict" where
  "blocker_to_dict p =
     [(''blocker_description'', JStr (bp_description p)), (''blocking_task_id'', json_opt (bp_task p)),
      (''severity'', JStr (bp_severity p)), (''needs_human'', JBool (bp_needs_human p))]"

definition blocker_from_dict :: "(string, json) py_dict \<Rightarrow> blocker_payload option" where
  "blocker_from_dict d =
     Option.bind (data_field as_str d ''blocker_description'' (JStr [])) (\<lambda>a.
     Option.bind (data_field (as_nullable as_str) d ''blocking_task_id'' JNull) (\<lambda>b.
     Option.bind (data_field as_str d ''severity'' (JStr ''medium'')) (\<lambda>c.
     Option.bind (data_field as_bool d ''needs_human'' (JBool False)) (\<lambda>e.
       Some \<lparr>bp_description = a, bp_task = b, bp_severity = c, bp_needs_human = e\<rparr>))))"

definition handoff_to_dict :: "handoff_payload \<Rightarrow> (string, json) py_dict" where
  "handoff_to_dict p =
     [(''from_agent'', JStr (hp_from p)), (''to_agent'', JStr (hp_to p)), (''task_summary'', JStr (hp_summary p)),
      (''context'', JStr (hp_context p)), (''artifacts'', JArr (map JStr (hp_artifacts p)))]"

definition handoff_from_dict :: "(string, json) py_dict \<Rightarrow> handoff_payload option" where
  "handoff_from_dict d =
     Option.bind (data_field as_str d ''from_agent'' (JStr [])) (\<lambda>a.
     Option.bind (data_field as_str d ''to_agent'' (JStr [])) (\<lambda>b.
     Option.bind (data_field as_str d ''task_summary'' (JStr [])) (\<lambda>c.
     Option.bind (data_field as_str d ''context'' (JStr [])) (\<lambda>e.
     Option.bind (data_field as_strs d ''artifacts'' (JArr [])) (\<lambda>f.
       Some \<lparr>hp_from = a, hp_to = b, hp_summary = c, hp_context = e, hp_artifacts = f\<rparr>)))))"

definition status_to_dict :: "status_payload \<Rightarrow> (string, json) py_dict" where
  "status_to_dict p =
     [(''task_id'', json_opt (sp_task p)), (''progress_pct'', JReal (sp_progress p)), (''current_step'', JStr (sp_step p)),
      (''eta_seconds'', case sp_eta p of None \<Rightarrow> JNull | Some n \<Rightarrow> JInt n)]"

definition status_from_dict :: "(string, json) py_dict \<Rightarrow> status_payload option" where
  "status_from_dict d =
     Option.bind (data_field (as_nullable as_str) d ''task_id'' JNull) (\<lambda>a.
     Option.bind (data_field as_real d ''progress_pct'' (JReal 0)) (\<lambda>b.
     Option.bind (data_field as_str d ''current_step'' (JStr [])) (\<lambda>c.
     Option.bind (data_field (as_nullable as_int) d ''eta_seconds'' JNull) (\<lambda>e.
       Some \<lparr>sp_task = a, sp_progress = b, sp_step = c, sp_eta = e\<rparr>))))"

section \<open>Validation\<close>

fun payload_fields :: "message_type \<Rightarrow> string list option" where
  "payload_fields Decision = Some [''decision'', ''rationale'', ''alternatives_considered'', ''reversible'']"
| "payload_fields Blocker = Some [''blocker_description'', ''blocking_task_id'', ''severity'', ''needs_human'']"
| "payload_fields Handoff = Some [''from_agent'', ''to_agent'', ''task_summary'', ''context'', ''artifacts'']"
| "payload_fields Status = Some [''task_id'', ''progress_pct'', ''current_step'', ''eta_seconds'']"
| "payload_fields _ = None"

text \<open>\<open>show\<close> stands for the printing of a list of strings.\<close>

definition validate_metadata :: "(string list \<Rightarrow> string) \<Rightarrow> message_type \<Rightarrow> (string, json) py_dict \<Rightarrow> string list" where
  "validate_metadata show ty d =
     (case payload_fields ty of
        None \<Rightarrow> []
      | Some expected \<Rightarrow>
          let extra = filter (\<lambda>k. k \<notin> set expected) (dict_keys d); missing = filter (\<lambda>k. k \<notin> set (dict_keys d)) expected in
          (if extra \<noteq> [] then [type_value ty @ '': unexpected metadata keys: '' @ show (sort extra)] else [])
          @ (if missing \<noteq> [] then [type_value ty @ '': missing expected metadata keys: '' @ show (sort missing)] else []))"

section \<open>Round trips\<close>

lemma type_value_inject [simp]: "type_value a = type_value b \<longleftrightarrow> a = b"
  by (cases a; cases b) simp_all

lemma message_type_of_value [simp]: "message_type_of (type_value t) = Inr t"
  by (cases t) (simp_all add: message_type_of_def all_types_def)

lemma message_type_of_Inr: "message_type_of s = Inr t \<longleftrightarrow> s = type_value t"
proof
  assume "message_type_of s = Inr t"
  then have "find (\<lambda>t. type_value t = s) all_types = Some t" by (simp add: message_type_of_def split: option.splits)
  then show "s = type_value t" by (auto simp: find_Some_iff)
qed simp

text \<open>A constructed message: one with a time to live has an expiry.\<close>

definition initialised :: "message \<Rightarrow> bool" where
  "initialised m \<longleftrightarrow> (ms_expires m = None \<longrightarrow> ms_ttl m \<le> 0)"

lemma post_init_initialised: "initialised (post_init c m)" "initialised m \<Longrightarrow> post_init c m = m"
  by (auto simp: initialised_def post_init_def)

text \<open>A message survives its dictionary form, and so does every payload: \<open>from_dict\<close> after \<open>to_dict\<close> changes nothing.\<close>

theorem messages_roundtrip:
  assumes "initialised m"
  shows "message_from_dict c fresh now (message_to_dict m) = Some (Inr m) \<and> decision_from_dict (decision_to_dict p) = Some p
    \<and> blocker_from_dict (blocker_to_dict b) = Some b \<and> handoff_from_dict (handoff_to_dict h) = Some h \<and> status_from_dict (status_to_dict s) = Some s"
proof (intro conjI)
  show "message_from_dict c fresh now (message_to_dict m) = Some (Inr m)"
    using assms
    by (cases m) (simp add: message_from_dict_def message_to_dict_def data_field_def dict_get_or_def dict_get_def with_type_def post_init_initialised)
  show "decision_from_dict (decision_to_dict p) = Some p"
    by (simp add: decision_from_dict_def decision_to_dict_def data_field_def dict_get_or_def dict_get_def)
  show "blocker_from_dict (blocker_to_dict b) = Some b"
    by (simp add: blocker_from_dict_def blocker_to_dict_def data_field_def dict_get_or_def dict_get_def)
  show "handoff_from_dict (handoff_to_dict h) = Some h"
    by (simp add: handoff_from_dict_def handoff_to_dict_def data_field_def dict_get_or_def dict_get_def)
  show "status_from_dict (status_to_dict s) = Some s"
    by (simp add: status_from_dict_def status_to_dict_def data_field_def dict_get_or_def dict_get_def split: option.split)
qed

text \<open>The advisory check is silent on exactly the metadata that have the keys of the payload, and on the types without one.\<close>

lemma validate_metadata_silent:
  "validate_metadata show ty d = [] \<longleftrightarrow> (case payload_fields ty of None \<Rightarrow> True | Some fs \<Rightarrow> set (dict_keys d) = set fs)"
  by (auto simp: validate_metadata_def Let_def filter_empty_conv split: option.splits)

definition sample_message :: message where
  "sample_message = \<lparr>ms_id = ''m1'', ms_sender = ''dev'', ms_recipient = ''*'', ms_type = Info, ms_topic = [], ms_content = ''hello'',
     ms_metadata = [], ms_parent = None, ms_issue = None, ms_comment = None, ms_ttl = 0, ms_created = ''2026-01-01'', ms_expires = None,
     ms_read_by = [], ms_score = 0\<rparr>"

definition sample_clock :: clock where
  "sample_clock = \<lparr>tm_add = (\<lambda>s n. s), tm_value = (\<lambda>s. 0)\<rparr>"

theorem messages_roundtrip_witness:
  "message_from_dict sample_clock ''x'' ''y'' (message_to_dict sample_message) = Some (Inr sample_message) \<and>
   decision_from_dict (decision_to_dict \<lparr>dp_decision = ''go'', dp_rationale = [], dp_alternatives = [''stay''], dp_reversible = False\<rparr>)
     = Some \<lparr>dp_decision = ''go'', dp_rationale = [], dp_alternatives = [''stay''], dp_reversible = False\<rparr> \<and>
   blocker_from_dict (blocker_to_dict \<lparr>bp_description = ''key'', bp_task = None, bp_severity = ''high'', bp_needs_human = True\<rparr>)
     = Some \<lparr>bp_description = ''key'', bp_task = None, bp_severity = ''high'', bp_needs_human = True\<rparr> \<and>
   handoff_from_dict (handoff_to_dict \<lparr>hp_from = ''a'', hp_to = ''b'', hp_summary = ''s'', hp_context = [], hp_artifacts = [''f'']\<rparr>)
     = Some \<lparr>hp_from = ''a'', hp_to = ''b'', hp_summary = ''s'', hp_context = [], hp_artifacts = [''f'']\<rparr> \<and>
   status_from_dict (status_to_dict \<lparr>sp_task = Some ''t'', sp_progress = 50, sp_step = ''run'', sp_eta = Some 9\<rparr>)
     = Some \<lparr>sp_task = Some ''t'', sp_progress = 50, sp_step = ''run'', sp_eta = Some 9\<rparr>"
  by (rule messages_roundtrip) (simp add: initialised_def sample_message_def)

end
