(* ===== verification/Message_Store.thy ===== *)
theory Message_Store
  imports Message_Types Vector_Search "HOL-Library.Product_Lexorder"
begin

text \<open>
  The message store (\<^verbatim>\<open>agents/message_store.py\<close>): sending and replying, read marks, expiry and eviction, the searches,
  the messages for an agent's context, the import of the old bulletin, the comments on issues. The table is the list
  of its rows in the order of insertion. Embedder, full-text index and clock are parameters; stamps are ISO strings and
  compare as strings, as in the queries.
\<close>

section \<open>Tables\<close>

record message_db =
  mb_rows :: "message list"
  mb_embeddings :: "(string, real list) py_dict"

text \<open>What a call finds: a fresh id, the stamp of now, the name of the agent, the embedder, the full-text index.\<close>

record message_env =
  mg_id :: string
  mg_now :: string
  mg_clock :: clock
  mg_name :: string
  mg_embed :: "string \<Rightarrow> real list option"
  mg_available :: bool
  mg_embed_batch :: "string list \<Rightarrow> real list option list"
  mg_fts :: "string list \<Rightarrow> message list \<Rightarrow> (message \<times> real) list"

definition MAX_MESSAGES :: int where
  "MAX_MESSAGES = 5000"

definition message_ids :: "message_db \<Rightarrow> string set" where
  "message_ids d = ms_id ` set (mb_rows d)"

definition find_message :: "string \<Rightarrow> message_db \<Rightarrow> message option" where
  "find_message i d = find (\<lambda>m. ms_id m = i) (mb_rows d)"

text \<open>Deleting rows empties the references to them and drops their embeddings.\<close>

definition orphan :: "string set \<Rightarrow> message \<Rightarrow> message" where
  "orphan gone m = (case ms_parent m of Some p \<Rightarrow> if p \<in> gone then m\<lparr>ms_parent := None\<rparr> else m | None \<Rightarrow> m)"

definition delete_messages :: "string set \<Rightarrow> message_db \<Rightarrow> message_db" where
  "delete_messages gone d =
     \<lparr>mb_rows = map (orphan gone) (filter (\<lambda>m. ms_id m \<notin> gone) (mb_rows d)),
      mb_embeddings = filter (\<lambda>p. fst p \<notin> gone) (mb_embeddings d)\<rparr>"

definition or_name :: "message_env \<Rightarrow> string option \<Rightarrow> string" where
  "or_name env v = (case v of None \<Rightarrow> mg_name env | Some s \<Rightarrow> if s = [] then mg_name env else s)"

section \<open>Writing\<close>

definition evict_if_needed :: "message_db \<Rightarrow> message_db" where
  "evict_if_needed d =
     (let count = int (length (mb_rows d)) in
      if count \<le> MAX_MESSAGES then d
      else delete_messages (ms_id ` set (take (nat (count - MAX_MESSAGES)) (sort_key ms_created (mb_rows d)))) d)"

text \<open>Best effort: an embedding for a row that is no more violates the foreign key, and the error is only logged.\<close>

definition store_embedding :: "message_env \<Rightarrow> string \<Rightarrow> string \<Rightarrow> message_db \<Rightarrow> message_db" where
  "store_embedding env i content d =
     (case mg_embed env content of
        None \<Rightarrow> d
      | Some v \<Rightarrow> if i \<in> message_ids d then d\<lparr>mb_embeddings := dict_set i v (mb_embeddings d)\<rparr> else d)"

record send_args =
  sa_content :: string
  sa_sender :: "string option"
  sa_recipient :: string
  sa_type :: message_type
  sa_topic :: string
  sa_metadata :: "(string, json) py_dict"
  sa_parent :: "string option"
  sa_issue :: "string option"
  sa_ttl :: int

definition new_message :: "message_env \<Rightarrow> send_args \<Rightarrow> message" where
  "new_message env a =
     post_init (mg_clock env)
       \<lparr>ms_id = mg_id env, ms_sender = or_name env (sa_sender a), ms_recipient = sa_recipient a, ms_type = sa_type a, ms_topic = sa_topic a,
        ms_content = sa_content a, ms_metadata = sa_metadata a, ms_parent = sa_parent a, ms_issue = sa_issue a, ms_comment = None,
        ms_ttl = sa_ttl a, ms_created = mg_now env, ms_expires = None, ms_read_by = [], ms_score = 0\<rparr>"

definition insert_message :: "message \<Rightarrow> message_db \<Rightarrow> py_exn + message_db" where
  "insert_message m d =
     (if ms_id m \<in> message_ids d then Inl (OtherError ''IntegrityError'' ''UNIQUE constraint failed: messages.id'')
      else case ms_parent m of
        Some p \<Rightarrow> if p \<in> insert (ms_id m) (message_ids d) then Inr (d\<lparr>mb_rows := mb_rows d @ [m]\<rparr>)
                  else Inl (OtherError ''IntegrityError'' ''FOREIGN KEY constraint failed'')
      | None \<Rightarrow> Inr (d\<lparr>mb_rows := mb_rows d @ [m]\<rparr>))"

definition send :: "message_env \<Rightarrow> send_args \<Rightarrow> message_db \<Rightarrow> (py_exn + message) \<times> message_db" where
  "send env a d =
     (let m = new_message env a in
      case insert_message m d of
        Inl e \<Rightarrow> (Inl e, d)
      | Inr d1 \<Rightarrow> (Inr m, store_embedding env (ms_id m) (ms_content m) (evict_if_needed d1)))"

definition root_of :: "message \<Rightarrow> string" where
  "root_of m = (case ms_parent m of Some p \<Rightarrow> if p = [] then ms_id m else p | None \<Rightarrow> ms_id m)"

definition reply ::
    "message_env \<Rightarrow> string \<Rightarrow> string \<Rightarrow> string option \<Rightarrow> message_type option \<Rightarrow> (string, json) py_dict \<Rightarrow> message_db
      \<Rightarrow> (py_exn + message) \<times> message_db" where
  "reply env parent_id content sender ty metadata d =
     (case find_message parent_id d of
        None \<Rightarrow> (Inl (ValueError (''Parent message '' @ parent_id @ '' not found'')), d)
      | Some p \<Rightarrow>
          send env \<lparr>sa_content = content, sa_sender = sender, sa_recipient = ms_sender p,
            sa_type = (case ty of Some t \<Rightarrow> t | None \<Rightarrow> ms_type p), sa_topic = ms_topic p, sa_metadata = metadata,
            sa_parent = Some (root_of p), sa_issue = ms_issue p, sa_ttl = ms_ttl p\<rparr> d)"

definition add_reader :: "string \<Rightarrow> message \<Rightarrow> message" where
  "add_reader agent m = (if agent \<in> set (ms_read_by m) then m else m\<lparr>ms_read_by := ms_read_by m @ [agent]\<rparr>)"

definition mark_read :: "message_env \<Rightarrow> string \<Rightarrow> string option \<Rightarrow> message_db \<Rightarrow> message_db" where
  "mark_read env i agent d =
     d\<lparr>mb_rows := map (\<lambda>m. if ms_id m = i then add_reader (or_name env agent) m else m) (mb_rows d)\<rparr>"

definition mark_many_read :: "message_env \<Rightarrow> string list \<Rightarrow> string option \<Rightarrow> message_db \<Rightarrow> message_db" where
  "mark_many_read env ids agent d = foldl (\<lambda>d i. mark_read env i agent d) d ids"

definition update_paperclip_comment_id :: "string \<Rightarrow> string \<Rightarrow> message_db \<Rightarrow> message_db" where
  "update_paperclip_comment_id i c d =
     d\<lparr>mb_rows := map (\<lambda>m. if ms_id m = i then m\<lparr>ms_comment := Some c\<rparr> else m) (mb_rows d)\<rparr>"

definition live :: "string \<Rightarrow> message \<Rightarrow> bool" where
  "live now m = (case ms_expires m of None \<Rightarrow> True | Some e \<Rightarrow> e \<ge> now)"

definition cleanup_expired :: "string \<Rightarrow> message_db \<Rightarrow> nat \<times> message_db" where
  "cleanup_expired now d =
     (let gone = filter (\<lambda>m. \<not> live now m) (mb_rows d) in (length gone, delete_messages (ms_id ` set gone) d))"

text \<open>A negative \<open>LIMIT\<close> is none in SQLite.\<close>

definition sql_limit :: "int \<Rightarrow> 'a list \<Rightarrow> 'a list" where
  "sql_limit n xs = (if n < 0 then xs else take (nat n) xs)"

definition backfill_message_embeddings :: "message_env \<Rightarrow> int \<Rightarrow> message_db \<Rightarrow> nat \<times> message_db" where
  "backfill_message_embeddings env batch d =
     (if \<not> mg_available env then (0, d)
      else
        let rows = sql_limit batch (sort_key ms_created (filter (\<lambda>m. \<not> dict_has (mb_embeddings d) (ms_id m)) (mb_rows d)));
            vs = filter (\<lambda>(m, v). v \<noteq> None) (zip rows (mg_embed_batch env (map ms_content rows)))
        in (length vs, d\<lparr>mb_embeddings := foldl (\<lambda>e (m, v). dict_set (ms_id m) (the v) e) (mb_embeddings d) vs\<rparr>))"

section \<open>Reading\<close>

text \<open>\<open>ORDER BY created_at DESC LIMIT n\<close>, then reversed: the latest \<open>n\<close>, oldest first. Rows of one stamp stand in the
  order of insertion.\<close>

definition latest :: "int \<Rightarrow> message list \<Rightarrow> message list" where
  "latest n ms = rev (sql_limit n (rev (sort_key ms_created ms)))"

definition addressed :: "string \<Rightarrow> message \<Rightarrow> bool" where
  "addressed agent m \<longleftrightarrow> ms_recipient m = agent \<or> ms_recipient m = BROADCAST"

definition read_recent ::
    "string \<Rightarrow> int \<Rightarrow> string option \<Rightarrow> message_type list \<Rightarrow> string option \<Rightarrow> bool \<Rightarrow> message_db \<Rightarrow> message list" where
  "read_recent now limit recipient types topic include_expired d =
     latest (max 1 (min limit 500))
       (filter (\<lambda>m. (include_expired \<or> live now m)
          \<and> (case recipient of Some r \<Rightarrow> r = [] \<or> addressed r m | None \<Rightarrow> True)
          \<and> (types = [] \<or> ms_type m \<in> set types)
          \<and> (case topic of Some t \<Rightarrow> t = [] \<or> ms_topic m = t | None \<Rightarrow> True)) (mb_rows d))"

text \<open>\<open>json.dumps\<close> of a string, characters beyond ASCII escaped, and of a list of strings.\<close>

definition hex_char :: "nat \<Rightarrow> char" where
  "hex_char n = (if n < 10 then char_of (48 + n) else char_of (87 + n))"

definition dumps_char :: "char \<Rightarrow> string" where
  "dumps_char c =
     (let k = of_char c :: nat in
      if k = 34 \<or> k = 92 then [CHR 0x5C, c]
      else if k = 10 then [CHR 0x5C, CHR ''n''] else if k = 13 then [CHR 0x5C, CHR ''r''] else if k = 9 then [CHR 0x5C, CHR ''t'']
      else if k = 8 then [CHR 0x5C, CHR ''b''] else if k = 12 then [CHR 0x5C, CHR ''f'']
      else if 32 \<le> k \<and> k \<le> 126 then [c]
      else [CHR 0x5C, CHR ''u'', CHR ''0'', CHR ''0'', hex_char (k div 16), hex_char (k mod 16)])"

definition quoted :: "string \<Rightarrow> string" where
  "quoted s = [CHR 0x22] @ s @ [CHR 0x22]"

definition dumps_strings :: "string list \<Rightarrow> string" where
  "dumps_strings ss = ''['' @ join_with '', '' (map (\<lambda>s. quoted (concat (map dumps_char s))) ss) @ '']''"

text \<open>\<open>read_by NOT LIKE '%"agent"%'\<close>, on the JSON text of the list of readers.\<close>

definition read_mark :: "string \<Rightarrow> message \<Rightarrow> bool" where
  "read_mark agent m = sqlite_like (CHR ''%'' # quoted agent @ ''%'') (dumps_strings (ms_read_by m))"

definition get_unread :: "message_env \<Rightarrow> string option \<Rightarrow> int \<Rightarrow> message_db \<Rightarrow> message list" where
  "get_unread env agent limit d =
     (let a = or_name env agent in
      latest limit (filter (\<lambda>m. addressed a m \<and> live (mg_now env) m \<and> \<not> read_mark a m) (mb_rows d)))"

definition get_thread :: "string \<Rightarrow> message_db \<Rightarrow> message list" where
  "get_thread i d =
     (case find_message i d of
        None \<Rightarrow> []
      | Some m \<Rightarrow> sort_key ms_created (filter (\<lambda>x. ms_id x = root_of m \<or> ms_parent x = Some (root_of m)) (mb_rows d)))"

definition get_message :: "string \<Rightarrow> message_db \<Rightarrow> message option" where
  "get_message i d = find_message i d"

section \<open>Searching\<close>

definition safe_query :: "string \<Rightarrow> string" where
  "safe_query q = py_strip (map (\<lambda>c. if word_char c \<or> py_space c then c else CHR '' '') q)"

definition with_score :: "message \<times> real \<Rightarrow> message" where
  "with_score p = (fst p)\<lparr>ms_score := snd p\<rparr>"

definition search :: "message_env \<Rightarrow> string \<Rightarrow> int \<Rightarrow> message_db \<Rightarrow> message list" where
  "search env query max_results d =
     (if py_strip query = [] \<or> safe_query query = [] then []
      else map with_score (take (nat (max 1 (min max_results 200)))
        (rank_by snd (filter (\<lambda>(m, s). live (mg_now env) m) (mg_fts env (py_words (safe_query query)) (mb_rows d))))))"

definition semantic_search :: "message_env \<Rightarrow> string \<Rightarrow> int \<Rightarrow> message_db \<Rightarrow> message list" where
  "semantic_search env query max_results d =
     (case mg_embed env query of
        None \<Rightarrow> []
      | Some q \<Rightarrow>
          py_take max_results (rank_by ms_score (filter (\<lambda>m. ms_score m > 0)
            (List.map_filter (\<lambda>m. map_option (\<lambda>v. with_score (m, cosine_similarity q v)) (dict_get (mb_embeddings d) (ms_id m)))
              (filter (live (mg_now env)) (mb_rows d))))))"

definition best_score :: "message list \<Rightarrow> real" where
  "best_score ms = (case map ms_score ms of [] \<Rightarrow> 0 | s # ss \<Rightarrow> foldl max s ss)"

definition normalise :: "message list \<Rightarrow> message list" where
  "normalise ms = (if best_score ms > 0 then map (\<lambda>m. m\<lparr>ms_score := ms_score m / best_score ms\<rparr>) ms else ms)"

definition merge_semantic :: "real \<Rightarrow> (string, message) py_dict \<Rightarrow> message \<Rightarrow> (string, message) py_dict" where
  "merge_semantic w d m =
     (case dict_get d (ms_id m) of
        Some b \<Rightarrow> dict_set (ms_id m) (b\<lparr>ms_score := ms_score b + ms_score m * w\<rparr>) d
      | None \<Rightarrow> dict_set (ms_id m) (m\<lparr>ms_score := ms_score m * w\<rparr>) d)"

definition merge_results :: "real \<Rightarrow> real \<Rightarrow> message list \<Rightarrow> message list \<Rightarrow> (string, message) py_dict" where
  "merge_results kw sw bm25 sem =
     foldl (merge_semantic sw)
       (foldl (\<lambda>d m. dict_set (ms_id m) (m\<lparr>ms_score := ms_score m * kw\<rparr>) d) [] (normalise bm25)) sem"

definition hybrid_search :: "message_env \<Rightarrow> string \<Rightarrow> int \<Rightarrow> real \<Rightarrow> real \<Rightarrow> message_db \<Rightarrow> message list" where
  "hybrid_search env query max_results kw sw d =
     py_take max_results (rank_by ms_score (map snd
       (merge_results kw sw (search env query (max_results * 2) d) (semantic_search env query (max_results * 2) d))))"

section \<open>Context of an agent\<close>

definition add_unseen :: "(message \<Rightarrow> message) \<Rightarrow> message list \<Rightarrow> message list \<Rightarrow> message list" where
  "add_unseen f ms results = foldl (\<lambda>rs m. if ms_id m \<in> ms_id ` set rs then rs else rs @ [f m]) results ms"

definition scored_as :: "real \<Rightarrow> message \<Rightarrow> message" where
  "scored_as s m = m\<lparr>ms_score := s\<rparr>"

definition relevant_messages :: "message_env \<Rightarrow> string \<Rightarrow> string option \<Rightarrow> int \<Rightarrow> message_db \<Rightarrow> message list" where
  "relevant_messages env query agent max_results d =
     (let unread = add_unseen (scored_as 1) (get_unread env (Some (or_name env agent)) max_results d) [];
          priority = add_unseen (scored_as (8 / 10)) (read_recent (mg_now env) max_results None HIGH_PRIORITY_TYPES None False d) unread;
          all = (if py_strip query = [] then priority
                 else add_unseen id (hybrid_search env query max_results (4 / 10) (6 / 10) d) priority)
      in py_take max_results (rank_by (\<lambda>m. (ms_score m, ms_created m)) all))"

record message_stats =
  mu_total :: nat
  mu_by_type :: "(string, int) py_dict"
  mu_threads :: nat
  mu_embeddings :: nat
  mu_max :: int

definition get_stats_messages :: "message_db \<Rightarrow> message_stats" where
  "get_stats_messages d =
     \<lparr>mu_total = length (mb_rows d),
      mu_by_type = foldl (\<lambda>c m. dict_set (type_value (ms_type m)) (dict_get_or c (type_value (ms_type m)) 0 + 1) c) [] (mb_rows d),
      mu_threads = length (remdups (map (\<lambda>m. case ms_parent m of Some p \<Rightarrow> p | None \<Rightarrow> ms_id m) (mb_rows d))),
      mu_embeddings = length (mb_embeddings d), mu_max = MAX_MESSAGES\<rparr>"

section \<open>The old bulletin\<close>

text \<open>An entry begins with a line \<open>### [timestamp] agent\<close>: the agent and the text after the line.\<close>

definition v1_entry :: "string \<Rightarrow> (string \<times> string) option" where
  "v1_entry s =
     (if prefix ''### ['' s then
        let r = drop 5 s; stamp = takeWhile (\<lambda>c. c \<noteq> CHR '']'') r; r2 = dropWhile (\<lambda>c. c \<noteq> CHR '']'') r;
            agent = takeWhile (\<lambda>c. c \<noteq> CHR 0x0A) (drop 2 r2)
        in if stamp \<noteq> [] \<and> prefix ''] '' r2 \<and> agent \<noteq> [] then Some (agent, dropWhile (\<lambda>c. c \<noteq> CHR 0x0A) (drop 2 r2)) else None
      else None)"

lemma v1_entry_shorter: "v1_entry s = Some (agent, rest) \<Longrightarrow> length rest < length s"
proof -
  assume a: "v1_entry s = Some (agent, rest)"
  let ?r2 = "dropWhile (\<lambda>c. c \<noteq> CHR '']'') (drop 5 s)"
  have p: "prefix ''### ['' s" and r: "rest = dropWhile (\<lambda>c. c \<noteq> CHR 0x0A) (drop 2 ?r2)"
    using a by (auto simp: v1_entry_def Let_def split: if_splits)
  have "length rest \<le> length (drop 2 ?r2)" unfolding r by (rule length_dropWhile_le)
  also have "\<dots> \<le> length ?r2" by simp
  also have "\<dots> \<le> length (drop 5 s)" by (rule length_dropWhile_le)
  finally show ?thesis using prefix_length_le [OF p] by simp
qed

text \<open>The text before the first entry, and the entries with the text up to the next one. \<open>start\<close> holds at the beginning
  of a line.\<close>

function v1_scan :: "bool \<Rightarrow> string \<Rightarrow> string \<times> (string \<times> string) list" where
  "v1_scan start s =
     (case (if start then v1_entry s else None) of
        Some (agent, rest) \<Rightarrow> (case v1_scan False rest of (block, es) \<Rightarrow> ([], (agent, block) # es))
      | None \<Rightarrow>
          (case s of
             [] \<Rightarrow> ([], [])
           | c # cs \<Rightarrow> (case v1_scan (c = CHR 0x0A) cs of (block, es) \<Rightarrow> (c # block, es))))"
  by pat_completeness auto
termination
  by (relation "measure (\<lambda>(b, s). length s)") (auto dest: v1_entry_shorter split: if_splits)

definition topic_line :: string where
  "topic_line = ''> Topic:''"

text \<open>The topic and the lines of the body, in one pass over the lines of a block.\<close>

fun v1_lines :: "string \<Rightarrow> string list \<Rightarrow> string list \<Rightarrow> string \<times> string list" where
  "v1_lines topic body [] = (topic, body)"
| "v1_lines topic body (l # ls) =
     (if prefix topic_line (py_strip l) then v1_lines (py_strip (drop (length topic_line) (py_strip l))) body ls
      else if py_strip l = ''---'' then v1_lines topic body ls
      else v1_lines topic (body @ [l]) ls)"

definition v1_block :: "string \<Rightarrow> string \<times> string" where
  "v1_block block = (case v1_lines [] [] (split_on (CHR 0x0A) (py_strip block)) of (topic, body) \<Rightarrow> (topic, py_strip (join_with nl body)))"

definition v1_args :: "string \<Rightarrow> string \<Rightarrow> string \<Rightarrow> send_args" where
  "v1_args agent topic body =
     \<lparr>sa_content = body, sa_sender = Some agent, sa_recipient = BROADCAST, sa_type = Info, sa_topic = topic, sa_metadata = [],
      sa_parent = None, sa_issue = None, sa_ttl = 0\<rparr>"

fun import_entries :: "(nat \<Rightarrow> message_env) \<Rightarrow> (string \<times> string) list \<Rightarrow> message_db \<Rightarrow> (py_exn + nat) \<times> message_db" where
  "import_entries envs [] d = (Inr 0, d)"
| "import_entries envs ((agent, block) # es) d =
     (case v1_block block of
        (topic, body) \<Rightarrow>
          if body = [] then import_entries envs es d
          else (case send (envs 0) (v1_args agent topic body) d of
                 (Inl e, d1) \<Rightarrow> (Inl e, d1)
               | (Inr m, d1) \<Rightarrow> (case import_entries (\<lambda>n. envs (Suc n)) es d1 of (r, d2) \<Rightarrow> (map_sum id Suc r, d2))))"

text \<open>\<open>envs n\<close> is the environment of the \<open>n\<close>-th call of \<open>send\<close>; \<open>None\<close> is a file that does not exist.\<close>

definition migrate_v1_bulletin :: "(nat \<Rightarrow> message_env) \<Rightarrow> string option \<Rightarrow> message_db \<Rightarrow> (py_exn + nat) \<times> message_db" where
  "migrate_v1_bulletin envs file d =
     (case file of
        None \<Rightarrow> (Inr 0, d)
      | Some content \<Rightarrow> if mb_rows d \<noteq> [] then (Inr 0, d) else import_entries envs (snd (v1_scan True content)) d)"

text \<open>The shared store: opened, and filled from the bulletin, by the first call.\<close>

definition get_shared_message_store ::
    "(nat \<Rightarrow> message_env) \<Rightarrow> string \<Rightarrow> (string \<Rightarrow> string option) \<Rightarrow> message_db \<Rightarrow> message_db option \<Rightarrow> message_db" where
  "get_shared_message_store envs bulletin files opened shared =
     (case shared of
        Some d \<Rightarrow> d
      | None \<Rightarrow> if bulletin \<noteq> [] then snd (migrate_v1_bulletin envs (files bulletin) opened) else opened)"

section \<open>Comments on issues\<close>

definition format_comment :: "((string, json) py_dict \<Rightarrow> string) \<Rightarrow> message \<Rightarrow> string" where
  "format_comment dumps m =
     join_with nl
       ([''**['' @ map upper_char (type_value (ms_type m)) @ '']** from `'' @ ms_sender m @ ''`'']
        @ (if ms_topic m \<noteq> [] then [''**Topic:** '' @ ms_topic m] else []) @ [[], ms_content m]
        @ (if ms_metadata m \<noteq> [] then [[], ''<details><summary>Metadata</summary>'', [], ''```json'', dumps (ms_metadata m), ''```'', ''</details>''] else []))"

definition post_comment ::
    "bool \<Rightarrow> (string \<Rightarrow> string \<Rightarrow> py_exn + string) \<Rightarrow> ((string, json) py_dict \<Rightarrow> string) \<Rightarrow> message \<Rightarrow> string option" where
  "post_comment enabled add dumps m =
     (if \<not> enabled then None
      else case ms_issue m of
        None \<Rightarrow> None
      | Some i \<Rightarrow> if i = [] then None else (case add i (format_comment dumps m) of Inr c \<Rightarrow> Some c | Inl e \<Rightarrow> None))"

end
