(* ===== verification/Message_Correct.thy ===== *)
theory Message_Correct
  imports Message_Store
begin

text \<open>
  The message store is correct: the tables stay consistent and bounded under every sequence of operations, read marks
  hide a message from its reader only, replies join the thread of their parent, unread messages come first in the
  context of an agent, and the import of the old bulletin happens once.
\<close>

section \<open>Consistent tables\<close>

definition messages_ok :: "message_db \<Rightarrow> bool" where
  "messages_ok d \<longleftrightarrow> distinct (map ms_id (mb_rows d)) \<and> (\<forall>m \<in> set (mb_rows d). \<forall>p. ms_parent m = Some p \<longrightarrow> p \<in> message_ids d)
     \<and> (\<forall>m \<in> set (mb_rows d). distinct (ms_read_by m)) \<and> int (length (mb_rows d)) \<le> MAX_MESSAGES
     \<and> dict_ok (mb_embeddings d) \<and> set (dict_keys (mb_embeddings d)) \<subseteq> message_ids d"

text \<open>All but the bound: what holds between the insertion and the eviction.\<close>

definition messages_linked :: "message_db \<Rightarrow> bool" where
  "messages_linked d \<longleftrightarrow> distinct (map ms_id (mb_rows d)) \<and> (\<forall>m \<in> set (mb_rows d). \<forall>p. ms_parent m = Some p \<longrightarrow> p \<in> message_ids d)
     \<and> (\<forall>m \<in> set (mb_rows d). distinct (ms_read_by m))
     \<and> dict_ok (mb_embeddings d) \<and> set (dict_keys (mb_embeddings d)) \<subseteq> message_ids d"

lemma messages_ok_iff: "messages_ok d \<longleftrightarrow> messages_linked d \<and> int (length (mb_rows d)) \<le> MAX_MESSAGES"
  by (auto simp: messages_ok_def messages_linked_def)

lemma orphan_simps [simp]: "ms_id (orphan gone m) = ms_id m" "ms_read_by (orphan gone m) = ms_read_by m" "ms_created (orphan gone m) = ms_created m"
  by (simp_all add: orphan_def split: option.split)

lemma orphan_parent: "ms_parent (orphan gone m) = Some p \<longleftrightarrow> ms_parent m = Some p \<and> p \<notin> gone"
  by (auto simp: orphan_def split: option.split)

lemma map_orphan [simp]: "ms_id \<circ> orphan gone = ms_id"
  by auto

lemma delete_ids [simp]: "message_ids (delete_messages gone d) = message_ids d - gone"
  by (auto simp: message_ids_def delete_messages_def image_iff)

lemma delete_linked: "messages_linked d \<Longrightarrow> messages_linked (delete_messages gone d)"
proof -
  assume ok: "messages_linked d"
  have "distinct (map ms_id (mb_rows (delete_messages gone d)))" "\<forall>m \<in> set (mb_rows (delete_messages gone d)). distinct (ms_read_by m)"
    "dict_ok (mb_embeddings (delete_messages gone d))" "set (dict_keys (mb_embeddings (delete_messages gone d))) \<subseteq> message_ids d - gone"
    using ok by (auto simp: delete_messages_def messages_linked_def distinct_map_filter dict_ok_def dict_keys_def)
  moreover have "\<forall>m \<in> set (mb_rows (delete_messages gone d)). \<forall>p. ms_parent m = Some p \<longrightarrow> p \<in> message_ids d - gone"
    using ok by (auto simp: delete_messages_def orphan_parent messages_linked_def)
  ultimately show ?thesis by (simp add: messages_linked_def)
qed

lemma delete_length: "length (mb_rows (delete_messages gone d)) \<le> length (mb_rows d)"
  by (simp add: delete_messages_def)

lemma delete_ok: "messages_ok d \<Longrightarrow> messages_ok (delete_messages gone d)"
  using delete_length [of gone d] by (simp add: messages_ok_iff delete_linked)

lemma evict_length:
  assumes "distinct (map ms_id (mb_rows d))"
  shows "int (length (mb_rows (evict_if_needed d))) = min MAX_MESSAGES (int (length (mb_rows d)))"
  using kept_length [OF assms, of "nat (int (length (mb_rows d)) - MAX_MESSAGES)" ms_created]
  by (simp add: evict_if_needed_def Let_def delete_messages_def MAX_MESSAGES_def)

lemma evict_ok: "messages_linked d \<Longrightarrow> messages_ok (evict_if_needed d)"
  using evict_length [of d] by (auto simp: messages_ok_iff evict_if_needed_def Let_def delete_linked messages_linked_def [of d])

lemma update_messages_ok:
  assumes "messages_ok d" "\<And>m. ms_id (f m) = ms_id m \<and> ms_parent (f m) = ms_parent m" "\<And>m. distinct (ms_read_by m) \<Longrightarrow> distinct (ms_read_by (f m))"
  shows "messages_ok (d\<lparr>mb_rows := map f (mb_rows d)\<rparr>)"
proof -
  have "ms_id \<circ> f = ms_id" using assms(2) by auto
  moreover have "ms_id ` f ` X = ms_id ` X" for X using assms(2) by (simp add: image_image)
  ultimately show ?thesis using assms by (simp add: messages_ok_def message_ids_def)
qed

lemma embeddings_ok:
  "messages_ok d \<Longrightarrow> dict_ok e \<Longrightarrow> set (dict_keys e) \<subseteq> message_ids d \<Longrightarrow> messages_ok (d\<lparr>mb_embeddings := e\<rparr>)"
  by (simp add: messages_ok_def message_ids_def)

lemma store_embedding_ok: "messages_ok d \<Longrightarrow> messages_ok (store_embedding env i content d)"
  by (auto simp: store_embedding_def dict_ok_set dict_keys_set messages_ok_def [of d] intro!: embeddings_ok split: option.split)

lemma store_embedding_rows [simp]: "mb_rows (store_embedding env i content d) = mb_rows d"
  by (simp add: store_embedding_def split: option.split)

lemma new_message_simps [simp]:
  "ms_id (new_message env a) = mg_id env" "ms_parent (new_message env a) = sa_parent a" "ms_read_by (new_message env a) = []"
  "ms_created (new_message env a) = mg_now env" "ms_content (new_message env a) = sa_content a"
  by (simp_all add: new_message_def post_init_def)

lemma insert_message_linked:
  assumes "insert_message m d = Inr d1" "messages_linked d" "distinct (ms_read_by m)"
  shows "messages_linked d1 \<and> mb_rows d1 = mb_rows d @ [m]"
proof -
  have "ms_id m \<notin> message_ids d" and d1: "d1 = d\<lparr>mb_rows := mb_rows d @ [m]\<rparr>" and "\<And>p. ms_parent m = Some p \<Longrightarrow> p \<in> insert (ms_id m) (message_ids d)"
    using assms(1) by (auto simp: insert_message_def split: if_splits option.splits)
  then show ?thesis using assms(2,3) by (auto simp: messages_linked_def message_ids_def)
qed

lemma send_ok: "messages_ok d \<Longrightarrow> messages_ok (snd (send env a d))"
  using insert_message_linked [of "new_message env a" d]
  by (auto simp: send_def Let_def messages_ok_iff [of d] intro!: store_embedding_ok evict_ok split: sum.split)

lemma reply_ok: "messages_ok d \<Longrightarrow> messages_ok (snd (reply env i content sender ty metadata d))"
  by (simp add: reply_def send_ok split: option.split)

lemma mark_read_ok: "messages_ok d \<Longrightarrow> messages_ok (mark_read env i agent d)"
  unfolding mark_read_def by (rule update_messages_ok) (auto simp: add_reader_def)

lemma mark_many_read_ok: "messages_ok d \<Longrightarrow> messages_ok (mark_many_read env ids agent d)"
  unfolding mark_many_read_def by (rule foldl_invariant) (simp_all add: mark_read_ok)

lemma update_comment_ok: "messages_ok d \<Longrightarrow> messages_ok (update_paperclip_comment_id i c d)"
  unfolding update_paperclip_comment_id_def by (rule update_messages_ok) auto

lemma cleanup_expired_ok: "messages_ok d \<Longrightarrow> messages_ok (snd (cleanup_expired now d))"
  by (simp add: cleanup_expired_def Let_def delete_ok)

lemma sql_limit_subset: "set (sql_limit n xs) \<subseteq> set xs"
  by (auto simp: sql_limit_def dest: in_set_takeD)

lemma backfill_messages_ok:
  assumes "messages_ok d"
  shows "messages_ok (snd (backfill_message_embeddings env batch d))"
proof (cases "mg_available env")
  case True
  define rs where "rs = sql_limit batch (sort_key ms_created (filter (\<lambda>m. \<not> dict_has (mb_embeddings d) (ms_id m)) (mb_rows d)))"
  define vs where "vs = filter (\<lambda>(m, v). v \<noteq> None) (zip rs (mg_embed_batch env (map ms_content rs)))"
  have eq: "snd (backfill_message_embeddings env batch d) =
      d\<lparr>mb_embeddings := foldl (\<lambda>e (m, v). dict_set (ms_id m) (the v) e) (mb_embeddings d) vs\<rparr>"
    using True by (simp add: backfill_message_embeddings_def Let_def rs_def vs_def)
  have "set rs \<subseteq> set (mb_rows d)" unfolding rs_def by (rule order_trans [OF sql_limit_subset]) auto
  then have vs: "\<forall>(m, v) \<in> set vs. ms_id m \<in> message_ids d" by (auto simp: vs_def message_ids_def dest!: set_zip_leftD)
  have "dict_ok (foldl (\<lambda>e (m, v). dict_set (ms_id m) (the v) e) e0 us) \<and>
        set (dict_keys (foldl (\<lambda>e (m, v). dict_set (ms_id m) (the v) e) e0 us)) \<subseteq> message_ids d"
    if "dict_ok e0" "set (dict_keys e0) \<subseteq> message_ids d" "\<forall>(m, v) \<in> set us. ms_id m \<in> message_ids d" for e0 us
    using that
  proof (induction us arbitrary: e0)
    case (Cons p us)
    obtain m v where [simp]: "p = (m, v)" by (cases p)
    show ?case using Cons.IH [of "dict_set (ms_id m) (the v) e0"] Cons.prems by (simp add: dict_ok_set dict_keys_set)
  qed simp
  from this [of "mb_embeddings d" vs] show ?thesis unfolding eq using assms vs by (intro embeddings_ok) (simp_all add: messages_ok_def)
qed (simp add: backfill_message_embeddings_def assms)

lemma import_ok: "messages_ok d \<Longrightarrow> messages_ok (snd (import_entries envs es d))"
proof (induction envs es d rule: import_entries.induct)
  case (2 envs agent block es d)
  obtain topic body where b: "v1_block block = (topic, body)" by (cases "v1_block block")
  obtain r d1 where s: "send (envs 0) (v1_args agent topic body) d = (r, d1)" by fastforce
  have "messages_ok d1" using send_ok [OF 2(3)] s by (metis snd_conv)
  then show ?case using 2 b s by (auto split: sum.split prod.split)
qed simp

lemma migrate_ok: "messages_ok d \<Longrightarrow> messages_ok (snd (migrate_v1_bulletin envs file d))"
  by (simp add: migrate_v1_bulletin_def import_ok split: option.split)

definition empty_messages :: message_db where
  "empty_messages = \<lparr>mb_rows = [], mb_embeddings = []\<rparr>"

datatype message_op =
    OpSend message_env send_args
  | OpReply message_env string string "string option" "message_type option" "(string, json) py_dict"
  | OpMarkRead message_env string "string option"
  | OpMarkMany message_env "string list" "string option"
  | OpComment string string
  | OpExpire string
  | OpBackfill message_env int
  | OpMigrate "nat \<Rightarrow> message_env" "string option"

primrec run_message_op :: "message_op \<Rightarrow> message_db \<Rightarrow> message_db" where
  "run_message_op (OpSend env a) d = snd (send env a d)"
| "run_message_op (OpReply env i content sender ty metadata) d = snd (reply env i content sender ty metadata d)"
| "run_message_op (OpMarkRead env i agent) d = mark_read env i agent d"
| "run_message_op (OpMarkMany env ids agent) d = mark_many_read env ids agent d"
| "run_message_op (OpComment i c) d = update_paperclip_comment_id i c d"
| "run_message_op (OpExpire now) d = snd (cleanup_expired now d)"
| "run_message_op (OpBackfill env batch) d = snd (backfill_message_embeddings env batch d)"
| "run_message_op (OpMigrate envs file) d = snd (migrate_v1_bulletin envs file d)"

lemma run_message_op_ok: "messages_ok d \<Longrightarrow> messages_ok (run_message_op op d)"
  by (cases op) (simp_all add: send_ok reply_ok mark_read_ok mark_many_read_ok update_comment_ok cleanup_expired_ok
      backfill_messages_ok migrate_ok)

lemma empty_messages_ok: "messages_ok empty_messages"
  by (simp add: messages_ok_def empty_messages_def dict_ok_def dict_keys_def MAX_MESSAGES_def)

text \<open>C9: After every sequence of operations the message tables are consistent: ids are distinct, a parent is a message of the
  table, no reader is noted twice, every embedding belongs to a message, and there are at most 5000 messages.\<close>

theorem messages_stay_consistent: "messages_ok (foldl (\<lambda>d op. run_message_op op d) empty_messages ops)"
  by (rule foldl_invariant [of messages_ok]) (simp_all add: empty_messages_ok run_message_op_ok)

section \<open>Read marks\<close>

text \<open>A name of letters, digits and hyphens: no character of it is special to JSON or to \<open>LIKE\<close>.\<close>

definition plain_char :: "char \<Rightarrow> bool" where
  "plain_char c \<longleftrightarrow> (let k = of_char c :: nat in 48 \<le> k \<and> k \<le> 57 \<or> 65 \<le> k \<and> k \<le> 90 \<or> 97 \<le> k \<and> k \<le> 122 \<or> k = 45)"

definition plain_name :: "string \<Rightarrow> bool" where
  "plain_name s \<longleftrightarrow> s \<noteq> [] \<and> (\<forall>c \<in> set s. plain_char c)"

lemma plain_char_dumps: "plain_char c \<Longrightarrow> dumps_char c = [c]"
  by (auto simp: plain_char_def dumps_char_def Let_def)

lemma plain_not_special: "plain_char c \<Longrightarrow> c \<noteq> CHR ''%'' \<and> c \<noteq> CHR ''_'' \<and> c \<noteq> CHR 0x22 \<and> c \<noteq> CHR '','' \<and> c \<noteq> CHR '' ''"
  by (auto simp: plain_char_def)

lemma plain_dumps: "plain_name s \<Longrightarrow> concat (map dumps_char s) = s"
proof -
  have "\<forall>c \<in> set s. plain_char c \<Longrightarrow> concat (map dumps_char s) = s" by (induction s) (simp_all add: plain_char_dumps)
  then show "plain_name s \<Longrightarrow> ?thesis" by (simp add: plain_name_def)
qed

lemma lower_char_small: "(of_char d :: nat) < 65 \<Longrightarrow> lower_char c = d \<longleftrightarrow> c = d"
proof
  assume d: "(of_char d :: nat) < 65" and l: "lower_char c = d"
  show "c = d"
  proof (cases "65 \<le> (of_char c :: nat) \<and> (of_char c :: nat) \<le> 90")
    case True
    then have "(of_char (lower_char c) :: nat) = (of_char c + 32) mod 256" by (simp add: lower_char_def Let_def)
    then show ?thesis using True d l by simp
  qed (use l in \<open>auto simp: lower_char_def Let_def\<close>)
qed (simp add: lower_char_def Let_def)

text \<open>Between two quotes stands one of the inner parts of a text split at its quotes.\<close>

lemma split_on_general: "split_on d (x @ d # y) = split_on d x @ split_on d y"
proof (induction x)
  case (Cons c x)
  then show ?case by (cases "split_on d x") (auto split: list.splits)
qed simp

lemma quoted_in_split:
  assumes "CHR 0x22 \<notin> set a"
  shows "str_contains (quoted a) s \<longleftrightarrow> a \<in> set (butlast (tl (split_on (CHR 0x22) s)))"
proof
  assume "str_contains (quoted a) s"
  then obtain x y where s: "s = x @ CHR 0x22 # (a @ CHR 0x22 # y)" by (auto simp: str_contains_iff quoted_def)
  have "split_on (CHR 0x22) s = split_on (CHR 0x22) x @ a # split_on (CHR 0x22) y"
    unfolding s by (simp add: split_on_general split_on_none [OF assms])
  then show "a \<in> set (butlast (tl (split_on (CHR 0x22) s)))" by (simp add: butlast_append)
next
  assume "a \<in> set (butlast (tl (split_on (CHR 0x22) s)))"
  then obtain us vs where "butlast (tl (split_on (CHR 0x22) s)) = us @ a # vs" by (meson split_list)
  moreover have ne: "tl (split_on (CHR 0x22) s) \<noteq> []" using \<open>a \<in> _\<close> by auto
  ultimately have "tl (split_on (CHR 0x22) s) = us @ a # vs @ [last (tl (split_on (CHR 0x22) s))]"
    by (metis append_Cons append_assoc append_butlast_last_id)
  then obtain p l where "split_on (CHR 0x22) s = (p # us) @ a # (vs @ [l])"
    by (metis append_Cons list.exhaust_sel split_on_nonempty)
  moreover have "\<exists>x y. join_with [CHR 0x22] ((q # us) @ a # (vs @ [l])) = x @ quoted a @ y" for q us vs l
  proof (induction us arbitrary: q)
    case Nil
    have "\<exists>y. join_with [CHR 0x22] (a # vs @ [l]) = a @ [CHR 0x22] @ y" by (cases "vs @ [l]") auto
    then show ?case by (auto simp: quoted_def)
  next
    case (Cons u us)
    then obtain x y where "join_with [CHR 0x22] ((u # us) @ a # (vs @ [l])) = x @ quoted a @ y" by blast
    then have "join_with [CHR 0x22] ((q # u # us) @ a # (vs @ [l])) = (q @ [CHR 0x22] @ x) @ quoted a @ y" by simp
    then show ?case by blast
  qed
  ultimately have "\<exists>x y. s = x @ quoted a @ y" by (metis join_split_on)
  then show "str_contains (quoted a) s" by (simp add: str_contains_iff)
qed

text \<open>The JSON text of a list of plain names, split at its quotes.\<close>

lemma split_list_text:
  assumes "\<forall>s \<in> set ss. CHR 0x22 \<notin> set s"
  shows "set (butlast (tl (split_on (CHR 0x22) (''['' @ join_with '', '' (map quoted ss) @ '']'')))) \<subseteq> set ss \<union> {'', ''}"
    and "set ss \<subseteq> set (butlast (tl (split_on (CHR 0x22) (''['' @ join_with '', '' (map quoted ss) @ '']''))))"
proof -
  have step: "split_on (CHR 0x22) (p @ join_with '', '' (map quoted (s # ss)) @ '']'') =
      p # s # (if ss = [] then ['']''] else split_on (CHR 0x22) ('', '' @ join_with '', '' (map quoted ss) @ '']''))"
    if "CHR 0x22 \<notin> set s" "CHR 0x22 \<notin> set p" for p s ss
  proof -
    have "p @ join_with '', '' (map quoted (s # ss)) @ '']'' =
        p @ CHR 0x22 # (s @ CHR 0x22 # (if ss = [] then '']'' else '', '' @ join_with '', '' (map quoted ss) @ '']''))"
      by (cases ss) (simp_all add: quoted_def)
    then show ?thesis using that by (simp add: split_on_append del: append_Cons)
  qed
  have gen: "\<forall>s \<in> set ss. CHR 0x22 \<notin> set s \<Longrightarrow> CHR 0x22 \<notin> set p \<Longrightarrow>
      set (butlast (tl (split_on (CHR 0x22) (p @ join_with '', '' (map quoted ss) @ '']'')))) \<subseteq> set ss \<union> {'', ''}
      \<and> set ss \<subseteq> set (butlast (tl (split_on (CHR 0x22) (p @ join_with '', '' (map quoted ss) @ '']''))))" for p ss
  proof (induction ss arbitrary: p)
    case Nil
    then show ?case by (simp add: split_on_none)
  next
    case (Cons s ss)
    let ?r = "split_on (CHR 0x22) ('', '' @ join_with '', '' (map quoted ss) @ '']'')"
    have split: "split_on (CHR 0x22) (p @ join_with '', '' (map quoted (s # ss)) @ '']'') = p # s # (if ss = [] then ['']''] else ?r)"
      using Cons.prems by (intro step) auto
    show ?case
    proof (cases "ss = []")
      case True
      then show ?thesis unfolding split by simp
    next
      case False
      then have "?r = '', '' # tl ?r" using step [of "hd ss" "'', ''" "tl ss"] Cons.prems by (cases ss) simp_all
      moreover have "tl ?r \<noteq> []" using step [of "hd ss" "'', ''" "tl ss"] Cons.prems False by (cases ss) simp_all
      ultimately have "butlast ?r = '', '' # butlast (tl ?r)" by (metis butlast.simps(2))
      moreover have "set (butlast (tl ?r)) \<subseteq> set ss \<union> {'', ''} \<and> set ss \<subseteq> set (butlast (tl ?r))"
        using Cons.IH [of "'', ''"] Cons.prems by simp
      ultimately show ?thesis unfolding split using False by auto
    qed
  qed
  from gen [OF assms, of "''[''"] show "set (butlast (tl (split_on (CHR 0x22) (''['' @ join_with '', '' (map quoted ss) @ '']'')))) \<subseteq> set ss \<union> {'', ''}"
    and "set ss \<subseteq> set (butlast (tl (split_on (CHR 0x22) (''['' @ join_with '', '' (map quoted ss) @ '']''))))" by simp_all
qed

lemma map_join_with: "map f (join_with d ws) = join_with (map f d) (map (map f) ws)"
  by (induction d ws rule: join_with.induct) simp_all

lemma lower_fixed [simp]: "lower_char (CHR 0x22) = CHR 0x22" "lower_char (CHR '' '') = CHR '' ''" "lower_char (CHR '','') = CHR '',''"
    "lower_char (CHR ''['') = CHR ''[''" "lower_char (CHR '']'') = CHR '']''"
  by (simp_all add: lower_char_def)

lemma lower_quoted: "map lower_char (quoted s) = quoted (py_lower s)"
  by (simp add: quoted_def py_lower_def)

lemma plain_lower: "plain_name s \<Longrightarrow> CHR 0x22 \<notin> set (py_lower s) \<and> py_lower s \<noteq> '', ''"
proof -
  assume p: "plain_name s"
  have "CHR 0x22 \<notin> set (py_lower s)" "CHR '' '' \<notin> set (py_lower s)"
    using p plain_not_special lower_char_small [of "CHR 0x22"] lower_char_small [of "CHR '' ''"]
    by (force simp: plain_name_def py_lower_def)+
  then show ?thesis by auto
qed

lemma read_mark_contains:
  assumes "plain_name a"
  shows "read_mark a m \<longleftrightarrow> str_contains (quoted (py_lower a)) (map lower_char (dumps_strings (ms_read_by m)))"
proof -
  have "\<forall>c \<in> set (quoted a). c \<noteq> CHR ''%'' \<and> c \<noteq> CHR ''_''"
    using assms plain_not_special by (auto simp: quoted_def plain_name_def)
  from like_infix [OF this, of lower_char "dumps_strings (ms_read_by m)"] show ?thesis
    by (simp add: read_mark_def lower_quoted)
qed

lemma str_contains_map: "str_contains p s \<Longrightarrow> str_contains (map f p) (map f s)"
  unfolding str_contains_iff by (metis map_append)

lemma join_contains: "w \<in> set ws \<Longrightarrow> \<exists>x y. join_with d ws = x @ w @ y"
proof (induction d ws rule: join_with.induct)
  case (3 d v u us)
  show ?case
  proof (cases "w = v")
    case True
    then have "join_with d (v # u # us) = [] @ w @ (d @ join_with d (u # us))" by simp
    then show ?thesis by blast
  next
    case False
    then obtain x y where "join_with d (u # us) = x @ w @ y" using 3 by auto
    then have "join_with d (v # u # us) = (v @ d @ x) @ w @ y" by simp
    then show ?thesis by blast
  qed
next
  case (2 d v)
  then have "join_with d [v] = [] @ w @ []" by simp
  then show ?case by blast
qed simp

lemma read_mark_reader: "plain_name a \<Longrightarrow> a \<in> set (ms_read_by m) \<Longrightarrow> read_mark a m"
proof -
  assume p: "plain_name a" and a: "a \<in> set (ms_read_by m)"
  have "quoted a \<in> set (map (\<lambda>s. quoted (concat (map dumps_char s))) (ms_read_by m))"
    using a plain_dumps [OF p] by (auto simp: image_iff intro!: bexI [of _ a])
  then obtain x y where "join_with '', '' (map (\<lambda>s. quoted (concat (map dumps_char s))) (ms_read_by m)) = x @ quoted a @ y"
    using join_contains by blast
  then have "dumps_strings (ms_read_by m) = (''['' @ x) @ quoted a @ (y @ '']'')" by (simp add: dumps_strings_def)
  then have "str_contains (quoted a) (dumps_strings (ms_read_by m))" unfolding str_contains_iff by blast
  then show ?thesis using str_contains_map [of "quoted a" _ lower_char] read_mark_contains [OF p] by (simp add: lower_quoted)
qed

lemma read_mark_plain:
  assumes "plain_name a" "\<forall>r \<in> set (ms_read_by m). plain_name r"
  shows "read_mark a m \<longleftrightarrow> py_lower a \<in> py_lower ` set (ms_read_by m)"
proof -
  have eq: "dumps_strings (ms_read_by m) = ''['' @ join_with '', '' (map quoted (ms_read_by m)) @ '']''"
    unfolding dumps_strings_def using assms(2) plain_dumps by (simp cong: map_cong)
  have js: "map lower_char (dumps_strings (ms_read_by m)) = ''['' @ join_with '', '' (map quoted (map py_lower (ms_read_by m))) @ '']''"
    unfolding eq by (simp add: map_join_with lower_quoted comp_def)
  have q: "\<forall>s \<in> set (map py_lower (ms_read_by m)). CHR 0x22 \<notin> set s" using assms(2) plain_lower by auto
  show ?thesis
    unfolding read_mark_contains [OF assms(1)] js
      quoted_in_split [OF conjunct1 [OF plain_lower [OF assms(1)]]]
    using plain_lower [OF assms(1)] split_list_text [OF q] unfolding set_map by blast
qed

lemma sort_key_map: "(\<And>x. k (f x) = k x) \<Longrightarrow> sort_key k (map f xs) = map f (sort_key k xs)"
proof -
  assume k: "\<And>x. k (f x) = k x"
  have "insort_key k (f x) (map f ys) = map f (insort_key k x ys)" for x ys
    by (induction ys) (simp_all add: k)
  then show ?thesis by (induction xs) simp_all
qed

lemma latest_map: "(\<And>x. ms_created (f x) = ms_created x) \<Longrightarrow> latest n (map f ms) = map f (latest n ms)"
  by (simp add: latest_def sql_limit_def sort_key_map rev_map take_map)

lemma latest_subset: "set (latest n ms) \<subseteq> set ms"
  using sql_limit_subset [of n "rev (sort_key ms_created ms)"] by (simp add: latest_def)

text \<open>A message an agent marks as read no longer is among its unread messages, and stays among those of every other
  agent: names that differ by more than the case of letters and are made of letters, digits and hyphens do not meet in
  the text search that looks for the mark.\<close>

theorem mark_read_hides_from_reader_only:
  assumes "plain_name a" "plain_name b" "py_lower a \<noteq> py_lower b" "\<forall>m \<in> set (mb_rows d). \<forall>r \<in> set (ms_read_by m). plain_name r"
  shows "i \<notin> ms_id ` set (get_unread env (Some a) n (mark_read env i (Some a) d))
    \<and> map ms_id (get_unread env (Some b) n (mark_read env i (Some a) d)) = map ms_id (get_unread env (Some b) n d)"
proof -
  have [simp]: "or_name env (Some a) = a" "or_name env (Some b) = b" using assms(1,2) by (auto simp: or_name_def plain_name_def)
  define f where "f m = (if ms_id m = i then add_reader a m else m)" for m
  have f: "ms_id (f m) = ms_id m" "ms_created (f m) = ms_created m" "addressed x (f m) = addressed x m" "live t (f m) = live t m" for m x t
    by (simp_all add: f_def add_reader_def addressed_def live_def)
  have rows: "mb_rows (mark_read env i (Some a) d) = map f (mb_rows d)" by (simp add: mark_read_def f_def)
  have reader: "read_mark a (f m)" if "ms_id m = i" for m
    using that by (intro read_mark_reader [OF assms(1)]) (simp add: f_def add_reader_def)
  then have hidden: "i \<notin> ms_id ` set (get_unread env (Some a) n (mark_read env i (Some a) d))"
  proof -
    have "ms_id m \<noteq> i" if "m \<in> set (get_unread env (Some a) n (mark_read env i (Some a) d))" for m
    proof -
      have "m \<in> f ` set (mb_rows d)" "\<not> read_mark a m"
        using subsetD [OF latest_subset that [unfolded get_unread_def Let_def rows]] by simp_all
      then obtain x where x: "m = f x" by blast
      show ?thesis
      proof
        assume "ms_id m = i"
        then have "ms_id x = i" by (simp add: x f(1))
        then show False using reader \<open>\<not> read_mark a m\<close> x by simp
      qed
    qed
    then show ?thesis by blast
  qed
  have "read_mark b (f m) = read_mark b m" if "m \<in> set (mb_rows d)" for m
  proof -
    have p: "\<forall>r \<in> set (ms_read_by m). plain_name r" using assms(4) that by blast
    then have "\<forall>r \<in> set (ms_read_by (f m)). plain_name r" using assms(1) by (simp add: f_def add_reader_def)
    from read_mark_plain [OF assms(2) this] read_mark_plain [OF assms(2) p] show ?thesis
      using assms(3) by (auto simp: f_def add_reader_def)
  qed
  then have "filter (\<lambda>m. addressed b m \<and> live (mg_now env) m \<and> \<not> read_mark b m) (map f (mb_rows d))
      = map f (filter (\<lambda>m. addressed b m \<and> live (mg_now env) m \<and> \<not> read_mark b m) (mb_rows d))"
    by (simp add: filter_map comp_def f cong: filter_cong)
  then have "get_unread env (Some b) n (mark_read env i (Some a) d) = map f (get_unread env (Some b) n d)"
    by (simp add: get_unread_def rows latest_map f(2))
  then show ?thesis using hidden by (simp add: f(1) comp_def)
qed

text \<open>A name with an underscore is a pattern: what \<open>axb\<close> has read is hidden from \<open>a_b\<close>, which never sees it. A name beyond
  ASCII never matches its own mark.\<close>

lemma wildcard_hides: "read_mark ''a_b'' (sample_message\<lparr>ms_read_by := [''axb'']\<rparr>)"
  by (simp add: read_mark_def dumps_strings_def dumps_char_def quoted_def sample_message_def)

lemma accented_never_read: "\<not> read_mark [CHR 0xE9] (sample_message\<lparr>ms_read_by := [[CHR 0xE9]]\<rparr>)"
  by code_simp

section \<open>Threads\<close>

lemma find_message_iff: "messages_ok d \<Longrightarrow> find_message i d = Some m \<longleftrightarrow> m \<in> set (mb_rows d) \<and> ms_id m = i"
proof -
  have "distinct (map ms_id ms) \<Longrightarrow> find (\<lambda>m. ms_id m = i) ms = Some m \<longleftrightarrow> m \<in> set ms \<and> ms_id m = i" for ms
    by (induction ms) (auto simp: image_iff)
  then show "messages_ok d \<Longrightarrow> ?thesis" by (simp add: messages_ok_def find_message_def)
qed

lemma send_with_room:
  assumes "messages_ok d" "int (length (mb_rows d)) < MAX_MESSAGES" "mg_id env \<notin> message_ids d"
    and "\<And>p. sa_parent a = Some p \<Longrightarrow> p \<in> message_ids d"
  shows "fst (send env a d) = Inr (new_message env a) \<and> mb_rows (snd (send env a d)) = mb_rows d @ [new_message env a]"
proof -
  have "insert_message (new_message env a) d = Inr (d\<lparr>mb_rows := mb_rows d @ [new_message env a]\<rparr>)"
    using assms(3,4) by (auto simp: insert_message_def split: option.split)
  then show ?thesis using assms(2) by (simp add: send_def evict_if_needed_def Let_def)
qed

text \<open>A reply joins the thread of its parent, whether the parent is the root or a reply itself: while there is room, the new
  message is in the thread of the parent, and its own thread is that thread.\<close>

theorem reply_joins_thread:
  assumes "messages_ok d" "int (length (mb_rows d)) < MAX_MESSAGES" "mg_id env \<notin> message_ids d" "[] \<notin> message_ids d" "i \<in> message_ids d"
  shows "\<exists>m. fst (reply env i content sender ty metadata d) = Inr m \<and>
    (let d1 = snd (reply env i content sender ty metadata d) in
     m \<in> set (get_thread i d1) \<and> get_thread (ms_id m) d1 = get_thread i d1 \<and> set (get_thread i d) \<subseteq> set (get_thread i d1))"
proof -
  obtain p where p: "p \<in> set (mb_rows d)" "ms_id p = i" using assms(5) by (auto simp: message_ids_def)
  then have fp: "find_message i d = Some p" using find_message_iff assms(1) by blast
  have root: "root_of p \<in> message_ids d" using assms(1) p(1)
    by (auto simp: root_of_def messages_ok_def message_ids_def split: option.split)
  define a where "a = \<lparr>sa_content = content, sa_sender = sender, sa_recipient = ms_sender p,
            sa_type = (case ty of Some t \<Rightarrow> t | None \<Rightarrow> ms_type p), sa_topic = ms_topic p, sa_metadata = metadata,
            sa_parent = Some (root_of p), sa_issue = ms_issue p, sa_ttl = ms_ttl p\<rparr>"
  let ?m = "new_message env a" and ?d1 = "snd (send env a d)"
  have reply: "reply env i content sender ty metadata d = send env a d" by (simp add: reply_def fp a_def)
  have sa: "sa_parent a = Some (root_of p)" by (simp add: a_def)
  then have parent: "ms_parent ?m = Some (root_of p)" by simp
  have sent: "fst (send env a d) = Inr ?m" "mb_rows ?d1 = mb_rows d @ [?m]"
    using send_with_room [OF assms(1-3), of a] root by (auto simp: a_def)
  have ok1: "messages_ok ?d1" using send_ok [OF assms(1)] .
  have "find_message i ?d1 = Some p" using find_message_iff [OF ok1] p sent(2) by simp
  then have t1: "get_thread i ?d1 = sort_key ms_created (filter (\<lambda>x. ms_id x = root_of p \<or> ms_parent x = Some (root_of p)) (mb_rows ?d1))"
    by (simp add: get_thread_def)
  have "root_of p \<noteq> []" using root assms(4) by metis
  then have "root_of ?m = root_of p" by (simp add: root_of_def [of ?m] sa)
  moreover have "find_message (ms_id ?m) ?d1 = Some ?m" unfolding find_message_iff [OF ok1] sent(2) by simp
  ultimately have "get_thread (ms_id ?m) ?d1 = get_thread i ?d1" by (simp only: get_thread_def [of "ms_id ?m"] t1 option.case)
  moreover have t0: "get_thread i d = sort_key ms_created (filter (\<lambda>x. ms_id x = root_of p \<or> ms_parent x = Some (root_of p)) (mb_rows d))"
    by (simp add: get_thread_def fp)
  have "?m \<in> set (get_thread i ?d1)" unfolding t1 sent(2) using parent by simp
  moreover have "set (get_thread i d) \<subseteq> set (get_thread i ?d1)" unfolding t0 t1 sent(2) by auto
  ultimately show ?thesis using sent(1) unfolding reply Let_def by blast
qed

section \<open>The context of an agent\<close>

lemma best_score_ge: "m \<in> set ms \<Longrightarrow> ms_score m \<le> best_score ms"
  by (cases ms) (auto simp: best_score_def foldl_max_start foldl_max_ge)

lemma normalise_le_1: "m \<in> set (normalise ms) \<Longrightarrow> ms_score m \<le> 1"
  using best_score_ge by (fastforce simp: normalise_def divide_le_eq split: if_splits)

lemma keyword_scores:
  assumes "\<forall>m \<in> set ms. ms_score m \<le> 1" "0 \<le> kw" "\<forall>(k, m) \<in> set d. ms_score m \<le> kw"
  shows "\<forall>(k, m) \<in> set (foldl (\<lambda>d m. dict_set (ms_id m) (m\<lparr>ms_score := ms_score m * kw\<rparr>) d) d ms). ms_score m \<le> kw"
  using assms
proof (induction ms arbitrary: d)
  case (Cons m ms)
  have "ms_score m * kw \<le> 1 * kw" using Cons.prems by (intro mult_right_mono) simp_all
  then have "\<forall>(k, x) \<in> set (dict_set (ms_id m) (m\<lparr>ms_score := ms_score m * kw\<rparr>) d). ms_score x \<le> kw"
    using Cons.prems(3) by (auto dest!: dict_set_member)
  then show ?case using Cons by simp
qed simp

lemma dict_get_member: "dict_get d k = Some v \<Longrightarrow> (k, v) \<in> set d"
  by (auto simp: dict_get_def dest: map_of_SomeD)

lemma semantic_scores:
  assumes "\<forall>m \<in> set ms. ms_score m \<le> 1" "distinct (map ms_id ms)" "0 \<le> kw" "0 \<le> sw" "kw + sw \<le> 1"
    and "\<forall>(k, m) \<in> set d. ms_score m \<le> kw \<or> (ms_score m \<le> 1 \<and> k \<notin> ms_id ` set ms)"
  shows "\<forall>(k, m) \<in> set (foldl (merge_semantic sw) d ms). ms_score m \<le> 1"
  using assms
proof (induction ms arbitrary: d)
  case Nil
  then show ?case by fastforce
next
  case (Cons m ms)
  have m: "ms_score m * sw \<le> 1 * sw" using Cons.prems by (intro mult_right_mono) simp_all
  have old: "ms_score x \<le> kw \<or> (ms_score x \<le> 1 \<and> k \<notin> ms_id ` set ms)" if "(k, x) \<in> set d" for k x
    using Cons.prems(6) that by fastforce
  have fresh: "ms_id m \<notin> ms_id ` set ms" using Cons.prems(2) by simp
  have "ms_score x \<le> kw \<or> (ms_score x \<le> 1 \<and> k \<notin> ms_id ` set ms)" if kx: "(k, x) \<in> set (merge_semantic sw d m)" for k x
  proof (cases "dict_get d (ms_id m)")
    case None
    have "(k, x) = (ms_id m, m\<lparr>ms_score := ms_score m * sw\<rparr>) \<or> (k, x) \<in> set d"
      by (rule dict_set_member [OF kx [unfolded merge_semantic_def None option.case]])
    then show ?thesis
    proof
      assume "(k, x) = (ms_id m, m\<lparr>ms_score := ms_score m * sw\<rparr>)"
      then show ?thesis using fresh m Cons.prems(3,5) by simp
    qed (rule old)
  next
    case (Some b)
    then have "ms_score b \<le> kw" using Cons.prems(6) dict_get_member by fastforce
    moreover have "(k, x) = (ms_id m, b\<lparr>ms_score := ms_score b + ms_score m * sw\<rparr>) \<or> (k, x) \<in> set d"
      by (rule dict_set_member [OF kx [unfolded merge_semantic_def Some option.case]])
    ultimately show ?thesis
    proof (elim disjE)
      assume "(k, x) = (ms_id m, b\<lparr>ms_score := ms_score b + ms_score m * sw\<rparr>)" "ms_score b \<le> kw"
      then show ?thesis using fresh m Cons.prems(5) by simp
    qed (rule old)
  qed
  then have "\<forall>(k, x) \<in> set (merge_semantic sw d m). ms_score x \<le> kw \<or> (ms_score x \<le> 1 \<and> k \<notin> ms_id ` set ms)" by blast
  then show ?case using Cons.IH [of "merge_semantic sw d m"] Cons.prems by simp
qed

lemma semantic_search_results:
  assumes "messages_ok d"
  shows "(\<forall>m \<in> set (semantic_search env query n d). ms_score m \<le> 1) \<and> distinct (map ms_id (semantic_search env query n d))"
proof (cases "mg_embed env query")
  case (Some q)
  define rs where "rs = List.map_filter (\<lambda>m. map_option (\<lambda>v. with_score (m, cosine_similarity q v)) (dict_get (mb_embeddings d) (ms_id m)))
              (filter (live (mg_now env)) (mb_rows d))"
  have "\<forall>m \<in> set rs. ms_score m \<le> 1"
    using cosine_bounds [of q] by (auto simp: rs_def List.map_filter_def with_score_def abs_le_iff)
  moreover have "distinct (map ms_id rs)"
  proof -
    have "map ms_id (List.map_filter (\<lambda>m. map_option (\<lambda>v. with_score (m, f v)) (g m)) ms) = map ms_id (filter (\<lambda>m. g m \<noteq> None) ms)"
      for f :: "real list \<Rightarrow> real" and g ms
      by (induction ms) (auto simp: List.map_filter_simps with_score_def split: option.split)
    then show ?thesis using assms by (simp add: rs_def messages_ok_def distinct_map_filter)
  qed
  moreover have "distinct (map ms_id (rank_by ms_score (filter P rs)))" for P
    using calculation(2) by (auto simp: distinct_map inj_on_def)
  ultimately show ?thesis using Some
    by (auto simp: semantic_search_def rs_def [symmetric] py_take_distinct dest!: py_take_member)
qed (simp add: semantic_search_def)

lemma hybrid_scores:
  assumes "messages_ok d" "m \<in> set (hybrid_search env query n (4 / 10) (6 / 10) d)"
  shows "ms_score m \<le> 1"
proof -
  let ?sem = "semantic_search env query (n * 2) d"
  have "\<forall>(k, m) \<in> set (foldl (\<lambda>d m. dict_set (ms_id m) (m\<lparr>ms_score := ms_score m * (4 / 10)\<rparr>) d) [] (normalise ms)). ms_score m \<le> 4 / 10" for ms
    by (rule keyword_scores) (use normalise_le_1 in auto)
  then have "\<forall>(k, m) \<in> set (merge_results (4 / 10) (6 / 10) (search env query (n * 2) d) ?sem). ms_score m \<le> 1"
    unfolding merge_results_def using semantic_search_results [OF assms(1), of env query "n * 2"]
    by (intro semantic_scores [where kw = "4 / 10"]) auto
  moreover have "m \<in> snd ` set (merge_results (4 / 10) (6 / 10) (search env query (n * 2) d) ?sem)"
    using py_take_member [OF assms(2) [unfolded hybrid_search_def]] by simp
  ultimately show ?thesis by auto
qed

lemma add_unseen_from: "r \<in> set (add_unseen f ms rs) \<Longrightarrow> r \<in> set rs \<or> r \<in> f ` set ms"
proof (induction ms arbitrary: rs)
  case (Cons m ms)
  then have "r \<in> set (add_unseen f ms (if ms_id m \<in> ms_id ` set rs then rs else rs @ [f m]))" by (simp add: add_unseen_def)
  from Cons.IH [OF this] show ?case by (auto split: if_splits)
qed (simp add: add_unseen_def)

lemma add_unseen_mono: "set rs \<subseteq> set (add_unseen f ms rs)"
proof (induction ms arbitrary: rs)
  case (Cons m ms)
  show ?case using Cons [of "if ms_id m \<in> ms_id ` set rs then rs else rs @ [f m]"] by (auto simp: add_unseen_def split: if_splits)
qed (simp add: add_unseen_def)

lemma add_unseen_all:
  "distinct (map ms_id ms) \<Longrightarrow> (\<And>m. ms_id (f m) = ms_id m) \<Longrightarrow> ms_id ` set rs \<inter> ms_id ` set ms = {} \<Longrightarrow> m \<in> set ms \<Longrightarrow> f m \<in> set (add_unseen f ms rs)"
proof (induction ms arbitrary: rs)
  case (Cons x ms)
  have eq: "add_unseen f (x # ms) rs = add_unseen f ms (rs @ [f x])" using Cons.prems(3) by (auto simp: add_unseen_def)
  show ?case
  proof (cases "m = x")
    case True
    then show ?thesis using add_unseen_mono [of "rs @ [f x]" f ms] unfolding eq by auto
  next
    case False
    then show ?thesis unfolding eq using Cons.prems by (intro Cons.IH) auto
  qed
qed simp

lemma add_unseen_ids: "distinct (map ms_id rs) \<Longrightarrow> (\<And>m. ms_id (f m) = ms_id m) \<Longrightarrow> distinct (map ms_id (add_unseen f ms rs))"
proof (induction ms arbitrary: rs)
  case (Cons m ms)
  then show ?case using Cons.IH [of "if ms_id m \<in> ms_id ` set rs then rs else rs @ [f m]"] by (simp add: add_unseen_def)
qed (simp add: add_unseen_def)

text \<open>In the context of an agent no message stands twice, no score exceeds 1, and its unread messages come first: each of
  them is there, or the context is full of messages of score 1 that are as new.\<close>

theorem unread_messages_come_first:
  assumes "messages_ok d" "0 \<le> n" "u \<in> set (get_unread env (Some (or_name env agent)) n d)"
  shows "let rs = relevant_messages env query agent n d in
    length rs \<le> nat n \<and> distinct (map ms_id rs) \<and> (\<forall>r \<in> set rs. ms_score r \<le> 1) \<and>
    (scored_as 1 u \<in> set rs \<or> (length rs = nat n \<and> (\<forall>r \<in> set rs. ms_score r = 1 \<and> ms_created u \<le> ms_created r)))"
proof -
  define un where "un = add_unseen (scored_as 1) (get_unread env (Some (or_name env agent)) n d) []"
  define pr where "pr = add_unseen (scored_as (8 / 10)) (read_recent (mg_now env) n None HIGH_PRIORITY_TYPES None False d) un"
  define all where "all = (if py_strip query = [] then pr else add_unseen id (hybrid_search env query n (4 / 10) (6 / 10) d) pr)"
  let ?key = "\<lambda>m. (ms_score m, ms_created m)"
  have rs: "relevant_messages env query agent n d = take (nat n) (rank_by ?key all)"
    using assms(2) by (simp add: relevant_messages_def Let_def un_def pr_def all_def py_take_nonneg)
  have [simp]: "ms_id (scored_as s m) = ms_id m" "ms_score (scored_as s m) = s" "ms_created (scored_as s m) = ms_created m" for s m
    by (simp_all add: scored_as_def)
  have "distinct (map ms_id (get_unread env (Some (or_name env agent)) n d))"
  proof -
    have "distinct (map ms_id (latest n ms))" if "distinct (map ms_id ms)" for ms
    proof -
      have "distinct (map ms_id (rev (sort_key ms_created ms)))" using that by (simp add: distinct_map)
      then have "distinct (map ms_id (sql_limit n (rev (sort_key ms_created ms))))"
        by (simp add: sql_limit_def take_map [symmetric])
      then show ?thesis by (simp add: latest_def rev_map [symmetric])
    qed
    then show ?thesis using assms(1) by (simp add: get_unread_def Let_def messages_ok_def distinct_map_filter)
  qed
  then have "scored_as 1 u \<in> set un" unfolding un_def using assms(3) by (intro add_unseen_all) simp_all
  then have "scored_as 1 u \<in> set pr" unfolding pr_def by (rule subsetD [OF add_unseen_mono])
  then have u: "scored_as 1 u \<in> set all" by (simp add: all_def subsetD [OF add_unseen_mono])
  have ids: "distinct (map ms_id all)"
    unfolding all_def pr_def un_def by (simp add: add_unseen_ids)
  have le_un: "ms_score r = 1" if "r \<in> set un" for r
    using add_unseen_from [OF that [unfolded un_def]] by auto
  have le_pr: "ms_score r \<le> 1" if "r \<in> set pr" for r
    using add_unseen_from [OF that [unfolded pr_def]] le_un by auto
  have le: "ms_score r \<le> 1" if "r \<in> set all" for r
  proof (cases "py_strip query = []")
    case False
    then have "r \<in> set pr \<or> r \<in> set (hybrid_search env query n (4 / 10) (6 / 10) d)"
      using that add_unseen_from [of r id "hybrid_search env query n (4 / 10) (6 / 10) d" pr] by (simp add: all_def)
    then show ?thesis using le_pr hybrid_scores [OF assms(1)] by blast
  qed (use that le_pr in \<open>simp add: all_def\<close>)
  have "scored_as 1 u \<in> set (take (nat n) (rank_by ?key all)) \<or> scored_as 1 u \<in> set (drop (nat n) (rank_by ?key all))"
    using u by (metis Un_iff append_take_drop_id rank_by_set(1) set_append)
  moreover have "length (take (nat n) (rank_by ?key all)) = nat n \<and> (\<forall>r \<in> set (take (nat n) (rank_by ?key all)). ms_score r = 1 \<and> ms_created u \<le> ms_created r)"
    if d: "scored_as 1 u \<in> set (drop (nat n) (rank_by ?key all))"
  proof (intro conjI ballI)
    have "nat n < length (rank_by ?key all)" using d by (metis drop_all empty_iff empty_set not_less)
    then show "length (take (nat n) (rank_by ?key all)) = nat n" by simp
    fix r assume r: "r \<in> set (take (nat n) (rank_by ?key all))"
    then have "ms_score r \<le> 1" using le in_set_takeD [OF r] by simp
    moreover have "?key (scored_as 1 u) \<le> ?key r"
      using r d by (rule rank_by_take [of r "nat n" ?key all "scored_as 1 u"])
    ultimately show "ms_score r = 1" "ms_created u \<le> ms_created r" by simp_all
  qed
  moreover have "distinct (map ms_id (rank_by ?key all))" using ids by (simp add: distinct_map)
  then have "distinct (map ms_id (take (nat n) (rank_by ?key all)))" by (simp add: take_map [symmetric])
  moreover have "\<forall>r \<in> set (take (nat n) (rank_by ?key all)). ms_score r \<le> 1" using le by (auto dest: in_set_takeD)
  moreover have "length (take (nat n) (rank_by ?key all)) \<le> nat n" by simp
  ultimately show ?thesis unfolding rs Let_def by blast
qed

section \<open>The old bulletin\<close>

lemma send_nonempty:
  assumes "messages_ok d" "fst (send env a d) = Inr m"
  shows "mb_rows (snd (send env a d)) \<noteq> []"
proof -
  obtain d1 where d1: "insert_message (new_message env a) d = Inr d1"
    using assms(2) by (auto simp: send_def Let_def split: sum.splits)
  then have *: "messages_linked d1" "mb_rows d1 = mb_rows d @ [new_message env a]"
    using insert_message_linked [OF d1] assms(1) by (simp_all add: messages_ok_iff)
  then have "0 < int (length (mb_rows (evict_if_needed d1)))"
    using evict_length [of d1] by (simp add: messages_linked_def MAX_MESSAGES_def)
  then show ?thesis using d1 by (simp add: send_def Let_def)
qed

lemma import_result:
  assumes "messages_ok d" "import_entries envs es d = (Inr n, d1)"
  shows "(n = 0 \<and> d1 = d \<and> (\<forall>(agent, block) \<in> set es. snd (v1_block block) = [])) \<or> mb_rows d1 \<noteq> []"
  using assms
proof (induction envs es d arbitrary: n d1 rule: import_entries.induct)
  case (2 envs agent block es d)
  obtain topic body where b: "v1_block block = (topic, body)" by (cases "v1_block block")
  show ?case
  proof (cases "body = []")
    case True
    then show ?thesis using 2(1) [OF b [symmetric]] 2(3,4) b by simp
  next
    case False
    obtain r d2 where s: "send (envs 0) (v1_args agent topic body) d = (r, d2)" by fastforce
    obtain m where r: "r = Inr m" using 2(4) False b s by (cases r) auto
    obtain r3 d3 where i: "import_entries (\<lambda>n. envs (Suc n)) es d2 = (r3, d3)" by fastforce
    then obtain k where "r3 = Inr k" and d3: "d3 = d1" using 2(4) False b s r by (cases r3) auto
    have "messages_ok d2" "mb_rows d2 \<noteq> []"
      using send_ok [OF 2(3), of "envs 0" "v1_args agent topic body"] send_nonempty [OF 2(3), of "envs 0" "v1_args agent topic body" m] s r
      by simp_all
    then show ?thesis using 2(2) [OF b [symmetric] False s [symmetric] r, of k d1] i \<open>r3 = Inr k\<close> d3 by auto
  qed
qed simp

lemma import_nothing: "\<forall>(agent, block) \<in> set es. snd (v1_block block) = [] \<Longrightarrow> import_entries envs es d = (Inr 0, d)"
  by (induction es) (auto split: prod.split)

text \<open>The import of the old bulletin is idempotent: after one that succeeds, another imports nothing and changes nothing.\<close>

theorem migration_is_idempotent:
  assumes "messages_ok d" "migrate_v1_bulletin envs file d = (Inr n, d1)"
  shows "migrate_v1_bulletin envs' file d1 = (Inr 0, d1)"
proof (cases "file")
  case (Some content)
  show ?thesis
  proof (cases "mb_rows d = []")
    case True
    then have "import_entries envs (snd (v1_scan True content)) d = (Inr n, d1)" using assms(2) Some by (simp add: migrate_v1_bulletin_def)
    from import_result [OF assms(1) this] show ?thesis using Some import_nothing by (auto simp: migrate_v1_bulletin_def)
  next
    case False
    then show ?thesis using assms(2) Some by (simp add: migrate_v1_bulletin_def)
  qed
qed (use assms in \<open>simp add: migrate_v1_bulletin_def\<close>)

section \<open>Examples\<close>

definition sample_menv :: "string \<Rightarrow> message_env" where
  "sample_menv i = \<lparr>mg_id = i, mg_now = ''2026-01-02'', mg_clock = sample_clock, mg_name = ''qa'', mg_embed = (\<lambda>s. None), mg_available = False,
     mg_embed_batch = (\<lambda>ss. []), mg_fts = (\<lambda>ts ms. [])\<rparr>"

definition sample_messages :: message_db where
  "sample_messages = \<lparr>mb_rows = [sample_message], mb_embeddings = []\<rparr>"

lemma sample_messages_ok: "messages_ok sample_messages"
  by (simp add: messages_ok_def sample_messages_def sample_message_def MAX_MESSAGES_def dict_ok_def dict_keys_def)

theorem mark_read_hides_from_reader_only_witness:
  "''m1'' \<notin> ms_id ` set (get_unread (sample_menv ''m2'') (Some ''qa'') 5 (mark_read (sample_menv ''m2'') ''m1'' (Some ''qa'') sample_messages))
   \<and> map ms_id (get_unread (sample_menv ''m2'') (Some ''ops'') 5 (mark_read (sample_menv ''m2'') ''m1'' (Some ''qa'') sample_messages))
     = map ms_id (get_unread (sample_menv ''m2'') (Some ''ops'') 5 sample_messages)"
  by (rule mark_read_hides_from_reader_only)
     (simp_all add: plain_name_def plain_char_def py_lower_def lower_char_def sample_messages_def sample_message_def)

theorem reply_joins_thread_witness:
  "\<exists>m. fst (reply (sample_menv ''m2'') ''m1'' ''yes'' None None [] sample_messages) = Inr m \<and>
    (let d1 = snd (reply (sample_menv ''m2'') ''m1'' ''yes'' None None [] sample_messages) in
     m \<in> set (get_thread ''m1'' d1) \<and> get_thread (ms_id m) d1 = get_thread ''m1'' d1 \<and> set (get_thread ''m1'' sample_messages) \<subseteq> set (get_thread ''m1'' d1))"
  by (rule reply_joins_thread [OF sample_messages_ok])
     (simp_all add: sample_messages_def sample_message_def MAX_MESSAGES_def message_ids_def sample_menv_def)

theorem unread_messages_come_first_witness:
  "let rs = relevant_messages (sample_menv ''m2'') ''hello'' None 3 sample_messages in
    length rs \<le> nat 3 \<and> distinct (map ms_id rs) \<and> (\<forall>r \<in> set rs. ms_score r \<le> 1) \<and>
    (scored_as 1 sample_message \<in> set rs \<or> (length rs = nat 3 \<and> (\<forall>r \<in> set rs. ms_score r = 1 \<and> ms_created sample_message \<le> ms_created r)))"
  by (rule unread_messages_come_first [OF sample_messages_ok])
     (simp_all add: get_unread_def sample_messages_def sample_message_def sample_menv_def or_name_def addressed_def BROADCAST_def
        live_def read_mark_def dumps_strings_def quoted_def latest_def sql_limit_def)

definition sample_bulletin :: string where
  "sample_bulletin = ''### [monday] dev'' @ nl @ ''> Topic: api'' @ nl @ ''use v2'' @ nl @ ''---'' @ nl"

theorem migration_is_idempotent_witness:
  "migrate_v1_bulletin (\<lambda>n. sample_menv ''z'') (Some sample_bulletin)
     (snd (migrate_v1_bulletin (\<lambda>n. sample_menv (CHR ''k'' # str_nat n)) (Some sample_bulletin) empty_messages))
   = (Inr 0, snd (migrate_v1_bulletin (\<lambda>n. sample_menv (CHR ''k'' # str_nat n)) (Some sample_bulletin) empty_messages))
   \<and> fst (migrate_v1_bulletin (\<lambda>n. sample_menv (CHR ''k'' # str_nat n)) (Some sample_bulletin) empty_messages) = Inr 1"
proof -
  have one: "fst (migrate_v1_bulletin (\<lambda>n. sample_menv (CHR ''k'' # str_nat n)) (Some sample_bulletin) empty_messages) = Inr 1"
    by code_simp
  then have "migrate_v1_bulletin (\<lambda>n. sample_menv (CHR ''k'' # str_nat n)) (Some sample_bulletin) empty_messages =
      (Inr 1, snd (migrate_v1_bulletin (\<lambda>n. sample_menv (CHR ''k'' # str_nat n)) (Some sample_bulletin) empty_messages))"
    by (metis prod.collapse)
  from migration_is_idempotent [OF empty_messages_ok this] one show ?thesis by simp
qed

end
