(* ===== verification/Py_Regex.thy ===== *)
theory Py_Regex
  imports Py_Strings
begin

text \<open>
  Regular expressions as \<^verbatim>\<open>re\<close> reads them: a backtracking matcher that lists every way to match, in the order in which
  \<open>re\<close> tries them, so that the first is the match. A pattern of the source is a value of the datatype.
\<close>

section \<open>Patterns\<close>

datatype rclass = CChar char | CRange char char | CWord | CSpace | CDigit | CNot rclass

datatype regex =
    RStr string
  | RAny
  | RSet bool "rclass list" \<comment> \<open>\<open>True\<close> for a negated set\<close>
  | RSeq regex regex
  | RAlt regex regex
  | RStar bool regex \<comment> \<open>\<open>True\<close> for greedy\<close>
  | RGroup nat regex
  | RBoundary
  | RLineStart
  | RLineEnd
  | RStart
  | REnd
  | RLook bool regex \<comment> \<open>\<open>False\<close> for a negative lookahead\<close>

definition ropt :: "regex \<Rightarrow> regex" where
  "ropt r = RAlt r (RStr [])"

definition rplus :: "regex \<Rightarrow> regex" where
  "rplus r = RSeq r (RStar True r)"

definition rdots :: regex where
  "rdots = RStar True RAny"

fun rseq :: "regex list \<Rightarrow> regex" where
  "rseq [] = RStr []"
| "rseq [r] = r"
| "rseq (r # rs) = RSeq r (rseq rs)"

fun ralt :: "regex list \<Rightarrow> regex" where
  "ralt [] = RSet False []"
| "ralt [r] = r"
| "ralt (r # rs) = RAlt r (ralt rs)"

text \<open>\<open>r{m,n}\<close> and \<open>r{m,}\<close>, greedy.\<close>

fun rupto :: "nat \<Rightarrow> regex \<Rightarrow> regex" where
  "rupto 0 r = RStr []"
| "rupto (Suc n) r = RAlt (RSeq r (rupto n r)) (RStr [])"

definition rrepeat :: "nat \<Rightarrow> nat \<Rightarrow> regex \<Rightarrow> regex" where
  "rrepeat m n r = RSeq (rseq (replicate m r)) (rupto (n - m) r)"

definition ratleast :: "nat \<Rightarrow> regex \<Rightarrow> regex" where
  "ratleast m r = RSeq (rseq (replicate m r)) (RStar True r)"

section \<open>Matching\<close>

fun in_class :: "char \<Rightarrow> rclass \<Rightarrow> bool" where
  "in_class c (CChar d) = (c = d)"
| "in_class c (CRange a b) = ((of_char a :: nat) \<le> of_char c \<and> (of_char c :: nat) \<le> of_char b)"
| "in_class c CWord = word_char c"
| "in_class c CSpace = py_space c"
| "in_class c CDigit = is_digit c"
| "in_class c (CNot k) = (\<not> in_class c k)"

text \<open>With \<open>ic\<close> the case of letters is ignored.\<close>

definition fold_char :: "bool \<Rightarrow> char \<Rightarrow> char" where
  "fold_char ic c = (if ic then lower_char c else c)"

definition in_set :: "bool \<Rightarrow> rclass list \<Rightarrow> char \<Rightarrow> bool" where
  "in_set ic ks c \<longleftrightarrow> (\<exists>k \<in> set ks. in_class c k \<or> ic \<and> (in_class (lower_char c) k \<or> in_class (upper_char c) k))"

fun strip_prefix :: "bool \<Rightarrow> string \<Rightarrow> string \<Rightarrow> string \<Rightarrow> (string \<times> string) option" where
  "strip_prefix ic [] bef rest = Some (bef, rest)"
| "strip_prefix ic (c # cs) bef [] = None"
| "strip_prefix ic (c # cs) bef (d # ds) = (if fold_char ic c = fold_char ic d then strip_prefix ic cs (d # bef) ds else None)"

definition word_at :: "string \<Rightarrow> bool" where
  "word_at s = (case s of [] \<Rightarrow> False | c # _ \<Rightarrow> word_char c)"

definition starts_with_newline :: "string \<Rightarrow> bool" where
  "starts_with_newline s = (case s of [] \<Rightarrow> True | c # _ \<Rightarrow> c = CHR 0x0A)"

text \<open>A position: the text before, reversed, the text after, and what the groups have captured, the last first.\<close>

type_synonym position = "string \<times> string \<times> (nat \<times> string) list"

definition rest_of :: "position \<Rightarrow> string" where
  "rest_of p = fst (snd p)"

definition one_char :: "(char \<Rightarrow> bool) \<Rightarrow> position \<Rightarrow> position list" where
  "one_char P p = (case p of (bef, rest, caps) \<Rightarrow> (case rest of [] \<Rightarrow> [] | c # cs \<Rightarrow> if P c then [(c # bef, cs, caps)] else []))"

definition here_if :: "bool \<Rightarrow> position \<Rightarrow> position list" where
  "here_if b p = (if b then [p] else [])"

definition capture :: "nat \<Rightarrow> position \<Rightarrow> position \<Rightarrow> position" where
  "capture n p q = (fst q, rest_of q, (n, take (length (rest_of p) - length (rest_of q)) (rest_of p)) # snd (snd q))"

function (sequential) runs :: "bool \<Rightarrow> regex \<Rightarrow> position \<Rightarrow> position list" where
  "runs ic (RStr s) p = (case p of (bef, rest, caps) \<Rightarrow>
     (case strip_prefix ic s bef rest of None \<Rightarrow> [] | Some (bef', rest') \<Rightarrow> [(bef', rest', caps)]))"
| "runs ic RAny p = one_char (\<lambda>c. c \<noteq> CHR 0x0A) p"
| "runs ic (RSet neg ks) p = one_char (\<lambda>c. in_set ic ks c \<noteq> neg) p"
| "runs ic (RSeq a b) p = concat (map (runs ic b) (runs ic a p))"
| "runs ic (RAlt a b) p = runs ic a p @ runs ic b p"
| "runs ic (RStar greedy r) p =
     (let more = concat (map (\<lambda>q. if length (rest_of q) < length (rest_of p) then runs ic (RStar greedy r) q else []) (runs ic r p))
      in if greedy then more @ [p] else p # more)"
| "runs ic (RGroup n r) p = map (capture n p) (runs ic r p)"
| "runs ic RBoundary p = here_if (word_at (fst p) \<noteq> word_at (rest_of p)) p"
| "runs ic RLineStart p = here_if (starts_with_newline (fst p)) p"
| "runs ic RLineEnd p = here_if (starts_with_newline (rest_of p)) p"
| "runs ic RStart p = here_if (fst p = []) p"
| "runs ic REnd p = here_if (rest_of p = [] \<or> rest_of p = [CHR 0x0A]) p"
| "runs ic (RLook pos r) p = here_if ((runs ic r p \<noteq> []) = pos) p"
  by pat_completeness auto
termination
  by (relation "measures [\<lambda>(ic, r, p). size r, \<lambda>(ic, r, p). length (rest_of p)]") auto

declare runs.simps(6) [simp del]

text \<open>\<open>re.search\<close>: the leftmost start with a match; the position of the match and the position it ends at.\<close>

fun search_from :: "bool \<Rightarrow> regex \<Rightarrow> string \<Rightarrow> string \<Rightarrow> (string \<times> position) option" where
  "search_from ic r bef [] = (case runs ic r (bef, [], []) of q # _ \<Rightarrow> Some (bef, q) | [] \<Rightarrow> None)"
| "search_from ic r bef (c # cs) =
     (case runs ic r (bef, c # cs, []) of q # _ \<Rightarrow> Some (bef, q) | [] \<Rightarrow> search_from ic r (c # bef) cs)"

definition re_search :: "bool \<Rightarrow> regex \<Rightarrow> string \<Rightarrow> bool" where
  "re_search ic r s = (search_from ic r [] s \<noteq> None)"

definition re_match :: "bool \<Rightarrow> regex \<Rightarrow> string \<Rightarrow> position option" where
  "re_match ic r s = (case runs ic r ([], s, []) of q # _ \<Rightarrow> Some q | [] \<Rightarrow> None)"

text \<open>\<open>group(n)\<close> of a match, and its text.\<close>

definition group_of :: "nat \<Rightarrow> position \<Rightarrow> string option" where
  "group_of n q = map_of (snd (snd q)) n"

definition matched_text :: "string \<Rightarrow> position \<Rightarrow> string" where
  "matched_text bef q = rev (take (length (fst q) - length bef) (fst q))"

text \<open>\<open>re.finditer\<close>: matches do not overlap, and after an empty one the search moves on by a character.
  \<open>find_all\<close> has the matched texts.\<close>

function (sequential) find_iter :: "bool \<Rightarrow> regex \<Rightarrow> string \<Rightarrow> string \<Rightarrow> (string \<times> position) list" where
  "find_iter ic r bef rest =
     (case search_from ic r bef rest of
        None \<Rightarrow> []
      | Some (b, q) \<Rightarrow>
          (b, q) #
          (if length (rest_of q) < length rest then find_iter ic r (fst q) (rest_of q)
           else (case rest of [] \<Rightarrow> [] | c # cs \<Rightarrow> find_iter ic r (c # bef) cs)))"
  by pat_completeness auto
termination
  by (relation "measure (\<lambda>(ic, r, bef, rest). length rest)") auto

definition find_all :: "bool \<Rightarrow> regex \<Rightarrow> string \<Rightarrow> string \<Rightarrow> string list" where
  "find_all ic r bef rest = map (\<lambda>(b, q). matched_text b q) (find_iter ic r bef rest)"

declare find_iter.simps [simp del]

section \<open>What a match consumes\<close>

text \<open>Every position a run reaches lies further in the same text.\<close>

lemma strip_prefix_Some:
  "strip_prefix ic s bef rest = Some (bef', rest') \<Longrightarrow>
    \<exists>w. rest = w @ rest' \<and> bef' = rev w @ bef \<and> map (fold_char ic) w = map (fold_char ic) s"
proof (induction ic s bef rest rule: strip_prefix.induct)
  case (3 ic c cs bef d ds)
  then obtain w where "ds = w @ rest'" "bef' = rev w @ (d # bef)" "map (fold_char ic) w = map (fold_char ic) cs"
    by (auto split: if_splits)
  with 3 show ?case by (intro exI [of _ "d # w"]) (auto split: if_splits)
qed simp_all

definition consumes :: "position \<Rightarrow> position \<Rightarrow> string \<Rightarrow> bool" where
  "consumes p q w \<longleftrightarrow> rest_of p = w @ rest_of q \<and> fst q = rev w @ fst p"

lemma consumes_refl [simp]: "consumes p p []"
  by (simp add: consumes_def)

lemma consumes_trans: "consumes p q v \<Longrightarrow> consumes q r w \<Longrightarrow> consumes p r (v @ w)"
  by (simp add: consumes_def)

lemma one_char_consumes: "q \<in> set (one_char P p) \<Longrightarrow> \<exists>c. consumes p q [c] \<and> P c"
  by (auto simp: one_char_def consumes_def rest_of_def split: prod.splits list.splits if_splits)

lemma here_if_iff [simp]: "q \<in> set (here_if b p) \<longleftrightarrow> b \<and> q = p"
  by (auto simp: here_if_def)

lemma capture_consumes [simp]: "consumes p (capture n p' q) w \<longleftrightarrow> consumes p q w"
  by (simp add: consumes_def capture_def rest_of_def)

lemma runs_str: "q \<in> set (runs ic (RStr s) p) \<Longrightarrow> \<exists>w. consumes p q w \<and> map (fold_char ic) w = map (fold_char ic) s"
proof -
  assume q: "q \<in> set (runs ic (RStr s) p)"
  obtain bef rest caps where p: "p = (bef, rest, caps)" by (cases p)
  show ?thesis
  proof (cases "strip_prefix ic s bef rest")
    case None
    then show ?thesis using q by (simp add: p)
  next
    case (Some r)
    then show ?thesis using q strip_prefix_Some [of ic s bef rest "fst r" "snd r"]
      by (auto simp: p consumes_def rest_of_def split: prod.splits)
  qed
qed

lemma runs_consume: "q \<in> set (runs ic r p) \<Longrightarrow> \<exists>w. consumes p q w"
proof (induction ic r p arbitrary: q rule: runs.induct)
  case (1 ic s p)
  then show ?case using runs_str by blast
next
  case (4 ic a b p)
  then obtain m where "m \<in> set (runs ic a p)" "q \<in> set (runs ic b m)" by auto
  then show ?case using 4(1,2) consumes_trans by meson
next
  case (6 ic greedy r p)
  have "q = p \<or> (\<exists>m \<in> set (runs ic r p). length (rest_of m) < length (rest_of p) \<and> q \<in> set (runs ic (RStar greedy r) m))"
    using 6(3) unfolding runs.simps(6) [of ic greedy r p] Let_def by (auto split: if_splits)
  then show ?case
  proof
    assume "\<exists>m \<in> set (runs ic r p). length (rest_of m) < length (rest_of p) \<and> q \<in> set (runs ic (RStar greedy r) m)"
    then obtain m where m: "m \<in> set (runs ic r p)" "length (rest_of m) < length (rest_of p)" "q \<in> set (runs ic (RStar greedy r) m)" by blast
    obtain v where "consumes p m v" using 6(1) [OF m(1)] by blast
    moreover obtain w where "consumes m q w" using 6(2) [OF m] by blast
    ultimately show ?thesis using consumes_trans by blast
  qed (use consumes_refl in blast)
next
  case (7 ic n r p)
  then obtain m where "m \<in> set (runs ic r p)" "q = capture n p m" by auto
  then show ?case using 7(1) capture_consumes by blast
next
  case (2 ic p)
  then show ?case using one_char_consumes by (simp only: runs.simps) blast
next
  case (3 ic neg ks p)
  then show ?case using one_char_consumes by (simp only: runs.simps) blast
next
  case (5 ic a b p)
  then show ?case by (simp only: runs.simps set_append) blast
qed (simp only: runs.simps here_if_iff; use consumes_refl in blast)+

section \<open>Characters a pattern cannot do without\<close>

text \<open>\<open>needs P r\<close>: every text the pattern matches has a character with the property. Case is heeded.\<close>

fun needs :: "(char \<Rightarrow> bool) \<Rightarrow> regex \<Rightarrow> bool" where
  "needs P (RStr s) = (\<exists>c \<in> set s. P c)"
| "needs P (RSeq a b) = (needs P a \<or> needs P b)"
| "needs P (RAlt a b) = (needs P a \<and> needs P b)"
| "needs P (RGroup n r) = needs P r"
| "needs P _ = False"

lemma runs_need: "q \<in> set (runs False r p) \<Longrightarrow> needs P r \<Longrightarrow> \<exists>w. consumes p q w \<and> (\<exists>c \<in> set w. P c)"
proof (induction r arbitrary: p q)
  case (RStr s)
  obtain w where "consumes p q w" "map (fold_char False) w = map (fold_char False) s" using runs_str [OF RStr(1)] by blast
  moreover from this(2) have "w = s" by (simp add: fold_char_def [abs_def] map_idI)
  ultimately show ?case using RStr(2) by auto
next
  case (RSeq a b)
  then obtain m where m: "m \<in> set (runs False a p)" "q \<in> set (runs False b m)" by auto
  obtain v w where v: "consumes p m v" and w: "consumes m q w" using runs_consume m by blast
  have vw: "consumes p q (v @ w)" by (rule consumes_trans [OF v w])
  show ?case
  proof (cases "needs P a")
    case True
    then obtain v' where "consumes p m v'" "\<exists>c \<in> set v'. P c" using RSeq.IH(1) m(1) by blast
    moreover from this have "v' = v" using v by (auto simp: consumes_def)
    ultimately show ?thesis using vw by (metis Un_iff set_append)
  next
    case False
    then obtain w' where "consumes m q w'" "\<exists>c \<in> set w'. P c" using RSeq.IH(2) [OF m(2)] RSeq.prems(2) by auto
    moreover from this have "w' = w" using w by (auto simp: consumes_def)
    ultimately show ?thesis using vw by (metis Un_iff set_append)
  qed
next
  case (RGroup n r)
  then obtain m where "m \<in> set (runs False r p)" "q = capture n p m" by auto
  then show ?case using RGroup.IH [of m p] RGroup.prems(2) by (simp del: split_paired_Ex)
qed auto

text \<open>So a pattern that needs a character the text does not have is not found in it.\<close>

lemma search_from_needs: "needs P r \<Longrightarrow> \<forall>c \<in> set s. \<not> P c \<Longrightarrow> search_from False r bef s = None"
proof (induction s arbitrary: bef)
  case Nil
  have "runs False r (bef, [], []) = []"
  proof (rule ccontr)
    assume "runs False r (bef, [], []) \<noteq> []"
    then obtain q where "q \<in> set (runs False r (bef, [], []))" by (meson list.set_sel(1))
    from runs_need [OF this Nil(1)] show False by (auto simp: consumes_def rest_of_def)
  qed
  then show ?case by simp
next
  case (Cons c cs)
  have "runs False r (bef, c # cs, []) = []"
  proof (rule ccontr)
    assume "runs False r (bef, c # cs, []) \<noteq> []"
    then obtain q where "q \<in> set (runs False r (bef, c # cs, []))" by (meson list.set_sel(1))
    from runs_need [OF this Cons.prems(1)] obtain w where "c # cs = w @ rest_of q" "\<exists>c \<in> set w. P c"
      by (auto simp: consumes_def rest_of_def)
    then show False using Cons.prems(2) by (metis UnCI set_append)
  qed
  then show ?case using Cons by simp
qed

lemma re_search_needs: "needs P r \<Longrightarrow> \<forall>c \<in> set s. \<not> P c \<Longrightarrow> \<not> re_search False r s"
  by (simp add: re_search_def search_from_needs)

definition upper_case :: "char \<Rightarrow> bool" where
  "upper_case c \<longleftrightarrow> lower_char c \<noteq> c"

lemma lower_char_idem [simp]: "lower_char (lower_char c) = lower_char c"
proof (cases "65 \<le> (of_char c :: nat) \<and> (of_char c :: nat) \<le> 90")
  case True
  then have "(of_char (lower_char c) :: nat) = (of_char c + 32) mod 256" by (simp add: lower_char_def Let_def)
  then have "(of_char (lower_char c) :: nat) > 90" using True by simp
  then show ?thesis by (simp add: lower_char_def [of "lower_char c"])
qed (auto simp: lower_char_def Let_def)

text \<open>A pattern with a capital letter is never found in a text made small, unless case is ignored.\<close>

lemma capital_not_found: "needs upper_case r \<Longrightarrow> \<not> re_search False r (py_lower s)"
  by (rule re_search_needs) (auto simp: py_lower_def upper_case_def)

text \<open>For evaluation: a text that lacks a character the pattern needs is not searched.\<close>

lemma re_search_code [code]:
  "re_search ic r s = (if \<not> ic \<and> needs (\<lambda>c. c \<notin> set s) r then False else search_from ic r [] s \<noteq> None)"
  using re_search_needs [of "\<lambda>c. c \<notin> set s" r s] by (auto simp: re_search_def)

end
