(* ===== verification/Task_Types.thy ===== *)
theory Task_Types
  imports Py_Regex Complex_Main
begin

text \<open>
  The registry of task types (\<^verbatim>\<open>agents/task_type_registry.py\<close>) with its built-in types. A pattern is the expression its text
  denotes; the weights of a type are looked up by pattern.
\<close>

section \<open>The registry\<close>

record task_type_entry =
  tt_name :: string
  tt_description :: string
  tt_adapter :: string
  tt_label :: string
  tt_patterns :: "regex list"
  tt_weights :: "(regex, real) py_dict"
  tt_threshold :: real
  tt_source :: string

type_synonym task_registry = "(string, task_type_entry) py_dict"

definition register_type :: "task_type_entry \<Rightarrow> task_registry \<Rightarrow> task_registry" where
  "register_type e r =
     (case dict_get r (tt_name e) of
        Some x \<Rightarrow> if tt_source e = ''skill'' \<and> tt_source x = ''builtin'' then r else dict_set (tt_name e) e r
      | None \<Rightarrow> dict_set (tt_name e) e r)"

definition get_type :: "string \<Rightarrow> task_registry \<Rightarrow> task_type_entry option" where
  "get_type n r = dict_get r n"

definition map_values :: "('v \<Rightarrow> 'w) \<Rightarrow> ('k, 'v) py_dict \<Rightarrow> ('k, 'w) py_dict" where
  "map_values f d = map (\<lambda>(k, v). (k, f v)) d"

definition adapter_mapping :: "task_registry \<Rightarrow> (string, string) py_dict" where
  "adapter_mapping r = map_values tt_adapter r"

definition task_descriptions :: "task_registry \<Rightarrow> (string, string) py_dict" where
  "task_descriptions r = map_values tt_description r"

definition task_labels :: "task_registry \<Rightarrow> (string, string) py_dict" where
  "task_labels r = map_values tt_label r"

definition task_patterns :: "task_registry \<Rightarrow> (string, regex list) py_dict" where
  "task_patterns r = map_values tt_patterns r"

definition pattern_weights :: "task_registry \<Rightarrow> (string, (regex, real) py_dict) py_dict" where
  "pattern_weights r = map_values tt_weights (filter (\<lambda>(n, e). tt_weights e \<noteq> []) r)"

definition hybrid_thresholds :: "task_registry \<Rightarrow> (string, real) py_dict" where
  "hybrid_thresholds r = map_values tt_threshold r"

section \<open>The built-in types\<close>

text \<open>\<open>\bw\<close> and \<open>\bv.*w\<close>.\<close>

definition stem :: "string \<Rightarrow> regex" where
  "stem w = RSeq RBoundary (RStr w)"

definition near :: "string \<Rightarrow> string \<Rightarrow> regex" where
  "near v w = rseq [RBoundary, RStr v, rdots, RStr w]"

definition builtin_entry ::
    "string \<Rightarrow> string \<Rightarrow> string \<Rightarrow> string \<Rightarrow> regex list \<Rightarrow> (regex, real) py_dict \<Rightarrow> real \<Rightarrow> task_type_entry" where
  "builtin_entry name description adapter label patterns weights threshold =
     \<lparr>tt_name = name, tt_description = description, tt_adapter = adapter, tt_label = label, tt_patterns = patterns,
      tt_weights = weights, tt_threshold = threshold, tt_source = ''builtin''\<rparr>"

definition test_generation_entry :: task_type_entry where
  "test_generation_entry = builtin_entry ''test_generation''
     ''Writing unit tests, test cases, test suites (pytest, jest, mocha, etc.)''
     ''test_generator'' ''test generation''
     [stem ''unit test'', stem ''test case'', near ''test'' ''function'', near ''test'' ''code'', stem ''pytest'',
      stem ''jest'', stem ''test coverage'', stem ''test suite'', stem ''mocha'', stem ''vitest'', stem ''junit'',
      stem ''cypress'', stem ''playwright'', stem ''mock'', stem ''stub'', stem ''fixture'',
      stem ''integration test'', stem ''e2e test'', stem ''assert'']
     [(stem ''pytest'', 3), (stem ''jest'', 3), (stem ''mocha'', 3), (stem ''vitest'', 3), (stem ''junit'', 3),
      (stem ''cypress'', 3), (stem ''playwright'', 3), (stem ''test coverage'', 5 / 2), (stem ''test suite'', 5 / 2),
      (stem ''integration test'', 5 / 2), (stem ''e2e test'', 5 / 2), (stem ''unit test'', 2),
      (stem ''test case'', 2), (stem ''mock'', 3 / 2), (stem ''stub'', 3 / 2), (stem ''fixture'', 2),
      (stem ''assert'', 1), (near ''test'' ''function'', 1), (near ''test'' ''code'', 1)]
     (1 / 2)"

definition security_audit_entry :: task_type_entry where
  "security_audit_entry = builtin_entry ''security_audit''
     ''Security analysis, vulnerability scanning, penetration testing, security reviews''
     ''security_auditor'' ''security audit''
     [stem ''security'', stem ''vulnerabilit'', stem ''XSS'', stem ''SQL injection'', stem ''CSRF'',
      stem ''sanitize'', stem ''validate input'', stem ''security audit'', stem ''penetration test'', stem ''OAuth'',
      stem ''JWT'', stem ''authenticat'', stem ''authoriz'', stem ''encrypt'', stem ''OWASP'', stem ''CVE'',
      near ''secret'' ''manag'', near ''access'' ''control'']
     [(stem ''XSS'', 3), (stem ''SQL injection'', 3), (stem ''CSRF'', 3), (stem ''OWASP'', 3), (stem ''CVE'', 3),
      (stem ''penetration test'', 5 / 2), (stem ''security audit'', 5 / 2), (stem ''OAuth'', 5 / 2),
      (stem ''JWT'', 5 / 2), (stem ''vulnerabilit'', 2), (stem ''sanitize'', 2), (stem ''validate input'', 2),
      (stem ''encrypt'', 2), (near ''access'' ''control'', 2), (near ''secret'' ''manag'', 2),
      (stem ''authenticat'', 3 / 2), (stem ''authoriz'', 3 / 2), (stem ''security'', 1)]
     (11 / 20)"

definition documentation_entry :: task_type_entry where
  "documentation_entry = builtin_entry ''documentation''
     ''Writing docs, docstrings, README files, API documentation, code comments''
     ''doc_generator'' ''documentation''
     [
      rseq [RBoundary, RStr ''document'', RLook False (rseq [rdots, ralt [RStr ''database'', RStr ''store'', RStr ''model'']])],
      stem ''docstring'', stem ''API doc'', stem ''README'', near ''comment'' ''code'', near ''explain'' ''code'',
      stem ''documentation'', near ''write'' ''docs'', stem ''changelog'', near ''add'' ''type hint'',
      near ''annotat'' ''exist'', stem ''JSDoc'', stem ''Sphinx'', stem ''MkDocs'']
     [(stem ''JSDoc'', 3), (stem ''Sphinx'', 3), (stem ''MkDocs'', 3), (stem ''docstring'', 5 / 2),
      (stem ''API doc'', 5 / 2), (stem ''README'', 5 / 2), (stem ''changelog'', 5 / 2), (stem ''documentation'', 2),
      (near ''write'' ''docs'', 2), (near ''add'' ''type hint'', 2),
      (rseq [RBoundary, RStr ''document'', RLook False (rseq [rdots, ralt [RStr ''database'', RStr ''store'', RStr ''model'']])], 3 / 2),
      (near ''comment'' ''code'', 3 / 2), (near ''explain'' ''code'', 3 / 2), (near ''annotat'' ''exist'', 3 / 2)]
     (3 / 5)"

definition performance_optimization_entry :: task_type_entry where
  "performance_optimization_entry = builtin_entry ''performance_optimization''
     ''Performance tuning, profiling, bottleneck analysis, optimization''
     ''performance_optimizer'' ''performance optimization''
     [stem ''optimiz'', stem ''performance'', near ''speed'' ''up'', stem ''faster'', stem ''bottleneck'',
      stem ''profile'', stem ''efficiency'', near ''complexity'' ''O('', stem ''benchmark'',
      rseq [RBoundary, RStr ''cach'', RGroup 1 (ralt [RStr ''e'', RStr ''ing''])], stem ''latency'',
      stem ''throughput'', near ''memory'' ''leak'', near ''memory'' ''usage'', near ''CPU'' ''usage'',
      near ''lazy'' ''load'']
     [(stem ''bottleneck'', 3), (near ''memory'' ''leak'', 3), (stem ''profile'', 5 / 2),
      (near ''complexity'' ''O('', 5 / 2), (stem ''benchmark'', 5 / 2), (stem ''performance'', 2),
      (stem ''optimiz'', 2), (stem ''latency'', 2), (stem ''throughput'', 2), (near ''memory'' ''usage'', 2),
      (near ''CPU'' ''usage'', 2),
      (rseq [RBoundary, RStr ''cach'', RGroup 1 (ralt [RStr ''e'', RStr ''ing''])], 3 / 2),
      (near ''lazy'' ''load'', 3 / 2), (near ''speed'' ''up'', 3 / 2), (stem ''efficiency'', 3 / 2),
      (stem ''faster'', 1)]
     (13 / 20)"

definition debugging_entry :: task_type_entry where
  "debugging_entry = builtin_entry ''debugging''
     ''Bug fixing, troubleshooting, error investigation, debugging''
     ''debugging_assistant'' ''debugging''
     [stem ''debug'', near ''fix'' ''bug'', rseq [RBoundary, RStr ''error'', RLook False (RStr '' handl'')],
      near ''unhandled'' ''exception'', stem ''troubleshoot'', stem ''root cause'',
      rseq [RBoundary, RStr ''why'', rdots, RStr ''not'', rdots, RStr ''work''], stem ''failing test'',
      near ''stack'' ''trace'', stem ''segfault'', stem ''crash'', stem ''breakpoint'', near ''log'' ''error'',
      near ''500'' ''error'']
     [(stem ''segfault'', 3), (near ''stack'' ''trace'', 5 / 2), (stem ''debug'', 5 / 2),
      (near ''fix'' ''bug'', 5 / 2), (stem ''root cause'', 5 / 2), (stem ''breakpoint'', 5 / 2),
      (stem ''troubleshoot'', 2), (stem ''failing test'', 2),
      (rseq [RBoundary, RStr ''why'', rdots, RStr ''not'', rdots, RStr ''work''], 2), (near ''log'' ''error'', 2),
      (near ''500'' ''error'', 2), (stem ''crash'', 3 / 2),
      (rseq [RBoundary, RStr ''error'', RLook False (RStr '' handl'')], 1), (near ''unhandled'' ''exception'', 1)]
     (3 / 5)"

definition refactoring_entry :: task_type_entry where
  "refactoring_entry = builtin_entry ''refactoring''
     ''Code restructuring, cleaning, improving architecture, removing code smells''
     ''vibe'' ''refactoring''
     [stem ''refactor'', near ''clean'' ''code'', stem ''restructure'', near ''improve'' ''structure'',
      stem ''code smell'', stem ''DRY'', stem ''SOLID'', near ''extract'' ''method'', near ''extract'' ''class'',
      stem ''decouple'', stem ''simplif'', near ''dead'' ''code'', near ''technical'' ''debt'']
     [(stem ''code smell'', 3), (stem ''DRY'', 3), (stem ''SOLID'', 3), (near ''technical'' ''debt'', 5 / 2),
      (near ''extract'' ''method'', 5 / 2), (near ''extract'' ''class'', 5 / 2), (stem ''refactor'', 5 / 2),
      (near ''clean'' ''code'', 2), (stem ''restructure'', 2), (stem ''decouple'', 2), (near ''dead'' ''code'', 2),
      (near ''improve'' ''structure'', 3 / 2), (stem ''simplif'', 3 / 2)]
     (13 / 20)"

definition code_generation_entry :: task_type_entry where
  "code_generation_entry = builtin_entry ''code_generation''
     ''Writing new code, implementing features, scaffolding, creating functions''
     ''vibe'' ''code generation''
     [near ''create'' ''function'',
      rseq [RBoundary, RStr ''write'', rdots, ropt (ralt [RStr ''a '', RStr ''the '']), ropt (rseq [rplus (RSet False [CWord]), RStr '' '']), RStr ''function''],
      near ''write'' ''code'', stem ''implement'', near ''build'' ''feature'', near ''generate'' ''code'',
      stem ''scaffold'', stem ''boilerplate'', stem ''prototype'', near ''class'' ''for'', near ''module'' ''for'',
      rseq [RBoundary, RStr ''function'', rdots, RStr ''that'', RBoundary]]
     [(stem ''scaffold'', 5 / 2), (stem ''boilerplate'', 5 / 2), (stem ''implement'', 5 / 2),
      (near ''generate'' ''code'', 5 / 2), (stem ''prototype'', 2), (near ''create'' ''function'', 2),
      (near ''write'' ''code'', 2),
      (rseq [RBoundary, RStr ''write'', rdots, ropt (ralt [RStr ''a '', RStr ''the '']), ropt (rseq [rplus (RSet False [CWord]), RStr '' '']), RStr ''function''], 5 / 2),
      (rseq [RBoundary, RStr ''function'', rdots, RStr ''that'', RBoundary], 2), (near ''class'' ''for'', 3 / 2),
      (near ''module'' ''for'', 3 / 2), (near ''build'' ''feature'', 3 / 2)]
     (3 / 5)"

definition data_processing_entry :: task_type_entry where
  "data_processing_entry = builtin_entry ''data_processing''
     ''ETL pipelines, data transformation, pandas, data cleaning, CSV/JSON parsing''
     ''data_specialist'' ''data processing''
     [stem ''ETL'', near ''data'' ''pipeline'', near ''data'' ''transform'', stem ''pandas'',
      near ''data'' ''clean'', near ''data'' ''validat'', near ''parse'' ''CSV'', near ''parse'' ''JSON'',
      near ''data'' ''aggregat'', near ''data'' ''wrangl'', stem ''numpy'', stem ''polars'', stem ''dataframe'',
      stem ''serialization'', near ''data'' ''migrat'']
     [(stem ''ETL'', 3), (stem ''pandas'', 3), (stem ''numpy'', 3), (stem ''polars'', 3),
      (near ''parse'' ''CSV'', 5 / 2), (near ''parse'' ''JSON'', 5 / 2), (near ''data'' ''pipeline'', 5 / 2),
      (stem ''dataframe'', 5 / 2), (near ''data'' ''clean'', 2), (near ''data'' ''transform'', 2),
      (near ''data'' ''validat'', 2), (stem ''serialization'', 2), (near ''data'' ''migrat'', 2),
      (near ''data'' ''aggregat'', 3 / 2), (near ''data'' ''wrangl'', 3 / 2)]
     (1 / 2)"

definition api_development_entry :: task_type_entry where
  "api_development_entry = builtin_entry ''api_development''
     ''REST/GraphQL APIs, endpoint creation, API design, FastAPI, Flask''
     ''api_generator'' ''API development''
     [stem ''API'', stem ''REST'', stem ''GraphQL'', stem ''endpoint'',
      rseq [RBoundary, RStr ''GET'', rdots, RStr ''POST'', rdots, RStr ''PUT''], stem ''OpenAPI'', stem ''Swagger'',
      near ''API'' ''route'', stem ''FastAPI'', near ''Flask'' ''route'', near ''Django'' ''view'',
      near ''Express'' ''route'', stem ''middleware'', near ''HTTP'' ''status'', stem ''webhook'',
      near ''rate'' ''limit'', stem ''CORS'']
     [(stem ''REST'', 3), (stem ''GraphQL'', 3), (stem ''FastAPI'', 3), (near ''Django'' ''view'', 3),
      (near ''Express'' ''route'', 3), (stem ''OpenAPI'', 5 / 2), (stem ''Swagger'', 5 / 2),
      (near ''API'' ''route'', 5 / 2), (near ''Flask'' ''route'', 5 / 2), (stem ''webhook'', 5 / 2),
      (stem ''CORS'', 5 / 2), (stem ''endpoint'', 2),
      (rseq [RBoundary, RStr ''GET'', rdots, RStr ''POST'', rdots, RStr ''PUT''], 2), (stem ''middleware'', 3 / 2),
      (near ''HTTP'' ''status'', 3 / 2), (near ''rate'' ''limit'', 2), (stem ''API'', 1)]
     (11 / 20)"

definition database_operations_entry :: task_type_entry where
  "database_operations_entry = builtin_entry ''database_operations''
     ''SQL, schema design, query optimization, migrations, database tuning''
     ''database_specialist'' ''database operations''
     [stem ''SQL'', stem ''database'', near ''query'' ''optimiz'', stem ''index'', stem ''schema'',
      stem ''migration'', stem ''PostgreSQL'', stem ''MySQL'', stem ''MongoDB'', stem ''NoSQL'', stem ''ORM'',
      stem ''SQLAlchemy'', near ''database'' ''design'', stem ''Redis'', stem ''SQLite'', stem ''Alembic'',
      stem ''Prisma'', near ''foreign'' ''key'', near ''join'' ''query'', near ''stored'' ''procedure'']
     [(stem ''PostgreSQL'', 3), (stem ''MySQL'', 3), (stem ''MongoDB'', 3), (stem ''SQLAlchemy'', 3),
      (stem ''Redis'', 3), (stem ''SQLite'', 3), (stem ''Alembic'', 3), (stem ''Prisma'', 3), (stem ''ORM'', 5 / 2),
      (stem ''migration'', 5 / 2), (near ''query'' ''optimiz'', 5 / 2), (near ''foreign'' ''key'', 5 / 2),
      (near ''stored'' ''procedure'', 5 / 2), (near ''join'' ''query'', 5 / 2), (stem ''schema'', 2),
      (stem ''index'', 2), (near ''database'' ''design'', 2), (stem ''NoSQL'', 2), (stem ''SQL'', 3 / 2),
      (stem ''database'', 1)]
     (11 / 20)"

definition code_review_entry :: task_type_entry where
  "code_review_entry = builtin_entry ''code_review''
     ''Code review, explanation, reverse engineering, documentation generation, static analysis''
     ''code_reviewer'' ''code review''
     [near ''code'' ''review'', near ''pull'' ''request'', near ''PR'' ''review'', near ''review'' ''code'',
      near ''code'' ''quality'', near ''static'' ''analysis'', stem ''lint'', near ''code'' ''style'',
      near ''best'' ''practice'', stem ''pylint'', stem ''ESLint'', stem ''ruff'', stem ''flake8'', stem ''mypy'',
      near ''type'' ''check'', near ''code'' ''audit'', near ''explain'' ''code'', near ''explain'' ''function'',
      near ''explain'' ''class'', near ''explain'' ''method'', near ''what does'' ''do'', near ''how does'' ''work'',
      near ''understand'' ''code'', near ''walk'' ''through'', near ''break'' ''down'',
      near ''reverse'' ''engineer'', near ''analyze'' ''code'', near ''figure'' ''out'', near ''decode'' ''logic'',
      near ''interpret'' ''code'', near ''add'' ''docstring'', near ''generate'' ''docstring'',
      near ''document'' ''code'', near ''document'' ''function'', near ''document'' ''class'',
      near ''add'' ''comment'', near ''generate'' ''doc'', near ''write'' ''docstring'',
      near ''comprehensive'' ''docstring'']
     [(near ''pull'' ''request'', 3), (near ''PR'' ''review'', 3), (stem ''pylint'', 3), (stem ''ESLint'', 3),
      (stem ''ruff'', 3), (stem ''flake8'', 3), (stem ''mypy'', 3), (near ''code'' ''review'', 5 / 2),
      (near ''static'' ''analysis'', 5 / 2), (near ''code'' ''audit'', 5 / 2), (near ''review'' ''code'', 2),
      (near ''code'' ''quality'', 2), (stem ''lint'', 2), (near ''type'' ''check'', 2),
      (near ''best'' ''practice'', 3 / 2), (near ''code'' ''style'', 3 / 2), (near ''explain'' ''function'', 3),
      (near ''explain'' ''class'', 3), (near ''what does'' ''do'', 5 / 2), (near ''how does'' ''work'', 5 / 2),
      (near ''explain'' ''code'', 5 / 2), (near ''explain'' ''method'', 5 / 2), (near ''understand'' ''code'', 2),
      (near ''walk'' ''through'', 2), (near ''break'' ''down'', 3 / 2), (near ''reverse'' ''engineer'', 3),
      (near ''analyze'' ''code'', 5 / 2), (near ''decode'' ''logic'', 5 / 2), (near ''interpret'' ''code'', 2),
      (near ''figure'' ''out'', 3 / 2), (near ''generate'' ''docstring'', 3), (near ''write'' ''docstring'', 3),
      (near ''comprehensive'' ''docstring'', 3), (near ''add'' ''docstring'', 5 / 2),
      (near ''document'' ''function'', 5 / 2), (near ''document'' ''class'', 5 / 2), (near ''document'' ''code'', 2),
      (near ''generate'' ''doc'', 2), (near ''add'' ''comment'', 3 / 2)]
     (1 / 2)"

definition self_upgrade_entry :: task_type_entry where
  "self_upgrade_entry = builtin_entry ''self_upgrade''
     (''Self-improvement of the agent'' @ [CHR 0x27] @ ''s own source code - bug fixes, new features, optimisations'')
     ''self_upgrade'' ''self upgrade''
     [rseq [RBoundary, RStr ''self'', RAny, RStr ''upgrade''],
      rseq [RBoundary, RStr ''self'', RAny, RStr ''improv''], rseq [RBoundary, RStr ''self'', RAny, RStr ''modif''],
      near ''upgrade'' ''agent'', near ''improve'' ''agent'', near ''modify'' ''agent'', near ''agent'' ''upgrade'',
      near ''agent'' ''improv'', near ''agent'' ''refactor'', rseq [RBoundary, RStr ''self'', RAny, RStr ''evolv''],
      rseq [RBoundary, RStr ''self'', RAny, RStr ''patch''], rseq [RBoundary, RStr ''auto'', RAny, RStr ''upgrade''],
      stem ''bootstrap'', rseq [RBoundary, RStr ''self'', RAny, RStr ''heal'']]
     [(rseq [RBoundary, RStr ''self'', RAny, RStr ''upgrade''], 3),
      (rseq [RBoundary, RStr ''self'', RAny, RStr ''improv''], 3),
      (rseq [RBoundary, RStr ''self'', RAny, RStr ''modif''], 3),
      (rseq [RBoundary, RStr ''self'', RAny, RStr ''evolv''], 3), (near ''upgrade'' ''agent'', 5 / 2),
      (near ''improve'' ''agent'', 5 / 2), (near ''agent'' ''upgrade'', 5 / 2), (near ''agent'' ''refactor'', 5 / 2),
      (rseq [RBoundary, RStr ''self'', RAny, RStr ''patch''], 5 / 2),
      (rseq [RBoundary, RStr ''auto'', RAny, RStr ''upgrade''], 5 / 2), (near ''modify'' ''agent'', 2),
      (near ''agent'' ''improv'', 2), (stem ''bootstrap'', 3 / 2),
      (rseq [RBoundary, RStr ''self'', RAny, RStr ''heal''], 3 / 2)]
     (7 / 10)"

definition general_entry :: task_type_entry where
  "general_entry = builtin_entry ''general''
     (''General tasks that don'' @ [CHR 0x27] @ ''t fit specific categories'')
     ''vibe'' ''general development''
     []
     []
     (7 / 10)"

definition BUILTIN_TYPES :: "task_type_entry list" where
  "BUILTIN_TYPES =
     [test_generation_entry, security_audit_entry, documentation_entry, performance_optimization_entry,
      debugging_entry, refactoring_entry, code_generation_entry, data_processing_entry, api_development_entry,
      database_operations_entry, code_review_entry, self_upgrade_entry, general_entry]"

definition create_default_registry :: task_registry where
  "create_default_registry = foldl (\<lambda>r e. register_type e r) [] BUILTIN_TYPES"

section \<open>Types of skills\<close>

definition skill_entry :: "string \<Rightarrow> string \<Rightarrow> task_type_entry" where
  "skill_entry name description =
     \<lparr>tt_name = name, tt_description = description, tt_adapter = ''vibe'', tt_label = replace_char (CHR ''_'') (CHR '' '') name,
      tt_patterns = [], tt_weights = [], tt_threshold = 6 / 10, tt_source = ''skill''\<rparr>"

text \<open>\<open>get_all_custom_task_types\<close> is given as the dictionary it returns.\<close>

fun populate_from_skill_registry :: "(string, string) py_dict \<Rightarrow> task_registry \<Rightarrow> int \<times> task_registry" where
  "populate_from_skill_registry [] r = (0, r)"
| "populate_from_skill_registry ((name, description) # ts) r =
     (if dict_has r name then populate_from_skill_registry ts r
      else case populate_from_skill_registry ts (register_type (skill_entry name description) r) of (n, r') \<Rightarrow> (n + 1, r'))"

section \<open>Lemmas\<close>

lemma map_values_get [simp]: "dict_get (map_values f d) k = map_option f (dict_get d k)"
  by (induction d) (auto simp: map_values_def dict_get_def)

text \<open>A skill never replaces a built-in type.\<close>

lemma register_keeps_builtin:
  assumes "dict_get r n = Some e" "tt_source e = ''builtin''" "tt_source x = ''skill''"
  shows "dict_get (register_type x r) n = Some e"
  using assms by (auto simp: register_type_def split: option.split)

lemma populate_keeps:
  "dict_get r n = Some e \<Longrightarrow> dict_get (snd (populate_from_skill_registry ts r)) n = Some e"
proof (induction ts arbitrary: r)
  case (Cons t ts)
  obtain name description where [simp]: "t = (name, description)" by (cases t)
  show ?case
  proof (cases "dict_has r name")
    case True
    then show ?thesis using Cons by simp
  next
    case False
    then have "name \<noteq> n" using Cons.prems by (auto simp: dict_has_def)
    then have "dict_get (register_type (skill_entry name description) r) n = Some e"
      using Cons.prems by (auto simp: register_type_def skill_entry_def split: option.split)
    with False Cons.IH show ?thesis by (simp add: case_prod_unfold)
  qed
qed simp

lemma default_registry_eq:
  "create_default_registry = map (\<lambda>e. (tt_name e, e)) BUILTIN_TYPES"
  by (simp add: create_default_registry_def BUILTIN_TYPES_def register_type_def builtin_entry_def dict_eval
      test_generation_entry_def security_audit_entry_def documentation_entry_def performance_optimization_entry_def
      debugging_entry_def refactoring_entry_def code_generation_entry_def data_processing_entry_def api_development_entry_def
      database_operations_entry_def code_review_entry_def self_upgrade_entry_def general_entry_def)

end
