(* ===== verification/Llm_Classifier.thy ===== *)
theory Llm_Classifier
  imports Py_Strings
begin

text \<open>
  \<^verbatim>\<open>agents/classifier.py\<close>: the classification of a task by the base model, with its cache. The model's answers, the digest,
  \<open>json.loads\<close> and \<open>float\<close> of a text are parameters.

  A category the model names is a text. What \<open>json.loads\<close> makes of an object is the three keys the program reads: the
  category and the confidence, each \<open>None\<close> when the key is absent, and the secondary categories, \<open>Some None\<close> when the value
  is no list.
\<close>

section \<open>The classifier\<close>

datatype confidence_value = Number real | Numeral string | Other_Value

record llm_reply =
  rp_category :: "string option"
  rp_confidence :: "confidence_value option"
  rp_secondary :: "string list option option"

type_synonym classification = "string \<times> real \<times> string list"

record model_env =
  me_generate :: "string \<Rightarrow> bool \<Rightarrow> py_exn + string" \<comment> \<open>the prompt, and whether thinking is switched off\<close>
  me_name :: string
  me_digest :: "string \<Rightarrow> string"
  me_loads :: "string \<Rightarrow> llm_reply option"
  me_float :: "string \<Rightarrow> real option"

record llm_classifier =
  lc_cache :: "(string, classification) py_dict"
  lc_size :: int
  lc_descriptions :: "(string, string) py_dict"

definition DEFAULT_DESCRIPTIONS :: "(string, string) py_dict" where
  "DEFAULT_DESCRIPTIONS =
     [(''test_generation'', ''Writing unit tests, test cases, test suites (pytest, jest, mocha, etc.)''),
      (''security_audit'', ''Security analysis, vulnerability scanning, penetration testing, security reviews''),
      (''documentation'', ''Writing docs, docstrings, README files, API documentation, code comments''),
      (''performance_optimization'', ''Performance tuning, profiling, bottleneck analysis, optimization''),
      (''debugging'', ''Bug fixing, troubleshooting, error investigation, debugging''),
      (''refactoring'', ''Code restructuring, cleaning, improving architecture, removing code smells''),
      (''code_generation'', ''Writing new code, implementing features, scaffolding, creating functions''),
      (''data_processing'', ''ETL pipelines, data transformation, pandas, data cleaning, CSV/JSON parsing''),
      (''api_development'', ''REST/GraphQL APIs, endpoint creation, API design, FastAPI, Flask''),
      (''database_operations'', ''SQL, schema design, query optimization, migrations, database tuning''),
      (''code_review'', ''Code review, explanation, reverse engineering, documentation generation, static analysis''),
      (''general'', ''General tasks that don'' @ [CHR 0x27] @ ''t fit specific categories'')]"

definition new_classifier :: "int \<Rightarrow> (string, string) py_dict option \<Rightarrow> llm_classifier" where
  "new_classifier n d = \<lparr>lc_cache = [], lc_size = n, lc_descriptions = (case d of Some x \<Rightarrow> x | None \<Rightarrow> DEFAULT_DESCRIPTIONS)\<rparr>"

section \<open>Reading the answer\<close>

definition quote :: string where
  "quote = [CHR 0x22]"

text \<open>\<open>str.find\<close>, \<open>None\<close> for -1.\<close>

definition str_find :: "string \<Rightarrow> string \<Rightarrow> nat option" where
  "str_find p s = map_option (\<lambda>(before, after). length before) (split_first p s)"

definition classification_prompt :: "(string, string) py_dict \<Rightarrow> string \<Rightarrow> string" where
  "classification_prompt ds spec =
     ''Classify this task into ONE primary category. Output ONLY valid JSON, no reasoning or thinking.'' @ nl @ nl @
     ''Task: '' @ spec @ nl @ nl @ ''Categories:'' @ nl @
     join_with nl (map (\<lambda>(i, t, d). str_nat (i + 1) @ ''. '' @ t @ '' - '' @ d) (enumerate 0 ds)) @ nl @ nl @
     ''Output ONLY this JSON (nothing else before or after):'' @ nl @
     ''{'' @ quote @ ''primary_category'' @ quote @ '': '' @ quote @ ''<name>'' @ quote @ '', '' @
     quote @ ''confidence'' @ quote @ '': <0.0-1.0>, '' @ quote @ ''reasoning'' @ quote @ '': '' @ quote @ ''<brief>'' @ quote @
     '', '' @ quote @ ''secondary_categories'' @ quote @ '': []}''"

text \<open>\<open>float(x)\<close>: a text that is no number is a ValueError, a null, a list or an object a TypeError.\<close>

fun float_value :: "(string \<Rightarrow> real option) \<Rightarrow> confidence_value \<Rightarrow> py_exn + real" where
  "float_value f (Number r) = Inr r"
| "float_value f (Numeral s) = (case f s of Some r \<Rightarrow> Inr r | None \<Rightarrow> Inl (ValueError s))"
| "float_value f Other_Value = Inl (OtherError ''TypeError'' ''float() argument must be a string or a real number'')"

text \<open>
  The scan for a balanced object that starts at the first brace: a closing brace that brings the depth to nothing ends a
  candidate, which is parsed from the first brace on. A parse error and a bad number end the scan; an object without the
  two keys does not.
\<close>

datatype scan_outcome = Nothing_Found | Raised py_exn | Found classification

fun scan_reply :: "model_env \<Rightarrow> string \<Rightarrow> int \<Rightarrow> string \<Rightarrow> scan_outcome" where
  "scan_reply env seen depth [] = Nothing_Found"
| "scan_reply env seen depth (c # cs) =
     (if c = CHR ''{'' then scan_reply env (c # seen) (depth + 1) cs
      else if c = CHR ''}'' then
        (if depth - 1 = 0 then
           (case me_loads env (rev (c # seen)) of
              None \<Rightarrow> Nothing_Found
            | Some r \<Rightarrow>
                (case (rp_category r, rp_confidence r) of
                   (Some p, Some v) \<Rightarrow>
                     (case float_value (me_float env) v of
                        Inr x \<Rightarrow> Found (p, x, (case rp_secondary r of Some (Some l) \<Rightarrow> l | _ \<Rightarrow> []))
                      | Inl (ValueError m) \<Rightarrow> Nothing_Found
                      | Inl e \<Rightarrow> Raised e)
                 | _ \<Rightarrow> scan_reply env (c # seen) (depth - 1) cs))
         else scan_reply env (c # seen) (depth - 1) cs)
      else scan_reply env (c # seen) depth cs)"

text \<open>The category that is mentioned first.\<close>

definition mentions :: "(string, string) py_dict \<Rightarrow> string \<Rightarrow> (nat \<times> string) list" where
  "mentions ds low = List.map_filter (\<lambda>t. map_option (\<lambda>i. (i, t)) (str_find t low)) (dict_keys ds)"

definition fallback_extraction :: "(string, string) py_dict \<Rightarrow> string \<Rightarrow> classification" where
  "fallback_extraction ds response =
     (case sort_key fst (mentions ds (py_lower response)) of
        (i, t) # _ \<Rightarrow> (t, 5 / 10, [])
      | [] \<Rightarrow> (''general'', 3 / 10, []))"

definition parse_classification_response :: "model_env \<Rightarrow> (string, string) py_dict \<Rightarrow> string \<Rightarrow> py_exn + classification" where
  "parse_classification_response env ds response =
     (let r = py_strip response;
          outcome = (case split_first ''{'' r of
                       None \<Rightarrow> Nothing_Found
                     | Some (before, after) \<Rightarrow> scan_reply env ''{'' 1 after)
      in case outcome of
           Found c \<Rightarrow> Inr c
         | Raised e \<Rightarrow> Inl e
         | Nothing_Found \<Rightarrow> Inr (fallback_extraction ds r))"

section \<open>Classification\<close>

definition UNKNOWN :: classification where
  "UNKNOWN = (''general'', 3 / 10, [])"

text \<open>A full cache loses its oldest entry; a cache without room has none to lose, which raises.\<close>

definition cache_result ::
    "string \<Rightarrow> classification \<Rightarrow> llm_classifier \<Rightarrow> (py_exn + classification) \<times> llm_classifier" where
  "cache_result key r c =
     (if int (length (lc_cache c)) \<ge> lc_size c then
        (case lc_cache c of
           [] \<Rightarrow> (Inl (OtherError ''StopIteration'' ''''), c)
         | (k, v) # rest \<Rightarrow> (Inr r, c\<lparr>lc_cache := dict_set key r (dict_del k (lc_cache c))\<rparr>))
      else (Inr r, c\<lparr>lc_cache := dict_set key r (lc_cache c)\<rparr>))"

definition classify_task :: "model_env \<Rightarrow> string \<Rightarrow> llm_classifier \<Rightarrow> classification \<times> llm_classifier" where
  "classify_task env spec c =
     (if spec = [] then (UNKNOWN, c)
      else
        let key = me_digest env spec in
        case dict_get (lc_cache c) key of
          Some r \<Rightarrow> (r, c)
        | None \<Rightarrow>
            (case res_bind (me_generate env (classification_prompt (lc_descriptions c) spec)
                              (str_contains ''qwen'' (py_lower (me_name env))))
                           (parse_classification_response env (lc_descriptions c)) of
               Inl e \<Rightarrow> (UNKNOWN, c)
             | Inr r \<Rightarrow>
                 (case cache_result key r c of
                    (Inr x, c') \<Rightarrow> (x, c')
                  | (Inl e, c') \<Rightarrow> (UNKNOWN, c'))))"

section \<open>The cache\<close>

definition cache_ok :: "llm_classifier \<Rightarrow> bool" where
  "cache_ok c \<longleftrightarrow> dict_ok (lc_cache c) \<and> int (length (lc_cache c)) \<le> max 0 (lc_size c)"

lemma length_dict_keys [simp]: "length (dict_keys d) = length d"
  by (simp add: dict_keys_def)

lemma cache_result_ok:
  assumes "cache_ok c" "cache_result key r c = (x, c')" "dict_get (lc_cache c) key = None"
  shows "cache_ok c' \<and> lc_size c' = lc_size c \<and> lc_descriptions c' = lc_descriptions c"
proof (cases "int (length (lc_cache c)) \<ge> lc_size c")
  case True
  show ?thesis
  proof (cases "lc_cache c")
    case Nil
    then show ?thesis using True assms by (auto simp: cache_result_def)
  next
    case (Cons p rest)
    obtain k v where p: "p = (k, v)" by (cases p)
    let ?m = "dict_del k (lc_cache c)"
    have c': "c' = c\<lparr>lc_cache := dict_set key r ?m\<rparr>" using True Cons p assms(2) by (auto simp: cache_result_def)
    have ok: "dict_ok (lc_cache c)" using assms(1) by (simp add: cache_ok_def)
    have "k \<notin> fst ` set rest" using ok by (auto simp: dict_ok_def Cons p)
    then have m: "?m = rest" by (force simp: Cons p dict_del_def AList.delete_eq filter_id_conv)
    have "dict_ok (dict_set key r ?m)" using ok by simp
    moreover have "length (dict_set key r ?m) \<le> Suc (length rest)"
      using py_dict.length_keys_put_le [of ?m key r] ok by (simp add: m [symmetric])
    ultimately show ?thesis using assms(1) Cons by (simp add: c' cache_ok_def)
  qed
next
  case False
  have ok: "dict_ok (lc_cache c)" using assms(1) by (simp add: cache_ok_def)
  have "length (dict_set key r (lc_cache c)) \<le> Suc (length (lc_cache c))"
    using py_dict.length_keys_put_le [of "lc_cache c" key r] ok by simp
  then show ?thesis using False assms ok by (auto simp: cache_result_def cache_ok_def)
qed

lemma cache_result_value: "cache_result key r c = (Inr x, c') \<Longrightarrow> x = r \<and> dict_get (lc_cache c') key = Some r"
  by (auto simp: cache_result_def split: if_splits list.splits)

lemma classify_task_ok:
  assumes "cache_ok c" "classify_task env spec c = (r, c')"
  shows "cache_ok c' \<and> lc_size c' = lc_size c \<and> lc_descriptions c' = lc_descriptions c"
  using assms cache_result_ok [OF assms(1)]
  by (auto simp: classify_task_def Let_def split: if_splits option.splits sum.splits prod.splits)

text \<open>A cached answer is given again without the model.\<close>

lemma classify_task_repeats:
  assumes "classify_task env spec c = (r, c')" "c' \<noteq> c"
  shows "classify_task env' spec c' = (r, c') \<or> me_digest env' spec \<noteq> me_digest env spec"
proof -
  have ne: "spec \<noteq> []" using assms by (auto simp: classify_task_def)
  have none: "dict_get (lc_cache c) (me_digest env spec) = None"
    using assms ne by (auto simp: classify_task_def Let_def split: option.splits)
  obtain x where x: "cache_result (me_digest env spec) x c = (Inr r, c')"
    using assms ne none
    by (auto simp: classify_task_def Let_def cache_result_def split: sum.splits prod.splits if_splits list.splits)
  then have "dict_get (lc_cache c') (me_digest env spec) = Some r" using cache_result_value by blast
  then show ?thesis using ne by (cases "me_digest env' spec = me_digest env spec") (simp_all add: classify_task_def Let_def)
qed

section \<open>The fallback\<close>

lemma str_find_Some: "str_find p s = Some i \<Longrightarrow> \<exists>a b. s = a @ p @ b \<and> length a = i"
  using split_first_sound [of p s] by (auto simp: str_find_def)

text \<open>Whatever the model says, the category of a fallback is a known one or \<open>general\<close>.\<close>

lemma fallback_known:
  "fallback_extraction ds s = (t, x, l) \<Longrightarrow> t \<in> set (dict_keys ds) \<or> t = ''general''"
proof -
  assume f: "fallback_extraction ds s = (t, x, l)"
  show ?thesis
  proof (cases "sort_key fst (mentions ds (py_lower s))")
    case Nil
    then show ?thesis using f by (simp add: fallback_extraction_def)
  next
    case (Cons m ms)
    then have "m \<in> set (mentions ds (py_lower s))" by (metis list.set_intros(1) set_sort)
    then have "snd m \<in> set (dict_keys ds)" by (auto simp: mentions_def List.map_filter_def)
    moreover have "t = snd m" using f Cons by (cases m) (simp add: fallback_extraction_def)
    ultimately show ?thesis by simp
  qed
qed

lemma fallback_earliest:
  assumes "fallback_extraction ds s = (t, 5 / 10, l)"
  shows "\<exists>i. str_find t (py_lower s) = Some i
    \<and> (\<forall>u \<in> set (dict_keys ds). \<forall>j. str_find u (py_lower s) = Some j \<longrightarrow> i \<le> j)"
proof -
  let ?m = "mentions ds (py_lower s)"
  obtain i ms where m: "sort_key fst ?m = (i, t) # ms"
    using assms by (auto simp: fallback_extraction_def split: list.splits)
  then have "(i, t) \<in> set ?m" by (metis list.set_intros(1) set_sort)
  then have "str_find t (py_lower s) = Some i" by (auto simp: mentions_def List.map_filter_def)
  moreover have "i \<le> j" if u: "u \<in> set (dict_keys ds)" "str_find u (py_lower s) = Some j" for u j
  proof -
    have "(j, u) \<in> set ?m" using u by (force simp: mentions_def List.map_filter_def)
    then have "(j, u) \<in> set ((i, t) # ms)" by (metis m set_sort)
    moreover have "sorted (map fst ((i, t) # ms))" by (metis m sorted_sort_key)
    ultimately show ?thesis by auto
  qed
  ultimately show ?thesis by blast
qed

end
