(* ===== verification/Router.thy ===== *)
theory Router
  imports Task_Types Llm_Classifier Vector_Search Agent_State
begin

text \<open>
  \<^verbatim>\<open>agents/router_classification.py\<close> with the part of \<^verbatim>\<open>agents/router.py\<close> that sets a router up: the score of a task
  type by its weighted patterns, and the three modes of classification. A rule of decomposition is a record with its
  condition and its order as functions.
\<close>

section \<open>The router\<close>

record decomposition_rule =
  dr_name :: string
  dr_condition :: "string list \<Rightarrow> bool"
  dr_execution :: string
  dr_aggregation :: string
  dr_order :: "string list \<Rightarrow> string list"
  dr_priority :: int

record router =
  rt_mode :: string
  rt_threshold :: real
  rt_classifier :: "llm_classifier option"
  rt_patterns :: "(string, regex list) py_dict"
  rt_weights :: "(string, (regex, real) py_dict) py_dict"
  rt_thresholds :: "(string, real) py_dict"
  rt_adapters :: "(string, string) py_dict"
  rt_labels :: "(string, string) py_dict"
  rt_rules :: "decomposition_rule list"
  rt_secondary :: "string list option"

section \<open>Scores\<close>

definition weight_of :: "(regex, real) py_dict \<Rightarrow> regex \<Rightarrow> real" where
  "weight_of ws p = dict_get_or ws p 1"

definition weight_sum :: "(regex, real) py_dict \<Rightarrow> regex list \<Rightarrow> real" where
  "weight_sum ws ps = foldl (\<lambda>a p. a + weight_of ws p) 0 ps"

text \<open>The weight of the patterns found in the text, as a share of the weight of all.\<close>

definition pattern_score :: "(regex, real) py_dict \<Rightarrow> regex list \<Rightarrow> string \<Rightarrow> real" where
  "pattern_score ws ps low =
     (let found = weight_sum ws (filter (\<lambda>p. re_search False p low) ps); possible = weight_sum ws ps
      in if possible > 0 then found / possible else 0)"

definition weights_for :: "router \<Rightarrow> string \<Rightarrow> (regex, real) py_dict" where
  "weights_for r t = dict_get_or (rt_weights r) t []"

section \<open>Classification\<close>

definition type_scores :: "router \<Rightarrow> string \<Rightarrow> (string \<times> real) list" where
  "type_scores r low =
     map (\<lambda>(t, ps). (t, pattern_score (weights_for r t) ps low)) (filter (\<lambda>(t, ps). ps \<noteq> []) (rt_patterns r))"

definition classify_task_regex :: "router \<Rightarrow> string \<Rightarrow> string \<times> real" where
  "classify_task_regex r spec =
     (if spec = [] then (''general'', 5 / 10)
      else case max_item snd (type_scores r (py_lower spec)) of
             Some (t, x) \<Rightarrow> if x < 15 / 100 then (''general'', x) else (t, x)
           | None \<Rightarrow> (''general'', 0))"

definition classify_task_llm :: "model_env \<Rightarrow> router \<Rightarrow> string \<Rightarrow> (string \<times> real) \<times> router" where
  "classify_task_llm env r spec =
     (case rt_classifier r of
        None \<Rightarrow> (classify_task_regex r spec, r)
      | Some c \<Rightarrow>
          (case classify_task env spec c of
             ((primary, confidence, secondary), c') \<Rightarrow>
               ((primary, confidence), r\<lparr>rt_classifier := Some c', rt_secondary := Some secondary\<rparr>)))"

definition route_classify :: "model_env \<Rightarrow> bool \<Rightarrow> router \<Rightarrow> string \<Rightarrow> (string \<times> real) \<times> router" where
  "route_classify env force_regex r0 spec =
     (let r = r0\<lparr>rt_secondary := Some []\<rparr> in
      if force_regex \<or> rt_mode r = ''regex'' then (classify_task_regex r spec, r)
      else if rt_mode r = ''llm'' then classify_task_llm env r spec
      else if rt_mode r = ''hybrid'' then
        (case classify_task_regex r spec of
           (t, x) \<Rightarrow>
             if x \<ge> dict_get_or (rt_thresholds r) t (rt_threshold r) then ((t, x), r) else classify_task_llm env r spec)
      else (classify_task_regex r spec, r))"

section \<open>Lemmas\<close>

lemma weight_sum_acc: "foldl (\<lambda>a p. a + weight_of ws p) a ps = a + weight_sum ws ps"
proof (induction ps arbitrary: a)
  case (Cons p ps)
  have "weight_sum ws (p # ps) = foldl (\<lambda>a p. a + weight_of ws p) (weight_of ws p) ps" by (simp add: weight_sum_def)
  then show ?case by (simp only: foldl_Cons Cons add.assoc)
qed (simp add: weight_sum_def)

lemma weight_sum_simps [simp]:
  "weight_sum ws [] = 0" "weight_sum ws (p # ps) = weight_of ws p + weight_sum ws ps"
proof -
  show "weight_sum ws [] = 0" by (simp add: weight_sum_def)
  have "weight_sum ws (p # ps) = foldl (\<lambda>a p. a + weight_of ws p) (weight_of ws p) ps" by (simp add: weight_sum_def)
  also have "\<dots> = weight_of ws p + weight_sum ws ps" by (rule weight_sum_acc)
  finally show "weight_sum ws (p # ps) = weight_of ws p + weight_sum ws ps" .
qed

definition weights_ok :: "(regex, real) py_dict \<Rightarrow> bool" where
  "weights_ok ws \<longleftrightarrow> (\<forall>(p, w) \<in> set ws. 0 \<le> w)"

lemma weight_of_nonneg: "weights_ok ws \<Longrightarrow> 0 \<le> weight_of ws p"
proof (cases "map_of ws p")
  case (Some w)
  assume "weights_ok ws"
  then have "0 \<le> w" using map_of_SomeD [OF Some] unfolding weights_ok_def by blast
  then show ?thesis using Some by (simp add: weight_of_def dict_get_or_def dict_get_def)
qed (simp add: weight_of_def dict_get_or_def dict_get_def)

text \<open>What fewer patterns weigh is no more than what more patterns weigh.\<close>

lemma weight_sum_mono:
  "weights_ok ws \<Longrightarrow> (\<And>p. p \<in> set ps \<Longrightarrow> P p \<Longrightarrow> Q p) \<Longrightarrow> weight_sum ws (filter P ps) \<le> weight_sum ws (filter Q ps)"
proof (induction ps)
  case (Cons p ps)
  have "0 \<le> weight_of ws p" using Cons.prems(1) by (rule weight_of_nonneg)
  moreover have "weight_sum ws (filter P ps) \<le> weight_sum ws (filter Q ps)" using Cons by simp
  ultimately show ?case using Cons.prems(2) by auto
qed simp

lemma weight_sum_filter: "weights_ok ws \<Longrightarrow> 0 \<le> weight_sum ws (filter P ps) \<and> weight_sum ws (filter P ps) \<le> weight_sum ws ps"
  using weight_sum_mono [of ws ps "\<lambda>p. False" P] weight_sum_mono [of ws ps P "\<lambda>p. True"] by simp

lemma pattern_score_bounds: "weights_ok ws \<Longrightarrow> 0 \<le> pattern_score ws ps low \<and> pattern_score ws ps low \<le> 1"
  using weight_sum_filter [of ws "\<lambda>p. re_search False p low" ps] by (simp add: pattern_score_def Let_def)

text \<open>The patterns that need a capital letter never count: a text made small has none.\<close>

definition reachable_score :: "(regex, real) py_dict \<Rightarrow> regex list \<Rightarrow> real" where
  "reachable_score ws ps = weight_sum ws (filter (\<lambda>p. \<not> needs upper_case p) ps) / weight_sum ws ps"

lemma pattern_score_reachable:
  assumes "weights_ok ws" "0 < weight_sum ws ps"
  shows "pattern_score ws ps (py_lower s) \<le> reachable_score ws ps"
proof -
  have "weight_sum ws (filter (\<lambda>p. re_search False p (py_lower s)) ps)
      \<le> weight_sum ws (filter (\<lambda>p. \<not> needs upper_case p) ps)"
    using assms(1) capital_not_found by (intro weight_sum_mono) blast+
  then show ?thesis using assms(2) by (simp add: pattern_score_def reachable_score_def Let_def divide_right_mono)
qed

lemma classify_task_regex_type:
  assumes "classify_task_regex r spec = (t, x)" "t \<noteq> ''general''"
  shows "\<exists>ps. (t, ps) \<in> set (rt_patterns r) \<and> ps \<noteq> [] \<and> x = pattern_score (weights_for r t) ps (py_lower spec)"
proof -
  obtain y where y: "max_item snd (type_scores r (py_lower spec)) = Some y"
    using assms by (auto simp: classify_task_regex_def split: if_splits option.splits)
  then have "y = (t, x)" using assms by (cases y) (auto simp: classify_task_regex_def split: if_splits)
  then have "(t, x) \<in> set (type_scores r (py_lower spec))" using max_item_Some(1) [OF y] by simp
  then show ?thesis by (auto simp: type_scores_def)
qed

lemma classify_task_regex_bounds:
  assumes "\<forall>t. weights_ok (weights_for r t)" "classify_task_regex r spec = (t, x)"
  shows "0 \<le> x \<and> x \<le> 1"
proof (cases "max_item snd (type_scores r (py_lower spec))")
  case None
  then show ?thesis using assms(2) by (simp add: classify_task_regex_def split: if_splits)
next
  case (Some y)
  obtain u v where uv: "y = (u, v)" by (cases y)
  then have "(u, v) \<in> set (type_scores r (py_lower spec))" using max_item_Some(1) [OF Some] by simp
  then have "0 \<le> v \<and> v \<le> 1" using assms(1) pattern_score_bounds by (auto simp: type_scores_def)
  then show ?thesis using assms(2) Some uv by (auto simp: classify_task_regex_def split: if_splits)
qed

text \<open>The router changes nothing of itself but its classifier and the secondary categories.\<close>

lemma route_classify_frame:
  assumes "route_classify env f r spec = (tx, r')"
  shows "rt_mode r' = rt_mode r \<and> rt_rules r' = rt_rules r \<and> rt_patterns r' = rt_patterns r
    \<and> rt_weights r' = rt_weights r \<and> rt_adapters r' = rt_adapters r \<and> rt_labels r' = rt_labels r
    \<and> rt_thresholds r' = rt_thresholds r \<and> rt_threshold r' = rt_threshold r"
  using assms
  by (auto simp: route_classify_def classify_task_llm_def Let_def split: if_splits prod.splits option.splits)

text \<open>No secondary category outlives a call: what is left after it comes from the call's own question to the model.\<close>

lemma route_classify_secondary:
  assumes "route_classify env f r spec = (tx, r')"
  shows "rt_secondary r' = Some [] \<or>
    (\<exists>c c' t x l. rt_classifier r = Some c \<and> classify_task env spec c = ((t, x, l), c') \<and> rt_secondary r' = Some l \<and> tx = (t, x))"
  using assms
  by (fastforce simp: route_classify_def classify_task_llm_def Let_def split: if_splits prod.splits option.splits)

lemma force_regex_secondary: "route_classify env True r spec = (classify_task_regex (r\<lparr>rt_secondary := Some []\<rparr>) spec, r\<lparr>rt_secondary := Some []\<rparr>)"
  by (simp add: route_classify_def Let_def)

section \<open>The router\<close>

text \<open>
  \<^verbatim>\<open>agents/router.py\<close>: the node that picks the specialist of a request, or splits the request into sub-tasks for several.

  The search for skills is a parameter that may change a registry of its own. In a discovered skill a key whose value is
  \<^verbatim>\<open>None\<close> is absent, and the number of a sub-task is written in decimal. The entries of \<^verbatim>\<open>debug_info\<close> are left out.
\<close>

section \<open>Rules of decomposition\<close>

definition without :: "string list \<Rightarrow> string list \<Rightarrow> string list" where
  "without ts xs = filter (\<lambda>t. t \<notin> set ts) xs"

definition code_with_analysis :: decomposition_rule where
  "code_with_analysis = \<lparr>dr_name = ''code_with_analysis'',
     dr_condition = (\<lambda>types. ''code_generation'' \<in> set types \<and> length types \<ge> 2),
     dr_execution = ''sequential'', dr_aggregation = ''merge'',
     dr_order = (\<lambda>types. [''code_generation''] @ (if ''refactoring'' \<in> set types then [''refactoring''] else []) @
                           without [''code_generation'', ''refactoring''] types),
     dr_priority = 1\<rparr>"

definition debugging_workflow :: decomposition_rule where
  "debugging_workflow = \<lparr>dr_name = ''debugging_workflow'',
     dr_condition = (\<lambda>types. ''debugging'' \<in> set types),
     dr_execution = ''sequential'', dr_aggregation = ''sequential'',
     dr_order = (\<lambda>types. [''debugging''] @ without [''debugging''] types),
     dr_priority = 2\<rparr>"

definition API_ORDER :: "string list" where
  "API_ORDER = [''api_development'', ''test_generation'', ''documentation'', ''security_audit'']"

definition api_full_stack :: decomposition_rule where
  "api_full_stack = \<lparr>dr_name = ''api_full_stack'',
     dr_condition = (\<lambda>types. ''api_development'' \<in> set types \<and>
                               (''test_generation'' \<in> set types \<or> ''documentation'' \<in> set types)),
     dr_execution = ''sequential'', dr_aggregation = ''merge'',
     dr_order = (\<lambda>types. filter (\<lambda>t. t \<in> set types) API_ORDER @ without API_ORDER types),
     dr_priority = 3\<rparr>"

definition database_workflow :: decomposition_rule where
  "database_workflow = \<lparr>dr_name = ''database_workflow'',
     dr_condition = (\<lambda>types. ''database_operations'' \<in> set types),
     dr_execution = ''sequential'', dr_aggregation = ''sequential'',
     dr_order = (\<lambda>types. [''database_operations''] @ without [''database_operations''] types),
     dr_priority = 4\<rparr>"

definition parallel_analysis :: decomposition_rule where
  "parallel_analysis = \<lparr>dr_name = ''parallel_analysis'',
     dr_condition = (\<lambda>types. length types \<ge> 2 \<and>
        (\<forall>t \<in> set types. t \<notin> set [''code_generation'', ''debugging'', ''api_development'', ''database_operations''])),
     dr_execution = ''parallel'', dr_aggregation = ''report'',
     dr_order = (\<lambda>types. types),
     dr_priority = 10\<rparr>"

definition DEFAULT_RULES :: "decomposition_rule list" where
  "DEFAULT_RULES = [code_with_analysis, debugging_workflow, api_full_stack, database_workflow, parallel_analysis]"

section \<open>Setting up\<close>

definition new_router ::
    "(string, string) py_dict \<Rightarrow> string \<Rightarrow> real \<Rightarrow> bool \<Rightarrow> task_registry option \<Rightarrow> router" where
  "new_router skill_types mode threshold has_model registry =
     (let tt = (case registry of Some g \<Rightarrow> g | None \<Rightarrow> snd (populate_from_skill_registry skill_types create_default_registry))
      in \<lparr>rt_mode = (if mode \<in> set [''llm'', ''hybrid''] \<and> \<not> has_model then ''regex'' else mode),
          rt_threshold = threshold,
          rt_classifier = (if mode \<in> set [''llm'', ''hybrid''] \<and> has_model
                           then Some (new_classifier 100 (Some (task_descriptions tt))) else None),
          rt_patterns = task_patterns tt, rt_weights = pattern_weights tt, rt_thresholds = hybrid_thresholds tt,
          rt_adapters = adapter_mapping tt, rt_labels = task_labels tt,
          rt_rules = DEFAULT_RULES, rt_secondary = None\<rparr>)"

text \<open>\<open>(a|b|c)\<close>, \<open>\s+\<close> and \<open>\b...\b.*\band\b.*\b\<close>.\<close>

definition one_of :: "nat \<Rightarrow> string list \<Rightarrow> regex" where
  "one_of n ws = RGroup n (ralt (map RStr ws))"

definition blanks :: regex where
  "blanks = rplus (RSet False [CSpace])"

definition joined :: "string list \<Rightarrow> string list \<Rightarrow> regex" where
  "joined vs ws = rseq [RBoundary, one_of 1 vs, blanks, one_of 2 [''and'', ''with'', ''plus'', ''also''], blanks, one_of 3 ws]"

definition and_between :: regex where
  "and_between = rseq [RBoundary, rdots, RBoundary, RStr ''and'', RBoundary, rdots, RBoundary]"

definition TESTS :: "nat \<Rightarrow> regex" where
  "TESTS n = RGroup n (RAlt (RSeq (RStr ''test'') (ropt (RStr ''s''))) (RStr ''test suite''))"

definition DOCS :: "nat \<Rightarrow> regex" where
  "DOCS n = RGroup n (RAlt (RSeq (RStr ''doc'') (ropt (RStr ''s''))) (RStr ''documentation''))"

definition MULTI_SPECIALIST_INDICATORS :: "regex list" where
  "MULTI_SPECIALIST_INDICATORS =
     [joined [''test'', ''tests'', ''testing''] [''security'', ''secur'', ''document'', ''doc'', ''optimiz''],
      joined [''security'', ''secur''] [''test'', ''tests'', ''testing'', ''document'', ''doc'', ''optimiz''],
      joined [''document'', ''documentation'', ''docs''] [''test'', ''tests'', ''testing'', ''security'', ''optimiz''],
      rseq [RBoundary, RGroup 1 (RSeq (RStr ''optimiz'') (RStar True (RSet False [CWord]))), blanks,
            one_of 2 [''and'', ''with'', ''plus'', ''also''], blanks,
            one_of 3 [''test'', ''tests'', ''testing'', ''security'', ''document'', ''doc'']],
      rseq [RBoundary, RStr ''write'', blanks, RStr ''test'', ropt (RStr ''s''), and_between,
            one_of 1 [''document'', ''secure'', ''optimiz'']],
      rseq [RBoundary, one_of 1 [''audit'', ''review''], and_between, one_of 2 [''fix'', ''test'', ''document'']],
      rseq [RBoundary, one_of 1 [''generate'', ''write'', ''create''], RBoundary, rdots, RBoundary, TESTS 2, and_between,
            DOCS 3, RBoundary],
      rseq [RBoundary, one_of 1 [''generate'', ''write'', ''create''], RBoundary, rdots, RBoundary, DOCS 2, and_between,
            TESTS 3, RBoundary]]"

section \<open>Is one specialist enough?\<close>

definition model_found_more :: "router \<Rightarrow> bool" where
  "model_found_more r \<longleftrightarrow>
     rt_mode r \<in> set [''llm'', ''hybrid''] \<and> (case rt_secondary r of Some l \<Rightarrow> l \<noteq> [] | None \<Rightarrow> False)"

definition significant_matches :: "router \<Rightarrow> string \<Rightarrow> (string \<times> real) list" where
  "significant_matches r low =
     filter (\<lambda>(t, x). x \<ge> 15 / 100)
       (map (\<lambda>(t, ps). (t, pattern_score (weights_for r t) ps low)) (filter (\<lambda>(t, ps). t \<noteq> ''general'') (rt_patterns r)))"

definition needs_decomposition :: "router \<Rightarrow> string \<Rightarrow> bool" where
  "needs_decomposition r spec =
     (if model_found_more r then True
      else if spec = [] then False
      else if length (significant_matches r (py_lower spec)) \<ge> 2 then True
      else list_ex (\<lambda>p. re_search False p (py_lower spec)) MULTI_SPECIALIST_INDICATORS)"

section \<open>Sub-tasks\<close>

definition detected_tasks :: "router \<Rightarrow> string \<Rightarrow> agent_state \<Rightarrow> (string, int) py_dict" where
  "detected_tasks r low s =
     (if model_found_more r then
        foldl (\<lambda>d (i, t). dict_set t (50 - int i * 10) d) [(opt_or (routed_task_type s) ''general'', 100)]
          (enumerate 0 (opt_or (rt_secondary r) []))
      else
        filter (\<lambda>(t, n). n > 0)
          (map (\<lambda>(t, ps). (t, int (length (filter (\<lambda>p. re_search False p low) ps))))
             (filter (\<lambda>(t, ps). t \<noteq> ''general'') (rt_patterns r))))"

definition matching_rule :: "decomposition_rule list \<Rightarrow> string list \<Rightarrow> decomposition_rule option" where
  "matching_rule rules types = find (\<lambda>d. dr_condition d types) (sort_key dr_priority rules)"

text \<open>Whether they run at the same time, how they are put together, and their order.\<close>

definition decomposition_plan :: "decomposition_rule list \<Rightarrow> string list \<Rightarrow> bool \<times> string \<times> string list" where
  "decomposition_plan rules types =
     (case matching_rule rules types of
        Some d \<Rightarrow> (dr_execution d = ''parallel'', dr_aggregation d, dr_order d types)
      | None \<Rightarrow> (True, ''merge'', types))"

definition task_label :: "router \<Rightarrow> string \<Rightarrow> string" where
  "task_label r t = dict_get_or (rt_labels r) t (replace_char (CHR ''_'') (CHR '' '') t)"

definition generate_sub_task_spec :: "router \<Rightarrow> string \<Rightarrow> string \<Rightarrow> string list \<Rightarrow> nat \<Rightarrow> bool \<Rightarrow> string" where
  "generate_sub_task_spec r spec t siblings i sequential =
     (let label = task_label r t;
          sibling_note =
            (if siblings \<noteq> [] then
               nl @ ''Other specialists are handling: '' @ join_with '', '' (map (task_label r) siblings) @
               ''. Focus only on the '' @ label @ '' aspects - do not duplicate their work.''
             else []);
          dep_note =
            (if sequential \<and> i > 0 then
               nl @ ''This task runs after: '' @ join_with '', '' (map (task_label r) (take i siblings)) @
               ''. You may assume their outputs are available.''
             else [])
      in ''['' @ map upper_char label @ ''] From the requirement below, handle the '' @ label @ '' concerns.'' @ nl @ nl @
         ''Requirement: '' @ spec @ sibling_note @ dep_note)"

definition new_sub_task :: "router \<Rightarrow> string \<Rightarrow> bool \<Rightarrow> string list \<Rightarrow> nat \<times> string \<Rightarrow> sub_task" where
  "new_sub_task r spec together types = (\<lambda>(i, t).
     let siblings = without [t] types in
     \<lparr>t_task_type = Some t,
      t_specialist_adapter = Some (dict_get_or (rt_adapters r) t ''vibe''),
      t_specification = Some (generate_sub_task_spec r spec t siblings i (\<not> together)),
      t_output = Some [], t_spec_score = Some 0, t_output_score = Some 0, t_output_feedback = None,
      t_iteration_count = Some 0, t_max_iterations = Some 3, t_status = Some ''pending'', t_id = Some (int i),
      t_parent_specification = Some spec, t_sibling_tasks = Some siblings, t_tool_calls = None, t_spec_feedback = None\<rparr>)"

definition decompose_into_subtasks :: "router \<Rightarrow> agent_state \<Rightarrow> agent_state" where
  "decompose_into_subtasks r s =
     (let spec = opt_or (spec_text s) '''';
          types = map fst (rank_by snd (detected_tasks r (py_lower spec) s))
      in case decomposition_plan (rt_rules r) types of
           (together, strategy, ordered) \<Rightarrow>
             let limited = take 5 ordered in
             s\<lparr>sub_tasks := Some (map (new_sub_task r spec together limited) (enumerate 0 limited)),
               current_sub_task_index := Some 0, completed_sub_tasks := Some 0,
               parallel_execution := Some together, aggregation_strategy := Some strategy\<rparr>)"

section \<open>Skills\<close>

type_synonym skill_hit = "string \<times> string option \<times> string option"

record 'w skill_finder =
  sf_find :: "string \<Rightarrow> 'w \<Rightarrow> skill_hit \<times> 'w"
  sf_find_all :: "string \<Rightarrow> 'w \<Rightarrow> skill_hit list \<times> 'w"

definition hit_entry :: "string \<Rightarrow> skill_hit \<Rightarrow> json_obj" where
  "hit_entry t h = (case h of (tier, name, path) \<Rightarrow>
     [(''tier'', tier)] @ (case name of Some n \<Rightarrow> [(''skill_name'', n)] | None \<Rightarrow> []) @
     (case path of Some p \<Rightarrow> if p \<noteq> [] then [(''skill_path'', p)] else [] | None \<Rightarrow> []) @ [(''task_type'', t)])"

fun find_each :: "'w skill_finder \<Rightarrow> (string \<times> int) list \<Rightarrow> 'w \<Rightarrow> json_obj list \<times> 'w" where
  "find_each f [] w = ([], w)"
| "find_each f ((t, i) # ts) w =
     (case sf_find f t w of
        (h, w1) \<Rightarrow> (case find_each f ts w1 of (es, w2) \<Rightarrow> ((hit_entry t h @ [(''sub_task_id'', str_int i)]) # es, w2)))"

definition discover_skills :: "'w skill_finder \<Rightarrow> agent_state \<Rightarrow> 'w \<Rightarrow> agent_state \<times> 'w" where
  "discover_skills f s w =
     (let t = opt_or (routed_task_type s) ''general'';
          (found, w') =
            (if opt_or (requires_decomposition s) False then
               find_each f (map (\<lambda>u. (opt_or (t_task_type u) '''', opt_or (t_id u) 0)) (opt_or (sub_tasks s) [])) w
             else
               (case sf_find_all f t w of
                  ([], w1) \<Rightarrow> ([hit_entry t (''ephemeral'', None, None)], w1)
                | (hs, w1) \<Rightarrow> (map (hit_entry t) hs, w1)))
      in (s\<lparr>discovered_skills := Some found,
             skills_in_use := Some (List.map_filter (\<lambda>e. dict_get e ''skill_name'') found)\<rparr>, w'))"

section \<open>The node\<close>

definition single_specialist :: "router \<Rightarrow> string \<Rightarrow> real \<Rightarrow> agent_state \<Rightarrow> agent_state" where
  "single_specialist r t x s = s\<lparr>routed_task_type := Some t,
     specialist_adapter := Some (dict_get_or (rt_adapters r) t ''vibe''), routing_confidence := Some x,
     specialist_iteration_count := Some 0, specialist_max_iterations := Some 3, requires_decomposition := Some False\<rparr>"

definition routed_text :: "agent_state \<Rightarrow> string" where
  "routed_text s = (if opt_or (spec_text s) '''' = '''' then opt_or (user_request s) '''' else opt_or (spec_text s) '''')"

definition decide_route :: "model_env \<Rightarrow> router \<Rightarrow> agent_state \<Rightarrow> agent_state \<times> router" where
  "decide_route env r s =
     (if opt_or (routed_task_type s) '''' \<noteq> '''' then (single_specialist r (opt_or (routed_task_type s) '''') 1 s, r)
      else
        (case route_classify env (opt_or (complexity_tier s) '''' = ''fast'') r (routed_text s) of
           ((t, x), r1) \<Rightarrow>
             if needs_decomposition r1 (routed_text s) then
               ((decompose_into_subtasks r1 (s\<lparr>routed_task_type := Some t, routing_confidence := Some x\<rparr>))
                  \<lparr>requires_decomposition := Some True\<rparr>, r1)
             else (single_specialist r1 t x s, r1)))"

definition execute_router :: "model_env \<Rightarrow> 'w skill_finder \<Rightarrow> router \<Rightarrow> agent_state \<Rightarrow> 'w \<Rightarrow> (agent_state \<times> router) \<times> 'w" where
  "execute_router env f r s w =
     (case decide_route env r s of (s1, r1) \<Rightarrow>
        (case discover_skills f s1 w of (s2, w1) \<Rightarrow> ((s2, r1), w1)))"

section \<open>Rules at run time\<close>

text \<open>The keys of a given rule are checked by its type, but for the two with few values.\<close>

definition add_decomposition_rule :: "decomposition_rule \<Rightarrow> router \<Rightarrow> (py_exn + unit) \<times> router" where
  "add_decomposition_rule d r =
     (if dr_execution d \<notin> set [''sequential'', ''parallel''] then
        (Inl (ValueError (''execution must be '' @ [CHR 0x27] @ ''sequential'' @ [CHR 0x27] @ '' or '' @
                          [CHR 0x27] @ ''parallel'' @ [CHR 0x27])), r)
      else if dr_aggregation d \<notin> set [''merge'', ''sequential'', ''report''] then
        (Inl (ValueError (''aggregation must be '' @ [CHR 0x27] @ ''merge'' @ [CHR 0x27] @ '', '' @
                          [CHR 0x27] @ ''sequential'' @ [CHR 0x27] @ '', or '' @ [CHR 0x27] @ ''report'' @ [CHR 0x27])), r)
      else
        (Inr (), r\<lparr>rt_rules := filter (\<lambda>e. dr_name e \<noteq> dr_name d) (rt_rules r) @ [d]\<rparr>))"

definition remove_decomposition_rule :: "string \<Rightarrow> router \<Rightarrow> router" where
  "remove_decomposition_rule n r = r\<lparr>rt_rules := filter (\<lambda>d. dr_name d \<noteq> n) (rt_rules r)\<rparr>"

definition get_decomposition_rules :: "router \<Rightarrow> decomposition_rule list" where
  "get_decomposition_rules r = sort_key dr_priority (rt_rules r)"

definition get_available_specialists :: "router \<Rightarrow> string set" where
  "get_available_specialists r = set (map snd (rt_adapters r))"

definition get_task_types :: "router \<Rightarrow> string list" where
  "get_task_types r = dict_keys (rt_patterns r)"

definition route_to_specialist ::
    "model_env \<Rightarrow> 'w skill_finder \<Rightarrow> (string, string) py_dict \<Rightarrow> string \<Rightarrow> bool \<Rightarrow> task_registry option \<Rightarrow>
     agent_state \<Rightarrow> 'w \<Rightarrow> agent_state \<times> 'w" where
  "route_to_specialist env f skill_types mode has_model registry s w =
     (case execute_router env f (new_router skill_types mode (6 / 10) has_model registry) s w of ((s', r), w') \<Rightarrow> (s', w'))"

text \<open>The wrapper of \<^verbatim>\<open>graph_nodes.py\<close>: there is no step that writes a specification, the request stands for it.\<close>

definition router_wrapper ::
    "model_env \<Rightarrow> 'w skill_finder \<Rightarrow> (string, string) py_dict \<Rightarrow> bool \<Rightarrow> agent_state \<Rightarrow> 'w \<Rightarrow> agent_state \<times> 'w" where
  "router_wrapper env f skill_types has_model s w =
     route_to_specialist env f skill_types ''hybrid'' has_model None (s\<lparr>spec_text := Some (opt_or (user_request s) '''')\<rparr>) w"

end
