(* ===== verification/Router_Correct.thy ===== *)
theory Router_Correct
  imports Router Graph_Termination Aggregator Parallel_Subtasks
begin

text \<open>
  Properties of the router: its decompositions stay within the limits the graph relies on, name every concern once and in an
  order that respects their dependencies; which task types the patterns can decide alone; what happens to a request that
  skips the writing of a specification.
\<close>

section \<open>Registries\<close>

lemma dict_ok_register: "dict_ok r \<Longrightarrow> dict_ok (register_type e r)"
  by (simp add: register_type_def split: option.split)

lemma dict_ok_populate: "dict_ok r \<Longrightarrow> dict_ok (snd (populate_from_skill_registry ts r))"
  by (induction ts r rule: populate_from_skill_registry.induct)
    (simp_all add: case_prod_unfold dict_ok_register)

lemma dict_ok_default: "dict_ok create_default_registry"
  by (simp add: default_registry_eq dict_ok_def BUILTIN_TYPES_def builtin_entry_def
      test_generation_entry_def security_audit_entry_def documentation_entry_def performance_optimization_entry_def
      debugging_entry_def refactoring_entry_def code_generation_entry_def data_processing_entry_def api_development_entry_def
      database_operations_entry_def code_review_entry_def self_upgrade_entry_def general_entry_def)

lemma dict_get_filter:
  "dict_ok d \<Longrightarrow> dict_get d k = Some v \<Longrightarrow> P (k, v) \<Longrightarrow> dict_get (filter P d) k = Some v"
  by (induction d) (auto simp: dict_ok_def dict_get_def split: if_splits)

lemma dict_member_get: "dict_ok d \<Longrightarrow> (k, v) \<in> set d \<Longrightarrow> dict_get d k = Some v"
  by (simp add: dict_ok_def dict_get_def)

lemma dict_ok_map_values [simp]: "dict_ok (map_values f d) = dict_ok d"
  by (simp add: map_values_def dict_ok_def comp_def case_prod_unfold)

section \<open>Four task types need the model\<close>

definition NEVER_CONFIDENT :: "task_type_entry list" where
  "NEVER_CONFIDENT = [security_audit_entry, documentation_entry, api_development_entry, database_operations_entry]"

lemma never_confident_scores:
  "list_all (\<lambda>e. reachable_score (tt_weights e) (tt_patterns e) < tt_threshold e \<and> 0 < weight_sum (tt_weights e) (tt_patterns e)
     \<and> list_all (\<lambda>(p, w). 0 \<le> w) (tt_weights e)) NEVER_CONFIDENT"
  by code_simp

lemma never_confident_entries:
  "list_all (\<lambda>e. dict_get create_default_registry (tt_name e) = Some e \<and> tt_weights e \<noteq> [] \<and> tt_patterns e \<noteq> []
     \<and> tt_name e \<noteq> ''general'') NEVER_CONFIDENT"
  by code_simp

text \<open>The patterns alone never reach the threshold of these types, whatever the text.\<close>

lemma never_confident:
  assumes e: "e \<in> set NEVER_CONFIDENT" and r: "r = new_router skill_types mode th model None"
    and c: "classify_task_regex r' spec = (tt_name e, x)"
    and eq: "rt_patterns r' = rt_patterns r" "rt_weights r' = rt_weights r"
  shows "x < tt_threshold e \<and> dict_get (rt_thresholds r) (tt_name e) = Some (tt_threshold e)"
proof -
  let ?n = "tt_name e"
  let ?g = "snd (populate_from_skill_registry skill_types create_default_registry)"
  have f: "dict_get create_default_registry ?n = Some e" "tt_weights e \<noteq> []" "?n \<noteq> ''general''"
    using e never_confident_entries by (auto simp: list_all_iff)
  have w: "weights_ok (tt_weights e)" and pos: "0 < weight_sum (tt_weights e) (tt_patterns e)"
    and lt: "reachable_score (tt_weights e) (tt_patterns e) < tt_threshold e"
    using e never_confident_scores by (auto simp: list_all_iff weights_ok_def)
  have ok: "dict_ok ?g" by (rule dict_ok_populate [OF dict_ok_default])
  have g: "dict_get ?g ?n = Some e" by (rule populate_keeps [OF f(1)])
  have "dict_get (rt_weights r) ?n = Some (tt_weights e)"
    using dict_get_filter [OF ok g, of "\<lambda>(n, e). tt_weights e \<noteq> []"] f(2)
    by (simp add: r new_router_def Let_def pattern_weights_def)
  then have ws: "weights_for r' ?n = tt_weights e" by (simp add: weights_for_def dict_get_or_def eq)
  obtain ps where ps: "(?n, ps) \<in> set (rt_patterns r)" "x = pattern_score (tt_weights e) ps (py_lower spec)"
    using classify_task_regex_type [OF c f(3)] unfolding ws eq by blast
  have "dict_get (rt_patterns r) ?n = Some ps"
    by (rule dict_member_get [OF _ ps(1)]) (simp add: r new_router_def Let_def task_patterns_def ok)
  then have "ps = tt_patterns e" using g by (simp add: r new_router_def Let_def task_patterns_def)
  then have "x \<le> reachable_score (tt_weights e) (tt_patterns e)"
    unfolding ps(2) by (simp only: pattern_score_reachable [OF w pos])
  then show ?thesis using lt g by (simp add: r new_router_def Let_def hybrid_thresholds_def)
qed

section \<open>The order of a decomposition\<close>

lemma without_mset:
  "distinct us \<Longrightarrow> distinct ts \<Longrightarrow> mset (filter (\<lambda>t. t \<in> set ts) us @ without us ts) = mset ts"
proof -
  assume d: "distinct us" "distinct ts"
  have "distinct (filter (\<lambda>t. t \<in> set ts) us @ without us ts)" using d by (auto simp: without_def)
  moreover have "set (filter (\<lambda>t. t \<in> set ts) us @ without us ts) = set ts" by (auto simp: without_def)
  ultimately show ?thesis using d(2) set_eq_iff_mset_eq_distinct by metis
qed

text \<open>The rules reorder the detected types and lose none.\<close>

lemma default_rule_permutes:
  assumes "d \<in> set DEFAULT_RULES" "dr_condition d ts" "distinct ts"
  shows "mset (dr_order d ts) = mset ts"
proof -
  have one: "mset (u # without [u] ts) = mset ts" if "u \<in> set ts" for u
    using without_mset [of "[u]" ts] that assms(3) by simp
  have two: "mset (''code_generation'' # (if ''refactoring'' \<in> set ts then [''refactoring''] else []) @
      without [''code_generation'', ''refactoring''] ts) = mset ts" if "''code_generation'' \<in> set ts"
    using without_mset [of "[''code_generation'', ''refactoring'']" ts] that assms(3) by (simp split: if_splits)
  have api: "mset (filter (\<lambda>t. t \<in> set ts) API_ORDER @ without API_ORDER ts) = mset ts"
    by (rule without_mset [OF _ assms(3)]) (simp add: API_ORDER_def)
  have d: "d = code_with_analysis \<or> d = debugging_workflow \<or> d = api_full_stack \<or> d = database_workflow \<or> d = parallel_analysis"
    using assms(1) by (simp add: DEFAULT_RULES_def)
  show ?thesis
    using d assms(2) one two api
    by (elim disjE) (simp_all add: code_with_analysis_def debugging_workflow_def api_full_stack_def database_workflow_def
        parallel_analysis_def)
qed

lemma decomposition_plan_permutes:
  assumes "decomposition_plan DEFAULT_RULES ts = (together, strategy, ordered)" "distinct ts"
  shows "mset ordered = mset ts"
proof (cases "matching_rule DEFAULT_RULES ts")
  case None
  then show ?thesis using assms(1) by (simp add: decomposition_plan_def)
next
  case (Some d)
  then obtain i where "i < length (sort_key dr_priority DEFAULT_RULES)" "d = sort_key dr_priority DEFAULT_RULES ! i" "dr_condition d ts"
    by (auto simp: matching_rule_def find_Some_iff)
  then have "d \<in> set DEFAULT_RULES" "dr_condition d ts" by (metis nth_mem set_sort)+
  then show ?thesis using assms Some default_rule_permutes by (auto simp: decomposition_plan_def)
qed

section \<open>The types that are detected\<close>

lemma dict_ok_foldl_set: "dict_ok d \<Longrightarrow> dict_ok (foldl (\<lambda>d (i, t). dict_set t (f i) d) d xs)"
  by (induction xs arbitrary: d) (simp_all add: case_prod_unfold)

lemma detected_ok: "dict_ok (rt_patterns r) \<Longrightarrow> dict_ok (detected_tasks r low s)"
proof (cases "model_found_more r")
  case True
  have "dict_ok [(opt_or (routed_task_type s) ''general'', 100::int)]" by (simp add: dict_ok_def)
  then show ?thesis using True by (simp add: detected_tasks_def dict_ok_foldl_set)
next
  case False
  assume "dict_ok (rt_patterns r)"
  then show ?thesis using False
    by (simp add: detected_tasks_def dict_ok_def case_prod_unfold comp_def distinct_map_filter)
qed

lemma detected_distinct: "dict_ok (rt_patterns r) \<Longrightarrow> distinct (map fst (rank_by snd (detected_tasks r low s)))"
proof -
  assume "dict_ok (rt_patterns r)"
  then have d: "distinct (map fst (detected_tasks r low s))" using detected_ok by (simp add: dict_ok_def)
  have "mset (map fst (rank_by snd (detected_tasks r low s))) = mset (map fst (detected_tasks r low s))"
    by (simp add: rank_by_mset)
  then show ?thesis by (rule mset_eq_imp_distinct_iff [THEN iffD2, OF _ d])
qed

section \<open>What a router that was set up relies on\<close>

definition router_ok :: "router \<Rightarrow> bool" where
  "router_ok r \<longleftrightarrow> dict_ok (rt_patterns r) \<and> rt_rules r = DEFAULT_RULES"

lemma new_router_ok: "router_ok (new_router skill_types mode th model None)"
  by (simp add: router_ok_def new_router_def Let_def task_patterns_def dict_ok_populate [OF dict_ok_default])

lemma route_classify_ok: "route_classify env f r spec = (tx, r') \<Longrightarrow> router_ok r' = router_ok r"
  using route_classify_frame [of env f r spec tx r'] by (simp add: router_ok_def)

text \<open>The sub-tasks of a decomposition: what was detected, in the order of the plan, at most five.\<close>

lemma decompose_sub_tasks:
  assumes "router_ok r"
  shows "\<exists>ordered. mset ordered = mset (map fst (detected_tasks r (py_lower (opt_or (spec_text s) '''')) s))
    \<and> distinct ordered
    \<and> sub_tasks (decompose_into_subtasks r s)
        = Some (map (new_sub_task r (opt_or (spec_text s) '''') (opt_or (parallel_execution (decompose_into_subtasks r s)) False)
            (take 5 ordered)) (enumerate 0 (take 5 ordered)))"
proof -
  let ?types = "map fst (rank_by snd (detected_tasks r (py_lower (opt_or (spec_text s) '''')) s))"
  obtain together strategy ordered where p: "decomposition_plan DEFAULT_RULES ?types = (together, strategy, ordered)"
    by (metis prod_cases3)
  have d: "distinct ?types" by (rule detected_distinct) (use assms in \<open>simp add: router_ok_def\<close>)
  have m: "mset ordered = mset ?types" by (rule decomposition_plan_permutes [OF p d])
  then have "mset ordered = mset (map fst (detected_tasks r (py_lower (opt_or (spec_text s) '''')) s))"
    by (simp add: rank_by_mset)
  moreover have "distinct ordered" by (rule mset_eq_imp_distinct_iff [THEN iffD2, OF m d])
  moreover have "rt_rules r = DEFAULT_RULES" using assms by (simp add: router_ok_def)
  ultimately show ?thesis using p by (auto simp: decompose_into_subtasks_def Let_def)
qed

lemma decompose_frame:
  "specialist_iteration_count (decompose_into_subtasks r s) = specialist_iteration_count s"
  "specialist_max_iterations (decompose_into_subtasks r s) = specialist_max_iterations s"
  "current_sub_task_index (decompose_into_subtasks r s) = Some 0"
  by (simp_all add: decompose_into_subtasks_def Let_def split: prod.splits)

lemma new_sub_task_simps:
  "t_task_type (new_sub_task r spec together types (i, t)) = Some t"
  "t_iteration_count (new_sub_task r spec together types (i, t)) = Some 0"
  "t_max_iterations (new_sub_task r spec together types (i, t)) = Some 3"
  "t_status (new_sub_task r spec together types (i, t)) = Some ''pending''"
  "t_id (new_sub_task r spec together types (i, t)) = Some (int i)"
  by (simp_all add: new_sub_task_def Let_def)

lemma discover_frame:
  assumes "discover_skills f s w = (s', w')"
  shows "sub_tasks s' = sub_tasks s" "specialist_iteration_count s' = specialist_iteration_count s"
    "specialist_max_iterations s' = specialist_max_iterations s" "current_sub_task_index s' = current_sub_task_index s"
    "requires_decomposition s' = requires_decomposition s" "parallel_execution s' = parallel_execution s"
    "routed_task_type s' = routed_task_type s" "cache_hit s' = cache_hit s"
  using assms by (auto simp: discover_skills_def Let_def split: prod.splits list.splits if_splits)

lemma decide_route_cases:
  "\<exists>r'. router_ok r' = router_ok r \<and>
     ((\<exists>t x. decide_route env r s = (single_specialist r' t x s, r')) \<or>
      (\<exists>t x. decide_route env r s =
         ((decompose_into_subtasks r' (s\<lparr>routed_task_type := Some t, routing_confidence := Some x\<rparr>))
           \<lparr>requires_decomposition := Some True\<rparr>, r')))"
proof (cases "opt_or (routed_task_type s) '''' \<noteq> ''''")
  case True
  then show ?thesis by (intro exI [of _ r]) (auto simp: decide_route_def)
next
  case False
  obtain t x r' where c: "route_classify env (opt_or (complexity_tier s) '''' = ''fast'') r (routed_text s) = ((t, x), r')"
    by (metis prod.exhaust)
  show ?thesis
    using False c route_classify_ok [OF c] by (intro exI [of _ r']) (auto simp: decide_route_def)
qed

section \<open>Properties\<close>

text \<open>C28: The limits the agent graph's termination rests on: from a state within them, the router leaves at most five sub-tasks,
  with at most three refinements left to each and to a single specialist.\<close>

theorem router_keeps_limits:
  assumes "router_ok r" and "routed_within 5 3 s"
  shows "routed_within 5 3 (fst (fst (execute_router env f r s w)))"
proof -
  obtain s1 r1 where d: "decide_route env r s = (s1, r1)" by (cases "decide_route env r s")
  obtain s2 w1 where k: "discover_skills f s1 w = (s2, w1)" by (cases "discover_skills f s1 w")
  have "routed_within 5 3 s1"
  proof -
    obtain r' where r': "router_ok r'" and c: "(\<exists>t x. (s1, r1) = (single_specialist r' t x s, r')) \<or>
      (\<exists>t x. (s1, r1) = ((decompose_into_subtasks r' (s\<lparr>routed_task_type := Some t, routing_confidence := Some x\<rparr>))
           \<lparr>requires_decomposition := Some True\<rparr>, r'))"
      using decide_route_cases [of r env s] assms(1) unfolding d by blast
    from c show ?thesis
    proof
      assume "\<exists>t x. (s1, r1) = (single_specialist r' t x s, r')"
      then show ?thesis using assms(2) by (auto simp: routed_within_def single_specialist_def)
    next
      assume "\<exists>t x. (s1, r1) = ((decompose_into_subtasks r' (s\<lparr>routed_task_type := Some t, routing_confidence := Some x\<rparr>))
           \<lparr>requires_decomposition := Some True\<rparr>, r')"
      then obtain t x where s1: "s1 = (decompose_into_subtasks r' (s\<lparr>routed_task_type := Some t, routing_confidence := Some x\<rparr>))
           \<lparr>requires_decomposition := Some True\<rparr>" by auto
      obtain ordered together where st: "sub_tasks s1 = Some (map (new_sub_task r' (opt_or (spec_text s) '''') together
          (take 5 ordered)) (enumerate 0 (take 5 ordered)))"
        using decompose_sub_tasks [OF r', of "s\<lparr>routed_task_type := Some t, routing_confidence := Some x\<rparr>"] s1 by auto
      have "list_all (\<lambda>t. opt_or (t_max_iterations t) 3 - opt_or (t_iteration_count t) 0 \<le> 3) (opt_or (sub_tasks s1) [])"
        unfolding st by (auto simp: list_all_iff new_sub_task_def Let_def)
      moreover have "length (opt_or (sub_tasks s1) []) \<le> 5" unfolding st by simp
      ultimately show ?thesis using assms(2) by (simp add: routed_within_def s1 decompose_frame)
    qed
  qed
  then have "routed_within 5 3 s2" using discover_frame [OF k] by (simp add: routed_within_def)
  then show ?thesis by (simp add: execute_router_def d k)
qed

lemma without_absent: "x \<notin> set xs \<Longrightarrow> without [x] xs = xs"
  by (induction xs) (auto simp: without_def)

lemma siblings_before: "distinct types \<Longrightarrow> i < length types \<Longrightarrow> take i (without [types ! i] types) = take i types"
proof -
  assume d: "distinct types" "i < length types"
  define a x b where "a = take i types" and "x = types ! i" and "b = drop (Suc i) types"
  have t: "types = a @ x # b" unfolding a_def x_def b_def using d(2) by (rule id_take_nth_drop)
  have l: "length a = i" using d(2) by (simp add: a_def)
  have "x \<notin> set a" "x \<notin> set b" using d(1) unfolding t by auto
  then have "without [x] types = a @ b" using without_absent unfolding t by (simp add: without_def)
  then have "take i (without [x] types) = a" using l by simp
  then show ?thesis unfolding x_def a_def .
qed

text \<open>A decomposition names each concern once: its sub-tasks are the detected types, in some order and up to the fifth,
  numbered from 0, all pending.\<close>

theorem decomposition_names_each_concern:
  assumes "router_ok r"
  shows "\<exists>ordered ts. mset ordered = mset (map fst (detected_tasks r (py_lower (opt_or (spec_text s) '''')) s))
    \<and> distinct ordered \<and> sub_tasks (decompose_into_subtasks r s) = Some ts
    \<and> map t_task_type ts = map Some (take 5 ordered)
    \<and> map t_id ts = map (Some \<circ> int) [0..<length ts]
    \<and> list_all (\<lambda>t. t_status t = Some ''pending'' \<and> t_iteration_count t = Some 0 \<and> t_max_iterations t = Some 3) ts"
proof -
  obtain ordered together where o: "mset ordered = mset (map fst (detected_tasks r (py_lower (opt_or (spec_text s) '''')) s))"
      "distinct ordered"
    and st: "sub_tasks (decompose_into_subtasks r s) = Some (map (new_sub_task r (opt_or (spec_text s) '''') together
          (take 5 ordered)) (enumerate 0 (take 5 ordered)))"
    using decompose_sub_tasks [OF assms, of s] by blast
  let ?n = "new_sub_task r (opt_or (spec_text s) '''') together (take 5 ordered)"
  let ?ts = "map ?n (enumerate 0 (take 5 ordered))"
  have "map t_task_type ?ts = map (Some \<circ> snd) (enumerate 0 (take 5 ordered))"
    by (simp add: new_sub_task_def Let_def case_prod_unfold comp_def)
  also have "\<dots> = map Some (take 5 ordered)" by (simp add: map_map [symmetric] del: map_map)
  finally have 1: "map t_task_type ?ts = map Some (take 5 ordered)" .
  have "map t_id ?ts = map (Some \<circ> int \<circ> fst) (enumerate 0 (take 5 ordered))"
    by (simp add: new_sub_task_def Let_def case_prod_unfold comp_def)
  also have "\<dots> = map (Some \<circ> int) [0..<length ?ts]" by (simp add: map_map [symmetric] del: map_map)
  finally have 2: "map t_id ?ts = map (Some \<circ> int) [0..<length ?ts]" .
  have 3: "list_all (\<lambda>t. t_status t = Some ''pending'' \<and> t_iteration_count t = Some 0 \<and> t_max_iterations t = Some 3) ?ts"
    by (auto simp: list_all_iff new_sub_task_simps)
  show ?thesis using o st 1 2 3 by blast
qed

text \<open>A sub-task of a plan that runs in sequence is told exactly the concerns that run before it.\<close>

theorem sub_task_told_its_predecessors:
  assumes "distinct types" and "0 < i" and "i < length types"
  shows "\<exists>a. t_specification (new_sub_task r spec False types (i, types ! i))
    = Some (a @ nl @ ''This task runs after: '' @ join_with '', '' (map (task_label r) (take i types)) @
              ''. You may assume their outputs are available.'')"
  using siblings_before [OF assms(1,3)] assms(2)
  by (simp add: new_sub_task_def Let_def generate_sub_task_spec_def)

definition plain_router :: router where
  "plain_router = new_router [] ''hybrid'' (6 / 10) True None"

theorem sub_task_told_its_predecessors_witness:
  "\<exists>a. t_specification (new_sub_task plain_router ''add a parser'' False [''code_generation'', ''test_generation'']
        (1, [''code_generation'', ''test_generation''] ! 1))
    = Some (a @ nl @ ''This task runs after: '' @
        join_with '', '' (map (task_label plain_router) (take 1 [''code_generation'', ''test_generation''])) @
        ''. You may assume their outputs are available.'')"
  by (rule sub_task_told_its_predecessors) simp_all

section \<open>Hybrid mode\<close>

lemma classify_task_regex_secondary [simp]:
  "classify_task_regex (r\<lparr>rt_secondary := x\<rparr>) spec = classify_task_regex r spec"
  by (simp add: classify_task_regex_def type_scores_def weights_for_def)

text \<open>In hybrid mode a text whose best type is one of the four is always put to the model, however many of the type's
  patterns it matches: the patterns with capital letters are searched in the text made small.\<close>

theorem hybrid_always_asks:
  assumes "r = new_router skill_types ''hybrid'' th True None"
    and "classify_task_regex r spec = (t, x)"
    and "t \<in> {''security_audit'', ''documentation'', ''api_development'', ''database_operations''}"
  shows "route_classify env False r spec = classify_task_llm env (r\<lparr>rt_secondary := Some []\<rparr>) spec"
proof -
  have "map tt_name NEVER_CONFIDENT = [''security_audit'', ''documentation'', ''api_development'', ''database_operations'']"
    by code_simp
  moreover have "t \<in> set [''security_audit'', ''documentation'', ''api_development'', ''database_operations'']"
    using assms(3) by simp
  ultimately have "t \<in> set (map tt_name NEVER_CONFIDENT)" by metis
  then obtain e where e: "e \<in> set NEVER_CONFIDENT" "t = tt_name e" by auto
  have n: "x < tt_threshold e \<and> dict_get (rt_thresholds r) (tt_name e) = Some (tt_threshold e)"
    by (rule never_confident [OF e(1) assms(1), of r]) (use assms(2) e(2) in simp_all)
  then have "\<not> x \<ge> dict_get_or (rt_thresholds r) t (rt_threshold r)" by (simp add: dict_get_or_def e(2))
  moreover have "rt_mode r = ''hybrid''" by (simp add: assms(1) new_router_def Let_def)
  ultimately show ?thesis using assms(2) by (simp add: route_classify_def Let_def)
qed

definition security_text :: string where
  "security_text = ''encrypt, sanitize and authenticate: a security and vulnerability check''"

lemma security_text_type: "fst (classify_task_regex plain_router security_text) = ''security_audit''"
  by code_simp

definition silent_env :: model_env where
  "silent_env = \<lparr>me_generate = (\<lambda>p b. Inr ''security_audit''), me_name = ''base'', me_digest = (\<lambda>s. s),
     me_loads = (\<lambda>s. None), me_float = (\<lambda>s. None)\<rparr>"

theorem hybrid_always_asks_witness:
  "route_classify silent_env False plain_router security_text
    = classify_task_llm silent_env (plain_router\<lparr>rt_secondary := Some []\<rparr>) security_text"
  using hybrid_always_asks [OF plain_router_def, of security_text "''security_audit''"
      "snd (classify_task_regex plain_router security_text)" silent_env]
    security_text_type
  by (metis insertI1 prod.collapse)

section \<open>Decompositions without sub-tasks\<close>

lemma detected_significant:
  assumes "\<not> model_found_more r" "(t, x) \<in> set (significant_matches r low)"
  shows "t \<in> set (map fst (detected_tasks r low s))"
proof -
  obtain ps where ps: "(t, ps) \<in> set (rt_patterns r)" "t \<noteq> ''general''" "15 / 100 \<le> pattern_score (weights_for r t) ps low"
    using assms(2) by (auto simp: significant_matches_def)
  have "filter (\<lambda>p. re_search False p low) ps \<noteq> []"
  proof
    assume "filter (\<lambda>p. re_search False p low) ps = []"
    then have "pattern_score (weights_for r t) ps low = 0" by (simp add: pattern_score_def Let_def)
    then show False using ps(3) by simp
  qed
  then have "(t, int (length (filter (\<lambda>p. re_search False p low) ps))) \<in> set (detected_tasks r low s)"
    using ps(1,2) assms(1) by (force simp: detected_tasks_def)
  then show ?thesis by force
qed

text \<open>A decomposition can be empty only when it was one of the indicators that asked for it: the matches of two types and
  the categories of the model each leave something to do.\<close>

theorem empty_decomposition_by_indicator:
  assumes "router_ok r" and "needs_decomposition r spec" and "spec_text s = Some spec"
    and "sub_tasks (decompose_into_subtasks r s) = Some []"
  shows "list_ex (\<lambda>p. re_search False p (py_lower spec)) MULTI_SPECIALIST_INDICATORS"
proof -
  obtain ordered together where o: "mset ordered = mset (map fst (detected_tasks r (py_lower spec) s))"
      "sub_tasks (decompose_into_subtasks r s) = Some (map (new_sub_task r spec together (take 5 ordered)) (enumerate 0 (take 5 ordered)))"
    using decompose_sub_tasks [OF assms(1), of s] assms(3) by auto
  then have "enumerate 0 (take 5 ordered) = []" using assms(4) by simp
  then have "length (take 5 ordered) = 0" by (metis length_enumerate list.size(3))
  then have "ordered = []" by (cases ordered) simp_all
  then have none: "detected_tasks r (py_lower spec) s = []" using o(1) by simp
  have m: "\<not> model_found_more r"
  proof
    assume m: "model_found_more r"
    have "foldl (\<lambda>d (i, t). dict_set t (50 - int i * 10) d) d xs = [] \<Longrightarrow> d = []" for d :: "(string, int) py_dict" and xs
    proof (induction xs arbitrary: d)
      case (Cons x xs)
      have "dict_set a b d \<noteq> []" for a b using dict_keys_set [of a b d] by (auto simp: dict_keys_def)
      with Cons show ?case by (cases x) auto
    qed simp
    then show False using none m by (fastforce simp: detected_tasks_def)
  qed
  have "significant_matches r (py_lower spec) = []"
    using detected_significant [OF m, of _ _ "py_lower spec" s] none by (cases "significant_matches r (py_lower spec)") auto
  then show ?thesis using assms(2) m by (simp add: needs_decomposition_def split: if_splits)
qed

text \<open>And this happens: of the request for tests and docs nothing is left but the error message of the aggregator.\<close>

definition regex_router :: router where
  "regex_router = new_router [] ''hybrid'' (6 / 10) False None"

lemma tests_and_docs:
  "needs_decomposition regex_router ''Tests and docs''"
  "detected_tasks regex_router (py_lower ''Tests and docs'') empty_state = []"
  by code_simp+

lemma regex_router_mode: "\<not> model_found_more (regex_router\<lparr>rt_secondary := x\<rparr>)"
  by (simp add: model_found_more_def regex_router_def new_router_def Let_def)

lemma detected_state: "\<not> model_found_more r \<Longrightarrow> detected_tasks r low s = detected_tasks r low s'"
  by (simp add: detected_tasks_def)

theorem request_lost_in_decomposition:
  "case router_wrapper env f [] False (empty_state\<lparr>user_request := Some ''Tests and docs''\<rparr>) w of (s, w') \<Rightarrow>
     requires_decomposition s = Some True \<and> sub_tasks s = Some []
     \<and> cache_hit_or_miss s = Inr (''parallel_decompose'', s)
     \<and> execute_parallel_subtasks nodes yielded s = s
     \<and> gr_output (aggregate fmt registry (opt_or (sub_tasks s) []) strategy req spec used)
         = ''Error: No sub-tasks completed successfully.''"
proof -
  let ?q = "''Tests and docs''"
  let ?s0 = "empty_state\<lparr>user_request := Some ?q, spec_text := Some ?q\<rparr>"
  let ?r = "regex_router\<lparr>rt_secondary := Some []\<rparr>"
  have q: "routed_text ?s0 = ?q" by (simp add: routed_text_def)
  have mode: "rt_mode regex_router = ''regex''" by (simp add: regex_router_def new_router_def Let_def)
  obtain t x where c: "classify_task_regex regex_router ?q = (t, x)" by (cases "classify_task_regex regex_router ?q")
  then have tx: "route_classify env False regex_router ?q = ((t, x), ?r)"
    by (simp add: route_classify_def Let_def mode)
  let ?s1 = "?s0\<lparr>routed_task_type := Some t, routing_confidence := Some x\<rparr>"
  have m: "\<not> model_found_more ?r" "\<not> model_found_more regex_router"
    using regex_router_mode by (simp_all add: model_found_more_def regex_router_def new_router_def Let_def)
  have need: "needs_decomposition ?r ?q"
    using tests_and_docs(1) m by (simp add: needs_decomposition_def significant_matches_def weights_for_def)
  have det: "detected_tasks ?r (py_lower ?q) ?s1 = []"
    using tests_and_docs(2) m by (simp add: detected_tasks_def)
  have rules: "rt_rules ?r = DEFAULT_RULES" by (simp add: regex_router_def new_router_def Let_def)
  have plan: "decomposition_plan DEFAULT_RULES [] = (True, ''merge'', [])" by code_simp
  have dec: "sub_tasks (decompose_into_subtasks ?r ?s1) = Some [] \<and> parallel_execution (decompose_into_subtasks ?r ?s1) = Some True
      \<and> cache_hit (decompose_into_subtasks ?r ?s1) = None"
    unfolding decompose_into_subtasks_def using det rules plan by (simp add: Let_def rank_by_def empty_state_def)
  have dr: "decide_route env regex_router ?s0 = ((decompose_into_subtasks ?r ?s1)\<lparr>requires_decomposition := Some True\<rparr>, ?r)"
    using tx need q by (simp add: decide_route_def empty_state_def)
  obtain s2 w2 where k: "discover_skills f ((decompose_into_subtasks ?r ?s1)\<lparr>requires_decomposition := Some True\<rparr>) w = (s2, w2)"
    by (cases "discover_skills f ((decompose_into_subtasks ?r ?s1)\<lparr>requires_decomposition := Some True\<rparr>) w")
  have "router_wrapper env f [] False (empty_state\<lparr>user_request := Some ?q\<rparr>) w = (s2, w2)"
    using k dr by (simp add: router_wrapper_def route_to_specialist_def execute_router_def regex_router_def)
  then show ?thesis
    using discover_frame [OF k] dec
    by (simp add: cache_hit_or_miss_def execute_parallel_subtasks_def Let_def aggregate_def)
qed

section \<open>Instances\<close>

definition no_skills :: "unit skill_finder" where
  "no_skills = \<lparr>sf_find = (\<lambda>t w. ((''ephemeral'', None, None), w)), sf_find_all = (\<lambda>t w. ([], w))\<rparr>"

lemma regex_router_ok: "router_ok regex_router"
  unfolding regex_router_def by (rule new_router_ok)

theorem router_keeps_limits_witness:
  "routed_within 5 3 (fst (fst (execute_router silent_env no_skills regex_router empty_state ())))"
  by (rule router_keeps_limits [OF regex_router_ok]) (simp add: routed_within_def empty_state_def)

theorem decomposition_names_each_concern_witness:
  "\<exists>ordered ts. distinct ordered \<and> sub_tasks (decompose_into_subtasks regex_router empty_state) = Some ts
    \<and> map t_task_type ts = map Some (take 5 ordered)"
  using decomposition_names_each_concern [OF regex_router_ok, of empty_state] by blast

theorem empty_decomposition_by_indicator_witness:
  "list_ex (\<lambda>p. re_search False p (py_lower ''Tests and docs'')) MULTI_SPECIALIST_INDICATORS"
proof (rule empty_decomposition_by_indicator [OF regex_router_ok tests_and_docs(1)])
  let ?s = "empty_state\<lparr>spec_text := Some ''Tests and docs''\<rparr>"
  show "spec_text ?s = Some ''Tests and docs''" by simp
  have "\<not> model_found_more regex_router"
    using regex_router_mode by (simp add: model_found_more_def regex_router_def new_router_def Let_def)
  then have d: "detected_tasks regex_router (py_lower ''Tests and docs'') ?s = []"
    using tests_and_docs(2) by (metis detected_state)
  have r: "rt_rules regex_router = DEFAULT_RULES" by (simp add: regex_router_def new_router_def Let_def)
  have p: "decomposition_plan DEFAULT_RULES [] = (True, ''merge'', [])" by code_simp
  show "sub_tasks (decompose_into_subtasks regex_router ?s) = Some []"
    unfolding decompose_into_subtasks_def using d r p by (simp add: Let_def rank_by_def)
qed

end
