(* ===== verification/Intent_Classifier.thy ===== *)
theory Intent_Classifier
  imports Py_Regex Agent_State Py_Strings
begin

text \<open>
  \<^verbatim>\<open>agents/intent_classifier.py\<close>: the first stage of the graph, which tells requests for code from questions, research and
  planning by the strongest pattern found.
\<close>

text \<open>\<open>^w\b\<close> and \<open>\bw\b\<close>.\<close>

definition opens :: "string \<Rightarrow> regex" where
  "opens w = rseq [RStart, RStr w, RBoundary]"

definition whole :: "string \<Rightarrow> regex" where
  "whole w = rseq [RBoundary, RStr w, RBoundary]"

section \<open>Patterns\<close>

definition conversational_patterns :: "regex list" where
  "conversational_patterns =
     [opens ''what is'', opens ''what are'', opens (''what'' @ [CHR 0x27] @ ''s''), opens ''how does'',
      opens ''how do'', opens ''why'', opens ''explain'', opens ''describe'', opens ''compare'',
      opens ''difference between'', opens ''when should I'', opens ''can you explain'', opens ''tell me about'',
      rseq [RStart, RStr ''what'', rdots, RStr ''mean'', RBoundary], whole ''vs'', whole ''versus'']"

definition research_patterns :: "regex list" where
  "research_patterns =
     [opens ''research'', rseq [RStart, RStr ''find'', rdots, RStr ''doc''], opens ''look up'', opens ''search for'',
      rseq [RStart, RStr ''show me'', rdots, RStr ''doc''], rseq [RStart, RStr ''get'', rdots, RStr ''doc''],
      rseq [RStart, RStr ''fetch'', rdots, RStr ''doc''], whole ''documentation for'',
      rseq [RBoundary, RStr ''official'', rdots, RStr ''doc''],
      rseq [RBoundary, RStr ''latest'', rdots, RStr ''version''], whole ''release notes'']"

definition planning_patterns :: "regex list" where
  "planning_patterns =
     [opens ''design'', rseq [RStart, RStr ''architect''], opens ''plan'', opens ''should i use'',
      rseq [RStart, RStr ''which'', rdots, RStr ''should'', RBoundary], opens ''recommend'', opens ''suggest'',
      opens ''advise'', whole ''best approach'', whole ''best way to'',
      rseq [RBoundary, RStr ''trade'', rdots, RStr ''off''],
      rseq [RBoundary, RStr ''pros'', rdots, RStr ''cons'', RBoundary], whole ''when to use'',
      whole ''choose between'', whole ''architecture for'', whole ''design pattern'',
      rseq [RBoundary, RStr ''design'', rdots, RStr ''system'', RBoundary],
      rseq [RBoundary, RStr ''which'', rdots, RStr ''should'', rdots, RStr ''use'', RBoundary],
      whole ''technology stack'', rseq [RBoundary, RStr ''choose'', rdots, RStr ''technolog'', RBoundary],
      rseq [RBoundary, RStr ''architecture'', rdots, RStr ''pattern'', RBoundary],
      rseq [RBoundary, RStr ''system'', rdots, RStr ''design'', RBoundary]]"

definition code_generation_patterns :: "regex list" where
  "code_generation_patterns =
     [whole ''write'', whole ''implement'', whole ''create'', whole ''generate'', whole ''build'', whole ''add'',
      whole ''fix'', whole ''refactor'', rseq [RBoundary, RStr ''optimiz''], whole ''test'', whole ''debug'',
      whole ''function'', whole ''class'', whole ''module'', whole ''API'', whole ''endpoint'']"

definition conversational_weights :: "(regex, real) py_dict" where
  "conversational_weights =
     [(opens ''what is'', 3), (opens ''what are'', 3), (opens ''how does'', 3), (opens ''explain'', 3),
      (opens ''compare'', 3), (opens ''difference between'', 3), (opens ''describe'', 5 / 2), (opens ''why'', 2),
      (opens ''tell me about'', 2), (opens ''can you explain'', 5 / 2),
      (opens (''what'' @ [CHR 0x27] @ ''s''), 5 / 2), (whole ''vs'', 2), (whole ''versus'', 2),
      (opens ''when should I'', 3 / 2), (rseq [RStart, RStr ''what'', rdots, RStr ''mean'', RBoundary], 2),
      (opens ''how do'', 2)]"

definition research_weights :: "(regex, real) py_dict" where
  "research_weights =
     [(opens ''research'', 3), (rseq [RStart, RStr ''find'', rdots, RStr ''doc''], 3), (opens ''look up'', 5 / 2),
      (opens ''search for'', 2), (rseq [RBoundary, RStr ''official'', rdots, RStr ''doc''], 5 / 2),
      (rseq [RBoundary, RStr ''latest'', rdots, RStr ''version''], 2), (whole ''release notes'', 5 / 2),
      (rseq [RStart, RStr ''show me'', rdots, RStr ''doc''], 2),
      (rseq [RStart, RStr ''get'', rdots, RStr ''doc''], 2), (rseq [RStart, RStr ''fetch'', rdots, RStr ''doc''], 2),
      (whole ''documentation for'', 2)]"

definition planning_weights :: "(regex, real) py_dict" where
  "planning_weights =
     [(opens ''design'', 5 / 2), (rseq [RStart, RStr ''architect''], 3), (opens ''should i use'', 5 / 2),
      (rseq [RStart, RStr ''which'', rdots, RStr ''should'', RBoundary], 2), (opens ''recommend'', 5 / 2),
      (whole ''architecture for'', 3), (whole ''design pattern'', 5 / 2),
      (rseq [RBoundary, RStr ''trade'', rdots, RStr ''off''], 5 / 2),
      (rseq [RBoundary, RStr ''pros'', rdots, RStr ''cons'', RBoundary], 5 / 2), (whole ''best approach'', 2),
      (whole ''best way to'', 2), (opens ''plan'', 2), (opens ''suggest'', 2), (opens ''advise'', 2),
      (whole ''when to use'', 3 / 2), (whole ''choose between'', 2),
      (rseq [RBoundary, RStr ''design'', rdots, RStr ''system'', RBoundary], 5 / 2),
      (rseq [RBoundary, RStr ''which'', rdots, RStr ''should'', rdots, RStr ''use'', RBoundary], 5 / 2),
      (whole ''technology stack'', 3),
      (rseq [RBoundary, RStr ''choose'', rdots, RStr ''technolog'', RBoundary], 5 / 2),
      (rseq [RBoundary, RStr ''architecture'', rdots, RStr ''pattern'', RBoundary], 5 / 2),
      (rseq [RBoundary, RStr ''system'', rdots, RStr ''design'', RBoundary], 5 / 2)]"

definition code_generation_weights :: "(regex, real) py_dict" where
  "code_generation_weights =
     [(whole ''write'', 2), (whole ''implement'', 5 / 2), (whole ''create'', 2), (whole ''generate'', 5 / 2),
      (whole ''build'', 2), (whole ''fix'', 5 / 2), (whole ''refactor'', 5 / 2),
      (rseq [RBoundary, RStr ''optimiz''], 2), (whole ''function'', 3 / 2), (whole ''class'', 3 / 2),
      (whole ''module'', 3 / 2), (whole ''API'', 1), (whole ''add'', 3 / 2), (whole ''test'', 3 / 2),
      (whole ''debug'', 3 / 2), (whole ''endpoint'', 3 / 2)]"

definition intent_patterns :: "(string, regex list) py_dict" where
  "intent_patterns =
     [(''conversational'', conversational_patterns), (''research'', research_patterns), (''planning'', planning_patterns),
      (''code_generation'', code_generation_patterns)]"

definition intent_weights :: "(string, (regex, real) py_dict) py_dict" where
  "intent_weights =
     [(''conversational'', conversational_weights), (''research'', research_weights), (''planning'', planning_weights),
      (''code_generation'', code_generation_weights)]"

definition confidence_thresholds :: "(string, real) py_dict" where
  "confidence_thresholds =
     [(''conversational'', 3 / 10), (''research'', 4 / 10), (''planning'', 35 / 100), (''code_generation'', 2 / 10)]"

section \<open>Classification\<close>

text \<open>The weight of the strongest pattern found, as a share of the greatest weight.\<close>

definition strongest :: "(regex, real) py_dict \<Rightarrow> regex list \<Rightarrow> string \<Rightarrow> real" where
  "strongest ws ps req = foldl (\<lambda>m p. if re_search False p req then max m (dict_get_or ws p 1) else m) 0 ps"

definition intent_scores :: "string \<Rightarrow> (string \<times> real) list" where
  "intent_scores req = map (\<lambda>(i, ps). (i, strongest (dict_get_or intent_weights i []) ps req / 3)) intent_patterns"

definition classify_request :: "string \<Rightarrow> string \<times> real" where
  "classify_request user_req =
     (if py_strip user_req = [] then (''code_generation'', 5 / 10)
      else case max_item snd (intent_scores (py_strip (py_lower user_req))) of
             None \<Rightarrow> (''code_generation'', 5 / 10)
           | Some (i, x) \<Rightarrow>
               if x < dict_get_or confidence_thresholds i (5 / 10) then (''code_generation'', 6 / 10) else (i, x))"

definition classify_intent :: "agent_state \<Rightarrow> agent_state" where
  "classify_intent s =
     (case classify_request (opt_or (user_request s) '''') of
        (i, x) \<Rightarrow> s\<lparr>intent := Some i, intent_confidence := Some x\<rparr>)"

section \<open>Lemmas\<close>

lemma strongest_bounds:
  assumes "\<forall>(p, w) \<in> set ws. 0 \<le> w \<and> w \<le> b" "1 \<le> b"
  shows "0 \<le> strongest ws ps req \<and> strongest ws ps req \<le> b"
proof -
  have w: "dict_get_or ws p 1 \<le> b" for p
  proof (cases "map_of ws p")
    case (Some w)
    then show ?thesis using assms(1) map_of_SomeD [OF Some] by (auto simp: dict_get_or_def dict_get_def)
  qed (use assms(2) in \<open>simp add: dict_get_or_def dict_get_def\<close>)
  show ?thesis unfolding strongest_def
    by (rule foldl_invariant) (use assms w in \<open>auto simp: le_max_iff_disj\<close>)
qed

lemma intent_weights_ok:
  "list_all (\<lambda>(i, ps). list_all (\<lambda>(p, w). 0 \<le> w \<and> w \<le> 3) (dict_get_or intent_weights i [])) intent_patterns"
  by code_simp

lemma intent_scores_bounds:
  assumes "(i, x) \<in> set (intent_scores req)"
  shows "i \<in> set (dict_keys intent_patterns) \<and> 0 \<le> x \<and> x \<le> 1"
proof -
  obtain ps where ps: "(i, ps) \<in> set intent_patterns" "x = strongest (dict_get_or intent_weights i []) ps req / 3"
    using assms by (auto simp: intent_scores_def)
  have "\<forall>(p, w) \<in> set (dict_get_or intent_weights i []). 0 \<le> w \<and> w \<le> 3"
    using intent_weights_ok ps(1) by (auto simp: list_all_iff)
  then have "0 \<le> x \<and> x \<le> 1" using strongest_bounds [of "dict_get_or intent_weights i []" 3 ps req] ps(2) by simp
  then show ?thesis using ps(1) by (force simp: dict_keys_def)
qed

definition INTENTS :: "string list" where
  "INTENTS = [''conversational'', ''research'', ''planning'', ''code_generation'']"

lemma intent_keys: "dict_keys intent_patterns = INTENTS"
  by (simp add: dict_keys_def intent_patterns_def INTENTS_def)

text \<open>The patterns that no request matches: they need a capital letter, and the request is made small.\<close>

lemma dead_intent_patterns:
  "p \<in> {opens ''when should I'', whole ''API''} \<Longrightarrow> \<not> re_search False p (py_strip (py_lower req))"
proof -
  assume p: "p \<in> {opens ''when should I'', whole ''API''}"
  have "needs upper_case (opens ''when should I'')" "needs upper_case (whole ''API'')" by code_simp+
  then have n: "needs upper_case p" using p by blast
  have "set (py_strip (py_lower req)) \<subseteq> set (py_lower req)"
    using strip_decomp [of "py_lower req"] by (metis Un_iff set_append subsetI)
  then have "\<forall>c \<in> set (py_strip (py_lower req)). \<not> upper_case c" by (auto simp: py_lower_def upper_case_def)
  then show ?thesis by (rule re_search_needs [OF n])
qed

section \<open>Properties\<close>

text \<open>Every request gets one of the four intents, with a confidence between 0 and 1 that reaches the
  threshold of the intent.\<close>

theorem intent_meets_threshold:
  "\<exists>i x. classify_request req = (i, x) \<and> i \<in> set INTENTS \<and> 0 \<le> x \<and> x \<le> 1 \<and> x \<ge> dict_get_or confidence_thresholds i (5 / 10)"
proof -
  have c: "dict_get_or confidence_thresholds ''code_generation'' (5 / 10) = 2 / 10"
    by (simp add: confidence_thresholds_def dict_get_or_def dict_get_def)
  have k: "''code_generation'' \<in> set INTENTS" by (simp add: INTENTS_def)
  show ?thesis
  proof (cases "py_strip req = [] \<or> max_item snd (intent_scores (py_strip (py_lower req))) = None")
    case True
    then have "classify_request req = (''code_generation'', 5 / 10)" by (auto simp: classify_request_def)
    then show ?thesis using c k by (intro exI [of _ "''code_generation''"] exI [of _ "5 / 10 :: real"]) simp
  next
    case False
    then obtain i x where m: "max_item snd (intent_scores (py_strip (py_lower req))) = Some (i, x)"
      by (cases "max_item snd (intent_scores (py_strip (py_lower req)))") (simp, metis prod.exhaust)
    note b = intent_scores_bounds [OF max_item_Some(1) [OF m], unfolded intent_keys]
    show ?thesis
    proof (cases "x < dict_get_or confidence_thresholds i (5 / 10)")
      case True
      then have "classify_request req = (''code_generation'', 6 / 10)" using False m by (simp add: classify_request_def)
      then show ?thesis using c k by (intro exI [of _ "''code_generation''"] exI [of _ "6 / 10 :: real"]) simp
    next
      case below: False
      then have "classify_request req = (i, x)" using False m by (simp add: classify_request_def)
      then show ?thesis using b below by simp
    qed
  qed
qed

section \<open>Complexity\<close>

text \<open>
  \<^verbatim>\<open>agents/complexity_triage.py\<close>: the tier of a request, which decides the stages of the graph that are left out.
\<close>

definition any_of :: "string list \<Rightarrow> regex" where
  "any_of ws = rseq [RBoundary, RGroup 1 (ralt (map RStr ws)), RBoundary]"

definition small :: "rclass list \<Rightarrow> regex" where
  "small more_chars = RSet False (CRange (CHR ''a'') (CHR ''z'') # more_chars)"

definition capital :: regex where
  "capital = RSet False [CRange (CHR ''A'') (CHR ''Z'')]"

definition spaces :: regex where
  "spaces = rplus (RSet False [CSpace])"

definition word_chars :: regex where
  "word_chars = rplus (RSet False [CWord])"

definition ACTION_VERBS :: regex where
  "ACTION_VERBS = rseq [RStart, RStar True (RSet False [CSpace]), RGroup 1 (ralt (map RStr
     [''write'', ''add'', ''fix'', ''refactor'', ''create'', ''implement'', ''generate'', ''remove'', ''delete'', ''rename'',
      ''update'', ''change'', ''move'', ''extract'', ''convert'', ''replace'', ''make'', ''build''])), RBoundary]"

definition file_name :: "rclass list \<Rightarrow> regex" where
  "file_name more_chars = rseq [small [CChar (CHR ''_'')],
     RStar True (small ([CRange (CHR ''0'') (CHR ''9''), CChar (CHR ''_'')] @ more_chars)),
     RStr ''.'', rrepeat 1 4 (small []), RBoundary]"

definition SPECIFICITY :: regex where
  "SPECIFICITY = ralt
     [file_name [],
      rseq [small [CChar (CHR ''_'')], RStar True (small [CRange (CHR ''0'') (CHR ''9''), CChar (CHR ''_'')]), RStr ''(''],
      rseq [RStr ''class'', spaces, capital, word_chars],
      rseq [RStr ''def'', spaces, small [CChar (CHR ''_'')], word_chars],
      rseq [RStr [CHR 0x60], rplus (RSet True [CChar (CHR 0x60)]), RStr [CHR 0x60]],
      rseq [capital, rplus (small []), capital, word_chars],
      rseq [rplus (small []), RStr ''_'', rplus (small []), RStr ''_'', rplus (small [])],
      rseq [RStr ''/'', file_name [CChar (CHR ''/'')]]]"

definition AMBIGUITY :: regex where
  "AMBIGUITY = any_of [''maybe'', ''possibly'', ''perhaps'', ''not sure'', ''i think'', ''something like'', ''could you'',
     ''would you'', ''if possible'', ''or maybe'', ''might'', ''somehow'']"

definition MULTI_INTENT :: regex where
  "MULTI_INTENT = any_of [''and also'', ''plus also'', ''additionally'', ''as well as'', ''on top of that'', ''furthermore'',
     ''moreover'', ''in addition'']"

definition dash :: regex where
  "dash = ropt (RSet False [CChar (CHR ''-''), CChar (CHR '' '')])"

definition FULL_COMPLEXITY :: regex where
  "FULL_COMPLEXITY = rseq [RBoundary, RGroup 1 (ralt
     [rseq [RStr ''production'', dash, RStr ''ready''], RStr ''production'', RStr ''critical'', RStr ''comprehensive'',
      RStr ''complete system'', RStr ''full system'', RStr ''entire'', RStr ''robust'',
      rseq [RStr ''well'', dash, RStr ''tested''], rseq [RStr ''end'', dash, RStr ''to'', dash, RStr ''end''],
      RStr ''scalable'', RStr ''enterprise'', RStr ''microservice'']), RBoundary]"

definition either_way :: "string list \<Rightarrow> string list \<Rightarrow> regex" where
  "either_way vs ws = rseq [RBoundary, RGroup 1 (ralt (map RStr vs)), spaces,
     RGroup 2 (ralt (map RStr [''and'', ''with'', ''plus'', ''also''])), spaces, RGroup 3 (ralt (map RStr ws))]"

definition several_deliverables :: "regex \<Rightarrow> regex \<Rightarrow> regex" where
  "several_deliverables a b = rseq [RBoundary, RGroup 1 (ralt (map RStr [''generate'', ''write'', ''create''])), RBoundary, rdots,
     RBoundary, RGroup 2 a, RBoundary, rdots, RBoundary, RStr ''and'', RBoundary, rdots, RBoundary, RGroup 3 b, RBoundary]"

definition MULTI_SPECIALIST :: "regex list" where
  "MULTI_SPECIALIST =
     [either_way [''test'', ''tests'', ''testing''] [''security'', ''secur'', ''document'', ''doc'', ''optimiz''],
      either_way [''security'', ''secur''] [''test'', ''tests'', ''testing'', ''document'', ''doc'', ''optimiz''],
      either_way [''document'', ''doc''] [''test'', ''tests'', ''testing'', ''security'', ''secur'', ''optimiz''],
      several_deliverables (RAlt (RSeq (RStr ''test'') (ropt (RStr ''s''))) (RStr ''test suite''))
        (RAlt (RSeq (RStr ''doc'') (ropt (RStr ''s''))) (RStr ''documentation'')),
      several_deliverables (RAlt (RSeq (RStr ''doc'') (ropt (RStr ''s''))) (RStr ''documentation''))
        (RAlt (RSeq (RStr ''test'') (ropt (RStr ''s''))) (RStr ''test suite''))]"

section \<open>Tiers\<close>

definition set_tier :: "agent_state \<Rightarrow> string \<Rightarrow> int \<Rightarrow> agent_state" where
  "set_tier s tier threshold = s\<lparr>complexity_tier := Some tier, effective_quality_threshold := Some threshold\<rparr>"

definition is_full :: "string \<Rightarrow> bool" where
  "is_full req \<longleftrightarrow> length (py_words req) > 80 \<or> re_search True FULL_COMPLEXITY req
     \<or> list_ex (\<lambda>p. re_search True p req) MULTI_SPECIALIST"

definition is_fast :: "string \<Rightarrow> string \<Rightarrow> bool" where
  "is_fast the_intent req \<longleftrightarrow>
     the_intent = ''code_generation'' \<and> length (py_words req) < 40 \<and> re_search True ACTION_VERBS req \<and>
     re_search False SPECIFICITY req \<and> \<not> re_search True AMBIGUITY req \<and> \<not> re_search True MULTI_INTENT req"

definition classify_complexity :: "agent_state \<Rightarrow> agent_state" where
  "classify_complexity s =
     (if opt_or (complexity_tier s) '''' \<noteq> '''' then s
      else
        let req = opt_or (user_request s) '''' in
        if is_full req then set_tier s ''full'' (opt_or (quality_threshold s) 85)
        else if is_fast (opt_or (intent s) ''code_generation'') req then set_tier s ''fast'' 70
        else set_tier s ''standard'' 75)"

section \<open>Properties\<close>

text \<open>A tier that was chosen before stays; else the tier is one of three, with its threshold, and nothing else of the
  state changes. A second triage changes nothing.\<close>

theorem triage_sets_one_tier:
  "(opt_or (complexity_tier s) '''' \<noteq> '''' \<and> classify_complexity s = s
    \<or> (\<exists>tier q. classify_complexity s = s\<lparr>complexity_tier := Some tier, effective_quality_threshold := Some q\<rparr>
         \<and> (tier, q) \<in> {(''full'', opt_or (quality_threshold s) 85), (''fast'', 70), (''standard'', 75)}))
    \<and> classify_complexity (classify_complexity s) = classify_complexity s"
  by (auto simp: classify_complexity_def set_tier_def Let_def)

end
