(* ===== verification/Adapters.thy ===== *)
theory Adapters
  imports Py_Strings Agent_State
begin

text \<open>
  \<^verbatim>\<open>agents/adapters.py\<close>: the prompt adapters, their registry, and the definitions \<^verbatim>\<open>agents/workflow_factory.py\<close> registers with
  the parameters of \<open>GenerationConfig\<close> in \<^verbatim>\<open>agents/config.py\<close>.

  The base model and the loader of prompt overrides are parameters. Generation parameters are reals. All adapters of a
  registry share its base model, and the loader it was built with, or none.
\<close>

section \<open>Adapters\<close>

type_synonym gen_config = "(string, real) py_dict"

text \<open>A message: its role and its content.\<close>

type_synonym chat = "(string \<times> string) list"

record prompt_adapter =
  ad_name :: string
  ad_system_prompt :: string
  ad_config :: gen_config

record gen_kwargs =
  gk_config :: gen_config
  gk_history :: chat
  gk_system_prompt :: "string option"
  gk_task_type :: "string option"

definition plain_kwargs :: "gen_config \<Rightarrow> gen_kwargs" where
  "plain_kwargs c = \<lparr>gk_config = c, gk_history = [], gk_system_prompt = None, gk_task_type = None\<rparr>"

text \<open>The model answers a chat; \<open>lm_appends\<close> is the loader: \<open>None\<close> when there is none, the empty list also when it raises.\<close>

record 'w language_model =
  lm_generate :: "chat \<Rightarrow> gen_config \<Rightarrow> 'w \<Rightarrow> (py_exn + string) \<times> 'w"
  lm_appends :: "(string \<Rightarrow> string list) option"

text \<open>\<open>{**a, **b}\<close>\<close>

definition dict_merge :: "('k, 'v) py_dict \<Rightarrow> ('k, 'v) py_dict \<Rightarrow> ('k, 'v) py_dict" where
  "dict_merge a b = foldl (\<lambda>d (k, v). dict_set k v d) a b"

definition system_prompt_for :: "'w language_model \<Rightarrow> prompt_adapter \<Rightarrow> gen_kwargs \<Rightarrow> string" where
  "system_prompt_for m a kw =
     (let sp = opt_or (gk_system_prompt kw) (ad_system_prompt a);
          appends = (case (gk_task_type kw, lm_appends m) of
             (Some t, Some load) \<Rightarrow> if t = [] then [] else load t
           | _ \<Rightarrow> [])
      in if appends = [] then sp else sp @ nl @ nl @ join_with (nl @ nl) appends)"

definition chat_for :: "'w language_model \<Rightarrow> prompt_adapter \<Rightarrow> string \<Rightarrow> gen_kwargs \<Rightarrow> chat" where
  "chat_for m a prompt kw =
     (''system'', system_prompt_for m a kw)
     # filter (\<lambda>(role, content). (role = ''user'' \<or> role = ''assistant'') \<and> content \<noteq> []) (gk_history kw)
     @ [(''user'', prompt)]"

definition generate_with ::
    "'w language_model \<Rightarrow> prompt_adapter \<Rightarrow> string \<Rightarrow> gen_kwargs \<Rightarrow> 'w \<Rightarrow> (py_exn + string) \<times> 'w" where
  "generate_with m a prompt kw w = lm_generate m (chat_for m a prompt kw) (dict_merge (ad_config a) (gk_config kw)) w"

section \<open>The registry\<close>

record adapter_registry =
  ar_adapters :: "(string, prompt_adapter) py_dict"
  ar_current :: "string option"

definition new_adapter_registry :: adapter_registry where
  "new_adapter_registry = \<lparr>ar_adapters = [], ar_current = None\<rparr>"

definition register_adapter :: "prompt_adapter \<Rightarrow> adapter_registry \<Rightarrow> adapter_registry" where
  "register_adapter a r = r\<lparr>ar_adapters := dict_set (ad_name a) a (ar_adapters r)\<rparr>"

definition adapter_missing :: "string \<Rightarrow> py_exn" where
  "adapter_missing n = ValueError (''Adapter '' @ [CHR 0x27] @ n @ [CHR 0x27] @ '' not found.'')"

definition get_adapter :: "string \<Rightarrow> adapter_registry \<Rightarrow> (py_exn + prompt_adapter) \<times> adapter_registry" where
  "get_adapter n r =
     (case dict_get (ar_adapters r) n of
        None \<Rightarrow> (Inl (adapter_missing n), r)
      | Some a \<Rightarrow> (Inr a, r\<lparr>ar_current := Some n\<rparr>))"

definition switch_to :: "string \<Rightarrow> adapter_registry \<Rightarrow> (py_exn + prompt_adapter) \<times> adapter_registry" where
  "switch_to n r =
     (if ar_current r = Some n then
        (case dict_get (ar_adapters r) n of None \<Rightarrow> (Inl (KeyError n), r) | Some a \<Rightarrow> (Inr a, r))
      else get_adapter n r)"

text \<open>\<open>next(iter(...))\<close> on an empty registry raises StopIteration.\<close>

definition get_or_create :: "string \<Rightarrow> string \<Rightarrow> adapter_registry \<Rightarrow> (py_exn + prompt_adapter) \<times> adapter_registry" where
  "get_or_create n skill_prompt r =
     (if skill_prompt \<noteq> [] then
        let dyn = n @ ''__skill'';
            fresh = \<lparr>ad_name = dyn, ad_system_prompt = skill_prompt, ad_config = []\<rparr>
        in case dict_get (ar_adapters r) dyn of
             Some a \<Rightarrow>
               if ad_system_prompt a = skill_prompt then (Inr a, r\<lparr>ar_current := Some dyn\<rparr>)
               else (Inr fresh, r\<lparr>ar_adapters := dict_set dyn fresh (ar_adapters r), ar_current := Some dyn\<rparr>)
           | None \<Rightarrow>
               if ar_adapters r = [] then (Inl (OtherError ''StopIteration'' []), r)
               else (Inr fresh, r\<lparr>ar_adapters := dict_set dyn fresh (ar_adapters r), ar_current := Some dyn\<rparr>)
      else if dict_has (ar_adapters r) n then switch_to n r
      else switch_to ''vibe'' r)"

definition list_adapters :: "adapter_registry \<Rightarrow> string list" where
  "list_adapters r = dict_keys (ar_adapters r)"

section \<open>The system prompts\<close>

definition VIBE_SYSTEM_PROMPT :: string where
  "VIBE_SYSTEM_PROMPT =
     ''You are a versatile AI assistant. Complete tasks thoroughly and accurately.'' @ nl @ nl @ ''Focus on:'' @ nl
     @ ''- Understanding the task requirements'' @ nl @ ''- Providing clear, well-structured output'' @ nl
     @ ''- Following any skill instructions provided''"

definition CRITIC_SYSTEM_PROMPT :: string where
  "CRITIC_SYSTEM_PROMPT =
     ''You are an expert evaluator. Assess responses across multiple quality dimensions, providing scores (0-100) ''
     @ ''and detailed reasoning for each evaluation.'' @ nl @ nl @ ''Evaluate outputs on these dimensions:'' @ nl
     @ ''- Completeness: Does it fully address the request?'' @ nl
     @ ''- Accuracy: Is the information correct and reliable?'' @ nl
     @ ''- Clarity: Is it well-structured and easy to understand?'' @ nl
     @ ''- Helpfulness: Does it provide actionable value?'' @ nl @ ''- Overall: Weighted average quality'' @ nl @ nl
     @ ''Format your response EXACTLY as:'' @ nl @ nl @ ''SCORES:'' @ nl @ ''Completeness: [0-100]/100'' @ nl
     @ ''Accuracy: [0-100]/100'' @ nl @ ''Clarity: [0-100]/100'' @ nl @ ''Helpfulness: [0-100]/100'' @ nl
     @ ''Overall: [0-100]/100'' @ nl @ nl @ ''REASONING:'' @ nl @ ''[Detailed explanation of scores, strengths, and ''
     @ ''weaknesses]'' @ nl @ nl @ ''Be calibrated and consistent in scoring. A score of 85+ means excellent quality.''"

definition REFINEMENT_SYSTEM_PROMPT :: string where
  "REFINEMENT_SYSTEM_PROMPT =
     ''You are a meta-reasoning specialist who analyzes feedback and creates concrete improvement plans.'' @ nl @ nl
     @ ''Given:'' @ nl @ ''- Original task'' @ nl @ ''- Current output'' @ nl @ ''- Critic scores and feedback'' @ nl
     @ ''- Iteration number'' @ nl @ nl @ ''Your task is to create a specific, prioritized refinement plan.'' @ nl @ nl
     @ ''Format your response as:'' @ nl @ nl @ ''REFINEMENT PLAN:'' @ nl @ ''1. [Most impactful improvement]'' @ nl
     @ ''2. [Second priority]'' @ nl @ ''3. [Third priority]'' @ nl @ nl @ ''PRIORITY: [Which improvement will have ''
     @ ''biggest score impact]'' @ nl @ ''EXPECTED IMPROVEMENT: [Estimated score increase if implemented]'' @ nl @ nl
     @ ''Focus on actionable, specific improvements - not generic ''
     @ ''advice.''"

definition CODE_SYSTEM_PROMPT :: string where
  "CODE_SYSTEM_PROMPT =
     ''You are an expert programmer. Write clean, well-documented, production-quality code.'' @ nl @ nl
     @ ''Best practices:'' @ nl @ ''- Use clear variable and function names'' @ nl
     @ ''- Add inline comments for complex logic'' @ nl @ ''- Include error handling and input validation'' @ nl
     @ ''- Follow language-specific idioms and conventions'' @ nl @ ''- Write modular, maintainable code'' @ nl @ nl
     @ ''Always consider edge cases and potential errors.''"

definition CREATIVE_SYSTEM_PROMPT :: string where
  "CREATIVE_SYSTEM_PROMPT =
     ''You are a creative writer and content creator. Generate engaging, original content tailored to the task.'' @ nl @ nl
     @ ''Focus on:'' @ nl @ ''- Voice and tone appropriate to the context'' @ nl @ ''- Clear structure and flow'' @ nl
     @ ''- Engaging language and imagery'' @ nl @ ''- Meeting the specific requirements'' @ nl @ nl
     @ ''Be creative but stay on task.''"

definition RESEARCH_SYSTEM_PROMPT :: string where
  "RESEARCH_SYSTEM_PROMPT =
     ''You are a research analyst. Provide thorough, well-reasoned analysis with grounded insights.'' @ nl @ nl
     @ ''Best practices:'' @ nl @ ''- Cite sources when possible'' @ nl @ ''- Distinguish facts from interpretations''
     @ nl @ ''- Consider multiple perspectives'' @ nl @ ''- Provide evidence-based conclusions'' @ nl
     @ ''- Acknowledge limitations and uncertainties''"

definition DATA_SPECIALIST_PROMPT :: string where
  "DATA_SPECIALIST_PROMPT =
     ''You are a data processing expert specializing in ETL pipelines, data cleaning, and validation.'' @ nl @ nl
     @ ''Your expertise includes:'' @ nl @ ''- Data extraction from various formats (CSV, JSON, XML, databases)'' @ nl
     @ ''- Data transformation and cleaning (pandas, numpy)'' @ nl @ ''- Data validation and quality checks'' @ nl
     @ ''- Data aggregation and summarization'' @ nl @ ''- Handling missing values, duplicates, and outliers'' @ nl @ nl
     @ ''Best practices:'' @ nl @ ''- Validate input data before processing'' @ nl @ ''- Handle edge cases (empty ''
     @ ''files, malformed data, encoding issues)'' @ nl @ ''- Use efficient pandas operations (vectorization over loops)''
     @ nl @ ''- Provide clear data quality reports'' @ nl @ ''- Include error handling for common issues'' @ nl
     @ ''- Document data transformations and assumptions'' @ nl @ nl @ ''Always write production-ready code with ''
     @ ''proper error handling and logging.''"

definition API_GENERATOR_PROMPT :: string where
  "API_GENERATOR_PROMPT =
     ''You are an API development expert specializing in RESTful and GraphQL APIs.'' @ nl @ nl
     @ ''Your expertise includes:'' @ nl @ ''- REST API design (endpoints, methods, status codes)'' @ nl
     @ ''- GraphQL schemas and resolvers'' @ nl @ ''- API documentation (OpenAPI/Swagger)'' @ nl
     @ ''- Authentication and authorization (JWT, OAuth)'' @ nl @ ''- Input validation and error handling'' @ nl
     @ ''- Request/response serialization'' @ nl @ nl @ ''Best practices:'' @ nl @ ''- Follow RESTful conventions ''
     @ ''(resource-based URLs, proper HTTP methods)'' @ nl @ ''- Include comprehensive input validation'' @ nl
     @ ''- Provide clear error messages with appropriate status ''
     @ ''codes'' @ nl @ ''- Document all endpoints with examples'' @ nl
     @ ''- Implement proper authentication/authorization'' @ nl @ ''- Use standard frameworks (FastAPI, Flask, ''
     @ ''Express, etc.)'' @ nl @ ''- Include rate limiting and security headers'' @ nl @ nl
     @ ''Always generate complete, production-ready API code with proper error ''
     @ ''handling.''"

definition DATABASE_SPECIALIST_PROMPT :: string where
  "DATABASE_SPECIALIST_PROMPT =
     ''You are a database expert specializing in SQL optimization, schema design, and migrations.'' @ nl @ nl
     @ ''Your expertise includes:'' @ nl @ ''- SQL query optimization (indexes, explain plans, query rewriting)'' @ nl
     @ ''- Database schema design (normalization, relationships, ''
     @ ''constraints)'' @ nl @ ''- Migration scripts (schema changes, data migrations)'' @ nl
     @ ''- ORM usage (SQLAlchemy, Prisma, etc.)'' @ nl @ ''- Database performance tuning'' @ nl
     @ ''- NoSQL databases (MongoDB, Redis, etc.)'' @ nl @ nl @ ''Best practices:'' @ nl
     @ ''- Use parameterized queries to prevent SQL injection'' @ nl
     @ ''- Create appropriate indexes for query performance'' @ nl @ ''- Follow normalization principles (up to 3NF)''
     @ nl @ ''- Use foreign keys and constraints for data integrity'' @ nl @ ''- Write reversible migration scripts'' @ nl
     @ ''- Include transaction handling for data consistency'' @ nl
     @ ''- Optimize for read vs write patterns based on use case'' @ nl
     @ ''- Provide EXPLAIN analysis for complex queries'' @ nl @ nl @ ''Always generate production-ready database code ''
     @ ''with security and performance in mind.''"

definition CODE_REVIEWER_PROMPT :: string where
  "CODE_REVIEWER_PROMPT =
     ''You are a senior code analysis expert specializing in code review, explanation, documentation, and reverse ''
     @ ''engineering.'' @ nl @ nl @ ''Your capabilities include:'' @ nl @ nl @ ''**1. Code Review & Quality Analysis**''
     @ nl @ ''- Code style and formatting (PEP 8, ESLint, etc.)'' @ nl @ ''- Code smells and anti-patterns'' @ nl
     @ ''- Security vulnerabilities (OWASP Top 10)'' @ nl @ ''- Performance issues'' @ nl
     @ ''- Testing coverage and quality'' @ nl @ ''- Maintainability and readability'' @ nl @ nl
     @ ''**2. Code Explanation & Reverse Engineering**'' @ nl @ ''- Explaining what code does in plain language'' @ nl
     @ ''- Breaking down complex logic step-by-step'' @ nl @ ''- Identifying algorithms and design patterns used'' @ nl
     @ ''- Documenting code flow and dependencies'' @ nl @ ''- Reverse engineering functionality from implementation''
     @ nl @ nl @ ''**3. Documentation Generation**'' @ nl @ ''- Writing comprehensive docstrings (Google, NumPy, ''
     @ ''Sphinx formats)'' @ nl @ ''- Adding inline comments for complex logic'' @ nl @ ''- Generating API documentation''
     @ nl @ ''- Creating usage examples'' @ nl @ ''- Documenting parameters, return values, and exceptions'' @ nl @ nl
     @ ''---'' @ nl @ nl @ ''## Response Formats by Task Type:'' @ nl @ nl @ ''### For CODE REVIEW:'' @ nl
     @ ''## Summary'' @ nl @ ''[Brief overview of code quality and main findings]'' @ nl @ nl
     @ ''## Critical Issues (Must Fix)'' @ nl @ ''- [Issue with location and explanation]'' @ nl @ nl
     @ ''## Suggestions (Nice to Have)'' @ nl @ ''- [Improvement suggestions]'' @ nl @ nl @ ''## Strengths'' @ nl
     @ ''- [What the code does well]'' @ nl @ nl @ ''### For CODE EXPLANATION:'' @ nl @ ''## Overview'' @ nl
     @ ''[What the code does at a high level]'' @ nl @ nl @ ''## Step-by-Step Breakdown'' @ nl
     @ ''1. [Line X-Y]: [What this section does]'' @ nl @ ''2. [Line Z]: [Explanation]'' @ nl @ nl @ ''## Key Concepts''
     @ nl @ ''- [Algorithm/pattern used]'' @ nl @ ''- [Important dependencies]'' @ nl @ nl @ ''## Potential Use Cases''
     @ nl @ ''[When/why this code would be used]'' @ nl @ nl @ ''### For DOCUMENTATION GENERATION:'' @ nl
     @ ''Generate comprehensive docstrings in the appropriate format ''
     @ ''(Google/NumPy/Sphinx).'' @ nl @ ''Include:'' @ nl @ ''- Brief description'' @ nl
     @ ''- Detailed explanation (if complex)'' @ nl @ ''- Args/Parameters with types'' @ nl @ ''- Returns with type'' @ nl
     @ ''- Raises (exceptions)'' @ nl @ ''- Examples (when helpful)'' @ nl @ nl @ ''---'' @ nl @ nl
     @ ''Be thorough, constructive, and specific. Provide code examples when ''
     @ ''appropriate.''"

definition SELF_UPGRADE_PROMPT :: string where
  "SELF_UPGRADE_PROMPT =
     ''You are a senior software engineer performing a controlled self-upgrade on the Vibe agent codebase.'' @ nl @ nl
     @ ''Your goal is to improve the agent'' @ [CHR 0x27] @ ''s own source code - fixing bugs, adding features, or ''
     @ ''optimising performance - while preserving correctness and security.'' @ nl @ nl @ ''Constraints:'' @ nl
     @ ''- You may ONLY modify files under the agents/ directory'' @ nl @ ''- You may NOT modify ''
     @ ''agents/self_upgrade.py, agents/skill_security.py, or agents/config.py (immutable safety modules)'' @ nl
     @ ''- Every change MUST maintain backward compatibility with existing ''
     @ ''tests'' @ nl @ ''- Every change MUST pass bandit security scanning with no medium+ findings'' @ nl
     @ ''- Keep changes focused and minimal - one logical improvement per ''
     @ ''proposal'' @ nl @ ''- Prefer small, incremental improvements over large rewrites'' @ nl @ nl @ ''Process:'' @ nl
     @ ''1. Read and understand the current implementation'' @ nl @ ''2. Identify a specific, concrete improvement'' @ nl
     @ ''3. Write the modified code'' @ nl @ ''4. Explain what changed and why (rationale)'' @ nl
     @ ''5. The pipeline will automatically validate via pytest + bandit before ''
     @ ''applying'' @ nl @ nl @ ''Quality standards:'' @ nl @ ''- Maintain existing code style and conventions'' @ nl
     @ ''- Add tests for new functionality'' @ nl @ ''- Do not remove or weaken existing security checks'' @ nl
     @ ''- Do not introduce new dependencies without ''
     @ ''justification''"

definition ADAPTER_DEFS :: "(string, string) py_dict" where
  "ADAPTER_DEFS =
     [(''vibe'', VIBE_SYSTEM_PROMPT),
      (''critic'', CRITIC_SYSTEM_PROMPT),
      (''refinement'', REFINEMENT_SYSTEM_PROMPT),
      (''code'', CODE_SYSTEM_PROMPT),
      (''creative'', CREATIVE_SYSTEM_PROMPT),
      (''research'', RESEARCH_SYSTEM_PROMPT),
      (''general'', RESEARCH_SYSTEM_PROMPT),
      (''data_specialist'', DATA_SPECIALIST_PROMPT),
      (''api_generator'', API_GENERATOR_PROMPT),
      (''database_specialist'', DATABASE_SPECIALIST_PROMPT),
      (''code_reviewer'', CODE_REVIEWER_PROMPT),
      (''test_generator'', CODE_SYSTEM_PROMPT),
      (''security_auditor'', CODE_SYSTEM_PROMPT),
      (''doc_generator'', CODE_SYSTEM_PROMPT),
      (''performance_optimizer'', CODE_SYSTEM_PROMPT),
      (''debugging_assistant'', CODE_SYSTEM_PROMPT),
      (''self_upgrade'', SELF_UPGRADE_PROMPT)]"

definition generation_configs :: "(string, gen_config) py_dict" where
  "generation_configs =
     [(''code'', [(''temperature'', 3 / 10), (''top_p'', 95 / 100), (''max_tokens'', 1500), (''repetition_penalty'', 11 / 10)]),
      (''creative'', [(''temperature'', 8 / 10), (''top_p'', 95 / 100), (''max_tokens'', 2000), (''repetition_penalty'', 1)]),
      (''research'', [(''temperature'', 4 / 10), (''top_p'', 9 / 10), (''max_tokens'', 1500), (''repetition_penalty'', 11 / 10)]),
      (''general'', [(''temperature'', 5 / 10), (''top_p'', 9 / 10), (''max_tokens'', 1000), (''repetition_penalty'', 11 / 10)]),
      (''vibe'', [(''temperature'', 4 / 10), (''top_p'', 9 / 10), (''max_tokens'', 600)]),
      (''critic'', [(''temperature'', 1 / 10), (''top_p'', 9 / 10), (''max_tokens'', 500)]),
      (''refinement'', [(''temperature'', 4 / 10), (''top_p'', 9 / 10), (''max_tokens'', 300)])]"

text \<open>\<open>self.configs.get(name, self.configs['general'])\<close>; configurations without an entry \<open>general\<close> are not considered.\<close>

definition get_config :: "(string, gen_config) py_dict \<Rightarrow> string \<Rightarrow> gen_config" where
  "get_config cs n = dict_get_or cs n (dict_get_or cs ''general'' [])"

definition default_adapters :: "(string, gen_config) py_dict \<Rightarrow> adapter_registry" where
  "default_adapters cs =
     foldl (\<lambda>r (n, prompt). register_adapter \<lparr>ad_name = n, ad_system_prompt = prompt, ad_config = get_config cs n\<rparr> r)
       new_adapter_registry ADAPTER_DEFS"

section \<open>Well-formed registries\<close>

text \<open>The current adapter is registered, every adapter under its own name, and the fallback is there.\<close>

definition adapters_ok :: "adapter_registry \<Rightarrow> bool" where
  "adapters_ok r \<longleftrightarrow>
     (\<forall>n. ar_current r = Some n \<longrightarrow> dict_has (ar_adapters r) n)
     \<and> (\<forall>n a. dict_get (ar_adapters r) n = Some a \<longrightarrow> ad_name a = n)
     \<and> dict_has (ar_adapters r) ''vibe''"

lemma switch_to_known:
  "dict_has (ar_adapters r) n \<Longrightarrow> \<exists>a. switch_to n r = (Inr a, r\<lparr>ar_current := Some n\<rparr>) \<and> dict_get (ar_adapters r) n = Some a"
  by (cases "ar_current r = Some n") (auto simp: switch_to_def get_adapter_def dict_has_def)

lemma adapters_ok_current: "adapters_ok r \<Longrightarrow> dict_has (ar_adapters r) n \<Longrightarrow> adapters_ok (r\<lparr>ar_current := Some n\<rparr>)"
  by (simp add: adapters_ok_def)

lemma adapters_ok_register:
  "adapters_ok r \<Longrightarrow> ad_name a = n \<Longrightarrow> adapters_ok (r\<lparr>ar_adapters := dict_set n a (ar_adapters r), ar_current := Some n\<rparr>)"
  by (auto simp: adapters_ok_def dict_has_def)

lemma switch_to_ok: "adapters_ok r \<Longrightarrow> adapters_ok (snd (switch_to n r))"
  by (auto simp: switch_to_def get_adapter_def adapters_ok_def dict_has_def split: option.splits)

text \<open>With a well-formed registry \<open>get_or_create\<close> always has an adapter: the skill's, the named one, or the fallback.\<close>

lemma get_or_create_total:
  assumes "adapters_ok r"
  shows "\<exists>a r'. get_or_create n sp r = (Inr a, r') \<and> adapters_ok r'
    \<and> (if sp \<noteq> [] then ad_system_prompt a = sp \<and> ad_name a = n @ ''__skill''
       else ad_name a = (if dict_has (ar_adapters r) n then n else ''vibe''))"
proof (cases "sp = []")
  case True
  let ?n = "if dict_has (ar_adapters r) n then n else ''vibe''"
  have h: "dict_has (ar_adapters r) ?n" using assms by (simp add: adapters_ok_def)
  obtain a where a: "switch_to ?n r = (Inr a, r\<lparr>ar_current := Some ?n\<rparr>)" "dict_get (ar_adapters r) ?n = Some a"
    using switch_to_known [OF h] by blast
  have e: "get_or_create n sp r = switch_to ?n r" using True by (simp add: get_or_create_def)
  have nm: "ad_name a = ?n" using assms a(2) unfolding adapters_ok_def by blast
  have ok: "adapters_ok (r\<lparr>ar_current := Some ?n\<rparr>)" using adapters_ok_current [OF assms h] .
  show ?thesis unfolding e a(1) using nm ok True by simp
next
  case False
  let ?dyn = "n @ ''__skill''"
  let ?fresh = "\<lparr>ad_name = ?dyn, ad_system_prompt = sp, ad_config = []\<rparr>"
  have ne: "ar_adapters r \<noteq> []" using assms by (auto simp: adapters_ok_def dict_has_def)
  show ?thesis
  proof (cases "\<exists>a. dict_get (ar_adapters r) ?dyn = Some a \<and> ad_system_prompt a = sp")
    case True
    then obtain a where a: "dict_get (ar_adapters r) ?dyn = Some a" "ad_system_prompt a = sp" by blast
    have "get_or_create n sp r = (Inr a, r\<lparr>ar_current := Some ?dyn\<rparr>)"
      using False a by (simp add: get_or_create_def Let_def)
    moreover have "ad_name a = ?dyn" using assms a(1) by (auto simp: adapters_ok_def)
    moreover have "adapters_ok (r\<lparr>ar_current := Some ?dyn\<rparr>)"
      using a(1) by (intro adapters_ok_current [OF assms]) (simp add: dict_has_def)
    ultimately show ?thesis using False a(2) by auto
  next
    case other: False
    have "get_or_create n sp r = (Inr ?fresh, r\<lparr>ar_adapters := dict_set ?dyn ?fresh (ar_adapters r), ar_current := Some ?dyn\<rparr>)"
      using False ne other by (auto simp: get_or_create_def Let_def split: option.splits)
    moreover have "adapters_ok (r\<lparr>ar_adapters := dict_set ?dyn ?fresh (ar_adapters r), ar_current := Some ?dyn\<rparr>)"
      by (rule adapters_ok_register [OF assms]) simp
    ultimately show ?thesis using False by auto
  qed
qed

definition names_match :: "adapter_registry \<Rightarrow> bool" where
  "names_match r \<longleftrightarrow> ar_current r = None \<and> (\<forall>n a. dict_get (ar_adapters r) n = Some a \<longrightarrow> ad_name a = n)"

lemma fold_register:
  "names_match r \<Longrightarrow>
    names_match (foldl (\<lambda>r (n, p). register_adapter \<lparr>ad_name = n, ad_system_prompt = p, ad_config = get_config cs n\<rparr> r) r ds)
    \<and> set (dict_keys (ar_adapters (foldl (\<lambda>r (n, p). register_adapter \<lparr>ad_name = n, ad_system_prompt = p, ad_config = get_config cs n\<rparr> r) r ds)))
      = set (dict_keys (ar_adapters r)) \<union> set (map fst ds)"
proof (induction ds arbitrary: r)
  case (Cons d ds)
  obtain n p where d: "d = (n, p)" by (cases d)
  let ?r = "register_adapter \<lparr>ad_name = n, ad_system_prompt = p, ad_config = get_config cs n\<rparr> r"
  have "names_match ?r" using Cons.prems by (auto simp: names_match_def register_adapter_def split: if_splits)
  moreover have "set (dict_keys (ar_adapters ?r)) = insert n (set (dict_keys (ar_adapters r)))"
    by (auto simp: register_adapter_def dict_keys_set)
  ultimately show ?case using Cons.IH [of ?r] by (simp add: d)
qed simp

lemma default_adapters_keys: "set (list_adapters (default_adapters cs)) = set (map fst ADAPTER_DEFS)"
  using fold_register [of new_adapter_registry cs ADAPTER_DEFS]
  by (simp add: names_match_def new_adapter_registry_def default_adapters_def list_adapters_def dict_keys_def)

lemma default_adapters_ok: "adapters_ok (default_adapters cs)"
proof -
  have "''vibe'' \<in> set (list_adapters (default_adapters cs))"
    unfolding default_adapters_keys by (simp add: ADAPTER_DEFS_def)
  then have "dict_has (ar_adapters (default_adapters cs)) ''vibe''"
    by (auto simp: list_adapters_def py_dict.keys_get dict_has_def)
  then show ?thesis
    using fold_register [of new_adapter_registry cs ADAPTER_DEFS]
    by (simp add: names_match_def new_adapter_registry_def default_adapters_def adapters_ok_def)
qed

text \<open>A session: a sequence of requests for adapters.\<close>

definition adapter_request :: "string \<times> string \<Rightarrow> adapter_registry \<Rightarrow> adapter_registry" where
  "adapter_request ns r = snd (get_or_create (fst ns) (snd ns) r)"

lemma adapter_requests_ok: "adapters_ok r \<Longrightarrow> adapters_ok (fold adapter_request reqs r)"
proof (induction reqs arbitrary: r)
  case (Cons q qs)
  have "adapters_ok (adapter_request q r)"
    using get_or_create_total [OF Cons.prems, of "fst q" "snd q"] by (auto simp: adapter_request_def)
  then show ?case using Cons.IH by simp
qed simp

section \<open>Properties\<close>

text \<open>Whatever was asked for before, a request for an adapter is answered: with the prompt of the skill where the skill has one,
  with the adapter of that name where it is registered, and with the fallback otherwise.\<close>

theorem an_adapter_for_every_request:
  "\<exists>a r'. get_or_create n sp (fold adapter_request reqs (default_adapters cs)) = (Inr a, r')
    \<and> (if sp \<noteq> [] then ad_system_prompt a = sp
       else ad_name a = (if dict_has (ar_adapters (fold adapter_request reqs (default_adapters cs))) n then n else ''vibe''))"
  using get_or_create_total [OF adapter_requests_ok [OF default_adapters_ok], of n sp reqs cs] by meson

end
