(* ===== verification/Critic_Nodes.thy ===== *)
theory Critic_Nodes
  imports Adapters Py_Regex Decisions Agent_State Py_Strings
begin

text \<open>
  \<^verbatim>\<open>agents/critic_nodes.py\<close>: the nodes that have a model judge a specification or an output, and the reading of its answer, with
  the string helpers of \<^verbatim>\<open>agents/nodes.py\<close>.

  A node threads the registry of adapters and the world of the model. Dashes and arrows outside Latin-1 are written \<open>-\<close> and
  \<open>->\<close>.
\<close>

section \<open>Helpers of the nodes\<close>

type_synonym 'w node_world = "adapter_registry \<times> 'w"

type_synonym ('w, 'a) node_run = "'w node_world \<Rightarrow> (py_exn + 'a) \<times> 'w node_world"

text \<open>An adapter is looked up, then asked.\<close>

definition ask_critic :: "'w language_model \<Rightarrow> string \<Rightarrow> string \<Rightarrow> gen_config \<Rightarrow> ('w, string) node_run" where
  "ask_critic m name prompt c rw =
     (case switch_to name (fst rw) of
        (Inl e, r) \<Rightarrow> (Inl e, r, snd rw)
      | (Inr a, r) \<Rightarrow> (case generate_with m a prompt (plain_kwargs c) (snd rw) of (ans, w) \<Rightarrow> (ans, r, w)))"

definition spaced :: "string \<Rightarrow> string" where
  "spaced t = replace_char (CHR ''_'') (CHR '' '') t"

definition non_blank_or :: "string \<Rightarrow> string \<Rightarrow> string" where
  "non_blank_or s d = (if py_strip s = [] then d else py_strip s)"

definition safe_split_after :: "string \<Rightarrow> string \<Rightarrow> string \<Rightarrow> string" where
  "safe_split_after s delim d = (case split_first delim s of None \<Rightarrow> d | Some (_, b) \<Rightarrow> non_blank_or b d)"

definition safe_split_before :: "string \<Rightarrow> string \<Rightarrow> string \<Rightarrow> string" where
  "safe_split_before s delim d = (case split_first delim s of None \<Rightarrow> d | Some (a, _) \<Rightarrow> non_blank_or a d)"

definition safe_split_between :: "string \<Rightarrow> string \<Rightarrow> string \<Rightarrow> string \<Rightarrow> string" where
  "safe_split_between s start_delim end_delim d =
     (if \<not> str_contains start_delim s \<or> \<not> str_contains end_delim s then d
      else (case split_first start_delim s of
              None \<Rightarrow> d
            | Some (_, b) \<Rightarrow> non_blank_or (case split_first end_delim b of None \<Rightarrow> b | Some (a, _) \<Rightarrow> a) d))"

definition safe_find_line_with :: "string \<Rightarrow> string \<Rightarrow> string \<Rightarrow> string" where
  "safe_find_line_with s sub d =
     (case find (\<lambda>l. str_contains sub l) (split_on (CHR 0x0A) s) of None \<Rightarrow> d | Some l \<Rightarrow> py_strip l)"

section \<open>Criteria\<close>

text \<open>The task type is an argument of the source that it does not use.\<close>

definition get_skill_criteria :: "loaded_skill list \<Rightarrow> string" where
  "get_skill_criteria skills =
     (case find (\<lambda>k. opt_or (ls_quality_criteria k) [] \<noteq> []) skills of
        None \<Rightarrow> []
      | Some k \<Rightarrow> nl @ ''**Domain-Specific Criteria (from '' @ opt_or (ls_name k) ''loaded skill'' @ '')**:'' @ nl
          @ join_with nl (map (\<lambda>c. ''- '' @ c) (opt_or (ls_quality_criteria k) [])) @ nl)"

definition compute_lesson_eligible :: "int \<Rightarrow> string \<Rightarrow> bool" where
  "compute_lesson_eligible score feedback \<longleftrightarrow> score < 85 \<and> py_strip feedback \<noteq> []"

definition code_generation_criteria :: string where
  "code_generation_criteria =
       ''- Correctness: Does the code run without errors and produce expected results?'' @ nl
       @ ''- Edge Cases: Are boundary conditions and error paths ''
       @ ''handled?'' @ nl @ ''- Security: Are there injection, XSS, or other OWASP vulnerabilities?'' @ nl
       @ ''- Maintainability: Is the code readable, modular, and ''
       @ ''well-named?'' @ nl @ ''- Best Practices: Does it follow language idioms and conventions?''"

definition test_generation_criteria :: string where
  "test_generation_criteria =
       ''- Coverage: Are all important code paths and edge cases tested?'' @ nl @ ''- Isolation: Are tests independent ''
       @ ''and not relying on external state?'' @ nl @ ''- Assertions: Are assertions specific and meaningful (not just ''
       @ [CHR 0x27] @ ''assert True'' @ [CHR 0x27] @ '')?'' @ nl @ ''- Readability: Are test names descriptive of what ''
       @ ''they verify?'' @ nl @ ''- Reliability: Will tests pass consistently (no flakiness)?''"

definition security_audit_criteria :: string where
  "security_audit_criteria =
       ''- Thoroughness: Are all OWASP Top 10 categories considered?'' @ nl @ ''- Specificity: Are vulnerabilities ''
       @ ''pinpointed with file/line references?'' @ nl @ ''- Severity: Are findings properly classified ''
       @ ''(critical/high/medium/low)?'' @ nl @ ''- Remediation: Are actionable fixes provided for each finding?'' @ nl
       @ ''- False Positives: Are findings genuine, not ''
       @ ''theoretical?''"

definition documentation_criteria :: string where
  "documentation_criteria =
       ''- Accuracy: Does the documentation match the actual code behavior?'' @ nl @ ''- Completeness: Are all public ''
       @ ''APIs, parameters, and return types documented?'' @ nl @ ''- Examples: Are usage examples provided for ''
       @ ''non-trivial functions?'' @ nl @ ''- Clarity: Can a new developer understand the code from the docs alone?'' @ nl
       @ ''- Format: Does it follow the project'' @ [CHR 0x27] @ ''s docstring convention?''"

definition performance_optimization_criteria :: string where
  "performance_optimization_criteria =
       ''- Measurability: Are performance claims backed by benchmarks or analysis?'' @ nl
       @ ''- Impact: Do optimizations target actual bottlenecks (not ''
       @ ''premature)?'' @ nl @ ''- Correctness: Do optimizations preserve original behavior?'' @ nl
       @ ''- Trade-offs: Are memory/readability trade-offs ''
       @ ''acknowledged?'' @ nl @ ''- Profiling: Is profiling data or complexity analysis included?''"

definition debugging_criteria :: string where
  "debugging_criteria =
       ''- Root Cause: Is the actual root cause identified (not just symptoms)?'' @ nl @ ''- Fix Correctness: Does the ''
       @ ''fix resolve the issue without regressions?'' @ nl @ ''- Explanation: Is the bug mechanism clearly explained?''
       @ nl @ ''- Verification: Is there a way to verify the fix works?'' @ nl @ ''- Prevention: Are suggestions given ''
       @ ''to prevent similar bugs?''"

definition code_review_criteria :: string where
  "code_review_criteria =
       ''- Thoroughness: Are all code quality dimensions covered?'' @ nl
       @ ''- Constructiveness: Is feedback actionable and specific?'' @ nl @ ''- Prioritization: Are critical issues ''
       @ ''distinguished from nice-to-haves?'' @ nl @ ''- Accuracy: Are identified issues genuine problems?'' @ nl
       @ ''- Balance: Are strengths acknowledged alongside ''
       @ ''weaknesses?''"

definition TASK_EVALUATION_CRITERIA :: "(string, string) py_dict" where
  "TASK_EVALUATION_CRITERIA =
     [(''code_generation'', code_generation_criteria),
      (''test_generation'', test_generation_criteria),
      (''security_audit'', security_audit_criteria),
      (''documentation'', documentation_criteria),
      (''performance_optimization'', performance_optimization_criteria),
      (''debugging'', debugging_criteria),
      (''code_review'', code_review_criteria)]"

definition criteria_section :: "loaded_skill list \<Rightarrow> string \<Rightarrow> string" where
  "criteria_section skills task_type =
     (let own = get_skill_criteria skills; c = dict_get_or TASK_EVALUATION_CRITERIA task_type [] in
      if own \<noteq> [] then own
      else if c \<noteq> [] then nl @ ''**Domain-Specific Criteria for '' @ spaced task_type @ ''**:'' @ nl @ c @ nl
      else [])"

section \<open>The answer of a critic\<close>

definition DIMENSIONS :: "string list" where
  "DIMENSIONS = [''completeness'', ''accuracy'', ''quality'', ''clarity'', ''coherence'', ''helpfulness'', ''overall'']"

definition default_scores :: "(string, int) py_dict" where
  "default_scores = map (\<lambda>d. (d, 50)) DIMENSIONS"

definition OUT_OF_100 :: regex where
  "OUT_OF_100 = ropt (ralt [rseq [RStr ''/'', RStar True (RSet False [CSpace]), RStr ''100''], RStr ''%''])"

definition BLANKS_IN_LINE :: regex where
  "BLANKS_IN_LINE = RStar True (RSet True [CNot CSpace, CChar (CHR 0x0A)])"

definition DIM_NAME :: regex where
  "DIM_NAME = RGroup 1 (ralt (map RStr DIMENSIONS))"

definition DIM_PATTERN :: regex where
  "DIM_PATTERN = rseq [ralt [RStart, RStr [CHR 0x0A]], RStar False RAny, DIM_NAME,
     ropt (rseq [rplus (RSet False [CSpace]), RStr ''score'']), RStar True (RSet False [CSpace]),
     RSet False [CChar (CHR '':''), CChar (CHR ''=''), CChar (CHR ''-'')], RStar True (RSet False [CSpace]),
     RGroup 2 (rplus (RSet False [CDigit])), BLANKS_IN_LINE, OUT_OF_100]"

definition BARE_PATTERN :: regex where
  "BARE_PATTERN = rseq [ralt [RStart, RStr [CHR 0x0A]], RStar True (RSet False [CSpace]), DIM_NAME,
     rplus (RSet False [CSpace]), RGroup 2 (rplus (RSet False [CDigit])), BLANKS_IN_LINE, OUT_OF_100]"

definition NUMBER_PATTERN :: regex where
  "NUMBER_PATTERN = rseq [RGroup 1 (rplus (RSet False [CDigit])), RStar True (RSet False [CSpace]), OUT_OF_100]"

definition PER_100_PATTERN :: regex where
  "PER_100_PATTERN = rseq [RGroup 1 (rplus (RSet False [CDigit])), RStar True (RSet False [CSpace]), RStr ''/'',
     RStar True (RSet False [CSpace]), RStr ''100'']"

definition clamp100 :: "int \<Rightarrow> int" where
  "clamp100 v = max 0 (min 100 v)"

definition group_text :: "nat \<Rightarrow> position \<Rightarrow> string" where
  "group_text n q = opt_or (group_of n q) []"

text \<open>The dimension and the value of each match.\<close>

definition dim_values :: "regex \<Rightarrow> string \<Rightarrow> (string \<times> int) list" where
  "dim_values r s = map (\<lambda>(b, q). (py_lower (group_text 1 q), clamp100 (int (digits_value (group_text 2 q))))) (find_iter True r [] s)"

definition put_scores :: "(string \<times> int) list \<Rightarrow> (string, int) py_dict \<Rightarrow> (string, int) py_dict" where
  "put_scores vs scores = foldl (\<lambda>d (k, v). if dict_has d k then dict_set k v d else d) scores vs"

definition known_values :: "(string \<times> int) list \<Rightarrow> (string \<times> int) list" where
  "known_values vs = filter (\<lambda>(k, v). k \<in> set DIMENSIONS) vs"

definition extract_from :: "string \<Rightarrow> (string, int) py_dict \<Rightarrow> nat \<times> (string, int) py_dict" where
  "extract_from s scores =
     (let vs = known_values (dim_values DIM_PATTERN s);
          vs' = (if vs = [] then known_values (dim_values BARE_PATTERN s) else vs)
      in (length vs', put_scores vs' scores))"

text \<open>The first line that mentions a score and has a number up to 100.\<close>

definition line_score :: "string \<Rightarrow> int option" where
  "line_score l =
     (if str_contains ''overall'' (py_lower l) \<or> str_contains ''score'' (py_lower l) then
        (case search_from False NUMBER_PATTERN [] l of
           None \<Rightarrow> None
         | Some (b, q) \<Rightarrow> let v = int (digits_value (group_text 1 q)) in if 0 \<le> v \<and> v \<le> 100 then Some v else None)
      else None)"

definition first_line_score :: "string \<Rightarrow> int option" where
  "first_line_score s =
     (case List.map_filter line_score (split_on (CHR 0x0A) s) of [] \<Rightarrow> None | v # _ \<Rightarrow> Some v)"

definition last_per_100 :: "string \<Rightarrow> int option" where
  "last_per_100 s =
     (let qs = find_iter False PER_100_PATTERN [] s in
      if qs = [] then None else Some (clamp100 (int (digits_value (group_text 1 (snd (List.last qs)))))))"

definition parse_critic_output :: "string \<Rightarrow> (string, int) py_dict \<times> string" where
  "parse_critic_output ev =
     (let feedback = safe_split_after ev ''REASONING:'' ev;
          sec = safe_split_before ev ''REASONING:'' [];
          (n1, d1) = (if sec = [] then (0, default_scores) else extract_from sec default_scores);
          (n2, d2) = (if n1 = 0 then extract_from ev d1 else (n1, d1));
          d3 = (if n2 > 0 then d2
                else (case first_line_score ev of
                        Some v \<Rightarrow> dict_set ''overall'' v d2
                      | None \<Rightarrow> (case last_per_100 ev of Some v \<Rightarrow> dict_set ''overall'' v d2 | None \<Rightarrow> d2)))
      in (d3, feedback))"

definition overall :: "(string, int) py_dict \<Rightarrow> int" where
  "overall scores = dict_get_or scores ''overall'' 0"

definition format_scores :: "(string, int) py_dict \<Rightarrow> string" where
  "format_scores scores = join_with nl (map (\<lambda>(k, v). py_title k @ '': '' @ str_int v @ ''/100'') scores)"

text \<open>The turns of a refinement: what the specialist wrote and what the critic said.\<close>

definition turns_of :: "history_entry \<Rightarrow> chat" where
  "turns_of h =
     (if h_output h = [] then [] else [(''assistant'', h_output h)])
     @ (if h_feedback_summary h = [] then []
        else [(''user'', ''[Critic - iteration '' @ str_int (h_iteration h) @ '', score '' @ str_int (h_score h) @ ''/100]: ''
          @ h_feedback_summary h)])"

definition build_refinement_history :: "agent_state \<Rightarrow> chat" where
  "build_refinement_history s = concat (map turns_of (opt_or (conversation_history s) []))"

section \<open>Prompts\<close>

definition spec_critic_prompt :: "string \<Rightarrow> string \<Rightarrow> string" where
  "spec_critic_prompt req spec =
     ''You are evaluating a specification for completeness and clarity.'' @ nl @ nl @ ''Original User Request: '' @ req
     @ nl @ nl @ ''Specification to Review: '' @ spec @ nl @ nl @ ''Evaluate whether this specification has enough ''
     @ ''detail for a specialist to create a high-quality result.'' @ nl @ nl @ ''Consider:'' @ nl
     @ ''1. Are all requirements clearly stated?'' @ nl @ ''2. Are there ambiguities that need clarification?'' @ nl
     @ ''3. Is any critical information missing?'' @ nl @ ''4. Are constraints and preferences specified?'' @ nl @ nl
     @ ''Provide scores (0-100) and detailed feedback.'' @ nl @ nl @ ''Output format:'' @ nl @ ''SCORES:'' @ nl
     @ ''Completeness: [0-100]'' @ nl @ ''Clarity: [0-100]'' @ nl @ ''Specificity: [0-100]'' @ nl
     @ ''Feasibility: [0-100]'' @ nl @ ''Overall: [0-100]'' @ nl @ nl @ ''REASONING:'' @ nl
     @ ''[Detailed feedback on what'' @ [CHR 0x27] @ ''s good and what needs improvement]''"

definition output_critic_prompt :: "string \<Rightarrow> string \<Rightarrow> string \<Rightarrow> string \<Rightarrow> string \<Rightarrow> string \<Rightarrow> string" where
  "output_critic_prompt task_type req spec specialist out criteria =
     ''Evaluate the quality of this '' @ (spaced task_type) @ '' output.'' @ nl @ nl @ ''**Original User Request**: ''
     @ req @ nl @ nl @ ''**Specification**: '' @ spec @ nl @ nl @ ''**Specialist**: '' @ specialist @ nl @ nl
     @ ''**Output to Evaluate**: '' @ out @ nl @ criteria @ nl @ ''Does the output successfully fulfill the ''
     @ ''specification and address the user'' @ [CHR 0x27] @ ''s request?'' @ nl @ nl
     @ ''Provide scores (0-100) and detailed, actionable ''
     @ ''feedback.'' @ nl @ nl @ ''Output format:'' @ nl @ ''SCORES:'' @ nl @ ''Completeness: [0-100]'' @ nl
     @ ''Accuracy: [0-100]'' @ nl @ ''Quality: [0-100]'' @ nl @ ''Clarity: [0-100]'' @ nl @ ''Helpfulness: [0-100]'' @ nl
     @ ''Overall: [0-100]'' @ nl @ nl @ ''REASONING:'' @ nl @ ''[Detailed feedback on strengths and specific areas for ''
     @ ''improvement]''"

definition sub_spec_critic_prompt :: "string \<Rightarrow> string \<Rightarrow> string" where
  "sub_spec_critic_prompt task_type spec =
     ''Evaluate this specification for a '' @ task_type @ '' task.'' @ nl @ nl @ ''Sub-Specification: '' @ spec @ nl @ nl
     @ ''Does this provide enough detail for a specialist to produce quality ''
     @ ''output?'' @ nl @ nl @ ''Output format:'' @ nl @ ''SCORES:'' @ nl @ ''Completeness: [0-100]'' @ nl
     @ ''Clarity: [0-100]'' @ nl @ ''Specificity: [0-100]'' @ nl @ ''Overall: [0-100]'' @ nl @ nl @ ''REASONING:'' @ nl
     @ ''[Feedback]''"

definition sub_output_critic_prompt :: "string \<Rightarrow> int \<Rightarrow> string \<Rightarrow> string \<Rightarrow> string \<Rightarrow> string \<Rightarrow> string" where
  "sub_output_critic_prompt task_type i req spec out criteria =
     ''Evaluate this '' @ (spaced task_type) @ '' output (sub-task '' @ str_int (i + 1) @ '' of a multi-specialist plan).''
     @ nl @ nl @ ''**Original User Request**: '' @ req @ nl @ nl @ ''**Sub-Task Specification**: '' @ spec @ nl @ nl
     @ ''**Output to Evaluate**: '' @ out @ nl @ criteria @ nl
     @ ''Does this output successfully fulfill the specification?'' @ nl @ nl @ ''Output format:'' @ nl @ ''SCORES:'' @ nl
     @ ''Completeness: [0-100]'' @ nl @ ''Accuracy: [0-100]'' @ nl @ ''Quality: [0-100]'' @ nl @ ''Overall: [0-100]'' @ nl
     @ nl @ ''REASONING:'' @ nl @ ''[Specific, actionable feedback]''"

definition aggregate_critic_prompt :: "string \<Rightarrow> string \<Rightarrow> string \<Rightarrow> string \<Rightarrow> string \<Rightarrow> string" where
  "aggregate_critic_prompt req spec summary out criteria =
     ''Evaluate the final aggregated output that combines work from multiple specialists.'' @ nl @ nl
     @ ''**Original User Request**: '' @ req @ nl @ nl @ ''**Overall Specification**: '' @ spec @ nl @ summary @ nl
     @ ''**Aggregated Output**: '' @ out @ nl @ criteria @ nl @ ''Evaluate whether the aggregated output:'' @ nl
     @ ''1. Fully addresses the user'' @ [CHR 0x27] @ ''s original request'' @ nl @ ''2. Maintains coherence across ''
     @ ''specialist contributions (no contradictions or gaps)'' @ nl @ ''3. Properly integrates outputs (not just ''
     @ ''concatenated sections)'' @ nl @ nl @ ''Output format:'' @ nl @ ''SCORES:'' @ nl @ ''Completeness: [0-100]'' @ nl
     @ ''Accuracy: [0-100]'' @ nl @ ''Quality: [0-100]'' @ nl @ ''Coherence: [0-100]'' @ nl @ ''Helpfulness: [0-100]''
     @ nl @ ''Overall: [0-100]'' @ nl @ nl @ ''REASONING:'' @ nl @ ''[Detailed feedback on integration quality and any ''
     @ ''gaps between specialist outputs]''"

definition critic_config :: "real \<Rightarrow> gen_config" where
  "critic_config tokens = [(''temperature'', 1 / 10), (''max_tokens'', tokens)]"

section \<open>The nodes\<close>

text \<open>Sequencing in a node: an exception ends it, what the model and the registry went through stays.\<close>

definition and_then :: "('w, 'a) node_run \<Rightarrow> ('a \<Rightarrow> py_exn + 'b) \<Rightarrow> ('w, 'b) node_run" where
  "and_then f g rw = (case f rw of (r, rw') \<Rightarrow> (res_bind r g, rw'))"

definition used_adapter :: "string \<Rightarrow> agent_state \<Rightarrow> agent_state" where
  "used_adapter n s = s\<lparr>adapters_used := Some (opt_or (adapters_used s) [] @ [n])\<rparr>"

definition evaluate_specification :: "'w language_model \<Rightarrow> agent_state \<Rightarrow> ('w, agent_state) node_run" where
  "evaluate_specification m s =
     (case user_request s of
        None \<Rightarrow> (\<lambda>rw. (Inl (KeyError ''user_request''), rw))
      | Some req \<Rightarrow> and_then (ask_critic m ''critic'' (spec_critic_prompt req (opt_or (spec_text s) [])) (critic_config 600))
          (\<lambda>ev. let (scores, feedback) = parse_critic_output ev in
             Inr (used_adapter ''critic'' (s\<lparr>spec_critic_scores := Some scores, spec_critic_score := Some (overall scores),
               spec_critic_feedback := Some feedback\<rparr>))))"

definition put_critique :: "(string, int) py_dict \<Rightarrow> string \<Rightarrow> agent_state \<Rightarrow> agent_state" where
  "put_critique scores feedback s =
     s\<lparr>output_critic_scores := Some scores, output_critic_score := Some (overall scores), output_critic_feedback := Some feedback\<rparr>"

definition evaluate_output :: "'w language_model \<Rightarrow> agent_state \<Rightarrow> ('w, agent_state) node_run" where
  "evaluate_output m s =
     (let task_type = opt_or (routed_task_type s) ''general'' in
      and_then
        (ask_critic m ''critic''
          (output_critic_prompt task_type (opt_or (user_request s) []) (opt_or (spec_text s) [])
             (opt_or (specialist_adapter s) ''unknown'') (opt_or (specialist_output s) [])
             (criteria_section (opt_or (loaded_skills s) []) task_type))
          (critic_config 600))
        (\<lambda>ev. let (scores, feedback) = parse_critic_output ev in
           Inr ((used_adapter ''critic'' (put_critique scores feedback s))
             \<lparr>lesson_eligible := Some (compute_lesson_eligible (overall scores) feedback)\<rparr>)))"

text \<open>The sub-task at the current index, for the nodes that work on it: \<open>f\<close> is not run when the index is past the end.\<close>

definition at_sub_task :: "agent_state \<Rightarrow> (int \<Rightarrow> sub_task \<Rightarrow> ('w, agent_state) node_run) \<Rightarrow> ('w, agent_state) node_run" where
  "at_sub_task s f rw =
     (let ts = opt_or (sub_tasks s) []; i = opt_or (current_sub_task_index s) 0 in
      if i \<ge> int (length ts) then (Inr s, rw)
      else (case py_index ts i of None \<Rightarrow> (Inl IndexError, rw) | Some t \<Rightarrow> f i t rw))"

definition evaluate_sub_specification :: "'w language_model \<Rightarrow> agent_state \<Rightarrow> ('w, agent_state) node_run" where
  "evaluate_sub_specification m s = at_sub_task s (\<lambda>i t.
     (case t_task_type t of
        None \<Rightarrow> (\<lambda>rw. (Inl (KeyError ''task_type''), rw))
      | Some task_type \<Rightarrow>
          and_then (ask_critic m ''critic'' (sub_spec_critic_prompt task_type (opt_or (t_specification t) [])) (critic_config 400))
            (\<lambda>ev. let (scores, feedback) = parse_critic_output ev in
               Inr (put_sub_task i (t\<lparr>t_spec_score := Some (overall scores), t_spec_feedback := Some feedback,
                 t_status := Some ''spec_evaluated''\<rparr>) s))))"

definition evaluate_sub_output :: "'w language_model \<Rightarrow> agent_state \<Rightarrow> ('w, agent_state) node_run" where
  "evaluate_sub_output m s = at_sub_task s (\<lambda>i t.
     (case t_task_type t of
        None \<Rightarrow> (\<lambda>rw. (Inl (KeyError ''task_type''), rw))
      | Some task_type \<Rightarrow>
          and_then
            (ask_critic m ''critic''
              (sub_output_critic_prompt task_type i (opt_or (user_request s) []) (opt_or (t_specification t) [])
                 (opt_or (t_output t) []) (criteria_section (opt_or (loaded_skills s) []) task_type))
              (critic_config 400))
            (\<lambda>ev. let (scores, feedback) = parse_critic_output ev in
               Inr (put_sub_task i (t\<lparr>t_output_score := Some (overall scores), t_output_feedback := Some feedback,
                 t_status := Some ''evaluated''\<rparr>) s))))"

definition sub_task_line :: "nat \<Rightarrow> sub_task \<Rightarrow> string" where
  "sub_task_line i t =
     ''  '' @ str_nat (i + 1) @ ''. '' @ opt_or (t_task_type t) ''unknown'' @ '' -> '' @ opt_or (t_specialist_adapter t) ''unknown''
     @ '' ('' @ (if t_status t = Some ''completed'' then ''completed'' else ''failed'') @ '', score: ''
     @ str_int (opt_or (t_output_score t) 0) @ ''/100)''"

definition sub_task_summary :: "sub_task list \<Rightarrow> string" where
  "sub_task_summary ts =
     (if ts = [] then []
      else nl @ ''**Sub-Task Breakdown**:'' @ nl @ join_with nl (map (\<lambda>(i, t). sub_task_line i t) (zip [0..<length ts] ts)) @ nl)"

definition evaluate_aggregated_output :: "'w language_model \<Rightarrow> agent_state \<Rightarrow> ('w, agent_state) node_run" where
  "evaluate_aggregated_output m s =
     and_then
       (ask_critic m ''critic''
         (aggregate_critic_prompt (opt_or (user_request s) []) (opt_or (spec_text s) [])
            (sub_task_summary (opt_or (sub_tasks s) [])) (opt_or (aggregated_output s) [])
            (get_skill_criteria (opt_or (loaded_skills s) [])))
         (critic_config 600))
       (\<lambda>ev. let (scores, feedback) = parse_critic_output ev in
          Inr ((put_critique scores feedback s)\<lparr>specialist_output := Some (opt_or (aggregated_output s) [])\<rparr>))"

section \<open>The heuristic critic\<close>

text \<open>
  \<^verbatim>\<open>agents/heuristic_critic.py\<close>: the score of a specialist's output by its length and the patterns found in it.
\<close>

definition CODE_TASK_TYPES :: "string list" where
  "CODE_TASK_TYPES = [''test_generation'', ''security_audit'', ''code_generation'', ''debugging'', ''refactoring'',
     ''data_processing'', ''api_development'', ''database_operations'']"

definition ERROR_PATTERNS :: regex where
  "ERROR_PATTERNS = ralt
     [RStr ''Traceback (most recent call last)'',
      rseq [RLineStart, RStar True (RSet False [CSpace]), RStr ''raise'', rplus (RSet False [CSpace]),
            rplus (RSet False [CWord]), RStr ''Error''],
      RStr ''Error:'', RStr ''Exception:'', RStr ''FAILED'', RStr ''FATAL'',
      RStr ''SyntaxError:'', RStr ''IndentationError:'', RStr ''NameError:'', RStr ''TypeError:'', RStr ''ValueError:'',
      RStr ''ImportError:'', RStr ''AttributeError:'', RStr ''KeyError:'', RStr ''IndexError:'']"

definition TRUNCATION :: regex where
  "TRUNCATION = ralt
     [rseq [RStr ''...'', RStar True (RSet False [CSpace]), RLineEnd],
      RStr ''[truncated]'', RStr ''[...content truncated...]'', RStr ''# ... more'', RStr ''// ... rest'']"

definition indented :: "regex list \<Rightarrow> regex" where
  "indented rs = rseq ([RLineStart, RStar True (RSet False [CSpace])] @ rs)"

definition STRUCTURAL :: regex where
  "STRUCTURAL = ralt
     [indented [ralt [RStr ''def '', RStr ''class '', RStr ''async def '', RStr ''function ''], rplus (RSet False [CWord])],
      indented [RStr ''return'', RBoundary],
      indented [ralt [RStr ''export '', RStr ''module.exports'']],
      indented [ralt [RStr ''CREATE TABLE'', RStr ''ALTER TABLE'', RStr ''INSERT INTO'', RStr ''SELECT '']],
      indented [ralt [RStr ''import '', rseq [RStr ''from '', rplus (RSet False [CNot CSpace]), RStr '' import '']]]]"

definition fence :: string where
  "fence = replicate 3 (CHR 0x60)"

definition CODE_BLOCK :: regex where
  "CODE_BLOCK = rseq [RStr fence, RStar False (RSet False [CSpace, CNot CSpace]), RStr fence]"

definition MIN_LENGTH :: "bool \<Rightarrow> nat" where
  "MIN_LENGTH is_code = (if is_code then 50 else 100)"

section \<open>The score\<close>

definition compute_score :: "string \<Rightarrow> string \<Rightarrow> int" where
  "compute_score out task_type =
     (if py_strip out = [] then 0
      else
        let is_code = task_type \<in> set CODE_TASK_TYPES;
            s1 = 85 - (if length (py_strip out) < MIN_LENGTH is_code then 20 else 0);
            s2 = s1 - (if is_code \<and> \<not> re_search False CODE_BLOCK out then 30 else 0);
            s3 = s2 - (if re_search False ERROR_PATTERNS out then 40 else 0);
            s4 = s3 - (if re_search True TRUNCATION out then 15 else 0);
            s5 = s4 + (if re_search False STRUCTURAL out then 5 else 0)
        in max 0 (min 100 s5))"

definition heuristic_evaluate_output :: "agent_state \<Rightarrow> agent_state" where
  "heuristic_evaluate_output s =
     (let score = compute_score (opt_or (specialist_output s) '''') (opt_or (routed_task_type s) ''general'');
          threshold = opt_or (effective_quality_threshold s) (opt_or (quality_threshold s) 85)
      in s\<lparr>heuristic_critic_score := Some score, heuristic_critic_passed := Some (score \<ge> threshold)\<rparr>)"

section \<open>Properties\<close>

text \<open>The score lies between 0 and 90. At the thresholds of the tiers (70 and more) an output that passes is not blank,
  shows no error, holds a fenced block when its task asks for code, is cut short only when the threshold is 75 or less, and is
  too short only at 70.\<close>

theorem heuristic_pass_is_clean:
  assumes "heuristic_critic_passed (heuristic_evaluate_output s) = Some True"
    and "70 \<le> opt_or (effective_quality_threshold s) (opt_or (quality_threshold s) 85)"
  shows "py_strip (opt_or (specialist_output s) '''') \<noteq> ''''
    \<and> \<not> re_search False ERROR_PATTERNS (opt_or (specialist_output s) '''')
    \<and> (opt_or (routed_task_type s) ''general'' \<in> set CODE_TASK_TYPES \<longrightarrow>
         re_search False CODE_BLOCK (opt_or (specialist_output s) ''''))
    \<and> (75 < opt_or (effective_quality_threshold s) (opt_or (quality_threshold s) 85) \<longrightarrow>
         \<not> re_search True TRUNCATION (opt_or (specialist_output s) ''''))
    \<and> (70 < opt_or (effective_quality_threshold s) (opt_or (quality_threshold s) 85) \<longrightarrow>
         length (py_strip (opt_or (specialist_output s) ''''))
           \<ge> MIN_LENGTH (opt_or (routed_task_type s) ''general'' \<in> set CODE_TASK_TYPES))"
  using assms by (auto simp: heuristic_evaluate_output_def compute_score_def Let_def split: if_splits)

text \<open>A text cut short passes the standard tier when it looks like code.\<close>

definition cut_short :: string where
  "cut_short = replicate 90 (CHR ''x'') @ nl @ ''return result'' @ nl @ ''[truncated]''"

theorem heuristic_pass_is_clean_witness:
  "heuristic_critic_passed (heuristic_evaluate_output (empty_state\<lparr>specialist_output := Some cut_short,
      effective_quality_threshold := Some 75\<rparr>)) = Some True
    \<and> \<not> re_search False ERROR_PATTERNS cut_short"
proof -
  let ?s = "empty_state\<lparr>specialist_output := Some cut_short, effective_quality_threshold := Some 75\<rparr>"
  have p: "heuristic_critic_passed (heuristic_evaluate_output ?s) = Some True" by code_simp
  then show ?thesis using heuristic_pass_is_clean [OF p] by (simp add: empty_state_def)
qed

end
