(* ===== verification/Cache_Backend.thy ===== *)
theory Cache_Backend
  imports Py_Strings
begin

text \<open>
  \<^verbatim>\<open>agents/storage/redis_backend.py\<close> with the interfaces of \<^verbatim>\<open>agents/storage/base.py\<close>: the cache with expiring keys in
  memory and over a Redis server, and the two locks.

  The Redis server is a parameter: its commands act on a state of its own. Each operation of the cache in memory takes
  the reading of \<open>time.monotonic()\<close> it makes.
\<close>

section \<open>The cache in memory\<close>

record memory_cache =
  mc_store :: "(string, string) py_dict"
  mc_expiry :: "(string, real) py_dict"

definition new_cache :: memory_cache where
  "new_cache = \<lparr>mc_store = [], mc_expiry = []\<rparr>"

definition mc_expired :: "real \<Rightarrow> string \<Rightarrow> memory_cache \<Rightarrow> bool" where
  "mc_expired now k c = (case dict_get (mc_expiry c) k of None \<Rightarrow> False | Some e \<Rightarrow> now > e)"

definition mc_cleanup :: "string \<Rightarrow> memory_cache \<Rightarrow> memory_cache" where
  "mc_cleanup k c = c\<lparr>mc_store := dict_del k (mc_store c), mc_expiry := dict_del k (mc_expiry c)\<rparr>"

definition mc_get :: "real \<Rightarrow> string \<Rightarrow> memory_cache \<Rightarrow> string option \<times> memory_cache" where
  "mc_get now k c =
     (case dict_get (mc_store c) k of
        None \<Rightarrow> (None, c)
      | Some v \<Rightarrow> if mc_expired now k c then (None, mc_cleanup k c) else (Some v, c))"

definition mc_set :: "real \<Rightarrow> string \<Rightarrow> string \<Rightarrow> int \<Rightarrow> memory_cache \<Rightarrow> memory_cache" where
  "mc_set now k v ttl c = c\<lparr>mc_store := dict_set k v (mc_store c),
     mc_expiry := (if ttl > 0 then dict_set k (now + of_int ttl) (mc_expiry c) else dict_del k (mc_expiry c))\<rparr>"

definition mc_delete :: "string \<Rightarrow> memory_cache \<Rightarrow> bool \<times> memory_cache" where
  "mc_delete k c = (dict_has (mc_store c) k, mc_cleanup k c)"

definition mc_exists :: "real \<Rightarrow> string \<Rightarrow> memory_cache \<Rightarrow> bool \<times> memory_cache" where
  "mc_exists now k c =
     (if \<not> dict_has (mc_store c) k then (False, c)
      else if mc_expired now k c then (False, mc_cleanup k c) else (True, c))"

text \<open>\<open>read_int\<close> is \<open>int\<close> of a text.\<close>

definition mc_incr :: "(string \<Rightarrow> int option) \<Rightarrow> real \<Rightarrow> string \<Rightarrow> int \<Rightarrow> memory_cache \<Rightarrow> (py_exn + int) \<times> memory_cache" where
  "mc_incr read_int now k amount c =
     (case dict_get (mc_store c) k of
        None \<Rightarrow> (Inr amount, c\<lparr>mc_store := dict_set k (str_int amount) (mc_store c)\<rparr>)
      | Some s \<Rightarrow>
          if mc_expired now k c then (Inr amount, c\<lparr>mc_store := dict_set k (str_int amount) (mc_store c)\<rparr>)
          else (case read_int s of
                  None \<Rightarrow> (Inl (ValueError s), c)
                | Some n \<Rightarrow> (Inr (n + amount), c\<lparr>mc_store := dict_set k (str_int (n + amount)) (mc_store c)\<rparr>)))"

text \<open>\<open>fnmatch\<close> as the caches use it: \<open>*\<close> and \<open>?\<close>; \<open>in_set\<close> decides a set in brackets that opens at a position and gives
  what is left of the pattern after it, \<open>None\<close> when the bracket is not closed.\<close>

function glob :: "(string \<Rightarrow> char \<Rightarrow> (bool \<times> string) option) \<Rightarrow> string \<Rightarrow> string \<Rightarrow> bool" where
  "glob in_set [] s = (s = [])"
| "glob in_set (p # ps) [] = (p = CHR ''*'' \<and> glob in_set ps [])"
| "glob in_set (p # ps) (c # cs) =
     (if p = CHR ''*'' then glob in_set ps (c # cs) \<or> glob in_set (p # ps) cs
      else if p = CHR ''?'' then glob in_set ps cs
      else if p = CHR ''['' then
        (case in_set ps c of
           Some (hit, rest) \<Rightarrow> hit \<and> glob in_set rest cs
         | None \<Rightarrow> p = c \<and> glob in_set ps cs)
      else p = c \<and> glob in_set ps cs)"
  by pat_completeness auto
termination
  by (relation "measures [\<lambda>(f, p, s). length s, \<lambda>(f, p, s). length p]") auto

fun keys_loop ::
    "(string \<Rightarrow> bool) \<Rightarrow> real \<Rightarrow> string list \<Rightarrow> memory_cache \<Rightarrow> string list \<times> memory_cache" where
  "keys_loop matches now [] c = ([], c)"
| "keys_loop matches now (k # ks) c =
     (if mc_expired now k c then keys_loop matches now ks (mc_cleanup k c)
      else case keys_loop matches now ks c of (l, c') \<Rightarrow> (if matches k then k # l else l, c'))"

definition mc_keys ::
    "(string \<Rightarrow> char \<Rightarrow> (bool \<times> string) option) \<Rightarrow> real \<Rightarrow> string \<Rightarrow> memory_cache \<Rightarrow> string list \<times> memory_cache" where
  "mc_keys in_set now pattern c =
     keys_loop (\<lambda>k. pattern = ''*'' \<or> glob in_set pattern k) now (dict_keys (mc_store c)) c"

definition mc_flush :: "memory_cache \<Rightarrow> memory_cache" where
  "mc_flush c = c\<lparr>mc_store := [], mc_expiry := []\<rparr>"

definition mc_close :: "memory_cache \<Rightarrow> memory_cache" where
  "mc_close c = mc_flush c"

text \<open>Values that are JSON texts; \<open>loads\<close> and \<open>dumps\<close> are those of \<open>json\<close>.\<close>

definition mc_get_json :: "(string \<Rightarrow> 'j option) \<Rightarrow> real \<Rightarrow> string \<Rightarrow> memory_cache \<Rightarrow> 'j option \<times> memory_cache" where
  "mc_get_json loads now k c =
     (case mc_get now k c of (r, c') \<Rightarrow> ((case r of None \<Rightarrow> None | Some s \<Rightarrow> loads s), c'))"

definition mc_set_json :: "('j \<Rightarrow> string) \<Rightarrow> real \<Rightarrow> string \<Rightarrow> 'j \<Rightarrow> int \<Rightarrow> memory_cache \<Rightarrow> memory_cache" where
  "mc_set_json dumps now k v ttl c = mc_set now k (dumps v) ttl c"

section \<open>The interface\<close>

text \<open>
  \<open>CacheBackend\<close> but for its counter: \<open>view t s k\<close> is the value of the key at time \<open>t\<close>. A key has the value it was last set to
  until its time to live is over; reading, asking for a key and listing keys change nothing.
\<close>

locale cache_backend =
  fixes view :: "real \<Rightarrow> 's \<Rightarrow> string \<Rightarrow> string option"
    and get :: "real \<Rightarrow> string \<Rightarrow> 's \<Rightarrow> string option \<times> 's"
    and put :: "real \<Rightarrow> string \<Rightarrow> string \<Rightarrow> int \<Rightarrow> 's \<Rightarrow> 's"
    and del :: "string \<Rightarrow> 's \<Rightarrow> bool \<times> 's"
    and has :: "real \<Rightarrow> string \<Rightarrow> 's \<Rightarrow> bool \<times> 's"
    and list :: "real \<Rightarrow> string \<Rightarrow> 's \<Rightarrow> string list \<times> 's"
    and fits :: "string \<Rightarrow> string \<Rightarrow> bool"
    and clear :: "'s \<Rightarrow> 's"
    and inv :: "'s \<Rightarrow> bool"
  assumes get_value: "fst (get now k s) = view now s k"
    and get_view: "inv s \<Longrightarrow> now \<le> t \<Longrightarrow> view t (snd (get now k s)) k' = view t s k'"
    and put_view: "inv s \<Longrightarrow> view t (put now k v ttl s) k' =
      (if k' = k then (if ttl > 0 \<and> t > now + of_int ttl then None else Some v) else view t s k')"
    and del_view: "inv s \<Longrightarrow> view t (snd (del k s)) k' = (if k' = k then None else view t s k')"
    and has_value: "fst (has now k s) = (view now s k \<noteq> None)"
    and has_view: "inv s \<Longrightarrow> now \<le> t \<Longrightarrow> view t (snd (has now k s)) k' = view t s k'"
    and list_value: "inv s \<Longrightarrow> set (fst (list now pattern s)) = {k. view now s k \<noteq> None \<and> fits pattern k}"
    and list_view: "inv s \<Longrightarrow> now \<le> t \<Longrightarrow> view t (snd (list now pattern s)) k' = view t s k'"
    and clear_view: "view t (clear s) k = None"
    and view_expires: "now \<le> t \<Longrightarrow> view t s k = view now s k \<or> view t s k = None"
    and inv_get: "inv s \<Longrightarrow> inv (snd (get now k s))"
    and inv_put: "inv s \<Longrightarrow> inv (put now k v ttl s)"
    and inv_del: "inv s \<Longrightarrow> inv (snd (del k s))"
    and inv_has: "inv s \<Longrightarrow> inv (snd (has now k s))"
    and inv_list: "inv s \<Longrightarrow> inv (snd (list now pattern s))"
    and inv_clear: "inv (clear s)"
begin

lemma get_after_put:
  "inv s \<Longrightarrow> fst (get t k (put now k v ttl s)) = (if ttl > 0 \<and> t > now + of_int ttl then None else Some v)"
  by (simp add: get_value put_view)

lemma get_other_after_put: "inv s \<Longrightarrow> k' \<noteq> k \<Longrightarrow> fst (get t k' (put now k v ttl s)) = fst (get t k' s)"
  by (simp add: get_value put_view)

lemma get_after_del: "inv s \<Longrightarrow> fst (get t k' (snd (del k s))) = (if k' = k then None else fst (get t k' s))"
  by (simp add: get_value del_view)

lemma get_after_clear: "fst (get t k (clear s)) = None"
  by (simp add: get_value clear_view)

lemma reading_is_harmless:
  "inv s \<Longrightarrow> now \<le> t \<Longrightarrow> fst (get t k' (snd (get now k s))) = fst (get t k' s)
    \<and> fst (get t k' (snd (has now k s))) = fst (get t k' s) \<and> fst (get t k' (snd (list now pattern s))) = fst (get t k' s)"
  by (simp add: get_value get_view has_view list_view)

lemma has_iff_got: "fst (has t k s) \<longleftrightarrow> fst (get t k s) \<noteq> None"
  by (simp add: get_value has_value)

lemma listed_iff_got: "inv s \<Longrightarrow> k \<in> set (fst (list t pattern s)) \<longleftrightarrow> fst (get t k s) \<noteq> None \<and> fits pattern k"
  by (simp add: get_value list_value)

lemma expired_stays_away: "now \<le> t \<Longrightarrow> fst (get now k s) = None \<Longrightarrow> fst (get t k s) = None"
  using view_expires [of now t s k] by (auto simp: get_value)

end

definition mc_view :: "real \<Rightarrow> memory_cache \<Rightarrow> string \<Rightarrow> string option" where
  "mc_view now c k = (if mc_expired now k c then None else dict_get (mc_store c) k)"

definition cache_ok :: "memory_cache \<Rightarrow> bool" where
  "cache_ok c \<longleftrightarrow> dict_ok (mc_store c) \<and> dict_ok (mc_expiry c)"

definition key_fits :: "(string \<Rightarrow> char \<Rightarrow> (bool \<times> string) option) \<Rightarrow> string \<Rightarrow> string \<Rightarrow> bool" where
  "key_fits in_set pattern k \<longleftrightarrow> pattern = ''*'' \<or> glob in_set pattern k"

lemma mc_expired_cleanup: "cache_ok c \<Longrightarrow> mc_expired t k' (mc_cleanup k c) = (k' \<noteq> k \<and> mc_expired t k' c)"
  by (simp add: mc_expired_def mc_cleanup_def cache_ok_def)

lemma mc_view_cleanup: "cache_ok c \<Longrightarrow> mc_view t (mc_cleanup k c) k' = (if k' = k then None else mc_view t c k')"
  by (auto simp: mc_view_def mc_expired_cleanup) (simp_all add: mc_cleanup_def cache_ok_def)

lemma cache_ok_cleanup: "cache_ok c \<Longrightarrow> cache_ok (mc_cleanup k c)"
  by (simp add: cache_ok_def mc_cleanup_def)

lemma mc_expired_later: "now \<le> t \<Longrightarrow> mc_expired now k c \<Longrightarrow> mc_expired t k c"
  by (auto simp: mc_expired_def split: option.splits)

text \<open>Dropping a key that has expired changes no later view.\<close>

lemma mc_view_expired:
  assumes "cache_ok c" and "now \<le> t" and "mc_expired now k c"
  shows "mc_view t (mc_cleanup k c) k' = mc_view t c k'"
  using assms mc_expired_later [OF assms(2,3)] by (simp add: mc_view_cleanup) (simp add: mc_view_def)

lemma keys_loop_keeps:
  "cache_ok c \<Longrightarrow> now \<le> t \<Longrightarrow> cache_ok (snd (keys_loop m now ks c)) \<and> mc_view t (snd (keys_loop m now ks c)) k' = mc_view t c k'"
proof (induction ks arbitrary: c)
  case (Cons k ks)
  show ?case
  proof (cases "mc_expired now k c")
    case True
    then show ?thesis using Cons.IH [OF cache_ok_cleanup [OF Cons.prems(1)] Cons.prems(2)] mc_view_expired [OF Cons.prems True] by simp
  next
    case False
    obtain l c' where "keys_loop m now ks c = (l, c')" by fastforce
    then show ?thesis using False Cons.IH [OF Cons.prems] by simp
  qed
qed simp

lemma keys_loop_lists:
  "cache_ok c \<Longrightarrow> set (fst (keys_loop m now ks c)) = {k \<in> set ks. \<not> mc_expired now k c \<and> m k}" if "distinct ks"
  using that
proof (induction ks arbitrary: c)
  case (Cons k ks)
  show ?case
  proof (cases "mc_expired now k c")
    case True
    then show ?thesis
      using Cons.IH [of "mc_cleanup k c"] Cons.prems by (auto simp: cache_ok_cleanup mc_expired_cleanup)
  next
    case False
    obtain l c' where "keys_loop m now ks c = (l, c')" by fastforce
    then show ?thesis using False Cons.IH [of c] Cons.prems by auto
  qed
qed simp

interpretation mem: cache_backend mc_view mc_get mc_set mc_delete mc_exists "mc_keys in_set" "key_fits in_set" mc_flush cache_ok
  for in_set
proof
  fix c :: memory_cache and now t :: real and k k' v pattern :: string and ttl :: int
  show "fst (mc_get now k c) = mc_view now c k"
    by (simp add: mc_get_def mc_view_def split: option.split)
  show "mc_view t (snd (mc_get now k c)) k' = mc_view t c k'" if "cache_ok c" "now \<le> t"
    using that by (simp add: mc_get_def mc_view_expired split: option.split)
  show "mc_view t (mc_set now k v ttl c) k' =
      (if k' = k then (if ttl > 0 \<and> t > now + of_int ttl then None else Some v) else mc_view t c k')" if "cache_ok c"
    using that by (auto simp: mc_set_def mc_view_def mc_expired_def cache_ok_def)
  show "mc_view t (snd (mc_delete k c)) k' = (if k' = k then None else mc_view t c k')" if "cache_ok c"
    using that by (simp add: mc_delete_def mc_view_cleanup)
  show "fst (mc_exists now k c) = (mc_view now c k \<noteq> None)"
    by (auto simp: mc_exists_def mc_view_def dict_has_def)
  show "mc_view t (snd (mc_exists now k c)) k' = mc_view t c k'" if "cache_ok c" "now \<le> t"
    using that by (simp add: mc_exists_def mc_view_expired)
  show "set (fst (mc_keys in_set now pattern c)) = {k. mc_view now c k \<noteq> None \<and> key_fits in_set pattern k}" if "cache_ok c"
  proof -
    have "distinct (dict_keys (mc_store c))" using that by (simp add: cache_ok_def dict_ok_def dict_keys_def)
    from keys_loop_lists [OF this that] show ?thesis
      by (auto simp: mc_keys_def key_fits_def mc_view_def py_dict.keys_get split: if_splits)
  qed
  show "mc_view t (snd (mc_keys in_set now pattern c)) k' = mc_view t c k'" if "cache_ok c" "now \<le> t"
    using keys_loop_keeps [OF that] by (simp add: mc_keys_def)
  show "mc_view t (mc_flush c) k = None" by (simp add: mc_flush_def mc_view_def mc_expired_def)
  show "mc_view t c k = mc_view now c k \<or> mc_view t c k = None" if "now \<le> t"
    using mc_expired_later [OF that] by (auto simp: mc_view_def)
  show "cache_ok (snd (mc_get now k c))" if "cache_ok c"
    using that cache_ok_cleanup by (simp add: mc_get_def split: option.split)
  show "cache_ok (mc_set now k v ttl c)" if "cache_ok c"
    using that by (simp add: cache_ok_def mc_set_def)
  show "cache_ok (snd (mc_delete k c))" if "cache_ok c"
    using that cache_ok_cleanup by (simp add: mc_delete_def)
  show "cache_ok (snd (mc_exists now k c))" if "cache_ok c"
    using that cache_ok_cleanup by (simp add: mc_exists_def)
  show "cache_ok (snd (mc_keys in_set now pattern c))" if "cache_ok c"
    using keys_loop_keeps [OF that order_refl] by (simp add: mc_keys_def)
  show "cache_ok (mc_flush c)" by (simp add: cache_ok_def mc_flush_def dict_ok_def)
qed

section \<open>The cache over Redis\<close>

text \<open>The commands of the server, on a state that also time changes.\<close>

record 'r redis_client =
  rd_get :: "string \<Rightarrow> 'r \<Rightarrow> string option"
  rd_set :: "string \<Rightarrow> string \<Rightarrow> 'r \<Rightarrow> 'r"
  rd_setex :: "string \<Rightarrow> int \<Rightarrow> string \<Rightarrow> 'r \<Rightarrow> 'r"
  rd_setnx :: "string \<Rightarrow> string \<Rightarrow> int \<Rightarrow> 'r \<Rightarrow> bool \<times> 'r"
  rd_delete :: "string \<Rightarrow> 'r \<Rightarrow> int \<times> 'r"
  rd_exists :: "string \<Rightarrow> 'r \<Rightarrow> int"
  rd_incr :: "string \<Rightarrow> int \<Rightarrow> 'r \<Rightarrow> (py_exn + int) \<times> 'r"
  rd_keys :: "string \<Rightarrow> 'r \<Rightarrow> string list"

definition redis_url :: "(string, string) py_dict \<Rightarrow> string" where
  "redis_url env =
     (let given = (\<lambda>n. dict_get_or env n '''') in
      if given ''VIBE_REDIS_URL'' \<noteq> '''' then given ''VIBE_REDIS_URL''
      else if given ''REDIS_URL'' \<noteq> '''' then given ''REDIS_URL''
      else
        let host = dict_get_or env ''REDIS_HOST'' ''localhost''; port = dict_get_or env ''REDIS_PORT'' ''6379'';
            db = dict_get_or env ''REDIS_DB'' ''0''; password = given ''REDIS_PASSWORD''
        in if password \<noteq> '''' then ''redis://:'' @ password @ ''@'' @ host @ '':'' @ port @ ''/'' @ db
           else ''redis://'' @ host @ '':'' @ port @ ''/'' @ db)"

record redis_cache =
  rc_url :: string
  rc_prefix :: string

text \<open>\<open>ping\<close> is the attempt to reach the server.\<close>

definition new_redis_cache :: "(string \<Rightarrow> py_exn + unit) \<Rightarrow> (string, string) py_dict \<Rightarrow> string option \<Rightarrow> string \<Rightarrow> py_exn + redis_cache" where
  "new_redis_cache ping env url pre =
     (let u = (case url of Some x \<Rightarrow> if x \<noteq> '''' then x else redis_url env | None \<Rightarrow> redis_url env)
      in res_bind (ping u) (\<lambda>_. Inr \<lparr>rc_url = u, rc_prefix = pre\<rparr>))"

definition rc_key :: "redis_cache \<Rightarrow> string \<Rightarrow> string" where
  "rc_key b k = rc_prefix b @ k"

definition rc_get :: "'r redis_client \<Rightarrow> redis_cache \<Rightarrow> string \<Rightarrow> 'r \<Rightarrow> string option" where
  "rc_get c b k r = rd_get c (rc_key b k) r"

definition rc_set :: "'r redis_client \<Rightarrow> redis_cache \<Rightarrow> string \<Rightarrow> string \<Rightarrow> int \<Rightarrow> 'r \<Rightarrow> 'r" where
  "rc_set c b k v ttl r = (if ttl > 0 then rd_setex c (rc_key b k) ttl v r else rd_set c (rc_key b k) v r)"

definition rc_delete :: "'r redis_client \<Rightarrow> redis_cache \<Rightarrow> string \<Rightarrow> 'r \<Rightarrow> bool \<times> 'r" where
  "rc_delete c b k r = (case rd_delete c (rc_key b k) r of (n, r') \<Rightarrow> (n \<noteq> 0, r'))"

definition rc_exists :: "'r redis_client \<Rightarrow> redis_cache \<Rightarrow> string \<Rightarrow> 'r \<Rightarrow> bool" where
  "rc_exists c b k r = (rd_exists c (rc_key b k) r \<noteq> 0)"

definition rc_incr :: "'r redis_client \<Rightarrow> redis_cache \<Rightarrow> string \<Rightarrow> int \<Rightarrow> 'r \<Rightarrow> (py_exn + int) \<times> 'r" where
  "rc_incr c b k amount r = rd_incr c (rc_key b k) amount r"

definition rc_get_json :: "(string \<Rightarrow> 'j option) \<Rightarrow> 'r redis_client \<Rightarrow> redis_cache \<Rightarrow> string \<Rightarrow> 'r \<Rightarrow> 'j option" where
  "rc_get_json loads c b k r = (case rc_get c b k r of None \<Rightarrow> None | Some s \<Rightarrow> loads s)"

definition rc_set_json :: "('j \<Rightarrow> string) \<Rightarrow> 'r redis_client \<Rightarrow> redis_cache \<Rightarrow> string \<Rightarrow> 'j \<Rightarrow> int \<Rightarrow> 'r \<Rightarrow> 'r" where
  "rc_set_json dumps c b k v ttl r = rc_set c b k (dumps v) ttl r"

definition rc_keys :: "'r redis_client \<Rightarrow> redis_cache \<Rightarrow> string \<Rightarrow> 'r \<Rightarrow> string list" where
  "rc_keys c b pattern r = map (drop (length (rc_prefix b))) (rd_keys c (rc_key b pattern) r)"

definition rc_flush :: "'r redis_client \<Rightarrow> redis_cache \<Rightarrow> 'r \<Rightarrow> 'r" where
  "rc_flush c b r = foldl (\<lambda>s k. snd (rd_delete c k s)) r (rd_keys c (rc_prefix b @ ''*'') r)"

section \<open>Locks\<close>

record redis_lock =
  lk_name :: string
  lk_token :: string
  lk_ttl :: int
  lk_owned :: bool

text \<open>The token is made of the process, the thread and the clock, not of the host: clients on two hosts may have the same.\<close>

definition lock_token :: "string \<Rightarrow> string \<Rightarrow> string \<Rightarrow> string" where
  "lock_token pid thread clock = pid @ ''-'' @ thread @ ''-'' @ clock"

definition LOCK_PREFIX :: string where
  "LOCK_PREFIX = ''vibe:lock:''"

definition new_lock :: "string \<Rightarrow> string \<Rightarrow> int \<Rightarrow> redis_lock" where
  "new_lock name token ttl = \<lparr>lk_name = LOCK_PREFIX @ name, lk_token = token, lk_ttl = ttl, lk_owned = False\<rparr>"

text \<open>One pass of the loop of \<open>acquire\<close>.\<close>

definition try_acquire :: "'r redis_client \<Rightarrow> redis_lock \<Rightarrow> 'r \<Rightarrow> bool \<times> redis_lock \<times> 'r" where
  "try_acquire c l r =
     (case rd_setnx c (lk_name l) (lk_token l) (lk_ttl l) r of
        (ok, r') \<Rightarrow> if ok then (True, l\<lparr>lk_owned := True\<rparr>, r') else (False, l, r'))"

text \<open>
  The loop: \<open>now i\<close> is the reading of the clock after the \<open>i\<close>th failure, \<open>others i\<close> what the other clients and time do to the
  server during the pause after it. A negative timeout waits for ever, 0 tries once. \<open>None\<close> when the fuel is gone.
\<close>

fun acquire_loop ::
    "'r redis_client \<Rightarrow> real \<Rightarrow> real \<Rightarrow> (nat \<Rightarrow> real) \<Rightarrow> (nat \<Rightarrow> 'r \<Rightarrow> 'r) \<Rightarrow> nat \<Rightarrow> nat \<Rightarrow> redis_lock \<Rightarrow> 'r
      \<Rightarrow> (bool \<times> redis_lock \<times> 'r) option" where
  "acquire_loop c timeout deadline now others i 0 l r = None"
| "acquire_loop c timeout deadline now others i (Suc n) l r =
     (case try_acquire c l r of
        (True, l', r') \<Rightarrow> Some (True, l', r')
      | (False, l', r') \<Rightarrow>
          if timeout = 0 then Some (False, l', r')
          else if timeout \<ge> 0 \<and> now i \<ge> deadline then Some (False, l', r')
          else acquire_loop c timeout deadline now others (Suc i) n l' (others i r'))"

definition acquire ::
    "'r redis_client \<Rightarrow> real \<Rightarrow> real \<Rightarrow> (nat \<Rightarrow> real) \<Rightarrow> (nat \<Rightarrow> 'r \<Rightarrow> 'r) \<Rightarrow> nat \<Rightarrow> redis_lock \<Rightarrow> 'r
      \<Rightarrow> (bool \<times> redis_lock \<times> 'r) option" where
  "acquire c timeout start now others fuel l r = acquire_loop c timeout (start + timeout) now others 0 fuel l r"

text \<open>The script that deletes the key when it still holds the token runs as one command.\<close>

definition release_script :: "'r redis_client \<Rightarrow> string \<Rightarrow> string \<Rightarrow> 'r \<Rightarrow> int \<times> 'r" where
  "release_script c k token r = (if rd_get c k r = Some token then rd_delete c k r else (0, r))"

definition release :: "'r redis_client \<Rightarrow> redis_lock \<Rightarrow> 'r \<Rightarrow> redis_lock \<times> 'r" where
  "release c l r =
     (if \<not> lk_owned l then (l, r)
      else (l\<lparr>lk_owned := False\<rparr>, snd (release_script c (lk_name l) (lk_token l) r)))"

definition locked :: "'r redis_client \<Rightarrow> redis_lock \<Rightarrow> 'r \<Rightarrow> bool" where
  "locked c l r = (rd_exists c (lk_name l) r \<noteq> 0)"

text \<open>The lock of a single node, \<open>held\<close> when it is taken; \<open>freed\<close> when the holder lets go within the time the caller waits. \<open>None\<close>
  for waiting for ever. A release of a free lock raises, which is caught.\<close>

definition local_acquire :: "real \<Rightarrow> bool \<Rightarrow> bool \<Rightarrow> bool option" where
  "local_acquire timeout held freed = (if \<not> held \<or> freed then Some True else if timeout < 0 then None else Some False)"

definition local_release :: "bool \<Rightarrow> bool" where
  "local_release held = False"

definition local_locked :: "bool \<Rightarrow> bool" where
  "local_locked held = held"

text \<open>\<open>create_lock\<close> reads the URL of the server on its own.\<close>

definition lock_url :: "(string, string) py_dict \<Rightarrow> string" where
  "lock_url env =
     (let given = (\<lambda>n. dict_get_or env n '''') in
      if given ''VIBE_REDIS_URL'' \<noteq> '''' then given ''VIBE_REDIS_URL''
      else if given ''REDIS_URL'' \<noteq> '''' then given ''REDIS_URL'' else ''redis://localhost:6379/0'')"

section \<open>Counting after expiry\<close>

definition incr_all :: "(string \<Rightarrow> int option) \<Rightarrow> string \<Rightarrow> (real \<times> int) list \<Rightarrow> memory_cache \<Rightarrow> memory_cache" where
  "incr_all read_int k ts c = foldl (\<lambda>c (t, a). snd (mc_incr read_int t k a c)) c ts"

lemma incr_stuck:
  assumes "dict_has (mc_store c) k" "mc_expired t k c"
  shows "fst (mc_incr read_int t k a c) = Inr a \<and> dict_has (mc_store (snd (mc_incr read_int t k a c))) k
    \<and> mc_expiry (snd (mc_incr read_int t k a c)) = mc_expiry c"
  using assms by (auto simp: mc_incr_def dict_has_def split: option.split)

lemma incr_all_stuck:
  assumes "dict_has (mc_store c) k" "mc_expired now k c" "\<forall>(t, a) \<in> set ts. now \<le> t"
  shows "dict_has (mc_store (incr_all read_int k ts c)) k \<and> mc_expiry (incr_all read_int k ts c) = mc_expiry c"
  using assms
proof (induction ts arbitrary: c)
  case (Cons x ts)
  obtain t a where x: "x = (t, a)" by (cases x)
  have e: "mc_expired t k c" using Cons.prems x mc_expired_later by auto
  note s = incr_stuck [OF Cons.prems(1) e, of read_int a]
  have "mc_expired now k (snd (mc_incr read_int t k a c))" using Cons.prems(2) s by (simp add: mc_expired_def)
  then show ?case using Cons s by (simp add: incr_all_def x)
qed (simp add: incr_all_def)

section \<open>Clients of a lock\<close>

text \<open>What the documentation of Redis says of the commands.\<close>

definition redis_laws :: "'r redis_client \<Rightarrow> bool" where
  "redis_laws c \<longleftrightarrow>
     (\<forall>k v ttl r. fst (rd_setnx c k v ttl r) = (rd_get c k r = None)
        \<and> (\<forall>k'. rd_get c k' (snd (rd_setnx c k v ttl r)) = (if k' = k \<and> rd_get c k r = None then Some v else rd_get c k' r))) \<and>
     (\<forall>k k' r. rd_get c k' (snd (rd_delete c k r)) = (if k' = k then None else rd_get c k' r)) \<and>
     (\<forall>k k' v r. rd_get c k' (rd_set c k v r) = (if k' = k then Some v else rd_get c k' r)) \<and>
     (\<forall>k k' ttl v r. rd_get c k' (rd_setex c k ttl v r) = (if k' = k then Some v else rd_get c k' r)) \<and>
     (\<forall>k k' n r. k' \<noteq> k \<longrightarrow> rd_get c k' (snd (rd_incr c k n r)) = rd_get c k' r)"

text \<open>A run of clients that share a lock on a server that a cache uses too. \<open>Elapse\<close> is whatever else happens to the server and
  leaves the key of the lock alone, \<open>Expire\<close> the end of its time to live.\<close>

datatype lock_event =
    Acquire nat
  | Release nat
  | Cache_Set redis_cache string string int
  | Cache_Delete redis_cache string
  | Cache_Incr redis_cache string int
  | Cache_Flush redis_cache
  | Elapse
  | Expire

inductive lock_step :: "'r redis_client \<Rightarrow> string \<Rightarrow> (nat \<Rightarrow> redis_lock) \<times> 'r \<Rightarrow> lock_event \<Rightarrow> (nat \<Rightarrow> redis_lock) \<times> 'r \<Rightarrow> bool"
  for c name where
    acquire_step: "try_acquire c (ls i) r = (ok, l, r') \<Longrightarrow> lock_step c name (ls, r) (Acquire i) (ls(i := l), r')"
  | release_step: "release c (ls i) r = (l, r') \<Longrightarrow> lock_step c name (ls, r) (Release i) (ls(i := l), r')"
  | cache_set_step: "lock_step c name (ls, r) (Cache_Set b k v ttl) (ls, rc_set c b k v ttl r)"
  | cache_delete_step: "lock_step c name (ls, r) (Cache_Delete b k) (ls, snd (rc_delete c b k r))"
  | cache_incr_step: "lock_step c name (ls, r) (Cache_Incr b k n) (ls, snd (rc_incr c b k n r))"
  | cache_flush_step: "lock_step c name (ls, r) (Cache_Flush b) (ls, rc_flush c b r)"
  | elapse_step: "rd_get c name r' = rd_get c name r \<Longrightarrow> lock_step c name (ls, r) Elapse (ls, r')"
  | expire_step: "rd_get c name r' = None \<Longrightarrow> lock_step c name (ls, r) Expire (ls, r')"

inductive lock_run :: "'r redis_client \<Rightarrow> string \<Rightarrow> (nat \<Rightarrow> redis_lock) \<times> 'r \<Rightarrow> lock_event list \<Rightarrow> (nat \<Rightarrow> redis_lock) \<times> 'r \<Rightarrow> bool"
  for c name where
    run_start: "lock_run c name s [] s"
  | run_step: "lock_run c name s es s1 \<Longrightarrow> lock_step c name s1 e s2 \<Longrightarrow> lock_run c name s (es @ [e]) s2"

inductive_cases lock_stepE: "lock_step c name s e s'"

text \<open>The events that leave the key of the lock to its clients: no expiry, no flush, and no use of the cache under the very key.\<close>

fun leaves_lock :: "string \<Rightarrow> lock_event \<Rightarrow> bool" where
  "leaves_lock name (Cache_Set b k v ttl) \<longleftrightarrow> rc_key b k \<noteq> name"
| "leaves_lock name (Cache_Delete b k) \<longleftrightarrow> rc_key b k \<noteq> name"
| "leaves_lock name (Cache_Incr b k n) \<longleftrightarrow> rc_key b k \<noteq> name"
| "leaves_lock name (Cache_Flush b) \<longleftrightarrow> False"
| "leaves_lock name Expire \<longleftrightarrow> False"
| "leaves_lock name _ \<longleftrightarrow> True"

text \<open>The clients of one lock, none of which holds it.\<close>

definition clients_of :: "string \<Rightarrow> (nat \<Rightarrow> redis_lock) \<Rightarrow> bool" where
  "clients_of name ls \<longleftrightarrow> (\<forall>i. lk_name (ls i) = name \<and> \<not> lk_owned (ls i))"

text \<open>There is at most one owner, and the key holds its token.\<close>

definition one_owner :: "'r redis_client \<Rightarrow> string \<Rightarrow> (nat \<Rightarrow> redis_lock) \<times> 'r \<Rightarrow> bool" where
  "one_owner c name s \<longleftrightarrow> (\<forall>i. lk_name (fst s i) = name)
     \<and> (\<forall>i. lk_owned (fst s i) \<longrightarrow> rd_get c name (snd s) = Some (lk_token (fst s i)))
     \<and> (\<forall>i j. lk_owned (fst s i) \<and> lk_owned (fst s j) \<longrightarrow> i = j)"

lemma setnx_laws:
  assumes "redis_laws c" "rd_setnx c k v ttl r = (b, r')"
  shows "b = (rd_get c k r = None)" "rd_get c k' r' = (if k' = k \<and> rd_get c k r = None then Some v else rd_get c k' r)"
  using assms unfolding redis_laws_def by (metis fst_conv, metis snd_conv)

lemma set_laws:
  assumes "redis_laws c"
  shows "rd_get c k' (rd_set c k v r) = (if k' = k then Some v else rd_get c k' r)"
    "rd_get c k' (rd_setex c k ttl v r) = (if k' = k then Some v else rd_get c k' r)"
    "k' \<noteq> k \<Longrightarrow> rd_get c k' (snd (rd_incr c k n r)) = rd_get c k' r"
  using assms unfolding redis_laws_def by blast+

lemma delete_laws: "redis_laws c \<Longrightarrow> rd_get c k' (snd (rd_delete c k r)) = (if k' = k then None else rd_get c k' r)"
  unfolding redis_laws_def by blast

lemma try_acquire_laws:
  assumes "redis_laws c" "try_acquire c l r = (ok, l', r')"
  shows "ok = (rd_get c (lk_name l) r = None)" "l' = (if ok then l\<lparr>lk_owned := True\<rparr> else l)"
    "rd_get c (lk_name l) r' = (if ok then Some (lk_token l) else rd_get c (lk_name l) r)"
proof -
  obtain b x where x: "rd_setnx c (lk_name l) (lk_token l) (lk_ttl l) r = (b, x)"
    by (cases "rd_setnx c (lk_name l) (lk_token l) (lk_ttl l) r")
  then have e: "ok = b" "l' = (if b then l\<lparr>lk_owned := True\<rparr> else l)" "r' = x"
    using assms(2) by (auto simp: try_acquire_def split: if_splits)
  show "ok = (rd_get c (lk_name l) r = None)" using setnx_laws(1) [OF assms(1) x] e(1) by simp
  show "l' = (if ok then l\<lparr>lk_owned := True\<rparr> else l)" using e by simp
  show "rd_get c (lk_name l) r' = (if ok then Some (lk_token l) else rd_get c (lk_name l) r)"
    using setnx_laws [OF assms(1) x] e by simp
qed

lemma release_laws:
  assumes "redis_laws c" "release c l r = (l', r')"
  shows "l' = l\<lparr>lk_owned := False\<rparr>"
    "rd_get c (lk_name l) r' = (if lk_owned l \<and> rd_get c (lk_name l) r = Some (lk_token l) then None else rd_get c (lk_name l) r)"
  using assms(2) delete_laws [OF assms(1)] by (auto simp: release_def release_script_def split: if_splits)

text \<open>The names and tokens of the clients never change.\<close>

lemma lock_step_same:
  assumes "lock_step c name s e s'"
  shows "lk_name (fst s' i) = lk_name (fst s i) \<and> lk_token (fst s' i) = lk_token (fst s i)"
  using assms
  by (cases rule: lock_step.cases) (auto simp: try_acquire_def release_def split: prod.splits if_splits)

lemma lock_run_same:
  "lock_run c name s es s' \<Longrightarrow> lk_name (fst s' i) = lk_name (fst s i) \<and> lk_token (fst s' i) = lk_token (fst s i)"
  by (induction rule: lock_run.induct) (auto dest: lock_step_same [of c name _ _ _ i])

text \<open>What leaves the clients alone and the key to them keeps the owner.\<close>

lemma one_owner_kept:
  "one_owner c name (ls, r) \<Longrightarrow> rd_get c name r' = rd_get c name r \<Longrightarrow> one_owner c name (ls, r')"
  by (simp add: one_owner_def)

lemma one_owner_step:
  assumes "redis_laws c" and "lock_step c name s e s'" and "one_owner c name s" and "leaves_lock name e"
  shows "one_owner c name s'"
  using assms(2)
proof (cases rule: lock_step.cases)
  case (acquire_step ls i r ok l r')
  have n: "lk_name (ls i) = name" using assms(3) acquire_step by (simp add: one_owner_def)
  note t = try_acquire_laws [OF assms(1) acquire_step(4), unfolded n]
  show ?thesis
  proof (cases ok)
    case True
    then have "rd_get c name r = None" using t(1) by simp
    then have free: "\<not> lk_owned (ls j)" for j using assms(3) acquire_step by (auto simp: one_owner_def)
    have "l = ls i\<lparr>lk_owned := True\<rparr>" "rd_get c name r' = Some (lk_token (ls i))" using t True by simp_all
    then show ?thesis using assms(3) free by (auto simp: acquire_step one_owner_def)
  next
    case False
    then have "l = ls i" "rd_get c name r' = rd_get c name r" using t(2,3) by simp_all
    then show ?thesis using assms(3) by (simp add: acquire_step one_owner_def)
  qed
next
  case (release_step ls i r l r')
  have n: "lk_name (ls i) = name" using assms(3) release_step by (simp add: one_owner_def)
  note t = release_laws [OF assms(1) release_step(4), unfolded n]
  show ?thesis
  proof (cases "lk_owned (ls i)")
    case True
    then have free: "\<not> lk_owned (ls j)" if "j \<noteq> i" for j using assms(3) release_step that by (auto simp: one_owner_def)
    then show ?thesis using assms(3) t(1) by (auto simp: release_step one_owner_def)
  next
    case False
    then have "l = ls i" "rd_get c name r' = rd_get c name r" using t by simp_all
    then show ?thesis using assms(3) by (simp add: release_step one_owner_def)
  qed
qed (use assms(3,4) in \<open>auto simp: rc_set_def rc_delete_def rc_incr_def set_laws [OF assms(1)] delete_laws [OF assms(1)]
    case_prod_unfold elim!: one_owner_kept\<close>)

lemma one_owner_run:
  "lock_run c name s es s' \<Longrightarrow> redis_laws c \<Longrightarrow> one_owner c name s \<Longrightarrow> \<forall>e \<in> set es. leaves_lock name e \<Longrightarrow> one_owner c name s'"
proof (induction rule: lock_run.induct)
  case (run_step s es s1 e s2)
  then show ?case using one_owner_step [OF _ run_step(2)] by auto
qed simp

section \<open>Properties\<close>

text \<open>C40: The get, set, delete, exists, keys and flush of the cache in memory keep what their interface promises: a key reads as
  what it was last set to while its time to live lasts, other keys are untouched, a deleted key is gone and after a flush all are,
  a key exists and is listed exactly when it reads as a value and fits the pattern, and none of the questions changes an answer.
  The counter of the interface is not covered: an expired one breaks the contract.\<close>

theorem cache_reads_last_write:
  assumes "cache_ok c" and "now \<le> t"
  shows "fst (mc_get t k (mc_set now k v ttl c)) = (if ttl > 0 \<and> t > now + of_int ttl then None else Some v)
    \<and> (k' \<noteq> k \<longrightarrow> fst (mc_get t k' (mc_set now k v ttl c)) = fst (mc_get t k' c))
    \<and> fst (mc_get t k' (snd (mc_delete k c))) = (if k' = k then None else fst (mc_get t k' c))
    \<and> fst (mc_get t k (mc_flush c)) = None
    \<and> fst (mc_exists t k c) = (fst (mc_get t k c) \<noteq> None)
    \<and> (k \<in> set (fst (mc_keys in_set t pattern c)) \<longleftrightarrow>
        fst (mc_get t k c) \<noteq> None \<and> (pattern = ''*'' \<or> glob in_set pattern k))
    \<and> fst (mc_get t k' (snd (mc_get now k c))) = fst (mc_get t k' c)
    \<and> fst (mc_get t k' (snd (mc_exists now k c))) = fst (mc_get t k' c)
    \<and> fst (mc_get t k' (snd (mc_keys in_set now pattern c))) = fst (mc_get t k' c)
    \<and> (fst (mc_get now k c) = None \<longrightarrow> fst (mc_get t k c) = None)"
  using mem.get_after_put [OF assms(1), of t k now v ttl] mem.get_other_after_put [OF assms(1), of k' k t now v ttl]
    mem.get_after_del [OF assms(1), of t k' k] mem.get_after_clear [of t k c] mem.has_iff_got [of t k c]
    mem.listed_iff_got [OF assms(1), of k in_set t pattern] mem.reading_is_harmless [OF assms, of k' k in_set pattern]
    mem.expired_stays_away [OF assms(2), of k c]
  unfolding key_fits_def by blast

text \<open>A counter whose time to live is over never counts again: it keeps the end of its old time to live, so every
  increment starts anew and the key reads as absent.\<close>

theorem expired_counter_never_counts:
  assumes "dict_has (mc_store c) k" and "mc_expired now k c" and "\<forall>(t, a) \<in> set ts. now \<le> t" and "now \<le> t"
  shows "fst (mc_incr read_int t k a (incr_all read_int k ts c)) = Inr a
    \<and> fst (mc_get t k (incr_all read_int k ts c)) = None"
proof -
  note s = incr_all_stuck [OF assms(1-3), of read_int]
  have "mc_expired t k (incr_all read_int k ts c)"
    using mc_expired_later [OF assms(4,2)] s by (simp add: mc_expired_def)
  then show ?thesis using s incr_stuck by (simp add: mem.get_value mc_view_def)
qed

text \<open>C32: Clients of one Redis lock, and a cache on the same server: as long as the key of the lock does not expire, nobody flushes
  the cache and the cache is not used under that very key, at most one of the clients owns the lock, whatever their tokens are.\<close>

theorem lock_excludes:
  assumes "redis_laws c" and "clients_of name (fst s)" and "lock_run c name s es s'" and "\<forall>e \<in> set es. leaves_lock name e"
    and "lk_owned (fst s' i)" and "lk_owned (fst s' j)"
  shows "i = j"
proof -
  have "one_owner c name s" using assms(2) by (simp add: one_owner_def clients_of_def)
  then have "one_owner c name s'" by (rule one_owner_run [OF assms(3,1) _ assms(4)])
  then show ?thesis using assms(5,6) by (simp add: one_owner_def)
qed

text \<open>With expiry two clients may both believe they own the lock; but with tokens of their own the release of the one whose key
  expired does not take the lock from the other.\<close>

theorem late_release_is_harmless:
  assumes "redis_laws c" and "clients_of name (fst s)" and "inj (lk_token \<circ> fst s)" and "lock_run c name s es s'"
    and "rd_get c name (snd s') = Some (lk_token (fst s' j))" and "i \<noteq> j"
    and "release c (fst s' i) (snd s') = (l, r')"
  shows "rd_get c name r' = Some (lk_token (fst s' j))"
proof -
  have "lk_token (fst s i) \<noteq> lk_token (fst s j)" using assms(3,6) by (metis comp_apply injD)
  then have "lk_token (fst s' i) \<noteq> lk_token (fst s' j)" using lock_run_same [OF assms(4)] by metis
  moreover have "lk_name (fst s' i) = name" using lock_run_same [OF assms(4)] assms(2) by (simp add: clients_of_def)
  ultimately show ?thesis using release_laws(2) [OF assms(1,7)] assms(5) by auto
qed

definition DEFAULT_PREFIX :: string where
  "DEFAULT_PREFIX = ''vibe:''"

definition lists_keys :: "'r redis_client \<Rightarrow> string \<Rightarrow> bool" where
  "lists_keys c p \<longleftrightarrow> (\<forall>k r. prefix p k \<and> rd_get c k r \<noteq> None \<longrightarrow> k \<in> set (rd_keys c (p @ ''*'') r))"

lemma delete_all:
  "redis_laws c \<Longrightarrow> rd_get c k (foldl (\<lambda>s k. snd (rd_delete c k s)) r ks) = (if k \<in> set ks then None else rd_get c k r)"
proof (induction ks arbitrary: r)
  case (Cons x ks)
  then show ?case using delete_laws [OF Cons.prems, of k x r] by auto
qed simp

text \<open>Emptying the cache takes every lock away: the names of the locks begin with the default prefix of the cache.\<close>

theorem flush_frees_locks:
  assumes "redis_laws c" and "lists_keys c DEFAULT_PREFIX" and "rc_prefix b = DEFAULT_PREFIX"
  shows "rd_get c (lk_name (new_lock name token ttl)) (rc_flush c b r) = None
    \<and> fst (try_acquire c (new_lock name other ttl) (rc_flush c b r))"
proof -
  let ?k = "LOCK_PREFIX @ name"
  have "prefix DEFAULT_PREFIX ?k" by (simp add: DEFAULT_PREFIX_def LOCK_PREFIX_def)
  then have "?k \<in> set (rd_keys c (DEFAULT_PREFIX @ ''*'') r) \<or> rd_get c ?k r = None" using assms(2) by (auto simp: lists_keys_def)
  then have none: "rd_get c ?k (rc_flush c b r) = None"
    using delete_all [OF assms(1), of ?k r] by (auto simp: rc_flush_def assms(3))
  obtain ok l r' where a: "try_acquire c (new_lock name other ttl) (rc_flush c b r) = (ok, l, r')" by (metis prod_cases3)
  have "ok" using try_acquire_laws(1) [OF assms(1) a] none by (simp add: new_lock_def)
  then show ?thesis using none a by (simp add: new_lock_def)
qed

section \<open>Instances\<close>

text \<open>A server that is a map from keys to values; expiry is a change from outside.\<close>

definition map_server :: "(string, string) py_dict redis_client" where
  "map_server = \<lparr>rd_get = (\<lambda>k d. dict_get d k), rd_set = dict_set, rd_setex = (\<lambda>k ttl v d. dict_set k v d),
     rd_setnx = (\<lambda>k v ttl d. if dict_has d k then (False, d) else (True, dict_set k v d)),
     rd_delete = (\<lambda>k d. (if dict_has d k then 1 else 0, filter (\<lambda>(x, v). x \<noteq> k) d)),
     rd_exists = (\<lambda>k d. if dict_has d k then 1 else 0), rd_incr = (\<lambda>k n d. (Inr n, dict_set k (str_int n) d)),
     rd_keys = (\<lambda>p d. filter (glob (\<lambda>ps c. None) p) (dict_keys d))\<rparr>"

lemma dict_get_without: "dict_get (filter (\<lambda>(x, v). x \<noteq> k) d) k' = (if k' = k then None else dict_get d k')"
  by (induction d) (auto simp: dict_get_def)

lemma map_server_laws: "redis_laws map_server"
  by (auto simp: redis_laws_def map_server_def dict_has_def dict_get_without)

lemma glob_any: "glob f ''*'' s"
  by (induction s) simp_all

lemma map_server_lists: "lists_keys map_server DEFAULT_PREFIX"
proof -
  have "glob f (DEFAULT_PREFIX @ ''*'') k" if p: "prefix DEFAULT_PREFIX k" for f k
  proof -
    obtain x where "k = DEFAULT_PREFIX @ x" using p by (auto simp: prefix_def)
    then show ?thesis by (simp add: DEFAULT_PREFIX_def glob_any)
  qed
  then show ?thesis by (auto simp: lists_keys_def map_server_def py_dict.keys_get)
qed

definition sample_clients :: "nat \<Rightarrow> redis_lock" where
  "sample_clients i = new_lock ''upgrade'' (str_nat i) 30"

lemma sample_clients_of: "clients_of (LOCK_PREFIX @ ''upgrade'') (fst (sample_clients, r))" "inj (lk_token \<circ> fst (sample_clients, r))"
  by (auto simp: clients_of_def sample_clients_def new_lock_def inj_def)

lemma sample_run:
  "lock_run map_server (LOCK_PREFIX @ ''upgrade'') (sample_clients, []) [Acquire 0]
     (sample_clients(0 := (sample_clients 0)\<lparr>lk_owned := True\<rparr>), [(LOCK_PREFIX @ ''upgrade'', str_nat 0)])"
  (is "lock_run _ ?n _ _ ?s")
proof -
  have "try_acquire map_server (sample_clients 0) [] = (True, (sample_clients 0)\<lparr>lk_owned := True\<rparr>, [(?n, str_nat 0)])"
    by (simp add: try_acquire_def map_server_def sample_clients_def new_lock_def dict_eval)
  then have "lock_step map_server ?n (sample_clients, []) (Acquire 0) ?s" by (rule acquire_step)
  then show ?thesis using run_step [OF run_start] by fastforce
qed

theorem cache_reads_last_write_witness:
  "fst (mc_get 5 ''k'' (mc_set 0 ''k'' ''v'' 10 new_cache)) = Some ''v''
    \<and> fst (mc_get 20 ''k'' (mc_set 0 ''k'' ''v'' 10 new_cache)) = None"
proof -
  have "cache_ok new_cache" by (simp add: cache_ok_def new_cache_def dict_ok_def)
  then show ?thesis
    using cache_reads_last_write [of new_cache 0 5 "''k''" "''v''" 10] cache_reads_last_write [of new_cache 0 20 "''k''" "''v''" 10]
    by simp
qed

theorem expired_counter_never_counts_witness:
  "fst (mc_incr (\<lambda>s. Some 1) 20 ''hits'' 1 (incr_all (\<lambda>s. Some 1) ''hits'' [(18, 1), (19, 1)] (mc_set 0 ''hits'' ''7'' 10 new_cache)))
    = Inr 1"
  using expired_counter_never_counts [of "mc_set 0 ''hits'' ''7'' 10 new_cache" "''hits''" 18 "[(18, 1), (19, 1)]" 20 "\<lambda>s. Some 1" 1]
  by (simp add: mc_set_def new_cache_def mc_expired_def dict_has_def)

theorem lock_excludes_witness:
  "\<exists>s'. lock_run map_server (LOCK_PREFIX @ ''upgrade'') (sample_clients, []) [Acquire 0] s'
    \<and> lk_owned (fst s' 0) \<and> \<not> lk_owned (fst s' 1)"
proof -
  let ?s = "(sample_clients(0 := (sample_clients 0)\<lparr>lk_owned := True\<rparr>), [(LOCK_PREFIX @ ''upgrade'', str_nat 0)])"
  have own: "lk_owned (fst ?s 0)" by simp
  have "\<not> lk_owned (fst ?s 1)"
  proof
    assume "lk_owned (fst ?s 1)"
    from lock_excludes [OF map_server_laws sample_clients_of(1) sample_run _ own this] have "(0::nat) = 1" by simp
    then show False by simp
  qed
  with own sample_run show ?thesis by blast
qed

theorem late_release_is_harmless_witness:
  "\<exists>r'. release map_server (sample_clients 1) [(LOCK_PREFIX @ ''upgrade'', str_nat 0)] = (sample_clients 1, r')
    \<and> rd_get map_server (LOCK_PREFIX @ ''upgrade'') r' = Some (str_nat 0)"
proof -
  let ?n = "LOCK_PREFIX @ ''upgrade''"
  let ?r = "[(?n, str_nat 0)]"
  have r: "release map_server (sample_clients 1) ?r = (sample_clients 1, ?r)"
    by (simp add: release_def sample_clients_def new_lock_def)
  have "rd_get map_server ?n ?r = Some (lk_token (sample_clients 0))"
    by (simp add: map_server_def sample_clients_def new_lock_def dict_get_def)
  then have "rd_get map_server ?n ?r = Some (lk_token ((sample_clients(0 := (sample_clients 0)\<lparr>lk_owned := True\<rparr>)) 0))" by simp
  from late_release_is_harmless [OF map_server_laws sample_clients_of sample_run, of 0 1 "sample_clients 1" ?r] this r
  show ?thesis by (simp add: sample_clients_def new_lock_def)
qed

theorem flush_frees_locks_witness:
  "rd_get map_server (LOCK_PREFIX @ ''upgrade'')
     (rc_flush map_server \<lparr>rc_url = ''redis://localhost'', rc_prefix = DEFAULT_PREFIX\<rparr> [(LOCK_PREFIX @ ''upgrade'', str_nat 0)]) = None"
proof -
  let ?b = "\<lparr>rc_url = ''redis://localhost'', rc_prefix = DEFAULT_PREFIX\<rparr>"
  have n: "lk_name (new_lock ''upgrade'' ''t'' 30) = LOCK_PREFIX @ ''upgrade''" by (simp add: new_lock_def)
  have "rc_prefix ?b = DEFAULT_PREFIX" by simp
  from conjunct1 [OF flush_frees_locks [OF map_server_laws map_server_lists this], of "''upgrade''" "''t''" 30]
  show ?thesis unfolding n .
qed

text \<open>A flush between two acquisitions gives the lock two owners.\<close>

lemma flush_gives_two_owners:
  "\<exists>s'. lock_run map_server (LOCK_PREFIX @ ''upgrade'') (sample_clients, [])
      [Acquire 0, Cache_Flush \<lparr>rc_url = ''redis://localhost'', rc_prefix = DEFAULT_PREFIX\<rparr>, Acquire 1] s'
    \<and> lk_owned (fst s' 0) \<and> lk_owned (fst s' 1)"
proof -
  let ?n = "LOCK_PREFIX @ ''upgrade''" and ?b = "\<lparr>rc_url = ''redis://localhost'', rc_prefix = DEFAULT_PREFIX\<rparr>"
  let ?ls = "sample_clients(0 := (sample_clients 0)\<lparr>lk_owned := True\<rparr>)"
  let ?r = "rc_flush map_server ?b [(?n, str_nat 0)]"
  have flush: "lock_run map_server ?n (sample_clients, []) [Acquire 0, Cache_Flush ?b] (?ls, ?r)"
    using run_step [OF sample_run cache_flush_step] by simp
  have none: "rd_get map_server ?n ?r = None" by (rule flush_frees_locks_witness)
  obtain ok l r' where a: "try_acquire map_server (?ls 1) ?r = (ok, l, r')" by (metis prod_cases3)
  have "lk_name (?ls 1) = ?n" by (simp add: sample_clients_def new_lock_def)
  then have "l = (?ls 1)\<lparr>lk_owned := True\<rparr>" using try_acquire_laws [OF map_server_laws a] none by simp
  moreover have "lock_run map_server ?n (sample_clients, []) [Acquire 0, Cache_Flush ?b, Acquire 1] (?ls(1 := l), r')"
    using run_step [OF flush acquire_step [where ls = ?ls and i = 1, OF a]] by simp
  ultimately show ?thesis by (intro exI [of _ "(?ls(1 := l), r')"]) simp
qed

end
