(* ===== verification/Tool_Registry.thy ===== *)
theory Tool_Registry
  imports Py_Json Py_Regex
begin

text \<open>
  \<^verbatim>\<open>agents/tools/registry.py\<close> with the classes of \<^verbatim>\<open>agents/tools/base.py\<close> and the rate-limited search of
  \<^verbatim>\<open>agents/tools/quick_lookup.py\<close>: which tools there are, which a role may see, and how a call in the text of a model
  is read and carried out.

  A tool is a record; what carrying it out does is a function on a world. The names are those the classes give
  themselves.
\<close>

section \<open>Tools\<close>

datatype tool_category = CODE_EXECUTION | FILE_OPS | WEB_API | EXTERNAL_SERVICE | SPECIALIZED

record tool_result =
  tr_success :: bool
  tr_output :: string
  tr_error :: "string option"
  tr_metadata :: "(string, json) py_dict"

type_synonym params = "(string, json) py_dict"

text \<open>\<open>tl_lookups\<close> is the limit of a \<open>QuickLookupTool\<close>, \<open>None\<close> for any other tool.\<close>

record 'w tool =
  tl_name :: string
  tl_category :: tool_category
  tl_enabled :: bool
  tl_required :: "string list"
  tl_execute :: "params \<Rightarrow> 'w \<Rightarrow> (py_exn + tool_result) \<times> 'w"
  tl_lookups :: "int option"

type_synonym 'w tool_registry = "(string, 'w tool) py_dict"

definition failure :: "string \<Rightarrow> tool_result" where
  "failure e = \<lparr>tr_success = False, tr_output = [], tr_error = Some e, tr_metadata = []\<rparr>"

definition success :: "string \<Rightarrow> (string, json) py_dict \<Rightarrow> tool_result" where
  "success out meta = \<lparr>tr_success = True, tr_output = out, tr_error = None, tr_metadata = meta\<rparr>"

definition validate_params :: "'w tool \<Rightarrow> params \<Rightarrow> py_exn + unit" where
  "validate_params t ps =
     (case find (\<lambda>p. \<not> dict_has ps p) (tl_required t) of
        Some p \<Rightarrow> Inl (ValueError (''Missing required parameter: '' @ p))
      | None \<Rightarrow> Inr ())"

section \<open>The rate-limited search\<close>

record quick_lookup =
  ql_max :: int
  ql_count :: int

definition new_lookup :: "int \<Rightarrow> quick_lookup" where
  "new_lookup m = \<lparr>ql_max = m, ql_count = 0\<rparr>"

definition reset_lookup :: "quick_lookup \<Rightarrow> quick_lookup" where
  "reset_lookup q = q\<lparr>ql_count := 0\<rparr>"

definition execute_lookup ::
    "(string \<Rightarrow> 'w \<Rightarrow> (py_exn + tool_result) \<times> 'w) \<Rightarrow> string \<Rightarrow> quick_lookup \<Rightarrow> 'w
      \<Rightarrow> (py_exn + tool_result) \<times> quick_lookup \<times> 'w" where
  "execute_lookup search query q w =
     (if py_strip query = [] then (Inr (failure ''No query provided''), q, w)
      else if ql_count q \<ge> ql_max q then
        (Inr (failure (''Lookup limit reached ('' @ str_int (ql_max q) @ '' per session). '' @
           ''Create a research subtask for your DeerFlow assistant instead.'')), q, w)
      else case search query w of (r, w') \<Rightarrow> (r, q\<lparr>ql_count := ql_count q + 1\<rparr>, w'))"

section \<open>Roles\<close>

definition cto_tools :: "string list" where
  "cto_tools =
     [''codebase_search_tool'', ''static_code_analyzer'', ''git_operations_tool'', ''bulletin_board'',
      ''artifact_storage'', ''git_forge'', ''shell_executor'', ''quick_lookup'', ''file_reader'', ''file_writer'',
      ''memory_store'', ''memory_recall'', ''OCRTool'', ''graphify_rebuild'']"

definition frontend_engineer_tools :: "string list" where
  "frontend_engineer_tools =
     [''python_executor'', ''pytest_runner'', ''shell_executor'', ''static_code_analyzer'', ''git_operations_tool'',
      ''data_parser_tool'', ''quick_lookup'', ''OCRTool'', ''lighthouse_seo'', ''page_analyzer'', ''seo_checklist'',
      ''git_forge'', ''artifact_storage'', ''bulletin_board'', ''file_reader'', ''file_writer'', ''memory_store'',
      ''memory_recall'', ''graphify_rebuild'']"

definition backend_engineer_tools :: "string list" where
  "backend_engineer_tools =
     [''python_executor'', ''pytest_runner'', ''bandit_scanner'', ''shell_executor'', ''static_code_analyzer'',
      ''git_operations_tool'', ''data_parser_tool'', ''quick_lookup'', ''database'', ''dependency_scanner'',
      ''OCRTool'', ''container_inspect'', ''git_forge'', ''artifact_storage'', ''bulletin_board'', ''file_reader'',
      ''file_writer'', ''memory_store'', ''memory_recall'', ''graphify_rebuild'']"

definition qa_engineer_tools :: "string list" where
  "qa_engineer_tools =
     [''python_executor'', ''pytest_runner'', ''shell_executor'', ''static_code_analyzer'', ''git_operations_tool'',
      ''data_parser_tool'', ''quick_lookup'', ''browser_automation'', ''bandit_scanner'', ''dependency_scanner'',
      ''OCRTool'', ''lighthouse_seo'', ''page_analyzer'', ''seo_checklist'', ''container_inspect'', ''git_forge'',
      ''artifact_storage'', ''bulletin_board'', ''file_reader'', ''file_writer'', ''memory_store'',
      ''memory_recall'', ''graphify_rebuild'']"

definition devops_engineer_tools :: "string list" where
  "devops_engineer_tools =
     [''python_executor'', ''shell_executor'', ''static_code_analyzer'', ''git_operations_tool'',
      ''data_parser_tool'', ''quick_lookup'', ''OCRTool'', ''container_inspect'', ''git_forge'',
      ''artifact_storage'', ''bulletin_board'', ''file_reader'', ''file_writer'', ''memory_store'',
      ''memory_recall'', ''graphify_rebuild'']"

definition ux_engineer_tools :: "string list" where
  "ux_engineer_tools =
     [''browser_automation'', ''design'', ''image_generation'', ''quick_lookup'', ''OCRTool'', ''lighthouse_seo'',
      ''page_analyzer'', ''seo_checklist'', ''shell_executor'', ''static_code_analyzer'', ''git_forge'',
      ''artifact_storage'', ''bulletin_board'', ''file_reader'', ''file_writer'', ''memory_store'',
      ''memory_recall'', ''graphify_rebuild'']"

definition security_engineer_tools :: "string list" where
  "security_engineer_tools =
     [''python_executor'', ''pytest_runner'', ''bandit_scanner'', ''shell_executor'', ''static_code_analyzer'',
      ''git_operations_tool'', ''data_parser_tool'', ''dependency_scanner'', ''quick_lookup'', ''OCRTool'',
      ''browser_automation'', ''container_inspect'', ''git_forge'', ''artifact_storage'', ''bulletin_board'',
      ''file_reader'', ''file_writer'', ''memory_store'', ''memory_recall'', ''graphify_rebuild'']"

definition research_assistant_tools :: "string list" where
  "research_assistant_tools =
     [''web_search'', ''web_fetch'', ''web_scrape'', ''codebase_search_tool'', ''file_reader'', ''memory_store'',
      ''memory_recall'', ''bulletin_board'', ''OCRTool'']"

definition ROLE_TOOL_SETS :: "(string, string list) py_dict" where
  "ROLE_TOOL_SETS =
     [(''cto'', cto_tools), (''frontend_engineer'', frontend_engineer_tools),
      (''backend_engineer'', backend_engineer_tools), (''qa_engineer'', qa_engineer_tools),
      (''devops_engineer'', devops_engineer_tools), (''ux_engineer'', ux_engineer_tools),
      (''security_engineer'', security_engineer_tools), (''research_assistant'', research_assistant_tools)]"

definition TITLE_TO_ROLE :: "(string, string) py_dict" where
  "TITLE_TO_ROLE =
     [(''backend'', ''backend_engineer''), (''frontend'', ''frontend_engineer''), (''qa'', ''qa_engineer''),
      (''devops'', ''devops_engineer''), (''ux'', ''ux_engineer''), (''security'', ''security_engineer''),
      (''cto'', ''cto''), (''chief technology'', ''cto''), (''research assistant'', ''research_assistant'')]"

definition normalized_role :: "string \<Rightarrow> string" where
  "normalized_role role = replace_char (CHR '' '') (CHR ''_'') (py_lower (py_strip role))"

text \<open>The role whose set applies, by its name or else by a word of the title.\<close>

definition role_for :: "string \<Rightarrow> string \<Rightarrow> string option" where
  "role_for role title =
     (if dict_has ROLE_TOOL_SETS (normalized_role role) then Some (normalized_role role)
      else if title = [] then None
      else map_option snd (find (\<lambda>(w, r). str_contains w (py_lower (py_strip title)) \<and> dict_has ROLE_TOOL_SETS r) TITLE_TO_ROLE))"

section \<open>The registry\<close>

definition register_tool :: "'w tool \<Rightarrow> 'w tool_registry \<Rightarrow> 'w tool_registry" where
  "register_tool t reg = dict_set (tl_name t) t reg"

definition get_tool :: "string \<Rightarrow> 'w tool_registry \<Rightarrow> 'w tool option" where
  "get_tool n reg = dict_get reg n"

definition list_tools :: "'w tool_registry \<Rightarrow> string list" where
  "list_tools reg = dict_keys reg"

definition get_tools_by_category :: "tool_category \<Rightarrow> 'w tool_registry \<Rightarrow> 'w tool list" where
  "get_tools_by_category c reg = filter (\<lambda>t. tl_category t = c) (map snd reg)"

text \<open>\<open>requota\<close> makes the search tool anew with a limit of its own.\<close>

definition filter_for_role ::
    "(int \<Rightarrow> 'w tool \<Rightarrow> 'w tool) \<Rightarrow> int \<Rightarrow> string \<Rightarrow> string \<Rightarrow> 'w tool_registry \<Rightarrow> 'w tool_registry" where
  "filter_for_role requota cto_limit role title reg =
     (case role_for role title of
        None \<Rightarrow> reg
      | Some r \<Rightarrow>
          let kept = filter (\<lambda>(n, t). n \<in> set (dict_get_or ROLE_TOOL_SETS r [])) reg in
          if r = ''cto'' then
            (case dict_get kept ''quick_lookup'' of
               Some t \<Rightarrow> if tl_lookups t \<noteq> None then dict_set ''quick_lookup'' (requota cto_limit t) kept else kept
             | None \<Rightarrow> kept)
          else kept)"

definition quoted_name :: "string \<Rightarrow> string" where
  "quoted_name n = [CHR 0x27] @ n @ [CHR 0x27]"

definition execute_tool :: "'w tool_registry \<Rightarrow> string \<Rightarrow> params \<Rightarrow> 'w \<Rightarrow> tool_result \<times> 'w" where
  "execute_tool reg n ps w =
     (case get_tool n reg of
        None \<Rightarrow> (failure (''Tool not found: '' @ quoted_name n @ ''. Available tools: '' @ join_with '', '' (list_tools reg)), w)
      | Some t \<Rightarrow>
          if \<not> tl_enabled t then (failure (''Tool disabled: '' @ n), w)
          else
            (case validate_params t ps of
               Inl e \<Rightarrow> (failure (''Invalid parameters for tool '' @ quoted_name n @ '': '' @ exn_text e), w)
             | Inr _ \<Rightarrow>
                 (case tl_execute t ps w of
                    (Inr r, w') \<Rightarrow> (r, w')
                  | (Inl (ValueError m), w') \<Rightarrow> (failure (''Invalid parameters for tool '' @ quoted_name n @ '': '' @ m), w')
                  | (Inl e, w') \<Rightarrow> (failure (''Tool '' @ quoted_name n @ '' execution failed: '' @ exn_name e @ '': '' @ exn_text e), w'))))"

text \<open>The call \<open>execute_tool(name, **params)\<close>: the parameters must be an object, and none may be called as the arguments of
  \<open>execute_tool\<close> are.\<close>

definition call_tool :: "'w tool_registry \<Rightarrow> string \<Rightarrow> json \<Rightarrow> 'w \<Rightarrow> (py_exn + tool_result) \<times> 'w" where
  "call_tool reg n params w =
     (case params of
        JObj ps \<Rightarrow>
          if dict_has ps ''name'' \<or> dict_has ps ''self'' then
            (Inl (OtherError ''TypeError'' ''execute_tool() got multiple values for argument''), w)
          else (case execute_tool reg n ps w of (r, w') \<Rightarrow> (Inr r, w'))
      | _ \<Rightarrow> (Inl (OtherError ''TypeError'' ''argument after ** must be a mapping''), w))"

definition get_all_schemas :: "'w tool_registry \<Rightarrow> 'w tool list" where
  "get_all_schemas reg = filter tl_enabled (map snd reg)"

section \<open>Calls in a text\<close>

definition TOOL_CALL :: regex where
  "TOOL_CALL = rseq [RStr ''<tool_call name='', RSet False [CChar (CHR 0x22), CChar (CHR 0x27)], RGroup 1 (rplus (RSet False [CWord])),
     RSet False [CChar (CHR 0x22), CChar (CHR 0x27)], RStr ''>'', RGroup 2 (RStar False (RSet True [])), RStr ''</tool_call>'']"

definition parse_tool_call :: "(string \<Rightarrow> json option) \<Rightarrow> string \<Rightarrow> (string \<times> json) option" where
  "parse_tool_call loads out =
     (case search_from False TOOL_CALL [] out of
        None \<Rightarrow> None
      | Some (b, q) \<Rightarrow>
          (case (group_of 1 q, group_of 2 q) of
             (Some n, Some body) \<Rightarrow> map_option (\<lambda>ps. (n, ps)) (loads (py_strip body))
           | _ \<Rightarrow> None))"

section \<open>The default tools\<close>

text \<open>The name each class gives its tool.\<close>

definition TOOL_NAMES :: "(string, string) py_dict" where
  "TOOL_NAMES =
     [(''SandboxedPythonExecutor'', ''python_executor''), (''SandboxedPytestRunner'', ''pytest_runner''),
      (''SandboxedBanditScanner'', ''bandit''), (''SandboxedShellExecutor'', ''shell_executor''),
      (''SandboxedWebFetchTool'', ''web_fetch''),
      (''PythonExecutor'', ''python_executor''), (''PytestRunner'', ''pytest_runner''), (''BanditScanner'', ''bandit''),
      (''ShellExecutor'', ''shell_executor''), (''WebFetchTool'', ''web_fetch''),
      (''WebSearchTool'', ''web_search''), (''QuickLookupTool'', ''quick_lookup''), (''WebScrapeTool'', ''web_scrape''),
      (''BrowserAutomationTool'', ''browser_automation''), (''DesignTool'', ''design''),
      (''ImageGenerationTool'', ''image_generation''), (''GitForgeTool'', ''git_forge''),
      (''ArtifactStorageTool'', ''artifact_storage''), (''BulletinBoardTool'', ''bulletin_board''), (''DatabaseTool'', ''database''),
      (''MiroFishSimulationTool'', ''MiroFishSimulation''), (''OCRTool'', ''OCRTool''), (''MemoryStoreTool'', ''memory_store''),
      (''MemoryRecallTool'', ''memory_recall''), (''GraphifyRebuildTool'', ''graphify_rebuild''), (''FileReader'', ''file_reader''),
      (''FileWriter'', ''file_writer''), (''DependencyScannerTool'', ''dependency_scanner''),
      (''ContainerInspectTool'', ''container_inspect''), (''LighthouseSEOTool'', ''lighthouse_seo''),
      (''PageAnalyzerTool'', ''page_analyzer''), (''SEOChecklistTool'', ''seo_checklist''),
      (''StaticCodeAnalyzer'', ''static_code_analyzer''), (''CodebaseSearchTool'', ''codebase_search''),
      (''GitOperationsTool'', ''git_operations''), (''DataParserTool'', ''data_parser'')]"

text \<open>\<open>os.environ.get(v)\<close> is true.\<close>

definition given :: "(string, string) py_dict \<Rightarrow> string \<Rightarrow> bool" where
  "given env v \<longleftrightarrow> dict_get_or env v '''' \<noteq> ''''"

definition if_set :: "bool \<Rightarrow> 'a list \<Rightarrow> 'a list" where
  "if_set b xs = (if b then xs else [])"

text \<open>The classes in the order in which they are registered.\<close>

definition service_classes :: "(string, string) py_dict \<Rightarrow> string list" where
  "service_classes env =
     if_set (given env ''PLAYWRIGHT_WS_URL'') [''WebScrapeTool'', ''BrowserAutomationTool''] @
     if_set (given env ''PENPOT_API_URL'') [''DesignTool''] @
     if_set (given env ''COMFYUI_URL'') [''ImageGenerationTool''] @
     if_set (given env ''GITEA_URL'') [''GitForgeTool''] @
     if_set (given env ''MINIO_URL'') [''ArtifactStorageTool''] @
     if_set (given env ''MESSAGE_STORE_PATH'' \<or> given env ''BULLETIN_PATH'') [''BulletinBoardTool''] @
     if_set (given env ''DATABASE_URL'') [''DatabaseTool''] @
     if_set (given env ''MIROFISH_URL'') [''MiroFishSimulationTool''] @
     if_set (given env ''PADDLEOCR_URL'') [''OCRTool''] @
     [''MemoryStoreTool'', ''MemoryRecallTool''] @
     if_set (given env ''GRAPHIFY_DATA_PATH'') [''GraphifyRebuildTool''] @
     [''FileReader'', ''FileWriter'', ''DependencyScannerTool'', ''ContainerInspectTool'', ''LighthouseSEOTool'', ''PageAnalyzerTool'',
      ''SEOChecklistTool'', ''StaticCodeAnalyzer'', ''CodebaseSearchTool'', ''GitOperationsTool'', ''DataParserTool'']"

definition sandbox_classes :: "(string, string) py_dict \<Rightarrow> bool \<Rightarrow> string list" where
  "sandbox_classes env egress =
     [''SandboxedPythonExecutor'', ''SandboxedPytestRunner'', ''SandboxedBanditScanner'', ''SandboxedShellExecutor''] @
     if_set egress [''SandboxedWebFetchTool''] @
     if_set (given env ''SEARXNG_URL'') [''WebSearchTool'', ''QuickLookupTool''] @ service_classes env"

definition subprocess_classes :: "(string, string) py_dict \<Rightarrow> bool \<Rightarrow> string list" where
  "subprocess_classes env egress =
     [''PythonExecutor'', ''PytestRunner'', ''BanditScanner'', ''ShellExecutor''] @
     if_set egress [''WebFetchTool''] @
     if_set (given env ''SEARXNG_URL'') [''WebSearchTool''] @ service_classes env"

text \<open>\<open>mk\<close> builds the tool of a class.\<close>

definition registry_of :: "(string \<Rightarrow> 'w tool) \<Rightarrow> string list \<Rightarrow> 'w tool_registry" where
  "registry_of mk cs = foldl (\<lambda>reg c. register_tool (mk c) reg) [] cs"

definition create_default_tool_registry :: "(string \<Rightarrow> 'w tool) \<Rightarrow> (string, string) py_dict \<Rightarrow> bool \<Rightarrow> 'w tool_registry" where
  "create_default_tool_registry mk env egress = registry_of mk (sandbox_classes env egress)"

definition create_subprocess_tool_registry :: "(string \<Rightarrow> 'w tool) \<Rightarrow> (string, string) py_dict \<Rightarrow> bool \<Rightarrow> 'w tool_registry" where
  "create_subprocess_tool_registry mk env egress = registry_of mk (subprocess_classes env egress)"

section \<open>Lemmas\<close>

lemma registry_of_keys: "set (dict_keys (registry_of mk cs)) = (\<lambda>c. tl_name (mk c)) ` set cs"
proof -
  have "set (dict_keys (foldl (\<lambda>reg c. register_tool (mk c) reg) d cs)) = set (dict_keys d) \<union> (\<lambda>c. tl_name (mk c)) ` set cs" for d
    by (induction cs arbitrary: d) (auto simp: register_tool_def dict_keys_set)
  then show ?thesis by (simp add: registry_of_def dict_keys_def)
qed

lemma filter_keys: "set (dict_keys (filter P d)) \<subseteq> set (dict_keys d)"
  by (auto simp: dict_keys_def)

lemma filter_for_role_keys:
  "role_for role title = Some r \<Longrightarrow>
    set (dict_keys (filter_for_role requota limit role title reg)) \<subseteq> set (dict_keys reg) \<inter> set (dict_get_or ROLE_TOOL_SETS r [])"
proof -
  assume r: "role_for role title = Some r"
  let ?kept = "filter (\<lambda>(n, t). n \<in> set (dict_get_or ROLE_TOOL_SETS r [])) reg"
  have k: "set (dict_keys ?kept) \<subseteq> set (dict_keys reg) \<inter> set (dict_get_or ROLE_TOOL_SETS r [])"
    by (auto simp: dict_keys_def)
  have "set (dict_keys (dict_set ''quick_lookup'' t ?kept)) = set (dict_keys ?kept)" if "dict_get ?kept ''quick_lookup'' \<noteq> None" for t
    using that by (auto simp: dict_keys_set py_dict.keys_get)
  then have "set (dict_keys (filter_for_role requota limit role title reg)) = set (dict_keys ?kept)"
    using r by (auto simp: filter_for_role_def Let_def split: option.splits)
  then show ?thesis using k by simp
qed


lemma role_for_known: "role_for role title = Some r \<Longrightarrow> dict_has ROLE_TOOL_SETS r"
  by (auto simp: role_for_def find_Some_iff split: if_splits)

lemma all_roles:
  assumes "role_for role title = Some r"
    and "list_all (\<lambda>(k, ns). Q k ns) ROLE_TOOL_SETS"
  shows "Q r (dict_get_or ROLE_TOOL_SETS r [])"
proof -
  obtain ns where ns: "dict_get ROLE_TOOL_SETS r = Some ns"
    using role_for_known [OF assms(1)] by (auto simp: dict_has_def)
  then have "(r, ns) \<in> set ROLE_TOOL_SETS" by (simp add: dict_get_def map_of_SomeD)
  with assms(2) have "Q r ns" by (auto simp: list_all_iff)
  with ns show ?thesis by (simp add: dict_get_or_def)
qed

text \<open>The tools that no role is given under the name they have.\<close>

definition misnamed_tools :: "string list" where
  "misnamed_tools = [''bandit'', ''codebase_search'', ''git_operations'', ''data_parser'']"

lemma roles_lack_misnamed: "list_all (\<lambda>(k, ns). list_all (\<lambda>n. n \<notin> set ns) misnamed_tools) ROLE_TOOL_SETS"
  by code_simp

definition search_tools :: "string list" where
  "search_tools = [''web_search'', ''web_fetch'', ''web_scrape'']"

definition execution_tools :: "string list" where
  "execution_tools = [''python_executor'', ''pytest_runner'', ''shell_executor'', ''file_writer'', ''git_forge'', ''database'']"

lemma roles_divide_search:
  "list_all (\<lambda>(k, ns). if k = ''research_assistant'' then list_all (\<lambda>n. n \<notin> set ns) execution_tools
     else list_all (\<lambda>n. n \<notin> set ns) search_tools) ROLE_TOOL_SETS"
  by code_simp

lemma misnamed_are_registered:
  "set misnamed_tools \<subseteq> (\<lambda>c. dict_get_or TOOL_NAMES c '''') ` set (sandbox_classes env egress)"
  by (auto simp: misnamed_tools_def sandbox_classes_def service_classes_def TOOL_NAMES_def dict_get_or_def dict_get_def image_iff)


lemma misnamed_not_for_role:
  assumes "role_for role title = Some r"
  shows "set (dict_get_or ROLE_TOOL_SETS r []) \<inter> set misnamed_tools = {}"
  using all_roles [OF assms roles_lack_misnamed] by (auto simp: list_all_iff)

lemma role_search_or_execution:
  assumes "role_for role title = Some r"
  shows "set (dict_get_or ROLE_TOOL_SETS r []) \<inter> set (if r = ''research_assistant'' then execution_tools else search_tools) = {}"
  using all_roles [OF assms roles_divide_search] by (auto simp: list_all_iff split: if_splits)

section \<open>Searches in a session\<close>

text \<open>A sequence of searches with the quick lookup; \<open>n\<close> counts those that reach the search engine.\<close>

definition lookup_step :: "(string \<Rightarrow> 'w \<Rightarrow> (py_exn + tool_result) \<times> 'w) \<Rightarrow> quick_lookup \<times> 'w \<Rightarrow> string \<Rightarrow> quick_lookup \<times> 'w" where
  "lookup_step search qw query = snd (execute_lookup search query (fst qw) (snd qw))"

definition counting :: "(string \<Rightarrow> 'w \<Rightarrow> (py_exn + tool_result) \<times> 'w) \<Rightarrow> string \<Rightarrow> int \<times> 'w \<Rightarrow> (py_exn + tool_result) \<times> int \<times> 'w" where
  "counting search query nw = (case search query (snd nw) of (r, w') \<Rightarrow> (r, fst nw + 1, w'))"

lemma lookup_step_counts:
  assumes "lookup_step (counting search) (q, n, w) query = (q', n', w')"
  shows "ql_max q' = ql_max q \<and> ql_count q' - ql_count q = n' - n \<and> (n' = n \<or> (n' = n + 1 \<and> ql_count q < ql_max q))"
  using assms by (auto simp: lookup_step_def execute_lookup_def counting_def split: if_splits prod.splits)

lemma lookups_bounded:
  "foldl (lookup_step (counting search)) (q, n, w) queries = (q', n', w') \<Longrightarrow>
    ql_max q' = ql_max q \<and> n' - n = ql_count q' - ql_count q \<and> ql_count q' \<le> max (ql_count q) (ql_max q)"
proof (induction queries arbitrary: q n w)
  case Nil
  then show ?case by simp
next
  case (Cons query qs)
  obtain q1 n1 w1 where one: "lookup_step (counting search) (q, n, w) query = (q1, n1, w1)"
    by (metis prod_cases3)
  have "foldl (lookup_step (counting search)) (q1, n1, w1) qs = (q', n', w')"
    using Cons.prems one by simp
  then have "ql_max q' = ql_max q1 \<and> n' - n1 = ql_count q' - ql_count q1 \<and> ql_count q' \<le> max (ql_count q1) (ql_max q1)"
    by (rule Cons.IH)
  then show ?case using lookup_step_counts [OF one] by auto
qed

section \<open>Properties\<close>

text \<open>No role is ever given the security scanner, the code search, the git tool or the data parser: the role sets list them
  under other names than the tools have, although the registry holds all four.\<close>

theorem role_filter_drops_tools:
  assumes "role_for role title = Some r"
    and "\<And>c. c \<in> set (sandbox_classes env egress) \<Longrightarrow> tl_name (mk c) = dict_get_or TOOL_NAMES c ''''"
  shows "set misnamed_tools \<subseteq> set (list_tools (create_default_tool_registry mk env egress))
    \<and> set misnamed_tools \<inter>
       set (list_tools (filter_for_role requota cto_limit role title (create_default_tool_registry mk env egress))) = {}"
proof
  have "(\<lambda>c. tl_name (mk c)) ` set (sandbox_classes env egress) = (\<lambda>c. dict_get_or TOOL_NAMES c '''') ` set (sandbox_classes env egress)"
    using assms(2) by (intro image_cong) auto
  then show "set misnamed_tools \<subseteq> set (list_tools (create_default_tool_registry mk env egress))"
    using misnamed_are_registered by (simp add: list_tools_def create_default_tool_registry_def registry_of_keys)
  show "set misnamed_tools \<inter>
       set (list_tools (filter_for_role requota cto_limit role title (create_default_tool_registry mk env egress))) = {}"
    using misnamed_not_for_role [OF assms(1)]
      filter_for_role_keys [OF assms(1), of requota cto_limit "create_default_tool_registry mk env egress"]
    by (auto simp: list_tools_def)
qed

text \<open>Web search without a limit and the execution of code are never both a role's: a role other than the research assistant
  is not given a search tool, and the research assistant is given none that executes or writes.\<close>

theorem roles_search_or_execute:
  assumes "role_for role title = Some r"
  shows "set (list_tools (filter_for_role requota cto_limit role title reg))
    \<inter> set (if r = ''research_assistant'' then execution_tools else search_tools) = {}"
  using role_search_or_execution [OF assms] filter_for_role_keys [OF assms, of requota cto_limit reg]
  by (auto simp: list_tools_def)

text \<open>Between two resets no sequence of quick lookups reaches the search engine more often than the limit allows.\<close>

theorem quick_lookup_is_limited:
  assumes "foldl (lookup_step (counting search)) (new_lookup m, 0, w) queries = (q, n, w')" and "0 \<le> m"
  shows "n \<le> m"
  using lookups_bounded [OF assms(1)] assms(2) by (auto simp: new_lookup_def)

text \<open>A title is matched by parts of words: a director of anything is given the tools of the CTO.\<close>

theorem director_is_taken_for_cto:
  "role_for ''manager'' ''Director of Research'' = Some ''cto'' \<and> role_for ''agent'' ''Linux Administrator'' = Some ''ux_engineer''"
  by code_simp

section \<open>Witnesses\<close>

definition named_tool :: "string \<Rightarrow> unit tool" where
  "named_tool c = \<lparr>tl_name = dict_get_or TOOL_NAMES c '''', tl_category = SPECIALIZED, tl_enabled = True, tl_required = [],
     tl_execute = (\<lambda>ps w. (Inr (success [] []), w)), tl_lookups = None\<rparr>"

theorem role_filter_drops_tools_witness:
  "''bandit'' \<in> set (list_tools (create_default_tool_registry named_tool [] False))
    \<and> ''bandit'' \<notin> set (list_tools (filter_for_role (\<lambda>n t. t) 2 ''Security Engineer'' '''' (create_default_tool_registry named_tool [] False)))"
proof -
  have "role_for ''Security Engineer'' '''' = Some ''security_engineer''" by code_simp
  from role_filter_drops_tools [OF this, of "[]" False named_tool "\<lambda>n t. t" 2] show ?thesis
    by (auto simp: named_tool_def misnamed_tools_def)
qed

theorem roles_search_or_execute_witness:
  "''shell_executor'' \<notin>
     set (list_tools (filter_for_role (\<lambda>n t. t) 2 ''Research Assistant'' '''' (create_default_tool_registry named_tool [] False)))"
proof -
  have "role_for ''Research Assistant'' '''' = Some ''research_assistant''" by code_simp
  from roles_search_or_execute [OF this, of "\<lambda>n t. t" 2 "create_default_tool_registry named_tool [] False"] show ?thesis
    by (auto simp: execution_tools_def)
qed

theorem quick_lookup_is_limited_witness:
  "\<exists>q n w. foldl (lookup_step (counting (\<lambda>query w. (Inr (success [] []), w)))) (new_lookup 1, 0, ()) [''a'', '' '', ''b''] = (q, n, w) \<and> n \<le> 1"
proof -
  obtain q n w where r: "foldl (lookup_step (counting (\<lambda>query w. (Inr (success [] []), w)))) (new_lookup 1, 0, ()) [''a'', '' '', ''b''] = (q, n, w)"
    by (metis prod_cases3)
  from quick_lookup_is_limited [OF r] have "n \<le> 1" by simp
  with r show ?thesis by blast
qed

end
