(* ===== verification/Specialist.thy ===== *)
theory Specialist
  imports Critic_Nodes Tool_Registry Parallel_Subtasks Skill_Security "HOL-Library.List_Lexorder" "HOL-Library.Char_ord"
begin

text \<open>
  \<^verbatim>\<open>agents/specialist_nodes.py\<close>: the nodes in which a specialist works on a request or on a sub-task, with the loop in which it
  calls tools, and the refinement plan of \<^verbatim>\<open>agents/state.py\<close>.

  The format of a percentage, \<open>json.loads\<close> and the generation parameters of the configuration are parts of the environment.
  Of a tool call the state keeps the name of the tool and whether it succeeded.
\<close>

section \<open>The environment\<close>

text \<open>\<open>sp_describe\<close> gives a tool's description; \<open>sp_configs\<close> is \<open>None\<close> without a configuration.\<close>

record 'w specialist_env =
  sp_model :: "'w language_model"
  sp_tools :: "'w tool_registry"
  sp_describe :: "string \<Rightarrow> string"
  sp_loads :: "string \<Rightarrow> json option"
  sp_percent :: "real \<Rightarrow> string"
  sp_configs :: "(string, gen_config) py_dict option"

definition MAX_TOOL_CALLING_ITERATIONS :: nat where
  "MAX_TOOL_CALLING_ITERATIONS = 3"

definition CLARIFICATION_INSTRUCTION :: string where
  "CLARIFICATION_INSTRUCTION =
     ''If you need more information from the user before you can produce a good solution, wrap your questions in a ''
     @ ''<clarification_needed> tag like this:'' @ nl @ nl @ ''<clarification_needed>'' @ nl @ ''1. Your first question''
     @ nl @ ''2. Your second question'' @ nl @ ''</clarification_needed>'' @ nl @ nl @ ''Do NOT combine a ''
     @ ''clarification request with a solution attempt - either ask questions or provide a solution.''"

section \<open>What the loaded skills decide\<close>

definition resolve_skill_adapter_prompt :: "loaded_skill list \<Rightarrow> string" where
  "resolve_skill_adapter_prompt skills =
     (case find (\<lambda>k. opt_or (ls_adapter_prompt k) [] \<noteq> []) skills of None \<Rightarrow> [] | Some k \<Rightarrow> opt_or (ls_adapter_prompt k) [])"

definition resolve_skill_generation_config :: "loaded_skill list \<Rightarrow> gen_config" where
  "resolve_skill_generation_config skills =
     foldl (\<lambda>d k. dict_merge d (opt_or (ls_generation_config k) [])) [] (rev skills)"

definition resolve_skill_tools_enabled :: "loaded_skill list \<Rightarrow> bool option" where
  "resolve_skill_tools_enabled skills =
     (case find (\<lambda>k. ls_tools_enabled k \<noteq> None) skills of None \<Rightarrow> None | Some k \<Rightarrow> ls_tools_enabled k)"

definition tool_enabled_specialists :: "string list" where
  "tool_enabled_specialists =
     [''test_generator'', ''security_auditor'', ''data_specialist'', ''database_specialist'', ''code_reviewer'', ''vibe'', ''code'',
      ''api_generator'', ''performance_optimizer'', ''debugging_assistant'', ''doc_generator'', ''general'']"

definition has_tool_access :: "loaded_skill list \<Rightarrow> string \<Rightarrow> bool" where
  "has_tool_access skills specialist =
     (case resolve_skill_tools_enabled skills of Some b \<Rightarrow> b | None \<Rightarrow> specialist \<in> set tool_enabled_specialists)"

definition allowed_by :: "loaded_skill list \<Rightarrow> string set option" where
  "allowed_by skills = effective_allowed_tools (map ls_allowed_tools skills)"

section \<open>Generation parameters\<close>

definition dict_same :: "('k, 'v) py_dict \<Rightarrow> ('k, 'v) py_dict \<Rightarrow> bool" where
  "dict_same a b \<longleftrightarrow> length a = length b \<and> list_all (\<lambda>(k, v). dict_get b k = Some v) a"

definition specialist_defaults :: "(string, gen_config) py_dict" where
  "specialist_defaults =
     map (\<lambda>(n, t, tokens). (n, [(''temperature'', t / 10), (''max_tokens'', tokens)]))
     [(''code'', 3, 1500), (''creative'', 8, 2000), (''research'', 4, 1500), (''general'', 5, 1000),
      (''test_generator'', 3, 1500), (''security_auditor'', 2, 1500), (''doc_generator'', 4, 1200),
      (''performance_optimizer'', 3, 1200), (''debugging_assistant'', 3, 1500), (''data_specialist'', 3, 1500),
      (''api_generator'', 3, 1500), (''database_specialist'', 2, 1200), (''code_reviewer'', 3, 1800), (''vibe'', 5, 1500)]"

definition get_specialist_config :: "(string, gen_config) py_dict option \<Rightarrow> string \<Rightarrow> gen_config" where
  "get_specialist_config cs name =
     (let fallback = dict_get_or specialist_defaults name (dict_get_or specialist_defaults ''vibe'' []) in
      case cs of
        None \<Rightarrow> fallback
      | Some d \<Rightarrow>
          if \<not> dict_same (get_config d name) (get_config d ''general'') \<or> name = ''general'' then get_config d name else fallback)"

definition specialist_config :: "'w specialist_env \<Rightarrow> loaded_skill list \<Rightarrow> string \<Rightarrow> gen_config" where
  "specialist_config e skills name =
     (let c = get_specialist_config (sp_configs e) name; own = resolve_skill_generation_config skills
      in if own = [] then c else dict_merge c own)"

definition continuation_config :: "gen_config \<Rightarrow> gen_config" where
  "continuation_config c = dict_set ''max_tokens'' (min (dict_get_or c ''max_tokens'' 1500) 500) c"

section \<open>Prompts\<close>

definition skill_section :: "loaded_skill \<Rightarrow> string" where
  "skill_section k =
     (let content = opt_or (ls_content k) []; name = opt_or (ls_name k) ''unknown'' in
      if content \<noteq> [] then ''### Skill: '' @ name @ nl @ nl @ take 3000 content
        @ (if length content > 3000 then nl @ ''[...skill content truncated...]'' else [])
      else ''### Skill: '' @ name @ '' (content unavailable)'')"

definition skill_context :: "loaded_skill list \<Rightarrow> string" where
  "skill_context skills =
     (if skills = [] then []
      else nl @ nl @ ''## Relevant Skills'' @ nl @ nl @ ''Follow the instructions in these skills when applicable:'' @ nl @ nl
        @ join_with (nl @ nl @ ''---'' @ nl @ nl) (map skill_section skills))"

definition first_prompt :: "string \<Rightarrow> string \<Rightarrow> string \<Rightarrow> string \<Rightarrow> string \<Rightarrow> string" where
  "first_prompt req task_type percent skills memory =
     ''Complete the following task.'' @ nl @ nl @ ''**Task**: '' @ req @ nl @ nl @ ''**Task Type**: '' @ task_type
     @ '' (confidence: '' @ percent @ '')'' @ nl @ skills @ nl @ memory @ nl @ nl @ CLARIFICATION_INSTRUCTION @ nl @ nl
     @ ''Otherwise, provide a complete, high-quality solution that directly addresses the ''
     @ ''task.''"

definition refine_prompt :: "int \<Rightarrow> string \<Rightarrow> string \<Rightarrow> string \<Rightarrow> string \<Rightarrow> string \<Rightarrow> string" where
  "refine_prompt score req skills memory out feedback =
     ''Your previous attempt scored '' @ str_int score @ ''/100. Improve it based on the feedback.'' @ nl @ nl
     @ ''**Original Task**: '' @ req @ nl @ skills @ nl @ memory @ nl @ nl @ ''**Your Previous Output**:'' @ nl @ out @ nl
     @ nl @ ''**Critic Feedback**:'' @ nl @ feedback @ nl @ nl @ CLARIFICATION_INSTRUCTION @ nl @ nl
     @ ''Otherwise, focus on the specific issues identified in the feedback. Provide an improved ''
     @ ''solution.''"

definition tools_prompt :: "string \<Rightarrow> string \<Rightarrow> string" where
  "tools_prompt base tools =
     base @ nl @ nl @ ''**Available Tools**:'' @ nl @ ''You can use the following tools to validate your work:'' @ nl
     @ tools @ nl @ nl @ ''To use a tool, include in your output:'' @ nl @ ''<tool_call name='' @ [CHR 0x22]
     @ ''tool_name'' @ [CHR 0x22] @ ''>{'' @ [CHR 0x22] @ ''param1'' @ [CHR 0x22] @ '': '' @ [CHR 0x22] @ ''value1''
     @ [CHR 0x22] @ ''}</tool_call>'' @ nl @ nl @ ''You can make multiple tool calls. After seeing tool results, you ''
     @ ''can refine your output.''"

definition tool_line :: "'w specialist_env \<Rightarrow> 'w tool \<Rightarrow> string" where
  "tool_line e t = ''- '' @ tl_name t @ '': '' @ sp_describe e (tl_name t)"

definition specialist_prompt :: "'w specialist_env \<Rightarrow> agent_state \<Rightarrow> string" where
  "specialist_prompt e s =
     (let skills = opt_or (loaded_skills s) [];
          context = skill_context skills;
          memory = opt_or (memory_context s) [];
          req = opt_or (user_request s) [];
          base = (if opt_or (specialist_iteration_count s) 0 = 0 then
              first_prompt req (opt_or (routed_task_type s) ''general'') (sp_percent e (opt_or (routing_confidence s) 0)) context memory
            else refine_prompt (opt_or (output_critic_score s) 0) req context memory (opt_or (specialist_output s) [])
              (opt_or (output_critic_feedback s) []));
          instructions = opt_or (agent_instructions s) [];
          full = (if instructions = [] then base else base @ nl @ nl @ ''## Your Role'' @ nl @ nl @ instructions)
      in if has_tool_access skills (opt_or (specialist_adapter s) ''vibe'') then
           tools_prompt full (join_with nl (map (tool_line e) (get_all_schemas (sp_tools e))))
         else full)"

definition continuation_prompt :: "string \<Rightarrow> string \<Rightarrow> string \<Rightarrow> string" where
  "continuation_prompt req out result =
     ''Original Task:'' @ nl @ req @ nl @ nl @ ''Your Previous Response:'' @ nl @ out @ nl @ nl
     @ ''Tool Execution Result:'' @ nl @ result @ nl @ nl @ ''Based on this tool result, continue with your solution. ''
     @ ''You can:'' @ nl @ ''1. Make additional tool calls if needed to validate further'' @ nl
     @ ''2. Refine your solution based on the tool output'' @ nl @ ''3. Provide your final solution'' @ nl @ nl
     @ ''If you'' @ [CHR 0x27] @ ''re satisfied with the results, provide your final output without more tool calls.''"

section \<open>Tool calls\<close>

record tool_entry =
  te_tool :: string
  te_params :: json
  te_result :: tool_result

definition as_tool_call :: "tool_entry \<Rightarrow> tool_call" where
  "as_tool_call t = \<lparr>tc_tool = Some (te_tool t), tc_success = Some (tr_success (te_result t))\<rparr>"

definition error_entry :: "string \<Rightarrow> py_exn \<Rightarrow> tool_entry" where
  "error_entry label e = \<lparr>te_tool = ''error'', te_params = JObj [], te_result = failure (label @ exn_text e)\<rparr>"

definition repr_str :: "string \<Rightarrow> string" where
  "repr_str s =
     (let q = (if CHR 0x27 \<in> set s \<and> CHR 0x22 \<notin> set s then CHR 0x22 else CHR 0x27) in
      [q] @ concat (map (\<lambda>c. if c = q \<or> c = CHR 0x5C then [CHR 0x5C, c] else if c = CHR 0x0A then [CHR 0x5C, CHR ''n''] else [c]) s) @ [q])"

definition repr_list :: "string list \<Rightarrow> string" where
  "repr_list xs = ''['' @ join_with '', '' (map repr_str xs) @ '']''"

definition not_permitted :: "string \<Rightarrow> string set \<Rightarrow> tool_result" where
  "not_permitted n allowed =
     failure (''Tool '' @ quoted_name n @ '' is not permitted by the loaded skill(s). Allowed tools: ''
       @ repr_list (sorted_list_of_set allowed))"

definition blocked :: "string set option \<Rightarrow> string \<Rightarrow> bool" where
  "blocked allowed n = (case allowed of None \<Rightarrow> False | Some a \<Rightarrow> n \<notin> a)"

definition run_tool :: "'w tool_registry \<Rightarrow> string set option \<Rightarrow> string \<Rightarrow> json \<Rightarrow> 'w \<Rightarrow> (py_exn + tool_result) \<times> 'w" where
  "run_tool reg allowed n ps w =
     (if blocked allowed n then (Inr (not_permitted n (opt_or allowed {})), w) else call_tool reg n ps w)"

definition tool_result_text :: "string \<Rightarrow> tool_result \<Rightarrow> string" where
  "tool_result_text n r =
     ''Tool: '' @ n @ nl @
     (if tr_success r then ''Status: SUCCESS'' @ nl @ ''Output:'' @ nl @ tr_output r
      else ''Status: FAILED'' @ nl @ ''Error: '' @ opt_or (tr_error r) ''None'')"

text \<open>The loop: \<open>go_on\<close> lets the specialist go on from a tool's result, \<open>n\<close> counts the iterations left. With the output
  it ends on come the history of the calls and whether the limit was reached.\<close>

fun tool_loop ::
    "(string \<Rightarrow> json option) \<Rightarrow> 'w tool_registry \<Rightarrow> string set option \<Rightarrow> string \<Rightarrow> (string \<Rightarrow> string \<Rightarrow> 'w \<Rightarrow> (py_exn + string) \<times> 'w)
      \<Rightarrow> nat \<Rightarrow> string \<Rightarrow> 'w \<Rightarrow> (string \<times> tool_entry list \<times> bool) \<times> 'w" where
  "tool_loop loads reg allowed label go_on 0 out w = ((out, [], True), w)"
| "tool_loop loads reg allowed label go_on (Suc n) out w =
     (case parse_tool_call loads out of
        None \<Rightarrow> ((out, [], False), w)
      | Some (name, ps) \<Rightarrow>
          (case run_tool reg allowed name ps w of
             (Inl e, w1) \<Rightarrow> ((out, [error_entry label e], False), w1)
           | (Inr r, w1) \<Rightarrow>
               let entry = \<lparr>te_tool = name, te_params = ps, te_result = r\<rparr> in
               (case go_on out (tool_result_text name r) w1 of
                  (Inl e, w2) \<Rightarrow> ((out, [entry, error_entry label e], False), w2)
                | (Inr out', w2) \<Rightarrow>
                    (case tool_loop loads reg allowed label go_on n out' w2 of
                       ((o', h, limit), w3) \<Rightarrow> ((o', entry # h, limit), w3)))))"

definition limit_note :: "(string \<Rightarrow> json option) \<Rightarrow> bool \<Rightarrow> string \<Rightarrow> string" where
  "limit_note loads limit out =
     (case (limit, parse_tool_call loads out) of
        (True, Some (n, ps)) \<Rightarrow> out @ nl @ nl @ ''[Note: Tool iteration limit reached. Tool call for '' @ quoted_name n @ '' was not executed.]''
      | _ \<Rightarrow> out)"

definition with_tools ::
    "'w specialist_env \<Rightarrow> string set option \<Rightarrow> string \<Rightarrow> (string \<Rightarrow> string \<Rightarrow> 'w \<Rightarrow> (py_exn + string) \<times> 'w) \<Rightarrow> string \<Rightarrow> 'w
      \<Rightarrow> (string \<times> tool_entry list) \<times> 'w" where
  "with_tools e allowed label go_on out w =
     (case tool_loop (sp_loads e) (sp_tools e) allowed label go_on MAX_TOOL_CALLING_ITERATIONS out w of
        ((out', h, limit), w') \<Rightarrow> ((limit_note (sp_loads e) limit out', h), w'))"

section \<open>The specialist\<close>

text \<open>What the node does with the first output.\<close>

definition finish_specialist ::
    "'w specialist_env \<Rightarrow> prompt_adapter \<Rightarrow> gen_config \<Rightarrow> string \<Rightarrow> agent_state \<Rightarrow> string \<Rightarrow> 'w \<Rightarrow> agent_state \<times> 'w" where
  "finish_specialist e a c name s out w =
     (case parse_clarification out of (asks, questions) \<Rightarrow>
        if asks then
          (s\<lparr>clarification_needed := Some True, clarification_questions := Some questions, specialist_output := Some out,
             adapters_used := Some (opt_or (adapters_used s) [] @ [name]),
             tool_calls_made := Some (opt_or (tool_calls_made s) [])\<rparr>, w)
        else
          (case with_tools e (allowed_by (opt_or (loaded_skills s) [])) ''Tool calling loop error: ''
              (\<lambda>o' result. generate_with (sp_model e) a (continuation_prompt (opt_or (user_request s) []) o' result)
                 ((plain_kwargs (continuation_config c))\<lparr>gk_task_type := routed_task_type s\<rparr>)) out w of
             ((out', h), w') \<Rightarrow>
               (s\<lparr>specialist_output := Some out', adapters_used := Some (opt_or (adapters_used s) [] @ [name]),
                  tool_calls_made := Some (opt_or (tool_calls_made s) [] @ map as_tool_call h)\<rparr>, w')))"

definition execute_with_specialist :: "'w specialist_env \<Rightarrow> agent_state \<Rightarrow> ('w, agent_state) node_run" where
  "execute_with_specialist e s rw =
     (let name = opt_or (specialist_adapter s) ''vibe'';
          skills = opt_or (loaded_skills s) [];
          c = specialist_config e skills name;
          history = (if opt_or (specialist_iteration_count s) 0 > 0 then build_refinement_history s else [])
      in case get_or_create name (resolve_skill_adapter_prompt skills) (fst rw) of
           (Inl x, r) \<Rightarrow> (Inl x, r, snd rw)
         | (Inr a, r) \<Rightarrow>
             (case generate_with (sp_model e) a (specialist_prompt e s)
                 ((plain_kwargs c)\<lparr>gk_history := history, gk_task_type := routed_task_type s\<rparr>) (snd rw) of
                (Inl x, w) \<Rightarrow> (Inl x, r, w)
              | (Inr out, w) \<Rightarrow> (case finish_specialist e a c name s out w of (s', w') \<Rightarrow> (Inr s', r, w'))))"

section \<open>A sub-task\<close>

definition sibling_section :: "sub_task \<Rightarrow> string" where
  "sibling_section t =
     (let out = opt_or (t_output t) []
      in ''### '' @ py_title (spaced (opt_or (t_task_type t) ''unknown'')) @ '' (Score: '' @ str_int (opt_or (t_output_score t) 0) @ ''/100)'' @ nl
         @ (if length out > 800 then take 800 out @ nl @ ''... [truncated]'' else out))"

definition sibling_context :: "bool \<Rightarrow> sub_task list \<Rightarrow> string" where
  "sibling_context in_parallel earlier =
     (let ready = filter (\<lambda>t. t_status t \<in> {Some ''completed'', Some ''evaluated'', Some ''executed''} \<and> opt_or (t_output t) [] \<noteq> []) earlier
      in if in_parallel \<or> ready = [] then []
         else nl @ nl @ ''**Outputs from earlier specialists** (build on these, don'' @ [CHR 0x27] @ ''t duplicate):'' @ nl
           @ join_with (nl @ nl) (map sibling_section ready))"

definition relevant_skills :: "loaded_skill list \<Rightarrow> string \<Rightarrow> loaded_skill list" where
  "relevant_skills skills task_type =
     (let own = filter (\<lambda>k. ls_task_type k = Some task_type) skills in if own = [] then skills else own)"

definition sub_skill_section :: "loaded_skill \<Rightarrow> string" where
  "sub_skill_section k =
     (let content = opt_or (ls_content k) [] in
      if content = [] then []
      else nl @ nl @ ''### Skill: '' @ opt_or (ls_name k) ''unknown'' @ nl @ nl @ take 2000 content
        @ (if length content > 2000 then nl @ ''[...skill content truncated...]'' else []))"

definition sub_skill_context :: "loaded_skill list \<Rightarrow> string" where
  "sub_skill_context skills =
     (let body = concat (map sub_skill_section (take 2 skills)) in
      if body = [] then []
      else nl @ nl @ ''## Relevant Skills'' @ nl @ nl @ ''Follow these skill instructions when applicable:'' @ body)"

definition sub_first_prompt :: "string \<Rightarrow> string \<Rightarrow> string \<Rightarrow> string \<Rightarrow> string \<Rightarrow> string \<Rightarrow> string" where
  "sub_first_prompt req task_type spec siblings skills memory =
     ''Complete the following sub-task as part of a multi-specialist plan.'' @ nl @ nl @ ''**Original User Request**: ''
     @ req @ nl @ nl @ ''**Your Sub-Task** ('' @ spaced task_type @ ''):'' @ nl @ spec @ nl @ siblings @ nl @ skills @ nl
     @ memory @ nl @ nl @ CLARIFICATION_INSTRUCTION @ nl @ nl @ ''Otherwise, provide a high-quality, complete solution ''
     @ ''focused on your area of expertise.''"

definition sub_refine_prompt ::
    "int \<Rightarrow> string \<Rightarrow> string \<Rightarrow> string \<Rightarrow> string \<Rightarrow> string \<Rightarrow> string \<Rightarrow> string \<Rightarrow> string" where
  "sub_refine_prompt score req spec siblings skills memory out feedback =
     ''Your previous attempt scored '' @ str_int score @ ''/100. Improve based on feedback.'' @ nl @ nl
     @ ''**Original User Request**: '' @ req @ nl @ nl @ ''**Specification**: '' @ spec @ nl @ siblings @ nl @ skills @ nl
     @ memory @ nl @ nl @ ''**Your Previous Output**: '' @ out @ nl @ nl @ ''**Critic Feedback**: '' @ feedback @ nl @ nl
     @ CLARIFICATION_INSTRUCTION @ nl @ nl @ ''Otherwise, focus on the specific issues identified. Provide an improved ''
     @ ''solution.''"

definition sub_continuation_prompt :: "string \<Rightarrow> string \<Rightarrow> string \<Rightarrow> string" where
  "sub_continuation_prompt spec out result =
     ''Original Specification:'' @ nl @ spec @ nl @ nl @ ''Your Previous Response:'' @ nl @ out @ nl @ nl
     @ ''Tool Execution Result:'' @ nl @ result @ nl @ nl @ ''Based on this tool result, continue with your solution. ''
     @ ''You can:'' @ nl @ ''1. Make additional tool calls if needed'' @ nl
     @ ''2. Refine your solution based on the tool output'' @ nl @ ''3. Provide your final solution'' @ nl @ nl
     @ ''If satisfied, provide final output without more tool ''
     @ ''calls.''"

definition sub_prompt :: "agent_state \<Rightarrow> int \<Rightarrow> sub_task \<Rightarrow> string" where
  "sub_prompt s i t =
     (let task_type = opt_or (t_task_type t) ''general'';
          siblings = sibling_context (opt_or (parallel_execution s) True) (take (nat i) (opt_or (sub_tasks s) []));
          skills = sub_skill_context (relevant_skills (opt_or (loaded_skills s) []) task_type);
          memory = opt_or (memory_context s) [];
          req = opt_or (user_request s) [];
          spec = opt_or (t_specification t) []
      in if opt_or (t_iteration_count t) 0 = 0 then sub_first_prompt req task_type spec siblings skills memory
         else sub_refine_prompt (opt_or (t_output_score t) 0) req spec siblings skills memory (opt_or (t_output t) [])
           (opt_or (t_output_feedback t) []))"

definition finish_sub_task ::
    "'w specialist_env \<Rightarrow> prompt_adapter \<Rightarrow> gen_config \<Rightarrow> string \<Rightarrow> loaded_skill list \<Rightarrow> agent_state \<Rightarrow> int \<Rightarrow> sub_task \<Rightarrow> string \<Rightarrow> 'w
      \<Rightarrow> agent_state \<times> 'w" where
  "finish_sub_task e a c name skills s i t out w =
     (case parse_clarification out of (asks, questions) \<Rightarrow>
        if asks then
          ((put_sub_task i (t\<lparr>t_output := Some out, t_status := Some ''clarification_needed''\<rparr>) s)
             \<lparr>clarification_needed := Some True, clarification_questions := Some (opt_or (clarification_questions s) [] @ questions)\<rparr>, w)
        else if has_tool_access skills name then
          (case with_tools e (allowed_by skills) ''Tool calling error: ''
              (\<lambda>o' result. generate_with (sp_model e) a (sub_continuation_prompt (opt_or (t_specification t) []) o' result)
                 (plain_kwargs (continuation_config c))) out w of
             ((out', h), w') \<Rightarrow>
               (put_sub_task i (t\<lparr>t_tool_calls := Some (map as_tool_call h), t_output := Some out', t_status := Some ''executed''\<rparr>) s, w'))
        else (put_sub_task i (t\<lparr>t_output := Some out, t_status := Some ''executed''\<rparr>) s, w))"

definition execute_sub_task :: "'w specialist_env \<Rightarrow> agent_state \<Rightarrow> ('w, agent_state) node_run" where
  "execute_sub_task e s = at_sub_task s (\<lambda>i t rw.
     (case t_specialist_adapter t of
        None \<Rightarrow> (Inl (KeyError ''specialist_adapter''), rw)
      | Some name \<Rightarrow>
          let skills = relevant_skills (opt_or (loaded_skills s) []) (opt_or (t_task_type t) ''general'');
              c = specialist_config e skills name
          in case get_or_create name (resolve_skill_adapter_prompt skills) (fst rw) of
               (Inl x, r) \<Rightarrow> (Inl x, r, snd rw)
             | (Inr a, r) \<Rightarrow>
                 (case generate_with (sp_model e) a (sub_prompt s i t) ((plain_kwargs c)\<lparr>gk_task_type := routed_task_type s\<rparr>) (snd rw) of
                    (Inl x, w) \<Rightarrow> (Inl x, r, w)
                  | (Inr out, w) \<Rightarrow> (case finish_sub_task e a c name skills s i t out w of (s', w') \<Rightarrow> (Inr s', r, w')))))"

section \<open>The refinement plan\<close>

definition plan_prompt ::
    "string \<Rightarrow> int \<Rightarrow> string \<Rightarrow> string \<Rightarrow> string \<Rightarrow> string \<Rightarrow> int \<Rightarrow> int \<Rightarrow> string" where
  "plan_prompt task_type score req specialist scores feedback iteration limit =
     ''The '' @ spaced task_type @ '' output scored '' @ str_int score @ ''/100. Plan refinements.'' @ nl @ nl
     @ ''**Original User Request**: '' @ req @ nl @ nl @ ''**Specialist**: '' @ specialist @ '' ('' @ spaced task_type
     @ '')'' @ nl @ nl @ ''**Critic Scores**:'' @ nl @ scores @ nl @ nl @ ''**Critic Feedback**: '' @ feedback @ nl @ nl
     @ ''**Iteration**: '' @ str_int iteration @ ''/'' @ str_int limit @ nl @ nl @ ''Given that this is a ''
     @ spaced task_type @ '' task executed by the '' @ specialist @ '' specialist, what specific changes would most ''
     @ ''improve the score?'' @ nl @ ''Focus on the top 2-3 highest-impact improvements that are actionable by this ''
     @ ''specialist.''"

text \<open>The plan itself is not kept.\<close>

definition plan_refinement :: "'w specialist_env \<Rightarrow> real \<Rightarrow> agent_state \<Rightarrow> ('w, agent_state) node_run" where
  "plan_refinement e now s =
     (case user_request s of
        None \<Rightarrow> (\<lambda>rw. (Inl (KeyError ''user_request''), rw))
      | Some req \<Rightarrow>
          let iteration = opt_or (iteration_count s) 0; remaining = opt_or (max_iterations s) 3 - opt_or (iteration_count s) 0 in
          and_then
            (ask_critic (sp_model e) ''refinement''
               (plan_prompt (opt_or (routed_task_type s) ''general'') (opt_or (output_critic_score s) 0) req
                  (opt_or (specialist_adapter s) ''general'') (format_scores (opt_or (output_critic_scores s) []))
                  (opt_or (output_critic_feedback s) []) iteration (iteration + remaining))
               [(''temperature'', 4 / 10), (''max_tokens'', 300)])
            (\<lambda>plan. add_to_history now (used_adapter ''refinement'' s)))"

end
