(* ===== verification/Specialist_Correct.thy ===== *)
theory Specialist_Correct
  imports Specialist
begin

text \<open>
  What holds of the work of a specialist: which tools can act, how often, what can go wrong, what a refinement is told, and that
  the nodes of a sub-task keep the limits its loop relies on.
\<close>

section \<open>The world under the loop\<close>

lemma call_tool_keeps:
  assumes "\<And>t qs v. get_tool n reg = Some t \<Longrightarrow> P v \<Longrightarrow> P (snd (tl_execute t qs v))" and "P w"
  shows "P (snd (call_tool reg n ps w))"
proof -
  have "P (snd (execute_tool reg n qs w))" for qs
    using assms by (auto simp: execute_tool_def case_prod_unfold split: option.split sum.split py_exn.split)
  then show ?thesis using assms(2)
    by (cases ps) (auto simp: call_tool_def case_prod_unfold)
qed

text \<open>A property of the world that the tools not blocked and the model keep, the loop keeps.\<close>

lemma tool_loop_keeps:
  assumes tools: "\<And>n t qs v. \<not> blocked allowed n \<Longrightarrow> get_tool n reg = Some t \<Longrightarrow> P v \<Longrightarrow> P (snd (tl_execute t qs v))"
    and model: "\<And>o' result v. P v \<Longrightarrow> P (snd (go_on o' result v))"
  shows "P w \<Longrightarrow> P (snd (tool_loop loads reg allowed label go_on n out w))"
proof (induction n arbitrary: out w)
  case (Suc n)
  have run: "P (snd (run_tool reg allowed nm ps w))" for nm ps
    using call_tool_keeps [of nm reg P w ps] tools Suc.prems by (auto simp: run_tool_def)
  show ?case
  proof (cases "parse_tool_call loads out")
    case None
    then show ?thesis using Suc.prems by simp
  next
    case (Some np)
    obtain nm ps where np: "np = (nm, ps)" by (cases np)
    obtain r w1 where r: "run_tool reg allowed nm ps w = (r, w1)" by (cases "run_tool reg allowed nm ps w")
    have w1: "P w1" using run [of nm ps] r by simp
    show ?thesis
    proof (cases r)
      case (Inl e)
      then show ?thesis using Some np r w1 by simp
    next
      case (Inr res)
      obtain a w2 where a: "go_on out (tool_result_text nm res) w1 = (a, w2)" by (cases "go_on out (tool_result_text nm res) w1")
      have w2: "P w2" using model [OF w1, of out "tool_result_text nm res"] a by simp
      show ?thesis
        using Suc.IH [OF w2] w2 Some np r Inr a by (cases a) (auto simp: Let_def case_prod_unfold)
    qed
  qed
qed simp

lemma with_tools_world:
  "snd (with_tools e allowed label go_on out w) =
    snd (tool_loop (sp_loads e) (sp_tools e) allowed label go_on MAX_TOOL_CALLING_ITERATIONS out w)"
  by (simp add: with_tools_def case_prod_unfold)

lemma generate_keeps: "(\<And>ch c v. P v \<Longrightarrow> P (snd (lm_generate m ch c v))) \<Longrightarrow> P w \<Longrightarrow> P (snd (generate_with m a prompt kw w))"
  by (simp add: generate_with_def)

text \<open>The same of a whole node; \<open>act\<close> says which tools may act.\<close>

lemma with_tools_keeps:
  assumes "\<And>n t qs v. \<not> blocked allowed n \<Longrightarrow> get_tool n (sp_tools e) = Some t \<Longrightarrow> P v \<Longrightarrow> P (snd (tl_execute t qs v))"
    and "\<And>ch c v. P v \<Longrightarrow> P (snd (lm_generate (sp_model e) ch c v))" and "P w"
  shows "P (snd (with_tools e allowed label (\<lambda>o' result. generate_with (sp_model e) a (f o' result) kw) out w))"
  unfolding with_tools_world
  by (rule tool_loop_keeps [where P = P, OF assms(1) generate_keeps [of P, OF assms(2)] assms(3)])

lemma finish_specialist_cases:
  "snd (finish_specialist e a c name s out w) =
     (if fst (parse_clarification out) then w
      else snd (with_tools e (allowed_by (opt_or (loaded_skills s) [])) ''Tool calling loop error: ''
        (\<lambda>o' result. generate_with (sp_model e) a (continuation_prompt (opt_or (user_request s) []) o' result)
           ((plain_kwargs (continuation_config c))\<lparr>gk_task_type := routed_task_type s\<rparr>)) out w))"
  unfolding finish_specialist_def by (simp only: case_prod_unfold snd_conv if_distrib [of snd])

lemma finish_specialist_keeps:
  assumes "\<And>n t qs v. \<not> blocked (allowed_by (opt_or (loaded_skills s) [])) n \<Longrightarrow> get_tool n (sp_tools e) = Some t \<Longrightarrow> P v
      \<Longrightarrow> P (snd (tl_execute t qs v))"
    and "\<And>ch c v. P v \<Longrightarrow> P (snd (lm_generate (sp_model e) ch c v))" and "P w"
  shows "P (snd (finish_specialist e a c name s out w))"
  unfolding finish_specialist_cases using with_tools_keeps [OF assms] assms(3) by simp

text \<open>A node that looks up an adapter, asks it, and goes on from its answer.\<close>

definition ask_then ::
    "'w specialist_env \<Rightarrow> string \<Rightarrow> string \<Rightarrow> string \<Rightarrow> gen_kwargs \<Rightarrow> (prompt_adapter \<Rightarrow> string \<Rightarrow> 'w \<Rightarrow> agent_state \<times> 'w)
      \<Rightarrow> ('w, agent_state) node_run" where
  "ask_then e name skill_prompt prompt kw continue rw =
     (case get_or_create name skill_prompt (fst rw) of
        (Inl x, r) \<Rightarrow> (Inl x, r, snd rw)
      | (Inr a, r) \<Rightarrow>
          (case generate_with (sp_model e) a prompt kw (snd rw) of
             (Inl x, w) \<Rightarrow> (Inl x, r, w)
           | (Inr out, w) \<Rightarrow> (case continue a out w of (s', w') \<Rightarrow> (Inr s', r, w'))))"

lemma execute_with_specialist_ask:
  "execute_with_specialist e s =
     ask_then e (opt_or (specialist_adapter s) ''vibe'') (resolve_skill_adapter_prompt (opt_or (loaded_skills s) [])) (specialist_prompt e s)
       ((plain_kwargs (specialist_config e (opt_or (loaded_skills s) []) (opt_or (specialist_adapter s) ''vibe'')))
          \<lparr>gk_history := (if opt_or (specialist_iteration_count s) 0 > 0 then build_refinement_history s else []),
           gk_task_type := routed_task_type s\<rparr>)
       (\<lambda>a. finish_specialist e a (specialist_config e (opt_or (loaded_skills s) []) (opt_or (specialist_adapter s) ''vibe''))
          (opt_or (specialist_adapter s) ''vibe'') s)"
  by (rule ext) (simp only: execute_with_specialist_def ask_then_def Let_def)

lemma ask_then_keeps:
  assumes "\<And>ch c v. P v \<Longrightarrow> P (snd (lm_generate (sp_model e) ch c v))"
    and "\<And>a out v. P v \<Longrightarrow> P (snd (continue a out v))" and "P (snd rw)"
  shows "P (snd (snd (ask_then e name sp prompt kw continue rw)))"
proof -
  obtain x r where g: "get_or_create name sp (fst rw) = (x, r)" by (cases "get_or_create name sp (fst rw)")
  show ?thesis
  proof (cases x)
    case (Inl ex)
    then show ?thesis using g assms(3) by (simp add: ask_then_def)
  next
    case (Inr a)
    obtain y w where w: "generate_with (sp_model e) a prompt kw (snd rw) = (y, w)" by (cases "generate_with (sp_model e) a prompt kw (snd rw)")
    have "P w" using generate_keeps [of P, OF assms(1,3), of a prompt kw] w by simp
    then show ?thesis
      using g Inr w assms(2) [of w a] by (cases y) (simp_all add: ask_then_def case_prod_unfold)
  qed
qed

lemma execute_specialist_keeps:
  assumes "\<And>n t qs v. \<not> blocked (allowed_by (opt_or (loaded_skills s) [])) n \<Longrightarrow> get_tool n (sp_tools e) = Some t \<Longrightarrow> P v
      \<Longrightarrow> P (snd (tl_execute t qs v))"
    and "\<And>ch c v. P v \<Longrightarrow> P (snd (lm_generate (sp_model e) ch c v))" and "P (snd rw)"
  shows "P (snd (snd (execute_with_specialist e s rw)))"
  unfolding execute_with_specialist_ask
  by (rule ask_then_keeps [where P = P, OF assms(2) finish_specialist_keeps [OF assms(1,2)] assms(3)])


lemma execute_sub_task_ask:
  "execute_sub_task e s = at_sub_task s (\<lambda>i t.
     (case t_specialist_adapter t of
        None \<Rightarrow> (\<lambda>rw. (Inl (KeyError ''specialist_adapter''), rw))
      | Some name \<Rightarrow>
          (let skills = relevant_skills (opt_or (loaded_skills s) []) (opt_or (t_task_type t) ''general'') in
           ask_then e name (resolve_skill_adapter_prompt skills) (sub_prompt s i t)
             ((plain_kwargs (specialist_config e skills name))\<lparr>gk_task_type := routed_task_type s\<rparr>)
             (\<lambda>a. finish_sub_task e a (specialist_config e skills name) name skills s i t))))"
  unfolding execute_sub_task_def ask_then_def Let_def
  by (rule arg_cong [of _ _ "at_sub_task s"], intro ext) (simp split: option.split)

lemma finish_sub_task_cases:
  "snd (finish_sub_task e a c name skills s i t out w) =
     (if fst (parse_clarification out) \<or> \<not> has_tool_access skills name then w
      else snd (with_tools e (allowed_by skills) ''Tool calling error: ''
        (\<lambda>o' result. generate_with (sp_model e) a (sub_continuation_prompt (opt_or (t_specification t) []) o' result)
           (plain_kwargs (continuation_config c))) out w))"
  unfolding finish_sub_task_def by (simp add: case_prod_unfold if_distrib [of snd])

text \<open>The sub-task a node works on.\<close>

definition current_sub_task :: "agent_state \<Rightarrow> sub_task option" where
  "current_sub_task s =
     (let ts = opt_or (sub_tasks s) []; i = opt_or (current_sub_task_index s) 0 in
      if i \<ge> int (length ts) then None else py_index ts i)"

definition sub_task_skills :: "agent_state \<Rightarrow> sub_task \<Rightarrow> loaded_skill list" where
  "sub_task_skills s t = relevant_skills (opt_or (loaded_skills s) []) (opt_or (t_task_type t) ''general'')"

lemma at_sub_task_world:
  "snd (at_sub_task s f rw) = (case current_sub_task s of None \<Rightarrow> rw | Some t \<Rightarrow> snd (f (opt_or (current_sub_task_index s) 0) t rw))"
  by (simp add: at_sub_task_def current_sub_task_def Let_def split: option.split)

lemma execute_sub_task_keeps:
  assumes tools: "\<And>n t qs v. current_sub_task s = Some u \<Longrightarrow> \<not> blocked (allowed_by (sub_task_skills s u)) n
      \<Longrightarrow> has_tool_access (sub_task_skills s u) (opt_or (t_specialist_adapter u) []) \<Longrightarrow> get_tool n (sp_tools e) = Some t \<Longrightarrow> P v
      \<Longrightarrow> P (snd (tl_execute t qs v))"
    and model: "\<And>ch c v. P v \<Longrightarrow> P (snd (lm_generate (sp_model e) ch c v))" and "P (snd rw)" and u: "current_sub_task s = Some u"
  shows "P (snd (snd (execute_sub_task e s rw)))"
proof (cases "t_specialist_adapter u")
  case None
  then show ?thesis using u assms(3) by (simp add: execute_sub_task_ask at_sub_task_world)
next
  case (Some name)
  let ?skills = "sub_task_skills s u"
  have fin: "P (snd (finish_sub_task e a c name ?skills s i u out v))" if v: "P v" for a c i out v
  proof (cases "has_tool_access ?skills name")
    case True
    have "P (snd (with_tools e (allowed_by ?skills) ''Tool calling error: ''
        (\<lambda>o' result. generate_with (sp_model e) a (sub_continuation_prompt (opt_or (t_specification u) []) o' result)
           (plain_kwargs (continuation_config c))) out v))"
      by (rule with_tools_keeps [where P = P, OF _ model v]) (use tools [OF u] True Some in simp)
    then show ?thesis using v by (simp add: finish_sub_task_cases)
  qed (simp add: finish_sub_task_cases v)
  have "P (snd (snd (ask_then e name sp prompt kw (\<lambda>a. finish_sub_task e a c name ?skills s i u) rw)))" for sp prompt kw c i
    by (rule ask_then_keeps [where P = P]) (erule model, erule fin, rule assms(3))
  then show ?thesis
    using u Some by (simp add: execute_sub_task_ask at_sub_task_world Let_def sub_task_skills_def)
qed

section \<open>How often\<close>

text \<open>\<open>count\<close> counts what tools do: a tool adds at most one, the model nothing.\<close>

lemma run_tool_count:
  assumes "\<And>n t qs v. get_tool n reg = Some t \<Longrightarrow> count (snd (tl_execute t qs v)) \<le> count v + (1 :: nat)"
  shows "count (snd (run_tool reg allowed nm ps w)) \<le> count w + 1"
proof -
  have "count (snd (execute_tool reg nm qs w)) \<le> count w + 1" for qs
  proof (cases "get_tool nm reg")
    case (Some t)
    then show ?thesis using assms [OF Some, of qs w]
      by (auto simp: execute_tool_def case_prod_unfold split: sum.split py_exn.split)
  qed (simp add: execute_tool_def)
  then show ?thesis by (cases ps) (auto simp: run_tool_def call_tool_def case_prod_unfold)
qed

lemma tool_loop_bounds:
  assumes tools: "\<And>n t qs v. get_tool n reg = Some t \<Longrightarrow> count (snd (tl_execute t qs v)) \<le> count v + (1 :: nat)"
    and model: "\<And>o' result v. count (snd (go_on o' result v)) = count v"
  shows "count (snd (tool_loop loads reg allowed label go_on n out w)) \<le> count w + n
    \<and> length (fst (snd (fst (tool_loop loads reg allowed label go_on n out w)))) \<le> n + 1"
proof (induction n arbitrary: out w)
  case (Suc n)
  show ?case
  proof (cases "parse_tool_call loads out")
    case (Some np)
    obtain nm ps where np: "np = (nm, ps)" by (cases np)
    obtain r w1 where r: "run_tool reg allowed nm ps w = (r, w1)" by (cases "run_tool reg allowed nm ps w")
    have w1: "count w1 \<le> count w + 1" using run_tool_count [of reg count allowed nm ps w, OF tools] r by simp
    show ?thesis
    proof (cases r)
      case (Inl e)
      then show ?thesis using Some np r w1 by simp
    next
      case (Inr res)
      obtain a w2 where a: "go_on out (tool_result_text nm res) w1 = (a, w2)" by (cases "go_on out (tool_result_text nm res) w1")
      have w2: "count w2 = count w1" using model [of out "tool_result_text nm res" w1] a by simp
      show ?thesis
      proof (cases a)
        case (Inl x)
        then show ?thesis using Some np r Inr a w1 w2 by (simp add: Let_def)
      next
        case (Inr out')
        then show ?thesis using Some np r \<open>r = Inr res\<close> a w1 w2 Suc.IH [of out' w2] by (auto simp: Let_def case_prod_unfold)
      qed
    qed
  qed simp
qed simp


section \<open>What can go wrong\<close>

text \<open>An exception of the node is the model's, raised when it was first asked.\<close>

lemma ask_then_total:
  assumes "adapters_ok (fst rw)"
  shows "case ask_then e name sp prompt kw continue rw of
      (Inl x, r, w) \<Rightarrow> adapters_ok r \<and> (\<exists>ch c. fst (lm_generate (sp_model e) ch c (snd rw)) = Inl x)
    | (Inr s', r, w) \<Rightarrow> adapters_ok r \<and> (\<exists>a out v. continue a out v = (s', w))"
proof -
  obtain a r where g: "get_or_create name sp (fst rw) = (Inr a, r)" and r: "adapters_ok r"
    using get_or_create_total [OF assms, of name sp] by blast
  obtain y w where w: "generate_with (sp_model e) a prompt kw (snd rw) = (y, w)" by (cases "generate_with (sp_model e) a prompt kw (snd rw)")
  show ?thesis
  proof (cases y)
    case (Inl x)
    then have "fst (lm_generate (sp_model e) (chat_for (sp_model e) a prompt kw) (dict_merge (ad_config a) (gk_config kw)) (snd rw)) = Inl x"
      using w by (simp add: generate_with_def)
    then show ?thesis using g r w Inl by (auto simp: ask_then_def)
  next
    case (Inr out)
    obtain s' w' where c: "continue a out w = (s', w')" by (cases "continue a out w")
    then show ?thesis using g r w Inr by (auto simp: ask_then_def)
  qed
qed

lemma finish_specialist_output: "\<exists>out'. specialist_output (fst (finish_specialist e a c name s out w)) = Some out'"
  by (simp add: finish_specialist_def case_prod_unfold)

section \<open>The limits of a sub-task\<close>

lemma put_sub_task_counts:
  assumes "py_index (opt_or (sub_tasks s) []) i = Some t" and "t_iteration_count t' = t_iteration_count t"
    and "t_max_iterations t' = t_max_iterations t"
  shows "current_sub_task_index (put_sub_task i t' s) = current_sub_task_index s
    \<and> map (\<lambda>t. (t_iteration_count t, t_max_iterations t)) (opt_or (sub_tasks (put_sub_task i t' s)) [])
        = map (\<lambda>t. (t_iteration_count t, t_max_iterations t)) (opt_or (sub_tasks s) [])"
proof -
  obtain k where k: "py_pos (opt_or (sub_tasks s) []) i = Some k" "t = opt_or (sub_tasks s) [] ! k"
    using assms(1) by (auto simp: py_index_def)
  then have "k < length (opt_or (sub_tasks s) [])" using py_pos_less by blast
  then have "map (\<lambda>t. (t_iteration_count t, t_max_iterations t)) ((opt_or (sub_tasks s) [])[k := t'])
      = map (\<lambda>t. (t_iteration_count t, t_max_iterations t)) (opt_or (sub_tasks s) [])"
    using assms(2,3) k(2) by (simp add: map_update) (metis (no_types, lifting) list_update_id map_update)
  then show ?thesis using k(1) by (simp add: put_sub_task_def py_store_def)
qed

definition same_limits :: "agent_state \<Rightarrow> agent_state \<Rightarrow> bool" where
  "same_limits s s' \<longleftrightarrow>
     current_sub_task_index s' = current_sub_task_index s
     \<and> map (\<lambda>t. (t_iteration_count t, t_max_iterations t)) (opt_or (sub_tasks s') [])
       = map (\<lambda>t. (t_iteration_count t, t_max_iterations t)) (opt_or (sub_tasks s) [])"

lemma at_sub_task_limits:
  assumes "\<And>i t rw' s'. py_index (opt_or (sub_tasks s) []) i = Some t \<Longrightarrow> fst (f i t rw') = Inr s' \<Longrightarrow> same_limits s s'"
    and "fst (at_sub_task s f rw) = Inr s'"
  shows "same_limits s s'"
proof (cases "current_sub_task s")
  case None
  then show ?thesis using assms(2)
    by (auto simp: at_sub_task_def current_sub_task_def same_limits_def Let_def split: if_splits option.splits)
next
  case (Some t)
  then have "py_index (opt_or (sub_tasks s) []) (opt_or (current_sub_task_index s) 0) = Some t"
    "fst (at_sub_task s f rw) = fst (f (opt_or (current_sub_task_index s) 0) t rw)"
    by (auto simp: at_sub_task_def current_sub_task_def Let_def split: if_splits option.splits)
  then show ?thesis using assms by metis
qed

lemma put_same_limits:
  "py_index (opt_or (sub_tasks s) []) i = Some t \<Longrightarrow> t_iteration_count t' = t_iteration_count t \<Longrightarrow>
    t_max_iterations t' = t_max_iterations t \<Longrightarrow> same_limits s (put_sub_task i t' s)"
  using put_sub_task_counts unfolding same_limits_def by blast

lemma finish_sub_task_limits:
  assumes "py_index (opt_or (sub_tasks s) []) i = Some t"
  shows "same_limits s (fst (finish_sub_task e a c name skills s i t out w))"
proof -
  have "same_limits s (put_sub_task i (t\<lparr>t_output := o', t_status := st\<rparr>) s)"
    "same_limits s (put_sub_task i (t\<lparr>t_tool_calls := h, t_output := o', t_status := st\<rparr>) s)" for o' st h
    by (rule put_same_limits [OF assms]; simp)+
  then show ?thesis
    by (simp add: finish_sub_task_def case_prod_unfold same_limits_def)
qed

lemma ask_then_Inr:
  assumes "fst (ask_then e name sp prompt kw continue rw) = Inr s'"
  shows "\<exists>a out v. s' = fst (continue a out v)"
proof -
  obtain x r where g: "get_or_create name sp (fst rw) = (x, r)" by (cases "get_or_create name sp (fst rw)")
  then obtain a where a: "x = Inr a" using assms by (cases x) (auto simp: ask_then_def)
  obtain y w where w: "generate_with (sp_model e) a prompt kw (snd rw) = (y, w)" by (cases "generate_with (sp_model e) a prompt kw (snd rw)")
  then obtain out where "y = Inr out" using assms g a by (cases y) (auto simp: ask_then_def)
  then have "s' = fst (continue a out w)" using assms g a w by (simp add: ask_then_def case_prod_unfold)
  then show ?thesis by blast
qed

lemma execute_sub_task_limits:
  assumes "fst (execute_sub_task e s rw) = Inr s'"
  shows "same_limits s s'"
proof (rule at_sub_task_limits [OF _ assms [unfolded execute_sub_task_ask]])
  fix i t rw' s'
  assume i: "py_index (opt_or (sub_tasks s) []) i = Some t"
  let ?k = "relevant_skills (opt_or (loaded_skills s) []) (opt_or (t_task_type t) ''general'')"
  assume r: "fst ((case t_specialist_adapter t of
        None \<Rightarrow> (\<lambda>rw. (Inl (KeyError ''specialist_adapter''), rw))
      | Some name \<Rightarrow>
          (let skills = ?k in
           ask_then e name (resolve_skill_adapter_prompt skills) (sub_prompt s i t)
             ((plain_kwargs (specialist_config e skills name))\<lparr>gk_task_type := routed_task_type s\<rparr>)
             (\<lambda>a. finish_sub_task e a (specialist_config e skills name) name skills s i t))) rw') = Inr s'"
  show "same_limits s s'"
  proof (cases "t_specialist_adapter t")
    case None
    then show ?thesis using r by simp
  next
    case (Some name)
    have "fst (ask_then e name (resolve_skill_adapter_prompt ?k) (sub_prompt s i t)
             ((plain_kwargs (specialist_config e ?k name))\<lparr>gk_task_type := routed_task_type s\<rparr>)
             (\<lambda>a. finish_sub_task e a (specialist_config e ?k name) name ?k s i t) rw') = Inr s'"
      using r Some by (simp add: Let_def)
    from ask_then_Inr [OF this] show ?thesis using finish_sub_task_limits [OF i] by auto
  qed
qed

lemma evaluate_sub_output_limits:
  assumes "fst (evaluate_sub_output m s rw) = Inr s'"
  shows "same_limits s s'"
proof (rule at_sub_task_limits [OF _ assms [unfolded evaluate_sub_output_def]])
  fix i t rw' s'
  assume i: "py_index (opt_or (sub_tasks s) []) i = Some t"
  assume "fst ((case t_task_type t of
        None \<Rightarrow> (\<lambda>rw. (Inl (KeyError ''task_type''), rw))
      | Some task_type \<Rightarrow>
          and_then
            (ask_critic m ''critic''
              (sub_output_critic_prompt task_type i (opt_or (user_request s) []) (opt_or (t_specification t) [])
                 (opt_or (t_output t) []) (criteria_section (opt_or (loaded_skills s) []) task_type))
              (critic_config 400))
            (\<lambda>ev. let (scores, feedback) = parse_critic_output ev in
               Inr (put_sub_task i (t\<lparr>t_output_score := Some (overall scores), t_output_feedback := Some feedback,
                 t_status := Some ''evaluated''\<rparr>) s))) rw') = Inr s'"
  then obtain v fb where "s' = put_sub_task i (t\<lparr>t_output_score := v, t_output_feedback := fb, t_status := Some ''evaluated''\<rparr>) s"
    by (auto simp: and_then_def Let_def case_prod_unfold split: option.splits)
  then show "same_limits s s'" by (simp add: put_same_limits [OF i])
qed


section \<open>A small environment\<close>

text \<open>A tool that counts its calls, and a model that asks for it until it has been called.\<close>

definition touch_tool :: "nat tool" where
  "touch_tool = \<lparr>tl_name = ''touch'', tl_category = SPECIALIZED, tl_enabled = True, tl_required = [],
     tl_execute = (\<lambda>ps w. (Inr (success ''ok'' []), w + 1)), tl_lookups = None\<rparr>"

definition touch_call :: string where
  "touch_call = ''<tool_call name='' @ [CHR 0x22] @ ''touch'' @ [CHR 0x22] @ ''>{}</tool_call>''"

definition touch_env :: "nat specialist_env" where
  "touch_env = \<lparr>sp_model = \<lparr>lm_generate = (\<lambda>ch c w. (Inr (if w = 0 then touch_call else ''done''), w)), lm_appends = None\<rparr>,
     sp_tools = [(''touch'', touch_tool)], sp_describe = (\<lambda>n. []), sp_loads = (\<lambda>s. Some (JObj [])), sp_percent = (\<lambda>x. []),
     sp_configs = None\<rparr>"

definition touch_adapters :: adapter_registry where
  "touch_adapters = \<lparr>ar_adapters = [(''vibe'', \<lparr>ad_name = ''vibe'', ad_system_prompt = ''Do it.'', ad_config = []\<rparr>)], ar_current = None\<rparr>"

definition skill_with :: "string set option \<Rightarrow> bool option \<Rightarrow> loaded_skill" where
  "skill_with tools enabled = \<lparr>ls_name = Some ''s'', ls_tier = ''local'', ls_task_type = None, ls_task_types = None, ls_content = None,
     ls_path = [], ls_allowed_tools = tools, ls_quality_criteria = None, ls_adapter_prompt = None, ls_generation_config = None,
     ls_tools_enabled = enabled\<rparr>"

definition touch_state :: "loaded_skill list \<Rightarrow> agent_state" where
  "touch_state skills = empty_state\<lparr>user_request := Some ''go'', loaded_skills := Some skills,
     sub_tasks := Some [\<lparr>t_task_type = Some ''general'', t_specialist_adapter = Some ''vibe'', t_specification = Some ''go'', t_output = None,
       t_spec_score = None, t_output_score = None, t_output_feedback = None, t_iteration_count = Some 0, t_max_iterations = Some 1,
       t_status = None, t_id = None, t_parent_specification = None, t_sibling_tasks = None, t_tool_calls = None, t_spec_feedback = None\<rparr>]\<rparr>"

lemma touch_parse: "parse_tool_call (sp_loads touch_env) touch_call = Some (''touch'', JObj [])"
  "parse_clarification touch_call = (False, [])"
  "parse_tool_call (sp_loads touch_env) ''done'' = None"
  by code_simp+

lemma touch_adapters_ok: "adapters_ok touch_adapters"
  by (auto simp: adapters_ok_def touch_adapters_def dict_has_def dict_get_def split: if_splits)

lemma touch_generate: "generate_with (sp_model touch_env) a p kw w = (Inr (if w = 0 then touch_call else ''done''), w)"
  by (simp add: generate_with_def touch_env_def)

lemma touch_tools:
  assumes "\<not> blocked allowed ''touch''"
  shows "snd (with_tools touch_env allowed label (\<lambda>o' r. generate_with (sp_model touch_env) a (f o' r) kw) touch_call 0) = 1"
proof -
  have t: "get_tool ''touch'' (sp_tools touch_env) = Some touch_tool"
    by (simp add: touch_env_def get_tool_def dict_get_def)
  have run: "run_tool (sp_tools touch_env) allowed ''touch'' (JObj []) 0 = (Inr (success ''ok'' []), 1)"
    using assms by (simp add: run_tool_def call_tool_def dict_has_def execute_tool_def t validate_params_def touch_tool_def)
  have three: "MAX_TOOL_CALLING_ITERATIONS = Suc (Suc (Suc 0))" by (simp add: MAX_TOOL_CALLING_ITERATIONS_def)
  show ?thesis
    by (simp only: with_tools_world three run tool_loop.simps touch_parse touch_generate option.case prod.case sum.case Let_def snd_conv
        one_neq_zero if_False)
qed


lemma touch_adapter:
  "\<exists>a r. get_or_create ''vibe'' [] touch_adapters = (Inr a, r)"
  using get_or_create_total [OF touch_adapters_ok, of "''vibe''" "[]"] by blast

lemma touch_skill: "resolve_skill_adapter_prompt [skill_with A b] = []" "opt_or (loaded_skills (touch_state ks)) [] = ks"
  "opt_or (specialist_adapter (touch_state ks)) ''vibe'' = ''vibe''" "allowed_by [skill_with A b] = A"
  by (auto simp: resolve_skill_adapter_prompt_def skill_with_def touch_state_def empty_state_def allowed_by_def
      effective_allowed_tools_def Let_def split: option.split)

lemma touch_enabled: "resolve_skill_tools_enabled [skill_with A b] = b"
  by (cases b) (auto simp: resolve_skill_tools_enabled_def skill_with_def)

lemma touch_run:
  assumes "\<not> blocked A ''touch''"
  shows "snd (snd (execute_with_specialist touch_env (touch_state [skill_with A b]) (touch_adapters, 0))) = 1"
proof -
  obtain a r where g: "get_or_create ''vibe'' [] touch_adapters = (Inr a, r)" using touch_adapter by blast
  have f: "snd (finish_specialist touch_env a c name (touch_state [skill_with A b]) touch_call 0) = 1" for c name
    using touch_tools [OF assms] by (simp add: finish_specialist_cases touch_parse touch_skill)
  then show ?thesis
    unfolding execute_with_specialist_ask touch_skill ask_then_def fst_conv snd_conv
    by (simp add: g touch_generate case_prod_unfold)
qed

section \<open>Properties\<close>

text \<open>C6: When the loaded skills say which tools are allowed, no other tool acts, whatever the model asks for: what the model and the
  allowed tools keep, the work of the specialist keeps.\<close>

theorem forbidden_tools_never_act:
  assumes "allowed_by (opt_or (loaded_skills s) []) = Some A"
    and "\<And>n t qs v. n \<in> A \<Longrightarrow> get_tool n (sp_tools e) = Some t \<Longrightarrow> P v \<Longrightarrow> P (snd (tl_execute t qs v))"
    and "\<And>ch c v. P v \<Longrightarrow> P (snd (lm_generate (sp_model e) ch c v))" and "P (snd rw)"
  shows "P (snd (snd (execute_with_specialist e s rw)))"
  by (rule execute_specialist_keeps [where P = P, OF _ assms(3,4)]) (use assms(1,2) in \<open>simp add: blocked_def\<close>)

text \<open>C34: A specialist calls at most three tools in one go, however often its model asks.\<close>

theorem at_most_three_tool_calls:
  assumes "\<And>n t qs v. get_tool n (sp_tools e) = Some t \<Longrightarrow> count (snd (tl_execute t qs v)) \<le> count v + (1 :: nat)"
    and "\<And>ch c v. count (snd (lm_generate (sp_model e) ch c v)) = count v"
  shows "count (snd (snd (execute_with_specialist e s rw))) \<le> count (snd rw) + 3"
proof -
  have gen: "count (snd (generate_with (sp_model e) a p kw v)) = count v" for a p kw v
    by (simp add: generate_with_def assms(2))
  have fin: "count (snd (finish_specialist e a c n s out v)) \<le> count v + 3" for a c n out v
  proof -
    have "count (snd (with_tools e al l (\<lambda>o' r. generate_with (sp_model e) a (f o' r) kw) out v)) \<le> count v + 3" for al l f kw
      unfolding with_tools_world
      using tool_loop_bounds [of "sp_tools e" count "\<lambda>o' r. generate_with (sp_model e) a (f o' r) kw" "sp_loads e" al l
          MAX_TOOL_CALLING_ITERATIONS out v, OF assms(1) gen]
      by (simp add: MAX_TOOL_CALLING_ITERATIONS_def)
    then show ?thesis by (simp add: finish_specialist_cases)
  qed
  show ?thesis
  proof -
    let ?name = "opt_or (specialist_adapter s) ''vibe''" and ?sp = "resolve_skill_adapter_prompt (opt_or (loaded_skills s) [])"
    obtain x r where g: "get_or_create ?name ?sp (fst rw) = (x, r)" by (cases "get_or_create ?name ?sp (fst rw)")
    have "count (snd (snd (ask_then e ?name ?sp p kw (\<lambda>a. finish_specialist e a c ?name s) rw))) \<le> count (snd rw) + 3" for p kw c
    proof (cases x)
      case (Inr a)
      obtain y w where w: "generate_with (sp_model e) a p kw (snd rw) = (y, w)" by (cases "generate_with (sp_model e) a p kw (snd rw)")
      have "count w = count (snd rw)" using gen [of a p kw "snd rw"] w by simp
      then show ?thesis using g Inr w fin [of a c ?name _ w] by (cases y) (simp_all add: ask_then_def case_prod_unfold)
    qed (use g in \<open>simp add: ask_then_def\<close>)
    then show ?thesis by (simp add: execute_with_specialist_ask)
  qed
qed

text \<open>With a well-formed registry of adapters the node fails only with its model, when it is asked for the first time: a tool that
  raises, a call that cannot be made and a later failure of the model end the loop with the output at hand.\<close>

theorem specialist_fails_only_with_its_model:
  assumes "adapters_ok (fst rw)"
  shows "case execute_with_specialist e s rw of
      (Inl x, r, w) \<Rightarrow> adapters_ok r \<and> (\<exists>ch c. fst (lm_generate (sp_model e) ch c (snd rw)) = Inl x)
    | (Inr s', r, w) \<Rightarrow> adapters_ok r \<and> (\<exists>out. specialist_output s' = Some out)"
proof -
  let ?name = "opt_or (specialist_adapter s) ''vibe''" and ?sp = "resolve_skill_adapter_prompt (opt_or (loaded_skills s) [])"
  let ?c = "specialist_config e (opt_or (loaded_skills s) []) ?name"
  have total: "case execute_with_specialist e s rw of
      (Inl x, r, w) \<Rightarrow> adapters_ok r \<and> (\<exists>ch c. fst (lm_generate (sp_model e) ch c (snd rw)) = Inl x)
    | (Inr s', r, w) \<Rightarrow> adapters_ok r \<and> (\<exists>a out v. finish_specialist e a ?c ?name s out v = (s', w))"
    unfolding execute_with_specialist_ask by (rule ask_then_total [OF assms])
  obtain y r w where run: "execute_with_specialist e s rw = (y, r, w)" by (metis prod_cases3)
  show ?thesis
  proof (cases y)
    case (Inl x)
    then show ?thesis using total run by simp
  next
    case (Inr s')
    then obtain a out v where "adapters_ok r" "finish_specialist e a ?c ?name s out v = (s', w)"
      using total run by auto
    then show ?thesis using finish_specialist_output [of e a ?c ?name s out v] run Inr by simp
  qed
qed

text \<open>A sub-task whose specialist has no access to tools calls none.\<close>

theorem denied_sub_task_calls_no_tool:
  assumes "current_sub_task s = Some u"
    and "\<not> has_tool_access (sub_task_skills s u) (opt_or (t_specialist_adapter u) [])"
    and "\<And>ch c v. P v \<Longrightarrow> P (snd (lm_generate (sp_model e) ch c v))" and "P (snd rw)"
  shows "P (snd (snd (execute_sub_task e s rw)))"
  by (rule execute_sub_task_keeps [where P = P, OF _ assms(3,4,1)]) (use assms(1,2) in simp)

text \<open>The specialist of a whole request calls tools even when the skill has switched them off: the switch only keeps the list of
  tools out of its prompt.\<close>

theorem switched_off_tools_are_called:
  "\<not> has_tool_access [skill_with None (Some False)] ''vibe''
    \<and> snd (snd (execute_with_specialist touch_env (touch_state [skill_with None (Some False)]) (touch_adapters, 0))) = 1"
proof
  show "\<not> has_tool_access [skill_with None (Some False)] ''vibe''"
    by (simp add: has_tool_access_def touch_enabled)
  show "snd (snd (execute_with_specialist touch_env (touch_state [skill_with None (Some False)]) (touch_adapters, 0))) = 1"
    by (rule touch_run) (simp add: blocked_def)
qed

text \<open>From the second iteration on the prompt carries the critique: the score, the previous output and the feedback.\<close>

theorem refinement_is_told_the_critique:
  assumes "specialist_iteration_count s = Some n" and "n \<noteq> 0"
  shows "\<exists>a b c. specialist_prompt e s =
    ''Your previous attempt scored '' @ str_int (opt_or (output_critic_score s) 0) @ a @ opt_or (specialist_output s) [] @ b
      @ opt_or (output_critic_feedback s) [] @ c"
proof -
  let ?req = "opt_or (user_request s) []" and ?k = "skill_context (opt_or (loaded_skills s) [])" and ?m = "opt_or (memory_context s) []"
  let ?a = "''/100. Improve it based on the feedback.'' @ nl @ nl @ ''**Original Task**: '' @ ?req @ nl @ ?k @ nl @ ?m @ nl @ nl
      @ ''**Your Previous Output**:'' @ nl"
  let ?b = "nl @ nl @ ''**Critic Feedback**:'' @ nl"
  have "refine_prompt (opt_or (output_critic_score s) 0) ?req ?k ?m (opt_or (specialist_output s) []) (opt_or (output_critic_feedback s) [])
      = ''Your previous attempt scored '' @ str_int (opt_or (output_critic_score s) 0) @ ?a @ opt_or (specialist_output s) [] @ ?b
      @ opt_or (output_critic_feedback s) [] @ nl @ nl @ CLARIFICATION_INSTRUCTION @ nl @ nl
      @ ''Otherwise, focus on the specific issues identified in the feedback. Provide an improved solution.''"
    by (simp add: refine_prompt_def)
  then obtain a b c where base: "refine_prompt (opt_or (output_critic_score s) 0) ?req ?k ?m (opt_or (specialist_output s) [])
      (opt_or (output_critic_feedback s) []) =
    ''Your previous attempt scored '' @ str_int (opt_or (output_critic_score s) 0) @ a @ opt_or (specialist_output s) [] @ b
      @ opt_or (output_critic_feedback s) [] @ c" by blast
  have tools: "\<exists>d. tools_prompt x y = x @ d" for x y unfolding tools_prompt_def by (rule exI, rule refl)
  let ?X = "refine_prompt (opt_or (output_critic_score s) 0) ?req ?k ?m (opt_or (specialist_output s) []) (opt_or (output_critic_feedback s) [])"
  let ?full = "if opt_or (agent_instructions s) [] = [] then ?X
    else ?X @ nl @ nl @ ''## Your Role'' @ nl @ nl @ opt_or (agent_instructions s) []"
  obtain d1 where d1: "?full = ?X @ d1" by (cases "opt_or (agent_instructions s) [] = []") auto
  obtain d2 where d2: "tools_prompt ?full (join_with nl (map (tool_line e) (get_all_schemas (sp_tools e)))) = ?full @ d2"
    using tools by blast
  have p: "specialist_prompt e s = (if has_tool_access (opt_or (loaded_skills s) []) (opt_or (specialist_adapter s) ''vibe'')
      then tools_prompt ?full (join_with nl (map (tool_line e) (get_all_schemas (sp_tools e)))) else ?full)"
    using assms by (simp only: specialist_prompt_def Let_def opt_or_simps if_False simp_thms)
  have "\<exists>d. specialist_prompt e s = ?X @ d" unfolding p d2 unfolding d1 by simp
  then obtain d where "specialist_prompt e s = ?X @ d" by blast
  then show ?thesis unfolding base append_assoc by blast
qed


text \<open>The nodes of a sub-task, in the world each attempt finds.\<close>

definition real_nodes :: "'w specialist_env \<Rightarrow> (nat \<Rightarrow> nat \<Rightarrow> agent_state \<Rightarrow> 'w node_world) \<Rightarrow> parallel_nodes" where
  "real_nodes e found = \<lparr>pn_execute = (\<lambda>i k s. fst (execute_sub_task e s (found i k s))),
     pn_evaluate = (\<lambda>i k s. fst (evaluate_sub_output (sp_model e) s (found i k s)))\<rparr>"

lemma real_nodes_keep_limits: "keeps_limits (real_nodes e found)"
  using execute_sub_task_limits evaluate_sub_output_limits
  unfolding keeps_limits_def real_nodes_def same_limits_def by (metis (no_types, lifting) parallel_nodes.simps(1,2))

text \<open>C29: With the specialist and the critic of the program, a sub-task with a positive limit of iterations of its own that runs in
  a thread, whose loop over the attempts returns without an exception and without a question to the user, ends completed or
  failed: it is never left in between.\<close>

theorem sub_task_ends_with_a_verdict:
  assumes "t_max_iterations t = Some m" and "0 < m" and "0 \<le> opt_or (t_iteration_count t) 0"
    and "output_loop (real_nodes e found) idx (nat (opt_or (t_max_iterations t) max_iter)) 0 (build_local_state t c) = Inr s'"
    and "\<not> opt_or (clarification_needed s') False"
  shows "\<exists>r. run_single_subtask (real_nodes e found) c max_iter idx t = Inr r
    \<and> (t_status r = Some ''completed'' \<or> t_status r = Some ''failed'')"
proof -
  have "\<exists>r. sub_tasks s' = Some [r] \<and> (t_status r = Some ''completed'' \<or> t_status r = Some ''failed'')"
    by (rule output_loop_final [OF real_nodes_keep_limits assms(4), where i = "t_iteration_count t" and m = m])
      (use assms(1-3,5) in \<open>simp_all add: build_local_state_def\<close>)
  then show ?thesis using assms(4) by (auto simp: run_single_subtask_def)
qed

section \<open>Witnesses\<close>

lemma touch_get: "get_tool n (sp_tools touch_env) = Some t \<longleftrightarrow> n = ''touch'' \<and> t = touch_tool"
  by (auto simp: touch_env_def get_tool_def dict_get_def)

lemma touch_model: "snd (lm_generate (sp_model touch_env) ch c w) = w"
  by (simp add: touch_env_def)

theorem forbidden_tools_never_act_witness:
  "snd (snd (execute_with_specialist touch_env (touch_state [skill_with (Some {''file_reader''}) None]) (touch_adapters, 0))) = 0"
  by (rule forbidden_tools_never_act [where P = "\<lambda>w. w = 0" and A = "{''file_reader''}"])
    (simp_all add: touch_skill touch_get touch_model)

theorem at_most_three_tool_calls_witness:
  "snd (snd (execute_with_specialist touch_env (touch_state []) (touch_adapters, 5))) \<le> 8"
proof -
  have "snd (snd (execute_with_specialist touch_env (touch_state []) (touch_adapters, 5))) \<le> snd (touch_adapters, 5 :: nat) + 3"
    by (rule at_most_three_tool_calls [where count = "\<lambda>w. w"]) (auto simp: touch_get touch_model touch_tool_def)
  then show ?thesis by simp
qed

theorem specialist_fails_only_with_its_model_witness:
  "case execute_with_specialist touch_env (touch_state []) (touch_adapters, 0) of
      (Inl x, r, w) \<Rightarrow> adapters_ok r \<and> (\<exists>ch c. fst (lm_generate (sp_model touch_env) ch c (snd (touch_adapters, 0))) = Inl x)
    | (Inr s', r, w) \<Rightarrow> adapters_ok r \<and> (\<exists>out. specialist_output s' = Some out)"
  by (rule specialist_fails_only_with_its_model) (simp add: touch_adapters_ok)

theorem denied_sub_task_calls_no_tool_witness:
  "snd (snd (execute_sub_task touch_env (touch_state [skill_with None (Some False)]) (touch_adapters, 0))) = 0"
proof -
  let ?s = "touch_state [skill_with None (Some False)]"
  obtain u where u: "current_sub_task ?s = Some u" "t_specialist_adapter u = Some ''vibe''" "t_task_type u = Some ''general''"
    by (simp add: current_sub_task_def touch_state_def empty_state_def py_index_def py_pos_def)
  have "sub_task_skills ?s u = [skill_with None (Some False)]"
    using u(3) by (simp add: sub_task_skills_def touch_skill relevant_skills_def skill_with_def)
  then have "\<not> has_tool_access (sub_task_skills ?s u) (opt_or (t_specialist_adapter u) [])"
    by (simp add: has_tool_access_def touch_enabled)
  from denied_sub_task_calls_no_tool [OF u(1) this, of "\<lambda>w. w = 0" touch_env "(touch_adapters, 0)"] show ?thesis
    by (simp add: touch_model)
qed

theorem refinement_is_told_the_critique_witness:
  "\<exists>a b c. specialist_prompt touch_env
      ((touch_state [])\<lparr>specialist_iteration_count := Some 1, output_critic_score := Some 62, specialist_output := Some ''draft'',
        output_critic_feedback := Some ''too short''\<rparr>) =
    ''Your previous attempt scored '' @ str_int 62 @ a @ ''draft'' @ b @ ''too short'' @ c"
  using refinement_is_told_the_critique [of "(touch_state [])\<lparr>specialist_iteration_count := Some 1, output_critic_score := Some 62,
      specialist_output := Some ''draft'', output_critic_feedback := Some ''too short''\<rparr>" 1 touch_env]
  by simp


definition verdict_world :: "nat \<Rightarrow> nat \<Rightarrow> agent_state \<Rightarrow> nat node_world" where
  "verdict_world i k s = (register_adapter \<lparr>ad_name = ''critic'', ad_system_prompt = ''Judge.'', ad_config = []\<rparr> touch_adapters, 1)"

definition small_task :: sub_task where
  "small_task = (hd (opt_or (sub_tasks (touch_state [])) []))"

lemma small_run:
  "case output_loop (real_nodes touch_env verdict_world) 0 1 0 (build_local_state small_task plain_context) of
     Inl x \<Rightarrow> False | Inr s' \<Rightarrow> \<not> opt_or (clarification_needed s') False"
  by code_simp


theorem sub_task_ends_with_a_verdict_witness:
  "\<exists>r. run_single_subtask (real_nodes touch_env verdict_world) plain_context 3 0 small_task = Inr r
    \<and> (t_status r = Some ''completed'' \<or> t_status r = Some ''failed'')"
proof -
  have t: "t_max_iterations small_task = Some 1" "t_iteration_count small_task = Some 0"
    by (simp_all add: small_task_def touch_state_def empty_state_def)
  obtain s' where s': "output_loop (real_nodes touch_env verdict_world) 0 1 0 (build_local_state small_task plain_context) = Inr s'"
    "\<not> opt_or (clarification_needed s') False"
    using small_run by (cases "output_loop (real_nodes touch_env verdict_world) 0 1 0 (build_local_state small_task plain_context)") auto
  have "output_loop (real_nodes touch_env verdict_world) 0 (nat (opt_or (t_max_iterations small_task) 3)) 0
      (build_local_state small_task plain_context) = Inr s'"
    using s'(1) t by simp
  from sub_task_ends_with_a_verdict [OF t(1) _ _ this s'(2)] show ?thesis using t by simp
qed

end
