(* ===== verification/Critic_Correct.thy ===== *)
theory Critic_Correct
  imports Critic_Nodes
begin

text \<open>
  The answer of a critic: what any answer gives, and that one in the format the prompts ask for gives exactly the scores it
  states for the seven dimensions the parser knows; the other names two of the prompts ask for are dropped.
\<close>

section \<open>The first way to match\<close>

text \<open>\<open>q\<close> is the first position a run reaches, the one \<open>re\<close> takes when what follows matches from it.\<close>

definition first_run :: "bool \<Rightarrow> regex \<Rightarrow> position \<Rightarrow> position \<Rightarrow> bool" where
  "first_run ic r p q \<longleftrightarrow> (\<exists>qs. runs ic r p = q # qs)"

lemma first_str: "strip_prefix ic s bef rest = Some (b, t) \<Longrightarrow> first_run ic (RStr s) (bef, rest, caps) (b, t, caps)"
  by (simp add: first_run_def)

lemma first_seq: "first_run ic a p q \<Longrightarrow> first_run ic b q r \<Longrightarrow> first_run ic (RSeq a b) p r"
  by (auto simp: first_run_def)

lemma first_group: "first_run ic r p q \<Longrightarrow> first_run ic (RGroup n r) p (capture n p q)"
  by (auto simp: first_run_def)

lemma first_left: "first_run ic a p q \<Longrightarrow> first_run ic (RAlt a b) p q"
  by (auto simp: first_run_def)

lemma first_right: "runs ic a p = [] \<Longrightarrow> first_run ic b p q \<Longrightarrow> first_run ic (RAlt a b) p q"
  by (auto simp: first_run_def)

lemma first_lazy: "first_run ic (RStar False r) p p"
  by (simp add: first_run_def runs.simps(6) [of ic False] Let_def)

text \<open>A greedy star of single characters takes all it can.\<close>

lemma star_stop: "rest = [] \<or> in_set ic ks (hd rest) = neg \<Longrightarrow>
    runs ic (RStar True (RSet neg ks)) (bef, rest, caps) = [(bef, rest, caps)]"
  by (cases rest) (auto simp: runs.simps(6) [of ic True] one_char_def Let_def)

lemma star_step: "in_set ic ks c \<noteq> neg \<Longrightarrow>
    runs ic (RStar True (RSet neg ks)) (bef, c # cs, caps) = runs ic (RStar True (RSet neg ks)) (c # bef, cs, caps) @ [(bef, c # cs, caps)]"
  by (subst runs.simps(6)) (simp add: one_char_def rest_of_def Let_def)

lemma first_star:
  assumes "\<forall>c \<in> set ds. in_set ic ks c \<noteq> neg" and "rest = [] \<or> in_set ic ks (hd rest) = neg"
  shows "first_run ic (RStar True (RSet neg ks)) (bef, ds @ rest, caps) (rev ds @ bef, rest, caps)"
  using assms(1)
proof (induction ds arbitrary: bef)
  case Nil
  then show ?case using star_stop [OF assms(2)] by (simp add: first_run_def)
next
  case (Cons c cs)
  obtain qs where "runs ic (RStar True (RSet neg ks)) (c # bef, cs @ rest, caps) = (rev cs @ c # bef, rest, caps) # qs"
    using Cons by (auto simp: first_run_def)
  then show ?case using Cons.prems star_step [of ic ks c neg bef "cs @ rest" caps] by (simp add: first_run_def)
qed

lemma first_plus:
  assumes "ds \<noteq> []" and "\<forall>c \<in> set ds. in_set ic ks c \<noteq> neg" and "rest = [] \<or> in_set ic ks (hd rest) = neg"
  shows "first_run ic (rplus (RSet neg ks)) (bef, ds @ rest, caps) (rev ds @ bef, rest, caps)"
proof -
  obtain c cs where ds: "ds = c # cs" using assms(1) by (cases ds) auto
  have "first_run ic (RSet neg ks) (bef, ds @ rest, caps) (c # bef, cs @ rest, caps)"
    using assms(2) by (simp add: first_run_def ds one_char_def)
  moreover have "first_run ic (RStar True (RSet neg ks)) (c # bef, cs @ rest, caps) (rev cs @ c # bef, rest, caps)"
    by (rule first_star [OF _ assms(3)]) (use assms(2) ds in auto)
  ultimately show ?thesis unfolding rplus_def using first_seq ds by fastforce
qed

lemma first_opt_none: "runs ic r p = [] \<Longrightarrow> first_run ic (ropt r) p p"
  by (cases p) (simp add: ropt_def first_run_def)

section \<open>One line of scores\<close>

definition score_line :: "string \<Rightarrow> nat \<Rightarrow> string" where
  "score_line d n = nl @ py_title d @ '': '' @ str_nat n"

text \<open>What may follow a line: nothing, or a new line.\<close>

definition line_end :: "string \<Rightarrow> bool" where
  "line_end rest \<longleftrightarrow> rest = [] \<or> hd rest = CHR 0x0A"

lemma set_facts:
  "in_set True [CSpace] (CHR 0x0A)" "in_set True [CSpace] (CHR '' '')"
  "\<not> in_set True [CDigit] (CHR 0x0A)" "in_set True [CNot CSpace, CChar (CHR 0x0A)] (CHR 0x0A)"
  by code_simp+

lemma digit_is: "is_digit c \<Longrightarrow> in_set True [CDigit] c \<and> \<not> in_set True [CSpace] c"
proof -
  assume d: "is_digit c"
  then have c: "48 \<le> (of_char c :: nat)" "(of_char c :: nat) \<le> 57" by (simp_all add: is_digit_def)
  then have "lower_char c = c" "upper_char c = c" by (simp_all add: lower_char_def upper_char_def)
  moreover have "\<not> py_space c" using c by (simp add: py_space_def Let_def)
  ultimately show ?thesis using d by (simp add: in_set_def)
qed

lemma in_set_space_or_end: "line_end rest \<Longrightarrow> rest = [] \<or> in_set True [CDigit] (hd rest) = False"
  using set_facts(3) by (auto simp: line_end_def)

lemma out_of_100_none: "line_end rest \<Longrightarrow> first_run True OUT_OF_100 (bef, rest, caps) (bef, rest, caps)"
  unfolding OUT_OF_100_def
  by (rule first_opt_none, cases rest) (simp_all add: line_end_def one_char_def fold_char_def lower_char_def)

lemma after_name:
  assumes "line_end rest"
  shows "first_run True
     (rseq [ropt (rseq [rplus (RSet False [CSpace]), RStr ''score'']), RStar True (RSet False [CSpace]),
       RSet False [CChar (CHR '':''), CChar (CHR ''=''), CChar (CHR ''-'')], RStar True (RSet False [CSpace]),
       RGroup 2 (rplus (RSet False [CDigit])), BLANKS_IN_LINE, OUT_OF_100])
     (bef, '': '' @ str_nat n @ rest, caps) (rev (str_nat n) @ CHR '' '' # CHR '':'' # bef, rest, (2, str_nat n) # caps)"
proof -
  let ?b1 = "CHR '':'' # bef" and ?b2 = "CHR '' '' # CHR '':'' # bef" and ?b3 = "rev (str_nat n) @ CHR '' '' # CHR '':'' # bef"
  have digits: "\<forall>c \<in> set (str_nat n). is_digit c" by (rule str_nat_digits)
  have hd_digit: "is_digit (hd (str_nat n @ rest))" using digits by (cases "str_nat n") auto
  have colon: "\<not> in_set True [CSpace] (CHR '':'')" by code_simp
  have 1: "first_run True (ropt (rseq [rplus (RSet False [CSpace]), RStr ''score''])) (bef, '': '' @ str_nat n @ rest, caps)
      (bef, '': '' @ str_nat n @ rest, caps)"
    using colon by (intro first_opt_none) (simp add: rplus_def one_char_def)
  have 2: "first_run True (RStar True (RSet False [CSpace])) (bef, '': '' @ str_nat n @ rest, caps) (bef, '': '' @ str_nat n @ rest, caps)"
    using first_star [of "[]" True "[CSpace]" False "'': '' @ str_nat n @ rest" bef caps] colon by simp
  have 3: "first_run True (RSet False [CChar (CHR '':''), CChar (CHR ''=''), CChar (CHR ''-'')]) (bef, '': '' @ str_nat n @ rest, caps)
      (?b1, '' '' @ str_nat n @ rest, caps)"
    by (simp add: first_run_def one_char_def in_set_def)
  have 4: "first_run True (RStar True (RSet False [CSpace])) (?b1, '' '' @ str_nat n @ rest, caps) (?b2, str_nat n @ rest, caps)"
    using first_star [of "'' ''" True "[CSpace]" False "str_nat n @ rest" ?b1 caps] set_facts(2) digit_is [OF hd_digit] by simp
  have 5: "first_run True (rplus (RSet False [CDigit])) (?b2, str_nat n @ rest, caps) (?b3, rest, caps)"
    by (rule first_plus) (use digits digit_is in_set_space_or_end [OF assms] in auto)
  have 6: "first_run True (RGroup 2 (rplus (RSet False [CDigit]))) (?b2, str_nat n @ rest, caps) (?b3, rest, (2, str_nat n) # caps)"
    using first_group [OF 5, of 2] by (simp add: capture_def rest_of_def)
  have 7: "first_run True BLANKS_IN_LINE (?b3, rest, (2, str_nat n) # caps) (?b3, rest, (2, str_nat n) # caps)"
    unfolding BLANKS_IN_LINE_def
    using first_star [of "[]" True "[CNot CSpace, CChar (CHR 0x0A)]" True rest ?b3 "(2, str_nat n) # caps"] assms set_facts(4)
    by (auto simp: line_end_def)
  note 8 = out_of_100_none [OF assms, of ?b3 "(2, str_nat n) # caps"]
  from first_seq [OF 1 first_seq [OF 2 first_seq [OF 3 first_seq [OF 4 first_seq [OF 6 first_seq [OF 7 8]]]]]]
  show ?thesis by (simp only: rseq.simps)
qed

lemma strip_prefix_folded:
  "map (fold_char ic) w = map (fold_char ic) s \<Longrightarrow> strip_prefix ic s bef (w @ rest) = Some (rev w @ bef, rest)"
proof (induction s arbitrary: w bef)
  case (Cons c cs)
  then obtain d ds where "w = d # ds" by (cases w) auto
  with Cons show ?case by simp
qed simp

definition clash :: "string \<Rightarrow> string \<Rightarrow> bool" where
  "clash s w \<longleftrightarrow> list_ex (\<lambda>(a, b). fold_char True a \<noteq> fold_char True b) (zip s w)"

lemma strip_prefix_clash: "clash s w \<Longrightarrow> strip_prefix True s bef (w @ rest) = None"
proof (induction s arbitrary: w bef)
  case (Cons c cs)
  then show ?case by (cases w) (auto simp: clash_def)
qed (simp add: clash_def)

lemma runs_words: "runs ic (ralt (map RStr ss)) p = concat (map (\<lambda>s. runs ic (RStr s) p) ss)"
proof (induction ss)
  case (Cons s ss)
  then show ?case by (cases ss) simp_all
qed (cases p, auto simp: one_char_def in_set_def split: list.split)

lemma titles: "list_all (\<lambda>i. map (fold_char True) (py_title (DIMENSIONS ! i)) = map (fold_char True) (DIMENSIONS ! i)
    \<and> py_lower (py_title (DIMENSIONS ! i)) = DIMENSIONS ! i
    \<and> list_all (\<lambda>s. clash s (py_title (DIMENSIONS ! i))) (take i DIMENSIONS)) [0..<length DIMENSIONS]"
  by code_simp

lemma title_matches:
  assumes "d \<in> set DIMENSIONS"
  shows "first_run True (ralt (map RStr DIMENSIONS)) (bef, py_title d @ rest, caps) (rev (py_title d) @ bef, rest, caps)"
proof -
  obtain i where i: "i < length DIMENSIONS" "d = DIMENSIONS ! i" using assms by (metis in_set_conv_nth)
  have t: "map (fold_char True) (py_title d) = map (fold_char True) d" "\<forall>s \<in> set (take i DIMENSIONS). clash s (py_title d)"
    using titles i by (auto simp: list_all_iff)
  have split: "DIMENSIONS = take i DIMENSIONS @ d # drop (Suc i) DIMENSIONS" using i by (simp add: id_take_nth_drop)
  have "concat (map (\<lambda>s. runs True (RStr s) (bef, py_title d @ rest, caps)) (take i DIMENSIONS)) = []"
    using t(2) by (simp add: strip_prefix_clash)
  moreover have "runs True (RStr d) (bef, py_title d @ rest, caps) = [(rev (py_title d) @ bef, rest, caps)]"
    using strip_prefix_folded [OF t(1)] by simp
  ultimately show ?thesis
    unfolding first_run_def runs_words by (subst split) (simp del: runs.simps concat_eq_Nil_conv)
qed

lemma first_dim:
  assumes "d \<in> set DIMENSIONS" and "line_end rest" and "bef \<noteq> []"
  shows "first_run True DIM_PATTERN (bef, score_line d n @ rest, [])
    (rev (score_line d n) @ bef, rest, [(2, str_nat n), (1, py_title d)])"
proof -
  let ?b1 = "CHR 0x0A # bef" and ?t = "py_title d @ '': '' @ str_nat n @ rest"
  have 1: "first_run True (ralt [RStart, RStr [CHR 0x0A]]) (bef, score_line d n @ rest, []) (?b1, ?t, [])"
    unfolding ralt.simps by (rule first_right) (use assms(3) in \<open>simp_all add: here_if_def first_run_def score_line_def nl_def\<close>)
  have 2: "first_run True DIM_NAME (?b1, ?t, []) (rev (py_title d) @ ?b1, '': '' @ str_nat n @ rest, [(1, py_title d)])"
    unfolding DIM_NAME_def using first_group [OF title_matches [OF assms(1), of ?b1 "'': '' @ str_nat n @ rest" "[]"], of 1]
    by (simp add: capture_def rest_of_def)
  note 3 = after_name [OF assms(2), of "rev (py_title d) @ ?b1" n "[(1, py_title d)]"]
  from first_seq [OF 1 first_seq [OF first_lazy first_seq [OF 2 3]]] show ?thesis
    by (simp add: DIM_PATTERN_def score_line_def nl_def)
qed


section \<open>All lines\<close>

definition score_lines :: "(string \<times> nat) list \<Rightarrow> string" where
  "score_lines vs = concat (map (\<lambda>(d, n). score_line d n) vs)"

lemma lines_end: "line_end (score_lines vs)"
  by (cases vs) (auto simp: line_end_def score_lines_def score_line_def nl_def)

lemma seq_none: "runs ic a p = [] \<Longrightarrow> runs ic (RSeq a b) p = []"
  by simp

lemma lower_newline: "CHR 0x0A = lower_char c \<longleftrightarrow> c = CHR 0x0A"
proof
  assume "CHR 0x0A = lower_char c"
  then have "(of_char (lower_char c) :: nat) = of_char (CHR 0x0A)" by simp
  then have "(of_char c :: nat) = 10"
    by (cases "65 \<le> (of_char c :: nat) \<and> (of_char c :: nat) \<le> 90") (auto simp: lower_char_def Let_def)
  then have "char_of (of_char c :: nat) = (char_of (10 :: nat) :: char)" by simp
  moreover have "(char_of (10 :: nat) :: char) = CHR 0x0A" by code_simp
  ultimately show "c = CHR 0x0A" by simp
qed (simp add: lower_char_def)

lemma no_start: "c \<noteq> CHR 0x0A \<Longrightarrow> bef \<noteq> [] \<Longrightarrow> runs True DIM_PATTERN (bef, c # cs, []) = []"
  unfolding DIM_PATTERN_def rseq.simps
  by (rule seq_none) (simp add: here_if_def fold_char_def lower_newline lower_char_def [of "CHR 0x0A"])

lemma no_start_end: "bef \<noteq> [] \<Longrightarrow> runs True DIM_PATTERN (bef, [], []) = []"
  unfolding DIM_PATTERN_def rseq.simps by (rule seq_none) (simp add: here_if_def)

lemma search_skip:
  "\<forall>c \<in> set w. c \<noteq> CHR 0x0A \<Longrightarrow> bef \<noteq> [] \<Longrightarrow>
    search_from True DIM_PATTERN bef (w @ rest) = search_from True DIM_PATTERN (rev w @ bef) rest"
  by (induction w arbitrary: bef) (simp_all add: no_start)

lemma search_line:
  assumes "d \<in> set DIMENSIONS" and "line_end rest" and "bef \<noteq> []"
  shows "search_from True DIM_PATTERN bef (score_line d n @ rest) =
    Some (bef, rev (score_line d n) @ bef, rest, [(2, str_nat n), (1, py_title d)])"
proof -
  obtain c cs where c: "score_line d n @ rest = c # cs" by (auto simp: score_line_def nl_def)
  show ?thesis using first_dim [OF assms, of n] by (auto simp: c first_run_def)
qed

lemma lazy_within:
  assumes "m \<in> set (runs True (RStar False RAny) (bef, w @ rest, caps))" and "line_end rest"
  shows "\<exists>u v. w = u @ v \<and> m = (rev u @ bef, v @ rest, caps)"
  using assms(1)
proof (induction w arbitrary: bef)
  case Nil
  have "runs True (RStar False RAny) (bef, rest, caps) = [(bef, rest, caps)]"
    using assms(2) by (cases rest) (auto simp: runs.simps(6) [of True False] one_char_def line_end_def Let_def)
  then show ?case using Nil by simp
next
  case (Cons c cs)
  have "m = (bef, c # cs @ rest, caps) \<or> m \<in> set (runs True (RStar False RAny) (c # bef, cs @ rest, caps))"
    using Cons.prems unfolding runs.simps(6) [of True False RAny "(bef, (c # cs) @ rest, caps)"]
    by (auto simp: one_char_def Let_def split: if_splits)
  then show ?case
  proof
    assume "m = (bef, c # cs @ rest, caps)"
    then show ?case by (intro exI [of _ "[]"] exI [of _ "c # cs"]) simp
  next
    assume "m \<in> set (runs True (RStar False RAny) (c # bef, cs @ rest, caps))"
    from Cons.IH [OF this] obtain u v where "cs = u @ v" "m = (rev u @ c # bef, v @ rest, caps)" by blast
    then show ?case by (intro exI [of _ "c # u"] exI [of _ v]) simp
  qed
qed

text \<open>No dimension begins anywhere in the text.\<close>

definition mute :: "string \<Rightarrow> bool" where
  "mute h \<longleftrightarrow> list_all (\<lambda>i. list_all (\<lambda>s. clash s (drop i h)) DIMENSIONS) [0..<length h]"

lemma mute_suffix:
  assumes "mute h" and "h = u @ v" and "v \<noteq> []" and "d \<in> set DIMENSIONS"
  shows "clash d v"
proof -
  have "length u < length h" "v = drop (length u) h" using assms(2,3) by simp_all
  then show ?thesis using assms(1,4) by (simp add: mute_def list_all_iff)
qed

lemma clash_append: "clash s w \<Longrightarrow> clash s (w @ t)"
proof (induction s arbitrary: w)
  case (Cons a s)
  then show ?case by (cases w) (auto simp: clash_def)
qed (simp add: clash_def)

lemma muteI: "(\<And>u v d. h = u @ v \<Longrightarrow> v \<noteq> [] \<Longrightarrow> d \<in> set DIMENSIONS \<Longrightarrow> clash d v) \<Longrightarrow> mute h"
  unfolding mute_def list_all_iff by (metis append_take_drop_id atLeast_upt drop_eq_Nil2 lessThan_iff not_le)

lemma mute_append:
  assumes "mute a" and "mute b"
  shows "mute (a @ b)"
proof (rule muteI)
  fix u v d assume uv: "a @ b = u @ v" "v \<noteq> []" and d: "d \<in> set DIMENSIONS"
  from uv(1) obtain x where "u = a @ x \<and> b = x @ v \<or> a = u @ x \<and> v = x @ b" by (auto simp: append_eq_append_conv2)
  then show "clash d v"
  proof
    assume "u = a @ x \<and> b = x @ v"
    then show ?thesis using mute_suffix [OF assms(2) _ uv(2) d] by blast
  next
    assume x: "a = u @ x \<and> v = x @ b"
    show ?thesis
    proof (cases "x = []")
      case True
      then show ?thesis using x uv(2) mute_suffix [OF assms(2), of "[]" b d] d by simp
    next
      case False
      then show ?thesis using x mute_suffix [OF assms(1), of u x d] d clash_append by blast
    qed
  qed
qed

lemma mute_letters:
  assumes "\<And>c d. c \<in> set h \<Longrightarrow> d \<in> set DIMENSIONS \<Longrightarrow> fold_char True (hd d) \<noteq> fold_char True c"
  shows "mute h"
proof (rule muteI)
  fix u v d assume uv: "h = u @ v" "v \<noteq> []" and d: "d \<in> set DIMENSIONS"
  obtain c cs where c: "d = c # cs" using d by (auto simp: DIMENSIONS_def)
  obtain x xs where x: "v = x # xs" using uv(2) by (cases v) auto
  have "fold_char True c \<noteq> fold_char True x" using assms [of x d] d uv x c by simp
  then show "clash d v" by (simp add: clash_def c x)
qed

lemma no_name:
  assumes "mute h" and "h = u @ v" and "line_end rest"
  shows "runs True DIM_NAME (bef, v @ rest, caps) = []"
proof (cases "v = []")
  case True
  have "strip_prefix True d bef rest = None" if "d \<in> set DIMENSIONS" for d
    using that assms(3) by (cases rest) (auto simp: DIMENSIONS_def line_end_def fold_char_def lower_char_def)
  then show ?thesis by (simp add: DIM_NAME_def runs_words True)
next
  case False
  then have "\<forall>d \<in> set DIMENSIONS. clash d v" using mute_suffix [OF assms(1,2)] by blast
  then show ?thesis by (auto simp: DIM_NAME_def runs_words strip_prefix_clash)
qed

text \<open>A line on which no dimension begins has no match.\<close>

lemma no_match_in_line:
  assumes "mute h" and "line_end rest" and "runs True (ralt [RStart, RStr [CHR 0x0A]]) p = [(bef, h @ rest, [])]"
  shows "runs True DIM_PATTERN p = []"
proof -
  have none: "runs True (RSeq DIM_NAME r) m = []" if m: "m \<in> set (runs True (RStar False RAny) (bef, h @ rest, []))" for m r
  proof -
    obtain u v where uv: "h = u @ v" "m = (rev u @ bef, v @ rest, [])" using lazy_within [OF m assms(2)] by blast
    have "runs True DIM_NAME m = []" unfolding uv(2) by (rule no_name [OF assms(1) uv(1) assms(2)])
    then show ?thesis by (rule seq_none)
  qed
  show ?thesis
    unfolding DIM_PATTERN_def rseq.simps runs.simps(4) [of True "ralt [RStart, RStr [CHR 0x0A]]"] assms(3)
    using none by (auto simp: runs.simps(4) [of True "RStar False RAny"] simp del: runs.simps)
qed

lemma mute_heading: "mute ''SCORES:''"
  by code_simp

lemma no_start_heading: "line_end rest \<Longrightarrow> runs True DIM_PATTERN ([], ''SCORES:'' @ rest, []) = []"
  by (rule no_match_in_line [OF mute_heading, of rest _ "[]"])
    (simp_all add: here_if_def fold_char_def lower_newline lower_char_def [of "CHR 0x0A"])

text \<open>The names two of the prompts ask for that the parser does not know.\<close>

definition OTHER_NAMES :: "string list" where
  "OTHER_NAMES = [''specificity'', ''feasibility'']"

lemma other_titles: "list_all (\<lambda>d. mute (py_title d) \<and> CHR ''R'' \<notin> set (py_title d) \<and> CHR 0x0A \<notin> set (py_title d)) OTHER_NAMES"
  by code_simp

lemma other_not_known: "d \<in> set OTHER_NAMES \<Longrightarrow> d \<notin> set DIMENSIONS"
  by (auto simp: OTHER_NAMES_def DIMENSIONS_def)

lemma search_other:
  assumes "d \<in> set OTHER_NAMES" and "line_end rest" and "bef \<noteq> []"
  shows "search_from True DIM_PATTERN bef (score_line d n @ rest) = search_from True DIM_PATTERN (rev (score_line d n) @ bef) rest"
proof -
  let ?w = "py_title d @ '': '' @ str_nat n"
  have t: "mute (py_title d)" "CHR 0x0A \<notin> set (py_title d)" using other_titles assms(1) by (auto simp: list_all_iff)
  have num: "is_digit c \<Longrightarrow> fold_char True c = c" for c
  proof -
    assume "is_digit c"
    then have "48 \<le> (of_char c :: nat)" "(of_char c :: nat) \<le> 57" by (simp_all add: is_digit_def)
    then show "fold_char True c = c" by (simp add: fold_char_def lower_char_def)
  qed
  have hds: "list_all (\<lambda>d. \<not> is_digit (fold_char True (hd d)) \<and> fold_char True (hd d) \<noteq> CHR '':'' \<and> fold_char True (hd d) \<noteq> CHR '' '') DIMENSIONS"
    by (simp add: DIMENSIONS_def fold_char_def lower_char_def is_digit_def)
  have sep: "fold_char True (CHR '':'') = CHR '':''" "fold_char True (CHR '' '') = CHR '' ''" by code_simp+
  have "mute ('': '' @ str_nat n)"
  proof (rule mute_letters)
    fix c d assume c: "c \<in> set ('': '' @ str_nat n)" and d: "d \<in> set DIMENSIONS"
    have h: "\<not> is_digit (fold_char True (hd d)) \<and> fold_char True (hd d) \<noteq> CHR '':'' \<and> fold_char True (hd d) \<noteq> CHR '' ''"
      using hds d by (simp add: list_all_iff)
    from c consider "c = CHR '':''" | "c = CHR '' ''" | "is_digit c" using str_nat_digits [of n] by auto
    then show "fold_char True (hd d) \<noteq> fold_char True c"
    proof cases
      case 3
      then show ?thesis using h num by metis
    qed (use h sep in metis)+
  qed
  then have mute: "mute ?w" using mute_append t(1) by blast
  have "runs True (ralt [RStart, RStr [CHR 0x0A]]) (bef, CHR 0x0A # ?w @ rest, []) = [(CHR 0x0A # bef, ?w @ rest, [])]"
    using assms(3) by (simp add: here_if_def del: append_assoc)
  note none = no_match_in_line [OF mute assms(2) this]
  have "search_from True DIM_PATTERN bef (CHR 0x0A # ?w @ rest) = search_from True DIM_PATTERN (CHR 0x0A # bef) (?w @ rest)"
    by (simp only: search_from.simps none list.case)
  also have "\<dots> = search_from True DIM_PATTERN (rev ?w @ CHR 0x0A # bef) rest"
  proof (rule search_skip)
    have "CHR 0x0A \<notin> set (str_nat n)" using str_nat_digits [of n] by (auto simp: is_digit_def)
    then show "\<forall>c \<in> set ?w. c \<noteq> CHR 0x0A" using t(2) by auto
  qed simp
  finally show ?thesis by (simp add: score_line_def nl_def)
qed

lemma search_heading:
  assumes "line_end rest"
  shows "search_from True DIM_PATTERN [] (''SCORES:'' @ rest) = search_from True DIM_PATTERN (rev ''SCORES:'') rest"
proof -
  have "search_from True DIM_PATTERN [] (''SCORES:'' @ rest) = search_from True DIM_PATTERN ''S'' (''CORES:'' @ rest)"
    using no_start_heading [OF assms] by simp
  also have "\<dots> = search_from True DIM_PATTERN (rev ''CORES:'' @ ''S'') rest" by (rule search_skip) simp_all
  finally show ?thesis by simp
qed

lemma find_iter_Some:
  "search_from ic r bef rest = Some (b, q) \<Longrightarrow> length (rest_of q) < length rest \<Longrightarrow>
    find_iter ic r bef rest = (b, q) # find_iter ic r (fst q) (rest_of q)"
  by (subst find_iter.simps) simp

lemma find_iter_None: "search_from ic r bef rest = None \<Longrightarrow> find_iter ic r bef rest = []"
  by (subst find_iter.simps) simp

definition known_part :: "(string \<times> nat) list \<Rightarrow> (string \<times> nat) list" where
  "known_part vs = filter (\<lambda>(d, n). d \<in> set DIMENSIONS) vs"

abbreviation asked :: "(string \<times> nat) list \<Rightarrow> bool" where
  "asked vs \<equiv> set (map fst vs) \<subseteq> set DIMENSIONS \<union> set OTHER_NAMES"

text \<open>A search that is one of the lines \<open>vs\<close> meets the known ones among them.\<close>

lemma iter_lines:
  assumes "asked vs" and "bef \<noteq> []" and "search_from True DIM_PATTERN bef0 s = search_from True DIM_PATTERN bef (score_lines vs)"
    and "length (score_lines vs) \<le> length s"
  shows "map (\<lambda>(b, q). (group_text 1 q, group_text 2 q)) (find_iter True DIM_PATTERN bef0 s)
      = map (\<lambda>(d, n). (py_title d, str_nat n)) (known_part vs)"
  using assms
proof (induction vs arbitrary: bef0 bef s)
  case Nil
  then have "search_from True DIM_PATTERN bef0 s = None" by (simp add: score_lines_def no_start_end)
  then show ?case by (simp add: find_iter_None known_part_def)
next
  case (Cons v vs)
  obtain d n where v: "v = (d, n)" by (cases v)
  have lines: "score_lines (v # vs) = score_line d n @ score_lines vs" by (simp add: v score_lines_def)
  show ?case
  proof (cases "d \<in> set DIMENSIONS")
    case True
    let ?q = "(rev (score_line d n) @ bef, score_lines vs, [(2, str_nat n), (1, py_title d)])"
    have s: "search_from True DIM_PATTERN bef0 s = Some (bef, ?q)"
      using search_line [OF True lines_end Cons.prems(2)] Cons.prems(3) by (simp add: lines)
    have "length (rest_of ?q) < length s"
      using Cons.prems(4) by (simp add: lines score_line_def nl_def rest_of_def)
    from find_iter_Some [OF s this] show ?thesis
      using Cons.IH [of "rev (score_line d n) @ bef" "rev (score_line d n) @ bef" "score_lines vs"] Cons.prems(1,2) True
      by (simp add: rest_of_def group_text_def group_of_def v known_part_def)
  next
    case False
    then have "d \<in> set OTHER_NAMES" using Cons.prems(1) v by simp
    from search_other [OF this lines_end Cons.prems(2)]
    have "search_from True DIM_PATTERN bef0 s = search_from True DIM_PATTERN (rev (score_line d n) @ bef) (score_lines vs)"
      using Cons.prems(3) by (simp add: lines)
    moreover have "length (score_lines vs) \<le> length s" using Cons.prems(4) by (simp add: lines)
    moreover have "known_part (v # vs) = known_part vs" using False by (simp add: v known_part_def)
    ultimately show ?thesis using Cons.IH [of "rev (score_line d n) @ bef" bef0 s] Cons.prems(1,2) by simp
  qed
qed

lemma find_iter_heading:
  assumes "asked vs"
  shows "map (\<lambda>(b, q). (group_text 1 q, group_text 2 q)) (find_iter True DIM_PATTERN [] (''SCORES:'' @ score_lines vs))
    = map (\<lambda>(d, n). (py_title d, str_nat n)) (known_part vs)"
  by (rule iter_lines [OF assms _ search_heading [OF lines_end]]) simp_all

section \<open>The whole answer\<close>

text \<open>An answer in the format the prompts ask for.\<close>

definition critic_reply :: "(string \<times> nat) list \<Rightarrow> string \<Rightarrow> string" where
  "critic_reply vs reasons = ''SCORES:'' @ score_lines vs @ nl @ nl @ ''REASONING:'' @ nl @ reasons"

text \<open>The scores it states for the dimensions the parser knows, in place of the defaults.\<close>

definition stated_scores :: "(string \<times> nat) list \<Rightarrow> (string, int) py_dict" where
  "stated_scores vs = foldl (\<lambda>d (k, n). dict_set k (int n) d) default_scores (known_part vs)"

lemma titles_no_R: "list_all (\<lambda>d. CHR ''R'' \<notin> set (py_title d) \<and> py_lower (py_title d) = d) DIMENSIONS"
  by code_simp

lemma lines_no_R: "asked vs \<Longrightarrow> CHR ''R'' \<notin> set (score_lines vs)"
proof (induction vs)
  case (Cons v vs)
  obtain d n where v: "v = (d, n)" by (cases v)
  have "CHR ''R'' \<notin> set (str_nat n)" using str_nat_digits [of n] by (auto simp: is_digit_def)
  moreover have "CHR ''R'' \<notin> set (py_title d)" using titles_no_R other_titles Cons.prems v by (auto simp: list_all_iff)
  ultimately show ?case using Cons by (simp add: v score_lines_def score_line_def nl_def)
qed (simp add: score_lines_def)

lemma split_reply:
  assumes "asked vs"
  shows "split_first ''REASONING:'' (critic_reply vs reasons) = Some (''SCORES:'' @ score_lines vs @ nl @ nl, nl @ reasons)"
proof -
  have "CHR ''R'' \<notin> set (''ES:'' @ score_lines vs @ nl @ nl)"
    using lines_no_R [OF assms] by (simp add: nl_def)
  from split_first_skip [OF this, of "''EASONING:''" "nl @ reasons"] show ?thesis
    by (simp add: critic_reply_def)
qed

lemma lines_last: "vs \<noteq> [] \<Longrightarrow> score_lines vs \<noteq> [] \<and> \<not> py_space (List.last (score_lines vs))"
proof (induction vs)
  case (Cons v vs)
  obtain d n where v: "v = (d, n)" by (cases v)
  have "is_digit (List.last (str_nat n))" using str_nat_digits [of n] by simp
  then have "\<not> py_space (List.last (str_nat n))" by (auto simp: is_digit_def py_space_def Let_def)
  then show ?case
    using Cons by (cases "vs = []") (auto simp: v score_lines_def score_line_def nl_def)
qed simp

lemma section_of_reply:
  assumes "vs \<noteq> []" and "asked vs"
  shows "safe_split_before (critic_reply vs reasons) ''REASONING:'' d = ''SCORES:'' @ score_lines vs"
proof -
  have "py_strip ([] @ (''SCORES:'' @ score_lines vs) @ (nl @ nl)) = ''SCORES:'' @ score_lines vs"
    by (rule py_strip_pad) (use lines_last [OF assms(1)] in \<open>simp_all add: nl_def py_space_def\<close>)
  then show ?thesis by (simp add: safe_split_before_def split_reply [OF assms(2)] non_blank_or_def)
qed

lemma feedback_of_reply:
  assumes "asked vs" and "py_strip reasons \<noteq> []"
  shows "safe_split_after (critic_reply vs reasons) ''REASONING:'' d = py_strip reasons"
proof -
  have "py_strip (nl @ reasons) = py_strip reasons" by (simp add: py_strip_def py_lstrip_def nl_def py_space_def)
  then show ?thesis using assms(2) by (simp add: safe_split_after_def split_reply [OF assms(1)] non_blank_or_def)
qed

lemma values_of_reply:
  assumes "asked vs" and "\<forall>(d, n) \<in> set vs. n \<le> 100"
  shows "dim_values DIM_PATTERN (''SCORES:'' @ score_lines vs) = map (\<lambda>(d, n). (d, int n)) (known_part vs)"
proof -
  have "dim_values DIM_PATTERN (''SCORES:'' @ score_lines vs)
      = map (\<lambda>(t, ds). (py_lower t, clamp100 (int (digits_value ds)))) (map (\<lambda>(b, q). (group_text 1 q, group_text 2 q))
          (find_iter True DIM_PATTERN [] (''SCORES:'' @ score_lines vs)))"
    by (simp add: dim_values_def case_prod_unfold)
  also have "\<dots> = map (\<lambda>(t, ds). (py_lower t, clamp100 (int (digits_value ds)))) (map (\<lambda>(d, n). (py_title d, str_nat n)) (known_part vs))"
    by (simp only: find_iter_heading [OF assms(1)])
  also have "\<dots> = map (\<lambda>(d, n). (d, int n)) (known_part vs)"
    using assms(2) titles_no_R by (auto simp: list_all_iff clamp100_def known_part_def)
  finally show ?thesis .
qed

lemma known_default: "d \<in> set DIMENSIONS \<Longrightarrow> dict_has default_scores d"
  by (simp add: default_scores_def dict_has_def dict_get_def map_of_eq_None_iff image_image)

lemma put_known:
  "set (map fst vs) \<subseteq> set DIMENSIONS \<Longrightarrow> \<forall>d \<in> set DIMENSIONS. dict_has scores d \<Longrightarrow>
    put_scores vs scores = foldl (\<lambda>d (k, v). dict_set k v d) scores vs"
proof (induction vs arbitrary: scores)
  case (Cons v vs)
  obtain k x where v: "v = (k, x)" by (cases v)
  have "\<forall>d \<in> set DIMENSIONS. dict_has (dict_set k x scores) d" using Cons.prems(2) by (simp add: dict_has_def)
  then show ?case using Cons by (simp add: v put_scores_def)
qed (simp add: put_scores_def)

lemma extract_reply:
  assumes "asked vs" and "\<forall>(d, n) \<in> set vs. n \<le> 100"
  shows "known_part vs \<noteq> [] \<Longrightarrow> extract_from (''SCORES:'' @ score_lines vs) default_scores = (length (known_part vs), stated_scores vs)"
proof -
  assume ne: "known_part vs \<noteq> []"
  let ?vs = "map (\<lambda>(d, n). (d, int n)) (known_part vs)"
  have sub: "set (map fst ?vs) \<subseteq> set DIMENSIONS" by (auto simp: known_part_def)
  then have k: "known_values ?vs = ?vs" by (auto simp: known_values_def filter_id_conv)
  have "put_scores ?vs default_scores = foldl (\<lambda>d (k, v). dict_set k v d) default_scores ?vs"
    by (rule put_known [OF sub]) (use known_default in auto)
  also have "\<dots> = stated_scores vs" by (simp add: stated_scores_def foldl_map case_prod_unfold)
  finally show ?thesis using ne
    unfolding extract_from_def values_of_reply [OF assms(1,2)] k Let_def by simp
qed

section \<open>Every score is in range\<close>

definition scores_ok :: "(string, int) py_dict \<Rightarrow> bool" where
  "scores_ok d \<longleftrightarrow> dict_keys d = DIMENSIONS \<and> (\<forall>(k, v) \<in> set d. 0 \<le> v \<and> v \<le> 100)"

lemma default_scores_ok: "scores_ok default_scores"
  by (auto simp: scores_ok_def default_scores_def dict_keys_def comp_def)


lemma scores_ok_set:
  assumes "scores_ok d" and "k \<in> set DIMENSIONS" and "0 \<le> v" and "v \<le> 100"
  shows "scores_ok (dict_set k v d)"
proof -
  have "dict_keys (dict_set k v d) = DIMENSIONS"
    using assms(1,2) by (auto simp: scores_ok_def dict_keys_def dict_set_def update_keys)
  moreover have "\<forall>(j, x) \<in> set (dict_set k v d). 0 \<le> x \<and> x \<le> 100"
  proof
    fix p assume "p \<in> set (dict_set k v d)"
    then consider "p = (k, v)" | "p \<in> set d" using dict_set_member by metis
    then show "case p of (j, x) \<Rightarrow> 0 \<le> x \<and> x \<le> 100" using assms by cases (auto simp: scores_ok_def)
  qed
  ultimately show ?thesis by (simp add: scores_ok_def)
qed

lemma put_scores_ok:
  "scores_ok d \<Longrightarrow> \<forall>(k, v) \<in> set vs. 0 \<le> v \<and> v \<le> 100 \<Longrightarrow> scores_ok (put_scores vs d)"
proof (induction vs arbitrary: d)
  case (Cons p vs)
  obtain k v where p: "p = (k, v)" by (cases p)
  have "dict_has d k \<Longrightarrow> k \<in> set DIMENSIONS"
    using Cons.prems(1) py_dict.keys_get [of k d] by (simp add: scores_ok_def dict_has_def)
  then have "scores_ok (if dict_has d k then dict_set k v d else d)"
    using Cons.prems scores_ok_set by (auto simp: p)
  then show ?case using Cons by (simp add: p put_scores_def)
qed (simp add: put_scores_def)

lemma extract_ok: "scores_ok d \<Longrightarrow> scores_ok (snd (extract_from s d))"
proof -
  assume d: "scores_ok d"
  have "\<forall>(k, v) \<in> set (known_values (dim_values r s)). 0 \<le> v \<and> v \<le> 100" for r
    by (auto simp: known_values_def dim_values_def clamp100_def)
  then show ?thesis using put_scores_ok [OF d] by (simp add: extract_from_def Let_def)
qed

lemma line_score_range: "line_score l = Some v \<Longrightarrow> 0 \<le> v \<and> v \<le> 100"
  by (auto simp: line_score_def Let_def split: if_splits option.splits)

lemma first_line_range:
  assumes "first_line_score ev = Some v"
  shows "0 \<le> v \<and> v \<le> 100"
proof -
  have "v \<in> set (List.map_filter line_score (split_on (CHR 0x0A) ev))"
    using assms by (auto simp: first_line_score_def split: list.splits)
  then obtain l where "line_score l = Some v" by (auto simp: List.map_filter_def)
  then show ?thesis by (rule line_score_range)
qed

lemma last_per_100_range: "last_per_100 ev = Some v \<Longrightarrow> 0 \<le> v \<and> v \<le> 100"
  by (auto simp: last_per_100_def clamp100_def Let_def split: if_splits)

lemma parse_scores_ok: "scores_ok (fst (parse_critic_output ev))"
proof -
  let ?sec = "safe_split_before ev ''REASONING:'' []"
  let ?a = "if ?sec = [] then (0, default_scores) else extract_from ?sec default_scores"
  let ?b = "if fst ?a = 0 then extract_from ev (snd ?a) else ?a"
  have a: "scores_ok (snd ?a)" using default_scores_ok extract_ok by simp
  then have b: "scores_ok (snd ?b)" using extract_ok by simp
  have o: "''overall'' \<in> set DIMENSIONS" by (simp add: DIMENSIONS_def)
  have "fst (parse_critic_output ev) =
      (if fst ?b > 0 then snd ?b
       else (case first_line_score ev of Some v \<Rightarrow> dict_set ''overall'' v (snd ?b)
             | None \<Rightarrow> (case last_per_100 ev of Some v \<Rightarrow> dict_set ''overall'' v (snd ?b) | None \<Rightarrow> snd ?b)))"
    by (simp only: parse_critic_output_def Let_def case_prod_unfold fst_conv prod.collapse)
  then show ?thesis
    using b scores_ok_set [OF b o] first_line_range last_per_100_range by (auto split: option.splits)
qed

lemma scores_ok_overall:
  assumes "scores_ok d"
  shows "0 \<le> overall d \<and> overall d \<le> 100"
proof -
  have "''overall'' \<in> set (dict_keys d)" using assms by (simp add: scores_ok_def DIMENSIONS_def)
  then obtain v where v: "dict_get d ''overall'' = Some v" by (auto simp: py_dict.keys_get)
  then have "(''overall'', v) \<in> set d" by (simp add: dict_get_def map_of_SomeD)
  then show ?thesis using assms v by (auto simp: scores_ok_def overall_def dict_get_or_def)
qed


section \<open>Properties\<close>

text \<open>C11: An answer in the format of the prompts - lines with names and scores from 0 to 100 under \<open>SCORES:\<close>, then \<open>REASONING:\<close> and the
  reasons - is read back exactly, as far as its names are dimensions the parser knows: these get the scores it states, in place of
  the defaults, and the reasons are read whole. The lines for \<open>Specificity\<close> and \<open>Feasibility\<close>, which two prompts ask for, leave no
  trace.\<close>

theorem critic_reply_roundtrip:
  assumes "set (map fst vs) \<subseteq> set DIMENSIONS \<union> set OTHER_NAMES" and "\<forall>(d, n) \<in> set vs. n \<le> 100"
    and "set (map fst vs) \<inter> set DIMENSIONS \<noteq> {}" and "py_strip reasons \<noteq> []"
  shows "parse_critic_output (critic_reply vs reasons) = (stated_scores vs, py_strip reasons)"
proof -
  have known: "known_part vs \<noteq> []" using assms(3) by (auto simp: known_part_def filter_empty_conv)
  then have ne: "vs \<noteq> []" by (auto simp: known_part_def)
  show ?thesis using known
    by (simp add: parse_critic_output_def section_of_reply [OF ne assms(1)] feedback_of_reply [OF assms(1,4)]
        extract_reply [OF assms(1,2) known, simplified] Let_def)
qed

text \<open>C30: Whatever a critic answers, all seven dimensions get a score from 0 to 100, and with them the score of the output that the
  quality gate reads.\<close>

theorem every_answer_is_scored:
  "dict_keys (fst (parse_critic_output ev)) = DIMENSIONS
    \<and> list_all (\<lambda>(d, v). 0 \<le> v \<and> v \<le> 100) (fst (parse_critic_output ev))
    \<and> (case fst (evaluate_output m s rw) of
         Inl e \<Rightarrow> True
       | Inr s' \<Rightarrow> (\<exists>v. output_critic_score s' = Some v \<and> 0 \<le> v \<and> v \<le> 100))"
proof (intro conjI)
  show "dict_keys (fst (parse_critic_output ev)) = DIMENSIONS" "list_all (\<lambda>(d, v). 0 \<le> v \<and> v \<le> 100) (fst (parse_critic_output ev))"
    using parse_scores_ok [of ev] by (auto simp: scores_ok_def list_all_iff)
  show "case fst (evaluate_output m s rw) of
      Inl e \<Rightarrow> True | Inr s' \<Rightarrow> (\<exists>v. output_critic_score s' = Some v \<and> 0 \<le> v \<and> v \<le> 100)"
    using scores_ok_overall [OF parse_scores_ok]
    by (auto simp: evaluate_output_def and_then_def put_critique_def used_adapter_def Let_def case_prod_unfold split: sum.split)
qed

section \<open>Witnesses\<close>

theorem critic_reply_roundtrip_witness:
  "parse_critic_output (critic_reply [(''accuracy'', 90), (''specificity'', 10), (''overall'', 85)] ''Fine.'')
    = (stated_scores [(''accuracy'', 90), (''overall'', 85)], ''Fine.'')"
proof -
  have strip: "py_strip ''Fine.'' = ''Fine.''" by code_simp
  have s: "stated_scores [(''accuracy'', 90), (''specificity'', 10), (''overall'', 85)] = stated_scores [(''accuracy'', 90), (''overall'', 85)]"
    by (simp add: stated_scores_def known_part_def DIMENSIONS_def)
  have "set (map fst [(''accuracy'', 90 :: nat), (''specificity'', 10), (''overall'', 85)]) \<subseteq> set DIMENSIONS \<union> set OTHER_NAMES"
    by (simp add: DIMENSIONS_def OTHER_NAMES_def)
  from critic_reply_roundtrip [OF this, of "''Fine.''"] show ?thesis by (simp add: strip s DIMENSIONS_def)
qed

end
