(* ===== verification/File_Tools.thy ===== *)
theory File_Tools
  imports Tool_Registry
begin

text \<open>
  \<^verbatim>\<open>agents/tools/file_tools.py\<close>: the directories the tools may touch, the check of a path, reading with line ranges, writing.

  A path that \<open>resolve\<close> has made absolute is the list of its components; \<open>resolve\<close> itself, which follows symbolic links, is a
  part of the environment, like the codecs and the failures of the system: making directories may raise after some of them were
  made, opening or writing a file may raise, and reading one may. A file holds bytes, kept as a string.
\<close>

section \<open>The file system\<close>

type_synonym path = "string list"

datatype node = Directory | File string

type_synonym file_system = "path \<Rightarrow> node option"

record file_env =
  fe_resolve :: "string \<Rightarrow> py_exn + path"
  fe_show :: "path \<Rightarrow> string"
  fe_decode :: "string \<Rightarrow> string \<Rightarrow> py_exn + string"
  fe_encode :: "string \<Rightarrow> string \<Rightarrow> py_exn + string"
  fe_environ :: "(string, string) py_dict"
  fe_project :: path
  fe_line_cap :: int \<comment> \<open>\<open>DEFAULT_LINE_CAP\<close> as the module was loaded\<close>
  fe_mkdir_fails :: "path \<Rightarrow> (py_exn \<times> nat) option" \<comment> \<open>and how many components of the path were made before\<close>
  fe_write_fails :: "path \<Rightarrow> (py_exn \<times> string option) option" \<comment> \<open>and what an opened file was left with\<close>
  fe_read_fails :: "path \<Rightarrow> py_exn option"

text \<open>\<open>splitlines(keepends=True)\<close>\<close>

fun split_keep :: "string \<Rightarrow> string \<Rightarrow> string list" where
  "split_keep acc [] = (if acc = [] then [] else [rev acc])"
| "split_keep acc (c # cs) =
     (if c = CHR 0x0D \<and> cs \<noteq> [] \<and> hd cs = CHR 0x0A then
        (case cs of [] \<Rightarrow> [] | d # ds \<Rightarrow> rev (d # c # acc) # split_keep [] ds)
      else if line_break c then rev (c # acc) # split_keep [] cs
      else split_keep (c # acc) cs)"

section \<open>Allowed directories\<close>

definition MAX_FILE_READ_SIZE :: int where
  "MAX_FILE_READ_SIZE = 10 * 1024 * 1024"

definition MAX_FILE_WRITE_SIZE :: int where
  "MAX_FILE_WRITE_SIZE = 10 * 1024 * 1024"

text \<open>Read from the environment when the module is loaded; loading raises when it is no number.\<close>

definition DEFAULT_LINE_CAP :: "(string, string) py_dict \<Rightarrow> py_exn + int" where
  "DEFAULT_LINE_CAP environ = py_int (dict_get_or environ ''VIBE_FILE_READ_LINE_CAP'' ''200'')"

definition DEFAULT_ALLOWED_FILE_DIRS :: "path list" where
  "DEFAULT_ALLOWED_FILE_DIRS = [[''home'', ''user'', ''Vibe''], [''tmp'']]"

definition self_upgrade_on :: "(string, string) py_dict \<Rightarrow> bool" where
  "self_upgrade_on env =
     (case dict_get env ''VIBE_SELF_UPGRADE_ENABLED'' of
        None \<Rightarrow> False
      | Some v \<Rightarrow> py_lower v \<notin> {''false'', ''0'', ''no''})"

definition build_allowed_file_dirs :: "file_env \<Rightarrow> string list \<Rightarrow> py_exn + path list" where
  "build_allowed_file_dirs e configured =
     (if configured \<noteq> [] then res_map (fe_resolve e) configured
      else
        let env_dirs = dict_get_or (fe_environ e) ''VIBE_ALLOWED_FILE_DIRS'' [];
            dirs = (if env_dirs \<noteq> [] then res_map (fe_resolve e) (filter (\<lambda>d. py_strip d \<noteq> []) (split_on (CHR '':'') env_dirs))
              else Inr DEFAULT_ALLOWED_FILE_DIRS)
        in res_bind dirs (\<lambda>ds. Inr
             (if self_upgrade_on (fe_environ e) \<and> fe_project e \<notin> set ds then ds @ [fe_project e] else ds)))"

text \<open>\<open>is_relative_to\<close>: by components.\<close>

definition within_dirs :: "path list \<Rightarrow> path \<Rightarrow> bool" where
  "within_dirs dirs p \<longleftrightarrow> list_ex (\<lambda>d. take (length d) p = d) dirs"

definition validate_file_path :: "file_env \<Rightarrow> path list \<Rightarrow> string \<Rightarrow> string + path" where
  "validate_file_path e dirs file_path =
     (case fe_resolve e file_path of
        Inl x \<Rightarrow> Inl (''Invalid path: '' @ exn_text x)
      | Inr p \<Rightarrow>
          if within_dirs dirs p then Inr p
          else Inl (''Path outside allowed directories. Allowed: '' @ join_with '', '' (map (fe_show e) dirs)))"

section \<open>Reading\<close>

type_synonym read_history = "(path \<times> int \<times> int) list"

definition select_lines :: "int \<Rightarrow> int \<Rightarrow> string list \<Rightarrow> string list" where
  "select_lines start_line end_line ls =
     (let sl = max start_line 1; el = (if end_line > 0 then end_line else int (length ls))
      in drop (nat (sl - 1)) (take (nat el) ls))"

text \<open>\<open>all_lines[:cap]\<close>; a negative cap counts from the end.\<close>

definition first_lines :: "int \<Rightarrow> string list \<Rightarrow> string list" where
  "first_lines cap ls = take (nat (if cap < 0 then int (length ls) + cap else cap)) ls"

definition shown_lines :: "int \<Rightarrow> int \<Rightarrow> int \<Rightarrow> string list \<Rightarrow> string list \<times> bool" where
  "shown_lines cap start_line end_line ls =
     (if start_line > 0 \<or> end_line > 0 then (select_lines start_line end_line ls, False)
      else if int (length ls) > cap then (first_lines cap ls, True)
      else (ls, False))"

definition read_warnings :: "int \<Rightarrow> nat \<Rightarrow> bool \<Rightarrow> bool \<Rightarrow> string list" where
  "read_warnings cap count capped reread =
     (if capped then [''File has '' @ str_nat count @ '' lines but was capped at '' @ str_int cap
        @ ''. Use start_line/end_line for targeted reads.''] else [])
     @ (if reread then [''You already read this file (same range) in this session. Use the content already in context ''
        @ ''instead of re-reading.''] else [])"

text \<open>The sign before the warnings lies outside Latin-1 and is written \<open>!\<close>.\<close>

definition read_output :: "string list \<Rightarrow> string \<Rightarrow> string" where
  "read_output warnings content =
     (if warnings = [] then content else ''! '' @ join_with '' | '' warnings @ nl @ nl @ content)"

definition execute_read ::
    "file_env \<Rightarrow> path list \<Rightarrow> string \<Rightarrow> int \<Rightarrow> int \<Rightarrow> string \<Rightarrow> file_system \<Rightarrow> read_history \<Rightarrow> tool_result \<times> read_history" where
  "execute_read e dirs file_path start_line end_line enc fs hist =
     (case validate_file_path e dirs file_path of
        Inl msg \<Rightarrow> (failure (''Security: '' @ msg), hist)
      | Inr p \<Rightarrow>
          (case fs p of
             None \<Rightarrow> (failure (''File not found: '' @ file_path), hist)
           | Some Directory \<Rightarrow> (failure (''Path is not a file: '' @ file_path), hist)
           | Some (File bytes) \<Rightarrow>
               let n = int (length bytes) in
               if n > MAX_FILE_READ_SIZE then
                 (failure (''File too large: '' @ str_int n @ '' bytes (max: '' @ str_int MAX_FILE_READ_SIZE @ '' bytes)''), hist)
               else
                 (case (case fe_read_fails e p of Some x \<Rightarrow> Inl x | None \<Rightarrow> fe_decode e enc bytes) of
                    Inl x \<Rightarrow>
                      (failure (if exn_name x = ''UnicodeDecodeError''
                         then ''Encoding error: Cannot decode file as '' @ enc @ ''. File may be binary. Error: '' @ exn_text x
                         else ''Error reading file: '' @ exn_text x), hist)
                  | Inr raw \<Rightarrow>
                      let ls = split_keep [] (universal_newlines raw);
                          (chosen, capped) = shown_lines (fe_line_cap e) start_line end_line ls;
                          content = concat chosen;
                          key = (p, start_line, end_line);
                          reread = key \<in> set hist
                      in (success (read_output (read_warnings (fe_line_cap e) (length ls) capped reread) content)
                            [(''size'', JInt (int (length content))), (''lines'', JInt (int (length (splitlines content)))),
                             (''total_lines'', JInt (int (length ls))), (''file_size_bytes'', JInt n),
                             (''was_capped'', JBool capped), (''is_reread'', JBool reread)],
                          key # hist))))"

section \<open>Writing\<close>

text \<open>\<open>mkdir(parents=True, exist_ok=True)\<close>: every directory on the way; a file in the way raises, and the system may, with only
  the outer ones made.\<close>

definition ancestors :: "path \<Rightarrow> path list" where
  "ancestors p = map (\<lambda>k. take k p) [0..<length p + 1]"

definition is_a_file :: "file_system \<Rightarrow> path \<Rightarrow> bool" where
  "is_a_file fs a = (case fs a of Some (File b) \<Rightarrow> True | _ \<Rightarrow> False)"

definition os_error :: "file_env \<Rightarrow> string \<Rightarrow> path \<Rightarrow> string" where
  "os_error e what p = what @ '': '' @ [CHR 0x27] @ fe_show e p @ [CHR 0x27]"

definition with_dirs :: "path list \<Rightarrow> file_system \<Rightarrow> file_system" where
  "with_dirs ps fs = (\<lambda>q. if q \<in> set ps then Some Directory else fs q)"

definition make_dirs :: "file_env \<Rightarrow> path \<Rightarrow> file_system \<Rightarrow> (py_exn + unit) \<times> file_system" where
  "make_dirs e p fs =
     (if list_ex (is_a_file fs) (butlast (ancestors p))
      then (Inl (OtherError ''NotADirectoryError'' (os_error e ''[Errno 20] Not a directory'' p)), fs)
      else if is_a_file fs p then (Inl (FileExistsError (os_error e ''[Errno 17] File exists'' p)), fs)
      else case fe_mkdir_fails e p of
        Some (x, k) \<Rightarrow> (Inl x, with_dirs (take k (ancestors p)) fs)
      | None \<Rightarrow> (Inr (), with_dirs (ancestors p) fs))"

text \<open>What is told of an edit: the path relative to the workspace, the kind, the last fifty lines of the diff, the lines added
  and removed. The diff of two texts and \<open>relpath\<close> are parameters.\<close>

record file_edit =
  ed_path :: string
  ed_type :: string
  ed_diff :: string
  ed_added :: nat
  ed_removed :: nat

definition edit_event ::
    "(string list \<Rightarrow> string list \<Rightarrow> string list) \<Rightarrow> (string \<Rightarrow> string \<Rightarrow> string) \<Rightarrow> string \<Rightarrow> string \<Rightarrow> string \<Rightarrow> string \<Rightarrow> string
      \<Rightarrow> file_edit" where
  "edit_event diff relpath workspace file_path edit_type old new =
     (let ds = diff (split_keep [] old) (split_keep [] new);
          kept = (if length ds > 50 then drop (length ds - 50) ds else ds);
          starts = (\<lambda>p l. take (length p) l = p)
      in \<lparr>ed_path = (if workspace \<noteq> [] \<and> starts workspace file_path then relpath file_path workspace else file_path),
          ed_type = edit_type, ed_diff = join_with nl kept,
          ed_added = length (filter (\<lambda>l. starts ''+'' l \<and> \<not> starts ''+++'' l) ds),
          ed_removed = length (filter (\<lambda>l. starts ''-'' l \<and> \<not> starts ''---'' l) ds)\<rparr>)"

text \<open>What the file held, for the event: reading it may fail.\<close>

definition old_content :: "file_env \<Rightarrow> string \<Rightarrow> path \<Rightarrow> file_system \<Rightarrow> string \<times> string" where
  "old_content e enc p fs =
     (case (fs p, fe_read_fails e p) of
        (Some (File b), None) \<Rightarrow>
          (case fe_decode e enc b of Inr t \<Rightarrow> (universal_newlines t, ''modify'') | Inl x \<Rightarrow> ([], ''create''))
      | _ \<Rightarrow> ([], ''create''))"

text \<open>With the result come the old content and the kind of the edit for the event; \<open>None\<close> when nothing was written.\<close>

definition execute_write ::
    "file_env \<Rightarrow> path list \<Rightarrow> string \<Rightarrow> string \<Rightarrow> string \<Rightarrow> file_system \<Rightarrow> tool_result \<times> file_system \<times> (string \<times> string) option" where
  "execute_write e dirs file_path content enc fs =
     (case validate_file_path e dirs file_path of
        Inl msg \<Rightarrow> (failure (''Security: '' @ msg), fs, None)
      | Inr p \<Rightarrow>
          (case fe_encode e enc content of
             Inl x \<Rightarrow>
               (failure (if exn_name x = ''UnicodeEncodeError''
                  then ''Encoding error: Cannot encode content as '' @ enc @ ''. Error: '' @ exn_text x
                  else ''Error writing file: '' @ exn_text x), fs, None)
           | Inr bytes \<Rightarrow>
               let n = int (length bytes) in
               if n > MAX_FILE_WRITE_SIZE then
                 (failure (''Content too large: '' @ str_int n @ '' bytes (max: '' @ str_int MAX_FILE_WRITE_SIZE @ '' bytes)''), fs, None)
               else
                 (case make_dirs e (butlast p) fs of
                    (Inl x, fs1) \<Rightarrow> (failure (''Error writing file: '' @ exn_text x), fs1, None)
                  | (Inr _, fs1) \<Rightarrow>
                      if fs1 p = Some Directory then (failure (''Error writing file: '' @ os_error e ''[Errno 21] Is a directory'' p), fs1, None)
                      else
                        (case fe_write_fails e p of
                           Some (x, left) \<Rightarrow>
                             (failure (''Error writing file: '' @ exn_text x),
                              (case left of None \<Rightarrow> fs1 | Some b \<Rightarrow> fs1(p \<mapsto> File b)), None)
                         | None \<Rightarrow>
                             (success (''Wrote '' @ str_nat (length content) @ '' characters to '' @ file_path)
                                [(''bytes_written'', JInt n), (''characters'', JInt (int (length content))),
                                 (''lines'', JInt (int (length (splitlines content))))],
                              fs1(p \<mapsto> File bytes), Some (old_content e enc p fs1))))))"


section \<open>Lemmas\<close>

lemma validate_within: "validate_file_path e dirs s = Inr p \<Longrightarrow> within_dirs dirs p \<and> fe_resolve e s = Inr p"
  by (auto simp: validate_file_path_def split: sum.splits if_splits)

lemma make_dirs_files:
  assumes "make_dirs e d fs = (r, fs1)" and "fs1 q \<noteq> fs q"
  shows "q \<in> set (ancestors d) \<and> fs q = None \<and> fs1 q = Some Directory"
proof -
  have none: "\<forall>a \<in> set (butlast (ancestors d)). \<not> is_a_file fs a" "\<not> is_a_file fs d"
    using assms by (auto simp: make_dirs_def list_ex_iff split: if_splits)
  have "fs1 = with_dirs (ancestors d) fs \<or> (\<exists>k. fs1 = with_dirs (take k (ancestors d)) fs)"
    using assms by (auto simp: make_dirs_def split: if_splits option.splits)
  then have q: "q \<in> set (ancestors d)" "fs1 q = Some Directory"
    using assms(2) by (auto simp: with_dirs_def dest: in_set_takeD split: if_splits)
  have "ancestors d = butlast (ancestors d) @ [d]" by (simp add: ancestors_def)
  then have "set (ancestors d) = insert d (set (butlast (ancestors d)))"
    by (metis list.simps(15) rotate1.simps(2) set_rotate1)
  then have "\<not> is_a_file fs q" using q none by auto
  then have "fs q = None \<or> fs q = Some Directory" by (auto simp: is_a_file_def split: option.splits node.splits)
  then show ?thesis using q assms(2) by auto
qed

lemma ancestors_prefix:
  assumes "q \<in> set (ancestors d)"
  shows "\<exists>k. q = take k d"
proof -
  obtain k where "q = take k d" using assms unfolding ancestors_def by (metis (no_types, lifting) imageE set_map)
  then show ?thesis by blast
qed

lemma ancestors_of_parent:
  assumes "q \<in> set (ancestors (butlast p))"
  shows "\<exists>k. q = take k p"
proof -
  obtain k where "q = take k (butlast p)" using ancestors_prefix [OF assms] by blast
  then have "q = take (min k (length p - 1)) p" by (simp add: butlast_conv_take min.commute)
  then show ?thesis by blast
qed

text \<open>The ways a write can end.\<close>

lemma execute_write_cases:
  assumes "execute_write e dirs file_path content enc fs = (r, fs', ed)"
  obtains "fs' = fs" "\<not> tr_success r"
  | p x fs1 where "validate_file_path e dirs file_path = Inr p" "make_dirs e (butlast p) fs = (x, fs1)" "fs' = fs1" "\<not> tr_success r"
  | p x fs1 b where "validate_file_path e dirs file_path = Inr p" "make_dirs e (butlast p) fs = (x, fs1)"
      "fs' = fs1(p \<mapsto> File b)" "\<not> tr_success r"
  | p x fs1 bytes where "validate_file_path e dirs file_path = Inr p" "make_dirs e (butlast p) fs = (x, fs1)"
      "fe_encode e enc content = Inr bytes" "fs' = fs1(p \<mapsto> File bytes)" "tr_success r" "int (length bytes) \<le> MAX_FILE_WRITE_SIZE"
proof (cases "validate_file_path e dirs file_path")
  case (Inl msg)
  then show ?thesis using assms by (intro that(1)) (auto simp: execute_write_def failure_def)
next
  case p: (Inr p)
  show ?thesis
  proof (cases "fe_encode e enc content")
    case (Inl x)
    then show ?thesis using assms p by (intro that(1)) (auto simp: execute_write_def failure_def)
  next
    case b: (Inr bytes)
    obtain x fs1 where d: "make_dirs e (butlast p) fs = (x, fs1)" by fastforce
    consider "int (length bytes) > MAX_FILE_WRITE_SIZE"
      | "int (length bytes) \<le> MAX_FILE_WRITE_SIZE" "\<exists>z. x = Inl z \<or> fs1 p = Some Directory"
      | "int (length bytes) \<le> MAX_FILE_WRITE_SIZE" "x = Inr ()" "fs1 p \<noteq> Some Directory"
      by (cases x; cases "int (length bytes) > MAX_FILE_WRITE_SIZE"; cases "fs1 p = Some Directory") auto
    then show ?thesis
    proof cases
      case 1
      then show ?thesis using assms p b by (intro that(1)) (auto simp: execute_write_def failure_def Let_def)
    next
      case 2
      then have "fs' = fs1" "\<not> tr_success r"
        using assms p b d by (auto simp: execute_write_def failure_def Let_def split: sum.splits)
      then show ?thesis by (rule that(2) [OF p d])
    next
      case 3
      show ?thesis
      proof (cases "fe_write_fails e p")
        case None
        then have "fs' = fs1(p \<mapsto> File bytes)" "tr_success r"
          using assms p b d 3 by (auto simp: execute_write_def success_def Let_def)
        then show ?thesis by (rule that(4) [OF p d b _ _ 3(1)])
      next
        case (Some xb)
        obtain z left where "xb = (z, left)" by fastforce
        then have "\<not> tr_success r" "fs' = (case left of None \<Rightarrow> fs1 | Some c \<Rightarrow> fs1(p \<mapsto> File c))"
          using assms p b d 3 Some by (auto simp: execute_write_def failure_def Let_def)
        then show ?thesis using that(2) [OF p d] that(3) [OF p d] by (cases left) auto
      qed
    qed
  qed
qed

text \<open>Splitting into lines loses nothing.\<close>

lemma concat_split_keep: "concat (split_keep acc s) = rev acc @ s"
proof (induction acc s rule: split_keep.induct)
  case (2 acc c cs)
  show ?case
  proof (cases "c = CHR 0x0D \<and> cs \<noteq> [] \<and> hd cs = CHR 0x0A")
    case True
    then obtain d ds where "cs = d # ds" by (cases cs) auto
    then show ?thesis using True 2 by simp
  next
    case False
    then show ?thesis using 2 by (cases "line_break c") (auto split: if_splits)
  qed
qed simp

lemma select_lines_nth:
  assumes "1 \<le> i" and "i \<le> j" and "j \<le> int (length ls)"
  shows "select_lines i j ls = drop (nat i - 1) (take (nat j) ls) \<and> length (select_lines i j ls) = nat (j - i + 1)"
  using assms by (auto simp: select_lines_def Let_def nat_diff_distrib)

section \<open>Properties\<close>

text \<open>C8: A write changes nothing outside the allowed directories, except that it may create the directories that lead to them,
  whatever fails on the way.\<close>

theorem write_stays_within:
  assumes "execute_write e dirs file_path content enc fs = (r, fs', ed)" and "fs' q \<noteq> fs q"
  shows "within_dirs dirs q \<or> (fs q = None \<and> fs' q = Some Directory \<and> (\<exists>p k. within_dirs dirs p \<and> q = take k p))"
proof -
  have made: ?thesis
    if p: "validate_file_path e dirs file_path = Inr p" "make_dirs e (butlast p) fs = (x, fs1)" "q = p \<or> fs' q = fs1 q" for p x fs1
  proof (cases "q = p")
    case True
    then show ?thesis using validate_within [OF p(1)] by simp
  next
    case False
    then have "fs1 q \<noteq> fs q" "fs' q = fs1 q" using p(3) assms(2) by auto
    then have "q \<in> set (ancestors (butlast p)) \<and> fs q = None \<and> fs' q = Some Directory" using make_dirs_files [OF p(2)] by metis
    then show ?thesis using validate_within [OF p(1)] ancestors_of_parent by metis
  qed
  show ?thesis by (rule execute_write_cases [OF assms(1)]) (use assms(2) made in auto)
qed

text \<open>A read reports success only for a file within the allowed directories, and shows lines of that file only: those of the
  range, or all of them up to the cap.\<close>

theorem read_shows_allowed_lines:
  assumes "execute_read e dirs file_path i j enc fs hist = (r, hist')" and "tr_success r"
  shows "\<exists>p bytes raw. fe_resolve e file_path = Inr p \<and> within_dirs dirs p \<and> fs p = Some (File bytes) \<and> fe_decode e enc bytes = Inr raw
    \<and> int (length bytes) \<le> MAX_FILE_READ_SIZE
    \<and> (\<exists>warnings. tr_output r = read_output warnings
         (concat (fst (shown_lines (fe_line_cap e) i j (split_keep [] (universal_newlines raw))))))
    \<and> (i \<le> 0 \<and> j \<le> 0 \<and> 0 \<le> fe_line_cap e \<longrightarrow>
         int (length (fst (shown_lines (fe_line_cap e) i j (split_keep [] (universal_newlines raw))))) \<le> fe_line_cap e)"
proof -
  obtain p where p: "validate_file_path e dirs file_path = Inr p"
    using assms by (cases "validate_file_path e dirs file_path") (auto simp: execute_read_def failure_def)
  then obtain bytes where b: "fs p = Some (File bytes)"
    using assms by (auto simp: execute_read_def failure_def split: option.splits node.splits)
  have n: "int (length bytes) \<le> MAX_FILE_READ_SIZE"
    using assms p b by (auto simp: execute_read_def failure_def Let_def split: if_splits)
  have ok: "fe_read_fails e p = None" using assms p b n by (auto simp: execute_read_def failure_def Let_def split: option.splits)
  then obtain raw where raw: "fe_decode e enc bytes = Inr raw"
    using assms p b n by (cases "fe_decode e enc bytes") (auto simp: execute_read_def failure_def Let_def)
  let ?ls = "split_keep [] (universal_newlines raw)"
  have "tr_output r = read_output (read_warnings (fe_line_cap e) (length ?ls) (snd (shown_lines (fe_line_cap e) i j ?ls)) ((p, i, j) \<in> set hist))
      (concat (fst (shown_lines (fe_line_cap e) i j ?ls)))"
    using assms p b n raw ok by (simp add: execute_read_def success_def Let_def case_prod_unfold) (metis tool_result.simps(2))
  moreover have "i \<le> 0 \<and> j \<le> 0 \<and> 0 \<le> fe_line_cap e \<longrightarrow> int (length (fst (shown_lines (fe_line_cap e) i j ?ls))) \<le> fe_line_cap e"
    by (simp add: shown_lines_def first_lines_def)
  ultimately show ?thesis using validate_within [OF p] b n raw by blast
qed

text \<open>The two at a concrete system: a directory \<open>/tmp\<close>, plain bytes for text.\<close>

definition ex_env :: file_env where
  "ex_env = \<lparr>fe_resolve = (\<lambda>s. Inr (filter (\<lambda>c. c \<noteq> []) (split_on (CHR ''/'') s))), fe_show = (\<lambda>p. concat (map (\<lambda>c. CHR ''/'' # c) p)),
     fe_decode = (\<lambda>_ b. Inr b), fe_encode = (\<lambda>_ s. Inr s), fe_environ = [], fe_project = [],
     fe_line_cap = 200, fe_mkdir_fails = (\<lambda>_. None), fe_write_fails = (\<lambda>_. None), fe_read_fails = (\<lambda>_. None)\<rparr>"

lemma ex_env_cap: "DEFAULT_LINE_CAP (fe_environ ex_env) = Inr (fe_line_cap ex_env)"
  by (simp add: DEFAULT_LINE_CAP_def ex_env_def dict_get_or_def py_int_def) code_simp

definition ex_files :: file_system where
  "ex_files = (\<lambda>p. if p = [] \<or> p = [''tmp''] then Some Directory else None)"

lemma write_stays_within_witness:
  "execute_write ex_env [[''tmp'']] ''/tmp/a/b'' ''hi'' ''utf-8'' ex_files
     = (fst (execute_write ex_env [[''tmp'']] ''/tmp/a/b'' ''hi'' ''utf-8'' ex_files),
        fst (snd (execute_write ex_env [[''tmp'']] ''/tmp/a/b'' ''hi'' ''utf-8'' ex_files)), Some ([], ''create''))
   \<and> (within_dirs [[''tmp'']] [''tmp'', ''a'', ''b''] \<or> (ex_files [''tmp'', ''a'', ''b''] = None
        \<and> fst (snd (execute_write ex_env [[''tmp'']] ''/tmp/a/b'' ''hi'' ''utf-8'' ex_files)) [''tmp'', ''a'', ''b''] = Some Directory
        \<and> (\<exists>p k. within_dirs [[''tmp'']] p \<and> [''tmp'', ''a'', ''b''] = take k p)))"
proof -
  have run: "execute_write ex_env [[''tmp'']] ''/tmp/a/b'' ''hi'' ''utf-8'' ex_files
     = (fst (execute_write ex_env [[''tmp'']] ''/tmp/a/b'' ''hi'' ''utf-8'' ex_files),
        fst (snd (execute_write ex_env [[''tmp'']] ''/tmp/a/b'' ''hi'' ''utf-8'' ex_files)), Some ([], ''create''))"
    by (rule prod_eqI, simp, rule prod_eqI, simp) code_simp
  have "fst (snd (execute_write ex_env [[''tmp'']] ''/tmp/a/b'' ''hi'' ''utf-8'' ex_files)) [''tmp'', ''a'', ''b''] \<noteq> ex_files [''tmp'', ''a'', ''b'']"
    by code_simp
  then show ?thesis using run write_stays_within [OF run] by blast
qed

text \<open>C25: What was written is read back with its line ends turned into newlines, unchanged when it has no carriage return: after a
  write that succeeded, in a codec that decodes what it encodes, a read of the lines from the first on, or of the whole file when
  it has no more lines than the cap, succeeds and shows the text alone, unless the same read was made before or reading fails.\<close>

theorem write_read_roundtrip:
  assumes "execute_write e dirs file_path content enc fs = (r, fs', ed)" and "tr_success r"
    and "\<And>bytes. fe_encode e enc content = Inr bytes \<Longrightarrow> fe_decode e enc bytes = Inr content"
    and "i = 1 \<and> j \<le> 0 \<or> i \<le> 0 \<and> j \<le> 0 \<and> int (length (split_keep [] (universal_newlines content))) \<le> fe_line_cap e"
    and "\<And>p. fe_resolve e file_path = Inr p \<Longrightarrow> (p, i, j) \<notin> set hist \<and> fe_read_fails e p = None"
  shows "tr_success (fst (execute_read e dirs file_path i j enc fs' hist))
    \<and> tr_output (fst (execute_read e dirs file_path i j enc fs' hist)) = universal_newlines content
    \<and> (CHR 0x0D \<notin> set content \<longrightarrow> tr_output (fst (execute_read e dirs file_path i j enc fs' hist)) = content)"
proof (rule execute_write_cases [OF assms(1)])
  fix p x fs1 bytes
  assume p: "validate_file_path e dirs file_path = Inr p" and enc: "fe_encode e enc content = Inr bytes"
    and fs': "fs' = fs1(p \<mapsto> File bytes)" and n: "int (length bytes) \<le> MAX_FILE_WRITE_SIZE"
  let ?ls = "split_keep [] (universal_newlines content)"
  have "\<not> int (length bytes) > MAX_FILE_READ_SIZE" using n by (simp add: MAX_FILE_READ_SIZE_def MAX_FILE_WRITE_SIZE_def)
  moreover have "(p, i, j) \<notin> set hist" "fe_read_fails e p = None" using assms(5) validate_within [OF p] by blast+
  moreover have "shown_lines (fe_line_cap e) i j ?ls = (?ls, False)"
    using assms(4) by (auto simp: shown_lines_def select_lines_def)
  ultimately have "tr_success (fst (execute_read e dirs file_path i j enc fs' hist))
      \<and> tr_output (fst (execute_read e dirs file_path i j enc fs' hist)) = universal_newlines content"
    using assms(3) [OF enc]
    by (simp add: execute_read_def p fs' concat_split_keep success_def read_warnings_def read_output_def Let_def)
  then show ?thesis by (auto simp: universal_newlines_id)
qed (use assms(2) in auto)

definition ex_write :: "tool_result \<times> file_system \<times> (string \<times> string) option" where
  "ex_write = execute_write ex_env [[''tmp'']] ''/tmp/b'' ''hi'' ''utf-8'' ex_files"

lemma ex_write_ok: "tr_success (fst ex_write)" "fst (snd ex_write) [''tmp'', ''b''] = Some (File ''hi'')"
  by code_simp+

lemma write_read_roundtrip_witness:
  "tr_output (fst (execute_read ex_env [[''tmp'']] ''/tmp/b'' 0 0 ''utf-8'' (fst (snd ex_write)) [])) = ''hi''"
proof -
  have "execute_write ex_env [[''tmp'']] ''/tmp/b'' ''hi'' ''utf-8'' ex_files = (fst ex_write, fst (snd ex_write), snd (snd ex_write))"
    by (simp add: ex_write_def)
  moreover have "int (length (split_keep [] (universal_newlines ''hi''))) \<le> fe_line_cap ex_env" "CHR 0x0D \<notin> set ''hi''" by code_simp+
  ultimately show ?thesis
    using write_read_roundtrip [of ex_env "[[''tmp'']]" "''/tmp/b''" "''hi''" "''utf-8''" ex_files "fst ex_write" "fst (snd ex_write)"
        "snd (snd ex_write)" 0 0 "[]"] ex_write_ok(1)
    by (simp add: ex_env_def)
qed

lemma read_shows_allowed_lines_witness:
  "\<exists>p bytes raw. fe_resolve ex_env ''/tmp/b'' = Inr p \<and> within_dirs [[''tmp'']] p \<and> fst (snd ex_write) p = Some (File bytes)
    \<and> fe_decode ex_env ''utf-8'' bytes = Inr raw
    \<and> int (length bytes) \<le> MAX_FILE_READ_SIZE
    \<and> (\<exists>warnings. tr_output (fst (execute_read ex_env [[''tmp'']] ''/tmp/b'' 0 0 ''utf-8'' (fst (snd ex_write)) [])) = read_output warnings
         (concat (fst (shown_lines (fe_line_cap ex_env) 0 0 (split_keep [] (universal_newlines raw))))))
    \<and> ((0::int) \<le> 0 \<and> (0::int) \<le> 0 \<and> 0 \<le> fe_line_cap ex_env \<longrightarrow>
         int (length (fst (shown_lines (fe_line_cap ex_env) 0 0 (split_keep [] (universal_newlines raw))))) \<le> fe_line_cap ex_env)"
proof -
  let ?x = "execute_read ex_env [[''tmp'']] ''/tmp/b'' 0 0 ''utf-8'' (fst (snd ex_write)) []"
  have "?x = (fst ?x, snd ?x)" "tr_success (fst ?x)" by (simp, code_simp)
  then show ?thesis using read_shows_allowed_lines [of ex_env "[[''tmp'']]" "''/tmp/b''" 0 0 "''utf-8''" "fst (snd ex_write)" "[]"] by blast
qed

end
