(* ===== verification/Skill_Embeddings.thy ===== *)
theory Skill_Embeddings
  imports Vector_Search
begin

text \<open>
  \<^verbatim>\<open>agents/skill_embeddings.py\<close>: the sidecar file with one vector per skill, loaded on first use, written after every
  change, dropped when the model of the embedder changes.

  The embedder itself, the digest and the clock are parameters; so is whether the file can be written.
\<close>

section \<open>State\<close>

record embedder =
  em_model :: string
  em_embed :: "string \<Rightarrow> real list option"

record embed_entry =
  ee_vec :: "real list"
  ee_hash :: string
  ee_updated :: string

record embed_file =
  ef_model :: "string option"
  ef_entries :: "(string, embed_entry) py_dict"

datatype sidecar = No_File | Unreadable | Stored embed_file

text \<open>\<open>ec_data\<close> is \<open>None\<close> until the file is loaded; \<open>ec_checked\<close> tells whether the shared embedder was asked for.\<close>

record embed_cache =
  ec_embedder :: "embedder option"
  ec_checked :: bool
  ec_data :: "embed_file option"
  ec_disk :: sidecar

text \<open>\<open>eb_shared\<close>: the shared embedder when there is one and it is available.\<close>

record embed_env =
  eb_shared :: "embedder option"
  eb_hash :: "string \<Rightarrow> string"
  eb_now :: string
  eb_can_save :: bool

section \<open>Operations\<close>

definition compose_text :: "string \<Rightarrow> string list \<Rightarrow> string" where
  "compose_text description task_types = py_strip (description @ nl @ join_with '' '' task_types)"

definition hash_text :: "embed_env \<Rightarrow> string \<Rightarrow> string" where
  "hash_text env t = ''sha256:'' @ eb_hash env t"

definition new_embed_cache :: "embedder option \<Rightarrow> sidecar \<Rightarrow> embed_cache" where
  "new_embed_cache em disk = \<lparr>ec_embedder = em, ec_checked = (em \<noteq> None), ec_data = None, ec_disk = disk\<rparr>"

definition get_embedder :: "embed_env \<Rightarrow> embed_cache \<Rightarrow> embedder option \<times> embed_cache" where
  "get_embedder env c =
     (if ec_checked c then (ec_embedder c, c)
      else (eb_shared env, c\<lparr>ec_checked := True, ec_embedder := eb_shared env\<rparr>))"

definition empty_file :: embed_file where
  "empty_file = \<lparr>ef_model = Some [], ef_entries = []\<rparr>"

definition loaded :: "embed_cache \<Rightarrow> embed_file" where
  "loaded c =
     (case ec_data c of
        Some f \<Rightarrow> f
      | None \<Rightarrow> (case ec_disk c of Stored f \<Rightarrow> f | _ \<Rightarrow> empty_file))"

definition load_cache :: "embed_cache \<Rightarrow> embed_file \<times> embed_cache" where
  "load_cache c = (loaded c, c\<lparr>ec_data := Some (loaded c)\<rparr>)"

definition save_cache :: "embed_env \<Rightarrow> embed_cache \<Rightarrow> embed_cache" where
  "save_cache env c =
     (case ec_data c of
        None \<Rightarrow> c
      | Some f \<Rightarrow> if eb_can_save env then c\<lparr>ec_disk := Stored f\<rparr> else c)"

definition current_model :: "embed_cache \<Rightarrow> string \<times> embed_cache" where
  "current_model c =
     (case (if ec_checked c then ec_embedder c else None) of
        Some em \<Rightarrow> (em_model em, c)
      | None \<Rightarrow> (let (f, c) = load_cache c in (case ef_model f of Some m \<Rightarrow> m | None \<Rightarrow> ''unknown'', c)))"

definition invalidate_if_model_changed :: "embed_env \<Rightarrow> embed_cache \<Rightarrow> embed_cache" where
  "invalidate_if_model_changed env c =
     (let (f, c) = load_cache c;
          (active, c) = current_model c;
          cached = (case ef_model f of Some m \<Rightarrow> m | None \<Rightarrow> [])
      in if cached \<noteq> [] \<and> active \<noteq> [] \<and> cached \<noteq> active
         then save_cache env (c\<lparr>ec_data := Some \<lparr>ef_model = Some active, ef_entries = []\<rparr>\<rparr>)
         else c)"

text \<open>The vector the file has for this very text.\<close>

definition fresh_vec :: "embed_file \<Rightarrow> string \<Rightarrow> string \<Rightarrow> real list option" where
  "fresh_vec f name h =
     (case dict_get (ef_entries f) name of
        Some e \<Rightarrow> if ee_hash e = h \<and> ee_vec e \<noteq> [] then Some (ee_vec e) else None
      | None \<Rightarrow> None)"

definition embed_skill :: "embed_env \<Rightarrow> string \<Rightarrow> string \<Rightarrow> string list \<Rightarrow> embed_cache \<Rightarrow> real list option \<times> embed_cache" where
  "embed_skill env name description task_types c =
     (case get_embedder env c of
        (None, c) \<Rightarrow> (None, c)
      | (Some em, c) \<Rightarrow>
          let c = invalidate_if_model_changed env c;
              (f, c) = load_cache c;
              t = compose_text description task_types;
              h = hash_text env t
          in (case fresh_vec f name h of
                Some v \<Rightarrow> (Some v, c)
              | None \<Rightarrow>
                  (case em_embed em t of
                     None \<Rightarrow> (None, c)
                   | Some v \<Rightarrow>
                       let e = \<lparr>ee_vec = v, ee_hash = h, ee_updated = eb_now env\<rparr>;
                           f = \<lparr>ef_model = Some (em_model em), ef_entries = dict_set name e (ef_entries f)\<rparr>
                       in (Some v, save_cache env (c\<lparr>ec_data := Some f\<rparr>)))))"

definition embed_query :: "embed_env \<Rightarrow> string \<Rightarrow> embed_cache \<Rightarrow> real list option \<times> embed_cache" where
  "embed_query env requirement c =
     (case get_embedder env c of
        (None, c) \<Rightarrow> (None, c)
      | (Some em, c) \<Rightarrow> (if requirement = [] then None else em_embed em requirement, c))"

definition get_cached_vec :: "string \<Rightarrow> embed_cache \<Rightarrow> real list option \<times> embed_cache" where
  "get_cached_vec name c =
     (let (f, c) = load_cache c
      in (case dict_get (ef_entries f) name of
            Some e \<Rightarrow> if ee_vec e \<noteq> [] then Some (ee_vec e) else None
          | None \<Rightarrow> None, c))"

definition clamp_similarity :: "real \<Rightarrow> real" where
  "clamp_similarity x = (if x < 0 then 0 else if x > 1 then 1 else x)"

definition semantic_score :: "real list option \<Rightarrow> string \<Rightarrow> embed_cache \<Rightarrow> real \<times> embed_cache" where
  "semantic_score query name c =
     (case query of
        None \<Rightarrow> (0, c)
      | Some q \<Rightarrow>
          (case get_cached_vec name c of
             (None, c) \<Rightarrow> (0, c)
           | (Some v, c) \<Rightarrow> (clamp_similarity (cosine_similarity q v), c)))"

definition invalidate :: "embed_env \<Rightarrow> string \<Rightarrow> embed_cache \<Rightarrow> embed_cache" where
  "invalidate env name c =
     (let (f, c) = load_cache c
      in if dict_has (ef_entries f) name
         then save_cache env (c\<lparr>ec_data := Some (f\<lparr>ef_entries := dict_del name (ef_entries f)\<rparr>)\<rparr>)
         else c)"

section \<open>Lemmas\<close>

lemma loaded_data [simp]: "loaded (c\<lparr>ec_data := Some f\<rparr>) = f"
  by (simp add: loaded_def)

lemma save_cache_simps [simp]:
  "ec_data (save_cache env c) = ec_data c" "ec_embedder (save_cache env c) = ec_embedder c" "ec_checked (save_cache env c) = ec_checked c"
  by (simp_all add: save_cache_def split: option.splits)

lemma loaded_save_cache [simp]: "ec_data c = Some f \<Longrightarrow> loaded (save_cache env c) = f"
  by (simp add: loaded_def)

lemma semantic_score_bounds: "0 \<le> fst (semantic_score q name c) \<and> fst (semantic_score q name c) \<le> 1"
  by (auto simp: semantic_score_def clamp_similarity_def split: option.splits prod.splits)

text \<open>A file whose entries were all made by the embedder whose model it names.\<close>

definition made_by :: "embed_env \<Rightarrow> embedder \<Rightarrow> embed_file \<Rightarrow> bool" where
  "made_by env em f \<longleftrightarrow>
     (\<forall>(n, e) \<in> set (ef_entries f). \<exists>t. ee_hash e = hash_text env t \<and> em_embed em t = Some (ee_vec e))"

definition tagged :: "embed_file \<Rightarrow> bool" where
  "tagged f \<longleftrightarrow> ef_entries f \<noteq> [] \<longrightarrow> ef_model f \<noteq> None \<and> ef_model f \<noteq> Some []"

text \<open>Invariant: the file on disk and in memory names its model, and the entries under the embedder's own model are its own.\<close>

definition cache_ok :: "embed_env \<Rightarrow> embedder \<Rightarrow> embed_cache \<Rightarrow> bool" where
  "cache_ok env em c \<longleftrightarrow> tagged (loaded c) \<and> (ef_model (loaded c) = Some (em_model em) \<longrightarrow> made_by env em (loaded c))"

lemma invalidated:
  assumes "cache_ok env em c" and "ec_checked c" "ec_embedder c = Some em" and "em_model em \<noteq> []"
  shows "made_by env em (loaded (invalidate_if_model_changed env c)) \<and> cache_ok env em (invalidate_if_model_changed env c)
    \<and> ec_checked (invalidate_if_model_changed env c) \<and> ec_embedder (invalidate_if_model_changed env c) = Some em"
  using assms
  by (auto simp: invalidate_if_model_changed_def load_cache_def current_model_def cache_ok_def tagged_def made_by_def
      split: option.splits)

lemma made_by_set:
  assumes "made_by env em f" and "em_embed em t = Some v"
  shows "made_by env em \<lparr>ef_model = m, ef_entries = dict_set n \<lparr>ee_vec = v, ee_hash = hash_text env t, ee_updated = u\<rparr> (ef_entries f)\<rparr>"
  using assms by (auto simp: made_by_def dest!: dict_set_member)

lemma dict_set_not_Nil [simp]: "dict_set k v d \<noteq> []"
  by (cases d) (auto simp: dict_set_def)

section \<open>Properties\<close>

lemma embed_skill_ok:
  assumes "cache_ok env em c" and "ec_checked c" "ec_embedder c = Some em" and "em_model em \<noteq> []" and "inj (eb_hash env)"
  shows "fst (embed_skill env name d ts c) = em_embed em (compose_text d ts) \<and> cache_ok env em (snd (embed_skill env name d ts c))"
proof -
  let ?c = "invalidate_if_model_changed env c" and ?t = "compose_text d ts"
  have c: "made_by env em (loaded ?c)" "cache_ok env em ?c" using invalidated [OF assms(1-4)] by auto
  show ?thesis
  proof (cases "fresh_vec (loaded ?c) name (hash_text env ?t)")
    case (Some v)
    then obtain e where e: "(name, e) \<in> set (ef_entries (loaded ?c))" "ee_hash e = hash_text env ?t" "v = ee_vec e"
      by (auto simp: fresh_vec_def dict_get_def dest: map_of_SomeD split: option.splits if_splits)
    then obtain t where "ee_hash e = hash_text env t" "em_embed em t = Some v" using c(1) unfolding made_by_def by blast
    then have "em_embed em ?t = Some v" using e(2) assms(5) by (auto simp: hash_text_def inj_def)
    then show ?thesis using Some c(2) assms(2,3) by (simp add: embed_skill_def get_embedder_def load_cache_def Let_def cache_ok_def)
  next
    case None
    then show ?thesis
      using c assms(2-4)
      by (auto simp: embed_skill_def get_embedder_def load_cache_def Let_def cache_ok_def tagged_def intro: made_by_set split: option.splits)
  qed
qed

text \<open>The cache never serves a stale vector: as long as the digest tells texts apart and the file holds, under the embedder's own
  model, only what it computed, a request returns what embedding the current description now would return, whatever was stored
  before under another text or model; and the file stays that way.\<close>

theorem cached_embedding_is_current:
  assumes "cache_ok env em c" and "ec_checked c" and "ec_embedder c = Some em" and "em_model em \<noteq> []" and "inj (eb_hash env)"
  shows "fst (embed_skill env name d ts c) = em_embed em (compose_text d ts) \<and> cache_ok env em (snd (embed_skill env name d ts c))"
  by (rule embed_skill_ok [OF assms])

definition sample_embedder :: embedder where
  "sample_embedder = \<lparr>em_model = ''m2'', em_embed = (\<lambda>t. Some [real (length t)])\<rparr>"

definition sample_embed_env :: embed_env where
  "sample_embed_env = \<lparr>eb_shared = None, eb_hash = (\<lambda>t. t), eb_now = ''2026'', eb_can_save = True\<rparr>"

text \<open>A file that another model wrote.\<close>

definition sample_sidecar :: sidecar where
  "sample_sidecar = Stored \<lparr>ef_model = Some ''m1'', ef_entries = [(''fmt'', \<lparr>ee_vec = [9], ee_hash = ''sha256:tabs'', ee_updated = []\<rparr>)]\<rparr>"

theorem cached_embedding_is_current_witness:
  "fst (embed_skill sample_embed_env ''fmt'' ''tabs'' [] (new_embed_cache (Some sample_embedder) sample_sidecar)) = Some [4]"
proof -
  let ?c = "new_embed_cache (Some sample_embedder) sample_sidecar"
  have "loaded ?c = \<lparr>ef_model = Some ''m1'', ef_entries = [(''fmt'', \<lparr>ee_vec = [9], ee_hash = ''sha256:tabs'', ee_updated = []\<rparr>)]\<rparr>"
    by (simp add: new_embed_cache_def sample_sidecar_def loaded_def)
  then have "cache_ok sample_embed_env sample_embedder ?c" by (simp add: cache_ok_def tagged_def sample_embedder_def)
  moreover have "ec_checked ?c" "ec_embedder ?c = Some sample_embedder" by (simp_all add: new_embed_cache_def)
  moreover have "em_model sample_embedder \<noteq> []" "inj (eb_hash sample_embed_env)"
    by (simp_all add: sample_embedder_def sample_embed_env_def)
  ultimately have "fst (embed_skill sample_embed_env ''fmt'' ''tabs'' [] ?c) = em_embed sample_embedder (compose_text ''tabs'' [])"
    using cached_embedding_is_current by blast
  moreover have "compose_text ''tabs'' [] = ''tabs''" by code_simp
  ultimately show ?thesis by (simp add: sample_embedder_def)
qed

end
