(* ===== verification/Skill_Frontmatter.thy ===== *)
theory Skill_Frontmatter
  imports Skill_Registry
begin

text \<open>
  \<^verbatim>\<open>agents/skill_registry_utils.py\<close>, \<^verbatim>\<open>agents/skill_registry_workspace.py\<close> and what \<^verbatim>\<open>agents/skill_registry.py\<close> does at
  start: reading front matter, guessing task types from names, the skills of a project, hashes and task types for skills that
  lack them.
\<close>

section \<open>Front matter\<close>

record fm_scan =
  fs_pairs :: "(string, string) py_dict"
  fs_key :: "string option"
  fs_lines :: "string list"

definition block_indicators :: "string set" where
  "block_indicators = {''>-'', ''>'', ''|'', ''|-''}"

definition close_key :: "fm_scan \<Rightarrow> (string, string) py_dict" where
  "close_key s =
     (case fs_key s of
        None \<Rightarrow> fs_pairs s
      | Some k \<Rightarrow> dict_set k (py_strip (join_with '' '' (fs_lines s))) (fs_pairs s))"

definition scan_fm_line :: "fm_scan \<Rightarrow> string \<Rightarrow> fm_scan" where
  "scan_fm_line s line =
     (let stripped = py_strip line in
      if CHR '':'' \<in> set line \<and> \<not> py_space (hd line) then
        (let (k, v) = py_partition (CHR '':'') stripped; v = py_strip v
         in \<lparr>fs_pairs = close_key s, fs_key = Some (py_strip k), fs_lines = (if v \<in> block_indicators then [] else [v])\<rparr>)
      else if fs_key s \<noteq> None \<and> line \<noteq> [] \<and> py_space (hd line) \<and> stripped \<noteq> [] then s\<lparr>fs_lines := fs_lines s @ [stripped]\<rparr>
      else s)"

definition parse_frontmatter :: "string \<Rightarrow> (string, string) py_dict" where
  "parse_frontmatter content =
     (if take 3 content \<noteq> ''---'' then []
      else case split_first ''---'' (drop 3 content) of
        None \<Rightarrow> []
      | Some (body, rest) \<Rightarrow>
          close_key (foldl scan_fm_line \<lparr>fs_pairs = [], fs_key = None, fs_lines = []\<rparr> (split_on (CHR 0x0A) (py_strip body))))"

definition type_keywords :: "(string, string list) py_dict" where
  "type_keywords =
    [(''test_generation'', [''testing'', ''playwright'', ''webapp testing'', ''test driven'', ''tdd'']),
     (''security_audit'', [''security'', ''audit'', ''pentest'', ''vulnerability'', ''exploit'', ''recon'']),
     (''documentation'', [''doc coauthoring'', ''writing'', ''internal comms'']),
     (''code_generation'', [''code'', ''builder'', ''creator'']),
     (''code_review'', [''code review'', ''receiving code review'', ''requesting code review'']),
     (''debugging'', [''debugging'', ''systematic debugging'']),
     (''planning'', [''planning'', ''brainstorming'', ''writing plans'', ''executing plans'']),
     (''frontend_development'', [''frontend'', ''design'', ''canvas'', ''theme factory'', ''web artifact'', ''art'', ''brand'', ''react'', ''web design'']),
     (''data_processing'', [''xlsx'', ''spreadsheet'', ''excel'', ''csv'']),
     (''pdf_processing'', [''pdf'']),
     (''presentation'', [''pptx'', ''slides'', ''presentation'']),
     (''document_processing'', [''docx'']),
     (''mcp_development'', [''mcp'']),
     (''messaging'', [''slack'', ''gif'']),
     (''devops'', [''git worktree'', ''worktree'', ''development branch''])]"

definition infer_task_types_from_name :: "string \<Rightarrow> string list" where
  "infer_task_types_from_name skill_name =
     (let t = py_lower (replace_char (CHR ''-'') (CHR '' '') skill_name);
          matched = map fst (filter (\<lambda>(_, kws). list_ex (\<lambda>kw. str_contains kw t) kws) type_keywords)
      in if matched = [] then [''general''] else matched)"

section \<open>The skills of a project\<close>

text \<open>A project is a file tree of its own.\<close>

definition sorted_children :: "string files \<Rightarrow> path \<Rightarrow> string list" where
  "sorted_children fs p = sort_texts (fs_children fs p)"

definition workspace_entry :: "skill_env \<Rightarrow> path \<Rightarrow> string \<Rightarrow> (string \<times> workspace_skill) option" where
  "workspace_entry env skill_file content =
     (let meta = parse_frontmatter content;
          skill_name = py_strip (dict_get_or meta ''name'' []);
          description = py_strip (dict_get_or meta ''description'' [])
      in if skill_name = [] \<or> description = [] then None
         else case validate_skill_name skill_name of
           Inl _ \<Rightarrow> None
         | Inr _ \<Rightarrow>
             (case validate_skill_content (en_search env) (en_utf8 env) content of
                Inl _ \<Rightarrow> None
              | Inr _ \<Rightarrow>
                  let raw = py_strip (dict_get_or meta ''task-types'' (dict_get_or meta ''task_types'' []))
                  in Some (skill_name,
                       \<lparr>wk_description = description, wk_task_types = filter (\<lambda>t. t \<noteq> []) (map py_strip (split_on (CHR '','') raw)),
                        wk_content = content, wk_path = skill_file\<rparr>)))"

definition register_workspace_skill :: "skill_env \<Rightarrow> string files \<Rightarrow> skill_world \<times> nat \<Rightarrow> path \<Rightarrow> skill_world \<times> nat" where
  "register_workspace_skill env proj acc skill_file =
     (case fs_read proj skill_file of
        None \<Rightarrow> acc
      | Some content \<Rightarrow>
          (case workspace_entry env skill_file content of
             None \<Rightarrow> acc
           | Some (n, k) \<Rightarrow> ((fst acc)\<lparr>w_workspace := dict_set n k (w_workspace (fst acc))\<rparr>, Suc (snd acc))))"

definition search_dirs :: "path \<Rightarrow> path list" where
  "search_dirs d = [d @ [''skills''], d @ [''.claude'', ''skills''], d @ [''docs'', ''skills''], d @ [''.skills'']]"

definition skill_files_in :: "string files \<Rightarrow> path \<Rightarrow> path list" where
  "skill_files_in proj d =
     (if \<not> fs_is_dir proj d then []
      else map (\<lambda>n. d @ [n, SKILL_MD]) (filter (\<lambda>n. fs_is_dir proj (d @ [n]) \<and> fs_exists proj (d @ [n, SKILL_MD])) (sorted_children proj d))
         @ map (\<lambda>n. d @ [n]) (filter (\<lambda>n. suffix ''.md'' n) (sorted_children proj d)))"

definition scan_workspace :: "skill_env \<Rightarrow> string files \<Rightarrow> path \<Rightarrow> skill_world \<Rightarrow> skill_world \<times> nat" where
  "scan_workspace env proj workspace_dir w =
     (if \<not> fs_is_dir proj workspace_dir then (w, 0)
      else foldl (register_workspace_skill env proj) (w, 0) (concat (map (skill_files_in proj) (search_dirs workspace_dir))))"

section \<open>The start of the registry\<close>

definition backfill_hash :: "skill_env \<Rightarrow> string \<times> skill_entry \<Rightarrow> skill_world \<Rightarrow> skill_world" where
  "backfill_hash env nd w =
     (if dict_has (ss_hashes (w_security w)) (fst nd) then w
      else case fs_read (w_files w) (sk_path (snd nd) @ [SKILL_MD]) of
        None \<Rightarrow> w
      | Some f \<Rightarrow> w\<lparr>w_security := store_integrity_hash (en_digest env) (fst nd) (text_of f) (w_security w)\<rparr>)"

definition all_entries :: "skill_world \<Rightarrow> (string \<times> skill_entry) list" where
  "all_entries w = concat (map (skills_in w) [Official, Local, Temp])"

definition backfill_integrity_hashes :: "skill_env \<Rightarrow> skill_world \<Rightarrow> skill_world" where
  "backfill_integrity_hashes env w = fold (backfill_hash env) (all_entries w) w"

definition frontmatter_types :: "skill_world \<Rightarrow> skill_entry \<Rightarrow> skill_entry" where
  "frontmatter_types w d =
     (if sk_frontmatter_types d then d
      else case fs_read (w_files w) (sk_path d @ [SKILL_MD]) of
        None \<Rightarrow> d
      | Some f \<Rightarrow>
          (case parse_task_types (text_of f) of
             Some ts \<Rightarrow> if ts \<noteq> [] then d\<lparr>sk_task_types := ts, sk_frontmatter_types := True\<rparr> else d
           | None \<Rightarrow> d))"

definition backfill_frontmatter_task_types :: "skill_world \<Rightarrow> skill_world" where
  "backfill_frontmatter_task_types w =
     w\<lparr>w_index := (\<lambda>t. map (\<lambda>(n, d). (n, frontmatter_types w d)) (w_index w t))\<rparr>"

definition open_registry :: "skill_env \<Rightarrow> skill_world \<Rightarrow> skill_world" where
  "open_registry env w =
     (let w = w\<lparr>w_files := fold (\<lambda>t. fs_makedirs (tier_dir t)) [Official, Local, Temp] (w_files w), w_workspace := []\<rparr>
      in backfill_frontmatter_task_types (backfill_integrity_hashes env w))"

definition all_skills :: "skill_world \<Rightarrow> (string, skill_entry) py_dict" where
  "all_skills w = fold (\<lambda>(n, d). dict_set n d) (all_entries w) []"

definition get_all_custom_task_types :: "skill_world \<Rightarrow> (string, string) py_dict" where
  "get_all_custom_task_types w =
     fold (\<lambda>(n, d). fold (\<lambda>ty types. if dict_has types ty then types else dict_set ty (sk_description d) types) (sk_task_types d))
       (all_entries w) []"

definition get_skill_allowed_tools :: "skill_env \<Rightarrow> string \<Rightarrow> skill_world \<Rightarrow> string set \<times> skill_world" where
  "get_skill_allowed_tools env name w =
     (case load_skill env name w of
        (None, w) \<Rightarrow> (DEFAULT_ALLOWED_TOOLS, w)
      | (Some content, w) \<Rightarrow> (parse_allowed_tools content ''standard'' [], w))"

section \<open>Lemmas\<close>

lemma workspace_scan_keeps:
  "w_files (fst (foldl (register_workspace_skill env proj) acc fs)) = w_files (fst acc)
   \<and> w_index (fst (foldl (register_workspace_skill env proj) acc fs)) = w_index (fst acc)
   \<and> w_security (fst (foldl (register_workspace_skill env proj) acc fs)) = w_security (fst acc)"
  by (induction fs arbitrary: acc) (auto simp: register_workspace_skill_def split: option.splits prod.splits)

text \<open>Whatever a scan puts there passed both checks.\<close>

definition vetted :: "skill_env \<Rightarrow> string \<Rightarrow> workspace_skill \<Rightarrow> bool" where
  "vetted env n k \<longleftrightarrow> is_ok (validate_skill_name n) \<and> is_ok (validate_skill_content (en_search env) (en_utf8 env) (wk_content k))
     \<and> n \<noteq> [] \<and> wk_description k \<noteq> []"

lemma workspace_entry_vetted: "workspace_entry env p c = Some (n, k) \<Longrightarrow> vetted env n k"
  by (auto simp: workspace_entry_def vetted_def Let_def split: sum.splits if_splits)

lemma scan_vetted:
  assumes "\<forall>(n, k) \<in> set (w_workspace (fst acc)). vetted env n k"
  shows "\<forall>(n, k) \<in> set (w_workspace (fst (foldl (register_workspace_skill env proj) acc fs))). vetted env n k"
  by (rule foldl_invariant [where P = "\<lambda>acc. \<forall>(n, k) \<in> set (w_workspace (fst acc)). vetted env n k", OF assms])
    (auto simp: register_workspace_skill_def dest!: dict_set_member workspace_entry_vetted split: option.splits)

lemma backfill_hash_keeps:
  "w_index (backfill_hash env nd w) = w_index w" "w_files (backfill_hash env nd w) = w_files w"
  "dict_has (ss_hashes (w_security w)) n \<Longrightarrow>
     dict_get (ss_hashes (w_security (backfill_hash env nd w))) n = dict_get (ss_hashes (w_security w)) n"
  by (auto simp: backfill_hash_def store_integrity_hash_def split: option.splits)

end
