(* ===== verification/Skill_Match.thy ===== *)
theory Skill_Match
  imports Skill_Frontmatter Skill_Embeddings Complex_Main
begin

text \<open>
  \<^verbatim>\<open>agents/skill_search.py\<close>, the scores: how well a skill fits a requirement, by words, by contained text and by the
  similarity of embeddings, and what its record adds. Scores are real numbers.
\<close>

section \<open>Words\<close>

definition word_sep :: "char \<Rightarrow> bool" where
  "word_sep c \<longleftrightarrow> py_space c \<or> c \<in> {CHR ''_'', CHR ''-'', CHR ''/''}"

fun tokens_from :: "string \<Rightarrow> string \<Rightarrow> string list" where
  "tokens_from acc [] = (if acc = [] then [] else [rev acc])"
| "tokens_from acc (c # cs) =
     (if word_sep c then (if acc = [] then tokens_from [] cs else rev acc # tokens_from [] cs) else tokens_from (c # acc) cs)"

definition tokenize :: "string \<Rightarrow> string list" where
  "tokenize s = remdups (tokens_from [] (py_lower s))"

definition token_overlap :: "string list \<Rightarrow> string list \<Rightarrow> real" where
  "token_overlap req other = real (length (filter (\<lambda>t. t \<in> set other) req)) / real (length req)"

definition blank_marks :: "string \<Rightarrow> string" where
  "blank_marks s = replace_char (CHR ''-'') (CHR '' '') (replace_char (CHR ''_'') (CHR '' '') s)"

section \<open>The score\<close>

definition substring_bonus :: "string \<Rightarrow> string list \<Rightarrow> string \<Rightarrow> string list \<Rightarrow> real" where
  "substring_bonus requirement req_tokens description task_types =
     (let requirement_clean = py_strip (blank_marks requirement);
          description_clean = blank_marks description;
          task_str_clean = py_lower (blank_marks (join_with '' '' task_types));
          bonus = (if str_contains requirement_clean description_clean then 0.3
                   else if list_ex (\<lambda>tok. length tok > 3 \<and> str_contains tok description_clean) req_tokens then 0.15
                   else 0)
      in if str_contains requirement_clean task_str_clean then max bonus 0.25 else bonus)"

definition keyword_confidence :: "string \<Rightarrow> string \<Rightarrow> string list \<Rightarrow> real" where
  "keyword_confidence requirement description task_types =
     (let req = tokenize requirement in
      if py_strip requirement = [] \<or> req = [] then 0
      else min (token_overlap req (tokenize description) * 0.5
                + token_overlap req (tokenize (join_with '' '' task_types)) * 0.25
                + substring_bonus requirement req description task_types) 1)"

definition match_confidence :: "string \<Rightarrow> string \<Rightarrow> string list \<Rightarrow> real option \<Rightarrow> real" where
  "match_confidence requirement description task_types semantic =
     (if py_strip requirement = [] \<or> tokenize requirement = [] then 0
      else let k = keyword_confidence requirement description task_types in
        case semantic of
          Some s \<Rightarrow> if s > 0 then k * 0.4 + min s 1 * 0.6 else k
        | None \<Rightarrow> k)"

definition usage_bonus :: "int \<Rightarrow> real" where
  "usage_bonus usage_count = min (log 2 (real_of_int (usage_count + 1)) / 10) 0.1"

definition weighted_score :: "real \<Rightarrow> skill_entry \<Rightarrow> real" where
  "weighted_score confidence d =
     (let (quality, bonus) =
        (if sk_usage_count d > 0 \<and> sk_avg_score d > 0 then (sk_avg_score d / 100, usage_bonus (sk_usage_count d)) else (0.5, 0))
      in confidence * 0.7 + quality * 0.3 + bonus)"

section \<open>Lemmas\<close>

lemma token_overlap_bounds: "0 \<le> token_overlap req ts \<and> token_overlap req ts \<le> 1"
  by (cases "req = []") (auto simp: token_overlap_def divide_le_eq)

lemma substring_bonus_bounds: "0 \<le> substring_bonus r req d ts \<and> substring_bonus r req d ts \<le> 0.3"
  by (simp add: substring_bonus_def Let_def)

lemma keyword_confidence_bounds: "0 \<le> keyword_confidence r d ts \<and> keyword_confidence r d ts \<le> 1"
proof -
  have "0 \<le> token_overlap (tokenize r) (tokenize d) * 0.5 + token_overlap (tokenize r) (tokenize (join_with '' '' ts)) * 0.25
      + substring_bonus r (tokenize r) d ts"
    using token_overlap_bounds [of "tokenize r" "tokenize d"] token_overlap_bounds [of "tokenize r" "tokenize (join_with '' '' ts)"]
      substring_bonus_bounds [of r "tokenize r" d ts] by simp
  then show ?thesis by (simp add: keyword_confidence_def Let_def)
qed

lemma match_confidence_bounds: "0 \<le> match_confidence r d ts sem \<and> match_confidence r d ts sem \<le> 1"
  using keyword_confidence_bounds [of r d ts] by (auto simp: match_confidence_def Let_def split: option.splits)

text \<open>The bonus for use, meant to grow with the logarithm of the uses, is the same for one use and for a thousand.\<close>

lemma usage_bonus_constant: "1 \<le> n \<Longrightarrow> usage_bonus n = 0.1"
proof -
  assume "1 \<le> n"
  then have "1 \<le> log 2 (real_of_int (n + 1))" by (subst le_log_iff) simp_all
  then show ?thesis by (simp add: usage_bonus_def)
qed

lemma weighted_score_used:
  "0 < sk_usage_count d \<Longrightarrow> 0 < sk_avg_score d \<Longrightarrow> weighted_score c d = c * 0.7 + sk_avg_score d * 0.003 + 0.1"
  by (simp add: weighted_score_def usage_bonus_constant)

lemma weighted_score_unused: "\<not> (0 < sk_usage_count d \<and> 0 < sk_avg_score d) \<Longrightarrow> weighted_score c d = c * 0.7 + 0.15"
  by (auto simp: weighted_score_def)

lemma weighted_score_mono: "c \<le> c' \<Longrightarrow> weighted_score c d \<le> weighted_score c' d"
  by (simp add: weighted_score_def Let_def split: prod.splits)

end
