(* ===== verification/Skill_Remote.thy ===== *)
theory Skill_Remote
  imports Skill_Match
begin

text \<open>
  \<^verbatim>\<open>agents/skill_remote.py\<close>: catalogs of skills in GitHub repositories, the best match in a catalog, the download of a
  skill with its checks. The network is a parameter: listing a directory and fetching a file answer with a result or an
  exception. A download is written byte for byte: what is checked and hashed is the decoded bytes, and what a later load
  reads, in text mode, is that text with its line ends turned into newlines.
\<close>

section \<open>State\<close>

record skill_source =
  sr_name :: string
  sr_repo :: string
  sr_branch :: string
  sr_skills_path :: string
  sr_threshold :: real
  sr_trust_level :: string
  sr_default_tools :: string
  sr_ttl :: real
  sr_enabled :: bool

definition new_skill_source :: "string \<Rightarrow> string \<Rightarrow> string \<Rightarrow> string \<Rightarrow> skill_source" where
  "new_skill_source n repo trust tools =
     \<lparr>sr_name = n, sr_repo = repo, sr_branch = ''main'', sr_skills_path = ''skills'', sr_threshold = 0.25, sr_trust_level = trust,
      sr_default_tools = tools, sr_ttl = 300, sr_enabled = True\<rparr>"

definition DEFAULT_SOURCES :: "skill_source list" where
  "DEFAULT_SOURCES =
     [new_skill_source ''anthropics'' ''anthropics/skills'' ''high'' [],
      new_skill_source ''superpowers'' ''obra/superpowers'' ''standard'' ''Read Grep Glob'',
      new_skill_source ''vercel'' ''vercel-labs/agent-skills'' ''standard'' []]"

record remote_meta =
  rm_description :: string
  rm_task_types :: "string list"

type_synonym catalog = "(string, remote_meta) py_dict"

record source_cache =
  sc_catalog :: catalog
  sc_fetched_at :: real

record gh_entry =
  gh_name :: string
  gh_type :: string
  gh_size :: int

type_synonym headers = "(string, string) py_dict"

text \<open>What the index of a large local repository says of a skill.\<close>

record local_meta =
  lm_description :: "string option"
  lm_tags :: "string list option"

record local_source =
  lr_name :: string
  lr_index_path :: path
  lr_skills_path :: path
  lr_trust_level :: string

text \<open>The registry with its memories: embeddings, the last query, catalogs, local repositories and their indexes.\<close>

record registry =
  rg_world :: skill_world
  rg_cache :: embed_cache
  rg_last_query :: "(string \<times> real list option) option"
  rg_catalogs :: "(string, source_cache) py_dict"
  rg_local_sources :: "local_source list"
  rg_local_indexes :: "(string, (string, local_meta) py_dict) py_dict"

record registry_env =
  rv_skill :: skill_env
  rv_embed :: embed_env
  rv_clock :: real
  rv_environ :: "(string, string) py_dict"
  rv_list :: "string \<Rightarrow> headers \<Rightarrow> py_exn + gh_entry list"
  rv_fetch :: "string \<Rightarrow> headers \<Rightarrow> py_exn + string"
  rv_sources :: "skill_source list"
  rv_config_remote :: bool
  rv_scan_scripts :: bool
  rv_outside :: "string files"
  rv_read_index :: "string \<Rightarrow> py_exn + (string, local_meta) py_dict"
  rv_official :: real
  rv_local :: real
  rv_temp :: real

section \<open>Catalogs\<close>

definition first_set :: "(string, string) py_dict \<Rightarrow> string list \<Rightarrow> string option" where
  "first_set environ ks = find (\<lambda>v. v \<noteq> []) (map (\<lambda>k. dict_get_or environ k []) ks)"

definition github_headers :: "registry_env \<Rightarrow> headers" where
  "github_headers env =
     [(''User-Agent'', ''vibe-skill-registry/1.0'')]
     @ (case first_set (rv_environ env) [''GITHUB_TOKEN'', ''GH_TOKEN''] of
          None \<Rightarrow> [] | Some t \<Rightarrow> [(''Authorization'', ''token '' @ t)])"

definition contents_url :: "skill_source \<Rightarrow> string" where
  "contents_url s = ''https://api.github.com/repos/'' @ sr_repo s @ ''/contents/'' @ sr_skills_path s"

definition catalog_entry :: "string \<Rightarrow> remote_meta" where
  "catalog_entry n = \<lparr>rm_description = replace_char (CHR ''-'') (CHR '' '') n, rm_task_types = infer_task_types_from_name n\<rparr>"

definition official_dirs :: "skill_world \<Rightarrow> string list" where
  "official_dirs w = filter (\<lambda>n. fs_is_dir (w_files w) (tier_dir Official @ [n])) (fs_children (w_files w) (tier_dir Official))"

definition catalog_of :: "skill_world \<Rightarrow> gh_entry list \<Rightarrow> catalog" where
  "catalog_of w entries =
     fold (\<lambda>e c. if gh_type e = ''dir'' \<and> gh_name e \<notin> set (official_dirs w) \<and> is_ok (validate_skill_name (gh_name e))
                 then dict_set (gh_name e) (catalog_entry (gh_name e)) c else c) entries []"

definition get_remote_catalog :: "registry_env \<Rightarrow> skill_source \<Rightarrow> registry \<Rightarrow> catalog \<times> registry" where
  "get_remote_catalog env s r =
     (let cached = dict_get (rg_catalogs r) (sr_name s);
          fetched =
            (case rv_list env (contents_url s) (github_headers env) of
               Inl _ \<Rightarrow> (case cached of None \<Rightarrow> [] | Some c \<Rightarrow> sc_catalog c, r)
             | Inr entries \<Rightarrow>
                 (let cat = catalog_of (rg_world r) entries
                  in (cat, r\<lparr>rg_catalogs := dict_set (sr_name s) \<lparr>sc_catalog = cat, sc_fetched_at = rv_clock env\<rparr> (rg_catalogs r)\<rparr>)))
      in case cached of
           Some c \<Rightarrow> if rv_clock env - sc_fetched_at c < sr_ttl s then (sc_catalog c, r) else fetched
         | None \<Rightarrow> fetched)"

section \<open>Downloads\<close>

text \<open>The network errors a download ignores: \<open>URLError\<close>, which is an \<open>OSError\<close>, and for listings bad JSON.\<close>

definition os_errors :: "string set" where
  "os_errors = {''OSError'', ''TimeoutError'', ''ConnectionError'', ''FileExistsError'', ''URLError'', ''HTTPError'', ''PermissionError'',
     ''NotADirectoryError'', ''IsADirectoryError'', ''FileNotFoundError'', ''ConnectionResetError'', ''ConnectionRefusedError''}"

definition os_exn :: "py_exn \<Rightarrow> bool" where
  "os_exn x \<longleftrightarrow> exn_name x \<in> os_errors"

definition slash_join :: "string \<Rightarrow> string \<Rightarrow> string" where
  "slash_join a b = a @ ''/'' @ b"

definition raw_url :: "skill_source \<Rightarrow> string \<Rightarrow> string" where
  "raw_url s p = ''https://raw.githubusercontent.com/'' @ sr_repo s @ ''/'' @ sr_branch s @ ''/'' @ p"

definition listing_url :: "skill_source \<Rightarrow> string \<Rightarrow> string" where
  "listing_url s p = ''https://api.github.com/repos/'' @ sr_repo s @ ''/contents/'' @ p"

type_synonym skill_files = "skill_file files"

text \<open>\<open>local_dir / name\<close> as \<open>pathlib\<close> joins it: empty components and single dots are dropped, double dots stay, an absolute name
  replaces the directory. A path outside the skills directory is \<open>None\<close>.\<close>

definition path_parts :: "string \<Rightarrow> string list" where
  "path_parts n = filter (\<lambda>c. c \<noteq> [] \<and> c \<noteq> ''.'') (split_on (CHR ''/'') n)"

definition join_path :: "path option \<Rightarrow> string \<Rightarrow> path option" where
  "join_path d n = (if n \<noteq> [] \<and> hd n = CHR ''/'' then None else map_option (\<lambda>p. p @ path_parts n) d)"

text \<open>\<open>mkdir(parents=True, exist_ok=True)\<close> along a path with double dots: the place it leads to, unless a file is in the way or the
  path leaves the skills directory.\<close>

fun make_way :: "path \<Rightarrow> path \<Rightarrow> skill_files \<Rightarrow> path option \<times> skill_files" where
  "make_way p [] fs = (Some p, fs)"
| "make_way p (c # cs) fs =
     (if c = ''..'' then if p = [] then (None, fs) else make_way (butlast p) cs fs
      else if fs_is_dir fs (p @ [c]) then make_way (p @ [c]) cs fs
      else if fs_exists fs (p @ [c]) then (None, fs)
      else make_way (p @ [c]) cs (dict_set (p @ [c]) Dir fs))"

text \<open>Where the components of a file's name lead to: every one but the last goes through a directory that exists.\<close>

fun go_to :: "skill_files \<Rightarrow> path \<Rightarrow> string list \<Rightarrow> path option" where
  "go_to fs p [] = Some p"
| "go_to fs p (c # cs) =
     (if \<not> fs_is_dir fs p then None
      else if c = ''..'' then if p = [] then None else go_to fs (butlast p) cs
      else go_to fs (p @ [c]) cs)"

text \<open>One file: fetched, then written below its directory, which is made; errors of the system are ignored, others go up. What
  lands outside the skills directory does not touch the tree.\<close>

definition save_download :: "path option \<Rightarrow> string \<Rightarrow> string \<Rightarrow> skill_files \<Rightarrow> (py_exn + unit) \<times> skill_files" where
  "save_download local_dir name c fs =
     (case local_dir of
        None \<Rightarrow> (Inr (), fs)
      | Some d \<Rightarrow>
          (case make_way [] d fs of
             (None, fs) \<Rightarrow> (Inr (), fs)
           | (Some p, fs) \<Rightarrow>
               (case (if join_path (Some d) name = None then None else go_to fs p (path_parts name)) of
                  None \<Rightarrow> (Inr (), fs)
                | Some q \<Rightarrow>
                    (case fs_write q (Text c) fs of
                       Inl x \<Rightarrow> (if os_exn x then Inr () else Inl x, fs)
                     | Inr fs \<Rightarrow> (Inr (), fs)))))"

definition download_file :: "registry_env \<Rightarrow> string \<Rightarrow> path option \<Rightarrow> string \<Rightarrow> skill_files \<Rightarrow> (py_exn + unit) \<times> skill_files" where
  "download_file env url local_dir name fs =
     (case rv_fetch env url (github_headers env) of
        Inl x \<Rightarrow> (if os_exn x then Inr () else Inl x, fs)
      | Inr c \<Rightarrow> save_download local_dir name c fs)"

fun download_entries ::
    "(string \<Rightarrow> skill_files \<Rightarrow> (py_exn + unit) \<times> skill_files) \<Rightarrow> registry_env \<Rightarrow> skill_source \<Rightarrow> string \<Rightarrow> bool \<Rightarrow> path option
      \<Rightarrow> gh_entry list \<Rightarrow> skill_files \<Rightarrow> (py_exn + unit) \<times> skill_files" where
  "download_entries child env s api_path at_root local_dir [] fs = (Inr (), fs)"
| "download_entries child env s api_path at_root local_dir (e # es) fs =
     (case (if gh_name e = SKILL_MD \<and> at_root then (Inr (), fs)
            else if gh_type e = ''file'' then
              (if gh_size e > 500000 then (Inr (), fs)
               else download_file env (slash_join (raw_url s api_path) (gh_name e)) local_dir (gh_name e) fs)
            else if gh_type e = ''dir'' then child (gh_name e) fs
            else (Inr (), fs)) of
        (Inl x, fs) \<Rightarrow> (Inl x, fs)
      | (Inr _, fs) \<Rightarrow> download_entries child env s api_path at_root local_dir es fs)"

text \<open>The recursion goes down while the depth is at most three; the fuel is the levels left.\<close>

fun download_directory ::
    "nat \<Rightarrow> registry_env \<Rightarrow> skill_source \<Rightarrow> string \<Rightarrow> string \<Rightarrow> path option \<Rightarrow> skill_files \<Rightarrow> (py_exn + unit) \<times> skill_files" where
  "download_directory 0 env s skill_name subpath local_dir fs = (Inr (), fs)"
| "download_directory (Suc levels) env s skill_name subpath local_dir fs =
     (let base = slash_join (sr_skills_path s) skill_name;
          api_path = (if subpath = [] then base else slash_join base subpath)
      in case rv_list env (listing_url s api_path) (github_headers env) of
           Inl x \<Rightarrow> (if os_exn x \<or> exn_name x = ''JSONDecodeError'' then Inr () else Inl x, fs)
         | Inr entries \<Rightarrow>
             download_entries
               (\<lambda>n. download_directory levels env s skill_name (if subpath = [] then n else slash_join subpath n) (join_path local_dir n))
               env s api_path (subpath = []) local_dir entries fs)"

definition DOWNLOAD_LEVELS :: nat where
  "DOWNLOAD_LEVELS = 4"

definition critical_in :: "registry_env \<Rightarrow> skill_files \<Rightarrow> path \<Rightarrow> bool" where
  "critical_in env fs p \<longleftrightarrow>
     list_ex (\<lambda>f. sf_severity f = ''critical'')
       (scan_bundled_scripts (en_search (rv_skill env)) (en_parse (rv_skill env)) (scripts_below fs p))"

text \<open>With the files comes whether the scripts directory had to be removed.\<close>

definition download_scripts :: "registry_env \<Rightarrow> skill_source \<Rightarrow> string \<Rightarrow> path \<Rightarrow> skill_files \<Rightarrow> (py_exn + bool) \<times> skill_files" where
  "download_scripts env s skill_name skill_dir fs =
     (let scripts_dir = skill_dir @ [''scripts''] in
      case download_directory DOWNLOAD_LEVELS env s skill_name ''scripts'' (Some scripts_dir) fs of
        (Inl x, fs) \<Rightarrow> (Inl x, fs)
      | (Inr _, fs) \<Rightarrow>
          if fs_exists fs scripts_dir \<and> fs_children fs scripts_dir \<noteq> [] \<and> critical_in env fs scripts_dir
          then (Inr True, fs_rmtree scripts_dir fs)
          else (Inr False, fs))"

definition downloaded_entry :: "registry_env \<Rightarrow> skill_source \<Rightarrow> string \<Rightarrow> path \<Rightarrow> string \<Rightarrow> skill_entry" where
  "downloaded_entry env s skill_name skill_dir content =
     (let meta = parse_frontmatter content; now = en_now (rv_skill env)
      in \<lparr>sk_description = dict_get_or meta ''description'' (replace_char (CHR ''-'') (CHR '' '') skill_name),
          sk_task_types = (case parse_task_types content of
             Some ts \<Rightarrow> if ts \<noteq> [] then ts else infer_task_types_from_name skill_name
           | None \<Rightarrow> infer_task_types_from_name skill_name),
          sk_path = skill_dir, sk_usage_count = 0, sk_scores = None, sk_avg_score = 0, sk_created_at = now, sk_last_used = None,
          sk_synced_at = Some now, sk_tier = None, sk_promoted_at = None,
          sk_origin = Some \<lparr>so_source = ''https://github.com/'' @ sr_repo s, so_source_name = sr_name s, so_trust_level = sr_trust_level s\<rparr>,
          sk_frontmatter_types = False\<rparr>)"

definition forget_catalog_entry :: "string \<Rightarrow> string \<Rightarrow> registry \<Rightarrow> registry" where
  "forget_catalog_entry source_name skill_name r =
     (case dict_get (rg_catalogs r) source_name of
        Some c \<Rightarrow> r\<lparr>rg_catalogs := dict_set source_name (c\<lparr>sc_catalog := dict_del skill_name (sc_catalog c)\<rparr>) (rg_catalogs r)\<rparr>
      | None \<Rightarrow> r)"

text \<open>The part under \<open>try\<close>, once the main file is there and accepted: an exception carries what was done.\<close>

definition fetch_rest :: "registry_env \<Rightarrow> skill_source \<Rightarrow> string \<Rightarrow> path \<Rightarrow> skill_files \<Rightarrow> (py_exn + bool) \<times> skill_files" where
  "fetch_rest env s skill_name skill_dir fs =
     (case download_directory DOWNLOAD_LEVELS env s skill_name [] (Some skill_dir) fs of
        (Inl x, fs) \<Rightarrow> (Inl x, fs)
      | (Inr _, fs) \<Rightarrow> if rv_scan_scripts env then download_scripts env s skill_name skill_dir fs else (Inr False, fs))"

definition with_files :: "skill_files \<Rightarrow> registry \<Rightarrow> registry" where
  "with_files fs r = r\<lparr>rg_world := (rg_world r)\<lparr>w_files := fs\<rparr>\<rparr>"

definition failed_download :: "path \<Rightarrow> registry \<Rightarrow> registry" where
  "failed_download skill_dir r = with_files (fs_rmtree skill_dir (w_files (rg_world r))) r"

definition download_remote_skill :: "registry_env \<Rightarrow> string \<Rightarrow> skill_source \<Rightarrow> registry \<Rightarrow> (string \<times> path) option \<times> registry" where
  "download_remote_skill env skill_name s r =
     (let skill_dir = tier_dir Official @ [skill_name]; senv = rv_skill env in
      if \<not> is_ok (validate_skill_name skill_name) \<or> \<not> is_ok (validate_skill_path skill_dir (tier_dir Official)) then (None, r)
      else case rv_fetch env (slash_join (raw_url s (slash_join (sr_skills_path s) skill_name)) SKILL_MD) (github_headers env) of
        Inl x \<Rightarrow> (None, failed_download skill_dir r)
      | Inr content \<Rightarrow>
          if \<not> is_ok (validate_skill_content (en_search senv) (en_utf8 senv) content) then (None, r)
          else
            (case fs_write (skill_dir @ [SKILL_MD]) (Text content) (fs_makedirs skill_dir (w_files (rg_world r))) of
               Inl x \<Rightarrow> (None, failed_download skill_dir r)
             | Inr fs \<Rightarrow>
                 let r = (with_files fs r)\<lparr>rg_world := (rg_world (with_files fs r))\<lparr>w_security :=
                       store_integrity_hash (en_digest senv) skill_name content (w_security (rg_world r))\<rparr>\<rparr>
                 in (case fetch_rest env s skill_name skill_dir fs of
                       (Inl x, fs) \<Rightarrow> (None, failed_download skill_dir (with_files fs r))
                     | (Inr had_critical, fs) \<Rightarrow>
                         let r = with_files fs r in
                         if had_critical \<or> critical_in env fs skill_dir then
                           (None, (failed_download skill_dir r)\<lparr>rg_world := (rg_world (failed_download skill_dir r))\<lparr>w_security :=
                                snd (remove_integrity_hash skill_name (w_security (rg_world r)))\<rparr>\<rparr>)
                         else
                           let w = rg_world r;
                               w = set_index Official (dict_set skill_name (downloaded_entry env s skill_name skill_dir content)
                                     (skills_in w Official)) w
                           in (Some (skill_name, skill_dir), forget_catalog_entry (sr_name s) skill_name (r\<lparr>rg_world := w\<rparr>)))))"

section \<open>Search\<close>

text \<open>The first of the best, when its score is positive.\<close>

definition best_scored :: "(string \<times> real) list \<Rightarrow> (string \<times> real) option" where
  "best_scored xs = foldl (\<lambda>b x. if snd x > (case b of None \<Rightarrow> 0 | Some y \<Rightarrow> snd y) then Some x else b) None xs"

definition find_remote_skill :: "registry_env \<Rightarrow> string \<Rightarrow> skill_source \<Rightarrow> registry \<Rightarrow> (string \<times> path) option \<times> registry" where
  "find_remote_skill env requirement s r =
     (let (cat, r) = get_remote_catalog env s r;
          scored = map (\<lambda>(n, m). (n, match_confidence (py_lower requirement) (py_lower (rm_description m)) (rm_task_types m) None)) cat
      in case best_scored scored of
           None \<Rightarrow> (None, r)
         | Some (n, c) \<Rightarrow> if c < sr_threshold s then (None, r) else download_remote_skill env n s r)"

end
