(* ===== verification/Skill_Search.thy ===== *)
theory Skill_Search
  imports Skill_Remote
begin

text \<open>
  \<^verbatim>\<open>agents/skill_search.py\<close> and the local repositories of \<^verbatim>\<open>agents/skill_registry.py\<close>: the best skill for a
  requirement and the best few, over the skills of the project, the three tiers, local repositories and remote ones.
\<close>

section \<open>Embedding the query\<close>

definition query_vec_for :: "registry_env \<Rightarrow> string \<Rightarrow> registry \<Rightarrow> real list option \<times> registry" where
  "query_vec_for env requirement r =
     (case rg_last_query r of
        Some (q, v) \<Rightarrow>
          if q = requirement then (v, r)
          else (let (v, c) = embed_query (rv_embed env) requirement (rg_cache r)
                in (v, r\<lparr>rg_cache := c, rg_last_query := Some (requirement, v)\<rparr>))
      | None \<Rightarrow>
          (let (v, c) = embed_query (rv_embed env) requirement (rg_cache r)
           in (v, r\<lparr>rg_cache := c, rg_last_query := Some (requirement, v)\<rparr>)))"

text \<open>The semantic score of one skill; the cache may gain its vector. A skill of the project counts only when it can be
  embedded now, one of a tier also with a vector from before.\<close>

definition tier_semantic ::
    "registry_env \<Rightarrow> real list option \<Rightarrow> string \<Rightarrow> string \<Rightarrow> string list \<Rightarrow> embed_cache \<Rightarrow> real option \<times> embed_cache" where
  "tier_semantic env query name d ts c =
     (case query of
        None \<Rightarrow> (None, c)
      | Some q \<Rightarrow>
          (let (_, c) = embed_skill (rv_embed env) name d ts c;
               (s, c) = semantic_score (Some q) name c
           in (Some s, c)))"

definition workspace_semantic ::
    "registry_env \<Rightarrow> real list option \<Rightarrow> string \<Rightarrow> string \<Rightarrow> string list \<Rightarrow> embed_cache \<Rightarrow> real option \<times> embed_cache" where
  "workspace_semantic env query name d ts c =
     (case query of
        None \<Rightarrow> (None, c)
      | Some q \<Rightarrow>
          (case embed_skill (rv_embed env) name d ts c of
             (None, c) \<Rightarrow> (None, c)
           | (Some _, c) \<Rightarrow> (let (s, c) = semantic_score (Some q) name c in (Some s, c))))"

section \<open>Scores of all skills of a place\<close>

fun workspace_scores ::
    "registry_env \<Rightarrow> string \<Rightarrow> real list option \<Rightarrow> (string \<times> workspace_skill) list \<Rightarrow> embed_cache \<Rightarrow> (string \<times> real) list \<times> embed_cache" where
  "workspace_scores env req query [] c = ([], c)"
| "workspace_scores env req query ((n, k) # ks) c =
     (let (sem, c) = workspace_semantic env query n (wk_description k) (wk_task_types k) c;
          conf = match_confidence (py_lower req) (py_lower (wk_description k)) (wk_task_types k) sem;
          (rest, c) = workspace_scores env req query ks c
      in ((n, conf) # rest, c))"

fun tier_scores ::
    "registry_env \<Rightarrow> string \<Rightarrow> real list option \<Rightarrow> (string \<times> skill_entry) list \<Rightarrow> embed_cache \<Rightarrow> (string \<times> real) list \<times> embed_cache" where
  "tier_scores env req query [] c = ([], c)"
| "tier_scores env req query ((n, d) # ds) c =
     (let (sem, c) = tier_semantic env query n (sk_description d) (sk_task_types d) c;
          conf = match_confidence (py_lower req) (py_lower (sk_description d)) (sk_task_types d) sem;
          (rest, c) = tier_scores env req query ds c
      in ((n, weighted_score conf d) # rest, c))"

text \<open>Matches: names with their scores, those of at least the minimum, the best first.\<close>

definition matches_from :: "real \<Rightarrow> (string \<times> real) list \<Rightarrow> (string \<times> real) list" where
  "matches_from min_confidence scores =
     rank_by snd (map (\<lambda>(n, s). (n, min s 1)) (filter (\<lambda>(n, s). s \<ge> min_confidence) scores))"

definition search_workspace_all :: "registry_env \<Rightarrow> string \<Rightarrow> real \<Rightarrow> registry \<Rightarrow> (string \<times> real) list \<times> registry" where
  "search_workspace_all env req min_confidence r =
     (if w_workspace (rg_world r) = [] then ([], r)
      else
        (let (query, r) = query_vec_for env req r;
             (scores, c) = workspace_scores env req query (w_workspace (rg_world r)) (rg_cache r)
         in (matches_from min_confidence scores, r\<lparr>rg_cache := c\<rparr>)))"

definition search_workspace :: "registry_env \<Rightarrow> string \<Rightarrow> registry \<Rightarrow> (string \<times> real) option \<times> registry" where
  "search_workspace env req r =
     (let (ms, r) = search_workspace_all env req 0.35 r in (case ms of [] \<Rightarrow> None | m # _ \<Rightarrow> Some m, r))"

definition search_tier_all :: "registry_env \<Rightarrow> string \<Rightarrow> skill_tier \<Rightarrow> real \<Rightarrow> registry \<Rightarrow> (string \<times> real) list \<times> registry" where
  "search_tier_all env req t min_confidence r =
     (if skills_in (rg_world r) t = [] then ([], r)
      else
        (let (query, r) = query_vec_for env req r;
             (scores, c) = tier_scores env req query (skills_in (rg_world r) t) (rg_cache r)
         in (matches_from min_confidence scores, r\<lparr>rg_cache := c\<rparr>)))"

definition search_tier :: "registry_env \<Rightarrow> string \<Rightarrow> skill_tier \<Rightarrow> registry \<Rightarrow> (string \<times> real) option \<times> registry" where
  "search_tier env req t r =
     (if skills_in (rg_world r) t = [] then (None, r)
      else
        (let (query, r) = query_vec_for env req r;
             (scores, c) = tier_scores env req query (skills_in (rg_world r) t) (rg_cache r)
         in (map_option (\<lambda>(n, s). (n, min s 1)) (best_scored scores), r\<lparr>rg_cache := c\<rparr>)))"

section \<open>Local repositories\<close>

definition add_local_indexed_source ::
    "registry_env \<Rightarrow> string \<Rightarrow> path \<Rightarrow> string \<Rightarrow> string \<Rightarrow> string \<Rightarrow> registry \<Rightarrow> bool \<times> registry" where
  "add_local_indexed_source env name source_dir trust_level skills_subdir index_filename r =
     (let index_path = source_dir @ [index_filename]; skills_path = source_dir @ [skills_subdir] in
      if \<not> fs_exists (rv_outside env) index_path \<or> \<not> fs_is_dir (rv_outside env) skills_path then (False, r)
      else if list_ex (\<lambda>s. lr_name s = name) (rg_local_sources r) then (True, r)
      else (True, r\<lparr>rg_local_sources := rg_local_sources r @
             [\<lparr>lr_name = name, lr_index_path = index_path, lr_skills_path = skills_path, lr_trust_level = trust_level\<rparr>]\<rparr>))"

definition remote_enabled :: "registry_env \<Rightarrow> bool" where
  "remote_enabled env \<longleftrightarrow>
     rv_config_remote env \<and> py_lower (dict_get_or (rv_environ env) ''VIBE_DISABLE_REMOTE_SKILLS'' []) \<notin> {''1'', ''true'', ''yes''}"

text \<open>The path of the environment variable, as its components.\<close>

definition path_of_text :: "string \<Rightarrow> path" where
  "path_of_text s = filter (\<lambda>c. c \<noteq> []) (split_on (CHR ''/'') s)"

definition init_local_indexed_sources :: "registry_env \<Rightarrow> registry \<Rightarrow> registry" where
  "init_local_indexed_sources env r =
     (let p = py_strip (dict_get_or (rv_environ env) ''VIBE_OPENCLAW_PATH'' []) in
      if \<not> remote_enabled env \<or> p = [] then r
      else snd (add_local_indexed_source env ''openclaw'' (path_of_text p) ''standard'' ''skills'' ''index.json'' r))"

definition load_local_index :: "registry_env \<Rightarrow> local_source \<Rightarrow> registry \<Rightarrow> (string, local_meta) py_dict \<times> registry" where
  "load_local_index env s r =
     (case dict_get (rg_local_indexes r) (lr_name s) of
        Some ix \<Rightarrow> (ix, r)
      | None \<Rightarrow>
          (let ix = (case fs_read (rv_outside env) (lr_index_path s) of
                 None \<Rightarrow> []
               | Some raw \<Rightarrow> (case rv_read_index env raw of Inl _ \<Rightarrow> [] | Inr ix \<Rightarrow> ix))
           in (ix, r\<lparr>rg_local_indexes := dict_set (lr_name s) ix (rg_local_indexes r)\<rparr>)))"

text \<open>A tree copied from the outside.\<close>

definition copy_tree :: "string files \<Rightarrow> path \<Rightarrow> path \<Rightarrow> skill_files \<Rightarrow> skill_files" where
  "copy_tree out src dest fs =
     fold (\<lambda>(q, n). dict_set (dest @ drop (length src) q) (case n of Dir \<Rightarrow> Dir | File c \<Rightarrow> File (Text c)))
       (filter (\<lambda>(q, n). prefix src q) out) (fs_makedirs dest (fs_rmtree dest fs))"

definition opt_or_name :: "'a option \<Rightarrow> 'a \<Rightarrow> 'a" where
  "opt_or_name x d = (case x of None \<Rightarrow> d | Some v \<Rightarrow> v)"

definition search_local_indexed_source ::
    "registry_env \<Rightarrow> string \<Rightarrow> local_source \<Rightarrow> real \<Rightarrow> registry \<Rightarrow> (string \<times> path) option \<times> registry" where
  "search_local_indexed_source env req s min_confidence r =
     (let (ix, r) = load_local_index env s r;
          scored = map (\<lambda>(n, m). (n, match_confidence (py_lower req) (py_lower (opt_or_name (lm_description m) []))
                (opt_or_name (lm_tags m) []) None)) ix
      in case best_scored scored of
           None \<Rightarrow> (None, r)
         | Some (n, c) \<Rightarrow>
             let src = lr_skills_path s @ [n]; dest = tier_dir Temp @ [n] in
             if n = [] \<or> c < min_confidence then (None, r)
             else if \<not> fs_is_dir (rv_outside env) src \<or> \<not> fs_exists (rv_outside env) (src @ [SKILL_MD]) then (None, r)
             else if dict_has (skills_in (rg_world r) Temp) n then (Some (n, dest), r)
             else
               let r = with_files (copy_tree (rv_outside env) src dest (w_files (rg_world r))) r;
                   m = (case dict_get ix n of Some m \<Rightarrow> m | None \<Rightarrow> \<lparr>lm_description = None, lm_tags = None\<rparr>)
               in (case register_skill (rv_skill env) n (opt_or_name (lm_description m) n) ''temp'' (opt_or_name (lm_tags m) []) dest
                          (rg_world r) of
                     (Inl _, w) \<Rightarrow> (None, r\<lparr>rg_world := w\<lparr>w_files := fs_rmtree dest (w_files w)\<rparr>\<rparr>)
                   | (Inr _, w) \<Rightarrow> (Some (n, dest), r\<lparr>rg_world := w\<rparr>)))"

section \<open>The best skill\<close>

datatype found = Found string string "path option" | Ephemeral

fun probe_local :: "registry_env \<Rightarrow> string \<Rightarrow> local_source list \<Rightarrow> registry \<Rightarrow> (string \<times> path) option \<times> registry" where
  "probe_local env req [] r = (None, r)"
| "probe_local env req (s # ss) r =
     (case search_local_indexed_source env req s 0.35 r of
        (Some x, r) \<Rightarrow> (Some x, r)
      | (None, r) \<Rightarrow> probe_local env req ss r)"

fun probe_remote :: "registry_env \<Rightarrow> string \<Rightarrow> skill_source list \<Rightarrow> registry \<Rightarrow> (string \<times> path) option \<times> registry" where
  "probe_remote env req [] r = (None, r)"
| "probe_remote env req (s # ss) r =
     (if \<not> sr_enabled s then probe_remote env req ss r
      else case find_remote_skill env req s r of
        (Some x, r) \<Rightarrow> (Some x, r)
      | (None, r) \<Rightarrow> probe_remote env req ss r)"

definition skill_threshold :: "registry_env \<Rightarrow> skill_tier \<Rightarrow> real" where
  "skill_threshold env t = (case t of Official \<Rightarrow> rv_official env | Local \<Rightarrow> rv_local env | Temp \<Rightarrow> rv_temp env)"

fun probe_tiers :: "registry_env \<Rightarrow> string \<Rightarrow> skill_tier list \<Rightarrow> registry \<Rightarrow> found option \<times> registry" where
  "probe_tiers env req [] r = (None, r)"
| "probe_tiers env req (t # ts) r =
     (let (m, r) = search_tier env req t r in
      case m of
        Some (n, c) \<Rightarrow> if c \<ge> skill_threshold env t then (Some (Found (tier_name t) n (Some (tier_dir t @ [n]))), r) else probe_tiers env req ts r
      | None \<Rightarrow> probe_tiers env req ts r)"

definition beyond_tiers :: "registry_env \<Rightarrow> string \<Rightarrow> registry \<Rightarrow> found \<times> registry" where
  "beyond_tiers env req r =
     (case probe_local env req (rg_local_sources r) r of
        (Some (n, p), r) \<Rightarrow> (Found ''temp'' n (Some p), r)
      | (None, r) \<Rightarrow>
          if remote_enabled env then
            (case probe_remote env req (rv_sources env) r of
               (Some (n, p), r) \<Rightarrow> (Found ''official'' n (Some p), r)
             | (None, r) \<Rightarrow> (Ephemeral, r))
          else (Ephemeral, r))"

definition find_skill :: "registry_env \<Rightarrow> string \<Rightarrow> registry \<Rightarrow> found \<times> registry" where
  "find_skill env req r =
     (let (ws, r) = search_workspace env req r in
      case (case ws of Some (n, c) \<Rightarrow> if c \<ge> rv_local env then Some n else None | None \<Rightarrow> None) of
        Some n \<Rightarrow> (Found ''workspace'' n None, r)
      | None \<Rightarrow>
          (case probe_tiers env req [Official, Local, Temp] r of
             (Some f, r) \<Rightarrow> (f, r)
           | (None, r) \<Rightarrow> beyond_tiers env req r))"

section \<open>The best few\<close>

text \<open>A result: score, tier, name, path.\<close>

type_synonym scored_skill = "real \<times> string \<times> string \<times> path option"

definition sc_name :: "scored_skill \<Rightarrow> string" where
  "sc_name x = fst (snd (snd x))"

fun tiers_all :: "registry_env \<Rightarrow> string \<Rightarrow> real \<Rightarrow> skill_tier list \<Rightarrow> registry \<Rightarrow> scored_skill list \<times> registry" where
  "tiers_all env req min_confidence [] r = ([], r)"
| "tiers_all env req min_confidence (t # ts) r =
     (let (ms, r) = search_tier_all env req t (max (skill_threshold env t) min_confidence) r;
          (rest, r) = tiers_all env req min_confidence ts r
      in (map (\<lambda>(n, c). (c, tier_name t, n, Some (tier_dir t @ [n]))) ms @ rest, r))"

fun fill_local ::
    "registry_env \<Rightarrow> string \<Rightarrow> nat \<Rightarrow> real \<Rightarrow> local_source list \<Rightarrow> scored_skill list \<Rightarrow> registry \<Rightarrow> scored_skill list \<times> registry" where
  "fill_local env req max_skills min_confidence [] results r = (results, r)"
| "fill_local env req max_skills min_confidence (s # ss) results r =
     (if length results \<ge> max_skills then (results, r)
      else
        (case search_local_indexed_source env req s min_confidence r of
           (Some (n, p), r) \<Rightarrow>
             fill_local env req max_skills min_confidence ss
               (if n \<in> set (map sc_name results) then results else results @ [(0.4, ''temp'', n, Some p)]) r
         | (None, r) \<Rightarrow> fill_local env req max_skills min_confidence ss results r))"

fun fill_remote ::
    "registry_env \<Rightarrow> string \<Rightarrow> nat \<Rightarrow> skill_source list \<Rightarrow> scored_skill list \<Rightarrow> registry \<Rightarrow> scored_skill list \<times> registry" where
  "fill_remote env req max_skills [] results r = (results, r)"
| "fill_remote env req max_skills (s # ss) results r =
     (if \<not> sr_enabled s then fill_remote env req max_skills ss results r
      else
        (let (x, r) = find_remote_skill env req s r;
             results = (case x of
                Some (n, p) \<Rightarrow> if n \<in> set (map sc_name results) then results else results @ [(0.5, ''official'', n, Some p)]
              | None \<Rightarrow> results)
         in if length results \<ge> max_skills then (results, r) else fill_remote env req max_skills ss results r))"

definition find_skills :: "registry_env \<Rightarrow> string \<Rightarrow> nat \<Rightarrow> real \<Rightarrow> registry \<Rightarrow> (string \<times> string \<times> path option) list \<times> registry" where
  "find_skills env req max_skills min_confidence r =
     (let (ws, r) = search_workspace_all env req (max (rv_local env) min_confidence) r;
          results = map (\<lambda>(n, c). (min (c + 0.05) 1, ''workspace'', n, None)) ws;
          (ts, r) = tiers_all env req min_confidence [Official, Local, Temp] r;
          results = results @ ts;
          (results, r) = (if length results < max_skills \<and> rg_local_sources r \<noteq> []
             then fill_local env req max_skills min_confidence (rg_local_sources r) results r else (results, r));
          (results, r) = (if remote_enabled env \<and> length results < max_skills
             then fill_remote env req max_skills (rv_sources env) results r else (results, r))
      in (map snd (take max_skills (rank_by fst results)), r))"

end
