(* ===== verification/Skill_Search_Correct.thy ===== *)
theory Skill_Search_Correct
  imports Skill_Search
begin

text \<open>Properties of the search for skills and of downloads.\<close>

section \<open>Best and ranked\<close>

lemma best_scored_step:
  "foldl (\<lambda>b x. if snd x > (case b of None \<Rightarrow> 0 | Some y \<Rightarrow> snd y) then Some x else b) b xs = Some m \<Longrightarrow>
     (m \<in> set xs \<or> b = Some m) \<and> (\<forall>x \<in> set xs. snd x \<le> snd m) \<and> (\<forall>y. b = Some y \<longrightarrow> snd y \<le> snd m)
     \<and> (b = None \<longrightarrow> 0 < snd m)" for b :: "(string \<times> real) option"
proof (induction xs arbitrary: b)
  case (Cons x xs)
  let ?b = "if snd x > (case b of None \<Rightarrow> 0 | Some y \<Rightarrow> snd y) then Some x else b"
  have ih: "(m \<in> set xs \<or> ?b = Some m) \<and> (\<forall>x \<in> set xs. snd x \<le> snd m) \<and> (\<forall>y. ?b = Some y \<longrightarrow> snd y \<le> snd m) \<and> (?b = None \<longrightarrow> 0 < snd m)"
    by (rule Cons.IH) (use Cons.prems in simp)
  obtain xn xv mn mv where x: "x = (xn, xv)" "m = (mn, mv)" by fastforce
  show ?case
  proof (cases b)
    case None
    then show ?thesis using ih x by (auto split: if_splits)
  next
    case (Some y)
    obtain yn yv where "y = (yn, yv)" by fastforce
    then show ?thesis using ih x Some by (auto split: if_splits)
  qed
qed simp

lemma best_scored_Some:
  assumes "best_scored xs = Some m"
  shows "m \<in> set xs" "\<forall>x \<in> set xs. snd x \<le> snd m" "0 < snd m"
  using best_scored_step [OF assms [unfolded best_scored_def]] by auto

lemma best_scored_keeps: "foldl (\<lambda>b x. if snd x > (case b of None \<Rightarrow> 0 | Some y \<Rightarrow> snd y) then Some x else b) (Some y) xs \<noteq> None"
  by (induction xs arbitrary: y) auto

lemma best_scored_positive: "x \<in> set xs \<Longrightarrow> 0 < snd x \<Longrightarrow> \<exists>m. best_scored xs = Some m"
proof (induction xs)
  case (Cons z zs)
  show ?case
  proof (cases "0 < snd z")
    case True
    then show ?thesis using best_scored_keeps [of z zs] by (simp add: best_scored_def)
  next
    case False
    then show ?thesis using Cons by (auto simp: best_scored_def)
  qed
qed simp

section \<open>Searching changes no skill\<close>

lemma query_vec_world [simp]: "rg_world (snd (query_vec_for env req r)) = rg_world r"
  by (auto simp: query_vec_for_def split: option.splits prod.splits)

lemma search_tier_world [simp]: "rg_world (snd (search_tier env req t r)) = rg_world r"
  using query_vec_world [of env req r]
  by (auto simp: search_tier_def simp del: query_vec_world split: prod.splits)

lemma search_workspace_world [simp]: "rg_world (snd (search_workspace env req r)) = rg_world r"
  using query_vec_world [of env req r]
  by (auto simp: search_workspace_def search_workspace_all_def simp del: query_vec_world split: prod.splits)

lemma tier_scores_Cons:
  obtains c cc' where "fst (tier_scores env req q ((n, d) # es) cc) = (n, weighted_score c d) # fst (tier_scores env req q es cc')"
    "0 \<le> c" "c \<le> 1"
proof -
  obtain sem cc' where sem: "tier_semantic env q n (sk_description d) (sk_task_types d) cc = (sem, cc')" by fastforce
  show ?thesis
    by (rule that [of "match_confidence (py_lower req) (py_lower (sk_description d)) (sk_task_types d) sem" cc'])
      (simp_all add: sem match_confidence_bounds case_prod_unfold Let_def)
qed

lemma tier_scores_member:
  "(n, d) \<in> set ds \<Longrightarrow> \<exists>c. 0 \<le> c \<and> c \<le> 1 \<and> (n, weighted_score c d) \<in> set (fst (tier_scores env req q ds cc))"
proof (induction ds arbitrary: cc)
  case (Cons e es)
  obtain n' d' where e: "e = (n', d')" by fastforce
  obtain c cc' where c: "fst (tier_scores env req q (e # es) cc) = (n', weighted_score c d') # fst (tier_scores env req q es cc')"
    "0 \<le> c" "c \<le> 1" unfolding e by (rule tier_scores_Cons)
  show ?case
  proof (cases "(n, d) = e")
    case True
    then show ?thesis using e c by auto
  next
    case False
    then have "(n, d) \<in> set es" using Cons.prems by simp
    then show ?thesis using Cons.IH [of cc'] c by auto
  qed
qed simp

text \<open>A skill with a good record scores in its tier whatever is asked.\<close>

lemma search_tier_good_record:
  assumes "(n, d) \<in> set (skills_in (rg_world r) t)" and "0 < sk_usage_count d" and "84 \<le> sk_avg_score d"
  shows "\<exists>m c. fst (search_tier env req t r) = Some (m, c) \<and> 0.35 \<le> c"
proof -
  obtain q r' where q: "query_vec_for env req r = (q, r')" by fastforce
  then have w: "rg_world r' = rg_world r" using query_vec_world [of env req r] by simp
  obtain scores cc where sc: "tier_scores env req q (skills_in (rg_world r) t) (rg_cache r') = (scores, cc)" by fastforce
  obtain c where c: "0 \<le> c" "(n, weighted_score c d) \<in> set scores"
    using tier_scores_member [OF assms(1), of env req q "rg_cache r'"] sc by auto
  have s: "0.35 \<le> weighted_score c d" using weighted_score_used [OF assms(2)] assms(3) c(1) by simp
  then obtain b where b: "best_scored scores = Some b" using best_scored_positive [OF c(2)] by auto
  then have "weighted_score c d \<le> snd b" using best_scored_Some(2) c(2) by fastforce
  moreover have "fst (search_tier env req t r) = map_option (\<lambda>(n, s). (n, min s 1)) (best_scored scores)"
    using assms(1) q w sc by (auto simp: search_tier_def)
  ultimately show ?thesis using s b by (cases b) auto
qed

text \<open>Once a skill of the local tier was used and averages at least 84 of 100, nothing new is ever looked for: whatever is
  required, even nothing at all, the search ends at a skill of the project or of the tiers up to the local one; repositories
  are not asked and no skill is generated.\<close>

theorem good_record_answers_everything:
  assumes "(n, d) \<in> set (skills_in (rg_world r) Local)" and "0 < sk_usage_count d" and "84 \<le> sk_avg_score d"
    and "rv_local env \<le> 0.35"
  shows "\<exists>t m p. fst (find_skill env req r) = Found t m p \<and> t \<in> {''workspace'', ''official'', ''local''}"
proof -
  obtain ws r1 where ws: "search_workspace env req r = (ws, r1)" by fastforce
  then have w1: "rg_world r1 = rg_world r" using search_workspace_world [of env req r] by simp
  obtain o2 r2 where o2: "search_tier env req Official r1 = (o2, r2)" by fastforce
  then have w2: "rg_world r2 = rg_world r" using search_tier_world [of env req Official r1] w1 by simp
  obtain m c where l: "fst (search_tier env req Local r2) = Some (m, c)" "0.35 \<le> c"
    using search_tier_good_record [of n d r2 Local env req] assms(1-3) w2 by auto
  obtain r3 where l3: "search_tier env req Local r2 = (Some (m, c), r3)" using l(1) by (cases "search_tier env req Local r2") auto
  have "rv_local env \<le> c" using l(2) assms(4) by simp
  then have "\<exists>t m p r'. probe_tiers env req [Official, Local, Temp] r1 = (Some (Found t m p), r') \<and> t \<in> {''official'', ''local''}"
    using o2 l3 by (auto simp: skill_threshold_def split: option.splits)
  then show ?thesis using ws by (auto simp: find_skill_def split: option.splits)
qed

section \<open>One search, two ways\<close>

text \<open>C31: The best match of a tier and the first of all its matches have the same score, unless the best is below the minimum.\<close>

theorem best_match_heads_the_list:
  assumes "0 < mn" and "mn \<le> 1"
  shows "case fst (search_tier env req t r) of
      Some (n, c) \<Rightarrow> if mn \<le> c then \<exists>n' ms. fst (search_tier_all env req t mn r) = (n', c) # ms else fst (search_tier_all env req t mn r) = []
    | None \<Rightarrow> fst (search_tier_all env req t mn r) = []"
proof (cases "skills_in (rg_world r) t = []")
  case False
  obtain q r' where q: "query_vec_for env req r = (q, r')" by fastforce
  then have w: "rg_world r' = rg_world r" using query_vec_world [of env req r] by simp
  obtain xs cc where xs: "tier_scores env req q (skills_in (rg_world r) t) (rg_cache r') = (xs, cc)" by fastforce
  have one: "fst (search_tier env req t r) = map_option (\<lambda>(n, s). (n, min s 1)) (best_scored xs)"
    and all: "fst (search_tier_all env req t mn r) = matches_from mn xs"
    using False q w xs by (simp_all add: search_tier_def search_tier_all_def)
  show ?thesis
  proof (cases "best_scored xs")
    case None
    then have "\<forall>x \<in> set xs. \<not> 0 < snd x" using best_scored_positive by force
    then have "filter (\<lambda>(n, s). s \<ge> mn) xs = []" using assms by (force simp: filter_empty_conv)
    then show ?thesis using None one all by (simp add: matches_from_def rank_by_def)
  next
    case (Some m)
    obtain n s where m: "m = (n, s)" by fastforce
    have top: "(n, s) \<in> set xs" "\<forall>x \<in> set xs. snd x \<le> s" using best_scored_Some [OF Some] m by auto
    define ms where "ms = matches_from mn xs"
    have le: "\<forall>y \<in> set ms. snd y \<le> min s 1" using top(2) by (force simp: ms_def matches_from_def)
    show ?thesis
    proof (cases "mn \<le> s")
      case True
      then have in_ms: "(n, min s 1) \<in> set ms" using top(1) by (force simp: ms_def matches_from_def)
      then obtain h hs where ms: "ms = h # hs" by (cases ms) auto
      have "sorted_wrt (\<lambda>x y. snd x \<ge> snd y) ms" unfolding ms_def matches_from_def by (rule rank_by_sorted)
      then have "min s 1 \<le> snd h" using in_ms ms by auto
      moreover have "snd h \<le> min s 1" using le ms by simp
      ultimately have "snd h = min s 1" by (rule antisym [rotated])
      then have "h = (fst h, min s 1)" by (metis prod.collapse)
      then show ?thesis using True assms(2) ms one all Some m by (simp add: ms_def) metis
    next
      case False
      then have "filter (\<lambda>(n, s). s \<ge> mn) xs = []" using top(2) by (force simp: filter_empty_conv)
      then have "ms = []" by (simp add: ms_def matches_from_def rank_by_def)
      then show ?thesis using False one all Some m by (simp add: ms_def)
    qed
  qed
qed (simp add: search_tier_def search_tier_all_def)

text \<open>A faint similarity lowers a score: the blend of words and meaning falls below the words alone.\<close>

theorem blend_dips_below_keywords:
  assumes "0 < s" and "s < keyword_confidence req d ts"
  shows "match_confidence req d ts (Some s) < match_confidence req d ts None"
proof -
  have "\<not> (py_strip req = [] \<or> tokenize req = [])" using assms by (auto simp: keyword_confidence_def)
  then show ?thesis using assms by (simp add: match_confidence_def Let_def min_def)
qed

section \<open>Downloads\<close>

text \<open>Names as a repository's listings give them: a name of a Git tree is one component, and neither empty nor made of one or two
  dots.\<close>

definition tree_name :: "string \<Rightarrow> bool" where
  "tree_name n \<longleftrightarrow> n \<noteq> [] \<and> n \<noteq> ''.'' \<and> n \<noteq> ''..'' \<and> CHR ''/'' \<notin> set n"

definition plain_listings :: "registry_env \<Rightarrow> bool" where
  "plain_listings env \<longleftrightarrow> (\<forall>url h es. rv_list env url h = Inr es \<longrightarrow> (\<forall>e \<in> set es. tree_name (gh_name e)))"

lemma tree_name_parts: "tree_name n \<Longrightarrow> path_parts n = [n]"
  by (simp add: tree_name_def path_parts_def split_on_none)

lemma tree_name_join: "tree_name n \<Longrightarrow> join_path (Some d) n = Some (d @ [n])"
  using tree_name_parts [of n] by (auto simp: join_path_def tree_name_def dest: hd_in_set)

text \<open>No file of a download touches a path that is not below its directory, nor the main file of the skill.\<close>

definition spares :: "path \<Rightarrow> (skill_files \<Rightarrow> (py_exn + 'a) \<times> skill_files) \<Rightarrow> bool" where
  "spares q f \<longleftrightarrow> (\<forall>fs v. dict_get fs q = Some v \<longrightarrow> dict_get (snd (f fs)) q = Some v)"

lemma make_way_spares: "dict_get fs q = Some v \<Longrightarrow> dict_get (snd (make_way p cs fs)) q = Some v"
proof (induction p cs fs rule: make_way.induct)
  case (2 p c cs fs)
  have "q \<noteq> p @ [c]" if "\<not> fs_exists fs (p @ [c])" using that 2(4) by (auto simp: fs_exists_def dict_has_def)
  then show ?case using 2 by (cases "p = []") auto
qed simp

lemma make_way_place: "''..'' \<notin> set cs \<Longrightarrow> make_way p cs fs = (Some r, fs') \<Longrightarrow> r = p @ cs"
  by (induction p cs fs rule: make_way.induct) (auto split: if_splits)

lemma save_download_spares:
  assumes "tree_name n" and "''..'' \<notin> set d" and "d @ [n] \<noteq> q"
  shows "spares q (save_download (Some d) n c)"
  unfolding spares_def
proof (intro allI impI)
  fix fs :: skill_files and v
  assume v: "dict_get fs q = Some v"
  obtain p fs1 where w: "make_way [] d fs = (p, fs1)" by fastforce
  have v1: "dict_get fs1 q = Some v" using make_way_spares [OF v, of "[]" d] w by simp
  show "dict_get (snd (save_download (Some d) n c fs)) q = Some v"
  proof (cases p)
    case None
    then show ?thesis using w v1 by (simp add: save_download_def)
  next
    case (Some r)
    then have "r = d" using make_way_place [OF assms(2), of "[]" fs r fs1] w by simp
    then have "n \<noteq> ''..''" "save_download (Some d) n c fs =
        (if \<not> fs_is_dir fs1 d then (Inr (), fs1)
         else case fs_write (d @ [n]) (Text c) fs1 of
           Inl x \<Rightarrow> (if os_exn x then Inr () else Inl x, fs1) | Inr fs \<Rightarrow> (Inr (), fs))"
      using w Some assms(1) by (simp_all add: save_download_def tree_name_join tree_name_parts tree_name_def)
    then show ?thesis using v1 assms(3) by (auto simp: fs_write_def split: if_splits)
  qed
qed

lemma download_file_spares:
  assumes "tree_name n" and "''..'' \<notin> set d" and "d @ [n] \<noteq> q"
  shows "spares q (download_file env url (Some d) n)"
  using save_download_spares [OF assms] by (auto simp: spares_def download_file_def split: sum.splits)

lemma download_entries_spares:
  assumes "\<And>n. tree_name n \<Longrightarrow> n \<noteq> SKILL_MD \<or> \<not> at_root \<Longrightarrow> d @ [n] \<noteq> q \<and> spares q (child n)"
    and "\<forall>e \<in> set es. tree_name (gh_name e)" and "''..'' \<notin> set d"
  shows "spares q (download_entries child env s api at_root (Some d) es)"
  using assms(2)
proof (induction es)
  case (Cons e es)
  let ?first = "\<lambda>fs. if gh_name e = SKILL_MD \<and> at_root then (Inr (), fs)
            else if gh_type e = ''file'' then
              (if gh_size e > 500000 then (Inr (), fs)
               else download_file env (slash_join (raw_url s api) (gh_name e)) (Some d) (gh_name e) fs)
            else if gh_type e = ''dir'' then child (gh_name e) fs
            else (Inr (), fs)"
  have "spares q ?first"
    using Cons.prems assms(1) [of "gh_name e"] download_file_spares [of "gh_name e" d q] assms(3) by (auto simp: spares_def)
  then show ?case using Cons unfolding spares_def by (auto split: prod.splits sum.splits) (metis snd_conv)+
qed (simp add: spares_def)

lemma download_directory_spares:
  "plain_listings env \<Longrightarrow> ''..'' \<notin> set d \<Longrightarrow> \<not> strict_prefix d q \<or> subpath = [] \<and> q = d @ [SKILL_MD] \<Longrightarrow>
     spares q (download_directory levels env s name subpath (Some d))"
proof (induction levels arbitrary: subpath d)
  case (Suc levels)
  have child: "d @ [n] \<noteq> q \<and>
      spares q (download_directory levels env s name (if subpath = [] then n else slash_join subpath n) (join_path (Some d) n))"
    if "tree_name n" "n \<noteq> SKILL_MD \<or> subpath \<noteq> []" for n
  proof -
    have "d @ [n] \<noteq> q \<and> \<not> strict_prefix (d @ [n]) q" "''..'' \<notin> set (d @ [n])"
      using Suc.prems that by (auto simp: strict_prefix_def prefix_def tree_name_def)
    then show ?thesis using Suc.IH Suc.prems(1) tree_name_join [OF that(1)] by simp
  qed
  show ?case
    unfolding spares_def
  proof (intro allI impI)
    fix fs :: skill_files and v
    assume v: "dict_get fs q = Some v"
    let ?api = "if subpath = [] then slash_join (sr_skills_path s) name else slash_join (slash_join (sr_skills_path s) name) subpath"
    show "dict_get (snd (download_directory (Suc levels) env s name subpath (Some d) fs)) q = Some v"
    proof (cases "rv_list env (listing_url s ?api) (github_headers env)")
      case (Inl x)
      then show ?thesis using v by (simp add: Let_def)
    next
      case (Inr es)
      then have "\<forall>e \<in> set es. tree_name (gh_name e)" using Suc.prems(1) unfolding plain_listings_def by blast
      from download_entries_spares [OF child this Suc.prems(2), of "subpath = []"] show ?thesis
        using v Inr by (simp add: Let_def spares_def)
    qed
  qed
qed (simp add: spares_def)

lemma fetch_rest_keeps:
  assumes "plain_listings env" and "''..'' \<notin> set d"
    and "fetch_rest env s name d fs = (Inr False, fs')" and "dict_get fs (d @ [SKILL_MD]) = Some v"
  shows "dict_get fs' (d @ [SKILL_MD]) = Some v"
proof -
  let ?q = "d @ [SKILL_MD]"
  obtain x fs1 where one: "download_directory DOWNLOAD_LEVELS env s name [] (Some d) fs = (x, fs1)" by fastforce
  have k1: "dict_get fs1 ?q = Some v"
    using download_directory_spares [OF assms(1,2), of ?q "[]" DOWNLOAD_LEVELS s name] one assms(4) unfolding spares_def by (metis snd_conv)
  obtain y fs2 where two: "download_directory DOWNLOAD_LEVELS env s name ''scripts'' (Some (d @ [''scripts''])) fs1 = (y, fs2)" by fastforce
  have "\<not> strict_prefix (d @ [''scripts'']) ?q" "''..'' \<notin> set (d @ [''scripts''])" using assms(2) by (simp_all add: strict_prefix_def)
  then have k2: "dict_get fs2 ?q = Some v"
    using download_directory_spares [OF assms(1), of "d @ [''scripts'']" ?q "''scripts''" DOWNLOAD_LEVELS s name] two k1
    unfolding spares_def by (metis snd_conv)
  show ?thesis
    using assms(3) one two k1 k2
    by (auto simp: fetch_rest_def download_scripts_def Let_def split: sum.splits if_splits)
qed

lemma forget_catalog_world [simp]: "rg_world (forget_catalog_entry a b r) = rg_world r"
  by (simp add: forget_catalog_entry_def split: option.splits)

lemma with_files_world [simp]:
  "rg_world (with_files fs r) = (rg_world r)\<lparr>w_files := fs\<rparr>"
  by (simp add: with_files_def)

lemma download_cases:
  assumes "download_remote_skill env n s r = (Some (m, p), r')"
  obtains content fs fs' where
    "m = n" "p = tier_dir Official @ [n]" "is_ok (validate_skill_name n)"
    "rv_fetch env (slash_join (raw_url s (slash_join (sr_skills_path s) n)) SKILL_MD) (github_headers env) = Inr content"
    "is_ok (validate_skill_content (en_search (rv_skill env)) (en_utf8 (rv_skill env)) content)"
    "fs_write (p @ [SKILL_MD]) (Text content) (fs_makedirs p (w_files (rg_world r))) = Inr fs"
    "fetch_rest env s n p fs = (Inr False, fs')" "\<not> critical_in env fs' p"
    "rg_world r' = set_index Official (dict_set n (downloaded_entry env s n p content) (skills_in (rg_world r) Official))
       ((rg_world r)\<lparr>w_files := fs', w_security := store_integrity_hash (en_digest (rv_skill env)) n content (w_security (rg_world r))\<rparr>)"
  using assms
  by (auto simp: download_remote_skill_def Let_def skills_in_def set_index_def split: sum.splits if_splits prod.splits)

lemma valid_name_no_dots: "is_ok (validate_skill_name n) \<Longrightarrow> n \<noteq> ''..''"
  by (auto simp: validate_skill_name_def valid_skill_name_re_def chomp_def kebab_case_def lower_letter_def split: if_splits)

text \<open>C17: A skill that was downloaded from listings of plain names is fit for use: its name and its main file as fetched passed
  the checks, none of its scripts is critical, and no other file of the download replaced the main file.
  Loading it by name reads the fetched text with its line ends turned into newlines: a text without carriage returns loads as it
  was checked, and one whose digest this changes does not load.\<close>

theorem downloaded_skill_is_vetted_and_loads:
  assumes "download_remote_skill env n s r = (Some (m, p), r')" and "dict_get (w_workspace (rg_world r)) n = None"
    and "plain_listings env"
  shows "m = n \<and> is_ok (validate_skill_name n) \<and> \<not> critical_in env (w_files (rg_world r')) p
    \<and> (\<exists>content. rv_fetch env (slash_join (raw_url s (slash_join (sr_skills_path s) n)) SKILL_MD) (github_headers env) = Inr content
         \<and> is_ok (validate_skill_content (en_search (rv_skill env)) (en_utf8 (rv_skill env)) content)
         \<and> (CHR 0x0D \<notin> set content \<longrightarrow> fst (load_skill (rv_skill env) n (rg_world r')) = Some content)
         \<and> fst (load_skill (rv_skill env) n (rg_world r')) =
             (if en_digest (rv_skill env) (universal_newlines content) = en_digest (rv_skill env) content
              then Some (universal_newlines content) else None))"
proof (rule download_cases [OF assms(1)])
  fix content fs fs'
  assume c: "m = n" "p = tier_dir Official @ [n]" "is_ok (validate_skill_name n)"
    "rv_fetch env (slash_join (raw_url s (slash_join (sr_skills_path s) n)) SKILL_MD) (github_headers env) = Inr content"
    "is_ok (validate_skill_content (en_search (rv_skill env)) (en_utf8 (rv_skill env)) content)"
    "fs_write (p @ [SKILL_MD]) (Text content) (fs_makedirs p (w_files (rg_world r))) = Inr fs"
    "fetch_rest env s n p fs = (Inr False, fs')" "\<not> critical_in env fs' p"
    and w: "rg_world r' = set_index Official (dict_set n (downloaded_entry env s n p content) (skills_in (rg_world r) Official))
       ((rg_world r)\<lparr>w_files := fs', w_security := store_integrity_hash (en_digest (rv_skill env)) n content (w_security (rg_world r))\<rparr>)"
  have "dict_get fs (p @ [SKILL_MD]) = Some (File (Text content))" using c(6) by (auto simp: fs_write_def split: if_splits)
  moreover have "''..'' \<notin> set p" using c(2) valid_name_no_dots [OF c(3)] by (auto simp: tier_dir_def)
  ultimately have "fs_read fs' (p @ [SKILL_MD]) = Some (Text content)"
    using fetch_rest_keeps [OF assms(3) _ c(7)] by (simp add: fs_read_def)
  then have l: "fst (load_skill (rv_skill env) n (rg_world r')) =
      (if en_digest (rv_skill env) (universal_newlines content) = en_digest (rv_skill env) content
       then Some (universal_newlines content) else None)"
    using assms(2)
    by (simp add: w load_skill_def find_tier_def set_index_def skills_in_def downloaded_entry_def Let_def verify_integrity_def
        store_integrity_hash_def)
  moreover have "\<not> critical_in env (w_files (rg_world r')) p" using c(8) w by (simp add: set_index_def)
  ultimately show ?thesis using c(1,3,4,5) by (auto simp: universal_newlines_id)
qed

text \<open>The tools a source grants by default never reach a skill: the configuration of a source can name any tools, the entry of
  a downloaded skill is the same.\<close>

theorem default_tools_are_dropped:
  "downloaded_entry env (s\<lparr>sr_default_tools := tools\<rparr>) n p content = downloaded_entry env s n p content"
  by (simp add: downloaded_entry_def)

section \<open>Examples\<close>

definition sample_registry_env :: registry_env where
  "sample_registry_env = \<lparr>rv_skill = sample_env, rv_embed = sample_embed_env, rv_clock = 0, rv_environ = [],
     rv_list = (\<lambda>_ _. Inr []), rv_fetch = (\<lambda>_ _. Inr ''use tabs''), rv_sources = DEFAULT_SOURCES, rv_config_remote = True,
     rv_scan_scripts = True, rv_outside = [], rv_read_index = (\<lambda>_. Inr []), rv_official = 0.4, rv_local = 0.35, rv_temp = 0.35\<rparr>"

definition sample_registry :: "(string, skill_entry) py_dict \<Rightarrow> registry" where
  "sample_registry local_skills = \<lparr>rg_world = sample_world\<lparr>w_index := (\<lambda>_. [])(Local := local_skills)\<rparr>,
     rg_cache = new_embed_cache None No_File, rg_last_query = None, rg_catalogs = [], rg_local_sources = [], rg_local_indexes = []\<rparr>"

theorem good_record_answers_everything_witness:
  "\<exists>t m p. fst (find_skill sample_registry_env ''bake bread'' (sample_registry [(''fmt'', sample_entry)])) = Found t m p
     \<and> t \<in> {''workspace'', ''official'', ''local''}"
  by (rule good_record_answers_everything [of "''fmt''" sample_entry])
    (simp_all add: sample_registry_def skills_in_def sample_entry_def sample_registry_env_def)

theorem best_match_heads_the_list_witness:
  "case fst (search_tier sample_registry_env ''fmt'' Local (sample_registry [])) of
      Some (n, c) \<Rightarrow> if (0.35::real) \<le> c then \<exists>n' ms. fst (search_tier_all sample_registry_env ''fmt'' Local 0.35 (sample_registry [])) = (n', c) # ms
        else fst (search_tier_all sample_registry_env ''fmt'' Local 0.35 (sample_registry [])) = []
    | None \<Rightarrow> fst (search_tier_all sample_registry_env ''fmt'' Local 0.35 (sample_registry [])) = []"
  by (rule best_match_heads_the_list) simp_all

lemma keyword_confidence_example: "keyword_confidence ''format code'' ''format code'' [] = 0.8"
proof -
  have "tokenize ''format code'' = [''format'', ''code'']" "tokenize [] = []" "py_strip ''format code'' = ''format code''"
    "py_strip (blank_marks ''format code'') = ''format code''" "blank_marks ''format code'' = ''format code''"
    "str_contains ''format code'' ''format code''" "\<not> str_contains ''format code'' (py_lower (blank_marks []))"
    by code_simp+
  then show ?thesis by (simp add: keyword_confidence_def token_overlap_def substring_bonus_def Let_def)
qed

theorem blend_dips_below_keywords_witness:
  "match_confidence ''format code'' ''format code'' [] (Some 0.1) < match_confidence ''format code'' ''format code'' [] None"
  by (rule blend_dips_below_keywords) (simp_all add: keyword_confidence_example)

lemma sample_download:
  "fst (download_remote_skill sample_registry_env ''tabs'' (new_skill_source ''a'' ''a/b'' ''high'' []) (sample_registry []))
     = Some (''tabs'', [''official'', ''tabs''])"
proof -
  have "is_ok (validate_skill_name ''tabs'')"
    by (simp add: validate_skill_name_def valid_skill_name_re_def chomp_def kebab_case_def lower_letter_def MAX_SKILL_NAME_LENGTH_def)
  moreover have "is_ok (validate_skill_path [''official'', ''tabs''] [''official''])" by (simp add: validate_skill_path_def)
  moreover have "is_ok (validate_skill_content (en_search sample_env) (en_utf8 sample_env) ''use tabs'')"
    by (simp add: validate_skill_content_def severity_count_def MAX_SKILL_FILE_SIZE_def sample_env_def Let_def)
  moreover have "\<exists>fs. fs_write [''official'', ''tabs'', ''SKILL.md''] (Text ''use tabs'')
      (fs_makedirs [''official'', ''tabs''] (w_files sample_world)) = Inr fs"
    unfolding fs_write_def fs_is_dir_def fs_makedirs_get by (simp add: sample_world_def dict_get_def)
  moreover have "download_directory DOWNLOAD_LEVELS sample_registry_env s n q p fs = (Inr (), fs)" for s n q p fs
    by (simp add: DOWNLOAD_LEVELS_def eval_nat_numeral sample_registry_env_def Let_def)
  moreover have "\<not> critical_in sample_registry_env fs p" for fs p
    by (auto simp: critical_in_def scan_bundled_scripts_def ast_scan_script_def sample_registry_env_def sample_env_def list_ex_iff)
  ultimately show ?thesis
    by (auto simp: download_remote_skill_def sample_registry_def sample_registry_env_def tier_dir_def SKILL_MD_def fetch_rest_def
        download_scripts_def Let_def)
qed

theorem downloaded_skill_is_vetted_and_loads_witness:
  "fst (load_skill sample_env ''tabs'' (rg_world (snd (download_remote_skill sample_registry_env ''tabs''
     (new_skill_source ''a'' ''a/b'' ''high'' []) (sample_registry []))))) = Some ''use tabs''"
proof -
  let ?d = "download_remote_skill sample_registry_env ''tabs'' (new_skill_source ''a'' ''a/b'' ''high'' []) (sample_registry [])"
  have "?d = (Some (''tabs'', [''official'', ''tabs'']), snd ?d)" using sample_download by (metis prod.collapse)
  moreover have "dict_get (w_workspace (rg_world (sample_registry []))) ''tabs'' = None"
    by (simp add: sample_registry_def sample_world_def)
  moreover have "plain_listings sample_registry_env" by (simp add: plain_listings_def sample_registry_env_def)
  ultimately obtain c where "rv_fetch sample_registry_env (slash_join (raw_url (new_skill_source ''a'' ''a/b'' ''high'' [])
        (slash_join (sr_skills_path (new_skill_source ''a'' ''a/b'' ''high'' [])) ''tabs'')) SKILL_MD)
      (github_headers sample_registry_env) = Inr c"
    "CHR 0x0D \<notin> set c \<longrightarrow> fst (load_skill (rv_skill sample_registry_env) ''tabs'' (rg_world (snd ?d))) = Some c"
    using downloaded_skill_is_vetted_and_loads [of sample_registry_env "''tabs''" "new_skill_source ''a'' ''a/b'' ''high'' []"
      "sample_registry []" "''tabs''" "[''official'', ''tabs'']" "snd ?d"] by blast
  moreover from this(1) have "''use tabs'' = c" by (simp add: sample_registry_env_def)
  moreover have "rv_skill sample_registry_env = sample_env" by (simp add: sample_registry_env_def)
  ultimately show ?thesis by auto
qed

end
