(* ===== verification/Skill_Loader.thy ===== *)
theory Skill_Loader
  imports Skill_Versions Skill_Frontmatter Agent_State
begin

text \<open>
  \<^verbatim>\<open>agents/skill_loader.py\<close>: the node that reads the skills the router found, after scanning the project and connected
  repositories for skills; what of a skill goes into a prompt. The entries of \<^verbatim>\<open>debug_info\<close> are left out.
\<close>

section \<open>Scanning\<close>

text \<open>\<open>le_project\<close> is the file system around the registry; \<open>Path\<close> and \<open>str\<close> of a path are parameters, and so are the digest of
  the buckets, which ends in a number, and \<open>float\<close>.\<close>

record loader_env =
  le_skill :: skill_env
  le_environ :: "(string, string) py_dict"
  le_project :: "string files"
  le_path :: "string \<Rightarrow> path"
  le_show :: "path \<Rightarrow> string"
  le_digest0 :: "string \<Rightarrow> nat"
  le_float :: "string \<Rightarrow> real option"

definition add_new :: "string list \<Rightarrow> string \<Rightarrow> string list" where
  "add_new ds d = (if d \<noteq> [] \<and> d \<notin> set ds then ds @ [d] else ds)"

definition dirs_to_scan :: "loader_env \<Rightarrow> string \<Rightarrow> string list \<Rightarrow> string list" where
  "dirs_to_scan env workspace repo_dirs =
     (let ds = (if workspace \<noteq> [] then [workspace] else []);
          ds = foldl add_new ds repo_dirs
      in foldl add_new ds (map py_strip (split_on (CHR '':'') (dict_get_or (le_environ env) ''VIBE_SKILL_REPOS'' []))))"

definition scan_skill_sources :: "loader_env \<Rightarrow> string \<Rightarrow> string list \<Rightarrow> skill_world \<Rightarrow> skill_world" where
  "scan_skill_sources env workspace repo_dirs w =
     fold (\<lambda>d w. fst (scan_workspace (le_skill env) (le_project env) (le_path env d) w)) (dirs_to_scan env workspace repo_dirs) w"

section \<open>Loading\<close>

text \<open>Of the versions of a skill the one of the run's bucket; the entry is changed in place.\<close>

definition choose_version :: "loader_env \<Rightarrow> string \<Rightarrow> skill_world \<Rightarrow> json_obj \<Rightarrow> string \<Rightarrow> py_exn + (json_obj \<times> string)" where
  "choose_version env session w info name =
     (case dict_get info ''skill_path'' of
        None \<Rightarrow> Inr (info, name)
      | Some raw \<Rightarrow>
          if raw = [] then Inr (info, name)
          else
            (let versions = list_versions_for (base_name name) (butlast (le_path env raw)) (w_files w) in
             if length versions > 1 then
               res_bind (pick_active_version (le_digest0 env) versions session) (\<lambda>chosen.
                 if last chosen \<noteq> name
                 then Inr (dict_set ''skill_path'' (le_show env chosen) (dict_set ''skill_name'' (last chosen) info), last chosen)
                 else Inr (info, name))
             else Inr (info, name)))"

text \<open>Trust level and default tools of a skill.\<close>

definition skill_index_data :: "string \<Rightarrow> skill_world \<Rightarrow> string \<times> string" where
  "skill_index_data name w =
     (if dict_has (w_workspace w) name then (''standard'', [])
      else case find_tier w name of
        None \<Rightarrow> (''standard'', [])
      | Some t \<Rightarrow>
          (case dict_get (skills_in w t) name of
             Some d \<Rightarrow> (case sk_origin d of Some og \<Rightarrow> so_trust_level og | None \<Rightarrow> ''standard'', [])
           | None \<Rightarrow> (''standard'', [])))"

definition loaded_from :: "loader_env \<Rightarrow> json_obj \<Rightarrow> string \<Rightarrow> string \<Rightarrow> skill_world \<Rightarrow> loaded_skill" where
  "loaded_from env info name content w =
     (let (trust, tools) = skill_index_data name w;
          adapter = (case parse_adapter_prompt content of
             Some p \<Rightarrow> if p \<noteq> [] \<and> \<not> validate_adapter_prompt (en_search (le_skill env)) p then None else Some p
           | None \<Rightarrow> None)
      in \<lparr>ls_name = Some name, ls_tier = dict_get_or info ''tier'' ''unknown'',
          ls_task_type = Some (dict_get_or info ''task_type'' ''general''), ls_task_types = parse_task_types content,
          ls_content = Some content, ls_path = dict_get_or info ''skill_path'' [],
          ls_allowed_tools = Some (parse_allowed_tools content trust tools), ls_quality_criteria = parse_quality_criteria content,
          ls_adapter_prompt = adapter, ls_generation_config = parse_generation_config (le_float env) content,
          ls_tools_enabled = parse_tools_enabled content\<rparr>)"

text \<open>The loop: entries as they are afterwards, the skills loaded, the world.\<close>

fun load_each ::
    "loader_env \<Rightarrow> string \<Rightarrow> json_obj list \<Rightarrow> skill_world \<Rightarrow> (py_exn + json_obj list \<times> loaded_skill list) \<times> skill_world" where
  "load_each env session [] w = (Inr ([], []), w)"
| "load_each env session (info # infos) w =
     (let name = dict_get_or info ''skill_name'' [] in
      if name = [] then
        (case load_each env session infos w of
           (Inl x, w) \<Rightarrow> (Inl x, w)
         | (Inr (is, ls), w) \<Rightarrow> (Inr (info # is, ls), w))
      else
        (case choose_version env session w info name of
           Inl x \<Rightarrow> (Inl x, w)
         | Inr (info, name) \<Rightarrow>
             (let (content, w) = load_skill (le_skill env) name w;
                  here = (case content of Some c \<Rightarrow> if c \<noteq> [] then [loaded_from env info name c w] else [] | None \<Rightarrow> [])
              in (case load_each env session infos w of
                    (Inl x, w) \<Rightarrow> (Inl x, w)
                  | (Inr (is, ls), w) \<Rightarrow> (Inr (info # is, here @ ls), w)))))"

definition load_skills :: "loader_env \<Rightarrow> string \<Rightarrow> string list \<Rightarrow> agent_state \<Rightarrow> skill_world \<Rightarrow> (py_exn + agent_state) \<times> skill_world" where
  "load_skills env workspace repo_dirs s w =
     (let w = scan_skill_sources env workspace repo_dirs w;
          infos = (case discovered_skills s of None \<Rightarrow> [] | Some is \<Rightarrow> is)
      in if infos = [] then (Inr s, w)
         else
           (case load_each env (case session_id s of None \<Rightarrow> [] | Some i \<Rightarrow> i) infos w of
              (Inl x, w) \<Rightarrow> (Inl x, w)
            | (Inr (is, ls), w) \<Rightarrow> (Inr (s\<lparr>discovered_skills := Some is, loaded_skills := Some ls\<rparr>), w)))"

definition get_skills_for_task :: "agent_state \<Rightarrow> string \<Rightarrow> loaded_skill list" where
  "get_skills_for_task s ty =
     filter (\<lambda>k. ls_task_type k = Some ty) (case loaded_skills s of None \<Rightarrow> [] | Some ls \<Rightarrow> ls)"

section \<open>Skills in prompts\<close>

text \<open>\<open>strip\<close> of one character at both ends.\<close>

definition strip_of :: "char \<Rightarrow> string \<Rightarrow> string" where
  "strip_of c s = rev (dropWhile (\<lambda>x. x = c) (rev (dropWhile (\<lambda>x. x = c) s)))"

definition first_line :: "string \<Rightarrow> string" where
  "first_line s = hd (split_on (CHR 0x0A) s)"

definition description_line :: "string list \<Rightarrow> string option" where
  "description_line ls =
     (case find (\<lambda>l. prefix ''description:'' l) (map py_strip ls) of
        None \<Rightarrow> None
      | Some l \<Rightarrow> Some (take 200 (strip_of (CHR 0x27) (strip_of (CHR 0x22) (py_strip (drop 12 l))))))"

definition extract_description :: "string \<Rightarrow> string" where
  "extract_description content =
     (if take 3 content \<noteq> ''---'' then first_line (take 100 content)
      else case split_first ''---'' (drop 3 content) of
        None \<Rightarrow> first_line (take 100 content)
      | Some (fm, rest) \<Rightarrow>
          (case description_line (split_on (CHR 0x0A) fm) of
             Some d \<Rightarrow> d
           | None \<Rightarrow> take 200 (first_line (py_strip rest))))"

definition TRUNCATED :: string where
  "TRUNCATED = nl @ nl @ ''[...content truncated...]''"

definition cut_at :: "nat \<Rightarrow> string \<Rightarrow> string" where
  "cut_at n s = (if length s > n then take n s @ TRUNCATED else take n s)"

text \<open>What is formatted: name, tier, content.\<close>

definition format_skills_for_context :: "(string \<times> string \<times> string) list \<Rightarrow> nat \<Rightarrow> string" where
  "format_skills_for_context skills max_length =
     (case skills of
        [] \<Rightarrow> []
      | [(n, t, c)] \<Rightarrow> nl @ ''# Skill: '' @ n @ nl @ nl @ cut_at max_length c @ nl
      | (n, t, c) # rest \<Rightarrow>
          ''# Primary Skill: '' @ n @ nl @ nl @ cut_at (7 * max_length div 10) c
          @ nl @ nl @ ''# Additional Skills (available on request)'' @ nl @ nl
          @ concat (map (\<lambda>(n, t, c). ''- **'' @ n @ ''** ('' @ t @ ''): '' @ extract_description c @ nl) rest))"

definition extract_metadata :: "skill_file files \<Rightarrow> string \<Rightarrow> path \<Rightarrow> string \<times> string" where
  "extract_metadata fs skill_name skill_path =
     (case fs_read fs (skill_path @ [SKILL_MD]) of
        None \<Rightarrow> (skill_name, [])
      | Some f \<Rightarrow>
          (let meta = parse_frontmatter (take 2048 (text_of f))
           in (dict_get_or meta ''name'' skill_name, dict_get_or meta ''description'' [])))"

text \<open>A script of a skill runs in a sandbox only; the sandbox answers with its output or fails.\<close>

definition execute_skill_script :: "skill_file files \<Rightarrow> path \<Rightarrow> string \<Rightarrow> (path \<Rightarrow> py_exn + string) option \<Rightarrow> string option" where
  "execute_skill_script fs skill_path script_name sandbox =
     (let p = skill_path @ [''scripts'', script_name] in
      if \<not> fs_exists fs p then None
      else case sandbox of
        None \<Rightarrow> None
      | Some run \<Rightarrow> (case run p of Inl _ \<Rightarrow> None | Inr out \<Rightarrow> Some out))"

section \<open>Lemmas\<close>

lemma load_skill_workspace: "w_workspace (snd (load_skill env n w)) = w_workspace w"
  by (auto simp: load_skill_def Let_def split: option.splits prod.splits)

lemma load_skill_of_workspace: "dict_get (w_workspace w) n = Some k \<Longrightarrow> load_skill env n w = (Some (wk_content k), w)"
  by (simp add: load_skill_def)

lemma skill_index_data_tools: "snd (skill_index_data n w) = []"
  by (simp add: skill_index_data_def split: option.splits)

lemma loaded_from_fields:
  "ls_name (loaded_from env info n c w) = Some n" "ls_content (loaded_from env info n c w) = Some c"
  "ls_allowed_tools (loaded_from env info n c w) = Some (parse_allowed_tools c (fst (skill_index_data n w)) [])"
  using skill_index_data_tools [of n w] by (simp_all add: loaded_from_def case_prod_unfold Let_def)

text \<open>No adapter prompt that fails the check survives.\<close>

lemma loaded_adapter_checked:
  "ls_adapter_prompt (loaded_from env info n c w) = Some p \<Longrightarrow> p \<noteq> [] \<Longrightarrow> validate_adapter_prompt (en_search (le_skill env)) p"
  by (auto simp: loaded_from_def Let_def case_prod_unfold split: option.splits if_splits)

lemma load_each_Cons:
  assumes "fst (load_each env session (info # infos) w) = Inr (is, ls)"
  obtains w' is' ls' here where "fst (load_each env session infos w') = Inr (is', ls')" "ls = here @ ls'"
    "\<forall>k \<in> set here. \<exists>info n c w. c \<noteq> [] \<and> fst (load_skill (le_skill env) n w) = Some c
       \<and> k = loaded_from env info n c (snd (load_skill (le_skill env) n w))"
proof (cases "dict_get_or info ''skill_name'' [] = []")
  case True
  obtain r w2 where r: "load_each env session infos w = (r, w2)" by fastforce
  show ?thesis using assms True r by (cases r) (auto intro: that [of w _ _ "[]"] split: prod.splits)
next
  case False
  obtain i2 n where cv: "choose_version env session w info (dict_get_or info ''skill_name'' []) = Inr (i2, n)"
    using assms False by (cases "choose_version env session w info (dict_get_or info ''skill_name'' [])") auto
  obtain co w1 where l: "load_skill (le_skill env) n w = (co, w1)" by fastforce
  define here where "here = (case co of Some c \<Rightarrow> if c \<noteq> [] then [loaded_from env i2 n c w1] else [] | None \<Rightarrow> [])"
  obtain r w2 where r: "load_each env session infos w1 = (r, w2)" by fastforce
  have step: "load_each env session (info # infos) w =
      (case r of Inl x \<Rightarrow> (Inl x, w2) | Inr (is, ls) \<Rightarrow> (Inr (i2 # is, here @ ls), w2))"
    using False cv l r by (simp add: here_def Let_def split: sum.splits)
  obtain is' ls' where r2: "r = Inr (is', ls')" using assms step by (cases r) auto
  show ?thesis
  proof (rule that)
    show "fst (load_each env session infos w1) = Inr (is', ls')" using r r2 by simp
    show "ls = here @ ls'" using assms step r2 by simp
    show "\<forall>k \<in> set here. \<exists>info n c w. c \<noteq> [] \<and> fst (load_skill (le_skill env) n w) = Some c
       \<and> k = loaded_from env info n c (snd (load_skill (le_skill env) n w))"
      using l by (auto simp: here_def split: option.splits if_splits) (metis fst_conv snd_conv)
  qed
qed

lemma load_each_invariant:
  assumes "\<And>info n c w. c \<noteq> [] \<Longrightarrow> P (loaded_from env info n c w)"
    and "fst (load_each env session infos w) = Inr (is, ls)"
  shows "\<forall>k \<in> set ls. P k"
  using assms(2)
proof (induction infos arbitrary: w "is" ls)
  case (Cons info infos)
  obtain w' is' ls' here where h: "fst (load_each env session infos w') = Inr (is', ls')" "ls = here @ ls'"
    "\<forall>k \<in> set here. \<exists>info n c w. c \<noteq> [] \<and> fst (load_skill (le_skill env) n w) = Some c
       \<and> k = loaded_from env info n c (snd (load_skill (le_skill env) n w))"
    by (rule load_each_Cons [OF Cons.prems])
  show ?case using Cons.IH [OF h(1)] h(2,3) assms(1) by auto
qed simp

section \<open>Properties\<close>

text \<open>A loaded skill may use only tools the system knows, and brings no adapter prompt that fails the check for injections.\<close>

theorem loaded_skills_are_restricted:
  assumes "fst (load_skills env workspace repos s w) = Inr s'" and "discovered_skills s \<noteq> None" and "discovered_skills s \<noteq> Some []"
    and "loaded_skills s' = Some ls" and "k \<in> set ls"
  shows "(\<exists>n c tr. ls_name k = Some n \<and> ls_content k = Some c \<and> c \<noteq> [] \<and> ls_allowed_tools k = Some (parse_allowed_tools c tr []))
    \<and> (\<forall>p. ls_adapter_prompt k = Some p \<longrightarrow> p \<noteq> [] \<longrightarrow> validate_adapter_prompt (en_search (le_skill env)) p)"
proof -
  let ?w = "scan_skill_sources env workspace repos w"
  obtain infos where infos: "discovered_skills s = Some infos" "infos \<noteq> []" using assms(2,3) by auto
  define sid where "sid = (case session_id s of None \<Rightarrow> [] | Some i \<Rightarrow> i)"
  obtain is2 where run: "fst (load_each env sid infos ?w) = Inr (is2, ls)"
    using assms(1,4) infos by (auto simp: load_skills_def sid_def Let_def split: prod.splits sum.splits)
  let ?P = "\<lambda>k. (\<exists>n c tr. ls_name k = Some n \<and> ls_content k = Some c \<and> c \<noteq> [] \<and> ls_allowed_tools k = Some (parse_allowed_tools c tr []))
    \<and> (\<forall>p. ls_adapter_prompt k = Some p \<longrightarrow> p \<noteq> [] \<longrightarrow> validate_adapter_prompt (en_search (le_skill env)) p)"
  have "?P (loaded_from env info n c w)" if "c \<noteq> []" for info n c w
    using that loaded_from_fields [of env info n c w] loaded_adapter_checked [of env info n c w] by blast
  then show ?thesis using load_each_invariant [where P = ?P, OF _ run] assms(5) by blast
qed

text \<open>A skill file of the project takes the place of the official skill of the same name: whatever the router found under that
  name, in whatever tier and with whatever digest, what is loaded is the project's text.\<close>

theorem project_skill_shadows_official:
  assumes "dict_get (w_workspace w) n = Some k"
  shows "load_skill env n w = (Some (wk_content k), w) \<and> skill_index_data n w = (''standard'', [])"
  using assms by (simp add: load_skill_def skill_index_data_def dict_has_def)

definition sample_loader_env :: loader_env where
  "sample_loader_env = \<lparr>le_skill = sample_env, le_environ = [], le_project = [([''p''], Dir), ([''p'', ''skills''], Dir),
     ([''p'', ''skills'', ''fmt.md''], File (''---'' @ nl @ ''name: fmt'' @ nl @ ''description: d'' @ nl @ ''---''))],
     le_path = (\<lambda>s. [s]), le_show = concat, le_digest0 = (\<lambda>_. 0), le_float = (\<lambda>_. None)\<rparr>"

definition sample_request :: agent_state where
  "sample_request = empty_state\<lparr>discovered_skills := Some [[(''skill_name'', ''fmt''), (''tier'', ''temp'')]]\<rparr>"

definition fmt_text :: string where
  "fmt_text = ''---'' @ nl @ ''name: fmt'' @ nl @ ''description: d'' @ nl @ ''---''"

definition fmt_skill :: workspace_skill where
  "fmt_skill = \<lparr>wk_description = ''d'', wk_task_types = [], wk_content = fmt_text, wk_path = [''p'', ''skills'', ''fmt.md'']\<rparr>"

lemma fmt_entry: "workspace_entry sample_env [''p'', ''skills'', ''fmt.md''] fmt_text = Some (''fmt'', fmt_skill)"
proof -
  have "parse_frontmatter fmt_text = [(''name'', ''fmt''), (''description'', ''d'')]" by code_simp
  moreover have "validate_skill_name ''fmt'' = Inr ()"
    by (simp add: validate_skill_name_def valid_skill_name_re_def chomp_def kebab_case_def lower_letter_def MAX_SKILL_NAME_LENGTH_def)
  moreover have "is_ok (validate_skill_content (en_search sample_env) (en_utf8 sample_env) fmt_text)"
    by (simp add: validate_skill_content_def severity_count_def MAX_SKILL_FILE_SIZE_def sample_env_def fmt_text_def nl_def Let_def)
  moreover have "py_strip ''fmt'' = ''fmt''" "py_strip ''d'' = ''d''" "py_strip [] = []" by code_simp+
  ultimately show ?thesis
    by (auto simp: workspace_entry_def fmt_skill_def dict_get_or_def dict_get_def is_ok_iff Let_def)
qed

lemma sample_scan: "w_workspace (scan_skill_sources sample_loader_env ''p'' [] sample_world) = [(''fmt'', fmt_skill)]"
proof -
  have "dirs_to_scan sample_loader_env ''p'' [] = [''p'']" by code_simp
  moreover have "concat (map (skill_files_in (le_project sample_loader_env)) (search_dirs [''p''])) = [[''p'', ''skills'', ''fmt.md'']]"
    by code_simp
  moreover have "fs_is_dir (le_project sample_loader_env) [''p'']" by code_simp
  moreover have "fs_read (le_project sample_loader_env) [''p'', ''skills'', ''fmt.md''] = Some fmt_text" by code_simp
  moreover have "le_path sample_loader_env ''p'' = [''p'']" "le_skill sample_loader_env = sample_env"
    by (simp_all add: sample_loader_env_def)
  ultimately show ?thesis
    by (simp add: scan_skill_sources_def scan_workspace_def register_workspace_skill_def fmt_entry sample_world_def dict_set_def)
qed

theorem project_skill_shadows_official_witness:
  "fst (load_skill sample_env ''fmt'' (scan_skill_sources sample_loader_env ''p'' [] sample_world)) = Some fmt_text"
proof -
  have "dict_get (w_workspace (scan_skill_sources sample_loader_env ''p'' [] sample_world)) ''fmt''
      = Some fmt_skill"
    by (simp add: sample_scan dict_get_def)
  then show ?thesis using project_skill_shadows_official by (metis fmt_skill_def fst_conv workspace_skill.select_convs(3))
qed

lemma sample_load:
  "\<exists>s k. fst (load_skills sample_loader_env ''p'' [] sample_request sample_world) = Inr s \<and> loaded_skills s = Some [k]"
proof -
  have ws: "dict_get (w_workspace (scan_skill_sources sample_loader_env ''p'' [] sample_world)) ''fmt'' = Some fmt_skill"
    by (simp add: sample_scan dict_get_def)
  have "wk_content fmt_skill \<noteq> []" by code_simp
  then show ?thesis
    by (simp add: load_skills_def sample_request_def choose_version_def load_skill_of_workspace [OF ws] dict_get_or_def dict_get_def Let_def)
qed

theorem loaded_skills_are_restricted_witness:
  "\<exists>s k. fst (load_skills sample_loader_env ''p'' [] sample_request sample_world) = Inr s \<and> k \<in> set (the (loaded_skills s))
     \<and> (\<exists>c tr. ls_content k = Some c \<and> ls_allowed_tools k = Some (parse_allowed_tools c tr []))"
proof -
  obtain s k where s: "fst (load_skills sample_loader_env ''p'' [] sample_request sample_world) = Inr s" "loaded_skills s = Some [k]"
    using sample_load by blast
  have "discovered_skills sample_request \<noteq> None" "discovered_skills sample_request \<noteq> Some []" by (simp_all add: sample_request_def)
  then show ?thesis using loaded_skills_are_restricted [OF s(1) _ _ s(2)] s by (metis list.set_intros(1) option.sel)
qed

end
