(* ===== verification/Artifact_Store.thy ===== *)
theory Artifact_Store
  imports Vector_Search Agent_State
begin

text \<open>
  \<^verbatim>\<open>agents/artifact_store.py\<close>: the cache of results. The table is the list of its rows in the order of their row
  numbers; an upsert of a known key keeps the row's place. Times are microseconds; the digest is a parameter. Tool calls come
  back from JSON as they went in. Failures of the database are not modelled.
\<close>

section \<open>Rows\<close>

record artifact =
  af_key :: string
  af_spec :: string
  af_output :: string
  af_critic :: int
  af_final :: int
  af_tools :: "tool_call list"
  af_task_type :: string
  af_adapter :: string
  af_skills_hash :: string
  af_iterations :: int
  af_created :: int
  af_accessed :: int
  af_count :: int
  af_ttl :: int

record artifact_config =
  ac_max_entries :: int
  ac_default_ttl :: int
  ac_min_score :: int

definition DEFAULT_ARTIFACT_CONFIG :: artifact_config where
  "DEFAULT_ARTIFACT_CONFIG = \<lparr>ac_max_entries = 1000, ac_default_ttl = 3600, ac_min_score = 70\<rparr>"

type_synonym artifacts = "artifact list"

section \<open>Keys\<close>

definition NUL :: string where
  "NUL = [CHR 0x00]"

definition skills_text :: "loaded_skill list \<Rightarrow> string" where
  "skills_text ls = join_with ''|'' (sort_texts (map (\<lambda>k. case ls_name k of None \<Rightarrow> [] | Some n \<Rightarrow> n) ls))"

definition compute_cache_key :: "(string \<Rightarrow> string) \<Rightarrow> string \<Rightarrow> loaded_skill list \<Rightarrow> string \<Rightarrow> string \<Rightarrow> string" where
  "compute_cache_key digest specification ls task_type adapter =
     digest (join_with NUL [specification, skills_text ls, task_type, adapter])"

definition compute_skills_hash :: "(string \<Rightarrow> string) \<Rightarrow> loaded_skill list \<Rightarrow> string" where
  "compute_skills_hash digest ls = take 16 (digest (skills_text ls))"

section \<open>Looking up\<close>

definition seconds :: "int \<Rightarrow> int" where
  "seconds n = n * 1000000"

definition expired :: "int \<Rightarrow> artifact \<Rightarrow> bool" where
  "expired now a \<longleftrightarrow> af_ttl a > 0 \<and> now - af_created a > seconds (af_ttl a)"

definition row_of :: "string \<Rightarrow> artifacts \<Rightarrow> artifact option" where
  "row_of key rows = find (\<lambda>a. af_key a = key) rows"

definition delete_row :: "string \<Rightarrow> artifacts \<Rightarrow> artifacts" where
  "delete_row key rows = filter (\<lambda>a. af_key a \<noteq> key) rows"

definition touch :: "string \<Rightarrow> int \<Rightarrow> int \<Rightarrow> artifacts \<Rightarrow> artifacts" where
  "touch key now n rows = map (\<lambda>b. if af_key b = key then b\<lparr>af_accessed := now, af_count := n\<rparr> else b) rows"

definition artifact_lookup :: "int \<Rightarrow> string \<Rightarrow> artifacts \<Rightarrow> artifact option \<times> artifacts" where
  "artifact_lookup now key rows =
     (case row_of key rows of
        None \<Rightarrow> (None, rows)
      | Some a \<Rightarrow>
          if expired now a then (None, delete_row key rows)
          else
            (let a' = a\<lparr>af_accessed := now, af_count := af_count a + 1\<rparr>
             in (Some a', touch key now (af_count a + 1) rows)))"

section \<open>Storing\<close>

definition effective_score :: "int \<Rightarrow> int \<Rightarrow> int" where
  "effective_score final critic = (if final > 0 then final else critic)"

definition evict_artifacts :: "artifact_config \<Rightarrow> artifacts \<Rightarrow> artifacts" where
  "evict_artifacts cfg rows =
     (let count = int (length rows) in
      if count \<le> ac_max_entries cfg then rows
      else filter (\<lambda>a. af_key a \<notin> af_key ` set (take (nat (count - ac_max_entries cfg)) (sort_key af_accessed rows))) rows)"

definition upsert :: "artifact \<Rightarrow> artifacts \<Rightarrow> artifacts" where
  "upsert a rows =
     (if row_of (af_key a) rows = None then rows @ [a] else map (\<lambda>b. if af_key b = af_key a then a else b) rows)"

text \<open>The row of a request to store, at a time, with the lifetime given or the default.\<close>

definition new_artifact ::
    "artifact_config \<Rightarrow> int \<Rightarrow> string \<Rightarrow> string \<Rightarrow> string \<Rightarrow> int \<Rightarrow> int \<Rightarrow> tool_call list \<Rightarrow> string \<Rightarrow> string \<Rightarrow> string \<Rightarrow> int
      \<Rightarrow> int option \<Rightarrow> artifact" where
  "new_artifact cfg now key specification output critic final tools task_type adapter skills_hash iterations ttl =
     \<lparr>af_key = key, af_spec = take 2000 specification, af_output = output, af_critic = critic, af_final = final, af_tools = tools,
      af_task_type = task_type, af_adapter = adapter, af_skills_hash = skills_hash, af_iterations = iterations, af_created = now,
      af_accessed = now, af_count = 0, af_ttl = (case ttl of None \<Rightarrow> ac_default_ttl cfg | Some t \<Rightarrow> t)\<rparr>"

definition artifact_store :: "artifact_config \<Rightarrow> artifact \<Rightarrow> artifacts \<Rightarrow> bool \<times> artifacts" where
  "artifact_store cfg a rows =
     (let score = effective_score (af_final a) (af_critic a) in
      if score < ac_min_score cfg then (False, rows)
      else if py_strip (af_output a) = [] then (False, rows)
      else
        (case row_of (af_key a) rows of
           Some b \<Rightarrow> if effective_score (af_final b) (af_critic b) \<ge> score then (False, rows)
                     else (True, evict_artifacts cfg (upsert a rows))
         | None \<Rightarrow> (True, evict_artifacts cfg (upsert a rows))))"

section \<open>Removing\<close>

text \<open>The database compares times cut to seconds.\<close>

definition cleanup_artifacts :: "int \<Rightarrow> artifacts \<Rightarrow> nat \<times> artifacts" where
  "cleanup_artifacts now rows =
     (let gone = (\<lambda>a. af_ttl a > 0 \<and> af_created a div 1000000 < now div 1000000 - af_ttl a)
      in (length (filter gone rows), filter (\<lambda>a. \<not> gone a) rows))"

definition artifact_invalidate :: "string \<Rightarrow> artifacts \<Rightarrow> bool \<times> artifacts" where
  "artifact_invalidate key rows = (row_of key rows \<noteq> None, delete_row key rows)"

definition invalidate_by_task_type :: "string \<Rightarrow> artifacts \<Rightarrow> nat \<times> artifacts" where
  "invalidate_by_task_type ty rows =
     (length (filter (\<lambda>a. af_task_type a = ty) rows), filter (\<lambda>a. af_task_type a \<noteq> ty) rows)"

definition clear_artifacts :: "artifacts \<Rightarrow> nat \<times> artifacts" where
  "clear_artifacts rows = (length rows, [])"

section \<open>Statistics\<close>

record type_summary =
  ty_count :: nat
  ty_avg_score :: real
  ty_hits :: int
  ty_avg_iterations :: real

definition average_int :: "int list \<Rightarrow> real" where
  "average_int xs = real_of_int (sum_list xs) / real (length xs)"

text \<open>Rounding to one decimal is left to the reader of the numbers.\<close>

definition summary_of :: "artifacts \<Rightarrow> type_summary" where
  "summary_of rows = \<lparr>ty_count = length rows, ty_avg_score = average_int (map af_final rows), ty_hits = sum_list (map af_count rows),
     ty_avg_iterations = average_int (map af_iterations rows)\<rparr>"

record artifact_stats =
  as_total :: nat
  as_hits :: int
  as_by_type :: "(string, type_summary) py_dict"
  as_oldest :: "int option"
  as_newest :: "int option"

definition artifact_statistics :: "artifacts \<Rightarrow> artifact_stats" where
  "artifact_statistics rows =
     (if rows = [] then \<lparr>as_total = 0, as_hits = 0, as_by_type = [], as_oldest = None, as_newest = None\<rparr>
      else
        (let by_type = map (\<lambda>ty. (ty, summary_of (filter (\<lambda>a. af_task_type a = ty) rows))) (sort_texts (remdups (map af_task_type rows)))
         in \<lparr>as_total = length rows, as_hits = sum_list (map (ty_hits \<circ> snd) by_type), as_by_type = by_type,
             as_oldest = Some (Min (set (map af_created rows))), as_newest = Some (Max (set (map af_created rows)))\<rparr>))"

section \<open>Lemmas\<close>

definition artifacts_ok :: "artifact_config \<Rightarrow> artifacts \<Rightarrow> bool" where
  "artifacts_ok cfg rows \<longleftrightarrow> distinct (map af_key rows) \<and> int (length rows) \<le> ac_max_entries cfg
     \<and> (\<forall>a \<in> set rows. effective_score (af_final a) (af_critic a) \<ge> ac_min_score cfg \<and> py_strip (af_output a) \<noteq> [])"

lemma row_of_Some: "row_of k rows = Some a \<Longrightarrow> a \<in> set rows \<and> af_key a = k"
  by (auto simp: row_of_def find_Some_iff)

lemma row_of_None: "row_of k rows = None \<longleftrightarrow> k \<notin> af_key ` set rows"
  by (auto simp: row_of_def find_None_iff)

lemma row_of_member: "distinct (map af_key rows) \<Longrightarrow> a \<in> set rows \<Longrightarrow> row_of (af_key a) rows = Some a"
  by (induction rows) (auto simp: row_of_def rev_image_eqI)

lemma row_of_filter: "distinct (map af_key rows) \<Longrightarrow>
    row_of k (filter P rows) = (case row_of k rows of None \<Rightarrow> None | Some a \<Rightarrow> if P a then Some a else None)"
proof (induction rows)
  case (Cons a rows)
  show ?case
  proof (cases "af_key a = k")
    case True
    then have "row_of k (filter P rows) = None" using Cons.prems by (auto simp: row_of_None)
    then show ?thesis using True by (simp add: row_of_def)
  next
    case False
    then show ?thesis using Cons by (simp add: row_of_def)
  qed
qed (simp add: row_of_def)

lemma map_keys_upsert: "map af_key (upsert a rows) = (if af_key a \<in> af_key ` set rows then map af_key rows else map af_key rows @ [af_key a])"
  by (auto simp: upsert_def row_of_None [symmetric])

lemma set_upsert: "set (upsert a rows) \<subseteq> insert a (set rows)"
  by (auto simp: upsert_def)

lemma upsert_has: "a \<in> set (upsert a rows)"
  by (cases "row_of (af_key a) rows") (auto simp: upsert_def dest!: row_of_Some intro!: image_eqI)

lemma evict_subset: "set (evict_artifacts cfg rows) \<subseteq> set rows"
  by (auto simp: evict_artifacts_def Let_def)

lemma evict_artifacts_ok:
  assumes "distinct (map af_key rows)" and "0 \<le> ac_max_entries cfg"
  shows "distinct (map af_key (evict_artifacts cfg rows)) \<and> int (length (evict_artifacts cfg rows)) \<le> ac_max_entries cfg"
  using assms kept_length [OF assms(1), of "nat (int (length rows) - ac_max_entries cfg)" af_accessed]
  by (auto simp: evict_artifacts_def Let_def distinct_map_filter)

lemma stored_row_stays:
  assumes ok: "artifacts_ok cfg rows" and fresh: "\<forall>b \<in> set rows. af_accessed b \<le> af_accessed a" and max: "1 \<le> ac_max_entries cfg"
  shows "a \<in> set (evict_artifacts cfg (upsert a rows))"
proof (cases "row_of (af_key a) rows")
  case None
  then have up: "upsert a rows = rows @ [a]" by (simp add: upsert_def)
  have d: "distinct (map af_key (rows @ [a]))" using ok None by (auto simp: artifacts_ok_def row_of_None)
  have n: "nat (int (length (rows @ [a])) - ac_max_entries cfg) \<le> length rows" using max by simp
  show ?thesis using kept_last [OF d n fresh] by (auto simp: up evict_artifacts_def Let_def)
next
  case (Some b)
  then have "length (upsert a rows) = length rows" by (simp add: upsert_def)
  then have "evict_artifacts cfg (upsert a rows) = upsert a rows" using ok by (simp add: evict_artifacts_def artifacts_ok_def)
  then show ?thesis using upsert_has by metis
qed

lemma store_cases:
  assumes "artifact_store cfg a rows = (r, rows')"
  obtains "\<not> r" "rows' = rows"
  | "r" "rows' = evict_artifacts cfg (upsert a rows)" "ac_min_score cfg \<le> effective_score (af_final a) (af_critic a)"
    "py_strip (af_output a) \<noteq> []"
    "\<forall>b. row_of (af_key a) rows = Some b \<longrightarrow> effective_score (af_final b) (af_critic b) < effective_score (af_final a) (af_critic a)"
  using assms by (auto simp: artifact_store_def Let_def split: if_splits option.splits)

lemma upsert_distinct: "distinct (map af_key rows) \<Longrightarrow> distinct (map af_key (upsert a rows))"
  by (auto simp: map_keys_upsert)

lemma store_artifact_ok:
  assumes "artifacts_ok cfg rows" and "0 \<le> ac_max_entries cfg"
  shows "artifacts_ok cfg (snd (artifact_store cfg a rows))"
proof -
  obtain r rows' where st: "artifact_store cfg a rows = (r, rows')" by fastforce
  show ?thesis
  proof (rule store_cases [OF st])
    assume "rows' = rows"
    then show ?thesis using st assms(1) by simp
  next
    assume e: "rows' = evict_artifacts cfg (upsert a rows)" "ac_min_score cfg \<le> effective_score (af_final a) (af_critic a)"
      "py_strip (af_output a) \<noteq> []"
    have "distinct (map af_key (upsert a rows))" using assms(1) upsert_distinct by (simp add: artifacts_ok_def)
    then have "distinct (map af_key rows') \<and> int (length rows') \<le> ac_max_entries cfg" using evict_artifacts_ok [OF _ assms(2)] e(1) by simp
    moreover have "set rows' \<subseteq> insert a (set rows)" using evict_subset set_upsert e(1) by blast
    ultimately show ?thesis using assms(1) st e(2,3) unfolding artifacts_ok_def by auto
  qed
qed

lemma filter_ok: "artifacts_ok cfg rows \<Longrightarrow> artifacts_ok cfg (filter P rows)"
proof -
  have l: "int (length rows) \<le> n \<Longrightarrow> int (length (filter P rows)) \<le> n" for n
    using length_filter_le [of P rows] by linarith
  show "artifacts_ok cfg rows \<Longrightarrow> artifacts_ok cfg (filter P rows)"
    unfolding artifacts_ok_def by (auto simp: distinct_map_filter intro: l)
qed

lemma touch_ok: "artifacts_ok cfg rows \<Longrightarrow> artifacts_ok cfg (touch key now n rows)"
proof -
  have k: "map af_key (touch key now n rows) = map af_key rows" by (simp add: touch_def)
  have l: "length (touch key now n rows) = length rows" by (simp add: touch_def)
  have "(\<forall>a \<in> set rows. P (af_final a) (af_critic a) (af_output a)) \<Longrightarrow>
      \<forall>a \<in> set (touch key now n rows). P (af_final a) (af_critic a) (af_output a)" for P
    by (auto simp: touch_def)
  from this [of "\<lambda>x y z. effective_score x y \<ge> ac_min_score cfg \<and> py_strip z \<noteq> []"] show "artifacts_ok cfg rows \<Longrightarrow> artifacts_ok cfg (touch key now n rows)"
    unfolding artifacts_ok_def k l by simp
qed

lemma lookup_ok:
  assumes "artifacts_ok cfg rows"
  shows "artifacts_ok cfg (snd (artifact_lookup now key rows))"
  using assms filter_ok [OF assms] touch_ok [OF assms]
  by (simp add: artifact_lookup_def delete_row_def Let_def split: option.splits)

section \<open>Properties\<close>

datatype cache_op =
    Lookup int string
  | Store artifact
  | Cleanup int
  | Invalidate string
  | Invalidate_Type string
  | Clear

fun cache_step :: "artifact_config \<Rightarrow> cache_op \<Rightarrow> artifacts \<Rightarrow> artifacts" where
  "cache_step cfg (Lookup now k) rows = snd (artifact_lookup now k rows)"
| "cache_step cfg (Store a) rows = snd (artifact_store cfg a rows)"
| "cache_step cfg (Cleanup now) rows = snd (cleanup_artifacts now rows)"
| "cache_step cfg (Invalidate k) rows = snd (artifact_invalidate k rows)"
| "cache_step cfg (Invalidate_Type ty) rows = snd (invalidate_by_task_type ty rows)"
| "cache_step cfg Clear rows = snd (clear_artifacts rows)"

lemma cache_step_ok:
  assumes "artifacts_ok cfg rows" and "0 \<le> ac_max_entries cfg"
  shows "artifacts_ok cfg (cache_step cfg st rows)"
  using assms
  by (cases st) (auto simp: store_artifact_ok lookup_ok filter_ok cleanup_artifacts_def artifact_invalidate_def delete_row_def
      invalidate_by_task_type_def clear_artifacts_def Let_def artifacts_ok_def [of cfg "[]"])

text \<open>C12: Whatever is done with the cache from its start, its keys are distinct, it holds at most its capacity, and no row has a
  score below the minimum or an empty output.\<close>

theorem cache_stays_well_formed:
  assumes "0 \<le> ac_max_entries cfg"
  shows "artifacts_ok cfg (fold (cache_step cfg) steps [])"
proof -
  have "artifacts_ok cfg rows \<Longrightarrow> artifacts_ok cfg (fold (cache_step cfg) steps rows)" for rows
    using cache_step_ok [OF _ assms] by (induction steps arbitrary: rows) auto
  moreover have "artifacts_ok cfg []" using assms by (simp add: artifacts_ok_def)
  ultimately show ?thesis by blast
qed

lemma stored_row_is_found:
  assumes "artifacts_ok cfg rows" and "1 \<le> ac_max_entries cfg" and "\<forall>b \<in> set rows. af_accessed b \<le> af_accessed a"
    and "artifact_store cfg a rows = (True, rows')" and "\<not> expired now a"
  shows "fst (artifact_lookup now (af_key a) rows') = Some (a\<lparr>af_accessed := now, af_count := af_count a + 1\<rparr>)"
proof -
  have r: "rows' = evict_artifacts cfg (upsert a rows)" by (rule store_cases [OF assms(4)]) auto
  then have "a \<in> set rows'" using stored_row_stays [OF assms(1,3,2)] by simp
  moreover have "distinct (map af_key rows')"
    using r evict_artifacts_ok [of "upsert a rows" cfg] upsert_distinct assms(1,2) by (auto simp: artifacts_ok_def)
  ultimately have "row_of (af_key a) rows' = Some a" by (rule row_of_member [rotated])
  then show ?thesis using assms(5) by (simp add: artifact_lookup_def Let_def)
qed

text \<open>What was stored is found until it expires: if storing answers true at a time no earlier than any access, the next lookup
  of the key within the lifetime returns that row, also when the cache was full.\<close>

theorem stored_result_is_found:
  assumes "artifacts_ok cfg rows" and "1 \<le> ac_max_entries cfg" and "\<forall>b \<in> set rows. af_accessed b \<le> af_accessed a"
    and "artifact_store cfg a rows = (True, rows')" and "\<not> expired now a"
  shows "fst (artifact_lookup now (af_key a) rows') = Some (a\<lparr>af_accessed := now, af_count := af_count a + 1\<rparr>)"
  using assms by (rule stored_row_is_found)

text \<open>A clean-up is invisible: it drops only what a lookup at that time or later would drop, although it counts in whole
  seconds.\<close>

theorem cleanup_is_invisible:
  assumes "artifacts_ok cfg rows" and "now \<le> later"
  shows "fst (artifact_lookup later key (snd (cleanup_artifacts now rows))) = fst (artifact_lookup later key rows)"
proof -
  let ?gone = "\<lambda>a. af_ttl a > 0 \<and> af_created a div 1000000 < now div 1000000 - af_ttl a"
  have gone: "expired later a" if "?gone a" for a
  proof -
    have "af_created a div 1000000 + af_ttl a + 1 \<le> now div 1000000" using that by simp
    moreover have "now = 1000000 * (now div 1000000) + now mod 1000000" "0 \<le> now mod 1000000"
      "af_created a = 1000000 * (af_created a div 1000000) + af_created a mod 1000000" "af_created a mod 1000000 < 1000000"
      by simp_all
    ultimately have "af_created a + 1000000 * af_ttl a < now" by linarith
    then show ?thesis using that assms(2) by (simp add: expired_def seconds_def)
  qed
  have "row_of key (filter (\<lambda>a. \<not> ?gone a) rows) =
      (case row_of key rows of None \<Rightarrow> None | Some a \<Rightarrow> if \<not> ?gone a then Some a else None)"
    by (rule row_of_filter) (use assms(1) in \<open>simp add: artifacts_ok_def\<close>)
  then show ?thesis
    using gone by (auto simp: cleanup_artifacts_def artifact_lookup_def Let_def split: option.splits)
qed

text \<open>The score of a key only rises: a result replaces another only when it is better.\<close>

theorem better_result_wins:
  assumes "artifact_store cfg a rows = (r, rows')" and "row_of (af_key a) rows = Some b"
  shows "r = (ac_min_score cfg \<le> effective_score (af_final a) (af_critic a) \<and> py_strip (af_output a) \<noteq> []
      \<and> effective_score (af_final b) (af_critic b) < effective_score (af_final a) (af_critic a))"
  using assms by (auto simp: artifact_store_def Let_def split: if_splits)

text \<open>The key knows the names of the skills, not what they say: a skill whose text changed is served the old result.\<close>

theorem cache_key_ignores_skill_content:
  "compute_cache_key digest specification (map (\<lambda>k. k\<lparr>ls_content := f k\<rparr>) ls) task_type adapter
     = compute_cache_key digest specification ls task_type adapter"
  by (simp add: compute_cache_key_def skills_text_def comp_def)

section \<open>Examples\<close>

definition sample_artifact :: "string \<Rightarrow> int \<Rightarrow> int \<Rightarrow> artifact" where
  "sample_artifact k score now =
     new_artifact DEFAULT_ARTIFACT_CONFIG now k ''sort a list'' ''sorted(xs)'' score 0 [] ''code_generation'' ''coder'' [] 1 None"

lemma sample_artifacts_ok: "artifacts_ok DEFAULT_ARTIFACT_CONFIG [sample_artifact ''k'' 80 0]"
proof -
  have "py_strip ''sorted(xs)'' \<noteq> []" by code_simp
  then show ?thesis
    by (simp add: artifacts_ok_def sample_artifact_def new_artifact_def DEFAULT_ARTIFACT_CONFIG_def effective_score_def)
qed

theorem cache_stays_well_formed_witness:
  "artifacts_ok DEFAULT_ARTIFACT_CONFIG (fold (cache_step DEFAULT_ARTIFACT_CONFIG) [Store (sample_artifact ''k'' 80 0), Lookup 5 ''k''] [])"
  by (rule cache_stays_well_formed) (simp add: DEFAULT_ARTIFACT_CONFIG_def)

lemma sample_store:
  "artifact_store DEFAULT_ARTIFACT_CONFIG (sample_artifact ''k'' 90 7) [sample_artifact ''k'' 80 0] = (True, [sample_artifact ''k'' 90 7])"
proof -
  have "py_strip ''sorted(xs)'' \<noteq> []" by code_simp
  then show ?thesis
    by (simp add: artifact_store_def sample_artifact_def new_artifact_def DEFAULT_ARTIFACT_CONFIG_def effective_score_def row_of_def
        upsert_def evict_artifacts_def)
qed

theorem stored_result_is_found_witness:
  "fst (artifact_lookup 9 ''k'' [sample_artifact ''k'' 90 7]) = Some ((sample_artifact ''k'' 90 7)\<lparr>af_accessed := 9, af_count := 1\<rparr>)"
  using stored_result_is_found [OF sample_artifacts_ok _ _ sample_store, of 9]
  by (simp add: DEFAULT_ARTIFACT_CONFIG_def sample_artifact_def new_artifact_def expired_def seconds_def)

theorem cleanup_is_invisible_witness:
  "fst (artifact_lookup 9 ''k'' (snd (cleanup_artifacts 8 [sample_artifact ''k'' 80 0]))) = fst (artifact_lookup 9 ''k'' [sample_artifact ''k'' 80 0])"
  by (rule cleanup_is_invisible [OF sample_artifacts_ok]) simp

end
