(* ===== verification/Lesson_Store.thy ===== *)
theory Lesson_Store
  imports Vector_Search Self_Upgrade
begin

text \<open>
  \<^verbatim>\<open>agents/lesson_store.py\<close> and \<^verbatim>\<open>agents/memory_note_node.py\<close>: lessons of earlier runs, their uses, their decay, and
  the two nodes that write a lesson and count its uses. Tables are lists in the order of their rows; times are microseconds; new
  identifiers come from a parameter.
\<close>

section \<open>Tables\<close>

record lesson =
  ln_id :: string
  ln_role :: string
  ln_task_type :: string
  ln_tag :: string
  ln_text :: string
  ln_agent :: string
  ln_run :: string
  ln_created :: int
  ln_uses :: nat
  ln_delta :: "real option"
  ln_last_used :: "int option"
  ln_status :: string

record lesson_use =
  lu_lesson :: string
  lu_run :: string
  lu_score :: int
  lu_at :: int

record lesson_db =
  lb_lessons :: "lesson list"
  lb_uses :: "lesson_use list"

definition integrity_error :: py_exn where
  "integrity_error = OtherError ''IntegrityError'' ''UNIQUE constraint failed''"

definition add_lesson ::
    "string \<Rightarrow> int \<Rightarrow> string \<Rightarrow> string \<Rightarrow> string \<Rightarrow> string \<Rightarrow> string \<Rightarrow> string \<Rightarrow> lesson_db \<Rightarrow> (py_exn + string) \<times> lesson_db" where
  "add_lesson uid now role task_type tag lesson author run d =
     (let lid = ''lesson_'' @ take 12 uid in
      if lid \<in> ln_id ` set (lb_lessons d) then (Inl integrity_error, d)
      else (Inr lid, d\<lparr>lb_lessons := lb_lessons d @
             [\<lparr>ln_id = lid, ln_role = role, ln_task_type = task_type, ln_tag = tag, ln_text = lesson, ln_agent = author, ln_run = run,
               ln_created = now, ln_uses = 0, ln_delta = None, ln_last_used = None, ln_status = ''active''\<rparr>]\<rparr>))"

text \<open>The best outcome first, those without one last, the newest first among equals; a negative limit is none.\<close>

definition in_lesson_scope :: "string \<Rightarrow> string \<Rightarrow> string \<Rightarrow> lesson \<Rightarrow> bool" where
  "in_lesson_scope role task_type status l \<longleftrightarrow>
     (ln_role l = role \<or> ln_role l = ''*'') \<and> (ln_task_type l = task_type \<or> ln_task_type l = ''*'') \<and> ln_status l = status"

definition order_lessons :: "lesson list \<Rightarrow> lesson list" where
  "order_lessons ls =
     (let newest = rank_by ln_created ls
      in rank_by (\<lambda>l. the (ln_delta l)) (filter (\<lambda>l. ln_delta l \<noteq> None) newest) @ filter (\<lambda>l. ln_delta l = None) newest)"

definition list_by_scope :: "string \<Rightarrow> string \<Rightarrow> string \<Rightarrow> int \<Rightarrow> lesson_db \<Rightarrow> lesson list" where
  "list_by_scope role task_type status limit d =
     (let ls = order_lessons (filter (in_lesson_scope role task_type status) (lb_lessons d))
      in if limit < 0 then ls else take (nat limit) ls)"

definition on_lesson :: "string \<Rightarrow> (lesson \<Rightarrow> lesson) \<Rightarrow> lesson_db \<Rightarrow> lesson_db" where
  "on_lesson lid f d = d\<lparr>lb_lessons := map (\<lambda>l. if ln_id l = lid then f l else l) (lb_lessons d)\<rparr>"

definition set_lesson_status :: "string \<Rightarrow> string \<Rightarrow> lesson_db \<Rightarrow> lesson_db" where
  "set_lesson_status lid status d = on_lesson lid (\<lambda>l. l\<lparr>ln_status := status\<rparr>) d"

definition uses_of :: "string \<Rightarrow> lesson_db \<Rightarrow> lesson_use list" where
  "uses_of lid d = filter (\<lambda>u. lu_lesson u = lid) (lb_uses d)"

definition record_lesson_use :: "int \<Rightarrow> string \<Rightarrow> string \<Rightarrow> int \<Rightarrow> lesson_db \<Rightarrow> lesson_db" where
  "record_lesson_use now lid run score d =
     (if list_ex (\<lambda>u. lu_lesson u = lid \<and> lu_run u = run) (lb_uses d) then d
      else
        (let d = d\<lparr>lb_uses := lb_uses d @ [\<lparr>lu_lesson = lid, lu_run = run, lu_score = score, lu_at = now\<rparr>]\<rparr>
         in on_lesson lid (\<lambda>l. l\<lparr>ln_uses := length (uses_of lid d), ln_last_used := Some now\<rparr>) d))"

definition recompute_outcome_delta :: "string \<Rightarrow> real \<Rightarrow> lesson_db \<Rightarrow> real option \<times> lesson_db" where
  "recompute_outcome_delta lid baseline d =
     (let us = uses_of lid d in
      if us = [] then (None, d)
      else
        (let delta = real_of_int (sum_list (map lu_score us)) / real (length us) - baseline
         in (Some delta, on_lesson lid (\<lambda>l. l\<lparr>ln_delta := Some delta\<rparr>) d)))"

definition decays :: "nat \<Rightarrow> lesson \<Rightarrow> bool" where
  "decays min_uses l \<longleftrightarrow> ln_status l = ''active'' \<and> ln_uses l \<ge> min_uses \<and> (case ln_delta l of None \<Rightarrow> False | Some x \<Rightarrow> x < 0)"

definition decay_check :: "nat \<Rightarrow> lesson_db \<Rightarrow> string list \<times> lesson_db" where
  "decay_check min_uses d =
     (let gone = map ln_id (filter (decays min_uses) (lb_lessons d))
      in (gone, fold (\<lambda>lid. set_lesson_status lid ''decayed'') gone d))"

section \<open>The nodes\<close>

text \<open>What the nodes read of the state, with the defaults of the code where a key is absent.\<close>

record lesson_run =
  lr_eligible :: bool
  lr_signals :: "upgrade_signal list"
  lr_role :: string
  lr_agent :: string
  lr_run :: string
  lr_injected :: "string list"
  lr_score :: int

text \<open>With the store comes the identifier of the lesson written.\<close>

definition memory_note_node :: "(string \<Rightarrow> string) \<Rightarrow> string \<Rightarrow> int \<Rightarrow> lesson_run \<Rightarrow> lesson_db \<Rightarrow> (py_exn + string option) \<times> lesson_db" where
  "memory_note_node llm uid now r d =
     (if \<not> lr_eligible r then (Inr None, d)
      else case tier0_build llm (lr_signals r) (lr_role r) of
        Tier0Empty reason \<Rightarrow> (Inr None, d)
      | LessonDrafted l refs \<Rightarrow>
          (case add_lesson uid now (ld_role l) (ld_task_type l) (ld_tag l) (ld_lesson l) (lr_agent r) (lr_run r) d of
             (Inl x, d) \<Rightarrow> (Inl x, d)
           | (Inr lid, d) \<Rightarrow> (Inr (Some lid), d)))"

definition record_lesson_uses_node :: "int \<Rightarrow> lesson_run \<Rightarrow> lesson_db \<Rightarrow> lesson_db" where
  "record_lesson_uses_node now r d = fold (\<lambda>lid. record_lesson_use now lid (lr_run r) (lr_score r)) (lr_injected r) d"

section \<open>Lemmas\<close>

lemma lesson_ids_on_lesson: "map ln_id (lb_lessons (on_lesson lid f d)) = map ln_id (lb_lessons d)"
  if "\<And>l. ln_id (f l) = ln_id l"
  using that by (simp add: on_lesson_def)

lemma lb_uses_on_lesson [simp]: "lb_uses (on_lesson lid f d) = lb_uses d"
  by (simp add: on_lesson_def)

text \<open>Identifiers are unique, a run counts once per lesson, and the use count of a lesson is the number of its recorded uses.\<close>

definition lessons_ok :: "lesson_db \<Rightarrow> bool" where
  "lessons_ok d \<longleftrightarrow> distinct (map ln_id (lb_lessons d)) \<and> distinct (map (\<lambda>u. (lu_lesson u, lu_run u)) (lb_uses d))
     \<and> (\<forall>l \<in> set (lb_lessons d). ln_uses l = length (uses_of (ln_id l) d))"

lemma on_lesson_ok:
  assumes "lessons_ok d" and "\<And>l. ln_id (f l) = ln_id l" and "\<And>l. ln_uses (f l) = ln_uses l"
  shows "lessons_ok (on_lesson lid f d)"
proof -
  have "distinct (map ln_id (lb_lessons (on_lesson lid f d)))"
    using assms(1) lesson_ids_on_lesson [of f lid d, OF assms(2)] by (simp add: lessons_ok_def)
  moreover have "uses_of x (on_lesson lid f d) = uses_of x d" for x by (simp add: uses_of_def)
  ultimately show ?thesis
    using assms by (auto simp: lessons_ok_def) (auto simp: on_lesson_def assms(2,3))
qed

lemma decay_ok: "lessons_ok d \<Longrightarrow> lessons_ok (snd (decay_check n d))"
proof -
  have "lessons_ok d \<Longrightarrow> lessons_ok (fold (\<lambda>lid. set_lesson_status lid ''decayed'') gone d)" for gone
    by (induction gone arbitrary: d) (simp_all add: set_lesson_status_def on_lesson_ok)
  then show "lessons_ok d \<Longrightarrow> lessons_ok (snd (decay_check n d))" by (simp add: decay_check_def Let_def)
qed

lemma record_use_ok:
  assumes "lessons_ok d"
  shows "lessons_ok (record_lesson_use now lid run score d)"
proof (cases "list_ex (\<lambda>u. lu_lesson u = lid \<and> lu_run u = run) (lb_uses d)")
  case True
  then show ?thesis using assms by (simp add: record_lesson_use_def)
next
  case False
  let ?u = "\<lparr>lu_lesson = lid, lu_run = run, lu_score = score, lu_at = now\<rparr>"
  let ?d = "d\<lparr>lb_uses := lb_uses d @ [?u]\<rparr>"
  let ?f = "\<lambda>l. l\<lparr>ln_uses := length (uses_of lid ?d), ln_last_used := Some now\<rparr>"
  have eq: "record_lesson_use now lid run score d = on_lesson lid ?f ?d" using False by (simp add: record_lesson_use_def Let_def)
  have uses: "uses_of x (on_lesson lid ?f ?d) = uses_of x d @ (if x = lid then [?u] else [])" for x by (simp add: uses_of_def)
  have ids: "map ln_id (lb_lessons (on_lesson lid ?f ?d)) = map ln_id (lb_lessons d)" by (subst lesson_ids_on_lesson) simp_all
  have "distinct (map (\<lambda>u. (lu_lesson u, lu_run u)) (lb_uses d @ [?u]))"
    using assms False by (auto simp: lessons_ok_def list_ex_iff)
  moreover have "\<forall>l \<in> set (lb_lessons (on_lesson lid ?f ?d)). ln_uses l = length (uses_of (ln_id l) (on_lesson lid ?f ?d))"
    unfolding uses using assms by (auto simp: on_lesson_def lessons_ok_def uses_of_def)
  ultimately show ?thesis using assms unfolding eq lessons_ok_def ids by simp
qed

lemma add_lesson_ok:
  assumes "lessons_ok d" and "\<forall>u \<in> set (lb_uses d). lu_lesson u \<noteq> ''lesson_'' @ take 12 uid"
  shows "lessons_ok (snd (add_lesson uid now role ty tag text author run d))"
proof -
  have "uses_of (''lesson_'' @ take 12 uid) d = []" using assms(2) by (auto simp: uses_of_def filter_empty_conv)
  moreover have "uses_of x (d\<lparr>lb_lessons := ls\<rparr>) = uses_of x d" for x ls by (simp add: uses_of_def)
  ultimately show ?thesis using assms(1) by (auto simp: add_lesson_def lessons_ok_def Let_def)
qed

section \<open>Properties\<close>

datatype lesson_op =
    Add_Lesson string int string string string string string string
  | Set_Status string string
  | Record_Use int string string int
  | Recompute string real
  | Decay nat

fun lesson_step :: "lesson_op \<Rightarrow> lesson_db \<Rightarrow> lesson_db" where
  "lesson_step (Add_Lesson uid now role ty tag t author run) d = snd (add_lesson uid now role ty tag t author run d)"
| "lesson_step (Set_Status lid st) d = set_lesson_status lid st d"
| "lesson_step (Record_Use now lid run score) d = record_lesson_use now lid run score d"
| "lesson_step (Recompute lid b) d = snd (recompute_outcome_delta lid b d)"
| "lesson_step (Decay n) d = snd (decay_check n d)"

text \<open>A use is of a lesson that is there.\<close>

fun uses_known :: "lesson_op list \<Rightarrow> lesson_db \<Rightarrow> bool" where
  "uses_known [] d = True"
| "uses_known (st # sts) d \<longleftrightarrow>
     (case st of Record_Use now lid run score \<Rightarrow> lid \<in> ln_id ` set (lb_lessons d) | _ \<Rightarrow> True) \<and> uses_known sts (lesson_step st d)"

definition uses_belong :: "lesson_db \<Rightarrow> bool" where
  "uses_belong d \<longleftrightarrow> lu_lesson ` set (lb_uses d) \<subseteq> ln_id ` set (lb_lessons d)"

lemma ids_step: "ln_id ` set (lb_lessons d) \<subseteq> ln_id ` set (lb_lessons (lesson_step st d))"
proof -
  have on: "ln_id ` set (lb_lessons (on_lesson lid f d)) = ln_id ` set (lb_lessons d)" if "\<And>l. ln_id (f l) = ln_id l" for lid f d
    using lesson_ids_on_lesson [of f lid d, OF that] by (metis set_map)
  have decayed: "ln_id ` set (lb_lessons (fold (\<lambda>lid. set_lesson_status lid ''decayed'') gone d)) = ln_id ` set (lb_lessons d)" for gone
    by (induction gone arbitrary: d) (simp_all add: set_lesson_status_def on)
  show ?thesis
    by (cases st) (auto simp: add_lesson_def set_lesson_status_def record_lesson_use_def recompute_outcome_delta_def decay_check_def
        decayed on Let_def)
qed

lemma uses_step:
  assumes "uses_belong d" and "case st of Record_Use now lid run score \<Rightarrow> lid \<in> ln_id ` set (lb_lessons d) | _ \<Rightarrow> True"
  shows "uses_belong (lesson_step st d)"
proof -
  have decayed: "lb_uses (fold (\<lambda>lid. set_lesson_status lid ''decayed'') gone d) = lb_uses d" for gone
    by (induction gone arbitrary: d) (simp_all add: set_lesson_status_def)
  have "lu_lesson ` set (lb_uses (lesson_step st d)) \<subseteq> ln_id ` set (lb_lessons d)"
    using assms
    by (cases st) (auto simp: uses_belong_def add_lesson_def set_lesson_status_def record_lesson_use_def recompute_outcome_delta_def
        decay_check_def decayed Let_def)
  then show ?thesis using ids_step [of d st] unfolding uses_belong_def by blast
qed

lemma lesson_step_ok:
  assumes "lessons_ok d" and "uses_belong d"
  shows "lessons_ok (lesson_step st d)"
proof (cases st)
  case (Add_Lesson uid now role ty tag t author run)
  show ?thesis
  proof (cases "''lesson_'' @ take 12 uid \<in> ln_id ` set (lb_lessons d)")
    case True
    then show ?thesis using assms(1) Add_Lesson by (simp add: add_lesson_def Let_def)
  next
    case False
    have "lu_lesson u \<noteq> lid" if "u \<in> set (lb_uses d)" "lid \<notin> ln_id ` set (lb_lessons d)" for u lid
      using that assms(2) unfolding uses_belong_def by blast
    then have "\<forall>u \<in> set (lb_uses d). lu_lesson u \<noteq> ''lesson_'' @ take 12 uid" using False by metis
    then show ?thesis using add_lesson_ok [OF assms(1)] Add_Lesson by simp
  qed
next
  case (Set_Status lid st)
  show ?thesis unfolding Set_Status lesson_step.simps set_lesson_status_def by (rule on_lesson_ok [OF assms(1)]) simp_all
next
  case (Recompute lid b)
  have "lessons_ok (on_lesson lid (\<lambda>l. l\<lparr>ln_delta := x\<rparr>) d)" for x by (rule on_lesson_ok [OF assms(1)]) simp_all
  then show ?thesis using assms(1) Recompute by (simp add: recompute_outcome_delta_def Let_def)
qed (simp_all add: record_use_ok [OF assms(1)] decay_ok [OF assms(1)])

text \<open>C26: Whatever is done with the store, as long as uses are recorded of lessons that exist: identifiers are unique, a run counts
  at most once per lesson, and the use count kept in a lesson's row is exactly the number of its recorded uses.\<close>

theorem use_counts_are_exact:
  assumes "uses_known steps \<lparr>lb_lessons = [], lb_uses = []\<rparr>"
  shows "lessons_ok (fold lesson_step steps \<lparr>lb_lessons = [], lb_uses = []\<rparr>)"
proof -
  have "lessons_ok d \<Longrightarrow> uses_belong d \<Longrightarrow> uses_known steps d \<Longrightarrow> lessons_ok (fold lesson_step steps d)" for d
  proof (induction steps arbitrary: d)
    case (Cons st sts)
    then show ?case using lesson_step_ok [of d st] uses_step [of d st] by simp
  qed simp
  moreover have "lessons_ok \<lparr>lb_lessons = [], lb_uses = []\<rparr>" "uses_belong \<lparr>lb_lessons = [], lb_uses = []\<rparr>"
    by (simp_all add: lessons_ok_def uses_belong_def)
  ultimately show ?thesis using assms by blast
qed

theorem use_counts_are_exact_witness:
  "lessons_ok (fold lesson_step [Add_Lesson ''abc'' 1 ''*'' ''*'' [] ''test first'' [] [], Record_Use 2 ''lesson_abc'' ''r1'' 70,
     Record_Use 3 ''lesson_abc'' ''r1'' 90] \<lparr>lb_lessons = [], lb_uses = []\<rparr>)"
  by (rule use_counts_are_exact) (simp add: add_lesson_def record_lesson_use_def on_lesson_def Let_def)

text \<open>No lesson decays as long as outcomes are not recomputed, however badly the runs that used it went; and nothing in the
  program recomputes them.\<close>

theorem unscored_lessons_never_decay:
  assumes "\<forall>st \<in> set steps. (\<forall>lid b. st \<noteq> Recompute lid b)"
  shows "fst (decay_check n (fold lesson_step steps \<lparr>lb_lessons = [], lb_uses = []\<rparr>)) = []"
proof -
  define unscored where "unscored = (\<lambda>d :: lesson_db. \<forall>l \<in> set (lb_lessons d). ln_delta l = None)"
  have on: "unscored d \<Longrightarrow> unscored (on_lesson lid f d)" if "\<And>l. ln_delta (f l) = ln_delta l" for lid f d
    using that by (auto simp: unscored_def on_lesson_def)
  have decayed: "unscored d \<Longrightarrow> unscored (fold (\<lambda>lid. set_lesson_status lid ''decayed'') gone d)" for gone d
    by (induction gone arbitrary: d) (simp_all add: set_lesson_status_def on)
  have uses: "unscored (d\<lparr>lb_uses := us\<rparr>) = unscored d" for d us by (simp add: unscored_def)
  have step: "unscored (lesson_step st d)" if "unscored d" "\<forall>lid b. st \<noteq> Recompute lid b" for st d
    using that
    by (cases st) (auto simp: add_lesson_def set_lesson_status_def record_lesson_use_def decay_check_def uses Let_def
        intro!: on decayed, auto simp: unscored_def)
  have "unscored d \<Longrightarrow> \<forall>st \<in> set steps. (\<forall>lid b. st \<noteq> Recompute lid b) \<Longrightarrow> unscored (fold lesson_step steps d)" for d
    by (induction steps arbitrary: d) (simp_all add: step)
  moreover have "unscored \<lparr>lb_lessons = [], lb_uses = []\<rparr>" by (simp add: unscored_def)
  ultimately have "unscored (fold lesson_step steps \<lparr>lb_lessons = [], lb_uses = []\<rparr>)" using assms by blast
  then show ?thesis by (auto simp: unscored_def decay_check_def decays_def Let_def filter_empty_conv)
qed

theorem unscored_lessons_never_decay_witness:
  "fst (decay_check 1 (fold lesson_step [Add_Lesson ''abc'' 1 ''*'' ''*'' [] ''skip tests'' [] [], Record_Use 2 ''lesson_abc'' ''r1'' 0]
     \<lparr>lb_lessons = [], lb_uses = []\<rparr>)) = []"
  by (rule unscored_lessons_never_decay) simp

text \<open>Runs without an identifier count as one: after one such run used a lesson, further ones change nothing.\<close>

theorem nameless_runs_count_once:
  assumes "lr_run r = lr_run r'" and "set (lr_injected r') \<subseteq> set (lr_injected r)"
  shows "record_lesson_uses_node now' r' (record_lesson_uses_node now r d) = record_lesson_uses_node now r d"
proof -
  have keep: "list_ex (\<lambda>u. lu_lesson u = x \<and> lu_run u = run) (lb_uses d) \<Longrightarrow>
      list_ex (\<lambda>u. lu_lesson u = x \<and> lu_run u = run) (lb_uses (fold (\<lambda>lid. record_lesson_use now lid run score) ls d))" for x run ls score d
  proof (induction ls arbitrary: d)
    case (Cons l ls)
    have "list_ex (\<lambda>u. lu_lesson u = x \<and> lu_run u = run) (lb_uses (record_lesson_use now l run score d))"
      using Cons.prems by (simp add: record_lesson_use_def Let_def)
    then show ?case using Cons.IH by simp
  qed simp
  have there: "x \<in> set ls \<Longrightarrow> list_ex (\<lambda>u. lu_lesson u = x \<and> lu_run u = run)
      (lb_uses (fold (\<lambda>lid. record_lesson_use now lid run score) ls d))" for x run ls score d
  proof (induction ls arbitrary: d)
    case (Cons l ls)
    show ?case
    proof (cases "x = l")
      case True
      have "list_ex (\<lambda>u. lu_lesson u = x \<and> lu_run u = run) (lb_uses (record_lesson_use now l run score d))"
        using True by (simp add: record_lesson_use_def Let_def)
      then show ?thesis using keep by simp
    next
      case False
      then show ?thesis using Cons by simp
    qed
  qed simp
  have idle: "\<forall>x \<in> set ls. list_ex (\<lambda>u. lu_lesson u = x \<and> lu_run u = run) (lb_uses d) \<Longrightarrow>
      fold (\<lambda>lid. record_lesson_use now' lid run score) ls d = d" for ls run score d
    by (induction ls arbitrary: d) (auto simp: record_lesson_use_def)
  show ?thesis unfolding record_lesson_uses_node_def using assms there by (intro idle) auto
qed

theorem nameless_runs_count_once_witness:
  "let r = \<lparr>lr_eligible = False, lr_signals = [], lr_role = ''*'', lr_agent = [], lr_run = [], lr_injected = [''l''], lr_score = 10\<rparr>;
       d = \<lparr>lb_lessons = [], lb_uses = []\<rparr>
   in record_lesson_uses_node 2 (r\<lparr>lr_score := 90\<rparr>) (record_lesson_uses_node 1 r d) = record_lesson_uses_node 1 r d"
  unfolding Let_def by (rule nameless_runs_count_once) simp_all

text \<open>Without signals no lesson is written, and nothing fills the key the node takes them from.\<close>

theorem no_signals_no_lesson:
  "memory_note_node llm uid now (r\<lparr>lr_signals := []\<rparr>) d = (Inr None, d)"
  by (simp add: memory_note_node_def tier0_build_def)

end
