(* ===== verification/Messenger.thy ===== *)
theory Messenger
  imports Paperclip_Client Vector_Search
begin

text \<open>
  \<^verbatim>\<open>agents/messenger_client.py\<close>: the clients of Mattermost and Slack, over the requests and the network of
  \<^verbatim>\<open>Paperclip_Client\<close>. A computation returns its result or exception with the requests sent so far and the bot's own
  identifier, once it is known. \<open>shown\<close> is \<open>str\<close> of a number or a structured value inside a text. Stamps of posts that are
  no numbers count as an error, also where Python could compare them with each other.
\<close>

section \<open>Computations that talk\<close>

type_synonym ('w, 'a) io = "'w \<Rightarrow> (py_exn + 'a) \<times> 'w"

definition io_ret :: "'a \<Rightarrow> ('w, 'a) io" where
  "io_ret x w = (Inr x, w)"

definition io_res :: "py_exn + 'a \<Rightarrow> ('w, 'a) io" where
  "io_res r w = (r, w)"

definition io_then :: "('w, 'a) io \<Rightarrow> ('a \<Rightarrow> ('w, 'b) io) \<Rightarrow> ('w, 'b) io" where
  "io_then m k w = (case m w of (Inl e, w') \<Rightarrow> (Inl e, w') | (Inr x, w') \<Rightarrow> k x w')"

text \<open>\<open>try: m except Exception as e: h\<close>.\<close>

definition io_catch :: "('w, 'a) io \<Rightarrow> (py_exn \<Rightarrow> ('w, 'a) io) \<Rightarrow> ('w, 'a) io" where
  "io_catch m h w = (case m w of (Inl e, w') \<Rightarrow> h e w' | (Inr x, w') \<Rightarrow> (Inr x, w'))"

definition io_or :: "('w, 'a) io \<Rightarrow> 'a \<Rightarrow> ('w, 'a) io" where
  "io_or m x = io_catch m (\<lambda>e. io_ret x)"

record chat_world =
  cx_sent :: "http_request list"
  cx_bot :: json

type_synonym 'a chat = "(chat_world, 'a) io"

definition http_get :: "string \<Rightarrow> (string \<times> string) list \<Rightarrow> (string \<times> string) list option \<Rightarrow> http_request" where
  "http_get url headers params = \<lparr>rq_method = ''GET'', rq_url = url, rq_headers = headers, rq_body = None, rq_params = params\<rparr>"

definition http_post :: "string \<Rightarrow> (string \<times> string) list \<Rightarrow> json option \<Rightarrow> http_request" where
  "http_post url headers body = \<lparr>rq_method = ''POST'', rq_url = url, rq_headers = headers, rq_body = body, rq_params = None\<rparr>"

definition http_delete :: "string \<Rightarrow> (string \<times> string) list \<Rightarrow> http_request" where
  "http_delete url headers = \<lparr>rq_method = ''DELETE'', rq_url = url, rq_headers = headers, rq_body = None, rq_params = None\<rparr>"

text \<open>A request with \<open>raise_for_status\<close>, then \<open>response.json()\<close>.\<close>

definition reach :: "network \<Rightarrow> http_request \<Rightarrow> http_response chat" where
  "reach net r w =
     (let sent = cx_sent w @ [r] in
      (case net sent of
         Unreachable m \<Rightarrow> Inl (ConnectionError m)
       | TransportError e \<Rightarrow> Inl e
       | Response p \<Rightarrow> if 400 \<le> rp_status p \<and> rp_status p < 600 then Inl (OtherError ''HTTPError'' (str_int (rp_status p))) else Inr p,
       w\<lparr>cx_sent := sent\<rparr>))"

definition reach_json :: "network \<Rightarrow> http_request \<Rightarrow> json chat" where
  "reach_json net r =
     io_then (reach net r) (\<lambda>p. io_res (case rp_json p of None \<Rightarrow> Inl (OtherError ''JSONDecodeError'' []) | Some j \<Rightarrow> Inr j))"

text \<open>\<open>v[k]\<close>, \<open>k in v\<close>, \<open>v.items()\<close> and a number of JSON.\<close>

fun json_index :: "json \<Rightarrow> string \<Rightarrow> py_exn + json" where
  "json_index (JObj d) k = (case dict_get d k of None \<Rightarrow> Inl (KeyError k) | Some v \<Rightarrow> Inr v)"
| "json_index _ k = Inl (OtherError ''TypeError'' ''not subscriptable with a text'')"

fun json_contains :: "string \<Rightarrow> json \<Rightarrow> py_exn + bool" where
  "json_contains k (JObj d) = Inr (dict_has d k)"
| "json_contains k (JArr xs) = Inr (JStr k \<in> set xs)"
| "json_contains k (JStr s) = Inr (str_contains k s)"
| "json_contains k _ = Inl (OtherError ''TypeError'' ''argument is not iterable'')"

fun json_values :: "json \<Rightarrow> py_exn + json list" where
  "json_values (JObj d) = Inr (map snd d)"
| "json_values _ = Inl (OtherError ''AttributeError'' ''items'')"

fun json_number :: "json \<Rightarrow> py_exn + real" where
  "json_number (JInt n) = Inr (real_of_int n)"
| "json_number (JReal r) = Inr r"
| "json_number (JBool b) = Inr (if b then 1 else 0)"
| "json_number _ = Inl (OtherError ''TypeError'' ''not comparable with a number'')"

section \<open>Mattermost\<close>

record mattermost =
  mm_url :: string
  mm_token :: string

definition mattermost_client :: "string \<Rightarrow> string \<Rightarrow> mattermost" where
  "mattermost_client url token = \<lparr>mm_url = rev (dropWhile (\<lambda>c. c = CHR ''/'') (rev url)), mm_token = token\<rparr>"

definition mm_api :: "mattermost \<Rightarrow> string \<Rightarrow> string" where
  "mm_api c path = mm_url c @ ''/api/v4'' @ path"

definition bearer :: "string \<Rightarrow> (string \<times> string) list" where
  "bearer token = [(''Authorization'', ''Bearer '' @ token), (''Content-Type'', ''application/json'')]"

definition mm_headers :: "mattermost \<Rightarrow> (string \<times> string) list" where
  "mm_headers c = bearer (mm_token c)"

definition mm_bot_user_id :: "network \<Rightarrow> mattermost \<Rightarrow> json chat" where
  "mm_bot_user_id net c w =
     (if truthy (cx_bot w) then (Inr (cx_bot w), w)
      else io_then (reach_json net (http_get (mm_api c ''/users/me'') (mm_headers c) None))
             (\<lambda>j. io_then (io_res (json_index j ''id'')) (\<lambda>i w. (Inr i, w\<lparr>cx_bot := i\<rparr>))) w)"

definition mm_bot_username :: "network \<Rightarrow> mattermost \<Rightarrow> json chat" where
  "mm_bot_username net c =
     io_then (reach_json net (http_get (mm_api c ''/users/me'') (mm_headers c) None)) (\<lambda>j. io_res (json_index j ''username''))"

definition mm_direct_channel :: "network \<Rightarrow> mattermost \<Rightarrow> json \<Rightarrow> json chat" where
  "mm_direct_channel net c user =
     io_then (mm_bot_user_id net c) (\<lambda>bot.
     io_then (reach_json net (http_post (mm_api c ''/channels/direct'') (mm_headers c) (Some (JArr [bot, user])))) (\<lambda>j.
     io_res (json_index j ''id'')))"

definition mm_send_direct :: "network \<Rightarrow> mattermost \<Rightarrow> json \<Rightarrow> string \<Rightarrow> json chat" where
  "mm_send_direct net c user message =
     io_then (mm_direct_channel net c user) (\<lambda>channel.
     io_then (reach_json net (http_post (mm_api c ''/posts'') (mm_headers c)
       (Some (JObj [(''channel_id'', channel), (''message'', JStr message)])))) (\<lambda>j.
     io_res (json_index j ''id'')))"

definition created_at :: "json \<Rightarrow> py_exn + real" where
  "created_at post = res_bind (json_get post ''create_at'' (JInt 0)) json_number"

text \<open>The posts of an answer, keyed by their identifiers.\<close>

definition posts_of :: "json \<Rightarrow> py_exn + json list" where
  "posts_of j =
     res_bind (json_contains ''posts'' j) (\<lambda>has. if has then res_bind (json_index j ''posts'') json_values else Inr [])"

definition stamped :: "json \<Rightarrow> py_exn + (real \<times> json)" where
  "stamped p = res_bind (created_at p) (\<lambda>t. Inr (t, p))"

definition mm_recent_messages :: "(json \<Rightarrow> string) \<Rightarrow> network \<Rightarrow> mattermost \<Rightarrow> json \<Rightarrow> int \<Rightarrow> int \<Rightarrow> json list chat" where
  "mm_recent_messages shown net c channel since_ms limit =
     io_or
       (io_then (reach_json net (http_get (mm_api c (''/channels/'' @ json_text shown channel @ ''/posts'')) (mm_headers c)
           (Some [(''since'', str_int since_ms), (''per_page'', str_int limit)]))) (\<lambda>j.
        io_res (res_bind (posts_of j) (\<lambda>ps. res_bind (res_map stamped ps) (\<lambda>ts.
          Inr (map snd (sort_key fst (filter (\<lambda>(t, p). t \<ge> real_of_int since_ms) ts))))))))
       []"

definition mm_delete_message :: "(json \<Rightarrow> string) \<Rightarrow> network \<Rightarrow> mattermost \<Rightarrow> json \<Rightarrow> bool chat" where
  "mm_delete_message shown net c post =
     io_or (io_then (reach net (http_delete (mm_api c (''/posts/'' @ json_text shown post)) (mm_headers c))) (\<lambda>p. io_ret True)) False"

definition mm_send_channel :: "network \<Rightarrow> mattermost \<Rightarrow> json \<Rightarrow> string \<Rightarrow> string option \<Rightarrow> json option chat" where
  "mm_send_channel net c channel message root_id =
     io_or
       (io_then (reach_json net (http_post (mm_api c ''/posts'') (mm_headers c)
           (Some (JObj ([(''channel_id'', channel), (''message'', JStr message)]
              @ (case root_id of Some (x # xs) \<Rightarrow> [(''root_id'', JStr (x # xs))] | _ \<Rightarrow> [])))))) (\<lambda>j.
        io_then (io_res (json_index j ''id'')) (\<lambda>i. io_ret (Some i))))
       None"

text \<open>\<open>[c for c in channels if c.get("team_id") == team_id]\<close>. An answer that is no list is returned as it is.\<close>

definition of_team :: "string \<Rightarrow> json \<Rightarrow> py_exn + json" where
  "of_team team j =
     res_bind (json_items j) (\<lambda>cs.
     res_bind (res_map (\<lambda>x. res_bind (json_get x ''team_id'' JNull) (\<lambda>t. Inr (t = JStr team, x))) cs) (\<lambda>ts.
     Inr (JArr (map snd (filter fst ts)))))"

definition mm_channels :: "network \<Rightarrow> mattermost \<Rightarrow> string \<Rightarrow> string option \<Rightarrow> json chat" where
  "mm_channels net c user team_id =
     io_or
       (io_then (reach_json net (http_get (mm_api c (''/users/'' @ user @ ''/channels'')) (mm_headers c) None)) (\<lambda>j.
        io_res (case team_id of Some (x # xs) \<Rightarrow> of_team (x # xs) j | _ \<Rightarrow> Inr j)))
       (JArr [])"

definition mm_search_posts :: "(json \<Rightarrow> string) \<Rightarrow> network \<Rightarrow> mattermost \<Rightarrow> string \<Rightarrow> bool \<Rightarrow> json list chat" where
  "mm_search_posts shown net c terms is_or =
     io_or
       (io_then (mm_bot_user_id net c) (\<lambda>bot.
        io_then (reach_json net (http_post (mm_api c (''/users/'' @ json_text shown bot @ ''/posts/search'')) (mm_headers c)
           (Some (JObj [(''terms'', JStr terms), (''is_or_search'', JBool is_or)])))) (\<lambda>j.
        io_res (res_bind (posts_of j) (\<lambda>ps. res_bind (res_map stamped ps) (\<lambda>ts. Inr (map snd (rank_by fst ts))))))))
       []"

definition mm_user_by_username :: "network \<Rightarrow> mattermost \<Rightarrow> string \<Rightarrow> json option chat" where
  "mm_user_by_username net c username =
     io_or (io_then (reach_json net (http_get (mm_api c (''/users/username/'' @ username)) (mm_headers c) None)) (\<lambda>j. io_ret (Some j))) None"

section \<open>Slack\<close>

definition SLACK_API :: string where
  "SLACK_API = ''https://slack.com/api''"

definition slack_get :: "network \<Rightarrow> string \<Rightarrow> string \<Rightarrow> (string \<times> string) list \<Rightarrow> json chat" where
  "slack_get net token name params = reach_json net (http_get (SLACK_API @ ''/'' @ name) (bearer token) (Some params))"

definition slack_post :: "network \<Rightarrow> string \<Rightarrow> string \<Rightarrow> json option \<Rightarrow> json chat" where
  "slack_post net token name body = reach_json net (http_post (SLACK_API @ ''/'' @ name) (bearer token) body)"

text \<open>\<open>if data.get("ok")\<close>: what is read from an answer that says so, the other value otherwise.\<close>

definition slack_ok :: "json \<Rightarrow> (json \<Rightarrow> py_exn + 'a) \<Rightarrow> 'a \<Rightarrow> 'a chat" where
  "slack_ok j f x = io_res (res_bind (json_get j ''ok'' JNull) (\<lambda>k. if truthy k then f j else Inr x))"

definition slack_bot_user_id :: "network \<Rightarrow> string \<Rightarrow> json chat" where
  "slack_bot_user_id net token w =
     (if truthy (cx_bot w) then (Inr (cx_bot w), w)
      else io_or
        (io_then (slack_post net token ''auth.test'' None) (\<lambda>j.
         io_then (slack_ok j (\<lambda>j. res_bind (json_get j ''user_id'' JNull) (\<lambda>i. Inr (Some i))) None) (\<lambda>r w.
         case r of None \<Rightarrow> (Inr JNull, w) | Some i \<Rightarrow> (Inr i, w\<lparr>cx_bot := i\<rparr>))))
        JNull w)"

definition slack_send_direct :: "network \<Rightarrow> string \<Rightarrow> string \<Rightarrow> string \<Rightarrow> (json \<times> json) option chat" where
  "slack_send_direct net token user message =
     io_or
       (io_then (slack_post net token ''conversations.open'' (Some (JObj [(''users'', JStr user)]))) (\<lambda>j.
        io_then (slack_ok j (\<lambda>j. res_bind (json_index j ''channel'') (\<lambda>c. res_bind (json_index c ''id'') (\<lambda>i. Inr (Some i)))) None) (\<lambda>r.
        case r of None \<Rightarrow> io_ret None
        | Some channel \<Rightarrow>
            io_then (slack_post net token ''chat.postMessage'' (Some (JObj [(''channel'', channel), (''text'', JStr message)]))) (\<lambda>j.
            slack_ok j (\<lambda>j. res_bind (json_get j ''ts'' JNull) (\<lambda>ts. Inr (Some (ts, channel)))) None))))
       None"

definition slack_history :: "(json \<Rightarrow> string) \<Rightarrow> network \<Rightarrow> string \<Rightarrow> json \<Rightarrow> string \<Rightarrow> int \<Rightarrow> json chat" where
  "slack_history shown net token channel oldest limit =
     io_or
       (io_then (slack_get net token ''conversations.history''
          [(''channel'', json_text shown channel), (''oldest'', oldest), (''limit'', str_int limit)]) (\<lambda>j.
        slack_ok j (\<lambda>j. json_get j ''messages'' (JArr [])) (JArr [])))
       (JArr [])"

definition slack_thread_replies :: "(json \<Rightarrow> string) \<Rightarrow> network \<Rightarrow> string \<Rightarrow> json \<Rightarrow> string \<Rightarrow> string option \<Rightarrow> int \<Rightarrow> json list chat" where
  "slack_thread_replies shown net token channel thread oldest limit =
     io_or
       (io_then (slack_get net token ''conversations.replies''
          ([(''channel'', json_text shown channel), (''ts'', thread), (''limit'', str_int limit)]
           @ (case oldest of None \<Rightarrow> [] | Some t \<Rightarrow> [(''oldest'', t)]))) (\<lambda>j.
        slack_ok j (\<lambda>j. res_bind (json_get j ''messages'' (JArr [])) (\<lambda>ms. res_bind (json_items ms) (\<lambda>xs.
          res_bind (res_map (\<lambda>x. res_bind (json_get x ''ts'' JNull) (\<lambda>t. Inr (t \<noteq> JStr thread, x))) xs) (\<lambda>ts.
          Inr (map snd (filter fst ts)))))) []))
       []"

definition slack_send_channel :: "network \<Rightarrow> string \<Rightarrow> string \<Rightarrow> string \<Rightarrow> string option \<Rightarrow> json chat" where
  "slack_send_channel net token channel message thread_ts =
     io_or
       (io_then (slack_post net token ''chat.postMessage''
          (Some (JObj ([(''channel'', JStr channel), (''text'', JStr message)]
             @ (case thread_ts of Some (x # xs) \<Rightarrow> [(''thread_ts'', JStr (x # xs))] | _ \<Rightarrow> []))))) (\<lambda>j.
        slack_ok j (\<lambda>j. json_get j ''ts'' JNull) JNull))
       JNull"

definition slack_conversations :: "network \<Rightarrow> string \<Rightarrow> string \<Rightarrow> json chat" where
  "slack_conversations net token types =
     io_or
       (io_then (slack_get net token ''conversations.list'' [(''types'', types), (''exclude_archived'', ''True'')]) (\<lambda>j.
        slack_ok j (\<lambda>j. json_get j ''channels'' (JArr [])) (JArr [])))
       (JArr [])"

definition slack_search :: "network \<Rightarrow> string \<Rightarrow> string \<Rightarrow> int \<Rightarrow> json chat" where
  "slack_search net token query results =
     io_or
       (io_then (slack_get net token ''search.messages''
          [(''query'', query), (''count'', str_int results), (''sort'', ''timestamp''), (''sort_dir'', ''desc'')]) (\<lambda>j.
        slack_ok j (\<lambda>j. res_bind (json_get j ''messages'' (JObj [])) (\<lambda>m. json_get m ''matches'' (JArr []))) (JArr [])))
       (JArr [])"

definition slack_delete_message :: "network \<Rightarrow> string \<Rightarrow> json \<Rightarrow> json \<Rightarrow> bool chat" where
  "slack_delete_message net token channel ts =
     io_or
       (io_then (slack_post net token ''chat.delete'' (Some (JObj [(''channel'', channel), (''ts'', ts)]))) (\<lambda>j.
        slack_ok j (\<lambda>j. Inr True) False))
       False"

end
