(* ===== verification/Api_Keys.thy ===== *)
theory Api_Keys
  imports Messenger
begin

text \<open>
  \<^verbatim>\<open>agents/api_key_manager.py\<close>: the keys of model providers, from the environment, a cache, a file, or asked from the user
  over Mattermost or Slack. The file holds a JSON value, or a text that is none. Times are microseconds since the prompt
  was sent; \<open>ke_clock k\<close> is the clock at the start of the \<open>k\<close>-th poll. Signs outside Latin-1 are written \<open>!\<close> and \<open>-\<close>. A
  stored list of pairs, which \<open>update\<close> would take, counts as unreadable; creating the directory does not fail.
\<close>

record mattermost_config =
  mt_enabled :: bool
  mt_webhook_url :: "string option"
  mt_default_channel :: string
  mt_username :: string
  mt_bot_enabled :: bool
  mt_bot_token :: "string option"
  mt_url :: "string option"

record key_env =
  ke_environ :: "string \<Rightarrow> string option"
  ke_config :: "mattermost_config option"
  ke_net :: network
  ke_shown :: "json \<Rightarrow> string"
  ke_unwritable :: "py_exn option" \<comment> \<open>opening the file for writing\<close>
  ke_write_fails :: "py_exn option" \<comment> \<open>writing the open file, which is empty by then\<close>
  ke_chmod :: "py_exn option"
  ke_minutes :: int
  ke_since_ms :: int
  ke_oldest :: string
  ke_clock :: "nat \<Rightarrow> int"

record key_world =
  kw_chat :: chat_world
  kw_cache :: "(string, json) py_dict"
  kw_file :: "json option option"

type_synonym 'a keyed = "(key_world, 'a) io"

definition talk :: "'a chat \<Rightarrow> 'a keyed" where
  "talk m w = (case m (kw_chat w) of (r, c) \<Rightarrow> (r, w\<lparr>kw_chat := c\<rparr>))"

section \<open>Storage\<close>

definition load_stored_keys :: "key_world \<Rightarrow> key_world" where
  "load_stored_keys w =
     (case kw_file w of
        Some (Some (JObj d)) \<Rightarrow> w\<lparr>kw_cache := foldl (\<lambda>c (k, v). dict_set k v c) (kw_cache w) d\<rparr>
      | _ \<Rightarrow> w)"

definition stored_object :: "json option option \<Rightarrow> py_exn + (string, json) py_dict" where
  "stored_object f =
     (case f of
        None \<Rightarrow> Inr []
      | Some None \<Rightarrow> Inl (OtherError ''JSONDecodeError'' [])
      | Some (Some (JObj d)) \<Rightarrow> Inr d
      | Some (Some j) \<Rightarrow> Inl (OtherError ''TypeError'' ''no item assignment''))"

text \<open>Opening the file for writing empties it; when the write then fails, for want of space say, what is left is a proper part of
  the object's text, which is no JSON.\<close>

definition save_key :: "key_env \<Rightarrow> string \<Rightarrow> string \<Rightarrow> unit keyed" where
  "save_key env name v w =
     (case stored_object (kw_file w) of
        Inl e \<Rightarrow> (Inl e, w)
      | Inr d \<Rightarrow>
          (case ke_unwritable env of
             Some e \<Rightarrow> (Inl e, w)
           | None \<Rightarrow>
               (case ke_write_fails env of
                  Some e \<Rightarrow> (Inl e, w\<lparr>kw_file := Some None\<rparr>)
                | None \<Rightarrow>
                    (let w1 = w\<lparr>kw_file := Some (Some (JObj (dict_set name (JStr v) d)))\<rparr> in
                     case ke_chmod env of
                       Some e \<Rightarrow> (Inl e, w1)
                     | None \<Rightarrow> (Inr (), w1\<lparr>kw_cache := dict_set name (JStr v) (kw_cache w1)\<rparr>)))))"

section \<open>Validation\<close>

definition py_upper :: "string \<Rightarrow> string" where
  "py_upper s = map upper_char s"

definition provider_check :: "string \<Rightarrow> string \<Rightarrow> bool \<times> string" where
  "provider_check name key =
     (let u = py_upper name in
      if str_contains ''OPENAI'' u then
        (if \<not> prefix ''sk-'' key then (False, ''OpenAI API keys must start with 'sk-'' @ [CHR 0x27])
         else if length key < 40 then (False, ''OpenAI API key appears too short (expected 40+ characters)'')
         else (True, []))
      else if str_contains ''ANTHROPIC'' u \<or> str_contains ''CLAUDE'' u then
        (if \<not> prefix ''sk-ant-'' key then (False, ''Anthropic API keys must start with 'sk-ant-'' @ [CHR 0x27])
         else if length key < 50 then (False, ''Anthropic API key appears too short (expected 50+ characters)'')
         else (True, []))
      else if str_contains ''HUGGINGFACE'' u \<or> str_contains ''HF'' u then
        (if \<not> prefix ''hf_'' key then (False, ''HuggingFace API keys must start with 'hf_'' @ [CHR 0x27]) else (True, []))
      else if str_contains ''GOOGLE'' u \<or> str_contains ''GEMINI'' u then
        (if length key < 30 then (False, ''Google API key appears too short (expected 30+ characters)'') else (True, []))
      else (True, []))"

definition validate_api_key :: "string \<Rightarrow> string \<Rightarrow> bool \<times> string" where
  "validate_api_key name key =
     (if length key < 10 then (False, ''API key is too short (minimum 10 characters)'')
      else if \<not> (\<forall>c \<in> set key. of_char c < (128 :: nat)) then (False, ''API key contains invalid non-ASCII characters'')
      else if key \<noteq> py_strip key \<or> CHR '' '' \<in> set key \<or> CHR 0x09 \<in> set key \<or> CHR 0x0A \<in> set key
        then (False, ''API key contains whitespace characters'')
      else provider_check name key)"

section \<open>What the user is told\<close>

definition key_title :: "string \<Rightarrow> string" where
  "key_title name = py_title (replace_char (CHR ''_'') (CHR '' '') name)"

text \<open>The prompts of the two messengers differ in their marks: the bold sign, the bullet, and where to reply.\<close>

definition prompt_text :: "string \<Rightarrow> string \<Rightarrow> string \<Rightarrow> string" where
  "prompt_text bold place name =
     bold @ ''API Key Required: '' @ name @ bold @ nl @ nl
     @ ''The system needs your '' @ key_title name @ '' to continue.'' @ nl @ nl
     @ bold @ ''How to provide it:'' @ bold @ nl
     @ ''1. Reply to this '' @ place @ '' with ONLY the API key (nothing else)'' @ nl
     @ ''2. The key will be securely stored and this message will be deleted'' @ nl @ nl
     @ bold @ ''Security Notes:'' @ bold @ nl
     @ ''- Your key will be stored in ~/.vibe/api_keys.json with restricted permissions'' @ nl
     @ ''- The message containing your key will be automatically deleted'' @ nl
     @ ''- You have 5 minutes to respond before this request times out'' @ nl @ nl
     @ ''Please send your '' @ name @ '' now:''"

definition mattermost_prompt :: "string \<Rightarrow> string" where
  "mattermost_prompt name = prompt_text ''**'' ''message'' name"

definition slack_prompt :: "string \<Rightarrow> string" where
  "slack_prompt name = prompt_text ''*'' ''thread'' name"

definition NOT_DELETED :: string where
  "NOT_DELETED =
     ''! **SECURITY WARNING**: Failed to delete your message containing the API key!'' @ nl @ nl
     @ ''**Please manually delete it from the chat immediately** to prevent exposure.'' @ nl @ nl
     @ ''The key will still be stored securely, but the message is currently visible in chat history.''"

definition invalid_text :: "string \<Rightarrow> string" where
  "invalid_text err = ''! Invalid API key format: '' @ err @ nl @ nl @ ''Please try again.''"

definition confirmation :: "string \<Rightarrow> bool \<Rightarrow> string" where
  "confirmation name deleted =
     ''! '' @ name @ '' received and stored securely!'' @ nl @ nl @ ''Your key has been saved to ~/.vibe/api_keys.json''
     @ (if deleted then [] else nl @ nl @ ''! **Remember to manually delete your message with the key!**'')"

definition storing_failed :: "py_exn \<Rightarrow> string" where
  "storing_failed e = ''! Error storing API key: '' @ exn_text e @ nl @ ''Please try setting it manually.''"

definition timed_out :: "string \<Rightarrow> string" where
  "timed_out name =
     ''! API key request timed out. Please set '' @ name @ '' manually:'' @ nl @ nl
     @ ''```'' @ nl @ ''export '' @ name @ ''=your-api-key-here'' @ nl @ ''```''"

definition get_error_message :: "key_env \<Rightarrow> string \<Rightarrow> string" where
  "get_error_message env name =
     ''API key '' @ [CHR 0x27] @ name @ [CHR 0x27] @ '' is not configured.'' @ nl @ nl
     @ ''To configure it, you can:'' @ nl @ nl
     @ ''1. Set environment variable:'' @ nl @ ''   export '' @ name @ ''=your-api-key-here'' @ nl @ nl
     @ ''2. Add to ~/.vibe/api_keys.json:'' @ nl
     @ ''   {'' @ nl @ ''     \"'' @ name @ ''\": \"your-api-key-here\"'' @ nl @ ''   }'' @ nl @ nl
     @ (case ke_config env of
          Some c \<Rightarrow> if mt_enabled c then ''3. Interactive prompting via messenger (coming soon)'' @ nl @ nl else []
        | None \<Rightarrow> [])
     @ ''Once configured, the '' @ key_title name @ '' will be used for API requests.''"

section \<open>An answer of the user\<close>

text \<open>What is done with a text that may be the key: \<open>None\<close> to look at the next message, else what the prompt returns.
  \<open>tell\<close> sends the user a message, \<open>erase\<close> deletes the answer, \<open>drop_prompt\<close> the question.\<close>

definition receive_key ::
    "key_env \<Rightarrow> string \<Rightarrow> string \<Rightarrow> (string \<Rightarrow> unit keyed) \<Rightarrow> bool keyed \<Rightarrow> unit keyed \<Rightarrow> string option option keyed" where
  "receive_key env name key tell erase drop_prompt =
     io_then erase (\<lambda>deleted.
     io_then (if deleted then io_ret () else tell NOT_DELETED) (\<lambda>_.
     case validate_api_key name key of
       (False, err) \<Rightarrow> io_then (tell (invalid_text err)) (\<lambda>_. io_ret None)
     | (True, _) \<Rightarrow>
         io_then
           (io_catch
             (io_then (save_key env name key) (\<lambda>_.
              io_then (tell (confirmation name deleted)) (\<lambda>_.
              io_then drop_prompt (\<lambda>_. io_ret (Some key)))))
             (\<lambda>e. io_then (tell (storing_failed e)) (\<lambda>_. io_ret None)))
           (\<lambda>r. io_ret (Some r))))"

text \<open>\<open>msg.get(k, "").strip()\<close>.\<close>

fun stripped_text :: "json \<Rightarrow> py_exn + string" where
  "stripped_text (JStr s) = Inr (py_strip s)"
| "stripped_text _ = Inl (OtherError ''AttributeError'' ''strip'')"

definition said :: "json \<Rightarrow> string \<Rightarrow> py_exn + string" where
  "said msg k = res_bind (json_get msg k (JStr [])) stripped_text"

section \<open>Mattermost\<close>

definition mm_tell :: "key_env \<Rightarrow> mattermost \<Rightarrow> json \<Rightarrow> string \<Rightarrow> unit keyed" where
  "mm_tell env c user m = io_then (talk (mm_send_direct (ke_net env) c user m)) (\<lambda>_. io_ret ())"

definition mm_erase :: "key_env \<Rightarrow> mattermost \<Rightarrow> json \<Rightarrow> bool keyed" where
  "mm_erase env c post = talk (mm_delete_message (ke_shown env) (ke_net env) c post)"

text \<open>Whether a message is looked at: not the bot's own and not the prompt; then its text.\<close>

definition mm_answer :: "json \<Rightarrow> json \<Rightarrow> json \<Rightarrow> py_exn + string" where
  "mm_answer me prompt_id msg =
     res_bind (json_get msg ''user_id'' JNull) (\<lambda>u. if u = me then Inr [] else
     res_bind (json_get msg ''id'' JNull) (\<lambda>i. if i = prompt_id then Inr [] else said msg ''message''))"

fun mm_messages ::
    "key_env \<Rightarrow> mattermost \<Rightarrow> string \<Rightarrow> json \<Rightarrow> json \<Rightarrow> json \<Rightarrow> json list \<Rightarrow> string option option keyed" where
  "mm_messages env c name user me prompt_id [] = io_ret None"
| "mm_messages env c name user me prompt_id (msg # msgs) =
     io_then (io_res (mm_answer me prompt_id msg)) (\<lambda>key.
     io_then
       (if key = [] then io_ret None
        else receive_key env name key (mm_tell env c user)
               (io_then (io_res (json_index msg ''id'')) (mm_erase env c))
               (io_then (mm_erase env c prompt_id) (\<lambda>_. io_ret ())))
       (\<lambda>r. case r of Some x \<Rightarrow> io_ret (Some x) | None \<Rightarrow> mm_messages env c name user me prompt_id msgs))"

definition timeout_micros :: "key_env \<Rightarrow> int" where
  "timeout_micros env = ke_minutes env * 60 * 1000000"

text \<open>\<open>None\<close> after the fuel: still polling.\<close>

fun mm_poll :: "key_env \<Rightarrow> mattermost \<Rightarrow> string \<Rightarrow> json \<Rightarrow> json \<Rightarrow> json \<Rightarrow> nat \<Rightarrow> nat \<Rightarrow> string option option keyed" where
  "mm_poll env c name user prompt_id channel 0 k = io_ret None"
| "mm_poll env c name user prompt_id channel (Suc n) k =
     (if ke_clock env k \<ge> timeout_micros env then io_then (mm_tell env c user (timed_out name)) (\<lambda>_. io_ret (Some None))
      else
        io_then (talk (mm_recent_messages (ke_shown env) (ke_net env) c channel (ke_since_ms env) 60)) (\<lambda>msgs.
        io_then (talk (mm_bot_user_id (ke_net env) c)) (\<lambda>me.
        io_then (mm_messages env c name user me prompt_id msgs) (\<lambda>r.
        case r of Some x \<Rightarrow> io_ret (Some x) | None \<Rightarrow> mm_poll env c name user prompt_id channel n (Suc k)))))"

definition set_text :: "string option \<Rightarrow> string option" where
  "set_text x = (case x of Some (c # cs) \<Rightarrow> Some (c # cs) | _ \<Rightarrow> None)"

definition new_bot :: "key_world \<Rightarrow> key_world" where
  "new_bot w = w\<lparr>kw_chat := (kw_chat w)\<lparr>cx_bot := JNull\<rparr>\<rparr>"

definition mm_username :: "key_env \<Rightarrow> string option" where
  "mm_username env =
     (case set_text (ke_environ env ''MATTERMOST_USERNAME'') of Some u \<Rightarrow> Some u | None \<Rightarrow> set_text (ke_environ env ''USER''))"

definition mm_conversation :: "key_env \<Rightarrow> nat \<Rightarrow> mattermost \<Rightarrow> string \<Rightarrow> string \<Rightarrow> string option option keyed" where
  "mm_conversation env fuel c username name =
     io_then (talk (mm_user_by_username (ke_net env) c username)) (\<lambda>found.
     case found of
       None \<Rightarrow> io_ret (Some None)
     | Some data \<Rightarrow>
         if \<not> truthy data then io_ret (Some None)
         else
           io_then (io_res (json_index data ''id'')) (\<lambda>user.
           io_then (talk (mm_send_direct (ke_net env) c user (mattermost_prompt name))) (\<lambda>prompt_id.
           io_then (talk (mm_direct_channel (ke_net env) c user)) (\<lambda>channel.
           mm_poll env c name user prompt_id channel fuel 0))))"

definition prompt_via_mattermost :: "key_env \<Rightarrow> nat \<Rightarrow> mattermost_config \<Rightarrow> string \<Rightarrow> string option option keyed" where
  "prompt_via_mattermost env fuel cfg name w =
     (case (set_text (mt_bot_token cfg), set_text (mt_url cfg)) of
        (Some token, Some url) \<Rightarrow>
          (case mm_username env of
             None \<Rightarrow> (Inr (Some None), w)
           | Some u \<Rightarrow> io_or (mm_conversation env fuel (mattermost_client url token) u name) (Some None) (new_bot w))
      | _ \<Rightarrow> (Inr (Some None), w))"

section \<open>Slack\<close>

definition slack_tell :: "key_env \<Rightarrow> string \<Rightarrow> string \<Rightarrow> string \<Rightarrow> unit keyed" where
  "slack_tell env token user m = io_then (talk (slack_send_direct (ke_net env) token user m)) (\<lambda>_. io_ret ())"

definition slack_answer :: "json \<Rightarrow> json \<Rightarrow> py_exn + string" where
  "slack_answer prompt_ts msg =
     res_bind (json_get msg ''bot_id'' JNull) (\<lambda>b. if truthy b then Inr [] else
     res_bind (json_get msg ''subtype'' JNull) (\<lambda>st. if st = JStr ''bot_message'' then Inr [] else
     res_bind (json_get msg ''ts'' JNull) (\<lambda>t. if t = prompt_ts then Inr [] else said msg ''text'')))"

text \<open>Nothing to delete without a time stamp.\<close>

definition slack_erase :: "key_env \<Rightarrow> string \<Rightarrow> json \<Rightarrow> json \<Rightarrow> bool keyed" where
  "slack_erase env token channel ts =
     (if truthy ts then talk (slack_delete_message (ke_net env) token channel ts) else io_ret False)"

fun slack_messages ::
    "key_env \<Rightarrow> string \<Rightarrow> string \<Rightarrow> string \<Rightarrow> json \<Rightarrow> json \<Rightarrow> json list \<Rightarrow> string option option keyed" where
  "slack_messages env token name user channel prompt_ts [] = io_ret None"
| "slack_messages env token name user channel prompt_ts (msg # msgs) =
     io_then (io_res (slack_answer prompt_ts msg)) (\<lambda>key.
     io_then
       (if key = [] then io_ret None
        else receive_key env name key (slack_tell env token user)
               (io_then (io_res (json_get msg ''ts'' JNull)) (slack_erase env token channel))
               (io_then (slack_erase env token channel prompt_ts) (\<lambda>_. io_ret ())))
       (\<lambda>r. case r of Some x \<Rightarrow> io_ret (Some x) | None \<Rightarrow> slack_messages env token name user channel prompt_ts msgs))"

fun slack_poll :: "key_env \<Rightarrow> string \<Rightarrow> string \<Rightarrow> string \<Rightarrow> json \<Rightarrow> json \<Rightarrow> nat \<Rightarrow> nat \<Rightarrow> string option option keyed" where
  "slack_poll env token name user prompt_ts channel 0 k = io_ret None"
| "slack_poll env token name user prompt_ts channel (Suc n) k =
     (if ke_clock env k \<ge> timeout_micros env then io_then (slack_tell env token user (timed_out name)) (\<lambda>_. io_ret (Some None))
      else
        io_then (talk (slack_history (ke_shown env) (ke_net env) token channel (ke_oldest env) 100)) (\<lambda>j.
        io_then (io_res (json_items j)) (\<lambda>msgs.
        io_then (slack_messages env token name user channel prompt_ts msgs) (\<lambda>r.
        case r of Some x \<Rightarrow> io_ret (Some x) | None \<Rightarrow> slack_poll env token name user prompt_ts channel n (Suc k)))))"

definition prompt_via_slack :: "key_env \<Rightarrow> nat \<Rightarrow> string \<Rightarrow> string option option keyed" where
  "prompt_via_slack env fuel name w =
     (case (set_text (ke_environ env ''SLACK_BOT_TOKEN''), set_text (ke_environ env ''SLACK_USER_ID'')) of
        (Some token, Some user) \<Rightarrow>
          io_or
            (io_then (talk (slack_send_direct (ke_net env) token user (slack_prompt name))) (\<lambda>sent.
             case sent of
               None \<Rightarrow> io_ret (Some None)
             | Some (prompt_ts, channel) \<Rightarrow> slack_poll env token name user prompt_ts channel fuel 0))
            (Some None) (new_bot w)
      | _ \<Rightarrow> (Inr (Some None), w))"

section \<open>Looking a key up\<close>

definition prompt_user_for_key :: "key_env \<Rightarrow> nat \<Rightarrow> string \<Rightarrow> string option option keyed" where
  "prompt_user_for_key env fuel name =
     (case ke_config env of
        Some cfg \<Rightarrow> if mt_enabled cfg \<and> mt_bot_enabled cfg then prompt_via_mattermost env fuel cfg name else prompt_via_slack env fuel name
      | None \<Rightarrow> prompt_via_slack env fuel name)"

text \<open>\<open>Some None\<close>: no key; \<open>None\<close>: still polling when the fuel is used up.\<close>

definition get_api_key :: "key_env \<Rightarrow> nat \<Rightarrow> string \<Rightarrow> bool \<Rightarrow> json option option keyed" where
  "get_api_key env fuel name ask_user w =
     (case set_text (ke_environ env name) of
        Some v \<Rightarrow> (Inr (Some (Some (JStr v))), w)
      | None \<Rightarrow>
          (case dict_get (kw_cache w) name of
             Some v \<Rightarrow> (Inr (Some (Some v)), w)
           | None \<Rightarrow>
               (let w1 = load_stored_keys w in
                case dict_get (kw_cache w1) name of
                  Some v \<Rightarrow> (Inr (Some (Some v)), w1)
                | None \<Rightarrow>
                    if \<not> ask_user then (Inr (Some None), w1)
                    else io_then (prompt_user_for_key env fuel name) (\<lambda>r. io_ret (map_option (map_option JStr) r)) w1)))"

section \<open>Relations a computation keeps\<close>

definition io_keeps :: "('w \<Rightarrow> 'w \<Rightarrow> bool) \<Rightarrow> ('w, 'a) io \<Rightarrow> bool" where
  "io_keeps R m \<longleftrightarrow> (\<forall>w. R w (snd (m w)))"

text \<open>A preorder that the parts of a computation keep, the whole keeps.\<close>

locale io_steps =
  fixes R :: "'w \<Rightarrow> 'w \<Rightarrow> bool"
  assumes step_refl: "R w w"
    and step_trans: "R a b \<Longrightarrow> R b c \<Longrightarrow> R a c"
begin

lemma ret: "io_keeps R (io_ret x)"
  by (simp add: io_keeps_def io_ret_def step_refl)

lemma res: "io_keeps R (io_res r)"
  by (simp add: io_keeps_def io_res_def step_refl)

lemma sequence:
  assumes "io_keeps R m" and "\<And>x. io_keeps R (k x)"
  shows "io_keeps R (io_then m k)"
  unfolding io_keeps_def
proof
  fix w
  have "R w (snd (m w))" and "\<And>x w. R w (snd (k x w))" using assms by (simp_all add: io_keeps_def)
  then show "R w (snd (io_then m k w))" by (auto simp: io_then_def split: prod.splits sum.splits intro: step_trans)
qed

lemma catch:
  assumes "io_keeps R m" and "\<And>e. io_keeps R (h e)"
  shows "io_keeps R (io_catch m h)"
  unfolding io_keeps_def
proof
  fix w
  have "R w (snd (m w))" and "\<And>e w. R w (snd (h e w))" using assms by (simp_all add: io_keeps_def)
  then show "R w (snd (io_catch m h w))" by (auto simp: io_catch_def split: prod.splits sum.splits intro: step_trans)
qed

lemma attempt: "io_keeps R m \<Longrightarrow> io_keeps R (io_or m x)"
  unfolding io_or_def by (rule catch) (simp_all add: ret)

lemma at: "io_keeps R m \<Longrightarrow> R w (snd (m w))"
  by (simp add: io_keeps_def)

lemmas rules = ret res sequence catch attempt

end

text \<open>The requests a computation adds satisfy \<open>Q\<close>.\<close>

definition sends :: "(http_request \<Rightarrow> bool) \<Rightarrow> chat_world \<Rightarrow> chat_world \<Rightarrow> bool" where
  "sends Q w w' \<longleftrightarrow> (\<exists>rs. cx_sent w' = cx_sent w @ rs \<and> list_all Q rs)"

definition asks :: "(http_request \<Rightarrow> bool) \<Rightarrow> key_world \<Rightarrow> key_world \<Rightarrow> bool" where
  "asks Q w w' \<longleftrightarrow> sends Q (kw_chat w) (kw_chat w')"

text \<open>The stored keys, and those of them a prompt for \<open>name\<close> may change; a write that fails loses them all.\<close>

definition stored_key :: "key_world \<Rightarrow> string \<Rightarrow> json option" where
  "stored_key w k = (case kw_file w of Some (Some (JObj d)) \<Rightarrow> dict_get d k | _ \<Rightarrow> None)"

definition gains_valid :: "key_env \<Rightarrow> string \<Rightarrow> key_world \<Rightarrow> key_world \<Rightarrow> bool" where
  "gains_valid env name w w' \<longleftrightarrow>
     (kw_file w = Some None \<longrightarrow> kw_file w' = Some None)
     \<and> ((\<forall>k. stored_key w' k = stored_key w k
           \<or> k = name \<and> (\<exists>v. stored_key w' k = Some (JStr v) \<and> fst (validate_api_key name v)))
        \<or> ke_write_fails env \<noteq> None \<and> kw_file w' = Some None)"

definition same_file :: "key_world \<Rightarrow> key_world \<Rightarrow> bool" where
  "same_file w w' \<longleftrightarrow> kw_file w' = kw_file w \<and> kw_cache w' = kw_cache w"

interpretation chat_sends: io_steps "sends Q" for Q
  by unfold_locales (auto simp: sends_def)

interpretation key_asks: io_steps "asks Q" for Q
  by unfold_locales (auto simp: asks_def sends_def)

interpretation key_gains: io_steps "gains_valid env name" for env name
  by unfold_locales (simp_all add: gains_valid_def, metis)

interpretation key_same: io_steps same_file
  by unfold_locales (auto simp: same_file_def)

lemma talk_asks: "io_keeps (sends Q) m \<Longrightarrow> io_keeps (asks Q) (talk m)"
  by (simp add: io_keeps_def asks_def talk_def split: prod.splits) (metis snd_conv)

lemma talk_same: "io_keeps same_file (talk m)"
  by (simp add: io_keeps_def same_file_def talk_def split: prod.splits)

lemma same_gains: "io_keeps same_file m \<Longrightarrow> io_keeps (gains_valid env name) m"
  by (simp add: io_keeps_def same_file_def gains_valid_def stored_key_def)

section \<open>What the parts keep\<close>

text \<open>Talking leaves the stored keys alone; an answer of the user adds at most a valid key.\<close>

named_theorems keeps_file

lemma mm_tell_same [keeps_file]: "io_keeps same_file (mm_tell env c user m)"
  unfolding mm_tell_def by (intro key_same.rules talk_same)

lemma mm_erase_same [keeps_file]: "io_keeps same_file (mm_erase env c post)"
  unfolding mm_erase_def by (rule talk_same)

lemma slack_tell_same [keeps_file]: "io_keeps same_file (slack_tell env token user m)"
  unfolding slack_tell_def by (intro key_same.rules talk_same)

lemma slack_erase_same [keeps_file]: "io_keeps same_file (slack_erase env token channel ts)"
  by (simp add: slack_erase_def talk_same key_same.ret)

lemma save_key_gains:
  assumes "fst (validate_api_key name v)"
  shows "io_keeps (gains_valid env name) (save_key env name v)"
proof -
  have old: "dict_get d k = stored_key w k" if "stored_object (kw_file w) = Inr d" for d w k
    using that by (auto simp: stored_object_def stored_key_def split: option.splits json.splits)
  have unreadable: "stored_object (Some None) \<noteq> Inr d" for d by (simp add: stored_object_def)
  show ?thesis
    using assms by (auto simp: unreadable io_keeps_def save_key_def gains_valid_def stored_key_def [of "_\<lparr>kw_file := _\<rparr>"]
      stored_key_def [of "_\<lparr>kw_file := _, kw_cache := _\<rparr>"] Let_def dict_get_set old split: sum.splits option.splits)
qed

lemma receive_key_gains:
  assumes "\<And>m. io_keeps same_file (tell m)" "io_keeps same_file erase" "io_keeps same_file drop_prompt"
  shows "io_keeps (gains_valid env name) (receive_key env name key tell erase drop_prompt)"
proof (cases "validate_api_key name key")
  case (Pair ok err)
  note same = assms [THEN same_gains]
  show ?thesis
  proof (cases ok)
    case True
    then have "io_keeps (gains_valid env name) (save_key env name key)" using save_key_gains Pair by simp
    then show ?thesis unfolding receive_key_def Pair using True
      by (auto intro!: key_gains.rules same)
  next
    case False
    then show ?thesis unfolding receive_key_def Pair by (auto intro!: key_gains.rules same)
  qed
qed

lemma mm_messages_gains: "io_keeps (gains_valid env name) (mm_messages env c name user me prompt_id msgs)"
proof (induction msgs)
  case (Cons msg msgs)
  have "io_keeps (gains_valid env name) (receive_key env name key (mm_tell env c user)
      (io_then (io_res (json_index msg ''id'')) (mm_erase env c)) (io_then (mm_erase env c prompt_id) (\<lambda>_. io_ret ())))" for key
    by (intro receive_key_gains key_same.rules keeps_file)
  then show ?case using Cons by (auto intro!: key_gains.rules split: option.splits)
qed (simp add: key_gains.ret)

lemma slack_messages_gains: "io_keeps (gains_valid env name) (slack_messages env token name user channel prompt_ts msgs)"
proof (induction msgs)
  case (Cons msg msgs)
  have "io_keeps (gains_valid env name) (receive_key env name key (slack_tell env token user)
      (io_then (io_res (json_get msg ''ts'' JNull)) (slack_erase env token channel))
      (io_then (slack_erase env token channel prompt_ts) (\<lambda>_. io_ret ())))" for key
    by (intro receive_key_gains key_same.rules keeps_file)
  then show ?case using Cons by (auto intro!: key_gains.rules split: option.splits)
qed (simp add: key_gains.ret)

lemmas talk_gains = talk_same [THEN same_gains]

lemma mm_poll_gains: "io_keeps (gains_valid env name) (mm_poll env c name user prompt_id channel n k)"
proof (induction n arbitrary: k)
  case (Suc n)
  then show ?case by (auto intro!: key_gains.rules talk_gains mm_messages_gains mm_tell_same [THEN same_gains] split: option.splits)
qed (simp add: key_gains.ret)

lemma slack_poll_gains: "io_keeps (gains_valid env name) (slack_poll env token name user prompt_ts channel n k)"
proof (induction n arbitrary: k)
  case (Suc n)
  then show ?case by (auto intro!: key_gains.rules talk_gains slack_messages_gains slack_tell_same [THEN same_gains] split: option.splits)
qed (simp add: key_gains.ret)

lemma new_bot_stored [simp]: "stored_key (new_bot w) k = stored_key w k" "kw_file (new_bot w) = kw_file w"
  by (simp_all add: new_bot_def stored_key_def)

lemma gains_from_new_bot: "gains_valid env name (new_bot w) w' = gains_valid env name w w'"
  by (simp add: gains_valid_def)

lemma mattermost_gains: "gains_valid env name w (snd (prompt_via_mattermost env fuel cfg name w))"
proof -
  have keeps: "io_keeps (gains_valid env name) (mm_conversation env fuel c u name)" for c u
    unfolding mm_conversation_def by (auto intro!: key_gains.rules talk_gains mm_poll_gains split: option.splits)
  have "gains_valid env name w (snd (io_or (mm_conversation env fuel c u name) (Some None) (new_bot w)))" for c u
    using key_gains.at [OF key_gains.attempt [OF keeps], where w = "new_bot w"] by (simp add: gains_from_new_bot)
  then show ?thesis by (auto simp: prompt_via_mattermost_def key_gains.step_refl split: option.splits)
qed

lemma slack_gains: "gains_valid env name w (snd (prompt_via_slack env fuel name w))"
proof -
  have "io_keeps (gains_valid env name) (io_or
      (io_then (talk (slack_send_direct (ke_net env) token user (slack_prompt name))) (\<lambda>sent. case sent of
         None \<Rightarrow> io_ret (Some None)
       | Some (prompt_ts, channel) \<Rightarrow> slack_poll env token name user prompt_ts channel fuel 0)) (Some None))" for token user
    by (auto intro!: key_gains.rules talk_gains slack_poll_gains split: option.splits)
  from key_gains.at [OF this, of "new_bot w"] show ?thesis
    by (auto simp: prompt_via_slack_def key_gains.step_refl gains_from_new_bot split: option.splits)
qed

lemma prompt_gains: "gains_valid env name w (snd (prompt_user_for_key env fuel name w))"
  by (simp add: prompt_user_for_key_def mattermost_gains slack_gains split: option.splits)

lemma load_stored_file [simp]: "kw_file (load_stored_keys w) = kw_file w" "kw_chat (load_stored_keys w) = kw_chat w"
  by (auto simp: load_stored_keys_def split: option.splits json.splits)

section \<open>What a computation returns\<close>

text \<open>Whatever it returns satisfies \<open>P\<close> with the world it leaves.\<close>

definition io_gives :: "('a \<Rightarrow> 'w \<Rightarrow> bool) \<Rightarrow> ('w, 'a) io \<Rightarrow> bool" where
  "io_gives P m \<longleftrightarrow> (\<forall>w. case m w of (Inl e, w') \<Rightarrow> True | (Inr x, w') \<Rightarrow> P x w')"

lemma gives_ret: "(\<And>w. P x w) \<Longrightarrow> io_gives P (io_ret x)"
  by (simp add: io_gives_def io_ret_def)

lemma gives_at: "io_gives P m \<Longrightarrow> m w = (Inr x, w') \<Longrightarrow> P x w'"
  unfolding io_gives_def by (drule spec [of _ w]) simp

lemma gives_then:
  assumes "\<And>x. io_gives P (k x)"
  shows "io_gives P (io_then m k)"
  unfolding io_gives_def io_then_def by (auto split: prod.splits sum.splits intro: gives_at [OF assms])

lemma gives_or: "io_gives P m \<Longrightarrow> (\<And>w. P x w) \<Longrightarrow> io_gives P (io_or m x)"
  by (auto simp: io_gives_def io_or_def io_catch_def io_ret_def split: prod.splits sum.splits)

definition has_saved :: "string \<Rightarrow> string option option \<Rightarrow> key_world \<Rightarrow> bool" where
  "has_saved name r w \<longleftrightarrow>
     (\<forall>v. r = Some (Some v) \<longrightarrow> fst (validate_api_key name v) \<and> stored_key w name = Some (JStr v)
        \<and> dict_get (kw_cache w) name = Some (JStr v))"

lemma saved_None [simp]: "has_saved name None w" "has_saved name (Some None) w"
  by (simp_all add: has_saved_def)

lemma save_key_stores: "save_key env name v w = (Inr (), w') \<Longrightarrow> stored_key w' name = Some (JStr v) \<and> dict_get (kw_cache w') name = Some (JStr v)"
  by (auto simp: save_key_def Let_def stored_key_def split: sum.splits option.splits)

lemma same_file_step: "io_keeps same_file m \<Longrightarrow> m w = (r, w') \<Longrightarrow> kw_file w' = kw_file w \<and> kw_cache w' = kw_cache w"
  by (simp add: io_keeps_def same_file_def) (metis snd_conv)

lemma confirmed_key_is_stored:
  assumes tell: "\<And>m. io_keeps same_file (tell m)" and drop_prompt: "io_keeps same_file drop_prompt"
    and run: "io_then (save_key env name key) (\<lambda>_. io_then (tell t) (\<lambda>_. io_then drop_prompt (\<lambda>_. io_ret (Some key)))) w = (Inr x, w')"
  shows "x = Some key \<and> stored_key w' name = Some (JStr key) \<and> dict_get (kw_cache w') name = Some (JStr key)"
proof -
  obtain w1 where s: "save_key env name key w = (Inr (), w1)"
    and rest: "io_then (tell t) (\<lambda>_. io_then drop_prompt (\<lambda>_. io_ret (Some key))) w1 = (Inr x, w')"
    using run by (auto simp: io_then_def split: prod.splits sum.splits)
  have "io_keeps same_file (io_then (tell t) (\<lambda>_. io_then drop_prompt (\<lambda>_. io_ret (Some key))))"
    by (intro key_same.rules tell drop_prompt)
  note same = same_file_step [OF this rest]
  have "x = Some key" using rest by (auto simp: io_then_def io_ret_def split: prod.splits sum.splits)
  then show ?thesis using same save_key_stores [OF s] by (simp add: stored_key_def)
qed

lemma receive_key_gives:
  assumes "\<And>m. io_keeps same_file (tell m)" "io_keeps same_file drop_prompt"
  shows "io_gives (has_saved name) (receive_key env name key tell erase drop_prompt)"
proof (cases "validate_api_key name key")
  case (Pair ok err)
  have "io_gives (has_saved name) (io_then (io_catch
      (io_then (save_key env name key) (\<lambda>_. io_then (tell t) (\<lambda>_. io_then drop_prompt (\<lambda>_. io_ret (Some key)))))
      (\<lambda>e. io_then (tell (storing_failed e)) (\<lambda>_. io_ret None))) (\<lambda>r. io_ret (Some r)))" if ok for t
    unfolding io_gives_def
  proof
    fix w
    let ?m = "io_then (save_key env name key) (\<lambda>_. io_then (tell t) (\<lambda>_. io_then drop_prompt (\<lambda>_. io_ret (Some key))))"
    have v: "fst (validate_api_key name key)" using Pair that by simp
    show "case io_then (io_catch ?m (\<lambda>e. io_then (tell (storing_failed e)) (\<lambda>_. io_ret None))) (\<lambda>r. io_ret (Some r)) w of
        (Inl e, w') \<Rightarrow> True | (Inr x, w') \<Rightarrow> has_saved name x w'"
    proof (cases "?m w")
      case (Pair r w1)
      show ?thesis
      proof (cases r)
        case (Inl e)
        then show ?thesis using Pair
          by (auto simp: io_then_def [of "io_catch ?m _"] io_catch_def io_then_def [of "tell _"] io_ret_def has_saved_def split: prod.splits sum.splits)
      next
        case (Inr x)
        then show ?thesis using Pair confirmed_key_is_stored [of tell drop_prompt env name key t w x w1] assms v
          by (simp add: io_then_def [of "io_catch ?m _"] io_catch_def io_ret_def has_saved_def)
      qed
    qed
  qed
  then show ?thesis unfolding receive_key_def Pair
    by (auto intro!: gives_then gives_ret split: bool.splits)
qed

lemma gives_pass:
  assumes "io_gives P m" and "io_gives P rest"
  shows "io_gives P (io_then m (\<lambda>r. case r of Some x \<Rightarrow> io_ret (Some x) | None \<Rightarrow> rest))"
  unfolding io_gives_def io_then_def
  by (auto simp: io_ret_def split: prod.splits sum.splits option.splits intro: gives_at [OF assms(1)] gives_at [OF assms(2)])

lemma mm_messages_gives: "io_gives (has_saved name) (mm_messages env c name user me prompt_id msgs)"
proof (induction msgs)
  case (Cons msg msgs)
  have "io_gives (has_saved name) (receive_key env name key (mm_tell env c user)
      (io_then (io_res (json_index msg ''id'')) (mm_erase env c)) (io_then (mm_erase env c prompt_id) (\<lambda>_. io_ret ())))" for key
    by (intro receive_key_gives key_same.rules keeps_file)
  then show ?case by (simp, intro gives_then [OF gives_pass [OF _ Cons]]) (simp add: gives_ret)
qed (simp add: gives_ret)

lemma slack_messages_gives: "io_gives (has_saved name) (slack_messages env token name user channel prompt_ts msgs)"
proof (induction msgs)
  case (Cons msg msgs)
  have "io_gives (has_saved name) (receive_key env name key (slack_tell env token user)
      (io_then (io_res (json_get msg ''ts'' JNull)) (slack_erase env token channel))
      (io_then (slack_erase env token channel prompt_ts) (\<lambda>_. io_ret ())))" for key
    by (intro receive_key_gives key_same.rules keeps_file)
  then show ?case by (simp, intro gives_then [OF gives_pass [OF _ Cons]]) (simp add: gives_ret)
qed (simp add: gives_ret)

lemma mm_poll_gives: "io_gives (has_saved name) (mm_poll env c name user prompt_id channel n k)"
proof (induction n arbitrary: k)
  case (Suc n)
  show ?case
  proof (cases "ke_clock env k \<ge> timeout_micros env")
    case True
    then show ?thesis by (simp add: gives_then gives_ret)
  next
    case False
    then show ?thesis by (simp add: gives_then [OF gives_then [OF gives_pass [OF mm_messages_gives Suc.IH]]])
  qed
qed (simp add: gives_ret)

lemma slack_poll_gives: "io_gives (has_saved name) (slack_poll env token name user prompt_ts channel n k)"
proof (induction n arbitrary: k)
  case (Suc n)
  show ?case
  proof (cases "ke_clock env k \<ge> timeout_micros env")
    case True
    then show ?thesis by (simp add: gives_then gives_ret)
  next
    case False
    then show ?thesis by (simp add: gives_then [OF gives_then [OF gives_pass [OF slack_messages_gives Suc.IH]]])
  qed
qed (simp add: gives_ret)

lemma mm_conversation_gives: "io_gives (has_saved name) (mm_conversation env fuel c u name)"
  unfolding mm_conversation_def by (auto intro!: gives_then gives_ret mm_poll_gives split: option.splits)

lemma prompt_gives: "io_gives (has_saved name) (prompt_user_for_key env fuel name)"
proof -
  have m: "io_gives (has_saved name) (prompt_via_mattermost env fuel cfg name)" for cfg
    using gives_at [OF gives_or [OF mm_conversation_gives, of name "Some None"]]
    by (auto simp: io_gives_def [of _ "prompt_via_mattermost _ _ _ _"] prompt_via_mattermost_def split: option.splits prod.splits sum.splits)
  have "io_gives (has_saved name) (io_or
      (io_then (talk (slack_send_direct (ke_net env) token user (slack_prompt name))) (\<lambda>sent. case sent of
         None \<Rightarrow> io_ret (Some None)
       | Some (prompt_ts, channel) \<Rightarrow> slack_poll env token name user prompt_ts channel fuel 0)) (Some None))" for token user
    by (auto intro!: gives_or gives_then gives_ret slack_poll_gives split: option.splits)
  from gives_at [OF this] have s: "io_gives (has_saved name) (prompt_via_slack env fuel name)"
    by (auto simp: io_gives_def [of _ "prompt_via_slack _ _ _"] prompt_via_slack_def split: option.splits prod.splits sum.splits)
  show ?thesis using m s by (simp add: prompt_user_for_key_def split: option.splits)
qed

section \<open>The prompt ends\<close>

definition has_ended :: "string option option \<Rightarrow> key_world \<Rightarrow> bool" where
  "has_ended r w \<longleftrightarrow> r \<noteq> None"

lemma ended_ret: "io_gives has_ended (io_ret (Some x))"
  by (simp add: gives_ret has_ended_def)

lemma mm_poll_ends:
  assumes "j < n" and "timeout_micros env \<le> ke_clock env (k + j)"
  shows "io_gives has_ended (mm_poll env c name user prompt_id channel n k)"
  using assms
proof (induction n arbitrary: k j)
  case (Suc n)
  show ?case
  proof (cases j)
    case 0
    then show ?thesis using Suc.prems by (auto intro!: gives_then ended_ret)
  next
    case (Suc i)
    then have "io_gives has_ended (mm_poll env c name user prompt_id channel n (Suc k))"
      using Suc.IH [of i "Suc k"] Suc.prems by simp
    then show ?thesis by (auto intro!: gives_then ended_ret split: option.splits)
  qed
qed simp

lemma slack_poll_ends:
  assumes "j < n" and "timeout_micros env \<le> ke_clock env (k + j)"
  shows "io_gives has_ended (slack_poll env token name user prompt_ts channel n k)"
  using assms
proof (induction n arbitrary: k j)
  case (Suc n)
  show ?case
  proof (cases j)
    case 0
    then show ?thesis using Suc.prems by (auto intro!: gives_then ended_ret)
  next
    case (Suc i)
    then have "io_gives has_ended (slack_poll env token name user prompt_ts channel n (Suc k))"
      using Suc.IH [of i "Suc k"] Suc.prems by simp
    then show ?thesis by (auto intro!: gives_then ended_ret split: option.splits)
  qed
qed simp

lemma prompt_ends:
  assumes "j < fuel" and "timeout_micros env \<le> ke_clock env j"
  shows "\<exists>v. fst (prompt_user_for_key env fuel name w) = Inr (Some v)"
proof -
  note poll = mm_poll_ends [OF assms(1), where k = 0] slack_poll_ends [OF assms(1), where k = 0]
  have total: "\<exists>v. fst (io_or m (Some None) w) = Inr (Some v)" if "io_gives has_ended m" for m and w :: key_world
  proof (cases "m w")
    case (Pair r w')
    then show ?thesis using gives_at [OF that, of w] by (cases r) (auto simp: io_or_def io_catch_def io_ret_def has_ended_def)
  qed
  have mm: "io_gives has_ended (mm_conversation env fuel c u name)" for c u
    using poll assms(2) unfolding mm_conversation_def by (auto intro!: gives_then ended_ret split: option.splits)
  have sl: "io_gives has_ended
      (io_then (talk (slack_send_direct (ke_net env) token user (slack_prompt name))) (\<lambda>sent. case sent of
         None \<Rightarrow> io_ret (Some None)
       | Some (prompt_ts, channel) \<Rightarrow> slack_poll env token name user prompt_ts channel fuel 0))" for token user
    using poll assms(2) by (auto intro!: gives_then ended_ret split: option.splits)
  show ?thesis
    by (auto simp: prompt_user_for_key_def prompt_via_mattermost_def prompt_via_slack_def split: option.splits intro: total mm sl)
qed

section \<open>Properties\<close>

text \<open>C22: Looking a key up never raises, and with polls at least two seconds apart it ends: within thirty polls for every minute
  of the time-out and one more, whatever the messengers answer.\<close>

theorem key_lookup_ends:
  assumes "\<forall>k. 2000000 * int k \<le> ke_clock env k" and "ke_minutes env * 30 < int fuel" and "0 < fuel"
  shows "\<exists>v. fst (get_api_key env fuel name ask_user w) = Inr (Some v)"
proof -
  have "2000000 * int (nat (ke_minutes env * 30)) \<le> ke_clock env (nat (ke_minutes env * 30))" using assms(1) by blast
  then have t: "timeout_micros env \<le> ke_clock env (nat (ke_minutes env * 30))" by (simp add: timeout_micros_def split: if_splits)
  have j: "nat (ke_minutes env * 30) < fuel" using assms(2,3) by linarith
  show ?thesis using prompt_ends [OF j t, of name "load_stored_keys w"]
    by (auto simp: get_api_key_def Let_def io_then_def io_ret_def split: option.splits prod.splits sum.splits)
qed

text \<open>C21: A look-up changes no stored key but the one it asks for, and that only to a text that passes the validation, unless
  writing the file of keys fails after it was emptied: then the file holds no JSON any more, and every stored key is lost.\<close>

theorem only_valid_keys_are_stored:
  "let w' = snd (get_api_key env fuel name ask_user w) in
    (\<forall>k. stored_key w' k = stored_key w k
        \<or> k = name \<and> (\<exists>v. stored_key w' k = Some (JStr v) \<and> fst (validate_api_key name v)))
    \<or> (\<exists>e. ke_write_fails env = Some e) \<and> kw_file w' = Some None"
proof -
  have load: "stored_key (load_stored_keys w) = stored_key w" by (simp add: stored_key_def fun_eq_iff)
  have "gains_valid env name w (snd (get_api_key env fuel name ask_user w))"
    using prompt_gains [of env name "load_stored_keys w" fuel]
    by (auto simp: get_api_key_def Let_def io_then_def io_ret_def gains_valid_def load split: option.splits prod.splits sum.splits)
  then show ?thesis by (simp add: gains_valid_def Let_def)
qed

text \<open>Without failing writes the file of keys stays readable, and saving keeps the other keys; after a failed write every later
  save fails too, until the file is removed.\<close>

lemma failed_write_blocks_saving:
  assumes "ke_unwritable env = None" and "ke_write_fails env = Some e" and "stored_object (kw_file w) = Inr d"
  shows "\<exists>w'. save_key env name v w = (Inl e, w') \<and> stored_key w' k = None
    \<and> save_key env' name' v' w' = (Inl (OtherError ''JSONDecodeError'' []), w')"
  using assms by (simp add: save_key_def stored_key_def stored_object_def)

text \<open>A key the user was asked for is valid and stored; the next look-up finds it without asking again.\<close>

theorem prompted_key_is_kept:
  assumes "prompt_user_for_key env fuel name w = (Inr (Some (Some v)), w')" and "set_text (ke_environ env name) = None"
  shows "fst (validate_api_key name v) \<and> stored_key w' name = Some (JStr v)
    \<and> get_api_key env fuel' name ask_user w' = (Inr (Some (Some (JStr v))), w')"
  using gives_at [OF prompt_gives assms(1)] assms(2) by (simp add: has_saved_def get_api_key_def)

section \<open>Threads\<close>

definition no_replies :: "http_request \<Rightarrow> bool" where
  "no_replies r \<longleftrightarrow> rq_url r \<noteq> SLACK_API @ ''/conversations.replies''"

lemma reach_sends: "Q r \<Longrightarrow> io_keeps (sends Q) (reach net r)"
  by (simp add: io_keeps_def reach_def sends_def Let_def)

lemma reach_json_sends: "Q r \<Longrightarrow> io_keeps (sends Q) (reach_json net r)"
  unfolding reach_json_def by (intro chat_sends.rules reach_sends)

lemma slack_post_sends: "name \<noteq> ''conversations.replies'' \<Longrightarrow> io_keeps (sends no_replies) (slack_post net token name body)"
  unfolding slack_post_def by (rule reach_json_sends) (simp add: no_replies_def http_post_def)

lemma slack_get_sends: "name \<noteq> ''conversations.replies'' \<Longrightarrow> io_keeps (sends no_replies) (slack_get net token name params)"
  unfolding slack_get_def by (rule reach_json_sends) (simp add: no_replies_def http_get_def)

lemma slack_ok_sends: "io_keeps (sends no_replies) (slack_ok j f x)"
  unfolding slack_ok_def by (rule chat_sends.res)

lemmas slack_sends = slack_post_sends slack_get_sends slack_ok_sends

lemma slack_direct_sends: "io_keeps (sends no_replies) (slack_send_direct net token user m)"
  unfolding slack_send_direct_def by (auto intro!: chat_sends.rules slack_sends split: option.splits)

lemma slack_history_sends: "io_keeps (sends no_replies) (slack_history shown net token channel oldest limit)"
  unfolding slack_history_def by (auto intro!: chat_sends.rules slack_sends)

lemma slack_delete_sends: "io_keeps (sends no_replies) (slack_delete_message net token channel ts)"
  unfolding slack_delete_message_def by (auto intro!: chat_sends.rules slack_sends)

lemma save_key_asks: "io_keeps (asks Q) (save_key env name v)"
  by (auto simp: io_keeps_def asks_def save_key_def sends_def Let_def split: sum.splits option.splits)

lemma receive_key_asks:
  assumes "\<And>m. io_keeps (asks Q) (tell m)" "io_keeps (asks Q) erase" "io_keeps (asks Q) drop_prompt"
  shows "io_keeps (asks Q) (receive_key env name key tell erase drop_prompt)"
proof (cases "validate_api_key name key")
  case (Pair ok err)
  show ?thesis unfolding receive_key_def Pair
    by (auto intro!: key_asks.rules assms save_key_asks split: bool.splits)
qed

lemma slack_tell_asks: "io_keeps (asks no_replies) (slack_tell env token user m)"
  unfolding slack_tell_def by (intro key_asks.rules talk_asks slack_direct_sends)

lemma slack_erase_asks: "io_keeps (asks no_replies) (slack_erase env token channel ts)"
  by (simp add: slack_erase_def talk_asks slack_delete_sends key_asks.ret)

lemma slack_messages_asks: "io_keeps (asks no_replies) (slack_messages env token name user channel prompt_ts msgs)"
proof (induction msgs)
  case (Cons msg msgs)
  have "io_keeps (asks no_replies) (receive_key env name key (slack_tell env token user)
      (io_then (io_res (json_get msg ''ts'' JNull)) (slack_erase env token channel))
      (io_then (slack_erase env token channel prompt_ts) (\<lambda>_. io_ret ())))" for key
    by (intro receive_key_asks key_asks.rules slack_tell_asks slack_erase_asks)
  then show ?case using Cons by (auto intro!: key_asks.rules split: option.splits)
qed (simp add: key_asks.ret)

lemma slack_poll_asks: "io_keeps (asks no_replies) (slack_poll env token name user prompt_ts channel n k)"
proof (induction n arbitrary: k)
  case (Suc n)
  then show ?case
    by (auto intro!: key_asks.rules talk_asks [OF slack_history_sends] slack_messages_asks slack_tell_asks split: option.splits)
qed (simp add: key_asks.ret)

lemma infix_here: "\<exists>b a. x @ y @ z = b @ (x @ y) @ a"
  by (intro exI [of _ "[]"] exI [of _ z]) simp

lemma infix_skip:
  assumes "\<exists>b a. s = b @ m @ a"
  shows "\<exists>b a. t @ s = b @ m @ a"
proof -
  obtain b a where "s = b @ m @ a" using assms by blast
  then have "t @ s = (t @ b) @ m @ a" by simp
  then show ?thesis by blast
qed

text \<open>The prompt asks the user to answer in the thread of the message. Answers in a thread are not in the history of a channel, and
  a prompt over Slack never asks for them: no request it sends is \<open>conversations.replies\<close>.\<close>

theorem slack_never_reads_the_thread:
  "\<exists>rs. cx_sent (kw_chat (snd (prompt_via_slack env fuel name w))) = cx_sent (kw_chat w) @ rs \<and> list_all no_replies rs
   \<and> (\<exists>before after. slack_prompt name = before @ (''1. Reply to this '' @ ''thread'') @ after)"
proof -
  have "io_keeps (asks no_replies) (io_or
      (io_then (talk (slack_send_direct (ke_net env) token user (slack_prompt name))) (\<lambda>sent. case sent of
         None \<Rightarrow> io_ret (Some None)
       | Some (prompt_ts, channel) \<Rightarrow> slack_poll env token name user prompt_ts channel fuel 0)) (Some None))" for token user
    by (auto intro!: key_asks.rules talk_asks slack_direct_sends slack_poll_asks split: option.splits)
  note sent = key_asks.at [OF this, of "new_bot w"]
  have "\<exists>before after. slack_prompt name = before @ (''1. Reply to this '' @ ''thread'') @ after"
    unfolding slack_prompt_def prompt_text_def by (rule infix_here | rule infix_skip)+
  then show ?thesis using sent
    by (auto simp: prompt_via_slack_def asks_def sends_def new_bot_def split: option.splits)
qed

section \<open>Examples\<close>

definition sample_key :: string where
  "sample_key = ''hf_0123456789''"

definition answer :: "(string \<times> json) list \<Rightarrow> http_reply" where
  "answer d = Response \<lparr>rp_status = 200, rp_body = [], rp_retry_after = None, rp_json = Some (JObj ((''ok'', JBool True) # d))\<rparr>"

definition sample_slack :: network where
  "sample_slack h =
     (let u = rq_url (last h) in
      if u = SLACK_API @ ''/conversations.open'' then answer [(''channel'', JObj [(''id'', JStr ''D1'')])]
      else if u = SLACK_API @ ''/conversations.history'' then
        answer [(''messages'', JArr [JObj [(''text'', JStr sample_key), (''ts'', JStr ''2'')]])]
      else answer [(''ts'', JStr ''1'')])"

definition sample_key_env :: key_env where
  "sample_key_env = \<lparr>ke_environ = (\<lambda>k. if k = ''SLACK_BOT_TOKEN'' \<or> k = ''SLACK_USER_ID'' then Some ''x'' else None), ke_config = None,
     ke_net = sample_slack, ke_shown = (\<lambda>j. ''?''), ke_unwritable = None, ke_write_fails = None, ke_chmod = None, ke_minutes = 5, ke_since_ms = 0,
     ke_oldest = ''0'', ke_clock = (\<lambda>k. 2000000 * int k)\<rparr>"

definition sample_key_world :: key_world where
  "sample_key_world = \<lparr>kw_chat = \<lparr>cx_sent = [], cx_bot = JNull\<rparr>, kw_cache = [], kw_file = None\<rparr>"

lemma sample_valid: "validate_api_key ''HF_TOKEN'' sample_key = (True, [])"
  by code_simp

lemma sample_prompt: "fst (prompt_user_for_key sample_key_env 2 ''HF_TOKEN'' sample_key_world) = Inr (Some (Some sample_key))"
  by code_simp

theorem key_lookup_ends_witness: "\<exists>v. fst (get_api_key sample_key_env 151 ''HF_TOKEN'' True sample_key_world) = Inr (Some v)"
  by (rule key_lookup_ends) (simp_all add: sample_key_env_def)

theorem prompted_key_is_kept_witness:
  "\<exists>w'. fst (validate_api_key ''HF_TOKEN'' sample_key) \<and> stored_key w' ''HF_TOKEN'' = Some (JStr sample_key)
    \<and> get_api_key sample_key_env 0 ''HF_TOKEN'' True w' = (Inr (Some (Some (JStr sample_key))), w')"
proof -
  obtain w' where run: "prompt_user_for_key sample_key_env 2 ''HF_TOKEN'' sample_key_world = (Inr (Some (Some sample_key)), w')"
    using sample_prompt by (metis prod.collapse)
  have "set_text (ke_environ sample_key_env ''HF_TOKEN'') = None" by (simp add: sample_key_env_def set_text_def)
  from prompted_key_is_kept [OF run this] show ?thesis by blast
qed

end
