(* ===== verification/Graph_Nodes.thy ===== *)
theory Graph_Nodes
  imports Memory_Correct Agent_State Message_Correct Artifact_Store Skill_Cleanup Self_Upgrade Api_Keys
begin

text \<open>
  \<^verbatim>\<open>agents/memory_persist.py\<close>: what a run leaves in the memory store, at its end or when it is cut short. Keys of the
  state that have no field are in \<open>persist_keys\<close>.
\<close>

definition MAX_CONTENT_CHARS :: nat where
  "MAX_CONTENT_CHARS = 4000"

definition IMPORTANCE_CLARIFICATION :: real where
  "IMPORTANCE_CLARIFICATION = 0.7"

definition IMPORTANCE_BLOCKER :: real where
  "IMPORTANCE_BLOCKER = 0.6"

definition IMPORTANCE_PARTIAL :: real where
  "IMPORTANCE_PARTIAL = 0.4"

record persist_keys =
  pk_agent :: string
  pk_task :: string
  pk_task_type :: string
  pk_last_node :: "string option"

definition truncate_content :: "string \<Rightarrow> string" where
  "truncate_content s =
     (let s = py_strip s in if length s \<le> MAX_CONTENT_CHARS then s else take (MAX_CONTENT_CHARS - 3) s @ ''...'')"

text \<open>One entry to write: content, source, tags, importance.\<close>

record persist_entry =
  pe_content :: string
  pe_source :: string
  pe_tags :: string
  pe_importance :: real

definition pentry :: "string \<Rightarrow> string \<Rightarrow> string \<Rightarrow> real \<Rightarrow> persist_entry" where
  "pentry content source tags importance = \<lparr>pe_content = content, pe_source = source, pe_tags = tags, pe_importance = importance\<rparr>"

definition safe_store ::
    "memory_env \<Rightarrow> int \<Rightarrow> string \<Rightarrow> string \<Rightarrow> persist_entry \<Rightarrow> int list \<times> memory_db \<Rightarrow> int list \<times> memory_db" where
  "safe_store env now agent task e acc =
     (if py_strip (pe_content e) = [] then acc
      else case store env now (truncate_content (pe_content e)) (pe_source e) (pe_tags e) agent task (pe_importance e) (snd acc) of
        (Inl x, d) \<Rightarrow> (fst acc, d)
      | (Inr i, d) \<Rightarrow> (if i \<noteq> 0 then fst acc @ [i] else fst acc, d))"

definition safe_store_all ::
    "memory_env \<Rightarrow> int \<Rightarrow> string \<Rightarrow> string \<Rightarrow> persist_entry list \<Rightarrow> memory_db \<Rightarrow> int list \<times> memory_db" where
  "safe_store_all env now agent task es d = fold (safe_store env now agent task) es ([], d)"

text \<open>\<open>a or b\<close> for texts that may be absent.\<close>

definition text_or :: "string option \<Rightarrow> string \<Rightarrow> string" where
  "text_or x d = (case x of Some s \<Rightarrow> if s \<noteq> [] then s else d | None \<Rightarrow> d)"

definition score_or :: "int option \<Rightarrow> int \<Rightarrow> int" where
  "score_or x d = (case x of Some n \<Rightarrow> if n \<noteq> 0 then n else d | None \<Rightarrow> d)"

definition agent_source :: "string \<Rightarrow> string" where
  "agent_source agent = (if agent \<noteq> [] then ''agent:'' @ agent else ''agent'')"

definition importance_of :: "int \<Rightarrow> real" where
  "importance_of score = (if score \<noteq> 0 then max 0 (min 1 (real_of_int score / 100)) else 0.5)"

section \<open>The end of a run\<close>

definition run_task :: "persist_keys \<Rightarrow> agent_state \<Rightarrow> string" where
  "run_task k s = py_strip (if pk_task k \<noteq> [] then pk_task k else text_or (session_id s) [])"

definition routed_type :: "persist_keys \<Rightarrow> agent_state \<Rightarrow> string" where
  "routed_type k s = text_or (routed_task_type s) (if pk_task_type k \<noteq> [] then pk_task_type k else ''general'')"

definition tool_names :: "agent_state \<Rightarrow> string list" where
  "tool_names s =
     filter (\<lambda>n. n \<noteq> []) (map (\<lambda>tc. py_strip (text_or (tc_tool tc) [])) (case tool_calls_made s of None \<Rightarrow> [] | Some ts \<Rightarrow> ts))"

definition run_entries :: "persist_keys \<Rightarrow> agent_state \<Rightarrow> persist_entry list" where
  "run_entries k s =
     (let agent = py_strip (pk_agent k);
          base_tags = routed_type k s @ '' persist'';
          output = text_or (final_output s) (text_or (specialist_output s) []);
          spec = text_or (spec_text s) (text_or (user_request s) []);
          score = score_or (final_score s) (score_or (output_critic_score s) 0);
          feedback = text_or (output_critic_feedback s) [];
          importance = importance_of score;
          names = tool_names s
      in (if spec \<noteq> [] then [pentry (''Specification: '' @ spec) (agent_source agent) (base_tags @ '' spec'') importance] else [])
         @ (if output \<noteq> [] then [pentry (''Result (score '' @ str_int score @ ''): '' @ output) (agent_source agent) (base_tags @ '' result'') importance] else [])
         @ (if feedback \<noteq> [] then [pentry (''Critic feedback: '' @ feedback) ''tool:critic'' (base_tags @ '' feedback'') (max 0.3 (importance - 0.1))] else [])
         @ (if names \<noteq> [] then [pentry (''Tools used: '' @ join_with '', '' (sort_texts (remdups names))) ''tool:registry'' (base_tags @ '' tools'') 0.3] else []))"

text \<open>With the store come the identifiers written (\<open>memory_persisted_ids\<close>).\<close>

definition persist_memory_node :: "memory_env \<Rightarrow> int \<Rightarrow> persist_keys \<Rightarrow> agent_state \<Rightarrow> memory_db \<Rightarrow> int list \<times> memory_db" where
  "persist_memory_node env now k s d = safe_store_all env now (py_strip (pk_agent k)) (run_task k s) (run_entries k s) d"

section \<open>A run cut short\<close>

definition last_node_of :: "persist_keys \<Rightarrow> string" where
  "last_node_of k = (case pk_last_node k of None \<Rightarrow> ''unknown'' | Some n \<Rightarrow> n)"

definition clarification_entries :: "persist_keys \<Rightarrow> agent_state \<Rightarrow> string \<Rightarrow> string \<Rightarrow> persist_entry list" where
  "clarification_entries k s base_tags spec =
     (let questions = (case clarification_questions s of None \<Rightarrow> [] | Some qs \<Rightarrow> qs)
      in (if questions \<noteq> [] then [pentry (''Clarification requested at '' @ last_node_of k @ '': '' @ join_with ''; '' questions)
             (agent_source (pk_agent k)) (base_tags @ '' clarification'') IMPORTANCE_CLARIFICATION] else [])
         @ (if spec \<noteq> [] then [pentry (''Specification (clarification pending): '' @ spec) (agent_source (pk_agent k)) (base_tags @ '' spec'')
             IMPORTANCE_CLARIFICATION] else []))"

definition blocked_entries :: "persist_keys \<Rightarrow> agent_state \<Rightarrow> string \<Rightarrow> string \<Rightarrow> persist_entry list" where
  "blocked_entries k s base_tags output =
     (let score = score_or (output_critic_score s) (score_or (heuristic_critic_score s) 0);
          feedback = text_or (output_critic_feedback s) []
      in (if output \<noteq> [] then [pentry (''Blocked at '' @ last_node_of k @ '' (score '' @ str_int score @ ''): '' @ output)
             (agent_source (pk_agent k)) (base_tags @ '' blocked'') IMPORTANCE_BLOCKER] else [])
         @ (if feedback \<noteq> [] then [pentry (''Blocker feedback: '' @ feedback) ''tool:critic'' (base_tags @ '' feedback'') IMPORTANCE_BLOCKER] else []))"

text \<open>The empty state writes nothing in any branch.\<close>

definition persist_partial_state :: "memory_env \<Rightarrow> int \<Rightarrow> persist_keys \<Rightarrow> agent_state \<Rightarrow> string \<Rightarrow> memory_db \<Rightarrow> int list \<times> memory_db" where
  "persist_partial_state env now k s status d =
     (let base_tags = routed_type k s @ '' persist '' @ status;
          output = text_or (specialist_output s) (text_or (final_output s) []);
          spec = text_or (spec_text s) (text_or (user_request s) [])
      in safe_store_all env now (pk_agent k) (pk_task k)
           (if status = ''clarification_needed'' then clarification_entries k s base_tags spec
            else if status = ''blocked'' then blocked_entries k s base_tags output
            else if output \<noteq> [] then [pentry (''Partial output at '' @ last_node_of k @ '': '' @ output) (agent_source (pk_agent k))
                   (base_tags @ '' partial'') IMPORTANCE_PARTIAL]
            else []) d)"

section \<open>Lemmas\<close>

lemma truncate_content_length: "length (truncate_content s) \<le> MAX_CONTENT_CHARS"
  by (simp add: truncate_content_def MAX_CONTENT_CHARS_def Let_def)

lemma safe_store_ok: "memory_ok (snd acc) \<Longrightarrow> memory_ok (snd (safe_store env now agent task e acc))"
  using store_ok [of "snd acc"] by (auto simp: safe_store_def split: prod.splits sum.splits) (metis snd_conv)+

lemma safe_store_all_ok: "memory_ok d \<Longrightarrow> memory_ok (snd (safe_store_all env now agent task es d))"
proof -
  have "memory_ok (snd acc) \<Longrightarrow> memory_ok (snd (fold (safe_store env now agent task) es acc))" for acc
    by (induction es arbitrary: acc) (simp_all add: safe_store_ok)
  then show "memory_ok d \<Longrightarrow> memory_ok (snd (safe_store_all env now agent task es d))" by (simp add: safe_store_all_def)
qed

text \<open>However a run ends, what it writes keeps the store well formed.\<close>

lemma persisting_keeps_the_store:
  "memory_ok d \<Longrightarrow> memory_ok (snd (persist_memory_node env now k s d)) \<and> memory_ok (snd (persist_partial_state env now k s status d))"
  by (simp add: persist_memory_node_def persist_partial_state_def Let_def safe_store_all_ok)

text \<open>A score of zero counts as no score: the worst result is remembered as more important than any result below 50.\<close>

theorem worst_result_outranks_poor_ones:
  assumes "0 < score" and "score < 50"
  shows "importance_of score < importance_of 0"
  using assms by (simp add: importance_of_def)

theorem worst_result_outranks_poor_ones_witness: "importance_of 30 < importance_of 0"
  by (rule worst_result_outranks_poor_ones) simp_all

section \<open>The nodes around the stores\<close>

text \<open>
  \<^verbatim>\<open>agents/graph_nodes.py\<close> and \<^verbatim>\<open>agents/output_nodes.py\<close>: the nodes of the graph that are wrapped around the stores.
  What the memory palace and the graph of the code add is a parameter, like their exceptions. The keys of the state that
  only these nodes write (\<open>pending_messages\<close>, \<open>upgrade_signals\<close>, \<open>upgrade_dispatch_result\<close>, \<open>mattermost_message_id\<close>) are
  left out or results of their own.
\<close>

section \<open>Memory\<close>

text \<open>\<open>in_messages\<close>: the message store with what a call finds, or the exception of opening or reading it; \<open>in_bulletin\<close>: the
  text of the old bulletin board, read only then.\<close>

record inject_env =
  in_memory :: memory_env
  in_fusion :: fusion
  in_moments :: "int \<times> int \<times> int"
  in_palace :: "agent_state \<Rightarrow> py_exn + string"
  in_graphify :: "agent_state \<Rightarrow> py_exn + string"
  in_messages :: "py_exn + message_env \<times> message_db"
  in_agent :: string
  in_bulletin :: "py_exn + string"

definition memory_line :: "memory_entry \<Rightarrow> string" where
  "memory_line e =
     ''- '' @ me_content (en_row e)
     @ (if citation (en_row e) \<noteq> [] then '' (source: '' @ citation (en_row e) @ '')'' else [])"

definition memory_section :: "memory_entry list \<Rightarrow> string" where
  "memory_section es =
     nl @ nl @ ''## Relevant Memories'' @ nl @ nl
     @ ''The following facts and context were recalled from previous sessions:'' @ nl @ nl @ join_with nl (map memory_line es)"

definition add_context :: "string \<Rightarrow> agent_state \<Rightarrow> agent_state" where
  "add_context t s = s\<lparr>memory_context := Some (opt_or (memory_context s) [] @ t)\<rparr>"

text \<open>A supplement is appended unless it is empty or fails.\<close>

definition supplement :: "(agent_state \<Rightarrow> py_exn + string) \<Rightarrow> agent_state \<Rightarrow> agent_state" where
  "supplement f s = (case f s of Inl e \<Rightarrow> s | Inr t \<Rightarrow> if t \<noteq> [] then add_context t s else s)"

definition message_section :: "message list \<Rightarrow> string" where
  "message_section ms = nl @ nl @ ''## Inter-Agent Messages'' @ nl @ nl @ join_with nl (map format_for_context ms)"

definition inject_messages :: "inject_env \<Rightarrow> string \<Rightarrow> agent_state \<Rightarrow> agent_state" where
  "inject_messages env query s =
     (case in_messages env of
        Inl e \<Rightarrow> supplement (\<lambda>_. in_bulletin env) s
      | Inr (me, d) \<Rightarrow>
          (let ms = relevant_messages me query (Some (in_agent env)) 10 d
           in if ms \<noteq> [] then add_context (message_section ms) s else s))"

definition recall_scope :: "persist_keys \<Rightarrow> agent_state \<Rightarrow> string \<times> string" where
  "recall_scope k s = (py_strip (pk_agent k), run_task k s)"

definition inject_memory :: "inject_env \<Rightarrow> persist_keys \<Rightarrow> agent_state \<Rightarrow> memory_db \<Rightarrow> agent_state \<times> memory_db" where
  "inject_memory env k s d =
     (case opt_or (user_request s) [] of
        [] \<Rightarrow> (s, d)
      | query \<Rightarrow>
          (case recall_scope k s of
             (agent, task) \<Rightarrow>
               (case hybrid_recall (in_memory env) (in_fusion env) (in_moments env) query 5 [] [] agent task d of
                  (Inl e, d') \<Rightarrow> (inject_messages env query (s\<lparr>memory_context := Some []\<rparr>), d')
                | (Inr [], d') \<Rightarrow> (s\<lparr>memory_context := Some []\<rparr>, d')
                | (Inr es, d') \<Rightarrow>
                    (inject_messages env query
                       (supplement (in_graphify env) (supplement (in_palace env) (s\<lparr>memory_context := Some (memory_section es)\<rparr>))), d'))))"

section \<open>The cache\<close>


definition run_artifact :: "artifact_config \<Rightarrow> (string \<Rightarrow> string) \<Rightarrow> int \<Rightarrow> agent_state \<Rightarrow> artifact" where
  "run_artifact cfg digest now s =
     new_artifact cfg now (opt_or (cache_key s) []) (opt_or (spec_text s) []) (opt_or (specialist_output s) [])
       (opt_or (output_critic_score s) 0) (opt_or (final_score s) 0) (opt_or (tool_calls_made s) [])
       (opt_or (routed_task_type s) ''general'') (opt_or (specialist_adapter s) [])
       (compute_skills_hash digest (opt_or (loaded_skills s) [])) (opt_or (iteration_count s) 1) None"

definition cache_run :: "artifact_config \<Rightarrow> (string \<Rightarrow> string) \<Rightarrow> int \<Rightarrow> agent_state \<Rightarrow> artifacts option \<Rightarrow> agent_state \<times> artifacts option" where
  "cache_run cfg digest now s cache =
     (case cache of
        None \<Rightarrow> (s, None)
      | Some rows \<Rightarrow>
          if opt_or (cache_hit s) False \<or> opt_or (cache_key s) [] = [] \<or> opt_or (specialist_output s) [] = [] then (s, Some rows)
          else (case artifact_store cfg (run_artifact cfg digest now s) rows of
                  (fresh_one, rows') \<Rightarrow> (s\<lparr>cache_entry_stored := Some fresh_one\<rparr>, Some rows')))"

section \<open>The end of a run\<close>

record node_world =
  gw_cleanup :: cleanup_world
  gw_cache :: "artifacts option"
  gw_trigger :: trigger
  gw_upgrade :: upgrade_world

text \<open>The settings of the node: \<open>nd_upgrade\<close> is \<open>is_self_upgrade_enabled()\<close>.\<close>

record node_env =
  nd_cleanup :: cleanup_env
  nd_cache :: artifact_config
  nd_digest :: "string \<Rightarrow> string"
  nd_now :: int
  nd_upgrade :: bool
  nd_search :: "string \<Rightarrow> string \<Rightarrow> bool"
  nd_fresh :: "nat \<Rightarrow> string"

record run_notes =
  rn_signals :: "(string \<times> string) list option"
  rn_dispatch :: "string option"

fun result_name :: "dispatch_result \<Rightarrow> string" where
  "result_name (Tier0Written _ _) = ''Tier0Written''"
| "result_name (Tier1aQueued _ _) = ''Tier1aQueued''"
| "result_name (Tier1bCommitted _ _ _ _ _) = ''Tier1bCommitted''"
| "result_name (Tier2Committed _ _ _ _ _ _) = ''Tier2Committed''"
| "result_name (Tier3Filed _ _) = ''Tier3Filed''"
| "result_name (Rejected _ _) = ''Rejected''"

definition upgrade_hook ::
    "node_env \<Rightarrow> agent_state \<Rightarrow> trigger \<Rightarrow> upgrade_world \<Rightarrow> run_notes \<times> trigger \<times> upgrade_world" where
  "upgrade_hook env s g u =
     (if \<not> nd_upgrade env then (\<lparr>rn_signals = None, rn_dispatch = None\<rparr>, g, u)
      else
        (case analyse (nd_search env) (nd_fresh env) s g of
           (a, g1) \<Rightarrow>
             (case run_self_upgrade_dispatch (opt_or (routed_task_type s) ''general'') g1 u of
                (r, g2, u2) \<Rightarrow>
                  (\<lparr>rn_signals = (if an_signals a = [] then None else Some (map (\<lambda>x. (us_category x, us_detail x)) (an_signals a))),
                    rn_dispatch = (case r of Inl e \<Rightarrow> None | Inr d \<Rightarrow> Some (result_name d))\<rparr>, g2, u2))))"

definition skill_cleanup_wrapper ::
    "node_env \<Rightarrow> agent_state \<Rightarrow> node_world \<Rightarrow> (py_exn + agent_state \<times> run_notes) \<times> node_world" where
  "skill_cleanup_wrapper env s w =
     (case execute_cleanup (nd_cleanup env) s (gw_cleanup w) of
        (Inl e, cw) \<Rightarrow> (Inl e, w\<lparr>gw_cleanup := cw\<rparr>)
      | (Inr s1, cw) \<Rightarrow>
          (case cache_run (nd_cache env) (nd_digest env) (nd_now env) s1 (gw_cache w) of
             (s2, cache) \<Rightarrow>
               (case upgrade_hook env s2 (gw_trigger w) (gw_upgrade w) of
                  (notes, g, u) \<Rightarrow> (Inr (s2, notes), \<lparr>gw_cleanup = cw, gw_cache = cache, gw_trigger = g, gw_upgrade = u\<rparr>))))"

section \<open>Output\<close>

definition mattermost_text :: "(real \<Rightarrow> string) \<Rightarrow> agent_state \<Rightarrow> string \<Rightarrow> string" where
  "mattermost_text fmt1 s req =
     ''! **Task Completed** (Score: '' @ str_int (opt_or (output_critic_score s) 0) @ ''/100)'' @ nl
     @ ''! **Iterations**: '' @ str_int (opt_or (iteration_count s) 0) @ ''/'' @ str_int (opt_or (max_iterations s) 3) @ nl
     @ ''! **Request**: '' @ take 100 req @ (if length req > 100 then ''...'' else []) @ nl @ nl
     @ ''**Result**:'' @ nl @ opt_or (specialist_output s) [] @ nl @ nl
     @ ''---'' @ nl @ ''_Generated by Multi-Agent AI System_'' @ nl
     @ ''Session: '' @ opt_or (session_id s) ''N/A'' @ nl
     @ ''Time: '' @ fmt1 (opt_or (total_time_seconds s) 0) @ ''s'' @ nl"

definition format_for_mattermost :: "(real \<Rightarrow> string) \<Rightarrow> agent_state \<Rightarrow> py_exn + agent_state" where
  "format_for_mattermost fmt1 s =
     (case user_request s of
        None \<Rightarrow> Inl (KeyError ''user_request'')
      | Some req \<Rightarrow>
          Inr (s\<lparr>final_output := Some (opt_or (specialist_output s) []), mattermost_message := Some (mattermost_text fmt1 s req)\<rparr>))"

text \<open>The identifier of the post comes back. \<open>send_channel_message\<close> raises nothing, so the handler around it and the way from
  there to the webhook are never taken.\<close>

definition post_by_webhook :: "network \<Rightarrow> mattermost_config \<Rightarrow> string \<Rightarrow> json option chat" where
  "post_by_webhook net c message =
     (case set_text (mt_webhook_url c) of
        None \<Rightarrow> io_ret None
      | Some url \<Rightarrow>
          io_or
            (io_then (reach net (http_post url []
               (Some (JObj [(''text'', JStr message), (''channel'', JStr (mt_default_channel c)), (''username'', JStr (mt_username c))]))))
              (\<lambda>p. io_ret None))
            None)"

definition post_to_mattermost ::
    "network \<Rightarrow> mattermost_config option \<Rightarrow> string option \<Rightarrow> string option \<Rightarrow> agent_state \<Rightarrow> json option chat" where
  "post_to_mattermost net cfg channel thread s =
     (case (opt_or (mattermost_message s) [], cfg) of
        ([], _) \<Rightarrow> io_ret None
      | (_, None) \<Rightarrow> io_ret None
      | (message, Some c) \<Rightarrow>
          if \<not> mt_enabled c then io_ret None
          else
            (case (set_text (mt_bot_token c), set_text (mt_url c)) of
               (Some token, Some url) \<Rightarrow>
                 io_then (mm_send_channel net (mattermost_client url token) (JStr (opt_or channel (mt_default_channel c))) message thread)
                   (\<lambda>r. io_ret (case r of Some i \<Rightarrow> if truthy i then Some i else None | None \<Rightarrow> None))
             | _ \<Rightarrow> post_by_webhook net c message))"

section \<open>Lemmas\<close>

lemma recall_out_of_scope:
  assumes "mv_fts env (py_words query) (md_rows d) = Inr hits" and "fst ` set hits \<subseteq> set (md_rows d)"
    and "\<forall>m \<in> set (md_rows d). \<not> in_scope tag source agent task m"
  shows "recall env now query n tag source agent task d = (Inr [], bump now [] d) \<or> recall env now query n tag source agent task d = (Inr [], d)"
proof -
  have "m \<in> set (md_rows d)" if "(m, s) \<in> set hits" for m s
    using assms(2) that by force
  then have "filter (\<lambda>(m, s). in_scope tag source agent task m) (take k hits) = []" for k
    using assms(3) by (auto simp: filter_empty_conv dest!: in_set_takeD)
  then show ?thesis using assms(1) by (auto simp: recall_def Let_def)
qed

lemma bump_nothing [simp]: "bump now [] d = d"
  by (simp add: bump_def map_idI)

lemma semantic_out_of_scope:
  assumes "\<forall>m \<in> set (md_rows d). \<not> in_scope tag source agent task m"
  shows "semantic_recall env now query n tag source sim agent task d = ([], d)"
proof -
  have "\<forall>(m, v) \<in> set (joined d). m \<in> set (md_rows d)" by (auto dest: joined_rows)
  then have "filter (\<lambda>(m, v). in_scope tag source agent task m) (joined d) = []" using assms by (auto simp: filter_empty_conv)
  then show ?thesis by (simp add: semantic_recall_def Let_def rank_by_def joined_def split: option.splits)
qed

lemma hybrid_out_of_scope:
  assumes "mv_fts env (py_words query) (md_rows d) = Inr hits" and "fst ` set hits \<subseteq> set (md_rows d)"
    and "\<forall>m \<in> set (md_rows d). \<not> in_scope tag source agent task m"
  shows "hybrid_recall env f moments query n tag source agent task d = (Inr [], d)"
  using recall_out_of_scope [OF assms] semantic_out_of_scope [OF assms(3)]
  by (auto simp: hybrid_recall_def fuse_results_def rank_by_def split: prod.splits)

section \<open>Properties\<close>

text \<open>A run whose memories are scoped to a session or task that has left none gets no context at all: not the memories of other
  sessions, and no messages of other agents either, however many are unread.\<close>

theorem new_session_gets_no_messages:
  assumes "opt_or (user_request s) [] \<noteq> []" and "run_task k s \<noteq> []" and "\<forall>m \<in> set (md_rows d). me_task m \<noteq> run_task k s"
    and "mv_fts (in_memory env) (py_words (opt_or (user_request s) [])) (md_rows d) = Inr hits" and "fst ` set hits \<subseteq> set (md_rows d)"
  shows "inject_memory env k s d = (s\<lparr>memory_context := Some []\<rparr>, d)"
proof -
  obtain c cs where q: "opt_or (user_request s) [] = c # cs" using assms(1) by (cases "opt_or (user_request s) []") auto
  have "\<forall>m \<in> set (md_rows d). \<not> in_scope [] [] (py_strip (pk_agent k)) (run_task k s) m"
    using assms(2,3) by (simp add: in_scope_def)
  from hybrid_out_of_scope [OF assms(4,5) this, of "in_fusion env" "in_moments env" 5]
  show ?thesis using q by (simp add: inject_memory_def recall_scope_def)
qed

text \<open>When something is recalled, every recalled memory and then every message found for the agent is in the context.\<close>

theorem recalled_context_holds_everything:
  assumes "hybrid_recall (in_memory env) (in_fusion env) (in_moments env) (c # cs) 5 [] [] (py_strip (pk_agent k)) (run_task k s) d
      = (Inr (e # es), d')"
    and "user_request s = Some (c # cs)" and "in_messages env = Inr (me, md)"
    and "relevant_messages me (c # cs) (Some (in_agent env)) 10 md = m # ms"
  shows "\<exists>mid. memory_context (fst (inject_memory env k s d)) = Some (memory_section (e # es) @ mid @ message_section (m # ms))"
proof -
  have grows: "\<exists>t. opt_or (memory_context (supplement f x)) [] = opt_or (memory_context x) [] @ t" for f and x :: agent_state
    by (auto simp: supplement_def add_context_def split: sum.splits)
  let ?s0 = "s\<lparr>memory_context := Some (memory_section (e # es))\<rparr>"
  let ?s1 = "supplement (in_palace env) ?s0"
  obtain t1 t2 where "opt_or (memory_context ?s1) [] = memory_section (e # es) @ t1"
    "opt_or (memory_context (supplement (in_graphify env) ?s1)) [] = opt_or (memory_context ?s1) [] @ t2"
    using grows [of "in_palace env" ?s0] grows [of "in_graphify env" ?s1] by auto
  then show ?thesis using assms
    by (auto simp: inject_memory_def recall_scope_def inject_messages_def add_context_def)
qed



text \<open>With the credentials of a bot exactly one request is made, to the server of the bot, whatever comes of it: the webhook is no
  fallback.\<close>

theorem bot_post_has_no_fallback:
  assumes "mattermost_message s = Some (c # cs)" and "mt_enabled cfg" and "set_text (mt_bot_token cfg) = Some token"
    and "set_text (mt_url cfg) = Some url"
  shows "\<exists>r. cx_sent (snd (post_to_mattermost net (Some cfg) channel thread s w)) = cx_sent w @ [r]
    \<and> rq_url r = mm_api (mattermost_client url token) ''/posts''"
proof -
  have one: "cx_sent (snd (mm_send_channel net m ch t thread w)) = cx_sent w
      @ [http_post (mm_api m ''/posts'') (mm_headers m) (Some (JObj ([(''channel_id'', ch), (''message'', JStr t)]
          @ (case thread of Some (x # xs) \<Rightarrow> [(''root_id'', JStr (x # xs))] | _ \<Rightarrow> []))))]" for m ch t
    by (auto simp: mm_send_channel_def io_or_def io_catch_def io_then_def io_res_def io_ret_def reach_json_def reach_def Let_def
        split: prod.splits sum.splits http_reply.splits if_splits)
  show ?thesis using assms one
    by (auto simp: post_to_mattermost_def io_then_def io_ret_def http_post_def split: prod.splits sum.splits)
      (metis http_request.select_convs(2) snd_conv)+
qed

section \<open>Examples\<close>

definition sample_inject :: inject_env where
  "sample_inject = \<lparr>in_memory = Memory_Correct.sample_env 5, in_fusion = sample_weights, in_moments = (1, 2, 3), in_palace = (\<lambda>s. Inr ''p''),
     in_graphify = (\<lambda>s. Inl IndexError), in_messages = Inl IndexError, in_agent = ''coder'', in_bulletin = Inr []\<rparr>"

definition sample_persist :: persist_keys where
  "sample_persist = \<lparr>pk_agent = [], pk_task = ''T-2'', pk_task_type = [], pk_last_node = None\<rparr>"

lemma sample_task: "run_task sample_persist s = ''T-2''"
proof -
  have "py_strip ''T-2'' = ''T-2''" by code_simp
  then show ?thesis by (simp add: run_task_def sample_persist_def)
qed

theorem new_session_gets_no_messages_witness:
  "inject_memory sample_inject sample_persist (empty_state\<lparr>user_request := Some ''what''\<rparr>) sample_db
    = (empty_state\<lparr>user_request := Some ''what'', memory_context := Some []\<rparr>, sample_db)"
  using new_session_gets_no_messages [of "empty_state\<lparr>user_request := Some ''what''\<rparr>" sample_persist sample_db sample_inject
      "map (\<lambda>m. (m, 1)) (md_rows sample_db)"]
  by (simp add: sample_task, simp add: sample_inject_def Memory_Correct.sample_env_def sample_db_def sample_memory_def)

definition finished_state :: "int \<Rightarrow> agent_state" where
  "finished_state score = empty_state\<lparr>spec_text := Some ''sort'', cache_key := Some (compute_cache_key id ''sort'' [] ''general'' []),
     specialist_output := Some ''sorted(xs)'', output_critic_score := Some score, quality_threshold := Some 85\<rparr>"


text \<open>With the configuration by default 70 is enough, for a run given up with 72 under a threshold of 85 too.\<close>

lemma given_up_output_is_cached:
  "cache_entry_stored (fst (cache_run DEFAULT_ARTIFACT_CONFIG id 0 (finished_state 72) (Some []))) = Some True"
proof -
  have "py_strip ''sorted(xs)'' \<noteq> []" by code_simp
  then show ?thesis
    by (simp add: cache_run_def finished_state_def empty_state_def run_artifact_def new_artifact_def artifact_store_def row_of_def
        DEFAULT_ARTIFACT_CONFIG_def effective_score_def compute_cache_key_def)
qed

definition bot_config :: mattermost_config where
  "bot_config = \<lparr>mt_enabled = True, mt_webhook_url = Some ''http://hook'', mt_default_channel = ''ai'', mt_username = ''v'',
     mt_bot_enabled = True, mt_bot_token = Some ''t'', mt_url = Some ''http://m''\<rparr>"

theorem bot_post_has_no_fallback_witness:
  "\<exists>r. cx_sent (snd (post_to_mattermost (\<lambda>h. Unreachable ''down'') (Some bot_config) None None
      (empty_state\<lparr>mattermost_message := Some ''done''\<rparr>) \<lparr>cx_sent = [], cx_bot = JNull\<rparr>)) = [r]
    \<and> rq_url r = mm_api (mattermost_client ''http://m'' ''t'') ''/posts''"
  using bot_post_has_no_fallback [of "empty_state\<lparr>mattermost_message := Some ''done''\<rparr>" "CHR ''d''" "''one''" bot_config "''t''" "''http://m''"
      "\<lambda>h. Unreachable ''down''" None None "\<lparr>cx_sent = [], cx_bot = JNull\<rparr>"]
  by (simp add: bot_config_def set_text_def)

end
