(* ===== verification/Skill_Generator.thy ===== *)
theory Skill_Generator
  imports Skill_Registry Skill_Outcomes Agent_State
begin

text \<open>
  \<^verbatim>\<open>agents/skill_generator.py\<close>: the node that writes a skill for a task type no skill was found for, with the sections a
  model drafts or from templates, and the refined draft of a skill that scored badly. The model answers a system and a user
  prompt; \<open>ge_path_text\<close> prints a path. The template file that is loaded and used by nothing, the vetting that does nothing and
  \<^verbatim>\<open>debug_info\<close> are left out; task types name single path components. Dashes outside Latin-1 are written \<open>-\<close>.
\<close>

section \<open>Texts\<close>

definition SKILL_DESIGNER_SYSTEM_PROMPT :: string where
  "SKILL_DESIGNER_SYSTEM_PROMPT =
     ''You are a skill designer. You create workflow instructions that guide AI specialists in performing specific tasks.''
     @ nl @ nl @ ''You will be given a task type, a specification, and optionally examples of past workflows that ''
     @ ''scored well or poorly. Your job is to produce:'' @ nl @ nl @ ''1. A '' @ [CHR 0x22] @ ''How It Works''
     @ [CHR 0x22] @ '' section: from_one workflow steps tailored to the specific task. Each step should have a bold ''
     @ ''title and a clear description. Be concrete - reference the specification where relevant.'' @ nl @ nl @ ''2. A ''
     @ [CHR 0x22] @ ''Best Practices'' @ [CHR 0x22] @ '' section: from_one guidelines specific to this task type. ''
     @ ''Avoid generic advice ('' @ [CHR 0x22] @ ''be careful'' @ [CHR 0x22] @ '') - each point should be actionable.''
     @ nl @ nl @ ''Output ONLY the two sections in markdown, starting with '' @ [CHR 0x22] @ ''## How It Works''
     @ [CHR 0x22] @ '' and '' @ [CHR 0x22] @ ''## Best Practices'' @ [CHR 0x22] @ ''. Do not include frontmatter, ''
     @ ''titles, or any other sections.''"

definition SKILL_DESCRIPTIONS :: "(string, string) py_dict" where
  "SKILL_DESCRIPTIONS =
     [(''test_generation'', ''Generates comprehensive unit tests with high coverage and edge case handling''),
      (''security_audit'', ''Performs security audits identifying vulnerabilities and providing remediation''),
      (''documentation'', ''Creates clear, comprehensive documentation with examples and best practices''),
      (''performance_optimization'', ''Analyzes and optimizes code for performance, identifying bottlenecks''),
      (''debugging'', ''Systematically debugs issues, identifies root causes, and provides fixes''),
      (''refactoring'', ''Refactors code for better structure, maintainability, and adherence to best practices''),
      (''code_generation'', ''Generates high-quality code following best practices and design patterns''),
      (''research'', ''Researches topics thoroughly with authoritative sources and actionable summaries''),
      (''writing'', ''Produces clear, well-structured written content tailored to the audience''),
      (''data_analysis'', ''Analyzes data with appropriate methods, clear visualizations, and actionable insights''),
      (''planning'', ''Creates structured architectural and project plans with trade-off analysis''),
      (''general'', ''Handles general-purpose tasks with systematic analysis and quality focus'')]"

definition WORKFLOWS :: "(string, string) py_dict" where
  "WORKFLOWS =
     [(''test_generation'',
       nl @ ''1. **Analyze Code**: Read and understand the code to be tested'' @ nl @ ''2. **Identify Test Cases**: ''
       @ ''Determine test scenarios including:'' @ nl @ ''   - Happy path cases'' @ nl @ ''   - Edge cases'' @ nl
       @ ''   - Error conditions'' @ nl @ ''3. **Write Tests**: Create test functions with clear assertions'' @ nl
       @ ''4. **Verify Coverage**: Ensure comprehensive test ''
       @ ''coverage'' @ nl @ ''5. **Run Tests**: Execute tests and verify they pass'' @ nl),
      (''security_audit'',
       nl @ ''1. **Reconnaissance**: Scan code for common vulnerability patterns'' @ nl
       @ ''2. **Analysis**: Identify potential security issues:'' @ nl @ ''   - Input validation gaps'' @ nl
       @ ''   - Authentication/authorization flaws'' @ nl @ ''   - Data exposure risks'' @ nl
       @ ''3. **Risk Assessment**: Categorize findings by severity'' @ nl @ ''4. **Remediation**: Provide specific fixes ''
       @ ''for each issue'' @ nl @ ''5. **Verification**: Confirm fixes address vulnerabilities'' @ nl),
      (''documentation'',
       nl @ ''1. **Understand Code**: Read and analyze code structure'' @ nl @ ''2. **Identify Key Concepts**: Determine ''
       @ ''what needs documentation'' @ nl @ ''3. **Write Documentation**: Create clear docs with:'' @ nl
       @ ''   - Purpose and overview'' @ nl @ ''   - API/interface details'' @ nl @ ''   - Usage examples'' @ nl
       @ ''   - Edge cases and limitations'' @ nl @ ''4. **Review**: Ensure documentation is accurate and complete'' @ nl),
      (''performance_optimization'',
       nl @ ''1. **Profile**: Identify performance bottlenecks'' @ nl @ ''2. **Analyze**: Determine root causes ''
       @ ''(algorithms, I/O, etc.)'' @ nl @ ''3. **Optimize**: Apply targeted improvements:'' @ nl
       @ ''   - Algorithm optimization'' @ nl @ ''   - Caching strategies'' @ nl @ ''   - Resource management'' @ nl
       @ ''4. **Benchmark**: Measure performance improvements'' @ nl @ ''5. **Validate**: Ensure functionality preserved''
       @ nl),
      (''debugging'',
       nl @ ''1. **Reproduce**: Understand and reproduce the issue'' @ nl
       @ ''2. **Isolate**: Narrow down the location of the bug'' @ nl @ ''3. **Analyze**: Identify root cause through:''
       @ nl @ ''   - Log analysis'' @ nl @ ''   - Code tracing'' @ nl @ ''   - State inspection'' @ nl
       @ ''4. **Fix**: Implement targeted fix'' @ nl @ ''5. **Test**: Verify fix resolves issue without side effects'' @ nl),
      (''research'',
       nl @ ''1. **Clarify Scope**: Identify the specific topic, timeframe, and depth required'' @ nl
       @ ''2. **Gather Sources**: Search for authoritative references, papers, and ''
       @ ''documentation'' @ nl @ ''3. **Evaluate Credibility**: Assess source reliability, recency, and relevance'' @ nl
       @ ''4. **Synthesize Findings**: Organize information into coherent ''
       @ ''themes'' @ nl @ ''5. **Summarize**: Produce a structured summary with citations and key takeaways'' @ nl),
      (''writing'',
       nl @ ''1. **Understand Audience**: Identify the target readers and their knowledge level'' @ nl
       @ ''2. **Outline Structure**: Plan sections, flow, and key points to ''
       @ ''cover'' @ nl @ ''3. **Draft Content**: Write clear, well-organized prose with appropriate tone'' @ nl
       @ ''4. **Review**: Check for clarity, accuracy, completeness, and logical ''
       @ ''flow'' @ nl @ ''5. **Polish**: Refine language, fix grammar, and ensure consistent style'' @ nl),
      (''data_analysis'',
       nl @ ''1. **Understand the Data**: Identify data sources, schema, and quality issues'' @ nl
       @ ''2. **Clean and Prepare**: Handle missing values, outliers, and format ''
       @ ''inconsistencies'' @ nl @ ''3. **Explore Patterns**: Run descriptive statistics and identify distributions'' @ nl
       @ ''4. **Analyze**: Apply appropriate methods (statistical, visual, or ''
       @ ''computational)'' @ nl @ ''5. **Communicate Results**: Present findings with clear visualizations and narrative''
       @ nl),
      (''planning'',
       nl @ ''1. **Analyze Requirements**: Break down the problem into constraints and goals'' @ nl
       @ ''2. **Survey Options**: Identify viable approaches, technologies, and ''
       @ ''trade-offs'' @ nl @ ''3. **Design Architecture**: Propose a structured solution with clear component boundaries''
       @ nl @ ''4. **Assess Risks**: Identify failure modes, scalability concerns, and unknowns'' @ nl
       @ ''5. **Deliver Plan**: Produce a step-by-step implementation roadmap with ''
       @ ''milestones'' @ nl)]"

definition GENERAL_WORKFLOW :: string where
  "GENERAL_WORKFLOW =
     nl @ ''1. **Analyze**: Understand the requirements and context'' @ nl
     @ ''2. **Plan**: Design approach to meet requirements'' @ nl @ ''3. **Execute**: Implement the solution'' @ nl
     @ ''4. **Validate**: Verify output meets quality standards'' @ nl
     @ ''5. **Refine**: Improve based on validation results'' @ nl"

definition QUALITY_CRITERIA :: "(string, string list) py_dict" where
  "QUALITY_CRITERIA =
     [(''research'',
       [''Source Credibility: Are claims backed by authoritative references?'',
        ''Depth: Does the research go beyond surface-level summaries?'',
        ''Recency: Is the information current and not outdated?'',
        ''Balance: Are multiple perspectives or trade-offs presented?'',
        ''Actionability: Can the reader act on the findings?'']),
      (''writing'',
       [''Clarity: Is the prose clear and free of jargon for the target audience?'',
        ''Structure: Is the content logically organized with smooth transitions?'',
        ''Completeness: Are all requested topics covered?'',
        ''Tone: Is the writing style appropriate for the context?'',
        ''Grammar: Is the text free of spelling and grammatical errors?'']),
      (''data_analysis'',
       [''Methodology: Is the analytical approach appropriate for the data?'',
        ''Accuracy: Are calculations and statistics correct?'',
        ''Visualization: Are charts and tables clear and well-labeled?'',
        ''Insight: Does the analysis surface non-obvious findings?'',
        ''Reproducibility: Could someone replicate the analysis from the description?'']),
      (''planning'',
       [''Feasibility: Is the proposed plan realistic given constraints?'',
        ''Completeness: Are all major components and dependencies addressed?'',
        ''Trade-offs: Are alternatives discussed with pros and cons?'',
        ''Risk Assessment: Are failure modes and mitigations identified?'',
        ''Actionability: Does the plan include concrete next steps?'']),
      (''documentation'',
       [''Accuracy: Does the documentation match the actual code behavior?'',
        ''Completeness: Are all public APIs and parameters documented?'',
        ''Examples: Are usage examples provided for non-trivial functions?'',
        ''Clarity: Can a new developer understand the code from the docs alone?'',
        ''Format: Does it follow the project'' @ [CHR 0x27] @ ''s docstring convention?''])]"

definition spaced_type :: "string \<Rightarrow> string" where
  "spaced_type task_type = replace_char (CHR ''_'') (CHR '' '') task_type"

definition create_description :: "string \<Rightarrow> string" where
  "create_description task_type =
     dict_get_or SKILL_DESCRIPTIONS task_type (''Performs '' @ spaced_type task_type @ '' tasks with quality and best practices'')"

definition create_workflow_template :: "string \<Rightarrow> string" where
  "create_workflow_template task_type = dict_get_or WORKFLOWS task_type GENERAL_WORKFLOW"

definition create_best_practices_template :: "string \<Rightarrow> string" where
  "create_best_practices_template task_type =
     nl @ ''## Best Practices'' @ nl @ nl
     @ ''1. **Understand Requirements**: Carefully read the specification'' @ nl
     @ ''2. **Follow Patterns**: Use established patterns for '' @ task_type @ nl
     @ ''3. **Validate Quality**: Check output meets requirements'' @ nl
     @ ''4. **Document Decisions**: Explain key implementation choices'' @ nl"

definition CODE_TASKS :: "string list" where
  "CODE_TASKS = [''code_generation'', ''test_generation'', ''debugging'', ''refactoring'', ''performance_optimization'']"

definition allowed_tools_for_task :: "string \<Rightarrow> string" where
  "allowed_tools_for_task task_type =
     (if task_type \<in> set CODE_TASKS then ''Bash Read Write Edit''
      else if task_type = ''security_audit'' then ''Bash Read Grep Glob''
      else ''Read Grep Glob WebFetch WebSearch'')"

definition quality_criteria_for_task :: "string \<Rightarrow> string list" where
  "quality_criteria_for_task task_type = dict_get_or QUALITY_CRITERIA task_type []"

definition ephemeral_name :: "string \<Rightarrow> string" where
  "ephemeral_name task_type = ''ephemeral-'' @ replace_char (CHR ''_'') (CHR ''-'') task_type"

section \<open>Past outcomes\<close>

text \<open>From the heading to the next one, at most 500 characters.\<close>

definition extract_workflow_excerpt :: "string \<Rightarrow> string" where
  "extract_workflow_excerpt content =
     (case split_first ''## How It Works'' content of
        None \<Rightarrow> []
      | Some (_, rest) \<Rightarrow>
          (case split_first nl rest of
             None \<Rightarrow> []
           | Some (_, body) \<Rightarrow>
               (let excerpt = py_strip (case split_first (nl @ ''## '') body of None \<Rightarrow> body | Some (b, _) \<Rightarrow> b)
                in if length excerpt > 500 then take 500 excerpt @ ''...'' else excerpt)))"

record gen_env =
  ge_skill :: skill_env
  ge_store :: "outcome_store option"
  ge_model :: "(string \<times> string \<Rightarrow> py_exn + string) option"
  ge_path_text :: "path \<Rightarrow> string"

definition positive_parts :: "nat \<times> outcome_entry \<Rightarrow> string list" where
  "positive_parts p =
     (case p of (i, e) \<Rightarrow>
        [nl @ ''Example '' @ str_nat i @ '' (score: '' @ str_int (oe_score e) @ ''/100):'']
        @ (let w = extract_workflow_excerpt (oe_skill_content e) in if w \<noteq> [] then [w] else [])
        @ (if oe_feedback e \<noteq> [] then [''Critic: '' @ take 200 (oe_feedback e)] else []))"

definition from_one :: "'a list \<Rightarrow> (nat \<times> 'a) list" where
  "from_one xs = zip [1..<Suc (length xs)] xs"

definition build_llm_prompt :: "outcome_store option \<Rightarrow> string \<Rightarrow> string \<Rightarrow> string" where
  "build_llm_prompt store task_type specification =
     join_with (nl @ nl)
       ([''Task type: '' @ spaced_type task_type, ''Specification:'' @ nl @ take 600 specification]
        @ (case store of
             None \<Rightarrow> []
           | Some st \<Rightarrow>
               (let pos = retrieve_positive_examples task_type 2 st; neg = retrieve_negative_examples task_type 1 st
                in (if pos \<noteq> [] then (nl @ ''--- HIGH-SCORING EXAMPLES (learn from these) ---'') # concat (map positive_parts (from_one pos))
                    else [])
                   @ (if neg \<noteq> [] then (nl @ ''--- LOW-SCORING EXAMPLES (avoid these patterns) ---'')
                        # map (\<lambda>e. ''Score '' @ str_int (oe_score e) @ ''/100 - Critic: '' @ take 200 (oe_feedback e)) neg
                      else [])))
        @ [nl @ ''Generate a tailored workflow and best practices for this '' @ spaced_type task_type @ '' task.''])"

definition learned_positive :: "nat \<times> outcome_entry \<Rightarrow> string list" where
  "learned_positive p =
     (case p of (i, e) \<Rightarrow>
        [''### Positive Example '' @ str_nat i @ '' (score: '' @ str_int (oe_score e) @ ''/100)'' @ nl]
        @ (let w = extract_workflow_excerpt (oe_skill_content e) in if w \<noteq> [] then [''```'' @ nl @ w @ nl @ ''```'' @ nl] else [])
        @ (if oe_feedback e \<noteq> [] then [''*Critic feedback*: '' @ take 200 (oe_feedback e) @ nl] else []) @ [[]])"

definition build_learned_patterns_section :: "outcome_store option \<Rightarrow> string \<Rightarrow> string" where
  "build_learned_patterns_section store task_type =
     (case store of
        None \<Rightarrow> []
      | Some st \<Rightarrow>
          (let pos = retrieve_positive_examples task_type 3 st; neg = retrieve_negative_examples task_type 1 st
           in if pos = [] \<and> neg = [] then []
              else join_with nl
                ([nl @ ''## Learned Patterns (from past outcomes)'' @ nl]
                 @ (if pos \<noteq> [] then
                      (''The following patterns produced HIGH-SCORING outputs for this task type. Incorporate these approaches:'' @ nl)
                      # concat (map learned_positive (from_one pos))
                    else [])
                 @ (if neg \<noteq> [] then
                      (''### Anti-Patterns (avoid these)'' @ nl @ nl
                       @ ''The following approaches produced LOW-SCORING outputs. Do NOT repeat these mistakes:'' @ nl)
                      # map (\<lambda>e. ''- **Score '' @ str_int (oe_score e) @ ''/100**: '' @ take 200 (oe_feedback e) @ nl) neg
                    else [])) @ nl))"

section \<open>The sections a model drafts\<close>

text \<open>\<open>re.search(r'^\d+\.\s', s, re.MULTILINE)\<close>.\<close>

definition numbered_at :: "string \<Rightarrow> bool" where
  "numbered_at s =
     (takeWhile is_digit s \<noteq> [] \<and> (case dropWhile is_digit s of c # d # cs \<Rightarrow> c = CHR ''.'' \<and> py_space d | _ \<Rightarrow> False))"

fun numbered_step :: "bool \<Rightarrow> string \<Rightarrow> bool" where
  "numbered_step fresh_line [] = False"
| "numbered_step fresh_line (c # cs) = (fresh_line \<and> numbered_at (c # cs) \<or> numbered_step (c = CHR 0x0A) cs)"

definition validate_llm_output :: "string \<Rightarrow> bool" where
  "validate_llm_output response \<longleftrightarrow>
     length response \<ge> 50 \<and> str_contains ''## How It Works'' response \<and> str_contains ''## Best Practices'' response
     \<and> numbered_step True response"

definition generate_sections_with_llm :: "gen_env \<Rightarrow> string \<Rightarrow> string \<Rightarrow> string option" where
  "generate_sections_with_llm env task_type specification =
     (case ge_model env of
        None \<Rightarrow> None
      | Some ask_model \<Rightarrow>
          (case ask_model (SKILL_DESIGNER_SYSTEM_PROMPT, build_llm_prompt (ge_store env) task_type specification) of
             Inl e \<Rightarrow> None
           | Inr response \<Rightarrow> if validate_llm_output response then Some response else None))"

section \<open>The skill\<close>

definition skill_head :: "string \<Rightarrow> string" where
  "skill_head task_type =
     ''---'' @ nl @ ''name: '' @ ephemeral_name task_type @ nl @ ''description: '' @ create_description task_type @ nl
     @ ''license: Apache-2.0'' @ nl @ ''metadata:'' @ nl @ ''  author: vibe'' @ nl
     @ ''  version: '' @ [CHR 0x22] @ ''1.0'' @ [CHR 0x22] @ nl @ ''  generated: true'' @ nl
     @ ''allowed-tools: '' @ allowed_tools_for_task task_type @ nl
     @ (if quality_criteria_for_task task_type \<noteq> []
        then ''quality-criteria: '' @ join_with '' | '' (quality_criteria_for_task task_type) @ nl else [])
     @ ''---'' @ nl @ nl @ ''# '' @ py_title (spaced_type task_type) @ nl @ nl
     @ ''Ephemeral skill generated on-demand for '' @ task_type @ '' tasks.'' @ nl @ nl
     @ ''## When to Use'' @ nl @ nl
     @ ''Use this skill when the task involves '' @ spaced_type task_type @ '' and requires:'' @ nl
     @ ''- Specific domain knowledge for '' @ task_type @ nl
     @ ''- Systematic approach to '' @ spaced_type task_type @ nl
     @ ''- Quality validation and best practices'' @ nl @ nl"

definition skill_tail :: "string \<Rightarrow> string" where
  "skill_tail specification =
     nl @ ''## Context'' @ nl @ nl @ ''This skill was generated for the following specification:'' @ nl
     @ ''```'' @ nl @ take 500 specification @ (if length specification > 500 then ''...'' else []) @ nl @ ''```'' @ nl @ nl
     @ ''## Notes'' @ nl @ nl
     @ ''This is an ephemeral skill generated automatically. If this skill proves'' @ nl
     @ ''valuable (used 3+ times with avg quality >= 85), it will be promoted to'' @ nl
     @ ''the local tier for permanent storage.'' @ nl"

definition template_sections :: "gen_env \<Rightarrow> string \<Rightarrow> string" where
  "template_sections env task_type =
     ''## How It Works'' @ nl @ create_workflow_template task_type @ nl
     @ build_learned_patterns_section (ge_store env) task_type @ create_best_practices_template task_type"

definition create_skill_content :: "gen_env \<Rightarrow> string \<Rightarrow> string \<Rightarrow> string" where
  "create_skill_content env task_type specification =
     skill_head task_type
     @ (case generate_sections_with_llm env task_type specification of
          Some sections \<Rightarrow> sections
        | None \<Rightarrow> template_sections env task_type)
     @ skill_tail specification"

section \<open>Refinement\<close>

definition refinement_section :: "string \<Rightarrow> int \<Rightarrow> string" where
  "refinement_section feedback score =
     nl @ ''## Refinement Directives (IMPORTANT)'' @ nl @ nl
     @ ''This skill was refined after scoring '' @ str_int score @ ''/100. The critic identified'' @ nl
     @ ''these specific issues that MUST be addressed:'' @ nl @ nl
     @ take 800 feedback @ nl @ nl
     @ ''**Requirements from refinement:**'' @ nl
     @ ''- Address ALL issues listed above before considering the task complete'' @ nl
     @ ''- Pay special attention to the areas the critic flagged as deficient'' @ nl
     @ ''- Validate output against each critique point before finalizing'' @ nl @ nl"

definition draft_refined_content :: "gen_env \<Rightarrow> string \<Rightarrow> string \<Rightarrow> string \<Rightarrow> int \<Rightarrow> string" where
  "draft_refined_content env task_type specification feedback score =
     (let base = create_skill_content env task_type specification; directives = refinement_section feedback score
      in case split_first ''## Context'' base of
           Some (before, after) \<Rightarrow> before @ directives @ ''## Context'' @ after
         | None \<Rightarrow> base @ directives)"

section \<open>The node\<close>

definition generate_skill :: "gen_env \<Rightarrow> string \<Rightarrow> string \<Rightarrow> skill_world \<Rightarrow> (py_exn + string \<times> path) \<times> skill_world" where
  "generate_skill env task_type specification w =
     (let name = ephemeral_name task_type; p = tier_dir Temp @ [name]; fs1 = fs_makedirs p (w_files w);
          content = create_skill_content env task_type specification
      in case fs_write (p @ [SKILL_MD]) (Text content) fs1 of
           Inl e \<Rightarrow> (Inl e, w\<lparr>w_files := fs1\<rparr>)
         | Inr fs \<Rightarrow>
             (let w1 = w\<lparr>w_files := fs\<rparr> in
              if dict_has (skills_in w1 Temp) name
              then (Inr (name, p), w1\<lparr>w_security := store_integrity_hash (en_digest (ge_skill env)) name content (w_security w1)\<rparr>)
              else
                (case register_skill (ge_skill env) name (create_description task_type) ''temp'' [task_type] p w1 of
                   (Inl e, w2) \<Rightarrow> (Inl e, w2)
                 | (Inr m, w2) \<Rightarrow> (Inr (name, p), w2))))"

definition info_key :: "json_obj \<Rightarrow> string \<Rightarrow> py_exn + string" where
  "info_key d k = (case dict_get d k of None \<Rightarrow> Inl (KeyError k) | Some v \<Rightarrow> Inr v)"

fun generate_each ::
    "gen_env \<Rightarrow> string \<Rightarrow> json_obj list \<Rightarrow> string list \<Rightarrow> skill_world \<Rightarrow> (py_exn + json_obj list \<times> string list) \<times> skill_world" where
  "generate_each env specification [] names w = (Inr ([], names), w)"
| "generate_each env specification (k # ks) names w =
     (if dict_get k ''tier'' \<noteq> Some ''ephemeral'' then
        (case generate_each env specification ks names w of
           (Inl e, w') \<Rightarrow> (Inl e, w')
         | (Inr (ks', names'), w') \<Rightarrow> (Inr (k # ks', names'), w'))
      else
        (case info_key k ''task_type'' of
           Inl e \<Rightarrow> (Inl e, w)
         | Inr task_type \<Rightarrow>
             (case generate_skill env task_type specification w of
                (Inl e, w1) \<Rightarrow> (Inl e, w1)
              | (Inr (name, p), w1) \<Rightarrow>
                  (case generate_each env specification ks (names @ [name]) w1 of
                     (Inl e, w') \<Rightarrow> (Inl e, w')
                   | (Inr (ks', names'), w') \<Rightarrow>
                       (Inr (dict_set ''tier'' ''temp'' (dict_set ''skill_path'' (ge_path_text env p) (dict_set ''skill_name'' name k)) # ks',
                             names'), w')))))"

definition generate_skills :: "gen_env \<Rightarrow> agent_state \<Rightarrow> skill_world \<Rightarrow> (py_exn + agent_state) \<times> skill_world" where
  "generate_skills env s w =
     (let discovered = opt_or (discovered_skills s) [] in
      if \<exists>k \<in> set discovered. dict_get k ''tier'' = None then (Inl (KeyError ''tier''), w)
      else if \<forall>k \<in> set discovered. dict_get k ''tier'' \<noteq> Some ''ephemeral'' then (Inr s, w)
      else
        (case generate_each env (opt_or (spec_text s) []) discovered (opt_or (skills_in_use s) []) w of
           (Inl e, w') \<Rightarrow> (Inl e, w')
         | (Inr (ks, names), w') \<Rightarrow> (Inr (s\<lparr>discovered_skills := Some ks, skills_in_use := Some names\<rparr>), w')))"

section \<open>Properties\<close>

lemma fs_read_written: "fs_write p c fs = Inr fs' \<Longrightarrow> fs_read fs' p = Some c"
  by (auto simp: fs_write_def fs_read_def split: if_splits)

lemma str_contains_here: "str_contains p (p @ s)"
  unfolding str_contains_iff by (metis append_Nil)

text \<open>A skill that was retained from an earlier session is refreshed without any check: whatever a model drafted, or the
  specification brought in, it is hashed as trusted and loads, unless a carriage return in it changes the digest on reading.\<close>

theorem refreshed_skill_is_not_checked:
  assumes "dict_get (skills_in w Temp) (ephemeral_name task_type) = Some d" and "sk_path d = tier_dir Temp @ [ephemeral_name task_type]"
    and "find_tier w (ephemeral_name task_type) = Some Temp" and "dict_get (w_workspace w) (ephemeral_name task_type) = None"
    and "fs_is_dir (fs_makedirs (tier_dir Temp @ [ephemeral_name task_type]) (w_files w)) (tier_dir Temp @ [ephemeral_name task_type])"
    and "\<not> fs_is_dir (fs_makedirs (tier_dir Temp @ [ephemeral_name task_type]) (w_files w))
      (tier_dir Temp @ [ephemeral_name task_type, SKILL_MD])"
  shows "\<exists>r w'. generate_skill env task_type spec w = (Inr r, w')
    \<and> fst (load_skill (ge_skill env) (ephemeral_name task_type) w') =
        (let content = create_skill_content env task_type spec in
         if en_digest (ge_skill env) (universal_newlines content) = en_digest (ge_skill env) content
         then Some (universal_newlines content) else None)"
proof -
  let ?n = "ephemeral_name task_type" and ?c = "create_skill_content env task_type spec" and ?dg = "en_digest (ge_skill env)"
  let ?p = "tier_dir Temp @ [?n]"
  let ?fs = "dict_set (?p @ [SKILL_MD]) (File (Text ?c)) (fs_makedirs ?p (w_files w))"
  have wr: "fs_write (?p @ [SKILL_MD]) (Text ?c) (fs_makedirs ?p (w_files w)) = Inr ?fs"
    using assms(5,6) by (simp add: fs_write_def butlast_append)
  have has: "dict_has (skills_in w Temp) ?n" using assms(1) by (simp add: dict_has_def)
  let ?w' = "w\<lparr>w_files := ?fs, w_security := store_integrity_hash (en_digest (ge_skill env)) ?n ?c (w_security w)\<rparr>"
  have run: "generate_skill env task_type spec w = (Inr (?n, ?p), ?w')"
    using wr has by (simp add: generate_skill_def Let_def skills_in_def)
  have "find_tier ?w' ?n = Some Temp" "dict_get (skills_in ?w' Temp) ?n = Some d"
    using assms(1,3) by (simp_all add: find_tier_def skills_in_def split: if_splits)
  moreover have "fs_read ?fs (?p @ [SKILL_MD]) = Some (Text ?c)" by (rule fs_read_written [OF wr])
  ultimately have "fst (load_skill (ge_skill env) ?n ?w') =
      (if ?dg (universal_newlines ?c) = ?dg ?c then Some (universal_newlines ?c) else None)"
    using assms(2,4) by (simp add: load_skill_def verify_integrity_def store_integrity_hash_def split: prod.splits)
  with run show ?thesis unfolding Let_def by blast
qed

text \<open>C18: A new skill is checked: when its generation returns, its content as it is read back, the text that was written with its line
  ends turned into newlines, passed the validation, and this text is what loads; without a carriage return in it, it is the
  text that was written.\<close>

theorem new_generated_skill_is_checked:
  assumes "generate_skill env task_type spec w = (Inr r, w')"
    and "find_tier w (ephemeral_name task_type) = None" and "dict_get (w_workspace w) (ephemeral_name task_type) = None"
  shows "is_ok (validate_skill_content (en_search (ge_skill env)) (en_utf8 (ge_skill env))
      (universal_newlines (create_skill_content env task_type spec)))
    \<and> fst (load_skill (ge_skill env) (ephemeral_name task_type) w') = Some (universal_newlines (create_skill_content env task_type spec))
    \<and> (CHR 0x0D \<notin> set (create_skill_content env task_type spec) \<longrightarrow>
        fst (load_skill (ge_skill env) (ephemeral_name task_type) w') = Some (create_skill_content env task_type spec))"
proof -
  let ?n = "ephemeral_name task_type" and ?c = "create_skill_content env task_type spec" and ?e = "ge_skill env"
  let ?u = "universal_newlines ?c"
  let ?p = "tier_dir Temp @ [?n]"
  have new: "\<not> dict_has (skills_in w Temp) ?n" using assms(2) by (simp add: find_tier_def split: if_splits)
  obtain fs m where wr: "fs_write (?p @ [SKILL_MD]) (Text ?c) (fs_makedirs ?p (w_files w)) = Inr fs"
    and reg: "register_skill ?e ?n (create_description task_type) ''temp'' [task_type] ?p (w\<lparr>w_files := fs\<rparr>) = (Inr m, w')"
    using assms(1) new by (auto simp: generate_skill_def Let_def skills_in_def split: sum.splits if_splits prod.splits)
  have read: "fs_read fs (?p @ [SKILL_MD]) = Some (Text ?c)" by (rule fs_read_written [OF wr])
  have tier: "tier_of ''temp'' = Some Temp" by code_simp
  obtain c where chk: "check_registration ?e ?n Temp ?p (w\<lparr>w_files := fs\<rparr>) = Inr c"
    using reg tier by (auto simp: register_skill_def split: sum.splits)
  then have c: "c = ?u" and ok: "is_ok (validate_skill_content (en_search ?e) (en_utf8 ?e) ?u)"
    using read by (auto simp: check_registration_def Let_def split: option.splits if_splits)
  let ?m = "new_metadata ?e ?n (create_description task_type) Temp [task_type] ?p"
  let ?w1 = "w\<lparr>w_files := fs, w_security := store_integrity_hash (en_digest ?e) ?n ?u (w_security w)\<rparr>"
  let ?w2 = "set_index Temp (dict_set ?n (new_entry_for ?m) (skills_in ?w1 Temp)) ?w1"
  obtain fs3 where fs3: "fs_write (?p @ [METADATA]) (Meta ?m) fs = Inr fs3" and w': "w' = ?w2\<lparr>w_files := fs3\<rparr>"
    using reg tier chk c by (auto simp: register_skill_def Let_def write_metadata_def set_index_def split: sum.splits)
  have "SKILL_MD \<noteq> METADATA" by code_simp
  then have "fs_read fs3 (?p @ [SKILL_MD]) = Some (Text ?c)"
    using fs3 read by (auto simp: fs_write_def fs_read_def split: if_splits)
  moreover have "find_tier w' ?n = Some Temp"
    using assms(2) unfolding w' by (auto simp: find_tier_def set_index_def skills_in_def dict_has_def split: if_splits)
  moreover have "dict_get (skills_in w' Temp) ?n = Some (new_entry_for ?m)"
    unfolding w' by (simp add: set_index_def skills_in_def)
  ultimately have "fst (load_skill ?e ?n w') = Some ?u"
    using assms(3) unfolding w'
    by (simp add: load_skill_def verify_integrity_def store_integrity_hash_def new_entry_for_def new_metadata_def set_index_def split: prod.splits)
  with ok show ?thesis by (simp add: universal_newlines_id)
qed

text \<open>Every generated skill has its two sections, whether a model drafted them or not.\<close>

theorem generated_skill_has_its_sections:
  "str_contains ''## How It Works'' (create_skill_content env task_type spec)
   \<and> str_contains ''## Best Practices'' (create_skill_content env task_type spec)"
proof -
  have inside: "str_contains p s \<Longrightarrow> str_contains p (x @ s @ y)" for p s x y
    unfolding str_contains_iff by (metis append.assoc)
  show ?thesis
  proof (cases "generate_sections_with_llm env task_type spec")
    case None
    have "str_contains ''## How It Works'' (template_sections env task_type)"
      unfolding template_sections_def by (rule str_contains_here)
    moreover have "str_contains ''## Best Practices'' (create_best_practices_template task_type)"
      unfolding create_best_practices_template_def by (rule str_contains_after, rule str_contains_here)
    then have "str_contains ''## Best Practices'' (template_sections env task_type)"
      unfolding template_sections_def by (intro str_contains_after)
    ultimately show ?thesis using None by (simp add: create_skill_content_def inside)
  next
    case (Some a)
    then have "validate_llm_output a" by (auto simp: generate_sections_with_llm_def split: option.splits sum.splits if_splits)
    then show ?thesis using Some by (simp add: create_skill_content_def validate_llm_output_def inside)
  qed
qed

text \<open>A refinement only adds: the fresh draft with the directives, which hold the first 800 characters of the feedback, put in
  before its first context heading.\<close>

theorem refinement_only_adds:
  "\<exists>before after. create_skill_content env task_type spec = before @ after
     \<and> draft_refined_content env task_type spec feedback score = before @ refinement_section feedback score @ after
     \<and> (\<exists>x y. refinement_section feedback score = x @ take 800 feedback @ y)"
proof -
  have fb: "\<exists>x y. refinement_section feedback score = x @ take 800 feedback @ y"
    by (rule exI [of _ "nl @ ''## Refinement Directives (IMPORTANT)'' @ nl @ nl
     @ ''This skill was refined after scoring '' @ str_int score @ ''/100. The critic identified'' @ nl
     @ ''these specific issues that MUST be addressed:'' @ nl @ nl"]) (simp add: refinement_section_def)
  show ?thesis
  proof (cases "split_first ''## Context'' (create_skill_content env task_type spec)")
    case None
    then show ?thesis using fb by (intro exI [of _ "create_skill_content env task_type spec"] exI [of _ "[]"]) (simp add: draft_refined_content_def Let_def)
  next
    case (Some p)
    obtain b a where p: "p = (b, a)" by fastforce
    have "create_skill_content env task_type spec = b @ ''## Context'' @ a" using split_first_sound Some p by blast
    then show ?thesis using fb Some p by (intro exI [of _ b] exI [of _ "''## Context'' @ a"]) (simp add: draft_refined_content_def Let_def)
  qed
qed

section \<open>Examples\<close>

text \<open>An environment in which every pattern is found in every text, and one in which none is.\<close>

definition gen_sample :: "bool \<Rightarrow> gen_env" where
  "gen_sample found = \<lparr>ge_skill = sample_env\<lparr>en_search := (\<lambda>_ _. found), en_utf8 := (\<lambda>_. [])\<rparr>, ge_store = None, ge_model = None,
     ge_path_text = concat\<rparr>"

definition retained_entry :: skill_entry where
  "retained_entry = sample_entry\<lparr>sk_path := [''temp'', ''ephemeral-x'']\<rparr>"

definition gen_world :: "(string, skill_entry) py_dict \<Rightarrow> skill_world" where
  "gen_world d = \<lparr>w_files = [([''temp''], Dir)], w_index = (\<lambda>_. [])(Temp := d),
     w_security = \<lparr>ss_require_approval = False, ss_pending = [], ss_hashes = []\<rparr>, w_workspace = []\<rparr>"

lemma gen_name: "ephemeral_name ''x'' = ''ephemeral-x''" "tier_dir Temp = [''temp'']" "tier_of ''temp'' = Some Temp"
  "validate_skill_name ''ephemeral-x'' = Inr ()"
  by code_simp+

lemma gen_dirs: "fs_makedirs [''temp'', ''ephemeral-x''] [([''temp''], Dir)] = [([''temp''], Dir), ([''temp'', ''ephemeral-x''], Dir :: skill_file node)]"
  by code_simp

theorem refreshed_skill_is_not_checked_witness:
  "\<exists>r w'. generate_skill (gen_sample True) ''x'' ''s'' (gen_world [(''ephemeral-x'', retained_entry)]) = (Inr r, w')
    \<and> fst (load_skill (ge_skill (gen_sample True)) ''ephemeral-x'' w') =
        (let content = create_skill_content (gen_sample True) ''x'' ''s'' in
         if en_digest (ge_skill (gen_sample True)) (universal_newlines content) = en_digest (ge_skill (gen_sample True)) content
         then Some (universal_newlines content) else None)"
  using refreshed_skill_is_not_checked [of "gen_world [(''ephemeral-x'', retained_entry)]" "''x''" retained_entry "gen_sample True" "''s''"]
  by (simp add: gen_name gen_dirs gen_world_def retained_entry_def find_tier_def skills_in_def dict_has_def dict_get_def fs_is_dir_def SKILL_MD_def)

lemma gen_new: "\<exists>r w'. generate_skill (gen_sample False) ''x'' ''s'' (gen_world []) = (Inr r, w')"
  by (simp add: generate_skill_def register_skill_def check_registration_def write_metadata_def gen_name gen_dirs gen_world_def gen_sample_def
      skills_in_def dict_has_def fs_write_def fs_is_dir_def fs_read_def SKILL_MD_def METADATA_def validate_skill_path_def validate_skill_content_def
      severity_count_def MAX_SKILL_FILE_SIZE_def scan_bundled_scripts_def scripts_below_def dict_get_def dict_set_def set_index_def Let_def
      strict_prefix_def suffix_def)

theorem new_generated_skill_is_checked_witness:
  "\<exists>w'. is_ok (validate_skill_content (\<lambda>_ _. False) (\<lambda>_. []) (universal_newlines (create_skill_content (gen_sample False) ''x'' ''s'')))
    \<and> fst (load_skill (ge_skill (gen_sample False)) ''ephemeral-x'' w')
        = Some (universal_newlines (create_skill_content (gen_sample False) ''x'' ''s''))"
proof -
  obtain r w' where run: "generate_skill (gen_sample False) ''x'' ''s'' (gen_world []) = (Inr r, w')" using gen_new by blast
  from new_generated_skill_is_checked [OF run] show ?thesis
    by (auto simp: gen_name gen_world_def find_tier_def skills_in_def dict_has_def gen_sample_def)
qed

end
