(* ===== verification/Bulletin_Board.thy ===== *)
theory Bulletin_Board
  imports Message_Correct Tool_Registry
begin

text \<open>
  \<^verbatim>\<open>agents/tools/bulletin_board.py\<close>: the tool with which agents post and read messages, over the message store. The
  environment holds what a call finds: the store's parameters, whether the board is configured, the exception of opening the
  store, the comments on issues, \<open>int\<close> of a JSON value and the format \<open>.3f\<close>. Arguments that have not the type the schema
  asks for (a life-time that is no integer, metadata that are no object) count as rejected by the store.
\<close>

record board_env =
  bd_messages :: message_env
  bd_configured :: bool
  bd_open :: "py_exn option"
  bd_enabled :: bool
  bd_add :: "string \<Rightarrow> string \<Rightarrow> py_exn + string"
  bd_dumps :: "(string, json) py_dict \<Rightarrow> string"
  bd_int :: "json \<Rightarrow> py_exn + int"
  bd_fmt3 :: "real \<Rightarrow> string"

type_synonym board_result = "(py_exn + tool_result) \<times> message_db"

text \<open>\<open>kwargs.get(k, d).strip()\<close>.\<close>

definition text_arg :: "params \<Rightarrow> string \<Rightarrow> string \<Rightarrow> py_exn + string" where
  "text_arg p k d =
     (case dict_get_or p k (JStr d) of JStr s \<Rightarrow> Inr (py_strip s) | _ \<Rightarrow> Inl (OtherError ''AttributeError'' ''strip''))"

text \<open>\<open>kwargs.get("metadata") or {}\<close>, and a text or none.\<close>

definition metadata_arg :: "params \<Rightarrow> (string, json) py_dict option" where
  "metadata_arg p = (let v = dict_get_or p ''metadata'' JNull in if truthy v then as_obj v else Some [])"

definition issue_arg :: "params \<Rightarrow> string option option" where
  "issue_arg p = as_nullable as_str (dict_get_or p ''issue_id'' JNull)"

definition bad_argument :: py_exn where
  "bad_argument = OtherError ''TypeError'' ''argument of the wrong type''"

text \<open>The comment on the issue, best effort.\<close>

definition dual_write :: "board_env \<Rightarrow> message \<Rightarrow> message_db \<Rightarrow> message_db" where
  "dual_write env m d =
     (case post_comment (bd_enabled env) (bd_add env) (bd_dumps env) m of
        Some (c # cs) \<Rightarrow> update_paperclip_comment_id (ms_id m) (c # cs) d
      | _ \<Rightarrow> d)"

definition send_posted :: "board_env \<Rightarrow> params \<Rightarrow> string \<Rightarrow> string \<Rightarrow> string \<Rightarrow> message_type \<Rightarrow> message_db \<Rightarrow> (py_exn + message) \<times> message_db" where
  "send_posted env p content topic recipient ty d =
     (case (metadata_arg p, issue_arg p, as_int (dict_get_or p ''ttl_seconds'' (JInt DEFAULT_TTL_SECONDS))) of
        (Some meta, Some issue, Some ttl) \<Rightarrow>
          send (bd_messages env) \<lparr>sa_content = content, sa_sender = None, sa_recipient = recipient, sa_type = ty, sa_topic = topic,
            sa_metadata = meta, sa_parent = None, sa_issue = issue, sa_ttl = ttl\<rparr> d
      | _ \<Rightarrow> (Inl bad_argument, d))"

definition type_or :: "message_type \<Rightarrow> string \<Rightarrow> message_type" where
  "type_or d s = (case message_type_of (py_lower s) of Inl e \<Rightarrow> d | Inr t \<Rightarrow> t)"

definition board_post :: "board_env \<Rightarrow> params \<Rightarrow> message_db \<Rightarrow> board_result" where
  "board_post env p d =
     (case text_arg p ''message'' [] of
        Inl e \<Rightarrow> (Inl e, d)
      | Inr [] \<Rightarrow> (Inr (failure ''No message provided for post action''), d)
      | Inr content \<Rightarrow>
          (case (text_arg p ''topic'' [], text_arg p ''recipient'' BROADCAST, text_arg p ''msg_type'' ''info'') of
             (Inr topic, Inr recipient, Inr ty) \<Rightarrow>
               (case send_posted env p content topic recipient (type_or Info ty) d of
                  (Inl e, d1) \<Rightarrow> (Inr (failure (''Failed to post: '' @ exn_text e)), d1)
                | (Inr m, d1) \<Rightarrow>
                    (Inr (success
                       (''Posted '' @ type_value (ms_type m) @ '' message to bulletin board at '' @ ms_created m @ '' as '' @ ms_sender m)
                       [(''message_id'', JStr (ms_id m)), (''timestamp'', JStr (ms_created m)), (''sender'', JStr (ms_sender m)),
                        (''topic'', JStr topic), (''msg_type'', JStr (type_value (ms_type m)))]),
                     dual_write env m d1))
           | (Inl e, _, _) \<Rightarrow> (Inl e, d)
           | (_, Inl e, _) \<Rightarrow> (Inl e, d)
           | (_, _, Inl e) \<Rightarrow> (Inl e, d)))"

definition message_header :: "string \<Rightarrow> message \<Rightarrow> string" where
  "message_header topic_label m =
     ''['' @ ms_created m @ ''] '' @ ms_sender m @ (if ms_topic m \<noteq> [] then '' | '' @ topic_label @ ms_topic m else [])"

definition typed_header :: "message \<Rightarrow> string" where
  "typed_header m = message_header ''Topic: '' m @ '' | Type: '' @ type_value (ms_type m)"

definition board_entry :: "string \<Rightarrow> string \<Rightarrow> message \<Rightarrow> string" where
  "board_entry head suffix_text m =
     ''### '' @ head @ suffix_text @ nl @ ''ID: '' @ ms_id m @ nl @ ms_content m @ nl"

text \<open>The types of a comma-separated list; unknown names are left out.\<close>

definition type_filter :: "string \<Rightarrow> message_type list" where
  "type_filter s =
     List.map_filter (\<lambda>t. case message_type_of (py_lower (py_strip t)) of Inl e \<Rightarrow> None | Inr x \<Rightarrow> Some x) (split_on (CHR '','') s)"

definition found_messages :: "board_env \<Rightarrow> params \<Rightarrow> int \<Rightarrow> message_db \<Rightarrow> py_exn + message list" where
  "found_messages env p limit d =
     (let agent = mg_name (bd_messages env) in
      if truthy (dict_get_or p ''unread_only'' (JBool False)) then Inr (get_unread (bd_messages env) (Some agent) limit d)
      else res_bind (text_arg p ''type_filter'' []) (\<lambda>f.
           res_bind (text_arg p ''topic'' []) (\<lambda>topic.
           Inr (read_recent (mg_now (bd_messages env)) limit (Some agent) (if f = [] then [] else type_filter f)
             (if topic = [] then None else Some topic) False d))))"

definition board_read :: "board_env \<Rightarrow> params \<Rightarrow> message_db \<Rightarrow> board_result" where
  "board_read env p d =
     (case bd_int env (dict_get_or p ''limit'' (JInt 20)) of
        Inl e \<Rightarrow> (Inl e, d)
      | Inr n \<Rightarrow>
          (let agent = mg_name (bd_messages env) in
           case found_messages env p (max 1 (min n 100)) d of
             Inl e \<Rightarrow> (Inr (failure (''Failed to read: '' @ exn_text e)), d)
           | Inr [] \<Rightarrow> (Inr (success ''No messages found.'' []), d)
           | Inr ms \<Rightarrow>
               (Inr (success
                  (join_with nl (map (\<lambda>m. board_entry (typed_header m) (if agent \<in> set (ms_read_by m) then '' (read)'' else '' (unread)'') m) ms))
                  [(''count'', JInt (int (length ms)))]),
                mark_many_read (bd_messages env) (map ms_id ms) (Some agent) d)))"

definition board_search :: "board_env \<Rightarrow> params \<Rightarrow> message_db \<Rightarrow> board_result" where
  "board_search env p d =
     (case text_arg p ''query'' [] of
        Inl e \<Rightarrow> (Inl e, d)
      | Inr [] \<Rightarrow> (Inr (failure ''No search query provided''), d)
      | Inr query \<Rightarrow>
          (case hybrid_search (bd_messages env) query 20 (4 / 10) (6 / 10) d of
             [] \<Rightarrow> (Inr (success (''No messages matching '' @ [CHR 0x27] @ query @ [CHR 0x27] @ ''.'') [(''count'', JInt 0)]), d)
           | ms \<Rightarrow>
               (Inr (success (join_with nl (map (\<lambda>m. board_entry (typed_header m) ('' (score: '' @ bd_fmt3 env (ms_score m) @ '')'') m) ms))
                  [(''count'', JInt (int (length ms)))]), d)))"

definition board_reply :: "board_env \<Rightarrow> params \<Rightarrow> message_db \<Rightarrow> board_result" where
  "board_reply env p d =
     (case text_arg p ''reply_to'' [] of
        Inl e \<Rightarrow> (Inl e, d)
      | Inr [] \<Rightarrow> (Inr (failure ''No reply_to message ID provided''), d)
      | Inr parent \<Rightarrow>
          (case text_arg p ''message'' [] of
             Inl e \<Rightarrow> (Inl e, d)
           | Inr [] \<Rightarrow> (Inr (failure ''No message provided for reply action''), d)
           | Inr content \<Rightarrow>
               (case text_arg p ''msg_type'' [] of
                  Inl e \<Rightarrow> (Inl e, d)
                | Inr ty \<Rightarrow>
                    (case metadata_arg p of
                       None \<Rightarrow> (Inr (failure (''Failed to reply: '' @ exn_text bad_argument)), d)
                     | Some meta \<Rightarrow>
                         (case reply (bd_messages env) parent content None
                             (case message_type_of (py_lower ty) of Inr t \<Rightarrow> Some t | Inl e \<Rightarrow> None) meta d of
                            (Inl (ValueError v), d1) \<Rightarrow> (Inr (failure v), d1)
                          | (Inl e, d1) \<Rightarrow> (Inr (failure (''Failed to reply: '' @ exn_text e)), d1)
                          | (Inr m, d1) \<Rightarrow>
                              (Inr (success (''Replied to message '' @ parent)
                                 [(''message_id'', JStr (ms_id m)), (''parent_id'', JStr parent), (''sender'', JStr (ms_sender m))]),
                               dual_write env m d1))))))"

definition board_thread :: "params \<Rightarrow> message_db \<Rightarrow> board_result" where
  "board_thread p d =
     (case text_arg p ''message_id'' [] of
        Inl e \<Rightarrow> (Inl e, d)
      | Inr [] \<Rightarrow> (Inr (failure ''No message_id provided for thread action''), d)
      | Inr i \<Rightarrow>
          (case get_thread i d of
             [] \<Rightarrow> (Inr (success (''No thread found for message '' @ i @ ''.'') []), d)
           | ms \<Rightarrow>
               (Inr (success
                  (join_with nl (map (\<lambda>m. let indent = (case ms_parent m of Some (c # cs) \<Rightarrow> ''  '' | _ \<Rightarrow> []) in
                     indent @ ''### '' @ message_header [] m @ nl @ indent @ ''ID: '' @ ms_id m @ nl @ indent @ ms_content m @ nl) ms))
                  [(''thread_length'', JInt (int (length ms)))]), d)))"

definition board_stats :: "message_db \<Rightarrow> board_result" where
  "board_stats d =
     (let u = get_stats_messages d in
      (Inr (success
         (join_with nl
           ([''Total messages: '' @ str_nat (mu_total u), ''Thread count: '' @ str_nat (mu_threads u), ''Embeddings: '' @ str_nat (mu_embeddings u),
             ''Max capacity: '' @ str_int (mu_max u), ''Messages by type:'']
            @ map (\<lambda>t. ''  '' @ t @ '': '' @ str_int (dict_get_or (mu_by_type u) t 0)) (sort_texts (dict_keys (mu_by_type u)))))
         [(''total_messages'', JInt (int (mu_total u))), (''by_type'', JObj (map (\<lambda>(t, n). (t, JInt n)) (mu_by_type u))),
          (''thread_count'', JInt (int (mu_threads u))), (''embedding_count'', JInt (int (mu_embeddings u))), (''max_messages'', JInt (mu_max u))]),
       d))"

definition BOARD_ACTIONS :: string where
  "BOARD_ACTIONS = ''post, read, search, reply, thread, stats''"

definition board_execute :: "board_env \<Rightarrow> params \<Rightarrow> message_db \<Rightarrow> board_result" where
  "board_execute env p d =
     (case text_arg p ''action'' [] of
        Inl e \<Rightarrow> (Inl e, d)
      | Inr a \<Rightarrow>
          (let action = py_lower a in
           if action = [] then (Inr (failure (''No action specified. Use: '' @ BOARD_ACTIONS)), d)
           else if \<not> bd_configured env then
             (Inr (failure ''MESSAGE_STORE_PATH or BULLETIN_PATH not configured. Bulletin board is disabled.''), d)
           else case bd_open env of
             Some e \<Rightarrow> (Inr (failure (''Failed to initialize message store: '' @ exn_text e)), d)
           | None \<Rightarrow>
               if action = ''post'' then board_post env p d
               else if action = ''read'' then board_read env p d
               else if action = ''search'' then board_search env p d
               else if action = ''reply'' then board_reply env p d
               else if action = ''thread'' then board_thread p d
               else if action = ''stats'' then board_stats d
               else (Inr (failure (''Unknown action: '' @ [CHR 0x27] @ action @ [CHR 0x27] @ ''. Use: '' @ BOARD_ACTIONS)), d)))"

section \<open>Recent entries for a prompt\<close>

definition read_recent_entries :: "board_env \<Rightarrow> int \<Rightarrow> message_db \<Rightarrow> string" where
  "read_recent_entries env limit d =
     (if \<not> bd_configured env \<or> bd_open env \<noteq> None then []
      else
        (case relevant_messages (bd_messages env) [] (Some (mg_name (bd_messages env))) limit d of
           [] \<Rightarrow> []
         | ms \<Rightarrow> nl @ nl @ ''## Bulletin Board (Recent Messages)'' @ nl @ nl @ join_with nl (map format_for_context ms)))"

section \<open>Properties\<close>

lemma mark_many_rows:
  "mb_rows (mark_many_read env ids agent d) =
     map (\<lambda>m. if ms_id m \<in> set ids then add_reader (or_name env agent) m else m) (mb_rows d)"
proof (induction ids arbitrary: d)
  case (Cons i ids)
  have same: "ms_id (add_reader a m) = ms_id m" "add_reader a (add_reader a m) = add_reader a m" for a m
    by (simp_all add: add_reader_def)
  show ?case using Cons [of "mark_read env i agent d"] by (auto simp: mark_many_read_def mark_read_def same)
qed (simp add: mark_many_read_def)

text \<open>What a read shows counts as read: it is not among the unread messages of the agent any more, at whatever time and limit, and
  of the messages nothing but the list of readers changes.\<close>

theorem read_messages_are_not_unread:
  assumes "bd_int env (dict_get_or p ''limit'' (JInt 20)) = Inr n" and "found_messages env p (max 1 (min n 100)) d = Inr ms"
    and "plain_name (mg_name (bd_messages env))" and "mg_name later = mg_name (bd_messages env)"
  shows "\<exists>r. fst (board_read env p d) = Inr r \<and> tr_success r
    \<and> (\<forall>m \<in> set ms. ms_id m \<notin> ms_id ` set (get_unread later None k (snd (board_read env p d))))
    \<and> map (\<lambda>m. m\<lparr>ms_read_by := []\<rparr>) (mb_rows (snd (board_read env p d))) = map (\<lambda>m. m\<lparr>ms_read_by := []\<rparr>) (mb_rows d)"
proof -
  let ?a = "mg_name (bd_messages env)" and ?d = "snd (board_read env p d)"
  have name: "or_name later None = ?a" "or_name (bd_messages env) (Some ?a) = ?a"
    using assms(3,4) by (auto simp: or_name_def plain_name_def)
  have rows: "mb_rows ?d = map (\<lambda>m. if ms_id m \<in> set (map ms_id ms) then add_reader ?a m else m) (mb_rows d)"
    using assms(1,2) name(2) by (cases ms) (auto simp: board_read_def Let_def mark_many_rows)
  have fresh: "ms_id m \<notin> ms_id ` set ms" if "m \<in> set (get_unread later None k ?d)" for m
  proof
    assume i: "ms_id m \<in> ms_id ` set ms"
    have "m \<in> set (filter (\<lambda>m. addressed ?a m \<and> live (mg_now later) m \<and> \<not> read_mark ?a m) (mb_rows ?d))"
      using that latest_subset unfolding get_unread_def name(1) Let_def by blast
    then have m: "m \<in> set (mb_rows ?d)" "\<not> read_mark ?a m" by auto
    then obtain x where "x \<in> set (mb_rows d)" "m = (if ms_id x \<in> set (map ms_id ms) then add_reader ?a x else x)" unfolding rows by auto
    then have "?a \<in> set (ms_read_by m)" using i by (auto simp: add_reader_def split: if_splits)
    then show False using read_mark_reader [OF assms(3)] m(2) by blast
  qed
  have gone: "\<forall>m \<in> set ms. ms_id m \<notin> ms_id ` set (get_unread later None k ?d)"
    using fresh by (metis image_iff)
  have same: "map (\<lambda>m. m\<lparr>ms_read_by := []\<rparr>) (mb_rows ?d) = map (\<lambda>m. m\<lparr>ms_read_by := []\<rparr>) (mb_rows d)"
    unfolding rows by (simp add: add_reader_def)
  obtain r where "fst (board_read env p d) = Inr r" "tr_success r"
    using assms(1,2) by (cases ms) (simp_all add: board_read_def Let_def success_def)
  then show ?thesis using gone same by (intro exI [of _ r] conjI)
qed

text \<open>An action that is not carried out - none given, no board, an unknown one - changes nothing, and reading, searching and
  statistics add no message.\<close>

theorem only_posts_and_replies_add:
  assumes "dict_get p ''action'' = Some (JStr a)" and "py_lower (py_strip a) \<notin> {''post'', ''reply''}"
  shows "map ms_id (mb_rows (snd (board_execute env p d))) = map ms_id (mb_rows d)"
proof -
  have r: "map ms_id (mb_rows (snd (board_read env p d))) = map ms_id (mb_rows d)"
    by (auto simp: board_read_def Let_def mark_many_rows add_reader_def split: sum.splits list.splits)
  have s: "snd (board_search env p d) = d" "snd (board_thread p d) = d" "snd (board_stats d) = d"
    by (auto simp: board_search_def board_thread_def board_stats_def Let_def split: sum.splits list.splits)
  show ?thesis using assms r s by (auto simp: board_execute_def text_arg_def dict_get_or_def Let_def split: option.splits)
qed

section \<open>Examples\<close>

definition sample_board :: board_env where
  "sample_board = \<lparr>bd_messages = (sample_menv ''m9'')\<lparr>mg_name := ''qa''\<rparr>, bd_configured = True, bd_open = None, bd_enabled = False,
     bd_add = (\<lambda>i c. Inl IndexError), bd_dumps = (\<lambda>m. ''{}''), bd_int = (\<lambda>j. Inr 20), bd_fmt3 = (\<lambda>r. ''0.500'')\<rparr>"

theorem read_messages_are_not_unread_witness:
  "\<exists>r ms. fst (board_read sample_board [(''unread_only'', JBool True)] sample_messages) = Inr r \<and> tr_success r
    \<and> ms = get_unread (bd_messages sample_board) (Some ''qa'') 20 sample_messages
    \<and> (\<forall>m \<in> set ms. ms_id m \<notin> ms_id ` set (get_unread (bd_messages sample_board) None 5
          (snd (board_read sample_board [(''unread_only'', JBool True)] sample_messages))))"
proof -
  have "plain_name ''qa''" by code_simp
  then show ?thesis
    using read_messages_are_not_unread [of sample_board "[(''unread_only'', JBool True)]" 20 sample_messages
        "get_unread (bd_messages sample_board) (Some ''qa'') 20 sample_messages" "bd_messages sample_board" 5]
    by (auto simp: sample_board_def found_messages_def dict_get_or_def dict_get_def)
qed

theorem only_posts_and_replies_add_witness:
  "map ms_id (mb_rows (snd (board_execute sample_board [(''action'', JStr ''Stats '')] sample_messages))) = map ms_id (mb_rows sample_messages)"
proof -
  have "py_lower (py_strip ''Stats '') \<notin> {''post'', ''reply''}" by code_simp
  then show ?thesis by (intro only_posts_and_replies_add [of _ "''Stats ''"]) (simp add: dict_get_def)
qed

end
