(* ===== verification/Database_Tool.thy ===== *)
theory Database_Tool
  imports Tool_Registry
begin

text \<open>
  \<^verbatim>\<open>agents/tools/database.py\<close>: the tool that inspects databases and runs SQL, over SQLite and over \<^verbatim>\<open>psql\<close>. SQLite is a
  parameter: a statement on the session of a file answers with columns, rows and a count, or raises, and changes the data;
  closing the session without a commit is \<open>de_close\<close> (after an exception the session is closed when it is collected). \<^verbatim>\<open>psql\<close>
  is a function of the runs so far. Arguments have the types of the schema.
\<close>

definition MAX_ROWS :: int where
  "MAX_ROWS = 500"

definition QUERY_TIMEOUT :: int where
  "QUERY_TIMEOUT = 30"

definition WRITE_PREFIXES :: "string list" where
  "WRITE_PREFIXES = [''INSERT'', ''UPDATE'', ''DELETE'', ''DROP'', ''ALTER'', ''CREATE'', ''TRUNCATE'', ''GRANT'', ''REVOKE'', ''VACUUM'', ''REINDEX'']"

text \<open>A value of SQLite; \<open>SqOther\<close> holds the text of a float or bytes. \<open>qa_columns\<close> is \<open>None\<close> for a statement without rows.\<close>

datatype sq_value = SqNull | SqInt int | SqText string | SqOther string

record sq_answer =
  qa_columns :: "string list option"
  qa_rows :: "sq_value list list"
  qa_count :: int

datatype psql_reply =
    PsqlExit int string string \<comment> \<open>return code, standard output, standard error\<close>
  | PsqlMissing
  | PsqlTimeout
  | PsqlRaises py_exn

record 'd database_env =
  de_url :: string
  de_exists :: "string \<Rightarrow> bool"
  de_connect :: "string \<Rightarrow> py_exn option"
  de_exec :: "string \<Rightarrow> string \<Rightarrow> 'd \<Rightarrow> (py_exn + sq_answer) \<times> 'd"
  de_close :: "string \<Rightarrow> 'd \<Rightarrow> 'd"
  de_psql :: "(string \<times> string) list \<Rightarrow> psql_reply"

text \<open>The data, and the connection and statement of every run of \<^verbatim>\<open>psql\<close>.\<close>

record 'd database_world =
  dw_data :: 'd
  dw_psql :: "(string \<times> string) list"

section \<open>Texts\<close>

text \<open>\<open>s.replace(old, new)\<close> for a text that is not empty.\<close>

function replace_text :: "string \<Rightarrow> string \<Rightarrow> string \<Rightarrow> string" where
  "replace_text old new [] = []"
| "replace_text old new (c # cs) =
     (if old \<noteq> [] \<and> prefix old (c # cs) then new @ replace_text old new (drop (length old) (c # cs))
      else c # replace_text old new cs)"
  by pat_completeness auto
termination
  by (relation "measure (\<lambda>(old, new, s). length s)") (auto simp: Suc_le_eq)

definition sql_upper :: "string \<Rightarrow> string" where
  "sql_upper s = map upper_char (py_strip s)"

definition table_row :: "string list \<Rightarrow> string" where
  "table_row cells = ''| '' @ join_with '' | '' cells @ '' |''"

definition rule_row :: "'a list \<Rightarrow> string" where
  "rule_row columns = table_row (map (\<lambda>_. ''---'') columns)"

fun sq_text :: "sq_value \<Rightarrow> string" where
  "sq_text SqNull = ''NULL''"
| "sq_text (SqInt n) = str_int n"
| "sq_text (SqText s) = s"
| "sq_text (SqOther s) = s"

fun sq_truthy :: "sq_value \<Rightarrow> bool" where
  "sq_truthy SqNull = False"
| "sq_truthy (SqInt n) = (n \<noteq> 0)"
| "sq_truthy (SqText s) = (s \<noteq> [])"
| "sq_truthy (SqOther s) = True"

definition format_rows :: "string list \<Rightarrow> sq_value list list \<Rightarrow> int \<Rightarrow> tool_result" where
  "format_rows columns rows limit =
     (let truncated = int (length rows) \<ge> limit in
      success
        (join_with nl (table_row columns # rule_row columns # map (\<lambda>r. table_row (map sq_text r)) rows)
         @ (if truncated then nl @ nl @ ''*Results limited to '' @ str_int limit @ '' rows.*'' else []))
        [(''row_count'', JInt (int (length rows))), (''columns'', JArr (map JStr columns)), (''truncated'', JBool truncated)])"

section \<open>CSV\<close>

text \<open>\<open>csv.reader\<close> with its defaults, on a text whose lines end in a line feed: the field and the row being read are
  reversed.\<close>

datatype csv_mode = RecordStart | FieldStart | InField | InQuotes | QuoteInQuotes

fun csv_rows :: "csv_mode \<Rightarrow> string \<Rightarrow> string list \<Rightarrow> string \<Rightarrow> string list list" where
  "csv_rows RecordStart f r [] = []"
| "csv_rows m f r [] = [rev (rev f # r)]"
| "csv_rows InQuotes f r (c # cs) =
     (if c = CHR 0x22 then csv_rows QuoteInQuotes f r cs else csv_rows InQuotes (c # f) r cs)"
| "csv_rows QuoteInQuotes f r (c # cs) =
     (if c = CHR 0x22 then csv_rows InQuotes (c # f) r cs
      else if c = CHR '','' then csv_rows FieldStart [] (rev f # r) cs
      else if c = CHR 0x0A then rev (rev f # r) # csv_rows RecordStart [] [] cs
      else csv_rows InField (c # f) r cs)"
| "csv_rows InField f r (c # cs) =
     (if c = CHR '','' then csv_rows FieldStart [] (rev f # r) cs
      else if c = CHR 0x0A then rev (rev f # r) # csv_rows RecordStart [] [] cs
      else csv_rows InField (c # f) r cs)"
| "csv_rows m f r (c # cs) =
     (if c = CHR 0x22 then csv_rows InQuotes [] r cs
      else if c = CHR '','' then csv_rows FieldStart [] ([] # r) cs
      else if c = CHR 0x0A then (if m = RecordStart then [] else rev ([] # r)) # csv_rows RecordStart [] [] cs
      else csv_rows InField [c] r cs)"

definition pad_row :: "nat \<Rightarrow> string list \<Rightarrow> string list" where
  "pad_row n row = take n (row @ replicate (n - length row) [])"

definition csv_to_markdown :: "string \<Rightarrow> tool_result" where
  "csv_to_markdown s =
     (case csv_rows RecordStart [] [] s of
        [] \<Rightarrow> success ''No results.'' []
      | headers # data \<Rightarrow>
          success (join_with nl (table_row headers # rule_row headers # map (\<lambda>r. table_row (pad_row (length headers) r)) data))
            [(''row_count'', JInt (int (length data))), (''columns'', JArr (map JStr headers))])"

section \<open>Guards shared by both databases\<close>

definition blocked_prefix :: "bool \<Rightarrow> string \<Rightarrow> string option" where
  "blocked_prefix allow_writes sql = (if allow_writes then None else find (\<lambda>p. prefix p (sql_upper sql)) WRITE_PREFIXES)"

definition blocked_text :: "string \<Rightarrow> string" where
  "blocked_text p =
     ''Write operation '' @ [CHR 0x27] @ p @ [CHR 0x27] @ '' blocked. Set allow_writes=true to enable.''"

definition with_limit :: "string \<Rightarrow> string \<Rightarrow> int \<Rightarrow> string" where
  "with_limit sql query limit =
     (if prefix ''SELECT'' (sql_upper sql) \<and> \<not> str_contains ''LIMIT'' (sql_upper sql) then query @ '' LIMIT '' @ str_int limit else query)"

section \<open>PostgreSQL\<close>

definition pg_run :: "'d database_env \<Rightarrow> string \<Rightarrow> string \<Rightarrow> 'd database_world \<Rightarrow> tool_result \<times> 'd database_world" where
  "pg_run env conn sql w =
     (let runs = dw_psql w @ [(conn, sql)] in
      (case de_psql env runs of
         PsqlExit code out err \<Rightarrow>
           if code \<noteq> 0 then failure (''psql error: '' @ py_strip err)
           else if py_strip out = [] then success ''Query returned no results.'' []
           else csv_to_markdown (py_strip out)
       | PsqlMissing \<Rightarrow> failure ''psql not found. Install postgresql-client.''
       | PsqlTimeout \<Rightarrow> failure (''Query timed out after '' @ str_int QUERY_TIMEOUT @ ''s'')
       | PsqlRaises e \<Rightarrow> failure (''PostgreSQL error: '' @ exn_text e),
       w\<lparr>dw_psql := runs\<rparr>))"

definition pg_escape :: "string \<Rightarrow> string" where
  "pg_escape v = replace_text '';'' [] (replace_text [CHR 0x5C] [CHR 0x5C, CHR 0x5C] (replace_text [CHR 0x27] [CHR 0x27, CHR 0x27] v))"

definition pg_query :: "'d database_env \<Rightarrow> string \<Rightarrow> string \<Rightarrow> int \<Rightarrow> bool \<Rightarrow> 'd database_world \<Rightarrow> tool_result \<times> 'd database_world" where
  "pg_query env conn sql limit allow_writes w =
     (if py_strip sql = [] then (failure ''No SQL query provided'', w)
      else case blocked_prefix allow_writes sql of
        Some p \<Rightarrow> (failure (blocked_text p), w)
      | None \<Rightarrow> pg_run env conn (with_limit sql (rev (dropWhile (\<lambda>c. c = CHR '';'') (rev (py_strip sql)))) limit) w)"

definition handle_postgres ::
    "'d database_env \<Rightarrow> string \<Rightarrow> string \<Rightarrow> string \<Rightarrow> string \<Rightarrow> int \<Rightarrow> bool \<Rightarrow> 'd database_world \<Rightarrow> tool_result \<times> 'd database_world" where
  "handle_postgres env action conn sql table limit allow_writes w =
     (if action = ''tables'' then
        pg_run env conn (''SELECT tablename FROM pg_tables WHERE schemaname = '' @ [CHR 0x27] @ ''public'' @ [CHR 0x27] @ '' ORDER BY tablename'') w
      else if action = ''schema'' then
        (if table \<noteq> [] then
           pg_run env conn (''SELECT column_name, data_type, is_nullable, column_default ''
             @ ''FROM information_schema.columns WHERE table_name = '' @ [CHR 0x27] @ pg_escape table @ [CHR 0x27]
             @ '' AND table_schema = '' @ [CHR 0x27] @ ''public'' @ [CHR 0x27] @ '' ORDER BY ordinal_position'') w
         else
           pg_run env conn (''SELECT table_name, column_name, data_type, is_nullable FROM information_schema.columns ''
             @ ''WHERE table_schema = '' @ [CHR 0x27] @ ''public'' @ [CHR 0x27] @ '' ORDER BY table_name, ordinal_position'') w)
      else if action = ''query'' then pg_query env conn sql limit allow_writes w
      else if action = ''explain'' then
        (if py_strip sql = [] then (failure ''No SQL query provided'', w) else pg_run env conn (''EXPLAIN ANALYZE '' @ sql) w)
      else (failure (''Unknown action: '' @ action), w))"

section \<open>SQLite\<close>

type_synonym 'd sq_step = "'d \<Rightarrow> (py_exn + tool_result) \<times> 'd"

definition sq_query :: "'d database_env \<Rightarrow> string \<Rightarrow> string \<Rightarrow> int \<Rightarrow> bool \<Rightarrow> 'd sq_step" where
  "sq_query env path sql limit allow_writes d =
     (if py_strip sql = [] then (Inr (failure ''No SQL query provided''), d)
      else case blocked_prefix allow_writes sql of
        Some p \<Rightarrow> (Inr (failure (blocked_text p)), d)
      | None \<Rightarrow>
          (case de_exec env path (with_limit sql (py_strip sql) limit) d of
             (Inl e, d') \<Rightarrow> (Inr (failure (''Query error: '' @ exn_text e)), d')
           | (Inr a, d') \<Rightarrow>
               (Inr (case qa_columns a of
                  None \<Rightarrow> success (''Statement executed. Rows affected: '' @ str_int (qa_count a)) [(''rowcount'', JInt (qa_count a))]
                | Some columns \<Rightarrow> format_rows columns (take (nat limit) (qa_rows a)) limit), d')))"

definition TABLES_SQL :: string where
  "TABLES_SQL = ''SELECT name FROM sqlite_master WHERE type='' @ [CHR 0x27] @ ''table'' @ [CHR 0x27] @ '' ORDER BY name''"

text \<open>\<open>row[0]\<close> of every row.\<close>

definition first_cells :: "sq_answer \<Rightarrow> string list" where
  "first_cells a = map (\<lambda>r. sq_text (hd r)) (qa_rows a)"

definition sq_tables :: "'d database_env \<Rightarrow> string \<Rightarrow> 'd sq_step" where
  "sq_tables env path d =
     (case de_exec env path TABLES_SQL d of
        (Inl e, d') \<Rightarrow> (Inl e, d')
      | (Inr a, d') \<Rightarrow>
          (Inr (success (if first_cells a \<noteq> [] then join_with nl (first_cells a) else ''No tables found.'')
             [(''count'', JInt (int (length (first_cells a))))]), d'))"

definition info_sql :: "string \<Rightarrow> string" where
  "info_sql table = ''PRAGMA table_info('' @ table @ '')''"

definition column_line :: "sq_value list \<Rightarrow> string" where
  "column_line c =
     table_row [sq_text (c ! 0), sq_text (c ! 1), sq_text (c ! 2), if sq_truthy (c ! 3) then ''NO'' else ''YES'',
       if sq_truthy (c ! 4) then sq_text (c ! 4) else [], if sq_truthy (c ! 5) then ''YES'' else []]"

definition sq_table_schema :: "'d database_env \<Rightarrow> string \<Rightarrow> string \<Rightarrow> 'd sq_step" where
  "sq_table_schema env path table d =
     (case de_exec env path (info_sql table) d of
        (Inl e, d') \<Rightarrow> (Inl e, d')
      | (Inr a, d') \<Rightarrow>
          (Inr (if qa_rows a = [] then failure (''Table not found: '' @ table)
                else success
                  (join_with nl ((''## '' @ table @ nl) # ''| # | Column | Type | Nullable | Default | PK |''
                     # ''|---|--------|------|----------|---------|-----|'' # map column_line (qa_rows a)))
                  [(''table'', JStr table)]), d'))"

fun sq_table_lines :: "'d database_env \<Rightarrow> string \<Rightarrow> string list \<Rightarrow> 'd \<Rightarrow> (py_exn + string list) \<times> 'd" where
  "sq_table_lines env path [] d = (Inr [], d)"
| "sq_table_lines env path (t # ts) d =
     (case de_exec env path (info_sql t) d of
        (Inl e, d') \<Rightarrow> (Inl e, d')
      | (Inr a, d') \<Rightarrow>
          (case sq_table_lines env path ts d' of
             (Inl e, d'') \<Rightarrow> (Inl e, d'')
           | (Inr ls, d'') \<Rightarrow>
               (Inr ((''**'' @ t @ ''** ('' @ str_nat (length (qa_rows a)) @ '' cols): ''
                 @ join_with '', '' (map (\<lambda>c. sq_text (c ! 1) @ '' '' @ sq_text (c ! 2)) (qa_rows a))) # ls), d'')))"

definition sq_schema :: "'d database_env \<Rightarrow> string \<Rightarrow> string \<Rightarrow> 'd sq_step" where
  "sq_schema env path table d =
     (if table \<noteq> [] then sq_table_schema env path table d
      else
        (case de_exec env path TABLES_SQL d of
           (Inl e, d') \<Rightarrow> (Inl e, d')
         | (Inr a, d') \<Rightarrow>
             (case sq_table_lines env path (first_cells a) d' of
                (Inl e, d'') \<Rightarrow> (Inl e, d'')
              | (Inr ls, d'') \<Rightarrow>
                  (Inr (success (if ls \<noteq> [] then join_with (nl @ nl) ls else ''No tables found.'')
                     [(''table_count'', JInt (int (length (first_cells a))))]), d''))))"

definition handle_sqlite ::
    "'d database_env \<Rightarrow> string \<Rightarrow> string \<Rightarrow> string \<Rightarrow> string \<Rightarrow> int \<Rightarrow> bool \<Rightarrow> 'd database_world \<Rightarrow> tool_result \<times> 'd database_world" where
  "handle_sqlite env action conn sql table limit allow_writes w =
     (let path = replace_text ''//'' [] (replace_text ''sqlite:'' [] conn) in
      if \<not> de_exists env path then (failure (''SQLite file not found: '' @ path), w)
      else case de_connect env path of
        Some e \<Rightarrow> (failure (''SQLite error: '' @ exn_text e), w)
      | None \<Rightarrow>
          (let (r, d) = (if action = ''tables'' then sq_tables env path (dw_data w)
                 else if action = ''schema'' then sq_schema env path table (dw_data w)
                 else if action = ''query'' then sq_query env path sql limit allow_writes (dw_data w)
                 else if action = ''explain'' then sq_query env path (''EXPLAIN QUERY PLAN '' @ sql) limit False (dw_data w)
                 else (Inr (failure (''Unknown action: '' @ action)), dw_data w))
           in (case r of Inl e \<Rightarrow> failure (''SQLite error: '' @ exn_text e) | Inr t \<Rightarrow> t, w\<lparr>dw_data := de_close env path d\<rparr>)))"

section \<open>The tool\<close>

definition DATABASE_ACTIONS :: "string list" where
  "DATABASE_ACTIONS = [''tables'', ''schema'', ''query'', ''explain'']"

definition database_execute ::
    "'d database_env \<Rightarrow> string \<Rightarrow> string \<Rightarrow> string \<Rightarrow> string \<Rightarrow> int \<Rightarrow> bool \<Rightarrow> 'd database_world \<Rightarrow> tool_result \<times> 'd database_world" where
  "database_execute env action connection sql table limit allow_writes w =
     (if action \<notin> set DATABASE_ACTIONS then (failure ''Invalid action. Must be one of: tables, schema, query, explain'', w)
      else
        (let conn = (if connection \<noteq> [] then connection else de_url env) in
         if conn = [] then (failure ''No connection string provided and DATABASE_URL not set.'', w)
         else
           (let n = min (max limit 1) MAX_ROWS in
            if suffix ''.db'' conn \<or> suffix ''.sqlite'' conn \<or> prefix ''sqlite:'' conn
            then handle_sqlite env action conn sql table n allow_writes w
            else if prefix ''postgres://'' conn \<or> prefix ''postgresql://'' conn
            then handle_postgres env action conn sql table n allow_writes w
            else (failure ''Unsupported connection string format. Use postgres://... or /path/to.db'', w))))"

section \<open>Lemmas\<close>

lemma replace_char_text: "replace_text [x] new s = concat (map (\<lambda>c. if c = x then new else [c]) s)"
  by (induction s) auto

text \<open>Single quotes stand in pairs.\<close>

fun quotes_paired :: "string \<Rightarrow> bool" where
  "quotes_paired [] = True"
| "quotes_paired [c] = (c \<noteq> CHR 0x27)"
| "quotes_paired (c # d # cs) = (if c = CHR 0x27 then d = CHR 0x27 \<and> quotes_paired cs else quotes_paired (d # cs))"

lemma paired_append: "quotes_paired a \<Longrightarrow> quotes_paired b \<Longrightarrow> quotes_paired (a @ b)"
proof (induction a rule: quotes_paired.induct)
  case (2 c)
  then show ?case by (cases b) auto
next
  case (3 c d cs)
  then show ?case by (cases "c = CHR 0x27") auto
qed simp

lemma paired_concat: "\<forall>x \<in> set xs. quotes_paired x \<Longrightarrow> quotes_paired (concat xs)"
  by (induction xs) (simp_all add: paired_append)

lemma pg_escape_char:
  "pg_escape v = concat (map (\<lambda>c. if c = CHR 0x27 then [CHR 0x27, CHR 0x27] else if c = CHR 0x5C then [CHR 0x5C, CHR 0x5C]
     else if c = CHR '';'' then [] else [c]) v)"
  unfolding pg_escape_def replace_char_text by (induction v) auto

text \<open>Rows as a CSV writer that quotes every field prints them.\<close>

definition csv_field :: "string \<Rightarrow> string" where
  "csv_field s = [CHR 0x22] @ replace_text [CHR 0x22] [CHR 0x22, CHR 0x22] s @ [CHR 0x22]"

definition csv_line :: "string list \<Rightarrow> string" where
  "csv_line row = join_with '','' (map csv_field row) @ [CHR 0x0A]"

lemma csv_in_quotes:
  "csv_rows InQuotes f r (replace_text [CHR 0x22] [CHR 0x22, CHR 0x22] s @ CHR 0x22 # rest) = csv_rows QuoteInQuotes (rev s @ f) r rest"
  unfolding replace_char_text by (induction s arbitrary: f) simp_all

lemma csv_fields:
  "m = RecordStart \<or> m = FieldStart \<Longrightarrow>
   csv_rows m f r (join_with '','' (map csv_field (x # xs)) @ CHR 0x0A # rest) = (rev r @ x # xs) # csv_rows RecordStart [] [] rest"
proof (induction xs arbitrary: m f r x)
  case Nil
  then show ?case by (auto simp: csv_field_def csv_in_quotes)
next
  case (Cons y ys)
  have "csv_rows m f r (join_with '','' (map csv_field (x # y # ys)) @ CHR 0x0A # rest)
      = csv_rows FieldStart [] (x # r) (join_with '','' (map csv_field (y # ys)) @ CHR 0x0A # rest)"
    using Cons.prems by (auto simp: csv_field_def csv_in_quotes)
  also have "\<dots> = (rev (x # r) @ y # ys) # csv_rows RecordStart [] [] rest" by (rule Cons.IH) simp
  finally show ?case by simp
qed

section \<open>Properties\<close>

text \<open>What a CSV writer prints is read back: every row with every field, whatever commas, quotes and line feeds the fields hold.\<close>

theorem csv_roundtrip:
  assumes "\<forall>row \<in> set rows. row \<noteq> []"
  shows "csv_rows RecordStart [] [] (concat (map csv_line rows)) = rows"
  using assms
proof (induction rows)
  case (Cons row rows)
  then obtain x xs where row: "row = x # xs" by (cases row) auto
  have "concat (map csv_line (row # rows)) = join_with '','' (map csv_field (x # xs)) @ CHR 0x0A # concat (map csv_line rows)"
    by (simp add: csv_line_def row)
  then show ?case using csv_fields [of RecordStart "[]" "[]" x xs "concat (map csv_line rows)"] Cons row by simp
qed simp

theorem csv_roundtrip_witness:
  "csv_rows RecordStart [] [] (concat (map csv_line [[''id'', ''a,b''], [[], [CHR 0x22, CHR 0x0A]]])) = [[''id'', ''a,b''], [[], [CHR 0x22, CHR 0x0A]]]"
  by (rule csv_roundtrip) simp

text \<open>A table name cannot leave the literal it is put into: the statement that lists its columns holds single quotes only in pairs
  between the two that enclose it.\<close>

theorem table_name_stays_quoted: "quotes_paired (pg_escape table)"
  unfolding pg_escape_char by (rule paired_concat) auto

text \<open>The plan of a statement is asked with \<open>EXPLAIN ANALYZE\<close>, which carries the statement out: any statement at all is run, also
  without leave to write.\<close>

theorem explain_runs_any_statement:
  assumes "prefix ''postgres://'' conn" and "\<not> suffix ''.db'' conn" and "\<not> suffix ''.sqlite'' conn" and "py_strip sql \<noteq> []"
  shows "dw_psql (snd (database_execute env ''explain'' conn sql table limit False w)) = dw_psql w @ [(conn, ''EXPLAIN ANALYZE '' @ sql)]"
proof -
  have "conn \<noteq> []" "\<not> prefix ''sqlite:'' conn" using assms(1) by (auto simp: prefix_def)
  then show ?thesis using assms by (simp add: database_execute_def DATABASE_ACTIONS_def handle_postgres_def pg_run_def Let_def)
qed

text \<open>A database of one table, in SQLite and behind \<^verbatim>\<open>psql\<close>; the data counts the statements.\<close>

definition sample_database :: "nat database_env" where
  "sample_database = \<lparr>de_url = [], de_exists = (\<lambda>p. p = ''a.db''), de_connect = (\<lambda>_. None),
     de_exec = (\<lambda>_ _ n. (Inr \<lparr>qa_columns = Some [''id''], qa_rows = [[SqInt 1], [SqNull]], qa_count = -1\<rparr>, n + 1)), de_close = (\<lambda>_ n. n),
     de_psql = (\<lambda>_. PsqlExit 0 ''id'' [])\<rparr>"

theorem explain_runs_any_statement_witness:
  "dw_psql (snd (database_execute sample_database ''explain'' ''postgres://db'' ''DELETE FROM t'' [] 1 False \<lparr>dw_data = 0, dw_psql = []\<rparr>))
     = [(''postgres://db'', ''EXPLAIN ANALYZE DELETE FROM t'')]"
proof -
  have "py_strip ''DELETE FROM t'' \<noteq> []" "prefix ''postgres://'' ''postgres://db''" "\<not> suffix ''.db'' ''postgres://db''" "\<not> suffix ''.sqlite'' ''postgres://db''"
    by code_simp+
  then show ?thesis
    using explain_runs_any_statement [of "''postgres://db''" "''DELETE FROM t''" sample_database "[]" 1 "\<lparr>dw_data = 0, dw_psql = []\<rparr>"] by simp
qed

lemma sq_query_cases:
  assumes "sq_query env path sql l allow_writes d = (x, d')"
  obtains (fails) e where "x = Inr (failure e)"
  | (runs) t k where "x = Inr (success t [(''rowcount'', JInt k)])"
  | (rows) cs rs where "x = Inr (format_rows cs (take (nat l) rs) l)"
proof (cases "py_strip sql = [] \<or> blocked_prefix allow_writes sql \<noteq> None")
  case True
  then show ?thesis using assms fails by (auto simp: sq_query_def split: if_splits)
next
  case False
  obtain y d1 where y: "de_exec env path (with_limit sql (py_strip sql) l) d = (y, d1)" by fastforce
  show ?thesis
  proof (cases y)
    case (Inl e)
    then show ?thesis using assms False y fails by (auto simp: sq_query_def)
  next
    case (Inr a)
    then show ?thesis using assms False y runs rows by (cases "qa_columns a") (auto simp: sq_query_def)
  qed
qed

text \<open>A query of SQLite shows at most the rows asked for, and at most 500.\<close>

theorem shown_rows_are_bounded:
  assumes "database_execute env ''query'' conn sql table limit allow_writes w = (r, w')" and "suffix ''.db'' conn"
    and "dict_get (tr_metadata r) ''row_count'' = Some (JInt n)"
  shows "n \<le> max limit 1 \<and> n \<le> 500"
proof -
  let ?l = "min (max limit 1) MAX_ROWS"
  have c: "conn \<noteq> []" using assms(2) by auto
  have shown: "dict_get (tr_metadata (format_rows cs (take (nat ?l) rs) ?l)) ''row_count'' = Some (JInt k) \<Longrightarrow> k \<le> ?l" for cs rs k
    by (auto simp: format_rows_def success_def dict_get_def Let_def MAX_ROWS_def)
  let ?p = "replace_text ''//'' [] (replace_text ''sqlite:'' [] conn)"
  have run: "handle_sqlite env ''query'' conn sql table ?l allow_writes w = (r, w')"
    using assms(1,2) c by (simp add: database_execute_def DATABASE_ACTIONS_def Let_def)
  have fail: "\<not> dict_get (tr_metadata (failure e)) ''row_count'' = Some (JInt n)" for e by (simp add: failure_def dict_get_def)
  have "n \<le> ?l"
  proof (cases "de_exists env ?p \<and> de_connect env ?p = None")
    case False
    then show ?thesis using run assms(3) fail by (auto simp: handle_sqlite_def Let_def split: if_splits option.splits)
  next
    case True
    obtain x d where q: "sq_query env ?p sql ?l allow_writes (dw_data w) = (x, d)" by fastforce
    then have r: "r = (case x of Inl e \<Rightarrow> failure (''SQLite error: '' @ exn_text e) | Inr t \<Rightarrow> t)"
      using run True by (simp add: handle_sqlite_def Let_def)
    from q show ?thesis
    proof (cases rule: sq_query_cases)
      case fails
      then show ?thesis using r assms(3) fail by simp
    next
      case runs
      then show ?thesis using r assms(3) by (simp add: success_def dict_get_def)
    next
      case (rows cs rs)
      then have "dict_get (tr_metadata (format_rows cs (take (nat ?l) rs) ?l)) ''row_count'' = Some (JInt n)" using r assms(3) by simp
      then show ?thesis by (rule shown)
    qed
  qed
  then show ?thesis by (simp add: MAX_ROWS_def)
qed

theorem shown_rows_are_bounded_witness:
  "\<exists>r w' n. database_execute sample_database ''query'' ''a.db'' ''SELECT id FROM t'' [] 0 False \<lparr>dw_data = 0, dw_psql = []\<rparr> = (r, w')
     \<and> dict_get (tr_metadata r) ''row_count'' = Some (JInt n) \<and> n \<le> max 0 1 \<and> n \<le> 500"
proof -
  let ?r = "format_rows [''id''] [[SqInt 1]] 1"
  have run: "database_execute sample_database ''query'' ''a.db'' ''SELECT id FROM t'' [] 0 False \<lparr>dw_data = 0, dw_psql = []\<rparr> = (?r, \<lparr>dw_data = 1, dw_psql = []\<rparr>)"
    by code_simp
  have n: "dict_get (tr_metadata ?r) ''row_count'' = Some (JInt 1)" by code_simp
  have "suffix ''.db'' ''a.db''" by code_simp
  from shown_rows_are_bounded [OF run this n] run n show ?thesis by blast
qed

end
