(* ===== verification/Model_Backends.thy ===== *)
theory Model_Backends
  imports Messenger Backend_Pool Py_Json
begin

text \<open>
  \<^verbatim>\<open>vibe/backends\<close> (\<^verbatim>\<open>base.py\<close>, \<^verbatim>\<open>openai_backend.py\<close>, \<^verbatim>\<open>anthropic_backend.py\<close>, \<^verbatim>\<open>vllm.py\<close>) and
  \<^verbatim>\<open>agents/llm_backend.py\<close>: the calls of model servers, with their retries, the reading of the answers, the truncation of a
  conversation to the context window, and the wrapper the agents use.

  The network is that of \<^verbatim>\<open>Paperclip_Client\<close>: \<open>Unreachable\<close> is a connection error of \<^verbatim>\<open>requests\<close>,
  \<open>TransportError (TimeoutError m)\<close> its \<^verbatim>\<open>Timeout\<close>. The world holds the requests sent and the pauses made. \<open>me_float\<close> is
  \<open>float\<close> of a header, \<open>None\<close> for a text that is no number; infinities and NaN are excluded by the type. \<open>me_repr\<close> is the printing
  of structured values, \<open>me_millis k\<close> the time the k-th request took, \<open>me_reason\<close> the phrase of a status. A message is a
  dictionary of texts.
\<close>

section \<open>Results and errors\<close>

record generate_result =
  gr_text :: string
  gr_tokens_used :: json
  gr_prompt_tokens :: json
  gr_completion_tokens :: json
  gr_time_ms :: real
  gr_finish_reason :: json

record server_env =
  me_net :: network
  me_float :: "string \<Rightarrow> real option"
  me_repr :: "json \<Rightarrow> string"
  me_millis :: "nat \<Rightarrow> real"
  me_reason :: "int \<Rightarrow> string"

type_synonym 'a model_call = "net_world \<Rightarrow> (py_exn + 'a) \<times> net_world"

type_synonym chat_message = "(string \<times> string) list"

definition billing_exhausted :: "string \<Rightarrow> int \<Rightarrow> string \<Rightarrow> py_exn" where
  "billing_exhausted provider status detail =
     OtherError ''BillingExhaustedError'' (provider @ '' billing exhausted (HTTP '' @ str_int status @ ''): '' @ detail)"

definition estimate_tokens :: "string \<Rightarrow> int" where
  "estimate_tokens s = int (length s) div 4"

definition message_json :: "chat_message \<Rightarrow> json" where
  "message_json m = JObj (map (\<lambda>(k, v). (k, JStr v)) m)"

definition messages_json :: "chat_message list \<Rightarrow> json" where
  "messages_json ms = JArr (map message_json ms)"

text \<open>\<open>requests.exceptions.RequestException\<close> without \<open>Timeout\<close>.\<close>

definition requests_error :: "py_exn \<Rightarrow> bool" where
  "requests_error e = (is_request_exception e \<or> (case e of ConnectionError _ \<Rightarrow> True | _ \<Rightarrow> False))"

text \<open>The message of the \<open>HTTPError\<close> of \<open>raise_for_status\<close>.\<close>

definition http_error_text :: "server_env \<Rightarrow> http_response \<Rightarrow> string \<Rightarrow> string" where
  "http_error_text env p url =
     str_int (rp_status p) @ (if rp_status p < 500 then '' Client Error: '' else '' Server Error: '') @ me_reason env (rp_status p)
       @ '' for url: '' @ url"

text \<open>\<open>response.raise_for_status()\<close> and \<open>response.json()\<close>.\<close>

definition checked_json :: "server_env \<Rightarrow> http_response \<Rightarrow> string \<Rightarrow> py_exn + json" where
  "checked_json env p url =
     (if 400 \<le> rp_status p \<and> rp_status p < 600 then Inl (OtherError ''HTTPError'' (http_error_text env p url))
      else case rp_json p of None \<Rightarrow> Inl (OtherError ''JSONDecodeError'' []) | Some j \<Rightarrow> Inr j)"

text \<open>\<open>v[0]\<close> of a value that is true, and \<open>v.strip()\<close>.\<close>

fun json_first :: "json \<Rightarrow> py_exn + json" where
  "json_first (JArr (x # xs)) = Inr x"
| "json_first (JArr []) = Inl IndexError"
| "json_first (JStr (c # cs)) = Inr (JStr [c])"
| "json_first (JStr []) = Inl IndexError"
| "json_first (JObj d) = Inl (KeyError ''0'')"
| "json_first _ = Inl (OtherError ''TypeError'' ''object is not subscriptable'')"

fun json_strip :: "json \<Rightarrow> py_exn + string" where
  "json_strip (JStr s) = Inr (py_strip s)"
| "json_strip _ = Inl (OtherError ''AttributeError'' ''strip'')"

section \<open>The attempts of a call\<close>

definition MAX_RETRIES :: nat where
  "MAX_RETRIES = 3"

text \<open>How one pass of the loop ends; \<open>Again\<close> holds the pause it makes.\<close>

datatype 'a pass_end = Finished 'a | Raises py_exn | Again "real option"

text \<open>The handlers around a pass: what is raised in it is raised, wrapped or tried again.\<close>

definition guarded_pass :: "string \<Rightarrow> int \<Rightarrow> nat \<Rightarrow> py_exn + 'a pass_end \<Rightarrow> 'a pass_end" where
  "guarded_pass provider timeout attempt r =
     (case r of
        Inr x \<Rightarrow> x
      | Inl e \<Rightarrow>
          if (case e of TimeoutError _ \<Rightarrow> True | _ \<Rightarrow> False) then Raises e
          else if requests_error e then
            if attempt < MAX_RETRIES - 1 then Again None else Raises (RuntimeError (''Error calling '' @ provider @ '': '' @ exn_text e))
          else if (case e of ValueError _ \<Rightarrow> True | _ \<Rightarrow> False) then Raises (RuntimeError (''Error calling '' @ provider @ '': '' @ exn_text e))
          else Raises e)"

text \<open>\<open>time.sleep\<close> refuses a negative number.\<close>

definition handle_rate_limit :: "server_env \<Rightarrow> string \<Rightarrow> http_response \<Rightarrow> nat \<Rightarrow> py_exn + 'a pass_end" where
  "handle_rate_limit env provider p attempt =
     (let wait = (case rp_retry_after p of
            None \<Rightarrow> 2 ^ attempt
          | Some h \<Rightarrow> if h = [] then 2 ^ attempt else (case me_float env h of None \<Rightarrow> 2 ^ attempt | Some s \<Rightarrow> s))
      in if attempt \<ge> MAX_RETRIES - 1
         then Inl (TimeoutError (provider @ '' rate limit exceeded after '' @ str_nat MAX_RETRIES @ '' retries. Last ''
           @ (if provider = ''OpenAI'' then ''Retry-After: '' else ''retry-after: '')
           @ (case rp_retry_after p of None \<Rightarrow> ''None'' | Some h \<Rightarrow> h)))
         else if wait < 0 then Inl (ValueError ''sleep length must be non-negative'')
         else Inr (Again (Some wait)))"

text \<open>\<open>read\<close> is what a pass does with the response, before and after \<open>raise_for_status\<close>.\<close>

definition one_pass ::
    "server_env \<Rightarrow> string \<Rightarrow> int \<Rightarrow> (http_response \<Rightarrow> real \<Rightarrow> nat \<Rightarrow> py_exn + 'a pass_end) \<Rightarrow> http_request \<Rightarrow> nat \<Rightarrow> net_world
      \<Rightarrow> 'a pass_end \<times> net_world" where
  "one_pass env provider timeout read q attempt w =
     (let sent = nw_sent w @ [q] in
      (guarded_pass provider timeout attempt
         (case me_net env sent of
            Unreachable m \<Rightarrow> Inl (ConnectionError m)
          | TransportError (TimeoutError m) \<Rightarrow> Inl (TimeoutError (''Request timed out after '' @ str_int timeout @ '' seconds''))
          | TransportError e \<Rightarrow> Inl e
          | Response p \<Rightarrow> read p (me_millis env (length sent)) attempt),
       w\<lparr>nw_sent := sent\<rparr>))"

text \<open>\<open>n\<close> passes are left.\<close>

fun call_loop ::
    "server_env \<Rightarrow> string \<Rightarrow> string \<Rightarrow> int \<Rightarrow> (http_response \<Rightarrow> real \<Rightarrow> nat \<Rightarrow> py_exn + 'a pass_end) \<Rightarrow> http_request \<Rightarrow> nat \<Rightarrow> nat
      \<Rightarrow> 'a model_call" where
  "call_loop env provider what timeout read q 0 attempt w = (Inl (RuntimeError (what @ '' request failed after all retries'')), w)"
| "call_loop env provider what timeout read q (Suc n) attempt w =
     (case one_pass env provider timeout read q attempt w of
        (Finished x, w1) \<Rightarrow> (Inr x, w1)
      | (Raises e, w1) \<Rightarrow> (Inl e, w1)
      | (Again None, w1) \<Rightarrow> call_loop env provider what timeout read q n (Suc attempt) w1
      | (Again (Some s), w1) \<Rightarrow> call_loop env provider what timeout read q n (Suc attempt) (w1\<lparr>nw_slept := nw_slept w1 @ [s]\<rparr>))"

section \<open>OpenAI\<close>

record openai =
  oa_model :: string
  oa_key :: string
  oa_base :: string
  oa_timeout :: int

definition strip_slashes :: "string \<Rightarrow> string" where
  "strip_slashes s = rev (dropWhile (\<lambda>c. c = CHR ''/'') (rev s))"

definition or_text :: "string option \<Rightarrow> string \<Rightarrow> string" where
  "or_text v d = (case v of None \<Rightarrow> d | Some s \<Rightarrow> if s = [] then d else s)"

text \<open>\<open>key\<close> stands for \<open>api_key\<close> or the environment's.\<close>

definition openai_backend :: "string option \<Rightarrow> string option \<Rightarrow> string \<Rightarrow> string option \<Rightarrow> int \<Rightarrow> openai" where
  "openai_backend model api_key env_key base timeout =
     \<lparr>oa_model = or_text model ''gpt-4o'', oa_key = or_text api_key env_key,
      oa_base = (if or_text base [] = [] then ''https://api.openai.com/v1'' else strip_slashes (or_text base [])), oa_timeout = timeout\<rparr>"

definition openai_post :: "openai \<Rightarrow> string \<Rightarrow> json \<Rightarrow> http_request" where
  "openai_post b path body = http_post (oa_base b @ path) (bearer (oa_key b)) (Some body)"

text \<open>The tokens of an answer: a count the server gives is not inspected.\<close>

definition token_counts :: "json \<Rightarrow> string \<Rightarrow> string \<Rightarrow> int \<Rightarrow> int \<Rightarrow> py_exn + json \<times> json" where
  "token_counts usage k1 k2 d1 d2 =
     res_bind (json_get usage k1 (JInt d1)) (\<lambda>p. res_bind (json_get usage k2 (JInt d2)) (\<lambda>c. Inr (p, c)))"

text \<open>The answer of an OpenAI-compatible server; \<open>content_of\<close> reads the text of the first choice.\<close>

definition parse_choices ::
    "string \<Rightarrow> string \<Rightarrow> (json \<Rightarrow> py_exn + json) \<Rightarrow> int \<Rightarrow> real \<Rightarrow> json \<Rightarrow> py_exn + generate_result" where
  "parse_choices provider missing content_of prompt_estimate ms result =
     res_bind (json_get result ''choices'' (JArr [])) (\<lambda>choices.
       if \<not> truthy choices then Inl (ValueError (''Empty response from '' @ provider))
       else res_bind (json_first choices) (\<lambda>c. res_bind (content_of c) (\<lambda>v. res_bind (json_strip v) (\<lambda>content.
         if content = [] then Inl (ValueError (''Empty '' @ missing @ '' in response''))
         else res_bind (json_get result ''usage'' (JObj [])) (\<lambda>usage.
           res_bind (token_counts usage ''prompt_tokens'' ''completion_tokens'' prompt_estimate (estimate_tokens content)) (\<lambda>(p, n).
             res_bind (json_get c ''finish_reason'' (JStr ''stop'')) (\<lambda>fr.
               Inr \<lparr>gr_text = content, gr_tokens_used = n, gr_prompt_tokens = p, gr_completion_tokens = n, gr_time_ms = ms, gr_finish_reason = fr\<rparr>)))))))"

definition text_of_choice :: "json \<Rightarrow> py_exn + json" where
  "text_of_choice c = json_get c ''text'' (JStr [])"

definition message_of_choice :: "json \<Rightarrow> py_exn + json" where
  "message_of_choice c = res_bind (json_get c ''message'' (JObj [])) (\<lambda>m. json_get m ''content'' (JStr []))"

definition openai_read ::
    "server_env \<Rightarrow> string \<Rightarrow> (real \<Rightarrow> json \<Rightarrow> py_exn + generate_result) \<Rightarrow> http_response \<Rightarrow> real \<Rightarrow> nat \<Rightarrow> py_exn + generate_result pass_end" where
  "openai_read env url parse p ms attempt =
     (if rp_status p = 429 then handle_rate_limit env ''OpenAI'' p attempt
      else res_bind (checked_json env p url) (\<lambda>j. res_bind (parse ms j) (\<lambda>g. Inr (Finished g))))"

definition temperature_or :: "real option \<Rightarrow> json" where
  "temperature_or t = JReal (case t of None \<Rightarrow> 7 / 10 | Some x \<Rightarrow> x)"

definition stop_list :: "string \<Rightarrow> string list option \<Rightarrow> (string \<times> json) list" where
  "stop_list k stop = (case stop of None \<Rightarrow> [] | Some xs \<Rightarrow> [(k, JArr (map JStr xs))])"

definition openai_generate ::
    "server_env \<Rightarrow> openai \<Rightarrow> string \<Rightarrow> int option \<Rightarrow> real option \<Rightarrow> string list option \<Rightarrow> generate_result model_call" where
  "openai_generate env b prompt max_tokens temperature stop =
     (let q = openai_post b ''/completions''
            (JObj ([(''model'', JStr (oa_model b)), (''prompt'', JStr prompt), (''temperature'', temperature_or temperature),
                    (''max_tokens'', JInt (case max_tokens of None \<Rightarrow> 2000 | Some n \<Rightarrow> n))] @ stop_list ''stop'' stop))
      in call_loop env ''OpenAI'' ''OpenAI'' (oa_timeout b)
           (openai_read env (rq_url q) (parse_choices ''OpenAI'' ''text'' text_of_choice (estimate_tokens prompt))) q MAX_RETRIES 0)"

definition openai_generate_chat ::
    "server_env \<Rightarrow> openai \<Rightarrow> chat_message list \<Rightarrow> int option \<Rightarrow> real option \<Rightarrow> string list option \<Rightarrow> generate_result model_call" where
  "openai_generate_chat env b messages max_tokens temperature stop =
     (let q = openai_post b ''/chat/completions''
            (JObj ([(''model'', JStr (oa_model b)), (''messages'', messages_json messages), (''temperature'', temperature_or temperature)]
                   @ (case max_tokens of None \<Rightarrow> [] | Some n \<Rightarrow> [(''max_tokens'', JInt n)]) @ stop_list ''stop'' stop))
      in call_loop env ''OpenAI'' ''OpenAI chat'' (oa_timeout b)
           (openai_read env (rq_url q) (parse_choices ''OpenAI'' ''content'' message_of_choice (estimate_tokens (me_repr env (messages_json messages)))))
           q MAX_RETRIES 0)"

text \<open>A request whose every exception means that the server is not healthy.\<close>

definition answers_200 :: "server_env \<Rightarrow> http_request \<Rightarrow> bool model_call" where
  "answers_200 env q w =
     (let sent = nw_sent w @ [q] in
      (case me_net env sent of Response p \<Rightarrow> Inr (rp_status p = 200) | Unreachable m \<Rightarrow> Inl (ConnectionError m) | TransportError e \<Rightarrow> Inl e,
       w\<lparr>nw_sent := sent\<rparr>))"

definition openai_health_check :: "server_env \<Rightarrow> openai \<Rightarrow> bool model_call" where
  "openai_health_check env b =
     (if oa_key b = [] then io_ret False
      else io_or (answers_200 env (http_get (oa_base b @ ''/models'') (bearer (oa_key b)) None)) False)"

section \<open>Anthropic\<close>

record anthropic =
  an_model :: string
  an_key :: string
  an_base :: string
  an_timeout :: int

definition anthropic_backend :: "string option \<Rightarrow> string option \<Rightarrow> string \<Rightarrow> string option \<Rightarrow> int \<Rightarrow> anthropic" where
  "anthropic_backend model api_key env_key base timeout =
     \<lparr>an_model = or_text model ''claude-sonnet-4-20250514'', an_key = or_text api_key env_key,
      an_base = (if or_text base [] = [] then ''https://api.anthropic.com/v1'' else strip_slashes (or_text base [])), an_timeout = timeout\<rparr>"

definition anthropic_headers :: "anthropic \<Rightarrow> (string \<times> string) list" where
  "anthropic_headers b = [(''x-api-key'', an_key b), (''anthropic-version'', ''2023-06-01''), (''content-type'', ''application/json'')]"

text \<open>The system texts, joined, and the messages of user and assistant.\<close>

fun extract_system_and_messages :: "string option \<Rightarrow> chat_message list \<Rightarrow> string option \<times> chat_message list" where
  "extract_system_and_messages system_text [] = (system_text, [])"
| "extract_system_and_messages system_text (m # ms) =
     (let role = dict_get_or m ''role'' []; content = dict_get_or m ''content'' [] in
      if role = ''system'' then
        extract_system_and_messages (Some (case system_text of None \<Rightarrow> content | Some s \<Rightarrow> s @ nl @ nl @ content)) ms
      else if role \<in> {''user'', ''assistant''} then
        (case extract_system_and_messages system_text ms of (t, fs) \<Rightarrow> (t, [(''role'', role), (''content'', content)] # fs))
      else extract_system_and_messages system_text ms)"

fun json_line :: "json \<Rightarrow> py_exn + string" where
  "json_line (JStr s) = Inr s"
| "json_line _ = Inl (OtherError ''TypeError'' ''sequence item: expected str instance'')"

definition block_texts :: "json \<Rightarrow> py_exn + json list" where
  "block_texts block =
     res_bind (json_get block ''type'' JNull) (\<lambda>t.
       if t = JStr ''text'' then res_bind (json_get block ''text'' (JStr [])) (\<lambda>x. Inr [x]) else Inr [])"

definition anthropic_parse :: "int \<Rightarrow> real \<Rightarrow> json \<Rightarrow> py_exn + generate_result" where
  "anthropic_parse input_estimate ms result =
     res_bind (json_get result ''content'' (JArr [])) (\<lambda>blocks.
       if \<not> truthy blocks then Inl (ValueError ''Empty response from Anthropic'')
       else res_bind (json_items blocks) (\<lambda>bs. res_bind (res_map block_texts bs) (\<lambda>tss. res_bind (res_map json_line (concat tss)) (\<lambda>ts.
         let content = py_strip (join_with nl ts) in
         if content = [] then Inl (ValueError ''Empty text in response'')
         else res_bind (json_get result ''usage'' (JObj [])) (\<lambda>usage.
           res_bind (token_counts usage ''input_tokens'' ''output_tokens'' input_estimate (estimate_tokens content)) (\<lambda>(p, n).
             res_bind (json_get result ''stop_reason'' (JStr ''end_turn'')) (\<lambda>fr.
               Inr \<lparr>gr_text = content, gr_tokens_used = n, gr_prompt_tokens = p, gr_completion_tokens = n, gr_time_ms = ms, gr_finish_reason = fr\<rparr>)))))))"

text \<open>\<open>p in v.lower()\<close>.\<close>

fun json_mentions :: "string \<Rightarrow> json \<Rightarrow> py_exn + bool" where
  "json_mentions p (JStr s) = Inr (str_contains p (py_lower s))"
| "json_mentions p _ = Inl (OtherError ''AttributeError'' ''lower'')"

text \<open>The type and message of an error in the body, empty when the body is no JSON.\<close>

definition error_fields :: "http_response \<Rightarrow> py_exn + json \<times> json" where
  "error_fields p =
     (case rp_json p of
        None \<Rightarrow> Inr (JStr [], JStr [])
      | Some body \<Rightarrow>
          res_bind (json_get body ''error'' (JObj [])) (\<lambda>e. res_bind (json_get e ''type'' (JStr [])) (\<lambda>t.
            res_bind (json_get e ''message'' (JStr [])) (\<lambda>m. Inr (t, m)))))"

definition credit_exhausted :: "json \<Rightarrow> json \<Rightarrow> py_exn + bool" where
  "credit_exhausted err_type err_msg =
     (if err_type = JStr ''billing_error'' \<or> err_type = JStr ''insufficient_credits'' then Inr True
      else res_bind (json_mentions ''credit'' err_msg) (\<lambda>a. if a then Inr True
        else res_bind (json_mentions ''billing'' err_msg) (\<lambda>b. if b then Inr True else json_mentions ''quota'' err_msg)))"

definition anthropic_read :: "server_env \<Rightarrow> string \<Rightarrow> int \<Rightarrow> http_response \<Rightarrow> real \<Rightarrow> nat \<Rightarrow> py_exn + generate_result pass_end" where
  "anthropic_read env url input_estimate p ms attempt =
     (if rp_status p = 402 then Inl (billing_exhausted ''anthropic'' 402 (take 500 (rp_body p)))
      else if rp_status p = 429 then
        res_bind (error_fields p) (\<lambda>(t, m). res_bind (credit_exhausted t m) (\<lambda>gone.
          if gone then Inl (billing_exhausted ''anthropic'' 429 (json_text (me_repr env) (if truthy m then m else t)))
          else handle_rate_limit env ''Anthropic'' p attempt))
      else res_bind (checked_json env p url) (\<lambda>j. res_bind (anthropic_parse input_estimate ms j) (\<lambda>g. Inr (Finished g))))"

definition call_messages ::
    "server_env \<Rightarrow> anthropic \<Rightarrow> json \<Rightarrow> string option \<Rightarrow> int \<Rightarrow> real option \<Rightarrow> string list option \<Rightarrow> int \<Rightarrow> generate_result model_call" where
  "call_messages env b messages system_text max_tokens temperature stop input_estimate =
     (let q = http_post (an_base b @ ''/messages'') (anthropic_headers b)
            (Some (JObj ([(''model'', JStr (an_model b)), (''messages'', messages), (''max_tokens'', JInt max_tokens)]
               @ (case system_text of None \<Rightarrow> [] | Some s \<Rightarrow> [(''system'', JStr s)])
               @ (case temperature of None \<Rightarrow> [] | Some t \<Rightarrow> [(''temperature'', JReal t)])
               @ stop_list ''stop_sequences'' stop)))
      in call_loop env ''Anthropic'' ''Anthropic'' (an_timeout b) (anthropic_read env (rq_url q) input_estimate) q MAX_RETRIES 0)"

definition anthropic_generate ::
    "server_env \<Rightarrow> anthropic \<Rightarrow> string \<Rightarrow> int option \<Rightarrow> real option \<Rightarrow> string list option \<Rightarrow> generate_result model_call" where
  "anthropic_generate env b prompt max_tokens temperature stop =
     call_messages env b (messages_json [[(''role'', ''user''), (''content'', prompt)]]) None
       (case max_tokens of None \<Rightarrow> 2000 | Some n \<Rightarrow> n) temperature stop (estimate_tokens prompt)"

definition anthropic_generate_chat ::
    "server_env \<Rightarrow> anthropic \<Rightarrow> chat_message list \<Rightarrow> int option \<Rightarrow> real option \<Rightarrow> string list option \<Rightarrow> generate_result model_call" where
  "anthropic_generate_chat env b messages max_tokens temperature stop =
     (case extract_system_and_messages None messages of
        (system_text, fs) \<Rightarrow>
          call_messages env b (messages_json fs) system_text (case max_tokens of None \<Rightarrow> 2000 | Some n \<Rightarrow> n) temperature stop
            (estimate_tokens (me_repr env (messages_json messages))))"

definition anthropic_health_check :: "server_env \<Rightarrow> anthropic \<Rightarrow> bool model_call" where
  "anthropic_health_check env b =
     (if an_key b = [] then io_ret False
      else io_or (answers_200 env (http_post (an_base b @ ''/messages'') (anthropic_headers b)
             (Some (JObj [(''model'', JStr (an_model b)), (''max_tokens'', JInt 1),
                          (''messages'', messages_json [[(''role'', ''user''), (''content'', ''hi'')]])])))) False)"

section \<open>vLLM\<close>

text \<open>\<open>vl_window\<close> is the environment's \<^verbatim>\<open>VLLM_MAX_MODEL_LEN\<close>, 32768 by default; the model is empty when there is none.\<close>

record vllm =
  vl_host :: string
  vl_port :: int
  vl_model :: string
  vl_timeout :: int
  vl_window :: int

definition vllm_backend :: "string \<Rightarrow> int \<Rightarrow> string \<Rightarrow> int \<Rightarrow> vllm" where
  "vllm_backend host port model window = \<lparr>vl_host = host, vl_port = port, vl_model = model, vl_timeout = 60, vl_window = window\<rparr>"

definition vllm_url :: "vllm \<Rightarrow> string" where
  "vllm_url b = ''http://'' @ vl_host b @ '':'' @ str_int (vl_port b)"

definition MIN_OUTPUT_TOKENS :: int where
  "MIN_OUTPUT_TOKENS = 256"

definition DEFAULT_STOPS :: "string list" where
  "DEFAULT_STOPS = [''REQUEST:'', ''ANALYSIS:'', ''Using this'', ''INPUT:'', ''OUTPUT:'', ''Input:'', ''Output:'',
     nl @ nl @ ''INPUT:'', nl @ nl @ ''OUTPUT:'', nl @ nl @ ''Request:'', nl @ nl @ ''Analysis:'', ''---'', ''###'', ''EXAMPLE:'', ''Example:'',
     concat (replicate 4 nl), concat (replicate 5 nl), concat (replicate 6 nl), ''...'' @ nl @ nl @ ''...'', ''---'' @ nl @ nl @ ''---'']"

text \<open>A single attempt: the handlers are those of the last attempt of the loops above.\<close>

definition vllm_call :: "server_env \<Rightarrow> vllm \<Rightarrow> (real \<Rightarrow> json \<Rightarrow> py_exn + generate_result) \<Rightarrow> http_request \<Rightarrow> generate_result model_call" where
  "vllm_call env b parse q =
     call_loop env ''vLLM'' ''vLLM'' (vl_timeout b)
       (\<lambda>p ms attempt. res_bind (checked_json env p (rq_url q)) (\<lambda>j. res_bind (parse ms j) (\<lambda>g. Inr (Finished g)))) q 1 (MAX_RETRIES - 1)"

definition penalties :: "(string \<times> json) list" where
  "penalties = [(''presence_penalty'', JReal (3 / 10)), (''frequency_penalty'', JReal (3 / 10))]"

definition model_entry :: "vllm \<Rightarrow> (string \<times> json) list" where
  "model_entry b = (if vl_model b = [] then [] else [(''model'', JStr (vl_model b))])"

definition vllm_generate ::
    "server_env \<Rightarrow> vllm \<Rightarrow> string \<Rightarrow> int option \<Rightarrow> real option \<Rightarrow> string list option \<Rightarrow> generate_result model_call" where
  "vllm_generate env b prompt max_tokens temperature stop =
     vllm_call env b (parse_choices ''vLLM'' ''text'' text_of_choice (estimate_tokens prompt))
       (http_post (vllm_url b @ ''/v1/completions'') []
         (Some (JObj ([(''prompt'', JStr prompt), (''temperature'', temperature_or temperature),
            (''max_tokens'', JInt (case max_tokens of None \<Rightarrow> 2000 | Some n \<Rightarrow> n)),
            (''stop'', JArr (map JStr (case stop of None \<Rightarrow> DEFAULT_STOPS | Some xs \<Rightarrow> xs)))] @ penalties @ model_entry b))))"

definition message_tokens :: "chat_message \<Rightarrow> int" where
  "message_tokens m = estimate_tokens (dict_get_or m ''content'' [])"

definition total_tokens :: "chat_message list \<Rightarrow> int" where
  "total_tokens ms = sum_list (map message_tokens ms)"

text \<open>\<open>for m in reversed(middle)\<close>: a message that does not fit is left out, later (older) ones may still be kept.\<close>

fun keep_recent :: "int \<Rightarrow> chat_message list \<Rightarrow> chat_message list \<Rightarrow> chat_message list" where
  "keep_recent budget [] kept = kept"
| "keep_recent budget (m # ms) kept =
     (if budget \<ge> message_tokens m then keep_recent (budget - message_tokens m) ms (m # kept) else keep_recent budget ms kept)"

definition leading_system :: "chat_message list \<Rightarrow> chat_message list" where
  "leading_system messages = filter (\<lambda>m. dict_get m ''role'' = Some ''system'') (take 1 messages)"

definition fit_messages :: "int \<Rightarrow> chat_message list \<Rightarrow> chat_message list" where
  "fit_messages budget messages =
     (if length messages > 2 then
        (let sys = leading_system messages; latest = last messages;
             middle = drop (length sys) (butlast messages);
             remaining = budget - (total_tokens sys + message_tokens latest)
         in sys @ keep_recent remaining (rev middle) [] @ [latest])
      else messages)"

text \<open>The messages and the \<open>max_tokens\<close> of the payload.\<close>

definition fit_chat :: "int \<Rightarrow> int option \<Rightarrow> chat_message list \<Rightarrow> chat_message list \<times> int option" where
  "fit_chat window max_tokens messages =
     (let effective = (case max_tokens of None \<Rightarrow> 2000 | Some n \<Rightarrow> n); estimate = total_tokens messages in
      if estimate + effective > window then
        (if window - effective < MIN_OUTPUT_TOKENS
         then (let e = max MIN_OUTPUT_TOKENS (window - estimate) in (fit_messages (window - e) messages, Some e))
         else (fit_messages (window - effective) messages, max_tokens))
      else (messages, max_tokens))"

text \<open>A \<open>max_tokens\<close> the truncation adds stands at the end of the payload, which is of no consequence for a JSON object.\<close>

definition vllm_generate_chat ::
    "server_env \<Rightarrow> vllm \<Rightarrow> chat_message list \<Rightarrow> int option \<Rightarrow> real option \<Rightarrow> string list option \<Rightarrow> (string \<times> json) list option
      \<Rightarrow> generate_result model_call" where
  "vllm_generate_chat env b messages max_tokens temperature stop template_kwargs =
     (case fit_chat (vl_window b) max_tokens messages of
        (ms, mt) \<Rightarrow>
          vllm_call env b (parse_choices ''vLLM'' ''content'' message_of_choice (estimate_tokens (me_repr env (messages_json ms))))
            (http_post (vllm_url b @ ''/v1/chat/completions'') []
              (Some (JObj ([(''messages'', messages_json ms), (''temperature'', temperature_or temperature)] @ penalties
                 @ (case mt of None \<Rightarrow> [] | Some n \<Rightarrow> [(''max_tokens'', JInt n)]) @ stop_list ''stop'' stop @ model_entry b
                 @ (case template_kwargs of None \<Rightarrow> [] | Some d \<Rightarrow> if d = [] then [] else [(''chat_template_kwargs'', JObj d)]))))))"

definition vllm_health_check :: "server_env \<Rightarrow> vllm \<Rightarrow> bool model_call" where
  "vllm_health_check env b =
     io_catch (answers_200 env (http_get (vllm_url b @ ''/health'') [] None))
       (\<lambda>e. io_or (answers_200 env (http_get (vllm_url b @ ''/v1/models'') [] None)) False)"

section \<open>The wrapper of the agents\<close>

text \<open>What the retry loop reads from an exception of a back end: it has no response of its own, and was raised while the last request's
  \<open>HTTPError\<close>, if there is one, was handled.\<close>

definition llm_error_of :: "server_env \<Rightarrow> http_request list \<Rightarrow> py_exn \<Rightarrow> llm_error" where
  "llm_error_of env sent e =
     \<lparr>le_class = (case e of
          TimeoutError _ \<Rightarrow> TimeoutClass
        | RuntimeError _ \<Rightarrow> RuntimeClass
        | _ \<Rightarrow> OtherClass (exn_name e)),
      le_message = exn_text e,
      le_cause_status = (case me_net env sent of Response p \<Rightarrow> if 400 \<le> rp_status p \<and> rp_status p < 600 then Some (rp_status p) else None | _ \<Rightarrow> None),
      le_retry_after = None\<rparr>"

definition world_after :: "'a model_call \<Rightarrow> nat \<Rightarrow> net_world \<Rightarrow> net_world" where
  "world_after call k w = ((\<lambda>w. snd (call w)) ^^ k) w"

definition attempt_call :: "server_env \<Rightarrow> 'a model_call \<Rightarrow> net_world \<Rightarrow> nat \<Rightarrow> real \<times> (llm_error + 'a)" where
  "attempt_call env call w k =
     (case call (world_after call k w) of
        (r, w') \<Rightarrow> (me_millis env (length (nw_sent w')) / 1000,
          case r of Inl e \<Rightarrow> Inl (llm_error_of env (nw_sent w') e) | Inr g \<Rightarrow> Inr g))"

record llm_backend =
  lb_backend :: vllm
  lb_max_retries :: int
  lb_base_delay :: real

definition new_llm_backend :: "string \<Rightarrow> string \<Rightarrow> int option \<Rightarrow> int \<Rightarrow> real \<Rightarrow> int \<Rightarrow> llm_backend" where
  "new_llm_backend model host port retries delay window =
     \<lparr>lb_backend = vllm_backend host (case port of None \<Rightarrow> 8000 | Some p \<Rightarrow> p) model window, lb_max_retries = retries, lb_base_delay = delay\<rparr>"

fun map_end :: "('a \<Rightarrow> 'b) \<Rightarrow> 'a retry_end \<Rightarrow> 'b retry_end" where
  "map_end f (Returned x) = Returned (f x)"
| "map_end f (RaisedError e) = RaisedError e"
| "map_end f (RetryExhausted n e) = RetryExhausted n e"
| "map_end f NoAttempt = NoAttempt"

text \<open>\<open>jitter k\<close> is the k-th draw of the retry loop.\<close>

definition llm_generate ::
    "server_env \<Rightarrow> (nat \<Rightarrow> real) \<Rightarrow> llm_backend \<Rightarrow> chat_message list \<Rightarrow> real \<Rightarrow> int \<Rightarrow> string list option \<Rightarrow> (string \<times> json) list option
      \<Rightarrow> net_world \<Rightarrow> string retry_end \<times> net_world" where
  "llm_generate env jitter b messages temperature max_tokens stop template_kwargs w =
     (let call = vllm_generate_chat env (lb_backend b) messages (Some max_tokens) (Some temperature) stop template_kwargs in
      case retry_llm_call (attempt_call env call w) jitter (lb_max_retries b) (lb_base_delay b) DEFAULT_MAX_DELAY of
        (r, tr) \<Rightarrow> (map_end gr_text r, (world_after call (rt_calls tr) w)\<lparr>nw_slept := nw_slept w @ rt_sleeps tr\<rparr>))"

section \<open>Back ends from the configuration\<close>

record backend_settings =
  bs_model :: string
  bs_retries :: int
  bs_base_delay :: real
  bs_fallbacks :: "string list"
  bs_strategy :: string
  bs_max_failures :: int
  bs_recovery :: real

text \<open>\<open>url.rsplit(":", 1)\<close> for a text with a colon.\<close>

definition rsplit_colon :: "string \<Rightarrow> string \<times> string" where
  "rsplit_colon s = (let after = rev (takeWhile (\<lambda>c. c \<noteq> CHR '':'') (rev s)) in (take (length s - length after - 1) s, after))"

definition create_backend_for_url :: "int \<Rightarrow> string \<Rightarrow> string \<Rightarrow> py_exn + vllm" where
  "create_backend_for_url window url model =
     (if CHR '':'' \<in> set url then
        (case rsplit_colon url of (h, p) \<Rightarrow> res_bind (py_int p) (\<lambda>n. Inr (vllm_backend h n model window)))
      else Inr (vllm_backend url 8000 model window))"

definition vllm_repr :: "vllm \<Rightarrow> string" where
  "vllm_repr b = ''VLLMBackend(host='' @ vl_host b @ '', port='' @ str_int (vl_port b) @ '', model='' @ vl_model b @ '')''"

datatype created_backend = SingleBackend llm_backend | PooledBackends "vllm list" backend_pool

definition fallbacks_of :: "backend_settings \<Rightarrow> string option \<Rightarrow> string list" where
  "fallbacks_of s env_urls =
     (if bs_fallbacks s \<noteq> [] then bs_fallbacks s
      else filter (\<lambda>u. u \<noteq> []) (map py_strip (split_on (CHR '','') (or_text env_urls []))))"

text \<open>The health check at the end only warns.\<close>

definition create_backend_from_config :: "(string \<Rightarrow> string option) \<Rightarrow> int \<Rightarrow> backend_settings \<Rightarrow> py_exn + created_backend" where
  "create_backend_from_config getenv window s =
     (let model = (case getenv ''VIBE_MODEL'' of None \<Rightarrow> bs_model s | Some m \<Rightarrow> m);
          host = (case getenv ''VIBE_BACKEND_HOST'' of None \<Rightarrow> ''localhost'' | Some h \<Rightarrow> h)
      in res_bind (case getenv ''VIBE_BACKEND_PORT'' of None \<Rightarrow> Inr None | Some t \<Rightarrow> if t = [] then Inr None else res_bind (py_int t) (\<lambda>n. Inr (Some n)))
        (\<lambda>port.
          let urls = fallbacks_of s (getenv ''VIBE_FALLBACK_URLS'') in
          if urls \<noteq> [] then
            res_bind (res_map (\<lambda>u. create_backend_for_url window u model) urls) (\<lambda>others.
              let backends = vllm_backend host (case port of None \<Rightarrow> 8000 | Some p \<Rightarrow> p) model window # others in
              res_bind (new_pool (map vllm_repr backends) (bs_strategy s) (bs_max_failures s) (bs_recovery s) (bs_retries s) (bs_base_delay s))
                (\<lambda>pool. Inr (PooledBackends backends pool)))
          else Inr (SingleBackend (new_llm_backend model host port (bs_retries s) (bs_base_delay s) window))))"

section \<open>The context window\<close>

lemma message_tokens_nonneg [simp]: "0 \<le> message_tokens m"
  by (simp add: message_tokens_def estimate_tokens_def)

lemma total_tokens_simps [simp]:
  "total_tokens [] = 0" "total_tokens (m # ms) = message_tokens m + total_tokens ms" "total_tokens (xs @ ys) = total_tokens xs + total_tokens ys"
  by (simp_all add: total_tokens_def)

lemma total_tokens_nonneg [simp]: "0 \<le> total_tokens ms"
  by (induction ms) simp_all

lemma keep_recent_tokens: "total_tokens (keep_recent budget ms kept) \<le> max budget 0 + total_tokens kept"
proof (induction ms arbitrary: budget kept)
  case (Cons m ms)
  show ?case
  proof (cases "message_tokens m \<le> budget")
    case True
    then show ?thesis using Cons [of "budget - message_tokens m" "m # kept"] by simp
  next
    case False
    then show ?thesis using Cons [of budget kept] by simp
  qed
qed simp

lemma keep_recent_subseq: "subseq (keep_recent budget ms kept) (rev ms @ kept)"
proof (induction ms arbitrary: budget kept)
  case (Cons m ms)
  show ?case
  proof (cases "message_tokens m \<le> budget")
    case True
    then show ?thesis using Cons [of "budget - message_tokens m" "m # kept"] by simp
  next
    case False
    have "subseq (rev ms @ kept) (rev (m # ms) @ kept)" by (auto intro: list_emb_append_mono list_emb_Cons)
    then show ?thesis using Cons [of budget kept] False by (auto intro: subseq_order.trans)
  qed
qed simp

lemma fit_messages_tokens:
  assumes "2 < length ms" and "total_tokens (leading_system ms) + message_tokens (last ms) \<le> budget"
  shows "total_tokens (fit_messages budget ms) \<le> budget"
  using assms keep_recent_tokens [of "budget - (total_tokens (leading_system ms) + message_tokens (last ms))" "rev (drop (length (leading_system ms)) (butlast ms))" "[]"]
  by (simp add: fit_messages_def Let_def)

lemma chat_ends:
  assumes "2 < length ms"
  shows "ms = leading_system ms @ drop (length (leading_system ms)) (butlast ms) @ [last ms]"
proof -
  obtain m ns l where m: "ms = m # ns @ [l]" using assms by (cases ms; cases "tl ms" rule: rev_cases) auto
  show ?thesis by (simp add: m leading_system_def)
qed

lemma fit_messages_parts:
  assumes "2 < length ms"
  shows "\<exists>kept. fit_messages budget ms = leading_system ms @ kept @ [last ms]
    \<and> subseq kept (drop (length (leading_system ms)) (butlast ms))"
  using assms keep_recent_subseq [of _ "rev (drop (length (leading_system ms)) (butlast ms))" "[]"]
  by (auto simp: fit_messages_def Let_def)

text \<open>What is sent to vLLM fits its context window by its own estimate, whatever the conversation: when the first system message, the
  last message and the answer fit in it, the messages sent and the \<open>max_tokens\<close> sent do.\<close>

theorem chat_fits_the_window:
  assumes "fit_chat window max_tokens ms = (ms', mt)" and "2 < length ms"
    and "effective = (case max_tokens of None \<Rightarrow> 2000 | Some n \<Rightarrow> n)"
    and "total_tokens (leading_system ms) + message_tokens (last ms) \<le> window - (if window - effective < 256 then 256 else effective)"
  shows "total_tokens ms' + (case mt of None \<Rightarrow> 2000 | Some n \<Rightarrow> n) \<le> window"
proof -
  let ?r = "total_tokens (leading_system ms) + message_tokens (last ms)"
  have parts: "?r \<le> total_tokens ms"
  proof -
    have "total_tokens ms = total_tokens (leading_system ms) + (total_tokens (drop (length (leading_system ms)) (butlast ms)) + message_tokens (last ms))"
      by (subst chat_ends [OF assms(2)]) simp
    then show ?thesis using total_tokens_nonneg [of "drop (length (leading_system ms)) (butlast ms)"] by linarith
  qed
  show ?thesis
  proof (cases "total_tokens ms + effective > window")
    case False
    then show ?thesis using assms by (auto simp: fit_chat_def Let_def)
  next
    case over: True
    show ?thesis
    proof (cases "window - effective < 256")
      case True
      then have mt: "mt = Some (max 256 (window - total_tokens ms))" "ms' = fit_messages (window - max 256 (window - total_tokens ms)) ms"
        using assms(1,3) over by (auto simp: fit_chat_def Let_def MIN_OUTPUT_TOKENS_def)
      have "?r \<le> window - max 256 (window - total_tokens ms)" using assms(4) True parts by (simp add: max_def)
      then have "total_tokens ms' \<le> window - max 256 (window - total_tokens ms)" unfolding mt(2) by (rule fit_messages_tokens [OF assms(2)])
      then show ?thesis unfolding mt(1) by simp
    next
      case False
      then have mt: "mt = max_tokens" "ms' = fit_messages (window - effective) ms"
        using assms(1,3) over by (auto simp: fit_chat_def Let_def MIN_OUTPUT_TOKENS_def)
      have "total_tokens ms' \<le> window - effective" unfolding mt(2) by (rule fit_messages_tokens [OF assms(2)]) (use assms(4) False in simp)
      then show ?thesis unfolding mt(1) using assms(3) by simp
    qed
  qed
qed

theorem chat_fits_the_window_witness:
  "\<exists>ms' mt. fit_chat 600 (Some 300) [[(''role'', ''system''), (''content'', ''be brief'')], [(''role'', ''user''), (''content'', replicate 2000 CHR ''x'')],
      [(''role'', ''user''), (''content'', ''go on'')]] = (ms', mt)
    \<and> total_tokens ms' + (case mt of None \<Rightarrow> 2000 | Some n \<Rightarrow> n) \<le> 600 \<and> length ms' = 2"
proof -
  let ?ms = "[[(''role'', ''system''), (''content'', ''be brief'')], [(''role'', ''user''), (''content'', replicate 2000 CHR ''x'')],
      [(''role'', ''user''), (''content'', ''go on'')]]"
  obtain ms' mt where f: "fit_chat 600 (Some 300) ?ms = (ms', mt)" by fastforce
  have "total_tokens (leading_system ?ms) + message_tokens (last ?ms) \<le> 600 - (if 600 - 300 < (256 :: int) then 256 else 300)"
    by (simp add: leading_system_def message_tokens_def estimate_tokens_def dict_get_def dict_get_or_def)
  then have "total_tokens ms' + (case mt of None \<Rightarrow> 2000 | Some n \<Rightarrow> n) \<le> 600"
    using chat_fits_the_window [OF f, of 300] by simp
  moreover have "length ms' = 2" using f
    by (auto simp: fit_chat_def fit_messages_def leading_system_def message_tokens_def estimate_tokens_def dict_get_def dict_get_or_def Let_def MIN_OUTPUT_TOKENS_def)
  ultimately show ?thesis using f by blast
qed

text \<open>The truncation drops messages of the middle only, and keeps the order: the leading system message and the last message are sent.\<close>

theorem truncation_drops_the_middle_only:
  assumes "fit_chat window max_tokens ms = (ms', mt)" and "2 < length ms"
  shows "\<exists>kept. ms' = leading_system ms @ kept @ [last ms] \<and> subseq kept (drop (length (leading_system ms)) (butlast ms))"
proof -
  have "ms' = ms \<or> (\<exists>b. ms' = fit_messages b ms)" using assms(1) by (auto simp: fit_chat_def Let_def split: if_splits)
  then show ?thesis using chat_ends [OF assms(2)] fit_messages_parts [OF assms(2)] by (metis subseq_order.dual_order.refl)
qed

theorem truncation_drops_the_middle_only_witness:
  "\<exists>ms' mt kept. fit_chat 10 (Some 1) [[(''content'', ''a'')], [(''content'', ''b'')], [(''content'', ''c'')]] = (ms', mt) \<and> ms' = kept @ [[(''content'', ''c'')]]"
proof -
  let ?ms = "[[(''content'', ''a'')], [(''content'', ''b'')], [(''content'', ''c'')]]"
  obtain ms' mt where f: "fit_chat 10 (Some 1) ?ms = (ms', mt)" by fastforce
  have "leading_system ?ms = []" by (simp add: leading_system_def dict_get_def)
  then show ?thesis using truncation_drops_the_middle_only [OF f] f by auto
qed

section \<open>The attempts\<close>

lemma one_pass_sends:
  assumes "one_pass env provider timeout read q attempt w = (r, w')"
  shows "nw_sent w' = nw_sent w @ [q] \<and> nw_slept w' = nw_slept w"
  using assms by (auto simp: one_pass_def Let_def)

lemma call_loop_requests:
  assumes "call_loop env provider what timeout read q n attempt w = (r, w')"
  shows "\<exists>k. k \<le> n \<and> (0 < n \<longrightarrow> 0 < k) \<and> nw_sent w' = nw_sent w @ replicate k q"
  using assms
proof (induction n arbitrary: attempt w)
  case (Suc n)
  obtain p w1 where o: "one_pass env provider timeout read q attempt w = (p, w1)" by fastforce
  have s: "nw_sent w1 = nw_sent w @ [q]" using one_pass_sends [OF o] by simp
  have last: ?case if "nw_sent w' = nw_sent w1" using s that by (intro exI [of _ 1]) simp
  have more: ?case if "\<exists>k. k \<le> n \<and> (0 < n \<longrightarrow> 0 < k) \<and> nw_sent w' = nw_sent w1 @ replicate k q"
  proof -
    from that obtain k where "k \<le> n" "nw_sent w' = nw_sent w1 @ replicate k q" by blast
    then show ?thesis using s by (intro exI [of _ "Suc k"]) simp
  qed
  show ?case
  proof (cases p)
    case (Again pause)
    then show ?thesis
      using Suc.prems o Suc.IH [of "Suc attempt" w1] Suc.IH [of "Suc attempt" "w1\<lparr>nw_slept := nw_slept w1 @ [the pause]\<rparr>"]
      by (intro more) (cases pause; simp)
  next
    case (Finished x)
    then show ?thesis using Suc.prems o by (intro last) simp
  next
    case (Raises e)
    then show ?thesis using Suc.prems o by (intro last) simp
  qed
qed simp

text \<open>A call of OpenAI or of Anthropic sends the same request one to three times, whatever is answered.\<close>

theorem calls_are_bounded:
  "(\<exists>q k. 0 < k \<and> k \<le> 3 \<and> nw_sent (snd (openai_generate_chat env b ms mt t st w)) = nw_sent w @ replicate k q)
   \<and> (\<exists>q k. 0 < k \<and> k \<le> 3 \<and> nw_sent (snd (anthropic_generate_chat env a ms mt t st w)) = nw_sent w @ replicate k q)"
proof -
  have loop: "\<exists>k. 0 < k \<and> k \<le> 3 \<and> nw_sent (snd (call_loop env provider what timeout read q MAX_RETRIES 0 w)) = nw_sent w @ replicate k q"
    for provider what timeout q and read :: "http_response \<Rightarrow> real \<Rightarrow> nat \<Rightarrow> py_exn + generate_result pass_end"
  proof -
    obtain r w' where "call_loop env provider what timeout read q MAX_RETRIES 0 w = (r, w')" by fastforce
    from call_loop_requests [OF this] this show ?thesis by (auto simp: MAX_RETRIES_def)
  qed
  obtain s fs where "extract_system_and_messages None ms = (s, fs)" by fastforce
  then have "\<exists>q k. 0 < k \<and> k \<le> 3 \<and> nw_sent (snd (anthropic_generate_chat env a ms mt t st w)) = nw_sent w @ replicate k q"
    unfolding anthropic_generate_chat_def call_messages_def Let_def by simp (rule exI, rule loop)
  moreover have "\<exists>q k. 0 < k \<and> k \<le> 3 \<and> nw_sent (snd (openai_generate_chat env b ms mt t st w)) = nw_sent w @ replicate k q"
    unfolding openai_generate_chat_def Let_def by (rule exI) (rule loop)
  ultimately show ?thesis by blast
qed

text \<open>Exhausted credit ends a call of Anthropic at the first answer that shows it: nothing is sent again.\<close>

theorem exhausted_credit_ends_the_call:
  assumes "\<And>q. me_net env (nw_sent w @ [q]) = Response p" and "rp_status p = 402"
  shows "\<exists>q. call_messages env b ms system mt t st est w
    = (Inl (billing_exhausted ''anthropic'' 402 (take 500 (rp_body p))), w\<lparr>nw_sent := nw_sent w @ [q]\<rparr>)"
proof -
  have g: "guarded_pass provider timeout k (Inl (billing_exhausted x c d)) = Raises (billing_exhausted x c d)" for provider timeout k x c d
    by (simp add: guarded_pass_def billing_exhausted_def requests_error_def is_request_exception_def)
  show ?thesis using assms
    by (auto simp: call_messages_def Let_def MAX_RETRIES_def numeral_3_eq_3 one_pass_def anthropic_read_def g)
qed

definition no_credit :: http_response where
  "no_credit = \<lparr>rp_status = 402, rp_body = ''pay first'', rp_retry_after = None, rp_json = None\<rparr>"

definition answering :: "http_response \<Rightarrow> server_env" where
  "answering p = \<lparr>me_net = (\<lambda>_. Response p), me_float = (\<lambda>_. None), me_repr = (\<lambda>_. []), me_millis = (\<lambda>_. 1), me_reason = (\<lambda>_. ''Bad Request'')\<rparr>"

theorem exhausted_credit_ends_the_call_witness:
  "\<exists>q. call_messages (answering no_credit) (anthropic_backend None None ''key'' None 60) (JArr []) None 10 None None 0 \<lparr>nw_sent = [], nw_slept = []\<rparr>
    = (Inl (billing_exhausted ''anthropic'' 402 ''pay first''), \<lparr>nw_sent = [q], nw_slept = []\<rparr>)"
  using exhausted_credit_ends_the_call [of "answering no_credit" "\<lparr>nw_sent = [], nw_slept = []\<rparr>" no_credit]
  by (simp add: answering_def no_credit_def)

text \<open>Anthropic is sent every system text, joined by blank lines in their order, and the messages of user and assistant; no
  instruction is lost, wherever it stands in the conversation.\<close>

theorem system_texts_are_joined:
  "extract_system_and_messages None ms =
     ((let sys = map (\<lambda>m. dict_get_or m ''content'' []) (filter (\<lambda>m. dict_get_or m ''role'' [] = ''system'') ms)
       in if sys = [] then None else Some (join_with (nl @ nl) sys)),
      map (\<lambda>m. [(''role'', dict_get_or m ''role'' []), (''content'', dict_get_or m ''content'' [])])
        (filter (\<lambda>m. dict_get_or m ''role'' [] \<in> {''user'', ''assistant''}) ms))"
proof -
  have j: "join_with d (x # xs) = x @ concat (map (\<lambda>y. d @ y) xs)" for d x and xs :: "string list"
    by (induction xs arbitrary: x) simp_all
  have *: "extract_system_and_messages (Some t) ms =
     (Some (t @ concat (map (\<lambda>y. (nl @ nl) @ y) (map (\<lambda>m. dict_get_or m ''content'' []) (filter (\<lambda>m. dict_get_or m ''role'' [] = ''system'') ms)))),
      map (\<lambda>m. [(''role'', dict_get_or m ''role'' []), (''content'', dict_get_or m ''content'' [])])
        (filter (\<lambda>m. dict_get_or m ''role'' [] \<in> {''user'', ''assistant''}) ms))" for t ms
    by (induction ms arbitrary: t) (auto simp: Let_def)
  show ?thesis by (induction ms) (auto simp: Let_def * j simp del: join_with.simps)
qed

section \<open>The wrapper\<close>

lemma vllm_chat_requests:
  "\<exists>q. \<forall>w. nw_sent (snd (vllm_generate_chat env b ms mt t st kw w)) = nw_sent w @ [q]"
proof -
  obtain ms' mt' where f: "fit_chat (vl_window b) mt ms = (ms', mt')" by fastforce
  have "\<exists>q. vllm_generate_chat env b ms mt t st kw = vllm_call env b (parse_choices ''vLLM'' ''content'' message_of_choice (estimate_tokens (me_repr env (messages_json ms')))) q"
    unfolding vllm_generate_chat_def f by simp (rule exI, rule refl)
  then obtain q where q: "vllm_generate_chat env b ms mt t st kw = vllm_call env b (parse_choices ''vLLM'' ''content'' message_of_choice (estimate_tokens (me_repr env (messages_json ms')))) q" ..
  have "nw_sent (snd (vllm_call env b p q w)) = nw_sent w @ [q]" for p w
  proof -
    obtain r w' where r: "vllm_call env b p q w = (r, w')" by fastforce
    then obtain k where "k \<le> 1" "0 < k" "nw_sent w' = nw_sent w @ replicate k q"
      using call_loop_requests [OF r [unfolded vllm_call_def]] by auto
    moreover from this have "k = 1" by simp
    ultimately show ?thesis using r by simp
  qed
  then show ?thesis using q by auto
qed

lemma world_after_requests:
  assumes "\<forall>w. nw_sent (snd (call w)) = nw_sent w @ [q]"
  shows "nw_sent (world_after call k w) = nw_sent w @ replicate k q"
  by (induction k) (simp_all add: world_after_def assms replicate_append_same)

text \<open>The agents' wrapper sends one request, the same each time, for every attempt: at most one more than the retries allowed.\<close>

theorem wrapper_requests_are_bounded:
  "\<exists>q k. k \<le> nat (lb_max_retries b + 1)
     \<and> nw_sent (snd (llm_generate env jitter b ms t mt st kw w)) = nw_sent w @ replicate k q"
proof -
  let ?call = "vllm_generate_chat env (lb_backend b) ms (Some mt) (Some t) st kw"
  obtain q where q: "\<forall>w. nw_sent (snd (?call w)) = nw_sent w @ [q]" using vllm_chat_requests by blast
  obtain r tr where r: "retry_llm_call (attempt_call env ?call w) jitter (lb_max_retries b) (lb_base_delay b) DEFAULT_MAX_DELAY = (r, tr)" by fastforce
  have "rt_calls tr \<le> nat (lb_max_retries b + 1)"
    using retry_loop_calls [of "attempt_call env ?call w" jitter "lb_max_retries b" "lb_base_delay b" DEFAULT_MAX_DELAY "nat (lb_max_retries b + 1)" 0 start_trace] r
    by (simp add: retry_llm_call_def)
  moreover have "nw_sent (snd (llm_generate env jitter b ms t mt st kw w)) = nw_sent w @ replicate (rt_calls tr) q"
    using r by (simp add: llm_generate_def Let_def world_after_requests [OF q])
  ultimately show ?thesis by blast
qed

text \<open>A fallback given as \<open>host:port\<close> is the back end with that base address, whatever the host holds (also colons).\<close>

theorem fallback_address_roundtrip:
  "create_backend_for_url window (host @ CHR '':'' # str_int port) model = Inr (vllm_backend host port model window)
   \<and> vllm_url (vllm_backend host port model window) = ''http://'' @ host @ CHR '':'' # str_int port"
proof -
  have "CHR '':'' \<notin> set (str_nat k)" for k using str_nat_digits [of k] by (auto simp: is_digit_def)
  then have d: "CHR '':'' \<notin> set (str_int port)" by (simp add: str_int_def)
  then have "takeWhile (\<lambda>c. c \<noteq> CHR '':'') (rev (str_int port) @ CHR '':'' # rev host) = rev (str_int port)"
    by (subst takeWhile_append2) auto
  then have "rsplit_colon (host @ CHR '':'' # str_int port) = (host, str_int port)"
    by (simp add: rsplit_colon_def Let_def)
  then show ?thesis by (simp add: create_backend_for_url_def vllm_url_def vllm_backend_def)
qed

end
