(* ===== verification/Sandbox.thy ===== *)
theory Sandbox
  imports Tool_Registry Resources Py_Json
begin

text \<open>
  \<^verbatim>\<open>agents/sandbox\<close>: the configuration (\<^verbatim>\<open>config.py\<close>), the pool of warm containers (\<^verbatim>\<open>client.py\<close>) and the
  tools that run in them (\<^verbatim>\<open>tools.py\<close>).

  The SDK is a parameter: what the k-th creation returns, whether a kill succeeds (a failed one is only logged), and what a write or a
  command answers after the calls made so far. A container is referred to by the number of its creation, as the source shares the
  handle between its queue, its list and the worker that has it. A method of the pool is one step of the thread that
  runs it; the queue hands each handle to one caller only. \<open>now\<close> is the monotonic clock at the step. \<open>last_used\<close>, which nothing
  reads, the threads and their event loop are left out; that a result is not there after a minute is an exception of the command.
\<close>

section \<open>Configuration\<close>

record sandbox_config =
  sx_backend :: string
  sx_url :: string
  sx_key :: string
  sx_image :: string
  sx_gpu_image :: string
  sx_cpu :: string
  sx_memory :: string
  sx_pool_size :: int
  sx_timeout :: int
  sx_gpu :: bool
  sx_gpu_ids :: string
  sx_egress :: bool
  sx_dirs :: string

definition default_sandbox :: sandbox_config where
  "default_sandbox = \<lparr>sx_backend = ''opensandbox'', sx_url = ''http://opensandbox:8080'', sx_key = [],
     sx_image = ''opensandbox/code-interpreter:v1.0.1'', sx_gpu_image = ''vibe/sandbox-gpu:latest'', sx_cpu = ''500m'', sx_memory = ''512Mi'',
     sx_pool_size = 2, sx_timeout = 300, sx_gpu = False, sx_gpu_ids = [], sx_egress = False, sx_dirs = []\<rparr>"

definition sandbox_from_plan :: "sandbox_pool_plan \<Rightarrow> sandbox_config" where
  "sandbox_from_plan p = default_sandbox\<lparr>sx_pool_size := pp_pool_size p, sx_cpu := pp_cpu p, sx_memory := pp_memory p, sx_gpu := pp_gpu_enabled p,
     sx_gpu_ids := join_with '','' (map str_int (pp_gpu_device_ids p)), sx_image := pp_image p\<rparr>"

definition parse_bool :: "string \<Rightarrow> bool" where
  "parse_bool s = (py_lower s \<in> {''true'', ''1'', ''yes''})"

text \<open>\<open>setattr(self, attr, converter(value))\<close> when the variable is set.\<close>

definition env_text :: "(string \<Rightarrow> string option) \<Rightarrow> string \<Rightarrow> (string \<Rightarrow> 'c \<Rightarrow> 'c) \<Rightarrow> 'c \<Rightarrow> py_exn + 'c" where
  "env_text getenv k put c = Inr (case getenv k of None \<Rightarrow> c | Some v \<Rightarrow> put v c)"

definition env_int :: "(string \<Rightarrow> string option) \<Rightarrow> string \<Rightarrow> (int \<Rightarrow> 'c \<Rightarrow> 'c) \<Rightarrow> 'c \<Rightarrow> py_exn + 'c" where
  "env_int getenv k put c = (case getenv k of None \<Rightarrow> Inr c | Some v \<Rightarrow> res_bind (py_int v) (\<lambda>n. Inr (put n c)))"

definition env_bool :: "(string \<Rightarrow> string option) \<Rightarrow> string \<Rightarrow> (bool \<Rightarrow> 'c \<Rightarrow> 'c) \<Rightarrow> 'c \<Rightarrow> py_exn + 'c" where
  "env_bool getenv k put c = Inr (case getenv k of None \<Rightarrow> c | Some v \<Rightarrow> put (parse_bool v) c)"

fun res_steps :: "('c \<Rightarrow> 'e + 'c) list \<Rightarrow> 'c \<Rightarrow> 'e + 'c" where
  "res_steps [] c = Inr c"
| "res_steps (f # fs) c = res_bind (f c) (res_steps fs)"

definition apply_env_overrides :: "(string \<Rightarrow> string option) \<Rightarrow> sandbox_config \<Rightarrow> py_exn + sandbox_config" where
  "apply_env_overrides getenv = res_steps
     [env_text getenv ''VIBE_SANDBOX_BACKEND'' (\<lambda>v c. c\<lparr>sx_backend := v\<rparr>),
      env_text getenv ''VIBE_SANDBOX_URL'' (\<lambda>v c. c\<lparr>sx_url := v\<rparr>),
      env_text getenv ''VIBE_SANDBOX_API_KEY'' (\<lambda>v c. c\<lparr>sx_key := v\<rparr>),
      env_text getenv ''VIBE_SANDBOX_IMAGE'' (\<lambda>v c. c\<lparr>sx_image := v\<rparr>),
      env_text getenv ''VIBE_SANDBOX_GPU_IMAGE'' (\<lambda>v c. c\<lparr>sx_gpu_image := v\<rparr>),
      env_text getenv ''VIBE_SANDBOX_CPU_LIMIT'' (\<lambda>v c. c\<lparr>sx_cpu := v\<rparr>),
      env_text getenv ''VIBE_SANDBOX_MEMORY_LIMIT'' (\<lambda>v c. c\<lparr>sx_memory := v\<rparr>),
      env_int getenv ''VIBE_SANDBOX_POOL_SIZE'' (\<lambda>v c. c\<lparr>sx_pool_size := v\<rparr>),
      env_int getenv ''VIBE_SANDBOX_TIMEOUT'' (\<lambda>v c. c\<lparr>sx_timeout := v\<rparr>),
      env_bool getenv ''VIBE_SANDBOX_GPU'' (\<lambda>v c. c\<lparr>sx_gpu := v\<rparr>),
      env_text getenv ''VIBE_SANDBOX_GPU_IDS'' (\<lambda>v c. c\<lparr>sx_gpu_ids := v\<rparr>),
      env_bool getenv ''VIBE_SANDBOX_EGRESS'' (\<lambda>v c. c\<lparr>sx_egress := v\<rparr>),
      env_text getenv ''VIBE_ALLOWED_FILE_DIRS'' (\<lambda>v c. c\<lparr>sx_dirs := v\<rparr>)]"

definition listed :: "char \<Rightarrow> string \<Rightarrow> string list" where
  "listed d s = (if s = [] then [] else filter (\<lambda>x. x \<noteq> []) (map py_strip (split_on d s)))"

definition gpu_device_id_list :: "sandbox_config \<Rightarrow> py_exn + int list" where
  "gpu_device_id_list c = res_map py_int (listed (CHR '','') (sx_gpu_ids c))"

definition allowed_file_dir_list :: "sandbox_config \<Rightarrow> string list" where
  "allowed_file_dir_list c = listed (CHR '':'') (sx_dirs c)"

section \<open>The pool\<close>

datatype sdk_call =
    Created string "(string \<times> string) list" \<comment> \<open>image and environment\<close>
  | Killed nat
  | Wrote nat string string
  | Ran nat string int

record run_reply =
  rr_exit :: int
  rr_stdout :: string
  rr_stderr :: string

record sandbox_env =
  sv_config :: sandbox_config
  sv_sdk :: bool
  sv_create :: "nat \<Rightarrow> py_exn + string"
  sv_write :: "sdk_call list \<Rightarrow> py_exn option"
  sv_run :: "sdk_call list \<Rightarrow> py_exn + run_reply"
  sv_hex :: "nat \<Rightarrow> string"

text \<open>\<open>sp_made\<close> counts the creations that succeeded, \<open>sp_names\<close> their identifiers, \<open>sp_born\<close> the clock at each.\<close>

record sandbox_pool =
  sp_idle :: "nat list"
  sp_all :: "nat list"
  sp_warmed :: bool
  sp_started :: bool
  sp_stopped :: bool
  sp_tries :: nat
  sp_names :: "string list"
  sp_born :: "real list"
  sp_log :: "sdk_call list"

definition sp_made :: "sandbox_pool \<Rightarrow> nat" where
  "sp_made p = length (sp_born p)"

definition new_sandbox_pool :: sandbox_pool where
  "new_sandbox_pool = \<lparr>sp_idle = [], sp_all = [], sp_warmed = False, sp_started = False, sp_stopped = False, sp_tries = 0, sp_names = [],
     sp_born = [], sp_log = []\<rparr>"

definition sdk_log :: "sdk_call \<Rightarrow> sandbox_pool \<Rightarrow> sandbox_pool" where
  "sdk_log c p = p\<lparr>sp_log := sp_log p @ [c]\<rparr>"

definition create_sandbox :: "sandbox_env \<Rightarrow> real \<Rightarrow> sandbox_pool \<Rightarrow> (py_exn + nat) \<times> sandbox_pool" where
  "create_sandbox env now p =
     (let c = sv_config env;
          image = (if sx_gpu c then sx_gpu_image c else sx_image c);
          vars = (''PYTHON_VERSION'', ''3.11'') # (if sx_gpu c \<and> sx_gpu_ids c \<noteq> [] then [(''NVIDIA_VISIBLE_DEVICES'', sx_gpu_ids c)] else [])
      in case sv_create env (sp_tries p) of
           Inl e \<Rightarrow> (Inl e, p\<lparr>sp_tries := sp_tries p + 1\<rparr>)
         | Inr i \<Rightarrow> (Inr (sp_made p), sdk_log (Created image vars) (p\<lparr>sp_tries := sp_tries p + 1, sp_names := sp_names p @ [i], sp_born := sp_born p @ [now]\<rparr>)))"

definition kill_sandbox :: "nat \<Rightarrow> sandbox_pool \<Rightarrow> sandbox_pool" where
  "kill_sandbox h = sdk_log (Killed h)"

definition put_idle :: "nat \<Rightarrow> sandbox_pool \<Rightarrow> sandbox_pool" where
  "put_idle h p = p\<lparr>sp_idle := sp_idle p @ [h]\<rparr>"

definition track :: "nat \<Rightarrow> sandbox_pool \<Rightarrow> sandbox_pool" where
  "track h p = p\<lparr>sp_all := sp_all p @ [h]\<rparr>"

definition untrack :: "nat \<Rightarrow> sandbox_pool \<Rightarrow> sandbox_pool" where
  "untrack h p = p\<lparr>sp_all := remove1 h (sp_all p)\<rparr>"

definition sandbox_age :: "real \<Rightarrow> sandbox_pool \<Rightarrow> nat \<Rightarrow> real" where
  "sandbox_age now p h = now - sp_born p ! h"

definition sandbox_expired :: "sandbox_env \<Rightarrow> real \<Rightarrow> sandbox_pool \<Rightarrow> nat \<Rightarrow> bool" where
  "sandbox_expired env now p h = (sandbox_age now p h > real_of_int (sx_timeout (sv_config env)))"

text \<open>A creation that fails is logged and the next one tried.\<close>

fun warm_up :: "sandbox_env \<Rightarrow> real \<Rightarrow> nat \<Rightarrow> sandbox_pool \<Rightarrow> sandbox_pool" where
  "warm_up env now 0 p = p"
| "warm_up env now (Suc n) p =
     (case create_sandbox env now p of
        (Inl e, p1) \<Rightarrow> warm_up env now n p1
      | (Inr h, p1) \<Rightarrow> warm_up env now n (track h (put_idle h p1)))"

definition warm_pool :: "sandbox_env \<Rightarrow> real \<Rightarrow> sandbox_pool \<Rightarrow> sandbox_pool" where
  "warm_pool env now p =
     (if sp_warmed p then p else warm_up env now (nat (sx_pool_size (sv_config env))) (p\<lparr>sp_warmed := True\<rparr>))"

definition start_sandboxes :: "sandbox_env \<Rightarrow> bool \<Rightarrow> real \<Rightarrow> sandbox_pool \<Rightarrow> (py_exn + unit) \<times> sandbox_pool" where
  "start_sandboxes env lazy now p =
     (if sp_started p then (Inr (), p)
      else if \<not> sv_sdk env then (Inl (RuntimeError ''opensandbox SDK not installed. Install with: pip install opensandbox''), p)
      else (Inr (), (if lazy then p else warm_pool env now p)\<lparr>sp_started := True\<rparr>))"

definition stop_sandboxes :: "sandbox_pool \<Rightarrow> sandbox_pool" where
  "stop_sandboxes p =
     (if \<not> sp_started p then p
      else (fold kill_sandbox (sp_all p) (p\<lparr>sp_stopped := True, sp_all := []\<rparr>))\<lparr>sp_idle := [], sp_started := False\<rparr>)"

text \<open>An idle container, a fresh one in place of an expired one, or one more when none is idle (after five seconds).\<close>

definition acquire_sandbox :: "sandbox_env \<Rightarrow> real \<Rightarrow> sandbox_pool \<Rightarrow> (py_exn + nat) \<times> sandbox_pool" where
  "acquire_sandbox env now p0 =
     (let p = warm_pool env now p0;
          fresh = (\<lambda>p. case create_sandbox env now p of (Inl e, p1) \<Rightarrow> (Inl e, p1) | (Inr h, p1) \<Rightarrow> (Inr h, track h p1))
      in case sp_idle p of
           [] \<Rightarrow> fresh p
         | h # hs \<Rightarrow>
             (let p1 = p\<lparr>sp_idle := hs\<rparr> in
              if sandbox_expired env now p h then fresh (untrack h (kill_sandbox h p1)) else (Inr h, p1)))"

definition release_sandbox :: "nat \<Rightarrow> sandbox_pool \<Rightarrow> sandbox_pool" where
  "release_sandbox h p = (if sp_stopped p then kill_sandbox h p else put_idle h p)"

definition recycle_expired :: "sandbox_env \<Rightarrow> real \<Rightarrow> sandbox_pool \<Rightarrow> sandbox_pool" where
  "recycle_expired env now p =
     (let expired = filter (sandbox_expired env now p) (sp_idle p);
          fresh = filter (\<lambda>h. \<not> sandbox_expired env now p h) (sp_idle p)
      in fold put_idle fresh (fold (\<lambda>h p. untrack h (kill_sandbox h p)) expired (p\<lparr>sp_idle := []\<rparr>)))"

text \<open>The first creation that fails ends the round.\<close>

fun replenish :: "sandbox_env \<Rightarrow> real \<Rightarrow> nat \<Rightarrow> sandbox_pool \<Rightarrow> sandbox_pool" where
  "replenish env now 0 p = p"
| "replenish env now (Suc n) p =
     (case create_sandbox env now p of
        (Inl e, p1) \<Rightarrow> p1
      | (Inr h, p1) \<Rightarrow> replenish env now n (track h (put_idle h p1)))"

definition replenish_pool :: "sandbox_env \<Rightarrow> real \<Rightarrow> sandbox_pool \<Rightarrow> sandbox_pool" where
  "replenish_pool env now p =
     replenish env now (nat (sx_pool_size (sv_config env) - int (length (sp_idle p)))) p"

section \<open>Running in a sandbox\<close>

definition sandbox_failed :: "string \<Rightarrow> py_exn \<Rightarrow> tool_result" where
  "sandbox_failed what e = \<lparr>tr_success = False, tr_output = [], tr_error = Some (what @ exn_text e), tr_metadata = [(''sandboxed'', JBool True)]\<rparr>"

definition sandbox_result :: "string \<Rightarrow> run_reply \<Rightarrow> tool_result" where
  "sandbox_result i r = \<lparr>tr_success = rr_exit r = 0, tr_output = rr_stdout r, tr_error = (if rr_exit r \<noteq> 0 then Some (rr_stderr r) else None),
     tr_metadata = [(''exit_code'', JInt (rr_exit r)), (''sandbox_id'', JStr i), (''sandboxed'', JBool True)]\<rparr>"

definition sdk_run :: "sandbox_env \<Rightarrow> string \<Rightarrow> nat \<Rightarrow> string \<Rightarrow> int \<Rightarrow> sandbox_pool \<Rightarrow> tool_result \<times> sandbox_pool" where
  "sdk_run env what h command timeout p =
     (let p1 = sdk_log (Ran h command timeout) p in
      (case sv_run env (sp_log p1) of Inl e \<Rightarrow> sandbox_failed what e | Inr r \<Rightarrow> sandbox_result (sp_names p ! h) r, p1))"

definition run_command :: "sandbox_env \<Rightarrow> real \<Rightarrow> string \<Rightarrow> int \<Rightarrow> sandbox_pool \<Rightarrow> (py_exn + tool_result) \<times> sandbox_pool" where
  "run_command env now command timeout p =
     (case acquire_sandbox env now p of
        (Inl e, p1) \<Rightarrow> (Inl e, p1)
      | (Inr h, p1) \<Rightarrow>
          (case sdk_run env ''Sandbox command error: '' h command timeout p1 of (r, p2) \<Rightarrow> (Inr r, release_sandbox h p2)))"

definition execute_in_sandbox :: "sandbox_env \<Rightarrow> real \<Rightarrow> string \<Rightarrow> int \<Rightarrow> sandbox_pool \<Rightarrow> (py_exn + tool_result) \<times> sandbox_pool" where
  "execute_in_sandbox env now code timeout p =
     (case acquire_sandbox env now p of
        (Inl e, p1) \<Rightarrow> (Inl e, p1)
      | (Inr h, p1) \<Rightarrow>
          (let path = ''/tmp/vibe_'' @ take 8 (sv_hex env (length (sp_log p1))) @ ''.py'';
               p2 = sdk_log (Wrote h path code) p1
           in case sv_write env (sp_log p2) of
                Some e \<Rightarrow> (Inr (sandbox_failed ''Sandbox execution error: '' e), release_sandbox h p2)
              | None \<Rightarrow>
                  (case sdk_run env ''Sandbox execution error: '' h (''python3 '' @ path) timeout p2 of (r, p3) \<Rightarrow> (Inr r, release_sandbox h p3))))"

section \<open>The tools\<close>

type_synonym sandbox_call = "sandbox_pool \<Rightarrow> (py_exn + tool_result) \<times> sandbox_pool"

definition refuse :: "string \<Rightarrow> sandbox_call" where
  "refuse e p = (Inr (failure e), p)"

definition sandboxed_python :: "sandbox_env \<Rightarrow> real \<Rightarrow> string \<Rightarrow> int \<Rightarrow> sandbox_call" where
  "sandboxed_python env now code timeout =
     (if py_strip code = [] then refuse ''No code provided'' else execute_in_sandbox env now code timeout)"

definition sandboxed_pytest :: "sandbox_env \<Rightarrow> real \<Rightarrow> string \<Rightarrow> bool \<Rightarrow> bool \<Rightarrow> sandbox_call" where
  "sandboxed_pytest env now test_file coverage verbose =
     (if py_strip test_file = [] then refuse ''No test file specified''
      else run_command env now (join_with '' '' ([''python3'', ''-m'', ''pytest''] @ (if verbose then [''-v''] else [])
             @ (if coverage then [''--cov'', ''--cov-report=term-missing''] else []) @ [test_file])) 60)"

definition sandboxed_shell :: "sandbox_env \<Rightarrow> real \<Rightarrow> string \<Rightarrow> int \<Rightarrow> sandbox_call" where
  "sandboxed_shell env now command timeout =
     (if py_strip command = [] then refuse ''No command provided'' else run_command env now command timeout)"

definition fetch_script :: "string \<Rightarrow> int \<Rightarrow> string" where
  "fetch_script url timeout =
     ''python3 -c '' @ [CHR 0x22] @ ''import urllib.request, sys; req = urllib.request.Request('' @ [CHR 0x27] @ url @ [CHR 0x27]
     @ '', headers={'' @ [CHR 0x27] @ ''User-Agent'' @ [CHR 0x27] @ '': '' @ [CHR 0x27] @ ''Vibe/1.0'' @ [CHR 0x27]
     @ ''}); r = urllib.request.urlopen(req, timeout='' @ str_int timeout @ ''); sys.stdout.buffer.write(r.read())'' @ [CHR 0x22]"

definition sandboxed_fetch :: "sandbox_env \<Rightarrow> real \<Rightarrow> string \<Rightarrow> int \<Rightarrow> sandbox_call" where
  "sandboxed_fetch env now url timeout =
     (if py_strip url = [] then refuse ''No URL provided''
      else if \<not> (prefix ''http://'' url \<or> prefix ''https://'' url) then refuse ''URL must start with http:// or https://''
      else run_command env now (fetch_script url timeout) (timeout + 5))"

text \<open>Bandit's report: the number of issues for each severity, which must be a text here. \<open>json_of\<close> is \<open>json.loads\<close>.\<close>

definition severity_flag :: "string \<Rightarrow> string" where
  "severity_flag level = dict_get_or [(''low'', ''l''), (''medium'', ''m''), (''high'', ''h'')] (py_lower level) ''m''"

definition severity_of :: "json \<Rightarrow> py_exn + string" where
  "severity_of issue = res_bind (json_get issue ''issue_severity'' (JStr ''UNKNOWN'')) (\<lambda>v.
     case v of JStr s \<Rightarrow> Inr s | _ \<Rightarrow> Inl (OtherError ''TypeError'' ''severity is no text''))"

definition count_severities :: "string list \<Rightarrow> (string, int) py_dict" where
  "count_severities = foldl (\<lambda>d s. dict_set s (dict_get_or d s 0 + 1) d) []"

definition bandit_summary :: "(string, int) py_dict \<Rightarrow> nat \<Rightarrow> string" where
  "bandit_summary counts n =
     (if n = 0 then ''No issues found''
      else ''Found '' @ str_nat n @ '' issue(s): ''
        @ join_with '', '' (map (\<lambda>s. str_int (dict_get_or counts s 0) @ '' '' @ s) (sort_texts (map fst counts))))"

definition bandit_result :: "(string \<Rightarrow> json option) \<Rightarrow> tool_result \<Rightarrow> py_exn + tool_result" where
  "bandit_result json_of r =
     (if tr_output r = [] then Inr r
      else case json_of (tr_output r) of
        None \<Rightarrow> Inr r
      | Some findings \<Rightarrow>
          res_bind (json_get findings ''results'' (JArr [])) (\<lambda>v. res_bind (json_items v) (\<lambda>issues. res_bind (res_map severity_of issues) (\<lambda>ss.
            Inr (success (bandit_summary (count_severities ss) (length issues) @ nl @ nl @ tr_output r)
              [(''issue_count'', JInt (int (length issues))),
               (''severity_counts'', JObj (map (\<lambda>(k, n). (k, JInt n)) (count_severities ss))), (''sandboxed'', JBool True)])))))"

definition sandboxed_bandit :: "(string \<Rightarrow> json option) \<Rightarrow> sandbox_env \<Rightarrow> real \<Rightarrow> string \<Rightarrow> string \<Rightarrow> sandbox_call" where
  "sandboxed_bandit json_of env now target level p =
     (if py_strip target = [] then refuse ''No target specified'' p
      else case run_command env now (''bandit -r -f json -ll -'' @ severity_flag level @ '' '' @ target) 30 p of
        (Inl e, p1) \<Rightarrow> (Inl e, p1)
      | (Inr r, p1) \<Rightarrow> (bandit_result json_of r, p1))"

section \<open>The pool as a whole\<close>

text \<open>The pool with the containers its workers hold. A worker acquires or releases; the maintenance recycles or replenishes; the process starts and stops
  the pool. Each step has its clock.\<close>

datatype pool_event = Start bool real | Acquire real | Release nat | Recycle real | Replenish real | Stop

fun pool_step :: "sandbox_env \<Rightarrow> pool_event \<Rightarrow> sandbox_pool \<times> nat list \<Rightarrow> sandbox_pool \<times> nat list" where
  "pool_step env (Start lazy now) (p, held) = (snd (start_sandboxes env lazy now p), held)"
| "pool_step env (Acquire now) (p, held) =
     (case acquire_sandbox env now p of (Inl e, p1) \<Rightarrow> (p1, held) | (Inr h, p1) \<Rightarrow> (p1, held @ [h]))"
| "pool_step env (Release h) (p, held) = (if h \<in> set held then (release_sandbox h p, remove1 h held) else (p, held))"
| "pool_step env (Recycle now) (p, held) = (recycle_expired env now p, held)"
| "pool_step env (Replenish now) (p, held) = (replenish_pool env now p, held)"
| "pool_step env Stop (p, held) = (stop_sandboxes p, held)"

text \<open>Every container is idle, held or killed, at one place only, and the tracked ones are those that were made and not killed.\<close>

definition killed :: "sandbox_pool \<Rightarrow> nat set" where
  "killed p = {h. Killed h \<in> set (sp_log p)}"

definition pool_ok :: "sandbox_pool \<times> nat list \<Rightarrow> bool" where
  "pool_ok s = (case s of (p, held) \<Rightarrow>
     distinct (sp_idle p @ held) \<and> (\<forall>h \<in> set (sp_idle p @ held). h < sp_made p)
     \<and> (\<forall>h < sp_made p. h \<in> set (sp_all p) \<or> h \<in> killed p))"

lemma pool_simps [simp]:
  "sp_idle (kill_sandbox h p) = sp_idle p" "sp_all (kill_sandbox h p) = sp_all p" "sp_made (kill_sandbox h p) = sp_made p"
  "sp_born (kill_sandbox h p) = sp_born p" "killed (kill_sandbox h p) = insert h (killed p)" "sp_stopped (kill_sandbox h p) = sp_stopped p"
  "sp_idle (put_idle h p) = sp_idle p @ [h]" "sp_all (put_idle h p) = sp_all p" "sp_made (put_idle h p) = sp_made p"
  "killed (put_idle h p) = killed p" "sp_born (put_idle h p) = sp_born p"
  "sp_idle (track h p) = sp_idle p" "sp_all (track h p) = sp_all p @ [h]" "sp_made (track h p) = sp_made p"
  "killed (track h p) = killed p" "sp_born (track h p) = sp_born p"
  "sp_idle (untrack h p) = sp_idle p" "sp_all (untrack h p) = remove1 h (sp_all p)" "sp_made (untrack h p) = sp_made p"
  "killed (untrack h p) = killed p" "sp_born (untrack h p) = sp_born p"
  by (auto simp: kill_sandbox_def sdk_log_def put_idle_def track_def untrack_def sp_made_def killed_def)

lemma create_sandbox_cases:
  assumes "create_sandbox env now p = (r, p')"
  obtains (fails) e where "r = Inl e" "sp_idle p' = sp_idle p" "sp_all p' = sp_all p" "sp_made p' = sp_made p" "killed p' = killed p"
      "sp_stopped p' = sp_stopped p"
  | (made) "r = Inr (sp_made p)" "sp_idle p' = sp_idle p" "sp_all p' = sp_all p" "sp_made p' = Suc (sp_made p)" "killed p' = killed p"
      "sp_stopped p' = sp_stopped p"
  using assms by (auto simp: create_sandbox_def sdk_log_def sp_made_def killed_def Let_def split: sum.splits)

lemma pool_update_simps [simp]:
  "sp_made (p\<lparr>sp_idle := hs\<rparr>) = sp_made p" "killed (p\<lparr>sp_idle := hs\<rparr>) = killed p"
  "sp_made (p\<lparr>sp_warmed := b\<rparr>) = sp_made p" "killed (p\<lparr>sp_warmed := b\<rparr>) = killed p"
  "sp_made (p\<lparr>sp_started := b\<rparr>) = sp_made p" "killed (p\<lparr>sp_started := b\<rparr>) = killed p"
  "sp_made (p\<lparr>sp_stopped := b\<rparr>) = sp_made p" "killed (p\<lparr>sp_stopped := b\<rparr>) = killed p"
  "sp_made (p\<lparr>sp_all := hs\<rparr>) = sp_made p" "killed (p\<lparr>sp_all := hs\<rparr>) = killed p"
  by (simp_all add: sp_made_def killed_def)

text \<open>A container more, idle or held; one less.\<close>

lemma kept_by_remove1: "x \<in> set xs \<Longrightarrow> x \<noteq> h \<Longrightarrow> x \<in> set (remove1 h xs)"
  by (simp add: in_set_remove1)

lemma pool_ok_made:
  assumes "pool_ok (p, held)" and "create_sandbox env now p = (Inr h, p1)"
  shows "pool_ok (track h (put_idle h p1), held)" "pool_ok (track h p1, held @ [h])"
  using assms(2) by (rule create_sandbox_cases; use assms(1) in \<open>auto simp: pool_ok_def less_Suc_eq\<close>)+

lemma pool_ok_failed:
  assumes "pool_ok (p, held)" and "create_sandbox env now p = (Inl e, p1)"
  shows "pool_ok (p1, held)"
  using assms(2) by (rule create_sandbox_cases) (use assms(1) in \<open>auto simp: pool_ok_def\<close>)

lemma pool_ok_taken:
  assumes "pool_ok (p, held)" and "sp_idle p = h # hs"
  shows "pool_ok (untrack h (kill_sandbox h (p\<lparr>sp_idle := hs\<rparr>)), held)" "pool_ok (p\<lparr>sp_idle := hs\<rparr>, held @ [h])"
  using assms by (auto simp: pool_ok_def intro: kept_by_remove1)

lemma pool_ok_warm_up: "pool_ok (p, held) \<Longrightarrow> pool_ok (warm_up env now n p, held)"
  by (induction n arbitrary: p) (auto split: prod.splits sum.splits intro: pool_ok_made(1) pool_ok_failed)

lemma pool_ok_flags: "pool_ok (p\<lparr>sp_warmed := b\<rparr>, held) = pool_ok (p, held)" "pool_ok (p\<lparr>sp_started := b\<rparr>, held) = pool_ok (p, held)"
  by (simp_all add: pool_ok_def)

lemma pool_ok_warm_pool: "pool_ok (p, held) \<Longrightarrow> pool_ok (warm_pool env now p, held)"
  by (simp add: warm_pool_def pool_ok_warm_up pool_ok_flags)

lemma pool_ok_replenish: "pool_ok (p, held) \<Longrightarrow> pool_ok (replenish env now n p, held)"
  by (induction n arbitrary: p) (auto split: prod.splits sum.splits intro: pool_ok_made(1) pool_ok_failed)

text \<open>How an acquisition ends: with an idle container, with one just made (the idle one that expired is killed), or not at all.\<close>

lemma pool_ok_fresh:
  assumes "pool_ok (p, held)"
    and "(case create_sandbox env now p of (Inl e, p1) \<Rightarrow> (Inl e, p1) | (Inr h, p1) \<Rightarrow> (Inr h, track h p1)) = (r, p')"
  shows "pool_ok (p', held @ (case r of Inl e \<Rightarrow> [] | Inr h \<Rightarrow> [h]))"
  using assms pool_ok_made(2) [OF assms(1)] pool_ok_failed [OF assms(1)]
  by (cases "create_sandbox env now p"; cases "fst (create_sandbox env now p)") auto

lemma pool_ok_acquire:
  assumes "pool_ok (p, held)" and "acquire_sandbox env now p = (r, p')"
  shows "pool_ok (p', held @ (case r of Inl e \<Rightarrow> [] | Inr h \<Rightarrow> [h]))"
proof -
  let ?q = "warm_pool env now p"
  have q: "pool_ok (?q, held)" using assms(1) by (rule pool_ok_warm_pool)
  show ?thesis
  proof (cases "sp_idle ?q")
    case Nil
    then show ?thesis using assms(2) pool_ok_fresh [OF q] by (simp add: acquire_sandbox_def Let_def)
  next
    case (Cons h hs)
    show ?thesis
    proof (cases "sandbox_expired env now ?q h")
      case True
      then show ?thesis using assms(2) Cons pool_ok_fresh [OF pool_ok_taken(1) [OF q Cons]] by (simp add: acquire_sandbox_def Let_def)
    next
      case False
      then show ?thesis using assms(2) Cons pool_ok_taken(2) [OF q Cons] by (auto simp: acquire_sandbox_def Let_def)
    qed
  qed
qed

lemma pool_ok_release:
  assumes "pool_ok (p, held)" and "h \<in> set held"
  shows "pool_ok (release_sandbox h p, remove1 h held)"
proof -
  have "distinct (remove1 h held) \<and> set (remove1 h held) = set held - {h}" using assms by (simp add: pool_ok_def distinct_remove1)
  then show ?thesis using assms by (auto simp: pool_ok_def release_sandbox_def)
qed

lemma fold_put_idle: "sp_idle (fold put_idle hs p) = sp_idle p @ hs \<and> sp_all (fold put_idle hs p) = sp_all p
    \<and> sp_made (fold put_idle hs p) = sp_made p \<and> killed (fold put_idle hs p) = killed p"
  by (induction hs arbitrary: p) simp_all

lemma fold_retire:
  "sp_idle (fold (\<lambda>h p. untrack h (kill_sandbox h p)) hs p) = sp_idle p
   \<and> sp_made (fold (\<lambda>h p. untrack h (kill_sandbox h p)) hs p) = sp_made p
   \<and> killed (fold (\<lambda>h p. untrack h (kill_sandbox h p)) hs p) = killed p \<union> set hs
   \<and> set (sp_all p) - set hs \<subseteq> set (sp_all (fold (\<lambda>h p. untrack h (kill_sandbox h p)) hs p))"
proof (induction hs arbitrary: p)
  case (Cons h hs)
  have "set (sp_all p) - {h} \<subseteq> set (remove1 h (sp_all p))" by (auto intro: kept_by_remove1)
  then show ?case using Cons [of "untrack h (kill_sandbox h p)"] by auto
qed simp

lemma pool_ok_recycle:
  assumes "pool_ok (p, held)"
  shows "pool_ok (recycle_expired env now p, held)"
proof -
  let ?x = "sandbox_expired env now p"
  let ?r = "fold (\<lambda>h p. untrack h (kill_sandbox h p)) (filter ?x (sp_idle p)) (p\<lparr>sp_idle := []\<rparr>)"
  have i: "sp_idle (recycle_expired env now p) = filter (\<lambda>h. \<not> ?x h) (sp_idle p)"
    and a: "sp_all (recycle_expired env now p) = sp_all ?r" and m: "sp_made (recycle_expired env now p) = sp_made p"
    and k: "killed (recycle_expired env now p) = killed p \<union> set (filter ?x (sp_idle p))"
    using fold_retire [of "filter ?x (sp_idle p)" "p\<lparr>sp_idle := []\<rparr>"] fold_put_idle [of "filter (\<lambda>h. \<not> ?x h) (sp_idle p)" ?r]
    by (simp_all add: recycle_expired_def Let_def)
  have "set (sp_all p) - set (filter ?x (sp_idle p)) \<subseteq> set (sp_all ?r)"
    using fold_retire [of "filter ?x (sp_idle p)" "p\<lparr>sp_idle := []\<rparr>"] by simp
  then show ?thesis using assms unfolding pool_ok_def by (auto simp: i a m k)
qed

lemma fold_kill: "sp_idle (fold kill_sandbox hs p) = sp_idle p \<and> sp_all (fold kill_sandbox hs p) = sp_all p
    \<and> sp_made (fold kill_sandbox hs p) = sp_made p \<and> killed (fold kill_sandbox hs p) = killed p \<union> set hs"
  by (induction hs arbitrary: p) auto

lemma pool_ok_stop:
  assumes "pool_ok (p, held)"
  shows "pool_ok (stop_sandboxes p, held)"
  using assms fold_kill [of "sp_all p" "p\<lparr>sp_stopped := True, sp_all := []\<rparr>"] by (auto simp: pool_ok_def stop_sandboxes_def)

lemma pool_ok_start: "pool_ok (p, held) \<Longrightarrow> pool_ok (snd (start_sandboxes env lazy now p), held)"
  by (simp add: start_sandboxes_def pool_ok_flags pool_ok_warm_pool)

lemma pool_step_ok: "pool_ok s \<Longrightarrow> pool_ok (pool_step env e s)"
  by (cases s; cases e)
     (auto simp: pool_ok_start pool_ok_release pool_ok_recycle pool_ok_replenish pool_ok_stop replenish_pool_def split: prod.splits sum.splits
       dest: pool_ok_acquire)

lemma pool_run_ok: "pool_ok (fold (pool_step env) es (new_sandbox_pool, []))"
proof -
  have "pool_ok s \<Longrightarrow> pool_ok (fold (pool_step env) es s)" for s by (induction es arbitrary: s) (simp_all add: pool_step_ok)
  then show ?thesis by (simp add: pool_ok_def new_sandbox_pool_def sp_made_def)
qed

text \<open>However the steps of the workers and the maintenance interleave, no container is held by two workers, none is idle while it is
  held, and every container that was made is tracked or was killed.\<close>

theorem no_sandbox_is_shared:
  "case fold (pool_step env) es (new_sandbox_pool, []) of (p, held) \<Rightarrow>
     distinct (sp_idle p @ held) \<and> (\<forall>h < sp_made p. h \<in> set (sp_all p) \<or> h \<in> killed p)"
  using pool_run_ok [of env es] by (auto simp: pool_ok_def split: prod.splits)

text \<open>The end of the process kills every container there is, also those workers still hold.\<close>

theorem stop_leaves_no_sandbox:
  assumes "fold (pool_step env) es (new_sandbox_pool, []) = (p, held)" and "sp_started p"
  shows "\<forall>h < sp_made (stop_sandboxes p). h \<in> killed (stop_sandboxes p)"
proof -
  have "pool_ok (p, held)" using pool_run_ok [of env es] assms(1) by simp
  then show ?thesis using assms(2) fold_kill [of "sp_all p" "p\<lparr>sp_stopped := True, sp_all := []\<rparr>"]
    by (auto simp: pool_ok_def stop_sandboxes_def)
qed

section \<open>How many containers there are\<close>

fun most_held :: "sandbox_env \<Rightarrow> pool_event list \<Rightarrow> sandbox_pool \<times> nat list \<Rightarrow> nat" where
  "most_held env [] s = length (snd s)"
| "most_held env (e # es) s = max (length (snd s)) (most_held env es (pool_step env e s))"

definition target_size :: "sandbox_env \<Rightarrow> nat" where
  "target_size env = nat (sx_pool_size (sv_config env))"

lemma warmed_simps [simp]:
  "sp_warmed (kill_sandbox h p) = sp_warmed p" "sp_warmed (put_idle h p) = sp_warmed p" "sp_warmed (track h p) = sp_warmed p"
  "sp_warmed (untrack h p) = sp_warmed p"
  by (simp_all add: kill_sandbox_def sdk_log_def put_idle_def track_def untrack_def)

lemma create_sandbox_keeps:
  assumes "create_sandbox env now p = (r, p1)"
  shows "sp_idle p1 = sp_idle p" "sp_warmed p1 = sp_warmed p"
  using assms by (auto simp: create_sandbox_def sdk_log_def Let_def split: sum.splits)

lemma warm_up_size: "length (sp_idle (warm_up env now n p)) \<le> length (sp_idle p) + n \<and> sp_warmed (warm_up env now n p) = sp_warmed p"
proof (induction n arbitrary: p)
  case (Suc n)
  obtain r p1 where c: "create_sandbox env now p = (r, p1)" by fastforce
  show ?case using Suc [of p1] Suc [of "track (projr r) (put_idle (projr r) p1)"] create_sandbox_keeps [OF c] c by (cases r) auto
qed simp

lemma replenish_size: "length (sp_idle (replenish env now n p)) \<le> length (sp_idle p) + n \<and> sp_warmed (replenish env now n p) = sp_warmed p"
proof (induction n arbitrary: p)
  case (Suc n)
  obtain r p1 where c: "create_sandbox env now p = (r, p1)" by fastforce
  show ?case using Suc [of "track (projr r) (put_idle (projr r) p1)"] create_sandbox_keeps [OF c] c by (cases r) auto
qed simp

lemma warm_pool_size:
  "sp_warmed (warm_pool env now p)"
  "length (sp_idle (warm_pool env now p)) \<le> length (sp_idle p) + (if sp_warmed p then 0 else target_size env)"
  using warm_up_size [of env now "target_size env" "p\<lparr>sp_warmed := True\<rparr>"] by (auto simp: warm_pool_def target_size_def)

text \<open>Before the pool was warmed nothing is held.\<close>

definition size_ok :: "sandbox_env \<Rightarrow> nat \<Rightarrow> sandbox_pool \<times> nat list \<Rightarrow> bool" where
  "size_ok env most s = (case s of (p, held) \<Rightarrow>
     if sp_warmed p then length (sp_idle p) + length held \<le> 2 * target_size env + most
     else length (sp_idle p) \<le> target_size env \<and> held = [])"

lemma size_ok_acquire:
  assumes "size_ok env most (p, held)" and "acquire_sandbox env now p = (r, p')"
    and "length (held @ (case r of Inl e \<Rightarrow> [] | Inr h \<Rightarrow> [h])) \<le> most"
  shows "size_ok env most (p', held @ (case r of Inl e \<Rightarrow> [] | Inr h \<Rightarrow> [h]))"
proof -
  let ?q = "warm_pool env now p"
  let ?m = "case r of Inl e \<Rightarrow> [] | Inr h \<Rightarrow> [h]"
  have q: "length (sp_idle ?q) + length held \<le> 2 * target_size env + most"
    using assms(1) warm_pool_size(2) [of env now p] by (auto simp: size_ok_def split: if_splits)
  have fresh: "sp_idle p' = sp_idle x \<and> sp_warmed p' = sp_warmed x"
    if "(case create_sandbox env now x of (Inl e, p1) \<Rightarrow> (Inl e, p1) | (Inr h, p1) \<Rightarrow> (Inr h, track h p1)) = (r, p')" for x
  proof -
    obtain r0 p1 where c: "create_sandbox env now x = (r0, p1)" by fastforce
    show ?thesis using that create_sandbox_keeps [OF c] c by (cases r0) auto
  qed
  show ?thesis
  proof (cases "sp_idle ?q")
    case Nil
    then have "sp_idle p' = [] \<and> sp_warmed p'" using assms(2) fresh [of ?q] warm_pool_size(1) [of env now p]
      by (simp add: acquire_sandbox_def Let_def)
    then show ?thesis using assms(3) by (simp add: size_ok_def)
  next
    case (Cons h hs)
    have "sp_idle p' = hs \<and> sp_warmed p'"
    proof (cases "sandbox_expired env now ?q h")
      case True
      then show ?thesis using assms(2) Cons fresh [of "untrack h (kill_sandbox h (?q\<lparr>sp_idle := hs\<rparr>))"] warm_pool_size(1) [of env now p]
        by (simp add: acquire_sandbox_def Let_def)
    next
      case False
      then show ?thesis using assms(2) Cons warm_pool_size(1) [of env now p] by (auto simp: acquire_sandbox_def Let_def)
    qed
    moreover have "length ?m \<le> 1" by (simp split: sum.split)
    ultimately show ?thesis using q Cons by (simp add: size_ok_def)
  qed
qed

lemma size_ok_smaller:
  assumes "size_ok env most (p, held)" and "length (sp_idle p') + length held' \<le> length (sp_idle p) + length held"
    and "sp_warmed p' = sp_warmed p" and "length held' \<le> length held"
  shows "size_ok env most (p', held')"
  using assms by (auto simp: size_ok_def split: if_splits)

lemma recycle_size: "length (sp_idle (recycle_expired env now p)) \<le> length (sp_idle p) \<and> sp_warmed (recycle_expired env now p) = sp_warmed p"
proof -
  have w: "sp_warmed (fold put_idle hs q) = sp_warmed q" "sp_warmed (fold (\<lambda>h p. untrack h (kill_sandbox h p)) hs q) = sp_warmed q" for hs q
    by (induction hs arbitrary: q) simp_all
  show ?thesis
    using fold_put_idle [of "filter (\<lambda>h. \<not> sandbox_expired env now p h) (sp_idle p)"]
      fold_retire [of "filter (sandbox_expired env now p) (sp_idle p)" "p\<lparr>sp_idle := []\<rparr>"]
    by (simp add: recycle_expired_def Let_def w)
qed

lemma stop_size: "length (sp_idle (stop_sandboxes p)) \<le> length (sp_idle p) \<and> sp_warmed (stop_sandboxes p) = sp_warmed p"
proof -
  have "sp_warmed (fold kill_sandbox hs q) = sp_warmed q" for hs q by (induction hs arbitrary: q) simp_all
  then show ?thesis by (simp add: stop_sandboxes_def)
qed

lemma size_ok_step:
  assumes "size_ok env most s" and "length (snd (pool_step env e s)) \<le> most"
  shows "size_ok env most (pool_step env e s)"
proof -
  obtain p held where s: "s = (p, held)" by (cases s)
  show ?thesis
  proof (cases e)
    case (Start lazy now)
    have "length held \<le> most" using assms(2) Start s by simp
    then show ?thesis using assms(1) Start s warm_pool_size [of env now p]
      by (auto simp: start_sandboxes_def size_ok_def split: if_splits)
  next
    case (Acquire now)
    obtain r p' where a: "acquire_sandbox env now p = (r, p')" by fastforce
    then have st: "pool_step env e s = (p', held @ (case r of Inl e \<Rightarrow> [] | Inr h \<Rightarrow> [h]))" using Acquire s by (simp split: sum.split)
    show ?thesis unfolding st by (rule size_ok_acquire [OF assms(1) [unfolded s] a]) (use assms(2) in \<open>simp add: st\<close>)
  next
    case (Release h)
    show ?thesis
    proof (cases "h \<in> set held")
      case True
      then have "length (remove1 h held) = length held - 1" "0 < length held" by (auto simp: length_remove1)
      then show ?thesis using True Release s assms(1)
        by (auto intro!: size_ok_smaller [of env most p held] simp: release_sandbox_def)
    qed (use Release s assms(1) in simp)
  next
    case (Recycle now)
    then show ?thesis using s assms(1) recycle_size [of env now p] by (auto intro!: size_ok_smaller [of env most p held])
  next
    case (Replenish now)
    have "length held \<le> most" using assms(2) Replenish s by simp
    then show ?thesis using Replenish s assms(1) replenish_size [of env now "nat (sx_pool_size (sv_config env) - int (length (sp_idle p)))" p]
      by (auto simp: size_ok_def replenish_pool_def target_size_def split: if_splits)
  next
    case Stop
    then show ?thesis using s assms(1) stop_size [of p] by (auto intro!: size_ok_smaller [of env most p held])
  qed
qed

text \<open>There are never more containers than twice the size of the pool and the most that were held at once.\<close>

theorem sandboxes_are_bounded:
  "case fold (pool_step env) es (new_sandbox_pool, []) of (p, held) \<Rightarrow>
     length (sp_idle p) + length held \<le> 2 * target_size env + most_held env es (new_sandbox_pool, [])"
proof -
  have h: "length (snd s) \<le> most_held env es s" for es s by (cases es) auto
  have "size_ok env most s \<Longrightarrow> most_held env es s \<le> most \<Longrightarrow> size_ok env most (fold (pool_step env) es s)" for s most
  proof (induction es arbitrary: s)
    case (Cons e es)
    have "length (snd (pool_step env e s)) \<le> most" using Cons.prems(2) h [of "pool_step env e s" es] by simp
    then show ?case using Cons size_ok_step by simp
  qed simp
  moreover have "size_ok env most (new_sandbox_pool, [])" for most by (simp add: size_ok_def new_sandbox_pool_def)
  ultimately have "size_ok env (most_held env es (new_sandbox_pool, [])) (fold (pool_step env) es (new_sandbox_pool, []))" by blast
  then show ?thesis by (auto simp: size_ok_def split: prod.splits if_splits)
qed

definition sample_sandboxes :: sandbox_env where
  "sample_sandboxes = \<lparr>sv_config = default_sandbox, sv_sdk = True, sv_create = (\<lambda>k. Inr (''s'' @ str_nat k)), sv_write = (\<lambda>_. None),
     sv_run = (\<lambda>_. Inr \<lparr>rr_exit = 0, rr_stdout = ''ok'', rr_stderr = []\<rparr>), sv_hex = (\<lambda>k. ''0123456789'')\<rparr>"

text \<open>A pool that is warmed at its first use has twice its size when the maintenance ran before: it fills the pool, and the first worker
  fills it again.\<close>

theorem lazy_pool_is_filled_twice:
  "length (sp_idle (fst (fold (pool_step sample_sandboxes) [Start True 0, Replenish 30] (new_sandbox_pool, [])))) = 2
   \<and> length (sp_idle (fst (fold (pool_step sample_sandboxes) [Start True 0, Replenish 30, Acquire 31, Release 0] (new_sandbox_pool, [])))) = 4"
  by (simp add: sample_sandboxes_def default_sandbox_def new_sandbox_pool_def start_sandboxes_def replenish_pool_def acquire_sandbox_def warm_pool_def
      create_sandbox_def sdk_log_def put_idle_def track_def sp_made_def sandbox_expired_def sandbox_age_def release_sandbox_def numeral_2_eq_2)

theorem stop_leaves_no_sandbox_witness:
  "\<exists>p held. fold (pool_step sample_sandboxes) [Start False 0, Acquire 1] (new_sandbox_pool, []) = (p, held) \<and> held = [0]
    \<and> sp_made (stop_sandboxes p) = 2 \<and> (\<forall>h < sp_made (stop_sandboxes p). h \<in> killed (stop_sandboxes p))"
proof -
  obtain p held where run: "fold (pool_step sample_sandboxes) [Start False 0, Acquire 1] (new_sandbox_pool, []) = (p, held)" by fastforce
  have "sp_started p \<and> held = [0] \<and> sp_made (stop_sandboxes p) = 2" using run
    by (auto simp: sample_sandboxes_def default_sandbox_def new_sandbox_pool_def start_sandboxes_def acquire_sandbox_def warm_pool_def stop_sandboxes_def
      create_sandbox_def sdk_log_def put_idle_def track_def sp_made_def sandbox_expired_def sandbox_age_def kill_sandbox_def numeral_2_eq_2)
  then show ?thesis using stop_leaves_no_sandbox [OF run] run by blast
qed

section \<open>The tools and the pool\<close>

lemma pool_ok_log: "pool_ok (sdk_log (Ran h c t) p, held) = pool_ok (p, held)" "pool_ok (sdk_log (Wrote h c x) p, held) = pool_ok (p, held)"
  by (simp_all add: pool_ok_def sdk_log_def sp_made_def killed_def)

lemma sdk_run_pool: "snd (sdk_run env what h command timeout p) = sdk_log (Ran h command timeout) p"
  by (simp add: sdk_run_def Let_def)

text \<open>A tool gives its container back, whatever the command did: after a call the same containers are held as before.\<close>

theorem tools_give_their_sandbox_back:
  assumes "pool_ok (p, held)"
  shows "pool_ok (snd (run_command env now command timeout p), held) \<and> pool_ok (snd (execute_in_sandbox env now code timeout p), held)"
proof -
  obtain r p1 where a: "acquire_sandbox env now p = (r, p1)" by fastforce
  show ?thesis
  proof (cases r)
    case (Inl e)
    then show ?thesis using a pool_ok_acquire [OF assms a] by (simp add: run_command_def execute_in_sandbox_def)
  next
    case (Inr h)
    have ok: "pool_ok (p1, held @ [h])" using pool_ok_acquire [OF assms a] Inr by simp
    then have "h \<notin> set held" by (auto simp: pool_ok_def)
    then have given: "pool_ok (q, held @ [h]) \<Longrightarrow> pool_ok (release_sandbox h q, held)" for q
      using pool_ok_release [of q "held @ [h]" h] by (simp add: remove1_append)
    then show ?thesis using a Inr ok
      by (auto simp: run_command_def execute_in_sandbox_def Let_def pool_ok_log sdk_run_def split: option.split intro!: given)
  qed
qed

theorem tools_give_their_sandbox_back_witness:
  "pool_ok (snd (run_command sample_sandboxes 1 ''ls'' 30 new_sandbox_pool), [])"
  using tools_give_their_sandbox_back [of new_sandbox_pool "[]" sample_sandboxes 1 "''ls''" 30] by (simp add: pool_ok_def new_sandbox_pool_def sp_made_def)

end
