(* ===== verification/System_Config.thy ===== *)
theory System_Config
  imports Sandbox Model_Backends Skill_Remote Api_Keys
begin

text \<open>
  \<^verbatim>\<open>agents/config.py\<close>: the configuration of the system with its defaults, and what the environment changes of it. The environment is
  a function of the name of a variable; \<open>to_float\<close> is \<open>float\<close> of a text. The parameters of generation for each task are in \<open>Adapters\<close>,
  the sources of skills in \<open>Skill_Remote\<close>, the configuration of the sandbox in \<open>Sandbox\<close>.
\<close>

section \<open>The parts\<close>

record workflow_config =
  wc_max_iterations :: int
  wc_quality_threshold :: int
  wc_node_timeout :: int
  wc_workflow_timeout :: int
  wc_llm_max_retries :: int
  wc_llm_base_delay :: real
  wc_max_workers :: int
  wc_subtask_timeout :: int

definition default_workflow :: workflow_config where
  "default_workflow = \<lparr>wc_max_iterations = 3, wc_quality_threshold = 85, wc_node_timeout = 120, wc_workflow_timeout = 600,
     wc_llm_max_retries = 3, wc_llm_base_delay = 1, wc_max_workers = 4, wc_subtask_timeout = 300\<rparr>"

record skills_config =
  kc_sources :: "skill_source list"
  kc_remote :: bool
  kc_scan_scripts :: bool
  kc_execute_scripts :: bool

definition default_skills :: skills_config where
  "default_skills = \<lparr>kc_sources = DEFAULT_SOURCES, kc_remote = True, kc_scan_scripts = True, kc_execute_scripts = True\<rparr>"

record cache_config =
  cc_enabled :: bool
  cc_max_entries :: int
  cc_ttl :: int
  cc_min_score :: int
  cc_db_path :: "string option"

definition default_cache :: cache_config where
  "default_cache = \<lparr>cc_enabled = True, cc_max_entries = 1000, cc_ttl = 3600, cc_min_score = 70, cc_db_path = None\<rparr>"

record spending_config =
  sg_enabled :: bool
  sg_window_seconds :: int
  sg_max_cents :: int
  sg_max_heartbeats :: int
  sg_max_consecutive :: int
  sg_cooldown :: int
  sg_max_cooldown :: int
  sg_db_path :: "string option"
  sg_retention_days :: int

definition default_spending :: spending_config where
  "default_spending = \<lparr>sg_enabled = True, sg_window_seconds = 3600, sg_max_cents = 500, sg_max_heartbeats = 30, sg_max_consecutive = 10,
     sg_cooldown = 300, sg_max_cooldown = 7200, sg_db_path = None, sg_retention_days = 30\<rparr>"

record pool_config =
  pl_strategy :: string
  pl_max_failures :: int
  pl_recovery :: int
  pl_fallbacks :: "string list"
  pl_fallback_type :: string

definition default_pool :: pool_config where
  "default_pool = \<lparr>pl_strategy = ''failover'', pl_max_failures = 3, pl_recovery = 60, pl_fallbacks = [], pl_fallback_type = ''vllm''\<rparr>"

record storage_config =
  gc_storage :: string
  gc_cache :: string
  gc_database_url :: string
  gc_redis_url :: string

definition default_storage :: storage_config where
  "default_storage = \<lparr>gc_storage = ''sqlite'', gc_cache = ''memory'', gc_database_url = [], gc_redis_url = []\<rparr>"

record messages_config =
  mc_enabled :: bool
  mc_path :: string
  mc_max_messages :: int
  mc_ttl :: int
  mc_cleanup :: bool
  mc_backfill :: bool
  mc_batch :: int

definition default_messages :: messages_config where
  "default_messages = \<lparr>mc_enabled = False, mc_path = [], mc_max_messages = 5000, mc_ttl = 604800, mc_cleanup = True, mc_backfill = True, mc_batch = 50\<rparr>"

record paperclip_config =
  pp_enabled :: bool
  pp_api_url :: string
  pp_api_key :: string
  pp_task_type :: string
  pp_cost_reporting :: bool
  pp_output_format :: string
  pp_max_children :: int
  pp_retry_failed :: bool
  pp_max_retries :: int
  pp_skip_fast :: bool
  pp_poll_timeout :: int

definition default_paperclip :: paperclip_config where
  "default_paperclip = \<lparr>pp_enabled = False, pp_api_url = [], pp_api_key = [], pp_task_type = [], pp_cost_reporting = True,
     pp_output_format = ''json'', pp_max_children = 5, pp_retry_failed = True, pp_max_retries = 1, pp_skip_fast = True, pp_poll_timeout = 300\<rparr>"

record scheduling_config =
  hs_max_agents :: int
  hs_interval :: int
  hs_agent_timeout :: int
  hs_disabled :: "string list"
  hs_pressure :: int
  hs_resume :: int
  hs_reserve_gb :: int
  hs_slot_gb :: real
  hs_crashes :: int
  hs_backoff_base :: int
  hs_backoff_max :: int
  hs_instructions :: string
  hs_overrides :: string

definition default_scheduling :: scheduling_config where
  "default_scheduling = \<lparr>hs_max_agents = 0, hs_interval = 30, hs_agent_timeout = 600, hs_disabled = [], hs_pressure = 90, hs_resume = 80,
     hs_reserve_gb = 10, hs_slot_gb = 3 / 2, hs_crashes = 3, hs_backoff_base = 5, hs_backoff_max = 60,
     hs_instructions = ''/opt/vibe/instructions'', hs_overrides = ''/opt/vibe/overrides''\<rparr>"

text \<open>\<open>int(os.environ.get(k, default))\<close>: an empty variable is no integer.\<close>

definition int_or :: "(string \<Rightarrow> string option) \<Rightarrow> string \<Rightarrow> int \<Rightarrow> py_exn + int" where
  "int_or getenv k d = (case getenv k of None \<Rightarrow> Inr d | Some v \<Rightarrow> py_int v)"

definition scheduling_from_env :: "(string \<Rightarrow> py_exn + real) \<Rightarrow> (string \<Rightarrow> string option) \<Rightarrow> py_exn + scheduling_config" where
  "scheduling_from_env to_float getenv =
     res_bind (int_or getenv ''VIBE_MAX_CONCURRENT_AGENTS'' 0) (\<lambda>agents.
     res_bind (int_or getenv ''VIBE_SCHEDULER_INTERVAL'' 30) (\<lambda>interval.
     res_bind (int_or getenv ''VIBE_AGENT_TIMEOUT'' 600) (\<lambda>timeout.
     res_bind (int_or getenv ''VIBE_MEMORY_PRESSURE_THRESHOLD'' 90) (\<lambda>pressure.
     res_bind (int_or getenv ''VIBE_MEMORY_PRESSURE_RESUME'' 80) (\<lambda>resume.
     res_bind (int_or getenv ''VIBE_INFRA_RESERVE_GB'' 10) (\<lambda>reserve.
     res_bind (case getenv ''VIBE_SLOT_COST_GB'' of None \<Rightarrow> Inr (3 / 2) | Some v \<Rightarrow> to_float v) (\<lambda>slot.
       Inr (default_scheduling\<lparr>hs_max_agents := agents, hs_interval := interval, hs_agent_timeout := timeout,
         hs_disabled := listed (CHR '','') (case getenv ''VIBE_DISABLED_AGENTS'' of None \<Rightarrow> [] | Some v \<Rightarrow> v),
         hs_pressure := pressure, hs_resume := resume, hs_reserve_gb := reserve, hs_slot_gb := slot\<rparr>))))))))"

record upgrade_config =
  up_enabled :: bool
  up_min_score :: int
  up_max_diff :: int
  up_branch :: string
  up_triage_user :: string

definition default_upgrade :: upgrade_config where
  "default_upgrade = \<lparr>up_enabled = True, up_min_score = 90, up_max_diff = 500, up_branch = ''vibe/self-upgrade'', up_triage_user = []\<rparr>"

section \<open>The whole\<close>

record system_config =
  sy_model :: string
  sy_backend :: string
  sy_workflow :: workflow_config
  sy_mattermost :: mattermost_config
  sy_skills :: skills_config
  sy_sandbox :: sandbox_config
  sy_paperclip :: paperclip_config
  sy_cache :: cache_config
  sy_spending :: spending_config
  sy_messages :: messages_config
  sy_pool :: pool_config
  sy_storage :: storage_config
  sy_upgrade :: upgrade_config
  sy_scheduling :: scheduling_config
  sy_log_level :: string
  sy_log_file :: "string option"
  sy_dev_mode :: bool

text \<open>The factories of the defaults read the environment for Mattermost.\<close>

definition default_mattermost :: "(string \<Rightarrow> string option) \<Rightarrow> mattermost_config" where
  "default_mattermost getenv = \<lparr>mt_enabled = False, mt_webhook_url = getenv ''MATTERMOST_WEBHOOK_URL'', mt_default_channel = ''ai-outputs'',
     mt_username = ''Vibe Multi-Agent System'', mt_bot_enabled = False, mt_bot_token = getenv ''MATTERMOST_BOT_TOKEN'', mt_url = getenv ''MATTERMOST_URL''\<rparr>"

definition default_config :: "(string \<Rightarrow> string option) \<Rightarrow> system_config" where
  "default_config getenv = \<lparr>sy_model = ''Qwen/Qwen3.5-9B'', sy_backend = ''vllm'', sy_workflow = default_workflow,
     sy_mattermost = default_mattermost getenv, sy_skills = default_skills, sy_sandbox = default_sandbox, sy_paperclip = default_paperclip,
     sy_cache = default_cache, sy_spending = default_spending, sy_messages = default_messages, sy_pool = default_pool,
     sy_storage = default_storage, sy_upgrade = default_upgrade, sy_scheduling = default_scheduling, sy_log_level = ''INFO'',
     sy_log_file = None, sy_dev_mode = False\<rparr>"

text \<open>One statement of \<open>from_env\<close>: a variable that is set and not empty, as a text or an integer; a variable that is set, as a flag.\<close>

type_synonym config_step = "system_config \<Rightarrow> py_exn + system_config"

definition given_text :: "(string \<Rightarrow> string option) \<Rightarrow> string \<Rightarrow> (string \<Rightarrow> system_config \<Rightarrow> system_config) \<Rightarrow> config_step" where
  "given_text getenv k put c = Inr (let v = or_text (getenv k) [] in if v = [] then c else put v c)"

definition given_int :: "(string \<Rightarrow> string option) \<Rightarrow> string \<Rightarrow> (int \<Rightarrow> system_config \<Rightarrow> system_config) \<Rightarrow> config_step" where
  "given_int getenv k put c = (let v = or_text (getenv k) [] in if v = [] then Inr c else res_bind (py_int v) (\<lambda>n. Inr (put n c)))"

definition set_flag :: "(string \<Rightarrow> string option) \<Rightarrow> string \<Rightarrow> (bool \<Rightarrow> system_config \<Rightarrow> system_config) \<Rightarrow> config_step" where
  "set_flag getenv k put c = Inr (case getenv k of None \<Rightarrow> c | Some v \<Rightarrow> put (py_lower v \<notin> {''false'', ''0'', ''no''}) c)"

definition env_is :: "(string \<Rightarrow> string option) \<Rightarrow> string \<Rightarrow> string \<Rightarrow> bool" where
  "env_is getenv k v = (py_lower (or_text (getenv k) []) = v)"

definition pool_fallbacks :: "string \<Rightarrow> string list" where
  "pool_fallbacks v = filter (\<lambda>u. u \<noteq> []) (map py_strip (split_on (CHR '','') v))"

definition spending_steps :: "(string \<Rightarrow> string option) \<Rightarrow> config_step list" where
  "spending_steps getenv =
     [\<lambda>c. Inr (if env_is getenv ''VIBE_SPEND_ENABLED'' ''false'' then c\<lparr>sy_spending := (sy_spending c)\<lparr>sg_enabled := False\<rparr>\<rparr> else c),
      given_int getenv ''VIBE_SPEND_WINDOW_SECONDS'' (\<lambda>n c. c\<lparr>sy_spending := (sy_spending c)\<lparr>sg_window_seconds := n\<rparr>\<rparr>),
      given_int getenv ''VIBE_SPEND_MAX_CENTS'' (\<lambda>n c. c\<lparr>sy_spending := (sy_spending c)\<lparr>sg_max_cents := n\<rparr>\<rparr>),
      given_int getenv ''VIBE_SPEND_MAX_HEARTBEATS'' (\<lambda>n c. c\<lparr>sy_spending := (sy_spending c)\<lparr>sg_max_heartbeats := n\<rparr>\<rparr>),
      given_int getenv ''VIBE_SPEND_MAX_CONSECUTIVE'' (\<lambda>n c. c\<lparr>sy_spending := (sy_spending c)\<lparr>sg_max_consecutive := n\<rparr>\<rparr>),
      given_int getenv ''VIBE_SPEND_COOLDOWN_SECONDS'' (\<lambda>n c. c\<lparr>sy_spending := (sy_spending c)\<lparr>sg_cooldown := n\<rparr>\<rparr>),
      given_int getenv ''VIBE_SPEND_MAX_COOLDOWN_SECONDS'' (\<lambda>n c. c\<lparr>sy_spending := (sy_spending c)\<lparr>sg_max_cooldown := n\<rparr>\<rparr>),
      given_int getenv ''VIBE_SPEND_RETENTION_DAYS'' (\<lambda>n c. c\<lparr>sy_spending := (sy_spending c)\<lparr>sg_retention_days := n\<rparr>\<rparr>),
      given_text getenv ''VIBE_SPEND_DB_PATH'' (\<lambda>v c. c\<lparr>sy_spending := (sy_spending c)\<lparr>sg_db_path := Some v\<rparr>\<rparr>)]"

definition upgrade_steps :: "(string \<Rightarrow> string option) \<Rightarrow> config_step list" where
  "upgrade_steps getenv =
     [set_flag getenv ''VIBE_SELF_UPGRADE_ENABLED'' (\<lambda>b c. c\<lparr>sy_upgrade := (sy_upgrade c)\<lparr>up_enabled := b\<rparr>\<rparr>),
      given_int getenv ''VIBE_SELF_UPGRADE_MIN_SCORE'' (\<lambda>n c. c\<lparr>sy_upgrade := (sy_upgrade c)\<lparr>up_min_score := n\<rparr>\<rparr>),
      given_int getenv ''VIBE_SELF_UPGRADE_MAX_DIFF_LINES'' (\<lambda>n c. c\<lparr>sy_upgrade := (sy_upgrade c)\<lparr>up_max_diff := n\<rparr>\<rparr>),
      \<lambda>c. Inr (case getenv ''VIBE_HUMAN_TRIAGE_USER_ID'' of None \<Rightarrow> c | Some v \<Rightarrow> c\<lparr>sy_upgrade := (sy_upgrade c)\<lparr>up_triage_user := v\<rparr>\<rparr>)]"

definition message_steps :: "(string \<Rightarrow> string option) \<Rightarrow> config_step list" where
  "message_steps getenv =
     [\<lambda>c. Inr (let db = or_text (getenv ''MESSAGE_STORE_PATH'') [] in
         if db \<noteq> [] then c\<lparr>sy_messages := (sy_messages c)\<lparr>mc_path := db, mc_enabled := True\<rparr>\<rparr>
         else if or_text (getenv ''BULLETIN_PATH'') [] \<noteq> [] then c\<lparr>sy_messages := (sy_messages c)\<lparr>mc_enabled := True\<rparr>\<rparr> else c),
      given_int getenv ''VIBE_MSG_MAX_MESSAGES'' (\<lambda>n c. c\<lparr>sy_messages := (sy_messages c)\<lparr>mc_max_messages := n\<rparr>\<rparr>),
      given_int getenv ''VIBE_MSG_DEFAULT_TTL'' (\<lambda>n c. c\<lparr>sy_messages := (sy_messages c)\<lparr>mc_ttl := n\<rparr>\<rparr>),
      set_flag getenv ''VIBE_MSG_CLEANUP_ON_HEARTBEAT'' (\<lambda>b c. c\<lparr>sy_messages := (sy_messages c)\<lparr>mc_cleanup := b\<rparr>\<rparr>),
      set_flag getenv ''VIBE_MSG_BACKFILL_ON_HEARTBEAT'' (\<lambda>b c. c\<lparr>sy_messages := (sy_messages c)\<lparr>mc_backfill := b\<rparr>\<rparr>)]"

text \<open>\<open>os.getenv(a) or os.getenv(b)\<close>.\<close>

definition either_text :: "(string \<Rightarrow> string option) \<Rightarrow> string \<Rightarrow> string \<Rightarrow> string \<Rightarrow> string option" where
  "either_text getenv a b _ = (if or_text (getenv a) [] = [] then getenv b else getenv a)"

definition storage_steps :: "(string \<Rightarrow> string option) \<Rightarrow> config_step list" where
  "storage_steps getenv =
     [given_text getenv ''VIBE_STORAGE_BACKEND'' (\<lambda>v c. c\<lparr>sy_storage := (sy_storage c)\<lparr>gc_storage := py_lower v\<rparr>\<rparr>),
      given_text getenv ''VIBE_CACHE_BACKEND'' (\<lambda>v c. c\<lparr>sy_storage := (sy_storage c)\<lparr>gc_cache := py_lower v\<rparr>\<rparr>),
      given_text (either_text getenv ''VIBE_DATABASE_URL'' ''DATABASE_URL'') [] (\<lambda>v c. c\<lparr>sy_storage := (sy_storage c)\<lparr>gc_database_url := v\<rparr>\<rparr>),
      given_text (either_text getenv ''VIBE_REDIS_URL'' ''REDIS_URL'') [] (\<lambda>v c. c\<lparr>sy_storage := (sy_storage c)\<lparr>gc_redis_url := v\<rparr>\<rparr>)]"

definition pool_steps :: "(string \<Rightarrow> string option) \<Rightarrow> config_step list" where
  "pool_steps getenv =
     [given_text getenv ''VIBE_FALLBACK_URLS'' (\<lambda>v c. c\<lparr>sy_pool := (sy_pool c)\<lparr>pl_fallbacks := pool_fallbacks v\<rparr>\<rparr>),
      given_text getenv ''VIBE_FALLBACK_BACKEND_TYPE'' (\<lambda>v c. c\<lparr>sy_pool := (sy_pool c)\<lparr>pl_fallback_type := v\<rparr>\<rparr>),
      given_text getenv ''VIBE_BACKEND_POOL_STRATEGY'' (\<lambda>v c. c\<lparr>sy_pool := (sy_pool c)\<lparr>pl_strategy := v\<rparr>\<rparr>)]"

definition config_steps :: "(string \<Rightarrow> string option) \<Rightarrow> config_step list" where
  "config_steps getenv =
     [given_text getenv ''MODEL_NAME'' (\<lambda>v c. c\<lparr>sy_model := v\<rparr>),
      \<lambda>c. Inr (if env_is getenv ''DEV_MODE'' ''true'' then c\<lparr>sy_dev_mode := True, sy_log_level := ''DEBUG''\<rparr> else c)]
     @ spending_steps getenv
     @ [given_int getenv ''PAPERCLIP_ORCHESTRATOR_POLL_TIMEOUT'' (\<lambda>n c. c\<lparr>sy_paperclip := (sy_paperclip c)\<lparr>pp_poll_timeout := n\<rparr>\<rparr>)]
     @ upgrade_steps getenv @ message_steps getenv @ storage_steps getenv @ pool_steps getenv"

definition config_from_env :: "(string \<Rightarrow> string option) \<Rightarrow> py_exn + system_config" where
  "config_from_env getenv = res_steps (config_steps getenv) (default_config getenv)"

definition config_issues :: "system_config \<Rightarrow> string list" where
  "config_issues c =
     (if sy_model c = [] then [''Model name not specified''] else [])
     @ (if mt_enabled (sy_mattermost c) \<and> or_text (mt_webhook_url (sy_mattermost c)) [] = []
        then [''Mattermost enabled but webhook URL not configured''] else [])"

definition validate_config :: "system_config \<Rightarrow> bool" where
  "validate_config c = (config_issues c = [])"

definition get_dev_config :: "(string \<Rightarrow> string option) \<Rightarrow> system_config" where
  "get_dev_config getenv = (let c = default_config getenv in
     c\<lparr>sy_dev_mode := True, sy_log_level := ''DEBUG'', sy_mattermost := (sy_mattermost c)\<lparr>mt_enabled := False\<rparr>\<rparr>)"

definition get_skills_dir :: "string \<Rightarrow> (string \<Rightarrow> string option) \<Rightarrow> string" where
  "get_skills_dir home getenv = (case getenv ''VIBE_SKILLS_DIR'' of None \<Rightarrow> home @ ''/.vibe/skills'' | Some v \<Rightarrow> v)"

text \<open>What \<^verbatim>\<open>llm_backend.py\<close> reads of the configuration.\<close>

definition backend_settings_of :: "system_config \<Rightarrow> backend_settings" where
  "backend_settings_of c = \<lparr>bs_model = sy_model c, bs_retries = wc_llm_max_retries (sy_workflow c), bs_base_delay = wc_llm_base_delay (sy_workflow c),
     bs_fallbacks = pl_fallbacks (sy_pool c), bs_strategy = pl_strategy (sy_pool c), bs_max_failures = pl_max_failures (sy_pool c),
     bs_recovery = real_of_int (pl_recovery (sy_pool c))\<rparr>"

section \<open>What the environment can and cannot do\<close>

lemma res_steps_append: "res_steps (fs @ gs) c = res_bind (res_steps fs c) (res_steps gs)"
proof (induction fs arbitrary: c)
  case (Cons f fs)
  show ?case by (cases "f c") (simp_all add: Cons)
qed simp

lemma res_steps_keeps:
  "res_steps fs c = Inr c' \<Longrightarrow> P c \<Longrightarrow> (\<And>f c c'. f \<in> set fs \<Longrightarrow> f c = Inr c' \<Longrightarrow> P c \<Longrightarrow> P c') \<Longrightarrow> P c'"
proof (induction fs arbitrary: c)
  case (Cons f fs)
  then obtain c1 where f: "f c = Inr c1" "res_steps fs c1 = Inr c'" by auto
  show ?case by (rule Cons.IH [OF f(2)]) (use Cons.prems f(1) in auto)
qed simp

lemma res_steps_ok: "(\<And>f c. f \<in> set fs \<Longrightarrow> is_ok (f c)) \<Longrightarrow> is_ok (res_steps fs c)"
proof (induction fs arbitrary: c)
  case (Cons f fs)
  obtain c1 where "f c = Inr c1" using Cons.prems [of f c] by (auto simp: is_ok_iff)
  then show ?case using Cons by simp
qed simp

lemmas config_parts = config_steps_def spending_steps_def upgrade_steps_def message_steps_def storage_steps_def pool_steps_def

lemmas config_kinds = given_text_def given_int_def set_flag_def Let_def

lemma steps_keep_mattermost:
  "f \<in> set (config_steps getenv) \<Longrightarrow> f c = Inr c' \<Longrightarrow> sy_mattermost c' = sy_mattermost c"
  by (auto simp: config_parts config_kinds split: if_splits option.splits)

lemma mattermost_from_env:
  assumes "config_from_env getenv = Inr c"
  shows "sy_mattermost c = default_mattermost getenv"
  by (rule res_steps_keeps [OF assms [unfolded config_from_env_def], of "\<lambda>c. sy_mattermost c = default_mattermost getenv"])
     (auto simp: default_config_def dest: steps_keep_mattermost)

text \<open>With a configuration read from the environment a key is never asked for through Mattermost, whatever is set: nothing enables it.\<close>

theorem keys_are_never_asked_in_mattermost:
  assumes "config_from_env getenv = Inr c"
  shows "prompt_user_for_key (env\<lparr>ke_config := Some (sy_mattermost c)\<rparr>) fuel name
    = prompt_via_slack (env\<lparr>ke_config := Some (sy_mattermost c)\<rparr>) fuel name"
  by (simp add: prompt_user_for_key_def mattermost_from_env [OF assms] default_mattermost_def)

text \<open>The variables that must hold an integer when they are not empty.\<close>

definition INTEGER_VARIABLES :: "string set" where
  "INTEGER_VARIABLES = {''VIBE_SPEND_WINDOW_SECONDS'', ''VIBE_SPEND_MAX_CENTS'', ''VIBE_SPEND_MAX_HEARTBEATS'', ''VIBE_SPEND_MAX_CONSECUTIVE'',
     ''VIBE_SPEND_COOLDOWN_SECONDS'', ''VIBE_SPEND_MAX_COOLDOWN_SECONDS'', ''VIBE_SPEND_RETENTION_DAYS'', ''PAPERCLIP_ORCHESTRATOR_POLL_TIMEOUT'',
     ''VIBE_SELF_UPGRADE_MIN_SCORE'', ''VIBE_SELF_UPGRADE_MAX_DIFF_LINES'', ''VIBE_MSG_MAX_MESSAGES'', ''VIBE_MSG_DEFAULT_TTL''}"

lemma given_int_ok: "(\<And>v. getenv k = Some v \<Longrightarrow> v \<noteq> [] \<Longrightarrow> is_ok (py_int v)) \<Longrightarrow> is_ok (given_int getenv k put c)"
  by (auto simp: given_int_def or_text_def Let_def is_ok_iff split: option.splits)

lemma given_rest_ok [simp]: "is_ok (given_text getenv k put c)" "is_ok (set_flag getenv k putb c)"
  by (simp_all add: given_text_def set_flag_def)

lemma config_steps_ok:
  assumes "\<And>k v. k \<in> INTEGER_VARIABLES \<Longrightarrow> getenv k = Some v \<Longrightarrow> v \<noteq> [] \<Longrightarrow> is_ok (py_int v)"
    and "f \<in> set (config_steps getenv)"
  shows "is_ok (f c)"
proof -
  have i: "k \<in> INTEGER_VARIABLES \<Longrightarrow> is_ok (given_int getenv k put c)" for k put
    by (rule given_int_ok) (use assms(1) in blast)
  show ?thesis using assms(2) unfolding config_parts
    by (simp; elim disjE) (simp_all add: i INTEGER_VARIABLES_def)
qed

text \<open>The configuration is read unless one of twelve variables holds a text that is neither empty nor an integer.\<close>

theorem only_integers_are_refused:
  assumes "\<And>k v. k \<in> INTEGER_VARIABLES \<Longrightarrow> getenv k = Some v \<Longrightarrow> v \<noteq> [] \<Longrightarrow> is_ok (py_int v)"
  shows "\<exists>c. config_from_env getenv = Inr c"
  using res_steps_ok [of "config_steps getenv" "default_config getenv"] config_steps_ok [OF assms]
  by (auto simp: config_from_env_def is_ok_iff)

lemma spending_limit_kept:
  "f \<in> set (upgrade_steps getenv @ message_steps getenv @ storage_steps getenv @ pool_steps getenv) \<Longrightarrow> f c = Inr c' \<Longrightarrow> sy_spending c' = sy_spending c"
  by (auto simp: config_parts config_kinds split: if_splits option.splits)

text \<open>A printed integer given for the spending limit is the limit of the configuration.\<close>

theorem spending_limit_roundtrip:
  assumes "getenv ''VIBE_SPEND_MAX_CENTS'' = Some (str_int n)" and "config_from_env getenv = Inr c"
  shows "sg_max_cents (sy_spending c) = n"
proof -
  let ?p = "\<lambda>c. sg_max_cents (sy_spending c) = n"
  let ?f = "given_int getenv ''VIBE_SPEND_MAX_CENTS'' (\<lambda>n c. c\<lparr>sy_spending := (sy_spending c)\<lparr>sg_max_cents := n\<rparr>\<rparr>)"
  obtain fs gs where s: "config_steps getenv = fs @ ?f # gs"
    and g: "\<And>f c c'. f \<in> set gs \<Longrightarrow> f c = Inr c' \<Longrightarrow> ?p c \<Longrightarrow> ?p c'"
  proof -
    let ?gs = "drop 3 (spending_steps getenv)
      @ [given_int getenv ''PAPERCLIP_ORCHESTRATOR_POLL_TIMEOUT'' (\<lambda>n c. c\<lparr>sy_paperclip := (sy_paperclip c)\<lparr>pp_poll_timeout := n\<rparr>\<rparr>)]
      @ (upgrade_steps getenv @ message_steps getenv @ storage_steps getenv @ pool_steps getenv)"
    have sp: "f \<in> set (drop 3 (spending_steps getenv)) \<Longrightarrow> f c = Inr c' \<Longrightarrow> ?p c \<Longrightarrow> ?p c'" for f c c'
      by (auto simp: spending_steps_def config_kinds split: if_splits)
    have pc: "given_int getenv ''PAPERCLIP_ORCHESTRATOR_POLL_TIMEOUT'' (\<lambda>n c. c\<lparr>sy_paperclip := (sy_paperclip c)\<lparr>pp_poll_timeout := n\<rparr>\<rparr>) c = Inr c' \<Longrightarrow> ?p c \<Longrightarrow> ?p c'" for c c'
      by (auto simp: given_int_def Let_def split: if_splits)
    show ?thesis
    proof (rule that [of "take 4 (config_steps getenv)" ?gs])
      show "config_steps getenv = take 4 (config_steps getenv) @ ?f # ?gs" by (simp add: config_steps_def spending_steps_def)
    next
      fix f c c' assume "f \<in> set ?gs" "f c = Inr c'" "?p c"
      then show "?p c'" using sp pc spending_limit_kept [of f getenv c c'] by (auto simp del: set_append simp: set_append [of "[_]"] set_append [of "drop 3 _"])
    qed
  qed
  obtain c1 where c1: "res_steps fs (default_config getenv) = Inr c1" "res_steps (?f # gs) c1 = Inr c"
    using assms(2) by (auto simp: config_from_env_def s res_steps_append)
  have "?f c1 = Inr (c1\<lparr>sy_spending := (sy_spending c1)\<lparr>sg_max_cents := n\<rparr>\<rparr>)"
    using assms(1) str_int_ends(1) [of n] by (simp add: given_int_def or_text_def Let_def)
  then have "res_steps gs (c1\<lparr>sy_spending := (sy_spending c1)\<lparr>sg_max_cents := n\<rparr>\<rparr>) = Inr c" using c1(2) by simp
  then show ?thesis by (rule res_steps_keeps) (use g in auto)
qed

theorem keys_are_never_asked_in_mattermost_witness:
  "\<exists>c. config_from_env (\<lambda>k. None) = Inr c
    \<and> (\<forall>env fuel name. prompt_user_for_key (env\<lparr>ke_config := Some (sy_mattermost c)\<rparr>) fuel name
         = prompt_via_slack (env\<lparr>ke_config := Some (sy_mattermost c)\<rparr>) fuel name)"
proof -
  obtain c where "config_from_env (\<lambda>k. None) = Inr c"
    using res_steps_ok [of "config_steps (\<lambda>k. None)" "default_config (\<lambda>k. None)"] config_steps_ok [of "\<lambda>k. None"]
    by (auto simp: config_from_env_def is_ok_iff)
  then show ?thesis using keys_are_never_asked_in_mattermost [of "\<lambda>k. None" c] by blast
qed

definition sample_environ :: "string \<Rightarrow> string option" where
  "sample_environ k = (if k = ''VIBE_SPEND_MAX_CENTS'' then Some ''250'' else None)"

theorem only_integers_are_refused_witness: "\<exists>c. config_from_env sample_environ = Inr c"
proof (rule only_integers_are_refused)
  fix k v assume "sample_environ k = Some v"
  then have "v = ''250''" by (simp add: sample_environ_def split: if_splits)
  moreover have "is_ok (py_int ''250'')" by code_simp
  ultimately show "is_ok (py_int v)" by simp
qed

theorem spending_limit_roundtrip_witness:
  "\<exists>c. config_from_env (\<lambda>k. if k = ''VIBE_SPEND_MAX_CENTS'' then Some (str_int 250) else None) = Inr c \<and> sg_max_cents (sy_spending c) = 250"
proof -
  let ?g = "\<lambda>k. if k = ''VIBE_SPEND_MAX_CENTS'' then Some (str_int 250) else None"
  have "f \<in> set (config_steps ?g) \<Longrightarrow> is_ok (f c)" for f c by (rule config_steps_ok) (auto split: if_splits)
  then obtain c where "config_from_env ?g = Inr c"
    using res_steps_ok [of "config_steps ?g" "default_config ?g"] by (auto simp: config_from_env_def is_ok_iff)
  then show ?thesis using spending_limit_roundtrip [of ?g 250 c] by auto
qed

end
