(* ===== verification/Skill_Index.thy ===== *)
theory Skill_Index
  imports Py_Prelude
begin

text \<open>
  \<^verbatim>\<open>agents/skill_registry_index.py\<close>: several processes load and save the index file. A process goes through the statements of
  \<open>_load_index\<close> or \<open>_save_index\<close> one at a time, and the statements of different processes interleave; what the file system
  and \<^verbatim>\<open>flock\<close> do at once is one step. With \<open>locking\<close> the index is written in place under an exclusive lock, without it
  a temporary file replaces it, and an open file keeps what it held (also on Windows, whose lock of one byte only readers take). With
  \<open>faulty\<close> the dump of a writer may fail after it began. The index is any value \<open>'i\<close>; \<open>Broken\<close> is a file that holds no whole
  index, which \<open>json.load\<close> refuses. \<open>fresh\<close> is the index made for a missing file.
\<close>

section \<open>The processes\<close>

datatype 'i index_file = Whole 'i | Broken

datatype 'i index_process =
    Idle
  | SaveMissing 'i   \<comment> \<open>\<open>open(path, 'r+')\<close> found no file\<close>
  | SaveOpened 'i
  | SaveLocked 'i
  | SaveTruncated 'i
  | SaveWritten
  | SaveFailed       \<comment> \<open>the dump raised; the lock is still held\<close>
  | LoadOpened
  | LoadLocked
  | Loaded 'i        \<comment> \<open>under the lock, if there is one\<close>
  | LoadedFresh      \<comment> \<open>there was no file; no lock\<close>
  | LoadRefused      \<comment> \<open>\<open>json.load\<close> raised, under the lock\<close>

record 'i index_state =
  is_file :: "'i index_file option"
  is_process :: "nat \<Rightarrow> 'i index_process"
  is_saved :: "'i list"   \<comment> \<open>the indexes saves began with so far\<close>

definition writes :: "'i index_process \<Rightarrow> bool" where
  "writes p = (case p of SaveLocked _ \<Rightarrow> True | SaveTruncated _ \<Rightarrow> True | SaveWritten \<Rightarrow> True | SaveFailed \<Rightarrow> True | _ \<Rightarrow> False)"

definition reads :: "'i index_process \<Rightarrow> bool" where
  "reads p = (case p of LoadLocked \<Rightarrow> True | Loaded _ \<Rightarrow> True | LoadRefused \<Rightarrow> True | _ \<Rightarrow> False)"

definition go :: "nat \<Rightarrow> 'i index_process \<Rightarrow> 'i index_state \<Rightarrow> 'i index_state" where
  "go k p s = s\<lparr>is_process := (is_process s)(k := p)\<rparr>"

section \<open>The steps\<close>

inductive index_step :: "bool \<Rightarrow> bool \<Rightarrow> 'i \<Rightarrow> 'i index_state \<Rightarrow> 'i index_state \<Rightarrow> bool" for locking faulty fresh where
  save_open: "locking \<Longrightarrow> is_process s k = Idle \<Longrightarrow> is_file s \<noteq> None \<Longrightarrow>
    index_step locking faulty fresh s (go k (SaveOpened i) (s\<lparr>is_saved := i # is_saved s\<rparr>))"
| save_missing: "locking \<Longrightarrow> is_process s k = Idle \<Longrightarrow> is_file s = None \<Longrightarrow>
    index_step locking faulty fresh s (go k (SaveMissing i) (s\<lparr>is_saved := i # is_saved s\<rparr>))"
| save_create: "is_process s k = SaveMissing i \<Longrightarrow>
    index_step locking faulty fresh s (go k (SaveOpened i) (s\<lparr>is_file := Some Broken\<rparr>))"
| save_lock: "is_process s k = SaveOpened i \<Longrightarrow> \<forall>j. \<not> writes (is_process s j) \<and> \<not> reads (is_process s j) \<Longrightarrow>
    index_step locking faulty fresh s (go k (SaveLocked i) s)"
| save_truncate: "is_process s k = SaveLocked i \<Longrightarrow>
    index_step locking faulty fresh s (go k (SaveTruncated i) (s\<lparr>is_file := Some Broken\<rparr>))"
| save_dump: "is_process s k = SaveTruncated i \<Longrightarrow>
    index_step locking faulty fresh s (go k SaveWritten (s\<lparr>is_file := Some (Whole i)\<rparr>))"
| save_fail: "faulty \<Longrightarrow> is_process s k = SaveTruncated i \<Longrightarrow>
    index_step locking faulty fresh s (go k SaveFailed s)"
| save_unlock: "is_process s k \<in> {SaveWritten, SaveFailed} \<Longrightarrow>
    index_step locking faulty fresh s (go k Idle s)"
| save_replace: "\<not> locking \<Longrightarrow> is_process s k = Idle \<Longrightarrow>
    index_step locking faulty fresh s (s\<lparr>is_file := Some (Whole i), is_saved := i # is_saved s\<rparr>)"
| load_fresh: "is_process s k = Idle \<Longrightarrow> is_file s = None \<Longrightarrow>
    index_step locking faulty fresh s (go k LoadedFresh s)"
| load_whole: "\<not> locking \<Longrightarrow> is_process s k = Idle \<Longrightarrow> is_file s = Some f \<Longrightarrow>
    index_step locking faulty fresh s (go k (case f of Whole i \<Rightarrow> Loaded i | Broken \<Rightarrow> LoadRefused) s)"
| load_open: "locking \<Longrightarrow> is_process s k = Idle \<Longrightarrow> is_file s \<noteq> None \<Longrightarrow>
    index_step locking faulty fresh s (go k LoadOpened s)"
| load_lock: "is_process s k = LoadOpened \<Longrightarrow> \<forall>j. \<not> writes (is_process s j) \<Longrightarrow>
    index_step locking faulty fresh s (go k LoadLocked s)"
| load_read: "is_process s k = LoadLocked \<Longrightarrow> is_file s = Some f \<Longrightarrow>
    index_step locking faulty fresh s (go k (case f of Whole i \<Rightarrow> Loaded i | Broken \<Rightarrow> LoadRefused) s)"
| load_done: "is_process s k = LoadedFresh \<or> reads (is_process s k) \<and> is_process s k \<noteq> LoadLocked \<Longrightarrow>
    index_step locking faulty fresh s (go k Idle s)"

inductive index_reachable :: "bool \<Rightarrow> bool \<Rightarrow> 'i \<Rightarrow> 'i index_file option \<Rightarrow> 'i index_state \<Rightarrow> bool" for locking faulty fresh start_file where
  init: "index_reachable locking faulty fresh start_file \<lparr>is_file = start_file, is_process = (\<lambda>_. Idle), is_saved = []\<rparr>"
| step: "index_reachable locking faulty fresh start_file s \<Longrightarrow> index_step locking faulty fresh s t \<Longrightarrow> index_reachable locking faulty fresh start_file t"

section \<open>The invariant\<close>

text \<open>A file that is there is whole but while a writer that truncated it holds the lock; writers exclude each other and readers under
  their lock; what was read was saved or there from the beginning.\<close>

definition known :: "'i \<Rightarrow> 'i index_file option \<Rightarrow> 'i index_state \<Rightarrow> 'i set" where
  "known fresh start_file s = insert fresh (set (is_saved s)) \<union> (case start_file of Some (Whole i) \<Rightarrow> {i} | _ \<Rightarrow> {})"

definition carried :: "'i index_process \<Rightarrow> 'i set" where
  "carried p = (case p of SaveMissing i \<Rightarrow> {i} | SaveOpened i \<Rightarrow> {i} | SaveLocked i \<Rightarrow> {i} | SaveTruncated i \<Rightarrow> {i} | Loaded i \<Rightarrow> {i} | _ \<Rightarrow> {})"

definition exclusive :: "'i index_state \<Rightarrow> bool" where
  "exclusive s \<longleftrightarrow> (\<forall>j k. writes (is_process s j) \<longrightarrow> writes (is_process s k) \<or> reads (is_process s k) \<longrightarrow> j = k)"

definition unharmed :: "'i index_state \<Rightarrow> bool" where
  "unharmed s \<longleftrightarrow> is_file s \<noteq> None \<and> (\<forall>k. is_process s k \<noteq> SaveFailed \<and> is_process s k \<noteq> LoadRefused \<and> (\<forall>i. is_process s k \<noteq> SaveMissing i))
     \<and> (is_file s = Some Broken \<longrightarrow> (\<exists>k i. is_process s k = SaveTruncated i))"

definition honest :: "'i \<Rightarrow> 'i index_file option \<Rightarrow> 'i index_state \<Rightarrow> bool" where
  "honest fresh start_file s \<longleftrightarrow> (\<forall>k. carried (is_process s k) \<subseteq> known fresh start_file s)
     \<and> (\<forall>i. is_file s = Some (Whole i) \<longrightarrow> i \<in> known fresh start_file s)"

lemma process_simps [simp]:
  "is_process (go k p s) j = (if j = k then p else is_process s j)" "is_file (go k p s) = is_file s" "is_saved (go k p s) = is_saved s"
  by (simp_all add: go_def)

lemma known_simps [simp]:
  "known fresh start_file (go k p s) = known fresh start_file s" "known fresh start_file (s\<lparr>is_file := f\<rparr>) = known fresh start_file s"
  "known fresh start_file (s\<lparr>is_saved := i # is_saved s\<rparr>) = insert i (known fresh start_file s)"
  "known fresh start_file (s\<lparr>is_file := f, is_saved := i # is_saved s\<rparr>) = insert i (known fresh start_file s)"
  by (auto simp: known_def go_def)

lemma kind_simps [simp]:
  "writes (SaveLocked i)" "writes (SaveTruncated i)" "writes SaveWritten" "writes SaveFailed" "\<not> writes Idle" "\<not> writes (SaveOpened i)"
  "\<not> writes (SaveMissing i)" "\<not> writes LoadOpened" "\<not> writes LoadLocked" "\<not> writes (Loaded i)" "\<not> writes LoadRefused" "\<not> writes LoadedFresh" "\<not> reads LoadedFresh" "carried LoadedFresh = {}"
  "reads LoadLocked" "reads (Loaded i)" "reads LoadRefused" "\<not> reads Idle" "\<not> reads (SaveOpened i)" "\<not> reads (SaveLocked i)" "\<not> reads (SaveTruncated i)"
  "\<not> reads SaveWritten" "\<not> reads SaveFailed" "\<not> reads LoadOpened" "\<not> reads (SaveMissing i)"
  "carried Idle = {}" "carried (SaveOpened i) = {i}" "carried (SaveLocked i) = {i}" "carried (SaveTruncated i) = {i}" "carried SaveWritten = {}"
  "carried LoadOpened = {}" "carried LoadLocked = {}" "carried (Loaded i) = {i}" "carried (SaveMissing i) = {i}"
  by (simp_all add: writes_def reads_def carried_def)

text \<open>Locks exclude, whatever fails and whether or not there was a file.\<close>

lemma step_exclusive:
  assumes "index_step True faulty fresh s t" and "exclusive s"
  shows "exclusive t"
  using assms(1)
proof (cases rule: index_step.cases)
  case (save_lock k i)
  then show ?thesis by (simp add: exclusive_def)
next
  case (load_lock k)
  then show ?thesis using assms(2) by (simp add: exclusive_def)
next
  case (load_read k f)
  then have r: "reads (is_process s k)" "\<not> writes (is_process s k)" by simp_all
  have "writes (is_process t j) = writes (is_process s j) \<and> reads (is_process t j) = reads (is_process s j)" for j
    using load_read r by (cases f) auto
  then show ?thesis using assms(2) by (simp add: exclusive_def)
next
  case (save_truncate k i)
  then have "writes (is_process t j) = writes (is_process s j) \<and> reads (is_process t j) = reads (is_process s j)" for j by auto
  then show ?thesis using assms(2) by (simp add: exclusive_def)
next
  case (save_dump k i)
  then have "writes (is_process t j) = writes (is_process s j) \<and> reads (is_process t j) = reads (is_process s j)" for j by auto
  then show ?thesis using assms(2) by (simp add: exclusive_def)
next
  case (save_fail k i)
  then have "writes (is_process t j) = writes (is_process s j) \<and> reads (is_process t j) = reads (is_process s j)" for j by auto
  then show ?thesis using assms(2) by (simp add: exclusive_def)
qed (use assms(2) in \<open>simp_all add: exclusive_def\<close>)

lemma unharmed_go:
  assumes "unharmed s" and "\<forall>i. is_process s k \<noteq> SaveTruncated i" and "p \<noteq> SaveFailed" "p \<noteq> LoadRefused" "\<forall>i. p \<noteq> SaveMissing i"
  shows "unharmed (go k p s)"
proof -
  have "\<exists>j i. is_process (go k p s) j = SaveTruncated i" if "is_file s = Some Broken"
  proof -
    from that obtain j i where j: "is_process s j = SaveTruncated i" using assms(1) by (auto simp: unharmed_def)
    then have "is_process (go k p s) j = SaveTruncated i" using assms(2) by auto
    then show ?thesis by blast
  qed
  then show ?thesis using assms unfolding unharmed_def by (simp add: go_def)
qed

lemma unharmed_saved: "unharmed (s\<lparr>is_saved := xs\<rparr>) = unharmed s"
  by (simp add: unharmed_def)

lemma step_unharmed:
  assumes "index_step True False fresh s t" and "exclusive s" and "unharmed s"
  shows "unharmed t"
  using assms(1)
proof (cases rule: index_step.cases)
  case (save_open k i)
  then show ?thesis using assms(3) by (auto intro!: unharmed_go simp: unharmed_saved)
next
  case (load_read k f)
  have "f \<noteq> Broken"
  proof
    assume "f = Broken"
    then obtain j i where j: "is_process s j = SaveTruncated i" using load_read assms(3) by (auto simp: unharmed_def)
    then have "j = k" using assms(2) load_read by (simp add: exclusive_def)
    then show False using j load_read by simp
  qed
  then obtain i where "f = Whole i" by (cases f) auto
  then show ?thesis using load_read assms(3) by (auto intro!: unharmed_go)
next
  case (save_truncate k i)
  then show ?thesis using assms(3) by (auto simp: unharmed_def)
next
  case (save_dump k i)
  then show ?thesis using assms(3) by (auto simp: unharmed_def)
next
  case (load_done k)
  then have "\<forall>i. is_process s k \<noteq> SaveTruncated i" by auto
  then show ?thesis using load_done assms(3) by (auto intro!: unharmed_go)
next
  case (save_unlock k)
  then have "\<forall>i. is_process s k \<noteq> SaveTruncated i" by auto
  then show ?thesis using save_unlock assms(3) by (auto intro!: unharmed_go)
next
  case (save_missing k i)
  then show ?thesis using assms(3) by (simp add: unharmed_def)
next
  case (save_create k i)
  then show ?thesis using assms(3) by (auto simp: unharmed_def)
qed (use assms(3) in \<open>auto intro!: unharmed_go\<close>)

lemma honest_go:
  assumes "honest fresh start_file s" and "carried p \<subseteq> known fresh start_file s"
  shows "honest fresh start_file (go k p s)"
  using assms by (simp add: honest_def)

lemma honest_carried: "honest fresh start_file s \<Longrightarrow> is_process s k = p \<Longrightarrow> carried p \<subseteq> known fresh start_file s"
  by (auto simp: honest_def)

lemma honest_broken: "honest fresh start_file s \<Longrightarrow> honest fresh start_file (s\<lparr>is_file := Some Broken\<rparr>)"
  by (simp add: honest_def)

lemma honest_saved: "honest fresh start_file s \<Longrightarrow> honest fresh start_file (s\<lparr>is_saved := i # is_saved s\<rparr>)"
  by (auto simp: honest_def)

lemma step_honest:
  assumes "index_step locking faulty fresh s t" and "honest fresh start_file s"
  shows "honest fresh start_file t"
  using assms(1)
proof (cases rule: index_step.cases)
  case (load_read k f)
  have "\<And>i. f = Whole i \<Longrightarrow> i \<in> known fresh start_file s" using load_read assms(2) by (auto simp: honest_def)
  then show ?thesis using load_read by (cases f) (auto intro!: honest_go [OF assms(2)] simp: carried_def)
next
  case (load_whole k f)
  have "\<And>i. f = Whole i \<Longrightarrow> i \<in> known fresh start_file s" using load_whole assms(2) by (auto simp: honest_def)
  then show ?thesis using load_whole by (cases f) (auto intro!: honest_go [OF assms(2)] simp: carried_def)
next
  case (save_create k i)
  then show ?thesis using honest_carried [OF assms(2), of k] by (auto intro!: honest_go honest_broken assms(2))
next
  case (save_lock k i)
  then show ?thesis using honest_carried [OF assms(2), of k] by (auto intro!: honest_go assms(2))
next
  case (save_truncate k i)
  then show ?thesis using honest_carried [OF assms(2), of k] by (auto intro!: honest_go honest_broken assms(2))
next
  case (save_dump k i)
  then show ?thesis using honest_carried [OF assms(2), of k] assms(2) by (auto simp: honest_def)
next
  case (save_replace k i)
  then show ?thesis using assms(2) by (auto simp: honest_def)
next
  case (save_open k i)
  then show ?thesis by (auto intro!: honest_go honest_saved assms(2))
next
  case (save_missing k i)
  then show ?thesis by (auto intro!: honest_go honest_saved assms(2))
qed (auto intro!: honest_go assms(2) simp: carried_def)

lemma reachable_exclusive: "index_reachable True faulty fresh start_file s \<Longrightarrow> exclusive s"
proof (induction rule: index_reachable.induct)
  case init
  then show ?case by (simp add: exclusive_def)
next
  case (step s t)
  then show ?case by (blast intro: step_exclusive)
qed

lemma reachable_unharmed: "index_reachable True False fresh (Some (Whole i)) s \<Longrightarrow> unharmed s"
proof (induction rule: index_reachable.induct)
  case init
  then show ?case by (simp add: unharmed_def)
next
  case (step s t)
  then show ?case by (blast intro: step_unharmed reachable_exclusive)
qed

lemma reachable_honest: "index_reachable locking faulty fresh start_file s \<Longrightarrow> honest fresh start_file s"
proof (induction rule: index_reachable.induct)
  case init
  then show ?case by (auto simp: honest_def known_def split: option.splits)
next
  case (step s t)
  then show ?case by (blast intro: step_honest)
qed

section \<open>What a load gets\<close>

text \<open>Where there is an index file and no dump fails, every load gets a whole index, one that was there from the beginning or that a
  process began to save; a load never meets a half-written file.\<close>

theorem loads_get_whole_indexes:
  assumes "index_reachable True False fresh (Some (Whole i)) s"
  shows "is_process s k \<noteq> LoadRefused \<and> (\<forall>j. is_process s k = Loaded j \<longrightarrow> j \<in> {fresh, i} \<union> set (is_saved s))"
  using reachable_unharmed [OF assms] honest_carried [OF reachable_honest [OF assms], of k] by (auto simp: unharmed_def known_def)

text \<open>The steps of one process, as seen by the others.\<close>

lemma index_run: "index_reachable l f fresh start_file s \<Longrightarrow> index_step l f fresh s t \<Longrightarrow> index_reachable l f fresh start_file t"
  by (rule index_reachable.step)

theorem loads_get_whole_indexes_witness:
  "\<exists>s. index_reachable True False 0 (Some (Whole (1 :: nat))) s \<and> is_process s 7 = Loaded 1
     \<and> is_process s 7 \<noteq> LoadRefused \<and> (\<forall>j. is_process s 7 = Loaded j \<longrightarrow> j \<in> {0, 1} \<union> set (is_saved s))"
proof -
  let ?s0 = "\<lparr>is_file = Some (Whole 1), is_process = (\<lambda>_. Idle), is_saved = []\<rparr> :: nat index_state"
  have 0: "index_reachable True False 0 (Some (Whole 1)) ?s0" by (rule index_reachable.init)
  have 1: "index_reachable True False 0 (Some (Whole 1)) (go 7 LoadOpened ?s0)" by (rule index_run [OF 0]) (rule index_step.load_open; simp)
  have 2: "index_reachable True False 0 (Some (Whole 1)) (go 7 LoadLocked (go 7 LoadOpened ?s0))"
    by (rule index_run [OF 1]) (rule index_step.load_lock; simp)
  have 3: "index_reachable True False 0 (Some (Whole 1)) (go 7 (case Whole 1 of Whole i \<Rightarrow> Loaded i | Broken \<Rightarrow> LoadRefused) (go 7 LoadLocked (go 7 LoadOpened ?s0)))"
    by (rule index_run [OF 2]) (rule index_step.load_read; simp)
  show ?thesis using loads_get_whole_indexes [OF 3, of 7] 3
    by (intro exI [of _ "go 7 (Loaded 1) (go 7 LoadLocked (go 7 LoadOpened ?s0))"]) simp
qed

text \<open>Replacing the file instead of writing it in place needs no lock for that: no load is ever refused, also when there was no file.\<close>

definition quiet :: "'i index_process \<Rightarrow> bool" where
  "quiet p = (case p of Idle \<Rightarrow> True | LoadedFresh \<Rightarrow> True | Loaded _ \<Rightarrow> True | _ \<Rightarrow> False)"

lemma quiet_simps [simp]:
  "quiet Idle" "quiet LoadedFresh" "quiet (Loaded i)" "\<not> quiet (SaveMissing i)" "\<not> quiet (SaveOpened i)" "\<not> quiet (SaveLocked i)"
  "\<not> quiet (SaveTruncated i)" "\<not> quiet SaveWritten" "\<not> quiet SaveFailed" "\<not> quiet LoadOpened" "\<not> quiet LoadLocked" "\<not> quiet LoadRefused"
  by (simp_all add: quiet_def)

lemma replacing_keeps:
  assumes "index_step False faulty fresh s t" and "is_file s \<noteq> Some Broken" and "\<forall>k. quiet (is_process s k)"
  shows "is_file t \<noteq> Some Broken \<and> (\<forall>k. quiet (is_process t k))"
proof -
  have no: "is_process s k = p \<Longrightarrow> quiet p" for k p using assms(3) by metis
  show ?thesis using assms(1)
  proof (cases rule: index_step.cases)
    case (load_whole k f)
    then obtain i where "f = Whole i" using assms(2) by (cases f) auto
    then show ?thesis using load_whole assms(2,3) by auto
  next
    case (save_unlock k)
    then show ?thesis using no [of k] by auto
  qed (use assms(2,3) in \<open>auto dest!: no\<close>)
qed

theorem replaced_indexes_are_whole:
  assumes "index_reachable False faulty fresh start_file s" and "start_file \<noteq> Some Broken"
  shows "is_file s \<noteq> Some Broken \<and> is_process s k \<noteq> LoadRefused"
proof -
  have "is_file s \<noteq> Some Broken \<and> (\<forall>k. quiet (is_process s k))"
    using assms(1)
  proof (induction rule: index_reachable.induct)
    case init
    then show ?case using assms(2) by simp
  next
    case (step s t)
    then show ?case using replacing_keeps [OF step.hyps(2)] by blast
  qed
  then show ?thesis by (metis quiet_simps(12))
qed

theorem replaced_indexes_are_whole_witness:
  "\<exists>s. index_reachable False True 0 None s \<and> is_file s = Some (Whole (5 :: nat)) \<and> is_process s 3 \<noteq> LoadRefused"
proof -
  let ?s0 = "\<lparr>is_file = None, is_process = (\<lambda>_. Idle), is_saved = []\<rparr> :: nat index_state"
  have "index_reachable False True 0 None ?s0" by (rule index_reachable.init)
  then have r: "index_reachable False True 0 None (?s0\<lparr>is_file := Some (Whole 5), is_saved := 5 # is_saved ?s0\<rparr>)"
    by (rule index_run) (rule index_step.save_replace [of _ _ 0]; simp)
  show ?thesis using replaced_indexes_are_whole [OF r, of 3] r by auto
qed

text \<open>Under locks the first save, which finds no file, creates an empty one before it has the lock: a load in between meets it.\<close>

theorem first_save_can_break_a_load:
  "\<exists>s. index_reachable True False fresh None s \<and> is_process s 1 = LoadRefused"
proof -
  let ?s0 = "\<lparr>is_file = None, is_process = (\<lambda>_. Idle), is_saved = []\<rparr>"
  let ?s1 = "go 0 (SaveMissing fresh) (?s0\<lparr>is_saved := fresh # is_saved ?s0\<rparr>)"
  let ?s2 = "go 0 (SaveOpened fresh) (?s1\<lparr>is_file := Some Broken\<rparr>)"
  let ?s3 = "go 1 LoadOpened ?s2"
  let ?s4 = "go 1 LoadLocked ?s3"
  have "index_reachable True False fresh None ?s0" by (rule index_reachable.init)
  then have "index_reachable True False fresh None ?s1" by (rule index_run) (rule index_step.save_missing; simp)
  then have "index_reachable True False fresh None ?s2" by (rule index_run) (rule index_step.save_create; simp)
  then have "index_reachable True False fresh None ?s3" by (rule index_run) (rule index_step.load_open; simp)
  then have "index_reachable True False fresh None ?s4" by (rule index_run) (rule index_step.load_lock; simp)
  then have "index_reachable True False fresh None (go 1 (case Broken of Whole i \<Rightarrow> Loaded i | Broken \<Rightarrow> LoadRefused) ?s4)"
    by (rule index_run) (rule index_step.load_read; simp)
  then show ?thesis by (intro exI conjI) (assumption, simp)
qed

text \<open>A dump that fails after it began leaves a file that holds no index, with no process at work.\<close>

theorem failed_dump_loses_the_index:
  "\<exists>s. index_reachable True True fresh (Some (Whole i)) s \<and> is_file s = Some Broken \<and> (\<forall>k. is_process s k = Idle)"
proof -
  let ?s0 = "\<lparr>is_file = Some (Whole i), is_process = (\<lambda>_. Idle), is_saved = []\<rparr>"
  let ?s1 = "go 0 (SaveOpened i) (?s0\<lparr>is_saved := i # is_saved ?s0\<rparr>)"
  let ?s2 = "go 0 (SaveLocked i) ?s1"
  let ?s3 = "go 0 (SaveTruncated i) (?s2\<lparr>is_file := Some Broken\<rparr>)"
  let ?s4 = "go 0 SaveFailed ?s3"
  have "index_reachable True True fresh (Some (Whole i)) ?s0" by (rule index_reachable.init)
  then have "index_reachable True True fresh (Some (Whole i)) ?s1" by (rule index_run) (rule index_step.save_open; simp)
  then have "index_reachable True True fresh (Some (Whole i)) ?s2" by (rule index_run) (rule index_step.save_lock; simp)
  then have "index_reachable True True fresh (Some (Whole i)) ?s3" by (rule index_run) (rule index_step.save_truncate; simp)
  then have "index_reachable True True fresh (Some (Whole i)) ?s4" by (rule index_run) (rule index_step.save_fail; simp)
  then have "index_reachable True True fresh (Some (Whole i)) (go 0 Idle ?s4)" by (rule index_run) (rule index_step.save_unlock; simp)
  then show ?thesis by (intro exI conjI) (assumption, simp_all)
qed

end
