(* ===== verification/Executors.thy ===== *)
theory Executors
  imports File_Tools
begin

text \<open>
  \<^verbatim>\<open>agents/tools/executors.py\<close>: Python code, pytest, bandit and shell commands as processes of the machine. A process is a
  parameter: \<open>xe_run\<close> answers the runs made so far. A run records its arguments, its environment (\<open>None\<close>: that of the
  agent) and whether it was limited. Temporary files are the list of names and contents in the world; \<open>xe_name\<close> is the name of the
  next one, \<open>xe_unlink\<close> whether it can be removed. Paths are those of \<open>File_Tools\<close>; \<open>xe_exists\<close> is \<open>Path.exists\<close>. The message of a
  time-out of bandit names the command too.
\<close>

section \<open>Processes\<close>

record process_run =
  pn_args :: "string list"
  pn_env :: "(string, string) py_dict option"
  pn_timeout :: int
  pn_limited :: bool

record process_end =
  pe_code :: int
  pe_out :: string
  pe_err :: string

datatype process_reply = Ended process_end | OverTime | NoProgram | NoRun py_exn

record exec_env =
  xe_files :: file_env
  xe_environ :: "(string, string) py_dict"
  xe_run :: "process_run list \<Rightarrow> process_reply"
  xe_exists :: "path \<Rightarrow> bool"
  xe_temp :: "nat \<Rightarrow> py_exn + string"
  xe_unlink :: "string \<Rightarrow> bool"
  xe_json :: "string \<Rightarrow> json option"

record exec_world =
  xw_runs :: "process_run list"
  xw_temps :: "(string \<times> string) list"

definition EXEC_ENV_KEYS :: "string list" where
  "EXEC_ENV_KEYS = [''PATH'', ''HOME'', ''LANG'', ''TMPDIR'', ''LC_ALL'', ''LC_CTYPE'']"

definition stripped_env :: "(string, string) py_dict \<Rightarrow> (string, string) py_dict" where
  "stripped_env = filter (\<lambda>(k, v). k \<in> set EXEC_ENV_KEYS)"

definition spawn_process :: "exec_env \<Rightarrow> process_run \<Rightarrow> exec_world \<Rightarrow> process_reply \<times> exec_world" where
  "spawn_process env r w = (let rs = xw_runs w @ [r] in (xe_run env rs, w\<lparr>xw_runs := rs\<rparr>))"

text \<open>The result most tools make of a process that ended.\<close>

definition ended_result :: "process_end \<Rightarrow> tool_result" where
  "ended_result p = \<lparr>tr_success = pe_code p = 0, tr_output = pe_out p, tr_error = (if pe_code p \<noteq> 0 then Some (pe_err p) else None),
     tr_metadata = [(''returncode'', JInt (pe_code p))]\<rparr>"

definition no_program :: "string \<Rightarrow> string" where
  "no_program p = ''[Errno 2] No such file or directory: '' @ [CHR 0x27] @ p @ [CHR 0x27]"

section \<open>Python\<close>

definition python_result :: "int \<Rightarrow> process_reply \<Rightarrow> tool_result" where
  "python_result timeout reply =
     (case reply of
        Ended p \<Rightarrow>
          if pe_code p = 0 then success (pe_out p) [(''returncode'', JInt 0), (''stderr'', JStr (pe_err p))]
          else \<lparr>tr_success = False, tr_output = pe_out p, tr_error = Some (pe_err p), tr_metadata = [(''returncode'', JInt (pe_code p))]\<rparr>
      | OverTime \<Rightarrow> failure (''Execution timed out after '' @ str_int timeout @ ''s'')
      | NoProgram \<Rightarrow> failure (''Execution error: '' @ no_program ''python3'')
      | NoRun e \<Rightarrow> failure (''Execution error: '' @ exn_text e))"

definition remove_temp :: "exec_env \<Rightarrow> string \<Rightarrow> exec_world \<Rightarrow> exec_world" where
  "remove_temp env name w = (if xe_unlink env name then w\<lparr>xw_temps := filter (\<lambda>(n, c). n \<noteq> name) (xw_temps w)\<rparr> else w)"

definition python_executor :: "exec_env \<Rightarrow> string \<Rightarrow> int \<Rightarrow> exec_world \<Rightarrow> tool_result \<times> exec_world" where
  "python_executor env code timeout w =
     (case xe_temp env (length (xw_runs w)) of
        Inl e \<Rightarrow> (failure (''Execution error: '' @ exn_text e), w)
      | Inr name \<Rightarrow>
          (case spawn_process env \<lparr>pn_args = [''python3'', name], pn_env = Some (stripped_env (xe_environ env)), pn_timeout = timeout, pn_limited = True\<rparr>
              (w\<lparr>xw_temps := (name, code) # xw_temps w\<rparr>) of
             (reply, w1) \<Rightarrow> (python_result timeout reply, remove_temp env name w1)))"

section \<open>Pytest and bandit\<close>

text \<open>What both check of their target: it is allowed and it is there.\<close>

definition checked_target :: "exec_env \<Rightarrow> path list \<Rightarrow> string \<Rightarrow> string \<Rightarrow> string + path" where
  "checked_target env dirs what target =
     (case validate_file_path (xe_files env) dirs target of
        Inl e \<Rightarrow> Inl (''Security: '' @ e)
      | Inr p \<Rightarrow> if xe_exists env p then Inr p else Inl (what @ '' not found: '' @ target))"

definition pytest_args :: "string \<Rightarrow> bool \<Rightarrow> bool \<Rightarrow> string list" where
  "pytest_args file_name coverage verbose =
     [''pytest''] @ (if verbose then [''-v''] else []) @ (if coverage then [''--cov'', ''--cov-report=term''] else []) @ [file_name]"

definition pytest_runner :: "exec_env \<Rightarrow> path list \<Rightarrow> string \<Rightarrow> bool \<Rightarrow> bool \<Rightarrow> exec_world \<Rightarrow> tool_result \<times> exec_world" where
  "pytest_runner env dirs test_file coverage verbose w =
     (case checked_target env dirs ''Test file'' test_file of
        Inl e \<Rightarrow> (failure e, w)
      | Inr p \<Rightarrow>
          (case spawn_process env \<lparr>pn_args = pytest_args (fe_show (xe_files env) p) coverage verbose, pn_env = None, pn_timeout = 60, pn_limited = False\<rparr> w of
             (reply, w1) \<Rightarrow>
               ((case reply of
                   Ended e \<Rightarrow> ended_result e
                 | OverTime \<Rightarrow> failure ''Tests timed out after 60s''
                 | NoProgram \<Rightarrow> failure (''Error running pytest: '' @ no_program ''pytest'')
                 | NoRun e \<Rightarrow> failure (''Error running pytest: '' @ exn_text e)), w1)))"

definition bandit_flag :: "string \<Rightarrow> string" where
  "bandit_flag level = dict_get_or [(''low'', ''-ll''), (''medium'', ''-l''), (''high'', [])] (py_lower level) ''-l''"

fun issue_level :: "json \<Rightarrow> py_exn + json" where
  "issue_level (JObj d) = (case dict_get d ''issue_severity'' of None \<Rightarrow> Inl (KeyError ''issue_severity'') | Some v \<Rightarrow> Inr v)"
| "issue_level _ = Inl (OtherError ''TypeError'' ''issue is no dictionary'')"

text \<open>The report of bandit: \<open>len\<close> of a dictionary or a text counts as its items do.\<close>

definition bandit_report :: "json \<Rightarrow> py_exn + tool_result" where
  "bandit_report report =
     res_bind (json_get report ''results'' (JArr [])) (\<lambda>v. res_bind (json_items v) (\<lambda>issues. res_bind (res_map issue_level issues) (\<lambda>levels.
       let found = (\<lambda>l. JInt (int (length (filter (\<lambda>v. v = JStr l) levels)))) in
       Inr (success (''Found '' @ str_nat (length issues) @ '' security issues'')
         [(''issues'', v), (''summary'', JObj [(''total'', JInt (int (length issues))), (''high'', found ''HIGH''), (''medium'', found ''MEDIUM''), (''low'', found ''LOW'')])]))))"

definition bandit_scanner :: "exec_env \<Rightarrow> path list \<Rightarrow> string \<Rightarrow> string \<Rightarrow> exec_world \<Rightarrow> tool_result \<times> exec_world" where
  "bandit_scanner env dirs target level w =
     (case checked_target env dirs ''Target'' target of
        Inl e \<Rightarrow> (failure e, w)
      | Inr p \<Rightarrow>
          (case spawn_process env \<lparr>pn_args = [''bandit'', ''-r'', fe_show (xe_files env) p, ''-f'', ''json''] @ (if bandit_flag level = [] then [] else [bandit_flag level]),
                pn_env = None, pn_timeout = 30, pn_limited = False\<rparr> w of
             (reply, w1) \<Rightarrow>
               ((case reply of
                   Ended e \<Rightarrow>
                     (case xe_json env (pe_out e) of
                        None \<Rightarrow> \<lparr>tr_success = False, tr_output = pe_out e, tr_error = Some ''Could not parse Bandit output'', tr_metadata = []\<rparr>
                      | Some report \<Rightarrow> (case bandit_report report of Inl x \<Rightarrow> failure (''Error running Bandit: '' @ exn_text x) | Inr r \<Rightarrow> r))
                 | OverTime \<Rightarrow> failure ''Error running Bandit: Command timed out after 30 seconds''
                 | NoProgram \<Rightarrow> failure ''Bandit not installed. Install with: pip install bandit''
                 | NoRun e \<Rightarrow> failure (''Error running Bandit: '' @ exn_text e)), w1)))"

section \<open>The shell\<close>

definition shell_executor :: "exec_env \<Rightarrow> string \<Rightarrow> int \<Rightarrow> exec_world \<Rightarrow> tool_result \<times> exec_world" where
  "shell_executor env command timeout w =
     (if py_strip command = [] then (failure ''No command provided'', w)
      else
        (case spawn_process env \<lparr>pn_args = [''sh'', ''-c'', command], pn_env = Some (stripped_env (xe_environ env)), pn_timeout = timeout, pn_limited = False\<rparr> w of
           (reply, w1) \<Rightarrow>
             ((case reply of
                 Ended e \<Rightarrow> ended_result e
               | OverTime \<Rightarrow> failure (''Command timed out after '' @ str_int timeout @ ''s'')
               | NoProgram \<Rightarrow> failure (no_program ''sh'')
               | NoRun e \<Rightarrow> failure (exn_text e)), w1)))"

section \<open>What the processes see and leave\<close>

datatype exec_call = RunPython string int | RunPytest string bool bool | RunBandit string string | RunShell string int

fun exec_tool :: "exec_env \<Rightarrow> path list \<Rightarrow> exec_call \<Rightarrow> exec_world \<Rightarrow> tool_result \<times> exec_world" where
  "exec_tool env dirs (RunPython code t) w = python_executor env code t w"
| "exec_tool env dirs (RunPytest f c v) w = pytest_runner env dirs f c v w"
| "exec_tool env dirs (RunBandit f l) w = bandit_scanner env dirs f l w"
| "exec_tool env dirs (RunShell c t) w = shell_executor env c t w"

definition clean_run :: "exec_env \<Rightarrow> path list \<Rightarrow> process_run \<Rightarrow> bool" where
  "clean_run env dirs r \<longleftrightarrow>
     (case pn_env r of
        Some e \<Rightarrow> fst ` set e \<subseteq> set EXEC_ENV_KEYS
      | None \<Rightarrow> \<exists>p. within_dirs dirs p \<and> fe_show (xe_files env) p \<in> set (pn_args r))"

lemma stripped_env_keys: "fst ` set (stripped_env d) \<subseteq> set EXEC_ENV_KEYS"
  by (auto simp: stripped_env_def)

lemma checked_target_allowed: "checked_target env dirs what target = Inr p \<Longrightarrow> within_dirs dirs p"
  by (auto simp: checked_target_def validate_file_path_def split: sum.splits if_splits)

text \<open>Each call makes at most one run: with the six harmless variables, or of a target in the allowed directories.\<close>

lemma exec_tool_runs:
  assumes "exec_tool env dirs c w = (r, w')"
  shows "xw_runs w' = xw_runs w \<or> (\<exists>x. xw_runs w' = xw_runs w @ [x] \<and> clean_run env dirs x)"
proof (cases c)
  case (RunPython code t)
  then show ?thesis using assms stripped_env_keys
    by (auto simp: python_executor_def spawn_process_def remove_temp_def clean_run_def Let_def split: sum.splits)
next
  case (RunPytest f cov v)
  then show ?thesis using assms checked_target_allowed [of env dirs "''Test file''" f]
    by (auto simp: pytest_runner_def spawn_process_def clean_run_def pytest_args_def Let_def split: sum.splits)
next
  case (RunBandit f l)
  then show ?thesis using assms checked_target_allowed [of env dirs "''Target''" f]
    by (auto simp: bandit_scanner_def spawn_process_def clean_run_def Let_def split: sum.splits)
next
  case (RunShell s t)
  then show ?thesis using assms stripped_env_keys
    by (auto simp: shell_executor_def spawn_process_def clean_run_def Let_def split: if_splits)
qed

text \<open>Whatever the agent's environment holds, code and commands of a model see six harmless variables of it; a process that inherits
  all of it runs only on a target inside the allowed directories.\<close>

theorem runs_are_clean:
  assumes "fold (\<lambda>c w. snd (exec_tool env dirs c w)) cs \<lparr>xw_runs = [], xw_temps = []\<rparr> = w"
  shows "\<forall>x \<in> set (xw_runs w). clean_run env dirs x"
proof -
  have all: "\<forall>x \<in> set (xw_runs w). clean_run env dirs x \<Longrightarrow> \<forall>x \<in> set (xw_runs (fold (\<lambda>c w. snd (exec_tool env dirs c w)) cs w)). clean_run env dirs x" for w
  proof (induction cs arbitrary: w)
    case (Cons c cs)
    obtain r w' where c: "exec_tool env dirs c w = (r, w')" by fastforce
    have "\<forall>x \<in> set (xw_runs w'). clean_run env dirs x" using exec_tool_runs [OF c] Cons.prems by auto
    then show ?case using Cons.IH [of w'] c by simp
  qed simp
  from all [of "\<lparr>xw_runs = [], xw_temps = []\<rparr>"] show ?thesis using assms by simp
qed

text \<open>The file with the code is removed, however the process ends.\<close>

theorem code_file_is_removed:
  assumes "\<And>n. xe_unlink env n" and "\<And>n. xe_temp env (length (xw_runs w)) = Inr n \<Longrightarrow> n \<notin> fst ` set (xw_temps w)"
  shows "xw_temps (snd (python_executor env code timeout w)) = xw_temps w"
proof (cases "xe_temp env (length (xw_runs w))")
  case (Inl e)
  then show ?thesis by (simp add: python_executor_def)
next
  case (Inr n)
  have "filter (\<lambda>(m, c). m \<noteq> n) (xw_temps w) = xw_temps w" using assms(2) [OF Inr] by (intro filter_True) force
  then show ?thesis using Inr assms(1) by (simp add: python_executor_def spawn_process_def remove_temp_def Let_def)
qed

definition sample_exec :: exec_env where
  "sample_exec = \<lparr>xe_files = \<lparr>fe_resolve = (\<lambda>s. Inr [s]), fe_show = (\<lambda>p. concat p), fe_decode = (\<lambda>_ s. Inr s), fe_encode = (\<lambda>_ s. Inr s),
       fe_environ = [], fe_project = [],
       fe_line_cap = 200, fe_mkdir_fails = (\<lambda>_. None), fe_write_fails = (\<lambda>_. None), fe_read_fails = (\<lambda>_. None)\<rparr>,
     xe_environ = [(''PATH'', ''/bin''), (''OPENAI_API_KEY'', ''sk'')], xe_run = (\<lambda>_. Ended \<lparr>pe_code = 0, pe_out = ''ok'', pe_err = []\<rparr>),
     xe_exists = (\<lambda>_. True), xe_temp = (\<lambda>k. Inr (''t'' @ str_nat k)), xe_unlink = (\<lambda>_. True), xe_json = (\<lambda>_. None)\<rparr>"

theorem runs_are_clean_witness:
  "\<exists>w. fold (\<lambda>c w. snd (exec_tool sample_exec [[''a'']] c w)) [RunPython ''print(1)'' 5, RunPytest ''a'' True True] \<lparr>xw_runs = [], xw_temps = []\<rparr> = w
    \<and> length (xw_runs w) = 2 \<and> (\<forall>x \<in> set (xw_runs w). clean_run sample_exec [[''a'']] x)"
proof -
  obtain w where w: "fold (\<lambda>c w. snd (exec_tool sample_exec [[''a'']] c w)) [RunPython ''print(1)'' 5, RunPytest ''a'' True True] \<lparr>xw_runs = [], xw_temps = []\<rparr> = w"
    by blast
  have "length (xw_runs (fold (\<lambda>c w. snd (exec_tool sample_exec [[''a'']] c w)) [RunPython ''print(1)'' 5, RunPytest ''a'' True True] \<lparr>xw_runs = [], xw_temps = []\<rparr>)) = 2"
    by code_simp
  then show ?thesis using runs_are_clean [OF w] w by blast
qed

theorem code_file_is_removed_witness:
  "xw_temps (snd (python_executor sample_exec ''print(1)'' 5 \<lparr>xw_runs = [], xw_temps = [(''u'', [])]\<rparr>)) = [(''u'', [])]"
  using code_file_is_removed [of sample_exec "\<lparr>xw_runs = [], xw_temps = [(''u'', [])]\<rparr>"] by (simp add: sample_exec_def)

end
