(* ===== verification/Codebase_Search.thy ===== *)
theory Codebase_Search
  imports Py_Regex Py_Json
begin

text \<open>
  \<^verbatim>\<open>agents/tools/codebase_search.py\<close>: the search for functions, classes and texts in the files of a project. A file has its path, whether
  it is a Python file, its text (\<open>None\<close> when it cannot be read), and the definitions \<^verbatim>\<open>ast.walk\<close> meets in it, in that order
  (\<open>None\<close> when it cannot be parsed). \<open>files\<close> is what \<^verbatim>\<open>rglob\<close> yields, \<open>exists\<close> whether the directory is there.
\<close>

section \<open>Files\<close>

datatype code_def =
    FunctionDef string int "string list" "string option"   \<comment> \<open>name, line, arguments, documentation\<close>
  | ClassDef string int "string list" "string option"      \<comment> \<open>name, line, methods, documentation\<close>

record code_file =
  cd_path :: string
  cd_python :: bool
  cd_text :: "string option"
  cd_tree :: "code_def list option"

definition text_or_null :: "string option \<Rightarrow> json" where
  "text_or_null s = (case s of None \<Rightarrow> JNull | Some t \<Rightarrow> JStr t)"

definition found_item :: "string \<Rightarrow> string \<Rightarrow> string \<Rightarrow> int \<Rightarrow> (string \<times> json) list \<Rightarrow> json" where
  "found_item kind name path line rest =
     JObj ([(''type'', JStr kind), (''name'', JStr name), (''file'', JStr path), (''line'', JInt line)] @ rest)"

text \<open>What a definition contributes to a search for functions, or for classes.\<close>

definition found_function :: "string \<Rightarrow> string \<Rightarrow> code_def \<Rightarrow> json list" where
  "found_function query path d =
     (case d of
        FunctionDef name line args doc \<Rightarrow>
          if str_contains (py_lower query) (py_lower name)
          then [found_item ''function'' name path line [(''args'', JArr (map JStr args)), (''docstring'', text_or_null doc)]] else []
      | ClassDef _ _ _ _ \<Rightarrow> [])"

definition found_class :: "string \<Rightarrow> string \<Rightarrow> code_def \<Rightarrow> json list" where
  "found_class query path d =
     (case d of
        ClassDef name line ms doc \<Rightarrow>
          if str_contains (py_lower query) (py_lower name)
          then [found_item ''class'' name path line [(''methods'', JArr (map JStr (take 10 ms))), (''docstring'', text_or_null doc)]] else []
      | FunctionDef _ _ _ _ \<Rightarrow> [])"

definition any_blanks :: regex where
  "any_blanks = RStar True (RSet False [CSpace])"

definition word_around :: "string \<Rightarrow> regex" where
  "word_around query = RGroup 2 (rseq [RStar True (RSet False [CWord]), RStr query, RStar True (RSet False [CWord])])"

definition function_pattern :: "string \<Rightarrow> regex" where
  "function_pattern query = rseq [RStart, any_blanks, RGroup 1 (ralt [RStr ''function'', RStr ''def'', RStr ''async def'']), rplus (RSet False [CSpace]),
     word_around query, any_blanks, RStr ''('']"

definition class_pattern :: "string \<Rightarrow> regex" where
  "class_pattern query = rseq [RStart, any_blanks, RGroup 1 (ralt [RStr ''class'', RStr ''interface'']), rplus (RSet False [CSpace]), word_around query]"

text \<open>The lines of a file in another language that match the pattern; \<open>i\<close> is the number of the first.\<close>

fun found_lines :: "string \<Rightarrow> regex \<Rightarrow> string \<Rightarrow> int \<Rightarrow> string list \<Rightarrow> json list" where
  "found_lines kind r path i [] = []"
| "found_lines kind r path i (l # ls) =
     (case search_from True r [] l of
        None \<Rightarrow> []
      | Some (b, q) \<Rightarrow> [found_item kind (the (group_of 2 q)) path i [(''snippet'', JStr (py_strip l))]])
     @ found_lines kind r path (i + 1) ls"

definition found_in_file :: "(string \<Rightarrow> string \<Rightarrow> code_def \<Rightarrow> json list) \<Rightarrow> (string \<Rightarrow> regex) \<Rightarrow> string \<Rightarrow> string \<Rightarrow> code_file \<Rightarrow> json list" where
  "found_in_file of_def pattern kind query f =
     (case cd_text f of
        None \<Rightarrow> []
      | Some content \<Rightarrow>
          if cd_python f then (case cd_tree f of None \<Rightarrow> [] | Some ds \<Rightarrow> concat (map (of_def query (cd_path f)) ds))
          else found_lines kind (pattern query) (cd_path f) 1 (splitlines content))"

text \<open>The loop over the files stops after the one that reaches the limit; a file that cannot be read does not check it.\<close>

fun search_files :: "(code_file \<Rightarrow> json list) \<Rightarrow> int \<Rightarrow> code_file list \<Rightarrow> json list \<Rightarrow> json list" where
  "search_files finds limit [] results = results"
| "search_files finds limit (f # fs) results =
     (if cd_text f = None then search_files finds limit fs results
      else let rs = results @ finds f in
        if int (length rs) \<ge> limit then rs else search_files finds limit fs rs)"

definition search_functions :: "string \<Rightarrow> code_file list \<Rightarrow> int \<Rightarrow> json list" where
  "search_functions query files limit =
     py_take limit (search_files (found_in_file found_function function_pattern ''function'' query) limit files [])"

definition search_classes :: "string \<Rightarrow> code_file list \<Rightarrow> int \<Rightarrow> json list" where
  "search_classes query files limit =
     py_take limit (search_files (found_in_file found_class class_pattern ''class'' query) limit files [])"

section \<open>Texts\<close>

text \<open>\<open>f.readlines()\<close> of a text with newlines only.\<close>

fun read_lines :: "string \<Rightarrow> string \<Rightarrow> string list" where
  "read_lines acc [] = (if acc = [] then [] else [rev acc])"
| "read_lines acc (c # cs) = (if c = CHR 0x0A then rev (c # acc) # read_lines [] cs else read_lines (c # acc) cs)"

definition text_item :: "string \<Rightarrow> string list \<Rightarrow> nat \<Rightarrow> json" where
  "text_item path ls i =
     JObj [(''type'', JStr ''text''), (''file'', JStr path), (''line'', JInt (int i + 1)), (''match'', JStr (py_strip (ls ! i))),
           (''context'', JStr (py_strip (concat (drop (i - 2) (take (i + 3) ls)))))]"

definition line_matches :: "string \<Rightarrow> string list \<Rightarrow> nat \<Rightarrow> bool" where
  "line_matches query ls i = str_contains (py_lower query) (py_lower (ls ! i))"

text \<open>The matches of the lines from \<open>i\<close> on; \<open>True\<close> when the limit was reached, at once after a match.\<close>

fun scan_lines :: "string \<Rightarrow> int \<Rightarrow> string \<Rightarrow> string list \<Rightarrow> nat list \<Rightarrow> json list \<Rightarrow> bool \<times> json list" where
  "scan_lines query limit path ls [] results = (False, results)"
| "scan_lines query limit path ls (i # ks) results =
     (if line_matches query ls i then
        (let rs = results @ [text_item path ls i] in
         if int (length rs) \<ge> limit then (True, rs) else scan_lines query limit path ls ks rs)
      else scan_lines query limit path ls ks results)"

fun scan_files :: "string \<Rightarrow> int \<Rightarrow> code_file list \<Rightarrow> json list \<Rightarrow> json list" where
  "scan_files query limit [] results = py_take limit results"
| "scan_files query limit (f # fs) results =
     (case cd_text f of
        None \<Rightarrow> scan_files query limit fs results
      | Some content \<Rightarrow>
          (let ls = read_lines [] content in
           case scan_lines query limit (cd_path f) ls [0..<length ls] results of
             (stop, rs) \<Rightarrow> if stop then rs else scan_files query limit fs rs))"

definition search_text :: "string \<Rightarrow> code_file list \<Rightarrow> int \<Rightarrow> json list" where
  "search_text query files limit = scan_files query limit files []"

section \<open>The tool\<close>

definition CAMEL_CASE :: regex where
  "CAMEL_CASE = rseq [RStart, RSet False [CRange CHR ''A'' CHR ''Z''],
     RStar True (RSet False [CRange CHR ''a'' CHR ''z'', CRange CHR ''A'' CHR ''Z'', CRange CHR ''0'' CHR ''9'']), REnd]"

definition SNAKE_CASE :: regex where
  "SNAKE_CASE = rseq [RStart, RSet False [CRange CHR ''a'' CHR ''z'', CChar CHR ''_''],
     RStar True (RSet False [CRange CHR ''a'' CHR ''z'', CRange CHR ''0'' CHR ''9'', CChar CHR ''_'']), REnd]"

definition detect_type :: "string \<Rightarrow> string" where
  "detect_type query =
     (if prefix ''def '' query \<or> prefix ''function '' query then ''function''
      else if prefix ''class '' query then ''class''
      else if re_match False CAMEL_CASE query \<noteq> None then ''class''
      else if re_match False SNAKE_CASE query \<noteq> None then ''function''
      else ''text'')"

definition codebase_search :: "string \<Rightarrow> string \<Rightarrow> string \<Rightarrow> int \<Rightarrow> bool \<Rightarrow> (py_exn + code_file list) \<Rightarrow> json" where
  "codebase_search query path search_type limit found listing =
     (if \<not> found then JObj [(''success'', JBool False), (''error'', JStr (''Path does not exist: '' @ path))]
      else
        (let kind = (if search_type = ''auto'' then detect_type query else search_type) in
         case listing of
           Inl e \<Rightarrow> JObj [(''success'', JBool False), (''error'', JStr (''Search failed: '' @ exn_text e))]
         | Inr files \<Rightarrow>
             (let results = (if kind = ''function'' then search_functions query files limit
                    else if kind = ''class'' then search_classes query files limit
                    else search_text query files limit)
              in JObj [(''success'', JBool True), (''query'', JStr query), (''search_type'', JStr kind),
                   (''files_searched'', JInt (int (length files))), (''results_found'', JInt (int (length results))), (''results'', JArr results)])))"

section \<open>What the searches find\<close>

definition all_text_matches :: "string \<Rightarrow> code_file list \<Rightarrow> json list" where
  "all_text_matches query files = concat (map (\<lambda>f. case cd_text f of None \<Rightarrow> []
     | Some content \<Rightarrow> let ls = read_lines [] content in map (text_item (cd_path f) ls) (filter (line_matches query ls) [0..<length ls])) files)"

lemma scan_lines_matches:
  assumes "results = [] \<or> int (length results) < limit"
  shows "scan_lines query limit path ls ks results =
    (let all = results @ map (text_item path ls) (filter (line_matches query ls) ks); n = nat (max 1 limit) in
     if n \<le> length all then (True, take n all) else (False, all))"
  using assms
proof (induction ks arbitrary: results)
  case Nil
  then show ?case by (auto simp: Let_def)
next
  case (Cons i ks)
  show ?case
  proof (cases "line_matches query ls i")
    case True
    let ?rs = "results @ [text_item path ls i]"
    show ?thesis
    proof (cases "int (length ?rs) \<ge> limit")
      case reached: True
      then have n: "nat (max 1 limit) = length ?rs" using Cons.prems by (cases "results = []") auto
      then show ?thesis using True reached by (simp add: Let_def)
    next
      case False
      then show ?thesis using Cons.IH [of ?rs] True by (simp add: Let_def)
    qed
  next
    case False
    then show ?thesis using Cons by simp
  qed
qed

text \<open>A search for a text finds the first matching lines of all files, as many as asked for - and one when none or fewer are asked for.\<close>

theorem text_search_finds_the_first:
  "search_text query files limit = take (nat (max 1 limit)) (all_text_matches query files)"
proof -
  have "results = [] \<or> int (length results) < limit \<Longrightarrow>
    scan_files query limit files results = take (nat (max 1 limit)) (results @ all_text_matches query files)" for results
  proof (induction files arbitrary: results)
    case Nil
    then show ?case by (auto simp: all_text_matches_def py_take_def)
  next
    case (Cons f fs)
    show ?case
    proof (cases "cd_text f")
      case None
      then show ?thesis using Cons by (simp add: all_text_matches_def)
    next
      case (Some content)
      let ?ls = "read_lines [] content"
      let ?here = "results @ map (text_item (cd_path f) ?ls) (filter (line_matches query ?ls) [0..<length ?ls])"
      have all: "results @ all_text_matches query (f # fs) = ?here @ all_text_matches query fs"
        using Some by (simp add: all_text_matches_def Let_def)
      show ?thesis
      proof (cases "nat (max 1 limit) \<le> length ?here")
        case True
        then show ?thesis using Some scan_lines_matches [OF Cons.prems] by (simp add: Let_def all)
      next
        case False
        then have "length ?here < nat (max 1 limit)" by linarith
        then have "length ?here = 0 \<or> int (length ?here) < limit" by linarith
        then have "?here = [] \<or> int (length ?here) < limit" by simp
        then show ?thesis using Some False scan_lines_matches [OF Cons.prems] Cons.IH [of ?here] by (simp add: Let_def all)
      qed
    qed
  qed
  from this [of "[]"] show ?thesis by (simp add: search_text_def)
qed

lemma search_files_take:
  assumes "0 \<le> limit"
  shows "take (nat limit) (search_files finds limit files results)
    = take (nat limit) (results @ concat (map finds (filter (\<lambda>f. cd_text f \<noteq> None) files)))"
  using assms
proof (induction files arbitrary: results)
  case (Cons f fs)
  show ?case
  proof (cases "cd_text f = None")
    case False
    show ?thesis
    proof (cases "int (length (results @ finds f)) \<ge> limit")
      case True
      then have "nat limit \<le> length results + length (finds f)" by simp
      then show ?thesis using True False by (auto simp: Let_def)
    next
      case below: False
      then show ?thesis using Cons.IH [of "results @ finds f"] Cons.prems(1) False by (auto simp: Let_def)
    qed
  qed (use Cons in simp)
qed simp

text \<open>A search for functions finds the first ones of the files that can be read, as many as asked for.\<close>

theorem function_search_finds_the_first:
  assumes "0 \<le> limit"
  shows "search_functions query files limit
    = take (nat limit) (concat (map (found_in_file found_function function_pattern ''function'' query) files))"
proof -
  let ?find = "found_in_file found_function function_pattern ''function'' query"
  have "concat (map ?find (filter (\<lambda>f. cd_text f \<noteq> None) files)) = concat (map ?find files)"
    by (induction files) (auto simp: found_in_file_def)
  then show ?thesis using search_files_take [OF assms, of ?find files "[]"] assms by (simp add: search_functions_def py_take_def)
qed

lemma lower_char_space:
  assumes "lower_char c = CHR '' ''"
  shows "c = CHR '' ''"
proof (cases "65 \<le> (of_char c :: nat) \<and> (of_char c :: nat) \<le> 90")
  case True
  then have "of_char (lower_char c) = (of_char c :: nat) + 32" by (simp add: lower_char_def Let_def)
  then show ?thesis using assms True by simp
next
  case False
  then show ?thesis using assms by (simp add: lower_char_def Let_def del: of_char_eq_iff split: if_splits)
qed

text \<open>A query that begins with \<open>def\<close> is taken for a search for functions, and then compared with their names as it is: in
  Python files, whose names hold no any_blanks, it finds nothing.\<close>

theorem def_queries_find_nothing:
  assumes "prefix ''def '' query"
    and "\<And>f ds name line args doc. f \<in> set files \<Longrightarrow> cd_tree f = Some ds \<Longrightarrow> FunctionDef name line args doc \<in> set ds \<Longrightarrow> CHR '' '' \<notin> set name"
    and "\<And>f. f \<in> set files \<Longrightarrow> cd_python f"
  shows "detect_type query = ''function'' \<and> search_functions query files limit = []"
proof -
  obtain rest where q: "query = ''def '' @ rest" using assms(1) by (auto simp: prefix_def)
  have no: "found_function query path (FunctionDef name line args doc) = []" if "CHR '' '' \<notin> set name" for path name line args doc
  proof -
    have "\<not> str_contains (py_lower query) (py_lower name)"
    proof
      assume "str_contains (py_lower query) (py_lower name)"
      then have "set (py_lower query) \<subseteq> set (py_lower name)" by (auto simp: str_contains_iff)
      moreover have "CHR '' '' \<in> set (py_lower query)" by (simp add: q py_lower_def lower_char_def)
      ultimately obtain c where "c \<in> set name" "lower_char c = CHR '' ''" by (auto simp: py_lower_def)
      then show False using lower_char_space that by blast
    qed
    then show ?thesis by (simp add: found_function_def)
  qed
  have "found_in_file found_function function_pattern ''function'' query f = []" if "f \<in> set files" for f
  proof -
    have "\<And>d ds. cd_tree f = Some ds \<Longrightarrow> d \<in> set ds \<Longrightarrow> found_function query (cd_path f) d = []"
    proof -
      fix d ds assume ds: "cd_tree f = Some ds" "d \<in> set ds"
      show "found_function query (cd_path f) d = []"
      proof (cases d)
        case (FunctionDef name line args doc)
        then show ?thesis using no assms(2) [OF that ds(1), of name line args doc] ds(2) by simp
      next
        case (ClassDef name line ms doc)
        then show ?thesis by (simp add: found_function_def)
      qed
    qed
    then show ?thesis using assms(3) [OF that] by (auto simp: found_in_file_def split: option.splits)
  qed
  then have "search_files (found_in_file found_function function_pattern ''function'' query) limit files [] = []"
    by (induction files) (auto simp: Let_def)
  then show ?thesis using assms(1) by (simp add: detect_type_def search_functions_def py_take_def)
qed

definition sample_code :: "code_file list" where
  "sample_code = [\<lparr>cd_path = ''a.py'', cd_python = True, cd_text = Some ''def load(x): ...'', cd_tree = Some [FunctionDef ''load'' 1 [''x''] None]\<rparr>,
     \<lparr>cd_path = ''b.py'', cd_python = True, cd_text = None, cd_tree = None\<rparr>]"

theorem function_search_finds_the_first_witness:
  "search_functions ''load'' sample_code 5
    = take (nat 5) (concat (map (found_in_file found_function function_pattern ''function'' ''load'') sample_code)) \<and> search_functions ''load'' sample_code 5 \<noteq> []"
proof -
  have "search_functions ''load'' sample_code 5 \<noteq> []" by code_simp
  then show ?thesis using function_search_finds_the_first [of 5 "''load''" sample_code] by simp
qed

theorem def_queries_find_nothing_witness:
  "detect_type ''def load'' = ''function'' \<and> search_functions ''def load'' sample_code 5 = []"
proof (rule def_queries_find_nothing)
  show "prefix ''def '' ''def load''" by simp
  show "CHR '' '' \<notin> set name" if "f \<in> set sample_code" "cd_tree f = Some ds" "FunctionDef name line args doc \<in> set ds" for f ds name line args doc
    using that by (auto simp: sample_code_def)
  show "cd_python f" if "f \<in> set sample_code" for f using that by (auto simp: sample_code_def)
qed

end
