(* ===== verification/Memory_Tools.thy ===== *)
theory Memory_Tools
  imports Graph_Nodes Tool_Registry
begin

text \<open>
  \<^verbatim>\<open>agents/tools/memory_tools.py\<close>: the tools by which a model writes and reads the long-term memory, over the store of
  \<open>Memory_Store\<close>. The shared store is the state; opening it can fail (\<open>mt_open\<close>). How a score and a time are printed are
  parameters.
\<close>

section \<open>The tools\<close>

record memory_tool_env =
  mt_memory :: memory_env
  mt_now :: int
  mt_open :: "py_exn option"
  mt_score :: "real \<Rightarrow> string"
  mt_time :: "int \<Rightarrow> string"

definition STORE_IMPORTANCE :: real where
  "STORE_IMPORTANCE = 1 / 2"

definition memory_store_tool :: "memory_tool_env \<Rightarrow> string \<Rightarrow> string \<Rightarrow> string \<Rightarrow> memory_db \<Rightarrow> tool_result \<times> memory_db" where
  "memory_store_tool env content source tags d =
     (if py_strip content = [] then (failure ''Content cannot be empty'', d)
      else case mt_open env of
        Some e \<Rightarrow> (failure (''Failed to store memory: '' @ exn_text e), d)
      | None \<Rightarrow>
          (case store (mt_memory env) (mt_now env) content source tags [] [] STORE_IMPORTANCE d of
             (Inl e, d') \<Rightarrow> (failure (''Failed to store memory: '' @ exn_text e), d')
           | (Inr i, d') \<Rightarrow>
               (success (''Stored memory #'' @ str_int i @ '': '' @ take 200 content)
                  [(''memory_id'', JInt i), (''source'', JStr source), (''tags'', JStr tags)], d')))"

definition memory_text :: "memory_tool_env \<Rightarrow> memory_entry \<Rightarrow> string" where
  "memory_text env e =
     (let m = en_row e in
      ''## Memory #'' @ str_int (me_id m) @ '' (score: '' @ mt_score env (en_score e) @ '')'' @ nl @ me_content m @ nl
      @ nl @ ''**Source:** '' @ citation m @ nl
      @ (if me_tags m \<noteq> [] then ''**Tags:** '' @ me_tags m @ nl else [])
      @ ''**Stored:** '' @ mt_time env (me_created m) @ nl)"

definition recalled_result :: "memory_tool_env \<Rightarrow> string \<Rightarrow> memory_entry list \<Rightarrow> tool_result" where
  "recalled_result env query es =
     (if es = [] then success ''No relevant memories found.'' [(''query'', JStr query), (''results'', JInt 0)]
      else success (''Found '' @ str_nat (length es) @ '' relevant memories:'' @ nl @ nl @ join_with (nl @ ''---'' @ nl) (map (memory_text env) es))
        [(''query'', JStr query), (''results'', JInt (int (length es))), (''memory_ids'', JArr (map (\<lambda>e. JInt (me_id (en_row e))) es))])"

definition memory_recall_tool ::
    "memory_tool_env \<Rightarrow> string \<Rightarrow> int \<Rightarrow> string \<Rightarrow> string \<Rightarrow> memory_db \<Rightarrow> tool_result \<times> memory_db" where
  "memory_recall_tool env query max_results tag source d =
     (if py_strip query = [] then (failure ''Query cannot be empty'', d)
      else case mt_open env of
        Some e \<Rightarrow> (failure (''Memory recall failed: '' @ exn_text e), d)
      | None \<Rightarrow>
          (case recall (mt_memory env) (mt_now env) query (max 1 (min max_results 20)) tag source [] [] d of
             (Inl e, d') \<Rightarrow> (failure (''Memory recall failed: '' @ exn_text e), d')
           | (Inr es, d') \<Rightarrow> (recalled_result env query es, d')))"

datatype memory_call = CallStore string string string | CallRecall string int string string

fun call_memory :: "memory_tool_env \<times> memory_call \<Rightarrow> memory_db \<Rightarrow> tool_result \<times> memory_db" where
  "call_memory (env, CallStore content source tags) d = memory_store_tool env content source tags d"
| "call_memory (env, CallRecall query n tag source) d = memory_recall_tool env query n tag source d"

section \<open>Lemmas\<close>

definition unscoped :: "memory_db \<Rightarrow> bool" where
  "unscoped d \<longleftrightarrow> (\<forall>m \<in> set (md_rows d). me_agent m = [] \<and> me_task m = [])"

lemma store_unscoped:
  assumes "unscoped d"
  shows "unscoped (snd (store env now content source tags [] [] imp d))"
proof -
  have "py_strip [] = []" by code_simp
  then show ?thesis using assms
    by (auto simp: unscoped_def store_def Let_def refresh_def insert_memory_def evict_excess_def evict_memories_def drop_ids_def split: option.splits)
qed

lemma recall_unscoped:
  assumes "unscoped d"
  shows "unscoped (snd (recall env now query n tag source agent task d))"
proof (cases "py_strip query = []")
  case False
  have "unscoped (bump now ids d)" for ids using assms by (auto simp: unscoped_def bump_def)
  then show ?thesis using False assms by (cases "mv_fts env (py_words query) (md_rows d)") (simp_all add: recall_def Let_def)
qed (simp add: recall_def assms)

text \<open>What storing for nobody and recalling keep, every call of the tools keeps.\<close>

lemma call_memory_keeps:
  assumes "\<And>e now content source tags imp d. I d \<Longrightarrow> I (snd (store e now content source tags [] [] imp d))"
    and "\<And>e now query n tag source agent task d. I d \<Longrightarrow> I (snd (recall e now query n tag source agent task d))"
    and "I d"
  shows "I (snd (call_memory p d))"
proof -
  obtain env c where p: "p = (env, c)" by fastforce
  show ?thesis
  proof (cases c)
    case (CallStore content source tags)
    obtain r d' where st: "store (mt_memory env) (mt_now env) content source tags [] [] STORE_IMPORTANCE d = (r, d')" by fastforce
    then have "I d'" using assms(1) [OF assms(3), of "mt_memory env" "mt_now env" content source tags STORE_IMPORTANCE] by simp
    then show ?thesis using assms(3) st by (cases r; cases "mt_open env") (simp_all add: p CallStore memory_store_tool_def)
  next
    case (CallRecall query n tag source)
    let ?n = "max 1 (min n 20)"
    obtain r d' where re: "recall (mt_memory env) (mt_now env) query ?n tag source [] [] d = (r, d')" by fastforce
    then have "I d'" using assms(2) [OF assms(3), of "mt_memory env" "mt_now env" query ?n tag source "[]" "[]"] by simp
    then show ?thesis using assms(3) re by (cases r; cases "mt_open env") (simp_all add: p CallRecall memory_recall_tool_def)
  qed
qed

lemma calls_keep:
  assumes "\<And>d p. I d \<Longrightarrow> I (snd (call_memory p d))" and "I d"
  shows "I (fold (\<lambda>p d. snd (call_memory p d)) cs d)"
  using assms(2) by (induction cs arbitrary: d) (auto simp: assms(1))

lemma calls_unscoped: "unscoped d \<Longrightarrow> unscoped (fold (\<lambda>c d. snd (call_memory c d)) cs d)"
  by (rule calls_keep, rule call_memory_keeps) (rule store_unscoped recall_unscoped | assumption)+

lemma calls_memory_ok: "memory_ok d \<Longrightarrow> memory_ok (fold (\<lambda>c d. snd (call_memory c d)) cs d)"
  by (rule calls_keep, rule call_memory_keeps) (rule store_ok recall_ok | assumption)+

section \<open>Properties\<close>

text \<open>What a model stores with its tool is never put into the context of a run: it is stored for no agent and no task, and
  a run that has an agent or a session recalls only what belongs to them.\<close>

theorem tool_memories_are_never_injected:
  assumes "fold (\<lambda>c d. snd (call_memory c d)) cs empty_memory = d"
    and "py_strip (pk_agent k) \<noteq> [] \<or> run_task k s \<noteq> []" and "opt_or (user_request s) [] \<noteq> []"
    and "mv_fts (in_memory env) (py_words (opt_or (user_request s) [])) (md_rows d) = Inr hits" and "fst ` set hits \<subseteq> set (md_rows d)"
  shows "inject_memory env k s d = (s\<lparr>memory_context := Some []\<rparr>, d)"
proof -
  obtain c cs' where q: "opt_or (user_request s) [] = c # cs'" using assms(3) by (cases "opt_or (user_request s) []") auto
  have "unscoped d" using calls_unscoped [of empty_memory cs] assms(1) by (simp add: unscoped_def empty_memory_def)
  then have "\<forall>m \<in> set (md_rows d). \<not> in_scope [] [] (py_strip (pk_agent k)) (run_task k s) m"
    using assms(2) by (auto simp: in_scope_def unscoped_def)
  from hybrid_out_of_scope [OF assms(4,5) this, of "in_fusion env" "in_moments env" 5]
  show ?thesis using q by (simp add: inject_memory_def recall_scope_def)
qed

text \<open>Whatever the tools are called with, the tables of the memory stay well formed.\<close>

theorem tools_keep_the_memory: "memory_ok (fold (\<lambda>c d. snd (call_memory c d)) cs empty_memory)"
  by (rule calls_memory_ok) (rule empty_memory_ok)

text \<open>A recall by the tool shows at most twenty memories, each of the kind asked for, and at least asks for one.\<close>

theorem tool_recall_is_bounded:
  assumes "py_strip query \<noteq> []" and "mt_open env = None"
    and "recall (mt_memory env) (mt_now env) query (max 1 (min n 20)) tag source [] [] d = (Inr es, d')"
  shows "memory_recall_tool env query n tag source d = (recalled_result env query es, d') \<and> length es \<le> 20
    \<and> (\<forall>e \<in> set es. source = [] \<or> prefix source (me_source (en_row e)))"
proof -
  have "clamp_results (max 1 (min n 20)) \<le> 20" by (simp add: clamp_results_def)
  then have "length es \<le> 20" using recall_count [OF assms(3)] by linarith
  moreover have "source = [] \<or> prefix source (me_source (en_row e))" if "e \<in> set es" for e
    using recall_result [OF assms(3) that] by (auto simp: in_scope_def)
  ultimately show ?thesis using assms by (simp add: memory_recall_tool_def)
qed

definition sample_memory_tool :: memory_tool_env where
  "sample_memory_tool = \<lparr>mt_memory = Memory_Correct.sample_env 5, mt_now = 7, mt_open = None, mt_score = (\<lambda>_. ''1.00''), mt_time = str_int\<rparr>"

theorem tool_memories_are_never_injected_witness:
  "\<exists>d. fold (\<lambda>c d. snd (call_memory c d)) [(sample_memory_tool, CallStore ''use tabs'' ''user'' [])] empty_memory = d \<and> length (md_rows d) = 1
    \<and> inject_memory sample_inject sample_persist (empty_state\<lparr>user_request := Some ''what''\<rparr>) d
        = (empty_state\<lparr>user_request := Some ''what'', memory_context := Some []\<rparr>, d)"
proof -
  let ?cs = "[(sample_memory_tool, CallStore ''use tabs'' ''user'' [])]"
  obtain d where d: "fold (\<lambda>c d. snd (call_memory c d)) ?cs empty_memory = d" by blast
  have one: "length (md_rows (fold (\<lambda>c d. snd (call_memory c d)) ?cs empty_memory)) = 1"
    by (simp add: memory_store_tool_def sample_memory_tool_def store_def Let_def empty_memory_def insert_memory_def evict_excess_def
        Memory_Correct.sample_env_def py_strip_def py_lstrip_def py_space_def)
  have "inject_memory sample_inject sample_persist (empty_state\<lparr>user_request := Some ''what''\<rparr>) d
      = ((empty_state\<lparr>user_request := Some ''what''\<rparr>)\<lparr>memory_context := Some []\<rparr>, d)"
  proof (rule tool_memories_are_never_injected [OF d])
    show "mv_fts (in_memory sample_inject) (py_words (opt_or (user_request (empty_state\<lparr>user_request := Some ''what''\<rparr>)) [])) (md_rows d)
        = Inr (map (\<lambda>m. (m, 1)) (md_rows d))"
      by (simp add: sample_inject_def Memory_Correct.sample_env_def)
  qed (auto simp: sample_task)
  then show ?thesis using d one by simp
qed

theorem tool_recall_is_bounded_witness:
  "memory_recall_tool sample_memory_tool ''fact'' 99 [] ''agent'' sample_db
    = (recalled_result sample_memory_tool ''fact'' [\<lparr>en_row = sample_memory 1, en_score = 1\<rparr>], bump 7 [1] sample_db)"
proof -
  have "py_strip ''fact'' \<noteq> []" by code_simp
  moreover have "recall (mt_memory sample_memory_tool) (mt_now sample_memory_tool) ''fact'' (max 1 (min 99 20)) [] ''agent'' [] [] sample_db
      = (Inr [\<lparr>en_row = sample_memory 1, en_score = 1\<rparr>], bump 7 [1] sample_db)"
    using \<open>py_strip ''fact'' \<noteq> []\<close>
    by (simp add: recall_def Let_def sample_memory_tool_def Memory_Correct.sample_env_def sample_db_def clamp_results_def in_scope_def sample_memory_def)
  ultimately show ?thesis using tool_recall_is_bounded [of "''fact''" sample_memory_tool 99 "[]" "''agent''" sample_db]
    by (simp add: sample_memory_tool_def)
qed

end
