(* ===== verification/Spec2Isabelle.thy ===== *)
theory Spec2Isabelle
  imports Graph_Termination Backend_Pool Spending Scheduler Parallel_Subtasks Resources Skill_Cleanup Self_Upgrade Heartbeat_Correct Agent_Graph Orchestrator_Correct Memory_Correct Message_Correct Router_Correct Intent_Classifier Critic_Nodes Cache_Backend Specialist_Correct Critic_Correct File_Tools Skill_Embeddings Skill_Frontmatter Skill_Match Skill_Remote Skill_Search Skill_Search_Correct Skill_Loader Artifact_Store Lesson_Store Graph_Nodes Messenger Api_Keys Skill_Generator Bulletin_Board Database_Tool Model_Backends Sandbox System_Config Skill_Index Agent_State Executors Codebase_Search Memory_Tools
begin

text \<open>
  Vibe Stack: a verification development of the agent layer (\<^verbatim>\<open>src/agents\<close>).

  \<^bold>\<open>The program.\<close> A request - typed at the command line or taken from an issue of the Paperclip control plane - runs through
  a graph of nodes: a classifier of intent, a router that picks the specialist or splits the request, a search for skills,
  a specialist that works with a language model and with tools, critics that score the work, decisions that let it pass or send
  it back, and nodes that end the run: clean-up of skills, memory, lessons, formatting and posting. Around the graph stand
  the engine that runs it, the back ends with retry and failover, the stores (memory, messages, artifacts, outcomes, lessons,
  spending), the registry of skills with search, download and security, the heartbeat of an agent and the orchestrator of
  several, the scheduler of their processes, and the self-upgrade that turns poor runs into lessons, skills or issues.

  \<^bold>\<open>Conventions.\<close> \<^verbatim>\<open>Py_Prelude\<close> has exceptions as values: a function that can raise returns \<open>py_exn + 'a\<close>; what it did
  before it raised stays in the world it returns. Python's \<open>int\<close> is \<open>int\<close>, a \<open>float\<close> is a \<open>real\<close> (rounding is not modelled), a
  \<open>str\<close> a list of characters read as Latin-1 (\<^verbatim>\<open>Py_Strings\<close>; signs beyond it are written \<open>-\<close>, \<open>->\<close> or \<open>!\<close> where the source
  prints them); a file opened in text mode is read with its line ends turned into newlines (\<open>universal_newlines\<close>), a download is
  written byte for byte. A \<open>dict\<close> is an association list in insertion order, a JSON value the datatype of \<^verbatim>\<open>Py_Json\<close>, a regular expression
  of the source a value of the datatype of \<^verbatim>\<open>Py_Regex\<close> with a backtracking matcher, or a parameter where the text only needs to
  be searched. A file tree is the dictionary of \<^verbatim>\<open>Py_Files\<close>. Stamps are what the source compares: ISO strings, microseconds, or
  seconds of a monotonic clock. Networks, language models, clocks, digests, embedders, full-text indexes and external programs
  are parameters: functions of what they were asked, or of the calls so far. A database table is the list of its rows; an SQL
  statement is what it does to them. A lock makes the operation it guards one step; threads are explicit sequences of steps.
  Logging, metrics and \<^verbatim>\<open>debug_info\<close> are left out.

  \<^bold>\<open>The graph.\<close> \<^verbatim>\<open>Agent_State\<close> is the state dictionary (\<^verbatim>\<open>state.py\<close>), \<^verbatim>\<open>Graph_Engine\<close> the workflow engine
  (\<^verbatim>\<open>graph_engine.py\<close>: compile, invoke, stream, time-outs, the step limit of 50), \<^verbatim>\<open>Cancel_Token\<close> its cancellation
  (\<^verbatim>\<open>cancellation.py\<close>), \<^verbatim>\<open>Decisions\<close> the gates (\<^verbatim>\<open>decision_functions.py\<close>), \<^verbatim>\<open>Agent_Graph\<close> the graph with all its
  edges (\<^verbatim>\<open>graph.py\<close>) and a run of it (\<^verbatim>\<open>workflow_factory.py\<close>). The theorems are that the graph compiles and is never
  misrouted, that only accepted work is formatted, that every run cleans up and persists, and, in \<^verbatim>\<open>Graph_Termination\<close>, that the
  refinement loops end within the step limit: a rank of node and state counts the steps that are left; with at most five
  sub-tasks of three refinements, which \<^verbatim>\<open>Router_Correct\<close> shows the router to keep, it starts below 50.

  \<^bold>\<open>The nodes.\<close> \<^verbatim>\<open>Intent_Classifier\<close> (with the triage of complexity), \<^verbatim>\<open>Task_Types\<close>, \<^verbatim>\<open>Llm_Classifier\<close> and
  \<^verbatim>\<open>Router\<close> classify and route; \<^verbatim>\<open>Adapters\<close>, \<^verbatim>\<open>Specialist\<close>, \<^verbatim>\<open>Critic_Nodes\<close> (with the heuristic critic) and
  \<^verbatim>\<open>Parallel_Subtasks\<close> work and judge, with their theorems in \<^verbatim>\<open>Specialist_Correct\<close> (no forbidden tool acts, at most three calls, failures only by the model)
  and \<^verbatim>\<open>Critic_Correct\<close> (every answer is scored; an answer in the announced format is read back exactly,
  but for the dimensions the parser does not know); \<^verbatim>\<open>Aggregator\<close> combines
  sub-tasks; \<^verbatim>\<open>Skill_Loader\<close>, \<^verbatim>\<open>Skill_Generator\<close>, \<^verbatim>\<open>Skill_Cleanup\<close>, \<^verbatim>\<open>Lesson_Store\<close> and \<^verbatim>\<open>Graph_Nodes\<close> hold
  the nodes that load, generate and clean up skills, write memories and lessons, inject context, look results up and post them
  (\<^verbatim>\<open>graph_nodes.py\<close>, \<^verbatim>\<open>output_nodes.py\<close> and the modules of these names).

  \<^bold>\<open>Tools.\<close> \<^verbatim>\<open>Tool_Registry\<close> (\<^verbatim>\<open>tools/registry.py\<close>, \<^verbatim>\<open>tools/base.py\<close>) reads and runs the calls in a model's text;
  \<^verbatim>\<open>File_Tools\<close>, \<^verbatim>\<open>Executors\<close>, \<^verbatim>\<open>Codebase_Search\<close>, \<^verbatim>\<open>Memory_Tools\<close>, \<^verbatim>\<open>Bulletin_Board\<close> and \<^verbatim>\<open>Database_Tool\<close> model the
  tools themselves.

  \<^bold>\<open>Back ends and resources.\<close> \<^verbatim>\<open>Model_Backends\<close> (\<^verbatim>\<open>src/vibe/backends\<close>: requests to model servers, their
  retries, the reading of answers), \<^verbatim>\<open>Llm_Retry\<close>, \<^verbatim>\<open>Backend_Pool\<close>, \<^verbatim>\<open>Sandbox\<close> (\<^verbatim>\<open>agents/sandbox\<close>: the pool of
  containers), \<^verbatim>\<open>System_Config\<close> (\<^verbatim>\<open>config.py\<close>), \<^verbatim>\<open>Cache_Backend\<close> (caches and locks, in memory and over Redis),
  \<^verbatim>\<open>Resources\<close> (budgets and allocation), \<^verbatim>\<open>Scheduler\<close> (queue, slots, health), \<^verbatim>\<open>Spending\<close> (ledger and breaker),
  \<^verbatim>\<open>Messenger\<close> and \<^verbatim>\<open>Api_Keys\<close> (chat clients and the keys asked for through them). \<^verbatim>\<open>Circuit_Breaker\<close> states the contract both breakers
  satisfy.

  \<^bold>\<open>Stores.\<close> \<^verbatim>\<open>Memory_Store\<close>, \<^verbatim>\<open>Message_Types\<close>, \<^verbatim>\<open>Message_Store\<close>, \<^verbatim>\<open>Artifact_Store\<close>, \<^verbatim>\<open>Skill_Outcomes\<close> and \<^verbatim>\<open>Lesson_Store\<close>; their
  invariants under every sequence of operations and what a look-up returns after a store are in them, in \<^verbatim>\<open>Memory_Correct\<close> and in
  \<^verbatim>\<open>Message_Correct\<close>. \<^verbatim>\<open>Vector_Search\<close> has the similarity and the rankings they share.

  \<^bold>\<open>Skills.\<close> \<^verbatim>\<open>Skill_Security\<close> (names, content, scripts, permissions, hashes), \<^verbatim>\<open>Skill_Registry\<close> (registration, loading, promotion,
  eviction), \<^verbatim>\<open>Skill_Index\<close> (the index file of several processes, statement by statement), \<^verbatim>\<open>Skill_Frontmatter\<close>, \<^verbatim>\<open>Skill_Embeddings\<close>, \<^verbatim>\<open>Skill_Match\<close>, \<^verbatim>\<open>Skill_Remote\<close> and \<^verbatim>\<open>Skill_Search\<close> (what a skill declares,
  how well it fits, where it comes from), \<^verbatim>\<open>Skill_Versions\<close> (A/B versions), with theorems on what can be loaded, what a download must
  pass and what the search returns in \<^verbatim>\<open>Skill_Search_Correct\<close>. The integrity of a registered skill is that of its text: project
  skills and skills refreshed from their directory are not checked, which the theorems and findings say.

  \<^bold>\<open>Agents.\<close> \<^verbatim>\<open>Paperclip_Client\<close> (requests and retries), \<^verbatim>\<open>Heartbeat_Context\<close> and \<^verbatim>\<open>Heartbeat\<close> (one wake-up of an agent over the log of
  its calls; \<^verbatim>\<open>Heartbeat_Correct\<close>: what is checked out is released, unless the update before the \<open>try\<close> raised something else
  than an error of the API; a specialist's \<open>done\<close> needs the threshold; the wait for the server ends),
  \<^verbatim>\<open>Orchestrator\<close> with \<^verbatim>\<open>Orchestrator_Correct\<close> (the heartbeat of an orchestrating agent runs it, and it marks issues
  done by its own rules), \<^verbatim>\<open>Upgrade_Signals\<close>, \<^verbatim>\<open>Prompt_Overrides\<close> and \<^verbatim>\<open>Self_Upgrade\<close>.

  \<^bold>\<open>Interfaces.\<close> \<^verbatim>\<open>keyed_store\<close> (dictionaries, \<^verbatim>\<open>Py_Prelude\<close>), \<^verbatim>\<open>circuit_breaker\<close> (both breakers), \<^verbatim>\<open>role_queue\<close> (the scheduler's
  queue), \<^verbatim>\<open>cache_backend\<close> (the cache in memory: \<open>get\<close>, \<open>set\<close>, \<open>delete\<close>, \<open>exists\<close>, \<open>keys\<close> and \<open>flush\<close>, but
  not \<open>incr\<close>, which breaks the contract) and \<^verbatim>\<open>io_steps\<close> (relations that the parts of a conversation keep, \<^verbatim>\<open>Api_Keys\<close>) are
  locales, each interpreted on the model's own definitions.

  \<^bold>\<open>Bounds and fuel.\<close> Loops that end by a counter of the source recurse on it: 50 steps of the engine, 3 iterations with tools, 4
  levels of a download. Loops that end by the clock take fuel, one unit a round, and the theorems say how much is enough: the wait for
  the server 122 (a probe a second for two minutes and one more), the WebSocket waits and lock acquisition the number of
  their pauses, the question for a key thirty polls for every minute and one more. Running out of fuel is a value of its own, not a
  result.

  \<^bold>\<open>Not modelled.\<close> The programs around the agent layer: \<^verbatim>\<open>src/dev-runner\<close>, the scripts and the
  deployment. In \<^verbatim>\<open>src/agents\<close>: what is input and output of the process (\<^verbatim>\<open>main.py\<close>, \<^verbatim>\<open>daemon.py\<close>, \<^verbatim>\<open>doctor.py\<close>,
  \<^verbatim>\<open>graph_runners.py\<close>, \<^verbatim>\<open>metrics.py\<close>, \<^verbatim>\<open>ws_client.py\<close>, \<^verbatim>\<open>infra_health.py\<close>, \<^verbatim>\<open>canonical_harvester.py\<close>), the bridges to
  packages that are not in the repository (\<^verbatim>\<open>palace_bridge.py\<close>, \<^verbatim>\<open>graphify_bridge.py\<close>), the database drivers under \<^verbatim>\<open>storage\<close>,
  and the tools that are command lines of external programs or requests to services. They carry no logic of their own beyond the
  calls, or what they compute is a parameter of the model. The manifest lists them with their reasons. Within the parts modelled,
  a path of a download that would leave the directory of the skills is not followed, and the saving of the index does not fail
  where a theory does not say so.
\<close>

end
